(* ===== verification/Prelude.thy ===== *)
theory Prelude imports Main "HOL-Library.Word" "HOL-Library.Sublist" begin

text \<open>
  Shared vocabulary of the development: the outcome of a Go call (a value, an error, a
  panic), operations over an explicit world, the combinators that mirror the ways the
  code handles a returned error, and a small calculus that carries an invariant or a
  frame condition through them. Generic lemmas on lists close the file.
\<close>

section \<open>Errors and outcomes\<close>

text \<open>
  A Go error value. \<open>EMsg\<close> is \<open>errors.New\<close>; \<open>EWrap\<close> is \<open>fmt.Errorf\<close> with \<open>%w\<close>; the
  \<open>E...\<close> constructors after it are the typed errors of the ent client
  (app/models/ent/ent.go) and of the Redis client that the code inspects.
\<close>

datatype error =
    EMsg string
  | EWrap string error
  | ENotFound string
  | ENotSingular string
  | EConstraint string
  | EValidation string string
  | ERedisNil
  | EIO string

text \<open>A call returns, fails with an error, panics (nil dereference, bad nonce size) or does not
  return at all (a loop that never meets its exit).\<close>

datatype 'a outcome = Ok 'a | Err error | Panic | Hang

type_synonym ('w, 'a) io = "'w \<Rightarrow> 'a outcome \<times> 'w"

section \<open>Combinators\<close>

definition ret :: "'a \<Rightarrow> ('w, 'a) io" where
  "ret x = (\<lambda>w. (Ok x, w))"

definition throw :: "error \<Rightarrow> ('w, 'a) io" where
  "throw e = (\<lambda>w. (Err e, w))"

definition panic :: "('w, 'a) io" where
  "panic = (\<lambda>w. (Panic, w))"

text \<open>\<open>andthen\<close>: \<open>x, err := m(); if err != nil { return err }; f(x)\<close>.\<close>

definition andthen :: "('w, 'a) io \<Rightarrow> ('a \<Rightarrow> ('w, 'b) io) \<Rightarrow> ('w, 'b) io" where
  "andthen m f = (\<lambda>w. case m w of
      (Ok x, w') \<Rightarrow> f x w'
    | (Err e, w') \<Rightarrow> (Err e, w')
    | (Panic, w') \<Rightarrow> (Panic, w')
    | (Hang, w') \<Rightarrow> (Hang, w'))"

text \<open>\<open>attempt\<close>: the error becomes a value the caller inspects or drops.\<close>

definition attempt :: "('w, 'a) io \<Rightarrow> ('w, error + 'a) io" where
  "attempt m = (\<lambda>w. case m w of
      (Ok x, w') \<Rightarrow> (Ok (Inr x), w')
    | (Err e, w') \<Rightarrow> (Ok (Inl e), w')
    | (Panic, w') \<Rightarrow> (Panic, w')
    | (Hang, w') \<Rightarrow> (Hang, w'))"

text \<open>\<open>map_err\<close>: \<open>if err != nil { return g(err) }\<close>.\<close>

definition map_err :: "(error \<Rightarrow> error) \<Rightarrow> ('w, 'a) io \<Rightarrow> ('w, 'a) io" where
  "map_err g m = (\<lambda>w. case m w of
      (Ok x, w') \<Rightarrow> (Ok x, w')
    | (Err e, w') \<Rightarrow> (Err (g e), w')
    | (Panic, w') \<Rightarrow> (Panic, w')
    | (Hang, w') \<Rightarrow> (Hang, w'))"

text \<open>\<open>or_fail\<close>: the error is replaced by \<open>errors.New(msg)\<close>.\<close>

definition or_fail :: "string \<Rightarrow> ('w, 'a) io \<Rightarrow> ('w, 'a) io" where
  "or_fail msg = map_err (\<lambda>_. EMsg msg)"

text \<open>\<open>fail_if\<close>: an early return when a condition holds.\<close>

definition fail_if :: "bool \<Rightarrow> string \<Rightarrow> ('w, unit) io" where
  "fail_if b msg = (if b then throw (EMsg msg) else ret ())"

text \<open>\<open>deref\<close>: a field access through a pointer panics when it is nil.\<close>

definition deref :: "'a option \<Rightarrow> ('w, 'a) io" where
  "deref p = (case p of None \<Rightarrow> panic | Some x \<Rightarrow> ret x)"

definition of_sum :: "error + 'a \<Rightarrow> ('w, 'a) io" where
  "of_sum r = (case r of Inl e \<Rightarrow> throw e | Inr x \<Rightarrow> ret x)"

text \<open>What survives of a value whose error was dropped: the Go zero value, nil.\<close>

definition nil_on_err :: "error + 'a \<Rightarrow> 'a option" where
  "nil_on_err r = (case r of Inl _ \<Rightarrow> None | Inr x \<Rightarrow> Some x)"

fun each :: "('a \<Rightarrow> ('w, unit) io) \<Rightarrow> 'a list \<Rightarrow> ('w, unit) io" where
  "each f [] = ret ()"
| "each f (x # xs) = andthen (f x) (\<lambda>_. each f xs)"

named_theorems io_defs "definitions of the io combinators"

lemmas [io_defs] = ret_def throw_def panic_def andthen_def attempt_def map_err_def or_fail_def
  fail_if_def deref_def of_sum_def nil_on_err_def

lemma nil_on_err_simps [simp]:
  "nil_on_err (Inl e) = None" "nil_on_err (Inr x) = Some x"
  by (simp_all add: nil_on_err_def)

section \<open>Running the combinators\<close>

lemma run_ret [simp]: "ret x w = (Ok x, w)"
  by (simp add: ret_def)

lemma run_throw [simp]: "throw e w = (Err e, w)"
  by (simp add: throw_def)

lemma run_panic [simp]: "panic w = (Panic, w)"
  by (simp add: panic_def)

lemma run_andthen_Ok: "m w = (Ok x, w') \<Longrightarrow> andthen m f w = f x w'"
  by (simp add: andthen_def)

lemma run_andthen_Err: "m w = (Err e, w') \<Longrightarrow> andthen m f w = (Err e, w')"
  by (simp add: andthen_def)

lemma run_andthen_Panic: "m w = (Panic, w') \<Longrightarrow> andthen m f w = (Panic, w')"
  by (simp add: andthen_def)

lemma run_andthen_Hang: "m w = (Hang, w') \<Longrightarrow> andthen m f w = (Hang, w')"
  by (simp add: andthen_def)

lemmas run_andthen [simp] = run_andthen_Ok run_andthen_Err run_andthen_Panic run_andthen_Hang

lemma run_attempt [simp]:
  "m w = (Ok x, w') \<Longrightarrow> attempt m w = (Ok (Inr x), w')"
  "m w = (Err e, w') \<Longrightarrow> attempt m w = (Ok (Inl e), w')"
  "m w = (Panic, w') \<Longrightarrow> attempt m w = (Panic, w')"
  "m w = (Hang, w') \<Longrightarrow> attempt m w = (Hang, w')"
  by (simp_all add: attempt_def)

lemma run_map_err [simp]:
  "m w = (Ok x, w') \<Longrightarrow> map_err g m w = (Ok x, w')"
  "m w = (Err e, w') \<Longrightarrow> map_err g m w = (Err (g e), w')"
  "m w = (Panic, w') \<Longrightarrow> map_err g m w = (Panic, w')"
  "m w = (Hang, w') \<Longrightarrow> map_err g m w = (Hang, w')"
  by (simp_all add: map_err_def)

lemma run_or_fail [simp]:
  "m w = (Ok x, w') \<Longrightarrow> or_fail s m w = (Ok x, w')"
  "m w = (Err e, w') \<Longrightarrow> or_fail s m w = (Err (EMsg s), w')"
  "m w = (Panic, w') \<Longrightarrow> or_fail s m w = (Panic, w')"
  "m w = (Hang, w') \<Longrightarrow> or_fail s m w = (Hang, w')"
  by (simp_all add: or_fail_def)

lemma run_fail_if [simp]:
  "fail_if True s w = (Err (EMsg s), w)" "fail_if False s w = (Ok (), w)"
  by (simp_all add: fail_if_def)

lemma run_deref [simp]: "deref (Some x) w = (Ok x, w)" "deref None w = (Panic, w)"
  by (simp_all add: deref_def)

lemma run_of_sum [simp]: "of_sum (Inl e) w = (Err e, w)" "of_sum (Inr x) w = (Ok x, w)"
  by (simp_all add: of_sum_def)

section \<open>Inverting a successful run\<close>

named_theorems ok_elims "elimination of a successful run"

lemma andthen_OkE [ok_elims]:
  assumes "andthen m f w = (Ok y, w')"
  obtains x w1 where "m w = (Ok x, w1)" and "f x w1 = (Ok y, w')"
  using assms by (auto simp: andthen_def split: prod.splits outcome.splits)

lemma map_err_OkE [ok_elims]:
  assumes "map_err g m w = (Ok y, w')"
  obtains "m w = (Ok y, w')"
  using assms by (auto simp: map_err_def split: prod.splits outcome.splits)

lemma or_fail_OkE [ok_elims]:
  assumes "or_fail s m w = (Ok y, w')"
  obtains "m w = (Ok y, w')"
  using assms unfolding or_fail_def by (rule map_err_OkE)

lemma attempt_OkE [ok_elims]:
  assumes "attempt m w = (Ok r, w')"
  obtains (success) x where "r = Inr x" and "m w = (Ok x, w')"
        | (failure) e where "r = Inl e" and "m w = (Err e, w')"
  using assms by (auto simp: attempt_def split: prod.splits outcome.splits)

lemma deref_OkE [ok_elims]:
  assumes "deref p w = (Ok y, w')"
  obtains "p = Some y" and "w' = w"
  using assms by (auto simp: deref_def split: option.splits)

lemma fail_if_OkE [ok_elims]:
  assumes "fail_if b s w = (Ok y, w')"
  obtains "\<not> b" and "w' = w"
  using assms by (auto simp: fail_if_def split: if_splits)

lemma ret_OkE [ok_elims]:
  assumes "ret x w = (Ok y, w')"
  obtains "y = x" and "w' = w"
  using assms by simp

lemma throw_OkE [ok_elims]:
  assumes "throw e w = (Ok y, w')"
  obtains False
  using assms by simp

lemma panic_OkE [ok_elims]:
  assumes "panic w = (Ok y, w')"
  obtains False
  using assms by simp

lemma of_sum_OkE [ok_elims]:
  assumes "of_sum r w = (Ok y, w')"
  obtains "r = Inr y" and "w' = w"
  using assms by (auto simp: of_sum_def split: sum.splits)

section \<open>Carrying a relation between the worlds before and after\<close>

text \<open>
  \<open>keeps R m\<close>: every run of \<open>m\<close>, whatever its outcome, ends in a world related by \<open>R\<close>
  to the one it started in. For a reflexive and transitive \<open>R\<close> (a frame condition,
  \<open>I w \<longrightarrow> I w'\<close> for an invariant) the combinators compose.
\<close>

definition keeps :: "('w \<Rightarrow> 'w \<Rightarrow> bool) \<Rightarrow> ('w, 'a) io \<Rightarrow> bool" where
  "keeps R m \<longleftrightarrow> (\<forall>w. R w (snd (m w)))"

named_theorems keeps_intros "preservation rules of the io operations"

lemma keepsI: "(\<And>w r w'. m w = (r, w') \<Longrightarrow> R w w') \<Longrightarrow> keeps R m"
  by (auto simp: keeps_def) (metis prod.collapse)

lemma keepsD: "keeps R m \<Longrightarrow> m w = (r, w') \<Longrightarrow> R w w'"
  by (auto simp: keeps_def) (metis snd_conv)

lemma keeps_ret [keeps_intros]: "reflp R \<Longrightarrow> keeps R (ret x)"
  by (auto simp: keeps_def reflpD)

lemma keeps_throw [keeps_intros]: "reflp R \<Longrightarrow> keeps R (throw e)"
  by (auto simp: keeps_def reflpD)

lemma keeps_panic [keeps_intros]: "reflp R \<Longrightarrow> keeps R panic"
  by (auto simp: keeps_def reflpD)

lemma keeps_deref [keeps_intros]: "reflp R \<Longrightarrow> keeps R (deref p)"
  by (cases p) (auto simp: keeps_def reflpD)

lemma keeps_of_sum [keeps_intros]: "reflp R \<Longrightarrow> keeps R (of_sum r)"
  by (cases r) (auto simp: keeps_def reflpD)

lemma keeps_fail_if [keeps_intros]: "reflp R \<Longrightarrow> keeps R (fail_if b s)"
  by (cases b) (auto simp: keeps_def reflpD)

lemma keeps_andthen [keeps_intros]:
  assumes "transp R" and "keeps R m" and "\<And>x. keeps R (f x)"
  shows "keeps R (andthen m f)"
proof (rule keepsI)
  fix w r w' assume run: "andthen m f w = (r, w')"
  obtain r1 w1 where m: "m w = (r1, w1)" by (cases "m w")
  with assms(2) have R1: "R w w1" by (auto dest: keepsD)
  show "R w w'"
  proof (cases r1)
    case (Ok x)
    with m run have "f x w1 = (r, w')" by simp
    then have "R w1 w'" using assms(3) by (auto dest: keepsD)
    with R1 show ?thesis using assms(1) by (auto dest: transpD)
  qed (use m run R1 in auto)
qed

lemma snd_attempt [simp]: "snd (attempt m w) = snd (m w)"
  by (auto simp: attempt_def split: prod.splits outcome.splits)

lemma snd_map_err [simp]: "snd (map_err g m w) = snd (m w)"
  by (auto simp: map_err_def split: prod.splits outcome.splits)

lemma snd_or_fail [simp]: "snd (or_fail s m w) = snd (m w)"
  by (simp add: or_fail_def)

lemma keeps_attempt [keeps_intros]: "keeps R m \<Longrightarrow> keeps R (attempt m)"
  by (simp add: keeps_def)

lemma keeps_map_err [keeps_intros]: "keeps R m \<Longrightarrow> keeps R (map_err g m)"
  by (simp add: keeps_def)

lemma keeps_or_fail [keeps_intros]: "keeps R m \<Longrightarrow> keeps R (or_fail s m)"
  by (simp add: keeps_def)

lemma keeps_each [keeps_intros]:
  "reflp R \<Longrightarrow> transp R \<Longrightarrow> (\<And>x. keeps R (f x)) \<Longrightarrow> keeps R (each f xs)"
  by (induction xs) (auto intro!: keeps_intros)

lemma keeps_if [keeps_intros]:
  "keeps R m \<Longrightarrow> keeps R n \<Longrightarrow> keeps R (if b then m else n)"
  by simp

lemma keeps_case_option [keeps_intros]:
  "keeps R m \<Longrightarrow> (\<And>x. keeps R (f x)) \<Longrightarrow> keeps R (case p of None \<Rightarrow> m | Some x \<Rightarrow> f x)"
  by (cases p) auto

lemma keeps_case_sum [keeps_intros]:
  "(\<And>x. keeps R (f x)) \<Longrightarrow> (\<And>x. keeps R (g x)) \<Longrightarrow>
   keeps R (case s of Inl x \<Rightarrow> f x | Inr x \<Rightarrow> g x)"
  by (cases s) auto

section \<open>A part of a larger state\<close>

text \<open>\<open>zoom\<close> runs an operation on the part of the state that a getter and a setter give.\<close>

definition zoom :: "('s \<Rightarrow> 'w) \<Rightarrow> ('w \<Rightarrow> 's \<Rightarrow> 's) \<Rightarrow> ('w, 'a) io \<Rightarrow> ('s, 'a) io" where
  "zoom get put m = (\<lambda>s. case m (get s) of (r, w) \<Rightarrow> (r, put w s))"

locale lens =
  fixes get :: "'s \<Rightarrow> 'w" and put :: "'w \<Rightarrow> 's \<Rightarrow> 's"
  assumes get_put: "get (put w s) = w"
    and put_get: "put (get s) s = s"
    and put_put: "put v (put w s) = put v s"
begin

lemma zoom_run: "m (get s) = (r, w) \<Longrightarrow> zoom get put m s = (r, put w s)"
  by (simp add: zoom_def)

lemma zoom_ret [simp]: "zoom get put (ret x) = ret x"
  by (rule ext) (simp add: zoom_def put_get)

lemma zoom_throw [simp]: "zoom get put (throw e) = throw e"
  by (rule ext) (simp add: zoom_def put_get)

lemma zoom_andthen: "zoom get put (andthen m f) = andthen (zoom get put m) (\<lambda>x. zoom get put (f x))"
  by (rule ext) (auto simp: zoom_def andthen_def get_put put_put split: prod.splits outcome.splits)

lemma zoom_OkE:
  assumes "zoom get put m s = (Ok x, s')"
  obtains w where "m (get s) = (Ok x, w)" and "s' = put w s"
  using assms by (auto simp: zoom_def split: prod.splits)

lemma zoom_keeps:
  assumes "keeps R m"
  shows "keeps (\<lambda>s s'. R (get s) (get s')) (zoom get put m)"
  using assms by (auto simp: keeps_def zoom_def get_put split: prod.splits) (metis snd_conv)

end

section \<open>Lists\<close>

lemma distinct_map_filter: "distinct (map f xs) \<Longrightarrow> distinct (map f (filter p xs))"
  by (induction xs) auto

lemma find_None_filter: "find p xs = None \<longleftrightarrow> filter p xs = []"
  by (induction xs) auto

lemma find_Some_mem: "find p xs = Some x \<Longrightarrow> x \<in> set xs \<and> p x"
  by (induction xs) (auto split: if_splits)

end
