(* ===== verification/Json.thy ===== *)
theory Json imports Go_Strings begin

text \<open>
  \<open>encoding/json\<close> for the documents the service marshals and unmarshals: the cache
  payloads, the JWT claims and the messages of the event bus. The printer is Go's compact
  form with its escapes for the ASCII bytes; bytes above 0x7F are copied. A number with a
  fraction or an exponent keeps its literal: the service only ever reads integers. The parser allows white space where JSON does; its fuel is
  the length of the text, and the round trip shows that this is enough.
\<close>

datatype json =
    JNull
  | JBool bool
  | JNum int
  | JDec string
  | JStr string
  | JArr "json list"
  | JObj "(string \<times> json) list"

section \<open>Printing\<close>

definition hex_char :: "nat \<Rightarrow> char" where
  "hex_char n = (if n < 10 then char_of (48 + n) else char_of (87 + n))"

definition escape_char :: "char \<Rightarrow> string" where
  "escape_char c = (let n = (of_char c :: nat) in
     if n = 34 then [char_of (92 :: nat), char_of (34 :: nat)]
     else if n = 92 then [char_of (92 :: nat), char_of (92 :: nat)]
     else if n = 8 then [char_of (92 :: nat), CHR ''b'']
     else if n = 12 then [char_of (92 :: nat), CHR ''f'']
     else if n = 10 then [char_of (92 :: nat), CHR ''n'']
     else if n = 13 then [char_of (92 :: nat), CHR ''r'']
     else if n = 9 then [char_of (92 :: nat), CHR ''t'']
     else if n < 32 \<or> n = 60 \<or> n = 62 \<or> n = 38
       then [char_of (92 :: nat), CHR ''u'', CHR ''0'', CHR ''0'', hex_char (n div 16), hex_char (n mod 16)]
     else [c])"

definition quote :: char where
  "quote = char_of (34 :: nat)"

definition print_string :: "string \<Rightarrow> string" where
  "print_string s = quote # concat (map escape_char s) @ [quote]"

fun sep_by :: "string \<Rightarrow> string list \<Rightarrow> string" where
  "sep_by sep [] = []"
| "sep_by sep [x] = x"
| "sep_by sep (x # xs) = x @ sep @ sep_by sep xs"

fun print_json :: "json \<Rightarrow> string" where
  "print_json JNull = ''null''"
| "print_json (JBool b) = (if b then ''true'' else ''false'')"
| "print_json (JNum i) = itoa i"
| "print_json (JDec t) = t"
| "print_json (JStr s) = print_string s"
| "print_json (JArr xs) = ''['' @ sep_by '','' (map print_json xs) @ '']''"
| "print_json (JObj kvs) =
     ''{'' @ sep_by '','' (map (\<lambda>(k, v). print_string k @ '':'' @ print_json v) kvs) @ ''}''"

text \<open>A document without fractional literals, which is what the service writes.\<close>

primrec integral :: "json \<Rightarrow> bool" where
  "integral JNull = True"
| "integral (JBool b) = True"
| "integral (JNum i) = True"
| "integral (JDec t) = False"
| "integral (JStr s) = True"
| "integral (JArr xs) = list_all id (map integral xs)"
| "integral (JObj kvs) = list_all snd (map (map_prod id integral) kvs)"

section \<open>Parsing\<close>

definition is_ws :: "char \<Rightarrow> bool" where
  "is_ws c = (let n = (of_char c :: nat) in n = 32 \<or> n = 9 \<or> n = 10 \<or> n = 13)"

definition skip_ws :: "string \<Rightarrow> string" where
  "skip_ws s = dropWhile is_ws s"

definition hex_val :: "char \<Rightarrow> nat option" where
  "hex_val c = (let n = (of_char c :: nat) in
     if 48 \<le> n \<and> n \<le> 57 then Some (n - 48)
     else if 97 \<le> n \<and> n \<le> 102 then Some (n - 87)
     else if 65 \<le> n \<and> n \<le> 70 then Some (n - 55)
     else None)"

text \<open>UTF-8 of a code point of the basic plane; an unpaired surrogate becomes U+FFFD.\<close>

definition utf8 :: "nat \<Rightarrow> string" where
  "utf8 n =
     (if n < 0x80 then [char_of n]
      else if n < 0x800 then [char_of (0xC0 + n div 64), char_of (0x80 + n mod 64)]
      else if 0xD800 \<le> n \<and> n \<le> 0xDFFF then [char_of (0xEF :: nat), char_of (0xBF :: nat), char_of (0xBD :: nat)]
      else [char_of (0xE0 + n div 4096), char_of (0x80 + n div 64 mod 64), char_of (0x80 + n mod 64)])"

definition simple_escape :: "char \<Rightarrow> char option" where
  "simple_escape c = (let n = (of_char c :: nat) in
     if n = 34 \<or> n = 92 \<or> n = 47 then Some c
     else if n = 98 then Some (char_of (8 :: nat))
     else if n = 102 then Some (char_of (12 :: nat))
     else if n = 110 then Some (char_of (10 :: nat))
     else if n = 114 then Some (char_of (13 :: nat))
     else if n = 116 then Some (char_of (9 :: nat))
     else None)"

text \<open>The characters of a string literal up to its closing quote, and what follows it.\<close>

fun parse_chars :: "string \<Rightarrow> (string \<times> string) option" where
  "parse_chars [] = None"
| "parse_chars (c # s) =
     (if c = quote then Some ([], s)
      else if (of_char c :: nat) < 32 then None
      else if (of_char c :: nat) \<noteq> 92 then map_option (\<lambda>(t, r). (c # t, r)) (parse_chars s)
      else (case s of
          [] \<Rightarrow> None
        | e # s1 \<Rightarrow>
            (if e = CHR ''u'' then
               (case s1 of
                  a # b # d # f # s2 \<Rightarrow>
                    (case (hex_val a, hex_val b, hex_val d, hex_val f) of
                       (Some a, Some b, Some d, Some f) \<Rightarrow>
                         map_option (\<lambda>(t, r). (utf8 (((a * 16 + b) * 16 + d) * 16 + f) @ t, r))
                           (parse_chars s2)
                     | _ \<Rightarrow> None)
                | _ \<Rightarrow> None)
             else (case simple_escape e of
                 None \<Rightarrow> None
               | Some x \<Rightarrow> map_option (\<lambda>(t, r). (x # t, r)) (parse_chars s1)))))"

definition frac_part :: "string \<Rightarrow> (string \<times> string) option" where
  "frac_part s = (if s \<noteq> [] \<and> hd s = CHR ''.'' then
      (let ds = takeWhile is_digit_char (tl s) in
       if ds = [] then None else Some (CHR ''.'' # ds, dropWhile is_digit_char (tl s)))
    else Some ([], s))"

definition exp_part :: "string \<Rightarrow> (string \<times> string) option" where
  "exp_part s = (if s \<noteq> [] \<and> hd s \<in> set ''eE'' then
      (let sign = (if tl s \<noteq> [] \<and> hd (tl s) \<in> set ''+-'' then [hd (tl s)] else []);
           t = drop (length sign) (tl s); ds = takeWhile is_digit_char t in
       if ds = [] then None else Some (hd s # sign @ ds, dropWhile is_digit_char t))
    else Some ([], s))"

definition parse_number :: "string \<Rightarrow> (json \<times> string) option" where
  "parse_number s =
     (let neg = (s \<noteq> [] \<and> hd s = CHR ''-''); t = (if neg then tl s else s);
          ds = takeWhile is_digit_char t; r = dropWhile is_digit_char t
      in if ds = [] \<or> (length ds > 1 \<and> hd ds = CHR ''0'') then None
         else case frac_part r of None \<Rightarrow> None
           | Some (f, r1) \<Rightarrow> (case exp_part r1 of None \<Rightarrow> None
               | Some (e, r2) \<Rightarrow> Some
                   (if f = [] \<and> e = [] then JNum (if neg then - int (digits_value ds) else int (digits_value ds))
                    else JDec ((if neg then ''-'' else []) @ ds @ f @ e), r2)))"

fun parse_value :: "nat \<Rightarrow> string \<Rightarrow> (json \<times> string) option"
  and parse_items :: "nat \<Rightarrow> string \<Rightarrow> (json list \<times> string) option"
  and parse_members :: "nat \<Rightarrow> string \<Rightarrow> ((string \<times> json) list \<times> string) option" where
  "parse_value 0 s = None"
| "parse_value (Suc n) s0 = (case skip_ws s0 of
      [] \<Rightarrow> None
    | c # s \<Rightarrow>
        if c = CHR ''{'' then
          (case skip_ws s of
             [] \<Rightarrow> None
           | d # s' \<Rightarrow> if d = CHR ''}'' then Some (JObj [], s')
               else map_option (\<lambda>(kvs, r). (JObj kvs, r)) (parse_members n (d # s')))
        else if c = CHR ''['' then
          (case skip_ws s of
             [] \<Rightarrow> None
           | d # s' \<Rightarrow> if d = CHR '']'' then Some (JArr [], s')
               else map_option (\<lambda>(xs, r). (JArr xs, r)) (parse_items n (d # s')))
        else if c = quote then map_option (\<lambda>(t, r). (JStr t, r)) (parse_chars s)
        else if has_prefix (c # s) ''null'' then Some (JNull, drop 4 (c # s))
        else if has_prefix (c # s) ''true'' then Some (JBool True, drop 4 (c # s))
        else if has_prefix (c # s) ''false'' then Some (JBool False, drop 5 (c # s))
        else parse_number (c # s))"
| "parse_items 0 s = None"
| "parse_items (Suc n) s = (case parse_value n s of
      None \<Rightarrow> None
    | Some (x, s1) \<Rightarrow> (case skip_ws s1 of
          [] \<Rightarrow> None
        | c # s2 \<Rightarrow> if c = CHR '','' then map_option (\<lambda>(xs, r). (x # xs, r)) (parse_items n s2)
            else if c = CHR '']'' then Some ([x], s2) else None))"
| "parse_members 0 s = None"
| "parse_members (Suc n) s0 = (case skip_ws s0 of
      [] \<Rightarrow> None
    | q # s \<Rightarrow> if q \<noteq> quote then None else (case parse_chars s of
          None \<Rightarrow> None
        | Some (k, s1) \<Rightarrow> (case skip_ws s1 of
              [] \<Rightarrow> None
            | col # s2 \<Rightarrow> if col \<noteq> CHR '':'' then None else (case parse_value n s2 of
                  None \<Rightarrow> None
                | Some (v, s3) \<Rightarrow> (case skip_ws s3 of
                      [] \<Rightarrow> None
                    | c # s4 \<Rightarrow>
                        if c = CHR '','' then map_option (\<lambda>(kvs, r). ((k, v) # kvs, r)) (parse_members n s4)
                        else if c = CHR ''}'' then Some ([(k, v)], s4) else None)))))"

definition parse_json :: "string \<Rightarrow> json option" where
  "parse_json s = (case parse_value (Suc (length s)) s of
      Some (j, r) \<Rightarrow> (if skip_ws r = [] then Some j else None)
    | None \<Rightarrow> None)"

section \<open>Round trip\<close>

lemma of_char_quote [simp]: "(of_char quote :: nat) = 34"
  by (simp add: quote_def)

lemma char_eq_iff_code: "c = d \<longleftrightarrow> (of_char c :: nat) = of_char d"
  by simp

lemma of_char_bound: "(of_char (c :: char) :: nat) < 256"
  using of_char_mod_256 [of c] by (metis mod_less_divisor zero_less_numeral)

lemma hex_val_char: "n < 16 \<Longrightarrow> hex_val (hex_char n) = Some n"
  by (auto simp: hex_val_def hex_char_def Let_def)

lemma parse_chars_plain:
  "c \<noteq> quote \<Longrightarrow> 32 \<le> (of_char c :: nat) \<Longrightarrow> (of_char c :: nat) \<noteq> 92 \<Longrightarrow>
   parse_chars (c # s) = map_option (\<lambda>(t, r). (c # t, r)) (parse_chars s)"
  by simp

lemma parse_chars_escape:
  "simple_escape e = Some x \<Longrightarrow> e \<noteq> CHR ''u'' \<Longrightarrow>
   parse_chars (char_of (92 :: nat) # e # s) = map_option (\<lambda>(t, r). (x # t, r)) (parse_chars s)"
  by (simp add: char_eq_iff_code [of _ quote])

lemma parse_chars_unicode:
  assumes "n < 0x80"
  shows "parse_chars (char_of (92 :: nat) # CHR ''u'' # CHR ''0'' # CHR ''0'' #
      hex_char (n div 16) # hex_char (n mod 16) # s) =
    map_option (\<lambda>(t, r). (char_of n # t, r)) (parse_chars s)"
proof -
  have "n div 16 < 16" using assms by (simp add: less_mult_imp_div_less)
  then have "hex_val (hex_char (n div 16)) = Some (n div 16)"
    "hex_val (hex_char (n mod 16)) = Some (n mod 16)" by (simp_all add: hex_val_char)
  moreover have "hex_val CHR ''0'' = Some 0" by (simp add: hex_val_def)
  moreover have "n div 16 * 16 + n mod 16 = n" by simp
  ultimately show ?thesis using assms by (simp add: char_eq_iff_code [of _ quote] utf8_def)
qed

lemma parse_chars_step:
  "parse_chars (escape_char c @ s) = map_option (\<lambda>(t, r). (c # t, r)) (parse_chars s)"
proof -
  define n where "n = (of_char c :: nat)"
  have c: "c = char_of n" by (simp add: n_def)
  consider "n \<in> {34, 92, 8, 12, 10, 13, 9}"
    | "n \<notin> {34, 92, 8, 12, 10, 13, 9}" "n < 32 \<or> n = 60 \<or> n = 62 \<or> n = 38"
    | "n \<notin> {34, 92}" "32 \<le> n" "n \<noteq> 60" "n \<noteq> 62" "n \<noteq> 38" by force
  then show ?thesis
  proof cases
    case 1
    then have "\<exists>e. escape_char c = [char_of (92 :: nat), e] \<and> simple_escape e = Some c \<and> e \<noteq> CHR ''u''"
      unfolding c by (elim insertE emptyE)
        (auto simp: escape_char_def simple_escape_def Let_def char_eq_iff_code [of _ "CHR ''u''"])
    then show ?thesis using parse_chars_escape by force
  next
    case 2
    then have "n < 0x80" by auto
    moreover from 2 have "escape_char c = char_of (92 :: nat) # CHR ''u'' # CHR ''0'' # CHR ''0'' #
      [hex_char (n div 16), hex_char (n mod 16)]"
      by (simp add: escape_char_def Let_def flip: n_def)
    ultimately show ?thesis using parse_chars_unicode [of n s] c by simp
  next
    case 3
    then have "escape_char c = [c]" by (simp add: escape_char_def Let_def flip: n_def)
    moreover have "c \<noteq> quote" using 3(1) by (auto simp: n_def)
    ultimately show ?thesis using parse_chars_plain [of c s] 3 by (simp add: n_def)
  qed
qed

lemma parse_chars_print: "parse_chars (concat (map escape_char t) @ quote # r) = Some (t, r)"
proof (induction t)
  case Nil
  then show ?case by simp
next
  case (Cons c t)
  then show ?case using parse_chars_step [of c "concat (map escape_char t) @ quote # r"] by simp
qed

definition stops :: "string \<Rightarrow> bool" where
  "stops r = (r = [] \<or> hd r \<in> set '',]}'')"

lemma stops_no_digit: "stops r \<Longrightarrow> takeWhile is_digit_char r = [] \<and> dropWhile is_digit_char r = r"
  by (cases r) (auto simp: stops_def is_digit_char_def)

lemma takeWhile_digits:
  assumes "\<forall>c\<in>set ds. is_digit_char c" and "stops r"
  shows "takeWhile is_digit_char (ds @ r) = ds" and "dropWhile is_digit_char (ds @ r) = r"
  using assms stops_no_digit [of r] by (induction ds) auto

lemma hd_nat_digits: "n \<noteq> 0 \<Longrightarrow> hd (nat_digits n) \<noteq> CHR ''0''"
proof (induction n rule: nat_digits.induct)
  case (1 n)
  show ?case
  proof (cases "n < 10")
    case True
    then have "(of_char (digit_char n) :: nat) \<noteq> 48" using 1 by (simp add: of_char_digit_char)
    with True show ?thesis by (subst nat_digits.simps) auto
  next
    case False
    with 1 show ?thesis by (subst nat_digits.simps) auto
  qed
qed

lemma long_nat_digits: "length (nat_digits n) > 1 \<Longrightarrow> hd (nat_digits n) \<noteq> CHR ''0''"
proof (cases "n = 0")
  case True
  assume "length (nat_digits n) > 1"
  with True show ?thesis by (simp add: nat_digits.simps [of 0])
qed (simp add: hd_nat_digits)

lemma hd_not_sign: "nat_digits n \<noteq> [] \<and> hd (nat_digits n) \<noteq> CHR ''-''"
proof -
  have "is_digit_char (hd (nat_digits n))"
    using nat_digits_are_digits [of "hd (nat_digits n)" n] by simp
  then show ?thesis by (auto simp: is_digit_char_def)
qed

lemma parse_number_itoa:
  assumes "stops r"
  shows "parse_number (itoa i @ r) = Some (JNum i, r)"
proof -
  have r: "frac_part r = Some ([], r)" "exp_part r = Some ([], r)"
    using assms by (auto simp: stops_def frac_part_def exp_part_def)
  have tw: "takeWhile is_digit_char (nat_digits n @ r) = nat_digits n"
    "dropWhile is_digit_char (nat_digits n @ r) = r" for n
    using takeWhile_digits [of "nat_digits n" r] assms nat_digits_are_digits by auto
  show ?thesis
  proof (cases "i < 0")
    case True
    then show ?thesis using r tw long_nat_digits
      by (auto simp: parse_number_def itoa_def Let_def)
  next
    case False
    then show ?thesis using r tw long_nat_digits hd_not_sign [of "nat i"]
      by (auto simp: parse_number_def itoa_def Let_def)
  qed
qed

lemma itoa_head:
  "\<exists>c s. itoa i = c # s \<and> (is_digit_char c \<or> c = CHR ''-'')"
proof (cases "i < 0")
  case False
  obtain c s where "nat_digits (nat i) = c # s" by (cases "nat_digits (nat i)") auto
  then show ?thesis using False nat_digits_are_digits [of c "nat i"] by (simp add: itoa_def)
qed (simp add: itoa_def)

lemma quote_neq: "\<not> is_ws quote" "quote \<noteq> CHR '']''" "quote \<noteq> CHR ''}''"
  by (simp_all add: is_ws_def char_eq_iff_code [of quote])

definition json_starts :: "json \<Rightarrow> bool" where
  "json_starts j = (\<exists>c s. print_json j = c # s \<and> \<not> is_ws c \<and> c \<noteq> CHR '']'' \<and> c \<noteq> CHR ''}'')"

lemma json_head:
  assumes "integral j"
  shows "json_starts j"
proof (cases j)
  case (JNum i)
  then show ?thesis using itoa_head [of i]
    by (auto simp: json_starts_def is_ws_def Let_def is_digit_char_def)
next
  case (JStr s)
  then show ?thesis by (simp add: json_starts_def print_string_def quote_neq)
qed (use assms in \<open>auto simp: json_starts_def is_ws_def\<close>)

lemma skip_json: "json_starts j \<Longrightarrow> skip_ws (print_json j @ r) = print_json j @ r"
  by (auto simp: json_starts_def skip_ws_def)

lemma skip_quote [simp]: "skip_ws (quote # r) = quote # r"
  by (simp add: skip_ws_def is_ws_def)

lemma skip_plain [simp]:
  "skip_ws (CHR '','' # r) = CHR '','' # r" "skip_ws (CHR '']'' # r) = CHR '']'' # r"
  "skip_ws (CHR ''}'' # r) = CHR ''}'' # r" "skip_ws (CHR ''{'' # r) = CHR ''{'' # r"
  "skip_ws (CHR ''['' # r) = CHR ''['' # r" "skip_ws (CHR '':'' # r) = CHR '':'' # r"
  "skip_ws [] = []"
  by (simp_all add: skip_ws_def is_ws_def)

definition reads :: "json \<Rightarrow> bool" where
  "reads j = (json_starts j \<and> (\<forall>n r. length (print_json j) < n \<longrightarrow> stops r \<longrightarrow>
     parse_value n (print_json j @ r) = Some (j, r)))"

lemma reads_starts: "reads j \<Longrightarrow> json_starts j"
  by (simp add: reads_def)

lemma readsI:
  assumes "integral j"
    and "\<And>n r. length (print_json j) < n \<Longrightarrow> stops r \<Longrightarrow> parse_value n (print_json j @ r) = Some (j, r)"
  shows "reads j"
  using assms json_head by (simp add: reads_def)

lemma readsD:
  "reads j \<Longrightarrow> length (print_json j) < n \<Longrightarrow> stops r \<Longrightarrow> parse_value n (print_json j @ r) = Some (j, r)"
  by (simp add: reads_def)

lemma stops_sep [simp]: "stops (CHR '','' # r)" "stops (CHR '']'' # r)" "stops (CHR ''}'' # r)"
  by (simp_all add: stops_def)

lemma parse_items_print:
  assumes "xs \<noteq> []" and "\<forall>x\<in>set xs. reads x"
    and "length (sep_by '','' (map print_json xs)) + 1 < n"
  shows "parse_items n (sep_by '','' (map print_json xs) @ CHR '']'' # r) = Some (xs, r)"
  using assms
proof (induction xs arbitrary: n)
  case Nil
  then show ?case by simp
next
  case (Cons x xs)
  then obtain m where n: "n = Suc m" by (cases n) auto
  show ?case
  proof (cases xs)
    case Nil
    with Cons n show ?thesis by (simp add: readsD skip_json reads_starts)
  next
    case (Cons y ys)
    let ?rest = "sep_by '','' (map print_json xs)"
    have "length (print_json x) < m" "length ?rest + 1 < m"
      using Cons.prems(2,3) reads_starts [of x] Cons n by (auto simp: json_starts_def)
    with Cons.IH [of m] Cons.prems Cons n show ?thesis by (simp add: readsD skip_json reads_starts)
  qed
qed

definition print_member :: "string \<times> json \<Rightarrow> string" where
  "print_member kv = print_string (fst kv) @ '':'' @ print_json (snd kv)"

lemma length_print_member: "length (print_json v) + 3 \<le> length (print_member (k, v))"
  by (simp add: print_member_def print_string_def)

lemma parse_members_print:
  assumes "kvs \<noteq> []" and "\<forall>kv\<in>set kvs. reads (snd kv)"
    and "length (sep_by '','' (map print_member kvs)) + 1 < n"
  shows "parse_members n (sep_by '','' (map print_member kvs) @ CHR ''}'' # r) = Some (kvs, r)"
  using assms
proof (induction kvs arbitrary: n)
  case Nil
  then show ?case by simp
next
  case (Cons kv kvs)
  then obtain m where n: "n = Suc m" by (cases n) auto
  obtain k v where kv: "kv = (k, v)" by (cases kv)
  show ?case
  proof (cases kvs)
    case Nil
    with Cons n kv show ?thesis
      by (simp add: readsD skip_json reads_starts print_member_def print_string_def parse_chars_print)
  next
    case (Cons y ys)
    let ?rest = "sep_by '','' (map print_member kvs)"
    have "length (print_json v) < m" "length ?rest + 1 < m"
      using Cons.prems(3) Cons n kv length_print_member [of v k] by auto
    with Cons.IH [of m] Cons.prems Cons n kv show ?thesis
      by (simp add: readsD skip_json reads_starts print_member_def print_string_def parse_chars_print)
  qed
qed

lemma print_obj: "print_json (JObj kvs) = ''{'' @ sep_by '','' (map print_member kvs) @ ''}''"
proof -
  have "print_member = (\<lambda>(k, v). print_string k @ '':'' @ print_json v)"
    by (auto simp: print_member_def)
  then show ?thesis by simp
qed

lemma sep_by_head:
  assumes "xs \<noteq> []" and "\<And>x. x \<in> set xs \<Longrightarrow> \<exists>c s. f x = c # s \<and> P c"
  shows "\<exists>c s. sep_by '','' (map f xs) = c # s \<and> P c"
proof (cases xs)
  case (Cons x ys)
  then show ?thesis using assms(2) [of x] by (cases ys) auto
qed (use assms in simp)

lemma member_head: "\<exists>c s. print_member kv = c # s \<and> c = quote"
  by (simp add: print_member_def print_string_def)

lemma reads_arr:
  assumes "\<forall>x\<in>set xs. reads x" and "integral (JArr xs)"
  shows "reads (JArr xs)"
proof (rule readsI [OF assms(2)])
  fix n r assume len: "length (print_json (JArr xs)) < n" and "stops r"
  then obtain m where n: "n = Suc m" by (cases n) auto
  show "parse_value n (print_json (JArr xs) @ r) = Some (JArr xs, r)"
  proof (cases "xs = []")
    case False
    have items: "parse_items m (sep_by '','' (map print_json xs) @ CHR '']'' # r) = Some (xs, r)"
      using parse_items_print [OF False assms(1)] len n by simp
    obtain c s where "sep_by '','' (map print_json xs) = c # s \<and> \<not> is_ws c \<and> c \<noteq> CHR '']''"
      using sep_by_head [OF False, of print_json "\<lambda>c. \<not> is_ws c \<and> c \<noteq> CHR '']''"] assms(1) reads_starts unfolding json_starts_def by blast
    with items n show ?thesis by (simp add: skip_ws_def is_ws_def)
  qed (simp add: n)
qed

lemma reads_obj:
  assumes "\<forall>kv\<in>set kvs. reads (snd kv)" and "integral (JObj kvs)"
  shows "reads (JObj kvs)"
proof (rule readsI [OF assms(2)])
  fix n r assume len: "length (print_json (JObj kvs)) < n" and "stops r"
  then obtain m where n: "n = Suc m" by (cases n) auto
  show "parse_value n (print_json (JObj kvs) @ r) = Some (JObj kvs, r)"
  proof (cases "kvs = []")
    case False
    have items: "parse_members m (sep_by '','' (map print_member kvs) @ CHR ''}'' # r) = Some (kvs, r)"
      using parse_members_print [OF False assms(1)] len n by (simp add: print_obj del: print_json.simps)
    obtain s where "sep_by '','' (map print_member kvs) = quote # s"
      using sep_by_head [OF False, of print_member "\<lambda>c. c = quote"] member_head by blast
    with items n show ?thesis by (simp add: print_obj quote_neq del: print_json.simps)
  qed (simp add: n)
qed

lemma reads_all: "integral j \<Longrightarrow> reads j"
proof (induction j)
  case (JNum i)
  show ?case
  proof (rule readsI)
    fix n r assume "length (print_json (JNum i)) < n" and st: "stops r"
    then obtain m where n: "n = Suc m" by (cases n) auto
    obtain c s where c: "itoa i = c # s" "is_digit_char c \<or> c = CHR ''-''" using itoa_head by blast
    have "skip_ws (c # s @ r) = c # s @ r" using skip_json [OF json_head, of "JNum i" r] c by simp
    moreover have "c \<noteq> CHR ''{'' \<and> c \<noteq> CHR ''['' \<and> c \<noteq> quote \<and> c \<noteq> CHR ''n'' \<and> c \<noteq> CHR ''t'' \<and> c \<noteq> CHR ''f''"
      using c(2) by (auto simp: is_digit_char_def char_eq_iff_code [of _ quote])
    moreover have "parse_number (c # s @ r) = Some (JNum i, r)"
      using parse_number_itoa [OF st, of i] c by simp
    ultimately show "parse_value n (print_json (JNum i) @ r) = Some (JNum i, r)"
      using n c by (simp add: has_prefix_def)
  qed simp
next
  case (JStr s)
  show ?case
  proof (rule readsI)
    fix n r assume "length (print_json (JStr s)) < n"
    then obtain m where n: "n = Suc m" by (cases n) auto
    have "quote \<noteq> CHR ''{'' \<and> quote \<noteq> CHR ''[''" by (simp add: char_eq_iff_code [of quote])
    then show "parse_value n (print_json (JStr s) @ r) = Some (JStr s, r)"
      by (simp add: n print_string_def parse_chars_print)
  qed simp
next
  case (JArr xs)
  then show ?case by (intro reads_arr) (auto simp: list_all_iff)
next
  case (JObj kvs)
  have "reads (snd kv)" if "kv \<in> set kvs" for kv
    using JObj.IH [OF that, of "snd kv"] JObj.prems that by (cases kv) (auto simp: list_all_iff)
  then show ?case using JObj.prems by (intro reads_obj) auto
next
  case JNull
  show ?case
  proof (rule readsI)
    fix n r assume "length (print_json JNull) < n"
    then obtain m where n: "n = Suc m" by (cases n) auto
    have "CHR ''n'' \<noteq> quote" by (simp add: char_eq_iff_code [of _ quote])
    then show "parse_value n (print_json JNull @ r) = Some (JNull, r)"
      by (simp add: n has_prefix_def skip_ws_def is_ws_def)
  qed simp
next
  case (JBool b)
  show ?case
  proof (rule readsI)
    fix n r assume "length (print_json (JBool b)) < n"
    then obtain m where n: "n = Suc m" by (cases n) auto
    have "CHR ''t'' \<noteq> quote" "CHR ''f'' \<noteq> quote" by (simp_all add: char_eq_iff_code [of _ quote])
    then show "parse_value n (print_json (JBool b) @ r) = Some (JBool b, r)"
      by (simp add: n has_prefix_def skip_ws_def is_ws_def)
  qed simp
qed simp

lemma parse_print_json: "integral j \<Longrightarrow> parse_json (print_json j) = Some j"
  using readsD [OF reads_all, of j "Suc (length (print_json j))" "[]"]
  by (simp add: parse_json_def stops_def)

declare print_json.simps [simp del] parse_print_json [simp]

text \<open>JSON documents survive the wire: parsing what the printer wrote gives the document
  back, for every nesting and every string content, with the parser's fuel always enough (for
  the documents the service writes, whose numbers are integers).\<close>

theorem json_round_trip:
  assumes "integral j"
  shows "parse_json (print_json j) = Some j"
  using assms by (rule parse_print_json)

theorem json_round_trip_witness:
  "parse_json (print_json (JObj [(''a'', JArr [JNum (- 7), JNull]), (''b'', JStr ''x<y'')])) =
     Some (JObj [(''a'', JArr [JNum (- 7), JNull]), (''b'', JStr ''x<y'')])"
  by (rule json_round_trip) simp

end
