(* ===== verification/Store.thy ===== *)
theory Store imports Prelude Complex_Main begin

text \<open>
  The relational store of app/models/ent/migrate/schema.go: one record per row type with
  the columns of the table, one table per kind of row with its next identifier, and the
  database as the record of the tables the service reads and writes. Times are
  nanoseconds since the epoch (UTC), identifiers are integers, a nullable column is an
  option. A table is reached through a getter and an updater; the locale \<open>table\<close> states
  the laws that connect the two and proves what an insertion, an update and a deletion
  do, and it is interpreted for every table of the database.
\<close>

section \<open>Rows\<close>

record user_row =
  u_id :: int
  u_mail :: string
  u_phone :: "string option"
  u_password :: string
  u_active :: bool
  u_verified :: bool
  u_blacklisted :: bool
  u_removed :: bool
  u_created_at :: int
  u_updated_at :: int
  u_subscription_ids :: "int list"
  u_team_ids :: "int list"
  u_organization_ids :: "int list"

record settings_row =
  st_id :: int
  st_uuid :: string
  st_two_factor :: bool
  st_night_mode :: bool
  st_created_at :: int
  st_updated_at :: int
  st_user :: int

record details_row =
  dt_id :: int
  dt_name :: string
  dt_first_name :: "string option"
  dt_last_name :: "string option"
  dt_created_at :: int
  dt_updated_at :: int
  dt_user :: int

record device_row =
  dv_id :: int
  dv_name :: "string option"
  dv_type :: "string option"
  dv_token :: string
  dv_ip_address :: "string option"
  dv_user_agent :: "string option"
  dv_os_name :: "string option"
  dv_os_version :: "string option"
  dv_browser_name :: "string option"
  dv_browser_version :: "string option"
  dv_last_seen_at :: int
  dv_created_at :: int
  dv_updated_at :: int
  dv_second_factor_code :: "int option"
  dv_user :: int
  dv_settings_target :: "int option"
  dv_settings_notify :: "int option"

text \<open>
  The four tables of codes: activation, reset, second-factor and verification codes. Each
  has a unique code and a unique, non-null owner; \<open>used\<close> exists in two of them, defaults to
  false and is never written.
\<close>

record code_row =
  cd_id :: int
  cd_code :: string
  cd_used :: bool
  cd_created_at :: int
  cd_updated_at :: int
  cd_expires_at :: int
  cd_user :: int

record role_row =
  rl_id :: int
  rl_name :: string
  rl_description :: string

record permission_row =
  pm_id :: int
  pm_name :: string
  pm_view :: bool
  pm_add :: bool
  pm_edit :: bool
  pm_delete :: bool

record entrepreneur_row =
  en_id :: int
  en_business_name :: "string option"
  en_nip :: "string option"
  en_krs :: "string option"
  en_description :: "string option"
  en_offer :: "string option"
  en_income :: "rat option"
  en_costs :: "rat option"
  en_funding_capital :: "rat option"
  en_industry :: "string option"
  en_council :: "string list"
  en_decision_makers :: "string list"
  en_phone :: "string option"
  en_mail :: "string option"
  en_website :: "string option"
  en_created_at :: int
  en_updated_at :: int
  en_user_details :: "int option"

record location_row =
  lc_id :: int
  lc_country :: string
  lc_province :: string
  lc_city :: string
  lc_postal_code :: string
  lc_street :: "string option"
  lc_building_number :: int
  lc_apartment_number :: int
  lc_created_at :: int
  lc_updated_at :: int
  lc_user_details :: int

record action_row =
  ac_id :: int
  ac_type :: string
  ac_action :: string
  ac_details :: string
  ac_created_at :: int
  ac_updated_at :: int

section \<open>Tables and the database\<close>

record 'row tab =
  rows :: "'row list"
  next_id :: int

record db =
  users :: "user_row tab"
  settings :: "settings_row tab"
  details :: "details_row tab"
  devices :: "device_row tab"
  activation_codes :: "code_row tab"
  reset_codes :: "code_row tab"
  second_factor_codes :: "code_row tab"
  verification_codes :: "code_row tab"
  roles :: "role_row list"
  permissions :: "permission_row list"
  role_permissions :: "(int \<times> int) list"
  user_roles :: "(int \<times> int) list"
  entrepreneurs :: "entrepreneur_row tab"
  locations :: "location_row tab"
  actions :: "action_row tab"

section \<open>Statements on one table\<close>

text \<open>An insertion takes the next identifier of the sequence.\<close>

definition insert_row :: "(int \<Rightarrow> 'row) \<Rightarrow> 'row tab \<Rightarrow> 'row \<times> 'row tab" where
  "insert_row mk t = (mk (next_id t), t\<lparr>rows := rows t @ [mk (next_id t)], next_id := next_id t + 1\<rparr>)"

definition update_where :: "('row \<Rightarrow> bool) \<Rightarrow> ('row \<Rightarrow> 'row) \<Rightarrow> 'row tab \<Rightarrow> 'row tab" where
  "update_where p f t = t\<lparr>rows := map (\<lambda>r. if p r then f r else r) (rows t)\<rparr>"

definition delete_where :: "('row \<Rightarrow> bool) \<Rightarrow> 'row tab \<Rightarrow> 'row tab" where
  "delete_where p t = t\<lparr>rows := filter (\<lambda>r. \<not> p r) (rows t)\<rparr>"

definition exists_where :: "('row \<Rightarrow> bool) \<Rightarrow> 'row tab \<Rightarrow> bool" where
  "exists_where p t = (filter p (rows t) \<noteq> [])"

text \<open>Identifiers are distinct and below the sequence's next value.\<close>

definition wf_tab :: "('row \<Rightarrow> int) \<Rightarrow> 'row tab \<Rightarrow> bool" where
  "wf_tab key t \<longleftrightarrow> distinct (map key (rows t)) \<and> (\<forall>r\<in>set (rows t). key r < next_id t)"

text \<open>A unique column, and a unique nullable one.\<close>

definition unique_col :: "('row \<Rightarrow> 'c) \<Rightarrow> 'row tab \<Rightarrow> bool" where
  "unique_col col t \<longleftrightarrow> distinct (map col (rows t))"

definition unique_opt :: "('row \<Rightarrow> 'c option) \<Rightarrow> 'row tab \<Rightarrow> bool" where
  "unique_opt col t \<longleftrightarrow> distinct (filter (\<lambda>c. c \<noteq> None) (map col (rows t)))"

lemma rows_insert_row [simp]:
  "rows (snd (insert_row mk t)) = rows t @ [mk (next_id t)]"
  "next_id (snd (insert_row mk t)) = next_id t + 1"
  "fst (insert_row mk t) = mk (next_id t)"
  by (simp_all add: insert_row_def)

lemma rows_update_where [simp]:
  "rows (update_where p f t) = map (\<lambda>r. if p r then f r else r) (rows t)"
  "next_id (update_where p f t) = next_id t"
  by (simp_all add: update_where_def)

lemma rows_delete_where [simp]:
  "rows (delete_where p t) = filter (\<lambda>r. \<not> p r) (rows t)"
  "next_id (delete_where p t) = next_id t"
  by (simp_all add: delete_where_def)

lemma exists_where_iff: "exists_where p t \<longleftrightarrow> (\<exists>r\<in>set (rows t). p r)"
  by (auto simp: exists_where_def filter_empty_conv)

lemma wf_insert_row:
  "wf_tab key t \<Longrightarrow> (\<And>i. key (mk i) = i) \<Longrightarrow> wf_tab key (snd (insert_row mk t))"
  by (auto simp: wf_tab_def less_le)

lemma wf_update_where:
  assumes "wf_tab key t" and "\<And>r. key (f r) = key r"
  shows "wf_tab key (update_where p f t)"
proof -
  have "key \<circ> (\<lambda>r. if p r then f r else r) = key" using assms(2) by auto
  then show ?thesis using assms by (auto simp: wf_tab_def)
qed

lemma wf_delete_where: "wf_tab key t \<Longrightarrow> wf_tab key (delete_where p t)"
  by (auto simp: wf_tab_def distinct_map_filter)

lemma wf_tab_unique:
  "wf_tab key t \<Longrightarrow> r \<in> set (rows t) \<Longrightarrow> r' \<in> set (rows t) \<Longrightarrow> key r = key r' \<Longrightarrow> r = r'"
  by (auto simp: wf_tab_def distinct_map inj_on_def)

lemma unique_insert_row:
  "unique_col col t \<Longrightarrow> \<not> exists_where (\<lambda>r. col r = col (mk (next_id t))) t \<Longrightarrow>
   unique_col col (snd (insert_row mk t))"
  by (auto simp: unique_col_def exists_where_iff)

lemma unique_update_same:
  assumes "unique_col col t" and "\<And>r. col (f r) = col r"
  shows "unique_col col (update_where p f t)"
proof -
  have "col \<circ> (\<lambda>r. if p r then f r else r) = col" using assms(2) by auto
  then show ?thesis using assms(1) by (simp add: unique_col_def)
qed

lemma unique_delete_where: "unique_col col t \<Longrightarrow> unique_col col (delete_where p t)"
  by (auto simp: unique_col_def distinct_map_filter)

lemma unique_colD:
  "unique_col col t \<Longrightarrow> r \<in> set (rows t) \<Longrightarrow> r' \<in> set (rows t) \<Longrightarrow> col r = col r' \<Longrightarrow> r = r'"
  by (auto simp: unique_col_def distinct_map inj_on_def)

text \<open>At most one row matches a test that pins a unique column.\<close>

lemma distinct_set_singleton:
  assumes "distinct xs" and "set xs = {x}"
  shows "xs = [x]"
proof (cases xs)
  case (Cons y ys)
  then have "y = x" and "set ys \<subseteq> {x}" using assms(2) by auto
  moreover have "y \<notin> set ys" using assms(1) Cons by simp
  ultimately have "set ys = {}" by (cases ys) auto
  with \<open>y = x\<close> Cons show ?thesis by simp
qed (use assms in simp)

lemma filter_unique:
  assumes "unique_col col t" and "r \<in> set (rows t)" and "p r"
    and "\<And>r'. r' \<in> set (rows t) \<Longrightarrow> p r' \<Longrightarrow> col r' = col r"
  shows "filter p (rows t) = [r]"
proof (rule distinct_set_singleton)
  show "distinct (filter p (rows t))"
    using assms(1) by (auto simp: unique_col_def distinct_map)
  show "set (filter p (rows t)) = {r}"
  proof
    show "set (filter p (rows t)) \<subseteq> {r}"
      using assms(2,4) unique_colD [OF assms(1)] by auto
  qed (use assms(2,3) in auto)
qed

text \<open>The rows an update leaves with a given identifier.\<close>

lemma update_by_key:
  "r \<in> set (rows t) \<Longrightarrow> key r = i \<Longrightarrow> f r \<in> set (rows (update_where (\<lambda>r. key r = i) f t))"
  by auto

section \<open>The table locale\<close>

text \<open>
  A table of the database is a pair of a getter and an updater. From the two laws the
  locale derives what the statements of the service rely on.
\<close>

locale table =
  fixes get :: "db \<Rightarrow> 'row tab"
    and upd :: "('row tab \<Rightarrow> 'row tab) \<Rightarrow> db \<Rightarrow> db"
    and key :: "'row \<Rightarrow> int"
  assumes get_upd: "get (upd f d) = f (get d)"
    and upd_id: "upd (\<lambda>t. t) d = d"
    and upd_upd: "upd f (upd g d) = upd (\<lambda>t. f (g t)) d"
begin

lemma wf_after_insert:
  "wf_tab key (get d) \<Longrightarrow> (\<And>i. key (mk i) = i) \<Longrightarrow>
   wf_tab key (get (upd (\<lambda>t. snd (insert_row mk t)) d))"
  by (simp add: get_upd wf_insert_row)

lemma wf_after_update:
  "wf_tab key (get d) \<Longrightarrow> (\<And>r. key (f r) = key r) \<Longrightarrow>
   wf_tab key (get (upd (update_where p f) d))"
  by (simp add: get_upd wf_update_where)

lemma wf_after_delete: "wf_tab key (get d) \<Longrightarrow> wf_tab key (get (upd (delete_where p) d))"
  by (simp add: get_upd wf_delete_where)

lemma inserted:
  "mk (next_id (get d)) \<in> set (rows (get (upd (\<lambda>t. snd (insert_row mk t)) d)))"
  by (simp add: get_upd)

lemma deleted:
  "\<not> exists_where p (get (upd (delete_where p) d))"
  by (simp add: get_upd exists_where_iff)

lemma update_twice:
  assumes "\<And>r. p (f r) = p r"
  shows "upd (update_where p g) (upd (update_where p f) d) = upd (update_where p (\<lambda>r. g (f r))) d"
proof -
  have "update_where p g (update_where p f t) = update_where p (\<lambda>r. g (f r)) t" for t
    using assms by (simp add: update_where_def)
  then show ?thesis by (simp add: upd_upd)
qed

end

interpretation users_tab: table users users_update u_id
  by unfold_locales (simp_all add: o_def)

interpretation settings_tab: table settings settings_update st_id
  by unfold_locales (simp_all add: o_def)

interpretation details_tab: table details details_update dt_id
  by unfold_locales (simp_all add: o_def)

interpretation devices_tab: table devices devices_update dv_id
  by unfold_locales (simp_all add: o_def)

interpretation activation_tab: table activation_codes activation_codes_update cd_id
  by unfold_locales (simp_all add: o_def)

interpretation reset_tab: table reset_codes reset_codes_update cd_id
  by unfold_locales (simp_all add: o_def)

interpretation second_factor_tab: table second_factor_codes second_factor_codes_update cd_id
  by unfold_locales (simp_all add: o_def)

interpretation verification_tab: table verification_codes verification_codes_update cd_id
  by unfold_locales (simp_all add: o_def)

interpretation entrepreneurs_tab: table entrepreneurs entrepreneurs_update en_id
  by unfold_locales (simp_all add: o_def)

interpretation locations_tab: table locations locations_update lc_id
  by unfold_locales (simp_all add: o_def)

interpretation actions_tab: table actions actions_update ac_id
  by unfold_locales (simp_all add: o_def)

end
