(* ===== verification/Go_Unicode.thy ===== *)
theory Go_Unicode imports Go_Strings begin

text \<open>
  \<open>for _, char := range s\<close> walks a Go string rune by rune: it decodes UTF-8 and yields
  U+FFFD, one byte wide, for every byte that starts no valid encoding. The classes
  \<open>unicode.IsDigit\<close> and \<open>unicode.IsUpper\<close> are written out for the Latin-1 runes, where Go
  has its own property table; the Unicode tables for the runes above are parameters.
\<close>

section \<open>UTF-8\<close>

definition bytes :: "string \<Rightarrow> nat list" where
  "bytes s = map of_char s"

definition cont_byte :: "nat \<Rightarrow> nat \<Rightarrow> nat \<Rightarrow> bool" where
  "cont_byte lo hi b = (lo \<le> b \<and> b \<le> hi)"

definition bad_rune :: "nat \<times> nat" where
  "bad_rune = (0xFFFD, 1)"

definition rune2 :: "nat \<Rightarrow> nat list \<Rightarrow> nat \<times> nat" where
  "rune2 b0 rest = (case rest of
      b1 # _ \<Rightarrow> if cont_byte 0x80 0xBF b1 then ((b0 - 0xC0) * 64 + (b1 - 0x80), 2) else bad_rune
    | _ \<Rightarrow> bad_rune)"

definition rune3 :: "nat \<Rightarrow> nat \<Rightarrow> nat \<Rightarrow> nat list \<Rightarrow> nat \<times> nat" where
  "rune3 lo hi b0 rest = (case rest of
      b1 # b2 # _ \<Rightarrow>
        if cont_byte lo hi b1 \<and> cont_byte 0x80 0xBF b2
        then ((b0 - 0xE0) * 4096 + (b1 - 0x80) * 64 + (b2 - 0x80), 3) else bad_rune
    | _ \<Rightarrow> bad_rune)"

definition rune4 :: "nat \<Rightarrow> nat \<Rightarrow> nat \<Rightarrow> nat list \<Rightarrow> nat \<times> nat" where
  "rune4 lo hi b0 rest = (case rest of
      b1 # b2 # b3 # _ \<Rightarrow>
        if cont_byte lo hi b1 \<and> cont_byte 0x80 0xBF b2 \<and> cont_byte 0x80 0xBF b3
        then ((b0 - 0xF0) * 262144 + (b1 - 0x80) * 4096 + (b2 - 0x80) * 64 + (b3 - 0x80), 4)
        else bad_rune
    | _ \<Rightarrow> bad_rune)"

definition decode_rune :: "nat \<Rightarrow> nat list \<Rightarrow> nat \<times> nat" where
  "decode_rune b0 rest =
     (if b0 < 0x80 then (b0, 1)
      else if b0 < 0xC2 then bad_rune
      else if b0 \<le> 0xDF then rune2 b0 rest
      else if b0 = 0xE0 then rune3 0xA0 0xBF b0 rest
      else if b0 = 0xED then rune3 0x80 0x9F b0 rest
      else if b0 \<le> 0xEF then rune3 0x80 0xBF b0 rest
      else if b0 = 0xF0 then rune4 0x90 0xBF b0 rest
      else if b0 \<le> 0xF3 then rune4 0x80 0xBF b0 rest
      else if b0 = 0xF4 then rune4 0x80 0x8F b0 rest
      else bad_rune)"

function byte_runes :: "nat list \<Rightarrow> nat list" where
  "byte_runes [] = []"
| "byte_runes (b # bs) =
     (let (r, k) = decode_rune b bs in r # byte_runes (drop (k - 1) bs))"
  by pat_completeness auto
termination by (relation "measure length") auto

definition runes :: "string \<Rightarrow> nat list" where
  "runes s = byte_runes (bytes s)"

section \<open>ASCII text\<close>

lemma rune2_high: "0xC2 \<le> b0 \<Longrightarrow> 0x80 \<le> fst (rune2 b0 rest)"
  by (auto simp: rune2_def bad_rune_def cont_byte_def split: list.splits)

lemma rune3_high:
  "0xE0 < b0 \<or> 0xA0 \<le> lo \<Longrightarrow> 0x80 \<le> lo \<Longrightarrow> 0x80 \<le> fst (rune3 lo hi b0 rest)"
  by (auto simp: rune3_def bad_rune_def cont_byte_def split: list.splits)

lemma rune4_high:
  "0xF0 < b0 \<or> 0x90 \<le> lo \<Longrightarrow> 0x80 \<le> fst (rune4 lo hi b0 rest)"
  by (auto simp: rune4_def bad_rune_def cont_byte_def split: list.splits)

lemma decode_rune_ascii [simp]: "b < 0x80 \<Longrightarrow> decode_rune b bs = (b, 1)"
  by (simp add: decode_rune_def)

lemma decode_rune_high: "\<not> b < 0x80 \<Longrightarrow> 0x80 \<le> fst (decode_rune b bs)"
  unfolding decode_rune_def
  by (auto simp: bad_rune_def intro!: rune2_high rune3_high rune4_high)

lemma byte_runes_ascii: "\<forall>b\<in>set bs. b < 0x80 \<Longrightarrow> byte_runes bs = bs"
  by (induction bs) auto

lemma byte_runes_high:
  "\<exists>b\<in>set bs. \<not> b < 0x80 \<Longrightarrow> \<exists>r\<in>set (byte_runes bs). \<not> r < 0x80"
proof (induction bs)
  case Nil
  then show ?case by simp
next
  case (Cons b bs)
  show ?case
  proof (cases "b < 0x80")
    case True
    with Cons show ?thesis by auto
  next
    case False
    from decode_rune_high [OF this, of bs] show ?thesis
      by (cases "decode_rune b bs") auto
  qed
qed

text \<open>A test that only ASCII runes pass can be made byte by byte.\<close>

lemma all_byte_runes:
  assumes "\<And>r. P r \<Longrightarrow> r < 0x80"
  shows "(\<forall>r\<in>set (byte_runes bs). P r) \<longleftrightarrow> (\<forall>b\<in>set bs. P b)"
proof (cases "\<forall>b\<in>set bs. b < 0x80")
  case True
  then show ?thesis by (simp add: byte_runes_ascii)
next
  case False
  then have "\<exists>r\<in>set (byte_runes bs). \<not> r < 0x80" using byte_runes_high by blast
  with False show ?thesis using assms by blast
qed

lemma all_runes:
  assumes "\<And>r. P r \<Longrightarrow> r < 0x80"
  shows "(\<forall>r\<in>set (runes s). P r) \<longleftrightarrow> (\<forall>c\<in>set s. P (of_char c))"
  using all_byte_runes [of P, OF assms] by (simp add: runes_def bytes_def)

definition ascii :: "string \<Rightarrow> bool" where
  "ascii s = (\<forall>c\<in>set s. (of_char c :: nat) < 0x80)"

lemma runes_ascii: "ascii s \<Longrightarrow> runes s = map of_char s"
  by (simp add: ascii_def runes_def bytes_def byte_runes_ascii)

lemma runes_eq_bytes:
  assumes "\<forall>r\<in>set (runes s). r < 0x80"
  shows "runes s = map of_char s" and "ascii s"
proof -
  have "ascii s" using all_runes [of "\<lambda>r. r < 0x80" s] assms by (simp add: ascii_def)
  then show "ascii s" and "runes s = map of_char s" by (simp_all add: runes_ascii)
qed

section \<open>Classes of runes\<close>

text \<open>The tables of the \<open>unicode\<close> package for the runes above U+00FF.\<close>

record unicode_tables =
  high_digit :: "nat \<Rightarrow> bool"
  high_upper :: "nat \<Rightarrow> bool"

definition unicode_IsDigit :: "unicode_tables \<Rightarrow> nat \<Rightarrow> bool" where
  "unicode_IsDigit u r = (if r \<le> 0xFF then 48 \<le> r \<and> r \<le> 57 else high_digit u r)"

definition unicode_IsUpper :: "unicode_tables \<Rightarrow> nat \<Rightarrow> bool" where
  "unicode_IsUpper u r =
     (if r \<le> 0xFF then (65 \<le> r \<and> r \<le> 90) \<or> (0xC0 \<le> r \<and> r \<le> 0xDE \<and> r \<noteq> 0xD7)
      else high_upper u r)"

definition rune_in :: "char \<Rightarrow> char \<Rightarrow> nat \<Rightarrow> bool" where
  "rune_in lo hi r = (of_char lo \<le> r \<and> r \<le> of_char hi)"

definition rune_is :: "string \<Rightarrow> nat \<Rightarrow> bool" where
  "rune_is cs r = (r \<in> set (map of_char cs))"

lemma rune_in_char [simp]: "rune_in lo hi (of_char c) = (of_char lo \<le> (of_char c :: nat) \<and> (of_char c :: nat) \<le> of_char hi)"
  by (simp add: rune_in_def)

lemma rune_is_char [simp]: "rune_is cs (of_char c) = (c \<in> set cs)"
  by (auto simp: rune_is_def)

end
