(* ===== verification/Regexes.thy ===== *)
theory Regexes imports Go_Unicode begin

text \<open>
  The regular expressions the format checks are compiled from (package \<open>regexp\<close>, RE2
  syntax without captures that matter): an abstract syntax whose leaves are classes of
  runes, its language, and a matcher by derivatives that is proved to decide it. The
  checks run the matcher; their specifications speak about the language.
\<close>

datatype rexp =
    Zero
  | One
  | Cls "nat \<Rightarrow> bool"
  | Alt rexp rexp
  | Seq rexp rexp
  | Star rexp

inductive_set star :: "'a list set \<Rightarrow> 'a list set" for L where
  star_Nil [simp, intro]: "[] \<in> star L"
| star_app: "u \<in> L \<Longrightarrow> v \<in> star L \<Longrightarrow> u @ v \<in> star L"

primrec lang :: "rexp \<Rightarrow> nat list set" where
  "lang Zero = {}"
| "lang One = {[]}"
| "lang (Cls p) = {[r] | r. p r}"
| "lang (Alt a b) = lang a \<union> lang b"
| "lang (Seq a b) = {u @ v | u v. u \<in> lang a \<and> v \<in> lang b}"
| "lang (Star a) = star (lang a)"

primrec nullable :: "rexp \<Rightarrow> bool" where
  "nullable Zero = False"
| "nullable One = True"
| "nullable (Cls p) = False"
| "nullable (Alt a b) = (nullable a \<or> nullable b)"
| "nullable (Seq a b) = (nullable a \<and> nullable b)"
| "nullable (Star a) = True"

primrec deriv :: "nat \<Rightarrow> rexp \<Rightarrow> rexp" where
  "deriv r Zero = Zero"
| "deriv r One = Zero"
| "deriv r (Cls p) = (if p r then One else Zero)"
| "deriv r (Alt a b) = Alt (deriv r a) (deriv r b)"
| "deriv r (Seq a b) =
     (if nullable a then Alt (Seq (deriv r a) b) (deriv r b) else Seq (deriv r a) b)"
| "deriv r (Star a) = Seq (deriv r a) (Star a)"

fun matches :: "rexp \<Rightarrow> nat list \<Rightarrow> bool" where
  "matches a [] = nullable a"
| "matches a (r # w) = matches (deriv r a) w"

section \<open>The matcher decides the language\<close>

lemma nullable_lang: "nullable a \<longleftrightarrow> [] \<in> lang a"
  by (induction a) auto

lemma star_Cons_split:
  "w \<in> star L \<Longrightarrow> w = r # v \<Longrightarrow> \<exists>v1 v2. v = v1 @ v2 \<and> r # v1 \<in> L \<and> v2 \<in> star L"
proof (induction arbitrary: v rule: star.induct)
  case star_Nil
  then show ?case by simp
next
  case (star_app u w)
  then show ?case by (cases u) auto
qed

lemma star_Cons:
  "r # v \<in> star L \<longleftrightarrow> (\<exists>v1 v2. v = v1 @ v2 \<and> r # v1 \<in> L \<and> v2 \<in> star L)"
  using star_Cons_split star_app [of "r # _"] by fastforce

lemma Cons_in_conc:
  "r # w \<in> {u @ v | u v. u \<in> A \<and> v \<in> B} \<longleftrightarrow>
   (\<exists>u v. w = u @ v \<and> r # u \<in> A \<and> v \<in> B) \<or> ([] \<in> A \<and> r # w \<in> B)"
  by (auto simp: Cons_eq_append_conv)

lemma deriv_lang: "w \<in> lang (deriv r a) \<longleftrightarrow> r # w \<in> lang a"
proof (induction a arbitrary: w)
  case (Seq a b)
  have "r # w \<in> lang (Seq a b) \<longleftrightarrow>
    (\<exists>u v. w = u @ v \<and> u \<in> lang (deriv r a) \<and> v \<in> lang b) \<or> (nullable a \<and> w \<in> lang (deriv r b))"
    by (simp only: lang.simps Cons_in_conc Seq.IH nullable_lang)
  then show ?case by auto
next
  case (Star a)
  show ?case by (auto simp: star_Cons Star.IH)
qed auto

lemma matches_lang: "matches a w \<longleftrightarrow> w \<in> lang a"
  by (induction w arbitrary: a) (auto simp: nullable_lang deriv_lang)

section \<open>Repetition\<close>

definition plus :: "rexp \<Rightarrow> rexp" where
  "plus a = Seq a (Star a)"

primrec at_most :: "nat \<Rightarrow> rexp \<Rightarrow> rexp" where
  "at_most 0 a = One"
| "at_most (Suc n) a = Alt One (Seq a (at_most n a))"

primrec times_then :: "nat \<Rightarrow> rexp \<Rightarrow> rexp \<Rightarrow> rexp" where
  "times_then 0 a b = b"
| "times_then (Suc n) a b = Seq a (times_then n a b)"

text \<open>\<open>a{m,n}\<close> and \<open>a{n}\<close>.\<close>

definition rep :: "nat \<Rightarrow> nat \<Rightarrow> rexp \<Rightarrow> rexp" where
  "rep m n a = times_then m a (at_most (n - m) a)"

lemma lang_star_Cls: "w \<in> star {[r] | r. p r} \<longleftrightarrow> (\<forall>r\<in>set w. p r)"
proof (induction w)
  case (Cons r w)
  then show ?case by (auto simp: star_Cons)
qed simp

lemma lang_Seq_Cls:
  "w \<in> lang (Seq (Cls p) b) \<longleftrightarrow> (\<exists>r v. w = r # v \<and> p r \<and> v \<in> lang b)"
proof
  assume "\<exists>r v. w = r # v \<and> p r \<and> v \<in> lang b"
  then obtain r v where "w = [r] @ v" "[r] \<in> lang (Cls p)" "v \<in> lang b" by auto
  then show "w \<in> lang (Seq (Cls p) b)" unfolding lang.simps(5) by blast
qed auto

lemma lang_plus_Cls: "w \<in> lang (plus (Cls p)) \<longleftrightarrow> w \<noteq> [] \<and> (\<forall>r\<in>set w. p r)"
  unfolding plus_def lang_Seq_Cls by (cases w) (auto simp: lang_star_Cls)

lemma lang_at_most_Cls: "w \<in> lang (at_most n (Cls p)) \<longleftrightarrow> length w \<le> n \<and> (\<forall>r\<in>set w. p r)"
proof (induction n arbitrary: w)
  case (Suc n)
  show ?case unfolding at_most.simps lang.simps(4) Un_iff lang_Seq_Cls
    by (cases w) (auto simp: Suc.IH)
qed auto

lemma lang_times_then_Cls:
  "w \<in> lang (times_then m (Cls p) b) \<longleftrightarrow>
   (\<exists>u v. w = u @ v \<and> length u = m \<and> (\<forall>r\<in>set u. p r) \<and> v \<in> lang b)"
proof (induction m arbitrary: w)
  case (Suc m)
  show ?case (is "?L = ?R")
  proof
    assume ?L
    then obtain r u v where "w = r # u @ v" "p r" "length u = m" "\<forall>r\<in>set u. p r" "v \<in> lang b"
      unfolding times_then.simps lang_Seq_Cls Suc.IH by blast
    then show ?R by (intro exI [of _ "r # u"] exI [of _ v]) auto
  next
    assume ?R
    then obtain u v where "w = u @ v" "length u = Suc m" "\<forall>r\<in>set u. p r" "v \<in> lang b" by blast
    then show ?L unfolding times_then.simps lang_Seq_Cls Suc.IH by (cases u) auto
  qed
qed auto

lemma lang_rep_Cls:
  assumes "m \<le> n"
  shows "w \<in> lang (rep m n (Cls p)) \<longleftrightarrow> m \<le> length w \<and> length w \<le> n \<and> (\<forall>r\<in>set w. p r)"
    (is "?L = ?R")
proof
  assume ?L
  then show ?R using assms by (auto simp: rep_def lang_times_then_Cls lang_at_most_Cls)
next
  assume R: ?R
  then have "w = take m w @ drop m w \<and> length (take m w) = m \<and> (\<forall>r\<in>set (take m w). p r)
      \<and> drop m w \<in> lang (at_most (n - m) (Cls p))"
    by (auto simp: lang_at_most_Cls dest: in_set_takeD in_set_dropD)
  then show ?L unfolding rep_def lang_times_then_Cls by blast
qed

lemma lang_Seq_iff: "w \<in> lang (Seq a b) \<longleftrightarrow> (\<exists>u v. w = u @ v \<and> u \<in> lang a \<and> v \<in> lang b)"
  by auto

lemma lang_Cls_iff: "w \<in> lang (Cls p) \<longleftrightarrow> (\<exists>r. w = [r] \<and> p r)"
  by auto

text \<open>Every rune of a word of the language passes one of the classes.\<close>

primrec classes :: "rexp \<Rightarrow> nat \<Rightarrow> bool" where
  "classes Zero = (\<lambda>r. False)"
| "classes One = (\<lambda>r. False)"
| "classes (Cls p) = p"
| "classes (Alt a b) = (\<lambda>r. classes a r \<or> classes b r)"
| "classes (Seq a b) = (\<lambda>r. classes a r \<or> classes b r)"
| "classes (Star a) = classes a"

lemma star_classes: "w \<in> star L \<Longrightarrow> (\<And>u r. u \<in> L \<Longrightarrow> r \<in> set u \<Longrightarrow> P r) \<Longrightarrow> r \<in> set w \<Longrightarrow> P r"
  by (induction rule: star.induct) auto

lemma lang_classes: "w \<in> lang a \<Longrightarrow> r \<in> set w \<Longrightarrow> classes a r"
proof (induction a arbitrary: w r)
  case (Star a)
  then show ?case by (auto elim!: star_classes)
qed auto

end
