(* ===== verification/Formats.thy ===== *)
theory Formats imports Regexes begin

text \<open>
  app/utils/controller_utils.go and app/utils/user_utils.go: the format checks the
  controllers run on request fields, the six-digit codes, and the list helpers. Each
  check is translated as written; the lemmas relate it to a direct description of the
  accepted strings.
\<close>

section \<open>Membership and status codes\<close>

fun Contains :: "string list \<Rightarrow> string \<Rightarrow> bool" where
  "Contains [] target = False"
| "Contains (s # ss) target = (s = target \<or> Contains ss target)"

fun ContainsInt :: "int list \<Rightarrow> int \<Rightarrow> bool" where
  "ContainsInt [] target = False"
| "ContainsInt (i # ss) target = (i = target \<or> ContainsInt ss target)"

definition IsSuccessStatusCode :: "int \<Rightarrow> bool" where
  "IsSuccessStatusCode statusCode =
     (statusCode = 200 \<or> statusCode = 201 \<or> statusCode = 202 \<or> statusCode = 204)"

lemma Contains_iff [simp]: "Contains ss target \<longleftrightarrow> target \<in> set ss"
  by (induction ss) auto

lemma ContainsInt_iff [simp]: "ContainsInt ss target \<longleftrightarrow> target \<in> set ss"
  by (induction ss) auto

section \<open>Codes\<close>

text \<open>\<open>randGen.IntN(900000)\<close> is the argument; its result is below 900000.\<close>

definition GenerateRandomCode :: "int \<Rightarrow> int" where
  "GenerateRandomCode intn = intn + 100000"

text \<open>\<open>GenerateRandomCodes n\<close>: the \<open>i\<close>-th draw gives the \<open>i\<close>-th code.\<close>

fun GenerateRandomCodes :: "nat \<Rightarrow> (nat \<Rightarrow> int) \<Rightarrow> int list" where
  "GenerateRandomCodes 0 draw = []"
| "GenerateRandomCodes (Suc n) draw =
     GenerateRandomCodes n draw @ [GenerateRandomCode (draw n)]"

fun all_ascii_digits :: "nat list \<Rightarrow> bool" where
  "all_ascii_digits [] = True"
| "all_ascii_digits (r # rs) =
     (if r < of_char CHR ''0'' \<or> r > of_char CHR ''9'' then False else all_ascii_digits rs)"

definition CheckTokenFormat :: "string \<Rightarrow> bool" where
  "CheckTokenFormat token = (if length token \<noteq> 6 then False else all_ascii_digits (runes token))"

definition CheckPhoneFormat :: "string \<Rightarrow> bool" where
  "CheckPhoneFormat phone =
     (if length phone < 10 \<or> length phone > 16 then False
      else if \<not> has_prefix phone ''+'' then False
      else let numberPart = drop 1 phone in
        if length numberPart = 0 then False
        else all_ascii_digits (runes numberPart))"

lemma all_ascii_digits_iff: "all_ascii_digits rs \<longleftrightarrow> (\<forall>r\<in>set rs. 48 \<le> r \<and> r \<le> 57)"
  by (induction rs) auto

lemma all_ascii_digits_runes: "all_ascii_digits (runes s) \<longleftrightarrow> (\<forall>c\<in>set s. is_digit_char c)"
  unfolding all_ascii_digits_iff is_digit_char_def by (rule all_runes) simp

lemma token_format: "CheckTokenFormat s \<longleftrightarrow> length s = 6 \<and> (\<forall>c\<in>set s. is_digit_char c)"
  by (simp add: CheckTokenFormat_def all_ascii_digits_runes)

lemma phone_format:
  "CheckPhoneFormat s \<longleftrightarrow>
   (\<exists>ds. s = CHR ''+'' # ds \<and> 9 \<le> length ds \<and> length ds \<le> 15 \<and> (\<forall>c\<in>set ds. is_digit_char c))"
  by (cases s)
    (auto simp: CheckPhoneFormat_def has_prefix_def all_ascii_digits_runes Let_def)

lemma code_range:
  "0 \<le> intn \<Longrightarrow> intn < 900000 \<Longrightarrow> 100000 \<le> GenerateRandomCode intn \<and> GenerateRandomCode intn < 1000000"
  by (simp add: GenerateRandomCode_def)

lemma code_token_format:
  assumes "0 \<le> intn" and "intn < 900000"
  shows "CheckTokenFormat (itoa (GenerateRandomCode intn))"
proof -
  let ?n = "nat (GenerateRandomCode intn)"
  have range: "100000 \<le> ?n" "?n < 1000000" using code_range [OF assms] by linarith+
  then have "itoa (GenerateRandomCode intn) = nat_digits ?n" by (simp add: itoa_def)
  with range show ?thesis
    by (auto simp: token_format length_nat_digits_6 dest: nat_digits_are_digits)
qed

lemma length_GenerateRandomCodes [simp]: "length (GenerateRandomCodes n draw) = n"
  by (induction n) auto

lemma GenerateRandomCodes_nth:
  "i < n \<Longrightarrow> GenerateRandomCodes n draw ! i = GenerateRandomCode (draw i)"
  by (induction n) (auto simp: nth_append less_Suc_eq)

section \<open>E-mail addresses\<close>

definition local_class :: "nat \<Rightarrow> bool" where
  "local_class r = (rune_in CHR ''a'' CHR ''z'' r \<or> rune_in CHR ''A'' CHR ''Z'' r \<or>
     rune_in CHR ''0'' CHR ''9'' r \<or> rune_is ''._%+-'' r)"

definition domain_class :: "nat \<Rightarrow> bool" where
  "domain_class r = (rune_in CHR ''a'' CHR ''z'' r \<or> rune_in CHR ''A'' CHR ''Z'' r \<or>
     rune_in CHR ''0'' CHR ''9'' r \<or> rune_is ''.-'' r)"

definition letter_class :: "nat \<Rightarrow> bool" where
  "letter_class r = (rune_in CHR ''a'' CHR ''z'' r \<or> rune_in CHR ''A'' CHR ''Z'' r)"

definition emailRegex :: rexp where
  "emailRegex =
     Seq (plus (Cls local_class)) (Seq (Cls (rune_is ''@'')) (Seq (plus (Cls domain_class))
       (Seq (Cls (rune_is ''.'')) (rep 2 63 (Cls letter_class)))))"

definition CheckEmailFormat :: "string \<Rightarrow> bool" where
  "CheckEmailFormat mail =
     (if length mail = 0 \<or> length mail > 254 then False
      else if \<not> matches emailRegex (runes mail) then False
      else let parts = split_on CHR ''@'' mail in
        if length parts \<noteq> 2 then False
        else if length (parts ! 0) > 64 then False
        else if contains_sub (parts ! 1) ''..'' then False
        else True)"

lemma classes_low:
  "local_class r \<Longrightarrow> r < 0x80" "domain_class r \<Longrightarrow> r < 0x80" "letter_class r \<Longrightarrow> r < 0x80"
  by (auto simp: local_class_def domain_class_def letter_class_def rune_in_def rune_is_def)

lemma rune_is_low: "rune_is ''@'' r \<Longrightarrow> r < 0x80" "rune_is ''.'' r \<Longrightarrow> r < 0x80"
  by (auto simp: rune_is_def)

lemma emailRegex_words:
  "w \<in> lang emailRegex \<longleftrightarrow>
   (\<exists>l d t. w = l @ [64] @ d @ [46] @ t \<and> l \<noteq> [] \<and> (\<forall>r\<in>set l. local_class r) \<and>
      d \<noteq> [] \<and> (\<forall>r\<in>set d. domain_class r) \<and>
      2 \<le> length t \<and> length t \<le> 63 \<and> (\<forall>r\<in>set t. letter_class r))"
  unfolding emailRegex_def lang_Seq_iff lang_plus_Cls lang_Cls_iff
    lang_rep_Cls [of 2 63, simplified]
  by (fastforce simp: rune_is_def)

lemma matches_ascii: 
  assumes "matches a (runes s)" and "\<And>r. classes a r \<Longrightarrow> r < 0x80"
  shows "runes s = map of_char s" and "ascii s"
proof -
  have "\<forall>r\<in>set (runes s). r < 0x80"
    using assms lang_classes [of "runes s" a] by (auto simp: matches_lang)
  then show "runes s = map of_char s" and "ascii s" by (rule runes_eq_bytes)+
qed


definition email_shape :: "string \<Rightarrow> string \<Rightarrow> string \<Rightarrow> bool" where
  "email_shape l d t \<longleftrightarrow>
     l \<noteq> [] \<and> length l \<le> 64 \<and> (\<forall>c\<in>set l. local_class (of_char c)) \<and>
     d \<noteq> [] \<and> (\<forall>c\<in>set d. domain_class (of_char c)) \<and>
     2 \<le> length t \<and> length t \<le> 63 \<and> (\<forall>c\<in>set t. letter_class (of_char c)) \<and>
     \<not> contains_sub (d @ ''.'' @ t) ''..'' \<and> length l + length d + length t \<le> 252"

lemma no_at:
  "\<forall>c\<in>set l. local_class (of_char c) \<Longrightarrow> CHR ''@'' \<notin> set l"
  "\<forall>c\<in>set l. domain_class (of_char c) \<Longrightarrow> CHR ''@'' \<notin> set l"
  "\<forall>c\<in>set l. letter_class (of_char c) \<Longrightarrow> CHR ''@'' \<notin> set l"
  by (force simp: local_class_def domain_class_def letter_class_def)+

lemma email_split:
  assumes "\<forall>c\<in>set l. local_class (of_char c)" and "\<forall>c\<in>set d. domain_class (of_char c)"
    and "\<forall>c\<in>set t. letter_class (of_char c)"
  shows "split_on CHR ''@'' (l @ ''@'' @ d @ ''.'' @ t) = [l, d @ ''.'' @ t]"
proof -
  have "CHR ''@'' \<notin> set (d @ ''.'' @ t)" using no_at(2,3) assms by auto
  then show ?thesis using split_on_append [OF no_at(1) [OF assms(1)]] by (simp add: split_on_no_sep)
qed

lemma char_of_dot_at: "char_of (64 :: nat) = CHR ''@''" "char_of (46 :: nat) = CHR ''.''"
  by code_simp+

lemma email_regex_chars:
  "matches emailRegex (runes mail) \<longleftrightarrow>
   (\<exists>l d t. mail = l @ ''@'' @ d @ ''.'' @ t \<and> l \<noteq> [] \<and> (\<forall>c\<in>set l. local_class (of_char c)) \<and>
      d \<noteq> [] \<and> (\<forall>c\<in>set d. domain_class (of_char c)) \<and>
      2 \<le> length t \<and> length t \<le> 63 \<and> (\<forall>c\<in>set t. letter_class (of_char c)))"
    (is "?L \<longleftrightarrow> ?R")
proof
  assume L: ?L
  have "runes mail = map of_char mail"
  proof (rule runes_eq_bytes(1), rule ballI)
    fix r assume "r \<in> set (runes mail)"
    with L obtain l d t where "runes mail = l @ [64] @ d @ [46] @ t"
      "\<forall>r\<in>set l. local_class r" "\<forall>r\<in>set d. domain_class r" "\<forall>r\<in>set t. letter_class r"
      unfolding matches_lang emailRegex_words by blast
    with \<open>r \<in> set (runes mail)\<close> show "r < 0x80" using classes_low by auto
  qed
  with L obtain l d t where *: "map of_char mail = l @ 64 # d @ 46 # t" "l \<noteq> []" "d \<noteq> []"
    "\<forall>r\<in>set l. local_class r" "\<forall>r\<in>set d. domain_class r" "\<forall>r\<in>set t. letter_class r"
    "2 \<le> length t" "length t \<le> 63"
    unfolding matches_lang emailRegex_words by auto
  have ofc: "of_char (char_of r :: char) = r" if "r < 0x80" for r :: nat using that by simp
  have "mail = map char_of (map (of_char :: char \<Rightarrow> nat) mail)" by (simp add: o_def)
  also have "\<dots> = map char_of l @ ''@'' @ map char_of d @ ''.'' @ map char_of t"
    unfolding *(1) by (simp add: char_of_dot_at)
  finally show ?R using * classes_low ofc
    by (intro exI [of _ "map char_of l"] exI [of _ "map char_of d"] exI [of _ "map char_of t"])
      (auto simp del: of_char_of)
next
  assume ?R
  then obtain l d t where *: "mail = l @ ''@'' @ d @ ''.'' @ t" "l \<noteq> []" "d \<noteq> []"
    "\<forall>c\<in>set l. local_class (of_char c)" "\<forall>c\<in>set d. domain_class (of_char c)"
    "2 \<le> length t" "length t \<le> 63" "\<forall>c\<in>set t. letter_class (of_char c)" by blast
  then have "ascii mail" using classes_low by (auto simp: ascii_def)
  then have "runes mail = map of_char l @ [64] @ map of_char d @ [46] @ map of_char t"
    using *(1) by (simp add: runes_ascii)
  with * show ?L unfolding matches_lang emailRegex_words
    by (intro exI [of _ "map of_char l"] exI [of _ "map of_char d"] exI [of _ "map of_char t"]) auto
qed

lemma email_format:
  "CheckEmailFormat mail \<longleftrightarrow> (\<exists>l d t. mail = l @ ''@'' @ d @ ''.'' @ t \<and> email_shape l d t)"
proof
  assume "CheckEmailFormat mail"
  then have len: "length mail \<le> 254" and m: "matches emailRegex (runes mail)"
    and parts: "length (split_on CHR ''@'' mail ! 0) \<le> 64"
      "\<not> contains_sub (split_on CHR ''@'' mail ! 1) ''..''"
    by (auto simp: CheckEmailFormat_def Let_def split: if_splits)
  from m obtain l d t where *: "mail = l @ ''@'' @ d @ ''.'' @ t" "l \<noteq> []" "d \<noteq> []"
    "\<forall>c\<in>set l. local_class (of_char c)" "\<forall>c\<in>set d. domain_class (of_char c)"
    "2 \<le> length t" "length t \<le> 63" "\<forall>c\<in>set t. letter_class (of_char c)"
    unfolding email_regex_chars by blast
  then have "split_on CHR ''@'' mail = [l, d @ ''.'' @ t]" by (simp only: email_split)
  with * len parts show "\<exists>l d t. mail = l @ ''@'' @ d @ ''.'' @ t \<and> email_shape l d t"
    by (intro exI [of _ l] exI [of _ d] exI [of _ t]) (auto simp: email_shape_def)
next
  assume "\<exists>l d t. mail = l @ ''@'' @ d @ ''.'' @ t \<and> email_shape l d t"
  then obtain l d t where *: "mail = l @ ''@'' @ d @ ''.'' @ t" "email_shape l d t" by blast
  then have "split_on CHR ''@'' mail = [l, d @ ''.'' @ t]"
    using email_split [of l d t] by (simp add: email_shape_def)
  moreover have "matches emailRegex (runes mail)"
    unfolding email_regex_chars using * by (auto simp: email_shape_def)
  ultimately show "CheckEmailFormat mail"
    using * by (auto simp: CheckEmailFormat_def email_shape_def)
qed

section \<open>Passwords\<close>

definition special_class :: "nat \<Rightarrow> bool" where
  "special_class = rune_is ''!@#%^&*(),.?\":{}|<>''"

text \<open>An unanchored expression of one class matches where some rune is in the class.\<close>

definition specialCharRegex :: rexp where
  "specialCharRegex =
     Seq (Star (Cls (\<lambda>_. True))) (Seq (Cls special_class) (Star (Cls (\<lambda>_. True))))"

fun scan_password :: "unicode_tables \<Rightarrow> nat list \<Rightarrow> bool \<times> bool \<Rightarrow> bool \<times> bool" where
  "scan_password u [] flags = flags"
| "scan_password u (char # rest) (hasDigit, hasUpper) =
     scan_password u rest
       (if unicode_IsDigit u char then True else hasDigit,
        if unicode_IsUpper u char then True else hasUpper)"

definition CheckPasswordFormat :: "unicode_tables \<Rightarrow> string \<Rightarrow> bool" where
  "CheckPasswordFormat u password =
     (if length password < 12 \<or> length password > 128 then False
      else if contains_sub password ''$'' then False
      else let hasSpecial = matches specialCharRegex (runes password);
               (hasDigit, hasUpper) = scan_password u (runes password) (False, False)
           in hasSpecial \<and> hasDigit \<and> hasUpper)"

lemma scan_password_flags:
  "scan_password u rs (d, p) =
   (d \<or> (\<exists>r\<in>set rs. unicode_IsDigit u r), p \<or> (\<exists>r\<in>set rs. unicode_IsUpper u r))"
  by (induction rs arbitrary: d p) auto

lemma specialCharRegex_words:
  "w \<in> lang specialCharRegex \<longleftrightarrow> (\<exists>r\<in>set w. special_class r)"
proof -
  have any: "v \<in> lang (Star (Cls (\<lambda>_. True)))" for v
    using lang_star_Cls [of v "\<lambda>_. True"] by simp
  have "w \<in> lang specialCharRegex \<longleftrightarrow> (\<exists>u r v. w = u @ r # v \<and> special_class r)"
    unfolding specialCharRegex_def lang_Seq_iff [of _ "Star _"] lang_Seq_Cls using any by blast
  then show ?thesis by (metis in_set_conv_decomp)
qed

lemma contains_char: "contains_sub s [c] \<longleftrightarrow> c \<in> set s"
  unfolding contains_sub_iff by (metis append_Cons append_Nil in_set_conv_decomp)

lemma password_format:
  "CheckPasswordFormat u s \<longleftrightarrow>
   12 \<le> length s \<and> length s \<le> 128 \<and> CHR ''$'' \<notin> set s \<and>
   (\<exists>r\<in>set (runes s). special_class r) \<and> (\<exists>r\<in>set (runes s). unicode_IsDigit u r) \<and>
   (\<exists>r\<in>set (runes s). unicode_IsUpper u r)"
  by (auto simp: CheckPasswordFormat_def contains_char scan_password_flags matches_lang
      specialCharRegex_words)

section \<open>Bank account numbers\<close>

definition upper_class :: "nat \<Rightarrow> bool" where
  "upper_class = rune_in CHR ''A'' CHR ''Z''"

definition digit_class :: "nat \<Rightarrow> bool" where
  "digit_class = rune_in CHR ''0'' CHR ''9''"

definition alnum_class :: "nat \<Rightarrow> bool" where
  "alnum_class r = (upper_class r \<or> digit_class r)"

definition ibanRegex :: rexp where
  "ibanRegex = times_then 2 (Cls upper_class) (times_then 2 (Cls digit_class)
     (rep 11 30 (Cls alnum_class)))"

definition swiftRegex :: rexp where
  "swiftRegex = times_then 4 (Cls upper_class) (times_then 2 (Cls upper_class)
     (times_then 2 (Cls alnum_class) (Alt One (rep 3 3 (Cls alnum_class)))))"

definition remove_spaces :: "string \<Rightarrow> string" where
  "remove_spaces s = filter (\<lambda>c. c \<noteq> CHR '' '') s"

definition CheckIBANFormat :: "string \<Rightarrow> bool" where
  "CheckIBANFormat iban0 = (let iban = remove_spaces iban0 in
     if length iban < 15 \<or> length iban > 34 then False
     else matches ibanRegex (runes iban))"

definition CheckSWIFTFormat :: "string \<Rightarrow> bool" where
  "CheckSWIFTFormat swift =
     (if length swift \<noteq> 8 \<and> length swift \<noteq> 11 then False
      else matches swiftRegex (runes swift))"

lemma bank_classes_low:
  "upper_class r \<Longrightarrow> r < 0x80" "digit_class r \<Longrightarrow> r < 0x80" "alnum_class r \<Longrightarrow> r < 0x80"
  by (auto simp: alnum_class_def upper_class_def digit_class_def rune_in_def)

lemma exact_Cls:
  "w \<in> lang (times_then m (Cls p) b) \<longleftrightarrow>
   m \<le> length w \<and> (\<forall>r\<in>set (take m w). p r) \<and> drop m w \<in> lang b"
  unfolding lang_times_then_Cls
proof
  assume "m \<le> length w \<and> (\<forall>r\<in>set (take m w). p r) \<and> drop m w \<in> lang b"
  then show "\<exists>u v. w = u @ v \<and> length u = m \<and> (\<forall>r\<in>set u. p r) \<and> v \<in> lang b"
    by (intro exI [of _ "take m w"] exI [of _ "drop m w"]) simp
qed auto

lemma ibanRegex_words:
  "w \<in> lang ibanRegex \<longleftrightarrow>
   15 \<le> length w \<and> length w \<le> 34 \<and> (\<forall>r\<in>set (take 2 w). upper_class r) \<and>
   (\<forall>r\<in>set (take 2 (drop 2 w)). digit_class r) \<and> (\<forall>r\<in>set (drop 4 w). alnum_class r)"
  unfolding ibanRegex_def exact_Cls lang_rep_Cls [of 11 30, simplified] by auto

lemma swiftRegex_words:
  "w \<in> lang swiftRegex \<longleftrightarrow>
   (length w = 8 \<or> length w = 11) \<and> (\<forall>r\<in>set (take 6 w). upper_class r) \<and>
   (\<forall>r\<in>set (drop 6 w). alnum_class r)"
proof -
  have 6: "set (take 6 w) = set (take 4 w) \<union> set (take 2 (drop 4 w))"
    using take_add [of 4 2 w] by simp
  have "drop 6 w = take 2 (drop 6 w) @ drop 8 w"
    using append_take_drop_id [of 2 "drop 6 w"] by simp
  then have rest: "set (drop 6 w) = set (take 2 (drop 6 w)) \<union> set (drop 8 w)"
    by (metis set_append)
  show ?thesis
    unfolding swiftRegex_def exact_Cls lang.simps(4) Un_iff lang_rep_Cls [of 3 3, simplified]
    using 6 rest by auto
qed

text \<open>Where only ASCII runes can match, matching runes is matching bytes.\<close>

lemma matches_bytes:
  assumes "\<And>r. classes a r \<Longrightarrow> r < 0x80"
  shows "matches a (runes s) \<longleftrightarrow> map of_char s \<in> lang a"
proof (cases "ascii s")
  case True
  then show ?thesis by (simp add: matches_lang runes_ascii)
next
  case False
  then have "\<exists>r\<in>set (runes s). \<not> r < 0x80" using runes_eq_bytes(2) by blast
  moreover have "\<exists>r\<in>set (map of_char s). \<not> r < (0x80 :: nat)" using False by (auto simp: ascii_def)
  ultimately show ?thesis
    using assms lang_classes [of "runes s" a] lang_classes [of "map of_char s" a]
    by (metis matches_lang)
qed

definition is_upper_char :: "char \<Rightarrow> bool" where
  "is_upper_char c = upper_class (of_char c)"

definition is_alnum_char :: "char \<Rightarrow> bool" where
  "is_alnum_char c = (is_upper_char c \<or> is_digit_char c)"

lemma char_classes:
  "upper_class (of_char c) = is_upper_char c" "digit_class (of_char c) = is_digit_char c"
  "alnum_class (of_char c) = is_alnum_char c"
  by (auto simp: is_upper_char_def is_alnum_char_def is_digit_char_def alnum_class_def
      digit_class_def)

definition iban_shape :: "string \<Rightarrow> bool" where
  "iban_shape t \<longleftrightarrow> 15 \<le> length t \<and> length t \<le> 34 \<and> list_all is_upper_char (take 2 t) \<and>
     list_all is_digit_char (take 2 (drop 2 t)) \<and> list_all is_alnum_char (drop 4 t)"

definition swift_shape :: "string \<Rightarrow> bool" where
  "swift_shape t \<longleftrightarrow> (length t = 8 \<or> length t = 11) \<and> list_all is_upper_char (take 6 t) \<and>
     list_all is_alnum_char (drop 6 t)"

lemma classes_times_then [simp]:
  "classes (times_then n a b) r \<Longrightarrow> classes a r \<or> classes b r"
  by (induction n) auto

lemma classes_at_most: "classes (at_most n a) r \<Longrightarrow> classes a r"
  by (induction n) auto

lemma classes_bank:
  "classes ibanRegex r \<Longrightarrow> r < 0x80" "classes swiftRegex r \<Longrightarrow> r < 0x80"
  by (auto simp: ibanRegex_def swiftRegex_def rep_def bank_classes_low
      dest!: classes_times_then classes_at_most)

lemma iban_format: "CheckIBANFormat s \<longleftrightarrow> iban_shape (remove_spaces s)"
  by (auto simp: CheckIBANFormat_def Let_def iban_shape_def matches_bytes [OF classes_bank(1)]
      ibanRegex_words list_all_iff drop_map take_map char_classes)

lemma swift_format: "CheckSWIFTFormat s \<longleftrightarrow> swift_shape s"
  by (auto simp: CheckSWIFTFormat_def swift_shape_def matches_bytes [OF classes_bank(2)]
      swiftRegex_words list_all_iff drop_map take_map char_classes)

section \<open>Removing ids\<close>

fun mark_removed :: "int list \<Rightarrow> (int \<Rightarrow> bool option) \<Rightarrow> (int \<Rightarrow> bool option)" where
  "mark_removed [] remMap = remMap"
| "mark_removed (remID # remIDs) remMap = mark_removed remIDs (remMap(remID \<mapsto> True))"

text \<open>A missing key of a Go map reads as the zero value, \<open>false\<close>.\<close>

definition map_true :: "(int \<Rightarrow> bool option) \<Rightarrow> int \<Rightarrow> bool" where
  "map_true m k = (case m k of None \<Rightarrow> False | Some b \<Rightarrow> b)"

fun keep_unmarked :: "(int \<Rightarrow> bool option) \<Rightarrow> int list \<Rightarrow> int list \<Rightarrow> int list" where
  "keep_unmarked remMap [] result = result"
| "keep_unmarked remMap (i # subIDs) result =
     keep_unmarked remMap subIDs (if \<not> map_true remMap i then result @ [i] else result)"

definition RemoveIDs :: "int list \<Rightarrow> int list \<Rightarrow> int list" where
  "RemoveIDs subIDs remIDs = keep_unmarked (mark_removed remIDs Map.empty) subIDs []"

lemma map_true_mark: "map_true (mark_removed remIDs m) i \<longleftrightarrow> i \<in> set remIDs \<or> map_true m i"
  by (induction remIDs arbitrary: m) (auto simp: map_true_def)

lemma keep_unmarked_filter:
  "keep_unmarked m subIDs result = result @ filter (\<lambda>i. \<not> map_true m i) subIDs"
  by (induction subIDs arbitrary: result) auto

lemma RemoveIDs_filter: "RemoveIDs subIDs remIDs = filter (\<lambda>i. i \<notin> set remIDs) subIDs"
proof -
  have "\<not> map_true Map.empty i" for i by (simp add: map_true_def)
  then show ?thesis by (simp add: RemoveIDs_def keep_unmarked_filter map_true_mark)
qed

section \<open>What the checks accept\<close>

text \<open>\<open>CheckEmailFormat\<close> accepts exactly the addresses of the form local@domain.tld with a
  local part of 1 to 64 characters of its class, no second at sign, a domain of its class
  without two consecutive dots, a top-level domain of 2 to 63 letters and at most 254 bytes
  in all; the check that \<open>strings.Split\<close> gave two parts never rejects anything more.\<close>

theorem email_accepts_exactly:
  "CheckEmailFormat mail \<longleftrightarrow> (\<exists>l d t. mail = l @ ''@'' @ d @ ''.'' @ t \<and> email_shape l d t)"
  by (rule email_format)

text \<open>\<open>CheckPasswordFormat\<close> accepts exactly the passwords of 12 to 128 bytes without a dollar
  sign (so that no password can forge a field separator of the stored hash) that hold a
  special character, a digit and an upper-case letter, whatever the Unicode tables are.\<close>

theorem password_accepts_exactly:
  "CheckPasswordFormat u s \<longleftrightarrow>
   12 \<le> length s \<and> length s \<le> 128 \<and> CHR ''$'' \<notin> set s \<and>
   list_ex special_class (runes s) \<and> list_ex (unicode_IsDigit u) (runes s) \<and>
   list_ex (unicode_IsUpper u) (runes s)"
  unfolding password_format list_ex_iff ..

text \<open>Every code the service draws is a six-digit number, and its decimal text is accepted by
  \<open>CheckTokenFormat\<close>, the check the controllers apply to the code a client sends back.\<close>

theorem drawn_codes_pass_token_check:
  assumes "0 \<le> intn" and "intn < 900000"
  shows "100000 \<le> GenerateRandomCode intn \<and> GenerateRandomCode intn \<le> 999999 \<and>
    CheckTokenFormat (itoa (GenerateRandomCode intn))"
  using code_range [OF assms] code_token_format [OF assms] by simp

theorem drawn_codes_pass_token_check_witness:
  "CheckTokenFormat (itoa (GenerateRandomCode 23456))"
  using drawn_codes_pass_token_check [of 23456] by simp

text \<open>\<open>CheckIBANFormat\<close> accepts exactly the texts that, without their spaces, have 15 to 34
  characters: two capitals, two digits, then capitals and digits; \<open>CheckSWIFTFormat\<close> exactly
  six capitals and two or five capitals or digits.\<close>

theorem bank_codes_accept_exactly:
  "(CheckIBANFormat iban \<longleftrightarrow> iban_shape (remove_spaces iban)) \<and>
   (CheckSWIFTFormat swift \<longleftrightarrow> swift_shape swift)"
  by (simp add: iban_format swift_format)

end
