(* ===== verification/Entities.thy ===== *)
theory Entities imports Store Formats begin

text \<open>
  The entities the ent client returns (app/models/ent), their eager-loaded edges, the
  queries of app/repositories/handlers.go that decide which edges are loaded, the cache
  keys and the role summaries built from an entity (app/utils), and the JWT claims of
  app/models/utils/auth.go. An edge that was not requested and an edge without a row are
  both the nil pointer, here \<open>None\<close>: the service only ever tests for nil.
\<close>

section \<open>Entities\<close>

record settings_ent =
  se_row :: settings_row
  se_owner :: "user_row option"
  se_target :: "device_row option"

record details_ent =
  de_row :: details_row
  de_entrepreneur :: "entrepreneur_row option"
  de_locations :: "location_row list"

record second_factor_ent =
  sf_row :: code_row
  sf_target :: "device_row option"

record role_ent =
  re_row :: role_row
  re_permissions :: "permission_row list"

record user =
  usr :: user_row
  e_details :: "details_ent option"
  e_settings :: "settings_ent option"
  e_activation :: "code_row option"
  e_verification :: "code_row option"
  e_second_factor :: "second_factor_ent option"
  e_reset :: "code_row option"
  e_devices :: "device_row list"
  e_roles :: "role_ent list"

definition uid :: "user \<Rightarrow> int" where "uid u = u_id (usr u)"

definition mail_of :: "user \<Rightarrow> string" where "mail_of u = u_mail (usr u)"

text \<open>A NULL phone scans into the empty string.\<close>

definition phone_of :: "user \<Rightarrow> string" where
  "phone_of u = (case u_phone (usr u) of None \<Rightarrow> [] | Some p \<Rightarrow> p)"

section \<open>Queries\<close>

record settings_load =
  sl_owner :: bool
  sl_target :: bool

record user_query =
  uq_where :: "db \<Rightarrow> user_row \<Rightarrow> bool"
  uq_settings :: "settings_load option"
  uq_devices :: bool
  uq_details :: bool
  uq_roles :: bool
  uq_reset :: bool
  uq_activation :: bool
  uq_verification :: bool
  uq_second_factor :: bool

definition Query :: user_query where
  "Query = \<lparr>uq_where = (\<lambda>d u. True), uq_settings = None, uq_devices = False, uq_details = False,
     uq_roles = False, uq_reset = False, uq_activation = False, uq_verification = False,
     uq_second_factor = False\<rparr>"

definition Where :: "(db \<Rightarrow> user_row \<Rightarrow> bool) \<Rightarrow> user_query \<Rightarrow> user_query" where
  "Where p q = q\<lparr>uq_where := (\<lambda>d u. uq_where q d u \<and> p d u)\<rparr>"

text \<open>\<open>WithUserSettings(func(usq) { usq.WithOwner() })\<close>: the owner edge and no other.\<close>

definition with_owner :: settings_load where
  "with_owner = \<lparr>sl_owner = True, sl_target = False\<rparr>"

definition BlacklistedEQ :: "bool \<Rightarrow> db \<Rightarrow> user_row \<Rightarrow> bool" where
  "BlacklistedEQ b d u = (u_blacklisted u = b)"

definition RemovedEQ :: "bool \<Rightarrow> db \<Rightarrow> user_row \<Rightarrow> bool" where
  "RemovedEQ b d u = (u_removed u = b)"

definition IDEQ :: "int \<Rightarrow> db \<Rightarrow> user_row \<Rightarrow> bool" where
  "IDEQ i d u = (u_id u = i)"

definition MailEQ :: "string \<Rightarrow> db \<Rightarrow> user_row \<Rightarrow> bool" where
  "MailEQ m d u = (u_mail u = m)"

definition PhoneEQ :: "string \<Rightarrow> db \<Rightarrow> user_row \<Rightarrow> bool" where
  "PhoneEQ p d u = (u_phone u = Some p)"

definition has_code :: "(db \<Rightarrow> code_row tab) \<Rightarrow> string \<Rightarrow> db \<Rightarrow> user_row \<Rightarrow> bool" where
  "has_code tbl c d u = list_ex (\<lambda>r. cd_user r = u_id u \<and> cd_code r = c) (rows (tbl d))"

definition visible :: "user_query \<Rightarrow> user_query" where
  "visible q = Where (RemovedEQ False) (Where (BlacklistedEQ False) q)"

definition withFullUserData :: "user_query \<Rightarrow> user_query" where
  "withFullUserData q = (visible q)\<lparr>uq_settings := Some with_owner, uq_devices := True,
     uq_details := True, uq_roles := True, uq_reset := True, uq_activation := True,
     uq_verification := True, uq_second_factor := True\<rparr>"

definition withFunctionalData :: "user_query \<Rightarrow> user_query" where
  "withFunctionalData q = (visible q)\<lparr>uq_settings := Some with_owner, uq_devices := True,
     uq_roles := True, uq_second_factor := True\<rparr>"

definition withFunctionalDetailsData :: "user_query \<Rightarrow> user_query" where
  "withFunctionalDetailsData q = (visible q)\<lparr>uq_settings := Some with_owner, uq_devices := True,
     uq_details := True, uq_second_factor := True\<rparr>"

definition withSettings :: "user_query \<Rightarrow> user_query" where
  "withSettings q = (visible q)\<lparr>uq_settings := Some with_owner\<rparr>"

definition withCodes :: "user_query \<Rightarrow> user_query" where
  "withCodes q = (visible q)\<lparr>uq_settings := Some with_owner, uq_reset := True,
     uq_activation := True, uq_verification := True, uq_second_factor := True\<rparr>"

definition withRoles :: "user_query \<Rightarrow> user_query" where
  "withRoles q = (visible q)\<lparr>uq_roles := True\<rparr>"

section \<open>Running a query\<close>

definition load_settings :: "db \<Rightarrow> settings_load \<Rightarrow> settings_row \<Rightarrow> settings_ent" where
  "load_settings d l s = \<lparr>se_row = s,
     se_owner = (if sl_owner l then find (\<lambda>u. u_id u = st_user s) (rows (users d)) else None),
     se_target = (if sl_target l
       then find (\<lambda>v. dv_settings_target v = Some (st_id s)) (rows (devices d)) else None)\<rparr>"

definition load_details :: "db \<Rightarrow> details_row \<Rightarrow> details_ent" where
  "load_details d r = \<lparr>de_row = r,
     de_entrepreneur = find (\<lambda>e. en_user_details e = Some (dt_id r)) (rows (entrepreneurs d)),
     de_locations = filter (\<lambda>l. lc_user_details l = dt_id r) (rows (locations d))\<rparr>"

definition load_second_factor :: "db \<Rightarrow> code_row \<Rightarrow> second_factor_ent" where
  "load_second_factor d c = \<lparr>sf_row = c,
     sf_target = find (\<lambda>v. dv_second_factor_code v = Some (cd_id c)) (rows (devices d))\<rparr>"

definition load_role :: "db \<Rightarrow> role_row \<Rightarrow> role_ent" where
  "load_role d r = \<lparr>re_row = r,
     re_permissions = filter (\<lambda>p. (pm_id p, rl_id r) \<in> set (role_permissions d)) (permissions d)\<rparr>"

definition owned :: "int \<Rightarrow> code_row tab \<Rightarrow> code_row option" where
  "owned i t = find (\<lambda>c. cd_user c = i) (rows t)"

definition load_user :: "db \<Rightarrow> user_query \<Rightarrow> user_row \<Rightarrow> user" where
  "load_user d q u = \<lparr>usr = u,
     e_details = (if uq_details q
       then map_option (load_details d) (find (\<lambda>r. dt_user r = u_id u) (rows (details d))) else None),
     e_settings = (case uq_settings q of None \<Rightarrow> None
       | Some l \<Rightarrow> map_option (load_settings d l) (find (\<lambda>r. st_user r = u_id u) (rows (settings d)))),
     e_activation = (if uq_activation q then owned (u_id u) (activation_codes d) else None),
     e_verification = (if uq_verification q then owned (u_id u) (verification_codes d) else None),
     e_second_factor = (if uq_second_factor q
       then map_option (load_second_factor d) (owned (u_id u) (second_factor_codes d)) else None),
     e_reset = (if uq_reset q then owned (u_id u) (reset_codes d) else None),
     e_devices = (if uq_devices q then filter (\<lambda>v. dv_user v = u_id u) (rows (devices d)) else []),
     e_roles = (if uq_roles q
       then map (load_role d) (filter (\<lambda>r. (u_id u, rl_id r) \<in> set (user_roles d)) (roles d)) else [])\<rparr>"

text \<open>\<open>Only\<close>: exactly one match, or a typed error.\<close>

definition Only :: "user_query \<Rightarrow> db \<Rightarrow> error + user" where
  "Only q d = (case filter (uq_where q d) (rows (users d)) of
      [] \<Rightarrow> Inl (ENotFound ''user'')
    | [u] \<Rightarrow> Inr (load_user d q u)
    | _ \<Rightarrow> Inl (ENotSingular ''user''))"

definition getUserPrivate :: "(db \<Rightarrow> user_row \<Rightarrow> bool) \<Rightarrow> db \<Rightarrow> error + user" where
  "getUserPrivate p = Only (Where p (withFullUserData Query))"

definition getUserFunctionalWithDetails :: "(db \<Rightarrow> user_row \<Rightarrow> bool) \<Rightarrow> db \<Rightarrow> error + user" where
  "getUserFunctionalWithDetails p = Only (Where p (withFunctionalDetailsData Query))"

definition getUserFunctional :: "(db \<Rightarrow> user_row \<Rightarrow> bool) \<Rightarrow> db \<Rightarrow> error + user" where
  "getUserFunctional p = Only (Where p (withFunctionalData Query))"

definition getUserWithRoles :: "(db \<Rightarrow> user_row \<Rightarrow> bool) \<Rightarrow> db \<Rightarrow> error + user" where
  "getUserWithRoles p = Only (Where p (withRoles Query))"

definition getUserWithSettings :: "(db \<Rightarrow> user_row \<Rightarrow> bool) \<Rightarrow> db \<Rightarrow> error + user" where
  "getUserWithSettings p = Only (Where p (withSettings Query))"

definition getUserWithCodes :: "(db \<Rightarrow> user_row \<Rightarrow> bool) \<Rightarrow> db \<Rightarrow> error + user" where
  "getUserWithCodes p = Only (Where p (withCodes Query))"

text \<open>The transaction-level lookups of handlers.go, named as there with a prefix.\<close>

definition txGetUserByID :: "int \<Rightarrow> db \<Rightarrow> error + user" where
  "txGetUserByID i = getUserPrivate (IDEQ i)"

definition txGetUserPublicByID :: "int \<Rightarrow> db \<Rightarrow> error + user" where
  "txGetUserPublicByID i =
     Only (Where (RemovedEQ False) (Where (BlacklistedEQ False) (Where (IDEQ i) Query)))"

definition txGetUserFunctionalByID :: "int \<Rightarrow> db \<Rightarrow> error + user" where
  "txGetUserFunctionalByID i = getUserFunctional (IDEQ i)"

definition txGetUserByMailWithCodes :: "string \<Rightarrow> db \<Rightarrow> error + user" where
  "txGetUserByMailWithCodes m = getUserWithCodes (MailEQ m)"

definition txGetUserByMail :: "string \<Rightarrow> db \<Rightarrow> error + user" where
  "txGetUserByMail m = getUserFunctional (MailEQ m)"

definition txGetUserByPhone :: "string \<Rightarrow> db \<Rightarrow> error + user" where
  "txGetUserByPhone p = getUserFunctional (PhoneEQ p)"

definition txGetUserBySecondFactor :: "string \<Rightarrow> db \<Rightarrow> error + user" where
  "txGetUserBySecondFactor c = getUserFunctional (has_code second_factor_codes c)"

definition txGetUserByActivationCode :: "string \<Rightarrow> db \<Rightarrow> error + user" where
  "txGetUserByActivationCode c = getUserWithSettings (has_code activation_codes c)"

definition txGetUserByVerificationCode :: "string \<Rightarrow> db \<Rightarrow> error + user" where
  "txGetUserByVerificationCode c = getUserWithRoles (has_code verification_codes c)"

definition txGetUserByResetCode :: "string \<Rightarrow> db \<Rightarrow> error + user" where
  "txGetUserByResetCode c = getUserWithSettings (has_code reset_codes c)"

named_theorems query_defs "definitions of the queries and their loads"

lemmas [query_defs] = Query_def Where_def visible_def with_owner_def withFullUserData_def
  withFunctionalData_def withFunctionalDetailsData_def withSettings_def withCodes_def withRoles_def
  getUserPrivate_def getUserFunctionalWithDetails_def getUserFunctional_def getUserWithRoles_def
  getUserWithSettings_def getUserWithCodes_def txGetUserByID_def txGetUserPublicByID_def
  txGetUserFunctionalByID_def txGetUserByMailWithCodes_def txGetUserByMail_def txGetUserByPhone_def
  txGetUserBySecondFactor_def txGetUserByActivationCode_def txGetUserByVerificationCode_def
  txGetUserByResetCode_def BlacklistedEQ_def RemovedEQ_def IDEQ_def MailEQ_def PhoneEQ_def
  has_code_def

section \<open>What the queries load\<close>

lemma Only_InrD:
  assumes "Only q d = Inr u"
  shows "filter (uq_where q d) (rows (users d)) = [usr u]" and "u = load_user d q (usr u)"
proof -
  obtain r where r: "filter (uq_where q d) (rows (users d)) = [r]" and u: "u = load_user d q r"
  proof (cases "filter (uq_where q d) (rows (users d))")
    case (Cons r rs)
    then show thesis using assms that by (cases rs) (simp_all add: Only_def)
  qed (use assms in \<open>simp add: Only_def\<close>)
  have "usr u = r" by (simp add: u load_user_def)
  with r u show "filter (uq_where q d) (rows (users d)) = [usr u]" and "u = load_user d q (usr u)"
    by simp_all
qed

lemma Only_member:
  assumes "Only q d = Inr u"
  shows "usr u \<in> set (rows (users d))" and "uq_where q d (usr u)"
proof -
  have "usr u \<in> set (filter (uq_where q d) (rows (users d)))"
    using Only_InrD(1) [OF assms] by simp
  then show "usr u \<in> set (rows (users d))" and "uq_where q d (usr u)" by auto
qed

lemma Only_found:
  "filter (uq_where q d) (rows (users d)) = [r] \<Longrightarrow> Only q d = Inr (load_user d q r)"
  by (simp add: Only_def)

lemma Only_none:
  assumes "\<And>r. r \<in> set (rows (users d)) \<Longrightarrow> \<not> uq_where q d r"
  shows "Only q d = Inl (ENotFound ''user'')"
proof -
  have "filter (uq_where q d) (rows (users d)) = []" using assms by (simp add: filter_empty_conv)
  then show ?thesis by (simp add: Only_def)
qed

text \<open>No query of the repository loads the second-factor target of the settings.\<close>

lemma load_settings_no_target [simp]: "se_target (load_settings d with_owner s) = None"
  by (simp add: load_settings_def with_owner_def)

lemma load_user_simps [simp]:
  "usr (load_user d q u) = u" "uid (load_user d q u) = u_id u"
  "e_details (load_user d q u) = (if uq_details q
     then map_option (load_details d) (find (\<lambda>r. dt_user r = u_id u) (rows (details d))) else None)"
  "e_settings (load_user d q u) = (case uq_settings q of None \<Rightarrow> None
     | Some l \<Rightarrow> map_option (load_settings d l) (find (\<lambda>r. st_user r = u_id u) (rows (settings d))))"
  "e_activation (load_user d q u) = (if uq_activation q then owned (u_id u) (activation_codes d) else None)"
  "e_verification (load_user d q u) = (if uq_verification q then owned (u_id u) (verification_codes d) else None)"
  "e_second_factor (load_user d q u) = (if uq_second_factor q
     then map_option (load_second_factor d) (owned (u_id u) (second_factor_codes d)) else None)"
  "e_reset (load_user d q u) = (if uq_reset q then owned (u_id u) (reset_codes d) else None)"
  "e_devices (load_user d q u) = (if uq_devices q then filter (\<lambda>v. dv_user v = u_id u) (rows (devices d)) else [])"
  "e_roles (load_user d q u) = (if uq_roles q
     then map (load_role d) (filter (\<lambda>r. (u_id u, rl_id r) \<in> set (user_roles d)) (roles d)) else [])"
  by (simp_all add: load_user_def uid_def)

text \<open>What a query asks for, once it has been built.\<close>

lemma loads_functional [simp]:
  "uq_settings (Where p (withFunctionalData Query)) = Some with_owner"
  "uq_devices (Where p (withFunctionalData Query))"
  "\<not> uq_details (Where p (withFunctionalData Query))"
  "uq_roles (Where p (withFunctionalData Query))"
  "\<not> uq_reset (Where p (withFunctionalData Query))"
  "\<not> uq_activation (Where p (withFunctionalData Query))"
  "\<not> uq_verification (Where p (withFunctionalData Query))"
  "uq_second_factor (Where p (withFunctionalData Query))"
  by (simp_all add: query_defs)

lemma loads_settings [simp]:
  "uq_settings (Where p (withSettings Query)) = Some with_owner"
  "\<not> uq_devices (Where p (withSettings Query))" "\<not> uq_details (Where p (withSettings Query))"
  "\<not> uq_roles (Where p (withSettings Query))" "\<not> uq_reset (Where p (withSettings Query))"
  "\<not> uq_activation (Where p (withSettings Query))" "\<not> uq_verification (Where p (withSettings Query))"
  "\<not> uq_second_factor (Where p (withSettings Query))"
  by (simp_all add: query_defs)

lemma loads_codes [simp]:
  "uq_settings (Where p (withCodes Query)) = Some with_owner"
  "\<not> uq_devices (Where p (withCodes Query))" "\<not> uq_details (Where p (withCodes Query))"
  "\<not> uq_roles (Where p (withCodes Query))" "uq_reset (Where p (withCodes Query))"
  "uq_activation (Where p (withCodes Query))" "uq_verification (Where p (withCodes Query))"
  "uq_second_factor (Where p (withCodes Query))"
  by (simp_all add: query_defs)

lemma loads_full [simp]:
  "uq_settings (Where p (withFullUserData Query)) = Some with_owner"
  "uq_details (Where p (withFullUserData Query))"
  "uq_activation (Where p (withFullUserData Query))"
  "uq_verification (Where p (withFullUserData Query))"
  by (simp_all add: query_defs)

lemma loads_details [simp]:
  "uq_settings (Where p (withFunctionalDetailsData Query)) = Some with_owner"
  "uq_details (Where p (withFunctionalDetailsData Query))"
  by (simp_all add: query_defs)

lemma loads_roles [simp]:
  "uq_settings (Where p (withRoles Query)) = None" "\<not> uq_details (Where p (withRoles Query))"
  "uq_roles (Where p (withRoles Query))"
  by (simp_all add: query_defs)

lemma where_visible:
  "uq_where (Where p (withFunctionalData Query)) d r \<longleftrightarrow> \<not> u_blacklisted r \<and> \<not> u_removed r \<and> p d r"
  "uq_where (Where p (withSettings Query)) d r \<longleftrightarrow> \<not> u_blacklisted r \<and> \<not> u_removed r \<and> p d r"
  "uq_where (Where p (withCodes Query)) d r \<longleftrightarrow> \<not> u_blacklisted r \<and> \<not> u_removed r \<and> p d r"
  "uq_where (Where p (withFullUserData Query)) d r \<longleftrightarrow> \<not> u_blacklisted r \<and> \<not> u_removed r \<and> p d r"
  "uq_where (Where p (withFunctionalDetailsData Query)) d r \<longleftrightarrow> \<not> u_blacklisted r \<and> \<not> u_removed r \<and> p d r"
  "uq_where (Where p (withRoles Query)) d r \<longleftrightarrow> \<not> u_blacklisted r \<and> \<not> u_removed r \<and> p d r"
  by (auto simp: Query_def Where_def visible_def BlacklistedEQ_def RemovedEQ_def
      withFullUserData_def withFunctionalData_def withFunctionalDetailsData_def withSettings_def
      withCodes_def withRoles_def)

section \<open>Cache keys\<close>

definition GetUserKeys :: "user \<Rightarrow> string list" where
  "GetUserKeys u =
     (if e_details u = None then [''user-public:'' @ itoa (uid u)]
      else [''user:'' @ itoa (uid u), ''user:email:'' @ mail_of u])"

definition GetAllUserKeys :: "user \<Rightarrow> string list" where
  "GetAllUserKeys u =
     [''user-public:'' @ itoa (uid u), ''user:'' @ itoa (uid u), ''user:email:'' @ mail_of u]"

lemma GetUserKeys_subset: "set (GetUserKeys u) \<subseteq> set (GetAllUserKeys u)"
  by (auto simp: GetUserKeys_def GetAllUserKeys_def)

section \<open>Roles and claims\<close>

record permission_info =
  pi_name :: string
  pi_view :: bool
  pi_add :: bool
  pi_edit :: bool
  pi_delete :: bool

record role_info =
  ri_name :: string
  ri_description :: string
  ri_permissions :: "permission_info list"

record claims =
  cl_user_id :: int
  cl_device_id :: int
  cl_user_roles :: "role_info list"
  cl_expires_at :: "int option"
  cl_issued_at :: "int option"

fun marshal_permissions :: "permission_row list \<Rightarrow> permission_info list \<Rightarrow> permission_info list" where
  "marshal_permissions [] acc = acc"
| "marshal_permissions (perm # perms) acc = marshal_permissions perms
     (acc @ [\<lparr>pi_name = pm_name perm, pi_view = pm_view perm, pi_add = pm_add perm,
              pi_edit = pm_edit perm, pi_delete = pm_delete perm\<rparr>])"

fun marshal_roles :: "role_ent list \<Rightarrow> role_info list \<Rightarrow> role_info list" where
  "marshal_roles [] acc = acc"
| "marshal_roles (r # rs) acc = marshal_roles rs
     (acc @ [\<lparr>ri_name = rl_name (re_row r), ri_description = rl_description (re_row r),
              ri_permissions = marshal_permissions (re_permissions r) []\<rparr>])"

definition MarshalUserRoles :: "role_ent list \<Rightarrow> role_info list" where
  "MarshalUserRoles rs = marshal_roles rs []"

fun ValidateRoles :: "role_info list \<Rightarrow> string list \<Rightarrow> bool" where
  "ValidateRoles [] names = False"
| "ValidateRoles (role # rs) names = (if Contains names (ri_name role) then True else ValidateRoles rs names)"

lemma marshal_permissions_map:
  "marshal_permissions ps acc = acc @ map (\<lambda>perm. \<lparr>pi_name = pm_name perm, pi_view = pm_view perm,
     pi_add = pm_add perm, pi_edit = pm_edit perm, pi_delete = pm_delete perm\<rparr>) ps"
  by (induction ps arbitrary: acc) auto

lemma marshal_roles_map:
  "marshal_roles rs acc = acc @ map (\<lambda>r. \<lparr>ri_name = rl_name (re_row r),
     ri_description = rl_description (re_row r),
     ri_permissions = marshal_permissions (re_permissions r) []\<rparr>) rs"
  by (induction rs arbitrary: acc) auto

lemma ValidateRoles_iff: "ValidateRoles rs names \<longleftrightarrow> (\<exists>r\<in>set rs. ri_name r \<in> set names)"
  by (induction rs) auto

lemma names_MarshalUserRoles [simp]:
  "map ri_name (MarshalUserRoles rs) = map (rl_name \<circ> re_row) rs"
  by (simp add: MarshalUserRoles_def marshal_roles_map o_def)

end
