(* ===== verification/World.thy ===== *)
theory World imports Entities begin

text \<open>
  The world a call of the service runs in, and the environment it runs against. The world
  is the database, the state of the Redis server, the log of messages the Kafka producer
  accepted and a counter of the external calls made so far. The environment holds what is
  not code of this repository: which call fails, the clock, the random source, the Redis
  commands, the cryptographic primitives, the JWT library, the edge statements of ent's
  \<open>sqlgraph\<close> package and the JSON form of an entity. Every external call consumes one tick
  of the counter, so that a fault, a time or a random value may be different for each.
\<close>

record 'r world =
  dbase :: db
  redis :: 'r
  outbox :: "(string \<times> string) list"
  tick :: nat

record 'r env =
  db_fault :: "nat \<Rightarrow> bool"
  now_at :: "nat \<Rightarrow> int"
  proc_start :: int
  rand_intn :: "nat \<Rightarrow> int"
  rand_read :: "nat \<Rightarrow> nat \<Rightarrow> string option"
  uuid_new :: "nat \<Rightarrow> string"
  redis_fault :: "nat \<Rightarrow> error option"
  redis_get :: "'r \<Rightarrow> int \<Rightarrow> string \<Rightarrow> string option"
  redis_set :: "'r \<Rightarrow> int \<Rightarrow> string \<Rightarrow> string \<Rightarrow> int \<Rightarrow> 'r"
  redis_del :: "'r \<Rightarrow> string \<Rightarrow> 'r"
  kafka_fault :: "nat \<Rightarrow> error option"
  aead_seal :: "string \<Rightarrow> string \<Rightarrow> string \<Rightarrow> string"
  aead_open :: "string \<Rightarrow> string \<Rightarrow> string \<Rightarrow> string option"
  cipher_key :: string
  hmac_sha256 :: "string \<Rightarrow> string \<Rightarrow> string"
  argon2_id :: "string \<Rightarrow> string \<Rightarrow> nat \<Rightarrow> nat \<Rightarrow> nat \<Rightarrow> nat \<Rightarrow> string"
  numeric_date :: "int \<Rightarrow> int"
  jwt_sign :: "claims \<Rightarrow> error + string"
  jwt_parse :: "int \<Rightarrow> string \<Rightarrow> error + claims"
  ctx_done :: "nat \<Rightarrow> bool"
  rfc3339 :: "int \<Rightarrow> string"
  time_ok :: "string \<Rightarrow> bool"
  user_json :: "user \<Rightarrow> string"
  json_user :: "string \<Rightarrow> user option"
  sg_link :: "(int \<times> int option) list \<Rightarrow> int \<Rightarrow> int list \<Rightarrow> (int \<times> int option) list option"
  sg_clear :: "(int \<times> int option) list \<Rightarrow> int \<Rightarrow> (int \<times> int option) list"
  sg_add_m2m :: "(int \<times> int) list \<Rightarrow> int \<Rightarrow> int list \<Rightarrow> (int \<times> int) list option"
  sg_remove_m2m :: "(int \<times> int) list \<Rightarrow> int \<Rightarrow> int list \<Rightarrow> (int \<times> int) list"

section \<open>Durations\<close>

definition second :: int where "second = 1000000000"
definition minute :: int where "minute = 60 * second"
definition hour :: int where "hour = 60 * minute"

text \<open>\<open>Time.Unix\<close>: whole seconds since the epoch.\<close>

definition unix :: "int \<Rightarrow> int" where
  "unix t = t div second"

lemma unix_mono: "s \<le> t \<Longrightarrow> unix s \<le> unix t"
  by (simp add: unix_def second_def zdiv_mono1)

section \<open>External calls\<close>

definition take_tick :: "('r world, nat) io" where
  "take_tick = (\<lambda>w. (Ok (tick w), w\<lparr>tick := tick w + 1\<rparr>))"

definition time_now :: "'r env \<Rightarrow> ('r world, int) io" where
  "time_now env = (\<lambda>w. (Ok (now_at env (tick w)), w\<lparr>tick := tick w + 1\<rparr>))"

definition new_uuid :: "'r env \<Rightarrow> ('r world, string) io" where
  "new_uuid env = (\<lambda>w. (Ok (uuid_new env (tick w)), w\<lparr>tick := tick w + 1\<rparr>))"

definition draw_code :: "'r env \<Rightarrow> ('r world, int) io" where
  "draw_code env = (\<lambda>w. (Ok (GenerateRandomCode (rand_intn env (tick w))), w\<lparr>tick := tick w + 1\<rparr>))"

definition read_random :: "'r env \<Rightarrow> nat \<Rightarrow> ('r world, string) io" where
  "read_random env n = (\<lambda>w.
     (case rand_read env (tick w) n of None \<Rightarrow> Err (EIO ''rand'') | Some b \<Rightarrow> Ok b,
      w\<lparr>tick := tick w + 1\<rparr>))"

definition is_ctx_done :: "'r env \<Rightarrow> ('r world, bool) io" where
  "is_ctx_done env = (\<lambda>w. (Ok (ctx_done env (tick w)), w\<lparr>tick := tick w + 1\<rparr>))"

text \<open>One call of the ent client: it fails, or runs its statement on the database.\<close>

definition db_call :: "'r env \<Rightarrow> (db \<Rightarrow> error + 'a \<times> db) \<Rightarrow> ('r world, 'a) io" where
  "db_call env f = (\<lambda>w. let w' = w\<lparr>tick := tick w + 1\<rparr> in
     if db_fault env (tick w) then (Err (EIO ''database''), w')
     else (case f (dbase w) of
         Inl e \<Rightarrow> (Err e, w')
       | Inr (x, d) \<Rightarrow> (Ok x, w'\<lparr>dbase := d\<rparr>)))"

definition db_query :: "'r env \<Rightarrow> (db \<Rightarrow> error + 'a) \<Rightarrow> ('r world, 'a) io" where
  "db_query env q = db_call env (\<lambda>d. case q d of Inl e \<Rightarrow> Inl e | Inr x \<Rightarrow> Inr (x, d))"

section \<open>Transactions\<close>

text \<open>
  \<open>WithTransaction\<close>: the body's effects on the database are kept exactly when the body
  returns without error and the commit succeeds; an error rolls back and is returned (or
  wrapped, when the rollback itself fails), a panic rolls back and is raised again. Redis
  and Kafka are not part of the transaction.
\<close>

definition rolled_back :: "db \<Rightarrow> 'r world \<Rightarrow> 'r world" where
  "rolled_back d w = w\<lparr>dbase := d, tick := tick w + 1\<rparr>"

definition WithTransaction :: "'r env \<Rightarrow> ('r world, 'a) io \<Rightarrow> ('r world, 'a) io" where
  "WithTransaction env fn = (\<lambda>w0.
     let w = w0\<lparr>tick := tick w0 + 1\<rparr> in
     if db_fault env (tick w0) then (Err (EMsg ''failed to create transaction''), w)
     else (case fn w of
         (Ok x, w') \<Rightarrow>
           if db_fault env (tick w') then (Err (EIO ''commit''), rolled_back (dbase w0) w')
           else (Ok x, w'\<lparr>tick := tick w' + 1\<rparr>)
       | (Err e, w') \<Rightarrow>
           if db_fault env (tick w')
           then (Err (EWrap ''failed to rollback transaction'' e), rolled_back (dbase w0) w')
           else (Err e, rolled_back (dbase w0) w')
       | (Panic, w') \<Rightarrow> (Panic, rolled_back (dbase w0) w')
       | (Hang, w') \<Rightarrow> (Hang, rolled_back (dbase w0) w')))"

lemma WithTransaction_OkE [ok_elims]:
  assumes "WithTransaction env fn w = (Ok x, w')"
  obtains w1 where "fn (w\<lparr>tick := tick w + 1\<rparr>) = (Ok x, w1)" and "w' = w1\<lparr>tick := tick w1 + 1\<rparr>"
    and "\<not> db_fault env (tick w)" and "\<not> db_fault env (tick w1)"
  using assms
  by (auto simp: WithTransaction_def Let_def split: if_splits prod.splits outcome.splits)

lemma WithTransaction_run:
  assumes "fn (w\<lparr>tick := tick w + 1\<rparr>) = (Ok x, w1)"
    and "\<not> db_fault env (tick w)" and "\<not> db_fault env (tick w1)"
  shows "WithTransaction env fn w = (Ok x, w1\<lparr>tick := tick w1 + 1\<rparr>)"
  using assms by (simp add: WithTransaction_def Let_def)

lemma WithTransaction_not_Ok:
  assumes "WithTransaction env fn w = (r, w')" and "\<forall>x. r \<noteq> Ok x"
  shows "dbase w' = dbase w"
  using assms
  by (auto simp: WithTransaction_def Let_def rolled_back_def split: if_splits prod.splits outcome.splits)

lemma db_call_OkE [ok_elims]:
  assumes "db_call env f w = (Ok x, w')"
  obtains d where "f (dbase w) = Inr (x, d)" and "w' = w\<lparr>tick := tick w + 1, dbase := d\<rparr>"
    and "\<not> db_fault env (tick w)"
  using assms by (auto simp: db_call_def Let_def split: if_splits sum.splits)

lemma db_query_OkE [ok_elims]:
  assumes "db_query env q w = (Ok x, w')"
  obtains "q (dbase w) = Inr x" and "w' = w\<lparr>tick := tick w + 1\<rparr>" and "\<not> db_fault env (tick w)"
  using assms unfolding db_query_def by (auto elim!: db_call_OkE split: sum.splits)

lemma db_query_not_panic [simp]: "fst (db_query env q w) \<noteq> Panic"
  by (auto simp: db_query_def db_call_def Let_def split: sum.splits)

lemma db_query_world [simp]: "snd (db_query env q w) = w\<lparr>tick := tick w + 1\<rparr>"
  by (auto simp: db_query_def db_call_def Let_def split: sum.splits)

lemma db_query_run:
  "\<not> db_fault env (tick w) \<Longrightarrow> q (dbase w) = Inr x \<Longrightarrow> db_query env q w = (Ok x, w\<lparr>tick := tick w + 1\<rparr>)"
  by (simp add: db_query_def db_call_def)

lemma db_query_run_Inl:
  "\<not> db_fault env (tick w) \<Longrightarrow> q (dbase w) = Inl e \<Longrightarrow> db_query env q w = (Err e, w\<lparr>tick := tick w + 1\<rparr>)"
  by (simp add: db_query_def db_call_def)

lemma time_now_OkE [ok_elims]:
  assumes "time_now env w = (Ok t, w')"
  obtains "t = now_at env (tick w)" and "w' = w\<lparr>tick := tick w + 1\<rparr>"
  using assms by (simp add: time_now_def)

lemma new_uuid_OkE [ok_elims]:
  assumes "new_uuid env w = (Ok t, w')"
  obtains "t = uuid_new env (tick w)" and "w' = w\<lparr>tick := tick w + 1\<rparr>"
  using assms by (simp add: new_uuid_def)

lemma draw_code_OkE [ok_elims]:
  assumes "draw_code env w = (Ok t, w')"
  obtains "t = GenerateRandomCode (rand_intn env (tick w))" and "w' = w\<lparr>tick := tick w + 1\<rparr>"
  using assms by (simp add: draw_code_def)

lemma is_ctx_done_OkE [ok_elims]:
  assumes "is_ctx_done env w = (Ok t, w')"
  obtains "t = ctx_done env (tick w)" and "w' = w\<lparr>tick := tick w + 1\<rparr>"
  using assms by (simp add: is_ctx_done_def)

lemma read_random_OkE [ok_elims]:
  assumes "read_random env n w = (Ok b, w')"
  obtains "rand_read env (tick w) n = Some b" and "w' = w\<lparr>tick := tick w + 1\<rparr>"
  using assms by (auto simp: read_random_def split: option.splits)

lemma run_calls [simp]:
  "take_tick w = (Ok (tick w), w\<lparr>tick := tick w + 1\<rparr>)"
  "time_now env w = (Ok (now_at env (tick w)), w\<lparr>tick := tick w + 1\<rparr>)"
  "new_uuid env w = (Ok (uuid_new env (tick w)), w\<lparr>tick := tick w + 1\<rparr>)"
  "draw_code env w = (Ok (GenerateRandomCode (rand_intn env (tick w))), w\<lparr>tick := tick w + 1\<rparr>)"
  "is_ctx_done env w = (Ok (ctx_done env (tick w)), w\<lparr>tick := tick w + 1\<rparr>)"
  by (simp_all add: take_tick_def time_now_def new_uuid_def draw_code_def is_ctx_done_def)

section \<open>What an operation leaves alone\<close>

text \<open>
  \<open>same_db\<close>: the database is untouched; \<open>same_bus\<close>: no message was sent; \<open>same_all\<close>: only the
  counter moved. \<open>holds P\<close>: a property of the database is not lost. The locale collects the
  composition rules once for each of them.
\<close>

definition same_db :: "'r world \<Rightarrow> 'r world \<Rightarrow> bool" where
  "same_db w w' \<longleftrightarrow> dbase w' = dbase w"

definition same_bus :: "'r world \<Rightarrow> 'r world \<Rightarrow> bool" where
  "same_bus w w' \<longleftrightarrow> outbox w' = outbox w"

definition same_all :: "'r world \<Rightarrow> 'r world \<Rightarrow> bool" where
  "same_all w w' \<longleftrightarrow> dbase w' = dbase w \<and> redis w' = redis w \<and> outbox w' = outbox w"

definition holds :: "(db \<Rightarrow> bool) \<Rightarrow> 'r world \<Rightarrow> 'r world \<Rightarrow> bool" where
  "holds P w w' \<longleftrightarrow> (P (dbase w) \<longrightarrow> P (dbase w'))"

locale frame =
  fixes R :: "'r world \<Rightarrow> 'r world \<Rightarrow> bool"
  assumes frame_refl: "R w w"
    and frame_trans: "R w w' \<Longrightarrow> R w' w'' \<Longrightarrow> R w w''"
    and frame_tick: "R w (w\<lparr>tick := n\<rparr>)"
    and frame_undo: "R w w' \<Longrightarrow> R w (w'\<lparr>dbase := dbase w, tick := n\<rparr>)"
begin

lemma reflp_R: "reflp R"
  by (simp add: reflp_def frame_refl)

lemma transp_R: "transp R"
  by (meson transpI frame_trans)

lemmas basic = reflp_R transp_R

lemma ticks:
  "keeps R take_tick" "keeps R (time_now env)" "keeps R (new_uuid env)" "keeps R (draw_code env)"
  "keeps R (is_ctx_done env)" "keeps R (read_random env n)"
  by (simp_all add: keeps_def frame_tick read_random_def)

lemma queries: "keeps R (db_query env q)"
  by (simp add: keeps_def frame_tick)

lemma transactions: "keeps R fn \<Longrightarrow> keeps R (WithTransaction env fn)"
proof (rule keepsI)
  fix w r w' assume fn: "keeps R fn" and run: "WithTransaction env fn w = (r, w')"
  obtain r1 w1 where 1: "fn (w\<lparr>tick := tick w + 1\<rparr>) = (r1, w1)" by fastforce
  have "R w (w\<lparr>tick := tick w + 1\<rparr>)" by (rule frame_tick)
  moreover have "R (w\<lparr>tick := tick w + 1\<rparr>) w1" using keepsD [OF fn 1] .
  ultimately have R1: "R w w1" by (rule frame_trans)
  have "R w1 (w1\<lparr>tick := tick w1 + 1\<rparr>)" by (rule frame_tick)
  with R1 have commit: "R w (w1\<lparr>tick := tick w1 + 1\<rparr>)" by (rule frame_trans)
  have undo: "R w (w1\<lparr>dbase := dbase w, tick := tick w1 + 1\<rparr>)" using frame_undo R1 by blast
  show "R w w'"
    using run 1 commit undo frame_tick [of w "tick w + 1"]
    by (auto simp: WithTransaction_def Let_def rolled_back_def split: if_splits outcome.splits)
qed

lemmas intros = basic ticks queries transactions keeps_andthen keeps_attempt keeps_map_err
  keeps_or_fail keeps_ret keeps_throw keeps_panic keeps_deref keeps_of_sum keeps_fail_if
  keeps_if keeps_case_option keeps_case_sum keeps_each

end

interpretation same_db: frame same_db
  by unfold_locales (auto simp: same_db_def)

interpretation same_bus: frame same_bus
  by unfold_locales (auto simp: same_bus_def)

interpretation same_all: frame same_all
  by unfold_locales (auto simp: same_all_def)

interpretation holds: frame "holds P"
  by unfold_locales (auto simp: holds_def)

text \<open>C8: \<open>WithTransaction\<close> is atomic on the database. A call that returns without error keeps
  exactly the body's database; any other outcome (an error of the body, a failed begin,
  commit or rollback, a panic, a body that does not return) leaves the committed database as
  it was, and a panic of the call is the body's.\<close>

theorem transaction_atomic:
  "case WithTransaction env fn w of
     (Ok x, w') \<Rightarrow> (\<exists>w1. fn (w\<lparr>tick := tick w + 1\<rparr>) = (Ok x, w1) \<and> dbase w' = dbase w1)
   | (Err e, w') \<Rightarrow> dbase w' = dbase w
   | (Panic, w') \<Rightarrow> dbase w' = dbase w \<and> fst (fn (w\<lparr>tick := tick w + 1\<rparr>)) = Panic
   | (Hang, w') \<Rightarrow> dbase w' = dbase w"
proof (cases "WithTransaction env fn w")
  case (Pair r w')
  show ?thesis
  proof (cases r)
    case (Ok x)
    with Pair show ?thesis by (auto elim!: WithTransaction_OkE)
  next
    case (Err e)
    with Pair WithTransaction_not_Ok [OF Pair] show ?thesis by simp
  next
    case Panic
    then have "fst (fn (w\<lparr>tick := tick w + 1\<rparr>)) = Panic" using Pair
      by (auto simp: WithTransaction_def Let_def split: if_splits prod.splits outcome.splits)
    with Panic Pair WithTransaction_not_Ok [OF Pair] show ?thesis by simp
  next
    case Hang
    with Pair WithTransaction_not_Ok [OF Pair] show ?thesis by simp
  qed
qed

end
