(* ===== verification/Rate_Limiter.thy ===== *)
theory Rate_Limiter imports Json World begin

text \<open>
  The sliding-window limiter of app/middlewares/limit_requests_middleware.go: the tracker,
  one request through the middleware and one turn of the cleanup loop, both under the
  tracker's mutex and therefore one after the other. The reference is a count over the
  whole history of requests; the tracker, which forgets what has left the window, takes
  the same decisions.
\<close>

section \<open>The tracker\<close>

record tracker =
  Window :: int
  MaxRequest :: int
  IPMap :: "string \<rightharpoonup> int list"

definition NewRequestTracker :: "int \<Rightarrow> tracker" where
  "NewRequestTracker maxRequests = \<lparr>Window = minute,
     MaxRequest = (if maxRequests = 0 then 20 else maxRequests), IPMap = Map.empty\<rparr>"

text \<open>\<open>Time.Sub\<close> saturates at the bounds of a 64-bit duration.\<close>

definition Sub :: "int \<Rightarrow> int \<Rightarrow> int" where
  "Sub t u = max (- (2 ^ 63)) (min (2 ^ 63 - 1) (t - u))"

fun valid_requests :: "int \<Rightarrow> int \<Rightarrow> int list \<Rightarrow> int list \<Rightarrow> int list" where
  "valid_requests now window [] valid = valid"
| "valid_requests now window (t # ts) valid =
     valid_requests now window ts (if Sub now t \<le> window then valid @ [t] else valid)"

text \<open>A middleware either answers and stops the chain or lets the next handler run.\<close>

datatype handling = Abort int json | Next

definition too_many_body :: "string \<Rightarrow> string \<Rightarrow> json" where
  "too_many_body userAgent clientIP = JObj
     [(''client_ip'', JStr clientIP),
      (''evidence'', JStr ''Rate limit exceeded: to much requests!''),
      (''message'', JStr ''The Federation of Super Earth keeps managed Democracy safe with the lives of our heroes!''),
      (''user_agent'', JStr userAgent)]"

definition LimitRequestsMiddleware ::
  "string \<Rightarrow> string \<Rightarrow> int \<Rightarrow> tracker \<Rightarrow> handling \<times> tracker" where
  "LimitRequestsMiddleware clientIP userAgent now t =
     (let requests = (case IPMap t clientIP of None \<Rightarrow> [] | Some ts \<Rightarrow> ts);
          valid = valid_requests now (Window t) requests [] @ [now];
          t' = t\<lparr>IPMap := (IPMap t)(clientIP \<mapsto> valid)\<rparr>
      in if MaxRequest t < int (length valid) then (Abort 429 (too_many_body userAgent clientIP), t')
         else (Next, t'))"

text \<open>One tick of \<open>Cleanup\<close>: the loop body for every address, in any order.\<close>

definition Cleanup :: "int \<Rightarrow> tracker \<Rightarrow> tracker" where
  "Cleanup now t = t\<lparr>IPMap := (\<lambda>ip. case IPMap t ip of None \<Rightarrow> None
     | Some ts \<Rightarrow> (let valid = valid_requests now (Window t) ts [] in
         if valid = [] then None else Some valid))\<rparr>"

datatype limiter_event = Request string string int | Tick int

primrec event_time :: "limiter_event \<Rightarrow> int" where
  "event_time (Request ip ua now) = now"
| "event_time (Tick now) = now"

text \<open>A run of the middleware: what was decided for each request, and the tracker left.\<close>

fun run_limiter :: "tracker \<Rightarrow> limiter_event list \<Rightarrow> handling list \<times> tracker" where
  "run_limiter t [] = ([], t)"
| "run_limiter t (Request ip ua now # es) =
     (case LimitRequestsMiddleware ip ua now t of (h, t') \<Rightarrow>
        (case run_limiter t' es of (hs, t'') \<Rightarrow> (h # hs, t'')))"
| "run_limiter t (Tick now # es) = run_limiter (Cleanup now t) es"

section \<open>The reference\<close>

text \<open>The times at which an address asked, and how many of them a window back from \<open>now\<close> holds.\<close>

fun asked :: "string \<Rightarrow> limiter_event list \<Rightarrow> int list" where
  "asked ip [] = []"
| "asked ip (Request ip' ua now # es) = (if ip' = ip then now # asked ip es else asked ip es)"
| "asked ip (Tick now # es) = asked ip es"

definition recent :: "int \<Rightarrow> int \<Rightarrow> int list \<Rightarrow> int list" where
  "recent window now ts = filter (\<lambda>t. now - t \<le> window) ts"

text \<open>What the limiter promises: a request passes when the address has asked at most the
  maximum number of times in the window that ends with it, whatever was answered before.\<close>

definition verdict :: "int \<Rightarrow> int \<Rightarrow> limiter_event list \<Rightarrow> string \<Rightarrow> string \<Rightarrow> int \<Rightarrow> handling" where
  "verdict window most past ip ua now =
     (if int (length (recent window now (asked ip past))) + 1 \<le> most then Next
      else Abort 429 (too_many_body ua ip))"

fun verdicts :: "int \<Rightarrow> int \<Rightarrow> limiter_event list \<Rightarrow> limiter_event list \<Rightarrow> handling list" where
  "verdicts window most past [] = []"
| "verdicts window most past (Request ip ua now # es) =
     verdict window most past ip ua now # verdicts window most (past @ [Request ip ua now]) es"
| "verdicts window most past (Tick now # es) = verdicts window most (past @ [Tick now]) es"

section \<open>The tracker implements the reference\<close>

lemma valid_requests_filter:
  "valid_requests now window ts acc = acc @ filter (\<lambda>t. Sub now t \<le> window) ts"
  by (induction ts arbitrary: acc) auto

lemma Sub_le: "window < 2 ^ 63 - 1 \<Longrightarrow> - (2 ^ 63) \<le> window \<Longrightarrow> Sub now t \<le> window \<longleftrightarrow> now - t \<le> window"
  by (auto simp: Sub_def max_def min_def)

lemma valid_requests_recent:
  assumes "0 \<le> window" and "window < 2 ^ 63 - 1"
  shows "valid_requests now window ts [] = recent window now ts"
  using assms by (simp add: valid_requests_filter recent_def Sub_le)

lemma recent_recent:
  assumes "now \<le> later"
  shows "recent window later (recent window now ts) = recent window later ts"
  using assms by (auto simp: recent_def intro!: filter_cong)

lemma recent_append [simp]: "recent window now (ts @ us) = recent window now ts @ recent window now us"
  by (simp add: recent_def)

lemma recent_Nil [simp]: "recent window now [] = []"
  by (simp add: recent_def)

lemma recent_cong:
  assumes "recent window now ts = recent window now us" and "now \<le> later"
  shows "recent window later ts = recent window later us"
  using recent_recent [OF assms(2)] assms(1) by metis

lemma asked_append [simp]: "asked ip (es @ fs) = asked ip es @ asked ip fs"
proof (induction es)
  case (Cons e es)
  then show ?case by (cases e) simp_all
qed simp

text \<open>What the tracker holds of an address.\<close>

definition held :: "tracker \<Rightarrow> string \<Rightarrow> int list" where
  "held t ip = (case IPMap t ip of None \<Rightarrow> [] | Some ts \<Rightarrow> ts)"

text \<open>The simulation: for every address the tracker holds the requests that are still in the
  window at the time of the last event, and perhaps some that no longer are.\<close>

definition tracks :: "int \<Rightarrow> limiter_event list \<Rightarrow> tracker \<Rightarrow> bool" where
  "tracks now past t \<longleftrightarrow>
     (\<forall>ip. recent (Window t) now (held t ip) = recent (Window t) now (asked ip past))"

lemma tracks_later: "tracks now past t \<Longrightarrow> now \<le> later \<Longrightarrow> tracks later past t"
  unfolding tracks_def using recent_cong by blast

lemma held_Cleanup:
  assumes "0 \<le> Window t" and "Window t < 2 ^ 63 - 1"
  shows "held (Cleanup now t) ip = recent (Window t) now (held t ip)"
  using assms by (auto simp: held_def Cleanup_def Let_def valid_requests_recent split: option.splits)

lemma limiter_decides:
  assumes "tracks now past t" and "0 \<le> Window t" and "Window t < 2 ^ 63 - 1"
  shows "fst (LimitRequestsMiddleware ip ua now t) = verdict (Window t) (MaxRequest t) past ip ua now"
  using assms
  by (simp add: LimitRequestsMiddleware_def verdict_def Let_def valid_requests_recent tracks_def
      flip: held_def)

lemma held_Request:
  assumes "0 \<le> Window t" and "Window t < 2 ^ 63 - 1"
  shows "held (snd (LimitRequestsMiddleware ip ua now t)) ip' =
    (if ip' = ip then recent (Window t) now (held t ip) @ [now] else held t ip')"
  using assms
  by (auto simp: LimitRequestsMiddleware_def Let_def valid_requests_recent held_def)

lemma limiter_keeps_bounds [simp]:
  "Window (snd (LimitRequestsMiddleware ip ua now t)) = Window t"
  "MaxRequest (snd (LimitRequestsMiddleware ip ua now t)) = MaxRequest t"
  "Window (Cleanup now t) = Window t" "MaxRequest (Cleanup now t) = MaxRequest t"
  by (simp_all add: LimitRequestsMiddleware_def Cleanup_def Let_def)

lemma tracks_Cleanup:
  assumes "tracks now past t" and "0 \<le> Window t" and "Window t < 2 ^ 63 - 1"
  shows "tracks now (past @ [Tick now]) (Cleanup now t)"
  using assms by (simp add: tracks_def held_Cleanup recent_recent [OF order_refl])

lemma tracks_Request:
  assumes "tracks now past t" and "0 \<le> Window t" and "Window t < 2 ^ 63 - 1"
  shows "tracks now (past @ [Request ip ua now]) (snd (LimitRequestsMiddleware ip ua now t))"
  using assms by (simp add: tracks_def held_Request recent_recent)

lemma run_tracks:
  assumes "tracks now past t" and "0 \<le> Window t" and "Window t < 2 ^ 63 - 1"
    and "sorted (now # map event_time es)"
  shows "fst (run_limiter t es) = verdicts (Window t) (MaxRequest t) past es"
  using assms
proof (induction es arbitrary: now past t)
  case (Cons e es)
  note later = tracks_later [OF Cons.prems(1), of "event_time e"]
  show ?case
  proof (cases e)
    case (Request ip ua s)
    define r where "r = LimitRequestsMiddleware ip ua s t"
    have T: "tracks s past t" using later Cons.prems(4) Request by simp
    have "fst (run_limiter (snd r) es) =
        verdicts (Window t) (MaxRequest t) (past @ [Request ip ua s]) es"
      using Cons.IH [of s "past @ [Request ip ua s]" "snd r"] Cons.prems T tracks_Request [OF T]
      by (simp add: Request r_def)
    then show ?thesis
      using limiter_decides [OF T Cons.prems(2,3), of ip ua]
      by (simp add: Request flip: r_def split: prod.splits) (metis fst_conv snd_conv)
  next
    case (Tick s)
    have T: "tracks s past t" using later Cons.prems(4) Tick by simp
    show ?thesis
      using Cons.IH [of s "past @ [Tick s]" "Cleanup s t"] Cons.prems T tracks_Cleanup [OF T]
      by (simp add: Tick)
  qed
qed simp

lemma new_tracker [simp]:
  "Window (NewRequestTracker n) = minute" "IPMap (NewRequestTracker n) = Map.empty"
  "MaxRequest (NewRequestTracker n) = (if n = 0 then 20 else n)"
  by (simp_all add: NewRequestTracker_def)

lemma minute_bounds: "0 \<le> minute" "minute < 2 ^ 63 - 1"
  by (simp_all add: minute_def second_def)

lemma counts_history:
  assumes "sorted (map event_time es)"
  shows "fst (run_limiter (NewRequestTracker n) es) = verdicts minute (if n = 0 then 20 else n) [] es"
proof (cases es)
  case (Cons e rest)
  have "tracks (event_time e) [] (NewRequestTracker n)" by (simp add: tracks_def held_def)
  from run_tracks [OF this] show ?thesis
    using assms Cons minute_bounds by simp
qed simp

text \<open>C34: the tracker decides like a count over the whole history. In any sequence of
  requests and cleanup ticks whose clock does not go back, started on a new tracker, each
  request is let through exactly when its address has asked, itself included, at most the
  maximum number of times within the last minute, refused requests counted; and forgetting
  old requests, on a request or on a cleanup tick, never changes a decision.\<close>

theorem limiter_counts_history:
  assumes "sorted (map event_time es)"
  shows "fst (run_limiter (NewRequestTracker n) es) = verdicts minute (if n = 0 then 20 else n) [] es"
  using assms by (rule counts_history)

theorem limiter_counts_history_witness:
  "fst (run_limiter (NewRequestTracker 2)
     [Request ''a'' ''cli'' 0, Request ''b'' ''cli'' 1, Request ''a'' ''cli'' 2, Tick 3,
      Request ''a'' ''cli'' 4, Request ''a'' ''cli'' (minute + 4)]) =
   [Next, Next, Next, Abort 429 (too_many_body ''cli'' ''a''), Next]"
  using limiter_counts_history [of "[Request ''a'' ''cli'' 0, Request ''b'' ''cli'' 1, Request ''a'' ''cli'' 2, Tick 3,
      Request ''a'' ''cli'' 4, Request ''a'' ''cli'' (minute + 4)]" 2]
  by (simp add: verdict_def recent_def minute_def second_def)

section \<open>No window lets more than the maximum through\<close>

text \<open>The requests of an address that were let through, in a run.\<close>

fun passed :: "string \<Rightarrow> limiter_event list \<Rightarrow> handling list \<Rightarrow> int list" where
  "passed ip (Request ip' ua now # es) (h # hs) =
     (if ip' = ip \<and> h = Next then now # passed ip es hs else passed ip es hs)"
| "passed ip (Tick now # es) hs = passed ip es hs"
| "passed ip es hs = []"

lemma verdicts_append:
  "verdicts window most past (es @ fs) =
     verdicts window most past es @ verdicts window most (past @ es) fs"
proof (induction es arbitrary: past)
  case (Cons e es)
  then show ?case by (cases e) simp_all
qed simp

lemma passed_append:
  "passed ip (es @ fs) (verdicts window most past es @ hs) =
     passed ip es (verdicts window most past es) @ passed ip fs hs"
proof (induction es arbitrary: past)
  case (Cons e es)
  then show ?case by (cases e) auto
qed simp

lemma passed_asked: "length (filter P (passed ip es hs)) \<le> length (filter P (asked ip es))"
proof (induction ip es hs rule: passed.induct)
  case (1 ip ip' ua now es h hs)
  then show ?case by auto
qed auto

lemma asked_in_window:
  assumes "now \<le> s + window"
  shows "length (filter (\<lambda>t. s \<le> t \<and> t \<le> s + window) ts) \<le> length (recent window now ts)"
proof -
  have "length (filter (\<lambda>t. s \<le> t \<and> t \<le> s + window) ts) =
      length (filter (\<lambda>t. t \<le> s + window \<and> s \<le> t) (recent window now ts))"
    unfolding recent_def filter_filter
    by (rule arg_cong [where f = length], rule filter_cong) (use assms in auto)
  then show ?thesis by (metis length_filter_le)
qed

lemma reference_window_bound:
  assumes "0 \<le> most"
  shows "int (length (filter (\<lambda>t. s \<le> t \<and> t \<le> s + window)
    (passed ip es (verdicts window most [] es)))) \<le> most"
proof (induction es rule: rev_induct)
  case (snoc e es)
  let ?in = "\<lambda>t. s \<le> t \<and> t \<le> s + window"
  show ?case
  proof (cases "\<exists>ua now. e = Request ip ua now \<and> ?in now \<and> verdict window most es ip ua now = Next")
    case True
    then obtain ua now where e: "e = Request ip ua now" and now: "?in now"
      and ok: "verdict window most es ip ua now = Next" by blast
    have "length (filter ?in (passed ip es (verdicts window most [] es))) \<le>
        length (recent window now (asked ip es))"
      using passed_asked [of ?in ip es] asked_in_window [of now s window "asked ip es"] now
      by (meson le_trans)
    then show ?thesis
      using ok now by (simp add: e verdicts_append passed_append verdict_def split: if_splits)
  next
    case False
    then have "filter ?in (passed ip [e] (verdicts window most es [e])) = []"
      by (cases e) auto
    then show ?thesis using snoc by (simp add: verdicts_append passed_append)
  qed
qed (simp add: assms)

text \<open>C35: no address gets more than the maximum through. Whatever the requests and the
  cleanup ticks, as long as the clock does not go back, any interval of one minute holds at
  most the configured number of requests of one address that were let through.\<close>

theorem limiter_window_bound:
  assumes "sorted (map event_time es)" and "0 < n"
  shows "int (length (filter (\<lambda>t. s \<le> t \<and> t \<le> s + minute)
    (passed ip es (fst (run_limiter (NewRequestTracker n) es))))) \<le> n"
proof -
  have "fst (run_limiter (NewRequestTracker n) es) = verdicts minute n [] es"
    using counts_history [OF assms(1)] assms(2) by simp
  then show ?thesis using reference_window_bound [of n] assms(2) by simp
qed

theorem limiter_window_bound_witness:
  "int (length (filter (\<lambda>t. 0 \<le> t \<and> t \<le> 0 + minute) (passed ''a''
     [Request ''a'' ''cli'' 0, Request ''a'' ''cli'' 1, Request ''a'' ''cli'' 2]
     (fst (run_limiter (NewRequestTracker 2)
       [Request ''a'' ''cli'' 0, Request ''a'' ''cli'' 1, Request ''a'' ''cli'' 2]))))) \<le> 2"
  by (rule limiter_window_bound) simp_all

section \<open>Blocked clients\<close>

lemma last_verdict:
  assumes "sorted (map event_time (es @ [Request ip ua now]))" "0 < n"
  shows "last (fst (run_limiter (NewRequestTracker n) (es @ [Request ip ua now]))) = Next \<longleftrightarrow>
    int (length (recent minute now (asked ip es))) < n"
proof -
  have "fst (run_limiter (NewRequestTracker n) (es @ [Request ip ua now])) =
      verdicts minute n [] (es @ [Request ip ua now])"
    using counts_history [OF assms(1)] assms(2) by simp
  then show ?thesis by (simp add: verdicts_append verdict_def recent_def minute_bounds)
qed

text \<open>No client is blocked for good: whatever it and others did before, a request is let through
  as soon as fewer than the maximum of its requests, answered or refused, lie within the last
  minute, and so after any minute of silence. Refused requests count as well, so a client that
  asks at least that often stays blocked for as long as it goes on.\<close>

theorem limiter_unblocks:
  assumes "sorted (map event_time (es @ [Request ip ua now]))" "0 < n"
  shows "(last (fst (run_limiter (NewRequestTracker n) (es @ [Request ip ua now]))) = Next \<longleftrightarrow>
      int (length (filter (\<lambda>t. now - t \<le> minute) (asked ip es))) < n) \<and>
    ((\<forall>t \<in> set (asked ip es). minute < now - t) \<longrightarrow>
      last (fst (run_limiter (NewRequestTracker n) (es @ [Request ip ua now]))) = Next)"
proof -
  have "recent minute now (asked ip es) = filter (\<lambda>t. now - t \<le> minute) (asked ip es)"
    by (simp add: recent_def)
  moreover have "filter (\<lambda>t. now - t \<le> minute) (asked ip es) = []" if "\<forall>t \<in> set (asked ip es). minute < now - t"
    using that by (auto simp: filter_empty_conv)
  ultimately show ?thesis using last_verdict [OF assms] assms(2) by auto
qed

theorem limiter_unblocks_witness:
  "last (fst (run_limiter (NewRequestTracker 1)
      ([Request ''a'' ''cli'' 0, Request ''a'' ''cli'' 1] @ [Request ''a'' ''cli'' (minute + 2)]))) = Next \<and>
   last (fst (run_limiter (NewRequestTracker 1)
      ([Request ''a'' ''cli'' 0, Request ''a'' ''cli'' minute] @ [Request ''a'' ''cli'' (minute + 2)]))) \<noteq> Next"
  using limiter_unblocks [of "[Request ''a'' ''cli'' 0, Request ''a'' ''cli'' 1]" "''a''" "''cli''" "minute + 2" 1]
    limiter_unblocks [of "[Request ''a'' ''cli'' 0, Request ''a'' ''cli'' minute]" "''a''" "''cli''" "minute + 2" 1]
  by (simp add: minute_def second_def)

end
