(* ===== verification/Ent_Client.thy ===== *)
theory Ent_Client imports World begin

text \<open>
  The mutation builders of the generated ent client (app/models/ent): each \<open>Create\<close> and
  \<open>UpdateOne\<close> is the record of the fields a caller set, its \<open>check\<close> is the generated check,
  the schema hooks set the time columns first, and the statement enforces the constraints
  of app/models/ent/migrate/schema.go (unique columns, NOT NULL, foreign keys). The
  statements on edges held by another table are those of \<open>sqlgraph\<close>, a parameter of the
  environment, applied to the foreign-key column.
\<close>

section \<open>Checks\<close>

fun first_error :: "error option list \<Rightarrow> error option" where
  "first_error [] = None"
| "first_error (Some e # es) = Some e"
| "first_error (None # es) = first_error es"

definition required :: "string \<Rightarrow> 'a option \<Rightarrow> error option" where
  "required name v = (case v of None \<Rightarrow> Some (EValidation name ''missing required field'') | Some x \<Rightarrow> None)"

definition required_edge :: "string \<Rightarrow> 'a list \<Rightarrow> error option" where
  "required_edge name ids =
     (if ids = [] then Some (EValidation name ''missing required edge'') else None)"

definition valid :: "string \<Rightarrow> ('a \<Rightarrow> bool) \<Rightarrow> 'a option \<Rightarrow> error option" where
  "valid name ok v = (case v of None \<Rightarrow> None
     | Some x \<Rightarrow> if ok x then None else Some (EValidation name ''validator failed''))"

definition NotEmpty :: "string \<Rightarrow> bool" where "NotEmpty s = (s \<noteq> [])"

text \<open>\<open>Save\<close>: the check, then the statement.\<close>

definition save :: "'r env \<Rightarrow> error option \<Rightarrow> (db \<Rightarrow> error + 'a \<times> db) \<Rightarrow> ('r world, 'a) io" where
  "save env chk stmt = (case chk of Some e \<Rightarrow> throw e | None \<Rightarrow> db_call env stmt)"

text \<open>The create hook reads the clock twice, the update hook once.\<close>

definition on_create :: "'r env \<Rightarrow> (int \<Rightarrow> int \<Rightarrow> ('r world, 'a) io) \<Rightarrow> ('r world, 'a) io" where
  "on_create env k = andthen (time_now env) (\<lambda>created. andthen (time_now env) (\<lambda>updated. k created updated))"

definition on_update :: "'r env \<Rightarrow> (int \<Rightarrow> ('r world, 'a) io) \<Rightarrow> ('r world, 'a) io" where
  "on_update env k = andthen (time_now env) k"

lemma save_OkE [ok_elims]:
  assumes "save env chk stmt w = (Ok x, w')"
  obtains "chk = None" and "db_call env stmt w = (Ok x, w')"
  using assms by (auto simp: save_def split: option.splits)

lemma on_create_OkE [ok_elims]:
  assumes "on_create env k w = (Ok x, w')"
  obtains "k (now_at env (tick w)) (now_at env (tick w + 1)) (w\<lparr>tick := tick w + 2\<rparr>) = (Ok x, w')"
  using assms unfolding on_create_def by (auto elim!: ok_elims)

lemma on_update_OkE [ok_elims]:
  assumes "on_update env k w = (Ok x, w')"
  obtains "k (now_at env (tick w)) (w\<lparr>tick := tick w + 1\<rparr>) = (Ok x, w')"
  using assms unfolding on_update_def by (auto elim!: ok_elims)

section \<open>Users\<close>

record user_create =
  uc_mail :: "string option"
  uc_password :: "string option"

definition UserCreate_check :: "user_create \<Rightarrow> error option" where
  "UserCreate_check b = first_error
     [required ''mail'' (uc_mail b), valid ''mail'' NotEmpty (uc_mail b),
      required ''password'' (uc_password b), valid ''password'' NotEmpty (uc_password b)]"

text \<open>The defaults: all flags false, the three lists of ids empty.\<close>

definition new_user_row :: "user_create \<Rightarrow> int \<Rightarrow> int \<Rightarrow> int \<Rightarrow> user_row" where
  "new_user_row b created updated i = \<lparr>u_id = i, u_mail = the (uc_mail b), u_phone = None,
     u_password = the (uc_password b), u_active = False, u_verified = False,
     u_blacklisted = False, u_removed = False, u_created_at = created, u_updated_at = updated,
     u_subscription_ids = [], u_team_ids = [], u_organization_ids = []\<rparr>"

definition insert_user :: "user_create \<Rightarrow> int \<Rightarrow> int \<Rightarrow> db \<Rightarrow> error + user_row \<times> db" where
  "insert_user b created updated d =
     (if exists_where (\<lambda>u. Some (u_mail u) = uc_mail b \<or> Some (u_password u) = uc_password b) (users d)
      then Inl (EConstraint ''users'')
      else Inr (fst (insert_row (new_user_row b created updated) (users d)),
                users_update (\<lambda>t. snd (insert_row (new_user_row b created updated) t)) d))"

definition UserCreate_Save :: "'r env \<Rightarrow> user_create \<Rightarrow> ('r world, user_row) io" where
  "UserCreate_Save env b = on_create env (\<lambda>c u. save env (UserCreate_check b) (insert_user b c u))"

record user_update =
  uu_mail :: "string option"
  uu_phone :: "string option"
  uu_password :: "string option"
  uu_active :: "bool option"
  uu_verified :: "bool option"
  uu_removed :: "bool option"
  uu_subscription_ids :: "int list option"
  uu_add_roles :: "int list"
  uu_remove_roles :: "int list"
  uu_clear_second_factor :: bool

definition UpdateOneID :: user_update where
  "UpdateOneID = \<lparr>uu_mail = None, uu_phone = None, uu_password = None, uu_active = None,
     uu_verified = None, uu_removed = None, uu_subscription_ids = None, uu_add_roles = [],
     uu_remove_roles = [], uu_clear_second_factor = False\<rparr>"

definition UserUpdateOne_check :: "user_update \<Rightarrow> error option" where
  "UserUpdateOne_check b = first_error
     [valid ''mail'' NotEmpty (uu_mail b), valid ''password'' NotEmpty (uu_password b)]"

definition or_keep :: "'a option \<Rightarrow> 'a \<Rightarrow> 'a" where
  "or_keep v old = (case v of None \<Rightarrow> old | Some x \<Rightarrow> x)"

definition apply_user_update :: "user_update \<Rightarrow> int \<Rightarrow> user_row \<Rightarrow> user_row" where
  "apply_user_update b now u = u\<lparr>u_mail := or_keep (uu_mail b) (u_mail u),
     u_phone := (case uu_phone b of None \<Rightarrow> u_phone u | Some p \<Rightarrow> Some p),
     u_password := or_keep (uu_password b) (u_password u),
     u_active := or_keep (uu_active b) (u_active u),
     u_verified := or_keep (uu_verified b) (u_verified u),
     u_removed := or_keep (uu_removed b) (u_removed u),
     u_subscription_ids := or_keep (uu_subscription_ids b) (u_subscription_ids u),
     u_updated_at := now\<rparr>"

definition users_clash :: "user_update \<Rightarrow> int \<Rightarrow> user_row \<Rightarrow> bool" where
  "users_clash b i u = (u_id u \<noteq> i \<and>
     (uu_mail b = Some (u_mail u) \<or> (uu_phone b \<noteq> None \<and> uu_phone b = u_phone u) \<or>
      uu_password b = Some (u_password u)))"

text \<open>\<open>ClearSecondFactorCode\<close> sets the foreign key of the code's row to NULL, which the NOT
  NULL column \<open>user_second_factor_code\<close> does not admit.\<close>

definition owner_column :: "code_row tab \<Rightarrow> (int \<times> int option) list" where
  "owner_column t = map (\<lambda>c. (cd_id c, Some (cd_user c))) (rows t)"

definition clear_second_factor_code :: "'r env \<Rightarrow> int \<Rightarrow> db \<Rightarrow> error + db" where
  "clear_second_factor_code env i d =
     (if list_ex (\<lambda>kv. snd kv = None) (sg_clear env (owner_column (second_factor_codes d)) i)
      then Inl (EConstraint ''second_factor_codes'') else Inr d)"

definition change_roles :: "'r env \<Rightarrow> user_update \<Rightarrow> int \<Rightarrow> db \<Rightarrow> error + db" where
  "change_roles env b i d =
     (let removed = (if uu_remove_roles b = [] then user_roles d
                     else sg_remove_m2m env (user_roles d) i (uu_remove_roles b))
      in if uu_add_roles b = [] then Inr (d\<lparr>user_roles := removed\<rparr>)
      else if list_ex (\<lambda>r. \<not> list_ex (\<lambda>x. rl_id x = r) (roles d)) (uu_add_roles b)
        then Inl (EConstraint ''user_user_roles'')
      else (case sg_add_m2m env removed i (uu_add_roles b) of
          None \<Rightarrow> Inl (EConstraint ''user_user_roles'')
        | Some links \<Rightarrow> Inr (d\<lparr>user_roles := links\<rparr>)))"

definition update_user_row :: "user_update \<Rightarrow> int \<Rightarrow> int \<Rightarrow> db \<Rightarrow> error + db" where
  "update_user_row b i now d =
     (if \<not> exists_where (\<lambda>u. u_id u = i) (users d) then Inl (ENotFound ''user'')
      else if exists_where (users_clash b i) (users d) then Inl (EConstraint ''users'')
      else Inr (users_update (update_where (\<lambda>u. u_id u = i) (apply_user_update b now)) d))"

definition node_of :: "int \<Rightarrow> db \<Rightarrow> error + user_row \<times> db" where
  "node_of i d = (case find (\<lambda>u. u_id u = i) (rows (users d)) of
      None \<Rightarrow> Inl (ENotFound ''user'') | Some u \<Rightarrow> Inr (u, d))"

definition bind_sum :: "error + 'a \<Rightarrow> ('a \<Rightarrow> error + 'b) \<Rightarrow> error + 'b" where
  "bind_sum r f = (case r of Inl e \<Rightarrow> Inl e | Inr x \<Rightarrow> f x)"

definition update_user :: "'r env \<Rightarrow> user_update \<Rightarrow> int \<Rightarrow> int \<Rightarrow> db \<Rightarrow> error + user_row \<times> db" where
  "update_user env b i now d =
     bind_sum (update_user_row b i now d) (\<lambda>d1.
     bind_sum (if uu_clear_second_factor b then clear_second_factor_code env i d1 else Inr d1) (\<lambda>d2.
     bind_sum (change_roles env b i d2) (\<lambda>d3. node_of i d3)))"

definition UserUpdateOne_Save :: "'r env \<Rightarrow> user_update \<Rightarrow> int \<Rightarrow> ('r world, user_row) io" where
  "UserUpdateOne_Save env b i =
     on_update env (\<lambda>now. save env (UserUpdateOne_check b) (update_user env b i now))"

lemma bind_sum_Inr: "bind_sum r f = Inr y \<longleftrightarrow> (\<exists>x. r = Inr x \<and> f x = Inr y)"
  by (cases r) (simp_all add: bind_sum_def)

lemma bind_sum_simps [simp]: "bind_sum (Inr x) f = f x" "bind_sum (Inl e) f = Inl e"
  by (simp_all add: bind_sum_def)

lemma apply_user_update_id [simp]: "u_id (apply_user_update b now u) = u_id u"
  by (simp add: apply_user_update_def)

section \<open>Settings, details and devices\<close>

record settings_create =
  sc_uuid :: "string option"
  sc_owner :: "int list"

definition UserSettingsCreate_check :: "settings_create \<Rightarrow> error option" where
  "UserSettingsCreate_check b = first_error
     [required ''UUID'' (sc_uuid b), valid ''UUID'' NotEmpty (sc_uuid b), required_edge ''owner'' (sc_owner b)]"

definition new_settings_row :: "settings_create \<Rightarrow> int \<Rightarrow> int \<Rightarrow> int \<Rightarrow> settings_row" where
  "new_settings_row b c u i = \<lparr>st_id = i, st_uuid = the (sc_uuid b), st_two_factor = False,
     st_night_mode = False, st_created_at = c, st_updated_at = u, st_user = hd (sc_owner b)\<rparr>"

definition insert_settings :: "settings_create \<Rightarrow> int \<Rightarrow> int \<Rightarrow> db \<Rightarrow> error + settings_row \<times> db" where
  "insert_settings b c u d =
     (if exists_where (\<lambda>s. st_user s = hd (sc_owner b)) (settings d) \<or>
         \<not> exists_where (\<lambda>x. u_id x = hd (sc_owner b)) (users d)
      then Inl (EConstraint ''user_settings'')
      else Inr (fst (insert_row (new_settings_row b c u) (settings d)),
                settings_update (\<lambda>t. snd (insert_row (new_settings_row b c u) t)) d))"

definition UserSettingsCreate_Save :: "'r env \<Rightarrow> settings_create \<Rightarrow> ('r world, settings_row) io" where
  "UserSettingsCreate_Save env b =
     on_create env (\<lambda>c u. save env (UserSettingsCreate_check b) (insert_settings b c u))"

record details_create =
  dc_name :: "string option"
  dc_owner :: "int list"

definition UserDetailsCreate_check :: "details_create \<Rightarrow> error option" where
  "UserDetailsCreate_check b = first_error
     [required ''name'' (dc_name b), valid ''name'' NotEmpty (dc_name b), required_edge ''owner'' (dc_owner b)]"

definition new_details_row :: "details_create \<Rightarrow> int \<Rightarrow> int \<Rightarrow> int \<Rightarrow> details_row" where
  "new_details_row b c u i = \<lparr>dt_id = i, dt_name = the (dc_name b), dt_first_name = None,
     dt_last_name = None, dt_created_at = c, dt_updated_at = u, dt_user = hd (dc_owner b)\<rparr>"

definition insert_details :: "details_create \<Rightarrow> int \<Rightarrow> int \<Rightarrow> db \<Rightarrow> error + details_row \<times> db" where
  "insert_details b c u d =
     (if exists_where (\<lambda>s. dt_user s = hd (dc_owner b)) (details d) \<or>
         \<not> exists_where (\<lambda>x. u_id x = hd (dc_owner b)) (users d)
      then Inl (EConstraint ''user_details'')
      else Inr (fst (insert_row (new_details_row b c u) (details d)),
                details_update (\<lambda>t. snd (insert_row (new_details_row b c u) t)) d))"

definition UserDetailsCreate_Save :: "'r env \<Rightarrow> details_create \<Rightarrow> ('r world, details_row) io" where
  "UserDetailsCreate_Save env b =
     on_create env (\<lambda>c u. save env (UserDetailsCreate_check b) (insert_details b c u))"

definition update_details :: "string \<Rightarrow> string \<Rightarrow> int \<Rightarrow> int \<Rightarrow> db \<Rightarrow> error + unit \<times> db" where
  "update_details first_name last_name i now d =
     (if \<not> exists_where (\<lambda>r. dt_id r = i) (details d) then Inl (ENotFound ''user_details'')
      else Inr ((), details_update (update_where (\<lambda>r. dt_id r = i)
        (\<lambda>r. r\<lparr>dt_first_name := Some first_name, dt_last_name := Some last_name, dt_updated_at := now\<rparr>)) d))"

record device_create =
  vc_token :: "string option"
  vc_ip_address :: "string option"
  vc_user_agent :: "string option"
  vc_os_name :: "string option"
  vc_os_version :: "string option"
  vc_browser_name :: "string option"
  vc_browser_version :: "string option"
  vc_owner :: "int list"

definition UserDeviceCreate_check :: "device_create \<Rightarrow> error option" where
  "UserDeviceCreate_check b = first_error
     [required ''token'' (vc_token b), valid ''token'' NotEmpty (vc_token b),
      required_edge ''owner'' (vc_owner b)]"

definition new_device_row :: "device_create \<Rightarrow> int \<Rightarrow> int \<Rightarrow> int \<Rightarrow> int \<Rightarrow> device_row" where
  "new_device_row b seen c u i = \<lparr>dv_id = i, dv_name = None, dv_type = None, dv_token = the (vc_token b),
     dv_ip_address = vc_ip_address b, dv_user_agent = vc_user_agent b, dv_os_name = vc_os_name b,
     dv_os_version = vc_os_version b, dv_browser_name = vc_browser_name b,
     dv_browser_version = vc_browser_version b, dv_last_seen_at = seen, dv_created_at = c,
     dv_updated_at = u, dv_second_factor_code = None, dv_user = hd (vc_owner b),
     dv_settings_target = None, dv_settings_notify = None\<rparr>"

definition insert_device :: "device_create \<Rightarrow> int \<Rightarrow> int \<Rightarrow> int \<Rightarrow> db \<Rightarrow> error + device_row \<times> db" where
  "insert_device b seen c u d =
     (if \<not> exists_where (\<lambda>x. u_id x = hd (vc_owner b)) (users d)
      then Inl (EConstraint ''user_devices'')
      else Inr (fst (insert_row (new_device_row b seen c u) (devices d)),
                devices_update (\<lambda>t. snd (insert_row (new_device_row b seen c u) t)) d))"

definition UserDeviceCreate_Save :: "'r env \<Rightarrow> device_create \<Rightarrow> ('r world, device_row) io" where
  "UserDeviceCreate_Save env b = on_create env (\<lambda>c u. andthen (time_now env) (\<lambda>seen.
     save env (UserDeviceCreate_check b) (insert_device b seen c u)))"

section \<open>Codes\<close>

record code_create =
  cc_code :: "string option"
  cc_owner :: "int list"

text \<open>The default of \<open>expires_at\<close> was computed once, when the process started.\<close>

definition DefaultExpiresAt :: "'r env \<Rightarrow> int \<Rightarrow> int" where
  "DefaultExpiresAt env lifetime = proc_start env + lifetime"

definition activation_lifetime :: int where "activation_lifetime = 12 * hour"
definition reset_lifetime :: int where "reset_lifetime = hour"
definition second_factor_lifetime :: int where "second_factor_lifetime = 5 * minute"

definition ActivationCodeCreate_check :: "code_create \<Rightarrow> error option" where
  "ActivationCodeCreate_check b = first_error
     [required ''code'' (cc_code b), valid ''code'' NotEmpty (cc_code b), required_edge ''owner'' (cc_owner b)]"

definition ResetCodeCreate_check :: "code_create \<Rightarrow> error option" where
  "ResetCodeCreate_check b = first_error
     [required ''code'' (cc_code b), valid ''code'' NotEmpty (cc_code b), required_edge ''owner'' (cc_owner b)]"

definition SecondFactorCodeCreate_check :: "code_create \<Rightarrow> int list \<Rightarrow> error option" where
  "SecondFactorCodeCreate_check b target = first_error
     [required ''code'' (cc_code b), required_edge ''owner'' (cc_owner b),
      required_edge ''target_user_device'' target]"

definition new_code_row :: "code_create \<Rightarrow> int \<Rightarrow> int \<Rightarrow> int \<Rightarrow> int \<Rightarrow> code_row" where
  "new_code_row b expires c u i = \<lparr>cd_id = i, cd_code = the (cc_code b), cd_used = False,
     cd_created_at = c, cd_updated_at = u, cd_expires_at = expires, cd_user = hd (cc_owner b)\<rparr>"

text \<open>Unique code, unique owner, and the owner exists.\<close>

definition insert_code ::
  "(db \<Rightarrow> code_row tab) \<Rightarrow> ((code_row tab \<Rightarrow> code_row tab) \<Rightarrow> db \<Rightarrow> db) \<Rightarrow> code_create \<Rightarrow> int \<Rightarrow> int \<Rightarrow> int \<Rightarrow>
   db \<Rightarrow> error + code_row \<times> db" where
  "insert_code tbl upd b expires c u d =
     (if exists_where (\<lambda>x. Some (cd_code x) = cc_code b \<or> cd_user x = hd (cc_owner b)) (tbl d) \<or>
         \<not> exists_where (\<lambda>x. u_id x = hd (cc_owner b)) (users d)
      then Inl (EConstraint ''codes'')
      else Inr (fst (insert_row (new_code_row b expires c u) (tbl d)),
                upd (\<lambda>t. snd (insert_row (new_code_row b expires c u) t)) d))"

definition ActivationCodeCreate_Save :: "'r env \<Rightarrow> code_create \<Rightarrow> ('r world, code_row) io" where
  "ActivationCodeCreate_Save env b = on_create env (\<lambda>c u. save env (ActivationCodeCreate_check b)
     (insert_code activation_codes activation_codes_update b (DefaultExpiresAt env activation_lifetime) c u))"

definition ResetCodeCreate_Save :: "'r env \<Rightarrow> code_create \<Rightarrow> ('r world, code_row) io" where
  "ResetCodeCreate_Save env b = on_create env (\<lambda>c u. save env (ResetCodeCreate_check b)
     (insert_code reset_codes reset_codes_update b (DefaultExpiresAt env reset_lifetime) c u))"

text \<open>A foreign-key column of the devices table, and the same table with a changed column.\<close>

definition device_column :: "(device_row \<Rightarrow> int option) \<Rightarrow> device_row tab \<Rightarrow> (int \<times> int option) list" where
  "device_column fk t = map (\<lambda>v. (dv_id v, fk v)) (rows t)"

definition set_device_column ::
  "(int option \<Rightarrow> device_row \<Rightarrow> device_row) \<Rightarrow> (int \<times> int option) list \<Rightarrow> device_row tab \<Rightarrow> device_row tab" where
  "set_device_column put col t =
     t\<lparr>rows := map (\<lambda>v. case map_of col (dv_id v) of None \<Rightarrow> v | Some x \<Rightarrow> put x v) (rows t)\<rparr>"

definition link_device :: "'r env \<Rightarrow> int \<Rightarrow> int list \<Rightarrow> db \<Rightarrow> error + db" where
  "link_device env code_id target d =
     (case sg_link env (device_column dv_second_factor_code (devices d)) code_id target of
        None \<Rightarrow> Inl (EConstraint ''user_devices'')
      | Some col \<Rightarrow> Inr (devices_update (set_device_column (\<lambda>x v. v\<lparr>dv_second_factor_code := x\<rparr>) col) d))"

definition insert_second_factor ::
  "'r env \<Rightarrow> code_create \<Rightarrow> int list \<Rightarrow> int \<Rightarrow> int \<Rightarrow> db \<Rightarrow> error + code_row \<times> db" where
  "insert_second_factor env b target c u d =
     bind_sum (insert_code second_factor_codes second_factor_codes_update b
         (DefaultExpiresAt env second_factor_lifetime) c u d) (\<lambda>(row, d1).
     bind_sum (link_device env (cd_id row) target d1) (\<lambda>d2. Inr (row, d2)))"

definition SecondFactorCodeCreate_Save :: "'r env \<Rightarrow> code_create \<Rightarrow> int list \<Rightarrow> ('r world, code_row) io" where
  "SecondFactorCodeCreate_Save env b target = on_create env (\<lambda>c u.
     save env (SecondFactorCodeCreate_check b target) (insert_second_factor env b target c u))"

definition CodeExists :: "(db \<Rightarrow> code_row tab) \<Rightarrow> string \<Rightarrow> db \<Rightarrow> error + bool" where
  "CodeExists tbl code d = Inr (exists_where (\<lambda>c. cd_code c = code) (tbl d))"

text \<open>\<open>Delete().Where(CodeEQ(code))\<close> and \<open>DeleteOneID\<close>.\<close>

definition delete_code ::
  "((code_row tab \<Rightarrow> code_row tab) \<Rightarrow> db \<Rightarrow> db) \<Rightarrow> string \<Rightarrow> db \<Rightarrow> error + unit \<times> db" where
  "delete_code upd code d = Inr ((), upd (delete_where (\<lambda>c. cd_code c = code)) d)"

definition ResetCode_DeleteOneID :: "int \<Rightarrow> db \<Rightarrow> error + unit \<times> db" where
  "ResetCode_DeleteOneID i d =
     (if exists_where (\<lambda>c. cd_id c = i) (reset_codes d)
      then Inr ((), reset_codes_update (delete_where (\<lambda>c. cd_id c = i)) d)
      else Inl (ENotFound ''reset_code''))"

section \<open>Settings updates\<close>

definition set_target :: "int option \<Rightarrow> device_row \<Rightarrow> device_row" where
  "set_target x v = v\<lparr>dv_settings_target := x\<rparr>"

definition set_notify :: "int option \<Rightarrow> device_row \<Rightarrow> device_row" where
  "set_notify x v = v\<lparr>dv_settings_notify := x\<rparr>"

text \<open>
  \<open>SetNightMode\<close>, \<open>SetTwoFactor\<close>, \<open>SetSecondFactorTargetID\<close>, \<open>ClearNotificationTargetDevices\<close>
  and \<open>AddNotificationTargetDeviceIDs\<close> on one settings row.
\<close>

definition update_settings ::
  "'r env \<Rightarrow> bool \<Rightarrow> bool \<Rightarrow> int \<Rightarrow> int list \<Rightarrow> int \<Rightarrow> int \<Rightarrow> db \<Rightarrow> error + unit \<times> db" where
  "update_settings env night two_factor target notify i now d =
     (if \<not> exists_where (\<lambda>s. st_id s = i) (settings d) then Inl (ENotFound ''user_settings'')
      else let d1 = settings_update (update_where (\<lambda>s. st_id s = i)
            (\<lambda>s. s\<lparr>st_night_mode := night, st_two_factor := two_factor, st_updated_at := now\<rparr>)) d;
          d2 = devices_update (set_device_column set_notify
            (sg_clear env (device_column dv_settings_notify (devices d1)) i)) d1
        in case sg_link env (device_column dv_settings_target (devices d2)) i [target] of
             None \<Rightarrow> Inl (EConstraint ''user_devices'')
           | Some col \<Rightarrow> (let d3 = devices_update (set_device_column set_target col) d2 in
               if notify = [] then Inr ((), d3)
               else (case sg_link env (device_column dv_settings_notify (devices d3)) i notify of
                   None \<Rightarrow> Inl (EConstraint ''user_devices'')
                 | Some col' \<Rightarrow> Inr ((), devices_update (set_device_column set_notify col') d3))))"

section \<open>Entrepreneur details, locations and actions\<close>

record entrepreneur_set =
  es_business_name :: string
  es_nip :: string
  es_krs :: string
  es_description :: string
  es_income :: rat
  es_costs :: rat
  es_funding_capital :: rat
  es_council :: "string list"
  es_decision_makers :: "string list"
  es_phone :: string
  es_mail :: string
  es_website :: string

text \<open>\<open>Positive()\<close> on income and costs.\<close>

definition EntrepreneurDetails_check :: "entrepreneur_set \<Rightarrow> error option" where
  "EntrepreneurDetails_check b = first_error
     [valid ''income'' (\<lambda>x. 0 < x) (Some (es_income b)), valid ''costs'' (\<lambda>x. 0 < x) (Some (es_costs b))]"

definition entrepreneur_of :: "entrepreneur_set \<Rightarrow> int \<Rightarrow> int \<Rightarrow> int \<Rightarrow> int \<Rightarrow> entrepreneur_row" where
  "entrepreneur_of b c u details_id i = \<lparr>en_id = i, en_business_name = Some (es_business_name b),
     en_nip = Some (es_nip b), en_krs = Some (es_krs b), en_description = Some (es_description b), en_offer = None,
     en_income = Some (es_income b), en_costs = Some (es_costs b),
     en_funding_capital = Some (es_funding_capital b), en_industry = None, en_council = es_council b,
     en_decision_makers = es_decision_makers b, en_phone = Some (es_phone b),
     en_mail = Some (es_mail b), en_website = Some (es_website b), en_created_at = c,
     en_updated_at = u, en_user_details = Some details_id\<rparr>"

definition entrepreneur_clash :: "entrepreneur_set \<Rightarrow> int option \<Rightarrow> entrepreneur_row \<Rightarrow> bool" where
  "entrepreneur_clash b self e = (Some (en_id e) \<noteq> self \<and>
     (en_nip e = Some (es_nip b) \<or> en_krs e = Some (es_krs b)))"

definition insert_entrepreneur ::
  "entrepreneur_set \<Rightarrow> int \<Rightarrow> int \<Rightarrow> int \<Rightarrow> db \<Rightarrow> error + unit \<times> db" where
  "insert_entrepreneur b details_id c u d =
     (if exists_where (\<lambda>e. entrepreneur_clash b None e \<or> en_user_details e = Some details_id) (entrepreneurs d)
         \<or> \<not> exists_where (\<lambda>r. dt_id r = details_id) (details d)
      then Inl (EConstraint ''entrepreneur_details'')
      else Inr ((), entrepreneurs_update (\<lambda>t. snd (insert_row (entrepreneur_of b c u details_id) t)) d))"

definition update_entrepreneur ::
  "entrepreneur_set \<Rightarrow> int \<Rightarrow> int \<Rightarrow> int \<Rightarrow> db \<Rightarrow> error + unit \<times> db" where
  "update_entrepreneur b i details_id now d =
     (if exists_where (entrepreneur_clash b (Some i)) (entrepreneurs d)
      then Inl (EConstraint ''entrepreneur_details'')
      else Inr ((), entrepreneurs_update (update_where (\<lambda>e. en_id e = i)
        (\<lambda>e. (entrepreneur_of b (en_created_at e) now details_id i)\<lparr>en_offer := en_offer e, en_industry := en_industry e\<rparr>)) d))"

text \<open>
  The fields a caller may set on a new location and on a new user action. Their checks
  require fields and edges that the repository never sets.
\<close>

record location_create =
  lcc_country :: "string option"
  lcc_province :: "string option"
  lcc_city :: "string option"
  lcc_postal_code :: "string option"
  lcc_building_number :: "int option"
  lcc_apartment_number :: "int option"
  lcc_user_details :: "int list"

definition LocationCreate :: location_create where
  "LocationCreate = \<lparr>lcc_country = None, lcc_province = None, lcc_city = None,
     lcc_postal_code = None, lcc_building_number = None, lcc_apartment_number = None,
     lcc_user_details = []\<rparr>"

definition LocationCreate_check :: "location_create \<Rightarrow> error option" where
  "LocationCreate_check b = first_error
     [required ''country'' (lcc_country b), valid ''country'' NotEmpty (lcc_country b),
      required ''province'' (lcc_province b), valid ''province'' NotEmpty (lcc_province b),
      required ''city'' (lcc_city b), valid ''city'' NotEmpty (lcc_city b),
      required ''postal_code'' (lcc_postal_code b), valid ''postal_code'' NotEmpty (lcc_postal_code b),
      required ''building_number'' (lcc_building_number b),
      valid ''building_number'' (\<lambda>x. 0 < x) (lcc_building_number b),
      required ''apartment_number'' (lcc_apartment_number b),
      valid ''apartment_number'' (\<lambda>x. 0 \<le> x) (lcc_apartment_number b),
      required_edge ''user_details'' (lcc_user_details b)]"

definition insert_location :: "location_create \<Rightarrow> int \<Rightarrow> int \<Rightarrow> db \<Rightarrow> error + unit \<times> db" where
  "insert_location b c u d =
     (if \<not> exists_where (\<lambda>r. dt_id r = hd (lcc_user_details b)) (details d)
      then Inl (EConstraint ''locations'')
      else Inr ((), locations_update (\<lambda>t. snd (insert_row (\<lambda>i. \<lparr>lc_id = i,
        lc_country = the (lcc_country b), lc_province = the (lcc_province b),
        lc_city = the (lcc_city b), lc_postal_code = the (lcc_postal_code b), lc_street = None,
        lc_building_number = the (lcc_building_number b),
        lc_apartment_number = the (lcc_apartment_number b), lc_created_at = c, lc_updated_at = u,
        lc_user_details = hd (lcc_user_details b)\<rparr>) t)) d))"

text \<open>\<open>Location.Update()\<close> without a predicate: every row, and only the hook's column.\<close>

definition touch_locations :: "int \<Rightarrow> db \<Rightarrow> error + unit \<times> db" where
  "touch_locations now d =
     Inr ((), locations_update (update_where (\<lambda>_. True) (\<lambda>l. l\<lparr>lc_updated_at := now\<rparr>)) d)"

record action_create =
  acc_type :: "string option"
  acc_action :: "string option"
  acc_details :: "string option"
  acc_author :: "int list"
  acc_author_device :: "int list"

definition UserActionCreate_check :: "action_create \<Rightarrow> error option" where
  "UserActionCreate_check b = first_error
     [required ''type'' (acc_type b), required ''action'' (acc_action b),
      required ''details'' (acc_details b), required_edge ''author'' (acc_author b),
      required_edge ''author_device'' (acc_author_device b)]"

definition insert_action :: "action_create \<Rightarrow> int \<Rightarrow> int \<Rightarrow> db \<Rightarrow> error + unit \<times> db" where
  "insert_action b c u d = Inr ((), actions_update (\<lambda>t. snd (insert_row (\<lambda>i. \<lparr>ac_id = i,
     ac_type = the (acc_type b), ac_action = the (acc_action b), ac_details = the (acc_details b),
     ac_created_at = c, ac_updated_at = u\<rparr>) t)) d)"

section \<open>What is relied on of sqlgraph\<close>

text \<open>
  Linking sets the column of the given rows, which must exist and be NULL; clearing sets
  every row that refers to the owner to NULL; a many-to-many link may not exist twice.
\<close>

definition sg_laws :: "'r env \<Rightarrow> bool" where
  "sg_laws env \<longleftrightarrow>
     (\<forall>col own ids col'. sg_link env col own ids = Some col' \<longrightarrow>
        map fst col' = map fst col \<and>
        (\<forall>k v. (k, v) \<in> set col' \<longrightarrow> k \<in> set ids \<and> v = Some own \<or> k \<notin> set ids \<and> (k, v) \<in> set col)) \<and>
     (\<forall>col own ids. (\<forall>i\<in>set ids. map_of col i = Some None) \<longrightarrow> sg_link env col own ids \<noteq> None) \<and>
     (\<forall>col own. sg_clear env col own =
        map (\<lambda>kv. if snd kv = Some own then (fst kv, None) else kv) col) \<and>
     (\<forall>links i rs links'. sg_add_m2m env links i rs = Some links' \<longrightarrow>
        set links' = set links \<union> {(i, r) | r. r \<in> set rs}) \<and>
     (\<forall>links i rs. set (sg_remove_m2m env links i rs) = set links - {(i, r) | r. r \<in> set rs})"

end
