(* ===== verification/Requests.thy ===== *)
theory Requests imports Ent_Client begin

text \<open>
  app/models/requests: the request bodies and their \<open>Valid\<close> methods. The rules of a struct
  tag are those of the validator library (documented there: \<open>required\<close> is not the zero
  value, \<open>min\<close> and \<open>max\<close> count the runes of a string, the first failing rule of the first
  failing field is reported first, an embedded struct's fields come where it is declared);
  the custom rules call the format checks. The library's \<open>ip\<close> rule is a parameter.
\<close>

section \<open>Bodies\<close>

record device_req =
  DeviceToken :: string
  IPAddress :: string
  UserAgent :: string
  OSName :: string
  OSVersion :: string
  BrowserName :: string
  BrowserVersion :: string

record register_req =
  rg_name :: string
  rg_mail :: string
  rg_password :: string
  rg_device :: device_req

record login_req =
  lg_mail :: string
  lg_password :: string
  lg_device :: device_req

record code_req =
  cq_code :: string
  cq_device :: device_req

record mail_req =
  mq_mail :: string
  mq_device :: device_req

record confirm_reset_req =
  cr_code :: string
  cr_password :: string
  cr_device :: device_req

record user_req =
  uq_phone :: string
  uq_mail :: string
  uq_device :: device_req

record details_req =
  dq_first_name :: string
  dq_last_name :: string
  dq_device :: device_req

record settings_req =
  sq_two_factor :: bool
  sq_night_mode :: bool
  sq_target :: int
  sq_notify :: "int list"
  sq_device :: device_req

record entrepreneur_req =
  eq_set :: entrepreneur_set
  eq_industry :: string
  eq_device :: device_req

record location_req =
  lq_country :: string
  lq_province :: string
  lq_city :: string
  lq_postal_code :: string
  lq_street :: string
  lq_building_number :: string
  lq_apartment_number :: string
  lq_device :: device_req

record index_req =
  ix_page :: int
  ix_page_size :: int
  ix_device :: device_req

record role_req =
  rq_user_id :: int
  rq_role_id :: int
  rq_device :: device_req

section \<open>Rules\<close>

text \<open>A failed rule: the field and the tag. A field's rules are tried in order.\<close>

type_synonym failure = "string \<times> string"

fun first_failure :: "string \<Rightarrow> (string \<times> bool) list \<Rightarrow> failure list" where
  "first_failure field_name [] = []"
| "first_failure field_name ((tag, ok) # rules) =
     (if ok then first_failure field_name rules else [(field_name, tag)])"

definition rune_count :: "string \<Rightarrow> nat" where
  "rune_count s = length (runes s)"

definition r_required :: "string \<Rightarrow> string \<times> bool" where
  "r_required s = (''required'', s \<noteq> [])"

definition r_min :: "nat \<Rightarrow> string \<Rightarrow> string \<times> bool" where
  "r_min n s = (''min'', n \<le> rune_count s)"

definition r_max :: "nat \<Rightarrow> string \<Rightarrow> string \<times> bool" where
  "r_max n s = (''max'', rune_count s \<le> n)"

definition custom_email :: "string \<Rightarrow> bool" where
  "custom_email email = (if email = [] then True else CheckEmailFormat email)"

definition custom_password :: "unicode_tables \<Rightarrow> string \<Rightarrow> bool" where
  "custom_password u password = CheckPasswordFormat u password"

definition custom_token :: "string \<Rightarrow> bool" where
  "custom_token token = (if token = [] then True else CheckTokenFormat token)"

definition custom_phone :: "string \<Rightarrow> bool" where
  "custom_phone phone = (if phone = [] then True else CheckPhoneFormat phone)"

definition nipRegex :: rexp where
  "nipRegex = rep 10 10 (Cls digit_class)"

definition krsRegex :: rexp where
  "krsRegex = rep 10 14 (Cls digit_class)"

definition custom_nip :: "string \<Rightarrow> bool" where
  "custom_nip nip = (if nip = [] then True else matches nipRegex (runes nip))"

definition custom_krs :: "string \<Rightarrow> bool" where
  "custom_krs krs = (if krs = [] then True else matches krsRegex (runes krs))"

fun literal :: "string \<Rightarrow> rexp" where
  "literal [] = One"
| "literal (c # s) = Seq (Cls (rune_is [c])) (literal s)"

definition urlRegex :: rexp where
  "urlRegex = Seq (literal ''http'') (Seq (Alt One (Cls (rune_is ''s''))) (Seq (literal ''://'')
     (Seq (plus (Cls domain_class)) (Seq (Cls (rune_is ''.''))
       (times_then 2 (Cls letter_class) (Star (Cls letter_class)))))))"

definition custom_url :: "string \<Rightarrow> bool" where
  "custom_url url = (if url = [] then True else matches urlRegex (runes url))"

text \<open>What the library is trusted with: its \<open>ip\<close> rule and the Unicode tables.\<close>

record validator =
  ip_rule :: "string \<Rightarrow> bool"
  tables :: unicode_tables

definition device_failures :: "validator \<Rightarrow> device_req \<Rightarrow> failure list" where
  "device_failures v r =
     first_failure ''DeviceToken'' [r_required (DeviceToken r)] @
     first_failure ''IPAddress'' [r_required (IPAddress r), (''ip'', ip_rule v (IPAddress r))] @
     first_failure ''UserAgent'' [r_required (UserAgent r)] @
     first_failure ''OSName'' [r_required (OSName r)] @
     first_failure ''OSVersion'' [r_required (OSVersion r)] @
     first_failure ''BrowserName'' [r_required (BrowserName r)] @
     first_failure ''BrowserVersion'' [r_required (BrowserVersion r)]"

definition translateError :: "failure list \<Rightarrow> error option" where
  "translateError fs = (case fs of
      [] \<Rightarrow> None
    | (fld, tag) # _ \<Rightarrow>
        if tag = ''custom_email'' then Some (EMsg ''invalid email format'')
        else if tag = ''custom_password'' then Some (EMsg ''password does not meet complexity requirements'')
        else Some (EMsg (''validation failed for field '' @ [CHR 0x27] @ fld @ [CHR 0x27] @
          '' with rule '' @ [CHR 0x27] @ tag @ [CHR 0x27])))"

definition device_message :: "string \<Rightarrow> error option" where
  "device_message fld =
     (if fld = ''DeviceToken'' then Some (EMsg ''no device token provided'')
      else if fld = ''IPAddress'' then Some (EMsg ''no ip address provided'')
      else if fld = ''UserAgent'' then Some (EMsg ''no user agent provided'')
      else if fld = ''OSName'' then Some (EMsg ''no os name provided'')
      else if fld = ''OSVersion'' then Some (EMsg ''no os version provided'')
      else if fld = ''BrowserName'' then Some (EMsg ''no browser name provided'')
      else if fld = ''BrowserVersion'' then Some (EMsg ''no browser version provided'')
      else None)"

fun first_message :: "failure list \<Rightarrow> error option" where
  "first_message [] = None"
| "first_message ((fld, tag) # fs) =
     (case device_message fld of Some e \<Rightarrow> Some e | None \<Rightarrow> first_message fs)"

definition Device_Valid :: "validator \<Rightarrow> device_req \<Rightarrow> error option" where
  "Device_Valid v r = first_message (device_failures v r)"

definition mail_rules :: "string \<Rightarrow> failure list" where
  "mail_rules m = first_failure ''Mail'' [r_required m, (''custom_email'', custom_email m)]"

definition password_rules :: "validator \<Rightarrow> string \<Rightarrow> failure list" where
  "password_rules v p = first_failure ''Password''
     [r_required p, (''custom_password'', custom_password (tables v) p)]"

definition code_rules :: "string \<Rightarrow> failure list" where
  "code_rules c = first_failure ''Code'' [r_required c, (''custom_token'', custom_token c)]"

definition Register_Valid :: "validator \<Rightarrow> register_req \<Rightarrow> error option" where
  "Register_Valid v r = translateError
     (first_failure ''Name'' [r_required (rg_name r), r_min 3 (rg_name r), r_max 50 (rg_name r)] @
      mail_rules (rg_mail r) @ password_rules v (rg_password r) @ device_failures v (rg_device r))"

definition Login_Valid :: "validator \<Rightarrow> login_req \<Rightarrow> error option" where
  "Login_Valid v r = translateError
     (mail_rules (lg_mail r) @ password_rules v (lg_password r) @ device_failures v (lg_device r))"

definition Code_Valid :: "validator \<Rightarrow> code_req \<Rightarrow> error option" where
  "Code_Valid v r = translateError (code_rules (cq_code r) @ device_failures v (cq_device r))"

definition Mail_Valid :: "validator \<Rightarrow> mail_req \<Rightarrow> error option" where
  "Mail_Valid v r = translateError (mail_rules (mq_mail r) @ device_failures v (mq_device r))"

definition ConfirmPasswordReset_Valid :: "validator \<Rightarrow> confirm_reset_req \<Rightarrow> error option" where
  "ConfirmPasswordReset_Valid v r = translateError
     (code_rules (cr_code r) @ password_rules v (cr_password r) @ device_failures v (cr_device r))"

definition User_Valid :: "validator \<Rightarrow> user_req \<Rightarrow> error option" where
  "User_Valid v r = translateError
     (first_failure ''Phone'' [r_required (uq_phone r), (''custom_phone'', custom_phone (uq_phone r))] @
      mail_rules (uq_mail r) @ device_failures v (uq_device r))"

definition Details_Valid :: "validator \<Rightarrow> details_req \<Rightarrow> error option" where
  "Details_Valid v r = translateError
     (first_failure ''FirstName'' [r_required (dq_first_name r), r_min 1 (dq_first_name r), r_max 50 (dq_first_name r)] @
      first_failure ''LastName'' [r_required (dq_last_name r), r_min 1 (dq_last_name r), r_max 50 (dq_last_name r)] @
      device_failures v (dq_device r))"

definition Settings_Valid :: "validator \<Rightarrow> settings_req \<Rightarrow> error option" where
  "Settings_Valid v r = translateError
     (first_failure ''SecondFactorTargetID'' [(''required'', sq_target r \<noteq> 0), (''gt'', 0 < sq_target r)] @
      concat (map (\<lambda>i. first_failure ''NotificationsTargetDeviceIDs'' [(''gt'', 0 < i)]) (sq_notify r)) @
      device_failures v (sq_device r))"

definition Location_Valid :: "validator \<Rightarrow> location_req \<Rightarrow> error option" where
  "Location_Valid v r = translateError
     (first_failure ''Country'' [r_required (lq_country r), r_min 2 (lq_country r), r_max 100 (lq_country r)] @
      first_failure ''Province'' [r_required (lq_province r), r_max 100 (lq_province r)] @
      first_failure ''City'' [r_required (lq_city r), r_min 2 (lq_city r), r_max 100 (lq_city r)] @
      first_failure ''PostalCode'' [r_required (lq_postal_code r), r_min 5 (lq_postal_code r), r_max 10 (lq_postal_code r)] @
      first_failure ''Street'' [r_max 100 (lq_street r)] @
      first_failure ''BuildingNumber'' [r_required (lq_building_number r), r_min 1 (lq_building_number r), r_max 20 (lq_building_number r)] @
      first_failure ''ApartmentNumber'' [r_max 20 (lq_apartment_number r)] @
      device_failures v (lq_device r))"

definition EntrepreneurDetails_Valid :: "validator \<Rightarrow> entrepreneur_req \<Rightarrow> error option" where
  "EntrepreneurDetails_Valid v r = (let s = eq_set r in translateError
     (first_failure ''BusinessName'' [r_required (es_business_name s), r_min 2 (es_business_name s), r_max 100 (es_business_name s)] @
      first_failure ''NIP'' [(''custom_nip'', custom_nip (es_nip s))] @
      first_failure ''KRS'' [(''custom_krs'', custom_krs (es_krs s))] @
      first_failure ''Description'' [r_max 500 (es_description s)] @
      first_failure ''Income'' [(''gte'', 0 \<le> es_income s)] @
      first_failure ''Costs'' [(''gte'', 0 \<le> es_costs s)] @
      first_failure ''FundingCapital'' [(''gte'', 0 \<le> es_funding_capital s)] @
      first_failure ''Industry'' [r_max 100 (eq_industry r)] @
      concat (map (\<lambda>m. first_failure ''ManagementCouncilMembers'' [r_min 1 m, r_max 100 m]) (es_council s)) @
      concat (map (\<lambda>m. first_failure ''DecisionMakers'' [r_min 1 m, r_max 100 m]) (es_decision_makers s)) @
      first_failure ''BusinessPhoneNumber'' [(''custom_phone'', custom_phone (es_phone s))] @
      first_failure ''BusinessMail'' [(''custom_email'', custom_email (es_mail s))] @
      first_failure ''WebsiteAddress'' [(''custom_url'', custom_url (es_website s))] @
      device_failures v (eq_device r)))"

definition Index_Valid :: "validator \<Rightarrow> index_req \<Rightarrow> error option" where
  "Index_Valid v r = translateError
     (first_failure ''Page'' [(''required'', ix_page r \<noteq> 0), (''gt'', 0 < ix_page r)] @
      first_failure ''PageSize'' [(''required'', ix_page_size r \<noteq> 0), (''gt'', 0 < ix_page_size r),
        (''lte'', ix_page_size r \<le> 100)] @ device_failures v (ix_device r))"

definition Role_Valid :: "validator \<Rightarrow> role_req \<Rightarrow> error option" where
  "Role_Valid v r = translateError
     (first_failure ''UserID'' [(''required'', rq_user_id r \<noteq> 0), (''gt'', 0 < rq_user_id r)] @
      first_failure ''RoleID'' [(''required'', rq_role_id r \<noteq> 0), (''gt'', 0 < rq_role_id r)] @
      device_failures v (rq_device r))"

section \<open>Lemmas\<close>

lemma translateError_None [simp]: "translateError fs = None \<longleftrightarrow> fs = []"
  by (auto simp: translateError_def split: list.splits if_splits)

lemma first_failure_Nil: "first_failure f rules = [] \<longleftrightarrow> (\<forall>r\<in>set rules. snd r)"
  by (induction rules) (auto split: if_splits)

lemma first_message_append:
  "first_message (fs @ gs) = None \<longleftrightarrow> first_message fs = None \<and> first_message gs = None"
  by (induction fs) (auto split: option.splits)

lemma first_message_failure:
  "device_message f \<noteq> None \<Longrightarrow> first_message (first_failure f rules) = None \<longleftrightarrow> first_failure f rules = []"
  by (induction rules) (auto split: if_splits option.splits)

lemma mail_rules_Nil: "mail_rules m = [] \<longleftrightarrow> CheckEmailFormat m"
  by (auto simp: mail_rules_def first_failure_Nil r_required_def custom_email_def CheckEmailFormat_def)

lemma password_rules_Nil: "password_rules v p = [] \<longleftrightarrow> CheckPasswordFormat (tables v) p"
  by (auto simp: password_rules_def first_failure_Nil r_required_def custom_password_def CheckPasswordFormat_def)

lemma code_rules_Nil: "code_rules c = [] \<longleftrightarrow> CheckTokenFormat c"
  by (auto simp: code_rules_def first_failure_Nil r_required_def custom_token_def CheckTokenFormat_def)

text \<open>A login body passes \<open>Valid\<close> exactly when its mail address and password have the required
  format and the device block has no failing rule; a code body exactly when the code has six
  digits and the device block is complete.\<close>

theorem login_and_code_bodies_valid:
  "(Login_Valid v l = None \<longleftrightarrow> CheckEmailFormat (lg_mail l) \<and>
      CheckPasswordFormat (tables v) (lg_password l) \<and> device_failures v (lg_device l) = []) \<and>
   (Code_Valid v c = None \<longleftrightarrow> CheckTokenFormat (cq_code c) \<and> device_failures v (cq_device c) = []) \<and>
   (Device_Valid v d = None \<longleftrightarrow> device_failures v d = [])"
proof -
  have "first_message (device_failures v d) = None \<longleftrightarrow> device_failures v d = []"
    by (simp add: device_failures_def first_message_append first_message_failure device_message_def)
  then show ?thesis
    by (auto simp: Login_Valid_def Code_Valid_def Device_Valid_def mail_rules_Nil password_rules_Nil
        code_rules_Nil)
qed

end
