(* ===== verification/Base64.thy ===== *)
theory Base64 imports Go_Strings begin

text \<open>
  \<open>encoding/base64\<close>: \<open>StdEncoding\<close> (padded; the cache store's cipher texts and nonces)
  and \<open>RawStdEncoding\<close> (unpadded; the fields of a password hash). As in Go, decoding skips
  carriage returns and line feeds and does not reject non-zero trailing bits.
\<close>

definition sextet_char :: "nat \<Rightarrow> char" where
  "sextet_char n =
     (if n < 26 then char_of (65 + n)
      else if n < 52 then char_of (71 + n)
      else if n < 62 then char_of (n - 4)
      else if n = 62 then CHR ''+'' else CHR ''/'')"

definition sextet_of :: "char \<Rightarrow> nat option" where
  "sextet_of c = (let n = (of_char c :: nat) in
     if 65 \<le> n \<and> n \<le> 90 then Some (n - 65)
     else if 97 \<le> n \<and> n \<le> 122 then Some (n - 71)
     else if 48 \<le> n \<and> n \<le> 57 then Some (n + 4)
     else if n = 43 then Some 62
     else if n = 47 then Some 63
     else None)"

definition pad_with :: "bool \<Rightarrow> nat \<Rightarrow> string" where
  "pad_with pad k = (if pad then replicate k CHR ''='' else [])"

fun b64_encode :: "bool \<Rightarrow> nat list \<Rightarrow> string" where
  "b64_encode pad [] = []"
| "b64_encode pad [a] =
     [sextet_char (a div 4), sextet_char (a mod 4 * 16)] @ pad_with pad 2"
| "b64_encode pad [a, b] =
     [sextet_char (a div 4), sextet_char (a mod 4 * 16 + b div 16),
      sextet_char (b mod 16 * 4)] @ pad_with pad 1"
| "b64_encode pad (a # b # c # rest) =
     [sextet_char (a div 4), sextet_char (a mod 4 * 16 + b div 16),
      sextet_char (b mod 16 * 4 + c div 64), sextet_char (c mod 64)] @ b64_encode pad rest"

definition byte1 :: "nat \<Rightarrow> nat \<Rightarrow> nat" where "byte1 p q = p * 4 + q div 16"
definition byte2 :: "nat \<Rightarrow> nat \<Rightarrow> nat" where "byte2 q r = q mod 16 * 16 + r div 4"
definition byte3 :: "nat \<Rightarrow> nat \<Rightarrow> nat" where "byte3 r s = r mod 4 * 64 + s"

fun b64_decode :: "bool \<Rightarrow> string \<Rightarrow> nat list option" where
  "b64_decode pad [] = Some []"
| "b64_decode pad [_] = None"
| "b64_decode pad [a, b] =
     (case (pad, sextet_of a, sextet_of b) of
        (False, Some p, Some q) \<Rightarrow> Some [byte1 p q]
      | _ \<Rightarrow> None)"
| "b64_decode pad [a, b, c] =
     (case (pad, sextet_of a, sextet_of b, sextet_of c) of
        (False, Some p, Some q, Some r) \<Rightarrow> Some [byte1 p q, byte2 q r]
      | _ \<Rightarrow> None)"
| "b64_decode pad (a # b # c # d # rest) =
     (case (sextet_of a, sextet_of b) of
        (Some p, Some q) \<Rightarrow>
          (if pad \<and> c = CHR ''='' then
             (if d = CHR ''='' \<and> rest = [] then Some [byte1 p q] else None)
           else (case sextet_of c of
               None \<Rightarrow> None
             | Some r \<Rightarrow>
                 (if pad \<and> d = CHR ''='' then
                    (if rest = [] then Some [byte1 p q, byte2 q r] else None)
                  else (case (sextet_of d, b64_decode pad rest) of
                      (Some s, Some bs) \<Rightarrow> Some (byte1 p q # byte2 q r # byte3 r s # bs)
                    | _ \<Rightarrow> None))))
      | _ \<Rightarrow> None)"

definition is_newline :: "char \<Rightarrow> bool" where
  "is_newline c = (c = char_of (10 :: nat) \<or> c = char_of (13 :: nat))"

definition encode_string :: "bool \<Rightarrow> string \<Rightarrow> string" where
  "encode_string pad s = b64_encode pad (map of_char s)"

definition decode_string :: "bool \<Rightarrow> string \<Rightarrow> string option" where
  "decode_string pad s =
     map_option (map char_of) (b64_decode pad (filter (\<lambda>c. \<not> is_newline c) s))"

section \<open>The alphabet\<close>

lemma sextet_of_char [simp]: "n < 64 \<Longrightarrow> sextet_of (sextet_char n) = Some n"
  by (auto simp: sextet_char_def sextet_of_def Let_def)

lemma sextet_char_not_pad [simp]: "n < 64 \<Longrightarrow> sextet_char n \<noteq> CHR ''=''"
  using sextet_of_char [of n] by (auto simp: sextet_of_def)

definition b64_char :: "char \<Rightarrow> bool" where
  "b64_char c = (sextet_of c \<noteq> None \<or> c = CHR ''='')"

lemma b64_char_sextet [simp]: "n < 64 \<Longrightarrow> b64_char (sextet_char n)"
  by (simp add: b64_char_def)

lemma b64_char_pad [simp]: "c \<in> set (pad_with pad k) \<Longrightarrow> b64_char c"
  by (auto simp: pad_with_def b64_char_def split: if_splits)

lemma b64_char_cases:
  assumes "b64_char c"
  shows "(of_char c :: nat) \<in> {43, 47, 61} \<union> {48..57} \<union> {65..90} \<union> {97..122}"
  using assms
  by (auto simp: b64_char_def sextet_of_def Let_def split: if_splits)

section \<open>Round trip\<close>

lemma small_div:
  fixes b :: nat
  assumes "b < 256"
  shows "b div 4 < 64" and "b div 16 < 16" and "b div 64 < 4"
  using assms by (auto simp: less_mult_imp_div_less)

lemma byte1_enc: "b < 256 \<Longrightarrow> byte1 (a div 4) (a mod 4 * 16 + b div 16) = a"
  using small_div(2) [of b] by (simp add: byte1_def)

lemma byte1_enc0: "byte1 (a div 4) (a mod 4 * 16) = a"
  by (simp add: byte1_def)

lemma byte2_enc:
  "b < 256 \<Longrightarrow> c < 256 \<Longrightarrow> byte2 (a mod 4 * 16 + b div 16) (b mod 16 * 4 + c div 64) = b"
  using small_div(2) [of b] small_div(3) [of c] by (simp add: byte2_def)

lemma byte2_enc0: "b < 256 \<Longrightarrow> byte2 (a mod 4 * 16 + b div 16) (b mod 16 * 4) = b"
  using small_div(2) [of b] by (simp add: byte2_def)

lemma byte3_enc: "c < 256 \<Longrightarrow> byte3 (b mod 16 * 4 + c div 64) (c mod 64) = c"
  using small_div(3) [of c] by (simp add: byte3_def)

lemma mod_scaled:
  fixes a :: nat
  shows "a mod 4 * 16 \<le> 48" and "a mod 16 * 4 \<le> 60"
  using mod_less_divisor [of 4 a] mod_less_divisor [of 16 a] by linarith+

lemma sextet_bounds:
  fixes a b c :: nat
  shows "a < 256 \<Longrightarrow> a div 4 < 64" and "a mod 4 * 16 < 64"
    and "b < 256 \<Longrightarrow> a mod 4 * 16 + b div 16 < 64" and "b mod 16 * 4 < 64"
    and "c < 256 \<Longrightarrow> b mod 16 * 4 + c div 64 < 64" and "c mod 64 < 64"
  using small_div(1) [of a] small_div(2) [of b] small_div(3) [of c]
    mod_scaled(1) [of a] mod_scaled(2) [of b] by auto

lemma b64_encode_chars:
  "\<forall>x\<in>set bs. x < 256 \<Longrightarrow> c \<in> set (b64_encode pad bs) \<Longrightarrow> b64_char c"
  by (induction pad bs rule: b64_encode.induct) (auto simp: sextet_bounds)

lemma b64_round_trip: "\<forall>x\<in>set bs. x < 256 \<Longrightarrow> b64_decode pad (b64_encode pad bs) = Some bs"
  by (induction pad bs rule: b64_encode.induct)
    (auto simp: pad_with_def sextet_bounds byte1_enc byte1_enc0 byte2_enc byte2_enc0 byte3_enc
      numeral_2_eq_2)

lemma of_char_less_256 [simp]: "(of_char (c :: char) :: nat) < 256"
  using of_char_mod_256 [of c] by (metis mod_less_divisor zero_less_numeral)

lemma encode_string_chars: "c \<in> set (encode_string pad s) \<Longrightarrow> b64_char c"
  by (rule b64_encode_chars [of "map of_char s" c pad]) (auto simp: encode_string_def)

lemma b64_char_not_newline: "b64_char c \<Longrightarrow> \<not> is_newline c"
  using b64_char_cases [of c] by (auto simp: is_newline_def)

lemma decode_encode_string [simp]: "decode_string pad (encode_string pad s) = Some s"
proof -
  have "filter (\<lambda>c. \<not> is_newline c) (encode_string pad s) = encode_string pad s"
    using encode_string_chars b64_char_not_newline by (simp add: filter_id_conv)
  moreover have "map char_of (map (of_char :: char \<Rightarrow> nat) s) = s" by (simp add: o_def)
  ultimately show ?thesis
    by (simp add: decode_string_def encode_string_def b64_round_trip del: map_map)
qed

lemma raw_no_pad: "CHR ''='' \<notin> set (encode_string False s)"
proof -
  have "\<forall>x\<in>set bs. x < 256 \<Longrightarrow> CHR ''='' \<notin> set (b64_encode False bs)" for bs
    by (induction False bs rule: b64_encode.induct)
      (auto simp: pad_with_def sextet_bounds dest: sym [of "CHR ''=''"])
  then show ?thesis by (simp add: encode_string_def)
qed

lemma dollar_not_b64 [simp]: "\<not> b64_char CHR ''$''"
  by (simp add: b64_char_def sextet_of_def)

lemma decode_string_Nil [simp]: "decode_string pad [] = Some []"
  by (simp add: decode_string_def)

end
