(* ===== verification/Cache_Store.thy ===== *)
theory Cache_Store imports Ent_Client Base64 Json begin

text \<open>
  app/infrastructure/cache_store.go: values encrypted with XChaCha20-Poly1305, wrapped with
  their nonce into a JSON payload (app/models/models.go) and kept in Redis. The AEAD cipher
  and the Redis commands are parameters of the environment; what the code relies on of them
  is stated by \<open>aead_laws\<close>, \<open>rand_laws\<close> and \<open>redis_laws\<close>. Base64 and JSON are computed.
\<close>

section \<open>Decoding structs\<close>

definition lower_char :: "char \<Rightarrow> char" where
  "lower_char c = (if 65 \<le> (of_char c :: nat) \<and> (of_char c :: nat) \<le> 90
     then char_of ((of_char c :: nat) + 32) else c)"

text \<open>\<open>json.Unmarshal\<close> matches keys without regard to case; the last match wins.\<close>

definition same_key :: "string \<Rightarrow> string \<Rightarrow> bool" where
  "same_key k name = (map lower_char k = map lower_char name)"

fun decode_field :: "('a \<Rightarrow> json \<Rightarrow> 'a option) \<Rightarrow> string \<Rightarrow> (string \<times> json) list \<Rightarrow> 'a \<Rightarrow> 'a option" where
  "decode_field step name [] acc = Some acc"
| "decode_field step name ((k, v) # kvs) acc =
     (if same_key k name
      then (case step acc v of None \<Rightarrow> None | Some a \<Rightarrow> decode_field step name kvs a)
      else decode_field step name kvs acc)"

fun string_step :: "string \<Rightarrow> json \<Rightarrow> string option" where
  "string_step old JNull = Some old"
| "string_step old (JStr s) = Some s"
| "string_step old v = None"

definition int64 :: "int \<Rightarrow> bool" where
  "int64 i = (- (2 ^ 63) \<le> i \<and> i < 2 ^ 63)"

fun int_step :: "int \<Rightarrow> json \<Rightarrow> int option" where
  "int_step old JNull = Some old"
| "int_step old (JNum i) = (if int64 i then Some i else None)"
| "int_step old v = None"

fun bool_step :: "bool \<Rightarrow> json \<Rightarrow> bool option" where
  "bool_step old JNull = Some old"
| "bool_step old (JBool b) = Some b"
| "bool_step old v = None"

fun decode_all :: "(json \<Rightarrow> 'a option) \<Rightarrow> json list \<Rightarrow> 'a list option" where
  "decode_all dec [] = Some []"
| "decode_all dec (v # vs) = (case (dec v, decode_all dec vs) of
      (Some x, Some xs) \<Rightarrow> Some (x # xs) | _ \<Rightarrow> None)"

fun list_step :: "(json \<Rightarrow> 'a option) \<Rightarrow> 'a list \<Rightarrow> json \<Rightarrow> 'a list option" where
  "list_step dec old JNull = Some []"
| "list_step dec old (JArr vs) = decode_all dec vs"
| "list_step dec old v = None"

text \<open>The members of an object; \<open>null\<close> leaves a struct as it is.\<close>

fun members :: "json \<Rightarrow> (string \<times> json) list option" where
  "members JNull = Some []"
| "members (JObj kvs) = Some kvs"
| "members v = None"

section \<open>Payloads and claims as JSON\<close>

record cache_payload =
  CipherText :: string
  Nonce :: string

definition payload_json :: "cache_payload \<Rightarrow> json" where
  "payload_json p = JObj [(''cipher_text'', JStr (CipherText p)), (''nonce'', JStr (Nonce p))]"

definition payload_of_json :: "json \<Rightarrow> cache_payload option" where
  "payload_of_json j = (case members j of None \<Rightarrow> None
     | Some kvs \<Rightarrow> (case (decode_field string_step ''cipher_text'' kvs [], decode_field string_step ''nonce'' kvs []) of
         (Some c, Some n) \<Rightarrow> Some \<lparr>CipherText = c, Nonce = n\<rparr>
       | _ \<Rightarrow> None))"

definition unmarshal_payload :: "string \<Rightarrow> cache_payload option" where
  "unmarshal_payload s = (case parse_json s of None \<Rightarrow> None | Some j \<Rightarrow> payload_of_json j)"

definition permission_json :: "permission_info \<Rightarrow> json" where
  "permission_json p = JObj [(''name'', JStr (pi_name p)), (''view'', JBool (pi_view p)),
     (''add'', JBool (pi_add p)), (''edit'', JBool (pi_edit p)), (''delete'', JBool (pi_delete p))]"

definition role_json :: "role_info \<Rightarrow> json" where
  "role_json r = JObj [(''name'', JStr (ri_name r)), (''description'', JStr (ri_description r)),
     (''permissions'', JArr (map permission_json (ri_permissions r)))]"

text \<open>
  The registered claims of the JWT library are a struct of another package; their JSON is a
  parameter. The tag \<open>json:"-,inline"\<close> of the field gives it the key \<open>-\<close>: it is neither
  dropped nor inlined.
\<close>

record registered_codec =
  reg_json :: "int option \<Rightarrow> int option \<Rightarrow> json"
  json_reg :: "json \<Rightarrow> (int option \<times> int option) option"

definition claims_json :: "registered_codec \<Rightarrow> claims \<Rightarrow> json" where
  "claims_json rc c = JObj [(''user_id'', JNum (cl_user_id c)), (''device_id'', JNum (cl_device_id c)),
     (''user_roles'', JArr (map role_json (cl_user_roles c))),
     (''-'', reg_json rc (cl_expires_at c) (cl_issued_at c))]"

definition permission_of_json :: "json \<Rightarrow> permission_info option" where
  "permission_of_json j = (case members j of None \<Rightarrow> None
     | Some kvs \<Rightarrow>
       (case (decode_field string_step ''name'' kvs [], decode_field bool_step ''view'' kvs False,
              decode_field bool_step ''add'' kvs False, decode_field bool_step ''edit'' kvs False,
              decode_field bool_step ''delete'' kvs False) of
          (Some n, Some v, Some a, Some e, Some d) \<Rightarrow>
            Some \<lparr>pi_name = n, pi_view = v, pi_add = a, pi_edit = e, pi_delete = d\<rparr>
        | _ \<Rightarrow> None))"

definition role_of_json :: "json \<Rightarrow> role_info option" where
  "role_of_json j = (case members j of None \<Rightarrow> None
     | Some kvs \<Rightarrow>
       (case (decode_field string_step ''name'' kvs [], decode_field string_step ''description'' kvs [],
              decode_field (list_step permission_of_json) ''permissions'' kvs []) of
          (Some n, Some d, Some ps) \<Rightarrow> Some \<lparr>ri_name = n, ri_description = d, ri_permissions = ps\<rparr>
        | _ \<Rightarrow> None))"

definition registered_step ::
  "registered_codec \<Rightarrow> int option \<times> int option \<Rightarrow> json \<Rightarrow> (int option \<times> int option) option" where
  "registered_step rc old v = json_reg rc v"

definition claims_of_json :: "registered_codec \<Rightarrow> json \<Rightarrow> claims option" where
  "claims_of_json rc j = (case members j of None \<Rightarrow> None
     | Some kvs \<Rightarrow>
       (case (decode_field int_step ''user_id'' kvs 0, decode_field int_step ''device_id'' kvs 0,
              decode_field (list_step role_of_json) ''user_roles'' kvs [],
              decode_field (registered_step rc) ''-'' kvs (None, None)) of
          (Some u, Some d, Some rs, Some (e, i)) \<Rightarrow>
            Some \<lparr>cl_user_id = u, cl_device_id = d, cl_user_roles = rs, cl_expires_at = e, cl_issued_at = i\<rparr>
        | _ \<Rightarrow> None))"

definition unmarshal_claims :: "registered_codec \<Rightarrow> string \<Rightarrow> claims option" where
  "unmarshal_claims rc s = (case parse_json s of None \<Rightarrow> None | Some j \<Rightarrow> claims_of_json rc j)"

definition marshal_claims :: "registered_codec \<Rightarrow> claims \<Rightarrow> string" where
  "marshal_claims rc c = print_json (claims_json rc c)"

text \<open>What is relied on of the JWT library's codec: it reads back the times it wrote, whole
  seconds.\<close>

definition codec_laws :: "registered_codec \<Rightarrow> bool" where
  "codec_laws rc \<longleftrightarrow>
     (\<forall>e i. json_reg rc (reg_json rc e i) = Some (e, i) \<and> integral (reg_json rc e i))"

lemma integral_role_json [simp]: "integral (role_json r)"
  by (simp add: role_json_def permission_json_def list_all_iff)

lemma integral_claims_json: "codec_laws rc \<Longrightarrow> integral (claims_json rc c)"
  by (simp add: claims_json_def codec_laws_def list_all_iff)

section \<open>Encryption\<close>

text \<open>The key and nonce sizes of the cipher; \<open>Open\<close> panics on a nonce of another size.\<close>

definition KeySize :: nat where "KeySize = 32"
definition NonceSizeX :: nat where "NonceSizeX = 24"

text \<open>\<open>NewCacheStore\<close>: the process stops unless the key has the cipher's size.\<close>

definition NewCacheStore :: "string \<Rightarrow> string option" where
  "NewCacheStore encryptionSecretKey =
     (if length encryptionSecretKey = 0 then None
      else if length encryptionSecretKey \<noteq> KeySize then None
      else Some encryptionSecretKey)"

definition GenerateNonce :: "'r env \<Rightarrow> ('r world, string) io" where
  "GenerateNonce env = read_random env NonceSizeX"

definition Encrypt :: "'r env \<Rightarrow> string \<Rightarrow> ('r world, string \<times> string) io" where
  "Encrypt env phrase =
     (if length (cipher_key env) \<noteq> KeySize then throw (EMsg ''chacha20poly1305: bad key length'')
      else andthen (GenerateNonce env) (\<lambda>nonce.
        ret (encode_string True (aead_seal env (cipher_key env) nonce phrase), encode_string True nonce)))"

definition Decrypt :: "'r env \<Rightarrow> string \<Rightarrow> string \<Rightarrow> ('r world, string) io" where
  "Decrypt env cipherPhrase nonceBase64 =
     (if length (cipher_key env) \<noteq> KeySize then throw (EMsg ''chacha20poly1305: bad key length'')
      else case decode_string True nonceBase64 of
        None \<Rightarrow> throw (EMsg ''illegal base64 data'')
      | Some nonce \<Rightarrow> (case decode_string True cipherPhrase of
            None \<Rightarrow> throw (EMsg ''illegal base64 data'')
          | Some ciphertext \<Rightarrow>
              if length nonce \<noteq> NonceSizeX then panic
              else (case aead_open env (cipher_key env) nonce ciphertext of
                  None \<Rightarrow> throw (EMsg ''chacha20poly1305: message authentication failed'')
                | Some plaintext \<Rightarrow> ret plaintext)))"

section \<open>The Redis commands\<close>

definition redis_Get :: "'r env \<Rightarrow> string \<Rightarrow> ('r world, string) io" where
  "redis_Get env key = (\<lambda>w. let w' = w\<lparr>tick := tick w + 1\<rparr> in
     case redis_fault env (tick w) of
       Some e \<Rightarrow> (Err e, w')
     | None \<Rightarrow> (case redis_get env (redis w) (now_at env (tick w)) key of
           None \<Rightarrow> (Err ERedisNil, w')
         | Some v \<Rightarrow> (Ok v, w')))"

definition redis_Set :: "'r env \<Rightarrow> string \<Rightarrow> string \<Rightarrow> int \<Rightarrow> ('r world, unit) io" where
  "redis_Set env key v ttl = (\<lambda>w. let w' = w\<lparr>tick := tick w + 1\<rparr> in
     case redis_fault env (tick w) of
       Some e \<Rightarrow> (Err e, w')
     | None \<Rightarrow> (Ok (), w'\<lparr>redis := redis_set env (redis w) (now_at env (tick w)) key v ttl\<rparr>))"

definition redis_Del :: "'r env \<Rightarrow> string \<Rightarrow> ('r world, unit) io" where
  "redis_Del env key = (\<lambda>w. let w' = w\<lparr>tick := tick w + 1\<rparr> in
     case redis_fault env (tick w) of
       Some e \<Rightarrow> (Err e, w')
     | None \<Rightarrow> (Ok (), w'\<lparr>redis := redis_del env (redis w) key\<rparr>))"

definition redis_Ping :: "'r env \<Rightarrow> ('r world, unit) io" where
  "redis_Ping env = (\<lambda>w. let w' = w\<lparr>tick := tick w + 1\<rparr> in
     case redis_fault env (tick w) of Some e \<Rightarrow> (Err e, w') | None \<Rightarrow> (Ok (), w'))"

section \<open>The cache store\<close>

definition wrap_payload :: "string \<times> string \<Rightarrow> string" where
  "wrap_payload en = print_json (payload_json \<lparr>CipherText = fst en, Nonce = snd en\<rparr>)"

definition CacheStore_Get :: "'r env \<Rightarrow> string \<Rightarrow> ('r world, string) io" where
  "CacheStore_Get env key = andthen (redis_Get env key) (\<lambda>encryptedPayloadBytes.
     case unmarshal_payload encryptedPayloadBytes of
       None \<Rightarrow> throw (EMsg ''invalid cache format'')
     | Some p \<Rightarrow> Decrypt env (CipherText p) (Nonce p))"

definition CacheStore_Set :: "'r env \<Rightarrow> string \<Rightarrow> string \<Rightarrow> int \<Rightarrow> ('r world, unit) io" where
  "CacheStore_Set env key payload ttl = andthen (Encrypt env payload) (\<lambda>en.
     redis_Set env key (wrap_payload en) ttl)"

definition CacheStore_Del :: "'r env \<Rightarrow> string \<Rightarrow> ('r world, unit) io" where
  "CacheStore_Del env key = redis_Del env key"

definition CacheStore_Ping :: "'r env \<Rightarrow> ('r world, unit) io" where
  "CacheStore_Ping env = redis_Ping env"

definition CacheClaims :: "'r env \<Rightarrow> string \<Rightarrow> ('r world, string) io" where
  "CacheClaims env payload = andthen (Encrypt env payload) (\<lambda>en. ret (wrap_payload en))"

definition DecacheClaims :: "'r env \<Rightarrow> registered_codec \<Rightarrow> string \<Rightarrow> ('r world, claims) io" where
  "DecacheClaims env rc payloadBytes = (case unmarshal_payload payloadBytes of
      None \<Rightarrow> throw (EIO ''json'')
    | Some p \<Rightarrow> andthen (Decrypt env (CipherText p) (Nonce p)) (\<lambda>plaintext.
        case unmarshal_claims rc plaintext of None \<Rightarrow> throw (EIO ''json'') | Some c \<Rightarrow> ret c))"

definition CacheUser :: "'r env \<Rightarrow> user \<Rightarrow> ('r world, string) io" where
  "CacheUser env u = andthen (Encrypt env (user_json env u)) (\<lambda>en. ret (wrap_payload en))"

definition DecacheUser :: "'r env \<Rightarrow> string \<Rightarrow> ('r world, user) io" where
  "DecacheUser env payloadBytes = (case unmarshal_payload payloadBytes of
      None \<Rightarrow> throw (EIO ''json'')
    | Some p \<Rightarrow> andthen (Decrypt env (CipherText p) (Nonce p)) (\<lambda>plaintext.
        case json_user env plaintext of None \<Rightarrow> throw (EIO ''json'') | Some u \<Rightarrow> ret u))"

section \<open>What is relied on\<close>

definition aead_laws :: "'r env \<Rightarrow> bool" where
  "aead_laws env \<longleftrightarrow> (\<forall>k n p. length k = KeySize \<longrightarrow> length n = NonceSizeX \<longrightarrow>
     aead_open env k n (aead_seal env k n p) = Some p)"

definition rand_laws :: "'r env \<Rightarrow> bool" where
  "rand_laws env \<longleftrightarrow> (\<forall>t n b. rand_read env t n = Some b \<longrightarrow> length b = n)"

text \<open>A value set at \<open>t\<close> with a time to live is read back until it expires; setting or deleting
  a key leaves the others; a deleted key is gone.\<close>

definition redis_laws :: "'r env \<Rightarrow> bool" where
  "redis_laws env \<longleftrightarrow>
     (\<forall>r t t' k v ttl. t \<le> t' \<longrightarrow> t' < t + ttl \<longrightarrow>
        redis_get env (redis_set env r t k v ttl) t' k = Some v) \<and>
     (\<forall>r t t' k k' v ttl. k' \<noteq> k \<longrightarrow>
        redis_get env (redis_set env r t k v ttl) t' k' = redis_get env r t' k') \<and>
     (\<forall>r t k. redis_get env (redis_del env r k) t k = None) \<and>
     (\<forall>r t k k'. k' \<noteq> k \<longrightarrow> redis_get env (redis_del env r k) t k' = redis_get env r t k')"

section \<open>Lemmas\<close>

lemma unmarshal_wrap [simp]:
  "unmarshal_payload (wrap_payload (c, n)) = Some \<lparr>CipherText = c, Nonce = n\<rparr>"
proof -
  have "\<not> same_key ''nonce'' ''cipher_text''" "\<not> same_key ''cipher_text'' ''nonce''"
    by (auto simp: same_key_def dest: arg_cong [of _ _ length])
  moreover have "same_key k k" for k by (simp add: same_key_def)
  ultimately show ?thesis
    by (simp add: unmarshal_payload_def wrap_payload_def payload_json_def
        payload_of_json_def)
qed

text \<open>Opening what \<open>Encrypt\<close> produced.\<close>

lemma Encrypt_OkE:
  assumes "Encrypt env phrase w = (Ok en, w')"
  obtains n where "length (cipher_key env) = KeySize" and "rand_read env (tick w) NonceSizeX = Some n"
    and "en = (encode_string True (aead_seal env (cipher_key env) n phrase), encode_string True n)"
    and "w' = w\<lparr>tick := tick w + 1\<rparr>"
  using assms by (auto simp: Encrypt_def GenerateNonce_def split: if_splits elim!: ok_elims)

lemma Decrypt_Encrypt:
  assumes "aead_laws env" and "rand_laws env" and "Encrypt env phrase w = (Ok (c, n), w')"
  shows "Decrypt env c n v = (Ok phrase, v)"
proof -
  from assms(3) obtain nonce where k: "length (cipher_key env) = KeySize"
    and r: "rand_read env (tick w) NonceSizeX = Some nonce"
    and c: "c = encode_string True (aead_seal env (cipher_key env) nonce phrase)"
    and n: "n = encode_string True nonce"
    by (auto elim!: Encrypt_OkE)
  have "length nonce = NonceSizeX" using assms(2) r by (simp add: rand_laws_def)
  with k have "aead_open env (cipher_key env) nonce (aead_seal env (cipher_key env) nonce phrase) = Some phrase"
    using assms(1) by (simp add: aead_laws_def)
  with k \<open>length nonce = NonceSizeX\<close> show ?thesis by (simp add: Decrypt_def c n)
qed

lemma redis_Set_OkE:
  assumes "redis_Set env key v ttl w = (Ok y, w')"
  obtains "redis_fault env (tick w) = None"
    and "w' = w\<lparr>tick := tick w + 1, redis := redis_set env (redis w) (now_at env (tick w)) key v ttl\<rparr>"
  using assms by (auto simp: redis_Set_def Let_def split: option.splits)

lemma Get_while_cached:
  assumes laws: "aead_laws env" "rand_laws env" "redis_laws env"
    and set: "CacheStore_Set env key payload ttl w = (Ok (), w1)"
    and kept: "redis v = redis w1"
    and fresh: "now_at env (tick w + 1) \<le> now_at env (tick v)"
      "now_at env (tick v) < now_at env (tick w + 1) + ttl"
    and up: "redis_fault env (tick v) = None"
  shows "CacheStore_Get env key v = (Ok payload, v\<lparr>tick := tick v + 1\<rparr>)"
proof -
  from set obtain c n w2 where enc: "Encrypt env payload w = (Ok (c, n), w2)"
    and s: "redis_Set env key (wrap_payload (c, n)) ttl w2 = (Ok (), w1)"
    unfolding CacheStore_Set_def by (auto elim!: andthen_OkE)
  from enc have w2: "w2 = w\<lparr>tick := tick w + 1\<rparr>" by (auto elim!: Encrypt_OkE)
  from s have w1: "w1 = w2\<lparr>tick := tick w2 + 1,
      redis := redis_set env (redis w2) (now_at env (tick w2)) key (wrap_payload (c, n)) ttl\<rparr>"
    by (auto elim!: redis_Set_OkE)
  have "redis_get env (redis v) (now_at env (tick v)) key = Some (wrap_payload (c, n))"
    using laws(3) fresh unfolding redis_laws_def kept w1 w2 by simp
  then have "redis_Get env key v = (Ok (wrap_payload (c, n)), v\<lparr>tick := tick v + 1\<rparr>)"
    using up by (simp add: redis_Get_def)
  then show ?thesis
    using Decrypt_Encrypt [OF laws(1,2) enc] by (simp add: CacheStore_Get_def)
qed

lemma Get_after_Set:
  assumes laws: "aead_laws env" "rand_laws env" "redis_laws env"
    and set: "CacheStore_Set env key payload ttl w = (Ok (), w1)"
    and fresh: "now_at env (tick w + 1) \<le> now_at env (tick w1)"
      "now_at env (tick w1) < now_at env (tick w + 1) + ttl"
    and up: "redis_fault env (tick w1) = None"
  shows "CacheStore_Get env key w1 = (Ok payload, w1\<lparr>tick := tick w1 + 1\<rparr>)"
  using Get_while_cached [OF laws set refl fresh up] .

lemma DecacheUser_CacheUser:
  assumes "aead_laws env" and "rand_laws env" and "CacheUser env u w = (Ok p, w1)"
    and "json_user env (user_json env u) = Some u'"
  shows "DecacheUser env p v = (Ok u', v)"
proof -
  from assms(3) obtain c n where enc: "Encrypt env (user_json env u) w = (Ok (c, n), w1)"
    and p: "p = wrap_payload (c, n)"
    unfolding CacheUser_def by (auto elim!: andthen_OkE)
  show ?thesis
    using Decrypt_Encrypt [OF assms(1,2) enc, of v] assms(4) by (simp add: DecacheUser_def p)
qed

text \<open>A claims document has neither a cipher text nor a nonce: both decode to the empty string.\<close>

lemma claims_as_payload:
  assumes "codec_laws rc"
  shows "unmarshal_payload (marshal_claims rc c) = Some \<lparr>CipherText = [], Nonce = []\<rparr>"
proof -
  have "\<not> same_key k ''cipher_text''" "\<not> same_key k ''nonce''"
    if "k \<in> {''user_id'', ''device_id'', ''user_roles'', ''-''}" for k
    using that by (auto simp: same_key_def lower_char_def)
  then show ?thesis
    using integral_claims_json [OF assms]
    by (simp add: unmarshal_payload_def marshal_claims_def) (simp add: claims_json_def payload_of_json_def)
qed

lemma Decrypt_empty: "length (cipher_key env) = KeySize \<Longrightarrow> Decrypt env [] [] w = (Panic, w)"
  by (simp add: Decrypt_def NonceSizeX_def)

lemma DecacheClaims_plain:
  "length (cipher_key env) = KeySize \<Longrightarrow> codec_laws rc' \<Longrightarrow>
    DecacheClaims env rc (marshal_claims rc' c) w = (Panic, w)"
  by (simp add: DecacheClaims_def claims_as_payload Decrypt_empty)

text \<open>The cache store never touches the database or the bus.\<close>

lemma redis_frames [keeps_intros]:
  "keeps same_db (redis_Get env k)" "keeps same_db (redis_Set env k v ttl)"
  "keeps same_db (redis_Del env k)" "keeps same_db (redis_Ping env)"
  "keeps same_bus (redis_Get env k)" "keeps same_bus (redis_Set env k v ttl)"
  "keeps same_bus (redis_Del env k)" "keeps same_bus (redis_Ping env)"
  by (auto simp: keeps_def same_db_def same_bus_def redis_Get_def redis_Set_def redis_Del_def
      redis_Ping_def Let_def split: option.splits)

lemma crypto_frames [keeps_intros]:
  "keeps same_all (Encrypt env s)" "keeps same_all (Decrypt env c n)"
  by (auto simp: Encrypt_def Decrypt_def GenerateNonce_def intro!: same_all.intros split: option.splits)

lemma same_all_same_db: "keeps same_all m \<Longrightarrow> keeps same_db m"
  by (simp add: keeps_def same_all_def same_db_def)

lemma same_all_same_bus: "keeps same_all m \<Longrightarrow> keeps same_bus m"
  by (simp add: keeps_def same_all_def same_bus_def)

section \<open>Claims survive their JSON\<close>

definition sized_claims :: "claims \<Rightarrow> bool" where
  "sized_claims c \<longleftrightarrow> int64 (cl_user_id c) \<and> int64 (cl_device_id c)"

lemma same_key_refl [simp]: "same_key k k"
  by (simp add: same_key_def)

text \<open>The keys of one struct are told apart.\<close>

lemma same_key_simps [simp]:
  "same_key ''name'' ''view'' = False"
  "same_key ''name'' ''add'' = False"
  "same_key ''name'' ''edit'' = False"
  "same_key ''name'' ''delete'' = False"
  "same_key ''view'' ''name'' = False"
  "same_key ''view'' ''add'' = False"
  "same_key ''view'' ''edit'' = False"
  "same_key ''view'' ''delete'' = False"
  "same_key ''add'' ''name'' = False"
  "same_key ''add'' ''view'' = False"
  "same_key ''add'' ''edit'' = False"
  "same_key ''add'' ''delete'' = False"
  "same_key ''edit'' ''name'' = False"
  "same_key ''edit'' ''view'' = False"
  "same_key ''edit'' ''add'' = False"
  "same_key ''edit'' ''delete'' = False"
  "same_key ''delete'' ''name'' = False"
  "same_key ''delete'' ''view'' = False"
  "same_key ''delete'' ''add'' = False"
  "same_key ''delete'' ''edit'' = False"
  "same_key ''name'' ''description'' = False"
  "same_key ''name'' ''permissions'' = False"
  "same_key ''description'' ''name'' = False"
  "same_key ''description'' ''permissions'' = False"
  "same_key ''permissions'' ''name'' = False"
  "same_key ''permissions'' ''description'' = False"
  "same_key ''user_id'' ''device_id'' = False"
  "same_key ''user_id'' ''user_roles'' = False"
  "same_key ''user_id'' ''-'' = False"
  "same_key ''device_id'' ''user_id'' = False"
  "same_key ''device_id'' ''user_roles'' = False"
  "same_key ''device_id'' ''-'' = False"
  "same_key ''user_roles'' ''user_id'' = False"
  "same_key ''user_roles'' ''device_id'' = False"
  "same_key ''user_roles'' ''-'' = False"
  "same_key ''-'' ''user_id'' = False"
  "same_key ''-'' ''device_id'' = False"
  "same_key ''-'' ''user_roles'' = False"
  by (simp_all add: same_key_def lower_char_def)

lemma permission_of_permission_json [simp]: "permission_of_json (permission_json p) = Some p"
  by (simp add: permission_of_json_def permission_json_def)

lemma decode_all_map: "(\<And>x. dec (enc x) = Some x) \<Longrightarrow> decode_all dec (map enc xs) = Some xs"
  by (induction xs) auto

lemma role_of_role_json [simp]: "role_of_json (role_json r) = Some r"
  by (simp add: role_of_json_def role_json_def decode_all_map)

lemma unmarshal_marshal_claims:
  assumes "codec_laws rc" and "sized_claims c"
  shows "unmarshal_claims rc (marshal_claims rc c) = Some c"
  using assms integral_claims_json [OF assms(1), of c]
  by (simp add: unmarshal_claims_def marshal_claims_def) (simp add: claims_json_def claims_of_json_def
      sized_claims_def codec_laws_def registered_step_def decode_all_map)

end
