(* ===== verification/Sample_Env.thy ===== *)
theory Sample_Env imports Cache_Store begin

text \<open>
  A concrete environment, on which the witnesses run the model: nothing fails, the clock
  advances by a millisecond per call, Redis is an association list with expiry times, the
  edge statements are those \<open>sg_laws\<close> describes, and the cryptographic primitives are the
  simplest functions with the laws the code relies on.
\<close>

type_synonym mem = "(string \<times> string \<times> int) list"

definition mem_get :: "mem \<Rightarrow> int \<Rightarrow> string \<Rightarrow> string option" where
  "mem_get r t k = (case map_of r k of None \<Rightarrow> None
     | Some (v, expiry) \<Rightarrow> if t < expiry then Some v else None)"

definition mem_set :: "mem \<Rightarrow> int \<Rightarrow> string \<Rightarrow> string \<Rightarrow> int \<Rightarrow> mem" where
  "mem_set r t k v ttl = (k, v, t + ttl) # r"

definition mem_del :: "mem \<Rightarrow> string \<Rightarrow> mem" where
  "mem_del r k = filter (\<lambda>e. fst e \<noteq> k) r"

definition sample_opt :: "int option \<Rightarrow> json" where
  "sample_opt v = (case v of None \<Rightarrow> JNull | Some i \<Rightarrow> JNum i)"

definition opt_sample :: "json \<Rightarrow> int option" where
  "opt_sample j = (case j of JNum i \<Rightarrow> Some i | _ \<Rightarrow> None)"

definition sample_codec :: registered_codec where
  "sample_codec = \<lparr>reg_json = (\<lambda>e i. JArr [sample_opt e, sample_opt i]),
     json_reg = (\<lambda>j. case j of JArr [e, i] \<Rightarrow> Some (opt_sample e, opt_sample i) | _ \<Rightarrow> None)\<rparr>"

definition sample_parse :: "int \<Rightarrow> string \<Rightarrow> error + claims" where
  "sample_parse now s = (case unmarshal_claims sample_codec s of
      None \<Rightarrow> Inl (EMsg ''token is malformed'')
    | Some c \<Rightarrow> (case cl_expires_at c of
          None \<Rightarrow> Inr c
        | Some e \<Rightarrow> if now < e then Inr c else Inl (EMsg ''token is expired'')))"

definition sample_link :: "(int \<times> int option) list \<Rightarrow> int \<Rightarrow> int list \<Rightarrow> (int \<times> int option) list option" where
  "sample_link col own ids =
     (if list_all (\<lambda>i. map_of col i = Some None) ids
      then Some (map (\<lambda>kv. if fst kv \<in> set ids then (fst kv, Some own) else kv) col) else None)"

definition sample_clear :: "(int \<times> int option) list \<Rightarrow> int \<Rightarrow> (int \<times> int option) list" where
  "sample_clear col own = map (\<lambda>kv. if snd kv = Some own then (fst kv, None) else kv) col"

definition sample_add :: "(int \<times> int) list \<Rightarrow> int \<Rightarrow> int list \<Rightarrow> (int \<times> int) list option" where
  "sample_add links i rs = (if list_ex (\<lambda>r. (i, r) \<in> set links) rs then None else Some (links @ map (Pair i) rs))"

definition sample_remove :: "(int \<times> int) list \<Rightarrow> int \<Rightarrow> int list \<Rightarrow> (int \<times> int) list" where
  "sample_remove links i rs = filter (\<lambda>l. \<not> (fst l = i \<and> snd l \<in> set rs)) links"

definition blank_row :: "int \<Rightarrow> string \<Rightarrow> user_row" where
  "blank_row i m = \<lparr>u_id = i, u_mail = m, u_phone = None, u_password = [], u_active = True,
     u_verified = False, u_blacklisted = False, u_removed = False, u_created_at = 0,
     u_updated_at = 0, u_subscription_ids = [], u_team_ids = [], u_organization_ids = []\<rparr>"

definition bare_user :: "user_row \<Rightarrow> user" where
  "bare_user r = \<lparr>usr = r, e_details = None, e_settings = None, e_activation = None,
     e_verification = None, e_second_factor = None, e_reset = None, e_devices = [], e_roles = []\<rparr>"

definition sample_user_json :: "user \<Rightarrow> string" where
  "sample_user_json u = print_json (JArr [JNum (uid u), JStr (mail_of u)])"

definition sample_json_user :: "string \<Rightarrow> user option" where
  "sample_json_user s = (case parse_json s of
      Some (JArr [JNum i, JStr m]) \<Rightarrow> Some (bare_user (blank_row i m)) | _ \<Rightarrow> None)"

definition sample_env :: "mem env" where
  "sample_env = \<lparr>db_fault = (\<lambda>_. False), now_at = (\<lambda>n. int n * 1000000), proc_start = 0,
     rand_intn = (\<lambda>n. int n), rand_read = (\<lambda>t n. Some (replicate n CHR ''x'')),
     uuid_new = (\<lambda>n. ''uuid''), redis_fault = (\<lambda>_. None), redis_get = mem_get,
     redis_set = mem_set, redis_del = mem_del, kafka_fault = (\<lambda>_. None),
     aead_seal = (\<lambda>k n p. p), aead_open = (\<lambda>k n c. Some c), cipher_key = replicate 32 CHR ''k'',
     hmac_sha256 = (\<lambda>k m. m), argon2_id = (\<lambda>pw salt t m p len. take len (pw @ replicate len CHR ''.'')),
     numeric_date = (\<lambda>t. t - t mod second), 
     jwt_sign = (\<lambda>c. if sized_claims c then Inr (marshal_claims sample_codec c) else Inl (EMsg ''claims'')),
     jwt_parse = sample_parse, ctx_done = (\<lambda>_. False), rfc3339 = itoa, time_ok = (\<lambda>_. True),
     user_json = sample_user_json, json_user = sample_json_user, sg_link = sample_link,
     sg_clear = sample_clear, sg_add_m2m = sample_add, sg_remove_m2m = sample_remove\<rparr>"

definition empty_tab :: "'row tab" where
  "empty_tab = \<lparr>rows = [], next_id = 1\<rparr>"

definition empty_db :: db where
  "empty_db = \<lparr>users = empty_tab, settings = empty_tab, details = empty_tab, devices = empty_tab,
     activation_codes = empty_tab, reset_codes = empty_tab, second_factor_codes = empty_tab,
     verification_codes = empty_tab, roles = [], permissions = [], role_permissions = [],
     user_roles = [], entrepreneurs = empty_tab, locations = empty_tab, actions = empty_tab\<rparr>"

definition fresh_world :: "db \<Rightarrow> mem world" where
  "fresh_world d = \<lparr>dbase = d, redis = [], outbox = [], tick = 0\<rparr>"

section \<open>The environment has the laws\<close>

named_theorems sample_fields "the fields of the sample environment"

lemma sample_env_fields [sample_fields]:
  "db_fault sample_env = (\<lambda>_. False)" "now_at sample_env = (\<lambda>n. int n * 1000000)"
  "proc_start sample_env = 0" "rand_intn sample_env = (\<lambda>n. int n)"
  "rand_read sample_env = (\<lambda>t n. Some (replicate n CHR ''x''))" "uuid_new sample_env = (\<lambda>n. ''uuid'')"
  "redis_fault sample_env = (\<lambda>_. None)" "redis_get sample_env = mem_get"
  "redis_set sample_env = mem_set" "redis_del sample_env = mem_del"
  "kafka_fault sample_env = (\<lambda>_. None)" "hmac_sha256 sample_env = (\<lambda>k m. m)"
  "numeric_date sample_env = (\<lambda>t. t - t mod second)" "jwt_parse sample_env = sample_parse"
  "jwt_sign sample_env = (\<lambda>c. if sized_claims c then Inr (marshal_claims sample_codec c)
     else Inl (EMsg ''claims''))"
  "ctx_done sample_env = (\<lambda>_. False)" "rfc3339 sample_env = itoa" "sg_link sample_env = sample_link"
  "sg_clear sample_env = sample_clear" "sg_add_m2m sample_env = sample_add"
  "sg_remove_m2m sample_env = sample_remove"
  by (simp_all add: sample_env_def)

lemma fresh_world_fields [sample_fields]:
  "dbase (fresh_world d) = d" "redis (fresh_world d) = []" "outbox (fresh_world d) = []"
  "tick (fresh_world d) = 0"
  by (simp_all add: fresh_world_def)

lemma sample_aead: "aead_laws sample_env"
  by (simp add: aead_laws_def sample_env_def)

lemma sample_rand: "rand_laws sample_env"
  by (auto simp: rand_laws_def sample_env_def)

lemma mem_del_get: "mem_get (mem_del r k) t k' = (if k' = k then None else mem_get r t k')"
proof -
  have "map_of (mem_del r k) k' = (if k' = k then None else map_of r k')"
    by (induction r) (auto simp: mem_del_def)
  then show ?thesis by (simp add: mem_get_def)
qed

lemma sample_redis: "redis_laws sample_env"
  by (auto simp: redis_laws_def sample_env_def mem_del_get) (auto simp: mem_get_def mem_set_def)

lemma opt_sample_opt [simp]: "opt_sample (sample_opt v) = v"
  by (cases v) (simp_all add: opt_sample_def sample_opt_def)

lemma sample_codec_laws: "codec_laws sample_codec"
  by (auto simp: codec_laws_def sample_codec_def sample_opt_def opt_sample_def split: option.splits)

lemma sample_sg: "sg_laws sample_env"
proof -
  have "map fst (map (\<lambda>kv. if fst kv \<in> set ids then (fst kv, Some own) else kv) col) = map fst col"
    for col :: "(int \<times> int option) list" and ids :: "int list" and own :: int
    by (simp add: o_def)
  then show ?thesis
    by (auto simp: sg_laws_def sample_env_def sample_link_def sample_clear_def sample_add_def
        sample_remove_def list_all_iff split: if_splits)
qed

lemma sample_key: "length (cipher_key sample_env) = KeySize"
  by (simp add: sample_env_def KeySize_def)

section \<open>What the cache promises\<close>

text \<open>A value written with \<open>CacheStore.Set\<close> is what \<open>CacheStore.Get\<close> returns while its time
  to live lasts: encryption, Base64, the JSON wrapping and Redis compose to the identity.\<close>

theorem cache_set_get:
  assumes "aead_laws env" and "rand_laws env" and "redis_laws env"
    and "CacheStore_Set env key payload ttl w = (Ok (), w1)"
    and "now_at env (tick w + 1) \<le> now_at env (tick w1)"
    and "now_at env (tick w1) < now_at env (tick w + 1) + ttl"
    and "redis_fault env (tick w1) = None"
  shows "CacheStore_Get env key w1 = (Ok payload, w1\<lparr>tick := tick w1 + 1\<rparr>)"
  using assms by (rule Get_after_Set)

definition set_world :: "mem world" where
  "set_world = snd (CacheStore_Set sample_env ''k'' ''v'' minute (fresh_world empty_db))"

lemma set_world_run:
  "CacheStore_Set sample_env ''k'' ''v'' minute (fresh_world empty_db) = (Ok (), set_world)"
  "tick set_world = 2"
  by (simp_all add: set_world_def CacheStore_Set_def Encrypt_def GenerateNonce_def read_random_def
      redis_Set_def sample_env_def fresh_world_def KeySize_def andthen_def ret_def)

theorem cache_set_get_witness:
  "CacheStore_Get sample_env ''k'' set_world = (Ok ''v'', set_world\<lparr>tick := tick set_world + 1\<rparr>)"
  by (rule cache_set_get [OF sample_aead sample_rand sample_redis set_world_run(1)])
    (simp_all add: set_world_run(2) fresh_world_def, simp_all add: sample_env_def minute_def second_def)

text \<open>The claims the authentication middleware caches cannot be read back the way it reads
  them: \<open>Set\<close> encrypts the plain claims document once, \<open>Get\<close> decrypts it, and \<open>DecacheClaims\<close>
  then takes the plain document for another encrypted payload, finds no nonce in it and the
  AEAD \<open>Open\<close> panics on the empty nonce. (\<open>CacheClaims\<close>, the counterpart of
  \<open>DecacheClaims\<close>, is never called.)\<close>

theorem cached_claims_panic:
  assumes "aead_laws env" and "rand_laws env" and "redis_laws env"
    and "length (cipher_key env) = KeySize" and "codec_laws rc"
    and "CacheStore_Set env key (marshal_claims rc c) ttl w = (Ok (), w1)"
    and "now_at env (tick w + 1) \<le> now_at env (tick w1)"
    and "now_at env (tick w1) < now_at env (tick w + 1) + ttl"
    and "redis_fault env (tick w1) = None"
  shows "fst (andthen (CacheStore_Get env key) (DecacheClaims env rc) w1) = Panic"
  using Get_after_Set [OF assms(1-3,6-9)] DecacheClaims_plain [OF assms(4,5)]
  by (simp add: andthen_def)

definition sample_claims :: claims where
  "sample_claims = \<lparr>cl_user_id = 7, cl_device_id = 3, cl_user_roles = [], cl_expires_at = Some second,
     cl_issued_at = None\<rparr>"

definition claims_world :: "mem world" where
  "claims_world = snd (CacheStore_Set sample_env ''t'' (marshal_claims sample_codec sample_claims)
     minute (fresh_world empty_db))"

lemma claims_world_run:
  "CacheStore_Set sample_env ''t'' (marshal_claims sample_codec sample_claims) minute
     (fresh_world empty_db) = (Ok (), claims_world)"
  "tick claims_world = 2"
  by (simp_all add: claims_world_def CacheStore_Set_def Encrypt_def GenerateNonce_def
      read_random_def redis_Set_def sample_env_def fresh_world_def KeySize_def andthen_def ret_def)

theorem cached_claims_panic_witness:
  "fst (andthen (CacheStore_Get sample_env ''t'') (DecacheClaims sample_env sample_codec) claims_world) = Panic"
  by (rule cached_claims_panic [OF sample_aead sample_rand sample_redis sample_key sample_codec_laws claims_world_run(1)])
    (simp_all add: claims_world_run(2) fresh_world_def, simp_all add: sample_env_def minute_def second_def)

text \<open>\<open>CacheClaims\<close> and \<open>DecacheClaims\<close> are inverse to each other, for claims whose numbers
  fit Go's \<open>int\<close>: the decoded claims are the encoded ones, roles and permissions included.\<close>

theorem claims_round_trip:
  assumes "aead_laws env" and "rand_laws env" and "codec_laws rc" and "sized_claims c"
    and "CacheClaims env (marshal_claims rc c) w = (Ok p, w1)"
  shows "DecacheClaims env rc p w2 = (Ok c, w2)"
proof -
  from assms(5) obtain e n where enc: "Encrypt env (marshal_claims rc c) w = (Ok (e, n), w1)"
    and p: "p = wrap_payload (e, n)"
    unfolding CacheClaims_def by (auto elim!: andthen_OkE)
  show ?thesis
    using Decrypt_Encrypt [OF assms(1,2) enc, of w2] unmarshal_marshal_claims [OF assms(3,4)]
    by (simp add: DecacheClaims_def p)
qed

lemma sample_CacheClaims:
  "\<exists>p. CacheClaims sample_env (marshal_claims sample_codec sample_claims) (fresh_world empty_db) =
     (Ok p, (fresh_world empty_db)\<lparr>tick := 1\<rparr>)"
  by (simp add: CacheClaims_def Encrypt_def GenerateNonce_def read_random_def sample_env_def
      fresh_world_def KeySize_def andthen_def ret_def)

theorem claims_round_trip_witness:
  "\<exists>p. CacheClaims sample_env (marshal_claims sample_codec sample_claims) (fresh_world empty_db) =
      (Ok p, (fresh_world empty_db)\<lparr>tick := 1\<rparr>) \<and>
    DecacheClaims sample_env sample_codec p (fresh_world empty_db) = (Ok sample_claims, fresh_world empty_db)"
proof -
  obtain p where p: "CacheClaims sample_env (marshal_claims sample_codec sample_claims)
      (fresh_world empty_db) = (Ok p, (fresh_world empty_db)\<lparr>tick := 1\<rparr>)"
    using sample_CacheClaims by blast
  have "sized_claims sample_claims" by (simp add: sized_claims_def sample_claims_def int64_def)
  with p claims_round_trip [OF sample_aead sample_rand sample_codec_laws _ p] show ?thesis by blast
qed

text \<open>A user cached under a key (encrypted by \<open>CacheUser\<close> and again by \<open>Set\<close>) comes back
  from \<open>Get\<close> followed by \<open>DecacheUser\<close> as what the entity's JSON form decodes to.\<close>

theorem cached_user_round_trip:
  assumes "aead_laws env" and "rand_laws env" and "redis_laws env"
    and "CacheUser env u w0 = (Ok p, w)"
    and "CacheStore_Set env key p ttl w = (Ok (), w1)"
    and "now_at env (tick w + 1) \<le> now_at env (tick w1)"
    and "now_at env (tick w1) < now_at env (tick w + 1) + ttl"
    and "redis_fault env (tick w1) = None"
    and "json_user env (user_json env u) = Some u'"
  shows "fst (andthen (CacheStore_Get env key) (DecacheUser env) w1) = Ok u'"
  using Get_after_Set [OF assms(1-3,5-8)] DecacheUser_CacheUser [OF assms(1,2,4,9)]
  by (simp add: andthen_def)

definition bob :: user where
  "bob = bare_user (blank_row 5 ''bob@example.org'')"

lemma bob_json: "json_user sample_env (user_json sample_env bob) = Some bob"
  by (simp add: sample_env_def sample_json_user_def sample_user_json_def bob_def bare_user_def
      blank_row_def uid_def mail_of_def)

lemma bob_cached:
  "\<exists>p w1. CacheUser sample_env bob (fresh_world empty_db) = (Ok p, (fresh_world empty_db)\<lparr>tick := 1\<rparr>) \<and>
     CacheStore_Set sample_env ''u'' p minute ((fresh_world empty_db)\<lparr>tick := 1\<rparr>) = (Ok (), w1) \<and>
     tick w1 = 3"
  by (simp add: CacheUser_def CacheStore_Set_def Encrypt_def GenerateNonce_def read_random_def
      redis_Set_def sample_env_def fresh_world_def KeySize_def andthen_def ret_def)

theorem cached_user_round_trip_witness:
  "\<exists>p w1. CacheStore_Set sample_env ''u'' p minute ((fresh_world empty_db)\<lparr>tick := 1\<rparr>) = (Ok (), w1) \<and>
     fst (andthen (CacheStore_Get sample_env ''u'') (DecacheUser sample_env) w1) = Ok bob"
proof -
  obtain p w1 where 1: "CacheUser sample_env bob (fresh_world empty_db) = (Ok p, (fresh_world empty_db)\<lparr>tick := 1\<rparr>)"
    and 2: "CacheStore_Set sample_env ''u'' p minute ((fresh_world empty_db)\<lparr>tick := 1\<rparr>) = (Ok (), w1)"
    and t: "tick w1 = 3" using bob_cached by blast
  have "fst (andthen (CacheStore_Get sample_env ''u'') (DecacheUser sample_env) w1) = Ok bob"
    by (rule cached_user_round_trip [OF sample_aead sample_rand sample_redis 1 2 _ _ _ bob_json])
      (simp_all add: t, simp_all add: sample_env_def minute_def second_def)
  with 2 show ?thesis by blast
qed

end
