(* ===== verification/Users_Repository.thy ===== *)
theory Users_Repository imports Requests Sample_Env "HOL-Library.Word" begin

text \<open>
  app/repositories: every operation of \<open>UsersRepository\<close> as it is written, with its
  transaction, the calls of the ent client inside it, the errors it replaces and those it
  drops, the cache entries it removes or writes and the pointers it reads through. A result
  that may be the nil pointer is an option; reading through it panics.
\<close>

section \<open>Cache entries\<close>

fun set_keys :: "'r env \<Rightarrow> string \<Rightarrow> string list \<Rightarrow> ('r world, unit) io" where
  "set_keys env payload [] = ret ()"
| "set_keys env payload (key # keys) =
     andthen (or_fail ''failed to set user cache'' (CacheStore_Set env key payload (5 * minute)))
       (\<lambda>_. set_keys env payload keys)"

definition UpdateCache :: "'r env \<Rightarrow> user \<Rightarrow> ('r world, unit) io" where
  "UpdateCache env u = andthen (or_fail ''failed to cache user'' (CacheUser env u)) (\<lambda>payload.
     set_keys env payload (GetUserKeys u))"

text \<open>Each \<open>Del\<close> overwrites the error of the one before.\<close>

fun delete_keys :: "'r env \<Rightarrow> string list \<Rightarrow> error option \<Rightarrow> ('r world, error option) io" where
  "delete_keys env [] err = ret err"
| "delete_keys env (key # keys) err =
     andthen (attempt (CacheStore_Del env key)) (\<lambda>r.
       delete_keys env keys (case r of Inl e \<Rightarrow> Some e | Inr _ \<Rightarrow> None))"

definition InvalidateCache :: "'r env \<Rightarrow> user option \<Rightarrow> ('r world, error option) io" where
  "InvalidateCache env user_ptr = andthen (deref user_ptr) (\<lambda>u. delete_keys env (GetAllUserKeys u) None)"

section \<open>Lookups\<close>

definition GetUserByID :: "'r env \<Rightarrow> int \<Rightarrow> ('r world, user) io" where
  "GetUserByID env ID = WithTransaction env (db_query env (txGetUserByID ID))"

text \<open>Despite its name it runs the functional query, which does not load the details.\<close>

definition GetUserFunctionalDetailsByID :: "'r env \<Rightarrow> int \<Rightarrow> ('r world, user) io" where
  "GetUserFunctionalDetailsByID env ID = WithTransaction env (db_query env (txGetUserFunctionalByID ID))"

definition GetUserFunctionalByID :: "'r env \<Rightarrow> int \<Rightarrow> ('r world, user) io" where
  "GetUserFunctionalByID env ID = WithTransaction env (db_query env (txGetUserFunctionalByID ID))"

definition GetUserPublicByID :: "'r env \<Rightarrow> int \<Rightarrow> ('r world, user) io" where
  "GetUserPublicByID env ID = WithTransaction env (db_query env (txGetUserPublicByID ID))"

definition GetUserByMail :: "'r env \<Rightarrow> string \<Rightarrow> ('r world, user) io" where
  "GetUserByMail env mail = WithTransaction env (db_query env (txGetUserByMail mail))"

definition GetUserByMailWithCodes :: "'r env \<Rightarrow> string \<Rightarrow> ('r world, user) io" where
  "GetUserByMailWithCodes env mail =
     andthen (attempt (CacheStore_Get env (''user:'' @ mail))) (\<lambda>payload.
     case payload of
       Inr p \<Rightarrow> DecacheUser env p
     | Inl _ \<Rightarrow> WithTransaction env (db_query env (txGetUserByMailWithCodes mail)))"

definition GetUserBySecondFactor :: "'r env \<Rightarrow> string \<Rightarrow> ('r world, user) io" where
  "GetUserBySecondFactor env code = WithTransaction env (db_query env (txGetUserBySecondFactor code))"

definition GetUserByVerificationCode :: "'r env \<Rightarrow> string \<Rightarrow> ('r world, user) io" where
  "GetUserByVerificationCode env code =
     andthen (WithTransaction env (db_query env (txGetUserByVerificationCode code))) (\<lambda>foundUser.
     andthen (UpdateCache env foundUser) (\<lambda>_. ret foundUser))"

definition GetUserByResetCode :: "'r env \<Rightarrow> string \<Rightarrow> ('r world, user) io" where
  "GetUserByResetCode env code =
     andthen (WithTransaction env (db_query env (txGetUserByResetCode code))) (\<lambda>foundUser.
     andthen (UpdateCache env foundUser) (\<lambda>_. ret foundUser))"

text \<open>\<open>if _ = UpdateCache(...); err != nil\<close>: the error of the cache is dropped.\<close>

definition GetUserByPhone :: "'r env \<Rightarrow> string \<Rightarrow> ('r world, user) io" where
  "GetUserByPhone env phone =
     andthen (WithTransaction env (db_query env (txGetUserByPhone phone))) (\<lambda>foundUser.
     andthen (attempt (UpdateCache env foundUser)) (\<lambda>_. ret foundUser))"

section \<open>Drawing a code\<close>

text \<open>
  The loop that draws codes until one is not in the table. It may run for ever, so it is a
  partial function: \<open>None\<close> is the loop that never ends. The error of the existence query
  counts as "does not exist" for activation and reset codes and ends the operation for
  second-factor codes.
\<close>

partial_function (option) draw_lenient ::
  "'r env \<Rightarrow> (db \<Rightarrow> code_row tab) \<Rightarrow> 'r world \<Rightarrow> (string \<times> 'r world) option" where
  "draw_lenient env tbl w =
     (let codeStr = itoa (GenerateRandomCode (rand_intn env (tick w)));
          q = db_query env (CodeExists tbl codeStr) (w\<lparr>tick := tick w + 1\<rparr>)
      in if fst q = Ok True then draw_lenient env tbl (snd q) else Some (codeStr, snd q))"

partial_function (option) draw_strict ::
  "'r env \<Rightarrow> (db \<Rightarrow> code_row tab) \<Rightarrow> 'r world \<Rightarrow> ((error + string) \<times> 'r world) option" where
  "draw_strict env tbl w =
     (let codeStr = itoa (GenerateRandomCode (rand_intn env (tick w)));
          q = db_query env (CodeExists tbl codeStr) (w\<lparr>tick := tick w + 1\<rparr>)
      in if fst q = Ok True then draw_strict env tbl (snd q)
         else Some (case fst q of Err e \<Rightarrow> Inl e | _ \<Rightarrow> Inr codeStr, snd q))"

declare draw_lenient.simps [code] draw_strict.simps [code]

definition unique_code :: "'r env \<Rightarrow> (db \<Rightarrow> code_row tab) \<Rightarrow> ('r world, string) io" where
  "unique_code env tbl = (\<lambda>w. case draw_lenient env tbl w of
      None \<Rightarrow> (Hang, w) | Some (c, w') \<Rightarrow> (Ok c, w'))"

definition unique_code_strict :: "'r env \<Rightarrow> (db \<Rightarrow> code_row tab) \<Rightarrow> ('r world, string) io" where
  "unique_code_strict env tbl = (\<lambda>w. case draw_strict env tbl w of
      None \<Rightarrow> (Hang, w) | Some (Inl e, w') \<Rightarrow> (Err e, w') | Some (Inr c, w') \<Rightarrow> (Ok c, w'))"

section \<open>Creating users and codes\<close>

definition device_of :: "device_req \<Rightarrow> int \<Rightarrow> device_create" where
  "device_of r owner = \<lparr>vc_token = Some (DeviceToken r), vc_ip_address = Some (IPAddress r),
     vc_user_agent = Some (UserAgent r), vc_os_name = Some (OSName r),
     vc_os_version = Some (OSVersion r), vc_browser_name = Some (BrowserName r),
     vc_browser_version = Some (BrowserVersion r), vc_owner = [owner]\<rparr>"

definition CreateUser :: "'r env \<Rightarrow> register_req \<Rightarrow> string \<Rightarrow> ('r world, user \<times> code_row) io" where
  "CreateUser env req hashedPassword =
     andthen (WithTransaction env (
       andthen (UserCreate_Save env \<lparr>uc_mail = Some (rg_mail req), uc_password = Some hashedPassword\<rparr>) (\<lambda>newUser.
       andthen (new_uuid env) (\<lambda>uuid.
       andthen (or_fail ''failed to create user settings''
         (UserSettingsCreate_Save env \<lparr>sc_uuid = Some uuid, sc_owner = [u_id newUser]\<rparr>)) (\<lambda>_.
       andthen (or_fail ''failed to create user details''
         (UserDetailsCreate_Save env \<lparr>dc_name = Some (rg_name req), dc_owner = [u_id newUser]\<rparr>)) (\<lambda>_.
       andthen (or_fail ''failed to create user device''
         (UserDeviceCreate_Save env (device_of (rg_device req) (u_id newUser)))) (\<lambda>_.
       andthen (unique_code env activation_codes) (\<lambda>codeStr.
       andthen (ActivationCodeCreate_Save env \<lparr>cc_code = Some codeStr, cc_owner = [u_id newUser]\<rparr>) (\<lambda>activationCode.
       andthen (attempt (db_query env (getUserWithCodes (IDEQ (u_id newUser))))) (\<lambda>refetched.
       ret (nil_on_err refetched, activationCode))))))))))) (\<lambda>(newUser, activationCode).
     andthen (deref newUser) (\<lambda>u. ret (u, activationCode)))"

definition CreateSecondFactorCode :: "'r env \<Rightarrow> user \<Rightarrow> device_row \<Rightarrow> ('r world, code_row) io" where
  "CreateSecondFactorCode env u device =
     andthen (WithTransaction env (
       andthen (unique_code_strict env second_factor_codes) (\<lambda>codeStr.
       SecondFactorCodeCreate_Save env \<lparr>cc_code = Some codeStr, cc_owner = [uid u]\<rparr> [dv_id device]))) (\<lambda>secondFactor.
     andthen (InvalidateCache env (Some u)) (\<lambda>_. ret secondFactor))"

definition CreateResetCode :: "'r env \<Rightarrow> user \<Rightarrow> ('r world, code_row) io" where
  "CreateResetCode env u =
     andthen (WithTransaction env (
       andthen (unique_code env reset_codes) (\<lambda>codeStr.
       ResetCodeCreate_Save env \<lparr>cc_code = Some codeStr, cc_owner = [uid u]\<rparr>))) (\<lambda>resetCode.
     andthen (InvalidateCache env (Some u)) (\<lambda>_. ret resetCode))"

section \<open>Codes used up\<close>

definition ActivateAccount :: "'r env \<Rightarrow> string \<Rightarrow> ('r world, user) io" where
  "ActivateAccount env code =
     andthen (WithTransaction env (
       andthen (db_query env (txGetUserByActivationCode code)) (\<lambda>foundUser.
       andthen (UserUpdateOne_Save env (UpdateOneID\<lparr>uu_active := Some True\<rparr>) (uid foundUser)) (\<lambda>_.
       andthen (db_call env (delete_code activation_codes_update code)) (\<lambda>_.
       or_fail ''failed to find user's settings'' (db_query env (getUserWithSettings (IDEQ (uid foundUser))))))))) (\<lambda>updatedUser.
     andthen (InvalidateCache env (Some updatedUser)) (\<lambda>_. ret updatedUser))"

definition VerifyAccount :: "'r env \<Rightarrow> string \<Rightarrow> ('r world, user) io" where
  "VerifyAccount env code =
     andthen (WithTransaction env (
       andthen (db_query env (txGetUserByVerificationCode code)) (\<lambda>found.
       andthen (UserUpdateOne_Save env (UpdateOneID\<lparr>uu_verified := Some True\<rparr>) (uid found)) (\<lambda>saved.
       andthen (db_call env (delete_code verification_codes_update code)) (\<lambda>_.
       andthen (attempt (db_query env (getUserWithRoles (IDEQ (u_id saved))))) (\<lambda>refetched.
       ret (nil_on_err refetched))))))) (\<lambda>foundUser.
     andthen (InvalidateCache env foundUser) (\<lambda>_. deref foundUser))"

definition RemoveResetCode :: "'r env \<Rightarrow> user \<Rightarrow> ('r world, user) io" where
  "RemoveResetCode env u =
     andthen (WithTransaction env (
       case e_reset u of
         None \<Rightarrow> throw (EMsg ''user has no reset code'')
       | Some c \<Rightarrow>
           andthen (db_call env (ResetCode_DeleteOneID (cd_id c))) (\<lambda>_.
           db_query env (txGetUserByID (uid u))))) (\<lambda>updatedUser.
     andthen (InvalidateCache env (Some u)) (\<lambda>_. ret updatedUser))"

definition RemoveSecondFactorCode :: "'r env \<Rightarrow> user \<Rightarrow> ('r world, user option) io" where
  "RemoveSecondFactorCode env targetUser =
     andthen (WithTransaction env (
       case e_second_factor targetUser of
         None \<Rightarrow> throw (EMsg ''user has no reset code'')
       | Some c \<Rightarrow>
           andthen (or_fail ''failed to remove second factor code''
             (UserUpdateOne_Save env (UpdateOneID\<lparr>uu_clear_second_factor := True\<rparr>) (uid targetUser))) (\<lambda>_.
           andthen (attempt (db_query env (getUserFunctional (IDEQ (uid targetUser))))) (\<lambda>refetched.
           ret (nil_on_err refetched))))) (\<lambda>updatedUser.
     andthen (InvalidateCache env (Some targetUser)) (\<lambda>_. ret updatedUser))"

section \<open>Updates\<close>

definition UpdateUsersPassword :: "'r env \<Rightarrow> user \<Rightarrow> string \<Rightarrow> ('r world, user_row) io" where
  "UpdateUsersPassword env u hashedPassword =
     andthen (WithTransaction env (or_fail ''failed to update user''
       (UserUpdateOne_Save env (UpdateOneID\<lparr>uu_password := Some hashedPassword\<rparr>) (uid u)))) (\<lambda>updatedUser.
     andthen (InvalidateCache env (Some u)) (\<lambda>_. ret updatedUser))"

text \<open>\<open>exists, _ := ...Exist(ctx); exists\<close>: a failed query counts as "does not exist".\<close>

definition reject_if_exists :: "'r env \<Rightarrow> (user_row \<Rightarrow> bool) \<Rightarrow> string \<Rightarrow> ('r world, unit) io" where
  "reject_if_exists env p msg =
     andthen (attempt (db_query env (\<lambda>d. Inr (exists_where p (users d))))) (\<lambda>r. fail_if (r = Inr True) msg)"

definition UpdateUser :: "'r env \<Rightarrow> user \<Rightarrow> user_req \<Rightarrow> ('r world, user) io" where
  "UpdateUser env targetUser req =
     andthen (or_fail ''failed to update user'' (WithTransaction env (
       andthen (if uq_phone req \<noteq> phone_of targetUser
         then andthen (reject_if_exists env (\<lambda>u. u_phone u = Some (uq_phone req)) ''phone already exists'')
           (\<lambda>_. ret (UpdateOneID\<lparr>uu_phone := Some (uq_phone req)\<rparr>, True))
         else ret (UpdateOneID, False)) (\<lambda>(upd1, updated1).
       andthen (if uq_mail req \<noteq> mail_of targetUser
         then andthen (reject_if_exists env (\<lambda>u. u_mail u = uq_mail req) ''mail already exists'')
           (\<lambda>_. ret (upd1\<lparr>uu_mail := Some (uq_mail req)\<rparr>, True))
         else ret (upd1, updated1)) (\<lambda>(upd2, updated2).
       andthen (if updated2
         then andthen (or_fail ''failed to update user's mail/phone''
           (UserUpdateOne_Save env upd2 (uid targetUser))) (\<lambda>_. ret ())
         else ret ()) (\<lambda>_.
       andthen (attempt (db_query env (getUserFunctionalWithDetails (IDEQ (uid targetUser))))) (\<lambda>refetched.
       ret (nil_on_err refetched)))))))) (\<lambda>updatedUser.
     andthen (InvalidateCache env (Some targetUser)) (\<lambda>_. deref updatedUser))"

definition UpdateUsersDetails :: "'r env \<Rightarrow> user \<Rightarrow> details_req \<Rightarrow> ('r world, user option) io" where
  "UpdateUsersDetails env targetUser req =
     andthen (or_fail ''failed to update user'' (WithTransaction env (
       andthen (deref (e_details targetUser)) (\<lambda>det.
       andthen (or_fail ''failed to update user's details'' (on_update env (\<lambda>now.
         db_call env (update_details (dq_first_name req) (dq_last_name req) (dt_id (de_row det)) now)))) (\<lambda>_.
       andthen (attempt (db_query env (getUserFunctionalWithDetails (IDEQ (uid targetUser))))) (\<lambda>refetched.
       ret (nil_on_err refetched))))))) (\<lambda>updatedUser.
     andthen (InvalidateCache env (Some targetUser)) (\<lambda>_. ret updatedUser))"

definition UpdateUsersSettings :: "'r env \<Rightarrow> user \<Rightarrow> settings_req \<Rightarrow> ('r world, user option) io" where
  "UpdateUsersSettings env targetUser req =
     andthen (or_fail ''failed to update user'' (WithTransaction env (
       andthen (deref (e_settings targetUser)) (\<lambda>s.
       andthen (or_fail ''failed to update user's settings'' (on_update env (\<lambda>now.
         db_call env (update_settings env (sq_night_mode req) (sq_two_factor req) (sq_target req)
           (sq_notify req) (st_id (se_row s)) now)))) (\<lambda>_.
       andthen (attempt (db_query env (getUserWithSettings (IDEQ (uid targetUser))))) (\<lambda>refetched.
       ret (nil_on_err refetched))))))) (\<lambda>updatedUser.
     andthen (InvalidateCache env (Some targetUser)) (\<lambda>_. ret updatedUser))"

text \<open>The error branch logs the identifier of the user the failed call returned, which is nil.\<close>

definition RemoveAccount :: "'r env \<Rightarrow> user \<Rightarrow> ('r world, unit) io" where
  "RemoveAccount env u =
     andthen (or_fail ''failed to remove user'' (WithTransaction env (
       andthen (attempt (UserUpdateOne_Save env (UpdateOneID\<lparr>uu_removed := Some True\<rparr>) (uid u))) (\<lambda>saved.
       case saved of Inl _ \<Rightarrow> panic | Inr _ \<Rightarrow> ret ())))) (\<lambda>_.
     andthen (InvalidateCache env (Some u)) (\<lambda>_. ret ()))"

definition find_device :: "int \<Rightarrow> string \<Rightarrow> db \<Rightarrow> error + device_row" where
  "find_device userID token d =
     (case filter (\<lambda>v. list_ex (\<lambda>u. u_id u = dv_user v \<and> u_id u = userID) (rows (users d)) \<and>
         dv_token v = token) (rows (devices d)) of
        [] \<Rightarrow> Inl (ENotFound ''user_device'')
      | [v] \<Rightarrow> Inr v
      | _ \<Rightarrow> Inl (ENotSingular ''user_device''))"

definition IsNotFound :: "error \<Rightarrow> bool" where
  "IsNotFound e = (case e of ENotFound _ \<Rightarrow> True | _ \<Rightarrow> False)"

definition FindOrCreateDevice :: "'r env \<Rightarrow> int \<Rightarrow> device_req \<Rightarrow> ('r world, device_row) io" where
  "FindOrCreateDevice env userID req =
     or_fail ''failed to find or create device in transaction'' (WithTransaction env (
       andthen (attempt (db_query env (find_device userID (DeviceToken req)))) (\<lambda>found.
       case found of
         Inr d \<Rightarrow> ret d
       | Inl e \<Rightarrow>
           if IsNotFound e then
             andthen (UserDeviceCreate_Save env (device_of req userID)) (\<lambda>newDevice.
             andthen (attempt (db_query env (txGetUserPublicByID userID))) (\<lambda>usr'.
             andthen (InvalidateCache env (nil_on_err usr')) (\<lambda>_. ret newDevice)))
           else throw e)))"

definition find_entrepreneur :: "int \<Rightarrow> db \<Rightarrow> error + entrepreneur_row" where
  "find_entrepreneur details_id d =
     (case filter (\<lambda>e. en_user_details e = Some details_id) (rows (entrepreneurs d)) of
        [] \<Rightarrow> Inl (ENotFound ''entrepreneur_details'')
      | [e] \<Rightarrow> Inr e
      | _ \<Rightarrow> Inl (ENotSingular ''entrepreneur_details''))"

definition UpdateEntrepreneurDetails ::
  "'r env \<Rightarrow> user \<Rightarrow> entrepreneur_req \<Rightarrow> ('r world, user option) io" where
  "UpdateEntrepreneurDetails env targetUser req =
     andthen (or_fail ''failed to remove user'' (WithTransaction env (
       andthen (deref (e_details targetUser)) (\<lambda>det.
       andthen (attempt (db_query env (find_entrepreneur (dt_id (de_row det))))) (\<lambda>found.
       andthen (case nil_on_err found of
           None \<Rightarrow> or_fail ''failed to create entrepreneur details'' (on_create env (\<lambda>c u.
             save env (EntrepreneurDetails_check (eq_set req))
               (insert_entrepreneur (eq_set req) (dt_id (de_row det)) c u)))
         | Some e \<Rightarrow> or_fail ''failed to update entrepreneur details'' (on_update env (\<lambda>now.
             save env (EntrepreneurDetails_check (eq_set req))
               (update_entrepreneur (eq_set req) (en_id e) (dt_id (de_row det)) now)))) (\<lambda>_.
       andthen (attempt (db_query env (getUserFunctionalWithDetails (IDEQ (uid targetUser))))) (\<lambda>refetched.
       ret (nil_on_err refetched)))))))) (\<lambda>updatedUser.
     andthen (InvalidateCache env (Some targetUser)) (\<lambda>_. ret updatedUser))"

definition find_location :: "int \<Rightarrow> db \<Rightarrow> error + location_row" where
  "find_location details_id d =
     (case filter (\<lambda>l. lc_user_details l = details_id) (rows (locations d)) of
        [] \<Rightarrow> Inl (ENotFound ''location'')
      | [l] \<Rightarrow> Inr l
      | _ \<Rightarrow> Inl (ENotSingular ''location''))"

text \<open>The request's fields are never read.\<close>

definition UpdateLocation :: "'r env \<Rightarrow> user \<Rightarrow> location_req \<Rightarrow> ('r world, user option) io" where
  "UpdateLocation env targetUser req =
     andthen (or_fail ''failed to remove user'' (WithTransaction env (
       andthen (deref (e_details targetUser)) (\<lambda>det.
       andthen (attempt (db_query env (find_location (dt_id (de_row det))))) (\<lambda>found.
       andthen (case nil_on_err found of
           Some l \<Rightarrow> or_fail ''failed to update user's location''
             (on_update env (\<lambda>now. db_call env (touch_locations now)))
         | None \<Rightarrow> or_fail ''failed to create new location'' (on_create env (\<lambda>c u.
             save env (LocationCreate_check LocationCreate) (insert_location LocationCreate c u)))) (\<lambda>_.
       andthen (attempt (db_query env (getUserFunctionalWithDetails (IDEQ (uid targetUser))))) (\<lambda>refetched.
       ret (nil_on_err refetched)))))))) (\<lambda>updatedUser.
     andthen (InvalidateCache env (Some targetUser)) (\<lambda>_. ret updatedUser))"

section \<open>Subscriptions, actions, roles, listing\<close>

fun collect_new :: "int list \<Rightarrow> int list \<Rightarrow> int list \<Rightarrow> int list" where
  "collect_new old [] toAppend = toAppend"
| "collect_new old (newID # subIDs) toAppend =
     collect_new old subIDs (if \<not> ContainsInt old newID then toAppend @ [newID] else toAppend)"

definition AddSubscriptions :: "'r env \<Rightarrow> user \<Rightarrow> int list \<Rightarrow> ('r world, unit) io" where
  "AddSubscriptions env u subIDs =
     andthen (or_fail ''failed to remove user'' (WithTransaction env (
       let old = u_subscription_ids (usr u); toAppend = collect_new old subIDs [] in
       if length toAppend = 0 then ret ()
       else andthen (or_fail ''failed update user''
         (UserUpdateOne_Save env (UpdateOneID\<lparr>uu_subscription_ids := Some (old @ toAppend)\<rparr>) (uid u)))
         (\<lambda>_. ret ())))) (\<lambda>_.
     andthen (InvalidateCache env (Some u)) (\<lambda>_. ret ()))"

definition RemoveSubscriptions :: "'r env \<Rightarrow> user \<Rightarrow> int list \<Rightarrow> ('r world, unit) io" where
  "RemoveSubscriptions env u subIDs =
     andthen (or_fail ''failed to remove user'' (WithTransaction env (
       andthen (or_fail ''failed update user'' (UserUpdateOne_Save env (UpdateOneID\<lparr>uu_subscription_ids :=
           Some (RemoveIDs (u_subscription_ids (usr u)) subIDs)\<rparr>) (uid u))) (\<lambda>_. ret ())))) (\<lambda>_.
     andthen (InvalidateCache env (Some u)) (\<lambda>_. ret ()))"

definition CreateUserAction ::
  "'r env \<Rightarrow> user \<Rightarrow> string \<Rightarrow> string \<Rightarrow> string \<Rightarrow> ('r world, unit) io" where
  "CreateUserAction env u action originDevice det =
     (let b = \<lparr>acc_type = None, acc_action = Some action, acc_details = Some det,
               acc_author = [uid u], acc_author_device = []\<rparr> in
     andthen (or_fail ''failed to remove user'' (WithTransaction env (
       or_fail ''failed to create user action'' (on_create env (\<lambda>c up.
         save env (UserActionCreate_check b) (insert_action b c up)))))) (\<lambda>_.
     andthen (InvalidateCache env (Some u)) (\<lambda>_. ret ())))"

text \<open>
  \<open>int\<close> is 64 bits wide: the offset wraps around. The database rejects a negative offset.
  Rows with equal creation times keep their order in the table.
\<close>

definition page_offset :: "64 word \<Rightarrow> 64 word \<Rightarrow> 64 word" where
  "page_offset page pageSize = (page - 1) * pageSize"

definition clamp_page :: "64 word \<Rightarrow> 64 word" where
  "clamp_page page = (if sint page < 1 then 1 else page)"

definition clamp_page_size :: "64 word \<Rightarrow> 64 word" where
  "clamp_page_size pageSize = (if sint pageSize \<le> 0 \<or> sint pageSize > 100 then 20 else pageSize)"

definition list_users :: "int \<Rightarrow> int \<Rightarrow> db \<Rightarrow> error + user list" where
  "list_users limit offset d =
     (if offset < 0 then Inl (EIO ''OFFSET must not be negative'')
      else Inr (map (load_user d Query)
        (take (nat limit) (drop (nat offset) (sort_key (\<lambda>u. - u_created_at u) (rows (users d)))))))"

definition GetUsersPublic :: "'r env \<Rightarrow> 64 word \<Rightarrow> 64 word \<Rightarrow> ('r world, user list) io" where
  "GetUsersPublic env page0 pageSize0 =
     (let page = clamp_page page0; pageSize = clamp_page_size pageSize0;
          offset = page_offset page pageSize in
     andthen (or_fail ''failed to fetch users public''
       (db_query env (list_users (sint pageSize) (sint offset)))) (\<lambda>foundUsers.
     andthen (each (\<lambda>u. andthen (attempt (UpdateCache env u)) (\<lambda>_. ret ())) foundUsers) (\<lambda>_.
     ret foundUsers)))"

definition AddRole :: "'r env \<Rightarrow> int \<Rightarrow> int \<Rightarrow> ('r world, user) io" where
  "AddRole env userID roleID =
     andthen (or_fail ''failed to remove user'' (WithTransaction env (
       andthen (or_fail ''failed to add role for user''
         (UserUpdateOne_Save env (UpdateOneID\<lparr>uu_add_roles := [roleID]\<rparr>) userID)) (\<lambda>saved.
       andthen (attempt (db_query env (getUserWithRoles (IDEQ (u_id saved))))) (\<lambda>refetched.
       ret (nil_on_err refetched)))))) (\<lambda>updatedUser.
     andthen (InvalidateCache env updatedUser) (\<lambda>_. deref updatedUser))"

definition RevokeRole :: "'r env \<Rightarrow> int \<Rightarrow> int \<Rightarrow> ('r world, user) io" where
  "RevokeRole env userID roleID =
     andthen (or_fail ''failed to remove user'' (WithTransaction env (
       andthen (or_fail ''failed to revoke role for user''
         (UserUpdateOne_Save env (UpdateOneID\<lparr>uu_remove_roles := [roleID]\<rparr>) userID)) (\<lambda>saved.
       andthen (attempt (db_query env (getUserWithRoles (IDEQ (u_id saved))))) (\<lambda>refetched.
       ret (nil_on_err refetched)))))) (\<lambda>updatedUser.
     andthen (InvalidateCache env updatedUser) (\<lambda>_. deref updatedUser))"

definition UsersRepository_Ping :: "'r env \<Rightarrow> ('r world, unit) io" where
  "UsersRepository_Ping env = db_query env (\<lambda>d. Inr ())"

section \<open>Cache entries do not reach the database\<close>

lemma Del_frames:
  "keeps same_db (CacheStore_Del env k)" "keeps same_bus (CacheStore_Del env k)"
  unfolding CacheStore_Del_def by (rule redis_frames)+

lemma delete_keys_frames:
  "keeps same_db (delete_keys env ks e)" "keeps same_bus (delete_keys env ks e)"
  by (induction ks arbitrary: e) (auto intro!: same_db.intros same_bus.intros Del_frames)

lemma delete_keys_total: "\<exists>r w'. delete_keys env ks e w = (Ok r, w')"
proof (induction ks arbitrary: e w)
  case (Cons k ks)
  have "\<exists>r w'. attempt (CacheStore_Del env k) w = (Ok r, w')"
    by (auto simp: attempt_def CacheStore_Del_def redis_Del_def Let_def split: option.splits)
  then obtain r w' where "attempt (CacheStore_Del env k) w = (Ok r, w')" by blast
  then show ?case using Cons by (simp add: andthen_def)
qed simp

lemma InvalidateCache_nil [simp]: "InvalidateCache env None w = (Panic, w)"
  by (simp add: InvalidateCache_def)

lemma InvalidateCache_run:
  obtains r w' where "InvalidateCache env (Some u) w = (Ok r, w')" and "dbase w' = dbase w"
    and "outbox w' = outbox w"
proof -
  obtain r w' where run: "delete_keys env (GetAllUserKeys u) None w = (Ok r, w')"
    using delete_keys_total by blast
  moreover have "dbase w' = dbase w" and "outbox w' = outbox w"
    using keepsD [OF delete_keys_frames(1) run] keepsD [OF delete_keys_frames(2) run]
    by (simp_all add: same_db_def same_bus_def)
  ultimately show thesis using that by (simp add: InvalidateCache_def)
qed

lemma InvalidateCache_same_db [keeps_intros]: "keeps same_db (InvalidateCache env p)"
  unfolding InvalidateCache_def by (intro same_db.intros delete_keys_frames)

lemma InvalidateCache_same_bus [keeps_intros]: "keeps same_bus (InvalidateCache env p)"
  unfolding InvalidateCache_def by (intro same_bus.intros delete_keys_frames)

lemma store_frames [keeps_intros]:
  "keeps same_db (CacheStore_Set env k p t)" "keeps same_bus (CacheStore_Set env k p t)"
  "keeps same_db (CacheStore_Get env k)" "keeps same_bus (CacheStore_Get env k)"
  "keeps same_db (CacheUser env u)" "keeps same_bus (CacheUser env u)"
  "keeps same_db (DecacheUser env p)" "keeps same_bus (DecacheUser env p)"
  unfolding CacheStore_Set_def CacheStore_Get_def CacheUser_def DecacheUser_def
  by (intro same_db.intros same_bus.intros redis_frames same_all_same_db same_all_same_bus crypto_frames)+

lemma set_keys_frames:
  "keeps same_db (set_keys env p ks)" "keeps same_bus (set_keys env p ks)"
  by (induction ks) (auto intro!: same_db.intros same_bus.intros store_frames)

lemma UpdateCache_frames [keeps_intros]:
  "keeps same_db (UpdateCache env u)" "keeps same_bus (UpdateCache env u)"
  unfolding UpdateCache_def
  by (intro same_db.intros same_bus.intros store_frames set_keys_frames)+

section \<open>The drawing loops\<close>

text \<open>The code a draw at tick \<open>k\<close> gives, and whether the loop stops with it.\<close>

definition code_at :: "'r env \<Rightarrow> nat \<Rightarrow> string" where
  "code_at env k = itoa (GenerateRandomCode (rand_intn env k))"

definition taken :: "(db \<Rightarrow> code_row tab) \<Rightarrow> db \<Rightarrow> string \<Rightarrow> bool" where
  "taken tbl d c = exists_where (\<lambda>r. cd_code r = c) (tbl d)"

definition drawn :: "'r env \<Rightarrow> (db \<Rightarrow> code_row tab) \<Rightarrow> 'r world \<Rightarrow> nat \<Rightarrow> bool" where
  "drawn env tbl w k \<longleftrightarrow> tick w \<le> k \<and> (db_fault env (k + 1) \<or> \<not> taken tbl (dbase w) (code_at env k))"

lemma exists_query:
  "db_query env (CodeExists tbl c) w =
   (if db_fault env (tick w) then Err (EIO ''database'') else Ok (taken tbl (dbase w) c),
    w\<lparr>tick := tick w + 1\<rparr>)"
  by (simp add: db_query_def db_call_def CodeExists_def taken_def)

lemma draw_lenient_step:
  "draw_lenient env tbl w =
   (if \<not> db_fault env (tick w + 1) \<and> taken tbl (dbase w) (code_at env (tick w))
    then draw_lenient env tbl (w\<lparr>tick := tick w + 2\<rparr>)
    else Some (code_at env (tick w), w\<lparr>tick := tick w + 2\<rparr>))"
  by (subst draw_lenient.simps) (simp add: exists_query code_at_def Let_def)

lemma draw_strict_step:
  "draw_strict env tbl w =
   (if \<not> db_fault env (tick w + 1) \<and> taken tbl (dbase w) (code_at env (tick w))
    then draw_strict env tbl (w\<lparr>tick := tick w + 2\<rparr>)
    else Some (if db_fault env (tick w + 1) then Inl (EIO ''database'') else Inr (code_at env (tick w)),
               w\<lparr>tick := tick w + 2\<rparr>))"
  by (subst draw_strict.simps) (simp add: exists_query code_at_def Let_def)

lemma draw_lenient_result:
  assumes "draw_lenient env tbl w = Some r"
  shows "\<exists>k. drawn env tbl w k \<and> r = (code_at env k, w\<lparr>tick := k + 2\<rparr>)"
  using assms
proof (rule draw_lenient.raw_induct [where P = "\<lambda>env tbl w r.
    \<exists>k. drawn env tbl w k \<and> r = (code_at env k, w\<lparr>tick := k + 2\<rparr>)", rotated])
  fix draw env tbl w r
  assume IH: "\<And>env tbl w r. draw env tbl w = Some r \<Longrightarrow>
      \<exists>k. drawn env tbl w k \<and> r = (code_at env k, w\<lparr>tick := k + 2\<rparr>)"
    and eq: "(let codeStr = itoa (GenerateRandomCode (rand_intn env (tick w)));
          q = db_query env (CodeExists tbl codeStr) (w\<lparr>tick := tick w + 1\<rparr>)
      in if fst q = Ok True then draw env tbl (snd q) else Some (codeStr, snd q)) = Some r"
  show "\<exists>k. drawn env tbl w k \<and> r = (code_at env k, w\<lparr>tick := k + 2\<rparr>)"
  proof (cases "db_fault env (tick w + 1) \<or> \<not> taken tbl (dbase w) (code_at env (tick w))")
    case True
    with eq show ?thesis
      by (auto simp: exists_query code_at_def Let_def drawn_def split: if_splits)
  next
    case False
    with eq have "draw env tbl (w\<lparr>tick := tick w + 2\<rparr>) = Some r"
      by (simp add: exists_query code_at_def Let_def)
    from IH [OF this] obtain k where "drawn env tbl (w\<lparr>tick := tick w + 2\<rparr>) k"
      "r = (code_at env k, w\<lparr>tick := k + 2\<rparr>)" by auto
    then show ?thesis by (intro exI [of _ k]) (auto simp: drawn_def)
  qed
qed

lemma draw_strict_result:
  assumes "draw_strict env tbl w = Some r"
  shows "\<exists>k. drawn env tbl w k \<and>
    r = (if db_fault env (k + 1) then Inl (EIO ''database'') else Inr (code_at env k), w\<lparr>tick := k + 2\<rparr>)"
  using assms
proof (rule draw_strict.raw_induct [where P = "\<lambda>env tbl w r. \<exists>k. drawn env tbl w k \<and>
    r = (if db_fault env (k + 1) then Inl (EIO ''database'') else Inr (code_at env k), w\<lparr>tick := k + 2\<rparr>)", rotated])
  fix draw env tbl w r
  assume IH: "\<And>env tbl w r. draw env tbl w = Some r \<Longrightarrow> \<exists>k. drawn env tbl w k \<and>
      r = (if db_fault env (k + 1) then Inl (EIO ''database'') else Inr (code_at env k), w\<lparr>tick := k + 2\<rparr>)"
    and eq: "(let codeStr = itoa (GenerateRandomCode (rand_intn env (tick w)));
          q = db_query env (CodeExists tbl codeStr) (w\<lparr>tick := tick w + 1\<rparr>)
      in if fst q = Ok True then draw env tbl (snd q)
         else Some (case fst q of Err e \<Rightarrow> Inl e | _ \<Rightarrow> Inr codeStr, snd q)) = Some r"
  show "\<exists>k. drawn env tbl w k \<and>
      r = (if db_fault env (k + 1) then Inl (EIO ''database'') else Inr (code_at env k), w\<lparr>tick := k + 2\<rparr>)"
  proof (cases "db_fault env (tick w + 1) \<or> \<not> taken tbl (dbase w) (code_at env (tick w))")
    case True
    with eq show ?thesis
      by (auto simp: exists_query code_at_def Let_def drawn_def split: if_splits)
  next
    case False
    with eq have "draw env tbl (w\<lparr>tick := tick w + 2\<rparr>) = Some r"
      by (simp add: exists_query code_at_def Let_def)
    from IH [OF this] obtain k where "drawn env tbl (w\<lparr>tick := tick w + 2\<rparr>) k"
      "r = (if db_fault env (k + 1) then Inl (EIO ''database'') else Inr (code_at env k), w\<lparr>tick := k + 2\<rparr>)"
      by auto
    then show ?thesis by (intro exI [of _ k]) (auto simp: drawn_def)
  qed
qed

lemma draw_lenient_returns:
  "db_fault env (tick w + 2 * n + 1) \<or> \<not> taken tbl (dbase w) (code_at env (tick w + 2 * n)) \<Longrightarrow>
   draw_lenient env tbl w \<noteq> None"
proof (induction n arbitrary: w)
  case (Suc n)
  show ?case using Suc.IH [of "w\<lparr>tick := tick w + 2\<rparr>"] Suc.prems
    by (subst draw_lenient_step) simp
qed (subst draw_lenient_step, auto)

lemma draw_strict_returns:
  "db_fault env (tick w + 2 * n + 1) \<or> \<not> taken tbl (dbase w) (code_at env (tick w + 2 * n)) \<Longrightarrow>
   draw_strict env tbl w \<noteq> None"
proof (induction n arbitrary: w)
  case (Suc n)
  show ?case using Suc.IH [of "w\<lparr>tick := tick w + 2\<rparr>"] Suc.prems
    by (subst draw_strict_step) simp
qed (subst draw_strict_step, auto)

lemma unique_code_OkE [ok_elims]:
  assumes "unique_code env tbl w = (Ok c, w')"
  obtains k where "drawn env tbl w k" and "c = code_at env k" and "w' = w\<lparr>tick := k + 2\<rparr>"
  using assms draw_lenient_result [of env tbl w]
  by (auto simp: unique_code_def split: option.splits prod.splits)

lemma unique_code_strict_OkE [ok_elims]:
  assumes "unique_code_strict env tbl w = (Ok c, w')"
  obtains k where "drawn env tbl w k" and "c = code_at env k" and "w' = w\<lparr>tick := k + 2\<rparr>"
    and "\<not> taken tbl (dbase w) c"
  using assms draw_strict_result [of env tbl w]
  by (auto simp: unique_code_strict_def drawn_def split: option.splits prod.splits sum.splits if_splits)

lemma unique_code_same_all [keeps_intros]: "keeps same_all (unique_code env tbl)"
proof (rule keepsI)
  fix w r w' assume run: "unique_code env tbl w = (r, w')"
  show "same_all w w'"
  proof (cases "draw_lenient env tbl w")
    case (Some p)
    with draw_lenient_result [OF Some] run show ?thesis by (auto simp: unique_code_def same_all_def)
  qed (use run in \<open>simp add: unique_code_def same_all_def\<close>)
qed

lemma unique_code_strict_same_all [keeps_intros]: "keeps same_all (unique_code_strict env tbl)"
proof (rule keepsI)
  fix w r w' assume run: "unique_code_strict env tbl w = (r, w')"
  show "same_all w w'"
  proof (cases "draw_strict env tbl w")
    case (Some p)
    with draw_strict_result [OF Some] run show ?thesis
      by (auto simp: unique_code_strict_def same_all_def split: if_splits)
  qed (use run in \<open>simp add: unique_code_strict_def same_all_def\<close>)
qed



end
