(* ===== verification/Event_Notifier.thy ===== *)
theory Event_Notifier imports Cache_Store begin

text \<open>
  app/infrastructure/event_notifier.go and app/models/events/events.go: the messages the
  service puts on the Kafka topic. A message has the settings' UUID as its key and the JSON
  of an event struct as its value; the fields of the embedded base event come first. The
  pointers an event is built from may be nil: reading through them panics.
\<close>

section \<open>Events\<close>

record base_event =
  EventID :: string
  EventType :: string
  Timestamp :: int
  UserID :: int

definition base_json :: "'r env \<Rightarrow> base_event \<Rightarrow> (string \<times> json) list" where
  "base_json env b = [(''event_id'', JStr (EventID b)), (''event_type'', JStr (EventType b)),
     (''timestamp'', JStr (rfc3339 env (Timestamp b))), (''user_id'', JNum (UserID b))]"

text \<open>\<open>omitempty\<close>: an empty string or list is left out.\<close>

definition omit_empty_string :: "string \<Rightarrow> string \<Rightarrow> (string \<times> json) list" where
  "omit_empty_string name s = (if s = [] then [] else [(name, JStr s)])"

definition omit_empty_list :: "string \<Rightarrow> string list \<Rightarrow> (string \<times> json) list" where
  "omit_empty_list name xs = (if xs = [] then [] else [(name, JArr (map JStr xs))])"

definition RegistrationEvent :: "'r env \<Rightarrow> base_event \<Rightarrow> string \<Rightarrow> string \<Rightarrow> int \<Rightarrow> json" where
  "RegistrationEvent env b email code expires = JObj (base_json env b @
     [(''email'', JStr email), (''activation_code'', JStr code), (''expires_at'', JStr (rfc3339 env expires))])"

definition SecondFactorEvent :: "'r env \<Rightarrow> base_event \<Rightarrow> string \<Rightarrow> int \<Rightarrow> string \<Rightarrow> json" where
  "SecondFactorEvent env b code expires target = JObj (base_json env b @
     [(''second_factor_code'', JStr code), (''expires_at'', JStr (rfc3339 env expires)),
      (''target_device'', JStr target)])"

definition LoginEvent :: "'r env \<Rightarrow> base_event \<Rightarrow> string \<Rightarrow> string \<Rightarrow> string list \<Rightarrow> json" where
  "LoginEvent env b login_method origin targets = JObj (base_json env b @
     [(''login_method'', JStr login_method)] @ omit_empty_string ''origin_device'' origin @
     omit_empty_list ''target_devices'' targets)"

definition LogoutEvent :: "'r env \<Rightarrow> base_event \<Rightarrow> string \<Rightarrow> string \<Rightarrow> string list \<Rightarrow> string \<Rightarrow> json" where
  "LogoutEvent env b login_method origin targets logout_method = JObj (base_json env b @
     [(''login_method'', JStr login_method)] @ omit_empty_string ''origin_device'' origin @
     omit_empty_list ''target_devices'' targets @ omit_empty_string ''logout_method'' logout_method)"

definition VerificationEvent :: "'r env \<Rightarrow> base_event \<Rightarrow> string \<Rightarrow> string \<Rightarrow> int \<Rightarrow> json" where
  "VerificationEvent env b phone code expires = JObj (base_json env b @
     [(''phone_number'', JStr phone), (''verification_code'', JStr code),
      (''expires_at'', JStr (rfc3339 env expires))])"

definition NotificationEvent :: "'r env \<Rightarrow> base_event \<Rightarrow> string \<Rightarrow> string list \<Rightarrow> json" where
  "NotificationEvent env b msg targets = JObj (base_json env b @
     [(''message'', JStr msg)] @ omit_empty_list ''target_devices'' targets)"

definition UserActionEvent :: "'r env \<Rightarrow> base_event \<Rightarrow> string \<Rightarrow> string \<Rightarrow> string \<Rightarrow> json" where
  "UserActionEvent env b action det origin = JObj (base_json env b @
     [(''action'', JStr action)] @ omit_empty_string ''details'' det @ omit_empty_string ''origin_device'' origin)"

definition ResetPasswordEvent :: "'r env \<Rightarrow> base_event \<Rightarrow> string \<Rightarrow> string \<Rightarrow> int \<Rightarrow> string \<Rightarrow> json" where
  "ResetPasswordEvent env b phone code expires target = JObj (base_json env b @
     [(''phone_number'', JStr phone), (''reset_code'', JStr code),
      (''expires_at'', JStr (rfc3339 env expires)), (''target_device'', JStr target)])"

section \<open>Producing\<close>

text \<open>The Kafka client accepts the message or returns an error.\<close>

definition kafka_Produce :: "'r env \<Rightarrow> string \<Rightarrow> string \<Rightarrow> ('r world, unit) io" where
  "kafka_Produce env key val = (\<lambda>w. let w' = w\<lparr>tick := tick w + 1\<rparr> in
     case kafka_fault env (tick w) of
       Some e \<Rightarrow> (Err e, w')
     | None \<Rightarrow> (Ok (), w'\<lparr>outbox := outbox w @ [(key, val)]\<rparr>))"

definition Produce :: "'r env \<Rightarrow> string \<Rightarrow> string \<Rightarrow> ('r world, unit) io" where
  "Produce env key val = andthen (time_now env) (\<lambda>_. kafka_Produce env key val)"

definition createAndProduceEvent :: "'r env \<Rightarrow> json \<Rightarrow> settings_ent \<Rightarrow> ('r world, unit) io" where
  "createAndProduceEvent env event s =
     (case se_owner s of None \<Rightarrow> throw (EMsg ''user settings owner not loaded'')
      | Some owner \<Rightarrow> Produce env (st_uuid (se_row s)) (print_json event))"

text \<open>The base event of a message: a new identifier and the current time.\<close>

definition new_base :: "'r env \<Rightarrow> string \<Rightarrow> int \<Rightarrow> ('r world, base_event) io" where
  "new_base env typ user_id = andthen (new_uuid env) (\<lambda>event_id. andthen (time_now env) (\<lambda>now.
     ret \<lparr>EventID = event_id, EventType = typ, Timestamp = now, UserID = user_id\<rparr>))"

definition CreateRegistrationEvent :: "'r env \<Rightarrow> user \<Rightarrow> code_row option \<Rightarrow> ('r world, unit) io" where
  "CreateRegistrationEvent env u activationCode =
     (case e_settings u of None \<Rightarrow> throw (EMsg ''user settings not loaded for user'')
      | Some s \<Rightarrow>
          andthen (new_base env ''user.registered'' (uid u)) (\<lambda>b.
          andthen (deref activationCode) (\<lambda>c.
          createAndProduceEvent env (RegistrationEvent env b (mail_of u) (cd_code c) (cd_expires_at c)) s)))"

definition CreateSecondFactorEvent ::
  "'r env \<Rightarrow> settings_ent option \<Rightarrow> code_row \<Rightarrow> ('r world, unit) io" where
  "CreateSecondFactorEvent env st secondFactor = andthen (deref st) (\<lambda>s.
     case se_target s of None \<Rightarrow> throw (EMsg ''2fa target device not loaded'')
     | Some target \<Rightarrow> (case se_owner s of None \<Rightarrow> throw (EMsg ''user settings owner not loaded'')
       | Some owner \<Rightarrow>
           andthen (new_base env ''user.secondfactor.setup'' (u_id owner)) (\<lambda>b.
           createAndProduceEvent env
             (SecondFactorEvent env b (cd_code secondFactor) (cd_expires_at secondFactor) (dv_token target)) s)))"

definition CreateLoginEvent :: "'r env \<Rightarrow> settings_ent option \<Rightarrow> string \<Rightarrow> ('r world, unit) io" where
  "CreateLoginEvent env st loginMethod = andthen (deref st) (\<lambda>s.
     case se_owner s of None \<Rightarrow> throw (EMsg ''user settings owner not loaded'')
     | Some owner \<Rightarrow>
         andthen (new_base env ''user.login.success'' (u_id owner)) (\<lambda>b.
         createAndProduceEvent env (LoginEvent env b loginMethod [] []) s))"

definition CreateVerificationEvent ::
  "'r env \<Rightarrow> settings_ent option \<Rightarrow> string \<Rightarrow> code_row option \<Rightarrow> ('r world, unit) io" where
  "CreateVerificationEvent env st phone verificationCode = andthen (deref st) (\<lambda>s.
     case se_owner s of None \<Rightarrow> throw (EMsg ''user settings owner not loaded'')
     | Some owner \<Rightarrow>
         andthen (new_base env ''user.phone.verification'' (u_id owner)) (\<lambda>b.
         andthen (deref verificationCode) (\<lambda>c.
         createAndProduceEvent env (VerificationEvent env b phone (cd_code c) (cd_expires_at c)) s)))"

definition CreateNotificationEvent ::
  "'r env \<Rightarrow> settings_ent option \<Rightarrow> device_row list \<Rightarrow> ('r world, unit) io" where
  "CreateNotificationEvent env st devs = andthen (deref st) (\<lambda>s.
     case se_owner s of None \<Rightarrow> throw (EMsg ''user settings owner not loaded'')
     | Some owner \<Rightarrow>
         andthen (new_base env ''user.notification'' (u_id owner)) (\<lambda>b.
         createAndProduceEvent env (NotificationEvent env b [] (map dv_token devs)) s))"

definition CreateUserActionEvent ::
  "'r env \<Rightarrow> settings_ent option \<Rightarrow> string \<Rightarrow> string \<Rightarrow> ('r world, unit) io" where
  "CreateUserActionEvent env st action det = andthen (deref st) (\<lambda>s.
     case se_owner s of None \<Rightarrow> throw (EMsg ''user settings owner not loaded'')
     | Some owner \<Rightarrow>
         andthen (new_base env (''user.action.'' @ action) (u_id owner)) (\<lambda>b.
         createAndProduceEvent env (UserActionEvent env b action det []) s))"

definition CreateResetPasswordEvent ::
  "'r env \<Rightarrow> settings_ent option \<Rightarrow> code_row \<Rightarrow> ('r world, unit) io" where
  "CreateResetPasswordEvent env st resetCode = andthen (deref st) (\<lambda>s.
     case se_owner s of None \<Rightarrow> throw (EMsg ''user settings owner not loaded'')
     | Some owner \<Rightarrow> (case se_target s of None \<Rightarrow> throw (EMsg ''target device for reset not loaded'')
       | Some target \<Rightarrow>
           andthen (new_base env ''user.reset.password'' (u_id owner)) (\<lambda>b.
           createAndProduceEvent env
             (ResetPasswordEvent env b (case u_phone owner of None \<Rightarrow> [] | Some p \<Rightarrow> p)
               (cd_code resetCode) (cd_expires_at resetCode) (dv_token target)) s)))"

definition CreateLogoutEvent :: "'r env \<Rightarrow> settings_ent option \<Rightarrow> string \<Rightarrow> ('r world, unit) io" where
  "CreateLogoutEvent env st logoutMethod = andthen (deref st) (\<lambda>s.
     case se_owner s of None \<Rightarrow> throw (EMsg ''user settings owner not loaded'')
     | Some owner \<Rightarrow>
         andthen (new_base env ''user.logout.success'' (u_id owner)) (\<lambda>b.
         createAndProduceEvent env (LogoutEvent env b [] [] [] logoutMethod) s))"

text \<open>\<open>Ping\<close>: the metadata request's timeout and retriable errors count as healthy.\<close>

datatype metadata_error = KafkaTimeout | KafkaRetriable | KafkaOther string

definition EventNotifier_Ping :: "metadata_error option \<Rightarrow> error option" where
  "EventNotifier_Ping err = (case err of
      None \<Rightarrow> None
    | Some KafkaTimeout \<Rightarrow> None
    | Some KafkaRetriable \<Rightarrow> None
    | Some (KafkaOther e) \<Rightarrow> Some (EMsg (''kafka producer not connected or unhealthy: '' @ e)))"

section \<open>Lemmas\<close>

lemma kafka_same_db [keeps_intros]: "keeps same_db (kafka_Produce env k v)"
  by (auto simp: keeps_def same_db_def kafka_Produce_def Let_def split: option.splits)

lemma new_base_same_all [keeps_intros]: "keeps same_all (new_base env t i)"
  unfolding new_base_def by (intro same_all.intros)

lemma produce_same_db [keeps_intros]:
  "keeps same_db (Produce env k v)" "keeps same_db (createAndProduceEvent env ev s)"
  unfolding Produce_def createAndProduceEvent_def by (intro same_db.intros kafka_same_db)+

lemma new_base_same_db: "keeps same_db (new_base env t i)"
  by (rule same_all_same_db [OF new_base_same_all])

text \<open>No event changes the database.\<close>

lemmas event_parts = same_db.intros new_base_same_db produce_same_db

lemma events_same_db [keeps_intros]:
  "keeps same_db (CreateRegistrationEvent env u ac)" "keeps same_db (CreateSecondFactorEvent env st sf)"
  "keeps same_db (CreateLoginEvent env st m)" "keeps same_db (CreateVerificationEvent env st ph vc)"
  "keeps same_db (CreateNotificationEvent env st ds)" "keeps same_db (CreateUserActionEvent env st a det)"
  "keeps same_db (CreateResetPasswordEvent env st rc)" "keeps same_db (CreateLogoutEvent env st m)"
  unfolding CreateRegistrationEvent_def CreateSecondFactorEvent_def CreateLoginEvent_def
    CreateVerificationEvent_def CreateNotificationEvent_def CreateUserActionEvent_def
    CreateResetPasswordEvent_def CreateLogoutEvent_def
  by (intro event_parts)+

text \<open>What one message adds to the bus: at most one entry, under the settings' UUID.\<close>

definition sent :: "string \<Rightarrow> (json \<Rightarrow> bool) \<Rightarrow> 'r world \<Rightarrow> 'r world \<Rightarrow> bool" where
  "sent key shape w w' \<longleftrightarrow> outbox w' = outbox w \<or>
     (\<exists>j. shape j \<and> outbox w' = outbox w @ [(key, print_json j)])"

lemma new_base_run:
  "new_base env t i w = (Ok \<lparr>EventID = uuid_new env (tick w), EventType = t,
     Timestamp = now_at env (tick w + 1), UserID = i\<rparr>, w\<lparr>tick := tick w + 2\<rparr>)"
  by (simp add: new_base_def)

lemma createAndProduceEvent_sent:
  assumes "createAndProduceEvent env ev s w = (r, w')"
  shows "(r = Ok () \<and> outbox w' = outbox w @ [(st_uuid (se_row s), print_json ev)]) \<or>
         ((\<exists>e. r = Err e) \<and> outbox w' = outbox w)"
  using assms
  by (auto simp: createAndProduceEvent_def Produce_def kafka_Produce_def Let_def andthen_def
      split: option.splits)

lemma createAndProduceEvent_ok:
  assumes "createAndProduceEvent env ev s w = (Ok (), w')"
  shows "outbox w' = outbox w @ [(st_uuid (se_row s), print_json ev)]" and "se_owner s \<noteq> None"
  using createAndProduceEvent_sent [OF assms] assms
  by (auto simp: createAndProduceEvent_def split: option.splits)

lemma second_factor_event_fails:
  "se_target s = None \<Longrightarrow>
   CreateSecondFactorEvent env (Some s) c w = (Err (EMsg ''2fa target device not loaded''), w)"
  by (simp add: CreateSecondFactorEvent_def)

lemma reset_event_fails:
  "se_target s = None \<Longrightarrow> \<exists>e. CreateResetPasswordEvent env (Some s) c w = (Err e, w)"
  by (cases "se_owner s") (simp_all add: CreateResetPasswordEvent_def)

lemma login_event_ok:
  assumes "CreateLoginEvent env (Some s) m w = (r, w')"
  shows "r = Ok () \<and> (\<exists>ev. outbox w' = outbox w @ [(st_uuid (se_row s), print_json ev)]) \<or>
    (\<exists>e. r = Err e) \<and> outbox w' = outbox w"
proof (cases "se_owner s")
  case (Some own)
  with assms createAndProduceEvent_sent show ?thesis
    by (fastforce simp: CreateLoginEvent_def new_base_run)
qed (use assms in \<open>auto simp: CreateLoginEvent_def\<close>)

text \<open>A registration message carries the mail address and the activation code of the user it
  names, and its key is the UUID of that user's settings; when the call returns an error
  nothing was put on the bus.\<close>

theorem registration_event_content:
  "case CreateRegistrationEvent env u (Some c) w of
     (Ok _, w') \<Rightarrow> (\<exists>s b. e_settings u = Some s \<and> EventType b = ''user.registered'' \<and> UserID b = uid u \<and>
        outbox w' = outbox w @ [(st_uuid (se_row s),
          print_json (RegistrationEvent env b (mail_of u) (cd_code c) (cd_expires_at c)))])
   | (Err _, w') \<Rightarrow> outbox w' = outbox w
   | (Panic, w') \<Rightarrow> False | (Hang, w') \<Rightarrow> False"
proof (cases "e_settings u")
  case (Some s)
  let ?b = "\<lparr>EventID = uuid_new env (tick w), EventType = ''user.registered'',
     Timestamp = now_at env (tick w + 1), UserID = uid u\<rparr>"
  let ?ev = "RegistrationEvent env ?b (mail_of u) (cd_code c) (cd_expires_at c)"
  obtain r w' where run: "createAndProduceEvent env ?ev s (w\<lparr>tick := tick w + 2\<rparr>) = (r, w')" by fastforce
  then have "CreateRegistrationEvent env u (Some c) w = (r, w')"
    using Some by (simp add: CreateRegistrationEvent_def new_base_run)
  with createAndProduceEvent_sent [OF run] Some show ?thesis
    by (cases r) (auto intro!: exI [of _ s] exI [of _ ?b])
qed (simp add: CreateRegistrationEvent_def)

end
