(* ===== verification/Users_Service.thy ===== *)
theory Users_Service imports Users_Repository Event_Notifier begin

text \<open>
  app/services/users_service.go and handlers.go: the account operations of an authenticated
  user, and user_action_handler.go and subscription_event_handler.go: what the service does with
  the messages it consumes; diagnostics_service.go and infrastructure/consumer_manager.go: the
  health checks and the registry of consumers.
\<close>

section \<open>Service calls\<close>

text \<open>
  \<open>HandleUserServiceCall\<close>: the user is fetched, the logic runs on it, and a notification is sent
  through the edges of the user the logic returned, which may be nil.
\<close>

definition HandleUserServiceCall ::
  "'r env \<Rightarrow> int \<Rightarrow> (user \<Rightarrow> ('r world, user option) io) \<Rightarrow> ('r world, user) io" where
  "HandleUserServiceCall env userID logic =
     andthen (GetUserFunctionalDetailsByID env userID) (\<lambda>u.
     andthen (logic u) (\<lambda>updatedUser.
     andthen (deref updatedUser) (\<lambda>updated.
     andthen (or_fail ''failed to send notification''
       (CreateNotificationEvent env (e_settings updated) (e_devices updated))) (\<lambda>_. ret updated))))"

definition HandleUserAction :: "'r env \<Rightarrow> int \<Rightarrow> (user \<Rightarrow> ('r world, unit) io) \<Rightarrow> ('r world, unit) io" where
  "HandleUserAction env userID actionLogic =
     andthen (or_fail ''failed to fetch user'' (GetUserFunctionalDetailsByID env userID)) (\<lambda>u.
     andthen (actionLogic u) (\<lambda>_.
     or_fail ''failed to send notification''
       (CreateNotificationEvent env (e_settings u) (e_devices u))))"

definition Service_UpdateUser :: "'r env \<Rightarrow> int \<Rightarrow> user_req \<Rightarrow> ('r world, user) io" where
  "Service_UpdateUser env userID req =
     andthen (or_fail ''failed to fetch user'' (GetUserByID env userID)) (\<lambda>u.
     andthen (or_fail ''failed to update user'' (UpdateUser env u req)) (\<lambda>updatedUser.
     andthen (if phone_of updatedUser \<noteq> phone_of u
       then or_fail ''failed to send second factor code''
         (CreateVerificationEvent env (e_settings updatedUser) (phone_of updatedUser) (e_verification u))
       else ret ()) (\<lambda>_.
     andthen (if mail_of updatedUser \<noteq> mail_of u
       then or_fail ''failed to send second factor code''
         (CreateRegistrationEvent env updatedUser (e_activation u))
       else ret ()) (\<lambda>_.
     andthen (or_fail ''failed to send notification''
       (CreateNotificationEvent env (e_settings u) (e_devices u))) (\<lambda>_.
     ret updatedUser)))))"

definition UpdateDetails :: "'r env \<Rightarrow> int \<Rightarrow> details_req \<Rightarrow> ('r world, user) io" where
  "UpdateDetails env userID req = HandleUserServiceCall env userID (\<lambda>u. UpdateUsersDetails env u req)"

definition UpdateSettings :: "'r env \<Rightarrow> int \<Rightarrow> settings_req \<Rightarrow> ('r world, user) io" where
  "UpdateSettings env userID req = HandleUserServiceCall env userID (\<lambda>u. UpdateUsersSettings env u req)"

definition Service_UpdateEntrepreneurDetails ::
  "'r env \<Rightarrow> int \<Rightarrow> entrepreneur_req \<Rightarrow> ('r world, user) io" where
  "Service_UpdateEntrepreneurDetails env userID req =
     HandleUserServiceCall env userID (\<lambda>u. UpdateEntrepreneurDetails env u req)"

definition Service_UpdateLocation :: "'r env \<Rightarrow> int \<Rightarrow> location_req \<Rightarrow> ('r world, user) io" where
  "Service_UpdateLocation env userID req =
     HandleUserServiceCall env userID (\<lambda>u. UpdateLocation env u req)"

definition Service_RemoveAccount :: "'r env \<Rightarrow> int \<Rightarrow> ('r world, unit) io" where
  "Service_RemoveAccount env userID = HandleUserAction env userID (\<lambda>u. RemoveAccount env u)"

definition Index :: "'r env \<Rightarrow> 64 word \<Rightarrow> 64 word \<Rightarrow> ('r world, user list) io" where
  "Index env page pageSize = GetUsersPublic env page pageSize"

definition GetUserPublic :: "'r env \<Rightarrow> int \<Rightarrow> ('r world, user) io" where
  "GetUserPublic env userID = GetUserPublicByID env userID"

definition GetUserPrivate :: "'r env \<Rightarrow> int \<Rightarrow> ('r world, user) io" where
  "GetUserPrivate env userID = GetUserByID env userID"

definition Service_AddRole :: "'r env \<Rightarrow> int \<Rightarrow> int \<Rightarrow> ('r world, user) io" where
  "Service_AddRole env userID roleID = AddRole env userID roleID"

definition Service_RevokeRole :: "'r env \<Rightarrow> int \<Rightarrow> int \<Rightarrow> ('r world, user) io" where
  "Service_RevokeRole env userID roleID = RevokeRole env userID roleID"

section \<open>Consumed messages\<close>

text \<open>The timestamp of a base event must parse; its value is not used.\<close>

definition timestamp_step :: "'r env \<Rightarrow> unit \<Rightarrow> json \<Rightarrow> unit option" where
  "timestamp_step env old v = (case v of JNull \<Rightarrow> Some ()
     | JStr s \<Rightarrow> if time_ok env s then Some () else None | _ \<Rightarrow> None)"

record incoming_base =
  in_event_id :: string
  in_event_type :: string
  in_user_id :: int

definition decode_base :: "'r env \<Rightarrow> (string \<times> json) list \<Rightarrow> incoming_base option" where
  "decode_base env kvs =
     (case (decode_field string_step ''event_id'' kvs [], decode_field string_step ''event_type'' kvs [],
            decode_field (timestamp_step env) ''timestamp'' kvs (), decode_field int_step ''user_id'' kvs 0) of
        (Some i, Some t, Some _, Some u) \<Rightarrow> Some \<lparr>in_event_id = i, in_event_type = t, in_user_id = u\<rparr>
      | _ \<Rightarrow> None)"

definition unmarshal_base :: "'r env \<Rightarrow> string \<Rightarrow> incoming_base option" where
  "unmarshal_base env value = Option.bind (parse_json value) (\<lambda>j. Option.bind (members j) (decode_base env))"

record user_action_event =
  ua_base :: incoming_base
  ua_action :: string
  ua_details :: string
  ua_origin_device :: string

definition unmarshal_user_action :: "'r env \<Rightarrow> string \<Rightarrow> user_action_event option" where
  "unmarshal_user_action env value =
     Option.bind (parse_json value) (\<lambda>j. Option.bind (members j) (\<lambda>kvs.
       case (decode_base env kvs, decode_field string_step ''action'' kvs [],
             decode_field string_step ''details'' kvs [], decode_field string_step ''origin_device'' kvs []) of
         (Some b, Some a, Some d, Some v) \<Rightarrow>
           Some \<lparr>ua_base = b, ua_action = a, ua_details = d, ua_origin_device = v\<rparr>
       | _ \<Rightarrow> None))"

text \<open>The field \<open>UserID\<close> of the subscription event hides that of its base.\<close>

record subscription_event =
  se_base :: incoming_base
  se_action :: string
  se_subscription_ids :: "int list"
  se_user_id :: int

definition unmarshal_subscription :: "'r env \<Rightarrow> string \<Rightarrow> subscription_event option" where
  "unmarshal_subscription env value =
     Option.bind (parse_json value) (\<lambda>j. Option.bind (members j) (\<lambda>kvs.
       case (decode_base env kvs, decode_field string_step ''action'' kvs [],
             decode_field (list_step (int_step 0)) ''subscription_id'' kvs [],
             decode_field int_step ''user_id'' kvs 0) of
         (Some b, Some a, Some ids, Some u) \<Rightarrow>
           Some \<lparr>se_base = b, se_action = a, se_subscription_ids = ids, se_user_id = u\<rparr>
       | _ \<Rightarrow> None))"

definition UserActionHandler_Handle :: "'r env \<Rightarrow> string \<Rightarrow> ('r world, unit) io" where
  "UserActionHandler_Handle env value =
     (case unmarshal_base env value of
        None \<Rightarrow> throw (EWrap ''failed to unmarshal base event'' (EIO ''json''))
      | Some b \<Rightarrow>
          if has_prefix (in_event_type b) ''user.action.'' then
            (case unmarshal_user_action env value of
               None \<Rightarrow> throw (EWrap ''failed to unmarshal user action event'' (EIO ''json''))
             | Some event \<Rightarrow>
                 andthen (GetUserPublicByID env (in_user_id (ua_base event))) (\<lambda>u.
                 if ua_action event = ''action''
                 then CreateUserAction env u (ua_action event) (ua_origin_device event) (ua_details event)
                 else throw (EMsg ''invalid user action event: missing action'')))
          else ret ())"

definition SubscriptionActionHandler_Handle :: "'r env \<Rightarrow> string \<Rightarrow> ('r world, unit) io" where
  "SubscriptionActionHandler_Handle env value =
     (case unmarshal_base env value of
        None \<Rightarrow> throw (EWrap ''failed to unmarshal base event'' (EIO ''json''))
      | Some b \<Rightarrow>
          if has_prefix (in_event_type b) ''user.subscription.'' then
            (case unmarshal_subscription env value of
               None \<Rightarrow> throw (EWrap ''failed to unmarshal user action event'' (EIO ''json''))
             | Some event \<Rightarrow>
                 andthen (GetUserPublicByID env (se_user_id event)) (\<lambda>u.
                 if se_action event = ''remove'' then RemoveSubscriptions env u (se_subscription_ids event)
                 else if se_action event = ''add'' then AddSubscriptions env u (se_subscription_ids event)
                 else throw (EMsg ''invalid user action event: missing action'')))
          else ret ())"

section \<open>Consumers and diagnostics\<close>

text \<open>The registry of consumers, by topic. A consumer is what its metadata request answers.\<close>

type_synonym 'c consumer_manager = "string \<rightharpoonup> 'c"

definition NewConsumerManager :: "'c consumer_manager" where
  "NewConsumerManager = Map.empty"

definition ConsumerManager_Register ::
  "string \<Rightarrow> 'c option \<Rightarrow> 'c consumer_manager \<Rightarrow> error + 'c consumer_manager" where
  "ConsumerManager_Register topic consumer m =
     (if topic = [] then Inl (EMsg ''topic cannot be empty'')
      else case consumer of
        None \<Rightarrow> Inl (EMsg ''consumer cannot be nil'')
      | Some c \<Rightarrow> Inr (m(topic \<mapsto> c)))"

definition GetConsumer :: "string \<Rightarrow> 'c consumer_manager \<Rightarrow> 'c option \<times> bool" where
  "GetConsumer topic m = (m topic, m topic \<noteq> None)"

text \<open>The range over the map visits the topics in an order the runtime chooses.\<close>

fun ping_consumers :: "('c \<Rightarrow> error option) \<Rightarrow> 'c consumer_manager \<Rightarrow> string list \<Rightarrow> error option" where
  "ping_consumers metadata m [] = None"
| "ping_consumers metadata m (topic # topics) =
     (case m topic of
        None \<Rightarrow> ping_consumers metadata m topics
      | Some c \<Rightarrow> (case metadata c of
            Some err \<Rightarrow> Some (EWrap (''consumer for topic '' @ [CHR 0x27] @ topic @ [CHR 0x27] @ '' is unhealthy'') err)
          | None \<Rightarrow> ping_consumers metadata m topics))"

definition PingAll :: "('c \<Rightarrow> error option) \<Rightarrow> 'c consumer_manager \<Rightarrow> string list \<Rightarrow> error option" where
  "PingAll metadata m order = ping_consumers metadata m order"

definition CheckHealth :: "'r env \<Rightarrow> ('r world, unit) io" where
  "CheckHealth env = map_err (EWrap ''database unhealthy'') (UsersRepository_Ping env)"

definition CheckReadiness ::
  "'r env \<Rightarrow> ('c \<Rightarrow> error option) \<Rightarrow> 'c consumer_manager \<Rightarrow> string list \<Rightarrow> metadata_error option \<Rightarrow>
   ('r world, unit) io" where
  "CheckReadiness env metadata consumers order producer =
     andthen (map_err (EWrap ''users repository not ready'') (UsersRepository_Ping env)) (\<lambda>_.
     andthen (map_err (EWrap ''cache store not ready'') (CacheStore_Ping env)) (\<lambda>_.
     case PingAll metadata consumers order of
       Some e \<Rightarrow> throw (EWrap ''consumers not ready'' e)
     | None \<Rightarrow> (case EventNotifier_Ping producer of
         Some e \<Rightarrow> throw (EWrap ''event notifier not ready'' e)
       | None \<Rightarrow> ret ())))"

end
