(* ===== verification/Auth_Service.thy ===== *)
theory Auth_Service imports Users_Repository Event_Notifier begin

text \<open>
  app/services/auth_service.go: the hashing of passwords, the JWTs, and the account
  operations. The goroutines of the service are run where they are started, and what they
  drop is dropped here: a hashing task sends one result, a signing task one result, and the
  asynchronous removal of an expired second-factor code has no result at all.
\<close>

record auth_service =
  HashingPepper :: string
  TokenDuration :: int

text \<open>\<open>NewAuthService\<close> sets neither the pepper nor the token duration: both are zero values.\<close>

definition NewAuthService :: auth_service where
  "NewAuthService = \<lparr>HashingPepper = [], TokenDuration = 0\<rparr>"

section \<open>Passwords\<close>

definition hash_prefix :: string where
  "hash_prefix = ''$argon2id$v=19$m=131072,t=3,p=4$''"

definition HashPassword :: "'r env \<Rightarrow> auth_service \<Rightarrow> string \<Rightarrow> ('r world, string) io" where
  "HashPassword env svc password =
     andthen (read_random env 16) (\<lambda>salt.
     let hmacValue = hmac_sha256 env (HashingPepper svc) password;
         hashed = argon2_id env hmacValue salt 3 (128 * 1024) 4 32
     in ret (hash_prefix @ encode_string False salt @ ''$'' @ encode_string False hashed))"

text \<open>
  \<open>Sscanf("m=%d,t=%d,p=%d")\<close> into two \<open>uint32\<close> and a \<open>uint8\<close>: the literals must match, a number
  takes the decimal digits that follow, after blanks, and must fit its type; what follows the
  last number is not read.
\<close>

definition is_blank :: "char \<Rightarrow> bool" where
  "is_blank c = ((of_char c :: nat) \<in> {9, 11, 12, 13, 32})"

definition scan_number :: "nat \<Rightarrow> string \<Rightarrow> (nat \<times> string) option" where
  "scan_number limit s = (let t = dropWhile is_blank s; ds = takeWhile is_digit_char t in
     if ds = [] \<or> limit < digits_value ds then None
     else Some (digits_value ds, dropWhile is_digit_char t))"

definition scan_literal :: "string \<Rightarrow> string \<Rightarrow> string option" where
  "scan_literal lit s = (if has_prefix s lit then Some (drop (length lit) s) else None)"

definition scan_params :: "string \<Rightarrow> (nat \<times> nat \<times> nat) option" where
  "scan_params s =
     Option.bind (scan_literal ''m='' s) (\<lambda>s1.
     Option.bind (scan_number (2 ^ 32 - 1) s1) (\<lambda>(memory, s2).
     Option.bind (scan_literal '',t='' s2) (\<lambda>s3.
     Option.bind (scan_number (2 ^ 32 - 1) s3) (\<lambda>(hashTime, s4).
     Option.bind (scan_literal '',p='' s4) (\<lambda>s5.
     Option.bind (scan_number (2 ^ 8 - 1) s5) (\<lambda>(threads, s6). Some (memory, hashTime, threads)))))))"

definition CompareHashes :: "'r env \<Rightarrow> auth_service \<Rightarrow> string \<Rightarrow> string \<Rightarrow> error option" where
  "CompareHashes env svc storedHash password =
     (let parts = split_on CHR ''$'' storedHash in
      if length parts \<noteq> 6 then Some (EMsg ''invalid stored hash format'')
      else case scan_params (parts ! 3) of
        None \<Rightarrow> Some (EWrap ''failed to parse hash parameters'' (EIO ''sscanf''))
      | Some (memory, hashTime, threads) \<Rightarrow>
          (case decode_string False (parts ! 4) of
             None \<Rightarrow> Some (EWrap ''failed to decode salt from hash'' (EIO ''base64''))
           | Some salt \<Rightarrow>
               (case decode_string False (parts ! 5) of
                  None \<Rightarrow> Some (EWrap ''failed to decode hash part'' (EIO ''base64''))
                | Some hash \<Rightarrow>
                    (let hmacValue = hmac_sha256 env (HashingPepper svc) password;
                         comparisonHash = argon2_id env hmacValue salt hashTime memory threads (length hash)
                     in if hash = comparisonHash then None else Some (EMsg ''invalid credentials'')))))"

section \<open>Tokens\<close>

definition GenerateJWT ::
  "'r env \<Rightarrow> auth_service \<Rightarrow> int \<Rightarrow> int \<Rightarrow> role_info list \<Rightarrow> ('r world, string) io" where
  "GenerateJWT env svc userID deviceID userRoles =
     andthen (time_now env) (\<lambda>t1.
     andthen (time_now env) (\<lambda>t2.
     let claims = \<lparr>cl_user_id = userID, cl_device_id = deviceID, cl_user_roles = userRoles,
           cl_expires_at = Some (numeric_date env (t1 + TokenDuration svc)),
           cl_issued_at = Some (numeric_date env t2)\<rparr>
     in andthen (is_ctx_done env) (\<lambda>timed_out.
       if timed_out then throw (EMsg ''JWT generation timed out'')
       else of_sum (jwt_sign env claims))))"

definition ValidateJWT :: "'r env \<Rightarrow> string \<Rightarrow> ('r world, claims) io" where
  "ValidateJWT env tokenString =
     andthen (is_ctx_done env) (\<lambda>timed_out.
     if timed_out then throw (EMsg ''JWT validation timed out'')
     else
       andthen (time_now env) (\<lambda>parse_time.
       andthen (of_sum (jwt_parse env parse_time tokenString)) (\<lambda>claims.
       andthen (fail_if (cl_device_id claims = 0) ''token is not device-specific'') (\<lambda>_.
       andthen (time_now env) (\<lambda>now.
       case cl_expires_at claims of
         Some e \<Rightarrow> if unix e \<le> unix now then throw (EMsg ''token has expired'') else ret claims
       | None \<Rightarrow> ret claims)))))"

section \<open>Registration and activation\<close>

definition Register :: "'r env \<Rightarrow> auth_service \<Rightarrow> register_req \<Rightarrow> ('r world, user) io" where
  "Register env svc req =
     andthen (attempt (GetUserByMail env (rg_mail req))) (\<lambda>existing.
     andthen (fail_if (nil_on_err existing \<noteq> None) ''this mail is already registered'') (\<lambda>_.
     andthen (or_fail ''failed to hash user's password'' (HashPassword env svc (rg_password req))) (\<lambda>hashedPassword.
     andthen (or_fail ''failed to create new user'' (CreateUser env req hashedPassword)) (\<lambda>(newUser, activationCode).
     andthen (attempt (CreateRegistrationEvent env newUser (Some activationCode))) (\<lambda>_.
     ret newUser)))))"

definition ResendActivationCode :: "'r env \<Rightarrow> mail_req \<Rightarrow> ('r world, unit) io" where
  "ResendActivationCode env req =
     andthen (or_fail ''failed to find user with the provided email''
       (GetUserByMailWithCodes env (mq_mail req))) (\<lambda>u.
     or_fail ''failed to send activation code'' (CreateRegistrationEvent env u (e_activation u)))"

definition Service_ActivateAccount :: "'r env \<Rightarrow> code_req \<Rightarrow> ('r world, user) io" where
  "Service_ActivateAccount env req =
     andthen (or_fail ''provided code doesn't exist'' (ActivateAccount env (cq_code req))) (\<lambda>u.
     andthen (attempt (CreateUserActionEvent env (e_settings u) ''account.activated'' [])) (\<lambda>_. ret u))"

section \<open>Login\<close>

text \<open>A login returns the user (or nil) and a token.\<close>

definition Login :: "'r env \<Rightarrow> auth_service \<Rightarrow> login_req \<Rightarrow> ('r world, user option \<times> string) io" where
  "Login env svc req =
     andthen (GetUserByMail env (lg_mail req)) (\<lambda>u.
     andthen (fail_if (u_blacklisted (usr u)) ''account is blacklisted'') (\<lambda>_.
     andthen (fail_if (\<not> u_active (usr u)) ''account is not activated'') (\<lambda>_.
     andthen (fail_if (CompareHashes env svc (u_password (usr u)) (lg_password req) \<noteq> None)
       ''provided wrong password'') (\<lambda>_.
     andthen (or_fail ''failed to handle user device''
       (FindOrCreateDevice env (uid u) (lg_device req))) (\<lambda>device.
     andthen (deref (e_settings u)) (\<lambda>s.
     if st_two_factor (se_row s) then
       andthen (or_fail ''failed to create second factor code''
         (CreateSecondFactorCode env u device)) (\<lambda>secondFactor.
       andthen (or_fail ''failed to send second factor code''
         (CreateSecondFactorEvent env (e_settings u) secondFactor)) (\<lambda>_.
       ret (None, ''2fa_required'')))
     else
       andthen (GenerateJWT env svc (uid u) (dv_id device) (MarshalUserRoles (e_roles u))) (\<lambda>token.
       andthen (attempt (CreateLoginEvent env (e_settings u) ''password'')) (\<lambda>_.
       ret (Some u, token)))))))))"

definition ResendSecondFactorCode :: "'r env \<Rightarrow> mail_req \<Rightarrow> ('r world, unit) io" where
  "ResendSecondFactorCode env req =
     andthen (or_fail ''failed to find user with the provided email'' (GetUserByMail env (mq_mail req))) (\<lambda>u.
     andthen (deref (e_settings u)) (\<lambda>s.
     andthen (fail_if (\<not> st_two_factor (se_row s)) ''second factor is not enabled for this account'') (\<lambda>_.
     case e_second_factor u of
       None \<Rightarrow> throw (EMsg ''user has no login attempts created'')
     | Some c \<Rightarrow> or_fail ''failed to send second factor code''
         (CreateSecondFactorEvent env (e_settings u) (sf_row c)))))"

definition VerifySecondFactor ::
  "'r env \<Rightarrow> auth_service \<Rightarrow> code_req \<Rightarrow> ('r world, user option \<times> string) io" where
  "VerifySecondFactor env svc req =
     andthen (or_fail ''failed to fetch user by second factor code''
       (GetUserBySecondFactor env (cq_code req))) (\<lambda>foundUser.
     andthen (time_now env) (\<lambda>now.
     andthen (deref (e_second_factor foundUser)) (\<lambda>c.
     if cd_expires_at (sf_row c) < now then
       andthen (attempt (RemoveSecondFactorCode env foundUser)) (\<lambda>_.
       throw (EMsg ''second factor token has expired''))
     else case sf_target c of
       None \<Rightarrow> throw (EMsg ''could not determine the device for this session'')
     | Some device \<Rightarrow>
         andthen (or_fail ''failed to create Bearer for user''
           (GenerateJWT env svc (uid foundUser) (dv_id device) (MarshalUserRoles (e_roles foundUser)))) (\<lambda>token.
         andthen (attempt (RemoveSecondFactorCode env foundUser)) (\<lambda>removed.
         andthen (attempt (CreateLoginEvent env (e_settings foundUser) ''second-factor'')) (\<lambda>_.
         ret (case removed of Inl _ \<Rightarrow> None | Inr u \<Rightarrow> u, token)))))))"

section \<open>Verification and password reset\<close>

definition ResendVerificationCode :: "'r env \<Rightarrow> mail_req \<Rightarrow> ('r world, unit) io" where
  "ResendVerificationCode env req =
     andthen (or_fail ''failed to find user with the provided email''
       (GetUserByMailWithCodes env (mq_mail req))) (\<lambda>u.
     or_fail ''failed to send verification code''
       (CreateVerificationEvent env (e_settings u) (phone_of u) (e_verification u)))"

definition Service_VerifyAccount ::
  "'r env \<Rightarrow> auth_service \<Rightarrow> code_req \<Rightarrow> ('r world, user \<times> string) io" where
  "Service_VerifyAccount env svc req =
     andthen (or_fail ''failed to fetch user by verification code'' (VerifyAccount env (cq_code req))) (\<lambda>u.
     andthen (or_fail ''failed to handle user device''
       (FindOrCreateDevice env (uid u) (cq_device req))) (\<lambda>device.
     andthen (or_fail ''failed to create Bearer for user''
       (GenerateJWT env svc (uid u) (dv_id device) (MarshalUserRoles (e_roles u)))) (\<lambda>token.
     ret (u, token))))"

definition RequestPasswordReset :: "'r env \<Rightarrow> mail_req \<Rightarrow> ('r world, unit) io" where
  "RequestPasswordReset env req =
     andthen (or_fail ''failed to fetch user'' (GetUserByMail env (mq_mail req))) (\<lambda>u.
     andthen (or_fail ''failed to create reset token'' (CreateResetCode env u)) (\<lambda>resetCode.
     or_fail ''failed to send reset password code''
       (CreateResetPasswordEvent env (e_settings u) resetCode)))"

definition CancelPasswordReset :: "'r env \<Rightarrow> mail_req \<Rightarrow> ('r world, unit) io" where
  "CancelPasswordReset env req =
     andthen (or_fail ''failed to fetch user'' (GetUserByMail env (mq_mail req))) (\<lambda>u.
     andthen (or_fail ''failed to cancel password reset process'' (RemoveResetCode env u)) (\<lambda>_.
     andthen (attempt (CreateUserActionEvent env (e_settings u) ''password.reset.cancelled'' [])) (\<lambda>_.
     ret ())))"

definition ConfirmPasswordReset :: "'r env \<Rightarrow> auth_service \<Rightarrow> confirm_reset_req \<Rightarrow> ('r world, unit) io" where
  "ConfirmPasswordReset env svc req =
     andthen (or_fail ''failed to fetch user by reset code'' (GetUserByResetCode env (cr_code req))) (\<lambda>u.
     andthen (or_fail ''failed to hash user's password'' (HashPassword env svc (cr_password req))) (\<lambda>hashedPassword.
     andthen (or_fail ''failed to update users password'' (UpdateUsersPassword env u hashedPassword)) (\<lambda>_.
     andthen (or_fail ''failed to remove reset code'' (RemoveResetCode env u)) (\<lambda>_.
     andthen (attempt (CreateUserActionEvent env (e_settings u) ''password.reset.confirmed'' [])) (\<lambda>_.
     ret ())))))"

definition ResendResetCode :: "'r env \<Rightarrow> mail_req \<Rightarrow> ('r world, unit) io" where
  "ResendResetCode env req =
     andthen (or_fail ''failed to find user with the provided email''
       (GetUserByMailWithCodes env (mq_mail req))) (\<lambda>u.
     andthen (or_fail ''failed to create a new reset code'' (CreateResetCode env u)) (\<lambda>resetCode.
     or_fail ''failed to send reset code'' (CreateResetPasswordEvent env (e_settings u) resetCode)))"

end
