(* ===== verification/Store_Invariant.thy ===== *)
theory Store_Invariant imports Ent_Client begin

text \<open>
  The integrity of the database and its preservation by every statement of the ent client.
  \<open>wf_db\<close> is what app/models/ent/migrate/schema.go promises of the tables that hold accounts:
  primary keys below the sequence, unique columns, one settings row, one details row and one
  code of each kind per user, and owners that exist.
\<close>

definition user_ids :: "db \<Rightarrow> int set" where
  "user_ids d = u_id ` set (rows (users d))"

definition users_ok :: "user_row tab \<Rightarrow> bool" where
  "users_ok t \<longleftrightarrow> wf_tab u_id t \<and> unique_col u_mail t \<and> unique_col u_password t \<and> unique_opt u_phone t"

definition owned_ok :: "('row \<Rightarrow> int) \<Rightarrow> ('row \<Rightarrow> int) \<Rightarrow> int set \<Rightarrow> 'row tab \<Rightarrow> bool" where
  "owned_ok key own ids t \<longleftrightarrow> wf_tab key t \<and> unique_col own t \<and> (\<forall>r\<in>set (rows t). own r \<in> ids)"

definition codes_ok :: "int set \<Rightarrow> code_row tab \<Rightarrow> bool" where
  "codes_ok ids t \<longleftrightarrow> owned_ok cd_id cd_user ids t \<and> unique_col cd_code t"

definition devices_ok :: "int set \<Rightarrow> device_row tab \<Rightarrow> bool" where
  "devices_ok ids t \<longleftrightarrow> wf_tab dv_id t \<and> (\<forall>r\<in>set (rows t). dv_user r \<in> ids)"

definition wf_db :: "db \<Rightarrow> bool" where
  "wf_db d \<longleftrightarrow> users_ok (users d) \<and> owned_ok st_id st_user (user_ids d) (settings d) \<and>
     owned_ok dt_id dt_user (user_ids d) (details d) \<and> devices_ok (user_ids d) (devices d) \<and>
     codes_ok (user_ids d) (activation_codes d) \<and> codes_ok (user_ids d) (reset_codes d) \<and>
     codes_ok (user_ids d) (second_factor_codes d) \<and> codes_ok (user_ids d) (verification_codes d)"

section \<open>Updates of one row\<close>

lemma unique_update_key:
  assumes "distinct (map key xs)" and "distinct (map col xs)"
    and "\<And>r r0. r \<in> set xs \<Longrightarrow> key r \<noteq> i \<Longrightarrow> r0 \<in> set xs \<Longrightarrow> key r0 = i \<Longrightarrow> col (f r0) \<noteq> col r"
  shows "distinct (map col (map (\<lambda>r. if key r = i then f r else r) xs))"
  using assms
proof (induction xs)
  case (Cons x xs)
  have rest: "distinct (map col (map (\<lambda>r. if key r = i then f r else r) xs))"
    using Cons.prems by (intro Cons.IH) auto
  show ?case
  proof (cases "key x = i")
    case True
    then have "\<forall>r\<in>set xs. key r \<noteq> i" using Cons.prems(1) by (auto simp: image_iff)
    then have "map (\<lambda>r. if key r = i then f r else r) xs = xs" by (simp add: map_idI)
    moreover have "col (f x) \<notin> col ` set xs"
      using Cons.prems(3) True \<open>\<forall>r\<in>set xs. key r \<noteq> i\<close> by force
    ultimately show ?thesis using True Cons.prems(2) by simp
  next
    case False
    have "col x \<notin> (\<lambda>r. col (if key r = i then f r else r)) ` set xs"
      using Cons.prems(2,3) False by (auto split: if_splits) (metis list.set_intros(1,2))
    then show ?thesis using rest False by (simp add: o_def image_image)
  qed
qed simp

lemma unique_opt_update_key:
  assumes "distinct (map key xs)" and "distinct (filter (\<lambda>c. c \<noteq> None) (map col xs))"
    and "\<And>r r0. r \<in> set xs \<Longrightarrow> key r \<noteq> i \<Longrightarrow> r0 \<in> set xs \<Longrightarrow> key r0 = i \<Longrightarrow>
      col (f r0) \<noteq> None \<Longrightarrow> col (f r0) \<noteq> col r"
  shows "distinct (filter (\<lambda>c. c \<noteq> None) (map col (map (\<lambda>r. if key r = i then f r else r) xs)))"
  using assms
proof (induction xs)
  case (Cons x xs)
  have "distinct (filter (\<lambda>c. c \<noteq> None) (map col xs))" using Cons.prems(2) by (auto split: if_splits)
  then have rest: "distinct (filter (\<lambda>c. c \<noteq> None) (map col (map (\<lambda>r. if key r = i then f r else r) xs)))"
    using Cons.prems(1,3) by (intro Cons.IH) auto
  show ?case
  proof (cases "key x = i")
    case True
    then have "\<forall>r\<in>set xs. key r \<noteq> i" using Cons.prems(1) by (auto simp: image_iff)
    then have same: "map (\<lambda>r. if key r = i then f r else r) xs = xs" by (simp add: map_idI)
    have "col (f x) \<noteq> None \<Longrightarrow> col (f x) \<notin> col ` set xs"
      using Cons.prems(3) True \<open>\<forall>r\<in>set xs. key r \<noteq> i\<close> by force
    then show ?thesis using True same \<open>distinct (filter (\<lambda>c. c \<noteq> None) (map col xs))\<close> by auto
  next
    case False
    have fresh: "col x \<noteq> None \<Longrightarrow> col x \<notin> col ` set xs"
      using Cons.prems(2) by (auto split: if_splits)
    have "col x \<notin> (\<lambda>r. col (if key r = i then f r else r)) ` set xs" if c: "col x \<noteq> None"
    proof
      assume "col x \<in> (\<lambda>r. col (if key r = i then f r else r)) ` set xs"
      then obtain r where r: "r \<in> set xs" "col x = col (if key r = i then f r else r)" by auto
      show False
      proof (cases "key r = i")
        case True
        with r c Cons.prems(3) [of x r] False show ?thesis by simp
      next
        case no: False
        with r fresh [OF c] show ?thesis by simp
      qed
    qed
    then show ?thesis using rest False by (auto simp: o_def image_image)
  qed
qed simp

lemma wf_tab_keys: "wf_tab key t \<Longrightarrow> distinct (map key (rows t))"
  by (simp add: wf_tab_def)

section \<open>Rules per table\<close>

lemma user_ids_update:
  assumes "\<And>r. u_id (f r) = u_id r"
  shows "user_ids (users_update (update_where p f) d) = user_ids d"
proof -
  have "u_id \<circ> (\<lambda>r. if p r then f r else r) = u_id" using assms by auto
  then have "map u_id (rows (update_where p f (users d))) = map u_id (rows (users d))" by simp
  then have "set (map u_id (rows (update_where p f (users d)))) = set (map u_id (rows (users d)))"
    by (rule arg_cong)
  then show ?thesis by (simp only: user_ids_def set_map users_tab.get_upd)
qed

lemma owned_ok_mono: "owned_ok key own ids t \<Longrightarrow> ids \<subseteq> ids' \<Longrightarrow> owned_ok key own ids' t"
  by (auto simp: owned_ok_def)

lemma codes_ok_mono: "codes_ok ids t \<Longrightarrow> ids \<subseteq> ids' \<Longrightarrow> codes_ok ids' t"
  by (auto simp: codes_ok_def owned_ok_mono)

lemma devices_ok_mono: "devices_ok ids t \<Longrightarrow> ids \<subseteq> ids' \<Longrightarrow> devices_ok ids' t"
  by (auto simp: devices_ok_def)

lemma owned_ok_insert:
  assumes "owned_ok key own ids t" and "\<And>i. key (mk i) = i" and "\<And>i. own (mk i) = o0"
    and "\<not> exists_where (\<lambda>r. own r = o0) t" and "o0 \<in> ids"
  shows "owned_ok key own ids (snd (insert_row mk t))"
  using assms by (auto simp: owned_ok_def wf_insert_row intro!: unique_insert_row)

lemma owned_ok_delete: "owned_ok key own ids t \<Longrightarrow> owned_ok key own ids (delete_where p t)"
  by (auto simp: owned_ok_def wf_delete_where unique_delete_where)

lemma owned_ok_update:
  "owned_ok key own ids t \<Longrightarrow> (\<And>r. key (f r) = key r) \<Longrightarrow> (\<And>r. own (f r) = own r) \<Longrightarrow>
   owned_ok key own ids (update_where p f t)"
  by (auto simp: owned_ok_def wf_update_where unique_update_same)

lemma codes_ok_delete: "codes_ok ids t \<Longrightarrow> codes_ok ids (delete_where p t)"
  by (auto simp: codes_ok_def owned_ok_delete unique_delete_where)

lemma users_ok_insert:
  assumes "users_ok t" and "\<And>i. u_id (mk i) = i" and "\<And>i. u_phone (mk i) = None"
    and "\<not> exists_where (\<lambda>u. u_mail u = u_mail (mk (next_id t))) t"
    and "\<not> exists_where (\<lambda>u. u_password u = u_password (mk (next_id t))) t"
  shows "users_ok (snd (insert_row mk t))"
  using assms by (auto simp: users_ok_def wf_insert_row unique_opt_def intro!: unique_insert_row)

lemma users_ok_apply:
  assumes ok: "users_ok t" and clash: "\<not> exists_where (users_clash b i) t"
  shows "users_ok (update_where (\<lambda>u. u_id u = i) (apply_user_update b now) t)"
proof -
  let ?f = "apply_user_update b now"
  have keys: "distinct (map u_id (rows t))" using ok by (auto simp: users_ok_def wf_tab_def)
  have other: "u_mail (?f r0) \<noteq> u_mail r" "u_password (?f r0) \<noteq> u_password r"
    "u_phone (?f r0) \<noteq> None \<Longrightarrow> u_phone (?f r0) \<noteq> u_phone r"
    if "r \<in> set (rows t)" "u_id r \<noteq> i" "r0 \<in> set (rows t)" "u_id r0 = i" for r r0
  proof -
    have "\<not> users_clash b i r" using clash that(1) by (auto simp: exists_where_iff)
    moreover have "u_mail r \<noteq> u_mail r0" "u_password r \<noteq> u_password r0"
      using ok that by (auto simp: users_ok_def dest: unique_colD)
    moreover have "u_phone r0 \<noteq> None \<Longrightarrow> u_phone r0 \<noteq> u_phone r"
    proof
      assume p: "u_phone r0 \<noteq> None" "u_phone r0 = u_phone r"
      have "distinct (filter (\<lambda>c. c \<noteq> None) (map u_phone (rows t)))"
        using ok by (simp add: users_ok_def unique_opt_def)
      then have "distinct (map u_phone (filter (\<lambda>u. u_phone u \<noteq> None) (rows t)))"
        by (simp add: filter_map o_def)
      with p that have "r = r0" by (auto simp: distinct_map inj_on_def)
      with that show False by simp
    qed
    ultimately show "u_mail (?f r0) \<noteq> u_mail r" "u_password (?f r0) \<noteq> u_password r"
      "u_phone (?f r0) \<noteq> None \<Longrightarrow> u_phone (?f r0) \<noteq> u_phone r"
      using that(2) by (auto simp: users_clash_def apply_user_update_def or_keep_def split: option.splits)
  qed
  have "unique_col u_mail (update_where (\<lambda>u. u_id u = i) ?f t)"
    using unique_update_key [OF keys, of u_mail i ?f] ok other(1)
    by (simp add: unique_col_def users_ok_def)
  moreover have "unique_col u_password (update_where (\<lambda>u. u_id u = i) ?f t)"
    using unique_update_key [OF keys, of u_password i ?f] ok other(2)
    by (simp add: unique_col_def users_ok_def)
  moreover have "unique_opt u_phone (update_where (\<lambda>u. u_id u = i) ?f t)"
    using unique_opt_update_key [OF keys, of u_phone i ?f] ok other(3)
    by (simp add: unique_opt_def users_ok_def)
  ultimately show ?thesis using ok by (auto simp: users_ok_def wf_update_where)
qed

lemma devices_ok_insert:
  "devices_ok ids t \<Longrightarrow> (\<And>i. dv_id (mk i) = i) \<Longrightarrow> (\<And>i. dv_user (mk i) = o0) \<Longrightarrow> o0 \<in> ids \<Longrightarrow>
   devices_ok ids (snd (insert_row mk t))"
  by (auto simp: devices_ok_def wf_insert_row)

lemma devices_ok_column:
  assumes "devices_ok ids t" and "\<And>x v. dv_id (put x v) = dv_id v" and "\<And>x v. dv_user (put x v) = dv_user v"
  shows "devices_ok ids (set_device_column put col t)"
proof -
  let ?g = "\<lambda>v. case map_of col (dv_id v) of None \<Rightarrow> v | Some x \<Rightarrow> put x v"
  have "dv_id \<circ> ?g = dv_id" and "\<And>v. dv_user (?g v) = dv_user v"
    using assms(2,3) by (auto simp: fun_eq_iff split: option.splits)
  moreover from this(1) have "dv_id (?g v) = dv_id v" for v by (simp add: fun_eq_iff)
  ultimately show ?thesis using assms(1)
    by (auto simp: devices_ok_def wf_tab_def set_device_column_def)
qed

section \<open>Rules per statement\<close>

text \<open>A statement that succeeds keeps a property of the database.\<close>

definition kept :: "(db \<Rightarrow> bool) \<Rightarrow> (db \<Rightarrow> error + 'a \<times> db) \<Rightarrow> bool" where
  "kept P stmt \<longleftrightarrow> (\<forall>d x d'. P d \<longrightarrow> stmt d = Inr (x, d') \<longrightarrow> P d')"

abbreviation keeps_wf :: "(db \<Rightarrow> error + 'a \<times> db) \<Rightarrow> bool" where
  "keeps_wf \<equiv> kept wf_db"

named_theorems wf_stmts "statements that keep the database well formed"

lemma keeps_wfI: "(\<And>d x d'. wf_db d \<Longrightarrow> stmt d = Inr (x, d') \<Longrightarrow> wf_db d') \<Longrightarrow> keeps_wf stmt"
  by (auto simp: kept_def)

lemma user_exists_iff: "exists_where (\<lambda>u. u_id u = i) (users d) \<longleftrightarrow> i \<in> user_ids d"
  by (auto simp: exists_where_iff user_ids_def)

lemma wf_insert_user [wf_stmts]: "UserCreate_check b = None \<Longrightarrow> keeps_wf (insert_user b c u)"
proof (rule keeps_wfI)
  fix d x d' assume chk: "UserCreate_check b = None" and wf: "wf_db d" and run: "insert_user b c u d = Inr (x, d')"
  from chk obtain m p where b: "uc_mail b = Some m" "uc_password b = Some p"
    by (auto simp: UserCreate_check_def required_def valid_def split: option.splits if_splits)
  let ?t = "snd (insert_row (new_user_row b c u) (users d))"
  from run b have d': "d' = users_update (\<lambda>t. snd (insert_row (new_user_row b c u) t)) d"
    and no: "\<not> exists_where (\<lambda>x. u_mail x = m) (users d)" "\<not> exists_where (\<lambda>x. u_password x = p) (users d)"
    by (auto simp: insert_user_def exists_where_iff split: if_splits)
  have "users_ok ?t" using wf no b
    by (intro users_ok_insert) (auto simp: wf_db_def new_user_row_def)
  moreover have sub: "user_ids d \<subseteq> user_ids d'" by (auto simp: user_ids_def d')
  moreover have "users d' = ?t" "settings d' = settings d" "details d' = details d"
    "devices d' = devices d" "activation_codes d' = activation_codes d" "reset_codes d' = reset_codes d"
    "second_factor_codes d' = second_factor_codes d" "verification_codes d' = verification_codes d"
    by (simp_all add: d')
  ultimately show "wf_db d'" using wf
    by (simp add: wf_db_def owned_ok_mono [OF _ sub] codes_ok_mono [OF _ sub] devices_ok_mono [OF _ sub])
qed

lemma wf_update_user_row:
  assumes wf: "wf_db d" and run: "update_user_row b i now d = Inr d'"
  shows "wf_db d'"
proof -
  from run have d': "d' = users_update (update_where (\<lambda>u. u_id u = i) (apply_user_update b now)) d"
    and "\<not> exists_where (users_clash b i) (users d)"
    by (auto simp: update_user_row_def split: if_splits)
  then have "users_ok (users d')" using wf users_ok_apply by (simp add: wf_db_def)
  moreover have "user_ids d' = user_ids d" by (simp add: d' user_ids_update)
  ultimately show ?thesis using wf by (simp add: wf_db_def d')
qed

lemma change_roles_same:
  "change_roles env b i d = Inr d' \<Longrightarrow> d' = d\<lparr>user_roles := user_roles d'\<rparr>"
  by (auto simp: change_roles_def Let_def split: if_splits option.splits)

lemma wf_user_roles [simp]: "wf_db (d\<lparr>user_roles := links\<rparr>) = wf_db d"
  by (simp add: wf_db_def user_ids_def)

lemma wf_update_user [wf_stmts]: "keeps_wf (update_user env b i now)"
proof (rule keeps_wfI)
  fix d x d' assume wf: "wf_db d" and run: "update_user env b i now d = Inr (x, d')"
  then obtain d1 d2 where 1: "update_user_row b i now d = Inr d1"
    and 2: "(if uu_clear_second_factor b then clear_second_factor_code env i d1 else Inr d1) = Inr d2"
    and 3: "change_roles env b i d2 = Inr d'"
    by (auto simp: update_user_def bind_sum_Inr node_of_def split: option.splits)
  have "d2 = d1" using 2 by (auto simp: clear_second_factor_code_def split: if_splits)
  with change_roles_same [OF 3] wf_update_user_row [OF wf 1] show "wf_db d'" by (metis wf_user_roles)
qed

lemma wf_insert_settings [wf_stmts]: "keeps_wf (insert_settings b c u)"
proof (rule keeps_wfI)
  fix d x d' assume wf: "wf_db d" and run: "insert_settings b c u d = Inr (x, d')"
  then have d': "d' = settings_update (\<lambda>t. snd (insert_row (new_settings_row b c u) t)) d"
    and no: "\<not> exists_where (\<lambda>s. st_user s = hd (sc_owner b)) (settings d)" "hd (sc_owner b) \<in> user_ids d"
    by (auto simp: insert_settings_def user_exists_iff split: if_splits)
  have "owned_ok st_id st_user (user_ids d) (snd (insert_row (new_settings_row b c u) (settings d)))"
    using wf no by (intro owned_ok_insert [where ?o0.0 = "hd (sc_owner b)"]) (auto simp: wf_db_def new_settings_row_def)
  with wf show "wf_db d'" by (simp add: wf_db_def d' user_ids_def)
qed

lemma wf_insert_details [wf_stmts]: "keeps_wf (insert_details b c u)"
proof (rule keeps_wfI)
  fix d x d' assume wf: "wf_db d" and run: "insert_details b c u d = Inr (x, d')"
  then have d': "d' = details_update (\<lambda>t. snd (insert_row (new_details_row b c u) t)) d"
    and no: "\<not> exists_where (\<lambda>s. dt_user s = hd (dc_owner b)) (details d)" "hd (dc_owner b) \<in> user_ids d"
    by (auto simp: insert_details_def user_exists_iff split: if_splits)
  have "owned_ok dt_id dt_user (user_ids d) (snd (insert_row (new_details_row b c u) (details d)))"
    using wf no by (intro owned_ok_insert [where ?o0.0 = "hd (dc_owner b)"]) (auto simp: wf_db_def new_details_row_def)
  with wf show "wf_db d'" by (simp add: wf_db_def d' user_ids_def)
qed

lemma wf_insert_device [wf_stmts]: "keeps_wf (insert_device b s c u)"
proof (rule keeps_wfI)
  fix d x d' assume wf: "wf_db d" and run: "insert_device b s c u d = Inr (x, d')"
  then have d': "d' = devices_update (\<lambda>t. snd (insert_row (new_device_row b s c u) t)) d"
    and no: "hd (vc_owner b) \<in> user_ids d"
    by (auto simp: insert_device_def user_exists_iff split: if_splits)
  have "devices_ok (user_ids d) (snd (insert_row (new_device_row b s c u) (devices d)))"
    using wf no by (intro devices_ok_insert [where ?o0.0 = "hd (vc_owner b)"]) (auto simp: wf_db_def new_device_row_def)
  with wf show "wf_db d'" by (simp add: wf_db_def d' user_ids_def)
qed

lemma wf_update_details [wf_stmts]: "keeps_wf (update_details f l i now)"
  by (rule keeps_wfI) (auto simp: update_details_def wf_db_def user_ids_def owned_ok_update split: if_splits)

lemma codes_ok_insert:
  assumes "codes_ok ids t" and "cc_code b = Some c0"
    and "\<not> exists_where (\<lambda>x. Some (cd_code x) = cc_code b \<or> cd_user x = hd (cc_owner b)) t"
    and "hd (cc_owner b) \<in> ids"
  shows "codes_ok ids (snd (insert_row (new_code_row b e c u) t))"
proof -
  have "owned_ok cd_id cd_user ids (snd (insert_row (new_code_row b e c u) t))"
    using assms by (intro owned_ok_insert [where ?o0.0 = "hd (cc_owner b)"])
      (auto simp: codes_ok_def new_code_row_def exists_where_iff)
  moreover have "unique_col cd_code (snd (insert_row (new_code_row b e c u) t))"
    using assms by (intro unique_insert_row) (auto simp: codes_ok_def new_code_row_def exists_where_iff)
  ultimately show ?thesis by (simp add: codes_ok_def)
qed

lemma insert_code_InrD:
  assumes "insert_code tbl upd b e c u d = Inr (x, d')"
  shows "\<not> exists_where (\<lambda>x. Some (cd_code x) = cc_code b \<or> cd_user x = hd (cc_owner b)) (tbl d)"
    and "hd (cc_owner b) \<in> user_ids d" and "x = new_code_row b e c u (next_id (tbl d))"
    and "d' = upd (\<lambda>t. snd (insert_row (new_code_row b e c u) t)) d"
  using assms by (auto simp: insert_code_def user_exists_iff split: if_splits)

lemma wf_insert_activation [wf_stmts]:
  "cc_code b = Some c0 \<Longrightarrow> keeps_wf (insert_code activation_codes activation_codes_update b e c u)"
proof (rule keeps_wfI)
  fix d x d' assume "cc_code b = Some c0" and "wf_db d"
    and run: "insert_code activation_codes activation_codes_update b e c u d = Inr (x, d')"
  then show "wf_db d'" using insert_code_InrD [OF run]
    by (simp add: wf_db_def user_ids_def codes_ok_insert)
qed

lemma wf_insert_reset [wf_stmts]:
  "cc_code b = Some c0 \<Longrightarrow> keeps_wf (insert_code reset_codes reset_codes_update b e c u)"
proof (rule keeps_wfI)
  fix d x d' assume "cc_code b = Some c0" and "wf_db d"
    and run: "insert_code reset_codes reset_codes_update b e c u d = Inr (x, d')"
  then show "wf_db d'" using insert_code_InrD [OF run]
    by (simp add: wf_db_def user_ids_def codes_ok_insert)
qed

lemma wf_insert_second_factor [wf_stmts]:
  "cc_code b = Some c0 \<Longrightarrow> keeps_wf (insert_second_factor env b target c u)"
proof (rule keeps_wfI)
  fix d x d' assume c0: "cc_code b = Some c0" and wf: "wf_db d" and run: "insert_second_factor env b target c u d = Inr (x, d')"
  then obtain d1 where 1: "insert_code second_factor_codes second_factor_codes_update b
      (DefaultExpiresAt env second_factor_lifetime) c u d = Inr (x, d1)"
    and 2: "link_device env (cd_id x) target d1 = Inr d'"
    by (auto simp: insert_second_factor_def bind_sum_Inr)
  have "wf_db d1" using wf c0 insert_code_InrD [OF 1]
    by (simp add: wf_db_def user_ids_def codes_ok_insert)
  with 2 show "wf_db d'"
    by (auto simp: link_device_def wf_db_def user_ids_def devices_ok_column split: option.splits)
qed

lemma wf_delete_code [wf_stmts]:
  "keeps_wf (delete_code activation_codes_update code)" "keeps_wf (delete_code verification_codes_update code)"
  "keeps_wf (ResetCode_DeleteOneID i)"
  by (auto simp: kept_def delete_code_def ResetCode_DeleteOneID_def wf_db_def user_ids_def
      codes_ok_delete split: if_splits)

lemma wf_update_settings [wf_stmts]: "keeps_wf (update_settings env night two target notify i now)"
  by (rule keeps_wfI) (auto simp: update_settings_def Let_def wf_db_def user_ids_def set_notify_def
      set_target_def owned_ok_update devices_ok_column split: if_splits option.splits)

lemma wf_other_tables [wf_stmts]:
  "keeps_wf (insert_entrepreneur es i c u)" "keeps_wf (update_entrepreneur es i j now)"
  "keeps_wf (touch_locations now)" "keeps_wf (insert_location lb c u)" "keeps_wf (insert_action ab c u)"
  by (auto simp: kept_def insert_entrepreneur_def update_entrepreneur_def touch_locations_def
      insert_location_def insert_action_def wf_db_def user_ids_def split: if_splits)

section \<open>Properties kept by every statement\<close>

text \<open>
  \<open>db_invariant\<close>: what the statements the repository runs promise about a property of the
  database. Every operation of the repository and of the services then keeps it, in whatever
  order they run and however they end.
\<close>

locale db_invariant =
  fixes P :: "db \<Rightarrow> bool" and env :: "'r env"
  assumes kept_users:
      "UserCreate_check ub = None \<Longrightarrow> kept P (insert_user ub c u)" "kept P (update_user env uu i now)"
    and kept_owned: "kept P (insert_settings sb c u)" "kept P (insert_details db c u)"
      "kept P (insert_device vb seen c u)" "kept P (update_details f l i now)"
      "kept P (update_settings env night two target notify i now)"
    and kept_codes:
      "cc_code cb = Some c0 \<Longrightarrow> kept P (insert_code activation_codes activation_codes_update cb e c u)"
      "cc_code cb = Some c0 \<Longrightarrow> kept P (insert_code reset_codes reset_codes_update cb e c u)"
      "cc_code cb = Some c0 \<Longrightarrow> kept P (insert_second_factor env cb tg c u)"
      "kept P (delete_code activation_codes_update code)" "kept P (delete_code verification_codes_update code)"
      "kept P (ResetCode_DeleteOneID i)"
    and kept_others: "kept P (insert_entrepreneur es i c u)" "kept P (update_entrepreneur es i j now)"
      "kept P (touch_locations now)" "kept P (insert_location lb c u)" "kept P (insert_action ab c u)"

lemma on_create_keeps: "(\<And>c u. keeps (holds P) (k c u)) \<Longrightarrow> keeps (holds P) (on_create env k)"
  unfolding on_create_def by (intro holds.intros)

lemma on_update_keeps: "(\<And>now. keeps (holds P) (k now)) \<Longrightarrow> keeps (holds P) (on_update env k)"
  unfolding on_update_def by (intro holds.intros)

lemma required_code: "first_error (required ''code'' (cc_code b) # es) = None \<Longrightarrow> \<exists>c. cc_code b = Some c"
  by (cases "cc_code b") (auto simp: required_def)

context db_invariant
begin

lemmas kept_stmts = kept_users kept_owned kept_codes kept_others

lemma calls: "kept P stmt \<Longrightarrow> keeps (holds P) (db_call env stmt)"
  by (auto simp: keeps_def holds_def db_call_def kept_def Let_def split: sum.splits)

lemma saving: "(chk = None \<Longrightarrow> kept P stmt) \<Longrightarrow> keeps (holds P) (save env chk stmt)"
  by (cases chk) (auto simp: save_def intro!: calls holds.intros)

lemma saves:
  "keeps (holds P) (UserCreate_Save env ub)" "keeps (holds P) (UserUpdateOne_Save env uu i)"
  "keeps (holds P) (UserSettingsCreate_Save env sb)" "keeps (holds P) (UserDetailsCreate_Save env db)"
  "keeps (holds P) (UserDeviceCreate_Save env vb)" "keeps (holds P) (ActivationCodeCreate_Save env cb)"
  "keeps (holds P) (ResetCodeCreate_Save env cb)" "keeps (holds P) (SecondFactorCodeCreate_Save env cb tg)"
  unfolding UserCreate_Save_def UserUpdateOne_Save_def UserSettingsCreate_Save_def
    UserDetailsCreate_Save_def UserDeviceCreate_Save_def ActivationCodeCreate_Save_def
    ResetCodeCreate_Save_def SecondFactorCodeCreate_Save_def ActivationCodeCreate_check_def
    ResetCodeCreate_check_def SecondFactorCodeCreate_check_def
  by (auto intro!: on_create_keeps on_update_keeps saving holds.intros
      dest!: required_code intro: kept_stmts)

end

interpretation integrity: db_invariant wf_db env for env
  by unfold_locales (auto intro: wf_stmts)

text \<open>Nothing the service does creates a verification code.\<close>

definition no_verification_codes :: "db \<Rightarrow> bool" where
  "no_verification_codes d \<longleftrightarrow> rows (verification_codes d) = []"

lemma verification_untouched:
  "insert_user ub c u d = Inr (x1, d') \<Longrightarrow> verification_codes d' = verification_codes d"
  "update_user env uu i now d = Inr (x1, d') \<Longrightarrow> verification_codes d' = verification_codes d"
  "update_settings env night two target notify i now d = Inr (x2, d') \<Longrightarrow> verification_codes d' = verification_codes d"
  "insert_second_factor env cb tg c u d = Inr (x3, d') \<Longrightarrow> verification_codes d' = verification_codes d"
  by (auto simp: insert_user_def update_user_def update_user_row_def bind_sum_Inr node_of_def change_roles_def
      clear_second_factor_code_def update_settings_def Let_def set_notify_def set_target_def
      insert_second_factor_def insert_code_def link_device_def split: if_splits option.splits)

interpretation no_codes: db_invariant no_verification_codes env for env
  by unfold_locales
    (auto simp: kept_def no_verification_codes_def verification_untouched insert_settings_def insert_details_def
      insert_device_def update_details_def insert_code_def delete_code_def ResetCode_DeleteOneID_def
      insert_entrepreneur_def update_entrepreneur_def touch_locations_def insert_location_def
      insert_action_def delete_where_def Let_def split: if_splits)

end
