(* ===== verification/Repository_Facts.thy ===== *)
theory Repository_Facts imports Users_Repository Store_Invariant begin

text \<open>
  What the operations of the repository keep and change: every one of them preserves the
  integrity of the database, none of them puts a message on the bus, the lookups change no
  row, and the statements that activate, verify, remove or re-key an account have exactly the
  effect their name says.
\<close>

section \<open>Shared rules\<close>

lemma same_db_holds: "keeps same_db m \<Longrightarrow> keeps (holds P) m"
  by (auto simp: keeps_def same_db_def holds_def)

lemma same_all_holds: "keeps same_all m \<Longrightarrow> keeps (holds P) m"
  by (auto simp: keeps_def same_all_def holds_def)

lemma keeps_case_prod: "(\<And>a b. keeps R (f a b)) \<Longrightarrow> keeps R (case p of (a, b) \<Rightarrow> f a b)"
  by (cases p) simp

lemma keeps_Let: "(\<And>x. keeps R (f x)) \<Longrightarrow> keeps R (Let a f)"
  by (simp add: Let_def)

lemma InvalidateCache_holds: "keeps (holds P) (InvalidateCache env p)"
  by (rule same_db_holds [OF InvalidateCache_same_db])

lemma UpdateCache_holds: "keeps (holds P) (UpdateCache env u)"
  by (rule same_db_holds [OF UpdateCache_frames(1)])

lemma unique_code_holds: "keeps (holds P) (unique_code env tbl)" "keeps (holds P) (unique_code_strict env tbl)"
  by (rule same_all_holds, rule unique_code_same_all unique_code_strict_same_all)+

section \<open>Properties of the database\<close>

context db_invariant
begin

lemmas rules = holds.intros keeps_case_prod keeps_Let saves InvalidateCache_holds
  UpdateCache_holds unique_code_holds on_create_keeps on_update_keeps saving calls kept_codes
  kept_owned kept_others

lemma creating:
  "keeps (holds P) (CreateUser env req h)" "keeps (holds P) (CreateSecondFactorCode env u v)"
  "keeps (holds P) (CreateResetCode env u)"
  unfolding CreateUser_def CreateSecondFactorCode_def CreateResetCode_def by (intro rules)+

lemma using_up:
  "keeps (holds P) (ActivateAccount env c)" "keeps (holds P) (VerifyAccount env c)"
  "keeps (holds P) (RemoveResetCode env u)" "keeps (holds P) (RemoveSecondFactorCode env u)"
  unfolding ActivateAccount_def VerifyAccount_def RemoveResetCode_def RemoveSecondFactorCode_def
  by (intro rules)+

lemma updating:
  "keeps (holds P) (UpdateUsersPassword env u h)" "keeps (holds P) (UpdateUser env u uq)"
  "keeps (holds P) (UpdateUsersDetails env u dq)" "keeps (holds P) (UpdateUsersSettings env u sq)"
  "keeps (holds P) (RemoveAccount env u)" "keeps (holds P) (FindOrCreateDevice env i dr)"
  unfolding UpdateUsersPassword_def UpdateUser_def reject_if_exists_def UpdateUsersDetails_def
    UpdateUsersSettings_def RemoveAccount_def FindOrCreateDevice_def
  by (intro rules)+

lemma describing:
  "keeps (holds P) (UpdateEntrepreneurDetails env u eq)" "keeps (holds P) (UpdateLocation env u lq)"
  "keeps (holds P) (AddSubscriptions env u ids)" "keeps (holds P) (RemoveSubscriptions env u ids)"
  "keeps (holds P) (CreateUserAction env u a dev det)" "keeps (holds P) (AddRole env i r)"
  "keeps (holds P) (RevokeRole env i r)"
  unfolding UpdateEntrepreneurDetails_def UpdateLocation_def AddSubscriptions_def
    RemoveSubscriptions_def CreateUserAction_def AddRole_def RevokeRole_def
  by (intro rules)+

end

section \<open>Lookups change nothing\<close>

lemma lookups_same_db:
  "keeps same_db (GetUserByID env i)" "keeps same_db (GetUserFunctionalDetailsByID env i)"
  "keeps same_db (GetUserFunctionalByID env i)" "keeps same_db (GetUserPublicByID env i)"
  "keeps same_db (GetUserByMail env m)" "keeps same_db (GetUserByMailWithCodes env m)"
  "keeps same_db (GetUserBySecondFactor env c)" "keeps same_db (GetUserByVerificationCode env c)"
  "keeps same_db (GetUserByResetCode env c)" "keeps same_db (GetUserByPhone env m)"
  "keeps same_db (GetUsersPublic env pg sz)"
  unfolding GetUserByID_def GetUserFunctionalDetailsByID_def GetUserFunctionalByID_def
    GetUserPublicByID_def GetUserByMail_def GetUserByMailWithCodes_def GetUserBySecondFactor_def
    GetUserByVerificationCode_def GetUserByResetCode_def GetUserByPhone_def GetUsersPublic_def
  by (intro same_db.intros keeps_Let UpdateCache_frames store_frames)+

lemmas lookups_hold = lookups_same_db [THEN same_db_holds]

section \<open>The bus\<close>

lemma db_call_same_bus: "keeps same_bus (db_call env stmt)"
  by (auto simp: keeps_def same_bus_def db_call_def Let_def split: sum.splits)

lemma save_same_bus: "keeps same_bus (save env chk stmt)"
  by (cases chk) (auto simp: save_def intro!: db_call_same_bus same_bus.intros)

lemma hooks_same_bus:
  "(\<And>c u. keeps same_bus (k c u)) \<Longrightarrow> keeps same_bus (on_create env k)"
  "(\<And>now. keeps same_bus (k' now)) \<Longrightarrow> keeps same_bus (on_update env k')"
  unfolding on_create_def on_update_def by (intro same_bus.intros | assumption)+

lemma saves_same_bus:
  "keeps same_bus (UserCreate_Save env ub)" "keeps same_bus (UserUpdateOne_Save env uu i)"
  "keeps same_bus (UserSettingsCreate_Save env sb)" "keeps same_bus (UserDetailsCreate_Save env db)"
  "keeps same_bus (UserDeviceCreate_Save env vb)" "keeps same_bus (ActivationCodeCreate_Save env cb)"
  "keeps same_bus (ResetCodeCreate_Save env cb)" "keeps same_bus (SecondFactorCodeCreate_Save env cb tg)"
  unfolding UserCreate_Save_def UserUpdateOne_Save_def UserSettingsCreate_Save_def
    UserDetailsCreate_Save_def UserDeviceCreate_Save_def ActivationCodeCreate_Save_def
    ResetCodeCreate_Save_def SecondFactorCodeCreate_Save_def
  by (intro hooks_same_bus save_same_bus same_bus.intros)+

lemmas bus_rules = same_bus.intros keeps_case_prod keeps_Let saves_same_bus hooks_same_bus
  save_same_bus db_call_same_bus InvalidateCache_same_bus UpdateCache_frames(2) store_frames
  unique_code_same_all [THEN same_all_same_bus] unique_code_strict_same_all [THEN same_all_same_bus]

lemma writes_same_bus:
  "keeps same_bus (CreateUser env req h)" "keeps same_bus (CreateSecondFactorCode env u v)"
  "keeps same_bus (CreateResetCode env u)" "keeps same_bus (ActivateAccount env c)"
  "keeps same_bus (VerifyAccount env c)" "keeps same_bus (RemoveResetCode env u)"
  "keeps same_bus (RemoveSecondFactorCode env u)" "keeps same_bus (UpdateUsersPassword env u h)"
  "keeps same_bus (RemoveAccount env u)" "keeps same_bus (FindOrCreateDevice env i dr)"
  unfolding CreateUser_def CreateSecondFactorCode_def CreateResetCode_def ActivateAccount_def
    VerifyAccount_def RemoveResetCode_def RemoveSecondFactorCode_def UpdateUsersPassword_def
    RemoveAccount_def FindOrCreateDevice_def
  by (intro bus_rules)+

lemma lookups_same_bus:
  "keeps same_bus (GetUserByMail env m)" "keeps same_bus (GetUserByMailWithCodes env m)"
  "keeps same_bus (GetUserBySecondFactor env c)" "keeps same_bus (GetUserByResetCode env c)"
  unfolding GetUserByMail_def GetUserByMailWithCodes_def GetUserBySecondFactor_def GetUserByResetCode_def
  by (intro bus_rules)+

section \<open>The effect of an update of one account\<close>

text \<open>An update that touches neither roles nor the second-factor code.\<close>

definition plain_update :: "user_update \<Rightarrow> bool" where
  "plain_update b \<longleftrightarrow> uu_add_roles b = [] \<and> uu_remove_roles b = [] \<and> \<not> uu_clear_second_factor b"

lemma UserUpdateOne_OkE:
  assumes "UserUpdateOne_Save env b i w = (Ok x, w')" and "plain_update b"
  obtains now where
    "dbase w' = users_update (update_where (\<lambda>u. u_id u = i) (apply_user_update b now)) (dbase w)"
    and "\<exists>r\<in>set (rows (users (dbase w))). u_id r = i" and "u_id x = i"
    and "\<not> exists_where (users_clash b i) (users (dbase w))"
  using assms unfolding UserUpdateOne_Save_def
  by (auto elim!: ok_elims simp: update_user_def bind_sum_Inr update_user_row_def change_roles_def
      plain_update_def node_of_def exists_where_iff Let_def split: if_splits option.splits
      dest!: find_Some_mem)

lemma UserUpdateOne_run:
  assumes "db_fault env (tick w + 1) = False" and "plain_update b" and "UserUpdateOne_check b = None"
    and "r \<in> set (rows (users (dbase w)))" and "\<not> exists_where (users_clash b (u_id r)) (users (dbase w))"
  obtains x where "UserUpdateOne_Save env b (u_id r) w = (Ok x, w\<lparr>tick := tick w + 2,
      dbase := users_update (update_where (\<lambda>u. u_id u = u_id r) (apply_user_update b (now_at env (tick w)))) (dbase w)\<rparr>)"
proof -
  let ?d = "users_update (update_where (\<lambda>u. u_id u = u_id r) (apply_user_update b (now_at env (tick w)))) (dbase w)"
  have row: "update_user_row b (u_id r) (now_at env (tick w)) (dbase w) = Inr ?d"
    using assms(4,5) by (auto simp: update_user_row_def exists_where_iff)
  have "apply_user_update b (now_at env (tick w)) r \<in> set (rows (users ?d))" using assms(4) by auto
  then have "find (\<lambda>u. u_id u = u_id r) (rows (users ?d)) \<noteq> None"
    unfolding find_None_iff using apply_user_update_id by blast
  then obtain x where "find (\<lambda>u. u_id u = u_id r) (rows (users ?d)) = Some x" by blast
  then have "update_user env b (u_id r) (now_at env (tick w)) (dbase w) = Inr (x, ?d)"
    using assms(2) row by (simp add: update_user_def change_roles_def plain_update_def node_of_def)
  then show thesis using that assms(1,3)
    by (simp add: UserUpdateOne_Save_def on_update_def save_def db_call_def)
qed

lemma plain_updates [simp]:
  "plain_update (UpdateOneID\<lparr>uu_active := a\<rparr>)" "plain_update (UpdateOneID\<lparr>uu_verified := v\<rparr>)"
  "plain_update (UpdateOneID\<lparr>uu_removed := r\<rparr>)" "plain_update (UpdateOneID\<lparr>uu_password := p\<rparr>)"
  "plain_update (UpdateOneID\<lparr>uu_subscription_ids := s\<rparr>)" "plain_update (UpdateOneID\<lparr>uu_phone := ph\<rparr>)"
  "plain_update (UpdateOneID\<lparr>uu_mail := m\<rparr>)" "plain_update (UpdateOneID\<lparr>uu_phone := ph, uu_mail := m\<rparr>)"
  "plain_update UpdateOneID"
  by (simp_all add: plain_update_def UpdateOneID_def)

text \<open>What the four updates do to a row.\<close>

lemma apply_updates:
  "apply_user_update (UpdateOneID\<lparr>uu_active := Some a\<rparr>) now u = u\<lparr>u_active := a, u_updated_at := now\<rparr>"
  "apply_user_update (UpdateOneID\<lparr>uu_verified := Some a\<rparr>) now u = u\<lparr>u_verified := a, u_updated_at := now\<rparr>"
  "apply_user_update (UpdateOneID\<lparr>uu_removed := Some a\<rparr>) now u = u\<lparr>u_removed := a, u_updated_at := now\<rparr>"
  "apply_user_update (UpdateOneID\<lparr>uu_password := Some p\<rparr>) now u = u\<lparr>u_password := p, u_updated_at := now\<rparr>"
  "apply_user_update (UpdateOneID\<lparr>uu_subscription_ids := Some s\<rparr>) now u = u\<lparr>u_subscription_ids := s, u_updated_at := now\<rparr>"
  by (simp_all add: apply_user_update_def UpdateOneID_def or_keep_def)

text \<open>A transaction that fails leaves the database; invalidating the cache does not reach it.\<close>

lemma InvalidateCache_dbase: "InvalidateCache env p w = (r, w') \<Longrightarrow> dbase w' = dbase w"
  using keepsD [OF InvalidateCache_same_db] by (auto simp: same_db_def)

lemma UpdateUsersPassword_effect:
  assumes "UpdateUsersPassword env u h w = (r, w')"
  shows "dbase w' = dbase w \<or> (\<exists>now. dbase w' = users_update (update_where (\<lambda>x. u_id x = uid u)
      (\<lambda>x. x\<lparr>u_password := h, u_updated_at := now\<rparr>)) (dbase w))"
proof -
  let ?t = "WithTransaction env (or_fail ''failed to update user''
       (UserUpdateOne_Save env (UpdateOneID\<lparr>uu_password := Some h\<rparr>) (uid u)))"
  obtain r1 w1 where 1: "?t w = (r1, w1)" by fastforce
  show ?thesis
  proof (cases r1)
    case (Ok x)
    with 1 obtain now where "dbase w1 = users_update (update_where (\<lambda>x. u_id x = uid u)
        (\<lambda>x. x\<lparr>u_password := h, u_updated_at := now\<rparr>)) (dbase w)"
      by (auto elim!: WithTransaction_OkE or_fail_OkE UserUpdateOne_OkE simp: apply_updates [abs_def])
    moreover obtain r2 w2 where 2: "InvalidateCache env (Some u) w1 = (Ok r2, w2)" "dbase w2 = dbase w1"
      by (rule InvalidateCache_run)
    ultimately show ?thesis using assms 1 Ok by (simp add: UpdateUsersPassword_def) blast
  qed (use 1 assms WithTransaction_not_Ok [OF 1] in \<open>auto simp: UpdateUsersPassword_def\<close>)
qed

end
