(* ===== verification/Auth_Tokens.thy ===== *)
theory Auth_Tokens imports Auth_Service Repository_Facts begin

text \<open>
  Password hashes and tokens: what \<open>HashPassword\<close> and \<open>CompareHashes\<close> promise together, which
  tokens \<open>ValidateJWT\<close> accepts, and that the tokens the service issues are never among them.
\<close>

section \<open>Passwords\<close>

definition argon_law :: "'r env \<Rightarrow> bool" where
  "argon_law env \<longleftrightarrow> (\<forall>pw salt t m p n. length (argon2_id env pw salt t m p n) = n)"

lemma scan_own_params: "scan_params ''m=131072,t=3,p=4'' = Some (131072, 3, 4)"
  by (simp add: scan_params_def scan_literal_def scan_number_def has_prefix_def is_blank_def
      is_digit_char_def digits_value_def digit_val_def)

lemma dollar_not_encoded: "CHR ''$'' \<notin> set (encode_string pad s)"
  using encode_string_chars [of "CHR ''$''" pad s] by auto

lemma split_stored_hash:
  "split_on CHR ''$'' (hash_prefix @ encode_string False salt @ ''$'' @ encode_string False h) =
   ['''', ''argon2id'', ''v=19'', ''m=131072,t=3,p=4'', encode_string False salt, encode_string False h]"
  using split_on_append [of "CHR ''$''" "encode_string False salt" "encode_string False h"]
  by (simp add: hash_prefix_def dollar_not_encoded split_on_no_sep)

definition stored_hash :: "'r env \<Rightarrow> auth_service \<Rightarrow> string \<Rightarrow> string \<Rightarrow> string" where
  "stored_hash env svc salt password = hash_prefix @ encode_string False salt @ ''$'' @
     encode_string False (argon2_id env (hmac_sha256 env (HashingPepper svc) password) salt 3 131072 4 32)"

lemma HashPassword_OkE [ok_elims]:
  assumes "HashPassword env svc p w = (Ok h, w')"
  obtains salt where "rand_read env (tick w) 16 = Some salt" and "w' = w\<lparr>tick := tick w + 1\<rparr>"
    and "h = stored_hash env svc salt p"
  using assms unfolding HashPassword_def stored_hash_def by (auto elim!: ok_elims simp: Let_def)

lemma HashPassword_same_all [keeps_intros]: "keeps same_all (HashPassword env svc p)"
  unfolding HashPassword_def by (intro same_all.intros keeps_Let)

lemma CompareHashes_stored:
  "argon_law env \<Longrightarrow> CompareHashes env svc (stored_hash env svc salt password) other = None \<longleftrightarrow>
     argon2_id env (hmac_sha256 env (HashingPepper svc) other) salt 3 131072 4 32 =
     argon2_id env (hmac_sha256 env (HashingPepper svc) password) salt 3 131072 4 32"
  unfolding stored_hash_def CompareHashes_def split_stored_hash
  by (auto simp: scan_own_params argon_law_def Let_def)

text \<open>C6: hashing and comparing agree. Whatever \<open>HashPassword\<close> returns is accepted by
  \<open>CompareHashes\<close> for a password exactly when its keyed Argon2id value under the stored salt and
  the stored parameters is that of the hashed password; the password itself is always accepted.
  The check goes through the stored string: its six parts, its parameters and its two Base64
  fields are read back.\<close>

theorem hash_and_compare:
  assumes "argon_law env" and "HashPassword env svc password w = (Ok stored, w')"
  shows "CompareHashes env svc stored password = None \<and>
    (\<exists>salt. rand_read env (tick w) 16 = Some salt \<and>
      (\<forall>other. CompareHashes env svc stored other = None \<longleftrightarrow>
        argon2_id env (hmac_sha256 env (HashingPepper svc) other) salt 3 131072 4 32 =
        argon2_id env (hmac_sha256 env (HashingPepper svc) password) salt 3 131072 4 32))"
  using assms by (auto elim!: HashPassword_OkE simp: CompareHashes_stored)

lemma sample_argon: "argon_law sample_env"
  by (simp add: argon_law_def sample_env_def min_def)

theorem hash_and_compare_witness:
  "\<exists>stored w'. HashPassword sample_env NewAuthService ''Secret12345!'' (fresh_world empty_db) = (Ok stored, w') \<and>
     CompareHashes sample_env NewAuthService stored ''Secret12345!'' = None"
proof -
  obtain stored w' where run:
    "HashPassword sample_env NewAuthService ''Secret12345!'' (fresh_world empty_db) = (Ok stored, w')"
    by (simp add: HashPassword_def read_random_def sample_env_def andthen_def Let_def)
  with hash_and_compare [OF sample_argon run] show ?thesis by blast
qed

section \<open>Tokens\<close>

text \<open>What is relied on of the JWT library and the clock: parsing a signed token gives its
  claims or an error, a numeric date is not later than its time, the clock does not go back.\<close>

definition jwt_law :: "'r env \<Rightarrow> bool" where
  "jwt_law env \<longleftrightarrow> (\<forall>t s c c'. jwt_sign env c = Inr s \<longrightarrow> jwt_parse env t s = Inr c' \<longrightarrow> c' = c)"

definition clock_law :: "'r env \<Rightarrow> bool" where
  "clock_law env \<longleftrightarrow> (\<forall>m n. m \<le> n \<longrightarrow> now_at env m \<le> now_at env n) \<and> (\<forall>t. numeric_date env t \<le> t)"

definition token_claims :: "'r env \<Rightarrow> auth_service \<Rightarrow> int \<Rightarrow> int \<Rightarrow> role_info list \<Rightarrow> nat \<Rightarrow> claims" where
  "token_claims env svc i v rs t = \<lparr>cl_user_id = i, cl_device_id = v, cl_user_roles = rs,
     cl_expires_at = Some (numeric_date env (now_at env t + TokenDuration svc)),
     cl_issued_at = Some (numeric_date env (now_at env (t + 1)))\<rparr>"

lemma GenerateJWT_OkE [ok_elims]:
  assumes "GenerateJWT env svc i v rs w = (Ok token, w')"
  obtains "jwt_sign env (token_claims env svc i v rs (tick w)) = Inr token"
    and "w' = w\<lparr>tick := tick w + 3\<rparr>"
proof -
  from assms have "jwt_sign env (token_claims env svc i v rs (tick w)) = Inr token \<and>
      w' = w\<lparr>tick := tick w + 3\<rparr>"
    unfolding GenerateJWT_def
    by (auto elim!: ok_elims simp: Let_def token_claims_def split: if_splits)
  with that show thesis by blast
qed

lemma ValidateJWT_Ok_iff:
  "fst (ValidateJWT env token w) = Ok c \<longleftrightarrow>
     \<not> ctx_done env (tick w) \<and> jwt_parse env (now_at env (tick w + 1)) token = Inr c \<and>
     cl_device_id c \<noteq> 0 \<and>
     (case cl_expires_at c of None \<Rightarrow> True | Some e \<Rightarrow> unix (now_at env (tick w + 2)) < unix e)"
  by (cases "jwt_parse env (now_at env (tick w + 1)) token")
    (auto simp: ValidateJWT_def andthen_def fail_if_def split: option.splits)


lemma ValidateJWT_same_all [keeps_intros]: "keeps same_all (ValidateJWT env token)"
  unfolding ValidateJWT_def by (intro same_all.intros)

lemma ValidateJWT_not_panic: "\<exists>r. fst (ValidateJWT env token w) = r \<and> r \<noteq> Panic \<and> r \<noteq> Hang"
  by (cases "jwt_parse env (now_at env (tick w + 1)) token")
    (auto simp: ValidateJWT_def andthen_def fail_if_def split: option.splits)

lemma GenerateJWT_expired:
  assumes "jwt_law env" and "clock_law env"
    and "GenerateJWT env NewAuthService userID deviceID userRoles w = (Ok token, w1)"
    and "tick w1 \<le> tick w2"
  shows "\<exists>e w3. ValidateJWT env token w2 = (Err e, w3)"
proof (rule ccontr)
  assume no_err: "\<not> ?thesis"
  obtain r w3 where run: "ValidateJWT env token w2 = (r, w3)" by fastforce
  with no_err ValidateJWT_not_panic [of env token w2] obtain c where c: "fst (ValidateJWT env token w2) = Ok c"
    by (cases r) auto
  from assms(3) have sign: "jwt_sign env (token_claims env NewAuthService userID deviceID userRoles (tick w)) = Inr token"
    and w1: "w1 = w\<lparr>tick := tick w + 3\<rparr>" by (auto elim: GenerateJWT_OkE)
  from c have parse: "jwt_parse env (now_at env (tick w2 + 1)) token = Inr c"
    and live: "case cl_expires_at c of None \<Rightarrow> True | Some e \<Rightarrow> unix (now_at env (tick w2 + 2)) < unix e"
    by (auto simp only: ValidateJWT_Ok_iff)
  have "c = token_claims env NewAuthService userID deviceID userRoles (tick w)"
    using assms(1) sign parse unfolding jwt_law_def by blast
  then have "cl_expires_at c = Some (numeric_date env (now_at env (tick w)))"
    by (simp add: token_claims_def NewAuthService_def)
  moreover have "numeric_date env (now_at env (tick w)) \<le> now_at env (tick w)"
    and "now_at env (tick w) \<le> now_at env (tick w2 + 2)"
    using assms(2,4) by (auto simp: clock_law_def w1)
  then have "unix (numeric_date env (now_at env (tick w))) \<le> unix (now_at env (tick w2 + 2))"
    by (intro unix_mono) linarith
  ultimately show False using live by simp
qed

text \<open>Every token the service issues has already expired: \<open>NewAuthService\<close> leaves the token
  duration at zero, so whenever \<open>ValidateJWT\<close> is called on a token afterwards it returns an
  error.\<close>

theorem issued_tokens_are_expired:
  assumes "jwt_law env" and "clock_law env"
    and "GenerateJWT env NewAuthService userID deviceID userRoles w = (Ok token, w1)"
    and "tick w1 \<le> tick w2"
  shows "\<exists>e w3. ValidateJWT env token w2 = (Err e, w3)"
  using assms by (rule GenerateJWT_expired)

lemma sample_jwt: "jwt_law sample_env"
  by (auto simp: jwt_law_def sample_env_def sample_parse_def sample_codec_laws
      unmarshal_marshal_claims split: if_splits option.splits)

lemma sample_clock: "clock_law sample_env"
  by (simp add: clock_law_def sample_env_def second_def)

theorem issued_tokens_are_expired_witness:
  "\<exists>token w1 e w3. GenerateJWT sample_env NewAuthService 1 2 [] (fresh_world empty_db) = (Ok token, w1) \<and>
     ValidateJWT sample_env token w1 = (Err e, w3)"
proof -
  obtain token w1 where run:
    "GenerateJWT sample_env NewAuthService 1 2 [] (fresh_world empty_db) = (Ok token, w1)"
    by (simp add: GenerateJWT_def andthen_def sample_fields Let_def sized_claims_def int64_def)
  with issued_tokens_are_expired [OF sample_jwt sample_clock run order_refl] show ?thesis by blast
qed

end
