(* ===== verification/Sample_Accounts.thy ===== *)
theory Sample_Accounts imports Auth_Tokens begin

text \<open>
  A database with one active account, for the witnesses: Alice, her settings and details, no
  device yet, and codes that the witnesses add.
\<close>

definition alice_hash :: string where
  "alice_hash = stored_hash sample_env NewAuthService (replicate 16 CHR ''x'') ''Secret12345!''"

definition alice :: user_row where
  "alice = (blank_row 1 ''a@b.co'')\<lparr>u_password := alice_hash\<rparr>"

definition alice_settings :: settings_row where
  "alice_settings = \<lparr>st_id = 1, st_uuid = ''uuid-1'', st_two_factor = False, st_night_mode = False,
     st_created_at = 0, st_updated_at = 0, st_user = 1\<rparr>"

definition alice_details :: details_row where
  "alice_details = \<lparr>dt_id = 1, dt_name = ''Alice'', dt_first_name = None, dt_last_name = None,
     dt_created_at = 0, dt_updated_at = 0, dt_user = 1\<rparr>"

definition sample_db :: db where
  "sample_db = empty_db\<lparr>users := \<lparr>rows = [alice], next_id = 2\<rparr>,
     settings := \<lparr>rows = [alice_settings], next_id = 2\<rparr>,
     details := \<lparr>rows = [alice_details], next_id = 2\<rparr>\<rparr>"

definition sample_device :: device_req where
  "sample_device = \<lparr>DeviceToken = ''device-token'', IPAddress = ''1.2.3.4'', UserAgent = ''agent'',
     OSName = ''os'', OSVersion = ''1'', BrowserName = ''browser'', BrowserVersion = ''2''\<rparr>"

definition alice_login :: login_req where
  "alice_login = \<lparr>lg_mail = ''a@b.co'', lg_password = ''Secret12345!'', lg_device = sample_device\<rparr>"

definition steady_env :: "mem env" where
  "steady_env = sample_env\<lparr>jwt_sign := (\<lambda>c. Inr ''token''), rand_intn := (\<lambda>_. 5)\<rparr>"

lemma alice_fields [simp]:
  "u_id alice = 1" "u_mail alice = ''a@b.co''" "u_password alice = alice_hash" "u_active alice"
  "\<not> u_blacklisted alice" "\<not> u_removed alice" "u_phone alice = None" "u_subscription_ids alice = []"
  by (simp_all add: alice_def blank_row_def)

lemma sample_db_fields [simp]:
  "rows (users sample_db) = [alice]" "rows (settings sample_db) = [alice_settings]"
  "rows (details sample_db) = [alice_details]" "rows (devices sample_db) = []"
  "rows (activation_codes sample_db) = []" "rows (reset_codes sample_db) = []"
  "rows (second_factor_codes sample_db) = []" "rows (verification_codes sample_db) = []"
  "roles sample_db = []" "user_roles sample_db = []"
  by (simp_all add: sample_db_def empty_db_def empty_tab_def)

lemma alice_settings_fields [simp]: "st_user alice_settings = 1" "\<not> st_two_factor alice_settings"
  by (simp_all add: alice_settings_def)

lemma steady_fields [sample_fields]:
  "db_fault steady_env = (\<lambda>_. False)" "ctx_done steady_env = (\<lambda>_. False)"
  "jwt_sign steady_env = (\<lambda>c. Inr ''token'')" "rand_intn steady_env = (\<lambda>_. 5)"
  "rand_read steady_env = rand_read sample_env" "now_at steady_env = now_at sample_env"
  "sg_clear steady_env = sample_clear" "sg_link steady_env = sample_link"
  "redis_get steady_env = mem_get" "redis_set steady_env = mem_set" "redis_del steady_env = mem_del"
  "uuid_new steady_env = (\<lambda>n. ''uuid'')"
  "kafka_fault steady_env = (\<lambda>_. None)" "redis_fault steady_env = (\<lambda>_. None)"
  by (simp_all add: steady_env_def sample_env_def)

lemma steady_laws: "argon_law steady_env" "sg_laws steady_env" "rand_laws steady_env"
  using sample_argon sample_sg sample_rand
  by (simp_all add: steady_env_def argon_law_def sg_laws_def rand_laws_def)

lemma alice_password: "CompareHashes steady_env NewAuthService alice_hash ''Secret12345!'' = None"
proof -
  have eq: "alice_hash = stored_hash steady_env NewAuthService (replicate 16 CHR ''x'') ''Secret12345!''"
    by (simp add: alice_hash_def stored_hash_def steady_env_def)
  show ?thesis unfolding eq using CompareHashes_stored [OF steady_laws(1)] by blast
qed

lemma wf_sample_db: "wf_db sample_db"
  by (simp add: wf_db_def users_ok_def owned_ok_def codes_ok_def devices_ok_def wf_tab_def
      unique_col_def unique_opt_def user_ids_def alice_settings_def alice_details_def
      sample_db_def empty_db_def empty_tab_def)

definition alice_user :: user where
  "alice_user = load_user sample_db (Where (MailEQ ''a@b.co'') (withFunctionalData Query)) alice"

lemma find_alice: "txGetUserByMail ''a@b.co'' sample_db = Inr alice_user"
  by (simp add: txGetUserByMail_def getUserFunctional_def Only_def where_visible MailEQ_def
      alice_user_def)

lemma alice_user_fields [simp]:
  "usr alice_user = alice" "uid alice_user = 1"
  "e_settings alice_user = Some (load_settings sample_db with_owner alice_settings)"
  "se_row (load_settings sample_db with_owner alice_settings) = alice_settings"
  by (simp_all add: alice_user_def load_settings_def)

end
