(* ===== verification/Auth_Login.thy ===== *)
theory Auth_Login imports Sample_Accounts begin

text \<open>
  Login: what a successful login proves, when a login succeeds, and why an account with a second
  factor cannot log in.
\<close>

section \<open>Login\<close>

lemma tx_query_OkE [ok_elims]:
  assumes "WithTransaction env (db_query env q) w = (Ok x, w')"
  obtains "q (dbase w) = Inr x" and "w' = w\<lparr>tick := tick w + 3\<rparr>"
  using assms by (auto elim!: ok_elims)

lemma found_by_mail:
  assumes "txGetUserByMail m d = Inr u"
  shows "usr u \<in> set (rows (users d))" and "u_mail (usr u) = m"
    and "\<not> u_blacklisted (usr u)" and "\<not> u_removed (usr u)"
    and "e_settings u =
      map_option (load_settings d with_owner) (find (\<lambda>r. st_user r = uid u) (rows (settings d)))"
    and "e_reset u = None"
    and "e_roles u = map (load_role d) (filter (\<lambda>r. (uid u, rl_id r) \<in> set (user_roles d)) (roles d))"
proof -
  let ?q = "Where (MailEQ m) (withFunctionalData Query)"
  from assms have only: "Only ?q d = Inr u" by (simp add: txGetUserByMail_def getUserFunctional_def)
  from Only_member [OF only] show "usr u \<in> set (rows (users d))" and "u_mail (usr u) = m"
    and "\<not> u_blacklisted (usr u)" and "\<not> u_removed (usr u)"
    by (auto simp: where_visible MailEQ_def)
  have u: "u = load_user d ?q (usr u)" using Only_InrD(2) [OF only] .
  have "uid u = u_id (usr u)" by (simp add: uid_def)
  then show "e_settings u =
      map_option (load_settings d with_owner) (find (\<lambda>r. st_user r = uid u) (rows (settings d)))"
    and "e_reset u = None"
    and "e_roles u = map (load_role d) (filter (\<lambda>r. (uid u, rl_id r) \<in> set (user_roles d)) (roles d))"
    using arg_cong [OF u, of e_settings] arg_cong [OF u, of e_reset] arg_cong [OF u, of e_roles]
    by simp_all
qed

lemma no_target:
  "e_settings u = map_option (load_settings d with_owner) r \<Longrightarrow> e_settings u = Some s \<Longrightarrow> se_target s = None"
  by (cases r) auto

lemma loaded_settings:
  "e_settings u = map_option (load_settings d l) r \<Longrightarrow> e_settings u = Some s \<Longrightarrow> r = Some (se_row s)"
  by (cases r) (auto simp: load_settings_def)

lemma find_device_InrD:
  assumes "find_device i tok d = Inr v"
  shows "v \<in> set (rows (devices d)) \<and> dv_user v = i \<and> dv_token v = tok"
proof -
  from assms have "filter (\<lambda>v. list_ex (\<lambda>u. u_id u = dv_user v \<and> u_id u = i) (rows (users d)) \<and>
      dv_token v = tok) (rows (devices d)) = [v]"
    by (auto simp: find_device_def split: list.splits)
  from arg_cong [OF this, of set] have "v \<in> set (filter (\<lambda>v. list_ex (\<lambda>u. u_id u = dv_user v \<and> u_id u = i)
      (rows (users d)) \<and> dv_token v = tok) (rows (devices d)))" by simp
  then show ?thesis by (auto simp: list_ex_iff)
qed

lemma UserDeviceCreate_OkE [ok_elims]:
  assumes "UserDeviceCreate_Save env b w = (Ok v, w')"
  obtains "dbase w' = (dbase w)\<lparr>devices := devices (dbase w')\<rparr>" and "v \<in> set (rows (devices (dbase w')))"
    and "Some (dv_token v) = vc_token b" and "dv_user v = hd (vc_owner b)" and "outbox w' = outbox w"
  using assms unfolding UserDeviceCreate_Save_def
  by (auto elim!: ok_elims simp: insert_device_def new_device_row_def UserDeviceCreate_check_def
      required_def split: if_splits option.splits)

lemma FindOrCreateDevice_OkE [ok_elims]:
  assumes "FindOrCreateDevice env i req w = (Ok v, w')"
  obtains "v \<in> set (rows (devices (dbase w')))" and "dv_user v = i" and "dv_token v = DeviceToken req"
    and "dbase w' = (dbase w)\<lparr>devices := devices (dbase w')\<rparr>" and "outbox w' = outbox w"
proof -
  from assms obtain found w2 w1 where
    1: "attempt (db_query env (find_device i (DeviceToken req))) (w\<lparr>tick := tick w + 1\<rparr>) = (Ok found, w1)"
    and 2: "(case found of Inr d \<Rightarrow> ret d
       | Inl e \<Rightarrow> if IsNotFound e then
             andthen (UserDeviceCreate_Save env (device_of req i)) (\<lambda>newDevice.
             andthen (attempt (db_query env (txGetUserPublicByID i))) (\<lambda>usr'.
             andthen (InvalidateCache env (nil_on_err usr')) (\<lambda>_. ret newDevice)))
           else throw e) w1 = (Ok v, w2)"
    and w': "w' = w2\<lparr>tick := tick w2 + 1\<rparr>"
    unfolding FindOrCreateDevice_def by (elim or_fail_OkE WithTransaction_OkE andthen_OkE) auto
  have same: "dbase w1 = dbase w" "outbox w1 = outbox w"
    using arg_cong [OF 1, of snd] by auto
  show thesis
  proof (cases found)
    case (Inr d)
    with 1 2 have "find_device i (DeviceToken req) (dbase w) = Inr v" and "w2 = w1"
      by (auto elim!: ok_elims)
    with that same w' find_device_InrD show thesis by simp
  next
    case (Inl e)
    with 2 obtain w3 r w4 x where 3: "UserDeviceCreate_Save env (device_of req i) w1 = (Ok v, w3)"
      and 4: "attempt (db_query env (txGetUserPublicByID i)) w3 = (Ok r, w4)"
      and 5: "InvalidateCache env (nil_on_err r) w4 = (Ok x, w2)"
      by (auto elim!: andthen_OkE ret_OkE throw_OkE split: if_splits)
    have "dbase w4 = dbase w3" "outbox w4 = outbox w3" using arg_cong [OF 4, of snd] by auto
    moreover have "dbase w2 = dbase w4" "outbox w2 = outbox w4"
      using keepsD [OF InvalidateCache_same_db 5] keepsD [OF InvalidateCache_same_bus 5]
      by (simp_all add: same_db_def same_bus_def)
    ultimately show thesis using 3 that same w'
      by (auto elim!: UserDeviceCreate_OkE simp: device_of_def)
  qed
qed

text \<open>The steps of a successful login.\<close>

lemma Login_OkE:
  assumes "Login env svc req w = (Ok (result, token), w')"
  obtains u s v w1 w2 w3 r where "result = Some u"
    and "txGetUserByMail (lg_mail req) (dbase w) = Inr u" and "w1 = w\<lparr>tick := tick w + 3\<rparr>"
    and "u_active (usr u)" and "CompareHashes env svc (u_password (usr u)) (lg_password req) = None"
    and "FindOrCreateDevice env (uid u) (lg_device req) w1 = (Ok v, w2)"
    and "e_settings u = Some s" and "\<not> st_two_factor (se_row s)"
    and "GenerateJWT env svc (uid u) (dv_id v) (MarshalUserRoles (e_roles u)) w2 = (Ok token, w3)"
    and "attempt (CreateLoginEvent env (Some s) ''password'') w3 = (Ok r, w')"
proof -
  from assms obtain u w1 v w2 s where found: "txGetUserByMail (lg_mail req) (dbase w) = Inr u"
    and w1: "w1 = w\<lparr>tick := tick w + 3\<rparr>" and active: "u_active (usr u)"
    and pw: "CompareHashes env svc (u_password (usr u)) (lg_password req) = None"
    and dev: "FindOrCreateDevice env (uid u) (lg_device req) w1 = (Ok v, w2)"
    and s: "e_settings u = Some s"
    and tail: "(if st_two_factor (se_row s) then
       andthen (or_fail ''failed to create second factor code''
         (CreateSecondFactorCode env u v)) (\<lambda>secondFactor.
       andthen (or_fail ''failed to send second factor code''
         (CreateSecondFactorEvent env (e_settings u) secondFactor)) (\<lambda>_.
       ret (None, ''2fa_required'')))
     else
       andthen (GenerateJWT env svc (uid u) (dv_id v) (MarshalUserRoles (e_roles u))) (\<lambda>token.
       andthen (attempt (CreateLoginEvent env (e_settings u) ''password'')) (\<lambda>_.
       ret (Some u, token)))) w2 = (Ok (result, token), w')"
    unfolding Login_def GetUserByMail_def
    by (elim andthen_OkE fail_if_OkE or_fail_OkE deref_OkE tx_query_OkE) auto
  have "\<not> st_two_factor (se_row s)" using tail s
    by (auto elim!: andthen_OkE or_fail_OkE
        simp: second_factor_event_fails [OF no_target [OF found_by_mail(5) [OF found] s]])
  with tail that found w1 active pw dev s show thesis
    by (auto elim!: andthen_OkE ret_OkE)
qed

text \<open>C1: a successful login proves who logged in. The account is in the database under that mail
  address, it is active, neither blacklisted nor removed, its second factor is off and its
  stored hash accepts the password; the token is the signature over that user's identifier, a
  device row of that user with the requested device token, and the names of exactly that
  user's roles; and the only table that may have changed is that of the devices.\<close>

theorem login_sound:
  assumes "Login env svc req w = (Ok (result, token), w')"
  shows "\<exists>u s v c. result = Some u \<and> usr u \<in> set (rows (users (dbase w))) \<and>
    u_mail (usr u) = lg_mail req \<and> u_active (usr u) \<and> \<not> u_blacklisted (usr u) \<and> \<not> u_removed (usr u) \<and>
    s \<in> set (rows (settings (dbase w))) \<and> st_user s = uid u \<and> \<not> st_two_factor s \<and>
    CompareHashes env svc (u_password (usr u)) (lg_password req) = None \<and>
    v \<in> set (rows (devices (dbase w'))) \<and> dv_user v = uid u \<and> dv_token v = DeviceToken (lg_device req) \<and>
    jwt_sign env c = Inr token \<and> cl_user_id c = uid u \<and> cl_device_id c = dv_id v \<and>
    map ri_name (cl_user_roles c) =
      map rl_name (filter (\<lambda>r. (uid u, rl_id r) \<in> set (user_roles (dbase w))) (roles (dbase w))) \<and>
    dbase w' = (dbase w)\<lparr>devices := devices (dbase w')\<rparr>"
proof -
  from assms obtain u s v w1 w2 w3 r where res: "result = Some u"
    and found: "txGetUserByMail (lg_mail req) (dbase w) = Inr u" and w1: "w1 = w\<lparr>tick := tick w + 3\<rparr>"
    and checks: "u_active (usr u)" "CompareHashes env svc (u_password (usr u)) (lg_password req) = None"
    and dev: "FindOrCreateDevice env (uid u) (lg_device req) w1 = (Ok v, w2)"
    and s: "e_settings u = Some s" and plain: "\<not> st_two_factor (se_row s)"
    and jwt: "GenerateJWT env svc (uid u) (dv_id v) (MarshalUserRoles (e_roles u)) w2 = (Ok token, w3)"
    and ev: "attempt (CreateLoginEvent env (Some s) ''password'') w3 = (Ok r, w')"
    by (rule Login_OkE)
  note u = found_by_mail [OF found]
  let ?c = "token_claims env svc (uid u) (dv_id v) (MarshalUserRoles (e_roles u)) (tick w2)"
  have "dbase w' = dbase w2" and "jwt_sign env ?c = Inr token"
    using jwt keepsD [OF keeps_attempt [OF events_same_db(3)] ev] by (auto simp: same_db_def elim: GenerateJWT_OkE)
  moreover have "v \<in> set (rows (devices (dbase w2)))" "dv_user v = uid u"
      "dv_token v = DeviceToken (lg_device req)" "dbase w2 = (dbase w1)\<lparr>devices := devices (dbase w2)\<rparr>"
    using dev by (auto elim: FindOrCreateDevice_OkE)
  moreover have "se_row s \<in> set (rows (settings (dbase w)))" and "st_user (se_row s) = uid u"
    using find_Some_mem [OF loaded_settings [OF u(5) s]] by simp_all
  moreover have "map rl_name (map re_row (e_roles u)) =
      map rl_name (filter (\<lambda>r. (uid u, rl_id r) \<in> set (user_roles (dbase w))) (roles (dbase w)))"
    by (simp add: u(7) load_role_def)
  ultimately show ?thesis using res checks u(1-4) plain w1
    by (intro exI [of _ u] exI [of _ "se_row s"] exI [of _ v] exI [of _ ?c]) (auto simp: token_claims_def)
qed

section \<open>When a login succeeds\<close>

definition no_faults :: "'r env \<Rightarrow> bool" where
  "no_faults env \<longleftrightarrow> (\<forall>k. \<not> db_fault env k \<and> \<not> ctx_done env k)"

lemma db_call_run: "no_faults env \<Longrightarrow> f (dbase w) = Inr (x, d) \<Longrightarrow>
    db_call env f w = (Ok x, w\<lparr>tick := tick w + 1, dbase := d\<rparr>)"
  by (simp add: db_call_def no_faults_def Let_def)

lemma tx_run: "no_faults env \<Longrightarrow> fn (w\<lparr>tick := tick w + 1\<rparr>) = (Ok x, w1) \<Longrightarrow>
    WithTransaction env fn w = (Ok x, w1\<lparr>tick := tick w1 + 1\<rparr>)"
  by (simp add: WithTransaction_run no_faults_def)

lemma query_run: "no_faults env \<Longrightarrow> q (dbase w) = Inr x \<Longrightarrow>
    db_query env q w = (Ok x, w\<lparr>tick := tick w + 1\<rparr>)"
  by (simp add: db_query_run no_faults_def)

lemma query_run_Inl: "no_faults env \<Longrightarrow> q (dbase w) = Inl e \<Longrightarrow>
    db_query env q w = (Err e, w\<lparr>tick := tick w + 1\<rparr>)"
  by (simp add: db_query_run_Inl no_faults_def)

lemma public_user_exists:
  assumes "users_ok (users d)" and "r \<in> set (rows (users d))" and "\<not> u_blacklisted r" and "\<not> u_removed r"
  shows "txGetUserPublicByID (u_id r) d =
    Inr (load_user d (Where (RemovedEQ False) (Where (BlacklistedEQ False) (Where (IDEQ (u_id r)) Query))) r)"
  unfolding txGetUserPublicByID_def
proof (rule Only_found, rule filter_unique [where col = u_id])
  show "unique_col u_id (users d)" using assms(1) by (simp add: users_ok_def wf_tab_def unique_col_def)
qed (use assms in \<open>simp_all add: query_defs\<close>)

lemma find_device_cases:
  assumes "length (filter (\<lambda>v. dv_user v = i \<and> dv_token v = tok) (rows (devices d))) \<le> 1"
  shows "(\<exists>v. find_device i tok d = Inr v) \<or> find_device i tok d = Inl (ENotFound ''user_device'')"
proof -
  let ?p = "\<lambda>v. list_ex (\<lambda>u. u_id u = dv_user v \<and> u_id u = i) (rows (users d)) \<and> dv_token v = tok"
  let ?own = "filter (\<lambda>v. dv_user v = i \<and> dv_token v = tok) (rows (devices d))"
  have "filter ?p (rows (devices d)) = filter ?p ?own"
    by (auto simp: list_ex_iff intro!: filter_cong)
  moreover have "length (filter ?p ?own) \<le> 1" using assms length_filter_le [of ?p ?own] by linarith
  ultimately have "length (filter ?p (rows (devices d))) \<le> 1" by simp
  then show ?thesis by (auto simp: find_device_def split: list.splits)
qed

lemma FindOrCreateDevice_run:
  assumes ok: "no_faults env" and wf: "users_ok (users (dbase w))" and r: "r \<in> set (rows (users (dbase w)))"
    "\<not> u_blacklisted r" "\<not> u_removed r" and tok: "DeviceToken req \<noteq> []"
    and one: "length (filter (\<lambda>v. dv_user v = u_id r \<and> dv_token v = DeviceToken req)
      (rows (devices (dbase w)))) \<le> 1"
  shows "\<exists>v w'. FindOrCreateDevice env (u_id r) req w = (Ok v, w')"
proof (cases "\<exists>v. find_device (u_id r) (DeviceToken req) (dbase w) = Inr v")
  case True
  then show ?thesis using ok by (auto simp: FindOrCreateDevice_def tx_run query_run)
next
  case False
  then have none: "find_device (u_id r) (DeviceToken req) (dbase w) = Inl (ENotFound ''user_device'')"
    using find_device_cases [OF one] by blast
  let ?w = "w\<lparr>tick := tick w + 2\<rparr>"
  let ?mk = "new_device_row (device_of req (u_id r)) (now_at env (tick w + 4)) (now_at env (tick w + 2)) (now_at env (tick w + 3))"
  let ?d = "devices_update (\<lambda>t. snd (insert_row ?mk t)) (dbase w)"
  have "insert_device (device_of req (u_id r)) (now_at env (tick w + 4)) (now_at env (tick w + 2))
      (now_at env (tick w + 3)) (dbase w) = Inr (fst (insert_row ?mk (devices (dbase w))), ?d)"
    using r(1) by (auto simp: insert_device_def device_of_def exists_where_iff)
  then have create: "UserDeviceCreate_Save env (device_of req (u_id r)) ?w =
      (Ok (fst (insert_row ?mk (devices (dbase w)))), w\<lparr>tick := tick w + 6, dbase := ?d\<rparr>)"
    using ok tok by (simp add: UserDeviceCreate_Save_def on_create_def save_def db_call_run
        UserDeviceCreate_check_def device_of_def required_def required_edge_def valid_def NotEmpty_def
        numeral_eq_Suc)
  have "txGetUserPublicByID (u_id r) ?d = Inr (load_user ?d (Where (RemovedEQ False)
      (Where (BlacklistedEQ False) (Where (IDEQ (u_id r)) Query))) r)"
    using wf r by (intro public_user_exists) auto
  then obtain u' where pub: "db_query env (txGetUserPublicByID (u_id r)) (w\<lparr>tick := tick w + 6, dbase := ?d\<rparr>) =
      (Ok u', w\<lparr>tick := tick w + 7, dbase := ?d\<rparr>)" using ok by (simp add: query_run)
  obtain x w2 where inv: "InvalidateCache env (Some u') (w\<lparr>tick := tick w + 7, dbase := ?d\<rparr>) = (Ok x, w2)"
    by (rule InvalidateCache_run)
  show ?thesis using ok none create pub inv
    by (simp add: FindOrCreateDevice_def tx_run query_run_Inl IsNotFound_def)
qed

lemma GenerateJWT_run:
  "no_faults env \<Longrightarrow> jwt_sign env (token_claims env svc i v rs (tick w)) = Inr t \<Longrightarrow>
   GenerateJWT env svc i v rs w = (Ok t, w\<lparr>tick := tick w + 3\<rparr>)"
  by (simp add: GenerateJWT_def andthen_def no_faults_def Let_def token_claims_def numeral_3_eq_3)

lemma login_event_total: "\<exists>r w'. attempt (CreateLoginEvent env (Some s) m) w = (Ok r, w')"
proof -
  obtain r w' where run: "CreateLoginEvent env (Some s) m w = (r, w')" by fastforce
  with login_event_ok [OF run] show ?thesis by auto
qed

lemma Login_run:
  assumes ok: "no_faults env" and sign: "\<And>c. \<exists>t. jwt_sign env c = Inr t" and wf: "wf_db (dbase w)"
    and found: "txGetUserByMail (lg_mail req) (dbase w) = Inr u" and active: "u_active (usr u)"
    and pw: "CompareHashes env svc (u_password (usr u)) (lg_password req) = None"
    and s: "e_settings u = Some s" and plain: "\<not> st_two_factor (se_row s)"
    and tok: "DeviceToken (lg_device req) \<noteq> []"
    and one: "length (filter (\<lambda>v. dv_user v = uid u \<and> dv_token v = DeviceToken (lg_device req))
      (rows (devices (dbase w)))) \<le> 1"
  shows "\<exists>token w'. Login env svc req w = (Ok (Some u, token), w')"
proof -
  note u = found_by_mail [OF found]
  have "GetUserByMail env (lg_mail req) w = (Ok u, w\<lparr>tick := tick w + 3\<rparr>)"
    using ok found by (simp add: GetUserByMail_def tx_run query_run)
  moreover obtain v w2 where "FindOrCreateDevice env (uid u) (lg_device req) (w\<lparr>tick := tick w + 3\<rparr>) = (Ok v, w2)"
    using FindOrCreateDevice_run [OF ok, of "w\<lparr>tick := tick w + 3\<rparr>" "usr u" "lg_device req"] wf u tok one
    by (auto simp: wf_db_def uid_def)
  moreover obtain t where "GenerateJWT env svc (uid u) (dv_id v) (MarshalUserRoles (e_roles u)) w2 =
      (Ok t, w2\<lparr>tick := tick w2 + 3\<rparr>)" using ok sign GenerateJWT_run by metis
  moreover obtain r w' where "attempt (CreateLoginEvent env (Some s) ''password'') (w2\<lparr>tick := tick w2 + 3\<rparr>) = (Ok r, w')"
    using login_event_total by blast
  ultimately show ?thesis using u(3) active pw s plain by (simp add: Login_def)
qed

text \<open>C2: an active account logs in. When the database and the caller's context do not fail and a
  token can be signed, an active account that the mail lookup finds, whose second factor is off
  and whose stored hash accepts the password, gets its user and a token, whether its device is
  already known or not (as long as no two rows have the same user and token).\<close>

theorem login_complete:
  assumes "no_faults env" and "\<And>c. \<exists>t. jwt_sign env c = Inr t" and "wf_db (dbase w)"
    and "txGetUserByMail (lg_mail req) (dbase w) = Inr u" and "u_active (usr u)"
    and "CompareHashes env svc (u_password (usr u)) (lg_password req) = None"
    and "e_settings u = Some s" and "\<not> st_two_factor (se_row s)"
    and "DeviceToken (lg_device req) \<noteq> []"
    and "length (filter (\<lambda>v. dv_user v = uid u \<and> dv_token v = DeviceToken (lg_device req))
      (rows (devices (dbase w)))) \<le> 1"
  shows "\<exists>token w'. Login env svc req w = (Ok (Some u, token), w')"
  using assms by (rule Login_run)

lemma steady_no_faults: "no_faults steady_env"
  by (simp add: no_faults_def sample_fields)

lemma alice_login_fields:
  "txGetUserByMail (lg_mail alice_login) (dbase (fresh_world sample_db)) = Inr alice_user"
  "wf_db (dbase (fresh_world sample_db))" "lg_password alice_login = ''Secret12345!''"
  "lg_device alice_login = sample_device" "DeviceToken sample_device \<noteq> []"
  by (simp_all add: alice_login_def find_alice sample_fields wf_sample_db sample_device_def)

theorem login_complete_witness:
  "\<exists>token w'. Login steady_env NewAuthService alice_login (fresh_world sample_db) = (Ok (Some alice_user, token), w')"
  by (rule login_complete [OF steady_no_faults _ alice_login_fields(2,1) _ _ alice_user_fields(3)])
    (simp_all add: alice_login_fields alice_password alice_user_fields sample_fields)

lemma alice_logs_in:
  "\<exists>token w'. Login steady_env NewAuthService alice_login (fresh_world sample_db) = (Ok (Some alice_user, token), w')"
  by (rule Login_run [OF steady_no_faults _ alice_login_fields(2,1) _ _ alice_user_fields(3)])
    (simp_all add: alice_login_fields alice_password alice_user_fields sample_fields)

theorem login_sound_witness:
  "\<exists>token w' v. Login steady_env NewAuthService alice_login (fresh_world sample_db) = (Ok (Some alice_user, token), w') \<and>
     v \<in> set (rows (devices (dbase w'))) \<and> dv_token v = ''device-token''"
proof -
  obtain token w' where run: "Login steady_env NewAuthService alice_login (fresh_world sample_db) =
      (Ok (Some alice_user, token), w')" using alice_logs_in by blast
  with login_sound [OF run] show ?thesis by (auto simp: alice_login_def sample_device_def)
qed

section \<open>The second factor\<close>

lemma andthen_deref_Some: "andthen (deref (Some s)) f = f s"
  by (rule ext) simp

text \<open>An account that asks for a second factor cannot log in. The queries never load the target
  device of the settings, so the message with the code is never sent: whatever the password and
  the device, the login does not succeed and nothing is put on the bus.\<close>

theorem second_factor_login_fails:
  assumes "txGetUserByMail (lg_mail req) (dbase w) = Inr u" and "e_settings u = Some s"
    and "st_two_factor (se_row s)" and "Login env svc req w = (r, w')"
  shows "(\<forall>x. r \<noteq> Ok x) \<and> outbox w' = outbox w"
proof -
  have not_ok: "\<forall>x. r \<noteq> Ok x"
  proof (intro allI notI)
    fix x assume "r = Ok x"
    with assms(4) have "Login env svc req w = (Ok (fst x, snd x), w')" by simp
    then show False by (rule Login_OkE) (use assms(1-3) in simp)
  qed
  obtain r1 w1 where 1: "GetUserByMail env (lg_mail req) w = (r1, w1)" by fastforce
  then have bus1: "outbox w1 = outbox w"
    using keepsD [OF lookups_same_bus(1)] by (auto simp: same_bus_def)
  have event: "CreateSecondFactorEvent env (Some s) c = throw (EMsg ''2fa target device not loaded'')" for c
    by (rule ext) (simp add: second_factor_event_fails [OF no_target [OF found_by_mail(5) [OF assms(1)] assms(2)]])
  let ?rest = "andthen (fail_if (u_blacklisted (usr u)) ''account is blacklisted'') (\<lambda>_.
     andthen (fail_if (\<not> u_active (usr u)) ''account is not activated'') (\<lambda>_.
     andthen (fail_if (CompareHashes env svc (u_password (usr u)) (lg_password req) \<noteq> None)
       ''provided wrong password'') (\<lambda>_.
     andthen (or_fail ''failed to handle user device'' (FindOrCreateDevice env (uid u) (lg_device req))) (\<lambda>device.
     andthen (or_fail ''failed to create second factor code'' (CreateSecondFactorCode env u device)) (\<lambda>secondFactor.
     andthen (or_fail ''failed to send second factor code'' (throw (EMsg ''2fa target device not loaded''))) (\<lambda>_ :: unit.
     ret (None :: user option, ''2fa_required'')))))))"
  have "outbox w' = outbox w1" if "r1 = Ok u"
  proof -
    have "Login env svc req w = ?rest w1"
      using 1 that by (simp add: Login_def assms(2,3) event andthen_deref_Some)
    then have "?rest w1 = (r, w')" using assms(4) by simp
    moreover have "keeps same_bus ?rest" by (intro bus_rules writes_same_bus)
    ultimately have "same_bus w1 w'" by (rule keepsD [rotated])
    then show ?thesis by (simp add: same_bus_def)
  qed
  moreover have "w' = w1" if "r1 \<noteq> Ok u"
    using 1 that assms(1,4) by (cases r1) (auto simp: Login_def GetUserByMail_def elim!: tx_query_OkE)
  ultimately show ?thesis using not_ok bus1 by auto
qed

definition guarded_db :: db where
  "guarded_db = settings_update (update_where (\<lambda>s. st_id s = 1) (\<lambda>s. s\<lparr>st_two_factor := True\<rparr>)) sample_db"

theorem second_factor_login_fails_witness:
  "\<exists>r w'. Login steady_env NewAuthService alice_login (fresh_world guarded_db) = (r, w') \<and> (\<forall>x. r \<noteq> Ok x)"
proof -
  let ?u = "load_user guarded_db (Where (MailEQ ''a@b.co'') (withFunctionalData Query)) alice"
  let ?s = "load_settings guarded_db with_owner (alice_settings\<lparr>st_two_factor := True\<rparr>)"
  have "txGetUserByMail (lg_mail alice_login) (dbase (fresh_world guarded_db)) = Inr ?u"
    by (simp add: txGetUserByMail_def getUserFunctional_def Only_def where_visible MailEQ_def
        alice_login_def sample_fields guarded_db_def)
  moreover have "e_settings ?u = Some ?s"
    by (simp add: guarded_db_def alice_settings_def)
  moreover have "st_two_factor (se_row ?s)" by (simp add: load_settings_def)
  ultimately show ?thesis
    using second_factor_login_fails by (metis surj_pair)
qed

end
