(* ===== verification/Auth_Codes.thy ===== *)
theory Auth_Codes imports Auth_Login begin

text \<open>
  Registration, activation, second-factor verification and password reset: what they leave in
  the database, and which of them cannot succeed because an edge they read is never loaded.
\<close>

section \<open>The effect of the creating statements\<close>

lemma UserCreate_OkE [ok_elims]:
  assumes "UserCreate_Save env b w = (Ok x, w')"
  obtains c u where "x = new_user_row b c u (next_id (users (dbase w)))"
    and "dbase w' = users_update (\<lambda>t. snd (insert_row (new_user_row b c u) t)) (dbase w)"
    and "\<forall>r\<in>set (rows (users (dbase w))). Some (u_mail r) \<noteq> uc_mail b \<and> Some (u_password r) \<noteq> uc_password b"
  using assms unfolding UserCreate_Save_def
  by (auto elim!: ok_elims simp: insert_user_def exists_where_iff split: if_splits)

lemma UserSettingsCreate_OkE [ok_elims]:
  assumes "UserSettingsCreate_Save env b w = (Ok x, w')"
  obtains c u where
    "dbase w' = settings_update (\<lambda>t. snd (insert_row (new_settings_row b c u) t)) (dbase w)"
  using assms unfolding UserSettingsCreate_Save_def
  by (auto elim!: ok_elims simp: insert_settings_def split: if_splits)

lemma UserDetailsCreate_OkE [ok_elims]:
  assumes "UserDetailsCreate_Save env b w = (Ok x, w')"
  obtains c u where
    "dbase w' = details_update (\<lambda>t. snd (insert_row (new_details_row b c u) t)) (dbase w)"
  using assms unfolding UserDetailsCreate_Save_def
  by (auto elim!: ok_elims simp: insert_details_def split: if_splits)

lemma ActivationCodeCreate_OkE [ok_elims]:
  assumes "ActivationCodeCreate_Save env b w = (Ok x, w')"
  obtains c u where "x = new_code_row b (DefaultExpiresAt env activation_lifetime) c u (next_id (activation_codes (dbase w)))"
    and "dbase w' = activation_codes_update (\<lambda>t. snd (insert_row
      (new_code_row b (DefaultExpiresAt env activation_lifetime) c u) t)) (dbase w)"
    and "\<forall>r\<in>set (rows (activation_codes (dbase w))). Some (cd_code r) \<noteq> cc_code b"
  using assms unfolding ActivationCodeCreate_Save_def
  by (auto elim!: ok_elims simp: insert_code_def exists_where_iff split: if_splits)

text \<open>The database a registration leaves.\<close>

definition registered :: "db \<Rightarrow> register_req \<Rightarrow> string \<Rightarrow> string \<Rightarrow> user_row \<Rightarrow> db \<Rightarrow> bool" where
  "registered d req hash code r d' \<longleftrightarrow>
     rows (users d') = rows (users d) @ [r] \<and> u_mail r = rg_mail req \<and> u_password r = hash \<and>
     \<not> u_active r \<and> \<not> u_verified r \<and> \<not> u_blacklisted r \<and> \<not> u_removed r \<and> u_phone r = None \<and>
     (\<exists>s. rows (settings d') = rows (settings d) @ [s] \<and> st_user s = u_id r \<and> \<not> st_two_factor s) \<and>
     (\<exists>t. rows (details d') = rows (details d) @ [t] \<and> dt_user t = u_id r \<and> dt_name t = rg_name req) \<and>
     (\<exists>v. rows (devices d') = rows (devices d) @ [v] \<and> dv_user v = u_id r \<and>
        dv_token v = DeviceToken (rg_device req)) \<and>
     (\<exists>c. rows (activation_codes d') = rows (activation_codes d) @ [c] \<and> cd_user c = u_id r \<and>
        cd_code c = code)"

lemma new_row_fields [simp]:
  "u_id (new_user_row b c u i) = i" "u_mail (new_user_row b c u i) = the (uc_mail b)"
  "u_password (new_user_row b c u i) = the (uc_password b)" "\<not> u_active (new_user_row b c u i)"
  "\<not> u_verified (new_user_row b c u i)" "\<not> u_blacklisted (new_user_row b c u i)"
  "\<not> u_removed (new_user_row b c u i)" "u_phone (new_user_row b c u i) = None"
  "st_user (new_settings_row sb c u i) = hd (sc_owner sb)" "\<not> st_two_factor (new_settings_row sb c u i)"
  "dt_user (new_details_row tb c u i) = hd (dc_owner tb)" "dt_name (new_details_row tb c u i) = the (dc_name tb)"
  "cd_user (new_code_row cb e c u i) = hd (cc_owner cb)" "cd_code (new_code_row cb e c u i) = the (cc_code cb)"
  by (simp_all add: new_user_row_def new_settings_row_def new_details_row_def new_code_row_def)

lemma UserDeviceCreate_OkE' [elim]:
  assumes "UserDeviceCreate_Save env b w = (Ok v, w')"
  obtains v' where "dbase w' = (dbase w)\<lparr>devices := devices (dbase w')\<rparr>"
    and "rows (devices (dbase w')) = rows (devices (dbase w)) @ [v']" and "Some (dv_token v') = vc_token b"
    and "dv_user v' = hd (vc_owner b)"
  using assms unfolding UserDeviceCreate_Save_def
  by (auto elim!: ok_elims simp: insert_device_def new_device_row_def UserDeviceCreate_check_def
      required_def split: if_splits option.splits)

lemma CreateUser_steps:
  assumes run: "CreateUser env req h w = (Ok (u, ac), w')"
  obtains r0 w1 uuid w2 sr w3 dr w4 vr w5 code w6 w7 where
      "UserCreate_Save env \<lparr>uc_mail = Some (rg_mail req), uc_password = Some h\<rparr> (w\<lparr>tick := tick w + 1\<rparr>) = (Ok r0, w1)"
    and "new_uuid env w1 = (Ok uuid, w2)"
    and "UserSettingsCreate_Save env \<lparr>sc_uuid = Some uuid, sc_owner = [u_id r0]\<rparr> w2 = (Ok sr, w3)"
    and "UserDetailsCreate_Save env \<lparr>dc_name = Some (rg_name req), dc_owner = [u_id r0]\<rparr> w3 = (Ok dr, w4)"
    and "UserDeviceCreate_Save env (device_of (rg_device req) (u_id r0)) w4 = (Ok vr, w5)"
    and "unique_code env activation_codes w5 = (Ok code, w6)"
    and "ActivationCodeCreate_Save env \<lparr>cc_code = Some code, cc_owner = [u_id r0]\<rparr> w6 = (Ok ac, w7)"
    and "getUserWithCodes (IDEQ (u_id r0)) (dbase w7) = Inr u" and "dbase w' = dbase w7"
proof -
  from run obtain r0 w1 uuid w2 sr w3 dr w4 vr w5 code w6 w7 re w8 where steps:
      "UserCreate_Save env \<lparr>uc_mail = Some (rg_mail req), uc_password = Some h\<rparr> (w\<lparr>tick := tick w + 1\<rparr>) = (Ok r0, w1)"
      "new_uuid env w1 = (Ok uuid, w2)"
      "UserSettingsCreate_Save env \<lparr>sc_uuid = Some uuid, sc_owner = [u_id r0]\<rparr> w2 = (Ok sr, w3)"
      "UserDetailsCreate_Save env \<lparr>dc_name = Some (rg_name req), dc_owner = [u_id r0]\<rparr> w3 = (Ok dr, w4)"
      "UserDeviceCreate_Save env (device_of (rg_device req) (u_id r0)) w4 = (Ok vr, w5)"
      "unique_code env activation_codes w5 = (Ok code, w6)"
      "ActivationCodeCreate_Save env \<lparr>cc_code = Some code, cc_owner = [u_id r0]\<rparr> w6 = (Ok ac, w7)"
    and re: "attempt (db_query env (getUserWithCodes (IDEQ (u_id r0)))) w7 = (Ok re, w8)"
      "nil_on_err re = Some u" "w' = w8\<lparr>tick := tick w8 + 1\<rparr>"
    unfolding CreateUser_def
    by (auto elim!: andthen_OkE or_fail_OkE WithTransaction_OkE ret_OkE deref_OkE split: prod.splits)
  have "dbase w' = dbase w7" using arg_cong [OF re(1), of snd] re(3) by auto
  moreover have "getUserWithCodes (IDEQ (u_id r0)) (dbase w7) = Inr u"
    using re(1,2) by (auto elim!: attempt_OkE db_query_OkE)
  ultimately show thesis using steps that by blast
qed

lemma found_new_user:
  assumes "getUserWithCodes (IDEQ (next_id t)) d = Inr u" and "wf_tab u_id t"
    and "rows (users d) = rows t @ [r]"
  shows "usr u = r"
proof -
  from assms(1) have "usr u \<in> set (rows (users d))" and "u_id (usr u) = next_id t"
    using Only_member [of "Where (IDEQ (next_id t)) (withCodes Query)" d u]
    by (auto simp: getUserWithCodes_def where_visible IDEQ_def)
  then show ?thesis using assms(2,3) by (auto simp: wf_tab_def)
qed

lemma CreateUser_OkE:
  assumes run: "CreateUser env req h w = (Ok (u, ac), w')" and wf: "wf_db (dbase w)"
  obtains k where "registered (dbase w) req h (code_at env k) (usr u) (dbase w')"
    and "\<forall>r\<in>set (rows (users (dbase w))). u_mail r \<noteq> rg_mail req"
    and "\<forall>r\<in>set (rows (activation_codes (dbase w))). cd_code r \<noteq> code_at env k"
    and "cd_code ac = code_at env k"
  using run
proof (rule CreateUser_steps)
  fix r0 w1 uuid w2 sr w3 dr w4 vr w5 code w6 w7
  let ?b = "\<lparr>uc_mail = Some (rg_mail req), uc_password = Some h\<rparr>"
  assume 1: "UserCreate_Save env ?b (w\<lparr>tick := tick w + 1\<rparr>) = (Ok r0, w1)"
    and 2: "new_uuid env w1 = (Ok uuid, w2)"
    and 3: "UserSettingsCreate_Save env \<lparr>sc_uuid = Some uuid, sc_owner = [u_id r0]\<rparr> w2 = (Ok sr, w3)"
    and 4: "UserDetailsCreate_Save env \<lparr>dc_name = Some (rg_name req), dc_owner = [u_id r0]\<rparr> w3 = (Ok dr, w4)"
    and 5: "UserDeviceCreate_Save env (device_of (rg_device req) (u_id r0)) w4 = (Ok vr, w5)"
    and 6: "unique_code env activation_codes w5 = (Ok code, w6)"
    and 7: "ActivationCodeCreate_Save env \<lparr>cc_code = Some code, cc_owner = [u_id r0]\<rparr> w6 = (Ok ac, w7)"
    and found: "getUserWithCodes (IDEQ (u_id r0)) (dbase w7) = Inr u" and d': "dbase w' = dbase w7"
  from 1 obtain c1 u1 where r0: "r0 = new_user_row ?b c1 u1 (next_id (users (dbase w)))"
    and d1: "dbase w1 = users_update (\<lambda>t. snd (insert_row (new_user_row ?b c1 u1) t)) (dbase w)"
    and fresh: "\<forall>r\<in>set (rows (users (dbase w))). u_mail r \<noteq> rg_mail req"
    by (auto elim!: UserCreate_OkE)
  from 3 2 obtain c3 u3 where d3: "dbase w3 = settings_update (\<lambda>t. snd (insert_row
      (new_settings_row \<lparr>sc_uuid = Some uuid, sc_owner = [u_id r0]\<rparr> c3 u3) t)) (dbase w1)"
    by (auto elim!: UserSettingsCreate_OkE new_uuid_OkE)
  from 4 obtain c4 u4 where d4: "dbase w4 = details_update (\<lambda>t. snd (insert_row
      (new_details_row \<lparr>dc_name = Some (rg_name req), dc_owner = [u_id r0]\<rparr> c4 u4) t)) (dbase w3)"
    by (auto elim!: UserDetailsCreate_OkE)
  from 5 obtain v tab where d5: "dbase w5 = (dbase w4)\<lparr>devices := tab\<rparr>"
      "rows tab = rows (devices (dbase w4)) @ [v]" "dv_token v = DeviceToken (rg_device req)" "dv_user v = u_id r0"
    by (auto elim!: UserDeviceCreate_OkE' simp: device_of_def)
  from 6 obtain k where k: "code = code_at env k" "dbase w6 = dbase w5" by (auto elim!: unique_code_OkE)
  from 7 obtain e c7 u7 where ac: "cd_code ac = code"
    and d7: "dbase w7 = activation_codes_update (\<lambda>t. snd (insert_row (new_code_row
      \<lparr>cc_code = Some code, cc_owner = [u_id r0]\<rparr> e c7 u7) t)) (dbase w6)"
    and new: "\<forall>r\<in>set (rows (activation_codes (dbase w6))). cd_code r \<noteq> code"
    by (auto elim!: ActivationCodeCreate_OkE)
  note chain = d' d7 k(2) d5(1) d4 d3 d1
  have users: "rows (users (dbase w7)) = rows (users (dbase w)) @ [r0]" by (simp add: chain r0)
  have "usr u = r0"
    using found_new_user [of "users (dbase w)" "dbase w7" u r0] found users wf
    by (simp add: r0 wf_db_def users_ok_def)
  then have "registered (dbase w) req h code (usr u) (dbase w')"
    by (simp add: registered_def chain r0 d5(2-4))
  with that k fresh new ac show thesis by (simp add: chain)
qed


definition carol_request :: register_req where
  "carol_request = \<lparr>rg_name = ''Carol'', rg_mail = ''c@d.co'', rg_password = ''Secret2!'',
     rg_device = sample_device\<rparr>"

lemma empty_db_fields [simp]:
  "users empty_db = empty_tab" "settings empty_db = empty_tab" "details empty_db = empty_tab"
  "devices empty_db = empty_tab" "activation_codes empty_db = empty_tab"
  "rows empty_tab = []" "next_id empty_tab = 1" "Only q empty_db = Inl (ENotFound ''user'')"
  by (simp_all add: empty_db_def empty_tab_def Only_def)

lemma code_at_nonempty [simp]: "code_at env k \<noteq> []"
  by (simp add: code_at_def itoa_def)

lemmas run_defs = andthen_def attempt_def or_fail_def map_err_def deref_def Let_def
  WithTransaction_def rolled_back_def db_query_def db_call_def read_random_def
  on_create_def on_update_def save_def required_def required_edge_def valid_def NotEmpty_def

lemmas create_defs = UserCreate_Save_def UserCreate_check_def insert_user_def exists_where_def
  UserSettingsCreate_Save_def UserSettingsCreate_check_def insert_settings_def
  UserDetailsCreate_Save_def UserDetailsCreate_check_def insert_details_def
  UserDeviceCreate_Save_def UserDeviceCreate_check_def insert_device_def device_of_def
  unique_code_def draw_lenient_step taken_def ActivationCodeCreate_Save_def
  ActivationCodeCreate_check_def insert_code_def

lemma carol_registers:
  "\<exists>u w'. Register steady_env NewAuthService carol_request (fresh_world empty_db) = (Ok u, w')"
  by (simp add: Register_def GetUserByMail_def run_defs txGetUserByMail_def getUserFunctional_def
        sample_fields HashPassword_def,
      simp add: CreateUser_def run_defs sample_fields create_defs carol_request_def hash_prefix_def
        sample_device_def getUserWithCodes_def Only_def where_visible IDEQ_def,
      simp add: CreateRegistrationEvent_def run_defs new_base_def createAndProduceEvent_def Produce_def
        kafka_Produce_def sample_fields load_settings_def with_owner_def split: option.splits)


section \<open>Activation\<close>

lemma found_by_activation_code:
  assumes "txGetUserByActivationCode code d = Inr u"
  shows "usr u \<in> set (rows (users d))" and "\<not> u_blacklisted (usr u)" and "\<not> u_removed (usr u)"
    and "\<exists>c\<in>set (rows (activation_codes d)). cd_code c = code \<and> cd_user c = uid u"
  using Only_member [of "Where (has_code activation_codes code) (withSettings Query)" d u] assms
  by (auto simp: txGetUserByActivationCode_def getUserWithSettings_def where_visible has_code_def
      list_ex_iff uid_def)

lemma ActivateAccount_OkE:
  assumes "ActivateAccount env code w = (Ok u, w')"
  obtains f now where "txGetUserByActivationCode code (dbase w) = Inr f"
    and "dbase w' = activation_codes_update (delete_where (\<lambda>c. cd_code c = code))
      (users_update (update_where (\<lambda>x. u_id x = uid f) (\<lambda>x. x\<lparr>u_active := True, u_updated_at := now\<rparr>)) (dbase w))"
    and "getUserWithSettings (IDEQ (uid f)) (dbase w') = Inr u"
proof -
  from assms obtain f w2 x w3 y w4 r where 1: "txGetUserByActivationCode code (dbase w) = Inr f"
    and 2: "UserUpdateOne_Save env (UpdateOneID\<lparr>uu_active := Some True\<rparr>) (uid f) (w\<lparr>tick := tick w + 2\<rparr>) = (Ok x, w2)"
    and 3: "db_call env (delete_code activation_codes_update code) w2 = (Ok y, w3)"
    and 4: "getUserWithSettings (IDEQ (uid f)) (dbase w3) = Inr u"
    and 5: "InvalidateCache env (Some u) (w3\<lparr>tick := tick w3 + 2\<rparr>) = (Ok r, w')"
    unfolding ActivateAccount_def
    by (auto elim!: andthen_OkE or_fail_OkE WithTransaction_OkE db_query_OkE ret_OkE)
  from 2 obtain now where "dbase w2 = users_update (update_where (\<lambda>x. u_id x = uid f)
      (\<lambda>x. x\<lparr>u_active := True, u_updated_at := now\<rparr>)) (dbase w)"
    by (auto elim!: UserUpdateOne_OkE simp: apply_updates [abs_def])
  with 3 have "dbase w3 = activation_codes_update (delete_where (\<lambda>c. cd_code c = code))
      (users_update (update_where (\<lambda>x. u_id x = uid f) (\<lambda>x. x\<lparr>u_active := True, u_updated_at := now\<rparr>)) (dbase w))"
    by (auto elim!: db_call_OkE simp: delete_code_def)
  with InvalidateCache_dbase [OF 5] 4 show thesis by (intro that [OF 1]) simp_all
qed

text \<open>C5: activating an account uses up its code. The code belonged to an account that is neither
  blacklisted nor removed; afterwards that account, and no other, has been made active, no row
  holds the code any more, nothing else in the database has changed, and in any later run on
  that database the same code is refused.\<close>

theorem activation_effect:
  assumes "Service_ActivateAccount env req w = (Ok u, w')"
  shows "\<exists>r c now. r \<in> set (rows (users (dbase w))) \<and> \<not> u_blacklisted r \<and> \<not> u_removed r \<and>
    c \<in> set (rows (activation_codes (dbase w))) \<and> cd_code c = cq_code req \<and> cd_user c = u_id r \<and>
    u_id (usr u) = u_id r \<and> u_active (usr u) \<and>
    dbase w' = activation_codes_update (delete_where (\<lambda>c. cd_code c = cq_code req))
      (users_update (update_where (\<lambda>x. u_id x = u_id r) (\<lambda>x. x\<lparr>u_active := True, u_updated_at := now\<rparr>)) (dbase w)) \<and>
    (\<forall>w2 x. dbase w2 = dbase w' \<longrightarrow> fst (Service_ActivateAccount env req w2) \<noteq> Ok x)"
proof -
  from assms obtain w1 r1 where 1: "ActivateAccount env (cq_code req) w = (Ok u, w1)"
    and 2: "attempt (CreateUserActionEvent env (e_settings u) ''account.activated'' []) w1 = (Ok r1, w')"
    unfolding Service_ActivateAccount_def by (auto elim!: andthen_OkE or_fail_OkE ret_OkE)
  have same: "dbase w' = dbase w1" using keepsD [OF keeps_attempt [OF events_same_db(6)] 2] by (simp add: same_db_def)
  from 1 obtain f now where f: "txGetUserByActivationCode (cq_code req) (dbase w) = Inr f"
    and d: "dbase w1 = activation_codes_update (delete_where (\<lambda>c. cd_code c = cq_code req))
      (users_update (update_where (\<lambda>x. u_id x = uid f) (\<lambda>x. x\<lparr>u_active := True, u_updated_at := now\<rparr>)) (dbase w))"
    and u: "getUserWithSettings (IDEQ (uid f)) (dbase w1) = Inr u" by (rule ActivateAccount_OkE)
  note facts = found_by_activation_code [OF f]
  have "usr u \<in> set (rows (users (dbase w1)))" and "u_id (usr u) = uid f"
    using u Only_member [of "Where (IDEQ (uid f)) (withSettings Query)" "dbase w1" u]
    by (auto simp: getUserWithSettings_def where_visible IDEQ_def)
  then have "u_active (usr u)" by (auto simp: d split: if_splits)
  moreover have "fst (Service_ActivateAccount env req w2) \<noteq> Ok x" if "dbase w2 = dbase w'" for w2 x
  proof
    assume "fst (Service_ActivateAccount env req w2) = Ok x"
    then obtain w3 where "ActivateAccount env (cq_code req) w2 = (Ok x, w3)"
      by (cases "Service_ActivateAccount env req w2")
        (auto simp: Service_ActivateAccount_def elim!: andthen_OkE or_fail_OkE ret_OkE)
    then obtain f' where "txGetUserByActivationCode (cq_code req) (dbase w2) = Inr f'" by (rule ActivateAccount_OkE)
    from found_by_activation_code(4) [OF this] show False by (auto simp: that same d)
  qed
  ultimately show ?thesis using facts \<open>u_id (usr u) = uid f\<close> d same by (auto simp: uid_def)
qed

definition activation_row :: code_row where
  "activation_row = \<lparr>cd_id = 1, cd_code = ''123456'', cd_used = False, cd_created_at = 0,
     cd_updated_at = 0, cd_expires_at = - 1, cd_user = 1\<rparr>"

definition pending_db :: db where
  "pending_db = users_update (update_where (\<lambda>u. True) (\<lambda>u. u\<lparr>u_active := False\<rparr>))
     (sample_db\<lparr>activation_codes := \<lparr>rows = [activation_row], next_id = 2\<rparr>\<rparr>)"

definition pending_code :: code_req where
  "pending_code = \<lparr>cq_code = ''123456'', cq_device = sample_device\<rparr>"

lemmas update_defs = UserUpdateOne_Save_def UserUpdateOne_check_def UpdateOneID_def update_user_def
  update_user_row_def exists_where_def users_clash_def change_roles_def node_of_def
  apply_user_update_def or_keep_def delete_code_def

lemmas cache_defs = InvalidateCache_def GetAllUserKeys_def CacheStore_Del_def redis_Del_def

lemmas event_defs = new_base_def createAndProduceEvent_def Produce_def kafka_Produce_def
  CreateUserActionEvent_def load_settings_def with_owner_def

lemmas lookup_defs = getUserWithSettings_def getUserFunctional_def Only_def where_visible has_code_def
  IDEQ_def MailEQ_def

lemma alice_activates:
  "\<exists>u w'. Service_ActivateAccount steady_env pending_code (fresh_world pending_db) = (Ok u, w')"
  by (simp add: Service_ActivateAccount_def pending_code_def ActivateAccount_def run_defs sample_fields
      txGetUserByActivationCode_def lookup_defs pending_db_def activation_row_def update_defs
      cache_defs event_defs split: option.splits)

theorem activation_effect_witness:
  "\<exists>u w' x. Service_ActivateAccount steady_env pending_code (fresh_world pending_db) = (Ok u, w') \<and>
     u_active (usr u) \<and> fst (Service_ActivateAccount steady_env pending_code w') \<noteq> Ok x"
proof -
  obtain u w' where run: "Service_ActivateAccount steady_env pending_code (fresh_world pending_db) = (Ok u, w')"
    using alice_activates by blast
  with activation_effect [OF run] show ?thesis by fastforce
qed

end
