(* ===== verification/Auth_Recovery.thy ===== *)
theory Auth_Recovery imports Auth_Codes begin

text \<open>
  Password reset and second-factor verification. The edges these operations read are not loaded
  by the queries they use, so the reset operations never return success, yet the confirmation
  has already changed the password when it fails, and no code is ever used up.
\<close>

section \<open>Password reset\<close>

lemma UpdateCache_dbase: "UpdateCache env u w = (r, w') \<Longrightarrow> dbase w' = dbase w"
  using keepsD [OF UpdateCache_frames(1)] by (auto simp: same_db_def)

lemma found_by_reset_code:
  assumes "txGetUserByResetCode code d = Inr u"
  shows "e_reset u = None" and "\<exists>c\<in>set (rows (reset_codes d)). cd_code c = code \<and> cd_user c = uid u"
    and "\<exists>r\<in>set (rows (users d)). u_id r = uid u \<and> \<not> u_blacklisted r \<and> \<not> u_removed r"
proof -
  let ?q = "Where (has_code reset_codes code) (withSettings Query)"
  from assms have only: "Only ?q d = Inr u" by (simp add: txGetUserByResetCode_def getUserWithSettings_def)
  show "e_reset u = None" using arg_cong [OF Only_InrD(2) [OF only], of e_reset] by simp
  from Only_member [OF only] show
    "\<exists>c\<in>set (rows (reset_codes d)). cd_code c = code \<and> cd_user c = uid u" and
    "\<exists>r\<in>set (rows (users d)). u_id r = uid u \<and> \<not> u_blacklisted r \<and> \<not> u_removed r"
    by (auto simp: where_visible has_code_def list_ex_iff uid_def)
qed

lemma GetUserByResetCode_OkE [ok_elims]:
  assumes "GetUserByResetCode env code w = (Ok u, w')"
  obtains "txGetUserByResetCode code (dbase w) = Inr u" and "dbase w' = dbase w"
  using assms UpdateCache_dbase unfolding GetUserByResetCode_def
  by (fastforce elim!: andthen_OkE tx_query_OkE ret_OkE)

text \<open>The transaction that removes a reset code fails at once when the user has none loaded.\<close>

lemma RemoveResetCode_without:
  assumes "e_reset u = None" and "RemoveResetCode env u w = (r, w')"
  shows "(\<exists>e. r = Err e) \<and> dbase w' = dbase w"
  using assms by (auto simp: RemoveResetCode_def WithTransaction_def Let_def rolled_back_def andthen_def
      split: if_splits)

definition rekeyed :: "'r env \<Rightarrow> auth_service \<Rightarrow> int \<Rightarrow> string \<Rightarrow> db \<Rightarrow> db \<Rightarrow> bool" where
  "rekeyed env svc i password d d' \<longleftrightarrow> (\<exists>hash now. CompareHashes env svc hash password = None \<and>
     d' = users_update (update_where (\<lambda>x. u_id x = i) (\<lambda>x. x\<lparr>u_password := hash, u_updated_at := now\<rparr>)) d)"

text \<open>C37: confirming a password reset never reports success, whatever the code. It either leaves
  the database as it was, or replaces the password of the account that owns the reset code by a
  hash that accepts the new password and then fails; the reset code stays in the database with
  its expiry time unread, so it can be used again.\<close>

theorem confirm_reset_fails:
  assumes "argon_law env" and "ConfirmPasswordReset env svc req w = (r, w')"
  shows "(\<forall>x. r \<noteq> Ok x) \<and> reset_codes (dbase w') = reset_codes (dbase w) \<and>
    (dbase w' = dbase w \<or>
     (\<exists>c\<in>set (rows (reset_codes (dbase w))). cd_code c = cr_code req \<and>
        rekeyed env svc (cd_user c) (cr_password req) (dbase w) (dbase w')))"
proof -
  obtain r1 w1 where 1: "GetUserByResetCode env (cr_code req) w = (r1, w1)" by fastforce
  then have d1: "dbase w1 = dbase w" using keepsD [OF lookups_same_db(9)] by (auto simp: same_db_def)
  show ?thesis
  proof (cases r1)
    case (Ok u)
    with 1 have u: "txGetUserByResetCode (cr_code req) (dbase w) = Inr u" by (auto elim: GetUserByResetCode_OkE)
    obtain r2 w2 where 2: "HashPassword env svc (cr_password req) w1 = (r2, w2)" by fastforce
    then have d2: "dbase w2 = dbase w1" using keepsD [OF HashPassword_same_all 2] by (simp add: same_all_def)
    show ?thesis
    proof (cases r2)
      case hash: (Ok h)
      with 2 have h: "CompareHashes env svc h (cr_password req) = None"
        using assms(1) by (auto elim!: HashPassword_OkE simp: CompareHashes_stored)
      obtain r3 w3 where 3: "UpdateUsersPassword env u h w2 = (r3, w3)" by fastforce
      have d3: "dbase w3 = dbase w \<or> rekeyed env svc (uid u) (cr_password req) (dbase w) (dbase w3)"
        using UpdateUsersPassword_effect [OF 3] h d1 d2 by (auto simp: rekeyed_def)
      have end3: "(\<forall>x. r \<noteq> Ok x) \<and> dbase w' = dbase w3"
      proof (cases r3)
        case upd: (Ok x)
        obtain r4 w4 where 4: "RemoveResetCode env u w3 = (r4, w4)" by fastforce
        with RemoveResetCode_without [OF found_by_reset_code(1) [OF u] 4] upd 1 2 3 Ok hash assms(2)
        show ?thesis by (auto simp: ConfirmPasswordReset_def)
      qed (use 1 2 3 Ok hash assms(2) in \<open>auto simp: ConfirmPasswordReset_def\<close>)
      obtain c where "c \<in> set (rows (reset_codes (dbase w)))" "cd_code c = cr_code req" "cd_user c = uid u"
        using found_by_reset_code(2) [OF u] by blast
      with end3 d3 have "dbase w' = dbase w \<or> (\<exists>c\<in>set (rows (reset_codes (dbase w))). cd_code c = cr_code req \<and>
          rekeyed env svc (cd_user c) (cr_password req) (dbase w) (dbase w'))" by metis
      then show ?thesis using end3 by (auto simp: rekeyed_def)
    qed (use 1 2 Ok d1 d2 assms(2) in \<open>auto simp: ConfirmPasswordReset_def\<close>)
  qed (use 1 d1 assms(2) in \<open>auto simp: ConfirmPasswordReset_def\<close>)
qed

definition reset_row :: code_row where
  "reset_row = \<lparr>cd_id = 1, cd_code = ''654321'', cd_used = False, cd_created_at = 0,
     cd_updated_at = 0, cd_expires_at = - 1, cd_user = 1\<rparr>"

definition reset_db :: db where
  "reset_db = sample_db\<lparr>reset_codes := \<lparr>rows = [reset_row], next_id = 2\<rparr>\<rparr>"

definition reset_request :: confirm_reset_req where
  "reset_request = \<lparr>cr_code = ''654321'', cr_password = ''Changed1!'', cr_device = sample_device\<rparr>"

text \<open>The expired code changes Alice's password.\<close>

theorem confirm_reset_fails_witness:
  "\<exists>r w'. ConfirmPasswordReset steady_env NewAuthService reset_request (fresh_world reset_db) = (r, w') \<and>
     (\<forall>x. r \<noteq> Ok x) \<and> reset_codes (dbase w') = reset_codes reset_db"
proof -
  obtain r w' where run:
    "ConfirmPasswordReset steady_env NewAuthService reset_request (fresh_world reset_db) = (r, w')" by fastforce
  with confirm_reset_fails [OF steady_laws(1) run] show ?thesis by (auto simp: sample_fields)
qed

lemma request_reset_fails: "fst (RequestPasswordReset env req w) \<noteq> Ok x"
proof
  assume "fst (RequestPasswordReset env req w) = Ok x"
  then obtain u w1 c w2 w3 y where "GetUserByMail env (mq_mail req) w = (Ok u, w1)"
    and "CreateResetPasswordEvent env (e_settings u) c w2 = (Ok y, w3)"
    by (cases "RequestPasswordReset env req w")
      (auto simp: RequestPasswordReset_def elim!: andthen_OkE or_fail_OkE)
  then have u: "txGetUserByMail (mq_mail req) (dbase w) = Inr u" by (auto simp: GetUserByMail_def elim!: tx_query_OkE)
  show False
  proof (cases "e_settings u")
    case None
    then show ?thesis using \<open>CreateResetPasswordEvent env (e_settings u) c w2 = (Ok y, w3)\<close>
      by (simp add: CreateResetPasswordEvent_def)
  next
    case (Some s)
    with reset_event_fails [OF no_target [OF found_by_mail(5) [OF u]], of s env c w2]
    show ?thesis using \<open>CreateResetPasswordEvent env (e_settings u) c w2 = (Ok y, w3)\<close> by auto
  qed
qed

text \<open>A password reset cannot be requested or cancelled either, whatever the account and the
  state: \<open>RequestPasswordReset\<close> fails to send the code, because the target device is never loaded,
  and \<open>CancelPasswordReset\<close> fails because the reset code is never loaded.\<close>

theorem reset_never_starts:
  "(\<forall>x. fst (RequestPasswordReset env req w) \<noteq> Ok x) \<and> (\<forall>x. fst (CancelPasswordReset env req w) \<noteq> Ok x)"
proof (intro conjI allI request_reset_fails notI)
  fix x assume "fst (CancelPasswordReset env req w) = Ok x"
  then obtain u w1 y w2 where 1: "GetUserByMail env (mq_mail req) w = (Ok u, w1)"
    and 2: "RemoveResetCode env u w1 = (Ok y, w2)"
    by (cases "CancelPasswordReset env req w")
      (auto simp: CancelPasswordReset_def elim!: andthen_OkE or_fail_OkE)
  then have "txGetUserByMail (mq_mail req) (dbase w) = Inr u" by (auto simp: GetUserByMail_def elim!: tx_query_OkE)
  from RemoveResetCode_without [OF found_by_mail(6) [OF this] 2] show False by simp
qed

section \<open>Second factor\<close>

lemma found_by_second_factor:
  assumes "txGetUserBySecondFactor code d = Inr u"
  shows "usr u \<in> set (rows (users d))" and "\<not> u_blacklisted (usr u)" and "\<not> u_removed (usr u)"
    and "e_second_factor u = map_option (load_second_factor d) (owned (uid u) (second_factor_codes d))"
proof -
  let ?q = "Where (has_code second_factor_codes code) (withFunctionalData Query)"
  from assms have only: "Only ?q d = Inr u" by (simp add: txGetUserBySecondFactor_def getUserFunctional_def)
  from Only_member [OF only] show "usr u \<in> set (rows (users d))" "\<not> u_blacklisted (usr u)" "\<not> u_removed (usr u)"
    by (auto simp: where_visible)
  show "e_second_factor u = map_option (load_second_factor d) (owned (uid u) (second_factor_codes d))"
    using arg_cong [OF Only_InrD(2) [OF only], of e_second_factor] by (simp add: uid_def)
qed

lemma clear_second_factor_fails:
  assumes "sg_laws env" and "c \<in> set (rows (second_factor_codes d))" and "cd_user c = i"
  shows "clear_second_factor_code env i d = Inl (EConstraint ''second_factor_codes'')"
proof -
  have "sg_clear env (owner_column (second_factor_codes d)) i =
      map (\<lambda>kv. if snd kv = Some i then (fst kv, None) else kv) (owner_column (second_factor_codes d))"
    using assms(1) by (simp add: sg_laws_def)
  moreover have mem: "(cd_id c, Some i) \<in> set (owner_column (second_factor_codes d))"
    using assms(2,3) by (auto simp: owner_column_def)
  have "(cd_id c, None) \<in> (\<lambda>kv. if snd kv = Some i then (fst kv, None) else kv) `
      set (owner_column (second_factor_codes d))" by (rule image_eqI [OF _ mem]) simp
  ultimately have "(cd_id c, None) \<in> set (sg_clear env (owner_column (second_factor_codes d)) i)"
    by (simp only: set_map)
  then show ?thesis by (force simp: clear_second_factor_code_def list_ex_iff)
qed

lemma tx_Err:
  assumes "\<And>w1. dbase w1 = dbase w \<Longrightarrow> \<exists>e w2. fn w1 = (Err e, w2)"
  shows "\<exists>e w'. WithTransaction env fn w = (Err e, w') \<and> dbase w' = dbase w"
proof -
  obtain e w2 where "fn (w\<lparr>tick := tick w + 1\<rparr>) = (Err e, w2)" using assms by fastforce
  then show ?thesis by (simp add: WithTransaction_def rolled_back_def Let_def)
qed

lemma RemoveSecondFactorCode_fails:
  assumes "sg_laws env" and "c \<in> set (rows (second_factor_codes (dbase w)))" and "cd_user c = uid u"
    and "RemoveSecondFactorCode env u w = (r, w')"
  shows "(\<exists>e. r = Err e) \<and> dbase w' = dbase w"
proof -
  let ?b = "UpdateOneID\<lparr>uu_clear_second_factor := True\<rparr>"
  have "\<exists>e. update_user env ?b (uid u) now (dbase w) = Inl e" for now
  proof (cases "update_user_row ?b (uid u) now (dbase w)")
    case (Inr d1)
    then have "second_factor_codes d1 = second_factor_codes (dbase w)"
      by (auto simp: update_user_row_def split: if_splits)
    with Inr show ?thesis using clear_second_factor_fails [OF assms(1), of c d1] assms(2,3)
      by (simp add: update_user_def UpdateOneID_def)
  qed (simp add: update_user_def)
  then have save: "\<exists>e w2. UserUpdateOne_Save env ?b (uid u) w1 = (Err e, w2)" if "dbase w1 = dbase w" for w1
    using that by (simp add: UserUpdateOne_Save_def on_update_def save_def db_call_def Let_def
        UserUpdateOne_check_def UpdateOneID_def valid_def) (metis old.sum.simps(5))
  define body :: "('a world, user option) io" where "body = (case e_second_factor u of
         None \<Rightarrow> throw (EMsg ''user has no reset code'')
       | Some c \<Rightarrow> andthen (or_fail ''failed to remove second factor code'' (UserUpdateOne_Save env ?b (uid u))) (\<lambda>_.
           andthen (attempt (db_query env (getUserFunctional (IDEQ (uid u))))) (\<lambda>refetched.
           ret (nil_on_err refetched))))"
  have "\<exists>e w2. body w1 = (Err e, w2)" if w1: "dbase w1 = dbase w" for w1
    using save [OF w1] by (auto simp: body_def split: option.splits)
  then obtain e w2 where "WithTransaction env body w = (Err e, w2)" "dbase w2 = dbase w"
    using tx_Err [of w body env] by blast
  with assms(4) show ?thesis unfolding RemoveSecondFactorCode_def body_def [symmetric] by auto
qed

text \<open>C38: verifying a second factor gives a token but no user. The code is owned by a visible
  account and has not expired, the token is signed for that account and the device the code was
  sent for; but removing the code fails (its owner may not be NULL), so the user returned is
  nil, nothing in the database has changed and the code can be used again.\<close>

theorem second_factor_verification:
  assumes "sg_laws env" and "VerifySecondFactor env svc req w = (Ok (result, token), w')"
  shows "result = None \<and> dbase w' = dbase w \<and>
    (\<exists>u c v. txGetUserBySecondFactor (cq_code req) (dbase w) = Inr u \<and>
       c \<in> set (rows (second_factor_codes (dbase w))) \<and> cd_user c = uid u \<and>
       (\<exists>t. tick w \<le> t \<and> now_at env t \<le> cd_expires_at c) \<and>
       v \<in> set (rows (devices (dbase w))) \<and> dv_second_factor_code v = Some (cd_id c) \<and>
       (\<exists>t'. jwt_sign env (token_claims env svc (uid u) (dv_id v) (MarshalUserRoles (e_roles u)) t') = Inr token))"
proof -
  from assms(2) obtain u w1 c v w2 rm w3 r where
      1: "GetUserBySecondFactor env (cq_code req) w = (Ok u, w1)"
    and c: "e_second_factor u = Some c" and live: "\<not> cd_expires_at (sf_row c) < now_at env (tick w1)"
    and v: "sf_target c = Some v"
    and 2: "GenerateJWT env svc (uid u) (dv_id v) (MarshalUserRoles (e_roles u)) (w1\<lparr>tick := tick w1 + 1\<rparr>) = (Ok token, w2)"
    and 3: "attempt (RemoveSecondFactorCode env u) w2 = (Ok rm, w3)"
    and 4: "attempt (CreateLoginEvent env (e_settings u) ''second-factor'') w3 = (Ok r, w')"
    and res: "result = (case rm of Inl _ \<Rightarrow> None | Inr u \<Rightarrow> u)"
    unfolding VerifySecondFactor_def
    by (auto elim!: andthen_OkE or_fail_OkE deref_OkE time_now_OkE ret_OkE throw_OkE split: if_splits option.splits)
  from 1 have u: "txGetUserBySecondFactor (cq_code req) (dbase w) = Inr u" and w1: "w1 = w\<lparr>tick := tick w + 3\<rparr>"
    by (auto simp: GetUserBySecondFactor_def elim!: tx_query_OkE)
  from 2 have w2: "dbase w2 = dbase w"
    and sign: "jwt_sign env (token_claims env svc (uid u) (dv_id v) (MarshalUserRoles (e_roles u)) (tick w1 + 1)) = Inr token"
    by (auto simp: w1 elim!: GenerateJWT_OkE)
  then have token: "\<exists>t'. jwt_sign env (token_claims env svc (uid u) (dv_id v) (MarshalUserRoles (e_roles u)) t') = Inr token"
    by blast
  obtain row where own: "owned (uid u) (second_factor_codes (dbase w)) = Some row"
    and load: "load_second_factor (dbase w) row = c"
    using found_by_second_factor(4) [OF u] c by (cases "owned (uid u) (second_factor_codes (dbase w))") auto
  have row: "row \<in> set (rows (second_factor_codes (dbase w)))" "cd_user row = uid u" "sf_row c = row"
    using find_Some_mem [OF own [unfolded owned_def]] load by (auto simp: load_second_factor_def)
  have dev: "v \<in> set (rows (devices (dbase w)))" "dv_second_factor_code v = Some (cd_id row)"
    using v load by (auto simp: load_second_factor_def dest: find_Some_mem)
  obtain r3 w3' where rm: "RemoveSecondFactorCode env u w2 = (r3, w3')" by fastforce
  from RemoveSecondFactorCode_fails [OF assms(1) _ row(2) rm] row(1) w2
  have "\<exists>e. r3 = Err e" "dbase w3' = dbase w" by auto
  with rm 3 have "\<exists>e. rm = Inl e" "dbase w3 = dbase w" by auto
  moreover have "dbase w' = dbase w3" using keepsD [OF keeps_attempt [OF events_same_db(3)] 4] by (simp add: same_db_def)
  ultimately have "result = None" "dbase w' = dbase w" using res by auto
  moreover have "\<exists>t. tick w \<le> t \<and> now_at env t \<le> cd_expires_at row"
    using live w1 row(3) by (intro exI [of _ "tick w1"]) auto
  ultimately show ?thesis using u row(1,2) dev token by blast
qed

definition factor_row :: code_row where
  "factor_row = \<lparr>cd_id = 1, cd_code = ''777777'', cd_used = False, cd_created_at = 0,
     cd_updated_at = 0, cd_expires_at = hour, cd_user = 1\<rparr>"

definition factor_device :: device_row where
  "factor_device = (new_device_row (device_of sample_device 1) 0 0 0 1)\<lparr>dv_second_factor_code := Some 1\<rparr>"

definition factor_db :: db where
  "factor_db = sample_db\<lparr>second_factor_codes := \<lparr>rows = [factor_row], next_id = 2\<rparr>,
     devices := \<lparr>rows = [factor_device], next_id = 2\<rparr>\<rparr>"

definition factor_code :: code_req where
  "factor_code = \<lparr>cq_code = ''777777'', cq_device = sample_device\<rparr>"

lemma factor_run:
  "\<exists>result token w'. VerifySecondFactor steady_env NewAuthService factor_code (fresh_world factor_db) =
     (Ok (result, token), w')"
  by (simp add: VerifySecondFactor_def factor_code_def GetUserBySecondFactor_def txGetUserBySecondFactor_def
      run_defs sample_fields lookup_defs factor_db_def factor_row_def factor_device_def owned_def
      load_second_factor_def hour_def minute_def second_def GenerateJWT_def RemoveSecondFactorCode_def update_defs
      clear_second_factor_code_def owner_column_def sample_clear_def CreateLoginEvent_def event_defs split: option.splits)

theorem second_factor_verification_witness:
  "\<exists>token w'. VerifySecondFactor steady_env NewAuthService factor_code (fresh_world factor_db) =
     (Ok (None, token), w') \<and> dbase w' = factor_db"
proof -
  obtain result token w' where run: "VerifySecondFactor steady_env NewAuthService factor_code
      (fresh_world factor_db) = (Ok (result, token), w')" using factor_run by blast
  with second_factor_verification [OF steady_laws(2) run] show ?thesis by (auto simp: sample_fields)
qed

end
