(* ===== verification/Users_Properties.thy ===== *)
theory Users_Properties imports Users_Service Auth_Recovery begin

text \<open>
  The account operations of an authenticated user: which of them can succeed, what the removal
  of an account locks out, what the public listing returns, and what consumed messages do.
\<close>

section \<open>Updates that read the details\<close>

lemma found_functional:
  assumes "txGetUserFunctionalByID i d = Inr u"
  shows "usr u \<in> set (rows (users d))" and "uid u = i" and "\<not> u_blacklisted (usr u)"
    and "\<not> u_removed (usr u)" and "e_details u = None"
    and "e_settings u = map_option (load_settings d with_owner) (find (\<lambda>r. st_user r = i) (rows (settings d)))"
proof -
  let ?q = "Where (IDEQ i) (withFunctionalData Query)"
  from assms have only: "Only ?q d = Inr u" by (simp add: txGetUserFunctionalByID_def getUserFunctional_def)
  from Only_member [OF only] show "usr u \<in> set (rows (users d))" and id: "uid u = i"
    and "\<not> u_blacklisted (usr u)" and "\<not> u_removed (usr u)" by (auto simp: where_visible IDEQ_def uid_def)
  show "e_details u = None" using arg_cong [OF Only_InrD(2) [OF only], of e_details] by simp
  show "e_settings u = map_option (load_settings d with_owner) (find (\<lambda>r. st_user r = i) (rows (settings d)))"
    using arg_cong [OF Only_InrD(2) [OF only], of e_settings] id by (simp add: uid_def)
qed

lemma functional_details_outcome:
  "(\<exists>e w'. GetUserFunctionalDetailsByID env i w = (Err e, w') \<and> dbase w' = dbase w) \<or>
   (\<exists>u w'. GetUserFunctionalDetailsByID env i w = (Ok u, w') \<and> dbase w' = dbase w \<and> e_details u = None)"
proof -
  obtain r w' where run: "GetUserFunctionalDetailsByID env i w = (r, w')" by fastforce
  then have d: "dbase w' = dbase w" using keepsD [OF lookups_same_db(2)] by (auto simp: same_db_def)
  show ?thesis
  proof (cases r)
    case (Ok u)
    with run have "txGetUserFunctionalByID i (dbase w) = Inr u"
      by (auto simp: GetUserFunctionalDetailsByID_def elim!: tx_query_OkE)
    with found_functional(5) run d Ok show ?thesis by auto
  qed (use run d in \<open>auto simp: GetUserFunctionalDetailsByID_def WithTransaction_def db_query_def
      db_call_def Let_def split: if_splits sum.splits\<close>)
qed

text \<open>A transaction whose body panics at once.\<close>

definition stuck :: "('r world, 'a) io \<Rightarrow> bool" where
  "stuck m \<longleftrightarrow> (\<forall>w. (\<forall>x. fst (m w) \<noteq> Ok x) \<and> dbase (snd (m w)) = dbase w)"

lemma stuck_tx: "stuck (andthen (or_fail msg (WithTransaction env (andthen (deref None) k))) f)"
  by (auto simp: stuck_def andthen_def WithTransaction_def Let_def rolled_back_def or_fail_def map_err_def)

lemma stuck_updates:
  assumes "e_details u = None"
  shows "stuck (UpdateUsersDetails env u dq)" and "stuck (UpdateEntrepreneurDetails env u eq)"
    and "stuck (UpdateLocation env u lq)"
  using assms stuck_tx
  by (auto simp: UpdateUsersDetails_def UpdateEntrepreneurDetails_def UpdateLocation_def)

lemma stuck_service_call:
  assumes "\<And>u. e_details u = None \<Longrightarrow> stuck (logic u)"
  shows "stuck (HandleUserServiceCall env i logic)"
  unfolding stuck_def
proof
  fix w
  show "(\<forall>x. fst (HandleUserServiceCall env i logic w) \<noteq> Ok x) \<and>
      dbase (snd (HandleUserServiceCall env i logic w)) = dbase w"
    using functional_details_outcome [of env i w]
  proof (elim disjE exE conjE)
    fix u w1 assume 1: "GetUserFunctionalDetailsByID env i w = (Ok u, w1)" "dbase w1 = dbase w" "e_details u = None"
    obtain r w2 where 2: "logic u w1 = (r, w2)" by fastforce
    with assms [OF 1(3)] have "\<forall>x. r \<noteq> Ok x" and "dbase w2 = dbase w1" by (auto simp: stuck_def) (metis fst_conv, metis snd_conv)
    with 1 2 show ?thesis by (cases r) (auto simp: HandleUserServiceCall_def)
  qed (auto simp: HandleUserServiceCall_def)
qed

text \<open>No user can change the details, the entrepreneur details or the location of an account:
  the service fetches the user with a query that does not load the details and reads through the
  nil pointer. The three calls never return success and never change the database.\<close>

theorem details_updates_never_succeed:
  "stuck (UpdateDetails env userID dq) \<and> stuck (Service_UpdateEntrepreneurDetails env userID eq) \<and>
   stuck (Service_UpdateLocation env userID lq)"
  unfolding UpdateDetails_def Service_UpdateEntrepreneurDetails_def Service_UpdateLocation_def
  by (intro conjI stuck_service_call stuck_updates)

section \<open>Removal\<close>

lemma RemoveAccount_OkE:
  assumes "RemoveAccount env u w = (Ok (), w')"
  obtains now where "dbase w' = users_update (update_where (\<lambda>x. u_id x = uid u)
      (\<lambda>x. x\<lparr>u_removed := True, u_updated_at := now\<rparr>)) (dbase w)"
proof -
  from assms obtain sv w1 w2 r where
      1: "attempt (UserUpdateOne_Save env (UpdateOneID\<lparr>uu_removed := Some True\<rparr>) (uid u)) (w\<lparr>tick := tick w + 1\<rparr>) = (Ok sv, w1)"
    and 2: "(case sv of Inl _ \<Rightarrow> panic | Inr _ \<Rightarrow> ret ()) w1 = (Ok (), w2)"
    and 3: "InvalidateCache env (Some u) (w2\<lparr>tick := tick w2 + 1\<rparr>) = (Ok r, w')"
    unfolding RemoveAccount_def
    by (auto elim!: andthen_OkE or_fail_OkE WithTransaction_OkE ret_OkE)
  from 2 obtain x where "sv = Inr x" and "w2 = w1" by (cases sv) auto
  with 1 obtain now where "dbase w1 = users_update (update_where (\<lambda>x. u_id x = uid u)
      (\<lambda>x. x\<lparr>u_removed := True, u_updated_at := now\<rparr>)) (dbase w)"
    by (auto elim!: attempt_OkE UserUpdateOne_OkE simp: apply_updates [abs_def])
  with that InvalidateCache_dbase [OF 3] \<open>w2 = w1\<close> show thesis by simp
qed

lemma Service_RemoveAccount_OkE:
  assumes "Service_RemoveAccount env i w = (Ok (), w')"
  obtains now where "dbase w' = users_update (update_where (\<lambda>x. u_id x = i)
      (\<lambda>x. x\<lparr>u_removed := True, u_updated_at := now\<rparr>)) (dbase w)"
    and "\<exists>r\<in>set (rows (users (dbase w))). u_id r = i"
proof -
  from assms obtain u w1 w2 where
      1: "GetUserFunctionalDetailsByID env i w = (Ok u, w1)"
    and 2: "RemoveAccount env u w1 = (Ok (), w2)"
    and 3: "CreateNotificationEvent env (e_settings u) (e_devices u) w2 = (Ok (), w')"
    unfolding Service_RemoveAccount_def HandleUserAction_def
    by (auto elim!: andthen_OkE or_fail_OkE)
  from 1 have u: "txGetUserFunctionalByID i (dbase w) = Inr u" and w1: "dbase w1 = dbase w"
    by (auto simp: GetUserFunctionalDetailsByID_def elim!: tx_query_OkE)
  have "dbase w' = dbase w2" using keepsD [OF events_same_db(5) 3] by (simp add: same_db_def)
  moreover from 2 obtain now where "dbase w2 = users_update (update_where (\<lambda>x. u_id x = uid u)
      (\<lambda>x. x\<lparr>u_removed := True, u_updated_at := now\<rparr>)) (dbase w1)" by (rule RemoveAccount_OkE)
  moreover have "\<exists>r\<in>set (rows (users (dbase w))). u_id r = i"
    using found_functional(1,2) [OF u] by (auto simp: uid_def)
  ultimately show thesis using that w1 found_functional(2) [OF u] by simp
qed


lemma alice_removed: "\<exists>w1. Service_RemoveAccount steady_env 1 (fresh_world sample_db) = (Ok (), w1)"
  by (simp add: Service_RemoveAccount_def HandleUserAction_def GetUserFunctionalDetailsByID_def
      txGetUserFunctionalByID_def RemoveAccount_def run_defs sample_fields lookup_defs update_defs
      cache_defs event_defs CreateNotificationEvent_def split: option.splits)


section \<open>The public listing\<close>

definition newest_first :: "db \<Rightarrow> user_row list" where
  "newest_first d = sort_key (\<lambda>u. - u_created_at u) (rows (users d))"

definition page_of :: "nat \<Rightarrow> nat \<Rightarrow> 'a list \<Rightarrow> 'a list" where
  "page_of sz n xs = take sz (drop (n * sz) xs)"

lemma pages_concat: "concat (map (\<lambda>n. page_of sz n xs) [0..<k]) = take (k * sz) xs"
proof (induction k)
  case (Suc k)
  have "Suc k * sz = k * sz + sz" by simp
  with Suc show ?case by (simp only: take_add) (simp add: page_of_def)
qed simp

lemma each_total:
  assumes "\<And>x w. \<exists>w'. f x w = (Ok (), w') \<and> dbase w' = dbase w"
  shows "\<exists>w'. each f xs w = (Ok (), w') \<and> dbase w' = dbase w"
proof (induction xs arbitrary: w)
  case (Cons x xs)
  obtain w1 where "f x w = (Ok (), w1)" "dbase w1 = dbase w" using assms by blast
  with Cons [of w1] show ?case by auto
qed simp

lemma page_offset_exact:
  assumes "1 \<le> sint page" and "1 \<le> sint pageSize" and "(sint page - 1) * sint pageSize < 2 ^ 63"
  shows "sint (page_offset page pageSize) = (sint page - 1) * sint pageSize"
proof -
  have le: "sint page < 2 ^ 63" using sint_lt [of page] by simp
  have minus: "sint (page - 1) = sint page - 1"
    using assms(1) le by (simp add: sint_word_ariths signed_take_bit_int_eq_self_iff)
  have "0 \<le> (sint page - 1) * sint pageSize" using assms(1,2) by simp
  then show ?thesis using assms(3) minus
    by (simp add: page_offset_def sint_word_ariths(3) signed_take_bit_int_eq_self_iff)
qed


text \<open>Caching a user may fail but does not panic.\<close>

definition returns :: "('w, 'a) io \<Rightarrow> bool" where
  "returns m \<longleftrightarrow> (\<forall>w. fst (m w) \<noteq> Panic \<and> fst (m w) \<noteq> Hang)"

lemma returns_andthen: "returns m \<Longrightarrow> (\<And>x. returns (f x)) \<Longrightarrow> returns (andthen m f)"
  unfolding returns_def andthen_def by (auto split: prod.splits outcome.splits) (metis fst_conv)+

lemma returns_basic: "returns (ret x)" "returns (throw e)" "returns m \<Longrightarrow> returns (or_fail s m)"
  unfolding returns_def by (auto simp: or_fail_def map_err_def split: prod.splits outcome.splits) (metis fst_conv)+

lemma returns_store: "returns (Encrypt env p)" "returns (redis_Set env k v t)"
  by (auto simp: returns_def Encrypt_def GenerateNonce_def andthen_def read_random_def redis_Set_def Let_def
      split: option.splits)

lemma returns_set_keys: "returns (set_keys env p ks)"
proof (induction ks)
  case (Cons k ks)
  then show ?case by (auto intro!: returns_andthen returns_basic returns_store simp: CacheStore_Set_def)
qed (simp add: returns_def)

lemma UpdateCache_total:
  "\<exists>w'. andthen (attempt (UpdateCache env u)) (\<lambda>_. ret ()) w = (Ok (), w') \<and> dbase w' = dbase w"
proof -
  obtain r w' where run: "UpdateCache env u w = (r, w')" by fastforce
  have "returns (UpdateCache env u)" unfolding UpdateCache_def CacheUser_def
    by (intro returns_andthen returns_basic returns_store returns_set_keys)
  then have "r \<noteq> Panic" "r \<noteq> Hang" using run by (auto simp: returns_def) (metis fst_conv)+
  with run UpdateCache_dbase [OF run] show ?thesis by (cases r) auto
qed

definition two_users :: db where
  "two_users = sample_db\<lparr>users := \<lparr>rows = [alice, (blank_row 2 ''d@e.co'')\<lparr>u_password := ''h'',
     u_removed := True, u_created_at := 7\<rparr>], next_id = 3\<rparr>\<rparr>"


section \<open>Subscriptions and consumed messages\<close>

lemma collect_new_filter: "collect_new old ids acc = acc @ filter (\<lambda>i. i \<notin> set old) ids"
  by (induction ids arbitrary: acc) auto

lemma subscription_update:
  assumes "AddSubscriptions env u ids w = (Ok (), w')"
  shows "(filter (\<lambda>i. i \<notin> set (u_subscription_ids (usr u))) ids = [] \<and> dbase w' = dbase w) \<or>
    (\<exists>now. dbase w' = users_update (update_where (\<lambda>x. u_id x = uid u)
      (\<lambda>x. x\<lparr>u_subscription_ids := u_subscription_ids (usr u) @
        filter (\<lambda>i. i \<notin> set (u_subscription_ids (usr u))) ids, u_updated_at := now\<rparr>)) (dbase w))"
proof -
  let ?new = "filter (\<lambda>i. i \<notin> set (u_subscription_ids (usr u))) ids"
  from assms obtain w1 r where 1: "(if length ?new = 0 then ret ()
      else andthen (or_fail ''failed update user'' (UserUpdateOne_Save env
        (UpdateOneID\<lparr>uu_subscription_ids := Some (u_subscription_ids (usr u) @ ?new)\<rparr>) (uid u))) (\<lambda>_. ret ()))
      (w\<lparr>tick := tick w + 1\<rparr>) = (Ok (), w1)"
    and 2: "InvalidateCache env (Some u) (w1\<lparr>tick := tick w1 + 1\<rparr>) = (Ok r, w')"
    unfolding AddSubscriptions_def Let_def collect_new_filter append_Nil
    by (elim andthen_OkE or_fail_OkE WithTransaction_OkE) auto
  show ?thesis
  proof (cases "?new = []")
    case True
    with 1 InvalidateCache_dbase [OF 2] show ?thesis by auto
  next
    case False
    with 1 obtain now where "dbase w1 = users_update (update_where (\<lambda>x. u_id x = uid u)
      (\<lambda>x. x\<lparr>u_subscription_ids := u_subscription_ids (usr u) @ ?new, u_updated_at := now\<rparr>)) (dbase w)"
      by (auto elim!: andthen_OkE or_fail_OkE ret_OkE UserUpdateOne_OkE simp: apply_updates [abs_def])
    with InvalidateCache_dbase [OF 2] show ?thesis by auto
  qed
qed

lemma RemoveSubscriptions_update:
  assumes "RemoveSubscriptions env u ids w = (Ok (), w')"
  shows "\<exists>now. dbase w' = users_update (update_where (\<lambda>x. u_id x = uid u)
      (\<lambda>x. x\<lparr>u_subscription_ids := filter (\<lambda>i. i \<notin> set ids) (u_subscription_ids (usr u)), u_updated_at := now\<rparr>)) (dbase w)"
proof -
  from assms obtain x w1 r where 1: "UserUpdateOne_Save env (UpdateOneID\<lparr>uu_subscription_ids :=
      Some (filter (\<lambda>i. i \<notin> set ids) (u_subscription_ids (usr u)))\<rparr>) (uid u) (w\<lparr>tick := tick w + 1\<rparr>) = (Ok x, w1)"
    and 2: "InvalidateCache env (Some u) (w1\<lparr>tick := tick w1 + 1\<rparr>) = (Ok r, w')"
    unfolding RemoveSubscriptions_def RemoveIDs_filter
    by (auto elim!: andthen_OkE or_fail_OkE WithTransaction_OkE ret_OkE)
  then show ?thesis using InvalidateCache_dbase [OF 2]
    by (auto elim!: UserUpdateOne_OkE simp: apply_updates [abs_def])
qed

lemma subscription_base:
  "unmarshal_subscription env value = Some ev \<Longrightarrow> unmarshal_base env value = Some (se_base ev)"
  by (auto simp: unmarshal_subscription_def unmarshal_base_def split: bind_splits option.splits)

text \<open>C40: a processed subscription message changes the list of the user it names as it says: \<open>add\<close>
  appends the identifiers of the message that the list does not hold (keeping repetitions within
  the message), \<open>remove\<close> drops every identifier of the message; any other action is refused.\<close>

theorem subscription_messages:
  assumes "SubscriptionActionHandler_Handle env value w = (Ok (), w')"
    and "unmarshal_subscription env value = Some ev"
    and "has_prefix (in_event_type (se_base ev)) ''user.subscription.''"
    and "wf_db (dbase w)" and "r \<in> set (rows (users (dbase w)))" and "u_id r = se_user_id ev"
  shows "(se_action ev = ''add'' \<or> se_action ev = ''remove'') \<and>
    (\<exists>r'\<in>set (rows (users (dbase w'))). u_id r' = u_id r \<and> u_subscription_ids r' =
      (if se_action ev = ''add''
       then u_subscription_ids r @ filter (\<lambda>i. i \<notin> set (u_subscription_ids r)) (se_subscription_ids ev)
       else filter (\<lambda>i. i \<notin> set (se_subscription_ids ev)) (u_subscription_ids r)))"
proof -
  from assms(1-3) subscription_base [OF assms(2)] obtain u w1 where 1: "GetUserPublicByID env (se_user_id ev) w = (Ok u, w1)"
    and 2: "(if se_action ev = ''remove'' then RemoveSubscriptions env u (se_subscription_ids ev)
       else if se_action ev = ''add'' then AddSubscriptions env u (se_subscription_ids ev)
       else throw (EMsg ''invalid user action event: missing action'')) w1 = (Ok (), w')"
    by (auto simp: SubscriptionActionHandler_Handle_def elim!: andthen_OkE)
  from 1 have pub: "txGetUserPublicByID (se_user_id ev) (dbase w) = Inr u" and w1: "dbase w1 = dbase w"
    by (auto simp: GetUserPublicByID_def elim!: tx_query_OkE)
  have "wf_tab u_id (users (dbase w))" using assms(4) by (simp add: wf_db_def users_ok_def)
  then have u: "usr u = r" "uid u = u_id r"
    using Only_member [OF pub [unfolded txGetUserPublicByID_def]] assms(5,6)
      wf_tab_unique [of u_id "users (dbase w)" "usr u" r]
    by (auto simp: Where_def Query_def IDEQ_def RemovedEQ_def uid_def)
  have updated: "f r \<in> set (rows (users d'))"
    if "d' = users_update (update_where (\<lambda>x. u_id x = u_id r) f) (dbase w)" for d' f
    using that assms(5) by auto
  show ?thesis
  proof (cases "se_action ev = ''remove''")
    case True
    with 2 have "RemoveSubscriptions env u (se_subscription_ids ev) w1 = (Ok (), w')" by simp
    from RemoveSubscriptions_update [OF this] obtain now where "dbase w' = users_update (update_where
        (\<lambda>x. u_id x = u_id r) (\<lambda>x. x\<lparr>u_subscription_ids := filter (\<lambda>i. i \<notin> set (se_subscription_ids ev))
          (u_subscription_ids r), u_updated_at := now\<rparr>)) (dbase w)" by (auto simp: u w1)
    from updated [OF this] True show ?thesis by (intro conjI disjI2 bexI) auto
  next
    case False
    with 2 have add: "se_action ev = ''add''" "AddSubscriptions env u (se_subscription_ids ev) w1 = (Ok (), w')"
      by (auto split: if_splits)
    from subscription_update [OF add(2)] show ?thesis
    proof (elim disjE conjE exE)
      fix now assume "dbase w' = users_update (update_where (\<lambda>x. u_id x = uid u) (\<lambda>x. x\<lparr>u_subscription_ids :=
          u_subscription_ids (usr u) @ filter (\<lambda>i. i \<notin> set (u_subscription_ids (usr u))) (se_subscription_ids ev),
          u_updated_at := now\<rparr>)) (dbase w1)"
      from updated [OF this [unfolded u w1]] add(1) show ?thesis by (intro conjI disjI1 bexI) auto
    qed (use add(1) assms(5) u w1 in auto)
  qed
qed

definition subscription_message :: string where
  "subscription_message = print_json (JObj [(''event_type'', JStr ''user.subscription.changed''),
     (''action'', JStr ''add''), (''subscription_id'', JArr [JNum 7]), (''user_id'', JNum 1)])"

definition subscription_sample :: subscription_event where
  "subscription_sample = \<lparr>se_base = \<lparr>in_event_id = [], in_event_type = ''user.subscription.changed'',
     in_user_id = 1\<rparr>, se_action = ''add'', se_subscription_ids = [7], se_user_id = 1\<rparr>"

lemma subscription_decoded: "unmarshal_subscription steady_env subscription_message = Some subscription_sample"
  by (simp add: unmarshal_subscription_def subscription_message_def parse_print_json decode_base_def
      subscription_sample_def int64_def same_key_def lower_char_def)

lemma subscription_run:
  "\<exists>w'. SubscriptionActionHandler_Handle steady_env subscription_message (fresh_world sample_db) = (Ok (), w')"
proof -
  show ?thesis
    by (simp add: SubscriptionActionHandler_Handle_def subscription_decoded subscription_base [OF subscription_decoded])
      (simp add: subscription_sample_def has_prefix_def GetUserPublicByID_def txGetUserPublicByID_def
        AddSubscriptions_def collect_new_filter run_defs sample_fields lookup_defs Where_def Query_def
        RemovedEQ_def BlacklistedEQ_def update_defs cache_defs)
qed

theorem subscription_messages_witness:
  "\<exists>w' r'. SubscriptionActionHandler_Handle steady_env subscription_message (fresh_world sample_db) = (Ok (), w') \<and>
     r' \<in> set (rows (users (dbase w'))) \<and> u_subscription_ids r' = [7]"
proof -
  obtain w' where run:
    "SubscriptionActionHandler_Handle steady_env subscription_message (fresh_world sample_db) = (Ok (), w')"
    using subscription_run by blast
  from subscription_messages [OF run subscription_decoded, of alice] run show ?thesis
    by (auto simp: subscription_sample_def has_prefix_def sample_fields wf_sample_db)
qed

lemma stuck_throw: "stuck (throw e)"
  by (simp add: stuck_def)

lemma tx_stuck:
  assumes "\<And>w. \<exists>e w'. fn w = (Err e, w')"
  shows "stuck (andthen (or_fail msg (WithTransaction env fn)) f)"
  unfolding stuck_def
proof
  fix w
  obtain e w' where "fn (w\<lparr>tick := tick w + 1\<rparr>) = (Err e, w')" using assms by blast
  then show "(\<forall>x. fst (andthen (or_fail msg (WithTransaction env fn)) f w) \<noteq> Ok x) \<and>
      dbase (snd (andthen (or_fail msg (WithTransaction env fn)) f w)) = dbase w"
    by (simp add: andthen_def or_fail_def map_err_def WithTransaction_def Let_def rolled_back_def)
qed

lemma CreateUserAction_stuck: "stuck (CreateUserAction env u a dev det)"
  unfolding CreateUserAction_def Let_def
  by (rule tx_stuck) (simp add: or_fail_def map_err_def on_create_def save_def UserActionCreate_check_def required_def)

lemma CreateUserAction_outcome [simp]:
  "fst (CreateUserAction env u a dev det w) \<noteq> Ok x" "dbase (snd (CreateUserAction env u a dev det w)) = dbase w"
  using CreateUserAction_stuck [of env u a dev det] by (simp_all add: stuck_def)

lemma user_action_handler_cases:
  "case unmarshal_base env value of None \<Rightarrow> stuck (UserActionHandler_Handle env value)
   | Some b \<Rightarrow> if has_prefix (in_event_type b) ''user.action.'' then stuck (UserActionHandler_Handle env value)
      else UserActionHandler_Handle env value = ret ()"
proof (cases "unmarshal_base env value")
  case (Some b)
  have "stuck (andthen (GetUserPublicByID env i) (\<lambda>u. if c then CreateUserAction env u x y z else throw e))"
    for i c x y z e
    unfolding stuck_def
  proof
    fix w
    obtain r w1 where 1: "GetUserPublicByID env i w = (r, w1)" by fastforce
    moreover have "dbase w1 = dbase w" using keepsD [OF lookups_same_db(4) 1] by (simp add: same_db_def)
    ultimately show "(\<forall>xa. fst (andthen (GetUserPublicByID env i) (\<lambda>u. if c then CreateUserAction env u x y z else throw e) w) \<noteq> Ok xa) \<and>
        dbase (snd (andthen (GetUserPublicByID env i) (\<lambda>u. if c then CreateUserAction env u x y z else throw e) w)) = dbase w"
      by (cases r) auto
  qed
  then show ?thesis using Some
    by (cases "unmarshal_user_action env value") (simp_all add: UserActionHandler_Handle_def stuck_throw)
qed (simp add: UserActionHandler_Handle_def stuck_def)

text \<open>No user action is ever recorded. A message whose event type starts with \<open>user.action.\<close>
  makes the handler fail, whatever it holds, and leaves the database as it was: the record it
  builds lacks the type and the device that the table requires.\<close>

theorem user_actions_never_recorded:
  "case unmarshal_base env value of None \<Rightarrow> stuck (UserActionHandler_Handle env value)
   | Some b \<Rightarrow> if has_prefix (in_event_type b) ''user.action.'' then stuck (UserActionHandler_Handle env value)
      else UserActionHandler_Handle env value = ret ()"
  by (rule user_action_handler_cases)

section \<open>Consumers\<close>

lemma ping_consumers_None:
  "ping_consumers metadata m topics = None \<longleftrightarrow> (\<forall>t\<in>set topics. \<forall>c. m t = Some c \<longrightarrow> metadata c = None)"
  by (induction topics) (auto split: option.splits)

text \<open>\<open>PingAll\<close> reports the consumers healthy exactly when every registered one is, in whatever
  order the map is visited, and a consumer that was just registered is the one found under its
  topic, whatever was there before.\<close>

theorem consumers_healthy:
  assumes "set order = dom m"
  shows "(PingAll metadata m order = None \<longleftrightarrow> (\<forall>t c. m t = Some c \<longrightarrow> metadata c = None)) \<and>
    (\<forall>t c m'. ConsumerManager_Register t (Some c) m = Inr m' \<longrightarrow>
       t \<noteq> [] \<and> GetConsumer t m' = (Some c, True) \<and> (\<forall>t'. t' \<noteq> t \<longrightarrow> GetConsumer t' m' = GetConsumer t' m))"
  using assms
  by (auto simp: PingAll_def ping_consumers_None ConsumerManager_Register_def GetConsumer_def dom_def split: if_splits)

theorem consumers_healthy_witness:
  "PingAll (\<lambda>c. if c then None else Some ERedisNil) [''t'' \<mapsto> False] [''t''] \<noteq> None"
  using consumers_healthy [of "[''t'']" "[''t'' \<mapsto> False]" "\<lambda>c. if c then None else Some ERedisNil"]
  by auto

end
