(* ===== verification/Kafka_Middleware.thy ===== *)
theory Kafka_Middleware imports Users_Properties begin

text \<open>
  The consumer side of Kafka: the middlewares of
  app/middlewares/kafka_message_handler_middleware.go and the loop that
  \<open>NewKafkaConsumer\<close> of app/config/kafka.go starts for a topic. A middleware's captured
  variables live as long as the middleware, so they are part of the state a handler runs
  in: the back-off of \<open>RetryMiddleware\<close> (a 64-bit duration, doubled in place) and the
  counter of \<open>MetricsMiddleware\<close>. Which of the two channels a \<open>select\<close> takes is an oracle.
\<close>

unbundle bit_operations_syntax

section \<open>Messages and handlers\<close>

record kafka_message =
  msg_topic :: string
  msg_offset :: int
  msg_value :: "string option"

record 'w kworld =
  inner :: 'w
  backoff :: "64 word"
  processedMessages :: "64 word"
  waits :: "64 word list"
  selects :: nat

type_synonym 'w message_handler = "kafka_message option \<Rightarrow> ('w kworld, unit) io"

text \<open>A handler that knows nothing of the middlewares around it.\<close>

definition on_inner :: "('w, 'a) io \<Rightarrow> ('w kworld, 'a) io" where
  "on_inner m = zoom inner (\<lambda>w k. k\<lparr>inner := w\<rparr>) m"

interpretation kafka: lens inner "\<lambda>w k. k\<lparr>inner := w\<rparr>"
  by unfold_locales simp_all

section \<open>The middlewares\<close>

text \<open>The index counts down from the last middleware to the first.\<close>

primrec chain_from ::
  "('w message_handler \<Rightarrow> 'w message_handler) list \<Rightarrow> nat \<Rightarrow> 'w message_handler \<Rightarrow> 'w message_handler" where
  "chain_from ms 0 h = h"
| "chain_from ms (Suc i) h = chain_from ms i ((ms ! i) h)"

definition ChainMiddleware ::
  "'w message_handler \<Rightarrow> ('w message_handler \<Rightarrow> 'w message_handler) list \<Rightarrow> 'w message_handler" where
  "ChainMiddleware handler ms = chain_from ms (length ms) handler"

definition MetricsMiddleware :: "'w message_handler \<Rightarrow> 'w message_handler" where
  "MetricsMiddleware next msg = (\<lambda>k. next msg (k\<lparr>processedMessages := processedMessages k + 1\<rparr>))"

text \<open>\<open>select\<close> on the context and the timer; when the timer fires the back-off doubles.\<close>

definition wait_or_cancel :: "(nat \<Rightarrow> bool) \<Rightarrow> ('w kworld, unit) io" where
  "wait_or_cancel cancelled = (\<lambda>k.
     if cancelled (selects k) then (Err (EIO ''context canceled''), k\<lparr>selects := selects k + 1\<rparr>)
     else (Ok (), k\<lparr>selects := selects k + 1, waits := waits k @ [backoff k], backoff := backoff k * 2\<rparr>))"

definition attempts_exhausted :: "int \<Rightarrow> error" where
  "attempts_exhausted maxRetries =
     EMsg (''failed to process message after '' @ itoa maxRetries @ '' attempts'')"

text \<open>The loop, with the number of attempts that are left.\<close>

primrec retry_loop :: "(nat \<Rightarrow> bool) \<Rightarrow> int \<Rightarrow> nat \<Rightarrow> ('w kworld, unit) io \<Rightarrow> ('w kworld, unit) io" where
  "retry_loop cancelled maxRetries 0 next = throw (attempts_exhausted maxRetries)"
| "retry_loop cancelled maxRetries (Suc n) next = andthen (attempt next) (\<lambda>r. case r of
     Inr x \<Rightarrow> ret ()
   | Inl err \<Rightarrow> andthen (wait_or_cancel cancelled) (\<lambda>_. retry_loop cancelled maxRetries n next))"

definition RetryMiddleware :: "(nat \<Rightarrow> bool) \<Rightarrow> int \<Rightarrow> 'w message_handler \<Rightarrow> 'w message_handler" where
  "RetryMiddleware cancelled maxRetries next msg = retry_loop cancelled maxRetries (nat maxRetries) (next msg)"

text \<open>\<open>data["event"]\<close> is a lookup of that very key; \<open>null\<close> decodes to an empty map.\<close>

definition ValidationMiddleware :: "'w message_handler \<Rightarrow> 'w message_handler" where
  "ValidationMiddleware next msg =
     (case Option.bind msg msg_value of
        None \<Rightarrow> throw (EMsg ''invalid message: nil or empty value'')
      | Some value \<Rightarrow> (case Option.bind (parse_json value) members of
            None \<Rightarrow> throw (EWrap ''invalid message: not a valid JSON'' (EIO ''json''))
          | Some data \<Rightarrow> if map_of data ''event'' = None
              then throw (EMsg ''invalid message: missing 'event' field'') else next msg))"

section \<open>The consumer loop\<close>

text \<open>What \<open>Poll\<close> returns within its 100 milliseconds.\<close>

datatype poll = PollNil | PollMessage kafka_message | PollError | PollOther

text \<open>
  One turn after another: the messages whose offset was committed, in order. A failed commit
  is only logged (the oracle tells which succeed). The loop ends when its context is
  cancelled, here at the end of the list, or dies with a handler that panics.
\<close>

fun consumer_loop ::
  "(kafka_message \<Rightarrow> ('w, unit) io) option \<Rightarrow> (kafka_message \<Rightarrow> bool) \<Rightarrow> poll list \<Rightarrow> ('w, kafka_message list) io" where
  "consumer_loop handler commit_ok [] = ret []"
| "consumer_loop handler commit_ok (PollMessage e # evs) =
     andthen (case handler of None \<Rightarrow> ret (Inr ()) | Some h \<Rightarrow> attempt (h e)) (\<lambda>r. case r of
       Inl err \<Rightarrow> consumer_loop handler commit_ok evs
     | Inr x \<Rightarrow> andthen (consumer_loop handler commit_ok evs) (\<lambda>committed.
         ret (if commit_ok e then e # committed else committed)))"
| "consumer_loop handler commit_ok (PollNil # evs) = consumer_loop handler commit_ok evs"
| "consumer_loop handler commit_ok (PollError # evs) = consumer_loop handler commit_ok evs"
| "consumer_loop handler commit_ok (PollOther # evs) = consumer_loop handler commit_ok evs"

text \<open>The handler \<open>NewApp\<close> (app/config/config.go) gives a topic. An absent value decodes like
  an empty one.\<close>

definition message_text :: "kafka_message \<Rightarrow> string" where
  "message_text e = (case msg_value e of None \<Rightarrow> [] | Some v \<Rightarrow> v)"

definition topic_handler :: "'r env \<Rightarrow> string \<Rightarrow> (kafka_message \<Rightarrow> ('r world, unit) io) option" where
  "topic_handler env topic =
     (if topic = ''user.events'' \<or> topic = ''user.actions''
      then Some (\<lambda>e. UserActionHandler_Handle env (message_text e))
      else if topic = ''user.subscription''
      then Some (\<lambda>e. SubscriptionActionHandler_Handle env (message_text e))
      else None)"

section \<open>Chains\<close>

lemma chain_from_foldr:
  assumes "i \<le> length ms"
  shows "chain_from ms i h = foldr (\<lambda>m h. m h) (take i ms) h"
  using assms by (induction i arbitrary: h) (simp_all add: take_Suc_conv_app_nth)

lemma chain_foldr: "ChainMiddleware h ms = foldr (\<lambda>m h. m h) ms h"
  by (simp add: ChainMiddleware_def chain_from_foldr)

lemma chain_append: "ChainMiddleware h (ms @ ns) = ChainMiddleware (ChainMiddleware h ns) ms"
  by (simp add: chain_foldr)

section \<open>Retries\<close>

text \<open>Running a handler that fails a number of times in a row.\<close>

fun failing :: "('w, unit) io \<Rightarrow> nat \<Rightarrow> 'w \<Rightarrow> 'w option" where
  "failing m 0 w = Some w"
| "failing m (Suc n) w = (case m w of (Err e, w') \<Rightarrow> failing m n w' | _ \<Rightarrow> None)"

text \<open>The state after that many waits.\<close>

definition after_waits :: "nat \<Rightarrow> 'w \<Rightarrow> 'w kworld \<Rightarrow> 'w kworld" where
  "after_waits n w k = k\<lparr>inner := w, selects := selects k + n,
     waits := waits k @ map (\<lambda>i. backoff k * 2 ^ i) [0..<n], backoff := backoff k * 2 ^ n\<rparr>"

lemma after_waits_0 [simp]: "after_waits 0 w k = k\<lparr>inner := w\<rparr>"
  by (simp add: after_waits_def)

lemma after_waits_Suc:
  "after_waits n w (k\<lparr>inner := v, selects := Suc (selects k), waits := waits k @ [backoff k], backoff := backoff k * 2\<rparr>)
   = after_waits (Suc n) w k"
proof -
  have "map (\<lambda>i. backoff k * 2 * 2 ^ i) [0..<n] = map (\<lambda>i. backoff k * 2 ^ Suc i) [0..<n]" by (simp add: mult.assoc)
  then have "backoff k # map (\<lambda>i. backoff k * 2 * 2 ^ i) [0..<n] = map (\<lambda>i. backoff k * 2 ^ i) [0..<Suc n]"
    by (simp add: upt_conv_Cons map_Suc_upt [symmetric] del: upt_Suc)
  then show ?thesis by (simp add: after_waits_def mult.assoc)
qed

lemma retry_failures:
  assumes "failing m n (inner k) = Some w" and "\<And>i. i < n \<Longrightarrow> \<not> cancelled (selects k + i)"
  shows "retry_loop cancelled most (n + rest) (on_inner m) k =
    retry_loop cancelled most rest (on_inner m) (after_waits n w k)"
  using assms
proof (induction n arbitrary: k)
  case (Suc n)
  obtain e w1 where 1: "m (inner k) = (Err e, w1)" and 2: "failing m n w1 = Some w"
    using Suc.prems(1) by (auto split: prod.splits outcome.splits)
  let ?k = "k\<lparr>inner := w1, selects := Suc (selects k), waits := waits k @ [backoff k], backoff := backoff k * 2\<rparr>"
  have "\<not> cancelled (selects k)" using Suc.prems(2) [of 0] by simp
  moreover have "\<not> cancelled (selects ?k + i)" if "i < n" for i using Suc.prems(2) [of "Suc i"] that by simp
  ultimately show ?case
    using Suc.IH [of ?k] 1 2 after_waits_Suc [of n w k w1]
    by (simp add: andthen_def attempt_def on_inner_def zoom_def wait_or_cancel_def)
qed auto

lemma retry_cancelled:
  assumes "m (inner k) = (Err e, w)" and "cancelled (selects k)"
  shows "retry_loop cancelled most (Suc rest) (on_inner m) k =
    (Err (EIO ''context canceled''), k\<lparr>inner := w, selects := selects k + 1\<rparr>)"
  using assms by (simp add: andthen_def attempt_def on_inner_def zoom_def wait_or_cancel_def)

text \<open>\<open>RetryMiddleware\<close> retries with a doubling back-off that it never resets. If the handler
  fails a number of times in a row and then succeeds within the allowed attempts, and the
  context is not cancelled meanwhile, the message is processed, after one wait per failure of
  the back-off times 1, 2, 4 and so on (as 64-bit durations), and the next message starts from
  the doubled back-off; if every allowed attempt fails the result is an error, after a wait
  that follows even the last attempt.\<close>

theorem retry_outcome:
  assumes "failing (h msg) n (inner k) = Some w" and "\<And>i. i < n \<Longrightarrow> \<not> cancelled (selects k + i)"
    and "0 \<le> most" and "int n \<le> most"
    and "int n < most \<Longrightarrow> h msg w = (Ok (), w')"
  shows "RetryMiddleware cancelled most (\<lambda>x. on_inner (h x)) msg k =
    (if int n < most then (Ok (), after_waits n w' k)
     else (Err (attempts_exhausted most), after_waits n w k))"
proof (cases "int n < most")
  case True
  then obtain rest where r: "nat most = n + Suc rest"
    by (metis add_Suc_right less_imp_Suc_add zless_nat_eq_int_zless)
  have "on_inner (h msg) (after_waits n w k) = (Ok (), after_waits n w' k)"
    using assms(5) True by (simp add: on_inner_def zoom_def after_waits_def)
  then have "retry_loop cancelled most (Suc rest) (on_inner (h msg)) (after_waits n w k) = (Ok (), after_waits n w' k)"
    by (simp add: andthen_def attempt_def)
  from trans [OF retry_failures [of "h msg" n k w cancelled most "Suc rest"] this]
  have "retry_loop cancelled most (n + Suc rest) (on_inner (h msg)) k = (Ok (), after_waits n w' k)"
    using assms(1,2) by blast
  then show ?thesis by (simp only: RetryMiddleware_def r True if_True)
next
  case False
  then have "nat most = n + 0" using assms(4) by simp
  then show ?thesis
    using retry_failures [OF assms(1), of cancelled most 0] assms(2) False
    by (simp add: RetryMiddleware_def)
qed

text \<open>The sample handler counts its calls and succeeds from the third on; and a back-off of one
  second has become zero after 55 failures, so that the retries no longer pause.\<close>

definition third_time_lucky :: "kafka_message option \<Rightarrow> (nat, unit) io" where
  "third_time_lucky msg = (\<lambda>c. if c < 2 then (Err (EIO ''busy''), Suc c) else (Ok (), Suc c))"

definition fresh_kworld :: "'w \<Rightarrow> 'w kworld" where
  "fresh_kworld w = \<lparr>inner = w, backoff = 1000000000, processedMessages = 0, waits = [], selects = 0\<rparr>"

theorem retry_outcome_witness:
  "RetryMiddleware (\<lambda>_. False) 5 (\<lambda>x. on_inner (third_time_lucky x)) None (fresh_kworld 0) =
   (Ok (), \<lparr>inner = 3, backoff = 4000000000, processedMessages = 0,
     waits = [1000000000, 2000000000], selects = 2\<rparr>)"
  using retry_outcome [of third_time_lucky None 2 "fresh_kworld 0" 2 "\<lambda>_. False" 5 3]
  by (simp add: third_time_lucky_def fresh_kworld_def after_waits_def numeral_2_eq_2 upt_rec)

section \<open>Validation and the service's own messages\<close>

lemma no_event_key:
  assumes "Option.bind msg msg_value = Some (print_json (JObj kvs))" and "map_of kvs ''event'' = None" and "integral (JObj kvs)"
  shows "ValidationMiddleware next msg k = (Err (EMsg ''invalid message: missing 'event' field''), k)"
  using assms by (simp add: ValidationMiddleware_def parse_print_json)

lemma map_of_base [simp]: "map_of (base_json env b) ''event'' = None"
  by (simp add: base_json_def)

lemma map_of_omitted [simp]:
  "name \<noteq> ''event'' \<Longrightarrow> map_of (omit_empty_string name s) ''event'' = None"
  "name \<noteq> ''event'' \<Longrightarrow> map_of (omit_empty_list name xs) ''event'' = None"
  by (simp_all add: omit_empty_string_def omit_empty_list_def)

lemma integral_parts [simp]:
  "list_all snd (map (map_prod id integral) (base_json env b))"
  "list_all snd (map (map_prod id integral) (omit_empty_string name s))"
  "list_all snd (map (map_prod id integral) (omit_empty_list name xs))"
  by (simp_all add: base_json_def omit_empty_string_def omit_empty_list_def list_all_iff)

lemmas event_documents = RegistrationEvent_def SecondFactorEvent_def LoginEvent_def LogoutEvent_def
  VerificationEvent_def NotificationEvent_def UserActionEvent_def ResetPasswordEvent_def

text \<open>The service's own messages do not pass \<open>ValidationMiddleware\<close>. It asks for a field
  \<open>event\<close>, which none of the eight documents of the event notifier has (theirs is
  \<open>event_type\<close>), so such a message is refused before the handler runs.\<close>

theorem own_messages_refused:
  fixes b :: base_event
  shows "list_all (\<lambda>doc. ValidationMiddleware next
        (Some \<lparr>msg_topic = t, msg_offset = off, msg_value = Some (print_json doc)\<rparr>) k =
      (Err (EMsg ''invalid message: missing 'event' field''), k))
    [RegistrationEvent env b x y i, SecondFactorEvent env b x i y, LoginEvent env b x y xs,
     LogoutEvent env b x y xs z, VerificationEvent env b x y i, NotificationEvent env b x xs,
     UserActionEvent env b x y z, ResetPasswordEvent env b x y i z]"
  by (simp add: event_documents no_event_key map_add_def map_of_append)

section \<open>What a consumer commits\<close>

text \<open>The messages of a sequence of polls.\<close>

fun polled :: "poll list \<Rightarrow> kafka_message list" where
  "polled [] = []"
| "polled (PollMessage e # evs) = e # polled evs"
| "polled (PollNil # evs) = polled evs"
| "polled (PollError # evs) = polled evs"
| "polled (PollOther # evs) = polled evs"

text \<open>The reference: every message is handled once, in order; the ones that were handled
  without error are the committed ones.\<close>

fun handled :: "(kafka_message \<Rightarrow> ('w, unit) io) \<Rightarrow> kafka_message list \<Rightarrow> ('w, kafka_message list) io" where
  "handled h [] = ret []"
| "handled h (e # es) = andthen (attempt (h e)) (\<lambda>r.
     andthen (handled h es) (\<lambda>ds. ret (case r of Inl err \<Rightarrow> ds | Inr x \<Rightarrow> e # ds)))"

lemma andthen_ret [simp]: "andthen m ret = m"
  by (rule ext) (auto simp: andthen_def split: prod.splits outcome.splits)

lemma andthen_assoc: "andthen (andthen m f) g = andthen m (\<lambda>x. andthen (f x) g)"
  by (rule ext) (auto simp: andthen_def split: prod.splits outcome.splits)

lemma loop_handled:
  "consumer_loop (Some h) commit_ok evs =
     andthen (handled h (polled evs)) (\<lambda>ds. ret (filter commit_ok ds))"
proof (induction "Some h" commit_ok evs rule: consumer_loop.induct)
  case (2 commit_ok e evs)
  show ?case
    by (rule ext) (use 2 in \<open>auto simp: andthen_def attempt_def split: prod.splits outcome.splits sum.splits\<close>)
qed (simp_all add: andthen_def ret_def)

lemma handled_commits:
  assumes "handled h es w = (Ok ds, w')"
  shows "subseq ds es"
  using assms
proof (induction es arbitrary: w ds)
  case (Cons e es)
  from Cons.prems show ?case
    by (auto elim!: ok_elims dest!: Cons.IH split: sum.splits)
qed simp

text \<open>A consumer handles every message once and in order, and asks for a commit for exactly
  those whose handler succeeded. A message whose handler failed is neither retried nor
  committed, and the loop goes on with the next one, whose commit then passes over it.\<close>

theorem consumer_handles_in_order:
  "consumer_loop (Some h) commit_ok evs =
     andthen (handled h (polled evs)) (\<lambda>ds. ret (filter commit_ok ds)) \<and>
   (case handled h (polled evs) w of (Ok ds, w') \<Rightarrow> subseq ds (polled evs) | _ \<Rightarrow> True)"
  by (auto simp: loop_handled handled_commits split: prod.splits outcome.splits)

lemma user_action_handled:
  assumes "handled (\<lambda>e. UserActionHandler_Handle env (message_text e)) es w = (Ok ds, w')"
  shows "dbase w' = dbase w \<and> (\<forall>e\<in>set ds. \<exists>b. unmarshal_base env (message_text e) = Some b \<and>
    \<not> has_prefix (in_event_type b) ''user.action.'')"
  using assms
proof (induction es arbitrary: w ds)
  case (Cons e es)
  let ?h = "\<lambda>e. UserActionHandler_Handle env (message_text e)"
  let ?plain = "\<lambda>e. \<exists>b. unmarshal_base env (message_text e) = Some b \<and>
    \<not> has_prefix (in_event_type b) ''user.action.''"
  from Cons.prems obtain r w1 ds' where run: "attempt (?h e) w = (Ok r, w1)"
    and rest: "handled ?h es w1 = (Ok ds', w')"
    and ds: "ds = (case r of Inl err \<Rightarrow> ds' | Inr x \<Rightarrow> e # ds')"
    by (auto elim!: ok_elims)
  have "dbase w1 = dbase w \<and> (\<forall>x. r = Inr x \<longrightarrow> ?plain e)"
  proof (cases "stuck (?h e)")
    case True
    have "dbase w1 = dbase w"
      using True run snd_attempt [of "?h e" w] by (simp add: stuck_def)
    moreover have "r \<noteq> Inr x" for x
      using True run by (auto elim!: attempt_OkE simp: stuck_def) (metis fst_conv)
    ultimately show ?thesis by simp
  next
    case False
    then obtain b where "unmarshal_base env (message_text e) = Some b"
      and "\<not> has_prefix (in_event_type b) ''user.action.''" and "?h e = ret ()"
      using user_action_handler_cases [of env "message_text e"] by (auto split: option.splits if_splits)
    then show ?thesis using run by (auto elim!: ok_elims)
  qed
  with Cons.IH [OF rest] ds show ?case by (cases r) auto
qed simp

text \<open>The consumer of the topics \<open>user.events\<close> and \<open>user.actions\<close> changes nothing. Whatever is
  polled, as long as the loop ends, the database is what it was and no committed message is a
  user action: those all fail, and only messages of other types, which the handler ignores,
  are committed.\<close>

theorem user_action_topics_do_nothing:
  assumes "topic = ''user.events'' \<or> topic = ''user.actions''"
    and "consumer_loop (topic_handler env topic) commit_ok evs w = (Ok committed, w')"
  shows "dbase w' = dbase w \<and> (\<forall>e\<in>set committed. \<exists>b. unmarshal_base env (message_text e) = Some b \<and>
    \<not> has_prefix (in_event_type b) ''user.action.'')"
proof -
  have "topic_handler env topic = Some (\<lambda>e. UserActionHandler_Handle env (message_text e))"
    using assms(1) by (auto simp: topic_handler_def)
  with assms(2) obtain ds where
    "handled (\<lambda>e. UserActionHandler_Handle env (message_text e)) (polled evs) w = (Ok ds, w')"
    and "committed = filter commit_ok ds"
    by (auto simp: loop_handled elim!: ok_elims)
  then show ?thesis using user_action_handled by fastforce
qed

text \<open>The sample polls: an ignored message, nothing, and a message that is not JSON.\<close>

definition ignored_message :: kafka_message where
  "ignored_message = \<lparr>msg_topic = ''user.events'', msg_offset = 4, msg_value = Some (print_json (JObj
     [(''event_id'', JStr ''e''), (''event_type'', JStr ''user.registered''), (''user_id'', JNum 1)]))\<rparr>"

lemma ignored_message_run:
  "UserActionHandler_Handle steady_env (message_text ignored_message) = ret ()"
  by (simp add: UserActionHandler_Handle_def unmarshal_base_def message_text_def ignored_message_def
      parse_print_json decode_base_def int64_def same_key_def lower_char_def has_prefix_def)

theorem user_action_topics_do_nothing_witness:
  "\<exists>w'. consumer_loop (topic_handler steady_env ''user.events'') (\<lambda>_. True)
       [PollMessage ignored_message, PollNil] (fresh_world sample_db) = (Ok [ignored_message], w') \<and>
     dbase w' = sample_db"
proof -
  have "consumer_loop (topic_handler steady_env ''user.events'') (\<lambda>_. True)
      [PollMessage ignored_message, PollNil] (fresh_world sample_db) = (Ok [ignored_message], fresh_world sample_db)"
    by (simp add: topic_handler_def ignored_message_run)
  with user_action_topics_do_nothing [OF disjI1 [OF refl] this] show ?thesis
    by (simp add: sample_fields)
qed

end
