(* ===== verification/Bodies.thy ===== *)
theory Bodies imports Requests Cache_Store begin

text \<open>
  From the bytes of a request body to a request value: \<open>ShouldBindJSON\<close> of gin, which
  decodes the first JSON value of the body into the struct (keys compared without regard to
  case, \<open>null\<close> leaving a field alone) and then applies the \<open>binding\<close> tags. The library's
  \<open>email\<close> rule is a parameter. The body of the entrepreneur details holds floating-point
  numbers and has no decoder here; its route is not registered.
\<close>

section \<open>Decoding\<close>

text \<open>\<open>json.Decoder\<close> stops after the first value and ignores what follows it.\<close>

definition body_members :: "string \<Rightarrow> (string \<times> json) list option" where
  "body_members body =
     (case parse_value (Suc (length body)) body of None \<Rightarrow> None | Some (j, rest) \<Rightarrow> members j)"

definition string_field :: "string \<Rightarrow> (string \<times> json) list \<Rightarrow> string option" where
  "string_field name kvs = decode_field string_step name kvs []"

definition int_field :: "string \<Rightarrow> (string \<times> json) list \<Rightarrow> int option" where
  "int_field name kvs = decode_field int_step name kvs 0"

definition bool_field :: "string \<Rightarrow> (string \<times> json) list \<Rightarrow> bool option" where
  "bool_field name kvs = decode_field bool_step name kvs False"

definition decode_device :: "(string \<times> json) list \<Rightarrow> device_req option" where
  "decode_device kvs =
     (case (string_field ''device_token'' kvs, string_field ''ip_address'' kvs, string_field ''user_agent'' kvs,
            string_field ''os_name'' kvs, string_field ''os_version'' kvs, string_field ''browser_name'' kvs,
            string_field ''browser_version'' kvs) of
        (Some t, Some i, Some a, Some n, Some o', Some b, Some v) \<Rightarrow>
          Some \<lparr>DeviceToken = t, IPAddress = i, UserAgent = a, OSName = n, OSVersion = o',
                BrowserName = b, BrowserVersion = v\<rparr>
      | _ \<Rightarrow> None)"

definition decode_register :: "(string \<times> json) list \<Rightarrow> register_req option" where
  "decode_register kvs =
     (case (string_field ''name'' kvs, string_field ''mail'' kvs, string_field ''password'' kvs, decode_device kvs) of
        (Some n, Some m, Some p, Some d) \<Rightarrow>
          Some \<lparr>rg_name = n, rg_mail = m, rg_password = p, rg_device = d\<rparr>
      | _ \<Rightarrow> None)"

definition decode_login :: "(string \<times> json) list \<Rightarrow> login_req option" where
  "decode_login kvs =
     (case (string_field ''mail'' kvs, string_field ''password'' kvs, decode_device kvs) of
        (Some m, Some p, Some d) \<Rightarrow> Some \<lparr>lg_mail = m, lg_password = p, lg_device = d\<rparr>
      | _ \<Rightarrow> None)"

definition decode_code :: "(string \<times> json) list \<Rightarrow> code_req option" where
  "decode_code kvs =
     (case (string_field ''code'' kvs, decode_device kvs) of
        (Some c, Some d) \<Rightarrow> Some \<lparr>cq_code = c, cq_device = d\<rparr> | _ \<Rightarrow> None)"

definition decode_mail :: "(string \<times> json) list \<Rightarrow> mail_req option" where
  "decode_mail kvs =
     (case (string_field ''mail'' kvs, decode_device kvs) of
        (Some m, Some d) \<Rightarrow> Some \<lparr>mq_mail = m, mq_device = d\<rparr> | _ \<Rightarrow> None)"

definition decode_confirm :: "(string \<times> json) list \<Rightarrow> confirm_reset_req option" where
  "decode_confirm kvs =
     (case (string_field ''code'' kvs, string_field ''password'' kvs, decode_device kvs) of
        (Some c, Some p, Some d) \<Rightarrow> Some \<lparr>cr_code = c, cr_password = p, cr_device = d\<rparr>
      | _ \<Rightarrow> None)"

definition decode_user :: "(string \<times> json) list \<Rightarrow> user_req option" where
  "decode_user kvs =
     (case (string_field ''phone'' kvs, string_field ''mail'' kvs, decode_device kvs) of
        (Some p, Some m, Some d) \<Rightarrow> Some \<lparr>uq_phone = p, uq_mail = m, uq_device = d\<rparr>
      | _ \<Rightarrow> None)"

definition decode_details :: "(string \<times> json) list \<Rightarrow> details_req option" where
  "decode_details kvs =
     (case (string_field ''first_name'' kvs, string_field ''last_name'' kvs, decode_device kvs) of
        (Some f, Some l, Some d) \<Rightarrow> Some \<lparr>dq_first_name = f, dq_last_name = l, dq_device = d\<rparr>
      | _ \<Rightarrow> None)"

definition decode_settings :: "(string \<times> json) list \<Rightarrow> settings_req option" where
  "decode_settings kvs =
     (case (bool_field ''two_factor'' kvs, bool_field ''night_mode'' kvs, int_field ''second_factor_target_id'' kvs,
            decode_field (list_step (int_step 0)) ''notifications_target_device_ids'' kvs [], decode_device kvs) of
        (Some t, Some n, Some i, Some ids, Some d) \<Rightarrow>
          Some \<lparr>sq_two_factor = t, sq_night_mode = n, sq_target = i, sq_notify = ids, sq_device = d\<rparr>
      | _ \<Rightarrow> None)"

definition decode_location :: "(string \<times> json) list \<Rightarrow> location_req option" where
  "decode_location kvs =
     (case (string_field ''country'' kvs, string_field ''province'' kvs, string_field ''city'' kvs,
            string_field ''postal_code'' kvs, string_field ''street'' kvs, string_field ''building_number'' kvs,
            string_field ''apartment_number'' kvs, decode_device kvs) of
        (Some c, Some p, Some t, Some z, Some s, Some b, Some a, Some d) \<Rightarrow>
          Some \<lparr>lq_country = c, lq_province = p, lq_city = t, lq_postal_code = z, lq_street = s,
                lq_building_number = b, lq_apartment_number = a, lq_device = d\<rparr>
      | _ \<Rightarrow> None)"

definition decode_index :: "(string \<times> json) list \<Rightarrow> index_req option" where
  "decode_index kvs =
     (case (int_field ''page'' kvs, int_field ''page_size'' kvs, decode_device kvs) of
        (Some p, Some s, Some d) \<Rightarrow> Some \<lparr>ix_page = p, ix_page_size = s, ix_device = d\<rparr>
      | _ \<Rightarrow> None)"

definition decode_role :: "(string \<times> json) list \<Rightarrow> role_req option" where
  "decode_role kvs =
     (case (int_field ''user_id'' kvs, int_field ''role_id'' kvs, decode_device kvs) of
        (Some u, Some r, Some d) \<Rightarrow> Some \<lparr>rq_user_id = u, rq_role_id = r, rq_device = d\<rparr>
      | _ \<Rightarrow> None)"

record public_req =
  pq_id :: int
  pq_device :: device_req

definition decode_public :: "(string \<times> json) list \<Rightarrow> public_req option" where
  "decode_public kvs =
     (case (int_field ''id'' kvs, decode_device kvs) of
        (Some i, Some d) \<Rightarrow> Some \<lparr>pq_id = i, pq_device = d\<rparr> | _ \<Rightarrow> None)"

definition UserPublic_Valid :: "validator \<Rightarrow> public_req \<Rightarrow> error option" where
  "UserPublic_Valid v r = translateError
     (first_failure ''ID'' [(''required'', pq_id r \<noteq> 0), (''gt'', 0 < pq_id r)] @ device_failures v (pq_device r))"

definition Empty_Valid :: "validator \<Rightarrow> device_req \<Rightarrow> error option" where
  "Empty_Valid v r = translateError (device_failures v r)"

section \<open>The binding tags\<close>

definition device_bound :: "device_req \<Rightarrow> bool" where
  "device_bound d \<longleftrightarrow> DeviceToken d \<noteq> [] \<and> IPAddress d \<noteq> [] \<and> UserAgent d \<noteq> [] \<and> OSName d \<noteq> [] \<and>
     OSVersion d \<noteq> [] \<and> BrowserName d \<noteq> [] \<and> BrowserVersion d \<noteq> []"

text \<open>\<open>required,email\<close> and \<open>required,min=8\<close>.\<close>

definition mail_bound :: "(string \<Rightarrow> bool) \<Rightarrow> string \<Rightarrow> bool" where
  "mail_bound email_rule m \<longleftrightarrow> m \<noteq> [] \<and> email_rule m"

definition password_bound :: "string \<Rightarrow> bool" where
  "password_bound p \<longleftrightarrow> p \<noteq> [] \<and> 8 \<le> rune_count p"

definition bind_body ::
  "((string \<times> json) list \<Rightarrow> 'q option) \<Rightarrow> ('q \<Rightarrow> bool) \<Rightarrow> string \<Rightarrow> 'q option" where
  "bind_body decode bound body = Option.bind (body_members body) (\<lambda>kvs.
     Option.bind (decode kvs) (\<lambda>q. if bound q then Some q else None))"

definition bind_register :: "(string \<Rightarrow> bool) \<Rightarrow> string \<Rightarrow> register_req option" where
  "bind_register email_rule = bind_body decode_register (\<lambda>q. rg_name q \<noteq> [] \<and>
     3 \<le> rune_count (rg_name q) \<and> rune_count (rg_name q) \<le> 50 \<and> mail_bound email_rule (rg_mail q) \<and>
     password_bound (rg_password q) \<and> device_bound (rg_device q))"

definition bind_login :: "(string \<Rightarrow> bool) \<Rightarrow> string \<Rightarrow> login_req option" where
  "bind_login email_rule = bind_body decode_login (\<lambda>q. mail_bound email_rule (lg_mail q) \<and>
     password_bound (lg_password q) \<and> device_bound (lg_device q))"

definition bind_code :: "string \<Rightarrow> code_req option" where
  "bind_code = bind_body decode_code (\<lambda>q. cq_code q \<noteq> [] \<and> device_bound (cq_device q))"

definition bind_mail :: "(string \<Rightarrow> bool) \<Rightarrow> string \<Rightarrow> mail_req option" where
  "bind_mail email_rule = bind_body decode_mail (\<lambda>q. mail_bound email_rule (mq_mail q) \<and> device_bound (mq_device q))"

definition bind_confirm :: "string \<Rightarrow> confirm_reset_req option" where
  "bind_confirm = bind_body decode_confirm (\<lambda>q. cr_code q \<noteq> [] \<and> password_bound (cr_password q) \<and>
     device_bound (cr_device q))"

definition bind_user :: "(string \<Rightarrow> bool) \<Rightarrow> string \<Rightarrow> user_req option" where
  "bind_user email_rule = bind_body decode_user (\<lambda>q. uq_phone q \<noteq> [] \<and> mail_bound email_rule (uq_mail q) \<and>
     device_bound (uq_device q))"

definition bind_details :: "string \<Rightarrow> details_req option" where
  "bind_details = bind_body decode_details (\<lambda>q. dq_first_name q \<noteq> [] \<and> dq_last_name q \<noteq> [] \<and>
     device_bound (dq_device q))"

definition bind_settings :: "string \<Rightarrow> settings_req option" where
  "bind_settings = bind_body decode_settings (\<lambda>q. sq_target q \<noteq> 0 \<and> device_bound (sq_device q))"

definition bind_location :: "string \<Rightarrow> location_req option" where
  "bind_location = bind_body decode_location (\<lambda>q. lq_country q \<noteq> [] \<and> lq_province q \<noteq> [] \<and> lq_city q \<noteq> [] \<and>
     lq_postal_code q \<noteq> [] \<and> lq_building_number q \<noteq> [] \<and> device_bound (lq_device q))"

definition bind_index :: "string \<Rightarrow> index_req option" where
  "bind_index = bind_body decode_index (\<lambda>q. ix_page q \<noteq> 0 \<and> ix_page_size q \<noteq> 0 \<and> device_bound (ix_device q))"

definition bind_role :: "string \<Rightarrow> role_req option" where
  "bind_role = bind_body decode_role (\<lambda>q. rq_user_id q \<noteq> 0 \<and> rq_role_id q \<noteq> 0 \<and> device_bound (rq_device q))"

definition bind_public :: "string \<Rightarrow> public_req option" where
  "bind_public = bind_body decode_public (\<lambda>q. pq_id q \<noteq> 0 \<and> device_bound (pq_device q))"

definition bind_empty :: "string \<Rightarrow> device_req option" where
  "bind_empty = bind_body decode_device device_bound"

section \<open>Round trips\<close>

text \<open>The bodies a client sends for a login and a registration.\<close>

definition device_doc :: "device_req \<Rightarrow> (string \<times> json) list" where
  "device_doc d = [(''device_token'', JStr (DeviceToken d)), (''ip_address'', JStr (IPAddress d)),
     (''user_agent'', JStr (UserAgent d)), (''os_name'', JStr (OSName d)), (''os_version'', JStr (OSVersion d)),
     (''browser_name'', JStr (BrowserName d)), (''browser_version'', JStr (BrowserVersion d))]"

definition login_doc :: "login_req \<Rightarrow> json" where
  "login_doc l = JObj ([(''mail'', JStr (lg_mail l)), (''password'', JStr (lg_password l))] @ device_doc (lg_device l))"

definition register_doc :: "register_req \<Rightarrow> json" where
  "register_doc r = JObj ([(''name'', JStr (rg_name r)), (''mail'', JStr (rg_mail r)),
     (''password'', JStr (rg_password r))] @ device_doc (rg_device r))"

lemma body_members_print: "integral (JObj kvs) \<Longrightarrow> body_members (print_json (JObj kvs)) = Some kvs"
  using readsD [OF reads_all, of "JObj kvs" "Suc (length (print_json (JObj kvs)))" "[]"]
  by (simp add: body_members_def stops_def)

definition field_names :: "string list" where
  "field_names = [''name'', ''mail'', ''password'', ''device_token'', ''ip_address'',
     ''user_agent'', ''os_name'', ''os_version'', ''browser_name'', ''browser_version'']"

lemma lower_names: "list_all (\<lambda>n. map lower_char n = n) field_names"
  by code_simp

lemma same_key_fields:
  "k \<in> set field_names \<Longrightarrow> n \<in> set field_names \<Longrightarrow> same_key k n \<longleftrightarrow> k = n"
  using lower_names by (simp add: same_key_def list_all_iff)

lemma known_fields [simp]:
  "''name'' \<in> set field_names" "''mail'' \<in> set field_names"
  "''password'' \<in> set field_names" "''device_token'' \<in> set field_names"
  "''ip_address'' \<in> set field_names" "''user_agent'' \<in> set field_names"
  "''os_name'' \<in> set field_names" "''os_version'' \<in> set field_names"
  "''browser_name'' \<in> set field_names" "''browser_version'' \<in> set field_names"
  by (simp_all add: field_names_def)

lemma decode_device_doc:
  "list_all (\<lambda>(k, v). k \<in> {''name'', ''mail'', ''password''}) kvs \<Longrightarrow> decode_device (kvs @ device_doc d) = Some d"
proof -
  assume "list_all (\<lambda>(k, v). k \<in> {''name'', ''mail'', ''password''}) kvs"
  then have "string_field n (kvs @ device_doc d) = string_field n (device_doc d)"
    if "n \<in> {''device_token'', ''ip_address'', ''user_agent'', ''os_name'', ''os_version'', ''browser_name'', ''browser_version''}" for n
    using that by (induction kvs) (auto simp: string_field_def same_key_fields)
  moreover have "decode_device (device_doc d) = Some d"
    by (simp add: decode_device_def device_doc_def string_field_def same_key_fields)
  ultimately show ?thesis by (simp add: decode_device_def)
qed

lemma credential_field:
  assumes "n \<in> {''name'', ''mail'', ''password''}"
  shows "decode_field string_step n (device_doc d) x = Some x"
  using assms by (auto simp: device_doc_def same_key_fields)

lemma decode_docs:
  "decode_login ((''mail'', JStr m) # (''password'', JStr p) # device_doc d) =
     Some \<lparr>lg_mail = m, lg_password = p, lg_device = d\<rparr>"
  "decode_register ((''name'', JStr n) # (''mail'', JStr m) # (''password'', JStr p) # device_doc d) =
     Some \<lparr>rg_name = n, rg_mail = m, rg_password = p, rg_device = d\<rparr>"
  using decode_device_doc [of "[(''mail'', JStr m), (''password'', JStr p)]" d]
    decode_device_doc [of "[(''name'', JStr n), (''mail'', JStr m), (''password'', JStr p)]" d]
  by (simp_all add: decode_login_def decode_register_def string_field_def same_key_fields credential_field)

lemma integral_device: "list_all snd (map (map_prod id integral) (device_doc d))"
  by (simp add: device_doc_def)

lemma bind_login_doc:
  "mail_bound email_rule (lg_mail l) \<Longrightarrow> password_bound (lg_password l) \<Longrightarrow> device_bound (lg_device l) \<Longrightarrow>
   bind_login email_rule (print_json (login_doc l)) = Some l"
  by (simp add: bind_login_def bind_body_def login_doc_def body_members_print decode_docs integral_device)


end
