(* ===== verification/Responses.thy ===== *)
theory Responses imports Cache_Store begin

text \<open>
  What the controllers answer with (app/models/responses), as values and as the JSON that
  \<open>encoding/json\<close> makes of them: the struct tags of the responses and of the ent entities
  they embed (app/models/ent). A time prints as the environment prints it, a float as the
  parameter \<open>float_doc\<close> does.
\<close>

section \<open>Values\<close>

record user_public =
  up_id :: int
  up_active :: bool
  up_verified :: bool
  up_blacklisted :: bool
  up_removed :: bool
  up_created_at :: int
  up_updated_at :: int

definition FromUserPublic :: "user \<Rightarrow> user_public" where
  "FromUserPublic u = \<lparr>up_id = uid u, up_active = u_active (usr u), up_verified = u_verified (usr u),
     up_blacklisted = u_blacklisted (usr u), up_removed = u_removed (usr u),
     up_created_at = u_created_at (usr u), up_updated_at = u_updated_at (usr u)\<rparr>"

fun FromUsers :: "user list \<Rightarrow> user_public list \<Rightarrow> user_public list" where
  "FromUsers [] res = res"
| "FromUsers (u # us) res = FromUsers us (res @
     [\<lparr>up_id = uid u, up_active = u_active (usr u), up_verified = u_verified (usr u),
       up_blacklisted = u_blacklisted (usr u), up_removed = u_removed (usr u),
       up_created_at = u_created_at (usr u), up_updated_at = u_updated_at (usr u)\<rparr>])"

record user_private =
  ur_token :: string
  ur_mail :: string
  ur_phone :: string
  ur_first_name :: string
  ur_last_name :: string
  ur_name :: string
  ur_locations :: "location_row list"
  ur_entrepreneur :: "entrepreneur_row option"
  ur_settings :: "settings_ent option"
  ur_public :: user_public

definition text_or_empty :: "string option \<Rightarrow> string" where
  "text_or_empty v = (case v of None \<Rightarrow> [] | Some s \<Rightarrow> s)"

text \<open>A nil user, and a user whose details were not loaded, give the nil response.\<close>

definition FromUserPrivate :: "user option \<Rightarrow> string list \<Rightarrow> user_private option" where
  "FromUserPrivate user token =
     (case user of None \<Rightarrow> None
      | Some u \<Rightarrow> (case e_details u of None \<Rightarrow> None
          | Some d \<Rightarrow> Some \<lparr>ur_token = (if token \<noteq> [] then hd token else []), ur_mail = mail_of u,
              ur_phone = phone_of u, ur_first_name = text_or_empty (dt_first_name (de_row d)),
              ur_last_name = text_or_empty (dt_last_name (de_row d)), ur_name = dt_name (de_row d),
              ur_locations = de_locations d, ur_entrepreneur = de_entrepreneur d,
              ur_settings = e_settings u, ur_public = FromUserPublic u\<rparr>))"

section \<open>Documents\<close>

type_synonym fields = "(string \<times> json) list"

definition time_doc :: "'r env \<Rightarrow> int \<Rightarrow> json" where
  "time_doc env t = JStr (rfc3339 env t)"

definition public_fields :: "'r env \<Rightarrow> user_public \<Rightarrow> fields" where
  "public_fields env p = [(''id'', JNum (up_id p)), (''active'', JBool (up_active p)),
     (''verified'', JBool (up_verified p)), (''blacklisted'', JBool (up_blacklisted p)),
     (''removed'', JBool (up_removed p)), (''created_at'', time_doc env (up_created_at p)),
     (''updated_at'', time_doc env (up_updated_at p))]"

definition users_doc :: "'r env \<Rightarrow> user_public list \<Rightarrow> json" where
  "users_doc env us = JObj [(''Users'', JArr (map (\<lambda>p. JObj (public_fields env p)) us))]"

text \<open>\<open>omitempty\<close> on a string.\<close>

definition optional_text :: "string \<Rightarrow> string \<Rightarrow> fields" where
  "optional_text name s = (if s = [] then [] else [(name, JStr s)])"

text \<open>A user without loaded edges; its password is tagged \<open>json:"-"\<close>.\<close>

definition user_row_doc :: "'r env \<Rightarrow> user_row \<Rightarrow> json" where
  "user_row_doc env u = JObj [(''id'', JNum (u_id u)), (''mail'', JStr (u_mail u)),
     (''phone'', JStr (text_or_empty (u_phone u))), (''active'', JBool (u_active u)),
     (''verified'', JBool (u_verified u)), (''blacklisted'', JBool (u_blacklisted u)),
     (''removed'', JBool (u_removed u)), (''created_at'', time_doc env (u_created_at u)),
     (''updated_at'', time_doc env (u_updated_at u)),
     (''subscription_ids'', JArr (map JNum (u_subscription_ids u))),
     (''team_ids'', JArr (map JNum (u_team_ids u))),
     (''organization_ids'', JArr (map JNum (u_organization_ids u))),
     (''edges'', JObj [(''user_details'', JNull), (''user_settings'', JNull), (''user_devices'', JNull),
        (''user_roles'', JNull), (''blacklisted_tokens'', JNull)])]"

definition device_row_doc :: "'r env \<Rightarrow> device_row \<Rightarrow> json" where
  "device_row_doc env v = JObj ([(''id'', JNum (dv_id v)), (''name'', JStr (text_or_empty (dv_name v))),
     (''type'', JStr (text_or_empty (dv_type v))), (''token'', JStr (dv_token v))] @
     optional_text ''ip_address'' (text_or_empty (dv_ip_address v)) @
     optional_text ''user_agent'' (text_or_empty (dv_user_agent v)) @
     optional_text ''os_name'' (text_or_empty (dv_os_name v)) @
     optional_text ''os_version'' (text_or_empty (dv_os_version v)) @
     optional_text ''browser_name'' (text_or_empty (dv_browser_name v)) @
     optional_text ''browser_version'' (text_or_empty (dv_browser_version v)) @
     [(''last_seen_at'', time_doc env (dv_last_seen_at v)), (''created_at'', time_doc env (dv_created_at v)),
      (''updated_at'', time_doc env (dv_updated_at v)),
      (''edges'', JObj [(''owner'', JNull), (''second_factor_codes'', JNull), (''user_actions'', JNull)])])"

definition settings_doc :: "'r env \<Rightarrow> settings_ent \<Rightarrow> json" where
  "settings_doc env s = (let r = se_row s in JObj [(''id'', JNum (st_id r)), (''uuid'', JStr (st_uuid r)),
     (''two_factor'', JBool (st_two_factor r)), (''night_mode'', JBool (st_night_mode r)),
     (''created_at'', time_doc env (st_created_at r)), (''updated_at'', time_doc env (st_updated_at r)),
     (''edges'', JObj ((''owner'', case se_owner s of None \<Rightarrow> JNull | Some u \<Rightarrow> user_row_doc env u) #
        (case se_target s of None \<Rightarrow> [] | Some v \<Rightarrow> [(''second_factor_target'', device_row_doc env v)])))])"

definition location_doc :: "'r env \<Rightarrow> location_row \<Rightarrow> json" where
  "location_doc env l = JObj [(''id'', JNum (lc_id l)), (''country'', JStr (lc_country l)),
     (''province'', JStr (lc_province l)), (''city'', JStr (lc_city l)),
     (''postal_code'', JStr (lc_postal_code l)), (''street'', JStr (text_or_empty (lc_street l))),
     (''building_number'', JNum (lc_building_number l)), (''apartment_number'', JNum (lc_apartment_number l)),
     (''created_at'', time_doc env (lc_created_at l)), (''updated_at'', time_doc env (lc_updated_at l)),
     (''edges'', JObj [(''user_details'', JNull)])]"

text \<open>A pointer field is null when the column is; a value field is the zero value.\<close>

definition nullable_text :: "string option \<Rightarrow> json" where
  "nullable_text v = (case v of None \<Rightarrow> JNull | Some s \<Rightarrow> JStr s)"

definition entrepreneur_doc :: "'r env \<Rightarrow> (rat \<Rightarrow> json) \<Rightarrow> entrepreneur_row \<Rightarrow> json" where
  "entrepreneur_doc env float_doc e = JObj [(''id'', JNum (en_id e)),
     (''business_name'', JStr (text_or_empty (en_business_name e))), (''nip'', JStr (text_or_empty (en_nip e))),
     (''krs'', JStr (text_or_empty (en_krs e))), (''description'', nullable_text (en_description e)),
     (''offer'', nullable_text (en_offer e)),
     (''income'', float_doc (case en_income e of None \<Rightarrow> 0 | Some x \<Rightarrow> x)),
     (''costs'', float_doc (case en_costs e of None \<Rightarrow> 0 | Some x \<Rightarrow> x)),
     (''funding_capital'', case en_funding_capital e of None \<Rightarrow> JNull | Some x \<Rightarrow> float_doc x),
     (''industry'', JStr (text_or_empty (en_industry e))),
     (''management_council_members'', JArr (map JStr (en_council e))),
     (''decision_makers'', JArr (map JStr (en_decision_makers e))),
     (''business_phone_number'', JStr (text_or_empty (en_phone e))),
     (''business_mail'', nullable_text (en_mail e)), (''website_address'', nullable_text (en_website e)),
     (''created_at'', time_doc env (en_created_at e)), (''updated_at'', time_doc env (en_updated_at e)),
     (''edges'', JObj [(''user_details'', JNull)])]"

text \<open>The tag of \<open>Locations\<close> lacks its quotes, so the field keeps its Go name and is never
  left out; the embedded public part comes last.\<close>

definition private_doc :: "'r env \<Rightarrow> (rat \<Rightarrow> json) \<Rightarrow> user_private \<Rightarrow> json" where
  "private_doc env float_doc p = JObj (optional_text ''token'' (ur_token p) @ [(''mail'', JStr (ur_mail p))] @
     optional_text ''phone'' (ur_phone p) @ optional_text ''first_name'' (ur_first_name p) @
     optional_text ''last_name'' (ur_last_name p) @ optional_text ''name'' (ur_name p) @
     [(''Locations'', JArr (map (location_doc env) (ur_locations p)))] @
     (case ur_entrepreneur p of None \<Rightarrow> [] | Some e \<Rightarrow> [(''entrepreneur_details'', entrepreneur_doc env float_doc e)]) @
     (case ur_settings p of None \<Rightarrow> [] | Some s \<Rightarrow> [(''settings'', settings_doc env s)]) @
     public_fields env (ur_public p))"

text \<open>A nil pointer inside the \<open>interface{}\<close> of a response is not the nil interface: it
  prints as \<open>null\<close> and \<open>omitempty\<close> does not leave it out.\<close>

definition private_data :: "'r env \<Rightarrow> (rat \<Rightarrow> json) \<Rightarrow> user_private option \<Rightarrow> json" where
  "private_data env float_doc p = (case p of None \<Rightarrow> JNull | Some x \<Rightarrow> private_doc env float_doc x)"

definition SuccessResponse :: "json \<Rightarrow> string \<Rightarrow> json" where
  "SuccessResponse data requestID = JObj ([(''status'', JStr ''success''), (''data'', data)] @
     optional_text ''request_id'' requestID)"

definition ErrorResponse :: "string \<Rightarrow> string \<Rightarrow> json" where
  "ErrorResponse errMsg requestID = JObj ([(''status'', JStr ''failure''), (''error'', JStr errMsg)] @
     optional_text ''request_id'' requestID)"

text \<open>The checks the response types carry.\<close>

definition ErrorResponse_Valid :: "string \<Rightarrow> string \<Rightarrow> error option" where
  "ErrorResponse_Valid status err = (if status = [] \<or> err = [] then Some (EMsg ''no data provided'') else None)"

definition SuccessResponse_Valid :: "string \<Rightarrow> error option" where
  "SuccessResponse_Valid status = (if status = [] then Some (EMsg ''no status provided'') else None)"

section \<open>Lemmas\<close>

lemma FromUsers_map: "FromUsers us res = res @ map FromUserPublic us"
  by (induction us arbitrary: res) (auto simp: FromUserPublic_def)

text \<open>The same account with another stored hash and other codes.\<close>

definition with_secrets ::
  "string \<Rightarrow> code_row option \<Rightarrow> code_row option \<Rightarrow> code_row option \<Rightarrow> second_factor_ent option \<Rightarrow> user \<Rightarrow> user" where
  "with_secrets pw activation verification reset factor u =
     u\<lparr>usr := (usr u)\<lparr>u_password := pw\<rparr>, e_activation := activation, e_verification := verification,
       e_reset := reset, e_second_factor := factor,
       e_settings := map_option (\<lambda>s. s\<lparr>se_owner := map_option (\<lambda>r. r\<lparr>u_password := pw\<rparr>) (se_owner s)\<rparr>)
         (e_settings u)\<rparr>"

lemma settings_doc_owner:
  "settings_doc env (s\<lparr>se_owner := map_option (\<lambda>r. r\<lparr>u_password := pw\<rparr>) (se_owner s)\<rparr>) = settings_doc env s"
  by (simp add: settings_doc_def user_row_doc_def Let_def split: option.splits)

text \<open>C17: no response tells a secret. The private, the public and the list responses made of an
  account do not depend on its stored password hash, nor on the hash that the owner inside its
  settings carries, nor on any of its codes: replacing them all leaves every answer as it was.\<close>

theorem responses_hide_secrets:
  "private_data env float_doc (FromUserPrivate (Some (with_secrets pw a v r s u)) token) =
     private_data env float_doc (FromUserPrivate (Some u) token) \<and>
   FromUserPublic (with_secrets pw a v r s u) = FromUserPublic u \<and>
   users_doc env (FromUsers (map (with_secrets pw a v r s) us) []) = users_doc env (FromUsers us [])"
proof -
  have pub: "FromUserPublic (with_secrets pw a v r s u) = FromUserPublic u" for u
    by (simp add: FromUserPublic_def with_secrets_def uid_def)
  then have us: "map FromUserPublic (map (with_secrets pw a v r s) us) = map FromUserPublic us" by simp
  have edges: "e_details (with_secrets pw a v r s u) = e_details u"
    "mail_of (with_secrets pw a v r s u) = mail_of u" "phone_of (with_secrets pw a v r s u) = phone_of u"
    "e_settings (with_secrets pw a v r s u) = map_option (\<lambda>x. x\<lparr>se_owner :=
       map_option (\<lambda>o'. o'\<lparr>u_password := pw\<rparr>) (se_owner x)\<rparr>) (e_settings u)"
    by (simp_all add: with_secrets_def mail_of_def phone_of_def)
  have "private_data env float_doc (FromUserPrivate (Some (with_secrets pw a v r s u)) token) =
      private_data env float_doc (FromUserPrivate (Some u) token)"
    by (cases "e_settings u")
      (auto simp: FromUserPrivate_def edges pub private_data_def private_doc_def settings_doc_owner
        split: option.splits)
  then show ?thesis using pub us by (simp add: FromUsers_map del: map_map)
qed

end
