(* ===== verification/Http.thy ===== *)
theory Http imports Responses Bodies Rate_Limiter Auth_Service begin

text \<open>
  The HTTP layer below the controllers: the values the middlewares leave in the gin context
  and the accessors of app/utils/auth_utils.go, app/utils/controller_utils.go and
  app/controllers/handlers.go, the middlewares of app/middlewares, the responses, and the
  two generic handlers of app/controllers/handlers.go. A middleware is a function of the
  rest of its chain: calling it is \<open>ctx.Next()\<close>, not calling it is an abort. Of gin itself
  only its documented contract is used: the handlers of a chain run in the order they were
  registered, a second \<open>Next\<close> finds nothing left to run, and the default engine answers a
  panic with status 500.
\<close>

section \<open>Requests, the context and the server\<close>

record http_request =
  hr_method :: string
  hr_path :: string
  hr_full_path :: string
  hr_headers :: "(string \<times> string list) list"
  hr_length :: int
  hr_client_ip :: string
  hr_body :: string

text \<open>\<open>Header.Get\<close>: the first value of the canonical name, or the empty string.\<close>

definition header :: "string \<Rightarrow> http_request \<Rightarrow> string" where
  "header name req = (case map_of (hr_headers req) name of Some (v # _) \<Rightarrow> v | _ \<Rightarrow> [])"

text \<open>The dynamic types the accessors distinguish.\<close>

datatype go_value = VInt int | VFloat rat | VString string | VRoles "role_info list" | VAny "json list"

type_synonym keys = "string \<rightharpoonup> go_value"

definition GetRequestID :: "keys \<Rightarrow> string" where
  "GetRequestID ctx = (case ctx ''RequestID'' of Some (VString s) \<Rightarrow> s | _ \<Rightarrow> [])"

text \<open>A float converts by truncation.\<close>

definition GetUserID :: "keys \<Rightarrow> int" where
  "GetUserID ctx = (case ctx ''UserID'' of
      Some (VInt i) \<Rightarrow> i
    | Some (VFloat x) \<Rightarrow> (if 0 \<le> x then floor x else ceiling x)
    | _ \<Rightarrow> 0)"

definition BindRoles :: "keys \<Rightarrow> role_info list" where
  "BindRoles ctx = (case ctx ''UserRoles'' of
      Some (VRoles rs) \<Rightarrow> rs
    | Some (VAny js) \<Rightarrow> (case decode_all role_of_json js of None \<Rightarrow> [] | Some rs \<Rightarrow> rs)
    | _ \<Rightarrow> [])"

definition GetToken :: "keys \<Rightarrow> string" where
  "GetToken ctx = (case ctx ''Token'' of Some (VString s) \<Rightarrow> s | _ \<Rightarrow> [])"

definition getUserIDFromContext :: "keys \<Rightarrow> error + int" where
  "getUserIDFromContext ctx = (case ctx ''UserID'' of
      None \<Rightarrow> Inl (EMsg ''UserID not found in context'')
    | Some (VInt i) \<Rightarrow> Inr i
    | Some v \<Rightarrow> Inl (EIO ''UserID in context is not of type int''))"

record reply =
  rp_status :: int
  rp_headers :: "(string \<times> string) list"
  rp_body :: "json option"

definition json_reply :: "int \<Rightarrow> json \<Rightarrow> reply" where
  "json_reply status body = \<lparr>rp_status = status, rp_headers = [], rp_body = Some body\<rparr>"

text \<open>\<open>Writer.Size\<close>: -1 when nothing was written.\<close>

definition reply_size :: "reply \<Rightarrow> int" where
  "reply_size r = (case rp_body r of None \<Rightarrow> -1 | Some b \<Rightarrow> int (length (print_json b)))"

record metrics =
  CacheMisses :: nat
  CacheHits :: nat
  ActiveRequests :: int
  ErrorRate :: "string \<times> string \<Rightarrow> nat"
  SuccessRate :: "string \<times> string \<Rightarrow> nat"
  HttpRequestCountWithPath :: "string \<Rightarrow> nat"
  HttpRequestStatusCode :: "string \<times> string \<Rightarrow> nat"
  HttpRequestSize :: "(string \<times> int) list"
  HttpResponseSize :: "(string \<times> int) list"

datatype log_line = LogIncoming string | LogInfo int | LogWarn int | LogError int

record 'r server =
  sv_world :: "'r world"
  sv_tracker :: tracker
  sv_metrics :: metrics
  sv_log :: "log_line list"

type_synonym 'r serve = "keys \<Rightarrow> ('r server, reply) io"

definition on_world :: "('r world, 'a) io \<Rightarrow> ('r server, 'a) io" where
  "on_world m = zoom sv_world (\<lambda>w s. s\<lparr>sv_world := w\<rparr>) m"

interpretation server: lens sv_world "\<lambda>w s. s\<lparr>sv_world := w\<rparr>"
  by unfold_locales simp_all

definition change :: "('r server \<Rightarrow> 'r server) \<Rightarrow> ('r server, unit) io" where
  "change f = (\<lambda>s. (Ok (), f s))"

text \<open>A server that has just started: \<open>NewApp\<close> makes the tracker with \<open>NewRequestTracker(40)\<close>.\<close>

definition idle_metrics :: metrics where
  "idle_metrics = \<lparr>CacheMisses = 0, CacheHits = 0, ActiveRequests = 0, ErrorRate = (\<lambda>_. 0),
     SuccessRate = (\<lambda>_. 0), HttpRequestCountWithPath = (\<lambda>_. 0), HttpRequestStatusCode = (\<lambda>_. 0),
     HttpRequestSize = [], HttpResponseSize = []\<rparr>"

definition server_of :: "'r world \<Rightarrow> 'r server" where
  "server_of w = \<lparr>sv_world = w, sv_tracker = NewRequestTracker 40, sv_metrics = idle_metrics, sv_log = []\<rparr>"

section \<open>Middlewares\<close>

definition RequestAuthenticationMiddleware :: "'r env \<Rightarrow> 'r serve \<Rightarrow> 'r serve" where
  "RequestAuthenticationMiddleware env next ctx =
     andthen (on_world (new_uuid env)) (\<lambda>requestID. next (ctx(''RequestID'' \<mapsto> VString requestID)))"

definition UpdateCacheHitRatioMetrics :: "'r env \<Rightarrow> http_request \<Rightarrow> 'r serve \<Rightarrow> 'r serve" where
  "UpdateCacheHitRatioMetrics env req next ctx =
     andthen (attempt (on_world (redis_Get env (hr_path req)))) (\<lambda>r. case r of
       Inl err \<Rightarrow>
         if err = ERedisNil
         then andthen (change (sv_metrics_update (CacheMisses_update Suc))) (\<lambda>_. next ctx)
         else next ctx
     | Inr v \<Rightarrow> andthen (change (sv_metrics_update (CacheHits_update Suc))) (\<lambda>_. ret (json_reply 200 (JObj []))))"

fun header_size :: "(string \<times> string list) list \<Rightarrow> int \<Rightarrow> int" where
  "header_size [] n = n"
| "header_size ((key, values) # hs) n =
     header_size hs (foldl (\<lambda>m v. m + int (length v)) (n + int (length key)) values)"

definition record_request :: "http_request \<Rightarrow> reply \<Rightarrow> metrics \<Rightarrow> metrics" where
  "record_request req r m =
     (let p = hr_full_path req; status = itoa (rp_status r);
          requestSize = header_size (hr_headers req) 0 + (if hr_length req < 0 then 0 else hr_length req);
          m1 = (if \<not> IsSuccessStatusCode (rp_status r)
                then m\<lparr>ErrorRate := (ErrorRate m)((p, status) := ErrorRate m (p, status) + 1)\<rparr>
                else m\<lparr>SuccessRate := (SuccessRate m)((p, status) := SuccessRate m (p, status) + 1)\<rparr>)
      in m1\<lparr>HttpRequestCountWithPath := (HttpRequestCountWithPath m)(p := HttpRequestCountWithPath m p + 1),
            HttpRequestStatusCode := (HttpRequestStatusCode m)((p, status) := HttpRequestStatusCode m (p, status) + 1),
            HttpRequestSize := HttpRequestSize m @ [(p, requestSize)],
            HttpResponseSize := HttpResponseSize m @ [(p, reply_size r)]\<rparr>)"

text \<open>The decrement is deferred, so it also runs when a handler panics; the rest is not.\<close>

definition UpdateServerMetrics :: "http_request \<Rightarrow> 'r serve \<Rightarrow> 'r serve" where
  "UpdateServerMetrics req next ctx = (\<lambda>s.
     case next ctx (sv_metrics_update (ActiveRequests_update (\<lambda>n. n + 1)) s) of
       (Ok r, s') \<Rightarrow> (Ok r, sv_metrics_update (\<lambda>m. ActiveRequests_update (\<lambda>n. n - 1) (record_request req r m)) s')
     | (x, s') \<Rightarrow> (x, sv_metrics_update (ActiveRequests_update (\<lambda>n. n - 1)) s'))"

definition log_line :: "log_line \<Rightarrow> ('r server, unit) io" where
  "log_line l = change (sv_log_update (\<lambda>ls. ls @ [l]))"

definition log_level :: "int \<Rightarrow> log_line" where
  "log_level status = (if status \<ge> 500 then LogError status else if status \<ge> 400 then LogWarn status else LogInfo status)"

text \<open>Without a request identifier \<open>Next\<close> is called first and again after the first line, when
  nothing is left to run.\<close>

definition Log :: "http_request \<Rightarrow> 'r serve \<Rightarrow> 'r serve" where
  "Log req next ctx =
     (if GetRequestID ctx = [] then
        andthen (next ctx) (\<lambda>r. andthen (log_line (LogIncoming (hr_path req))) (\<lambda>_.
        andthen (log_line (log_level (rp_status r))) (\<lambda>_. ret r)))
      else
        andthen (log_line (LogIncoming (hr_path req))) (\<lambda>_. andthen (next ctx) (\<lambda>r.
        andthen (log_line (log_level (rp_status r))) (\<lambda>_. ret r))))"

definition MetricsCORS :: "string \<Rightarrow> http_request \<Rightarrow> 'r serve \<Rightarrow> 'r serve" where
  "MetricsCORS prometheusURL req next ctx =
     (let hs = [(''Access-Control-Allow-Origin'', prometheusURL), (''Access-Control-Allow-Methods'', ''GET''),
                (''Access-Control-Allow-Headers'', ''Origin, Content-Type, Authorization'')]
      in if hr_method req = ''CONNECT'' then ret \<lparr>rp_status = 400, rp_headers = hs, rp_body = None\<rparr>
         else andthen (next ctx) (\<lambda>r. ret (r\<lparr>rp_headers := hs @ rp_headers r\<rparr>)))"

definition Limit :: "'r env \<Rightarrow> http_request \<Rightarrow> 'r serve \<Rightarrow> 'r serve" where
  "Limit env req next ctx =
     andthen (on_world (time_now env)) (\<lambda>now. \<lambda>s.
       case LimitRequestsMiddleware (hr_client_ip req) (header ''User-Agent'' req) now (sv_tracker s) of
         (Abort status body, t) \<Rightarrow> (Ok (json_reply status body), s\<lparr>sv_tracker := t\<rparr>)
       | (Next, t) \<Rightarrow> next ctx (s\<lparr>sv_tracker := t\<rparr>))"

text \<open>The recovery of the default engine.\<close>

definition Recovery :: "'r serve \<Rightarrow> 'r serve" where
  "Recovery next ctx = (\<lambda>s. case next ctx s of
      (Panic, s') \<Rightarrow> (Ok \<lparr>rp_status = 500, rp_headers = [], rp_body = None\<rparr>, s')
    | (x, s') \<Rightarrow> (x, s'))"

section \<open>Authentication\<close>

definition extractBearerToken :: "http_request \<Rightarrow> error + string" where
  "extractBearerToken req =
     (let authHeader = header ''Authorization'' req in
      if authHeader = [] then Inl (EMsg ''authorization header is missing'')
      else if \<not> has_prefix authHeader ''Bearer '' then
        Inl (EMsg ''invalid authorization header format, 'Bearer ' prefix is missing'')
      else let tokenStr = trim_prefix authHeader ''Bearer '' in
        if tokenStr = [] then Inl (EMsg ''token is empty'') else Inr tokenStr)"

definition token_key :: "string \<Rightarrow> string" where
  "token_key tokenStr = ''auth:token:'' @ tokenStr"

definition unauthorized :: "string \<Rightarrow> reply" where
  "unauthorized msg = json_reply 401 (JObj [(''error'', JStr msg), (''status'', JStr ''failure'')])"

definition with_claims :: "claims \<Rightarrow> string \<Rightarrow> keys \<Rightarrow> keys" where
  "with_claims c tokenStr ctx = ctx(''UserID'' \<mapsto> VInt (cl_user_id c), ''UserRoles'' \<mapsto> VRoles (cl_user_roles c),
     ''Token'' \<mapsto> VString tokenStr)"

text \<open>The claims the cache holds for a token, if there are any that have not expired. The
  deletion of an expired entry runs in the background.\<close>

definition handleCachedAuth :: "'r env \<Rightarrow> registered_codec \<Rightarrow> string \<Rightarrow> ('r world, claims option) io" where
  "handleCachedAuth env rc tokenStr =
     andthen (attempt (CacheStore_Get env (token_key tokenStr))) (\<lambda>got. case got of
       Inl err \<Rightarrow> ret None
     | Inr cachedData \<Rightarrow> andthen (attempt (DecacheClaims env rc cachedData)) (\<lambda>dec. case dec of
           Inl err \<Rightarrow> ret None
         | Inr claims \<Rightarrow> (case cl_expires_at claims of
               None \<Rightarrow> ret (Some claims)
             | Some e \<Rightarrow> andthen (time_now env) (\<lambda>now.
                 if unix e \<le> unix now
                 then andthen (attempt (CacheStore_Del env (token_key tokenStr))) (\<lambda>_. ret None)
                 else ret (Some claims)))))"

definition cacheValidClaims :: "'r env \<Rightarrow> registered_codec \<Rightarrow> claims \<Rightarrow> string \<Rightarrow> ('r world, unit) io" where
  "cacheValidClaims env rc claims tokenStr =
     CacheStore_Set env (token_key tokenStr) (marshal_claims rc claims) (5 * minute)"

definition handleJWTValidation ::
  "'r env \<Rightarrow> registered_codec \<Rightarrow> (string \<Rightarrow> ('r world, claims) io) \<Rightarrow> string \<Rightarrow> 'r serve \<Rightarrow> 'r serve" where
  "handleJWTValidation env rc validate tokenStr next ctx =
     andthen (attempt (on_world (validate tokenStr))) (\<lambda>r. case r of
       Inl err \<Rightarrow> ret (unauthorized ''invalid token'')
     | Inr claims \<Rightarrow>
         andthen (attempt (on_world (cacheValidClaims env rc claims tokenStr))) (\<lambda>_.
         next (with_claims claims tokenStr ctx)))"

text \<open>\<open>Error()\<close>: the errors of the service's own packages, and of the client where its text is in
  app/models/ent/ent.go; the other texts are the libraries'.\<close>

fun error_text :: "(error \<Rightarrow> string) \<Rightarrow> error \<Rightarrow> string" where
  "error_text lib (EMsg s) = s"
| "error_text lib ERedisNil = ''redis: nil''"
| "error_text lib (ENotFound label) = ''ent: '' @ label @ '' not found''"
| "error_text lib (ENotSingular label) = ''ent: '' @ label @ '' not singular''"
| "error_text lib (EWrap s e) =
     (if s = ''failed to rollback transaction'' then lib (EWrap s e) else s @ '': '' @ error_text lib e)"
| "error_text lib e = lib e"

definition UserAuthenticationMiddleware ::
  "'r env \<Rightarrow> registered_codec \<Rightarrow> (string \<Rightarrow> ('r world, claims) io) \<Rightarrow> http_request \<Rightarrow> 'r serve \<Rightarrow> 'r serve" where
  "UserAuthenticationMiddleware env rc validate req next ctx =
     (case extractBearerToken req of
        Inl err \<Rightarrow> ret (unauthorized (error_text (\<lambda>_. []) err))
      | Inr tokenStr \<Rightarrow> andthen (on_world (handleCachedAuth env rc tokenStr)) (\<lambda>cached. case cached of
            Some claims \<Rightarrow> next (with_claims claims tokenStr ctx)
          | None \<Rightarrow> handleJWTValidation env rc validate tokenStr next ctx))"

section \<open>The generic handlers\<close>

definition RespondFailure :: "keys \<Rightarrow> int \<Rightarrow> string \<Rightarrow> ('r server, reply) io" where
  "RespondFailure ctx statusCode errMsg = ret (json_reply statusCode (ErrorResponse errMsg (GetRequestID ctx)))"

definition RespondSuccess :: "keys \<Rightarrow> int \<Rightarrow> json \<Rightarrow> ('r server, reply) io" where
  "RespondSuccess ctx statusCode data = ret (json_reply statusCode (SuccessResponse data (GetRequestID ctx)))"

definition handleStandardRequest ::
  "(error \<Rightarrow> string) \<Rightarrow> (string \<Rightarrow> 'q option) \<Rightarrow> ('q \<Rightarrow> error option) \<Rightarrow> ('q \<Rightarrow> ('r world, json) io) \<Rightarrow>
   http_request \<Rightarrow> 'r serve" where
  "handleStandardRequest lib decode check serviceCall req ctx =
     (case decode (hr_body req) of
        None \<Rightarrow> RespondFailure ctx 400 ''invalid body request''
      | Some q \<Rightarrow> (case check q of
          Some err \<Rightarrow> RespondFailure ctx 400 (''invalid request data: '' @ error_text lib err)
        | None \<Rightarrow> andthen (attempt (on_world (serviceCall q))) (\<lambda>result. case result of
            Inl err \<Rightarrow> RespondFailure ctx 422 (error_text lib err)
          | Inr data \<Rightarrow> RespondSuccess ctx 200 data)))"

definition handleAuthenticatedRequest ::
  "(string \<Rightarrow> 'q option) \<Rightarrow> ('q \<Rightarrow> error option) \<Rightarrow> (int \<Rightarrow> 'q \<Rightarrow> ('r world, json) io) \<Rightarrow>
   http_request \<Rightarrow> 'r serve" where
  "handleAuthenticatedRequest decode check serviceCall req ctx =
     (case decode (hr_body req) of
        None \<Rightarrow> RespondFailure ctx 400 ''Bad Request - Invalid input data''
      | Some q \<Rightarrow> (case getUserIDFromContext ctx of
          Inl err \<Rightarrow> RespondFailure ctx 401 ''Unauthorized - Invalid or missing token''
        | Inr userID \<Rightarrow> (case check q of
            Some err \<Rightarrow> RespondFailure ctx 400 ''Bad Request - Invalid input data''
          | None \<Rightarrow> andthen (attempt (on_world (serviceCall userID q))) (\<lambda>result. case result of
              Inl err \<Rightarrow> RespondFailure ctx 422 ''Unprocessable Entity - Update failed''
            | Inr data \<Rightarrow> RespondSuccess ctx 200 data))))"

end
