(* ===== verification/Auth_Middleware.thy ===== *)
theory Auth_Middleware imports Http Auth_Login begin

text \<open>
  What the authentication middleware guarantees (app/middlewares/auth_middleware.go), for any
  token service that keeps the contract of the locale \<open>token_service\<close>, and then for
  \<open>ValidateJWT\<close> of the auth service.
\<close>

section \<open>The contract of the token service\<close>

locale token_service =
  fixes env :: "'r env" and validate :: "string \<Rightarrow> ('r world, claims) io"
    and genuine :: "string \<Rightarrow> claims \<Rightarrow> bool"
  assumes validate_sound: "validate tok w = (Ok c, w') \<Longrightarrow> genuine tok c"
    and validate_frame: "keeps same_all (validate tok)"
begin

lemma validate_same_db: "keeps same_db (validate tok)"
  using validate_frame by (auto simp: keeps_def same_all_def same_db_def)

text \<open>Where the claims of a passing request come from.\<close>

definition identity :: "registered_codec \<Rightarrow> 'r world \<Rightarrow> string \<Rightarrow> claims \<Rightarrow> bool" where
  "identity rc w tok c \<longleftrightarrow> genuine tok c \<or> (\<exists>w'. handleCachedAuth env rc tok w = (Ok (Some c), w'))"

end

section \<open>Frames\<close>

lemma on_world_OkE [ok_elims]:
  assumes "on_world m s = (Ok x, s')"
  obtains w where "m (sv_world s) = (Ok x, w)" and "s' = s\<lparr>sv_world := w\<rparr>"
  using assms unfolding on_world_def by (rule server.zoom_OkE)

lemma on_world_run: "m (sv_world s) = (r, w) \<Longrightarrow> on_world m s = (r, s\<lparr>sv_world := w\<rparr>)"
  unfolding on_world_def by (rule server.zoom_run)

lemma cached_auth_same_db: "keeps same_db (handleCachedAuth env rc tok)"
  unfolding handleCachedAuth_def CacheStore_Get_def DecacheClaims_def CacheStore_Del_def
  by (intro same_db.intros redis_frames same_all_same_db [OF crypto_frames(2)] | (rule keeps_case_prod))+

lemma cache_claims_same_db: "keeps same_db (cacheValidClaims env rc c tok)"
  unfolding cacheValidClaims_def CacheStore_Set_def
  by (intro same_db.intros redis_frames same_all_same_db [OF crypto_frames(1)])

section \<open>Who gets past the middleware\<close>

context token_service
begin

lemma passes_with_identity:
  assumes run: "UserAuthenticationMiddleware env rc validate req next ctx s = (Ok r, s')"
  shows "(rp_status r = 401 \<and> dbase (sv_world s') = dbase (sv_world s)) \<or>
    (\<exists>tok c s1. extractBearerToken req = Inr tok \<and> next (with_claims c tok ctx) s1 = (Ok r, s') \<and>
       identity rc (sv_world s) tok c \<and> dbase (sv_world s1) = dbase (sv_world s) \<and>
       sv_tracker s1 = sv_tracker s)"
proof (cases "extractBearerToken req")
  case (Inl e)
  then show ?thesis using run by (auto simp: UserAuthenticationMiddleware_def unauthorized_def json_reply_def)
next
  case (Inr tok)
  from run Inr obtain cached w1 where 1: "handleCachedAuth env rc tok (sv_world s) = (Ok cached, w1)"
    and rest: "(case cached of Some c \<Rightarrow> next (with_claims c tok ctx)
       | None \<Rightarrow> handleJWTValidation env rc validate tok next ctx) (s\<lparr>sv_world := w1\<rparr>) = (Ok r, s')"
    by (auto simp: UserAuthenticationMiddleware_def elim!: andthen_OkE on_world_OkE)
  have d1: "dbase w1 = dbase (sv_world s)"
    using keepsD [OF cached_auth_same_db 1] by (simp add: same_db_def)
  show ?thesis
  proof (cases cached)
    case (Some c)
    with rest have "next (with_claims c tok ctx) (s\<lparr>sv_world := w1\<rparr>) = (Ok r, s')" by simp
    with 1 Some d1 Inr show ?thesis by (intro disjI2) (force simp: identity_def)
  next
    case None
    with rest have jwt: "handleJWTValidation env rc validate tok next ctx (s\<lparr>sv_world := w1\<rparr>) = (Ok r, s')"
      by simp
    obtain v w2 where 2: "validate tok w1 = (v, w2)" by fastforce
    have d2: "dbase w2 = dbase (sv_world s)"
      using keepsD [OF validate_same_db 2] d1 by (simp add: same_db_def)
    show ?thesis
    proof (cases v)
      case (Ok c)
      obtain x w3 where 3: "cacheValidClaims env rc c tok w2 = (x, w3)" by fastforce
      have d3: "dbase w3 = dbase (sv_world s)"
        using keepsD [OF cache_claims_same_db 3] d2 by (simp add: same_db_def)
      from jwt Ok have "next (with_claims c tok ctx) (s\<lparr>sv_world := w3\<rparr>) = (Ok r, s')"
        by (cases x) (simp_all add: handleJWTValidation_def on_world_run 2 3)
      with validate_sound 2 Ok d3 Inr show ?thesis
        by (intro disjI2 exI [of _ tok] exI [of _ c] exI [of _ "s\<lparr>sv_world := w3\<rparr>"])
          (auto simp: identity_def)
    qed (use jwt d2 in \<open>auto simp: handleJWTValidation_def 2 unauthorized_def json_reply_def on_world_def
        zoom_def andthen_def attempt_def\<close>)
  qed
qed

end

section \<open>The middleware with the service's own tokens\<close>

definition genuine_token :: "'r env \<Rightarrow> string \<Rightarrow> claims \<Rightarrow> bool" where
  "genuine_token env tok c \<longleftrightarrow> cl_device_id c \<noteq> 0 \<and>
     (\<exists>n. jwt_parse env (now_at env n) tok = Inr c \<and>
        (case cl_expires_at c of None \<Rightarrow> True | Some e \<Rightarrow> unix (now_at env (n + 1)) < unix e))"

interpretation jwt: token_service env "ValidateJWT env" "genuine_token env" for env
proof unfold_locales
  fix tok c w w' assume "ValidateJWT env tok w = (Ok c, w')"
  then have "fst (ValidateJWT env tok w) = Ok c" by simp
  then show "genuine_token env tok c"
    unfolding ValidateJWT_Ok_iff genuine_token_def
    by (intro conjI exI [of _ "Suc (tick w)"]) (auto split: option.splits)
qed (rule ValidateJWT_same_all)

text \<open>C12: nothing behind the authentication middleware runs without an identity. A request is
  either answered 401, with the database as it was, or passed on once, with the database and the
  tracker as they were, under the identity of its bearer token: the claims are those of a parsed,
  device-bound, unexpired token, or those the cache holds for exactly this token.\<close>

theorem middleware_authenticates:
  assumes "UserAuthenticationMiddleware env rc (ValidateJWT env) req next ctx s = (Ok r, s')"
  shows "(rp_status r = 401 \<and> dbase (sv_world s') = dbase (sv_world s)) \<or>
    (\<exists>tok c s1. extractBearerToken req = Inr tok \<and>
       next (with_claims c tok ctx) s1 = (Ok r, s') \<and> getUserIDFromContext (with_claims c tok ctx) = Inr (cl_user_id c) \<and>
       (genuine_token env tok c \<or> (\<exists>w'. handleCachedAuth env rc tok (sv_world s) = (Ok (Some c), w'))) \<and>
       dbase (sv_world s1) = dbase (sv_world s) \<and> sv_tracker s1 = sv_tracker s)"
proof -
  have "getUserIDFromContext (with_claims c tok ctx) = Inr (cl_user_id c)" for c tok
    by (simp add: getUserIDFromContext_def with_claims_def)
  with jwt.passes_with_identity [OF assms] show ?thesis unfolding jwt.identity_def by blast
qed

section \<open>A token works once\<close>

lemma cached_claims_stop:
  assumes "aead_laws env" and "rand_laws env" and "redis_laws env"
    and "length (cipher_key env) = KeySize" and "codec_laws rc"
    and "cacheValidClaims env rc c tok w = (Ok (), w1)" and "redis v = redis w1"
    and "now_at env (tick w + 1) \<le> now_at env (tick v)"
    and "now_at env (tick v) < now_at env (tick w + 1) + 5 * minute"
    and "redis_fault env (tick v) = None"
  shows "handleCachedAuth env rc tok v = (Panic, v\<lparr>tick := tick v + 1\<rparr>)"
proof -
  have "CacheStore_Get env (token_key tok) v = (Ok (marshal_claims rc c), v\<lparr>tick := tick v + 1\<rparr>)"
    using Get_while_cached [OF assms(1-3)] assms(6-10) unfolding cacheValidClaims_def by blast
  then show ?thesis
    using DecacheClaims_plain [OF assms(4,5)] by (simp add: handleCachedAuth_def andthen_def attempt_def)
qed

text \<open>C13: a token works once in five minutes. When the middleware has cached the claims of a token,
  every request that brings the same token while the entry lives is answered with status 500,
  whatever route it is for and however the token would validate: the cached claims are read back
  in a form the decoder panics on, before the token itself is looked at.\<close>

theorem token_works_once:
  assumes "aead_laws env" and "rand_laws env" and "redis_laws env"
    and "length (cipher_key env) = KeySize" and "codec_laws rc"
    and "cacheValidClaims env rc c tok w = (Ok (), w1)" and "redis (sv_world s) = redis w1"
    and "now_at env (tick w + 1) \<le> now_at env (tick (sv_world s))"
    and "now_at env (tick (sv_world s)) < now_at env (tick w + 1) + 5 * minute"
    and "redis_fault env (tick (sv_world s)) = None"
    and "extractBearerToken req = Inr tok"
  shows "\<exists>s'. Recovery (UserAuthenticationMiddleware env rc validate req next) ctx s =
    (Ok \<lparr>rp_status = 500, rp_headers = [], rp_body = None\<rparr>, s') \<and> dbase (sv_world s') = dbase (sv_world s)"
  using cached_claims_stop [OF assms(1-10)] assms(11)
  by (simp add: Recovery_def UserAuthenticationMiddleware_def on_world_def zoom_def andthen_def)

section \<open>The tokens the service issues\<close>

lemma login_event_ticks:
  assumes "attempt (CreateLoginEvent env st m) w = (Ok r, w')"
  shows "tick w \<le> tick w'"
proof -
  have "tick w \<le> tick (snd (CreateLoginEvent env st m w))"
    by (auto simp: CreateLoginEvent_def deref_def new_base_def new_uuid_def time_now_def andthen_def
        createAndProduceEvent_def Produce_def kafka_Produce_def Let_def split: option.splits)
  then show ?thesis using assms snd_attempt [of "CreateLoginEvent env st m" w] by simp
qed

text \<open>C14: the token of a login opens nothing. A service made by \<open>NewAuthService\<close> signs tokens that
  have already expired, so a request that brings the token of a successful login to the
  middleware, at any later time and while the cache holds nothing for it, is answered 401.\<close>

theorem login_token_refused:
  assumes "jwt_law env" and "clock_law env"
    and "Login env NewAuthService login w = (Ok (Some u, tok), w1)"
    and "tick w1 \<le> tick (sv_world s)"
    and "extractBearerToken req = Inr tok"
    and "redis_fault env (tick (sv_world s)) = None"
    and "redis_get env (redis (sv_world s)) (now_at env (tick (sv_world s))) (token_key tok) = None"
  shows "\<exists>s'. UserAuthenticationMiddleware env rc (ValidateJWT env) req next ctx s =
    (Ok (unauthorized ''invalid token''), s')"
proof -
  from assms(3) obtain i v rs w2 w3 st r where gen: "GenerateJWT env NewAuthService i v rs w2 = (Ok tok, w3)"
    and sent: "attempt (CreateLoginEvent env st ''password'') w3 = (Ok r, w1)"
    by (elim Login_OkE) blast
  let ?v = "(sv_world s)\<lparr>tick := tick (sv_world s) + 1\<rparr>"
  have "tick w3 \<le> tick ?v" using login_event_ticks [OF sent] assms(4) by simp
  from GenerateJWT_expired [OF assms(1,2) gen this] obtain e w4 where
    "ValidateJWT env tok ?v = (Err e, w4)" by blast
  moreover have "handleCachedAuth env rc tok (sv_world s) = (Ok None, ?v)"
    using assms(6,7) by (simp add: handleCachedAuth_def CacheStore_Get_def redis_Get_def andthen_def attempt_def)
  ultimately show ?thesis
    using assms(5) by (simp add: UserAuthenticationMiddleware_def handleJWTValidation_def on_world_def
        zoom_def andthen_def attempt_def)
qed

section \<open>Samples\<close>

definition bearer :: "string \<Rightarrow> http_request" where
  "bearer tok = \<lparr>hr_method = ''PATCH'', hr_path = ''/users/update'', hr_full_path = ''/users/update'',
     hr_headers = [(''Authorization'', [''Bearer '' @ tok])], hr_length = 0, hr_client_ip = ''10.0.0.1'', hr_body = []\<rparr>"

lemma bearer_token: "tok \<noteq> [] \<Longrightarrow> extractBearerToken (bearer tok) = Inr tok"
  by (simp add: extractBearerToken_def bearer_def header_def has_prefix_def trim_prefix_def Let_def)

definition live_token :: string where
  "live_token = marshal_claims sample_codec sample_claims"

lemma live_token_parses: "t < second \<Longrightarrow> sample_parse t live_token = Inr sample_claims"
  by (simp add: sample_parse_def live_token_def unmarshal_marshal_claims [OF sample_codec_laws]
      sized_claims_def sample_claims_def int64_def)

lemma live_token_nonempty: "live_token \<noteq> []"
  by (simp add: live_token_def marshal_claims_def claims_json_def print_obj)

lemma live_token_cached:
  "\<exists>w. cacheValidClaims sample_env sample_codec sample_claims live_token v =
     (Ok (), v\<lparr>tick := tick v + 2, redis := w\<rparr>)"
  by (rule exI [of _ "mem_set (redis v) (1000000 + int (tick v) * 1000000) (token_key live_token)
      (wrap_payload (encode_string True (marshal_claims sample_codec sample_claims),
        encode_string True (replicate NonceSizeX CHR ''x''))) (5 * minute)"])
    (simp add: cacheValidClaims_def CacheStore_Set_def Encrypt_def GenerateNonce_def read_random_def
      redis_Set_def sample_env_def KeySize_def andthen_def)

lemma live_token_passes:
  "\<exists>s'. UserAuthenticationMiddleware sample_env sample_codec (ValidateJWT sample_env) (bearer live_token)
     (\<lambda>ctx. ret (json_reply 200 JNull)) Map.empty (server_of (fresh_world empty_db)) = (Ok (json_reply 200 JNull), s')"
proof -
  let ?v = "fresh_world empty_db\<lparr>tick := Suc 0\<rparr>"
  have cached: "handleCachedAuth sample_env sample_codec live_token (fresh_world empty_db) = (Ok None, ?v)"
    by (simp add: handleCachedAuth_def CacheStore_Get_def redis_Get_def sample_fields mem_get_def
        andthen_def attempt_def)
  have valid: "ValidateJWT sample_env live_token ?v = (Ok sample_claims, ?v\<lparr>tick := 4\<rparr>)"
    by (simp add: ValidateJWT_def live_token_parses second_def andthen_def fail_if_def sample_fields)
      (simp add: sample_claims_def unix_def second_def)
  obtain w where "cacheValidClaims sample_env sample_codec sample_claims live_token (?v\<lparr>tick := 4\<rparr>) =
      (Ok (), (?v\<lparr>tick := 4\<rparr>)\<lparr>tick := tick (?v\<lparr>tick := 4\<rparr>) + 2, redis := w\<rparr>)"
    using live_token_cached by blast
  then show ?thesis
    by (simp add: UserAuthenticationMiddleware_def bearer_token live_token_nonempty server_of_def
        on_world_def zoom_def andthen_def cached handleJWTValidation_def attempt_def valid)
qed

theorem middleware_authenticates_witness:
  "\<exists>tok c. extractBearerToken (bearer live_token) = Inr tok \<and> (genuine_token sample_env tok c \<or>
     (\<exists>w'. handleCachedAuth sample_env sample_codec tok (fresh_world empty_db) = (Ok (Some c), w')))"
proof -
  obtain s' where run: "UserAuthenticationMiddleware sample_env sample_codec (ValidateJWT sample_env)
      (bearer live_token) (\<lambda>ctx. ret (json_reply 200 JNull)) Map.empty (server_of (fresh_world empty_db)) =
    (Ok (json_reply 200 JNull), s')" using live_token_passes by blast
  from middleware_authenticates [OF run] show ?thesis
    by (auto simp: json_reply_def server_of_def)
qed

theorem token_works_once_witness:
  "\<exists>w1 s'. cacheValidClaims sample_env sample_codec sample_claims live_token (fresh_world empty_db) = (Ok (), w1) \<and>
     Recovery (UserAuthenticationMiddleware sample_env sample_codec (ValidateJWT sample_env) (bearer live_token)
       (\<lambda>ctx. ret (json_reply 200 JNull))) Map.empty (server_of w1) =
     (Ok \<lparr>rp_status = 500, rp_headers = [], rp_body = None\<rparr>, s')"
proof -
  obtain w where run: "cacheValidClaims sample_env sample_codec sample_claims live_token (fresh_world empty_db) =
      (Ok (), (fresh_world empty_db)\<lparr>tick := tick (fresh_world empty_db) + 2, redis := w\<rparr>)"
    using live_token_cached by blast
  show ?thesis
    using token_works_once [OF sample_aead sample_rand sample_redis sample_key sample_codec_laws run,
        of "server_of ((fresh_world empty_db)\<lparr>tick := tick (fresh_world empty_db) + 2, redis := w\<rparr>)"
          "bearer live_token" "ValidateJWT sample_env" "\<lambda>ctx. ret (json_reply 200 JNull)" Map.empty] run
    by (auto simp: server_of_def sample_fields minute_def second_def bearer_token live_token_nonempty)
qed

lemma steady_jwt: "jwt_law steady_env"
proof -
  have "parse_json ''token'' = None"
    by (simp add: parse_json_def skip_ws_def is_ws_def has_prefix_def parse_number_def
        is_digit_char_def Let_def char_eq_iff_code [of _ quote])
  then have "sample_parse t ''token'' \<noteq> Inr c" for t c
    by (simp add: sample_parse_def unmarshal_claims_def)
  then show ?thesis by (auto simp: jwt_law_def steady_env_def sample_fields)
qed

theorem login_token_refused_witness:
  "\<exists>tok w1 s'. Login steady_env NewAuthService alice_login (fresh_world sample_db) = (Ok (Some alice_user, tok), w1) \<and>
     UserAuthenticationMiddleware steady_env sample_codec (ValidateJWT steady_env) (bearer tok)
       (\<lambda>ctx. ret (json_reply 200 JNull)) Map.empty (server_of (w1\<lparr>redis := []\<rparr>)) =
     (Ok (unauthorized ''invalid token''), s')"
proof -
  obtain tok w1 where run: "Login steady_env NewAuthService alice_login (fresh_world sample_db) =
      (Ok (Some alice_user, tok), w1)" using alice_logs_in by blast
  then have "tok \<noteq> []" by (auto elim!: Login_OkE GenerateJWT_OkE simp: steady_env_def)
  moreover have "clock_law steady_env" using sample_clock by (simp add: clock_law_def steady_env_def)
  ultimately show ?thesis
    using login_token_refused [OF steady_jwt _ run, of "server_of (w1\<lparr>redis := []\<rparr>)" "bearer tok" sample_codec
        "\<lambda>ctx. ret (json_reply 200 JNull)" Map.empty] run
    by (auto simp: server_of_def bearer_token steady_env_def sample_fields mem_get_def)
qed

end
