(* ===== verification/Controllers.thy ===== *)
theory Controllers imports Http Users_Service begin

text \<open>
  The controllers (app/controllers): each action is one of the generic handlers applied to
  the binder and the checks of its request type and to the call of its service, and the
  answer is made of what the service returned. \<open>web\<close> collects the library behaviour the
  actions depend on: the binder's email rule, the validator, the texts of library errors and
  the JSON of a float.
\<close>

record web =
  w_email :: "string \<Rightarrow> bool"
  w_valid :: validator
  w_error :: "error \<Rightarrow> string"
  w_float :: "rat \<Rightarrow> json"

definition public_json :: "'r env \<Rightarrow> user \<Rightarrow> json" where
  "public_json env u = JObj (public_fields env (FromUserPublic u))"

definition private_json :: "'r env \<Rightarrow> web \<Rightarrow> user option \<Rightarrow> string list \<Rightarrow> json" where
  "private_json env web u token = private_data env (w_float web) (FromUserPrivate u token)"

text \<open>\<open>return "...", nil\<close> after a call that only reports an error.\<close>

definition saying :: "string \<Rightarrow> ('r world, 'a) io \<Rightarrow> ('r world, json) io" where
  "saying msg m = andthen m (\<lambda>_. ret (JStr msg))"

section \<open>Authentication\<close>

definition Auth_Register :: "'r env \<Rightarrow> web \<Rightarrow> auth_service \<Rightarrow> http_request \<Rightarrow> 'r serve" where
  "Auth_Register env web svc = handleStandardRequest (w_error web) (bind_register (w_email web))
     (Register_Valid (w_valid web)) (\<lambda>q. andthen (Register env svc q) (\<lambda>u. ret (public_json env u)))"

definition Auth_ActivateAccount :: "'r env \<Rightarrow> web \<Rightarrow> auth_service \<Rightarrow> http_request \<Rightarrow> 'r serve" where
  "Auth_ActivateAccount env web svc = handleStandardRequest (w_error web) bind_code
     (Code_Valid (w_valid web)) (\<lambda>q. andthen (Service_ActivateAccount env q) (\<lambda>u. ret (public_json env u)))"

definition Auth_ResendActivationCode :: "'r env \<Rightarrow> web \<Rightarrow> auth_service \<Rightarrow> http_request \<Rightarrow> 'r serve" where
  "Auth_ResendActivationCode env web svc = handleStandardRequest (w_error web) (bind_mail (w_email web))
     (Mail_Valid (w_valid web)) (\<lambda>q. saying ''requested activation code resend'' (ResendActivationCode env q))"

definition Auth_VerifyAccount :: "'r env \<Rightarrow> web \<Rightarrow> auth_service \<Rightarrow> http_request \<Rightarrow> 'r serve" where
  "Auth_VerifyAccount env web svc = handleStandardRequest (w_error web) bind_code
     (Code_Valid (w_valid web)) (\<lambda>q. andthen (Service_VerifyAccount env svc q) (\<lambda>(u, token).
       ret (private_json env web (Some u) [token])))"

definition Auth_ResendVerificationCode :: "'r env \<Rightarrow> web \<Rightarrow> auth_service \<Rightarrow> http_request \<Rightarrow> 'r serve" where
  "Auth_ResendVerificationCode env web svc = handleStandardRequest (w_error web) (bind_mail (w_email web))
     (Mail_Valid (w_valid web)) (\<lambda>q. saying ''requested verification code resend'' (ResendVerificationCode env q))"

definition Auth_Login :: "'r env \<Rightarrow> web \<Rightarrow> auth_service \<Rightarrow> http_request \<Rightarrow> 'r serve" where
  "Auth_Login env web svc = handleStandardRequest (w_error web) (bind_login (w_email web))
     (Login_Valid (w_valid web)) (\<lambda>q. andthen (Login env svc q) (\<lambda>(u, token).
       ret (private_json env web u [token])))"

definition Auth_ResendSecondFactorCode :: "'r env \<Rightarrow> web \<Rightarrow> auth_service \<Rightarrow> http_request \<Rightarrow> 'r serve" where
  "Auth_ResendSecondFactorCode env web svc = handleStandardRequest (w_error web) (bind_mail (w_email web))
     (Mail_Valid (w_valid web)) (\<lambda>q. saying ''requested verification code resend'' (ResendSecondFactorCode env q))"

definition Auth_VerifySecondFactorCode :: "'r env \<Rightarrow> web \<Rightarrow> auth_service \<Rightarrow> http_request \<Rightarrow> 'r serve" where
  "Auth_VerifySecondFactorCode env web svc = handleStandardRequest (w_error web) bind_code
     (Code_Valid (w_valid web)) (\<lambda>q. andthen (VerifySecondFactor env svc q) (\<lambda>(u, token).
       ret (private_json env web u [token])))"

definition Auth_NotImplemented :: "http_request \<Rightarrow> 'r serve" where
  "Auth_NotImplemented req ctx = RespondFailure ctx 501 ''Not implemented''"

definition Auth_RequestPasswordReset :: "'r env \<Rightarrow> web \<Rightarrow> auth_service \<Rightarrow> http_request \<Rightarrow> 'r serve" where
  "Auth_RequestPasswordReset env web svc = handleStandardRequest (w_error web) (bind_mail (w_email web))
     (Mail_Valid (w_valid web)) (\<lambda>q. saying ''requested reset code resend'' (RequestPasswordReset env q))"

definition Auth_CancelPasswordReset :: "'r env \<Rightarrow> web \<Rightarrow> auth_service \<Rightarrow> http_request \<Rightarrow> 'r serve" where
  "Auth_CancelPasswordReset env web svc = handleStandardRequest (w_error web) (bind_mail (w_email web))
     (Mail_Valid (w_valid web)) (\<lambda>q. saying ''cancelled password resetting procedure'' (CancelPasswordReset env q))"

definition Auth_ConfirmPasswordReset :: "'r env \<Rightarrow> web \<Rightarrow> auth_service \<Rightarrow> http_request \<Rightarrow> 'r serve" where
  "Auth_ConfirmPasswordReset env web svc = handleStandardRequest (w_error web) bind_confirm
     (ConfirmPasswordReset_Valid (w_valid web)) (\<lambda>q. saying ''confirmed password reset'' (ConfirmPasswordReset env svc q))"

definition Auth_ResendResetCode :: "'r env \<Rightarrow> web \<Rightarrow> auth_service \<Rightarrow> http_request \<Rightarrow> 'r serve" where
  "Auth_ResendResetCode env web svc = handleStandardRequest (w_error web) (bind_mail (w_email web))
     (Mail_Valid (w_valid web)) (\<lambda>q. saying ''requested reset code resend'' (ResendResetCode env q))"

section \<open>Users\<close>

definition answer_private :: "'r env \<Rightarrow> web \<Rightarrow> ('r world, user) io \<Rightarrow> ('r world, json) io" where
  "answer_private env web m = andthen m (\<lambda>u. ret (private_json env web (Some u) []))"

definition Users_UpdateUser :: "'r env \<Rightarrow> web \<Rightarrow> http_request \<Rightarrow> 'r serve" where
  "Users_UpdateUser env web = handleAuthenticatedRequest (bind_user (w_email web)) (User_Valid (w_valid web))
     (\<lambda>userID q. answer_private env web (Service_UpdateUser env userID q))"

definition Users_UpdateDetails :: "'r env \<Rightarrow> web \<Rightarrow> http_request \<Rightarrow> 'r serve" where
  "Users_UpdateDetails env web = handleAuthenticatedRequest bind_details (Details_Valid (w_valid web))
     (\<lambda>userID q. answer_private env web (UpdateDetails env userID q))"

definition Users_UpdateSettings :: "'r env \<Rightarrow> web \<Rightarrow> http_request \<Rightarrow> 'r serve" where
  "Users_UpdateSettings env web = handleAuthenticatedRequest bind_settings (Settings_Valid (w_valid web))
     (\<lambda>userID q. answer_private env web (UpdateSettings env userID q))"

definition Users_RemoveAccount :: "'r env \<Rightarrow> web \<Rightarrow> http_request \<Rightarrow> 'r serve" where
  "Users_RemoveAccount env web = handleAuthenticatedRequest bind_empty (Empty_Valid (w_valid web))
     (\<lambda>userID q. saying ''successfully removed user'' (Service_RemoveAccount env userID))"

definition Users_UpdateLocation :: "'r env \<Rightarrow> web \<Rightarrow> http_request \<Rightarrow> 'r serve" where
  "Users_UpdateLocation env web = handleAuthenticatedRequest bind_location (Location_Valid (w_valid web))
     (\<lambda>userID q. answer_private env web (Service_UpdateLocation env userID q))"

text \<open>The body with floats is bound by a parameter.\<close>

definition Users_UpdateEntrepreneurDetails ::
  "'r env \<Rightarrow> web \<Rightarrow> (string \<Rightarrow> entrepreneur_req option) \<Rightarrow> http_request \<Rightarrow> 'r serve" where
  "Users_UpdateEntrepreneurDetails env web decode =
     handleAuthenticatedRequest decode (EntrepreneurDetails_Valid (w_valid web))
       (\<lambda>userID q. answer_private env web (Service_UpdateEntrepreneurDetails env userID q))"

definition Users_Show :: "'r env \<Rightarrow> web \<Rightarrow> http_request \<Rightarrow> 'r serve" where
  "Users_Show env web = handleAuthenticatedRequest bind_public (UserPublic_Valid (w_valid web))
     (\<lambda>userID q. andthen (GetUserPublic env (pq_id q)) (\<lambda>u. ret (public_json env u)))"

definition Users_Me :: "'r env \<Rightarrow> web \<Rightarrow> http_request \<Rightarrow> 'r serve" where
  "Users_Me env web = handleAuthenticatedRequest bind_empty (Empty_Valid (w_valid web))
     (\<lambda>userID q. answer_private env web (GetUserPrivate env userID))"

definition Users_Index :: "'r env \<Rightarrow> web \<Rightarrow> http_request \<Rightarrow> 'r serve" where
  "Users_Index env web = handleAuthenticatedRequest bind_index (Index_Valid (w_valid web))
     (\<lambda>userID q. andthen (Index env (word_of_int (ix_page q)) (word_of_int (ix_page_size q)))
        (\<lambda>us. ret (users_doc env (FromUsers us []))))"

definition Users_AddRole :: "'r env \<Rightarrow> web \<Rightarrow> http_request \<Rightarrow> 'r serve" where
  "Users_AddRole env web = handleAuthenticatedRequest bind_role (Role_Valid (w_valid web))
     (\<lambda>userID q. answer_private env web (Service_AddRole env (rq_user_id q) (rq_role_id q)))"

definition Users_RevokeRole :: "'r env \<Rightarrow> web \<Rightarrow> http_request \<Rightarrow> 'r serve" where
  "Users_RevokeRole env web = handleAuthenticatedRequest bind_role (Role_Valid (w_valid web))
     (\<lambda>userID q. answer_private env web (Service_RevokeRole env (rq_user_id q) (rq_role_id q)))"

section \<open>Diagnostics\<close>

definition probe :: "web \<Rightarrow> string \<Rightarrow> string \<Rightarrow> ('r world, unit) io \<Rightarrow> 'r serve" where
  "probe web failed healthy task ctx = andthen (attempt (on_world task)) (\<lambda>r. case r of
     Inl err \<Rightarrow> RespondFailure ctx 503 (failed @ error_text (w_error web) err)
   | Inr x \<Rightarrow> RespondSuccess ctx 200 (JObj [(''message'', JStr healthy)]))"

definition ReadinessProbe ::
  "'r env \<Rightarrow> web \<Rightarrow> ('c \<Rightarrow> error option) \<Rightarrow> 'c consumer_manager \<Rightarrow> string list \<Rightarrow> metadata_error option \<Rightarrow>
   http_request \<Rightarrow> 'r serve" where
  "ReadinessProbe env web metadata consumers order producer req =
     probe web ''Service not ready: '' ''Service is ready'' (CheckReadiness env metadata consumers order producer)"

definition HealthProbe :: "'r env \<Rightarrow> web \<Rightarrow> http_request \<Rightarrow> 'r serve" where
  "HealthProbe env web req = probe web ''Service unhealthy: '' ''Service is healthy'' (CheckHealth env)"

end
