(* ===== verification/Routes.thy ===== *)
theory Routes imports Controllers Auth_Middleware begin

text \<open>
  The routes (app/routes) and the engine that serves them (\<open>NewApp\<close> in app/config/config.go):
  the route tables with the middlewares of their groups, and the chain every request goes
  through before its route. A route's path is either exact or a prefix (\<open>/*any\<close>). What other
  packages answer is a parameter of the application: the redoc and CORS middlewares, which
  answer a request themselves or pass it on and add headers, the Prometheus, swagger and static
  file handlers, and gin's own answer when no route takes the request.
\<close>

record ('r, 'c) application =
  ap_env :: "'r env"
  ap_web :: web
  ap_codec :: registered_codec
  ap_metadata :: "'c \<Rightarrow> error option"
  ap_consumers :: "'c consumer_manager"
  ap_order :: "string list"
  ap_producer :: "metadata_error option"
  ap_prometheus_url :: string
  ap_redoc :: "http_request \<Rightarrow> reply + (string \<times> string) list"
  ap_cors :: "http_request \<Rightarrow> reply + (string \<times> string) list"
  ap_prometheus :: "http_request \<Rightarrow> metrics \<Rightarrow> reply"
  ap_file :: "string \<Rightarrow> http_request \<Rightarrow> reply"
  ap_swagger :: "http_request \<Rightarrow> reply"
  ap_unmatched :: "http_request \<Rightarrow> reply"

type_synonym 'r handler = "http_request \<Rightarrow> 'r serve"
type_synonym 'r middleware = "http_request \<Rightarrow> 'r serve \<Rightarrow> 'r serve"

section \<open>Route tables\<close>

datatype pattern = Exact string | Under string

fun takes :: "pattern \<Rightarrow> string \<Rightarrow> bool" where
  "takes (Exact p) path = (path = p)"
| "takes (Under p) path = has_prefix path p"

text \<open>\<open>FullPath\<close>: the pattern as it was registered.\<close>

fun full_path :: "pattern \<Rightarrow> string" where
  "full_path (Exact p) = p"
| "full_path (Under p) = p @ ''*any''"

record 'r route =
  rt_method :: string
  rt_pattern :: pattern
  rt_chain :: "'r handler"

definition chain :: "'r middleware list \<Rightarrow> 'r handler \<Rightarrow> 'r handler" where
  "chain ms h req = foldr (\<lambda>m next. m req next) ms (h req)"

definition route :: "'r middleware list \<Rightarrow> string \<Rightarrow> pattern \<Rightarrow> 'r handler \<Rightarrow> 'r route" where
  "route ms meth p h = \<lparr>rt_method = meth, rt_pattern = p, rt_chain = chain ms h\<rparr>"

definition limited :: "('r, 'c) application \<Rightarrow> 'r middleware list" where
  "limited app = [Log, Limit (ap_env app)]"

definition RegisterAuthRoutes :: "string \<Rightarrow> ('r, 'c) application \<Rightarrow> 'r route list" where
  "RegisterAuthRoutes base app =
     (let add = (\<lambda>meth path h. route (limited app) meth (Exact (base @ path)) h);
          env = ap_env app; web = ap_web app; svc = NewAuthService
      in [add ''POST'' ''/register'' (Auth_Register env web svc),
          add ''POST'' ''/register/externally'' Auth_NotImplemented,
          add ''PATCH'' ''/activation/account'' (Auth_ActivateAccount env web svc),
          add ''POST'' ''/activation/resend/code'' (Auth_ResendActivationCode env web svc),
          add ''PATCH'' ''/verification/account'' (Auth_VerifyAccount env web svc),
          add ''POST'' ''/verification/resend/code'' (Auth_ResendVerificationCode env web svc),
          add ''POST'' ''/login'' (Auth_Login env web svc),
          add ''POST'' ''/login/externally'' Auth_NotImplemented,
          add ''DELETE'' ''/logout'' (Auth_Login env web svc),
          add ''POST'' ''/password/reset/request'' (Auth_RequestPasswordReset env web svc),
          add ''DELETE'' ''/password/reset/request/cancel'' (Auth_RequestPasswordReset env web svc),
          add ''PATCH'' ''/password/reset/request/confirm'' (Auth_RequestPasswordReset env web svc),
          add ''POST'' ''/password/reset/request/resend'' (Auth_RequestPasswordReset env web svc)])"

definition UserAuth :: "('r, 'c) application \<Rightarrow> 'r middleware" where
  "UserAuth app = UserAuthenticationMiddleware (ap_env app) (ap_codec app) (ValidateJWT (ap_env app))"

definition RegisterUserRoutes :: "string \<Rightarrow> ('r, 'c) application \<Rightarrow> 'r route list" where
  "RegisterUserRoutes base app =
     (let add = (\<lambda>meth path h. route (limited app @ [UserAuth app]) meth (Exact (base @ path)) h);
          env = ap_env app; web = ap_web app
      in [add ''PATCH'' ''/update'' (Users_UpdateUser env web),
          add ''PATCH'' ''/details/update'' (Users_UpdateDetails env web),
          add ''PATCH'' ''/settings/update'' (Users_UpdateSettings env web),
          add ''DELETE'' ''/remove'' (Users_RemoveAccount env web)])"

definition RegisterDiagnosticsRoutes :: "string \<Rightarrow> ('r, 'c) application \<Rightarrow> 'r route list" where
  "RegisterDiagnosticsRoutes base app =
     (let add = (\<lambda>meth path h. route (limited app) meth (Exact (base @ path)) h)
      in [add ''GET'' ''/readiness'' (ReadinessProbe (ap_env app) (ap_web app) (ap_metadata app)
            (ap_consumers app) (ap_order app) (ap_producer app)),
          add ''GET'' ''/health'' (HealthProbe (ap_env app) (ap_web app))])"

text \<open>\<open>promhttp\<close> shows the metrics as they are.\<close>

definition RegisterMonitoringRoutes :: "string \<Rightarrow> ('r, 'c) application \<Rightarrow> 'r route list" where
  "RegisterMonitoringRoutes base app =
     [route [Log, MetricsCORS (ap_prometheus_url app), Limit (ap_env app)] ''GET'' (Exact (base @ ''/metrics''))
        (\<lambda>req ctx s. (Ok (ap_prometheus app req (sv_metrics s)), s))]"

text \<open>\<open>StaticFile\<close> takes GET and HEAD.\<close>

definition RegisterDocumentationRoutes :: "string \<Rightarrow> ('r, 'c) application \<Rightarrow> 'r route list" where
  "RegisterDocumentationRoutes base app =
     concat (map (\<lambda>file. map (\<lambda>meth. route (limited app) meth (Exact (base @ ''/'' @ file))
       (\<lambda>req ctx. ret (ap_file app (''./'' @ file) req))) [''GET'', ''HEAD'']) [''swagger.json'', ''swagger.yaml''])"

definition RegisterSwaggerRoutes :: "string \<Rightarrow> ('r, 'c) application \<Rightarrow> 'r route list" where
  "RegisterSwaggerRoutes base app =
     [route (limited app) ''GET'' (Under (base @ ''/'')) (\<lambda>req ctx. ret (ap_swagger app req))]"

section \<open>The engine\<close>

definition routes :: "('r, 'c) application \<Rightarrow> 'r route list" where
  "routes app = RegisterAuthRoutes ''/auth'' app @ RegisterUserRoutes ''/users'' app @
     RegisterDiagnosticsRoutes ''/diagnostics'' app @ RegisterMonitoringRoutes ''/monitoring'' app @
     RegisterDocumentationRoutes ''/docs'' app @ RegisterSwaggerRoutes ''/swagger'' app"

definition find_route :: "('r, 'c) application \<Rightarrow> string \<Rightarrow> string \<Rightarrow> 'r route option" where
  "find_route app meth path = find (\<lambda>r. rt_method r = meth \<and> takes (rt_pattern r) path) (routes app)"

definition Outside :: "(http_request \<Rightarrow> reply + (string \<times> string) list) \<Rightarrow> 'r middleware" where
  "Outside f req next ctx = (case f req of
      Inl r \<Rightarrow> ret r
    | Inr hs \<Rightarrow> andthen (next ctx) (\<lambda>r. ret (r\<lparr>rp_headers := hs @ rp_headers r\<rparr>)))"

text \<open>The middlewares of the whole engine, in the order \<open>NewApp\<close> adds them; \<open>UpdateSystemMetrics\<close>
  reads the machine into three gauges and passes every request on. The headers of an answer are
  those of a handler that returned; after a panic only the status is kept.\<close>

definition global_chain :: "('r, 'c) application \<Rightarrow> 'r middleware list" where
  "global_chain app =
     [\<lambda>req. Recovery,
      \<lambda>req. RequestAuthenticationMiddleware (ap_env app),
      UpdateCacheHitRatioMetrics (ap_env app),
      UpdateServerMetrics,
      Outside (ap_redoc app),
      Outside (ap_cors app)]"

definition ServeHTTP :: "('r, 'c) application \<Rightarrow> http_request \<Rightarrow> ('r server, reply) io" where
  "ServeHTTP app req =
     (case find_route app (hr_method req) (hr_path req) of
        Some r \<Rightarrow> chain (global_chain app) (rt_chain r)
          (req\<lparr>hr_full_path := full_path (rt_pattern r)\<rparr>) Map.empty
      | None \<Rightarrow> chain (global_chain app) (\<lambda>req ctx. ret (ap_unmatched app req))
          (req\<lparr>hr_full_path := []\<rparr>) Map.empty)"

end
