(* ===== verification/Serving.thy ===== *)
theory Serving imports Routes Repository_Facts Kafka_Middleware begin

text \<open>
  What serving a request does to the server as a whole. The locale \<open>server_frame\<close> states what a
  relation between servers needs in order to hold across every middleware, every action and
  so across the engine; its instances are the balance of the gauge of active requests, the
  settings of the limiter, and the integrity of the database. The last section closes them under
  any history of requests, cleanup ticks and consumed messages.
\<close>

section \<open>Relations that survive serving\<close>

definition active :: "int \<Rightarrow> 'r server \<Rightarrow> 'r server" where
  "active d = sv_metrics_update (ActiveRequests_update (\<lambda>n. n + d))"

locale server_frame =
  fixes W :: "'r world \<Rightarrow> 'r world \<Rightarrow> bool" and R :: "'r server \<Rightarrow> 'r server \<Rightarrow> bool"
  assumes R_refl: "R s s"
    and R_trans: "R s s' \<Longrightarrow> R s' s'' \<Longrightarrow> R s s''"
    and R_world: "W (sv_world s) w \<Longrightarrow> R s (s\<lparr>sv_world := w\<rparr>)"
    and W_same_db: "same_db v w \<Longrightarrow> W v w"
    and W_trans: "W u v \<Longrightarrow> W v w \<Longrightarrow> W u w"
    and R_log: "R s (sv_log_update f s)"
    and R_limit: "R s (s\<lparr>sv_tracker := snd (LimitRequestsMiddleware ip ua now (sv_tracker s))\<rparr>)"
    and R_cache: "R s (sv_metrics_update (CacheHits_update g) s)" "R s (sv_metrics_update (CacheMisses_update g) s)"
    and R_bracket: "R (active 1 s) s' \<Longrightarrow> R s (active (-1) s')"
    and R_record: "R s (sv_metrics_update (record_request req r) s)"
begin

lemma basic: "reflp R" "transp R"
  by (rule reflpI, rule R_refl) (rule transpI, erule R_trans)

lemma world_basic: "reflp W" "transp W"
  by (rule reflpI, rule W_same_db, simp add: same_db_def) (rule transpI, erule W_trans)

lemmas world_steps = world_basic keeps_andthen keeps_ret keeps_case_prod

lemmas steps = basic keeps_andthen keeps_ret keeps_case_option keeps_case_sum keeps_if

lemma of_world: "keeps W m \<Longrightarrow> keeps R (on_world m)"
  by (rule keepsI) (auto simp: on_world_def zoom_def split: prod.splits intro!: R_world dest: keepsD)

lemma of_lookup: "keeps same_db m \<Longrightarrow> keeps R (on_world m)"
  by (rule of_world) (auto simp: keeps_def W_same_db)

lemma request_id: "(\<And>ctx. keeps R (next ctx)) \<Longrightarrow> keeps R (RequestAuthenticationMiddleware env next ctx)"
  unfolding RequestAuthenticationMiddleware_def by (intro steps of_lookup same_db.intros)

lemma cache_ratio:
  assumes "\<And>ctx. keeps R (next ctx)"
  shows "keeps R (UpdateCacheHitRatioMetrics env req next ctx)"
proof -
  have "keeps R (change (sv_metrics_update (CacheHits_update g)))"
    "keeps R (change (sv_metrics_update (CacheMisses_update g)))" for g
    by (simp_all add: keeps_def change_def R_cache)
  then show ?thesis unfolding UpdateCacheHitRatioMetrics_def
    by (intro steps keeps_attempt of_lookup redis_frames assms)
qed

lemma metrics:
  assumes "\<And>ctx. keeps R (next ctx)"
  shows "keeps R (UpdateServerMetrics req next ctx)"
proof (rule keepsI)
  fix s x s' assume run: "UpdateServerMetrics req next ctx s = (x, s')"
  obtain y s1 where 1: "next ctx (active 1 s) = (y, s1)" by fastforce
  have "R (active 1 s) s1" using keepsD [OF assms 1] .
  then have *: "R s (active (-1) s1)" "\<And>r. R s (active (-1) (sv_metrics_update (record_request req r) s1))"
    using R_bracket R_record R_trans by blast+
  show "R s s'" using run 1 * by (cases y) (auto simp: UpdateServerMetrics_def active_def comp_def)
qed

lemma logged:
  assumes "\<And>ctx. keeps R (next ctx)"
  shows "keeps R (Log req next ctx)"
proof -
  have "keeps R (log_line l)" for l by (simp add: keeps_def log_line_def change_def R_log)
  then show ?thesis unfolding Log_def by (intro steps assms)
qed

lemma cors: "(\<And>ctx. keeps R (next ctx)) \<Longrightarrow> keeps R (MetricsCORS u req next ctx)"
  unfolding MetricsCORS_def Let_def by (intro steps)

lemma limited:
  assumes "\<And>ctx. keeps R (next ctx)"
  shows "keeps R (Limit env req next ctx)"
proof -
  have "keeps R (\<lambda>s. case LimitRequestsMiddleware ip ua now (sv_tracker s) of
      (Abort status body, t) \<Rightarrow> (Ok (json_reply status body), s\<lparr>sv_tracker := t\<rparr>)
    | (Next, t) \<Rightarrow> next ctx (s\<lparr>sv_tracker := t\<rparr>))" for ip ua now
  proof (rule keepsI)
    fix s x s'
    assume run: "(case LimitRequestsMiddleware ip ua now (sv_tracker s) of
        (Abort status body, t) \<Rightarrow> (Ok (json_reply status body), s\<lparr>sv_tracker := t\<rparr>)
      | (Next, t) \<Rightarrow> next ctx (s\<lparr>sv_tracker := t\<rparr>)) = (x, s')"
    obtain h t where L: "LimitRequestsMiddleware ip ua now (sv_tracker s) = (h, t)" by fastforce
    have R1: "R s (s\<lparr>sv_tracker := t\<rparr>)" using R_limit [of s ip ua now] L by simp
    show "R s s'"
    proof (cases h)
      case Next
      with run L have "R (s\<lparr>sv_tracker := t\<rparr>) s'" using keepsD [OF assms] by simp
      with R1 show ?thesis by (rule R_trans)
    qed (use run L R1 in auto)
  qed
  then show ?thesis unfolding Limit_def by (intro steps of_lookup same_db.intros)
qed

lemma recovered: "(\<And>ctx. keeps R (next ctx)) \<Longrightarrow> keeps R (Recovery next ctx)"
  by (rule keepsI) (auto simp: Recovery_def split: prod.splits outcome.splits dest: keepsD)

lemma outside: "(\<And>ctx. keeps R (next ctx)) \<Longrightarrow> keeps R (Outside f req next ctx)"
  unfolding Outside_def by (intro steps)

lemma standard: "(\<And>q. keeps W (call q)) \<Longrightarrow> keeps R (handleStandardRequest lib decode check call req ctx)"
  unfolding handleStandardRequest_def RespondFailure_def RespondSuccess_def
  by (intro steps keeps_attempt of_world)

lemma authenticated:
  "(\<And>i q. keeps W (call i q)) \<Longrightarrow> keeps R (handleAuthenticatedRequest decode check call req ctx)"
  unfolding handleAuthenticatedRequest_def RespondFailure_def RespondSuccess_def
  by (intro steps keeps_attempt of_world)

lemma probes: "keeps W task \<Longrightarrow> keeps R (probe web failed healthy task ctx)"
  unfolding probe_def RespondFailure_def RespondSuccess_def by (intro steps keeps_attempt of_world)

lemma user_auth:
  assumes "\<And>ctx. keeps R (next ctx)"
  shows "keeps R (UserAuth app req next ctx)"
  unfolding UserAuth_def UserAuthenticationMiddleware_def handleJWTValidation_def
  by (intro steps keeps_attempt of_lookup cached_auth_same_db cache_claims_same_db
      same_all_same_db [OF ValidateJWT_same_all] assms)

lemma chained:
  assumes "\<And>m next ctx. m \<in> set ms \<Longrightarrow> (\<And>ctx. keeps R (next ctx)) \<Longrightarrow> keeps R (m req next ctx)"
    and "\<And>ctx. keeps R (h req ctx)"
  shows "keeps R (chain ms h req ctx)"
  using assms(1)
proof (induction ms arbitrary: ctx)
  case (Cons m ms)
  have rest: "keeps R (chain ms h req ctx)" for ctx
    by (rule Cons.IH) (rule Cons.prems, simp_all)
  have "keeps R (m req (chain ms h req) ctx)" by (rule Cons.prems) (simp_all add: rest)
  then show ?case by (simp add: chain_def)
qed (simp add: chain_def assms(2))

end

section \<open>Every route and the engine\<close>

text \<open>The service calls behind the routes.\<close>

definition services_keep :: "('r world \<Rightarrow> 'r world \<Rightarrow> bool) \<Rightarrow> 'r env \<Rightarrow> bool" where
  "services_keep W env \<longleftrightarrow>
     (\<forall>svc q. keeps W (Register env svc q)) \<and> (\<forall>q. keeps W (Service_ActivateAccount env q)) \<and>
     (\<forall>q. keeps W (ResendActivationCode env q)) \<and> (\<forall>svc q. keeps W (Service_VerifyAccount env svc q)) \<and>
     (\<forall>q. keeps W (ResendVerificationCode env q)) \<and> (\<forall>svc q. keeps W (Login env svc q)) \<and>
     (\<forall>q. keeps W (RequestPasswordReset env q)) \<and> (\<forall>i q. keeps W (Service_UpdateUser env i q)) \<and>
     (\<forall>i q. keeps W (UpdateDetails env i q)) \<and> (\<forall>i q. keeps W (UpdateSettings env i q)) \<and>
     (\<forall>i. keeps W (Service_RemoveAccount env i))"

lemma probes_same_db:
  "keeps same_db (CheckHealth env)" "keeps same_db (CheckReadiness env metadata cs order p)"
  unfolding CheckHealth_def CheckReadiness_def UsersRepository_Ping_def CacheStore_Ping_def
  by (intro same_db.intros redis_frames)+

context server_frame
begin

lemma probes_keep:
  "keeps W (CheckHealth env)" "keeps W (CheckReadiness env metadata cs order p)"
  by (rule keepsI, rule W_same_db, erule keepsD [OF probes_same_db(1)])
    (rule keepsI, rule W_same_db, erule keepsD [OF probes_same_db(2)])

lemma actions_keep:
  assumes "services_keep W env"
  shows "keeps R (Auth_Register env web svc req ctx)" "keeps R (Auth_ActivateAccount env web svc req ctx)"
    "keeps R (Auth_ResendActivationCode env web svc req ctx)" "keeps R (Auth_VerifyAccount env web svc req ctx)"
    "keeps R (Auth_ResendVerificationCode env web svc req ctx)" "keeps R (Auth_Login env web svc req ctx)"
    "keeps R (Auth_RequestPasswordReset env web svc req ctx)" "keeps R (Users_UpdateUser env web req ctx)"
    "keeps R (Users_UpdateDetails env web req ctx)" "keeps R (Users_UpdateSettings env web req ctx)"
    "keeps R (Users_RemoveAccount env web req ctx)" "keeps R (Auth_NotImplemented req ctx)"
    "keeps R (HealthProbe env web req ctx)" "keeps R (ReadinessProbe env web metadata cs order p req ctx)"
  using assms probes_keep
  unfolding services_keep_def Auth_Register_def Auth_ActivateAccount_def Auth_ResendActivationCode_def
    Auth_VerifyAccount_def Auth_ResendVerificationCode_def Auth_Login_def Auth_RequestPasswordReset_def
    Users_UpdateUser_def Users_UpdateDetails_def Users_UpdateSettings_def Users_RemoveAccount_def
    answer_private_def saying_def Auth_NotImplemented_def RespondFailure_def HealthProbe_def ReadinessProbe_def
  by (auto intro!: standard authenticated world_steps probes intro: keeps_ret basic)

lemma chains_keep:
  assumes "\<And>ctx. keeps R (h req ctx)"
  shows "keeps R (chain (global_chain app) h req ctx)" "keeps R (chain (limited app) h req ctx)"
    "keeps R (chain (limited app @ [UserAuth app]) h req ctx)"
    "keeps R (chain [Log, MetricsCORS u, Limit env] h req ctx)"
  unfolding global_chain_def limited_def
  by (rule chained; use assms in \<open>auto intro: recovered request_id cache_ratio metrics outside logged
        limited cors user_auth\<close>)+

lemma routes_keep:
  assumes "services_keep W (ap_env app)" and "r \<in> set (routes app)"
  shows "keeps R (rt_chain r req ctx)"
  using assms(2)
  unfolding routes_def RegisterAuthRoutes_def RegisterUserRoutes_def RegisterDiagnosticsRoutes_def
    RegisterMonitoringRoutes_def RegisterDocumentationRoutes_def RegisterSwaggerRoutes_def Let_def
  by (auto simp: route_def intro!: chains_keep actions_keep [OF assms(1)] keeps_ret basic)
    (auto simp: keeps_def R_refl)

lemma engine_keeps:
  assumes "services_keep W (ap_env app)"
  shows "keeps R (ServeHTTP app req)"
  using routes_keep [OF assms] unfolding ServeHTTP_def find_route_def
  by (auto split: option.split dest!: find_Some_mem intro!: chains_keep keeps_ret basic)

end

section \<open>Answers are never errors\<close>

text \<open>\<open>answering m\<close>: \<open>m\<close> never ends with an error value; whatever fails below has become an answer.\<close>

definition answering :: "('w, 'a) io \<Rightarrow> bool" where
  "answering m \<longleftrightarrow> (\<forall>w e. fst (m w) \<noteq> Err e)"

lemma answering_parts:
  "answering (ret x)" "answering (attempt m)"
  "answering m \<Longrightarrow> (\<And>x. answering (f x)) \<Longrightarrow> answering (andthen m f)"
  "(\<And>y. answering (g y)) \<Longrightarrow> answering h \<Longrightarrow> answering (case p of None \<Rightarrow> h | Some y \<Rightarrow> g y)"
  "(\<And>y. answering (k y)) \<Longrightarrow> (\<And>z. answering (l z)) \<Longrightarrow> answering (case q of Inl y \<Rightarrow> k y | Inr z \<Rightarrow> l z)"
  "answering h \<Longrightarrow> answering h' \<Longrightarrow> answering (if b then h else h')"
proof -
  show "answering (andthen m f)" if "answering m" "\<And>x. answering (f x)"
  proof -
    have "fst (andthen m f w) \<noteq> Err e" for w e
    proof (cases "m w")
      case (Pair r w1)
      moreover have "fst (f x w1) \<noteq> Err e" for x using that(2) by (simp add: answering_def)
      moreover have "r \<noteq> Err e'" for e' using that(1) Pair by (auto simp: answering_def dest: spec [of _ w])
      ultimately show ?thesis by (cases r) auto
    qed
    then show ?thesis by (simp add: answering_def)
  qed
qed (auto simp: answering_def attempt_def split: prod.splits outcome.splits option.splits sum.splits)

lemma answering_ticks:
  "answering (on_world (time_now env))" "answering (on_world (new_uuid env))" "answering (change f)"
  "answering (log_line l)"
  by (simp_all add: answering_def on_world_def zoom_def change_def log_line_def)

lemma answering_attempted: "answering (attempt m)"
  by (rule answering_parts)

lemma on_world_attempt: "on_world (attempt m) = attempt (on_world m)"
  by (rule ext) (auto simp: on_world_def zoom_def attempt_def split: prod.splits outcome.splits)

lemma answering_handleCachedAuth: "answering (handleCachedAuth env rc tok)"
  unfolding handleCachedAuth_def by (intro answering_parts) (simp add: answering_def)

lemma answering_cached: "answering (on_world (handleCachedAuth env rc tok))"
  using answering_handleCachedAuth [of env rc tok]
  by (auto simp: answering_def on_world_def zoom_def split: prod.splits dest: spec) (metis fst_conv)

lemma answering_middlewares:
  assumes "\<And>ctx. answering (next ctx)"
  shows "answering (RequestAuthenticationMiddleware env next ctx)"
    "answering (UpdateCacheHitRatioMetrics env req next ctx)" "answering (Log req next ctx)"
    "answering (MetricsCORS u req next ctx)" "answering (Outside f req next ctx)"
    "answering (UserAuth app req next ctx)"
  using assms
  unfolding RequestAuthenticationMiddleware_def UpdateCacheHitRatioMetrics_def Log_def MetricsCORS_def
    Outside_def UserAuth_def UserAuthenticationMiddleware_def handleJWTValidation_def Let_def
  by (intro answering_parts answering_ticks answering_cached; blast)+

lemma answering_brackets:
  assumes "\<And>ctx. answering (next ctx)"
  shows "answering (UpdateServerMetrics req next ctx)" "answering (Recovery next ctx)"
    "answering (Limit env req next ctx)"
proof -
  show "answering (UpdateServerMetrics req next ctx)" "answering (Recovery next ctx)"
    using assms by (auto simp: answering_def UpdateServerMetrics_def Recovery_def
        split: prod.splits outcome.splits) (metis fst_conv)+
  show "answering (Limit env req next ctx)" unfolding Limit_def
    using assms by (intro answering_parts answering_ticks)
      (auto simp: answering_def split: prod.splits handling.splits)
qed

lemma answering_actions:
  "answering (handleStandardRequest lib decode check call req ctx)"
  "answering (handleAuthenticatedRequest decode check call' req ctx)"
  "answering (probe web failed healthy task ctx)" "answering (Auth_NotImplemented req ctx)"
  unfolding handleStandardRequest_def handleAuthenticatedRequest_def probe_def Auth_NotImplemented_def
    RespondFailure_def RespondSuccess_def
  by (intro answering_parts)+

lemma answering_chain:
  assumes "\<And>m next ctx. m \<in> set ms \<Longrightarrow> (\<And>ctx. answering (next ctx)) \<Longrightarrow> answering (m req next ctx)"
    and "\<And>ctx. answering (h req ctx)"
  shows "answering (chain ms h req ctx)"
  using assms(1)
proof (induction ms arbitrary: ctx)
  case (Cons m ms)
  have rest: "answering (chain ms h req ctx)" for ctx
    by (rule Cons.IH) (rule Cons.prems, simp_all)
  have "answering (m req (chain ms h req) ctx)" by (rule Cons.prems) (simp_all add: rest)
  then show ?case by (simp add: chain_def)
qed (simp add: chain_def assms(2))

lemma answering_chains:
  assumes "\<And>ctx. answering (h req ctx)"
  shows "answering (chain (global_chain app) h req ctx)" "answering (chain (limited app) h req ctx)"
    "answering (chain (limited app @ [UserAuth app]) h req ctx)"
    "answering (chain [Log, MetricsCORS u, Limit env] h req ctx)"
  unfolding global_chain_def limited_def
  by (rule answering_chain; use assms in \<open>auto intro: answering_middlewares answering_brackets\<close>)+

lemma answering_routes:
  assumes "r \<in> set (routes app)"
  shows "answering (rt_chain r req ctx)"
  using assms
  unfolding routes_def RegisterAuthRoutes_def RegisterUserRoutes_def RegisterDiagnosticsRoutes_def
    RegisterMonitoringRoutes_def RegisterDocumentationRoutes_def RegisterSwaggerRoutes_def Let_def
    Auth_Register_def Auth_ActivateAccount_def Auth_ResendActivationCode_def
    Auth_VerifyAccount_def Auth_ResendVerificationCode_def Auth_Login_def Auth_RequestPasswordReset_def
    Users_UpdateUser_def Users_UpdateDetails_def Users_UpdateSettings_def Users_RemoveAccount_def
    HealthProbe_def ReadinessProbe_def
  by (auto simp: route_def intro!: answering_chains answering_actions answering_parts)
    (auto simp: answering_def)

lemma engine_answers:
  shows "answering (ServeHTTP app req)" and "fst (ServeHTTP app req s) \<noteq> Panic"
proof -
  show "answering (ServeHTTP app req)"
    using answering_routes unfolding ServeHTTP_def find_route_def
    by (auto split: option.split dest!: find_Some_mem intro!: answering_chains answering_parts)
  have "fst (Recovery k ctx s) \<noteq> Panic" for k ctx and s :: "'a server"
    by (auto simp: Recovery_def split: prod.splits outcome.splits)
  then show "fst (ServeHTTP app req s) \<noteq> Panic"
    by (auto simp: ServeHTTP_def chain_def global_chain_def split: option.split)
qed

section \<open>Instances\<close>

interpretation gauge: server_frame "\<lambda>_ _. True"
  "\<lambda>s s'. ActiveRequests (sv_metrics s') = ActiveRequests (sv_metrics s)"
  by unfold_locales (simp_all add: active_def record_request_def Let_def)

interpretation limits: server_frame "\<lambda>_ _. True"
  "\<lambda>s s'. Window (sv_tracker s') = Window (sv_tracker s) \<and> MaxRequest (sv_tracker s') = MaxRequest (sv_tracker s)"
  by unfold_locales (simp_all add: active_def record_request_def Let_def)

interpretation stored: server_frame "holds P" "\<lambda>s s'. holds P (sv_world s) (sv_world s')" for P
  by unfold_locales (auto simp: active_def record_request_def Let_def holds_def same_db_def)

lemma anything_kept: "services_keep (\<lambda>_ _. True) env"
  by (simp add: services_keep_def keeps_def)


section \<open>Histories\<close>

lemma GenerateJWT_same_all: "keeps same_all (GenerateJWT env svc i v rs)"
  unfolding GenerateJWT_def Let_def by (intro same_all.intros)

context db_invariant
begin

lemma services: "services_keep (holds P) env"
  unfolding services_keep_def Register_def Service_ActivateAccount_def ResendActivationCode_def
    Service_VerifyAccount_def ResendVerificationCode_def Login_def RequestPasswordReset_def
    Service_UpdateUser_def UpdateDetails_def UpdateSettings_def Service_RemoveAccount_def
    HandleUserServiceCall_def HandleUserAction_def HashPassword_def
  by (intro allI conjI rules creating using_up updating lookups_hold events_same_db [THEN same_db_holds]
      same_all_holds [OF GenerateJWT_same_all])

lemma handlers: "topic_handler env topic = Some h \<Longrightarrow> keeps (holds P) (h e)"
  unfolding topic_handler_def UserActionHandler_Handle_def SubscriptionActionHandler_Handle_def
  by (auto split: if_splits intro!: rules describing lookups_hold)

lemma serving: "ap_env app = env \<Longrightarrow> keeps (\<lambda>s s'. holds P (sv_world s) (sv_world s')) (ServeHTTP app req)"
  by (rule stored.engine_keeps) (simp add: services)

end

text \<open>
  A server that has started (\<open>NewRequestTracker(40)\<close> over an empty database) and then served
  requests and consumed messages, one after the other. \<open>Cleanup\<close> is never started by \<open>NewApp\<close>.
\<close>

inductive reachable :: "('r, 'c) application \<Rightarrow> 'r server \<Rightarrow> bool" for app where
  start: "dbase w = empty_db \<Longrightarrow> reachable app (server_of w)"
| request: "reachable app s \<Longrightarrow> ServeHTTP app req s = (x, s') \<Longrightarrow> reachable app s'"
| message: "reachable app s \<Longrightarrow> topic_handler (ap_env app) topic = Some h \<Longrightarrow>
    on_world (h e) s = (x, s') \<Longrightarrow> reachable app s'"

lemma reachable_induct_frame:
  assumes "reachable app s" and "\<And>w. dbase w = empty_db \<Longrightarrow> I (server_of w)"
    and "\<And>req s x s'. I s \<Longrightarrow> ServeHTTP app req s = (x, s') \<Longrightarrow> I s'"
    and "\<And>w s. I s \<Longrightarrow> I (s\<lparr>sv_world := w\<rparr>)"
  shows "I s"
  using assms(1)
proof induction
  case (message s topic h e x s')
  then show ?case using assms(4) by (auto simp: on_world_def zoom_def split: prod.splits)
qed (use assms(2,3) in blast)+

context db_invariant
begin

lemma reachable_holds:
  assumes "reachable app s" and "ap_env app = env" and "P empty_db"
  shows "P (dbase (sv_world s))"
  using assms(1)
proof induction
  case (start w) then show ?case using assms(3) by (simp add: server_of_def)
next
  case (request s req x s')
  then show ?case using keepsD [OF serving [OF assms(2)] request(2)] by (simp add: holds_def)
next
  case (message s topic h e x s')
  then have "keeps (holds P) (h e)" using handlers assms(2) by blast
  then show ?case using message(3,4) by (auto simp: on_world_def zoom_def holds_def split: prod.splits dest: keepsD)
qed

end

lemma reachable_settings:
  assumes "reachable app s"
  shows "ActiveRequests (sv_metrics s) = 0 \<and> Window (sv_tracker s) = minute \<and> MaxRequest (sv_tracker s) = 40"
  using assms
  by (rule reachable_induct_frame)
    (auto simp: server_of_def idle_metrics_def NewRequestTracker_def
      dest: keepsD [OF gauge.engine_keeps [OF anything_kept]] keepsD [OF limits.engine_keeps [OF anything_kept]])

lemma wf_empty_db: "wf_db empty_db" "no_verification_codes empty_db"
  by (simp_all add: wf_db_def users_ok_def owned_ok_def codes_ok_def devices_ok_def wf_tab_def
      unique_col_def unique_opt_def user_ids_def empty_db_def empty_tab_def no_verification_codes_def)


end
