(* ===== verification/Route_Properties.thy ===== *)
theory Route_Properties imports Serving Users_Properties begin

text \<open>
  What single routes do: whose account a request can change, which routes can never succeed, and
  what a login answers.
\<close>

section \<open>Changes to one account\<close>

text \<open>\<open>others i\<close>: the rows of every account but \<open>i\<close> are as before.\<close>

definition other_accounts :: "int \<Rightarrow> db \<Rightarrow> user_row list" where
  "other_accounts i d = filter (\<lambda>u. u_id u \<noteq> i) (rows (users d))"

definition others :: "int \<Rightarrow> 'r world \<Rightarrow> 'r world \<Rightarrow> bool" where
  "others i w w' \<longleftrightarrow> other_accounts i (dbase w') = other_accounts i (dbase w)"

interpretation others: frame "others i" for i
  by unfold_locales (auto simp: others_def)

lemma same_db_others: "same_db w w' \<Longrightarrow> others i w w'"
  by (simp add: same_db_def others_def)

lemma same_db_keeps_others: "keeps same_db m \<Longrightarrow> keeps (others i) m"
  using same_db_others by (auto simp: keeps_def)

interpretation own: server_frame "others i" "\<lambda>s s'. others i (sv_world s) (sv_world s')" for i
  by unfold_locales (auto simp: others_def active_def record_request_def Let_def same_db_def)

lemma others_call:
  assumes "\<And>d x d'. stmt d = Inr (x, d') \<Longrightarrow> other_accounts i d' = other_accounts i d"
  shows "keeps (others i) (db_call env stmt)"
  using assms by (auto simp: keeps_def others_def db_call_def Let_def split: sum.splits)

lemma others_update_user: "keeps (others i) (UserUpdateOne_Save env b i)"
proof -
  have "other_accounts i d' = other_accounts i d" if "update_user env b i now d = Inr (x, d')" for now d x d'
  proof -
    from that obtain d1 where 1: "update_user_row b i now d = Inr d1" and "users d' = users d1"
      by (auto simp: update_user_def bind_sum_Inr node_of_def change_roles_def clear_second_factor_code_def
          Let_def split: if_splits option.splits)
    moreover have "filter (\<lambda>u. u_id u \<noteq> i) (map (\<lambda>u. if u_id u = i then apply_user_update b now u else u) us) =
        filter (\<lambda>u. u_id u \<noteq> i) us" for us
      by (induction us) auto
    ultimately show ?thesis
      by (auto simp: other_accounts_def update_user_row_def update_where_def split: if_splits)
  qed
  then show ?thesis
    unfolding UserUpdateOne_Save_def on_update_def save_def
    by (intro others.intros others_call)
qed

lemma others_update_tables:
  "keeps (others i) (db_call env (update_details f l j now))"
  "keeps (others i) (db_call env (update_settings env night two target notify j now))"
  by (rule others_call; auto simp: other_accounts_def update_details_def update_settings_def Let_def
      set_notify_def set_target_def split: if_splits option.splits)+

lemmas others_rules = others.intros keeps_case_prod keeps_Let others_update_user others_update_tables
  same_db_keeps_others [OF InvalidateCache_same_db]

lemma others_repository:
  "keeps (others (uid u)) (UpdateUser env u uq)" "keeps (others (uid u)) (RemoveAccount env u)"
  "keeps (others i) (UpdateUsersDetails env u dq)" "keeps (others i) (UpdateUsersSettings env u sq)"
  unfolding UpdateUser_def reject_if_exists_def RemoveAccount_def UpdateUsersDetails_def
    UpdateUsersSettings_def on_update_def
  by (intro others_rules)+

lemma keeps_andthen_Ok:
  assumes "transp R" and "keeps R m" and "\<And>x w w'. m w = (Ok x, w') \<Longrightarrow> keeps R (f x)"
  shows "keeps R (andthen m f)"
proof (rule keepsI)
  fix w r w' assume run: "andthen m f w = (r, w')"
  obtain r1 w1 where m: "m w = (r1, w1)" by fastforce
  have R1: "R w w1" using keepsD [OF assms(2) m] .
  show "R w w'"
  proof (cases r1)
    case (Ok x)
    with m run have "R w1 w'" using keepsD [OF assms(3)] by simp
    with R1 show ?thesis using assms(1) by (auto dest: transpD)
  qed (use m run R1 in auto)
qed

lemma found_ids:
  "GetUserByID env i w = (Ok u, w') \<Longrightarrow> uid u = i"
  "GetUserFunctionalDetailsByID env i w = (Ok u, w') \<Longrightarrow> uid u = i"
  unfolding GetUserByID_def GetUserFunctionalDetailsByID_def
  by (auto elim!: tx_query_OkE dest: found_functional(2))
    (auto simp: txGetUserByID_def getUserPrivate_def where_visible IDEQ_def uid_def dest!: Only_member(2))

lemma others_services:
  "keeps (others i) (Service_UpdateUser env i uq)" "keeps (others i) (UpdateDetails env i dq)"
  "keeps (others i) (UpdateSettings env i sq)" "keeps (others i) (Service_RemoveAccount env i)"
proof -
  note look = lookups_same_db [THEN same_db_keeps_others] and ev = events_same_db [THEN same_db_keeps_others]
  have "keeps (others i) (UpdateUser env u uq)" "keeps (others i) (RemoveAccount env u)" if "uid u = i" for u
    using that others_repository(1,2) by blast+
  then show "keeps (others i) (Service_UpdateUser env i uq)" "keeps (others i) (Service_RemoveAccount env i)"
    unfolding Service_UpdateUser_def Service_RemoveAccount_def HandleUserAction_def
    by (intro keeps_andthen_Ok [OF others.transp_R] others_rules look ev; auto elim!: or_fail_OkE dest: found_ids)+
  show "keeps (others i) (UpdateDetails env i dq)" "keeps (others i) (UpdateSettings env i sq)"
    unfolding UpdateDetails_def UpdateSettings_def HandleUserServiceCall_def
    by (intro others_rules others_repository look ev)+
qed

section \<open>Behind the middlewares of a group\<close>

text \<open>Where the claims of a request come from: a valid token, or the cache.\<close>

definition identified :: "('r, 'c) application \<Rightarrow> http_request \<Rightarrow> claims \<Rightarrow> bool" where
  "identified app req c \<longleftrightarrow> (\<exists>tok. extractBearerToken req = Inr tok \<and>
     (genuine_token (ap_env app) tok c \<or>
      (\<exists>w w'. handleCachedAuth (ap_env app) (ap_codec app) tok w = (Ok (Some c), w'))))"

lemma through_log:
  assumes "Log req next ctx s = (x, s')"
  shows "\<exists>s1 s2. next ctx s1 = (x, s2) \<and> sv_world s1 = sv_world s \<and> sv_world s2 = sv_world s'"
proof -
  let ?s = "if GetRequestID ctx = [] then s else sv_log_update (\<lambda>ls. ls @ [LogIncoming (hr_path req)]) s"
  obtain y t where run: "next ctx ?s = (y, t)" by fastforce
  have "y = x \<and> sv_world t = sv_world s'"
    using assms run by (cases y) (auto simp: Log_def log_line_def change_def andthen_def split: if_splits)
  with run show ?thesis by (intro exI [of _ ?s] exI [of _ t]) simp
qed

lemma through_limits:
  assumes "chain (limited app @ ms) h req ctx s = (x, s')"
  obtains (stopped) a where "x = Ok a" and "rp_status a = 429" and "dbase (sv_world s') = dbase (sv_world s)"
    | (passed) s1 s2 where "chain ms h req ctx s1 = (x, s2)" and "dbase (sv_world s1) = dbase (sv_world s)"
        and "sv_world s2 = sv_world s'"
proof -
  define inner where "inner = Limit (ap_env app) req (chain ms h req) ctx"
  have "Log req (Limit (ap_env app) req (chain ms h req)) ctx s = (x, s')"
    using assms by (simp add: limited_def chain_def)
  from through_log [OF this] obtain s1 s2 where i: "inner s1 = (x, s2)" "sv_world s1 = sv_world s"
    "sv_world s2 = sv_world s'" by (auto simp: inner_def)
  let ?s = "s1\<lparr>sv_world := (sv_world s1)\<lparr>tick := tick (sv_world s1) + 1\<rparr>\<rparr>"
  obtain d t where L: "LimitRequestsMiddleware (hr_client_ip req) (header ''User-Agent'' req)
      (now_at (ap_env app) (tick (sv_world s1))) (sv_tracker s1) = (d, t)" by fastforce
  have run: "inner s1 = (case d of Abort status body \<Rightarrow> (Ok (json_reply status body), ?s\<lparr>sv_tracker := t\<rparr>)
      | Next \<Rightarrow> chain ms h req ctx (?s\<lparr>sv_tracker := t\<rparr>))"
    by (simp add: inner_def Limit_def on_world_def zoom_def andthen_def L split: handling.splits)
  show thesis
  proof (cases d)
    case (Abort status body)
    then have "status = 429" using L by (auto simp: LimitRequestsMiddleware_def Let_def split: if_splits)
    moreover have "x = Ok (json_reply status body)" "sv_world s' = (sv_world s)\<lparr>tick := tick (sv_world s) + 1\<rparr>"
      using run i Abort by auto
    ultimately show thesis by (intro stopped [of "json_reply status body"]) (simp_all add: json_reply_def)
  next
    case Next
    then show thesis using run i by (intro passed [of "?s\<lparr>sv_tracker := t\<rparr>" s2]) auto
  qed
qed

lemma through_auth:
  assumes "UserAuth app req next ctx s = (x, s')"
  shows "dbase (sv_world s') = dbase (sv_world s) \<or>
    (\<exists>tok c s1. identified app req c \<and> next (with_claims c tok ctx) s1 = (x, s') \<and>
       dbase (sv_world s1) = dbase (sv_world s))"
proof (cases "extractBearerToken req")
  case (Inl e)
  then show ?thesis using assms by (simp add: UserAuth_def UserAuthenticationMiddleware_def)
next
  case (Inr tok)
  let ?env = "ap_env app" and ?rc = "ap_codec app"
  obtain r1 w1 where 1: "handleCachedAuth ?env ?rc tok (sv_world s) = (r1, w1)" by fastforce
  have d1: "dbase w1 = dbase (sv_world s)" using keepsD [OF cached_auth_same_db 1] by (simp add: same_db_def)
  obtain r2 w2 where 2: "ValidateJWT ?env tok w1 = (r2, w2)" by fastforce
  have d2: "dbase w2 = dbase w1" using keepsD [OF ValidateJWT_same_all 2] by (simp add: same_all_def)
  note defs = UserAuth_def UserAuthenticationMiddleware_def handleJWTValidation_def on_world_def zoom_def
    andthen_def attempt_def Inr 1 2
  have no_error: "r1 \<noteq> Err e" for e
    using answering_handleCachedAuth [of ?env ?rc tok] 1 unfolding answering_def by (metis fst_conv)
  consider (cached) c where "r1 = Ok (Some c)" | (valid) c where "r1 = Ok None" "r2 = Ok c"
    | (refused) "r1 = Panic \<or> r1 = Hang \<or> r1 = Ok None \<and> (\<forall>c. r2 \<noteq> Ok c)"
    using no_error by (metis outcome.exhaust option.exhaust)
  then show ?thesis
  proof cases
    case cached
    then have "next (with_claims c tok ctx) (s\<lparr>sv_world := w1\<rparr>) = (x, s')" using assms by (simp add: defs)
    moreover have "identified app req c" using Inr 1 cached by (auto simp: identified_def)
    ultimately show ?thesis using d1
      by (intro disjI2 exI [of _ tok] exI [of _ c] exI [of _ "s\<lparr>sv_world := w1\<rparr>"]) simp
  next
    case valid
    obtain r3 w3 where 3: "cacheValidClaims ?env ?rc c tok w2 = (r3, w3)" by fastforce
    have d3: "dbase w3 = dbase w2" using keepsD [OF cache_claims_same_db 3] by (simp add: same_db_def)
    have "identified app req c"
      using jwt.validate_sound [OF 2 [unfolded valid(2)]] Inr by (auto simp: identified_def)
    moreover have "(x, s') = (case r3 of Panic \<Rightarrow> (Panic, s\<lparr>sv_world := w3\<rparr>) | Hang \<Rightarrow> (Hang, s\<lparr>sv_world := w3\<rparr>)
        | _ \<Rightarrow> next (with_claims c tok ctx) (s\<lparr>sv_world := w3\<rparr>))"
      using assms valid by (simp add: defs 3 split: outcome.splits)
    ultimately show ?thesis using d1 d2 d3
      by (cases r3) (auto intro!: exI [of _ tok] exI [of _ c] exI [of _ "s\<lparr>sv_world := w3\<rparr>"])
  next
    case refused
    then show ?thesis using assms d1 d2
      by (cases r2) (auto simp: defs unauthorized_def split: option.splits)
  qed
qed

lemma authenticated_as:
  assumes "getUserIDFromContext ctx = Inr i" and "\<And>q. keeps (others i) (call i q)"
  shows "keeps (\<lambda>s s'. others i (sv_world s) (sv_world s')) (handleAuthenticatedRequest decode check call req ctx)"
  unfolding handleAuthenticatedRequest_def RespondFailure_def RespondSuccess_def assms(1) sum.case
  by (intro own.steps keeps_attempt own.of_world assms(2))

lemma users_actions_own:
  assumes "getUserIDFromContext ctx = Inr i"
  shows "keeps (\<lambda>s s'. others i (sv_world s) (sv_world s')) (Users_UpdateUser env web req ctx)"
    "keeps (\<lambda>s s'. others i (sv_world s) (sv_world s')) (Users_UpdateDetails env web req ctx)"
    "keeps (\<lambda>s s'. others i (sv_world s) (sv_world s')) (Users_UpdateSettings env web req ctx)"
    "keeps (\<lambda>s s'. others i (sv_world s) (sv_world s')) (Users_RemoveAccount env web req ctx)"
  unfolding Users_UpdateUser_def Users_UpdateDetails_def Users_UpdateSettings_def Users_RemoveAccount_def
    answer_private_def saying_def
  by (rule authenticated_as [OF assms]; intro others_rules others_services)+

lemma some_chain: "P h \<Longrightarrow> \<exists>h'. chain ms h = chain ms h' \<and> P h'"
  by blast


section \<open>Routes that never succeed\<close>

lemma standard_200:
  assumes "handleStandardRequest lib decode check call req ctx s = (Ok a, s')" and "rp_status a = 200"
  obtains q data w where "decode (hr_body req) = Some q" and "call q (sv_world s) = (Ok data, w)"
    and "rp_body a = Some (SuccessResponse data (GetRequestID ctx))"
  using assms
  by (auto simp: handleStandardRequest_def RespondFailure_def RespondSuccess_def json_reply_def
      elim!: ok_elims split: option.splits)

lemma limited_200:
  assumes "chain (limited app) (handleStandardRequest lib decode check call) req ctx s = (Ok a, s')" and "rp_status a = 200"
  obtains q data v w where "call q v = (Ok data, w)" and "dbase v = dbase (sv_world s)"
    and "rp_body a = Some (SuccessResponse data (GetRequestID ctx))"
proof -
  from assms(1) have "chain (limited app @ []) (handleStandardRequest lib decode check call) req ctx s = (Ok a, s')"
    by simp
  then show thesis
  proof (cases rule: through_limits)
    case (passed s1 s2)
    then have "handleStandardRequest lib decode check call req ctx s1 = (Ok a, s2)" by (simp add: chain_def)
    with assms(2) show thesis using passed(2) that by (elim standard_200) metis
  qed (use assms(2) in simp)
qed

lemma verification_fails:
  assumes "no_verification_codes (dbase w)"
  shows "Service_VerifyAccount env svc q w \<noteq> (Ok x, w')"
proof
  assume "Service_VerifyAccount env svc q w = (Ok x, w')"
  then obtain u w1 where "VerifyAccount env (cq_code q) w = (Ok u, w1)"
    by (auto simp: Service_VerifyAccount_def elim!: andthen_OkE or_fail_OkE)
  then obtain v w2 u' where "db_query env (txGetUserByVerificationCode (cq_code q)) (w\<lparr>tick := tick w + 1\<rparr>) = (Ok v, w2)"
    by (auto simp: VerifyAccount_def elim!: andthen_OkE WithTransaction_OkE)
  then have "txGetUserByVerificationCode (cq_code q) (dbase w) = Inr v"
    by (auto elim!: ok_elims)
  moreover have "txGetUserByVerificationCode (cq_code q) (dbase w) = Inl (ENotFound ''user'')"
    using assms by (simp add: txGetUserByVerificationCode_def getUserWithRoles_def Only_none where_visible
        has_code_def no_verification_codes_def)
  ultimately show False by simp
qed


section \<open>What a login answers\<close>

lemma login_without_details:
  assumes "Login env svc q w = (Ok (result, token), w')"
  shows "FromUserPrivate result [token] = None"
proof -
  from assms obtain u where "result = Some u" and u: "txGetUserByMail (lg_mail q) (dbase w) = Inr u"
    by (elim Login_OkE) auto
  moreover from u have "e_details u = None"
    using arg_cong [OF Only_InrD(2), of "Where (MailEQ (lg_mail q)) (withFunctionalData Query)" "dbase w" u e_details]
    by (simp add: txGetUserByMail_def getUserFunctional_def)
  ultimately show ?thesis by (simp add: FromUserPrivate_def)
qed

text \<open>C15: a successful login answers no token. The route that logs in, and the one that is meant to
  log out and logs in too, answer 200 only with the data \<open>null\<close>: the response is built from the
  details of the user, which a login does not load.\<close>

theorem login_answers_null:
  assumes "r \<in> set (routes app)" and "rt_pattern r \<in> Exact ` {''/auth/login'', ''/auth/logout''}"
    and "rt_chain r req ctx s = (Ok a, s')" and "rp_status a = 200"
  shows "rp_body a = Some (SuccessResponse JNull (GetRequestID ctx))"
proof -
  from assms(1,2) have "rt_chain r = chain (limited app) (Auth_Login (ap_env app) (ap_web app) NewAuthService)"
    by (auto simp: routes_def RegisterAuthRoutes_def RegisterUserRoutes_def RegisterDiagnosticsRoutes_def
        RegisterMonitoringRoutes_def RegisterDocumentationRoutes_def RegisterSwaggerRoutes_def route_def Let_def)
  from assms(3) [unfolded this Auth_Login_def] assms(4) obtain q data v w where
    call: "andthen (Login (ap_env app) NewAuthService q) (\<lambda>(u, token).
        ret (private_json (ap_env app) (ap_web app) u [token])) v = (Ok data, w)"
    and body: "rp_body a = Some (SuccessResponse data (GetRequestID ctx))" by (rule limited_200)
  from call have "data = JNull"
    by (auto elim!: andthen_OkE dest!: login_without_details simp: private_json_def private_data_def)
  with body show ?thesis by simp
qed

section \<open>Samples\<close>

definition sample_web :: web where
  "sample_web = \<lparr>w_email = (\<lambda>_. True), w_valid = \<lparr>ip_rule = (\<lambda>_. True), tables = \<lparr>high_digit = (\<lambda>_. False), high_upper = (\<lambda>_. False)\<rparr>\<rparr>,
     w_error = (\<lambda>_. []), w_float = (\<lambda>_. JNull)\<rparr>"

definition not_found :: "http_request \<Rightarrow> reply" where
  "not_found req = \<lparr>rp_status = 404, rp_headers = [], rp_body = None\<rparr>"

definition sample_app :: "(mem, unit) application" where
  "sample_app = \<lparr>ap_env = steady_env, ap_web = sample_web, ap_codec = sample_codec, ap_metadata = (\<lambda>_. None),
     ap_consumers = NewConsumerManager, ap_order = [], ap_producer = None, ap_prometheus_url = [],
     ap_redoc = (\<lambda>_. Inr []), ap_cors = (\<lambda>_. Inr []), ap_prometheus = (\<lambda>req _. not_found req),
     ap_file = (\<lambda>_. not_found), ap_swagger = not_found, ap_unmatched = not_found\<rparr>"

definition post :: "string \<Rightarrow> string \<Rightarrow> http_request" where
  "post path body = \<lparr>hr_method = ''POST'', hr_path = path, hr_full_path = path, hr_headers = [], hr_length = 0,
     hr_client_ip = ''10.0.0.1'', hr_body = body\<rparr>"

definition login_route :: "(mem, unit) application \<Rightarrow> mem route" where
  "login_route app = route (limited app) ''POST'' (Exact ''/auth/login'')
     (Auth_Login (ap_env app) (ap_web app) NewAuthService)"

definition reset_route :: "(mem, unit) application \<Rightarrow> mem route" where
  "reset_route app = route (limited app) ''POST'' (Exact ''/auth/password/reset/request'')
     (Auth_RequestPasswordReset (ap_env app) (ap_web app) NewAuthService)"

lemma known_routes: "login_route app \<in> set (routes app)" "reset_route app \<in> set (routes app)"
  by (simp_all add: routes_def RegisterAuthRoutes_def Let_def login_route_def reset_route_def)

lemma alice_valid: "Login_Valid (w_valid sample_web) alice_login = None"
proof -
  have "email_shape ''a'' ''b'' ''co''"
    by (simp add: email_shape_def local_class_def domain_class_def letter_class_def rune_in_def rune_is_def
        has_prefix_def)
  then have "CheckEmailFormat (''a'' @ ''@'' @ ''b'' @ ''.'' @ ''co'')" unfolding email_format by blast
  moreover have "CheckPasswordFormat (tables (w_valid sample_web)) ''Secret12345!''"
    by (simp add: password_format runes_ascii ascii_def unicode_IsDigit_def unicode_IsUpper_def
        special_class_def rune_is_def)
  ultimately show ?thesis
    by (simp add: Login_Valid_def mail_rules_Nil password_rules_Nil alice_login_def sample_device_def
        device_failures_def first_failure_Nil r_required_def sample_web_def)
qed

lemma fresh_limits:
  assumes "GetRequestID ctx \<noteq> []"
    and "\<And>s1. sv_world s1 = w\<lparr>tick := tick w + 1\<rparr> \<Longrightarrow> \<exists>s2. h req ctx s1 = (Ok a, s2)"
  shows "\<exists>s'. chain (limited app) h req ctx (server_of w) = (Ok a, s')"
proof -
  let ?s = "sv_log_update (\<lambda>ls. ls @ [LogIncoming (hr_path req)]) (server_of w)"
  obtain t where L: "LimitRequestsMiddleware (hr_client_ip req) (header ''User-Agent'' req)
      (now_at (ap_env app) (tick w)) (sv_tracker (server_of w)) = (Next, t)"
    by (simp add: LimitRequestsMiddleware_def server_of_def NewRequestTracker_def Let_def)
  obtain s2 where "h req ctx (?s\<lparr>sv_world := w\<lparr>tick := tick w + 1\<rparr>, sv_tracker := t\<rparr>) = (Ok a, s2)"
    using assms(2) by fastforce
  then have "Limit (ap_env app) req (h req) ctx ?s = (Ok a, s2)"
    using L by (simp add: Limit_def on_world_def zoom_def andthen_def server_of_def)
  then show ?thesis
    using assms(1) by (simp add: chain_def limited_def Log_def log_line_def change_def andthen_def)
qed

definition named :: keys where
  "named = [''RequestID'' \<mapsto> VString ''r1'']"

lemma named_id: "GetRequestID named = ''r1''"
  by (simp add: GetRequestID_def named_def)

lemma alice_logs_in_at:
  assumes "dbase w = sample_db"
  shows "\<exists>token w'. Login steady_env NewAuthService alice_login w = (Ok (Some alice_user, token), w')"
proof -
  have "lg_mail alice_login = ''a@b.co''" by (simp add: alice_login_def)
  then show ?thesis
    by (intro Login_run [OF steady_no_faults _ _ _ _ _ alice_user_fields(3)])
      (simp_all add: assms find_alice wf_sample_db alice_login_fields(3-5) alice_password sample_fields)
qed

lemma alice_body: "bind_login (\<lambda>_. True) (print_json (login_doc alice_login)) = Some alice_login"
  by (rule bind_login_doc)
    (simp_all add: alice_login_def sample_device_def mail_bound_def password_bound_def device_bound_def
      rune_count_def runes_ascii ascii_def)

lemma alice_login_route:
  "\<exists>a s'. rt_chain (login_route sample_app) (post ''/auth/login'' (print_json (login_doc alice_login))) named
     (server_of (fresh_world sample_db)) = (Ok a, s') \<and> rp_status a = 200"
proof -
  let ?req = "post ''/auth/login'' (print_json (login_doc alice_login))"
  let ?a = "json_reply 200 (SuccessResponse JNull ''r1'')"
  have "\<exists>s2. Auth_Login steady_env sample_web NewAuthService ?req named s1 = (Ok ?a, s2)"
    if "sv_world s1 = (fresh_world sample_db)\<lparr>tick := tick (fresh_world sample_db) + 1\<rparr>" for s1
  proof -
    have "dbase (sv_world s1) = sample_db" using that by (simp add: fresh_world_def)
    from alice_logs_in_at [OF this] obtain tok w where
      run: "Login steady_env NewAuthService alice_login (sv_world s1) = (Ok (Some alice_user, tok), w)" by blast
    have "bind_login (w_email sample_web) (hr_body ?req) = Some alice_login"
      by (simp add: sample_web_def post_def alice_body)
    then show ?thesis
      using login_without_details [OF run] run alice_valid
      by (simp add: Auth_Login_def handleStandardRequest_def on_world_def zoom_def andthen_def attempt_def
          private_json_def private_data_def RespondSuccess_def named_id)
  qed
  then have "\<exists>s'. chain (limited sample_app) (Auth_Login steady_env sample_web NewAuthService) ?req named
      (server_of (fresh_world sample_db)) = (Ok ?a, s')"
    by (intro fresh_limits) (simp_all add: named_id)
  then show ?thesis
    by (auto simp: login_route_def route_def sample_app_def json_reply_def)
qed

theorem login_answers_null_witness:
  "\<exists>a s'. rt_chain (login_route sample_app) (post ''/auth/login'' (print_json (login_doc alice_login))) named
     (server_of (fresh_world sample_db)) = (Ok a, s') \<and> rp_status a = 200 \<and>
     rp_body a = Some (SuccessResponse JNull ''r1'')"
proof -
  obtain a s' where run: "rt_chain (login_route sample_app)
      (post ''/auth/login'' (print_json (login_doc alice_login))) named (server_of (fresh_world sample_db)) = (Ok a, s')"
    and ok: "rp_status a = 200" using alice_login_route by blast
  have "rt_pattern (login_route sample_app) \<in> Exact ` {''/auth/login'', ''/auth/logout''}"
    by (simp add: login_route_def route_def)
  from login_answers_null [OF known_routes(1) this run ok] run ok show ?thesis by (auto simp: named_id)
qed

lemma empty_start: "reachable sample_app (server_of (fresh_world empty_db))"
  by (rule reachable.start) (simp add: fresh_world_def)


definition remove_route :: "(mem, unit) application \<Rightarrow> mem route" where
  "remove_route app = route (limited app @ [UserAuth app]) ''DELETE'' (Exact ''/users/remove'')
     (Users_RemoveAccount (ap_env app) (ap_web app))"



end
