(* ===== verification/Configuration.thy ===== *)
theory Configuration imports Base64 Kafka_Middleware begin

text \<open>
  The start-up (app/config): the settings read through viper, the signing keys, the addresses and
  the client configurations made of the settings, the topics. Viper, mapstructure, the file
  system, PEM and X.509 are parameters; \<open>viper_law\<close> is viper's documented lookup order.
\<close>

section \<open>Settings\<close>

record app_settings =
  ApiVersion :: string
  ApiPort :: string
  Environment :: string
  LogLevel :: string
  TestMode :: string
  EncryptionSecretKey :: string
  JwtPrivateKeyPath :: string
  JwtPublicKeyPath :: string
  JwtPrivateKeyBase64 :: string
  JwtPublicKeyBase64 :: string
  DBUser :: string
  DBPassword :: string
  DBHost :: string
  DBPort :: int
  DBName :: string
  DbSslCaPath :: string
  DbSslCertPath :: string
  DbSslKeyPath :: string
  RedisHost :: string
  RedisPort :: int
  RedisDB :: int
  RedisPassword :: string
  RedisTlsEnabled :: bool
  RedisSslCaPath :: string
  RedisSslCertPath :: string
  RedisSslKeyPath :: string
  KafkaBootstrapServers :: string
  KafkaClientID :: string
  KafkaSecurityProtocol :: string
  KafkaSaslMechanism :: string
  KafkaSaslUsername :: string
  KafkaSaslPassword :: string
  KafkaSslCaPath :: string
  KafkaSslCertPath :: string
  KafkaSslKeyPath :: string
  KafkaClientKeyPassword :: string
  KafkaTopics :: string
  KafkaBrokerID :: string
  KafkaNotifierTopic :: string
  DockerSocket :: string

definition viper_defaults :: "(string \<times> string) list" where
  "viper_defaults =
    [(''API_PORT'', '':8000''), (''ENVIRONMENT'', ''development''), (''LOG_LEVEL'', ''info''),
     (''ENCRYPTION_SECRET_KEY'', []), (''DB_HOST'', ''postgres.postgres.svc.cluster.local''),
     (''DB_NAME'', ''users_db''), (''DB_PORT'', ''5432''), (''DB_USER'', ''users_service''),
     (''DB_PASSWORD'', []), (''DB_SSL_CA_PATH'', []), (''DB_SSL_CERT_PATH'', []), (''DB_SSL_KEY_PATH'', []),
     (''KAFKA_BOOTSTRAP_SERVERS'', ''kafka.kafka.svc.cluster.local:9093''),
     (''KAFKA_CLIENT_ID'', ''users-service''), (''KAFKA_SECURITY_PROTOCOL'', ''SSL''),
     (''KAFKA_SSL_CA_PATH'', ''/etc/users-service-tls/kafka/ca.crt''),
     (''KAFKA_SSL_CERT_PATH'', ''/etc/users-service-tls/kafka/tls.crt''),
     (''KAFKA_SSL_KEY_PATH'', ''/etc/users-service-tls/kafka/tls.key''),
     (''KAFKA_NOTIFIER_TOPIC'', ''notifications''), (''KAFKA_CLIENT_KEY_PASSWORD'', []), (''KAFKA_TOPICS'', []),
     (''REDIS_HOST'', ''redis.redis.svc.cluster.local''), (''REDIS_PORT'', ''6379''), (''REDIS_DB'', ''0''),
     (''REDIS_TLS_ENABLED'', ''false''), (''REDIS_SSL_CA_PATH'', ''/etc/users-service-tls/redis/ca.crt''),
     (''REDIS_SSL_CERT_PATH'', ''/etc/users-service-tls/redis/tls.crt''),
     (''REDIS_SSL_KEY_PATH'', ''/etc/users-service-tls/redis/tls.key''), (''REDIS_PASSWORD'', []),
     (''TEST_MODE'', []), (''JWT_PRIVATE_KEY_PATH'', []), (''JWT_PUBLIC_KEY_PATH'', [])]"

type_synonym variables = "string \<rightharpoonup> string"

text \<open>
  What \<open>Unmarshal\<close> is given for a key: \<open>resolve defaults environment file key\<close>. Viper unmarshals
  the keys it knows, those of the file and those with a default; for these a non-empty
  environment variable comes first, then the file, then the default.
\<close>

record viper =
  resolve :: "variables \<Rightarrow> variables \<Rightarrow> variables \<Rightarrow> string \<Rightarrow> string option"
  weak_int :: "string \<Rightarrow> int option"
  weak_bool :: "string \<Rightarrow> bool option"

definition viper_law :: "viper \<Rightarrow> bool" where
  "viper_law v \<longleftrightarrow> (\<forall>defs os file key. resolve v defs os file key =
     (if key \<notin> dom file \<and> key \<notin> dom defs then None
      else case os key of
        Some (c # s) \<Rightarrow> Some (c # s)
      | _ \<Rightarrow> (case file key of Some x \<Rightarrow> Some x | None \<Rightarrow> defs key)))"

definition text_setting :: "(string \<Rightarrow> string option) \<Rightarrow> string \<Rightarrow> string" where
  "text_setting get key = (case get key of None \<Rightarrow> [] | Some s \<Rightarrow> s)"

definition int_setting :: "viper \<Rightarrow> (string \<Rightarrow> string option) \<Rightarrow> string \<Rightarrow> int option" where
  "int_setting v get key = (case get key of None \<Rightarrow> Some 0 | Some s \<Rightarrow> weak_int v s)"

definition bool_setting :: "viper \<Rightarrow> (string \<Rightarrow> string option) \<Rightarrow> string \<Rightarrow> bool option" where
  "bool_setting v get key = (case get key of None \<Rightarrow> Some False | Some s \<Rightarrow> weak_bool v s)"

text \<open>A value that does not convert ends the process (\<open>log.Fatalf\<close>): \<open>None\<close>.\<close>

definition GetSettings :: "viper \<Rightarrow> variables \<Rightarrow> variables \<Rightarrow> app_settings option" where
  "GetSettings v os file =
     (let get = resolve v (map_of viper_defaults) os file; t = text_setting get
      in case (int_setting v get ''DB_PORT'', int_setting v get ''REDIS_PORT'', int_setting v get ''REDIS_DB'',
               bool_setting v get ''REDIS_TLS_ENABLED'') of
        (Some dbPort, Some redisPort, Some redisDB, Some redisTls) \<Rightarrow> Some
          \<lparr>ApiVersion = t ''API_VERSION'', ApiPort = t ''API_PORT'', Environment = t ''ENVIRONMENT'',
           LogLevel = t ''LOG_LEVEL'', TestMode = t ''TEST_MODE'',
           EncryptionSecretKey = t ''ENCRYPTION_SECRET_KEY'',
           JwtPrivateKeyPath = t ''JWT_PRIVATE_KEY_PATH'', JwtPublicKeyPath = t ''JWT_PUBLIC_KEY_PATH'',
           JwtPrivateKeyBase64 = t ''JWT_PRIVATE_KEY_BASE64'', JwtPublicKeyBase64 = t ''JWT_PUBLIC_KEY_BASE64'',
           DBUser = t ''DB_USER'', DBPassword = t ''DB_PASSWORD'', DBHost = t ''DB_HOST'', DBPort = dbPort,
           DBName = t ''DB_NAME'', DbSslCaPath = t ''DB_SSL_CA_PATH'', DbSslCertPath = t ''DB_SSL_CERT_PATH'',
           DbSslKeyPath = t ''DB_SSL_KEY_PATH'',
           RedisHost = t ''REDIS_HOST'', RedisPort = redisPort, RedisDB = redisDB,
           RedisPassword = t ''REDIS_PASSWORD'', RedisTlsEnabled = redisTls,
           RedisSslCaPath = t ''REDIS_SSL_CA_PATH'', RedisSslCertPath = t ''REDIS_SSL_CERT_PATH'',
           RedisSslKeyPath = t ''REDIS_SSL_KEY_PATH'',
           KafkaBootstrapServers = t ''KAFKA_BOOTSTRAP_SERVERS'', KafkaClientID = t ''KAFKA_CLIENT_ID'',
           KafkaSecurityProtocol = t ''KAFKA_SECURITY_PROTOCOL'', KafkaSaslMechanism = t ''KAFKA_SASL_MECHANISM'',
           KafkaSaslUsername = t ''KAFKA_SASL_USERNAME'', KafkaSaslPassword = t ''KAFKA_SASL_PASSWORD'',
           KafkaSslCaPath = t ''KAFKA_SSL_CA_PATH'', KafkaSslCertPath = t ''KAFKA_SSL_CERT_PATH'',
           KafkaSslKeyPath = t ''KAFKA_SSL_KEY_PATH'', KafkaClientKeyPassword = t ''KAFKA_CLIENT_KEY_PASSWORD'',
           KafkaTopics = t ''KAFKA_TOPICS'', KafkaBrokerID = t ''KAFKA_BROKER_ID'',
           KafkaNotifierTopic = t ''KAFKA_NOTIFIER_TOPIC'', DockerSocket = t ''DOCKER_SOCKET''\<rparr>
      | _ \<Rightarrow> None)"

definition RedisURI :: "app_settings \<Rightarrow> string" where
  "RedisURI s = (if RedisTlsEnabled s then ''rediss'' else ''redis'') @ ''://'' @
     (if RedisPassword s \<noteq> [] then '':'' @ RedisPassword s @ ''@'' else []) @ RedisHost s @ '':'' @
     itoa (RedisPort s) @ ''/'' @ itoa (RedisDB s)"

section \<open>Signing keys\<close>

datatype parsed_key = Ed25519 string | OtherKey

text \<open>\<open>pem_decode\<close>: type and content of the first block.\<close>

record key_tools =
  read_file :: "string \<Rightarrow> error + string"
  pem_decode :: "string \<Rightarrow> (string \<times> string) option"
  parse_pkcs8 :: "string \<Rightarrow> error + parsed_key"
  parse_pkix :: "string \<Rightarrow> error + parsed_key"

definition ed25519_of :: "string \<Rightarrow> parsed_key \<Rightarrow> error + string" where
  "ed25519_of msg k = (case k of Ed25519 x \<Rightarrow> Inr x | OtherKey \<Rightarrow> Inl (EMsg msg))"

definition wrapping :: "string \<Rightarrow> error + 'a \<Rightarrow> error + 'a" where
  "wrapping msg r = (case r of Inl e \<Rightarrow> Inl (EWrap msg e) | Inr x \<Rightarrow> Inr x)"

definition typed_block :: "key_tools \<Rightarrow> string \<Rightarrow> string \<Rightarrow> string \<Rightarrow> string \<Rightarrow> error + string" where
  "typed_block lib missing what typ pem = (case pem_decode lib pem of
      None \<Rightarrow> Inl (EMsg missing)
    | Some (t, content) \<Rightarrow> if t \<noteq> typ
        then Inl (EMsg (''unexpected type for '' @ what @ '' PEM block: '' @ t)) else Inr content)"

definition loadKeysFromBase64 :: "key_tools \<Rightarrow> string \<Rightarrow> string \<Rightarrow> error + string \<times> string" where
  "loadKeysFromBase64 lib privateKeyB64 publicKeyB64 =
     bind_sum (case decode_string True privateKeyB64 of
         None \<Rightarrow> Inl (EWrap ''failed to base64 decode private key'' (EIO ''base64'')) | Some p \<Rightarrow> Inr p) (\<lambda>privatePEM.
     bind_sum (typed_block lib ''failed to decode PEM block from base64 private key'' ''private key'' ''PRIVATE KEY''
       privatePEM) (\<lambda>privateBytes.
     bind_sum (wrapping ''failed to parse PKCS8 private key from base64'' (parse_pkcs8 lib privateBytes)) (\<lambda>privateKey.
     bind_sum (ed25519_of ''private key from base64 is not of type Ed25519'' privateKey) (\<lambda>ed25519PrivateKey.
     bind_sum (case decode_string True publicKeyB64 of
         None \<Rightarrow> Inl (EWrap ''failed to base64 decode public key'' (EIO ''base64'')) | Some p \<Rightarrow> Inr p) (\<lambda>publicPEM.
     bind_sum (typed_block lib ''failed to decode PEM block from base64 public key'' ''public key'' ''PUBLIC KEY''
       publicPEM) (\<lambda>publicBytes.
     bind_sum (wrapping ''failed to parse PKIX public key from base64'' (parse_pkix lib publicBytes)) (\<lambda>publicKey.
     bind_sum (ed25519_of ''public key from base64 is not of type Ed25519'' publicKey) (\<lambda>ed25519PublicKey.
     Inr (ed25519PrivateKey, ed25519PublicKey)))))))))"

definition loadKeysFromPaths :: "key_tools \<Rightarrow> string \<Rightarrow> string \<Rightarrow> error + string \<times> string" where
  "loadKeysFromPaths lib privateKeyPath publicKeyPath =
     bind_sum (wrapping (''failed to read private key from path '' @ privateKeyPath) (read_file lib privateKeyPath)) (\<lambda>privatePEM.
     bind_sum (typed_block lib (''failed to decode PEM block from private key file: '' @ privateKeyPath)
       ''private key'' ''PRIVATE KEY'' privatePEM) (\<lambda>privateBytes.
     bind_sum (wrapping ''failed to parse PKCS8 private key from file'' (parse_pkcs8 lib privateBytes)) (\<lambda>privateKey.
     bind_sum (wrapping (''failed to read public key from path '' @ publicKeyPath) (read_file lib publicKeyPath)) (\<lambda>publicPEM.
     bind_sum (typed_block lib (''failed to decode PEM block from public key file: '' @ publicKeyPath)
       ''public key'' ''PUBLIC KEY'' publicPEM) (\<lambda>publicBytes.
     bind_sum (wrapping ''failed to parse PKIX public key from file'' (parse_pkix lib publicBytes)) (\<lambda>publicKey.
     bind_sum (ed25519_of ''private key from file is not of type Ed25519'' privateKey) (\<lambda>ed25519PrivateKey.
     bind_sum (ed25519_of ''public key from file is not of type Ed25519'' publicKey) (\<lambda>ed25519PublicKey.
     Inr (ed25519PrivateKey, ed25519PublicKey)))))))))"

definition LoadJWTSigningKeys :: "key_tools \<Rightarrow> app_settings \<Rightarrow> error + string \<times> string" where
  "LoadJWTSigningKeys lib s =
     (if JwtPrivateKeyPath s \<noteq> [] \<and> JwtPublicKeyPath s \<noteq> []
      then loadKeysFromPaths lib (JwtPrivateKeyPath s) (JwtPublicKeyPath s)
      else if JwtPrivateKeyBase64 s \<noteq> [] \<and> JwtPublicKeyBase64 s \<noteq> []
      then loadKeysFromBase64 lib (JwtPrivateKeyBase64 s) (JwtPublicKeyBase64 s)
      else Inl (EMsg ''no JWT key configuration provided (neither file paths nor Base64 secrets)''))"

text \<open>\<open>LoadKeys\<close> of app/utils/controller_utils.go does not look at the types of the blocks.\<close>

definition any_block :: "key_tools \<Rightarrow> string \<Rightarrow> string \<Rightarrow> error + string" where
  "any_block lib missing pem = (case pem_decode lib pem of
      None \<Rightarrow> Inl (EMsg missing) | Some (t, content) \<Rightarrow> Inr content)"

definition LoadKeys :: "key_tools \<Rightarrow> string \<Rightarrow> string \<Rightarrow> error + string \<times> string" where
  "LoadKeys lib privFilePath pubFilePath =
     bind_sum (wrapping (''could not read private key file at '' @ privFilePath) (read_file lib privFilePath)) (\<lambda>privatePEM.
     bind_sum (any_block lib ''failed to decode PEM block containing private key'' privatePEM) (\<lambda>privateBytes.
     bind_sum (parse_pkcs8 lib privateBytes) (\<lambda>privateKey.
     bind_sum (ed25519_of ''private key is not of type Ed25519'' privateKey) (\<lambda>edPrivateKey.
     bind_sum (wrapping (''could not read public key file at '' @ pubFilePath) (read_file lib pubFilePath)) (\<lambda>publicPEM.
     bind_sum (any_block lib ''failed to decode PEM block containing public key'' publicPEM) (\<lambda>publicBytes.
     bind_sum (parse_pkix lib publicBytes) (\<lambda>publicKey.
     bind_sum (ed25519_of ''public key is not of type Ed25519'' publicKey) (\<lambda>edPublicKey.
     Inr (edPrivateKey, edPublicKey)))))))))"

text \<open>\<open>NewApp\<close> reads the settings and loads the keys; either failure ends the process.\<close>

definition signing_keys :: "viper \<Rightarrow> key_tools \<Rightarrow> variables \<Rightarrow> variables \<Rightarrow> (string \<times> string) option" where
  "signing_keys v lib os file = (case GetSettings v os file of
      None \<Rightarrow> None
    | Some s \<Rightarrow> (case LoadJWTSigningKeys lib s of Inl err \<Rightarrow> None | Inr ks \<Rightarrow> Some ks))"

lemma typed_block_Inr:
  "typed_block lib missing what typ pem = Inr x \<longleftrightarrow> pem_decode lib pem = Some (typ, x)"
  by (auto simp: typed_block_def split: option.splits)

lemma any_block_Inr: "any_block lib missing pem = Inr x \<longleftrightarrow> (\<exists>typ. pem_decode lib pem = Some (typ, x))"
  by (auto simp: any_block_def split: option.splits)

lemma ed25519_of_Inr: "ed25519_of msg k = Inr x \<longleftrightarrow> k = Ed25519 x"
  by (cases k) (simp_all add: ed25519_of_def)

lemma wrapping_Inr: "wrapping msg r = Inr x \<longleftrightarrow> r = Inr x"
  by (cases r) (simp_all add: wrapping_def)

lemmas key_steps = bind_sum_Inr typed_block_Inr any_block_Inr ed25519_of_Inr wrapping_Inr

text \<open>A pair of PEM texts holds a pair of keys, in blocks of the types the loaders ask for.\<close>

definition keys_in :: "key_tools \<Rightarrow> string \<Rightarrow> string \<Rightarrow> string \<times> string \<Rightarrow> bool" where
  "keys_in lib privatePEM publicPEM ks =
     (case (pem_decode lib privatePEM, pem_decode lib publicPEM) of
        (Some (t, x), Some (u, y)) \<Rightarrow> t = ''PRIVATE KEY'' \<and> u = ''PUBLIC KEY'' \<and>
          parse_pkcs8 lib x = Inr (Ed25519 (fst ks)) \<and> parse_pkix lib y = Inr (Ed25519 (snd ks))
      | _ \<Rightarrow> False)"

lemma keys_in_iff:
  "keys_in lib privatePEM publicPEM (k, l) \<longleftrightarrow> (\<exists>x y.
     pem_decode lib privatePEM = Some (''PRIVATE KEY'', x) \<and> parse_pkcs8 lib x = Inr (Ed25519 k) \<and>
     pem_decode lib publicPEM = Some (''PUBLIC KEY'', y) \<and> parse_pkix lib y = Inr (Ed25519 l))"
  by (auto simp: keys_in_def split: option.splits)

lemma loadKeysFromPaths_iff:
  "loadKeysFromPaths lib p q = Inr ks \<longleftrightarrow>
     (\<exists>a b. read_file lib p = Inr a \<and> read_file lib q = Inr b \<and> keys_in lib a b ks)"
  by (cases ks) (auto simp: loadKeysFromPaths_def key_steps keys_in_iff)

lemma loadKeysFromBase64_iff:
  "loadKeysFromBase64 lib x y = Inr ks \<longleftrightarrow>
     (\<exists>a b. decode_string True x = Some a \<and> decode_string True y = Some b \<and> keys_in lib a b ks)"
  by (cases ks) (auto simp: loadKeysFromBase64_def key_steps keys_in_iff split: option.splits)

text \<open>The keys a service is configured with do not depend on where they come from: the files and
  the base64 text of the same files load the same keys. \<open>LoadKeys\<close> agrees with them on files whose
  blocks have the right types (the only check it lacks).\<close>

theorem key_sources_agree:
  assumes "read_file lib p = Inr privatePEM" "read_file lib q = Inr publicPEM"
  shows "loadKeysFromBase64 lib (encode_string True privatePEM) (encode_string True publicPEM) = Inr ks \<longleftrightarrow>
      loadKeysFromPaths lib p q = Inr ks"
    and "loadKeysFromPaths lib p q = Inr ks \<longleftrightarrow> LoadKeys lib p q = Inr ks \<and>
      map_option fst (pem_decode lib privatePEM) = Some ''PRIVATE KEY'' \<and>
      map_option fst (pem_decode lib publicPEM) = Some ''PUBLIC KEY''"
  using assms
  by (cases ks; auto simp: loadKeysFromPaths_iff loadKeysFromBase64_iff keys_in_iff LoadKeys_def key_steps)+

text \<open>Viper knows no JWT_*_BASE64: without a line in the .env file the settings stay empty.\<close>

lemma unknown_setting:
  assumes "viper_law v" "key \<notin> dom file" "key \<notin> fst ` set viper_defaults"
  shows "resolve v (map_of viper_defaults) os file key = None"
  using assms by (simp add: viper_law_def dom_map_of_conv_image_fst)

definition set_in :: "variables \<Rightarrow> variables \<Rightarrow> string \<Rightarrow> bool" where
  "set_in os file key = ((\<exists>c s. os key = Some (c # s)) \<or> (\<exists>c s. file key = Some (c # s)))"

lemma setting_set:
  assumes "viper_law v" "text_setting (resolve v (map_of viper_defaults) os file) key \<noteq> []"
    "map_of viper_defaults key = Some []"
  shows "set_in os file key"
proof -
  have "set_in os file key \<or> resolve v (map_of viper_defaults) os file key = file key \<and> file key \<noteq> None \<or>
      resolve v (map_of viper_defaults) os file key = Some []"
    using assms(1,3) by (auto simp: viper_law_def set_in_def split: option.splits list.splits)
  then show ?thesis using assms(2)
    by (auto simp: text_setting_def set_in_def neq_Nil_conv split: option.splits)
qed

lemma GetSettings_keys:
  assumes "GetSettings v os file = Some s"
  defines "t \<equiv> text_setting (resolve v (map_of viper_defaults) os file)"
  shows "JwtPrivateKeyPath s = t ''JWT_PRIVATE_KEY_PATH''" "JwtPublicKeyPath s = t ''JWT_PUBLIC_KEY_PATH''"
    "JwtPrivateKeyBase64 s = t ''JWT_PRIVATE_KEY_BASE64''" "JwtPublicKeyBase64 s = t ''JWT_PUBLIC_KEY_BASE64''"
  using assms(1) by (auto simp: GetSettings_def Let_def t_def split: option.splits)

lemma keys_need_file:
  assumes "viper_law v" "signing_keys v lib os file = Some ks"
  shows "set_in os file ''JWT_PRIVATE_KEY_PATH'' \<and> set_in os file ''JWT_PUBLIC_KEY_PATH'' \<or>
    ''JWT_PRIVATE_KEY_BASE64'' \<in> dom file \<and> ''JWT_PUBLIC_KEY_BASE64'' \<in> dom file"
proof -
  obtain s where s: "GetSettings v os file = Some s" and ks: "LoadJWTSigningKeys lib s = Inr ks"
    using assms(2) by (auto simp: signing_keys_def split: option.splits sum.splits)
  note fields = GetSettings_keys [OF s]
  consider "JwtPrivateKeyPath s \<noteq> []" "JwtPublicKeyPath s \<noteq> []" |
      "JwtPrivateKeyBase64 s \<noteq> []" "JwtPublicKeyBase64 s \<noteq> []"
    using ks by (auto simp: LoadJWTSigningKeys_def split: if_splits)
  then show ?thesis
  proof cases
    case 1
    then show ?thesis using setting_set [OF assms(1)] by (simp add: fields viper_defaults_def)
  next
    case 2
    have "key \<in> dom file" if "text_setting (resolve v (map_of viper_defaults) os file) key \<noteq> []"
        "key \<notin> fst ` set viper_defaults" for key
    proof (rule ccontr)
      assume "key \<notin> dom file"
      then have "resolve v (map_of viper_defaults) os file key = None"
        using unknown_setting [OF assms(1)] that(2) by blast
      then show False using that(1) by (simp add: text_setting_def)
    qed
    then show ?thesis using 2 by (simp add: fields viper_defaults_def)
  qed
qed

text \<open>Key material given in the environment variables JWT_PRIVATE_KEY_BASE64 and
  JWT_PUBLIC_KEY_BASE64 is never read: unless both are lines of the .env file, or the two paths are
  set, the service does not start, whatever the environment says.\<close>

theorem base64_keys_need_file:
  assumes "viper_law v" "signing_keys v lib os file = Some ks"
  shows "set_in os file ''JWT_PRIVATE_KEY_PATH'' \<and> set_in os file ''JWT_PUBLIC_KEY_PATH'' \<or>
    ''JWT_PRIVATE_KEY_BASE64'' \<in> dom file \<and> ''JWT_PUBLIC_KEY_BASE64'' \<in> dom file"
  using assms by (rule keys_need_file)

definition sample_viper :: viper where
  "sample_viper = \<lparr>resolve = \<lambda>defs os file key. if file key = None \<and> defs key = None then None
       else case os key of Some (c # s) \<Rightarrow> Some (c # s)
         | _ \<Rightarrow> (case file key of Some x \<Rightarrow> Some x | None \<Rightarrow> defs key),
     weak_int = \<lambda>s. if s \<noteq> [] \<and> list_all is_digit_char s then Some (int (digits_value s)) else None,
     weak_bool = \<lambda>s. if s = ''true'' then Some True else if s = ''false'' then Some False else None\<rparr>"

definition sample_keys :: key_tools where
  "sample_keys = \<lparr>read_file = \<lambda>p. if p \<in> {''k'', ''l''} then Inr p else Inl (EIO p),
     pem_decode = \<lambda>pem. if pem = ''k'' then Some (''PRIVATE KEY'', pem)
       else if pem = ''l'' then Some (''PUBLIC KEY'', pem) else None,
     parse_pkcs8 = \<lambda>x. Inr (Ed25519 x), parse_pkix = \<lambda>x. Inr (Ed25519 x)\<rparr>"

lemma sample_viper_law: "viper_law sample_viper"
  by (simp add: viper_law_def sample_viper_def domIff)

definition key_lines :: variables where
  "key_lines = [''JWT_PRIVATE_KEY_BASE64'' \<mapsto> encode_string True ''k'', ''JWT_PUBLIC_KEY_BASE64'' \<mapsto> encode_string True ''l'']"

lemma base64_keys_from_file: "signing_keys sample_viper sample_keys Map.empty key_lines = Some (''k'', ''l'')"
proof -
  let ?get = "resolve sample_viper (map_of viper_defaults) Map.empty key_lines"
  have "?get ''DB_PORT'' = Some ''5432''" "?get ''REDIS_PORT'' = Some ''6379''" "?get ''REDIS_DB'' = Some ''0''"
    "?get ''REDIS_TLS_ENABLED'' = Some ''false''"
    by (simp_all add: sample_viper_def viper_defaults_def key_lines_def)
  moreover have "weak_int sample_viper ''5432'' = Some 5432" "weak_int sample_viper ''6379'' = Some 6379"
    "weak_int sample_viper ''0'' = Some 0" "weak_bool sample_viper ''false'' = Some False"
    by (simp_all add: sample_viper_def is_digit_char_def digits_value_def digit_val_def)
  ultimately obtain s where s: "GetSettings sample_viper Map.empty key_lines = Some s"
    by (simp add: GetSettings_def Let_def int_setting_def bool_setting_def)
  have "loadKeysFromBase64 sample_keys (encode_string True ''k'') (encode_string True ''l'') = Inr (''k'', ''l'')"
    by (simp add: loadKeysFromBase64_iff keys_in_def sample_keys_def)
  moreover have "JwtPrivateKeyPath s = []" "JwtPrivateKeyBase64 s = encode_string True ''k''"
    "JwtPublicKeyBase64 s = encode_string True ''l''"
    by (simp_all add: GetSettings_keys [OF s] text_setting_def sample_viper_def viper_defaults_def key_lines_def)
  moreover have "encode_string True ''k'' \<noteq> []" "encode_string True ''l'' \<noteq> []"
    by (simp_all add: encode_string_def)
  ultimately show ?thesis by (simp add: signing_keys_def s LoadJWTSigningKeys_def)
qed

theorem base64_keys_need_file_witness:
  "set_in Map.empty key_lines ''JWT_PRIVATE_KEY_PATH'' \<and> set_in Map.empty key_lines ''JWT_PUBLIC_KEY_PATH'' \<or>
    ''JWT_PRIVATE_KEY_BASE64'' \<in> dom key_lines \<and> ''JWT_PUBLIC_KEY_BASE64'' \<in> dom key_lines"
  by (rule base64_keys_need_file [OF sample_viper_law base64_keys_from_file])

text \<open>The same lines as environment variables: no key is loaded.\<close>

lemma base64_keys_from_environment: "signing_keys sample_viper sample_keys key_lines Map.empty = None"
proof (cases "signing_keys sample_viper sample_keys key_lines Map.empty")
  case (Some ks)
  then have "set_in key_lines Map.empty ''JWT_PRIVATE_KEY_PATH''"
    using keys_need_file [OF sample_viper_law Some] by simp
  then show ?thesis by (simp add: set_in_def key_lines_def)
qed simp

theorem key_sources_agree_witness:
  "loadKeysFromBase64 sample_keys (encode_string True ''k'') (encode_string True ''l'') = Inr (''k'', ''l'') \<longleftrightarrow>
    loadKeysFromPaths sample_keys ''k'' ''l'' = Inr (''k'', ''l'')"
  by (rule key_sources_agree(1)) (simp_all add: sample_keys_def)

section \<open>The database address\<close>

text \<open>\<open>url.QueryEscape\<close>, byte by byte.\<close>

definition hex_digit :: "nat \<Rightarrow> char" where
  "hex_digit n = (if n < 10 then char_of (48 + n) else char_of (55 + n))"

definition unreserved :: "char \<Rightarrow> bool" where
  "unreserved c = (let n = (of_char c :: nat) in
     (97 \<le> n \<and> n \<le> 122) \<or> (65 \<le> n \<and> n \<le> 90) \<or> (48 \<le> n \<and> n \<le> 57) \<or> c \<in> set ''-_.~'')"

definition escape_byte :: "char \<Rightarrow> string" where
  "escape_byte c =
     (if unreserved c then [c] else if c = CHR '' '' then ''+''
      else [CHR ''%'', hex_digit (of_char c div 16), hex_digit (of_char c mod 16)])"

definition QueryEscape :: "string \<Rightarrow> string" where
  "QueryEscape s = concat (map escape_byte s)"

definition database_dsn :: "app_settings \<Rightarrow> string" where
  "database_dsn s = ''postgres://'' @ QueryEscape (DBUser s) @ '':'' @ QueryEscape (DBPassword s) @ ''@'' @
     DBHost s @ '':'' @ itoa (DBPort s) @ ''/'' @ QueryEscape (DBName s) @ ''?sslmode=verify-full''"

text \<open>How \<open>net/url\<close> reads the user name and the password of an address back: a plus sign stays.\<close>

fun userinfo_unescape :: "string \<Rightarrow> string option" where
  "userinfo_unescape [] = Some []"
| "userinfo_unescape (c # s) =
     (if c = CHR ''%'' then (case s of
          a # b # t \<Rightarrow> (case (hex_val a, hex_val b) of
              (Some m, Some n) \<Rightarrow> map_option (Cons (char_of (16 * m + n))) (userinfo_unescape t)
            | _ \<Rightarrow> None)
        | _ \<Rightarrow> None)
      else map_option (Cons c) (userinfo_unescape s))"

lemma hex_val_digit: "n < 16 \<Longrightarrow> hex_val (hex_digit n) = Some n"
  by (auto simp: hex_val_def hex_digit_def Let_def)

definition plus_for_space :: "char \<Rightarrow> char" where
  "plus_for_space c = (if c = CHR '' '' then CHR ''+'' else c)"

lemma unescape_escape_byte:
  "userinfo_unescape (escape_byte c @ s) = map_option (Cons (plus_for_space c)) (userinfo_unescape s)"
proof -
  have "c \<noteq> CHR ''%''" if "unreserved c" using that by (auto simp: unreserved_def)
  moreover have "\<not> unreserved CHR '' ''" by (simp add: unreserved_def)
  moreover have "hex_val (hex_digit (of_char c div 16)) = Some (of_char c div 16)"
    using of_char_less_256 [of c] by (intro hex_val_digit) linarith
  moreover have "hex_val (hex_digit (of_char c mod 16)) = Some (of_char c mod 16)"
    by (intro hex_val_digit) simp
  moreover have "char_of (16 * (of_char c div 16) + of_char c mod (16 :: nat)) = c" by simp
  ultimately show ?thesis
    by (auto simp: escape_byte_def plus_for_space_def )
qed

lemma unescape_QueryEscape: "userinfo_unescape (QueryEscape s) = Some (map plus_for_space s)"
  by (induction s) (simp_all add: QueryEscape_def unescape_escape_byte)

lemma map_plus_for_space: "map plus_for_space s = s \<longleftrightarrow> CHR '' '' \<notin> set s"
  by (induction s) (auto simp: plus_for_space_def)

text \<open>
  The credentials \<open>net/url\<close> finds in an address, when it accepts the rest: the authority ends
  before the first of \<open>/?#\<close>, the credentials before its last at-sign, the name before the first
  colon.
\<close>

definition dsn_credentials :: "string \<Rightarrow> (string \<times> string) option" where
  "dsn_credentials dsn =
     (let authority = takeWhile (\<lambda>c. c \<notin> set ''/?#'') (trim_prefix dsn ''postgres://'');
          credentials = rev (drop 1 (dropWhile (\<lambda>c. c \<noteq> CHR ''@'') (rev authority)));
          user = takeWhile (\<lambda>c. c \<noteq> CHR '':'') credentials;
          password = drop 1 (dropWhile (\<lambda>c. c \<noteq> CHR '':'') credentials)
      in case (userinfo_unescape user, userinfo_unescape password) of
        (Some u, Some p) \<Rightarrow> Some (u, p) | _ \<Rightarrow> None)"

lemma hex_digit_reserved:
  assumes "n < 16"
  shows "hex_digit n \<notin> set ''/?#@:''"
proof -
  have "(of_char (hex_digit n) :: nat) \<in> {48..57} \<union> {65..70}"
    using assms by (auto simp: hex_digit_def)
  then show ?thesis by auto
qed

lemma QueryEscape_reserved: "set (QueryEscape s) \<inter> set ''/?#@:'' = {}"
proof -
  have "set (escape_byte c) \<inter> set ''/?#@:'' = {}" for c
  proof (cases "unreserved c")
    case True
    then show ?thesis by (auto simp: escape_byte_def unreserved_def)
  next
    case False
    have "(of_char c :: nat) div 16 < 16" using of_char_less_256 [of c] by linarith
    then show ?thesis
      using False hex_digit_reserved [of "of_char c div 16"] hex_digit_reserved [of "of_char c mod 16"]
      by (auto simp: escape_byte_def)
  qed
  then show ?thesis by (fastforce simp: QueryEscape_def)
qed

lemma QueryEscape_plain: "c \<in> set ''/?#@:'' \<Longrightarrow> c \<notin> set (QueryEscape s)"
  using QueryEscape_reserved [of s] by blast

lemma cut_at:
  assumes "c \<notin> set xs"
  shows "takeWhile (\<lambda>x. x \<noteq> c) (xs @ c # ys) = xs" "dropWhile (\<lambda>x. x \<noteq> c) (xs @ c # ys) = c # ys"
  using assms by (induction xs) auto

lemma takeWhile_stops: "\<not> P c \<Longrightarrow> set (takeWhile P (xs @ c # ys)) \<subseteq> set xs"
  by (induction xs) auto

lemma itoa_chars: "c \<in> set (itoa i) \<Longrightarrow> is_digit_char c \<or> c = CHR ''-''"
  by (auto simp: itoa_def split: if_splits dest: nat_digits_are_digits)

lemma itoa_no_at [simp]: "CHR ''@'' \<notin> set (itoa i)"
  by (auto simp: is_digit_char_def dest: itoa_chars)

lemma cut_at_last:
  assumes "c \<notin> set ys"
  shows "rev (drop 1 (dropWhile (\<lambda>x. x \<noteq> c) (rev (xs @ c # ys)))) = xs"
  using cut_at(2) [of c "rev ys" "rev xs"] assms by simp

text \<open>The name and the password the database driver reads from the address are those of the
  settings with a plus sign for every space, so the configured password works exactly when it
  has no space. (The other escapes of \<open>url.QueryEscape\<close> are undone.)\<close>

theorem database_credentials:
  assumes "CHR ''@'' \<notin> set (DBHost s)"
  shows "dsn_credentials (database_dsn s) =
      Some (map plus_for_space (DBUser s), map plus_for_space (DBPassword s)) \<and>
    (dsn_credentials (database_dsn s) = Some (DBUser s, DBPassword s) \<longleftrightarrow>
      CHR '' '' \<notin> set (DBUser s) \<and> CHR '' '' \<notin> set (DBPassword s))"
proof -
  let ?u = "QueryEscape (DBUser s)" and ?p = "QueryEscape (DBPassword s)"
  let ?rest = "DBHost s @ '':'' @ itoa (DBPort s) @ ''/'' @ QueryEscape (DBName s) @ ''?sslmode=verify-full''"
  let ?stop = "\<lambda>c. c \<notin> set ''/?#''"
  define host where "host = takeWhile ?stop ?rest"
  have trim: "trim_prefix (database_dsn s) ''postgres://'' = (?u @ CHR '':'' # ?p @ [CHR ''@'']) @ ?rest"
    unfolding database_dsn_def trim_prefix_append by simp
  have "takeWhile ?stop ((?u @ CHR '':'' # ?p @ [CHR ''@'']) @ ?rest) = (?u @ CHR '':'' # ?p @ [CHR ''@'']) @ host"
    unfolding host_def by (rule takeWhile_append2) (auto simp: QueryEscape_plain)
  then have authority: "takeWhile ?stop (trim_prefix (database_dsn s) ''postgres://'') =
      (?u @ CHR '':'' # ?p) @ CHR ''@'' # host"
    using trim by simp
  have "set host \<subseteq> set (DBHost s @ '':'' @ itoa (DBPort s))"
    using takeWhile_stops [of ?stop "CHR ''/''" "DBHost s @ '':'' @ itoa (DBPort s)"] by (simp add: host_def)
  then have "CHR ''@'' \<notin> set host" using assms by auto
  then have credentials: "rev (drop 1 (dropWhile (\<lambda>c. c \<noteq> CHR ''@'') (rev ((?u @ CHR '':'' # ?p) @ CHR ''@'' # host)))) =
      ?u @ CHR '':'' # ?p" by (rule cut_at_last)
  have colon: "CHR '':'' \<notin> set ?u" by (rule QueryEscape_plain) simp
  have "dsn_credentials (database_dsn s) =
      Some (map plus_for_space (DBUser s), map plus_for_space (DBPassword s))"
    unfolding dsn_credentials_def authority credentials Let_def
    by (simp add: cut_at [OF colon] unescape_QueryEscape)
  then show ?thesis by (simp add: map_plus_for_space)
qed

definition sample_settings :: app_settings where
  "sample_settings =
    \<lparr>ApiVersion = [], ApiPort = '':8000'', Environment = ''production'',
     LogLevel = ''debug'', TestMode = [], EncryptionSecretKey = [], JwtPrivateKeyPath = [],
     JwtPublicKeyPath = [], JwtPrivateKeyBase64 = [], JwtPublicKeyBase64 = [],
     DBUser = ''users_service'', DBPassword = ''p w@1'', DBHost = ''db'', DBPort = 5432,
     DBName = ''users_db'', DbSslCaPath = [], DbSslCertPath = [], DbSslKeyPath = [],
     RedisHost = ''redis'', RedisPort = 6379, RedisDB = 0, RedisPassword = [],
     RedisTlsEnabled = False, RedisSslCaPath = [], RedisSslCertPath = [], RedisSslKeyPath = [],
     KafkaBootstrapServers = [], KafkaClientID = [], KafkaSecurityProtocol = [],
     KafkaSaslMechanism = [], KafkaSaslUsername = [], KafkaSaslPassword = [], KafkaSslCaPath = [],
     KafkaSslCertPath = [], KafkaSslKeyPath = [], KafkaClientKeyPassword = [], KafkaTopics = [],
     KafkaBrokerID = [], KafkaNotifierTopic = [], DockerSocket = []\<rparr>"

theorem database_credentials_witness:
  "dsn_credentials (database_dsn sample_settings) = Some (''users_service'', ''p+w@1'')"
  using database_credentials [of sample_settings] by (simp add: sample_settings_def plus_for_space_def)

end
