(* ===== verification/Clients.thy ===== *)
theory Clients imports Configuration Auth_Middleware begin

text \<open>
  The clients NewApp builds from the settings (app/config): the configurations given to the Kafka
  library, the creation of the topics, one consumer for every topic that has a handler and
  the end of all of them, the options of Redis, the connection of the database, and the level
  of the logger. The libraries are parameters.
\<close>

section \<open>Kafka configurations\<close>

datatype config_value = Text string | Whole int | Flag bool

type_synonym config_map = "string \<rightharpoonup> config_value"

definition has_certificate :: "app_settings \<Rightarrow> bool" where
  "has_certificate s = (KafkaSslCertPath s \<noteq> [] \<and> KafkaSslKeyPath s \<noteq> [])"

definition set_certificate :: "app_settings \<Rightarrow> config_map \<Rightarrow> config_map" where
  "set_certificate s m = m
     (''ssl.certificate.location'' \<mapsto> Text (KafkaSslCertPath s), ''ssl.key.location'' \<mapsto> Text (KafkaSslKeyPath s))"

definition set_password :: "app_settings \<Rightarrow> config_map \<Rightarrow> config_map" where
  "set_password s m = (if KafkaClientKeyPassword s \<noteq> []
     then m(''ssl.key.password'' \<mapsto> Text (KafkaClientKeyPassword s)) else m)"

definition admin_config :: "app_settings \<Rightarrow> config_map" where
  "admin_config s =
     (let m = map_of
        [(''bootstrap.servers'', Text (KafkaBootstrapServers s)), (''request.timeout.ms'', Whole 30000),
         (''security.protocol'', Text (KafkaSecurityProtocol s)), (''ssl.ca.location'', Text (KafkaSslCaPath s)),
         (''ssl.endpoint.identification.algorithm'', Text ''https'')]
      in if has_certificate s then set_password s (set_certificate s m) else m)"

definition consumer_config :: "string \<Rightarrow> app_settings \<Rightarrow> config_map" where
  "consumer_config groupID s =
     (let m = map_of
        [(''bootstrap.servers'', Text (KafkaBootstrapServers s)),
         (''security.protocol'', Text (KafkaSecurityProtocol s)), (''ssl.ca.location'', Text (KafkaSslCaPath s)),
         (''ssl.endpoint.identification.algorithm'', Text ''https''), (''group.id'', Text groupID),
         (''auto.offset.reset'', Text ''earliest''), (''enable.auto.commit'', Flag False)]
      in if has_certificate s then set_password s (set_certificate s m) else m)"

definition producer_config :: "app_settings \<Rightarrow> config_map" where
  "producer_config s =
     (let m = map_of
        [(''bootstrap.servers'', Text (KafkaBootstrapServers s)), (''acks'', Text ''all''),
         (''ssl.endpoint.identification.algorithm'', Text ''https''), (''linger.ms'', Whole 5),
         (''queue.buffering.max.ms'', Whole 5000), (''queue.buffering.max.kbytes'', Whole 1048576),
         (''batch.num.messages'', Whole 10000), (''compression.type'', Text ''gzip''), (''retries'', Whole 5),
         (''retry.backoff.ms'', Whole 100), (''partitioner'', Text ''murmur2_random''),
         (''enable.idempotence'', Flag True)];
         m1 = (if KafkaSecurityProtocol s \<noteq> [] then m(''security.protocol'' \<mapsto> Text (KafkaSecurityProtocol s)) else m);
         m2 = (if KafkaSslCaPath s \<noteq> [] then m1(''ssl.ca.location'' \<mapsto> Text (KafkaSslCaPath s)) else m1)
      in if has_certificate s then set_certificate s m2 else m2)"

section \<open>Topics\<close>

definition app_topics :: "app_settings \<Rightarrow> string list" where
  "app_topics s = (if KafkaTopics s \<noteq> [] then split_on CHR '','' (KafkaTopics s) else [])"

record topic_specification =
  Topic :: string
  NumPartitions :: int
  ReplicationFactor :: int

datatype topic_code = NoError | TopicAlreadyExists | TopicError error

record kafka_admin =
  NewAdminClient :: "config_map \<Rightarrow> error option"
  AdminCreateTopics :: "topic_specification list \<Rightarrow> error + (string \<times> topic_code) list"

definition topic_spec :: "string \<Rightarrow> topic_specification" where
  "topic_spec topic = \<lparr>Topic = topic, NumPartitions = 10, ReplicationFactor = 1\<rparr>"

fun creation_error :: "error option \<Rightarrow> (string \<times> topic_code) list \<Rightarrow> error option" where
  "creation_error err [] = err"
| "creation_error err ((topic, TopicError e) # rs) = creation_error (if err = None then Some e else err) rs"
| "creation_error err ((topic, TopicAlreadyExists) # rs) = creation_error err rs"
| "creation_error err ((topic, NoError) # rs) = creation_error err rs"

definition CreateTopics :: "kafka_admin \<Rightarrow> app_settings \<Rightarrow> string list \<Rightarrow> error option" where
  "CreateTopics admin s topics =
     (case NewAdminClient admin (admin_config s) of
        Some err \<Rightarrow> Some (EWrap ''failed to create kafka admin klient'' err)
      | None \<Rightarrow> let topicSpecs = map topic_spec topics in
          if length topicSpecs = 0 then None
          else (case AdminCreateTopics admin topicSpecs of
              Inl err \<Rightarrow> Some (EWrap ''failed to issue create topics request'' err)
            | Inr results \<Rightarrow> creation_error None results))"

section \<open>Starting and stopping consumers\<close>

text \<open>
  The loop of \<open>NewApp\<close> over the topics: the consumers started so far, each with the topic and
  the configuration it was made from, and the registry, which holds positions in that list.
  A consumer that cannot be made ends the process (\<open>None\<close>).
\<close>

type_synonym started = "(string \<times> config_map) list"

definition group_id :: "string \<Rightarrow> string" where
  "group_id topic = ''users-service-'' @ topic @ ''-group''"

fun start_consumers ::
  "'r env \<Rightarrow> (string \<Rightarrow> config_map \<Rightarrow> error option) \<Rightarrow> app_settings \<Rightarrow> string list \<Rightarrow>
   started \<times> nat consumer_manager \<Rightarrow> (started \<times> nat consumer_manager) option" where
  "start_consumers env connect s [] st = Some st"
| "start_consumers env connect s (topic # topics) (cs, m) =
     (case topic_handler env topic of
        None \<Rightarrow> start_consumers env connect s topics (cs, m)
      | Some h \<Rightarrow> let config = consumer_config (group_id topic) s in
          (case connect topic config of
             Some err \<Rightarrow> None
           | None \<Rightarrow> start_consumers env connect s topics (cs @ [(topic, config)],
               (case ConsumerManager_Register topic (Some (length cs)) m of Inl err \<Rightarrow> m | Inr m' \<Rightarrow> m'))))"

text \<open>\<open>StopAll\<close> cancels the consumers of the registry, each in its own goroutine.\<close>

definition StopAll :: "nat consumer_manager \<Rightarrow> nat set" where
  "StopAll m = ran m"

section \<open>Redis and the database\<close>

record tls_config =
  RootCAs :: string
  Certificate :: "string \<times> string"
  ServerName :: string

record redis_options =
  Addr :: string
  OptPassword :: string
  OptDB :: int
  OptTLS :: "tls_config option"

text \<open>\<open>certificates pem\<close>: whether \<open>AppendCertsFromPEM\<close> found one; \<open>key_pair cert key\<close>: whether the
  files hold a pair; \<open>redis_ping\<close> and the three steps to a database.\<close>

record connections =
  certificates :: "string \<Rightarrow> bool"
  key_pair :: "string \<Rightarrow> string \<Rightarrow> error option"
  redis_ping :: "redis_options \<Rightarrow> error option"
  parse_dsn :: "string \<Rightarrow> error option"
  db_ping :: "string \<Rightarrow> tls_config \<Rightarrow> error option"
  create_schema :: "string \<Rightarrow> tls_config \<Rightarrow> error option"

text \<open>Every \<open>Fatal\<close> ends the process: \<open>None\<close>.\<close>

definition redis_tls :: "connections \<Rightarrow> key_tools \<Rightarrow> app_settings \<Rightarrow> tls_config option" where
  "redis_tls net lib s =
     (if RedisSslCertPath s = [] \<or> RedisSslKeyPath s = [] then None
      else case read_file lib (RedisSslCaPath s) of
        Inl err \<Rightarrow> None
      | Inr caCert \<Rightarrow>
          if \<not> certificates net caCert then None
          else if key_pair net (RedisSslCertPath s) (RedisSslKeyPath s) \<noteq> None then None
          else Some \<lparr>RootCAs = caCert, Certificate = (RedisSslCertPath s, RedisSslKeyPath s), ServerName = RedisHost s\<rparr>)"

definition NewRedisClient :: "connections \<Rightarrow> key_tools \<Rightarrow> app_settings \<Rightarrow> redis_options option" where
  "NewRedisClient net lib s =
     (if RedisHost s = [] then None
      else
        let opts = \<lparr>Addr = RedisHost s @ '':'' @ itoa (RedisPort s), OptPassword = RedisPassword s,
              OptDB = RedisDB s, OptTLS = None\<rparr> in
        case (if RedisTlsEnabled s
              then map_option (\<lambda>t. opts\<lparr>OptTLS := Some t\<rparr>) (redis_tls net lib s) else Some opts) of
          None \<Rightarrow> None
        | Some client \<Rightarrow> (case redis_ping net client of Some err \<Rightarrow> None | None \<Rightarrow> Some client))"

definition none_or :: "error option \<Rightarrow> string \<Rightarrow> error + unit" where
  "none_or r msg = (case r of None \<Rightarrow> Inr () | Some err \<Rightarrow> Inl (EWrap msg err))"

text \<open>The certificates of the database that do not parse are dropped without an error.\<close>

definition NewEntClient :: "connections \<Rightarrow> key_tools \<Rightarrow> app_settings \<Rightarrow> error + string \<times> tls_config" where
  "NewEntClient net lib s =
     bind_sum (wrapping (''failed to load cert path: '' @ DbSslCaPath s) (read_file lib (DbSslCaPath s))) (\<lambda>caCert.
     bind_sum (none_or (key_pair net (DbSslCertPath s) (DbSslKeyPath s)) ''failed to load keys pair for database'') (\<lambda>_.
     let tls = \<lparr>RootCAs = caCert, Certificate = (DbSslCertPath s, DbSslKeyPath s), ServerName = DBHost s\<rparr>;
         dsn = database_dsn s in
     bind_sum (none_or (parse_dsn net dsn) ''failed to parse database DSN'') (\<lambda>_.
     bind_sum (none_or (db_ping net dsn tls) ''failed to connect to database'') (\<lambda>_.
     bind_sum (none_or (create_schema net dsn tls) ''failed to create database'') (\<lambda>_.
     Inr (dsn, tls))))))"

section \<open>The logger\<close>

datatype level = TraceLevel | DebugLevel | InfoLevel | WarnLevel | ErrorLevel | FatalLevel | PanicLevel |
  NoLevel | Disabled

text \<open>The global level \<open>NewLogger\<close> leaves behind, given the one it finds; \<open>None\<close> is the \<open>Fatal\<close> of an
  unknown level. \<open>parse_level\<close> is zerolog's; \<open>lower_char\<close> is \<open>strings.ToLower\<close> on ASCII text.\<close>

definition NewLogger :: "(string \<Rightarrow> level option) \<Rightarrow> app_settings \<Rightarrow> level \<Rightarrow> level option" where
  "NewLogger parse_level s global =
     (let env = map lower_char (Environment s) in
      if env = ''production'' then Some ErrorLevel
      else if env = ''test-environment'' then Some InfoLevel
      else if env = ''local'' then parse_level (map lower_char (LogLevel s))
      else Some global)"

text \<open>The order of the levels; a line is written unless its level is below the global one.\<close>

definition level_number :: "level \<Rightarrow> int" where
  "level_number l = (case l of TraceLevel \<Rightarrow> -1 | DebugLevel \<Rightarrow> 0 | InfoLevel \<Rightarrow> 1 | WarnLevel \<Rightarrow> 2 |
     ErrorLevel \<Rightarrow> 3 | FatalLevel \<Rightarrow> 4 | PanicLevel \<Rightarrow> 5 | NoLevel \<Rightarrow> 6 | Disabled \<Rightarrow> 7)"

lemma level_number_inject: "level_number k = level_number l \<longleftrightarrow> k = l"
  by (cases k; cases l) (simp_all add: level_number_def)

instantiation level :: linorder
begin

definition less_eq_level :: "level \<Rightarrow> level \<Rightarrow> bool" where
  "less_eq_level k l = (level_number k \<le> level_number l)"

definition less_level :: "level \<Rightarrow> level \<Rightarrow> bool" where
  "less_level k l = (level_number k < level_number l)"

instance
  by standard (auto simp: less_eq_level_def less_level_def level_number_inject)

end

definition line_level :: "log_line \<Rightarrow> level" where
  "line_level l = (case l of LogIncoming p \<Rightarrow> InfoLevel | LogInfo n \<Rightarrow> InfoLevel | LogWarn n \<Rightarrow> WarnLevel |
     LogError n \<Rightarrow> ErrorLevel)"

definition written :: "level \<Rightarrow> log_line \<Rightarrow> bool" where
  "written global l = (global \<le> line_level l)"

section \<open>Properties of the Kafka clients\<close>

lemma admin_config_certificate:
  "admin_config s ''ssl.certificate.location'' = (if has_certificate s then Some (Text (KafkaSslCertPath s)) else None)"
  "admin_config s ''ssl.key.location'' = (if has_certificate s then Some (Text (KafkaSslKeyPath s)) else None)"
  "admin_config s ''ssl.key.password'' =
     (if has_certificate s \<and> KafkaClientKeyPassword s \<noteq> [] then Some (Text (KafkaClientKeyPassword s)) else None)"
  by (simp_all add: admin_config_def set_certificate_def set_password_def Let_def)

lemma consumer_config_certificate:
  "consumer_config g s ''ssl.certificate.location'' = (if has_certificate s then Some (Text (KafkaSslCertPath s)) else None)"
  "consumer_config g s ''ssl.key.location'' = (if has_certificate s then Some (Text (KafkaSslKeyPath s)) else None)"
  "consumer_config g s ''ssl.key.password'' =
     (if has_certificate s \<and> KafkaClientKeyPassword s \<noteq> [] then Some (Text (KafkaClientKeyPassword s)) else None)"
  by (simp_all add: consumer_config_def set_certificate_def set_password_def Let_def)

lemma producer_config_certificate:
  "producer_config s ''ssl.certificate.location'' = (if has_certificate s then Some (Text (KafkaSslCertPath s)) else None)"
  "producer_config s ''ssl.key.location'' = (if has_certificate s then Some (Text (KafkaSslKeyPath s)) else None)"
  "producer_config s ''ssl.key.password'' = None"
  by (simp_all add: producer_config_def set_certificate_def Let_def)

text \<open>The three Kafka clients present the configured certificate with its key, or neither; the
  topics are administered and consumed with the password of the key, but the producer never has
  it, so with an encrypted key it alone cannot connect. A consumer never commits by itself.\<close>

theorem kafka_certificates:
  "map (admin_config s) [''ssl.certificate.location'', ''ssl.key.location'', ''ssl.key.password''] =
     map (consumer_config g s) [''ssl.certificate.location'', ''ssl.key.location'', ''ssl.key.password'']"
  "map (producer_config s) [''ssl.certificate.location'', ''ssl.key.location''] =
     map (consumer_config g s) [''ssl.certificate.location'', ''ssl.key.location'']"
  "(''ssl.certificate.location'' \<in> dom (consumer_config g s)) = has_certificate s"
  "(''ssl.key.location'' \<in> dom (consumer_config g s)) = has_certificate s"
  "(''ssl.key.password'' \<in> dom (consumer_config g s)) = (has_certificate s \<and> KafkaClientKeyPassword s \<noteq> [])"
  "''ssl.key.password'' \<notin> dom (producer_config s)"
  "consumer_config g s ''enable.auto.commit'' = Some (Flag False)"
  by (simp_all add: admin_config_certificate consumer_config_certificate producer_config_certificate domIff)
    (simp add: consumer_config_def set_certificate_def set_password_def Let_def)

section \<open>Properties of the topics\<close>

definition is_failed :: "topic_code \<Rightarrow> bool" where
  "is_failed c = (case c of TopicError e \<Rightarrow> True | _ \<Rightarrow> False)"

lemma is_failed_simps [simp]:
  "is_failed (TopicError e)" "\<not> is_failed NoError" "\<not> is_failed TopicAlreadyExists"
  by (simp_all add: is_failed_def)

lemma creation_error_Some [simp]: "creation_error (Some e) rs = Some e"
  by (induction "Some e" rs rule: creation_error.induct) auto

lemma creation_error_first:
  "creation_error None rs = (case filter (is_failed \<circ> snd) rs of (t, TopicError e) # _ \<Rightarrow> Some e | _ \<Rightarrow> None)"
  by (induction "None :: error option" rs rule: creation_error.induct) simp_all

lemma creation_error_None: "creation_error None rs = None \<longleftrightarrow> (\<forall>(t, c) \<in> set rs. \<not> is_failed c)"
  by (induction "None :: error option" rs rule: creation_error.induct) auto

text \<open>Creating the topics succeeds exactly when the admin client exists and there is nothing to
  create or every topic was created or was there before; otherwise the first failed topic of the
  answer is the error.\<close>

theorem topics_created:
  "CreateTopics admin s topics = None \<longleftrightarrow>
     NewAdminClient admin (admin_config s) = None \<and>
     (topics = [] \<or> (\<exists>rs. AdminCreateTopics admin (map topic_spec topics) = Inr rs \<and>
        list_all (\<lambda>(t, c). \<not> is_failed c) rs))"
  by (auto simp: CreateTopics_def creation_error_None list_all_iff split: option.splits sum.splits)

section \<open>Properties of the consumers\<close>

definition handled_topics :: "string list \<Rightarrow> string list" where
  "handled_topics topics = filter (\<lambda>t. t \<in> {''user.events'', ''user.actions'', ''user.subscription''}) topics"

lemma topic_handler_None:
  "topic_handler env t = None \<longleftrightarrow> t \<notin> {''user.events'', ''user.actions'', ''user.subscription''}"
  by (simp add: topic_handler_def)

definition registry_of :: "string list \<Rightarrow> nat consumer_manager" where
  "registry_of names = map_of (rev (zip names [0..<length names]))"

lemma registry_of_snoc: "registry_of (names @ [t]) = (registry_of names)(t \<mapsto> length names)"
  by (simp add: registry_of_def)

lemma start_consumers_state:
  assumes "start_consumers env connect s topics (cs, registry_of (map fst cs)) = Some (cs', m')"
  shows "map fst cs' = map fst cs @ handled_topics topics \<and> m' = registry_of (map fst cs') \<and>
    (set cs' \<subseteq> set cs \<union> {(t, consumer_config (group_id t) s) | t. True})"
  using assms
proof (induction topics arbitrary: cs)
  case Nil
  then show ?case by (auto simp: handled_topics_def)
next
  case (Cons t ts)
  show ?case
  proof (cases "topic_handler env t")
    case None
    then have "handled_topics (t # ts) = handled_topics ts"
      by (simp add: handled_topics_def topic_handler_None)
    moreover have "start_consumers env connect s ts (cs, registry_of (map fst cs)) = Some (cs', m')"
      using Cons.prems None by simp
    note Cons.IH [OF this]
    ultimately show ?thesis by simp
  next
    case (Some h)
    let ?cs = "cs @ [(t, consumer_config (group_id t) s)]"
    have "t \<in> {''user.events'', ''user.actions'', ''user.subscription''}"
      using Some topic_handler_None by (metis option.distinct(1))
    then have handled: "handled_topics (t # ts) = t # handled_topics ts" and "t \<noteq> []"
      by (auto simp: handled_topics_def)
    then have "start_consumers env connect s ts (?cs, registry_of (map fst ?cs)) = Some (cs', m')"
      using Cons.prems Some
      by (auto simp: Let_def ConsumerManager_Register_def registry_of_snoc split: option.splits)
    from Cons.IH [OF this] show ?thesis using handled by auto
  qed
qed

lemma registry_dom: "dom (registry_of names) = set names"
proof -
  have "map fst (rev (zip names [0..<length names])) = rev names" by (simp add: rev_map [symmetric])
  then show ?thesis unfolding registry_of_def dom_map_of_conv_image_fst by (metis set_map set_rev)
qed

lemma registry_covers: "ran (registry_of names) = {..<length names} \<longleftrightarrow> distinct names"
proof
  let ?ps = "rev (zip names [0..<length names])"
  have keys: "map fst ?ps = rev names" by (simp add: rev_map [symmetric])
  { assume "distinct names"
    then have "ran (map_of ?ps) = snd ` set ?ps" using keys by (intro ran_distinct) simp
    also have "\<dots> = {..<length names}" by (simp add: set_map [symmetric] del: set_map) auto
    finally show "ran (registry_of names) = {..<length names}" by (simp add: registry_of_def) }
  { assume covers: "ran (registry_of names) = {..<length names}"
    note registry_dom [of names]
    moreover have "card (ran (registry_of names)) \<le> card (dom (registry_of names))"
    proof -
      have "ran (registry_of names) \<subseteq> (the \<circ> registry_of names) ` dom (registry_of names)"
        by (force simp: ran_def)
      moreover have "finite (dom (registry_of names))" by (simp add: registry_of_def finite_dom_map_of)
      ultimately show ?thesis by (meson card_image_le card_mono finite_imageI le_trans)
    qed
    ultimately have "length names \<le> card (set names)" using covers by simp
    then show "distinct names" by (simp add: card_distinct card_length le_antisym) }
qed

text \<open>The service runs one consumer for every occurrence of a topic with a handler, in the order
  of the setting, all with automatic commits off, and registers every such topic. The end of the
  service reaches all of them exactly when no such topic is named twice: of a topic named
  twice, only the last consumer is registered, and the others are never cancelled.\<close>

theorem consumers_started_and_stopped:
  assumes "start_consumers env connect s topics ([], NewConsumerManager) = Some (cs, m)"
  shows "map fst cs = handled_topics topics \<and> dom m = set (handled_topics topics) \<and>
    (StopAll m = {..<length cs} \<longleftrightarrow> distinct (handled_topics topics))"
proof -
  have "NewConsumerManager = registry_of (map fst ([] :: started))"
    by (simp add: NewConsumerManager_def registry_of_def)
  then have "start_consumers env connect s topics ([], registry_of (map fst [])) = Some (cs, m)"
    using assms by simp
  from start_consumers_state [OF this]
  have names: "map fst cs = handled_topics topics" and m: "m = registry_of (map fst cs)" by simp_all
  then show ?thesis
    using registry_covers [of "map fst cs"] by (simp add: StopAll_def m names [symmetric] registry_dom)
qed

theorem consumers_started_and_stopped_witness:
  "\<exists>cs m. start_consumers steady_env (\<lambda>_ _. None) sample_settings [''user.events'', ''other'', ''user.events'']
      ([], NewConsumerManager) = Some (cs, m) \<and> map fst cs = [''user.events'', ''user.events''] \<and>
    StopAll m \<noteq> {..<length cs}"
proof -
  obtain cs m where st: "start_consumers steady_env (\<lambda>_ _. None) sample_settings [''user.events'', ''other'', ''user.events'']
      ([], NewConsumerManager) = Some (cs, m)"
    by (simp add: topic_handler_def Let_def)
  from consumers_started_and_stopped [OF st] st show ?thesis by (auto simp: handled_topics_def)
qed

section \<open>Properties of the other clients\<close>

text \<open>With TLS enabled no connection to Redis is made without it.\<close>

lemma redis_tls_required:
  assumes "NewRedisClient net lib s = Some client"
  shows "OptTLS client = None \<longleftrightarrow> \<not> RedisTlsEnabled s" "redis_ping net client = None"
    "OptPassword client = RedisPassword s"
  using assms by (auto simp: NewRedisClient_def Let_def split: if_splits option.splits)

text \<open>The database is reached by TLS with the name of the configured host only.\<close>

lemma database_tls:
  assumes "NewEntClient net lib s = Inr (dsn, tls)"
  shows "dsn = database_dsn s" "ServerName tls = DBHost s" "create_schema net dsn tls = None"
  using assms by (auto simp: NewEntClient_def bind_sum_Inr Let_def none_or_def split: option.splits)

text \<open>The setting LOG_LEVEL has an effect in the environment "local" only; in every other one,
  and in the default "development", the level does not depend on it.\<close>

lemma log_level_only_local:
  assumes "map lower_char (Environment s) \<noteq> ''local''"
  shows "NewLogger parse_level (s\<lparr>LogLevel := x\<rparr>) global = NewLogger parse_level s global"
  using assms by (simp add: NewLogger_def Let_def)

text \<open>In production the logging middleware leaves a line for a request exactly when the answer
  is a server error: refused credentials and missing accounts (4xx) leave no trace of it,
  whatever LOG_LEVEL says.\<close>

theorem production_request_log:
  assumes "map lower_char (Environment s) = ''production''"
    and "NewLogger parse_level s global = Some level"
    and "\<And>sv r sv'. next ctx sv = (r, sv') \<Longrightarrow> sv_log sv' = sv_log sv"
    and "Log req next ctx sv = (Ok r, sv')"
  shows "\<exists>ls. sv_log sv' = sv_log sv @ ls \<and>
    filter (written level) ls = (if rp_status r \<ge> 500 then [LogError (rp_status r)] else [])"
proof -
  have level: "level = ErrorLevel" using assms(1,2) by (simp add: NewLogger_def)
  have "sv_log sv' = sv_log sv @ [LogIncoming (hr_path req), log_level (rp_status r)]"
    using assms(3,4)
    by (auto simp: Log_def andthen_def log_line_def change_def split: if_splits outcome.splits prod.splits)
  moreover have "filter (written level) [LogIncoming (hr_path req), log_level (rp_status r)] =
      (if rp_status r \<ge> 500 then [LogError (rp_status r)] else [])"
    by (simp add: level written_def log_level_def line_level_def less_eq_level_def level_number_def)
  ultimately show ?thesis by blast
qed

theorem production_request_log_witness:
  "\<exists>sv' ls. Log (bearer []) (\<lambda>ctx. ret (json_reply 422 JNull)) Map.empty (server_of (fresh_world empty_db)) =
      (Ok (json_reply 422 JNull), sv') \<and> sv_log sv' = ls \<and> ls \<noteq> [] \<and> filter (written ErrorLevel) ls = []"
proof -
  let ?next = "\<lambda>ctx. ret (json_reply 422 JNull)"
  obtain sv' where run: "Log (bearer []) ?next Map.empty (server_of (fresh_world empty_db)) = (Ok (json_reply 422 JNull), sv')"
    and lines: "sv_log sv' \<noteq> []"
    by (simp add: Log_def andthen_def log_line_def change_def)
  have "NewLogger (\<lambda>_. Some DebugLevel) sample_settings TraceLevel = Some ErrorLevel"
    by (simp add: NewLogger_def sample_settings_def lower_char_def)
  moreover have "map lower_char (Environment sample_settings) = ''production''"
    by (simp add: sample_settings_def lower_char_def)
  ultimately have "\<exists>ls. sv_log sv' = sv_log (server_of (fresh_world empty_db)) @ ls \<and>
      filter (written ErrorLevel) ls = (if rp_status (json_reply 422 JNull) \<ge> 500 then [LogError 422] else [])"
    using production_request_log [OF _ _ _ run] by (simp add: json_reply_def)
  then show ?thesis using run lines by (simp add: server_of_def json_reply_def)
qed

end
