(* ===== verification/Web_Socket.thy ===== *)
theory Web_Socket imports Http begin

text \<open>
  Requests over a web socket (controllers/handlers.go, models/requests/web_socket_helper.go,
  models/responses/reporter.go and messages.go). The upgrade, the frames and the service are
  parameters. The part of the handler that starts goroutines is a step relation: the service
  reports into a channel of ten places, a goroutine starts the forwarder and ends, the forwarder
  writes what it receives, the handler closes the channel, waits for the first goroutine and
  closes the connection.
\<close>

section \<open>Messages and the helper\<close>

record message =
  ms_status :: string
  ms_message :: string
  ms_error :: string
  ms_data :: "json option"
  ms_request_id :: string

definition Message_Valid :: "message \<Rightarrow> error option" where
  "Message_Valid m = (if ms_status m = [] \<or> ms_message m = [] then Some (EMsg ''no data provided'') else None)"

definition plain_message :: "string \<Rightarrow> string \<Rightarrow> message" where
  "plain_message status text =
     \<lparr>ms_status = status, ms_message = text, ms_error = [], ms_data = None, ms_request_id = []\<rparr>"

definition failure_message :: "string \<Rightarrow> string \<Rightarrow> message" where
  "failure_message text detail = (plain_message ''failure'' text)\<lparr>ms_error := detail\<rparr>"

definition success_message :: "string \<Rightarrow> string \<Rightarrow> json option \<Rightarrow> message" where
  "success_message text requestID data = (plain_message ''success'' text)\<lparr>ms_data := data, ms_request_id := requestID\<rparr>"

text \<open>The reporter: what each of its methods puts into the channel.\<close>

definition Reporter_Processing :: "string \<Rightarrow> message" where
  "Reporter_Processing text = plain_message ''processing'' text"

definition Reporter_Success :: "string \<Rightarrow> json option \<Rightarrow> message" where
  "Reporter_Success text data = (plain_message ''success'' text)\<lparr>ms_data := data\<rparr>"

definition Reporter_Error :: "(error \<Rightarrow> string) \<Rightarrow> string \<Rightarrow> error option \<Rightarrow> message" where
  "Reporter_Error text_of text err = (plain_message ''error'' text)
     \<lparr>ms_error := (case err of None \<Rightarrow> [] | Some e \<Rightarrow> text_of e)\<rparr>"

text \<open>
  \<open>ReadRequest\<close>: the messages it writes, its error and the request it leaves. A frame is a type
  (1 is text) and a payload. For another type it returns the error of the read, which is nil.
\<close>

definition ReadRequest ::
  "(error \<Rightarrow> string) \<Rightarrow> (string \<Rightarrow> error + 'req) \<Rightarrow> 'req \<Rightarrow> error + int \<times> string \<Rightarrow> message list \<times> error option \<times> 'req" where
  "ReadRequest text_of decode zero read = (case read of
      Inl err \<Rightarrow> ([], Some err, zero)
    | Inr (messageType, p) \<Rightarrow>
        if messageType \<noteq> 1 then ([plain_message ''error'' ''Unsupported message type''], None, zero)
        else (case decode p of
            Inl err \<Rightarrow> ([(plain_message ''error'' ''Invalid data format'')\<lparr>ms_error := text_of err\<rparr>], Some err, zero)
          | Inr req \<Rightarrow> ([], None, req)))"

section \<open>The handler and its goroutines\<close>

datatype handler_pc = InService | AtClose | AtWait | AtDeferred | Returned

datatype spawner = NotStarted | Forwarding | SpawnerDone

datatype forwarder = NotSpawned | Receiving | Writing message | Stopped

datatype writer = Handler | Forwarder

record ws =
  ws_pc :: handler_pc
  ws_reports :: "message list"
  ws_result :: "error option"
  ws_channel :: "message list"
  ws_closed :: bool
  ws_spawner :: spawner
  ws_forwarder :: forwarder
  ws_open :: bool
  ws_wire :: "(writer \<times> message) list"
  ws_lost :: "message list"

definition ws_capacity :: nat where "ws_capacity = 10"

text \<open>
  One step of one goroutine. The service puts its next report into the channel when there is
  room; when it has ended the handler writes a failure itself. A write on a closed connection
  fails and is only logged.
\<close>

inductive ws_step :: "(error \<Rightarrow> string) \<Rightarrow> ws \<Rightarrow> ws \<Rightarrow> bool" for text_of where
  report: "ws_pc s = InService \<Longrightarrow> ws_reports s = m # ms \<Longrightarrow> length (ws_channel s) < ws_capacity \<Longrightarrow>
     ws_step text_of s (s\<lparr>ws_reports := ms, ws_channel := ws_channel s @ [m]\<rparr>)"
| service_ok: "ws_pc s = InService \<Longrightarrow> ws_reports s = [] \<Longrightarrow> ws_result s = None \<Longrightarrow>
     ws_step text_of s (s\<lparr>ws_pc := AtClose\<rparr>)"
| service_failed: "ws_pc s = InService \<Longrightarrow> ws_reports s = [] \<Longrightarrow> ws_result s = Some e \<Longrightarrow>
     ws_step text_of s (s\<lparr>ws_pc := AtClose,
       ws_wire := ws_wire s @ [(Handler, failure_message ''Service call failed'' (text_of e))]\<rparr>)"
| close_channel: "ws_pc s = AtClose \<Longrightarrow> ws_step text_of s (s\<lparr>ws_pc := AtWait, ws_closed := True\<rparr>)"
| waited: "ws_pc s = AtWait \<Longrightarrow> ws_spawner s = SpawnerDone \<Longrightarrow> ws_step text_of s (s\<lparr>ws_pc := AtDeferred\<rparr>)"
| close_connection: "ws_pc s = AtDeferred \<Longrightarrow> ws_step text_of s (s\<lparr>ws_pc := Returned, ws_open := False\<rparr>)"
| spawn: "ws_spawner s = NotStarted \<Longrightarrow>
     ws_step text_of s (s\<lparr>ws_spawner := Forwarding, ws_forwarder := Receiving\<rparr>)"
| group_done: "ws_spawner s = Forwarding \<Longrightarrow> ws_step text_of s (s\<lparr>ws_spawner := SpawnerDone\<rparr>)"
| receive: "ws_forwarder s = Receiving \<Longrightarrow> ws_channel s = m # ms \<Longrightarrow>
     ws_step text_of s (s\<lparr>ws_forwarder := Writing m, ws_channel := ms\<rparr>)"
| forward: "ws_forwarder s = Writing m \<Longrightarrow> ws_open s \<Longrightarrow>
     ws_step text_of s (s\<lparr>ws_forwarder := Receiving, ws_wire := ws_wire s @ [(Forwarder, m)]\<rparr>)"
| forward_lost: "ws_forwarder s = Writing m \<Longrightarrow> \<not> ws_open s \<Longrightarrow>
     ws_step text_of s (s\<lparr>ws_forwarder := Receiving, ws_lost := ws_lost s @ [m]\<rparr>)"
| stop: "ws_forwarder s = Receiving \<Longrightarrow> ws_channel s = [] \<Longrightarrow> ws_closed s \<Longrightarrow>
     ws_step text_of s (s\<lparr>ws_forwarder := Stopped\<rparr>)"

definition ws_start :: "message list \<Rightarrow> message list \<times> error option \<Rightarrow> ws" where
  "ws_start written service = \<lparr>ws_pc = InService, ws_reports = fst service, ws_result = snd service, ws_channel = [],
     ws_closed = False, ws_spawner = NotStarted, ws_forwarder = NotSpawned, ws_open = True,
     ws_wire = map (Pair Handler) written, ws_lost = []\<rparr>"

text \<open>The handler up to the call of the service: it returns with the messages it wrote, or goes on.\<close>

datatype ws_outcome = WsEnded "message list" | WsServing ws

definition handleWebSocketRequest ::
  "(error \<Rightarrow> string) \<Rightarrow> (string \<Rightarrow> error + 'req) \<Rightarrow> 'req \<Rightarrow> ('req \<Rightarrow> error option) \<Rightarrow>
   ('req \<Rightarrow> message list \<times> error option) \<Rightarrow> error option \<Rightarrow> error + int \<times> string \<Rightarrow> ws_outcome" where
  "handleWebSocketRequest text_of decode zero is_valid serviceCall upgrade read = (case upgrade of
      Some err \<Rightarrow> WsEnded []
    | None \<Rightarrow> (case ReadRequest text_of decode zero read of
        (written, Some err, req) \<Rightarrow> WsEnded (written @ [failure_message ''Invalid credentials provided'' (text_of err)])
      | (written, None, req) \<Rightarrow> (case is_valid req of
          Some err \<Rightarrow> WsEnded (written @ [failure_message ''Invalid credentials provided'' (text_of err)])
        | None \<Rightarrow> WsServing (ws_start written (serviceCall req)))))"

definition ws_final :: "ws \<Rightarrow> bool" where
  "ws_final s \<longleftrightarrow> ws_pc s = Returned \<and> ws_spawner s = SpawnerDone \<and> ws_forwarder s = Stopped"

abbreviation ws_steps :: "(error \<Rightarrow> string) \<Rightarrow> ws \<Rightarrow> ws \<Rightarrow> bool" where
  "ws_steps text_of \<equiv> (ws_step text_of)\<^sup>*\<^sup>*"

text \<open>What the forwarder got through, and what it holds.\<close>

definition ws_forwarded :: "ws \<Rightarrow> message list" where
  "ws_forwarded s = map snd (filter (\<lambda>x. fst x = Forwarder) (ws_wire s))"

definition ws_held :: "ws \<Rightarrow> message list" where
  "ws_held s = (case ws_forwarder s of Writing m \<Rightarrow> [m] | _ \<Rightarrow> [])"

section \<open>The invariant\<close>

definition ws_inv :: "message list \<Rightarrow> ws \<Rightarrow> bool" where
  "ws_inv rs s \<longleftrightarrow>
     rs = ws_forwarded s @ ws_lost s @ ws_held s @ ws_channel s @ ws_reports s \<and>
     length (ws_channel s) \<le> ws_capacity \<and>
     length (ws_lost s @ ws_held s @ ws_channel s) \<le> ws_capacity + 1 \<and>
     (ws_closed s \<longleftrightarrow> ws_pc s \<in> {AtWait, AtDeferred, Returned}) \<and>
     (ws_open s \<longleftrightarrow> ws_pc s \<noteq> Returned) \<and>
     (ws_pc s \<noteq> InService \<longrightarrow> ws_reports s = []) \<and>
     (ws_spawner s = NotStarted \<longleftrightarrow> ws_forwarder s = NotSpawned) \<and>
     (ws_open s \<longrightarrow> ws_lost s = []) \<and>
     (ws_forwarder s = Stopped \<longrightarrow> ws_channel s = [] \<and> ws_closed s) \<and>
     (ws_pc s \<in> {AtDeferred, Returned} \<longrightarrow> ws_spawner s = SpawnerDone)"

lemma ws_inv_start: "ws_inv rs (ws_start written (rs, result))"
  by (simp add: ws_inv_def ws_start_def ws_forwarded_def ws_held_def filter_map o_def)

lemma ws_inv_step: "ws_step text_of s s' \<Longrightarrow> ws_inv rs s \<Longrightarrow> ws_inv rs s'"
  by (induction rule: ws_step.induct)
    (auto simp: ws_inv_def ws_forwarded_def ws_held_def ws_capacity_def split: forwarder.splits)

text \<open>The work left: every step does one unit of it, and without work left all have ended.\<close>

fun pc_work :: "handler_pc \<Rightarrow> nat" where
  "pc_work InService = 4" | "pc_work AtClose = 3" | "pc_work AtWait = 2" | "pc_work AtDeferred = 1" | "pc_work Returned = 0"

fun spawner_work :: "spawner \<Rightarrow> nat" where
  "spawner_work NotStarted = 2" | "spawner_work Forwarding = 1" | "spawner_work SpawnerDone = 0"

fun forwarder_work :: "forwarder \<Rightarrow> nat" where
  "forwarder_work NotSpawned = 1" | "forwarder_work Receiving = 1" | "forwarder_work (Writing m) = 2" | "forwarder_work Stopped = 0"

definition ws_work :: "ws \<Rightarrow> nat" where
  "ws_work s = 3 * length (ws_reports s) + 2 * length (ws_channel s) + pc_work (ws_pc s) +
     spawner_work (ws_spawner s) + forwarder_work (ws_forwarder s)"

lemma ws_work_step: "ws_step text_of s s' \<Longrightarrow> ws_inv rs s \<Longrightarrow> ws_work s = Suc (ws_work s')"
  by (induction rule: ws_step.induct) (auto simp: ws_work_def ws_inv_def)

lemma ws_final_work: "ws_inv rs s \<Longrightarrow> ws_final s \<longleftrightarrow> ws_work s = 0"
  by (cases "ws_pc s"; cases "ws_spawner s"; cases "ws_forwarder s") (auto simp: ws_final_def ws_work_def ws_inv_def)

lemma ws_progress:
  assumes "ws_inv rs s" "\<not> ws_final s"
  shows "\<exists>s'. ws_step text_of s s'"
proof -
  consider "ws_spawner s = NotStarted" | "ws_spawner s = Forwarding" |
    m where "ws_forwarder s = Writing m" | "ws_forwarder s = Receiving" | "ws_forwarder s = Stopped" "ws_spawner s = SpawnerDone"
    using assms(1) by (cases "ws_spawner s"; cases "ws_forwarder s") (auto simp: ws_inv_def)
  then show ?thesis
  proof cases
    case 3
    then show ?thesis by (cases "ws_open s") (blast intro: ws_step.intros)+
  next
    case 4
    show ?thesis
    proof (cases "ws_channel s")
      case (Cons m ms)
      then show ?thesis using 4 by (blast intro: ws_step.receive)
    next
      case Nil
      show ?thesis
      proof (cases "ws_pc s")
        case InService
        have "length (ws_channel s) < ws_capacity" using Nil by (simp add: ws_capacity_def)
        then show ?thesis using InService
          by (cases "ws_reports s"; cases "ws_result s")
            (blast intro: ws_step.report ws_step.service_ok ws_step.service_failed)+
      next
        case AtClose
        then show ?thesis by (blast intro: ws_step.close_channel)
      qed (use assms(1) 4 Nil in \<open>auto simp: ws_inv_def intro: ws_step.stop\<close>)
    qed
  next
    case 5
    then show ?thesis using assms
      by (cases "ws_pc s") (auto simp: ws_inv_def ws_final_def intro: ws_step.intros)
  qed (blast intro: ws_step.intros)+
qed

lemma ws_run:
  assumes "(ws_step text_of ^^ n) (ws_start written (rs, result)) s"
  shows "ws_inv rs s \<and> n + ws_work s = 3 * length rs + 7"
  using assms
proof (induction n arbitrary: s)
  case 0
  then show ?case by (auto simp: ws_inv_start) (simp add: ws_work_def ws_start_def)
next
  case (Suc n)
  then obtain s1 where "(ws_step text_of ^^ n) (ws_start written (rs, result)) s1" "ws_step text_of s1 s" by auto
  then show ?case using Suc.IH [of s1] ws_inv_step ws_work_step [of text_of s1 s rs] by fastforce
qed


section \<open>Lost reports\<close>

lemma ws_fill:
  assumes "ws_pc s = InService" "length (ws_channel s @ ws_reports s) \<le> ws_capacity"
  shows "ws_steps text_of s (s\<lparr>ws_reports := [], ws_channel := ws_channel s @ ws_reports s\<rparr>)"
  using assms
proof (induction "ws_reports s" arbitrary: s)
  case Nil
  then have "s\<lparr>ws_reports := [], ws_channel := ws_channel s @ ws_reports s\<rparr> = s" by (cases s) simp
  then show ?case by simp
next
  case (Cons m ms)
  let ?s = "s\<lparr>ws_reports := ms, ws_channel := ws_channel s @ [m]\<rparr>"
  have "ws_step text_of s ?s"
    using Cons.prems Cons.hyps(2) [symmetric] by (intro ws_step.report) (simp_all add: ws_capacity_def)
  moreover have "ws_steps text_of ?s (?s\<lparr>ws_reports := [], ws_channel := ws_channel ?s @ ws_reports ?s\<rparr>)"
    using Cons.prems Cons.hyps(2) [symmetric] by (intro Cons.hyps(1)) simp_all
  ultimately show ?case
    using Cons.hyps(2) [symmetric] by (simp add: converse_rtranclp_into_rtranclp)
qed

lemma ws_drain:
  assumes "ws_forwarder s = Receiving" "\<not> ws_open s"
  shows "ws_steps text_of s (s\<lparr>ws_forwarder := Receiving, ws_channel := [], ws_lost := ws_lost s @ ws_channel s\<rparr>)"
  using assms
proof (induction "ws_channel s" arbitrary: s)
  case Nil
  then have "s\<lparr>ws_forwarder := Receiving, ws_channel := [], ws_lost := ws_lost s @ ws_channel s\<rparr> = s" by (cases s) simp
  then show ?case by simp
next
  case (Cons m ms)
  let ?s = "s\<lparr>ws_forwarder := Writing m, ws_channel := ms\<rparr>"
  let ?t = "?s\<lparr>ws_forwarder := Receiving, ws_lost := ws_lost s @ [m]\<rparr>"
  have "ws_step text_of s ?s" using Cons by (intro ws_step.receive) simp_all
  moreover have "ws_step text_of ?s ?t" using Cons.prems ws_step.forward_lost [of ?s m] by simp
  moreover have "ws_steps text_of ?t (?t\<lparr>ws_forwarder := Receiving, ws_channel := [], ws_lost := ws_lost ?t @ ws_channel ?t\<rparr>)"
    using Cons.prems by (intro Cons.hyps(1)) simp_all
  ultimately show ?case
    using Cons.hyps(2) [symmetric] Cons.prems by (simp add: converse_rtranclp_into_rtranclp)
qed

text \<open>All reports can be lost when they fit into the channel: the service succeeds and its client
  hears nothing.\<close>

lemma ws_loses_all:
  assumes "length reports \<le> ws_capacity"
  shows "\<exists>s. ws_steps text_of (ws_start [] (reports, None)) s \<and> ws_final s \<and> ws_wire s = [] \<and> ws_lost s = reports"
proof -
  let ?s0 = "ws_start [] (reports, None)"
  let ?s1 = "?s0\<lparr>ws_reports := [], ws_channel := reports\<rparr>"
  let ?s2 = "?s1\<lparr>ws_pc := AtClose\<rparr>"
  let ?s3 = "?s2\<lparr>ws_pc := AtWait, ws_closed := True\<rparr>"
  let ?s4 = "?s3\<lparr>ws_spawner := Forwarding, ws_forwarder := Receiving\<rparr>"
  let ?s5 = "?s4\<lparr>ws_spawner := SpawnerDone\<rparr>"
  let ?s6 = "?s5\<lparr>ws_pc := AtDeferred\<rparr>"
  let ?s7 = "?s6\<lparr>ws_pc := Returned, ws_open := False\<rparr>"
  let ?s8 = "?s7\<lparr>ws_channel := [], ws_lost := reports\<rparr>"
  let ?s9 = "?s8\<lparr>ws_forwarder := Stopped\<rparr>"
  have "ws_steps text_of ?s0 ?s1"
    using ws_fill [of ?s0] assms by (simp add: ws_start_def)
  also have "ws_step text_of ?s1 ?s2" by (rule ws_step.service_ok) (simp_all add: ws_start_def)
  also have "ws_step text_of ?s2 ?s3" by (rule ws_step.close_channel) simp
  also have "ws_step text_of ?s3 ?s4" by (rule ws_step.spawn) (simp add: ws_start_def)
  also have "ws_step text_of ?s4 ?s5" by (rule ws_step.group_done) simp
  also have "ws_step text_of ?s5 ?s6" by (rule ws_step.waited) simp_all
  also have "ws_step text_of ?s6 ?s7" by (rule ws_step.close_connection) simp
  also have "ws_steps text_of ?s7 ?s8" using ws_drain [of ?s7] by (simp add: ws_start_def)
  also have "ws_step text_of ?s8 ?s9" by (rule ws_step.stop) simp_all
  finally show ?thesis by (intro exI [of _ ?s9]) (simp add: ws_final_def ws_start_def)
qed


text \<open>A failed service makes two goroutines write at once, which the web socket library forbids.\<close>

lemma ws_concurrent_writers:
  assumes "length ms < ws_capacity"
  shows "\<exists>s. ws_steps text_of (ws_start [] (m # ms, Some e)) s \<and> ws_forwarder s = Writing m \<and>
    (\<exists>s'. ws_step text_of s s' \<and> ws_wire s' = [(Handler, failure_message ''Service call failed'' (text_of e))])"
proof -
  let ?s0 = "ws_start [] (m # ms, Some e)"
  let ?s1 = "?s0\<lparr>ws_reports := [], ws_channel := m # ms\<rparr>"
  let ?s2 = "?s1\<lparr>ws_spawner := Forwarding, ws_forwarder := Receiving\<rparr>"
  let ?s3 = "?s2\<lparr>ws_forwarder := Writing m, ws_channel := ms\<rparr>"
  have "ws_steps text_of ?s0 ?s1" using ws_fill [of ?s0] assms by (simp add: ws_start_def)
  also have "ws_step text_of ?s1 ?s2" by (rule ws_step.spawn) (simp add: ws_start_def)
  also have "ws_step text_of ?s2 ?s3" by (rule ws_step.receive) simp_all
  finally have "ws_steps text_of ?s0 ?s3" .
  moreover have "ws_step text_of ?s3 (?s3\<lparr>ws_pc := AtClose,
      ws_wire := [(Handler, failure_message ''Service call failed'' (text_of e))]\<rparr>)"
    using ws_step.service_failed [of ?s3 e text_of] by (simp add: ws_start_def)
  then have "\<exists>s'. ws_step text_of ?s3 s' \<and>
      ws_wire s' = [(Handler, failure_message ''Service call failed'' (text_of e))]"
    by (intro exI conjI) (assumption, simp)
  ultimately show ?thesis by (intro exI [of _ ?s3]) simp
qed

text \<open>A message that is not text: the error is written and the service is called with the empty
  request all the same, unless that is refused by its \<open>Valid\<close>.\<close>

lemma ws_binary_frame:
  assumes "messageType \<noteq> 1" "is_valid zero = None"
  shows "handleWebSocketRequest text_of decode zero is_valid serviceCall None (Inr (messageType, p)) =
    WsServing (ws_start [plain_message ''error'' ''Unsupported message type''] (serviceCall zero))"
  using assms by (simp add: handleWebSocketRequest_def ReadRequest_def)

end
