(* ===== verification/Concurrent_Consumers.thy ===== *)
theory Concurrent_Consumers imports Users_Properties begin

text \<open>
  Subscription messages handled at the same time, by the consumers of several instances of the
  service or of a topic named twice. A delivery reads the user in one transaction and
  writes the new list in a second one (\<open>Handle\<close> of services/subscription_event_handler.go); the
  transactions of different deliveries interleave in any order. The reference is the effect of
  the messages one after the other.
\<close>

section \<open>Deliveries and their steps\<close>

datatype progress = Arrived | Loaded user | Handled "unit outcome"

type_synonym delivery = "subscription_event \<times> progress"

definition after_load :: "user outcome \<Rightarrow> progress" where
  "after_load r = (case r of Ok u \<Rightarrow> Loaded u | Err e \<Rightarrow> Handled (Err e) | Panic \<Rightarrow> Handled Panic | Hang \<Rightarrow> Handled Hang)"

definition write_subscriptions :: "'r env \<Rightarrow> subscription_event \<Rightarrow> user \<Rightarrow> ('r world, unit) io" where
  "write_subscriptions env ev u =
     (if se_action ev = ''remove'' then RemoveSubscriptions env u (se_subscription_ids ev)
      else if se_action ev = ''add'' then AddSubscriptions env u (se_subscription_ids ev)
      else throw (EMsg ''invalid user action event: missing action''))"

inductive deliver :: "'r env \<Rightarrow> delivery list \<times> 'r world \<Rightarrow> delivery list \<times> 'r world \<Rightarrow> bool" for env where
  reading: "i < length ds \<Longrightarrow> ds ! i = (ev, Arrived) \<Longrightarrow> GetUserPublicByID env (se_user_id ev) w = (r, w') \<Longrightarrow>
     deliver env (ds, w) (ds[i := (ev, after_load r)], w')"
| writing: "i < length ds \<Longrightarrow> ds ! i = (ev, Loaded u) \<Longrightarrow> write_subscriptions env ev u w = (r, w') \<Longrightarrow>
     deliver env (ds, w) (ds[i := (ev, Handled r)], w')"

inductive_cases deliver_cases: "deliver env (ds, w) s"

text \<open>Without another delivery between them, the two steps are \<open>Handle\<close>.\<close>

lemma Handle_steps:
  assumes "unmarshal_subscription env value = Some ev"
    and "has_prefix (in_event_type (se_base ev)) ''user.subscription.''"
  shows "SubscriptionActionHandler_Handle env value =
    andthen (GetUserPublicByID env (se_user_id ev)) (write_subscriptions env ev)"
  using assms subscription_base [OF assms(1)]
  by (simp add: SubscriptionActionHandler_Handle_def write_subscriptions_def [abs_def])

section \<open>The list of an account\<close>

definition subscriptions :: "int \<Rightarrow> db \<Rightarrow> int list option" where
  "subscriptions k d = map_option u_subscription_ids (find (\<lambda>r. u_id r = k) (rows (users d)))"

text \<open>The effect of a message on the list it was computed from.\<close>

definition changed :: "subscription_event \<Rightarrow> int list \<Rightarrow> int list" where
  "changed ev old = (if se_action ev = ''remove'' then filter (\<lambda>i. i \<notin> set (se_subscription_ids ev)) old
     else old @ filter (\<lambda>i. i \<notin> set old) (se_subscription_ids ev))"

lemma find_map_same:
  assumes "\<And>r. u_id (f r) = u_id r"
  shows "find (\<lambda>r. u_id r = k) (map f rs) = map_option f (find (\<lambda>r. u_id r = k) rs)"
  by (induction rs) (simp_all add: assms)

lemma subscriptions_update:
  "subscriptions k (users_update (update_where (\<lambda>x. u_id x = j)
     (\<lambda>x. x\<lparr>u_subscription_ids := ids, u_updated_at := now\<rparr>)) d) =
   (if k = j then map_option (\<lambda>_. ids) (subscriptions k d) else subscriptions k d)"
  by (auto simp: subscriptions_def find_map_same option.map_comp o_def find_Some_iff intro!: map_option_cong)

lemma find_SomeD: "find P xs = Some x \<Longrightarrow> x \<in> set xs \<and> P x"
  by (auto simp: find_Some_iff)

lemma load_result:
  assumes "GetUserPublicByID env k w = (r, w')"
  shows "dbase w' = dbase w"
    and "r = Ok u \<Longrightarrow> wf_db (dbase w) \<Longrightarrow> uid u = k \<and> subscriptions k (dbase w) = Some (u_subscription_ids (usr u))"
proof -
  show "dbase w' = dbase w"
    using assms by (cases r) (auto simp: GetUserPublicByID_def elim!: tx_query_OkE dest: WithTransaction_not_Ok)
  assume ok: "r = Ok u" "wf_db (dbase w)"
  then have "txGetUserPublicByID k (dbase w) = Inr u"
    using assms by (auto simp: GetUserPublicByID_def elim!: tx_query_OkE)
  from Only_member [OF this [unfolded txGetUserPublicByID_def]]
  have row: "usr u \<in> set (rows (users (dbase w)))" "u_id (usr u) = k"
    by (auto simp: Where_def Query_def IDEQ_def)
  moreover have "wf_tab u_id (users (dbase w))" using ok(2) by (simp add: wf_db_def users_ok_def)
  ultimately have "find (\<lambda>r. u_id r = k) (rows (users (dbase w))) = Some (usr u)"
    by (cases "find (\<lambda>r. u_id r = k) (rows (users (dbase w)))")
      (auto simp: find_None_iff dest!: find_SomeD dest: wf_tab_unique)
  then show "uid u = k \<and> subscriptions k (dbase w) = Some (u_subscription_ids (usr u))"
    using row by (simp add: subscriptions_def uid_def)
qed

lemma InvalidateCache_returns: "\<exists>x w'. InvalidateCache env (Some u) w = (Ok x, w')"
  using delete_keys_total by (simp add: InvalidateCache_def)

lemma committed_then_invalidated:
  assumes "andthen (or_fail msg (WithTransaction env fn)) (\<lambda>_. andthen (InvalidateCache env (Some u)) (\<lambda>_. ret ())) w = (r, w')"
    and "r \<noteq> Ok ()"
  shows "dbase w' = dbase w"
proof -
  obtain r1 w1 where 1: "WithTransaction env fn w = (r1, w1)" by fastforce
  obtain x w2 where 2: "InvalidateCache env (Some u) w1 = (Ok x, w2)" using InvalidateCache_returns by blast
  have "\<forall>y. r1 \<noteq> Ok y" using assms 1 2 by (cases r1) (auto simp: or_fail_def map_err_def andthen_def)
  moreover have "w' = w1" using assms 1 2 calculation by (cases r1) (auto simp: or_fail_def map_err_def andthen_def)
  ultimately show ?thesis using WithTransaction_not_Ok [OF 1] by simp
qed

lemma write_failed: "write_subscriptions env ev u w = (r, w') \<Longrightarrow> r \<noteq> Ok () \<Longrightarrow> dbase w' = dbase w"
  by (auto simp: write_subscriptions_def RemoveSubscriptions_def AddSubscriptions_def
      intro: committed_then_invalidated split: if_splits)

lemma write_done:
  assumes "write_subscriptions env ev u w = (Ok (), w')"
  shows "(\<forall>k. k \<noteq> uid u \<longrightarrow> subscriptions k (dbase w') = subscriptions k (dbase w)) \<and>
    (subscriptions (uid u) (dbase w') =
        map_option (\<lambda>_. changed ev (u_subscription_ids (usr u))) (subscriptions (uid u) (dbase w)) \<or>
      changed ev (u_subscription_ids (usr u)) = u_subscription_ids (usr u) \<and> dbase w' = dbase w)"
proof (cases "se_action ev = ''remove''")
  case True
  then have "RemoveSubscriptions env u (se_subscription_ids ev) w = (Ok (), w')"
    using assms by (simp add: write_subscriptions_def)
  from RemoveSubscriptions_update [OF this] show ?thesis
    using True by (auto simp: subscriptions_update changed_def)
next
  case False
  then have "AddSubscriptions env u (se_subscription_ids ev) w = (Ok (), w')"
    using assms by (auto simp: write_subscriptions_def split: if_splits)
  from subscription_update [OF this] show ?thesis
    using False by (auto simp: subscriptions_update changed_def)
qed

lemma write_integrity: "write_subscriptions env ev u w = (r, w') \<Longrightarrow> wf_db (dbase w) \<Longrightarrow> wf_db (dbase w')"
  by (auto simp: write_subscriptions_def holds_def split: if_splits
      dest!: keepsD [OF integrity.describing(3)] keepsD [OF integrity.describing(4)])

section \<open>Different accounts\<close>

text \<open>
  When no account has two messages: an account's list is the one it had, changed by its message
  once that was handled, and what a delivery holds is the current list.
\<close>

definition effect_of :: "progress \<Rightarrow> subscription_event \<Rightarrow> int list \<Rightarrow> int list" where
  "effect_of p ev = (if p = Handled (Ok ()) then changed ev else (\<lambda>old. old))"

definition slot :: "db \<Rightarrow> db \<Rightarrow> delivery \<Rightarrow> bool" where
  "slot d0 d x \<longleftrightarrow> (case x of (ev, p) \<Rightarrow>
     subscriptions (se_user_id ev) d = map_option (effect_of p ev) (subscriptions (se_user_id ev) d0) \<and>
     (\<forall>u. p = Loaded u \<longrightarrow> uid u = se_user_id ev \<and> subscriptions (se_user_id ev) d = Some (u_subscription_ids (usr u))))"

definition apart :: "db \<Rightarrow> subscription_event list \<Rightarrow> delivery list \<times> 'r world \<Rightarrow> bool" where
  "apart d0 evs s \<longleftrightarrow> (case s of (ds, w) \<Rightarrow>
     map fst ds = evs \<and> wf_db (dbase w) \<and> (\<forall>i < length ds. slot d0 (dbase w) (ds ! i)) \<and>
     (\<forall>k. k \<notin> se_user_id ` set evs \<longrightarrow> subscriptions k (dbase w) = subscriptions k d0))"

lemma slot_same:
  assumes "slot d0 d x" "subscriptions (se_user_id (fst x)) d' = subscriptions (se_user_id (fst x)) d"
  shows "slot d0 d' x"
proof (cases x)
  case (Pair ev p)
  then show ?thesis using assms unfolding Pair slot_def prod.case fst_conv by metis
qed

lemma slots_update:
  assumes "\<forall>j < length ds. slot d0 d (ds ! j)" "slot d0 d' x"
    and "\<And>j. j < length ds \<Longrightarrow> j \<noteq> i \<Longrightarrow>
      subscriptions (se_user_id (fst (ds ! j))) d' = subscriptions (se_user_id (fst (ds ! j))) d"
  shows "\<forall>j < length (ds[i := x]). slot d0 d' (ds[i := x] ! j)"
proof (intro allI impI)
  fix j assume "j < length (ds[i := x])"
  then show "slot d0 d' (ds[i := x] ! j)"
    using assms slot_same [of d0 d "ds ! j" d'] by (cases "j = i") simp_all
qed

lemma same_events: "i < length ds \<Longrightarrow> ds ! i = (ev, p) \<Longrightarrow> map fst (ds[i := (ev, q)]) = map fst ds"
  by (simp add: map_update list_update_same_conv)

lemma apart_step:
  assumes "deliver env s t" "apart d0 evs s" "distinct (map se_user_id evs)"
  shows "apart d0 evs t"
  using assms
proof (induction rule: deliver.induct)
  case (reading i ds ev w r w')
  have db: "dbase w' = dbase w" by (rule load_result(1) [OF reading.hyps(3)])
  have inv: "map fst ds = evs" "wf_db (dbase w)" "\<forall>j < length ds. slot d0 (dbase w) (ds ! j)"
    using reading.prems(1) by (simp_all add: apart_def)
  have "slot d0 (dbase w) (ev, Arrived)" using inv(3) reading.hyps(1,2) by metis
  moreover have "effect_of (after_load r) ev = effect_of Arrived ev"
    by (cases r) (simp_all add: effect_of_def after_load_def)
  moreover have "uid u = se_user_id ev \<and> subscriptions (se_user_id ev) (dbase w) = Some (u_subscription_ids (usr u))"
    if "after_load r = Loaded u" for u
    using that load_result(2) [OF reading.hyps(3) _ inv(2)] by (cases r) (simp_all add: after_load_def)
  ultimately have "slot d0 (dbase w) (ev, after_load r)" unfolding slot_def prod.case by metis
  from slots_update [OF inv(3) this] show ?case
    using reading.prems(1) by (simp add: apart_def db same_events [OF reading.hyps(1,2)])
next
  case (writing i ds ev u w r w')
  have inv: "map fst ds = evs" "wf_db (dbase w)" "\<forall>j < length ds. slot d0 (dbase w) (ds ! j)"
    using writing.prems(1) by (simp_all add: apart_def)
  have cur: "slot d0 (dbase w) (ev, Loaded u)" using inv(3) writing.hyps(1,2) by metis
  then have u: "uid u = se_user_id ev" "subscriptions (se_user_id ev) (dbase w) = Some (u_subscription_ids (usr u))"
    unfolding slot_def prod.case by (metis, metis)
  have change: "subscriptions k (dbase w') = (if k = se_user_id ev \<and> r = Ok ()
      then Some (changed ev (u_subscription_ids (usr u))) else subscriptions k (dbase w))" for k
    using write_done [of env ev u w w'] write_failed [OF writing.hyps(3)] writing.hyps(3) u
    by (cases "r = Ok ()") auto
  have "subscriptions (se_user_id ev) d0 = Some (u_subscription_ids (usr u))"
    using cur u by (cases "subscriptions (se_user_id ev) d0") (simp_all add: slot_def effect_of_def)
  then have slot: "slot d0 (dbase w') (ev, Handled r)"
    using u change [of "se_user_id ev"] by (simp add: slot_def effect_of_def)
  have "se_user_id (fst (ds ! j)) \<noteq> se_user_id ev" if "j < length ds" "j \<noteq> i" for j
  proof -
    have "distinct (map (se_user_id \<circ> fst) ds)" using writing.prems(2) inv(1) by auto
    then have "(se_user_id \<circ> fst) (ds ! j) \<noteq> (se_user_id \<circ> fst) (ds ! i)"
      using that writing.hyps(1) by (metis distinct_conv_nth length_map nth_map)
    then show ?thesis using writing.hyps(2) by simp
  qed
  then have "\<forall>j < length (ds[i := (ev, Handled r)]). slot d0 (dbase w') (ds[i := (ev, Handled r)] ! j)"
    by (intro slots_update [OF inv(3) slot]) (simp add: change)
  moreover have "ev \<in> set evs" using inv(1) writing.hyps(1,2) by (metis fst_conv image_eqI list.set_map nth_mem)
  ultimately show ?case
    using writing.prems(1) write_integrity [OF writing.hyps(3) inv(2)] change
    by (auto simp: apart_def same_events [OF writing.hyps(1,2)])
qed

lemma apart_steps:
  "(deliver env)\<^sup>*\<^sup>* s t \<Longrightarrow> apart d0 evs s \<Longrightarrow> distinct (map se_user_id evs) \<Longrightarrow> apart d0 evs t"
  by (induction rule: rtranclp_induct) (auto intro: apart_step)


section \<open>The same account\<close>

text \<open>
  Two messages that add to the list of the same account, and what can be said of the list at
  every moment: \<open>old\<close> is the list before, \<open>new1\<close> and \<open>new2\<close> the lists computed from it.
\<close>

fun race_state :: "int list \<Rightarrow> subscription_event \<Rightarrow> subscription_event \<Rightarrow> int list \<Rightarrow> progress \<Rightarrow> progress \<Rightarrow> bool" where
  "race_state old ev1 ev2 cur Arrived Arrived = (cur = old)"
| "race_state old ev1 ev2 cur (Loaded u) Arrived = (u_subscription_ids (usr u) = old \<and> cur = old)"
| "race_state old ev1 ev2 cur Arrived (Loaded v) = (u_subscription_ids (usr v) = old \<and> cur = old)"
| "race_state old ev1 ev2 cur (Loaded u) (Loaded v) =
     (u_subscription_ids (usr u) = old \<and> u_subscription_ids (usr v) = old \<and> cur = old)"
| "race_state old ev1 ev2 cur (Handled (Ok _)) Arrived = (cur = changed ev1 old)"
| "race_state old ev1 ev2 cur Arrived (Handled (Ok _)) = (cur = changed ev2 old)"
| "race_state old ev1 ev2 cur (Handled (Ok _)) (Loaded v) =
     (cur = changed ev1 old \<and> u_subscription_ids (usr v) \<in> {old, changed ev1 old})"
| "race_state old ev1 ev2 cur (Loaded u) (Handled (Ok _)) =
     (cur = changed ev2 old \<and> u_subscription_ids (usr u) \<in> {old, changed ev2 old})"
| "race_state old ev1 ev2 cur (Handled (Ok _)) (Handled (Ok _)) =
     (cur \<in> {changed ev2 (changed ev1 old), changed ev1 (changed ev2 old), changed ev1 old, changed ev2 old})"
| "race_state old ev1 ev2 cur _ _ = True"

definition racing :: "int list \<Rightarrow> subscription_event \<Rightarrow> subscription_event \<Rightarrow> delivery list \<times> 'r world \<Rightarrow> bool" where
  "racing old ev1 ev2 s \<longleftrightarrow> (\<exists>p1 p2 cur. fst s = [(ev1, p1), (ev2, p2)] \<and> wf_db (dbase (snd s)) \<and>
     subscriptions (se_user_id ev1) (dbase (snd s)) = Some cur \<and>
     (\<forall>u. p1 = Loaded u \<or> p2 = Loaded u \<longrightarrow> uid u = se_user_id ev1) \<and> race_state old ev1 ev2 cur p1 p2)"

lemma progress_cases:
  obtains "p = Arrived" | u where "p = Loaded u" | "p = Handled (Ok ())" | e where "p = Handled (Err e)" |
    "p = Handled Panic" | "p = Handled Hang"
proof (cases p)
  case (Handled r)
  then show thesis using that by (cases r) auto
qed (use that in auto)

lemma race_load:
  "race_state old ev1 ev2 cur Arrived p \<Longrightarrow> u_subscription_ids (usr u) = cur \<Longrightarrow> race_state old ev1 ev2 cur (Loaded u) p"
  "race_state old ev1 ev2 cur p Arrived \<Longrightarrow> u_subscription_ids (usr u) = cur \<Longrightarrow> race_state old ev1 ev2 cur p (Loaded u)"
  by (cases p rule: progress_cases; simp)+

lemma race_write:
  assumes "cur' = changed ev l \<or> changed ev l = l \<and> cur' = cur" "l = u_subscription_ids (usr u)"
  shows "ev = ev1 \<Longrightarrow> race_state old ev1 ev2 cur (Loaded u) p \<Longrightarrow> race_state old ev1 ev2 cur' (Handled (Ok ())) p"
    "ev = ev2 \<Longrightarrow> race_state old ev1 ev2 cur p (Loaded u) \<Longrightarrow> race_state old ev1 ev2 cur' p (Handled (Ok ()))"
  using assms by (cases p rule: progress_cases; auto)+

lemma race_failed:
  "r \<noteq> Ok () \<Longrightarrow> race_state old ev1 ev2 cur (Handled r) p"
  "r \<noteq> Ok () \<Longrightarrow> race_state old ev1 ev2 cur p (Handled r)"
  by (cases r; cases p rule: progress_cases; simp)+

lemma racing_step:
  assumes "deliver env s t" "racing old ev1 ev2 s" "se_user_id ev2 = se_user_id ev1"
  shows "racing old ev1 ev2 t"
  using assms
proof (induction rule: deliver.induct)
  case (reading i ds ev w r w')
  then obtain p1 p2 cur where inv: "ds = [(ev1, p1), (ev2, p2)]" "wf_db (dbase w)"
    "subscriptions (se_user_id ev1) (dbase w) = Some cur"
    "\<forall>u. p1 = Loaded u \<or> p2 = Loaded u \<longrightarrow> uid u = se_user_id ev1" "race_state old ev1 ev2 cur p1 p2"
    by (auto simp: racing_def)
  have db: "dbase w' = dbase w" by (rule load_result(1) [OF reading.hyps(3)])
  have ev: "se_user_id ev = se_user_id ev1"
    using reading.hyps(1,2) inv(1) assms(3) by (auto simp: less_Suc_eq nth_Cons')
  have loaded: "uid u = se_user_id ev1 \<and> u_subscription_ids (usr u) = cur" if "r = Ok u" for u
    using load_result(2) [OF reading.hyps(3) that inv(2)] inv(3) ev by simp
  consider "i = 0" "ev = ev1" "p1 = Arrived" | "i = 1" "ev = ev2" "p2 = Arrived"
    using reading.hyps(1,2) inv(1) by (auto simp: less_Suc_eq nth_Cons')
  then show ?case
  proof cases
    case 1
    then show ?thesis using inv loaded
      by (cases r) (auto simp: racing_def db after_load_def intro: race_load race_failed)
  next
    case 2
    then show ?thesis using inv loaded
      by (cases r) (auto simp: racing_def db after_load_def intro: race_load race_failed)
  qed
next
  case (writing i ds ev u w r w')
  then obtain p1 p2 cur where inv: "ds = [(ev1, p1), (ev2, p2)]" "wf_db (dbase w)"
    "subscriptions (se_user_id ev1) (dbase w) = Some cur"
    "\<forall>u. p1 = Loaded u \<or> p2 = Loaded u \<longrightarrow> uid u = se_user_id ev1" "race_state old ev1 ev2 cur p1 p2"
    by (auto simp: racing_def)
  have wf: "wf_db (dbase w')" by (rule write_integrity [OF writing.hyps(3) inv(2)])
  have which: "i = 0 \<and> ev = ev1 \<and> p1 = Loaded u \<or> i = 1 \<and> ev = ev2 \<and> p2 = Loaded u"
    using writing.hyps(1,2) inv(1) by (auto simp: less_Suc_eq nth_Cons')
  then have u: "uid u = se_user_id ev1" using inv(4) by auto
  define l where "l = u_subscription_ids (usr u)"
  show ?case
  proof (cases "r = Ok ()")
    case True
    from write_done [OF writing.hyps(3) [unfolded True]] obtain cur' where
      cur': "subscriptions (se_user_id ev1) (dbase w') = Some cur'"
        "cur' = changed ev l \<or> changed ev l = l \<and> cur' = cur"
      using u inv(3) by (auto simp: l_def)
    note race = race_write [OF cur'(2) l_def]
    from which show ?thesis
      using inv wf cur' race True by (auto simp: racing_def)
  next
    case False
    show ?thesis
      using inv wf False write_failed [OF writing.hyps(3) False] which
      by (auto simp: racing_def intro: race_failed)
  qed
qed


definition adding :: "int \<Rightarrow> subscription_event" where
  "adding n = subscription_sample\<lparr>se_subscription_ids := [n]\<rparr>"

lemma race_run:
  "\<exists>u w1 w2 w3 w4. GetUserPublicByID steady_env 1 (fresh_world sample_db) = (Ok u, w1) \<and>
     GetUserPublicByID steady_env 1 w1 = (Ok u, w2) \<and>
     AddSubscriptions steady_env u [7] w2 = (Ok (), w3) \<and> AddSubscriptions steady_env u [8] w3 = (Ok (), w4) \<and>
     subscriptions 1 (dbase w4) = Some [8]"
  by (simp add: GetUserPublicByID_def txGetUserPublicByID_def
        AddSubscriptions_def collect_new_filter run_defs sample_fields lookup_defs Where_def Query_def
        RemovedEQ_def BlacklistedEQ_def update_defs cache_defs subscriptions_def)

text \<open>It happens: both messages are handled with success and the first is lost.\<close>

lemma lost_message:
  "\<exists>w'. (deliver steady_env)\<^sup>*\<^sup>* ([(adding 7, Arrived), (adding 8, Arrived)], fresh_world sample_db)
      ([(adding 7, Handled (Ok ())), (adding 8, Handled (Ok ()))], w') \<and> subscriptions 1 (dbase w') = Some [8]"
proof -
  obtain u w1 w2 w3 w4 where run: "GetUserPublicByID steady_env 1 (fresh_world sample_db) = (Ok u, w1)"
    "GetUserPublicByID steady_env 1 w1 = (Ok u, w2)" "AddSubscriptions steady_env u [7] w2 = (Ok (), w3)"
    "AddSubscriptions steady_env u [8] w3 = (Ok (), w4)" and w4: "subscriptions 1 (dbase w4) = Some [8]"
    using race_run by blast
  have ev: "se_user_id (adding n) = 1" "write_subscriptions steady_env (adding n) u = AddSubscriptions steady_env u [n]" for n
    by (simp_all add: adding_def subscription_sample_def write_subscriptions_def)
  let ?s = "\<lambda>p q. [(adding 7, p), (adding 8, q)]"
  have "(deliver steady_env)\<^sup>*\<^sup>* (?s Arrived Arrived, fresh_world sample_db) (?s (Loaded u) Arrived, w1)"
    using deliver.reading [of 0 "?s Arrived Arrived" "adding 7" steady_env _ "Ok u"] run(1)
    by (intro r_into_rtranclp) (simp add: ev after_load_def)
  also have "deliver steady_env (?s (Loaded u) Arrived, w1) (?s (Loaded u) (Loaded u), w2)"
    using deliver.reading [of 1 "?s (Loaded u) Arrived" "adding 8" steady_env _ "Ok u"] run(2) by (simp add: ev after_load_def)
  also have "deliver steady_env (?s (Loaded u) (Loaded u), w2) (?s (Handled (Ok ())) (Loaded u), w3)"
    using deliver.writing [of 0 "?s (Loaded u) (Loaded u)" "adding 7" u steady_env] run(3) by (simp add: ev)
  also have "deliver steady_env (?s (Handled (Ok ())) (Loaded u), w3) (?s (Handled (Ok ())) (Handled (Ok ())), w4)"
    using deliver.writing [of 1 "?s (Handled (Ok ())) (Loaded u)" "adding 8" u steady_env] run(4) by (simp add: ev)
  finally show ?thesis using w4 by blast
qed



end
