(* ===== verification/Ent_Mutation.thy ===== *)
theory Ent_Mutation imports Prelude "HOL-Library.Word" begin

text \<open>
  The mutations of the generated ent client (models/ent/mutation.go): what a builder has been told
  to do to the fields and edges of an entity. The generator writes the same methods for every
  entity; here they are written once over the schema of an entity, and theory Ent_Schemas
  instantiates them for the entities of the service. A pointer field of the struct, such as
  \<open>m.mail\<close>, is the entry of the field's name in a map. The type of float64 and its addition are
  parameters; old values are fetched by the client and a parameter, too.
\<close>

section \<open>Values and schemas\<close>

text \<open>The dynamic types the generated type assertions distinguish; \<open>VNil\<close> is the nil pointer of a nillable
  field of an entity, \<open>VOther\<close> any other value.\<close>

datatype go_type = GoString | GoBool | GoInt | GoFloat | GoTime | GoInts | GoStrings

datatype 'f ent_value = VString string | VBool bool | VInt int | VFloat 'f | VTime int |
  VInts "int list" | VStrings "string list" | VNil | VOther

fun type_of_value :: "'f ent_value \<Rightarrow> go_type option" where
  "type_of_value (VString s) = Some GoString"
| "type_of_value (VBool b) = Some GoBool"
| "type_of_value (VInt i) = Some GoInt"
| "type_of_value (VFloat x) = Some GoFloat"
| "type_of_value (VTime t) = Some GoTime"
| "type_of_value (VInts is) = Some GoInts"
| "type_of_value (VStrings ss) = Some GoStrings"
| "type_of_value VNil = None"
| "type_of_value VOther = None"

record field_schema =
  fs_name :: string
  fs_go :: string
  fs_type :: go_type
  fs_nullable :: bool
  fs_numeric :: bool
  fs_appends :: bool

record edge_schema =
  es_name :: string
  es_unique :: bool

record entity_schema =
  en_type :: string
  en_fields :: "field_schema list"
  en_edges :: "edge_schema list"

definition field_named :: "entity_schema \<Rightarrow> string \<Rightarrow> field_schema option" where
  "field_named sch name = find (\<lambda>f. fs_name f = name) (en_fields sch)"

definition edge_named :: "entity_schema \<Rightarrow> string \<Rightarrow> edge_schema option" where
  "edge_named sch name = find (\<lambda>e. es_name e = name) (en_edges sch)"

section \<open>A mutation\<close>

datatype mutation_op = OpCreate | OpUpdate | OpUpdateOne | OpDelete | OpDeleteOne

type_synonym 'f ent_row = "string \<Rightarrow> 'f ent_value"

text \<open>\<open>oldValue\<close>: absent, a given node, or a query that runs once and is remembered.\<close>

datatype 'f old_source = NoOld | OldNode "'f ent_row" | OldQuery "error + 'f ent_row" "(error + 'f ent_row) option"

record ('f, 'p) mutation =
  mu_op :: mutation_op
  mu_typ :: string
  mu_id :: "int option"
  mu_values :: "string \<rightharpoonup> 'f ent_value"
  mu_added :: "string \<rightharpoonup> 'f ent_value"
  mu_cleared :: "string set"
  mu_edge :: "string \<rightharpoonup> int"
  mu_edges :: "string \<rightharpoonup> int set"
  mu_removed :: "string \<rightharpoonup> int set"
  mu_cleared_edges :: "string set"
  mu_done :: bool
  mu_old :: "'f old_source"
  mu_predicates :: "'p list"

definition new_mutation :: "entity_schema \<Rightarrow> mutation_op \<Rightarrow> ('f, 'p) mutation" where
  "new_mutation sch op = \<lparr>mu_op = op, mu_typ = en_type sch, mu_id = None, mu_values = Map.empty, mu_added = Map.empty,
     mu_cleared = {}, mu_edge = Map.empty, mu_edges = Map.empty, mu_removed = Map.empty, mu_cleared_edges = {},
     mu_done = False, mu_old = NoOld, mu_predicates = []\<rparr>"

definition with_id :: "error + 'f ent_row \<Rightarrow> int \<Rightarrow> ('f, 'p) mutation \<Rightarrow> ('f, 'p) mutation" where
  "with_id query i m = m\<lparr>mu_old := OldQuery query None, mu_id := Some i\<rparr>"

definition with_node :: "'f ent_row \<Rightarrow> int \<Rightarrow> ('f, 'p) mutation \<Rightarrow> ('f, 'p) mutation" where
  "with_node node i m = m\<lparr>mu_old := OldNode node, mu_id := Some i\<rparr>"

definition SetID :: "int \<Rightarrow> ('f, 'p) mutation \<Rightarrow> ('f, 'p) mutation" where
  "SetID i m = m\<lparr>mu_id := Some i\<rparr>"

text \<open>\<open>IDs\<close>: the query of the client is a parameter.\<close>

definition mutation_IDs :: "('p list \<Rightarrow> error + int list) \<Rightarrow> (mutation_op \<Rightarrow> string) \<Rightarrow> ('f, 'p) mutation \<Rightarrow> error + int list" where
  "mutation_IDs query op_text m = (case mu_op m of
      OpCreate \<Rightarrow> Inl (EMsg (''IDs is not allowed on '' @ op_text OpCreate @ '' operations''))
    | OpUpdate \<Rightarrow> query (mu_predicates m)
    | OpDelete \<Rightarrow> query (mu_predicates m)
    | _ \<Rightarrow> (case mu_id m of Some i \<Rightarrow> Inr [i] | None \<Rightarrow> query (mu_predicates m)))"

definition mutation_Where :: "'p list \<Rightarrow> ('f, 'p) mutation \<Rightarrow> ('f, 'p) mutation" where
  "mutation_Where ps m = m\<lparr>mu_predicates := mu_predicates m @ ps\<rparr>"

section \<open>Fields\<close>

text \<open>The methods of one field: \<open>SetX\<close>, \<open>X\<close>, \<open>OldX\<close>, \<open>AddX\<close> and \<open>AppendX\<close>, \<open>ClearX\<close>, \<open>ResetX\<close>.\<close>

definition set_field :: "field_schema \<Rightarrow> 'f ent_value \<Rightarrow> ('f, 'p) mutation \<Rightarrow> ('f, 'p) mutation" where
  "set_field f v m = (if fs_numeric f \<or> fs_appends f
     then m\<lparr>mu_values := (mu_values m)(fs_name f \<mapsto> v), mu_added := (mu_added m)(fs_name f := None)\<rparr>
     else m\<lparr>mu_values := (mu_values m)(fs_name f \<mapsto> v)\<rparr>)"

definition get_field :: "field_schema \<Rightarrow> ('f, 'p) mutation \<Rightarrow> 'f ent_value option" where
  "get_field f m = mu_values m (fs_name f)"

definition old_value :: "('f, 'p) mutation \<Rightarrow> (error + 'f ent_row) \<times> ('f, 'p) mutation" where
  "old_value m = (case mu_old m of
      NoOld \<Rightarrow> (Inl (EMsg ''nil''), m)
    | OldNode node \<Rightarrow> (Inr node, m)
    | OldQuery query (Some r) \<Rightarrow> (r, m)
    | OldQuery query None \<Rightarrow>
        (let r = (if mu_done m then Inl (EMsg ''querying old values post mutation is not allowed'') else query)
         in (r, m\<lparr>mu_old := OldQuery query (Some r)\<rparr>)))"

definition old_field :: "field_schema \<Rightarrow> ('f, 'p) mutation \<Rightarrow> (error + 'f ent_value) \<times> ('f, 'p) mutation" where
  "old_field f m =
     (if mu_op m \<noteq> OpUpdateOne then (Inl (EMsg (''Old'' @ fs_go f @ '' is only allowed on UpdateOne operations'')), m)
      else if mu_id m = None \<or> mu_old m = NoOld
      then (Inl (EMsg (''Old'' @ fs_go f @ '' requires an ID field in the mutation'')), m)
      else (case old_value m of
          (Inl err, m') \<Rightarrow> (Inl (EWrap (''querying old value for Old'' @ fs_go f) err), m')
        | (Inr row, m') \<Rightarrow> (Inr (row (fs_name f)), m')))"

text \<open>An \<open>int\<close> of Go has 64 bits, its addition wraps.\<close>

definition wrap64 :: "int \<Rightarrow> int" where "wrap64 i = sint (word_of_int i :: 64 word)"

fun add_values :: "('f :: plus) ent_value \<Rightarrow> 'f ent_value \<Rightarrow> 'f ent_value" where
  "add_values (VInt i) (VInt j) = VInt (wrap64 (i + j))"
| "add_values (VFloat x) (VFloat y) = VFloat (x + y)"
| "add_values (VInts is) (VInts js) = VInts (is @ js)"
| "add_values (VStrings ss) (VStrings ts) = VStrings (ss @ ts)"
| "add_values v w = w"

text \<open>\<open>AddX\<close> accumulates a number, \<open>AppendX\<close> a list; an empty list counts as nothing appended.\<close>

definition add_field :: "field_schema \<Rightarrow> ('f :: plus) ent_value \<Rightarrow> ('f, 'p) mutation \<Rightarrow> ('f, 'p) mutation" where
  "add_field f v m = m\<lparr>mu_added := (mu_added m)(fs_name f \<mapsto>
     (case mu_added m (fs_name f) of None \<Rightarrow> v | Some w \<Rightarrow> add_values w v))\<rparr>"

definition added_field :: "field_schema \<Rightarrow> ('f, 'p) mutation \<Rightarrow> 'f ent_value option" where
  "added_field f m = (case mu_added m (fs_name f) of
      Some (VInts []) \<Rightarrow> None | Some (VStrings []) \<Rightarrow> None | r \<Rightarrow> r)"

definition clear_field :: "field_schema \<Rightarrow> ('f, 'p) mutation \<Rightarrow> ('f, 'p) mutation" where
  "clear_field f m = m\<lparr>mu_values := (mu_values m)(fs_name f := None),
     mu_added := (if fs_numeric f \<or> fs_appends f then (mu_added m)(fs_name f := None) else mu_added m),
     mu_cleared := insert (fs_name f) (mu_cleared m)\<rparr>"

definition field_cleared :: "field_schema \<Rightarrow> ('f, 'p) mutation \<Rightarrow> bool" where
  "field_cleared f m = (fs_name f \<in> mu_cleared m)"

definition reset_field :: "field_schema \<Rightarrow> ('f, 'p) mutation \<Rightarrow> ('f, 'p) mutation" where
  "reset_field f m = m\<lparr>mu_values := (mu_values m)(fs_name f := None),
     mu_added := (if fs_numeric f \<or> fs_appends f then (mu_added m)(fs_name f := None) else mu_added m),
     mu_cleared := (if fs_nullable f then mu_cleared m - {fs_name f} else mu_cleared m)\<rparr>"

text \<open>The methods that take the name of a field.\<close>

definition mutation_Fields :: "entity_schema \<Rightarrow> ('f, 'p) mutation \<Rightarrow> string list" where
  "mutation_Fields sch m = map fs_name (filter (\<lambda>f. get_field f m \<noteq> None) (en_fields sch))"

definition mutation_Field :: "entity_schema \<Rightarrow> string \<Rightarrow> ('f, 'p) mutation \<Rightarrow> 'f ent_value option" where
  "mutation_Field sch name m = (case field_named sch name of None \<Rightarrow> None | Some f \<Rightarrow> get_field f m)"

definition mutation_OldField ::
  "entity_schema \<Rightarrow> string \<Rightarrow> ('f, 'p) mutation \<Rightarrow> (error + 'f ent_value) \<times> ('f, 'p) mutation" where
  "mutation_OldField sch name m = (case field_named sch name of
      None \<Rightarrow> (Inl (EMsg (''unknown '' @ en_type sch @ '' field '' @ name)), m)
    | Some f \<Rightarrow> old_field f m)"

text \<open>\<open>%T\<close> of the refused value is left out of the text.\<close>

definition unexpected_type :: "string \<Rightarrow> error" where
  "unexpected_type name = EMsg (''unexpected type for field '' @ name)"

definition mutation_SetField ::
  "entity_schema \<Rightarrow> string \<Rightarrow> 'f ent_value \<Rightarrow> ('f, 'p) mutation \<Rightarrow> error + ('f, 'p) mutation" where
  "mutation_SetField sch name v m = (case field_named sch name of
      None \<Rightarrow> Inl (EMsg (''unknown '' @ en_type sch @ '' field '' @ name))
    | Some f \<Rightarrow> if type_of_value v \<noteq> Some (fs_type f) then Inl (unexpected_type name) else Inr (set_field f v m))"

definition mutation_AddedFields :: "entity_schema \<Rightarrow> ('f, 'p) mutation \<Rightarrow> string list" where
  "mutation_AddedFields sch m =
     map fs_name (filter (\<lambda>f. fs_numeric f \<and> mu_added m (fs_name f) \<noteq> None) (en_fields sch))"

definition mutation_AddedField :: "entity_schema \<Rightarrow> string \<Rightarrow> ('f, 'p) mutation \<Rightarrow> 'f ent_value option" where
  "mutation_AddedField sch name m = (case field_named sch name of
      None \<Rightarrow> None | Some f \<Rightarrow> if fs_numeric f then added_field f m else None)"

definition mutation_AddField ::
  "entity_schema \<Rightarrow> string \<Rightarrow> ('f :: plus) ent_value \<Rightarrow> ('f, 'p) mutation \<Rightarrow> error + ('f, 'p) mutation" where
  "mutation_AddField sch name v m =
     (let unknown = Inl (EMsg (''unknown '' @ en_type sch @ '' numeric field '' @ name)) in
      case field_named sch name of
        None \<Rightarrow> unknown
      | Some f \<Rightarrow> if \<not> fs_numeric f then unknown
          else if type_of_value v \<noteq> Some (fs_type f) then Inl (unexpected_type name) else Inr (add_field f v m))"

definition mutation_ClearedFields :: "entity_schema \<Rightarrow> ('f, 'p) mutation \<Rightarrow> string list" where
  "mutation_ClearedFields sch m = map fs_name (filter (\<lambda>f. fs_nullable f \<and> field_cleared f m) (en_fields sch))"

definition mutation_FieldCleared :: "entity_schema \<Rightarrow> string \<Rightarrow> ('f, 'p) mutation \<Rightarrow> bool" where
  "mutation_FieldCleared sch name m = (name \<in> mu_cleared m)"

definition mutation_ClearField :: "entity_schema \<Rightarrow> string \<Rightarrow> ('f, 'p) mutation \<Rightarrow> error + ('f, 'p) mutation" where
  "mutation_ClearField sch name m =
     (let unknown = Inl (EMsg (''unknown '' @ en_type sch @ '' nullable field '' @ name)) in
      case field_named sch name of
        None \<Rightarrow> unknown | Some f \<Rightarrow> if fs_nullable f then Inr (clear_field f m) else unknown)"

definition mutation_ResetField :: "entity_schema \<Rightarrow> string \<Rightarrow> ('f, 'p) mutation \<Rightarrow> error + ('f, 'p) mutation" where
  "mutation_ResetField sch name m = (case field_named sch name of
      None \<Rightarrow> Inl (EMsg (''unknown '' @ en_type sch @ '' field '' @ name)) | Some f \<Rightarrow> Inr (reset_field f m))"

section \<open>Edges\<close>

text \<open>A unique edge: \<open>SetXID\<close>, \<open>XID\<close>, \<open>XIDs\<close>; an edge to many: \<open>AddXIDs\<close>, \<open>RemoveXIDs\<close>, \<open>XIDs\<close>.\<close>

definition set_edge :: "edge_schema \<Rightarrow> int \<Rightarrow> ('f, 'p) mutation \<Rightarrow> ('f, 'p) mutation" where
  "set_edge e i m = m\<lparr>mu_edge := (mu_edge m)(es_name e \<mapsto> i)\<rparr>"

definition set_or_empty :: "int set option \<Rightarrow> int set" where
  "set_or_empty r = (case r of None \<Rightarrow> {} | Some ids \<Rightarrow> ids)"

definition add_edges :: "edge_schema \<Rightarrow> int list \<Rightarrow> ('f, 'p) mutation \<Rightarrow> ('f, 'p) mutation" where
  "add_edges e ids m = m\<lparr>mu_edges := (mu_edges m)(es_name e \<mapsto> set_or_empty (mu_edges m (es_name e)) \<union> set ids)\<rparr>"

text \<open>Deleting from the nil map leaves it nil.\<close>

definition remove_edges :: "edge_schema \<Rightarrow> int list \<Rightarrow> ('f, 'p) mutation \<Rightarrow> ('f, 'p) mutation" where
  "remove_edges e ids m = m
     \<lparr>mu_edges := (mu_edges m)(es_name e := map_option (\<lambda>old. old - set ids) (mu_edges m (es_name e))),
      mu_removed := (mu_removed m)(es_name e \<mapsto> set_or_empty (mu_removed m (es_name e)) \<union> set ids)\<rparr>"

definition clear_edge :: "edge_schema \<Rightarrow> ('f, 'p) mutation \<Rightarrow> ('f, 'p) mutation" where
  "clear_edge e m = m\<lparr>mu_cleared_edges := insert (es_name e) (mu_cleared_edges m)\<rparr>"

definition edge_cleared :: "edge_schema \<Rightarrow> ('f, 'p) mutation \<Rightarrow> bool" where
  "edge_cleared e m = (es_name e \<in> mu_cleared_edges m)"

definition edge_ids :: "edge_schema \<Rightarrow> ('f, 'p) mutation \<Rightarrow> int set" where
  "edge_ids e m = (if es_unique e then (case mu_edge m (es_name e) of None \<Rightarrow> {} | Some i \<Rightarrow> {i})
     else set_or_empty (mu_edges m (es_name e)))"

definition removed_ids :: "edge_schema \<Rightarrow> ('f, 'p) mutation \<Rightarrow> int set" where
  "removed_ids e m = set_or_empty (mu_removed m (es_name e))"

definition reset_edge :: "edge_schema \<Rightarrow> ('f, 'p) mutation \<Rightarrow> ('f, 'p) mutation" where
  "reset_edge e m =
     (let m' = (if es_unique e then m\<lparr>mu_edge := (mu_edge m)(es_name e := None)\<rparr>
        else m\<lparr>mu_edges := (mu_edges m)(es_name e := None), mu_removed := (mu_removed m)(es_name e := None)\<rparr>)
      in m'\<lparr>mu_cleared_edges := mu_cleared_edges m - {es_name e}\<rparr>)"

definition mutation_AddedEdges :: "entity_schema \<Rightarrow> ('f, 'p) mutation \<Rightarrow> string list" where
  "mutation_AddedEdges sch m = map es_name (filter (\<lambda>e. if es_unique e then mu_edge m (es_name e) \<noteq> None
     else mu_edges m (es_name e) \<noteq> None) (en_edges sch))"

definition mutation_AddedIDs :: "entity_schema \<Rightarrow> string \<Rightarrow> ('f, 'p) mutation \<Rightarrow> int set" where
  "mutation_AddedIDs sch name m = (case edge_named sch name of None \<Rightarrow> {} | Some e \<Rightarrow> edge_ids e m)"

definition mutation_RemovedEdges :: "entity_schema \<Rightarrow> ('f, 'p) mutation \<Rightarrow> string list" where
  "mutation_RemovedEdges sch m =
     map es_name (filter (\<lambda>e. \<not> es_unique e \<and> mu_removed m (es_name e) \<noteq> None) (en_edges sch))"

definition mutation_RemovedIDs :: "entity_schema \<Rightarrow> string \<Rightarrow> ('f, 'p) mutation \<Rightarrow> int set" where
  "mutation_RemovedIDs sch name m = (case edge_named sch name of
      None \<Rightarrow> {} | Some e \<Rightarrow> if es_unique e then {} else removed_ids e m)"

definition mutation_ClearedEdges :: "entity_schema \<Rightarrow> ('f, 'p) mutation \<Rightarrow> string list" where
  "mutation_ClearedEdges sch m = map es_name (filter (\<lambda>e. edge_cleared e m) (en_edges sch))"

definition mutation_EdgeCleared :: "entity_schema \<Rightarrow> string \<Rightarrow> ('f, 'p) mutation \<Rightarrow> bool" where
  "mutation_EdgeCleared sch name m = (case edge_named sch name of None \<Rightarrow> False | Some e \<Rightarrow> edge_cleared e m)"

definition mutation_ClearEdge :: "entity_schema \<Rightarrow> string \<Rightarrow> ('f, 'p) mutation \<Rightarrow> error + ('f, 'p) mutation" where
  "mutation_ClearEdge sch name m =
     (let unknown = Inl (EMsg (''unknown '' @ en_type sch @ '' unique edge '' @ name)) in
      case edge_named sch name of
        None \<Rightarrow> unknown | Some e \<Rightarrow> if es_unique e then Inr (clear_edge e m) else unknown)"

definition mutation_ResetEdge :: "entity_schema \<Rightarrow> string \<Rightarrow> ('f, 'p) mutation \<Rightarrow> error + ('f, 'p) mutation" where
  "mutation_ResetEdge sch name m = (case edge_named sch name of
      None \<Rightarrow> Inl (EMsg (''unknown '' @ en_type sch @ '' edge '' @ name)) | Some e \<Rightarrow> Inr (reset_edge e m))"

section \<open>The typed methods\<close>

text \<open>
  The methods of one field, as the generator names them after it: \<open>AddX\<close> (\<open>AppendX\<close>) and \<open>AddedX\<close>
  exist for numbers (lists), \<open>ClearX\<close> and \<open>XCleared\<close> for nullable fields. The old value of a
  nillable field is a pointer.
\<close>

record ('v, 'f, 'p) field_methods =
  fm_Set :: "'v \<Rightarrow> ('f, 'p) mutation \<Rightarrow> ('f, 'p) mutation"
  fm_Get :: "('f, 'p) mutation \<Rightarrow> 'v option"
  fm_Old :: "('f, 'p) mutation \<Rightarrow> (error + 'v option) \<times> ('f, 'p) mutation"
  fm_Add :: "('v \<Rightarrow> ('f, 'p) mutation \<Rightarrow> ('f, 'p) mutation) option"
  fm_Added :: "(('f, 'p) mutation \<Rightarrow> 'v option) option"
  fm_Clear :: "(('f, 'p) mutation \<Rightarrow> ('f, 'p) mutation) option"
  fm_Cleared :: "(('f, 'p) mutation \<Rightarrow> bool) option"
  fm_Reset :: "('f, 'p) mutation \<Rightarrow> ('f, 'p) mutation"

definition when_method :: "bool \<Rightarrow> 'm \<Rightarrow> 'm option" where
  "when_method c m = (if c then Some m else None)"

definition field_methods ::
  "('v \<Rightarrow> 'f ent_value) \<Rightarrow> ('f ent_value \<Rightarrow> 'v) \<Rightarrow> field_schema \<Rightarrow> ('v, 'f :: plus, 'p) field_methods" where
  "field_methods mk un f = (let accumulates = fs_numeric f \<or> fs_appends f in \<lparr>
     fm_Set = (\<lambda>v. set_field f (mk v)),
     fm_Get = (\<lambda>m. map_option un (get_field f m)),
     fm_Old = (\<lambda>m. (case old_field f m of
         (Inl err, m') \<Rightarrow> (Inl err, m')
       | (Inr v, m') \<Rightarrow> (Inr (if v = VNil then None else Some (un v)), m'))),
     fm_Add = when_method accumulates (\<lambda>v. add_field f (mk v)),
     fm_Added = when_method accumulates (\<lambda>m. map_option un (added_field f m)),
     fm_Clear = when_method (fs_nullable f) (clear_field f),
     fm_Cleared = when_method (fs_nullable f) (field_cleared f),
     fm_Reset = reset_field f\<rparr>)"

text \<open>Reading a value back at the type of its field; the other cases give the zero value.\<close>

fun un_string :: "'f ent_value \<Rightarrow> string" where
  "un_string (VString s) = s"
| "un_string v = ''''"

fun un_bool :: "'f ent_value \<Rightarrow> bool" where
  "un_bool (VBool b) = b"
| "un_bool v = False"

fun un_int :: "'f ent_value \<Rightarrow> int" where
  "un_int (VInt i) = i"
| "un_int v = 0"

fun un_float :: "('f :: zero) ent_value \<Rightarrow> 'f" where
  "un_float (VFloat x) = x"
| "un_float v = 0"

fun un_time :: "'f ent_value \<Rightarrow> int" where
  "un_time (VTime t) = t"
| "un_time v = 0"

fun un_ints :: "'f ent_value \<Rightarrow> int list" where
  "un_ints (VInts is) = is"
| "un_ints v = []"

fun un_strings :: "'f ent_value \<Rightarrow> string list" where
  "un_strings (VStrings ss) = ss"
| "un_strings v = []"

definition field_of :: "entity_schema \<Rightarrow> string \<Rightarrow> field_schema" where
  "field_of sch name = the (field_named sch name)"

definition string_field :: "entity_schema \<Rightarrow> string \<Rightarrow> (string, 'f :: plus, 'p) field_methods" where
  "string_field sch name = field_methods VString un_string (field_of sch name)"

definition bool_field :: "entity_schema \<Rightarrow> string \<Rightarrow> (bool, 'f :: plus, 'p) field_methods" where
  "bool_field sch name = field_methods VBool un_bool (field_of sch name)"

definition int_field :: "entity_schema \<Rightarrow> string \<Rightarrow> (int, 'f :: plus, 'p) field_methods" where
  "int_field sch name = field_methods VInt un_int (field_of sch name)"

definition float_field :: "entity_schema \<Rightarrow> string \<Rightarrow> ('f, 'f :: {plus,zero}, 'p) field_methods" where
  "float_field sch name = field_methods VFloat un_float (field_of sch name)"

definition time_field :: "entity_schema \<Rightarrow> string \<Rightarrow> (int, 'f :: plus, 'p) field_methods" where
  "time_field sch name = field_methods VTime un_time (field_of sch name)"

definition ints_field :: "entity_schema \<Rightarrow> string \<Rightarrow> (int list, 'f :: plus, 'p) field_methods" where
  "ints_field sch name = field_methods VInts un_ints (field_of sch name)"

definition strings_field :: "entity_schema \<Rightarrow> string \<Rightarrow> (string list, 'f :: plus, 'p) field_methods" where
  "strings_field sch name = field_methods VStrings un_strings (field_of sch name)"

text \<open>The methods of a unique edge and of an edge to many.\<close>

record ('f, 'p) unique_edge_methods =
  ue_SetID :: "int \<Rightarrow> ('f, 'p) mutation \<Rightarrow> ('f, 'p) mutation"
  ue_Clear :: "('f, 'p) mutation \<Rightarrow> ('f, 'p) mutation"
  ue_Cleared :: "('f, 'p) mutation \<Rightarrow> bool"
  ue_ID :: "('f, 'p) mutation \<Rightarrow> int option"
  ue_IDs :: "('f, 'p) mutation \<Rightarrow> int set"
  ue_Reset :: "('f, 'p) mutation \<Rightarrow> ('f, 'p) mutation"

record ('f, 'p) many_edge_methods =
  me_AddIDs :: "int list \<Rightarrow> ('f, 'p) mutation \<Rightarrow> ('f, 'p) mutation"
  me_Clear :: "('f, 'p) mutation \<Rightarrow> ('f, 'p) mutation"
  me_Cleared :: "('f, 'p) mutation \<Rightarrow> bool"
  me_RemoveIDs :: "int list \<Rightarrow> ('f, 'p) mutation \<Rightarrow> ('f, 'p) mutation"
  me_RemovedIDs :: "('f, 'p) mutation \<Rightarrow> int set"
  me_IDs :: "('f, 'p) mutation \<Rightarrow> int set"
  me_Reset :: "('f, 'p) mutation \<Rightarrow> ('f, 'p) mutation"

definition edge_of :: "entity_schema \<Rightarrow> string \<Rightarrow> edge_schema" where
  "edge_of sch name = the (edge_named sch name)"

definition unique_edge :: "entity_schema \<Rightarrow> string \<Rightarrow> ('f, 'p) unique_edge_methods" where
  "unique_edge sch name = (let e = edge_of sch name in \<lparr>ue_SetID = set_edge e, ue_Clear = clear_edge e,
     ue_Cleared = edge_cleared e, ue_ID = (\<lambda>m. mu_edge m (es_name e)), ue_IDs = edge_ids e, ue_Reset = reset_edge e\<rparr>)"

definition many_edge :: "entity_schema \<Rightarrow> string \<Rightarrow> ('f, 'p) many_edge_methods" where
  "many_edge sch name = (let e = edge_of sch name in \<lparr>me_AddIDs = add_edges e, me_Clear = clear_edge e,
     me_Cleared = edge_cleared e, me_RemoveIDs = remove_edges e, me_RemovedIDs = removed_ids e, me_IDs = edge_ids e,
     me_Reset = reset_edge e\<rparr>)"

text \<open>Writing a schema down: numbers accumulate, lists can be appended to.\<close>

definition field_schema_of :: "bool \<Rightarrow> string \<Rightarrow> string \<Rightarrow> go_type \<Rightarrow> field_schema" where
  "field_schema_of null name go t = \<lparr>fs_name = name, fs_go = go, fs_type = t, fs_nullable = null,
     fs_numeric = (t = GoInt \<or> t = GoFloat), fs_appends = (t = GoInts \<or> t = GoStrings)\<rparr>"

definition plain :: "string \<Rightarrow> string \<Rightarrow> go_type \<Rightarrow> field_schema" where
  "plain = field_schema_of False"

definition nullable :: "string \<Rightarrow> string \<Rightarrow> go_type \<Rightarrow> field_schema" where
  "nullable = field_schema_of True"

definition one :: "string \<Rightarrow> edge_schema" where
  "one name = \<lparr>es_name = name, es_unique = True\<rparr>"

definition many :: "string \<Rightarrow> edge_schema" where
  "many name = \<lparr>es_name = name, es_unique = False\<rparr>"

text \<open>The hook of every schema: on creation it sets both time fields, on an update one of them.\<close>

definition time_hook :: "entity_schema \<Rightarrow> int \<Rightarrow> int \<Rightarrow> ('f, 'p) mutation \<Rightarrow> error + ('f, 'p) mutation" where
  "time_hook sch now1 now2 m =
     (if mu_op m = OpCreate then
        (case mutation_SetField sch ''created_at'' (VTime now1) m of
           Inl err \<Rightarrow> Inl err
         | Inr m1 \<Rightarrow> mutation_SetField sch ''updated_at'' (VTime now2) m1)
      else if mu_op m = OpUpdate \<or> mu_op m = OpUpdateOne then
        mutation_SetField sch ''updated_at'' (VTime now1) m
      else Inr m)"

section \<open>Well-typed mutations\<close>

definition fs_ok :: "field_schema \<Rightarrow> bool" where
  "fs_ok f = ((fs_numeric f \<longrightarrow> fs_type f \<in> {GoInt, GoFloat}) \<and> (fs_appends f \<longrightarrow> fs_type f \<in> {GoInts, GoStrings}))"

definition wf_schema :: "entity_schema \<Rightarrow> bool" where
  "wf_schema sch = (distinct (map fs_name (en_fields sch)) \<and> distinct (map es_name (en_edges sch)) \<and>
     list_all fs_ok (en_fields sch))"

definition has_field :: "entity_schema \<Rightarrow> (field_schema \<Rightarrow> bool) \<Rightarrow> string \<Rightarrow> bool" where
  "has_field sch p name = (\<exists>f\<in>set (en_fields sch). fs_name f = name \<and> p f)"

definition has_edge :: "entity_schema \<Rightarrow> (edge_schema \<Rightarrow> bool) \<Rightarrow> string \<Rightarrow> bool" where
  "has_edge sch p name = (\<exists>e\<in>set (en_edges sch). es_name e = name \<and> p e)"

text \<open>The two halves of the invariant: methods of edges leave the fields alone, and conversely.\<close>

definition fields_typed :: "entity_schema \<Rightarrow> ('f, 'p) mutation \<Rightarrow> bool" where
  "fields_typed sch m \<longleftrightarrow>
     (\<forall>name v. mu_values m name = Some v \<longrightarrow> has_field sch (\<lambda>f. type_of_value v = Some (fs_type f)) name) \<and>
     (\<forall>name v. mu_added m name = Some v \<longrightarrow>
        has_field sch (\<lambda>f. (fs_numeric f \<or> fs_appends f) \<and> type_of_value v = Some (fs_type f)) name) \<and>
     (\<forall>name\<in>mu_cleared m. has_field sch fs_nullable name)"

definition edges_typed :: "entity_schema \<Rightarrow> ('f, 'p) mutation \<Rightarrow> bool" where
  "edges_typed sch m \<longleftrightarrow>
     (\<forall>name\<in>dom (mu_edge m). has_edge sch es_unique name) \<and>
     (\<forall>name\<in>dom (mu_edges m) \<union> dom (mu_removed m). has_edge sch (\<lambda>e. \<not> es_unique e) name) \<and>
     (\<forall>name\<in>mu_cleared_edges m. has_edge sch (\<lambda>e. True) name)"

definition well_typed :: "entity_schema \<Rightarrow> ('f, 'p) mutation \<Rightarrow> bool" where
  "well_typed sch m = (fields_typed sch m \<and> edges_typed sch m)"

text \<open>
  What a caller of the package can do to a mutation: create it, give it an identifier or a node,
  call the methods of its fields and edges (whose arguments the compiler checks), or name a field
  or an edge at run time.
\<close>

inductive built :: "entity_schema \<Rightarrow> ('f :: plus, 'p) mutation \<Rightarrow> bool" for sch where
  created: "built sch (new_mutation sch op)"
| given_id: "built sch m \<Longrightarrow> built sch (with_id query i m)"
| given_node: "built sch m \<Longrightarrow> built sch (with_node node i m)"
| identified: "built sch m \<Longrightarrow> built sch (SetID i m)"
| restricted: "built sch m \<Longrightarrow> built sch (mutation_Where ps m)"
| executed: "built sch m \<Longrightarrow> built sch (m\<lparr>mu_done := True\<rparr>)"
| old_queried: "built sch m \<Longrightarrow> f \<in> set (en_fields sch) \<Longrightarrow> built sch (snd (old_field f m))"
| field_set: "built sch m \<Longrightarrow> f \<in> set (en_fields sch) \<Longrightarrow> type_of_value v = Some (fs_type f) \<Longrightarrow> built sch (set_field f v m)"
| field_added: "built sch m \<Longrightarrow> f \<in> set (en_fields sch) \<Longrightarrow> fs_numeric f \<or> fs_appends f \<Longrightarrow>
    type_of_value v = Some (fs_type f) \<Longrightarrow> built sch (add_field f v m)"
| cleared_field: "built sch m \<Longrightarrow> f \<in> set (en_fields sch) \<Longrightarrow> fs_nullable f \<Longrightarrow> built sch (clear_field f m)"
| field_reset: "built sch m \<Longrightarrow> f \<in> set (en_fields sch) \<Longrightarrow> built sch (reset_field f m)"
| named_set: "built sch m \<Longrightarrow> mutation_SetField sch name v m = Inr m' \<Longrightarrow> built sch m'"
| named_added: "built sch m \<Longrightarrow> mutation_AddField sch name v m = Inr m' \<Longrightarrow> built sch m'"
| named_cleared: "built sch m \<Longrightarrow> mutation_ClearField sch name m = Inr m' \<Longrightarrow> built sch m'"
| named_reset: "built sch m \<Longrightarrow> mutation_ResetField sch name m = Inr m' \<Longrightarrow> built sch m'"
| edge_set: "built sch m \<Longrightarrow> e \<in> set (en_edges sch) \<Longrightarrow> es_unique e \<Longrightarrow> built sch (set_edge e i m)"
| edges_added: "built sch m \<Longrightarrow> e \<in> set (en_edges sch) \<Longrightarrow> \<not> es_unique e \<Longrightarrow> built sch (add_edges e ids m)"
| edges_removed: "built sch m \<Longrightarrow> e \<in> set (en_edges sch) \<Longrightarrow> \<not> es_unique e \<Longrightarrow> built sch (remove_edges e ids m)"
| cleared_edge: "built sch m \<Longrightarrow> e \<in> set (en_edges sch) \<Longrightarrow> built sch (clear_edge e m)"
| edge_reset: "built sch m \<Longrightarrow> e \<in> set (en_edges sch) \<Longrightarrow> built sch (reset_edge e m)"
| named_edge_cleared: "built sch m \<Longrightarrow> mutation_ClearEdge sch name m = Inr m' \<Longrightarrow> built sch m'"
| named_edge_reset: "built sch m \<Longrightarrow> mutation_ResetEdge sch name m = Inr m' \<Longrightarrow> built sch m'"

lemma field_namedD: "field_named sch name = Some f \<Longrightarrow> f \<in> set (en_fields sch) \<and> fs_name f = name"
  by (auto simp: field_named_def find_Some_iff)

lemma edge_namedD: "edge_named sch name = Some e \<Longrightarrow> e \<in> set (en_edges sch) \<and> es_name e = name"
  by (auto simp: edge_named_def find_Some_iff)

lemma type_of_add_values:
  "type_of_value v = Some t \<Longrightarrow> type_of_value w = Some t \<Longrightarrow> type_of_value (add_values v w) = Some t"
  by (cases "(v, w)" rule: add_values.cases) auto

lemma add_field_edges [simp]: "edges_typed sch (add_field f v m) = edges_typed sch m"
  by (simp add: edges_typed_def add_field_def)

lemma field_methods_edges [simp]:
  "edges_typed sch (set_field f v m) = edges_typed sch m"
  "edges_typed sch (clear_field f m) = edges_typed sch m" "edges_typed sch (reset_field f m) = edges_typed sch m"
  by (simp_all add: edges_typed_def set_field_def clear_field_def reset_field_def)

lemma has_fieldI: "f \<in> set (en_fields sch) \<Longrightarrow> p f \<Longrightarrow> has_field sch p (fs_name f)"
  by (auto simp: has_field_def)

lemma fields_typed_set: "fields_typed sch m \<Longrightarrow> f \<in> set (en_fields sch) \<Longrightarrow> type_of_value v = Some (fs_type f) \<Longrightarrow>
    fields_typed sch (set_field f v m)"
  by (simp add: fields_typed_def set_field_def has_fieldI)

lemma fields_typed_clear:
  "fields_typed sch m \<Longrightarrow> f \<in> set (en_fields sch) \<Longrightarrow> fs_nullable f \<Longrightarrow> fields_typed sch (clear_field f m)"
  by (simp add: fields_typed_def clear_field_def has_fieldI)

lemma fields_typed_reset: "fields_typed sch m \<Longrightarrow> fields_typed sch (reset_field f m)"
  by (simp add: fields_typed_def reset_field_def)

lemma well_typed_set: "well_typed sch m \<Longrightarrow> f \<in> set (en_fields sch) \<Longrightarrow> type_of_value v = Some (fs_type f) \<Longrightarrow>
    well_typed sch (set_field f v m)"
  by (simp add: well_typed_def fields_typed_set)

lemma well_typed_clear: "well_typed sch m \<Longrightarrow> f \<in> set (en_fields sch) \<Longrightarrow> fs_nullable f \<Longrightarrow> well_typed sch (clear_field f m)"
  by (simp add: well_typed_def fields_typed_clear)

lemma well_typed_reset: "well_typed sch m \<Longrightarrow> well_typed sch (reset_field f m)"
  by (simp add: well_typed_def fields_typed_reset)

lemma same_field:
  assumes "wf_schema sch" "f \<in> set (en_fields sch)" "g \<in> set (en_fields sch)" "fs_name g = fs_name f" shows "g = f"
proof -
  have "inj_on fs_name (set (en_fields sch))" using assms(1) by (simp add: wf_schema_def distinct_map)
  then show ?thesis using assms(2-4) by (simp only: inj_on_eq_iff)
qed

lemma has_own_field:
  assumes "wf_schema sch" "f \<in> set (en_fields sch)" shows "has_field sch p (fs_name f) \<longleftrightarrow> p f"
proof
  assume "has_field sch p (fs_name f)"
  then obtain g where "g \<in> set (en_fields sch)" "fs_name g = fs_name f" "p g" unfolding has_field_def by blast
  then show "p f" using same_field[OF assms] by metis
qed (use assms in \<open>simp add: has_fieldI\<close>)

lemma well_typed_add:
  assumes "well_typed sch m" "wf_schema sch" "f \<in> set (en_fields sch)" "fs_numeric f \<or> fs_appends f"
    "type_of_value v = Some (fs_type f)"
  shows "well_typed sch (add_field f v m)"
proof -
  have old: "type_of_value w = Some (fs_type f)" if "mu_added m (fs_name f) = Some w" for w
  proof -
    have "has_field sch (\<lambda>f. (fs_numeric f \<or> fs_appends f) \<and> type_of_value w = Some (fs_type f)) (fs_name f)"
      using assms(1) that by (simp add: well_typed_def fields_typed_def)
    then show ?thesis using has_own_field[OF assms(2,3)] by simp
  qed
  obtain v' where v': "mu_added (add_field f v m) = (mu_added m)(fs_name f \<mapsto> v')" "type_of_value v' = Some (fs_type f)"
    using assms(5) old by (cases "mu_added m (fs_name f)") (auto simp: add_field_def type_of_add_values)
  have "fields_typed sch (m\<lparr>mu_added := (mu_added m)(fs_name f \<mapsto> v')\<rparr>)"
    using assms v'(2) by (simp add: well_typed_def fields_typed_def has_own_field)
  moreover have "add_field f v m = m\<lparr>mu_added := (mu_added m)(fs_name f \<mapsto> v')\<rparr>"
    using v'(1) by (simp add: add_field_def)
  ultimately show ?thesis using assms(1) by (simp add: well_typed_def edges_typed_def)
qed

lemma old_field_leaves: "snd (old_field f m) = m\<lparr>mu_old := mu_old (snd (old_field f m))\<rparr>"
proof -
  have "snd (old_value m) = m\<lparr>mu_old := mu_old (snd (old_value m))\<rparr>"
    by (cases m) (simp add: old_value_def Let_def split: old_source.split option.split)
  moreover have "snd (old_field f m) = m \<or> snd (old_field f m) = snd (old_value m)"
    by (cases "old_value m") (simp add: old_field_def split: sum.split)
  ultimately show ?thesis by (metis mutation.surjective mutation.update_convs(12))
qed

lemma well_typed_old [simp]: "well_typed sch (snd (old_field f m)) = well_typed sch m"
  by (subst old_field_leaves) (simp add: well_typed_def fields_typed_def edges_typed_def)

lemma edge_methods_fields [simp]:
  "fields_typed sch (set_edge e i m) = fields_typed sch m" "fields_typed sch (add_edges e ids m) = fields_typed sch m"
  "fields_typed sch (remove_edges e ids m) = fields_typed sch m" "fields_typed sch (clear_edge e m) = fields_typed sch m"
  "fields_typed sch (reset_edge e m) = fields_typed sch m"
  by (simp_all add: fields_typed_def set_edge_def add_edges_def remove_edges_def clear_edge_def reset_edge_def Let_def)

lemma has_own_edge: "e \<in> set (en_edges sch) \<Longrightarrow> p e \<Longrightarrow> has_edge sch p (es_name e)"
  by (auto simp: has_edge_def)

lemma well_typed_set_edge:
  "well_typed sch m \<Longrightarrow> e \<in> set (en_edges sch) \<Longrightarrow> es_unique e \<Longrightarrow> well_typed sch (set_edge e i m)"
  by (auto simp: well_typed_def edges_typed_def set_edge_def fields_typed_def has_own_edge)

lemma well_typed_add_edges:
  "well_typed sch m \<Longrightarrow> e \<in> set (en_edges sch) \<Longrightarrow> \<not> es_unique e \<Longrightarrow> well_typed sch (add_edges e ids m)"
  by (simp add: well_typed_def) (simp add: edges_typed_def add_edges_def has_own_edge)

lemma well_typed_remove_edges:
  assumes "well_typed sch m" "e \<in> set (en_edges sch)" "\<not> es_unique e" shows "well_typed sch (remove_edges e ids m)"
proof -
  have "dom (mu_edges (remove_edges e ids m)) = dom (mu_edges m)"
    by (auto simp: remove_edges_def dom_def)
  then show ?thesis using assms has_own_edge[of e sch "\<lambda>e. \<not> es_unique e"]
    by (simp add: well_typed_def edges_typed_def) (simp add: remove_edges_def)
qed

lemma well_typed_clear_edge: "well_typed sch m \<Longrightarrow> e \<in> set (en_edges sch) \<Longrightarrow> well_typed sch (clear_edge e m)"
  by (simp add: well_typed_def) (simp add: edges_typed_def clear_edge_def has_own_edge)

lemma well_typed_reset_edge: "well_typed sch m \<Longrightarrow> well_typed sch (reset_edge e m)"
  by (simp add: well_typed_def) (auto simp: edges_typed_def reset_edge_def Let_def)

lemmas well_typed_edges = well_typed_set_edge well_typed_add_edges well_typed_remove_edges well_typed_clear_edge
  well_typed_reset_edge

lemmas well_typed_methods = well_typed_set well_typed_clear well_typed_reset well_typed_add well_typed_edges

text \<open>The methods by name are the methods of the named field or edge.\<close>

lemma named_fields:
  "mutation_SetField sch name v m = Inr m' \<longleftrightarrow>
     (\<exists>f. field_named sch name = Some f \<and> type_of_value v = Some (fs_type f) \<and> m' = set_field f v m)"
  "mutation_ClearField sch name m = Inr m' \<longleftrightarrow> (\<exists>f. field_named sch name = Some f \<and> fs_nullable f \<and> m' = clear_field f m)"
  "mutation_ResetField sch name m = Inr m' \<longleftrightarrow> (\<exists>f. field_named sch name = Some f \<and> m' = reset_field f m)"
  by (auto simp: mutation_SetField_def mutation_ClearField_def mutation_ResetField_def Let_def split: option.splits if_splits)

lemma named_add:
  "mutation_AddField sch name v m = Inr m' \<longleftrightarrow>
     (\<exists>f. field_named sch name = Some f \<and> fs_numeric f \<and> type_of_value v = Some (fs_type f) \<and> m' = add_field f v m)"
  by (auto simp: mutation_AddField_def Let_def split: option.splits if_splits)

lemma named_edges:
  "mutation_ClearEdge sch name m = Inr m' \<longleftrightarrow> (\<exists>e. edge_named sch name = Some e \<and> es_unique e \<and> m' = clear_edge e m)"
  "mutation_ResetEdge sch name m = Inr m' \<longleftrightarrow> (\<exists>e. edge_named sch name = Some e \<and> m' = reset_edge e m)"
  by (auto simp: mutation_ClearEdge_def mutation_ResetEdge_def Let_def split: option.splits if_splits)

lemma built_well_typed:
  assumes "built sch m" "wf_schema sch" shows "well_typed sch m"
  using assms
proof (induction rule: built.induct)
  case (created op)
  then show ?case by (simp add: well_typed_def fields_typed_def edges_typed_def new_mutation_def)
next
  case (given_id m query i)
  then show ?case by (simp add: well_typed_def fields_typed_def edges_typed_def with_id_def)
next
  case (given_node m node i)
  then show ?case by (simp add: well_typed_def fields_typed_def edges_typed_def with_node_def)
next
  case (identified m i)
  then show ?case by (simp add: well_typed_def fields_typed_def edges_typed_def SetID_def)
next
  case (restricted m ps)
  then show ?case by (simp add: well_typed_def fields_typed_def edges_typed_def mutation_Where_def)
next
  case (executed m)
  then show ?case by (simp add: well_typed_def fields_typed_def edges_typed_def)
qed (auto simp: named_fields named_add named_edges dest!: field_namedD edge_namedD intro: well_typed_methods)

end
