(* ===== verification/Ent_Accounts.thy ===== *)
theory Ent_Accounts imports Ent_Mutation begin

text \<open>
  The mutations of the users, their details, settings and devices, the entrepreneur details and the
  locations (models/ent/mutation.go), instances of theory Ent_Mutation, and the hooks of their
  schemas (models/ent/schema), which set the time fields by name.
\<close>

section \<open>User\<close>

definition User_schema :: entity_schema where
  "User_schema = \<lparr>en_type = ''User'',
    en_fields = [
      plain ''mail'' ''Mail'' GoString, nullable ''phone'' ''Phone'' GoString,
      plain ''password'' ''Password'' GoString, plain ''active'' ''Active'' GoBool,
      plain ''verified'' ''Verified'' GoBool, plain ''blacklisted'' ''Blacklisted'' GoBool,
      plain ''removed'' ''Removed'' GoBool, plain ''created_at'' ''CreatedAt'' GoTime,
      plain ''updated_at'' ''UpdatedAt'' GoTime, plain ''subscription_ids'' ''SubscriptionIds'' GoInts,
      plain ''team_ids'' ''TeamIds'' GoInts, plain ''organization_ids'' ''OrganizationIds'' GoInts],
    en_edges = [
      one ''user_details'', one ''user_settings'', one ''activation_code'', one ''verification_code'',
      one ''second_factor_code'', one ''reset_code'', many ''user_devices'', many ''user_actions'',
      many ''user_roles'', many ''blacklisted_tokens'']\<rparr>"

definition newUserMutation :: "mutation_op \<Rightarrow> ('f, 'p) mutation" where
  "newUserMutation = new_mutation User_schema"

definition withUserID :: "error + 'f ent_row \<Rightarrow> int \<Rightarrow> ('f, 'p) mutation \<Rightarrow> ('f, 'p) mutation" where
  "withUserID = with_id"

definition withUser :: "'f ent_row \<Rightarrow> int \<Rightarrow> ('f, 'p) mutation \<Rightarrow> ('f, 'p) mutation" where
  "withUser = with_node"

definition UserMutation_IDs :: "('p list \<Rightarrow> error + int list) \<Rightarrow> (mutation_op \<Rightarrow> string) \<Rightarrow> ('f, 'p) mutation \<Rightarrow> error + int list" where
  "UserMutation_IDs = mutation_IDs"

definition UserMutation_Mail :: "(string, 'f :: plus, 'p) field_methods" where
  "UserMutation_Mail = string_field User_schema ''mail''"

definition UserMutation_Phone :: "(string, 'f :: plus, 'p) field_methods" where
  "UserMutation_Phone = string_field User_schema ''phone''"

definition UserMutation_Password :: "(string, 'f :: plus, 'p) field_methods" where
  "UserMutation_Password = string_field User_schema ''password''"

definition UserMutation_Active :: "(bool, 'f :: plus, 'p) field_methods" where
  "UserMutation_Active = bool_field User_schema ''active''"

definition UserMutation_Verified :: "(bool, 'f :: plus, 'p) field_methods" where
  "UserMutation_Verified = bool_field User_schema ''verified''"

definition UserMutation_Blacklisted :: "(bool, 'f :: plus, 'p) field_methods" where
  "UserMutation_Blacklisted = bool_field User_schema ''blacklisted''"

definition UserMutation_Removed :: "(bool, 'f :: plus, 'p) field_methods" where
  "UserMutation_Removed = bool_field User_schema ''removed''"

definition UserMutation_CreatedAt :: "(int, 'f :: plus, 'p) field_methods" where
  "UserMutation_CreatedAt = time_field User_schema ''created_at''"

definition UserMutation_UpdatedAt :: "(int, 'f :: plus, 'p) field_methods" where
  "UserMutation_UpdatedAt = time_field User_schema ''updated_at''"

definition UserMutation_SubscriptionIds :: "(int list, 'f :: plus, 'p) field_methods" where
  "UserMutation_SubscriptionIds = ints_field User_schema ''subscription_ids''"

definition UserMutation_TeamIds :: "(int list, 'f :: plus, 'p) field_methods" where
  "UserMutation_TeamIds = ints_field User_schema ''team_ids''"

definition UserMutation_OrganizationIds :: "(int list, 'f :: plus, 'p) field_methods" where
  "UserMutation_OrganizationIds = ints_field User_schema ''organization_ids''"

definition UserMutation_UserDetails :: "('f, 'p) unique_edge_methods" where
  "UserMutation_UserDetails = unique_edge User_schema ''user_details''"

definition UserMutation_UserSettings :: "('f, 'p) unique_edge_methods" where
  "UserMutation_UserSettings = unique_edge User_schema ''user_settings''"

definition UserMutation_ActivationCode :: "('f, 'p) unique_edge_methods" where
  "UserMutation_ActivationCode = unique_edge User_schema ''activation_code''"

definition UserMutation_VerificationCode :: "('f, 'p) unique_edge_methods" where
  "UserMutation_VerificationCode = unique_edge User_schema ''verification_code''"

definition UserMutation_SecondFactorCode :: "('f, 'p) unique_edge_methods" where
  "UserMutation_SecondFactorCode = unique_edge User_schema ''second_factor_code''"

definition UserMutation_ResetCode :: "('f, 'p) unique_edge_methods" where
  "UserMutation_ResetCode = unique_edge User_schema ''reset_code''"

definition UserMutation_UserDevices :: "('f, 'p) many_edge_methods" where
  "UserMutation_UserDevices = many_edge User_schema ''user_devices''"

definition UserMutation_UserActions :: "('f, 'p) many_edge_methods" where
  "UserMutation_UserActions = many_edge User_schema ''user_actions''"

definition UserMutation_UserRoles :: "('f, 'p) many_edge_methods" where
  "UserMutation_UserRoles = many_edge User_schema ''user_roles''"

definition UserMutation_BlacklistedTokens :: "('f, 'p) many_edge_methods" where
  "UserMutation_BlacklistedTokens = many_edge User_schema ''blacklisted_tokens''"

definition UserMutation_Fields ::
  "('f, 'p) mutation \<Rightarrow> string list" where
  "UserMutation_Fields = mutation_Fields User_schema"

definition UserMutation_Field ::
  "string \<Rightarrow> ('f, 'p) mutation \<Rightarrow> 'f ent_value option" where
  "UserMutation_Field = mutation_Field User_schema"

definition UserMutation_OldField ::
  "string \<Rightarrow> ('f, 'p) mutation \<Rightarrow> (error + 'f ent_value) \<times> ('f, 'p) mutation" where
  "UserMutation_OldField = mutation_OldField User_schema"

definition UserMutation_SetField ::
  "string \<Rightarrow> 'f ent_value \<Rightarrow> ('f, 'p) mutation \<Rightarrow> error + ('f, 'p) mutation" where
  "UserMutation_SetField = mutation_SetField User_schema"

definition UserMutation_AddedFields ::
  "('f, 'p) mutation \<Rightarrow> string list" where
  "UserMutation_AddedFields = mutation_AddedFields User_schema"

definition UserMutation_AddedField ::
  "string \<Rightarrow> ('f, 'p) mutation \<Rightarrow> 'f ent_value option" where
  "UserMutation_AddedField = mutation_AddedField User_schema"

definition UserMutation_AddField ::
  "string \<Rightarrow> 'f ent_value \<Rightarrow> ('f :: plus, 'p) mutation \<Rightarrow> error + ('f, 'p) mutation" where
  "UserMutation_AddField = mutation_AddField User_schema"

definition UserMutation_ClearedFields ::
  "('f, 'p) mutation \<Rightarrow> string list" where
  "UserMutation_ClearedFields = mutation_ClearedFields User_schema"

definition UserMutation_FieldCleared ::
  "string \<Rightarrow> ('f, 'p) mutation \<Rightarrow> bool" where
  "UserMutation_FieldCleared = mutation_FieldCleared User_schema"

definition UserMutation_ClearField ::
  "string \<Rightarrow> ('f, 'p) mutation \<Rightarrow> error + ('f, 'p) mutation" where
  "UserMutation_ClearField = mutation_ClearField User_schema"

definition UserMutation_ResetField ::
  "string \<Rightarrow> ('f, 'p) mutation \<Rightarrow> error + ('f, 'p) mutation" where
  "UserMutation_ResetField = mutation_ResetField User_schema"

definition UserMutation_AddedEdges ::
  "('f, 'p) mutation \<Rightarrow> string list" where
  "UserMutation_AddedEdges = mutation_AddedEdges User_schema"

definition UserMutation_AddedIDs ::
  "string \<Rightarrow> ('f, 'p) mutation \<Rightarrow> int set" where
  "UserMutation_AddedIDs = mutation_AddedIDs User_schema"

definition UserMutation_RemovedEdges ::
  "('f, 'p) mutation \<Rightarrow> string list" where
  "UserMutation_RemovedEdges = mutation_RemovedEdges User_schema"

definition UserMutation_RemovedIDs ::
  "string \<Rightarrow> ('f, 'p) mutation \<Rightarrow> int set" where
  "UserMutation_RemovedIDs = mutation_RemovedIDs User_schema"

definition UserMutation_ClearedEdges ::
  "('f, 'p) mutation \<Rightarrow> string list" where
  "UserMutation_ClearedEdges = mutation_ClearedEdges User_schema"

definition UserMutation_EdgeCleared ::
  "string \<Rightarrow> ('f, 'p) mutation \<Rightarrow> bool" where
  "UserMutation_EdgeCleared = mutation_EdgeCleared User_schema"

definition UserMutation_ClearEdge ::
  "string \<Rightarrow> ('f, 'p) mutation \<Rightarrow> error + ('f, 'p) mutation" where
  "UserMutation_ClearEdge = mutation_ClearEdge User_schema"

definition UserMutation_ResetEdge ::
  "string \<Rightarrow> ('f, 'p) mutation \<Rightarrow> error + ('f, 'p) mutation" where
  "UserMutation_ResetEdge = mutation_ResetEdge User_schema"

definition User_Hooks :: "int \<Rightarrow> int \<Rightarrow> ('f, 'p) mutation \<Rightarrow> error + ('f, 'p) mutation" where
  "User_Hooks = time_hook User_schema"

section \<open>User details\<close>

definition UserDetails_schema :: entity_schema where
  "UserDetails_schema = \<lparr>en_type = ''UserDetails'',
    en_fields = [
      plain ''name'' ''Name'' GoString, nullable ''first_name'' ''FirstName'' GoString,
      nullable ''last_name'' ''LastName'' GoString, plain ''created_at'' ''CreatedAt'' GoTime,
      plain ''updated_at'' ''UpdatedAt'' GoTime],
    en_edges = [
      one ''owner'', many ''locations'', one ''entrepreneur_details'']\<rparr>"

definition newUserDetailsMutation :: "mutation_op \<Rightarrow> ('f, 'p) mutation" where
  "newUserDetailsMutation = new_mutation UserDetails_schema"

definition withUserDetailsID :: "error + 'f ent_row \<Rightarrow> int \<Rightarrow> ('f, 'p) mutation \<Rightarrow> ('f, 'p) mutation" where
  "withUserDetailsID = with_id"

definition withUserDetails :: "'f ent_row \<Rightarrow> int \<Rightarrow> ('f, 'p) mutation \<Rightarrow> ('f, 'p) mutation" where
  "withUserDetails = with_node"

definition UserDetailsMutation_IDs :: "('p list \<Rightarrow> error + int list) \<Rightarrow> (mutation_op \<Rightarrow> string) \<Rightarrow> ('f, 'p) mutation \<Rightarrow> error + int list" where
  "UserDetailsMutation_IDs = mutation_IDs"

definition UserDetailsMutation_Name :: "(string, 'f :: plus, 'p) field_methods" where
  "UserDetailsMutation_Name = string_field UserDetails_schema ''name''"

definition UserDetailsMutation_FirstName :: "(string, 'f :: plus, 'p) field_methods" where
  "UserDetailsMutation_FirstName = string_field UserDetails_schema ''first_name''"

definition UserDetailsMutation_LastName :: "(string, 'f :: plus, 'p) field_methods" where
  "UserDetailsMutation_LastName = string_field UserDetails_schema ''last_name''"

definition UserDetailsMutation_CreatedAt :: "(int, 'f :: plus, 'p) field_methods" where
  "UserDetailsMutation_CreatedAt = time_field UserDetails_schema ''created_at''"

definition UserDetailsMutation_UpdatedAt :: "(int, 'f :: plus, 'p) field_methods" where
  "UserDetailsMutation_UpdatedAt = time_field UserDetails_schema ''updated_at''"

definition UserDetailsMutation_Owner :: "('f, 'p) unique_edge_methods" where
  "UserDetailsMutation_Owner = unique_edge UserDetails_schema ''owner''"

definition UserDetailsMutation_Locations :: "('f, 'p) many_edge_methods" where
  "UserDetailsMutation_Locations = many_edge UserDetails_schema ''locations''"

definition UserDetailsMutation_EntrepreneurDetails :: "('f, 'p) unique_edge_methods" where
  "UserDetailsMutation_EntrepreneurDetails = unique_edge UserDetails_schema ''entrepreneur_details''"

definition UserDetailsMutation_Fields ::
  "('f, 'p) mutation \<Rightarrow> string list" where
  "UserDetailsMutation_Fields = mutation_Fields UserDetails_schema"

definition UserDetailsMutation_Field ::
  "string \<Rightarrow> ('f, 'p) mutation \<Rightarrow> 'f ent_value option" where
  "UserDetailsMutation_Field = mutation_Field UserDetails_schema"

definition UserDetailsMutation_OldField ::
  "string \<Rightarrow> ('f, 'p) mutation \<Rightarrow> (error + 'f ent_value) \<times> ('f, 'p) mutation" where
  "UserDetailsMutation_OldField = mutation_OldField UserDetails_schema"

definition UserDetailsMutation_SetField ::
  "string \<Rightarrow> 'f ent_value \<Rightarrow> ('f, 'p) mutation \<Rightarrow> error + ('f, 'p) mutation" where
  "UserDetailsMutation_SetField = mutation_SetField UserDetails_schema"

definition UserDetailsMutation_AddedFields ::
  "('f, 'p) mutation \<Rightarrow> string list" where
  "UserDetailsMutation_AddedFields = mutation_AddedFields UserDetails_schema"

definition UserDetailsMutation_AddedField ::
  "string \<Rightarrow> ('f, 'p) mutation \<Rightarrow> 'f ent_value option" where
  "UserDetailsMutation_AddedField = mutation_AddedField UserDetails_schema"

definition UserDetailsMutation_AddField ::
  "string \<Rightarrow> 'f ent_value \<Rightarrow> ('f :: plus, 'p) mutation \<Rightarrow> error + ('f, 'p) mutation" where
  "UserDetailsMutation_AddField = mutation_AddField UserDetails_schema"

definition UserDetailsMutation_ClearedFields ::
  "('f, 'p) mutation \<Rightarrow> string list" where
  "UserDetailsMutation_ClearedFields = mutation_ClearedFields UserDetails_schema"

definition UserDetailsMutation_FieldCleared ::
  "string \<Rightarrow> ('f, 'p) mutation \<Rightarrow> bool" where
  "UserDetailsMutation_FieldCleared = mutation_FieldCleared UserDetails_schema"

definition UserDetailsMutation_ClearField ::
  "string \<Rightarrow> ('f, 'p) mutation \<Rightarrow> error + ('f, 'p) mutation" where
  "UserDetailsMutation_ClearField = mutation_ClearField UserDetails_schema"

definition UserDetailsMutation_ResetField ::
  "string \<Rightarrow> ('f, 'p) mutation \<Rightarrow> error + ('f, 'p) mutation" where
  "UserDetailsMutation_ResetField = mutation_ResetField UserDetails_schema"

definition UserDetailsMutation_AddedEdges ::
  "('f, 'p) mutation \<Rightarrow> string list" where
  "UserDetailsMutation_AddedEdges = mutation_AddedEdges UserDetails_schema"

definition UserDetailsMutation_AddedIDs ::
  "string \<Rightarrow> ('f, 'p) mutation \<Rightarrow> int set" where
  "UserDetailsMutation_AddedIDs = mutation_AddedIDs UserDetails_schema"

definition UserDetailsMutation_RemovedEdges ::
  "('f, 'p) mutation \<Rightarrow> string list" where
  "UserDetailsMutation_RemovedEdges = mutation_RemovedEdges UserDetails_schema"

definition UserDetailsMutation_RemovedIDs ::
  "string \<Rightarrow> ('f, 'p) mutation \<Rightarrow> int set" where
  "UserDetailsMutation_RemovedIDs = mutation_RemovedIDs UserDetails_schema"

definition UserDetailsMutation_ClearedEdges ::
  "('f, 'p) mutation \<Rightarrow> string list" where
  "UserDetailsMutation_ClearedEdges = mutation_ClearedEdges UserDetails_schema"

definition UserDetailsMutation_EdgeCleared ::
  "string \<Rightarrow> ('f, 'p) mutation \<Rightarrow> bool" where
  "UserDetailsMutation_EdgeCleared = mutation_EdgeCleared UserDetails_schema"

definition UserDetailsMutation_ClearEdge ::
  "string \<Rightarrow> ('f, 'p) mutation \<Rightarrow> error + ('f, 'p) mutation" where
  "UserDetailsMutation_ClearEdge = mutation_ClearEdge UserDetails_schema"

definition UserDetailsMutation_ResetEdge ::
  "string \<Rightarrow> ('f, 'p) mutation \<Rightarrow> error + ('f, 'p) mutation" where
  "UserDetailsMutation_ResetEdge = mutation_ResetEdge UserDetails_schema"

definition UserDetails_Hooks :: "int \<Rightarrow> int \<Rightarrow> ('f, 'p) mutation \<Rightarrow> error + ('f, 'p) mutation" where
  "UserDetails_Hooks = time_hook UserDetails_schema"

section \<open>User settings\<close>

definition UserSettings_schema :: entity_schema where
  "UserSettings_schema = \<lparr>en_type = ''UserSettings'',
    en_fields = [
      plain ''uuid'' ''UUID'' GoString, plain ''two_factor'' ''TwoFactor'' GoBool,
      plain ''night_mode'' ''NightMode'' GoBool, plain ''created_at'' ''CreatedAt'' GoTime,
      plain ''updated_at'' ''UpdatedAt'' GoTime],
    en_edges = [
      one ''owner'', one ''second_factor_target'', many ''notification_target_devices'']\<rparr>"

definition newUserSettingsMutation :: "mutation_op \<Rightarrow> ('f, 'p) mutation" where
  "newUserSettingsMutation = new_mutation UserSettings_schema"

definition withUserSettingsID :: "error + 'f ent_row \<Rightarrow> int \<Rightarrow> ('f, 'p) mutation \<Rightarrow> ('f, 'p) mutation" where
  "withUserSettingsID = with_id"

definition withUserSettings :: "'f ent_row \<Rightarrow> int \<Rightarrow> ('f, 'p) mutation \<Rightarrow> ('f, 'p) mutation" where
  "withUserSettings = with_node"

definition UserSettingsMutation_IDs :: "('p list \<Rightarrow> error + int list) \<Rightarrow> (mutation_op \<Rightarrow> string) \<Rightarrow> ('f, 'p) mutation \<Rightarrow> error + int list" where
  "UserSettingsMutation_IDs = mutation_IDs"

definition UserSettingsMutation_UUID :: "(string, 'f :: plus, 'p) field_methods" where
  "UserSettingsMutation_UUID = string_field UserSettings_schema ''uuid''"

definition UserSettingsMutation_TwoFactor :: "(bool, 'f :: plus, 'p) field_methods" where
  "UserSettingsMutation_TwoFactor = bool_field UserSettings_schema ''two_factor''"

definition UserSettingsMutation_NightMode :: "(bool, 'f :: plus, 'p) field_methods" where
  "UserSettingsMutation_NightMode = bool_field UserSettings_schema ''night_mode''"

definition UserSettingsMutation_CreatedAt :: "(int, 'f :: plus, 'p) field_methods" where
  "UserSettingsMutation_CreatedAt = time_field UserSettings_schema ''created_at''"

definition UserSettingsMutation_UpdatedAt :: "(int, 'f :: plus, 'p) field_methods" where
  "UserSettingsMutation_UpdatedAt = time_field UserSettings_schema ''updated_at''"

definition UserSettingsMutation_Owner :: "('f, 'p) unique_edge_methods" where
  "UserSettingsMutation_Owner = unique_edge UserSettings_schema ''owner''"

definition UserSettingsMutation_SecondFactorTarget :: "('f, 'p) unique_edge_methods" where
  "UserSettingsMutation_SecondFactorTarget = unique_edge UserSettings_schema ''second_factor_target''"

definition UserSettingsMutation_NotificationTargetDevices :: "('f, 'p) many_edge_methods" where
  "UserSettingsMutation_NotificationTargetDevices = many_edge UserSettings_schema ''notification_target_devices''"

definition UserSettingsMutation_Fields ::
  "('f, 'p) mutation \<Rightarrow> string list" where
  "UserSettingsMutation_Fields = mutation_Fields UserSettings_schema"

definition UserSettingsMutation_Field ::
  "string \<Rightarrow> ('f, 'p) mutation \<Rightarrow> 'f ent_value option" where
  "UserSettingsMutation_Field = mutation_Field UserSettings_schema"

definition UserSettingsMutation_OldField ::
  "string \<Rightarrow> ('f, 'p) mutation \<Rightarrow> (error + 'f ent_value) \<times> ('f, 'p) mutation" where
  "UserSettingsMutation_OldField = mutation_OldField UserSettings_schema"

definition UserSettingsMutation_SetField ::
  "string \<Rightarrow> 'f ent_value \<Rightarrow> ('f, 'p) mutation \<Rightarrow> error + ('f, 'p) mutation" where
  "UserSettingsMutation_SetField = mutation_SetField UserSettings_schema"

definition UserSettingsMutation_AddedFields ::
  "('f, 'p) mutation \<Rightarrow> string list" where
  "UserSettingsMutation_AddedFields = mutation_AddedFields UserSettings_schema"

definition UserSettingsMutation_AddedField ::
  "string \<Rightarrow> ('f, 'p) mutation \<Rightarrow> 'f ent_value option" where
  "UserSettingsMutation_AddedField = mutation_AddedField UserSettings_schema"

definition UserSettingsMutation_AddField ::
  "string \<Rightarrow> 'f ent_value \<Rightarrow> ('f :: plus, 'p) mutation \<Rightarrow> error + ('f, 'p) mutation" where
  "UserSettingsMutation_AddField = mutation_AddField UserSettings_schema"

definition UserSettingsMutation_ClearedFields ::
  "('f, 'p) mutation \<Rightarrow> string list" where
  "UserSettingsMutation_ClearedFields = mutation_ClearedFields UserSettings_schema"

definition UserSettingsMutation_FieldCleared ::
  "string \<Rightarrow> ('f, 'p) mutation \<Rightarrow> bool" where
  "UserSettingsMutation_FieldCleared = mutation_FieldCleared UserSettings_schema"

definition UserSettingsMutation_ClearField ::
  "string \<Rightarrow> ('f, 'p) mutation \<Rightarrow> error + ('f, 'p) mutation" where
  "UserSettingsMutation_ClearField = mutation_ClearField UserSettings_schema"

definition UserSettingsMutation_ResetField ::
  "string \<Rightarrow> ('f, 'p) mutation \<Rightarrow> error + ('f, 'p) mutation" where
  "UserSettingsMutation_ResetField = mutation_ResetField UserSettings_schema"

definition UserSettingsMutation_AddedEdges ::
  "('f, 'p) mutation \<Rightarrow> string list" where
  "UserSettingsMutation_AddedEdges = mutation_AddedEdges UserSettings_schema"

definition UserSettingsMutation_AddedIDs ::
  "string \<Rightarrow> ('f, 'p) mutation \<Rightarrow> int set" where
  "UserSettingsMutation_AddedIDs = mutation_AddedIDs UserSettings_schema"

definition UserSettingsMutation_RemovedEdges ::
  "('f, 'p) mutation \<Rightarrow> string list" where
  "UserSettingsMutation_RemovedEdges = mutation_RemovedEdges UserSettings_schema"

definition UserSettingsMutation_RemovedIDs ::
  "string \<Rightarrow> ('f, 'p) mutation \<Rightarrow> int set" where
  "UserSettingsMutation_RemovedIDs = mutation_RemovedIDs UserSettings_schema"

definition UserSettingsMutation_ClearedEdges ::
  "('f, 'p) mutation \<Rightarrow> string list" where
  "UserSettingsMutation_ClearedEdges = mutation_ClearedEdges UserSettings_schema"

definition UserSettingsMutation_EdgeCleared ::
  "string \<Rightarrow> ('f, 'p) mutation \<Rightarrow> bool" where
  "UserSettingsMutation_EdgeCleared = mutation_EdgeCleared UserSettings_schema"

definition UserSettingsMutation_ClearEdge ::
  "string \<Rightarrow> ('f, 'p) mutation \<Rightarrow> error + ('f, 'p) mutation" where
  "UserSettingsMutation_ClearEdge = mutation_ClearEdge UserSettings_schema"

definition UserSettingsMutation_ResetEdge ::
  "string \<Rightarrow> ('f, 'p) mutation \<Rightarrow> error + ('f, 'p) mutation" where
  "UserSettingsMutation_ResetEdge = mutation_ResetEdge UserSettings_schema"

definition UserSettings_Hooks :: "int \<Rightarrow> int \<Rightarrow> ('f, 'p) mutation \<Rightarrow> error + ('f, 'p) mutation" where
  "UserSettings_Hooks = time_hook UserSettings_schema"

section \<open>User device\<close>

definition UserDevice_schema :: entity_schema where
  "UserDevice_schema = \<lparr>en_type = ''UserDevice'',
    en_fields = [
      nullable ''name'' ''Name'' GoString, nullable ''type'' ''Type'' GoString, plain ''token'' ''Token'' GoString,
      nullable ''ip_address'' ''IPAddress'' GoString, nullable ''user_agent'' ''UserAgent'' GoString,
      nullable ''os_name'' ''OsName'' GoString, nullable ''os_version'' ''OsVersion'' GoString,
      nullable ''browser_name'' ''BrowserName'' GoString, nullable ''browser_version'' ''BrowserVersion'' GoString,
      plain ''last_seen_at'' ''LastSeenAt'' GoTime, plain ''created_at'' ''CreatedAt'' GoTime,
      plain ''updated_at'' ''UpdatedAt'' GoTime],
    en_edges = [
      one ''owner'', one ''user_settings_2fa'', one ''second_factor_codes'', many ''user_actions'']\<rparr>"

definition newUserDeviceMutation :: "mutation_op \<Rightarrow> ('f, 'p) mutation" where
  "newUserDeviceMutation = new_mutation UserDevice_schema"

definition withUserDeviceID :: "error + 'f ent_row \<Rightarrow> int \<Rightarrow> ('f, 'p) mutation \<Rightarrow> ('f, 'p) mutation" where
  "withUserDeviceID = with_id"

definition withUserDevice :: "'f ent_row \<Rightarrow> int \<Rightarrow> ('f, 'p) mutation \<Rightarrow> ('f, 'p) mutation" where
  "withUserDevice = with_node"

definition UserDeviceMutation_IDs :: "('p list \<Rightarrow> error + int list) \<Rightarrow> (mutation_op \<Rightarrow> string) \<Rightarrow> ('f, 'p) mutation \<Rightarrow> error + int list" where
  "UserDeviceMutation_IDs = mutation_IDs"

definition UserDeviceMutation_Name :: "(string, 'f :: plus, 'p) field_methods" where
  "UserDeviceMutation_Name = string_field UserDevice_schema ''name''"

definition UserDeviceMutation_Type :: "(string, 'f :: plus, 'p) field_methods" where
  "UserDeviceMutation_Type = string_field UserDevice_schema ''type''"

definition UserDeviceMutation_Token :: "(string, 'f :: plus, 'p) field_methods" where
  "UserDeviceMutation_Token = string_field UserDevice_schema ''token''"

definition UserDeviceMutation_IPAddress :: "(string, 'f :: plus, 'p) field_methods" where
  "UserDeviceMutation_IPAddress = string_field UserDevice_schema ''ip_address''"

definition UserDeviceMutation_UserAgent :: "(string, 'f :: plus, 'p) field_methods" where
  "UserDeviceMutation_UserAgent = string_field UserDevice_schema ''user_agent''"

definition UserDeviceMutation_OsName :: "(string, 'f :: plus, 'p) field_methods" where
  "UserDeviceMutation_OsName = string_field UserDevice_schema ''os_name''"

definition UserDeviceMutation_OsVersion :: "(string, 'f :: plus, 'p) field_methods" where
  "UserDeviceMutation_OsVersion = string_field UserDevice_schema ''os_version''"

definition UserDeviceMutation_BrowserName :: "(string, 'f :: plus, 'p) field_methods" where
  "UserDeviceMutation_BrowserName = string_field UserDevice_schema ''browser_name''"

definition UserDeviceMutation_BrowserVersion :: "(string, 'f :: plus, 'p) field_methods" where
  "UserDeviceMutation_BrowserVersion = string_field UserDevice_schema ''browser_version''"

definition UserDeviceMutation_LastSeenAt :: "(int, 'f :: plus, 'p) field_methods" where
  "UserDeviceMutation_LastSeenAt = time_field UserDevice_schema ''last_seen_at''"

definition UserDeviceMutation_CreatedAt :: "(int, 'f :: plus, 'p) field_methods" where
  "UserDeviceMutation_CreatedAt = time_field UserDevice_schema ''created_at''"

definition UserDeviceMutation_UpdatedAt :: "(int, 'f :: plus, 'p) field_methods" where
  "UserDeviceMutation_UpdatedAt = time_field UserDevice_schema ''updated_at''"

definition UserDeviceMutation_Owner :: "('f, 'p) unique_edge_methods" where
  "UserDeviceMutation_Owner = unique_edge UserDevice_schema ''owner''"

definition UserDeviceMutation_UserSettings2fa :: "('f, 'p) unique_edge_methods" where
  "UserDeviceMutation_UserSettings2fa = unique_edge UserDevice_schema ''user_settings_2fa''"

definition UserDeviceMutation_SecondFactorCodes :: "('f, 'p) unique_edge_methods" where
  "UserDeviceMutation_SecondFactorCodes = unique_edge UserDevice_schema ''second_factor_codes''"

definition UserDeviceMutation_UserActions :: "('f, 'p) many_edge_methods" where
  "UserDeviceMutation_UserActions = many_edge UserDevice_schema ''user_actions''"

definition UserDeviceMutation_Fields ::
  "('f, 'p) mutation \<Rightarrow> string list" where
  "UserDeviceMutation_Fields = mutation_Fields UserDevice_schema"

definition UserDeviceMutation_Field ::
  "string \<Rightarrow> ('f, 'p) mutation \<Rightarrow> 'f ent_value option" where
  "UserDeviceMutation_Field = mutation_Field UserDevice_schema"

definition UserDeviceMutation_OldField ::
  "string \<Rightarrow> ('f, 'p) mutation \<Rightarrow> (error + 'f ent_value) \<times> ('f, 'p) mutation" where
  "UserDeviceMutation_OldField = mutation_OldField UserDevice_schema"

definition UserDeviceMutation_SetField ::
  "string \<Rightarrow> 'f ent_value \<Rightarrow> ('f, 'p) mutation \<Rightarrow> error + ('f, 'p) mutation" where
  "UserDeviceMutation_SetField = mutation_SetField UserDevice_schema"

definition UserDeviceMutation_AddedFields ::
  "('f, 'p) mutation \<Rightarrow> string list" where
  "UserDeviceMutation_AddedFields = mutation_AddedFields UserDevice_schema"

definition UserDeviceMutation_AddedField ::
  "string \<Rightarrow> ('f, 'p) mutation \<Rightarrow> 'f ent_value option" where
  "UserDeviceMutation_AddedField = mutation_AddedField UserDevice_schema"

definition UserDeviceMutation_AddField ::
  "string \<Rightarrow> 'f ent_value \<Rightarrow> ('f :: plus, 'p) mutation \<Rightarrow> error + ('f, 'p) mutation" where
  "UserDeviceMutation_AddField = mutation_AddField UserDevice_schema"

definition UserDeviceMutation_ClearedFields ::
  "('f, 'p) mutation \<Rightarrow> string list" where
  "UserDeviceMutation_ClearedFields = mutation_ClearedFields UserDevice_schema"

definition UserDeviceMutation_FieldCleared ::
  "string \<Rightarrow> ('f, 'p) mutation \<Rightarrow> bool" where
  "UserDeviceMutation_FieldCleared = mutation_FieldCleared UserDevice_schema"

definition UserDeviceMutation_ClearField ::
  "string \<Rightarrow> ('f, 'p) mutation \<Rightarrow> error + ('f, 'p) mutation" where
  "UserDeviceMutation_ClearField = mutation_ClearField UserDevice_schema"

definition UserDeviceMutation_ResetField ::
  "string \<Rightarrow> ('f, 'p) mutation \<Rightarrow> error + ('f, 'p) mutation" where
  "UserDeviceMutation_ResetField = mutation_ResetField UserDevice_schema"

definition UserDeviceMutation_AddedEdges ::
  "('f, 'p) mutation \<Rightarrow> string list" where
  "UserDeviceMutation_AddedEdges = mutation_AddedEdges UserDevice_schema"

definition UserDeviceMutation_AddedIDs ::
  "string \<Rightarrow> ('f, 'p) mutation \<Rightarrow> int set" where
  "UserDeviceMutation_AddedIDs = mutation_AddedIDs UserDevice_schema"

definition UserDeviceMutation_RemovedEdges ::
  "('f, 'p) mutation \<Rightarrow> string list" where
  "UserDeviceMutation_RemovedEdges = mutation_RemovedEdges UserDevice_schema"

definition UserDeviceMutation_RemovedIDs ::
  "string \<Rightarrow> ('f, 'p) mutation \<Rightarrow> int set" where
  "UserDeviceMutation_RemovedIDs = mutation_RemovedIDs UserDevice_schema"

definition UserDeviceMutation_ClearedEdges ::
  "('f, 'p) mutation \<Rightarrow> string list" where
  "UserDeviceMutation_ClearedEdges = mutation_ClearedEdges UserDevice_schema"

definition UserDeviceMutation_EdgeCleared ::
  "string \<Rightarrow> ('f, 'p) mutation \<Rightarrow> bool" where
  "UserDeviceMutation_EdgeCleared = mutation_EdgeCleared UserDevice_schema"

definition UserDeviceMutation_ClearEdge ::
  "string \<Rightarrow> ('f, 'p) mutation \<Rightarrow> error + ('f, 'p) mutation" where
  "UserDeviceMutation_ClearEdge = mutation_ClearEdge UserDevice_schema"

definition UserDeviceMutation_ResetEdge ::
  "string \<Rightarrow> ('f, 'p) mutation \<Rightarrow> error + ('f, 'p) mutation" where
  "UserDeviceMutation_ResetEdge = mutation_ResetEdge UserDevice_schema"

definition UserDevice_Hooks :: "int \<Rightarrow> int \<Rightarrow> ('f, 'p) mutation \<Rightarrow> error + ('f, 'p) mutation" where
  "UserDevice_Hooks = time_hook UserDevice_schema"

section \<open>Entrepreneur details\<close>

definition EntrepreneurDetails_schema :: entity_schema where
  "EntrepreneurDetails_schema = \<lparr>en_type = ''EntrepreneurDetails'',
    en_fields = [
      nullable ''business_name'' ''BusinessName'' GoString, nullable ''nip'' ''Nip'' GoString,
      nullable ''krs'' ''Krs'' GoString, nullable ''description'' ''Description'' GoString,
      nullable ''offer'' ''Offer'' GoString, nullable ''income'' ''Income'' GoFloat,
      nullable ''costs'' ''Costs'' GoFloat, nullable ''funding_capital'' ''FundingCapital'' GoFloat,
      nullable ''industry'' ''Industry'' GoString,
      nullable ''management_council_members'' ''ManagementCouncilMembers'' GoStrings,
      nullable ''decision_makers'' ''DecisionMakers'' GoStrings,
      nullable ''business_phone_number'' ''BusinessPhoneNumber'' GoString,
      nullable ''business_mail'' ''BusinessMail'' GoString, nullable ''website_address'' ''WebsiteAddress'' GoString,
      plain ''created_at'' ''CreatedAt'' GoTime, plain ''updated_at'' ''UpdatedAt'' GoTime],
    en_edges = [
      one ''user_details'']\<rparr>"

definition newEntrepreneurDetailsMutation :: "mutation_op \<Rightarrow> ('f, 'p) mutation" where
  "newEntrepreneurDetailsMutation = new_mutation EntrepreneurDetails_schema"

definition withEntrepreneurDetailsID :: "error + 'f ent_row \<Rightarrow> int \<Rightarrow> ('f, 'p) mutation \<Rightarrow> ('f, 'p) mutation" where
  "withEntrepreneurDetailsID = with_id"

definition withEntrepreneurDetails :: "'f ent_row \<Rightarrow> int \<Rightarrow> ('f, 'p) mutation \<Rightarrow> ('f, 'p) mutation" where
  "withEntrepreneurDetails = with_node"

definition EntrepreneurDetailsMutation_IDs :: "('p list \<Rightarrow> error + int list) \<Rightarrow> (mutation_op \<Rightarrow> string) \<Rightarrow> ('f, 'p) mutation \<Rightarrow> error + int list" where
  "EntrepreneurDetailsMutation_IDs = mutation_IDs"

definition EntrepreneurDetailsMutation_BusinessName :: "(string, 'f :: plus, 'p) field_methods" where
  "EntrepreneurDetailsMutation_BusinessName = string_field EntrepreneurDetails_schema ''business_name''"

definition EntrepreneurDetailsMutation_Nip :: "(string, 'f :: plus, 'p) field_methods" where
  "EntrepreneurDetailsMutation_Nip = string_field EntrepreneurDetails_schema ''nip''"

definition EntrepreneurDetailsMutation_Krs :: "(string, 'f :: plus, 'p) field_methods" where
  "EntrepreneurDetailsMutation_Krs = string_field EntrepreneurDetails_schema ''krs''"

definition EntrepreneurDetailsMutation_Description :: "(string, 'f :: plus, 'p) field_methods" where
  "EntrepreneurDetailsMutation_Description = string_field EntrepreneurDetails_schema ''description''"

definition EntrepreneurDetailsMutation_Offer :: "(string, 'f :: plus, 'p) field_methods" where
  "EntrepreneurDetailsMutation_Offer = string_field EntrepreneurDetails_schema ''offer''"

definition EntrepreneurDetailsMutation_Income :: "('f, 'f :: {plus,zero}, 'p) field_methods" where
  "EntrepreneurDetailsMutation_Income = float_field EntrepreneurDetails_schema ''income''"

definition EntrepreneurDetailsMutation_Costs :: "('f, 'f :: {plus,zero}, 'p) field_methods" where
  "EntrepreneurDetailsMutation_Costs = float_field EntrepreneurDetails_schema ''costs''"

definition EntrepreneurDetailsMutation_FundingCapital :: "('f, 'f :: {plus,zero}, 'p) field_methods" where
  "EntrepreneurDetailsMutation_FundingCapital = float_field EntrepreneurDetails_schema ''funding_capital''"

definition EntrepreneurDetailsMutation_Industry :: "(string, 'f :: plus, 'p) field_methods" where
  "EntrepreneurDetailsMutation_Industry = string_field EntrepreneurDetails_schema ''industry''"

definition EntrepreneurDetailsMutation_ManagementCouncilMembers :: "(string list, 'f :: plus, 'p) field_methods" where
  "EntrepreneurDetailsMutation_ManagementCouncilMembers = strings_field EntrepreneurDetails_schema ''management_council_members''"

definition EntrepreneurDetailsMutation_DecisionMakers :: "(string list, 'f :: plus, 'p) field_methods" where
  "EntrepreneurDetailsMutation_DecisionMakers = strings_field EntrepreneurDetails_schema ''decision_makers''"

definition EntrepreneurDetailsMutation_BusinessPhoneNumber :: "(string, 'f :: plus, 'p) field_methods" where
  "EntrepreneurDetailsMutation_BusinessPhoneNumber = string_field EntrepreneurDetails_schema ''business_phone_number''"

definition EntrepreneurDetailsMutation_BusinessMail :: "(string, 'f :: plus, 'p) field_methods" where
  "EntrepreneurDetailsMutation_BusinessMail = string_field EntrepreneurDetails_schema ''business_mail''"

definition EntrepreneurDetailsMutation_WebsiteAddress :: "(string, 'f :: plus, 'p) field_methods" where
  "EntrepreneurDetailsMutation_WebsiteAddress = string_field EntrepreneurDetails_schema ''website_address''"

definition EntrepreneurDetailsMutation_CreatedAt :: "(int, 'f :: plus, 'p) field_methods" where
  "EntrepreneurDetailsMutation_CreatedAt = time_field EntrepreneurDetails_schema ''created_at''"

definition EntrepreneurDetailsMutation_UpdatedAt :: "(int, 'f :: plus, 'p) field_methods" where
  "EntrepreneurDetailsMutation_UpdatedAt = time_field EntrepreneurDetails_schema ''updated_at''"

definition EntrepreneurDetailsMutation_UserDetails :: "('f, 'p) unique_edge_methods" where
  "EntrepreneurDetailsMutation_UserDetails = unique_edge EntrepreneurDetails_schema ''user_details''"

definition EntrepreneurDetailsMutation_Fields ::
  "('f, 'p) mutation \<Rightarrow> string list" where
  "EntrepreneurDetailsMutation_Fields = mutation_Fields EntrepreneurDetails_schema"

definition EntrepreneurDetailsMutation_Field ::
  "string \<Rightarrow> ('f, 'p) mutation \<Rightarrow> 'f ent_value option" where
  "EntrepreneurDetailsMutation_Field = mutation_Field EntrepreneurDetails_schema"

definition EntrepreneurDetailsMutation_OldField ::
  "string \<Rightarrow> ('f, 'p) mutation \<Rightarrow> (error + 'f ent_value) \<times> ('f, 'p) mutation" where
  "EntrepreneurDetailsMutation_OldField = mutation_OldField EntrepreneurDetails_schema"

definition EntrepreneurDetailsMutation_SetField ::
  "string \<Rightarrow> 'f ent_value \<Rightarrow> ('f, 'p) mutation \<Rightarrow> error + ('f, 'p) mutation" where
  "EntrepreneurDetailsMutation_SetField = mutation_SetField EntrepreneurDetails_schema"

definition EntrepreneurDetailsMutation_AddedFields ::
  "('f, 'p) mutation \<Rightarrow> string list" where
  "EntrepreneurDetailsMutation_AddedFields = mutation_AddedFields EntrepreneurDetails_schema"

definition EntrepreneurDetailsMutation_AddedField ::
  "string \<Rightarrow> ('f, 'p) mutation \<Rightarrow> 'f ent_value option" where
  "EntrepreneurDetailsMutation_AddedField = mutation_AddedField EntrepreneurDetails_schema"

definition EntrepreneurDetailsMutation_AddField ::
  "string \<Rightarrow> 'f ent_value \<Rightarrow> ('f :: plus, 'p) mutation \<Rightarrow> error + ('f, 'p) mutation" where
  "EntrepreneurDetailsMutation_AddField = mutation_AddField EntrepreneurDetails_schema"

definition EntrepreneurDetailsMutation_ClearedFields ::
  "('f, 'p) mutation \<Rightarrow> string list" where
  "EntrepreneurDetailsMutation_ClearedFields = mutation_ClearedFields EntrepreneurDetails_schema"

definition EntrepreneurDetailsMutation_FieldCleared ::
  "string \<Rightarrow> ('f, 'p) mutation \<Rightarrow> bool" where
  "EntrepreneurDetailsMutation_FieldCleared = mutation_FieldCleared EntrepreneurDetails_schema"

definition EntrepreneurDetailsMutation_ClearField ::
  "string \<Rightarrow> ('f, 'p) mutation \<Rightarrow> error + ('f, 'p) mutation" where
  "EntrepreneurDetailsMutation_ClearField = mutation_ClearField EntrepreneurDetails_schema"

definition EntrepreneurDetailsMutation_ResetField ::
  "string \<Rightarrow> ('f, 'p) mutation \<Rightarrow> error + ('f, 'p) mutation" where
  "EntrepreneurDetailsMutation_ResetField = mutation_ResetField EntrepreneurDetails_schema"

definition EntrepreneurDetailsMutation_AddedEdges ::
  "('f, 'p) mutation \<Rightarrow> string list" where
  "EntrepreneurDetailsMutation_AddedEdges = mutation_AddedEdges EntrepreneurDetails_schema"

definition EntrepreneurDetailsMutation_AddedIDs ::
  "string \<Rightarrow> ('f, 'p) mutation \<Rightarrow> int set" where
  "EntrepreneurDetailsMutation_AddedIDs = mutation_AddedIDs EntrepreneurDetails_schema"

definition EntrepreneurDetailsMutation_RemovedEdges ::
  "('f, 'p) mutation \<Rightarrow> string list" where
  "EntrepreneurDetailsMutation_RemovedEdges = mutation_RemovedEdges EntrepreneurDetails_schema"

definition EntrepreneurDetailsMutation_RemovedIDs ::
  "string \<Rightarrow> ('f, 'p) mutation \<Rightarrow> int set" where
  "EntrepreneurDetailsMutation_RemovedIDs = mutation_RemovedIDs EntrepreneurDetails_schema"

definition EntrepreneurDetailsMutation_ClearedEdges ::
  "('f, 'p) mutation \<Rightarrow> string list" where
  "EntrepreneurDetailsMutation_ClearedEdges = mutation_ClearedEdges EntrepreneurDetails_schema"

definition EntrepreneurDetailsMutation_EdgeCleared ::
  "string \<Rightarrow> ('f, 'p) mutation \<Rightarrow> bool" where
  "EntrepreneurDetailsMutation_EdgeCleared = mutation_EdgeCleared EntrepreneurDetails_schema"

definition EntrepreneurDetailsMutation_ClearEdge ::
  "string \<Rightarrow> ('f, 'p) mutation \<Rightarrow> error + ('f, 'p) mutation" where
  "EntrepreneurDetailsMutation_ClearEdge = mutation_ClearEdge EntrepreneurDetails_schema"

definition EntrepreneurDetailsMutation_ResetEdge ::
  "string \<Rightarrow> ('f, 'p) mutation \<Rightarrow> error + ('f, 'p) mutation" where
  "EntrepreneurDetailsMutation_ResetEdge = mutation_ResetEdge EntrepreneurDetails_schema"

definition EntrepreneurDetails_Hooks :: "int \<Rightarrow> int \<Rightarrow> ('f, 'p) mutation \<Rightarrow> error + ('f, 'p) mutation" where
  "EntrepreneurDetails_Hooks = time_hook EntrepreneurDetails_schema"

section \<open>Location\<close>

definition Location_schema :: entity_schema where
  "Location_schema = \<lparr>en_type = ''Location'',
    en_fields = [
      plain ''country'' ''Country'' GoString, plain ''province'' ''Province'' GoString,
      plain ''city'' ''City'' GoString, plain ''postal_code'' ''PostalCode'' GoString,
      nullable ''street'' ''Street'' GoString, plain ''building_number'' ''BuildingNumber'' GoInt,
      plain ''apartment_number'' ''ApartmentNumber'' GoInt, plain ''created_at'' ''CreatedAt'' GoTime,
      plain ''updated_at'' ''UpdatedAt'' GoTime],
    en_edges = [
      one ''user_details'']\<rparr>"

definition newLocationMutation :: "mutation_op \<Rightarrow> ('f, 'p) mutation" where
  "newLocationMutation = new_mutation Location_schema"

definition withLocationID :: "error + 'f ent_row \<Rightarrow> int \<Rightarrow> ('f, 'p) mutation \<Rightarrow> ('f, 'p) mutation" where
  "withLocationID = with_id"

definition withLocation :: "'f ent_row \<Rightarrow> int \<Rightarrow> ('f, 'p) mutation \<Rightarrow> ('f, 'p) mutation" where
  "withLocation = with_node"

definition LocationMutation_IDs :: "('p list \<Rightarrow> error + int list) \<Rightarrow> (mutation_op \<Rightarrow> string) \<Rightarrow> ('f, 'p) mutation \<Rightarrow> error + int list" where
  "LocationMutation_IDs = mutation_IDs"

definition LocationMutation_Country :: "(string, 'f :: plus, 'p) field_methods" where
  "LocationMutation_Country = string_field Location_schema ''country''"

definition LocationMutation_Province :: "(string, 'f :: plus, 'p) field_methods" where
  "LocationMutation_Province = string_field Location_schema ''province''"

definition LocationMutation_City :: "(string, 'f :: plus, 'p) field_methods" where
  "LocationMutation_City = string_field Location_schema ''city''"

definition LocationMutation_PostalCode :: "(string, 'f :: plus, 'p) field_methods" where
  "LocationMutation_PostalCode = string_field Location_schema ''postal_code''"

definition LocationMutation_Street :: "(string, 'f :: plus, 'p) field_methods" where
  "LocationMutation_Street = string_field Location_schema ''street''"

definition LocationMutation_BuildingNumber :: "(int, 'f :: plus, 'p) field_methods" where
  "LocationMutation_BuildingNumber = int_field Location_schema ''building_number''"

definition LocationMutation_ApartmentNumber :: "(int, 'f :: plus, 'p) field_methods" where
  "LocationMutation_ApartmentNumber = int_field Location_schema ''apartment_number''"

definition LocationMutation_CreatedAt :: "(int, 'f :: plus, 'p) field_methods" where
  "LocationMutation_CreatedAt = time_field Location_schema ''created_at''"

definition LocationMutation_UpdatedAt :: "(int, 'f :: plus, 'p) field_methods" where
  "LocationMutation_UpdatedAt = time_field Location_schema ''updated_at''"

definition LocationMutation_UserDetails :: "('f, 'p) unique_edge_methods" where
  "LocationMutation_UserDetails = unique_edge Location_schema ''user_details''"

definition LocationMutation_Fields ::
  "('f, 'p) mutation \<Rightarrow> string list" where
  "LocationMutation_Fields = mutation_Fields Location_schema"

definition LocationMutation_Field ::
  "string \<Rightarrow> ('f, 'p) mutation \<Rightarrow> 'f ent_value option" where
  "LocationMutation_Field = mutation_Field Location_schema"

definition LocationMutation_OldField ::
  "string \<Rightarrow> ('f, 'p) mutation \<Rightarrow> (error + 'f ent_value) \<times> ('f, 'p) mutation" where
  "LocationMutation_OldField = mutation_OldField Location_schema"

definition LocationMutation_SetField ::
  "string \<Rightarrow> 'f ent_value \<Rightarrow> ('f, 'p) mutation \<Rightarrow> error + ('f, 'p) mutation" where
  "LocationMutation_SetField = mutation_SetField Location_schema"

definition LocationMutation_AddedFields ::
  "('f, 'p) mutation \<Rightarrow> string list" where
  "LocationMutation_AddedFields = mutation_AddedFields Location_schema"

definition LocationMutation_AddedField ::
  "string \<Rightarrow> ('f, 'p) mutation \<Rightarrow> 'f ent_value option" where
  "LocationMutation_AddedField = mutation_AddedField Location_schema"

definition LocationMutation_AddField ::
  "string \<Rightarrow> 'f ent_value \<Rightarrow> ('f :: plus, 'p) mutation \<Rightarrow> error + ('f, 'p) mutation" where
  "LocationMutation_AddField = mutation_AddField Location_schema"

definition LocationMutation_ClearedFields ::
  "('f, 'p) mutation \<Rightarrow> string list" where
  "LocationMutation_ClearedFields = mutation_ClearedFields Location_schema"

definition LocationMutation_FieldCleared ::
  "string \<Rightarrow> ('f, 'p) mutation \<Rightarrow> bool" where
  "LocationMutation_FieldCleared = mutation_FieldCleared Location_schema"

definition LocationMutation_ClearField ::
  "string \<Rightarrow> ('f, 'p) mutation \<Rightarrow> error + ('f, 'p) mutation" where
  "LocationMutation_ClearField = mutation_ClearField Location_schema"

definition LocationMutation_ResetField ::
  "string \<Rightarrow> ('f, 'p) mutation \<Rightarrow> error + ('f, 'p) mutation" where
  "LocationMutation_ResetField = mutation_ResetField Location_schema"

definition LocationMutation_AddedEdges ::
  "('f, 'p) mutation \<Rightarrow> string list" where
  "LocationMutation_AddedEdges = mutation_AddedEdges Location_schema"

definition LocationMutation_AddedIDs ::
  "string \<Rightarrow> ('f, 'p) mutation \<Rightarrow> int set" where
  "LocationMutation_AddedIDs = mutation_AddedIDs Location_schema"

definition LocationMutation_RemovedEdges ::
  "('f, 'p) mutation \<Rightarrow> string list" where
  "LocationMutation_RemovedEdges = mutation_RemovedEdges Location_schema"

definition LocationMutation_RemovedIDs ::
  "string \<Rightarrow> ('f, 'p) mutation \<Rightarrow> int set" where
  "LocationMutation_RemovedIDs = mutation_RemovedIDs Location_schema"

definition LocationMutation_ClearedEdges ::
  "('f, 'p) mutation \<Rightarrow> string list" where
  "LocationMutation_ClearedEdges = mutation_ClearedEdges Location_schema"

definition LocationMutation_EdgeCleared ::
  "string \<Rightarrow> ('f, 'p) mutation \<Rightarrow> bool" where
  "LocationMutation_EdgeCleared = mutation_EdgeCleared Location_schema"

definition LocationMutation_ClearEdge ::
  "string \<Rightarrow> ('f, 'p) mutation \<Rightarrow> error + ('f, 'p) mutation" where
  "LocationMutation_ClearEdge = mutation_ClearEdge Location_schema"

definition LocationMutation_ResetEdge ::
  "string \<Rightarrow> ('f, 'p) mutation \<Rightarrow> error + ('f, 'p) mutation" where
  "LocationMutation_ResetEdge = mutation_ResetEdge Location_schema"

definition Location_Hooks :: "int \<Rightarrow> int \<Rightarrow> ('f, 'p) mutation \<Rightarrow> error + ('f, 'p) mutation" where
  "Location_Hooks = time_hook Location_schema"

end
