(* ===== verification/Ent_Records.thy ===== *)
theory Ent_Records imports Ent_Accounts begin

text \<open>
  The mutations of the codes, tokens, roles, permissions and user actions, as in Ent_Accounts.
\<close>

section \<open>Activation code\<close>

definition ActivationCode_schema :: entity_schema where
  "ActivationCode_schema = \<lparr>en_type = ''ActivationCode'',
    en_fields = [
      plain ''code'' ''Code'' GoString, plain ''used'' ''Used'' GoBool, plain ''created_at'' ''CreatedAt'' GoTime,
      plain ''updated_at'' ''UpdatedAt'' GoTime, plain ''expires_at'' ''ExpiresAt'' GoTime],
    en_edges = [
      one ''owner'']\<rparr>"

definition newActivationCodeMutation :: "mutation_op \<Rightarrow> ('f, 'p) mutation" where
  "newActivationCodeMutation = new_mutation ActivationCode_schema"

definition withActivationCodeID :: "error + 'f ent_row \<Rightarrow> int \<Rightarrow> ('f, 'p) mutation \<Rightarrow> ('f, 'p) mutation" where
  "withActivationCodeID = with_id"

definition withActivationCode :: "'f ent_row \<Rightarrow> int \<Rightarrow> ('f, 'p) mutation \<Rightarrow> ('f, 'p) mutation" where
  "withActivationCode = with_node"

definition ActivationCodeMutation_IDs :: "('p list \<Rightarrow> error + int list) \<Rightarrow> (mutation_op \<Rightarrow> string) \<Rightarrow> ('f, 'p) mutation \<Rightarrow> error + int list" where
  "ActivationCodeMutation_IDs = mutation_IDs"

definition ActivationCodeMutation_Code :: "(string, 'f :: plus, 'p) field_methods" where
  "ActivationCodeMutation_Code = string_field ActivationCode_schema ''code''"

definition ActivationCodeMutation_Used :: "(bool, 'f :: plus, 'p) field_methods" where
  "ActivationCodeMutation_Used = bool_field ActivationCode_schema ''used''"

definition ActivationCodeMutation_CreatedAt :: "(int, 'f :: plus, 'p) field_methods" where
  "ActivationCodeMutation_CreatedAt = time_field ActivationCode_schema ''created_at''"

definition ActivationCodeMutation_UpdatedAt :: "(int, 'f :: plus, 'p) field_methods" where
  "ActivationCodeMutation_UpdatedAt = time_field ActivationCode_schema ''updated_at''"

definition ActivationCodeMutation_ExpiresAt :: "(int, 'f :: plus, 'p) field_methods" where
  "ActivationCodeMutation_ExpiresAt = time_field ActivationCode_schema ''expires_at''"

definition ActivationCodeMutation_Owner :: "('f, 'p) unique_edge_methods" where
  "ActivationCodeMutation_Owner = unique_edge ActivationCode_schema ''owner''"

definition ActivationCodeMutation_Fields ::
  "('f, 'p) mutation \<Rightarrow> string list" where
  "ActivationCodeMutation_Fields = mutation_Fields ActivationCode_schema"

definition ActivationCodeMutation_Field ::
  "string \<Rightarrow> ('f, 'p) mutation \<Rightarrow> 'f ent_value option" where
  "ActivationCodeMutation_Field = mutation_Field ActivationCode_schema"

definition ActivationCodeMutation_OldField ::
  "string \<Rightarrow> ('f, 'p) mutation \<Rightarrow> (error + 'f ent_value) \<times> ('f, 'p) mutation" where
  "ActivationCodeMutation_OldField = mutation_OldField ActivationCode_schema"

definition ActivationCodeMutation_SetField ::
  "string \<Rightarrow> 'f ent_value \<Rightarrow> ('f, 'p) mutation \<Rightarrow> error + ('f, 'p) mutation" where
  "ActivationCodeMutation_SetField = mutation_SetField ActivationCode_schema"

definition ActivationCodeMutation_AddedFields ::
  "('f, 'p) mutation \<Rightarrow> string list" where
  "ActivationCodeMutation_AddedFields = mutation_AddedFields ActivationCode_schema"

definition ActivationCodeMutation_AddedField ::
  "string \<Rightarrow> ('f, 'p) mutation \<Rightarrow> 'f ent_value option" where
  "ActivationCodeMutation_AddedField = mutation_AddedField ActivationCode_schema"

definition ActivationCodeMutation_AddField ::
  "string \<Rightarrow> 'f ent_value \<Rightarrow> ('f :: plus, 'p) mutation \<Rightarrow> error + ('f, 'p) mutation" where
  "ActivationCodeMutation_AddField = mutation_AddField ActivationCode_schema"

definition ActivationCodeMutation_ClearedFields ::
  "('f, 'p) mutation \<Rightarrow> string list" where
  "ActivationCodeMutation_ClearedFields = mutation_ClearedFields ActivationCode_schema"

definition ActivationCodeMutation_FieldCleared ::
  "string \<Rightarrow> ('f, 'p) mutation \<Rightarrow> bool" where
  "ActivationCodeMutation_FieldCleared = mutation_FieldCleared ActivationCode_schema"

definition ActivationCodeMutation_ClearField ::
  "string \<Rightarrow> ('f, 'p) mutation \<Rightarrow> error + ('f, 'p) mutation" where
  "ActivationCodeMutation_ClearField = mutation_ClearField ActivationCode_schema"

definition ActivationCodeMutation_ResetField ::
  "string \<Rightarrow> ('f, 'p) mutation \<Rightarrow> error + ('f, 'p) mutation" where
  "ActivationCodeMutation_ResetField = mutation_ResetField ActivationCode_schema"

definition ActivationCodeMutation_AddedEdges ::
  "('f, 'p) mutation \<Rightarrow> string list" where
  "ActivationCodeMutation_AddedEdges = mutation_AddedEdges ActivationCode_schema"

definition ActivationCodeMutation_AddedIDs ::
  "string \<Rightarrow> ('f, 'p) mutation \<Rightarrow> int set" where
  "ActivationCodeMutation_AddedIDs = mutation_AddedIDs ActivationCode_schema"

definition ActivationCodeMutation_RemovedEdges ::
  "('f, 'p) mutation \<Rightarrow> string list" where
  "ActivationCodeMutation_RemovedEdges = mutation_RemovedEdges ActivationCode_schema"

definition ActivationCodeMutation_RemovedIDs ::
  "string \<Rightarrow> ('f, 'p) mutation \<Rightarrow> int set" where
  "ActivationCodeMutation_RemovedIDs = mutation_RemovedIDs ActivationCode_schema"

definition ActivationCodeMutation_ClearedEdges ::
  "('f, 'p) mutation \<Rightarrow> string list" where
  "ActivationCodeMutation_ClearedEdges = mutation_ClearedEdges ActivationCode_schema"

definition ActivationCodeMutation_EdgeCleared ::
  "string \<Rightarrow> ('f, 'p) mutation \<Rightarrow> bool" where
  "ActivationCodeMutation_EdgeCleared = mutation_EdgeCleared ActivationCode_schema"

definition ActivationCodeMutation_ClearEdge ::
  "string \<Rightarrow> ('f, 'p) mutation \<Rightarrow> error + ('f, 'p) mutation" where
  "ActivationCodeMutation_ClearEdge = mutation_ClearEdge ActivationCode_schema"

definition ActivationCodeMutation_ResetEdge ::
  "string \<Rightarrow> ('f, 'p) mutation \<Rightarrow> error + ('f, 'p) mutation" where
  "ActivationCodeMutation_ResetEdge = mutation_ResetEdge ActivationCode_schema"

definition ActivationCode_Hooks :: "int \<Rightarrow> int \<Rightarrow> ('f, 'p) mutation \<Rightarrow> error + ('f, 'p) mutation" where
  "ActivationCode_Hooks = time_hook ActivationCode_schema"

section \<open>Blacklisted token\<close>

definition BlacklistedToken_schema :: entity_schema where
  "BlacklistedToken_schema = \<lparr>en_type = ''BlacklistedToken'',
    en_fields = [
      plain ''token'' ''Token'' GoString, plain ''created_at'' ''CreatedAt'' GoTime,
      plain ''updated_at'' ''UpdatedAt'' GoTime, plain ''expires_at'' ''ExpiresAt'' GoTime],
    en_edges = [
      one ''owner'']\<rparr>"

definition newBlacklistedTokenMutation :: "mutation_op \<Rightarrow> ('f, 'p) mutation" where
  "newBlacklistedTokenMutation = new_mutation BlacklistedToken_schema"

definition withBlacklistedTokenID :: "error + 'f ent_row \<Rightarrow> int \<Rightarrow> ('f, 'p) mutation \<Rightarrow> ('f, 'p) mutation" where
  "withBlacklistedTokenID = with_id"

definition withBlacklistedToken :: "'f ent_row \<Rightarrow> int \<Rightarrow> ('f, 'p) mutation \<Rightarrow> ('f, 'p) mutation" where
  "withBlacklistedToken = with_node"

definition BlacklistedTokenMutation_IDs :: "('p list \<Rightarrow> error + int list) \<Rightarrow> (mutation_op \<Rightarrow> string) \<Rightarrow> ('f, 'p) mutation \<Rightarrow> error + int list" where
  "BlacklistedTokenMutation_IDs = mutation_IDs"

definition BlacklistedTokenMutation_Token :: "(string, 'f :: plus, 'p) field_methods" where
  "BlacklistedTokenMutation_Token = string_field BlacklistedToken_schema ''token''"

definition BlacklistedTokenMutation_CreatedAt :: "(int, 'f :: plus, 'p) field_methods" where
  "BlacklistedTokenMutation_CreatedAt = time_field BlacklistedToken_schema ''created_at''"

definition BlacklistedTokenMutation_UpdatedAt :: "(int, 'f :: plus, 'p) field_methods" where
  "BlacklistedTokenMutation_UpdatedAt = time_field BlacklistedToken_schema ''updated_at''"

definition BlacklistedTokenMutation_ExpiresAt :: "(int, 'f :: plus, 'p) field_methods" where
  "BlacklistedTokenMutation_ExpiresAt = time_field BlacklistedToken_schema ''expires_at''"

definition BlacklistedTokenMutation_Owner :: "('f, 'p) unique_edge_methods" where
  "BlacklistedTokenMutation_Owner = unique_edge BlacklistedToken_schema ''owner''"

definition BlacklistedTokenMutation_Fields ::
  "('f, 'p) mutation \<Rightarrow> string list" where
  "BlacklistedTokenMutation_Fields = mutation_Fields BlacklistedToken_schema"

definition BlacklistedTokenMutation_Field ::
  "string \<Rightarrow> ('f, 'p) mutation \<Rightarrow> 'f ent_value option" where
  "BlacklistedTokenMutation_Field = mutation_Field BlacklistedToken_schema"

definition BlacklistedTokenMutation_OldField ::
  "string \<Rightarrow> ('f, 'p) mutation \<Rightarrow> (error + 'f ent_value) \<times> ('f, 'p) mutation" where
  "BlacklistedTokenMutation_OldField = mutation_OldField BlacklistedToken_schema"

definition BlacklistedTokenMutation_SetField ::
  "string \<Rightarrow> 'f ent_value \<Rightarrow> ('f, 'p) mutation \<Rightarrow> error + ('f, 'p) mutation" where
  "BlacklistedTokenMutation_SetField = mutation_SetField BlacklistedToken_schema"

definition BlacklistedTokenMutation_AddedFields ::
  "('f, 'p) mutation \<Rightarrow> string list" where
  "BlacklistedTokenMutation_AddedFields = mutation_AddedFields BlacklistedToken_schema"

definition BlacklistedTokenMutation_AddedField ::
  "string \<Rightarrow> ('f, 'p) mutation \<Rightarrow> 'f ent_value option" where
  "BlacklistedTokenMutation_AddedField = mutation_AddedField BlacklistedToken_schema"

definition BlacklistedTokenMutation_AddField ::
  "string \<Rightarrow> 'f ent_value \<Rightarrow> ('f :: plus, 'p) mutation \<Rightarrow> error + ('f, 'p) mutation" where
  "BlacklistedTokenMutation_AddField = mutation_AddField BlacklistedToken_schema"

definition BlacklistedTokenMutation_ClearedFields ::
  "('f, 'p) mutation \<Rightarrow> string list" where
  "BlacklistedTokenMutation_ClearedFields = mutation_ClearedFields BlacklistedToken_schema"

definition BlacklistedTokenMutation_FieldCleared ::
  "string \<Rightarrow> ('f, 'p) mutation \<Rightarrow> bool" where
  "BlacklistedTokenMutation_FieldCleared = mutation_FieldCleared BlacklistedToken_schema"

definition BlacklistedTokenMutation_ClearField ::
  "string \<Rightarrow> ('f, 'p) mutation \<Rightarrow> error + ('f, 'p) mutation" where
  "BlacklistedTokenMutation_ClearField = mutation_ClearField BlacklistedToken_schema"

definition BlacklistedTokenMutation_ResetField ::
  "string \<Rightarrow> ('f, 'p) mutation \<Rightarrow> error + ('f, 'p) mutation" where
  "BlacklistedTokenMutation_ResetField = mutation_ResetField BlacklistedToken_schema"

definition BlacklistedTokenMutation_AddedEdges ::
  "('f, 'p) mutation \<Rightarrow> string list" where
  "BlacklistedTokenMutation_AddedEdges = mutation_AddedEdges BlacklistedToken_schema"

definition BlacklistedTokenMutation_AddedIDs ::
  "string \<Rightarrow> ('f, 'p) mutation \<Rightarrow> int set" where
  "BlacklistedTokenMutation_AddedIDs = mutation_AddedIDs BlacklistedToken_schema"

definition BlacklistedTokenMutation_RemovedEdges ::
  "('f, 'p) mutation \<Rightarrow> string list" where
  "BlacklistedTokenMutation_RemovedEdges = mutation_RemovedEdges BlacklistedToken_schema"

definition BlacklistedTokenMutation_RemovedIDs ::
  "string \<Rightarrow> ('f, 'p) mutation \<Rightarrow> int set" where
  "BlacklistedTokenMutation_RemovedIDs = mutation_RemovedIDs BlacklistedToken_schema"

definition BlacklistedTokenMutation_ClearedEdges ::
  "('f, 'p) mutation \<Rightarrow> string list" where
  "BlacklistedTokenMutation_ClearedEdges = mutation_ClearedEdges BlacklistedToken_schema"

definition BlacklistedTokenMutation_EdgeCleared ::
  "string \<Rightarrow> ('f, 'p) mutation \<Rightarrow> bool" where
  "BlacklistedTokenMutation_EdgeCleared = mutation_EdgeCleared BlacklistedToken_schema"

definition BlacklistedTokenMutation_ClearEdge ::
  "string \<Rightarrow> ('f, 'p) mutation \<Rightarrow> error + ('f, 'p) mutation" where
  "BlacklistedTokenMutation_ClearEdge = mutation_ClearEdge BlacklistedToken_schema"

definition BlacklistedTokenMutation_ResetEdge ::
  "string \<Rightarrow> ('f, 'p) mutation \<Rightarrow> error + ('f, 'p) mutation" where
  "BlacklistedTokenMutation_ResetEdge = mutation_ResetEdge BlacklistedToken_schema"

definition BlacklistedToken_Hooks :: "int \<Rightarrow> int \<Rightarrow> ('f, 'p) mutation \<Rightarrow> error + ('f, 'p) mutation" where
  "BlacklistedToken_Hooks = time_hook BlacklistedToken_schema"

section \<open>Reset code\<close>

definition ResetCode_schema :: entity_schema where
  "ResetCode_schema = \<lparr>en_type = ''ResetCode'',
    en_fields = [
      plain ''code'' ''Code'' GoString, plain ''created_at'' ''CreatedAt'' GoTime,
      plain ''updated_at'' ''UpdatedAt'' GoTime, plain ''expires_at'' ''ExpiresAt'' GoTime],
    en_edges = [
      one ''owner'']\<rparr>"

definition newResetCodeMutation :: "mutation_op \<Rightarrow> ('f, 'p) mutation" where
  "newResetCodeMutation = new_mutation ResetCode_schema"

definition withResetCodeID :: "error + 'f ent_row \<Rightarrow> int \<Rightarrow> ('f, 'p) mutation \<Rightarrow> ('f, 'p) mutation" where
  "withResetCodeID = with_id"

definition withResetCode :: "'f ent_row \<Rightarrow> int \<Rightarrow> ('f, 'p) mutation \<Rightarrow> ('f, 'p) mutation" where
  "withResetCode = with_node"

definition ResetCodeMutation_IDs :: "('p list \<Rightarrow> error + int list) \<Rightarrow> (mutation_op \<Rightarrow> string) \<Rightarrow> ('f, 'p) mutation \<Rightarrow> error + int list" where
  "ResetCodeMutation_IDs = mutation_IDs"

definition ResetCodeMutation_Code :: "(string, 'f :: plus, 'p) field_methods" where
  "ResetCodeMutation_Code = string_field ResetCode_schema ''code''"

definition ResetCodeMutation_CreatedAt :: "(int, 'f :: plus, 'p) field_methods" where
  "ResetCodeMutation_CreatedAt = time_field ResetCode_schema ''created_at''"

definition ResetCodeMutation_UpdatedAt :: "(int, 'f :: plus, 'p) field_methods" where
  "ResetCodeMutation_UpdatedAt = time_field ResetCode_schema ''updated_at''"

definition ResetCodeMutation_ExpiresAt :: "(int, 'f :: plus, 'p) field_methods" where
  "ResetCodeMutation_ExpiresAt = time_field ResetCode_schema ''expires_at''"

definition ResetCodeMutation_Owner :: "('f, 'p) unique_edge_methods" where
  "ResetCodeMutation_Owner = unique_edge ResetCode_schema ''owner''"

definition ResetCodeMutation_Fields ::
  "('f, 'p) mutation \<Rightarrow> string list" where
  "ResetCodeMutation_Fields = mutation_Fields ResetCode_schema"

definition ResetCodeMutation_Field ::
  "string \<Rightarrow> ('f, 'p) mutation \<Rightarrow> 'f ent_value option" where
  "ResetCodeMutation_Field = mutation_Field ResetCode_schema"

definition ResetCodeMutation_OldField ::
  "string \<Rightarrow> ('f, 'p) mutation \<Rightarrow> (error + 'f ent_value) \<times> ('f, 'p) mutation" where
  "ResetCodeMutation_OldField = mutation_OldField ResetCode_schema"

definition ResetCodeMutation_SetField ::
  "string \<Rightarrow> 'f ent_value \<Rightarrow> ('f, 'p) mutation \<Rightarrow> error + ('f, 'p) mutation" where
  "ResetCodeMutation_SetField = mutation_SetField ResetCode_schema"

definition ResetCodeMutation_AddedFields ::
  "('f, 'p) mutation \<Rightarrow> string list" where
  "ResetCodeMutation_AddedFields = mutation_AddedFields ResetCode_schema"

definition ResetCodeMutation_AddedField ::
  "string \<Rightarrow> ('f, 'p) mutation \<Rightarrow> 'f ent_value option" where
  "ResetCodeMutation_AddedField = mutation_AddedField ResetCode_schema"

definition ResetCodeMutation_AddField ::
  "string \<Rightarrow> 'f ent_value \<Rightarrow> ('f :: plus, 'p) mutation \<Rightarrow> error + ('f, 'p) mutation" where
  "ResetCodeMutation_AddField = mutation_AddField ResetCode_schema"

definition ResetCodeMutation_ClearedFields ::
  "('f, 'p) mutation \<Rightarrow> string list" where
  "ResetCodeMutation_ClearedFields = mutation_ClearedFields ResetCode_schema"

definition ResetCodeMutation_FieldCleared ::
  "string \<Rightarrow> ('f, 'p) mutation \<Rightarrow> bool" where
  "ResetCodeMutation_FieldCleared = mutation_FieldCleared ResetCode_schema"

definition ResetCodeMutation_ClearField ::
  "string \<Rightarrow> ('f, 'p) mutation \<Rightarrow> error + ('f, 'p) mutation" where
  "ResetCodeMutation_ClearField = mutation_ClearField ResetCode_schema"

definition ResetCodeMutation_ResetField ::
  "string \<Rightarrow> ('f, 'p) mutation \<Rightarrow> error + ('f, 'p) mutation" where
  "ResetCodeMutation_ResetField = mutation_ResetField ResetCode_schema"

definition ResetCodeMutation_AddedEdges ::
  "('f, 'p) mutation \<Rightarrow> string list" where
  "ResetCodeMutation_AddedEdges = mutation_AddedEdges ResetCode_schema"

definition ResetCodeMutation_AddedIDs ::
  "string \<Rightarrow> ('f, 'p) mutation \<Rightarrow> int set" where
  "ResetCodeMutation_AddedIDs = mutation_AddedIDs ResetCode_schema"

definition ResetCodeMutation_RemovedEdges ::
  "('f, 'p) mutation \<Rightarrow> string list" where
  "ResetCodeMutation_RemovedEdges = mutation_RemovedEdges ResetCode_schema"

definition ResetCodeMutation_RemovedIDs ::
  "string \<Rightarrow> ('f, 'p) mutation \<Rightarrow> int set" where
  "ResetCodeMutation_RemovedIDs = mutation_RemovedIDs ResetCode_schema"

definition ResetCodeMutation_ClearedEdges ::
  "('f, 'p) mutation \<Rightarrow> string list" where
  "ResetCodeMutation_ClearedEdges = mutation_ClearedEdges ResetCode_schema"

definition ResetCodeMutation_EdgeCleared ::
  "string \<Rightarrow> ('f, 'p) mutation \<Rightarrow> bool" where
  "ResetCodeMutation_EdgeCleared = mutation_EdgeCleared ResetCode_schema"

definition ResetCodeMutation_ClearEdge ::
  "string \<Rightarrow> ('f, 'p) mutation \<Rightarrow> error + ('f, 'p) mutation" where
  "ResetCodeMutation_ClearEdge = mutation_ClearEdge ResetCode_schema"

definition ResetCodeMutation_ResetEdge ::
  "string \<Rightarrow> ('f, 'p) mutation \<Rightarrow> error + ('f, 'p) mutation" where
  "ResetCodeMutation_ResetEdge = mutation_ResetEdge ResetCode_schema"

definition ResetCode_Hooks :: "int \<Rightarrow> int \<Rightarrow> ('f, 'p) mutation \<Rightarrow> error + ('f, 'p) mutation" where
  "ResetCode_Hooks = time_hook ResetCode_schema"

section \<open>Role permission\<close>

definition RolePermission_schema :: entity_schema where
  "RolePermission_schema = \<lparr>en_type = ''RolePermission'',
    en_fields = [
      plain ''name'' ''Name'' GoString, plain ''view'' ''View'' GoBool, plain ''add'' ''Add'' GoBool,
      plain ''edit'' ''Edit'' GoBool, plain ''delete'' ''Delete'' GoBool, plain ''created_at'' ''CreatedAt'' GoTime,
      plain ''updated_at'' ''UpdatedAt'' GoTime],
    en_edges = [
      many ''user_role'']\<rparr>"

definition newRolePermissionMutation :: "mutation_op \<Rightarrow> ('f, 'p) mutation" where
  "newRolePermissionMutation = new_mutation RolePermission_schema"

definition withRolePermissionID :: "error + 'f ent_row \<Rightarrow> int \<Rightarrow> ('f, 'p) mutation \<Rightarrow> ('f, 'p) mutation" where
  "withRolePermissionID = with_id"

definition withRolePermission :: "'f ent_row \<Rightarrow> int \<Rightarrow> ('f, 'p) mutation \<Rightarrow> ('f, 'p) mutation" where
  "withRolePermission = with_node"

definition RolePermissionMutation_IDs :: "('p list \<Rightarrow> error + int list) \<Rightarrow> (mutation_op \<Rightarrow> string) \<Rightarrow> ('f, 'p) mutation \<Rightarrow> error + int list" where
  "RolePermissionMutation_IDs = mutation_IDs"

definition RolePermissionMutation_Name :: "(string, 'f :: plus, 'p) field_methods" where
  "RolePermissionMutation_Name = string_field RolePermission_schema ''name''"

definition RolePermissionMutation_View :: "(bool, 'f :: plus, 'p) field_methods" where
  "RolePermissionMutation_View = bool_field RolePermission_schema ''view''"

definition RolePermissionMutation_Add :: "(bool, 'f :: plus, 'p) field_methods" where
  "RolePermissionMutation_Add = bool_field RolePermission_schema ''add''"

definition RolePermissionMutation_Edit :: "(bool, 'f :: plus, 'p) field_methods" where
  "RolePermissionMutation_Edit = bool_field RolePermission_schema ''edit''"

definition RolePermissionMutation_Delete :: "(bool, 'f :: plus, 'p) field_methods" where
  "RolePermissionMutation_Delete = bool_field RolePermission_schema ''delete''"

definition RolePermissionMutation_CreatedAt :: "(int, 'f :: plus, 'p) field_methods" where
  "RolePermissionMutation_CreatedAt = time_field RolePermission_schema ''created_at''"

definition RolePermissionMutation_UpdatedAt :: "(int, 'f :: plus, 'p) field_methods" where
  "RolePermissionMutation_UpdatedAt = time_field RolePermission_schema ''updated_at''"

definition RolePermissionMutation_UserRole :: "('f, 'p) many_edge_methods" where
  "RolePermissionMutation_UserRole = many_edge RolePermission_schema ''user_role''"

definition RolePermissionMutation_Fields ::
  "('f, 'p) mutation \<Rightarrow> string list" where
  "RolePermissionMutation_Fields = mutation_Fields RolePermission_schema"

definition RolePermissionMutation_Field ::
  "string \<Rightarrow> ('f, 'p) mutation \<Rightarrow> 'f ent_value option" where
  "RolePermissionMutation_Field = mutation_Field RolePermission_schema"

definition RolePermissionMutation_OldField ::
  "string \<Rightarrow> ('f, 'p) mutation \<Rightarrow> (error + 'f ent_value) \<times> ('f, 'p) mutation" where
  "RolePermissionMutation_OldField = mutation_OldField RolePermission_schema"

definition RolePermissionMutation_SetField ::
  "string \<Rightarrow> 'f ent_value \<Rightarrow> ('f, 'p) mutation \<Rightarrow> error + ('f, 'p) mutation" where
  "RolePermissionMutation_SetField = mutation_SetField RolePermission_schema"

definition RolePermissionMutation_AddedFields ::
  "('f, 'p) mutation \<Rightarrow> string list" where
  "RolePermissionMutation_AddedFields = mutation_AddedFields RolePermission_schema"

definition RolePermissionMutation_AddedField ::
  "string \<Rightarrow> ('f, 'p) mutation \<Rightarrow> 'f ent_value option" where
  "RolePermissionMutation_AddedField = mutation_AddedField RolePermission_schema"

definition RolePermissionMutation_AddField ::
  "string \<Rightarrow> 'f ent_value \<Rightarrow> ('f :: plus, 'p) mutation \<Rightarrow> error + ('f, 'p) mutation" where
  "RolePermissionMutation_AddField = mutation_AddField RolePermission_schema"

definition RolePermissionMutation_ClearedFields ::
  "('f, 'p) mutation \<Rightarrow> string list" where
  "RolePermissionMutation_ClearedFields = mutation_ClearedFields RolePermission_schema"

definition RolePermissionMutation_FieldCleared ::
  "string \<Rightarrow> ('f, 'p) mutation \<Rightarrow> bool" where
  "RolePermissionMutation_FieldCleared = mutation_FieldCleared RolePermission_schema"

definition RolePermissionMutation_ClearField ::
  "string \<Rightarrow> ('f, 'p) mutation \<Rightarrow> error + ('f, 'p) mutation" where
  "RolePermissionMutation_ClearField = mutation_ClearField RolePermission_schema"

definition RolePermissionMutation_ResetField ::
  "string \<Rightarrow> ('f, 'p) mutation \<Rightarrow> error + ('f, 'p) mutation" where
  "RolePermissionMutation_ResetField = mutation_ResetField RolePermission_schema"

definition RolePermissionMutation_AddedEdges ::
  "('f, 'p) mutation \<Rightarrow> string list" where
  "RolePermissionMutation_AddedEdges = mutation_AddedEdges RolePermission_schema"

definition RolePermissionMutation_AddedIDs ::
  "string \<Rightarrow> ('f, 'p) mutation \<Rightarrow> int set" where
  "RolePermissionMutation_AddedIDs = mutation_AddedIDs RolePermission_schema"

definition RolePermissionMutation_RemovedEdges ::
  "('f, 'p) mutation \<Rightarrow> string list" where
  "RolePermissionMutation_RemovedEdges = mutation_RemovedEdges RolePermission_schema"

definition RolePermissionMutation_RemovedIDs ::
  "string \<Rightarrow> ('f, 'p) mutation \<Rightarrow> int set" where
  "RolePermissionMutation_RemovedIDs = mutation_RemovedIDs RolePermission_schema"

definition RolePermissionMutation_ClearedEdges ::
  "('f, 'p) mutation \<Rightarrow> string list" where
  "RolePermissionMutation_ClearedEdges = mutation_ClearedEdges RolePermission_schema"

definition RolePermissionMutation_EdgeCleared ::
  "string \<Rightarrow> ('f, 'p) mutation \<Rightarrow> bool" where
  "RolePermissionMutation_EdgeCleared = mutation_EdgeCleared RolePermission_schema"

definition RolePermissionMutation_ClearEdge ::
  "string \<Rightarrow> ('f, 'p) mutation \<Rightarrow> error + ('f, 'p) mutation" where
  "RolePermissionMutation_ClearEdge = mutation_ClearEdge RolePermission_schema"

definition RolePermissionMutation_ResetEdge ::
  "string \<Rightarrow> ('f, 'p) mutation \<Rightarrow> error + ('f, 'p) mutation" where
  "RolePermissionMutation_ResetEdge = mutation_ResetEdge RolePermission_schema"

definition RolePermission_Hooks :: "int \<Rightarrow> int \<Rightarrow> ('f, 'p) mutation \<Rightarrow> error + ('f, 'p) mutation" where
  "RolePermission_Hooks = time_hook RolePermission_schema"

section \<open>Second factor code\<close>

definition SecondFactorCode_schema :: entity_schema where
  "SecondFactorCode_schema = \<lparr>en_type = ''SecondFactorCode'',
    en_fields = [
      plain ''used'' ''Used'' GoBool, plain ''code'' ''Code'' GoString, plain ''created_at'' ''CreatedAt'' GoTime,
      plain ''updated_at'' ''UpdatedAt'' GoTime, plain ''expires_at'' ''ExpiresAt'' GoTime],
    en_edges = [
      one ''owner'', one ''target_user_device'']\<rparr>"

definition newSecondFactorCodeMutation :: "mutation_op \<Rightarrow> ('f, 'p) mutation" where
  "newSecondFactorCodeMutation = new_mutation SecondFactorCode_schema"

definition withSecondFactorCodeID :: "error + 'f ent_row \<Rightarrow> int \<Rightarrow> ('f, 'p) mutation \<Rightarrow> ('f, 'p) mutation" where
  "withSecondFactorCodeID = with_id"

definition withSecondFactorCode :: "'f ent_row \<Rightarrow> int \<Rightarrow> ('f, 'p) mutation \<Rightarrow> ('f, 'p) mutation" where
  "withSecondFactorCode = with_node"

definition SecondFactorCodeMutation_IDs :: "('p list \<Rightarrow> error + int list) \<Rightarrow> (mutation_op \<Rightarrow> string) \<Rightarrow> ('f, 'p) mutation \<Rightarrow> error + int list" where
  "SecondFactorCodeMutation_IDs = mutation_IDs"

definition SecondFactorCodeMutation_Used :: "(bool, 'f :: plus, 'p) field_methods" where
  "SecondFactorCodeMutation_Used = bool_field SecondFactorCode_schema ''used''"

definition SecondFactorCodeMutation_Code :: "(string, 'f :: plus, 'p) field_methods" where
  "SecondFactorCodeMutation_Code = string_field SecondFactorCode_schema ''code''"

definition SecondFactorCodeMutation_CreatedAt :: "(int, 'f :: plus, 'p) field_methods" where
  "SecondFactorCodeMutation_CreatedAt = time_field SecondFactorCode_schema ''created_at''"

definition SecondFactorCodeMutation_UpdatedAt :: "(int, 'f :: plus, 'p) field_methods" where
  "SecondFactorCodeMutation_UpdatedAt = time_field SecondFactorCode_schema ''updated_at''"

definition SecondFactorCodeMutation_ExpiresAt :: "(int, 'f :: plus, 'p) field_methods" where
  "SecondFactorCodeMutation_ExpiresAt = time_field SecondFactorCode_schema ''expires_at''"

definition SecondFactorCodeMutation_Owner :: "('f, 'p) unique_edge_methods" where
  "SecondFactorCodeMutation_Owner = unique_edge SecondFactorCode_schema ''owner''"

definition SecondFactorCodeMutation_TargetUserDevice :: "('f, 'p) unique_edge_methods" where
  "SecondFactorCodeMutation_TargetUserDevice = unique_edge SecondFactorCode_schema ''target_user_device''"

definition SecondFactorCodeMutation_Fields ::
  "('f, 'p) mutation \<Rightarrow> string list" where
  "SecondFactorCodeMutation_Fields = mutation_Fields SecondFactorCode_schema"

definition SecondFactorCodeMutation_Field ::
  "string \<Rightarrow> ('f, 'p) mutation \<Rightarrow> 'f ent_value option" where
  "SecondFactorCodeMutation_Field = mutation_Field SecondFactorCode_schema"

definition SecondFactorCodeMutation_OldField ::
  "string \<Rightarrow> ('f, 'p) mutation \<Rightarrow> (error + 'f ent_value) \<times> ('f, 'p) mutation" where
  "SecondFactorCodeMutation_OldField = mutation_OldField SecondFactorCode_schema"

definition SecondFactorCodeMutation_SetField ::
  "string \<Rightarrow> 'f ent_value \<Rightarrow> ('f, 'p) mutation \<Rightarrow> error + ('f, 'p) mutation" where
  "SecondFactorCodeMutation_SetField = mutation_SetField SecondFactorCode_schema"

definition SecondFactorCodeMutation_AddedFields ::
  "('f, 'p) mutation \<Rightarrow> string list" where
  "SecondFactorCodeMutation_AddedFields = mutation_AddedFields SecondFactorCode_schema"

definition SecondFactorCodeMutation_AddedField ::
  "string \<Rightarrow> ('f, 'p) mutation \<Rightarrow> 'f ent_value option" where
  "SecondFactorCodeMutation_AddedField = mutation_AddedField SecondFactorCode_schema"

definition SecondFactorCodeMutation_AddField ::
  "string \<Rightarrow> 'f ent_value \<Rightarrow> ('f :: plus, 'p) mutation \<Rightarrow> error + ('f, 'p) mutation" where
  "SecondFactorCodeMutation_AddField = mutation_AddField SecondFactorCode_schema"

definition SecondFactorCodeMutation_ClearedFields ::
  "('f, 'p) mutation \<Rightarrow> string list" where
  "SecondFactorCodeMutation_ClearedFields = mutation_ClearedFields SecondFactorCode_schema"

definition SecondFactorCodeMutation_FieldCleared ::
  "string \<Rightarrow> ('f, 'p) mutation \<Rightarrow> bool" where
  "SecondFactorCodeMutation_FieldCleared = mutation_FieldCleared SecondFactorCode_schema"

definition SecondFactorCodeMutation_ClearField ::
  "string \<Rightarrow> ('f, 'p) mutation \<Rightarrow> error + ('f, 'p) mutation" where
  "SecondFactorCodeMutation_ClearField = mutation_ClearField SecondFactorCode_schema"

definition SecondFactorCodeMutation_ResetField ::
  "string \<Rightarrow> ('f, 'p) mutation \<Rightarrow> error + ('f, 'p) mutation" where
  "SecondFactorCodeMutation_ResetField = mutation_ResetField SecondFactorCode_schema"

definition SecondFactorCodeMutation_AddedEdges ::
  "('f, 'p) mutation \<Rightarrow> string list" where
  "SecondFactorCodeMutation_AddedEdges = mutation_AddedEdges SecondFactorCode_schema"

definition SecondFactorCodeMutation_AddedIDs ::
  "string \<Rightarrow> ('f, 'p) mutation \<Rightarrow> int set" where
  "SecondFactorCodeMutation_AddedIDs = mutation_AddedIDs SecondFactorCode_schema"

definition SecondFactorCodeMutation_RemovedEdges ::
  "('f, 'p) mutation \<Rightarrow> string list" where
  "SecondFactorCodeMutation_RemovedEdges = mutation_RemovedEdges SecondFactorCode_schema"

definition SecondFactorCodeMutation_RemovedIDs ::
  "string \<Rightarrow> ('f, 'p) mutation \<Rightarrow> int set" where
  "SecondFactorCodeMutation_RemovedIDs = mutation_RemovedIDs SecondFactorCode_schema"

definition SecondFactorCodeMutation_ClearedEdges ::
  "('f, 'p) mutation \<Rightarrow> string list" where
  "SecondFactorCodeMutation_ClearedEdges = mutation_ClearedEdges SecondFactorCode_schema"

definition SecondFactorCodeMutation_EdgeCleared ::
  "string \<Rightarrow> ('f, 'p) mutation \<Rightarrow> bool" where
  "SecondFactorCodeMutation_EdgeCleared = mutation_EdgeCleared SecondFactorCode_schema"

definition SecondFactorCodeMutation_ClearEdge ::
  "string \<Rightarrow> ('f, 'p) mutation \<Rightarrow> error + ('f, 'p) mutation" where
  "SecondFactorCodeMutation_ClearEdge = mutation_ClearEdge SecondFactorCode_schema"

definition SecondFactorCodeMutation_ResetEdge ::
  "string \<Rightarrow> ('f, 'p) mutation \<Rightarrow> error + ('f, 'p) mutation" where
  "SecondFactorCodeMutation_ResetEdge = mutation_ResetEdge SecondFactorCode_schema"

definition SecondFactorCode_Hooks :: "int \<Rightarrow> int \<Rightarrow> ('f, 'p) mutation \<Rightarrow> error + ('f, 'p) mutation" where
  "SecondFactorCode_Hooks = time_hook SecondFactorCode_schema"

section \<open>User action\<close>

definition UserAction_schema :: entity_schema where
  "UserAction_schema = \<lparr>en_type = ''UserAction'',
    en_fields = [
      plain ''type'' ''Type'' GoString, plain ''action'' ''Action'' GoString, plain ''details'' ''Details'' GoString,
      plain ''created_at'' ''CreatedAt'' GoTime, plain ''updated_at'' ''UpdatedAt'' GoTime],
    en_edges = [
      many ''author'', many ''author_device'']\<rparr>"

definition newUserActionMutation :: "mutation_op \<Rightarrow> ('f, 'p) mutation" where
  "newUserActionMutation = new_mutation UserAction_schema"

definition withUserActionID :: "error + 'f ent_row \<Rightarrow> int \<Rightarrow> ('f, 'p) mutation \<Rightarrow> ('f, 'p) mutation" where
  "withUserActionID = with_id"

definition withUserAction :: "'f ent_row \<Rightarrow> int \<Rightarrow> ('f, 'p) mutation \<Rightarrow> ('f, 'p) mutation" where
  "withUserAction = with_node"

definition UserActionMutation_IDs :: "('p list \<Rightarrow> error + int list) \<Rightarrow> (mutation_op \<Rightarrow> string) \<Rightarrow> ('f, 'p) mutation \<Rightarrow> error + int list" where
  "UserActionMutation_IDs = mutation_IDs"

definition UserActionMutation_Type :: "(string, 'f :: plus, 'p) field_methods" where
  "UserActionMutation_Type = string_field UserAction_schema ''type''"

definition UserActionMutation_Action :: "(string, 'f :: plus, 'p) field_methods" where
  "UserActionMutation_Action = string_field UserAction_schema ''action''"

definition UserActionMutation_Details :: "(string, 'f :: plus, 'p) field_methods" where
  "UserActionMutation_Details = string_field UserAction_schema ''details''"

definition UserActionMutation_CreatedAt :: "(int, 'f :: plus, 'p) field_methods" where
  "UserActionMutation_CreatedAt = time_field UserAction_schema ''created_at''"

definition UserActionMutation_UpdatedAt :: "(int, 'f :: plus, 'p) field_methods" where
  "UserActionMutation_UpdatedAt = time_field UserAction_schema ''updated_at''"

definition UserActionMutation_Author :: "('f, 'p) many_edge_methods" where
  "UserActionMutation_Author = many_edge UserAction_schema ''author''"

definition UserActionMutation_AuthorDevice :: "('f, 'p) many_edge_methods" where
  "UserActionMutation_AuthorDevice = many_edge UserAction_schema ''author_device''"

definition UserActionMutation_Fields ::
  "('f, 'p) mutation \<Rightarrow> string list" where
  "UserActionMutation_Fields = mutation_Fields UserAction_schema"

definition UserActionMutation_Field ::
  "string \<Rightarrow> ('f, 'p) mutation \<Rightarrow> 'f ent_value option" where
  "UserActionMutation_Field = mutation_Field UserAction_schema"

definition UserActionMutation_OldField ::
  "string \<Rightarrow> ('f, 'p) mutation \<Rightarrow> (error + 'f ent_value) \<times> ('f, 'p) mutation" where
  "UserActionMutation_OldField = mutation_OldField UserAction_schema"

definition UserActionMutation_SetField ::
  "string \<Rightarrow> 'f ent_value \<Rightarrow> ('f, 'p) mutation \<Rightarrow> error + ('f, 'p) mutation" where
  "UserActionMutation_SetField = mutation_SetField UserAction_schema"

definition UserActionMutation_AddedFields ::
  "('f, 'p) mutation \<Rightarrow> string list" where
  "UserActionMutation_AddedFields = mutation_AddedFields UserAction_schema"

definition UserActionMutation_AddedField ::
  "string \<Rightarrow> ('f, 'p) mutation \<Rightarrow> 'f ent_value option" where
  "UserActionMutation_AddedField = mutation_AddedField UserAction_schema"

definition UserActionMutation_AddField ::
  "string \<Rightarrow> 'f ent_value \<Rightarrow> ('f :: plus, 'p) mutation \<Rightarrow> error + ('f, 'p) mutation" where
  "UserActionMutation_AddField = mutation_AddField UserAction_schema"

definition UserActionMutation_ClearedFields ::
  "('f, 'p) mutation \<Rightarrow> string list" where
  "UserActionMutation_ClearedFields = mutation_ClearedFields UserAction_schema"

definition UserActionMutation_FieldCleared ::
  "string \<Rightarrow> ('f, 'p) mutation \<Rightarrow> bool" where
  "UserActionMutation_FieldCleared = mutation_FieldCleared UserAction_schema"

definition UserActionMutation_ClearField ::
  "string \<Rightarrow> ('f, 'p) mutation \<Rightarrow> error + ('f, 'p) mutation" where
  "UserActionMutation_ClearField = mutation_ClearField UserAction_schema"

definition UserActionMutation_ResetField ::
  "string \<Rightarrow> ('f, 'p) mutation \<Rightarrow> error + ('f, 'p) mutation" where
  "UserActionMutation_ResetField = mutation_ResetField UserAction_schema"

definition UserActionMutation_AddedEdges ::
  "('f, 'p) mutation \<Rightarrow> string list" where
  "UserActionMutation_AddedEdges = mutation_AddedEdges UserAction_schema"

definition UserActionMutation_AddedIDs ::
  "string \<Rightarrow> ('f, 'p) mutation \<Rightarrow> int set" where
  "UserActionMutation_AddedIDs = mutation_AddedIDs UserAction_schema"

definition UserActionMutation_RemovedEdges ::
  "('f, 'p) mutation \<Rightarrow> string list" where
  "UserActionMutation_RemovedEdges = mutation_RemovedEdges UserAction_schema"

definition UserActionMutation_RemovedIDs ::
  "string \<Rightarrow> ('f, 'p) mutation \<Rightarrow> int set" where
  "UserActionMutation_RemovedIDs = mutation_RemovedIDs UserAction_schema"

definition UserActionMutation_ClearedEdges ::
  "('f, 'p) mutation \<Rightarrow> string list" where
  "UserActionMutation_ClearedEdges = mutation_ClearedEdges UserAction_schema"

definition UserActionMutation_EdgeCleared ::
  "string \<Rightarrow> ('f, 'p) mutation \<Rightarrow> bool" where
  "UserActionMutation_EdgeCleared = mutation_EdgeCleared UserAction_schema"

definition UserActionMutation_ClearEdge ::
  "string \<Rightarrow> ('f, 'p) mutation \<Rightarrow> error + ('f, 'p) mutation" where
  "UserActionMutation_ClearEdge = mutation_ClearEdge UserAction_schema"

definition UserActionMutation_ResetEdge ::
  "string \<Rightarrow> ('f, 'p) mutation \<Rightarrow> error + ('f, 'p) mutation" where
  "UserActionMutation_ResetEdge = mutation_ResetEdge UserAction_schema"

definition UserAction_Hooks :: "int \<Rightarrow> int \<Rightarrow> ('f, 'p) mutation \<Rightarrow> error + ('f, 'p) mutation" where
  "UserAction_Hooks = time_hook UserAction_schema"

section \<open>User role\<close>

definition UserRole_schema :: entity_schema where
  "UserRole_schema = \<lparr>en_type = ''UserRole'',
    en_fields = [
      plain ''name'' ''Name'' GoString, plain ''description'' ''Description'' GoString,
      plain ''created_at'' ''CreatedAt'' GoTime, plain ''updated_at'' ''UpdatedAt'' GoTime],
    en_edges = [
      many ''owner'', many ''permissions'']\<rparr>"

definition newUserRoleMutation :: "mutation_op \<Rightarrow> ('f, 'p) mutation" where
  "newUserRoleMutation = new_mutation UserRole_schema"

definition withUserRoleID :: "error + 'f ent_row \<Rightarrow> int \<Rightarrow> ('f, 'p) mutation \<Rightarrow> ('f, 'p) mutation" where
  "withUserRoleID = with_id"

definition withUserRole :: "'f ent_row \<Rightarrow> int \<Rightarrow> ('f, 'p) mutation \<Rightarrow> ('f, 'p) mutation" where
  "withUserRole = with_node"

definition UserRoleMutation_IDs :: "('p list \<Rightarrow> error + int list) \<Rightarrow> (mutation_op \<Rightarrow> string) \<Rightarrow> ('f, 'p) mutation \<Rightarrow> error + int list" where
  "UserRoleMutation_IDs = mutation_IDs"

definition UserRoleMutation_Name :: "(string, 'f :: plus, 'p) field_methods" where
  "UserRoleMutation_Name = string_field UserRole_schema ''name''"

definition UserRoleMutation_Description :: "(string, 'f :: plus, 'p) field_methods" where
  "UserRoleMutation_Description = string_field UserRole_schema ''description''"

definition UserRoleMutation_CreatedAt :: "(int, 'f :: plus, 'p) field_methods" where
  "UserRoleMutation_CreatedAt = time_field UserRole_schema ''created_at''"

definition UserRoleMutation_UpdatedAt :: "(int, 'f :: plus, 'p) field_methods" where
  "UserRoleMutation_UpdatedAt = time_field UserRole_schema ''updated_at''"

definition UserRoleMutation_Owner :: "('f, 'p) many_edge_methods" where
  "UserRoleMutation_Owner = many_edge UserRole_schema ''owner''"

definition UserRoleMutation_Permissions :: "('f, 'p) many_edge_methods" where
  "UserRoleMutation_Permissions = many_edge UserRole_schema ''permissions''"

definition UserRoleMutation_Fields ::
  "('f, 'p) mutation \<Rightarrow> string list" where
  "UserRoleMutation_Fields = mutation_Fields UserRole_schema"

definition UserRoleMutation_Field ::
  "string \<Rightarrow> ('f, 'p) mutation \<Rightarrow> 'f ent_value option" where
  "UserRoleMutation_Field = mutation_Field UserRole_schema"

definition UserRoleMutation_OldField ::
  "string \<Rightarrow> ('f, 'p) mutation \<Rightarrow> (error + 'f ent_value) \<times> ('f, 'p) mutation" where
  "UserRoleMutation_OldField = mutation_OldField UserRole_schema"

definition UserRoleMutation_SetField ::
  "string \<Rightarrow> 'f ent_value \<Rightarrow> ('f, 'p) mutation \<Rightarrow> error + ('f, 'p) mutation" where
  "UserRoleMutation_SetField = mutation_SetField UserRole_schema"

definition UserRoleMutation_AddedFields ::
  "('f, 'p) mutation \<Rightarrow> string list" where
  "UserRoleMutation_AddedFields = mutation_AddedFields UserRole_schema"

definition UserRoleMutation_AddedField ::
  "string \<Rightarrow> ('f, 'p) mutation \<Rightarrow> 'f ent_value option" where
  "UserRoleMutation_AddedField = mutation_AddedField UserRole_schema"

definition UserRoleMutation_AddField ::
  "string \<Rightarrow> 'f ent_value \<Rightarrow> ('f :: plus, 'p) mutation \<Rightarrow> error + ('f, 'p) mutation" where
  "UserRoleMutation_AddField = mutation_AddField UserRole_schema"

definition UserRoleMutation_ClearedFields ::
  "('f, 'p) mutation \<Rightarrow> string list" where
  "UserRoleMutation_ClearedFields = mutation_ClearedFields UserRole_schema"

definition UserRoleMutation_FieldCleared ::
  "string \<Rightarrow> ('f, 'p) mutation \<Rightarrow> bool" where
  "UserRoleMutation_FieldCleared = mutation_FieldCleared UserRole_schema"

definition UserRoleMutation_ClearField ::
  "string \<Rightarrow> ('f, 'p) mutation \<Rightarrow> error + ('f, 'p) mutation" where
  "UserRoleMutation_ClearField = mutation_ClearField UserRole_schema"

definition UserRoleMutation_ResetField ::
  "string \<Rightarrow> ('f, 'p) mutation \<Rightarrow> error + ('f, 'p) mutation" where
  "UserRoleMutation_ResetField = mutation_ResetField UserRole_schema"

definition UserRoleMutation_AddedEdges ::
  "('f, 'p) mutation \<Rightarrow> string list" where
  "UserRoleMutation_AddedEdges = mutation_AddedEdges UserRole_schema"

definition UserRoleMutation_AddedIDs ::
  "string \<Rightarrow> ('f, 'p) mutation \<Rightarrow> int set" where
  "UserRoleMutation_AddedIDs = mutation_AddedIDs UserRole_schema"

definition UserRoleMutation_RemovedEdges ::
  "('f, 'p) mutation \<Rightarrow> string list" where
  "UserRoleMutation_RemovedEdges = mutation_RemovedEdges UserRole_schema"

definition UserRoleMutation_RemovedIDs ::
  "string \<Rightarrow> ('f, 'p) mutation \<Rightarrow> int set" where
  "UserRoleMutation_RemovedIDs = mutation_RemovedIDs UserRole_schema"

definition UserRoleMutation_ClearedEdges ::
  "('f, 'p) mutation \<Rightarrow> string list" where
  "UserRoleMutation_ClearedEdges = mutation_ClearedEdges UserRole_schema"

definition UserRoleMutation_EdgeCleared ::
  "string \<Rightarrow> ('f, 'p) mutation \<Rightarrow> bool" where
  "UserRoleMutation_EdgeCleared = mutation_EdgeCleared UserRole_schema"

definition UserRoleMutation_ClearEdge ::
  "string \<Rightarrow> ('f, 'p) mutation \<Rightarrow> error + ('f, 'p) mutation" where
  "UserRoleMutation_ClearEdge = mutation_ClearEdge UserRole_schema"

definition UserRoleMutation_ResetEdge ::
  "string \<Rightarrow> ('f, 'p) mutation \<Rightarrow> error + ('f, 'p) mutation" where
  "UserRoleMutation_ResetEdge = mutation_ResetEdge UserRole_schema"

definition UserRole_Hooks :: "int \<Rightarrow> int \<Rightarrow> ('f, 'p) mutation \<Rightarrow> error + ('f, 'p) mutation" where
  "UserRole_Hooks = time_hook UserRole_schema"

section \<open>Verification code\<close>

definition VerificationCode_schema :: entity_schema where
  "VerificationCode_schema = \<lparr>en_type = ''VerificationCode'',
    en_fields = [
      plain ''code'' ''Code'' GoString, plain ''created_at'' ''CreatedAt'' GoTime,
      plain ''updated_at'' ''UpdatedAt'' GoTime, plain ''expires_at'' ''ExpiresAt'' GoTime],
    en_edges = [
      one ''owner'']\<rparr>"

definition newVerificationCodeMutation :: "mutation_op \<Rightarrow> ('f, 'p) mutation" where
  "newVerificationCodeMutation = new_mutation VerificationCode_schema"

definition withVerificationCodeID :: "error + 'f ent_row \<Rightarrow> int \<Rightarrow> ('f, 'p) mutation \<Rightarrow> ('f, 'p) mutation" where
  "withVerificationCodeID = with_id"

definition withVerificationCode :: "'f ent_row \<Rightarrow> int \<Rightarrow> ('f, 'p) mutation \<Rightarrow> ('f, 'p) mutation" where
  "withVerificationCode = with_node"

definition VerificationCodeMutation_IDs :: "('p list \<Rightarrow> error + int list) \<Rightarrow> (mutation_op \<Rightarrow> string) \<Rightarrow> ('f, 'p) mutation \<Rightarrow> error + int list" where
  "VerificationCodeMutation_IDs = mutation_IDs"

definition VerificationCodeMutation_Code :: "(string, 'f :: plus, 'p) field_methods" where
  "VerificationCodeMutation_Code = string_field VerificationCode_schema ''code''"

definition VerificationCodeMutation_CreatedAt :: "(int, 'f :: plus, 'p) field_methods" where
  "VerificationCodeMutation_CreatedAt = time_field VerificationCode_schema ''created_at''"

definition VerificationCodeMutation_UpdatedAt :: "(int, 'f :: plus, 'p) field_methods" where
  "VerificationCodeMutation_UpdatedAt = time_field VerificationCode_schema ''updated_at''"

definition VerificationCodeMutation_ExpiresAt :: "(int, 'f :: plus, 'p) field_methods" where
  "VerificationCodeMutation_ExpiresAt = time_field VerificationCode_schema ''expires_at''"

definition VerificationCodeMutation_Owner :: "('f, 'p) unique_edge_methods" where
  "VerificationCodeMutation_Owner = unique_edge VerificationCode_schema ''owner''"

definition VerificationCodeMutation_Fields ::
  "('f, 'p) mutation \<Rightarrow> string list" where
  "VerificationCodeMutation_Fields = mutation_Fields VerificationCode_schema"

definition VerificationCodeMutation_Field ::
  "string \<Rightarrow> ('f, 'p) mutation \<Rightarrow> 'f ent_value option" where
  "VerificationCodeMutation_Field = mutation_Field VerificationCode_schema"

definition VerificationCodeMutation_OldField ::
  "string \<Rightarrow> ('f, 'p) mutation \<Rightarrow> (error + 'f ent_value) \<times> ('f, 'p) mutation" where
  "VerificationCodeMutation_OldField = mutation_OldField VerificationCode_schema"

definition VerificationCodeMutation_SetField ::
  "string \<Rightarrow> 'f ent_value \<Rightarrow> ('f, 'p) mutation \<Rightarrow> error + ('f, 'p) mutation" where
  "VerificationCodeMutation_SetField = mutation_SetField VerificationCode_schema"

definition VerificationCodeMutation_AddedFields ::
  "('f, 'p) mutation \<Rightarrow> string list" where
  "VerificationCodeMutation_AddedFields = mutation_AddedFields VerificationCode_schema"

definition VerificationCodeMutation_AddedField ::
  "string \<Rightarrow> ('f, 'p) mutation \<Rightarrow> 'f ent_value option" where
  "VerificationCodeMutation_AddedField = mutation_AddedField VerificationCode_schema"

definition VerificationCodeMutation_AddField ::
  "string \<Rightarrow> 'f ent_value \<Rightarrow> ('f :: plus, 'p) mutation \<Rightarrow> error + ('f, 'p) mutation" where
  "VerificationCodeMutation_AddField = mutation_AddField VerificationCode_schema"

definition VerificationCodeMutation_ClearedFields ::
  "('f, 'p) mutation \<Rightarrow> string list" where
  "VerificationCodeMutation_ClearedFields = mutation_ClearedFields VerificationCode_schema"

definition VerificationCodeMutation_FieldCleared ::
  "string \<Rightarrow> ('f, 'p) mutation \<Rightarrow> bool" where
  "VerificationCodeMutation_FieldCleared = mutation_FieldCleared VerificationCode_schema"

definition VerificationCodeMutation_ClearField ::
  "string \<Rightarrow> ('f, 'p) mutation \<Rightarrow> error + ('f, 'p) mutation" where
  "VerificationCodeMutation_ClearField = mutation_ClearField VerificationCode_schema"

definition VerificationCodeMutation_ResetField ::
  "string \<Rightarrow> ('f, 'p) mutation \<Rightarrow> error + ('f, 'p) mutation" where
  "VerificationCodeMutation_ResetField = mutation_ResetField VerificationCode_schema"

definition VerificationCodeMutation_AddedEdges ::
  "('f, 'p) mutation \<Rightarrow> string list" where
  "VerificationCodeMutation_AddedEdges = mutation_AddedEdges VerificationCode_schema"

definition VerificationCodeMutation_AddedIDs ::
  "string \<Rightarrow> ('f, 'p) mutation \<Rightarrow> int set" where
  "VerificationCodeMutation_AddedIDs = mutation_AddedIDs VerificationCode_schema"

definition VerificationCodeMutation_RemovedEdges ::
  "('f, 'p) mutation \<Rightarrow> string list" where
  "VerificationCodeMutation_RemovedEdges = mutation_RemovedEdges VerificationCode_schema"

definition VerificationCodeMutation_RemovedIDs ::
  "string \<Rightarrow> ('f, 'p) mutation \<Rightarrow> int set" where
  "VerificationCodeMutation_RemovedIDs = mutation_RemovedIDs VerificationCode_schema"

definition VerificationCodeMutation_ClearedEdges ::
  "('f, 'p) mutation \<Rightarrow> string list" where
  "VerificationCodeMutation_ClearedEdges = mutation_ClearedEdges VerificationCode_schema"

definition VerificationCodeMutation_EdgeCleared ::
  "string \<Rightarrow> ('f, 'p) mutation \<Rightarrow> bool" where
  "VerificationCodeMutation_EdgeCleared = mutation_EdgeCleared VerificationCode_schema"

definition VerificationCodeMutation_ClearEdge ::
  "string \<Rightarrow> ('f, 'p) mutation \<Rightarrow> error + ('f, 'p) mutation" where
  "VerificationCodeMutation_ClearEdge = mutation_ClearEdge VerificationCode_schema"

definition VerificationCodeMutation_ResetEdge ::
  "string \<Rightarrow> ('f, 'p) mutation \<Rightarrow> error + ('f, 'p) mutation" where
  "VerificationCodeMutation_ResetEdge = mutation_ResetEdge VerificationCode_schema"

definition VerificationCode_Hooks :: "int \<Rightarrow> int \<Rightarrow> ('f, 'p) mutation \<Rightarrow> error + ('f, 'p) mutation" where
  "VerificationCode_Hooks = time_hook VerificationCode_schema"

section \<open>All entities\<close>

definition service_schemas :: "entity_schema list" where
  "service_schemas = [
    ActivationCode_schema, BlacklistedToken_schema, EntrepreneurDetails_schema, Location_schema, ResetCode_schema,
    RolePermission_schema, SecondFactorCode_schema, User_schema, UserAction_schema, UserDetails_schema,
    UserDevice_schema, UserRole_schema, UserSettings_schema, VerificationCode_schema]"

end
