(* ===== verification/Ent_Schema.thy ===== *)
theory Ent_Schema imports Prelude begin

text \<open>
  The schemas the program declares (models/ent/schema): the fields and the edges of every entity,
  with their options, and what the ent documentation says a schema stands for: the columns of its
  table, the relation of an edge, the table and the column that hold it. Theory Ent_Tables
  compares this with the generated migration and packages.
\<close>

section \<open>Declarations\<close>

datatype decl_type = DInt | DString | DText | DBool | DTime | DFloat | DInts | DStrings

text \<open>\<open>DefaultNow\<close> is the function \<open>time.Now\<close>, \<open>DefaultAfter\<close> a time computed when the process starts.\<close>

datatype default_value = DefaultFalse | DefaultNoInts | DefaultNow | DefaultAfter int

datatype field_option = Unique | Immutable | Optional | Nillable | NotEmpty | Positive | NonNegative |
  Default default_value | UpdateDefault default_value | Tag string

record field_decl =
  fd_type :: decl_type
  fd_name :: string
  fd_options :: "field_option list"

definition declare_field :: "decl_type \<Rightarrow> string \<Rightarrow> field_option list \<Rightarrow> field_decl" where
  "declare_field t name opts = \<lparr>fd_type = t, fd_name = name, fd_options = opts\<rparr>"

text \<open>\<open>edge.To\<close> owns the relation, \<open>edge.From\<close> with \<open>Ref\<close> is the back reference to it.\<close>

record edge_decl =
  ed_name :: string
  ed_type :: string
  ed_ref :: "string option"
  ed_unique :: bool
  ed_required :: bool

definition edge_To :: "string \<Rightarrow> string \<Rightarrow> bool \<Rightarrow> bool \<Rightarrow> edge_decl" where
  "edge_To name to unique required =
     \<lparr>ed_name = name, ed_type = to, ed_ref = None, ed_unique = unique, ed_required = required\<rparr>"

definition edge_From :: "string \<Rightarrow> string \<Rightarrow> string \<Rightarrow> bool \<Rightarrow> bool \<Rightarrow> edge_decl" where
  "edge_From name to ref unique required =
     \<lparr>ed_name = name, ed_type = to, ed_ref = Some ref, ed_unique = unique, ed_required = required\<rparr>"

record entity_decl =
  ey_name :: string
  ey_fields :: "field_decl list"
  ey_edges :: "edge_decl list"

definition declare_entity :: "string \<Rightarrow> field_decl list \<Rightarrow> edge_decl list \<Rightarrow> entity_decl" where
  "declare_entity name fs es = \<lparr>ey_name = name, ey_fields = fs, ey_edges = es\<rparr>"

section \<open>The schemas of the service\<close>

definition ActivationCode_Fields :: "field_decl list" where
  "ActivationCode_Fields = [
    declare_field DInt ''id'' [Tag ''id'', Unique, Immutable],
    declare_field DString ''code'' [Unique, NotEmpty, Tag ''code''],
    declare_field DBool ''used'' [Default DefaultFalse, Tag ''used''],
    declare_field DTime ''created_at'' [Immutable, Tag ''created_at''],
    declare_field DTime ''updated_at'' [Tag ''updated_at''],
    declare_field DTime ''expires_at'' [Tag ''expires_at'', Default (DefaultAfter (12 * 3600000000000))]]"

definition ActivationCode_Edges :: "edge_decl list" where
  "ActivationCode_Edges = [
    edge_From ''owner'' ''User'' ''activation_code'' True True]"

definition BlacklistedToken_Fields :: "field_decl list" where
  "BlacklistedToken_Fields = [
    declare_field DInt ''id'' [Tag ''id'', Unique, Immutable],
    declare_field DString ''token'' [NotEmpty, Tag ''token''],
    declare_field DTime ''created_at'' [Immutable, Tag ''created_at''],
    declare_field DTime ''updated_at'' [Tag ''updated_at''], declare_field DTime ''expires_at'' [Tag ''expires_at'']]"

definition BlacklistedToken_Edges :: "edge_decl list" where
  "BlacklistedToken_Edges = [
    edge_To ''owner'' ''User'' True False]"

definition EntrepreneurDetails_Fields :: "field_decl list" where
  "EntrepreneurDetails_Fields = [
    declare_field DInt ''id'' [Unique, Immutable, Tag ''id''],
    declare_field DString ''business_name'' [Optional, Tag ''business_name''],
    declare_field DString ''nip'' [Optional, Unique, Tag ''nip''],
    declare_field DString ''krs'' [Optional, Unique, Tag ''krs''],
    declare_field DText ''description'' [Nillable, Optional, Tag ''description''],
    declare_field DText ''offer'' [Nillable, Optional, Tag ''offer''],
    declare_field DFloat ''income'' [Optional, Positive, Tag ''income''],
    declare_field DFloat ''costs'' [Optional, Positive, Tag ''costs''],
    declare_field DFloat ''funding_capital'' [Optional, Nillable, Tag ''funding_capital''],
    declare_field DString ''industry'' [Optional, Tag ''industry''],
    declare_field DStrings ''management_council_members'' [Optional, Tag ''management_council_members''],
    declare_field DStrings ''decision_makers'' [Optional, Tag ''decision_makers''],
    declare_field DString ''business_phone_number'' [Optional, Tag ''business_phone_number''],
    declare_field DString ''business_mail'' [Optional, Nillable, Tag ''business_mail''],
    declare_field DString ''website_address'' [Optional, Nillable, Tag ''website_address''],
    declare_field DTime ''created_at'' [Immutable, Tag ''created_at''],
    declare_field DTime ''updated_at'' [Tag ''updated_at'']]"

definition EntrepreneurDetails_Edges :: "edge_decl list" where
  "EntrepreneurDetails_Edges = [
    edge_From ''user_details'' ''UserDetails'' ''entrepreneur_details'' True False]"

definition Location_Fields :: "field_decl list" where
  "Location_Fields = [
    declare_field DInt ''id'' [Tag ''id'', Unique, Immutable],
    declare_field DString ''country'' [NotEmpty, Tag ''country''],
    declare_field DString ''province'' [NotEmpty, Tag ''province''],
    declare_field DString ''city'' [NotEmpty, Tag ''city''],
    declare_field DString ''postal_code'' [NotEmpty, Tag ''postal_code''],
    declare_field DString ''street'' [Optional, Tag ''street''],
    declare_field DInt ''building_number'' [Positive, Tag ''building_number''],
    declare_field DInt ''apartment_number'' [NonNegative, Tag ''apartment_number''],
    declare_field DTime ''created_at'' [Immutable, Tag ''created_at''],
    declare_field DTime ''updated_at'' [Tag ''updated_at'']]"

definition Location_Edges :: "edge_decl list" where
  "Location_Edges = [
    edge_From ''user_details'' ''UserDetails'' ''locations'' True True]"

definition ResetCode_Fields :: "field_decl list" where
  "ResetCode_Fields = [
    declare_field DInt ''id'' [Tag ''id'', Unique, Immutable],
    declare_field DString ''code'' [Unique, NotEmpty, Tag ''code''],
    declare_field DTime ''created_at'' [Immutable, Tag ''created_at''],
    declare_field DTime ''updated_at'' [Tag ''updated_at''],
    declare_field DTime ''expires_at'' [Tag ''expires_at'', Default (DefaultAfter (1 * 3600000000000))]]"

definition ResetCode_Edges :: "edge_decl list" where
  "ResetCode_Edges = [
    edge_From ''owner'' ''User'' ''reset_code'' True True]"

definition RolePermission_Fields :: "field_decl list" where
  "RolePermission_Fields = [
    declare_field DInt ''id'' [Tag ''id'', Unique, Immutable], declare_field DString ''name'' [Unique, Tag ''name''],
    declare_field DBool ''view'' [Tag ''view''], declare_field DBool ''add'' [Tag ''add''],
    declare_field DBool ''edit'' [Tag ''edit''], declare_field DBool ''delete'' [Tag ''delete''],
    declare_field DTime ''created_at'' [Immutable, Tag ''created_at''],
    declare_field DTime ''updated_at'' [Tag ''updated_at'']]"

definition RolePermission_Edges :: "edge_decl list" where
  "RolePermission_Edges = [
    edge_To ''user_role'' ''UserRole'' False False]"

definition SecondFactorCode_Fields :: "field_decl list" where
  "SecondFactorCode_Fields = [
    declare_field DInt ''id'' [Tag ''id'', Unique, Immutable],
    declare_field DBool ''used'' [Default DefaultFalse, Tag ''used''],
    declare_field DString ''code'' [Unique, Tag ''code''],
    declare_field DTime ''created_at'' [Immutable, Tag ''created_at''],
    declare_field DTime ''updated_at'' [Tag ''updated_at''],
    declare_field DTime ''expires_at'' [Tag ''expires_at'', Default (DefaultAfter (5 * 60000000000))]]"

definition SecondFactorCode_Edges :: "edge_decl list" where
  "SecondFactorCode_Edges = [
    edge_From ''owner'' ''User'' ''second_factor_code'' True True,
    edge_To ''target_user_device'' ''UserDevice'' True True]"

definition User_Fields :: "field_decl list" where
  "User_Fields = [
    declare_field DInt ''id'' [Tag ''id'', Unique, Immutable],
    declare_field DString ''mail'' [NotEmpty, Unique, Tag ''mail''],
    declare_field DString ''phone'' [Optional, Unique, Tag ''phone''],
    declare_field DString ''password'' [Tag ''-'', NotEmpty, Unique],
    declare_field DBool ''active'' [Default DefaultFalse, Tag ''active''],
    declare_field DBool ''verified'' [Default DefaultFalse, Tag ''verified''],
    declare_field DBool ''blacklisted'' [Default DefaultFalse, Tag ''blacklisted''],
    declare_field DBool ''removed'' [Default DefaultFalse, Tag ''removed''],
    declare_field DTime ''created_at'' [Immutable, Tag ''created_at''],
    declare_field DTime ''updated_at'' [Tag ''updated_at''],
    declare_field DInts ''subscription_ids'' [Default DefaultNoInts, Tag ''subscription_ids''],
    declare_field DInts ''team_ids'' [Default DefaultNoInts, Tag ''team_ids''],
    declare_field DInts ''organization_ids'' [Default DefaultNoInts, Tag ''organization_ids'']]"

definition User_Edges :: "edge_decl list" where
  "User_Edges = [
    edge_To ''user_details'' ''UserDetails'' True False, edge_To ''user_settings'' ''UserSettings'' True False,
    edge_To ''activation_code'' ''ActivationCode'' True False,
    edge_To ''verification_code'' ''VerificationCode'' True False,
    edge_To ''second_factor_code'' ''SecondFactorCode'' True False, edge_To ''reset_code'' ''ResetCode'' True False,
    edge_To ''user_devices'' ''UserDevice'' False False, edge_To ''user_actions'' ''UserAction'' False False,
    edge_To ''user_roles'' ''UserRole'' False False,
    edge_From ''blacklisted_tokens'' ''BlacklistedToken'' ''owner'' False False]"

definition UserAction_Fields :: "field_decl list" where
  "UserAction_Fields = [
    declare_field DInt ''id'' [Tag ''id'', Unique, Immutable], declare_field DString ''type'' [Tag ''type''],
    declare_field DString ''action'' [Tag ''action''], declare_field DString ''details'' [Tag ''details''],
    declare_field DTime ''created_at'' [Immutable, Tag ''created_at''],
    declare_field DTime ''updated_at'' [Tag ''updated_at'']]"

definition UserAction_Edges :: "edge_decl list" where
  "UserAction_Edges = [
    edge_From ''author'' ''User'' ''user_actions'' False True,
    edge_From ''author_device'' ''UserDevice'' ''user_actions'' False True]"

definition UserDetails_Fields :: "field_decl list" where
  "UserDetails_Fields = [
    declare_field DInt ''id'' [Tag ''id'', Unique, Immutable],
    declare_field DString ''name'' [NotEmpty, Tag ''name''],
    declare_field DString ''first_name'' [Optional, Tag ''first_name''],
    declare_field DString ''last_name'' [Optional, Tag ''last_name''],
    declare_field DTime ''created_at'' [Immutable, Tag ''created_at''],
    declare_field DTime ''updated_at'' [Tag ''updated_at'']]"

definition UserDetails_Edges :: "edge_decl list" where
  "UserDetails_Edges = [
    edge_From ''owner'' ''User'' ''user_details'' True True, edge_To ''locations'' ''Location'' False False,
    edge_To ''entrepreneur_details'' ''EntrepreneurDetails'' True False]"

definition UserDevice_Fields :: "field_decl list" where
  "UserDevice_Fields = [
    declare_field DInt ''id'' [Tag ''id'', Unique, Immutable],
    declare_field DString ''name'' [Tag ''name'', Optional], declare_field DString ''type'' [Tag ''type'', Optional],
    declare_field DString ''token'' [Tag ''token'', NotEmpty],
    declare_field DString ''ip_address'' [Tag ''ip_address,omitempty'', Optional],
    declare_field DString ''user_agent'' [Tag ''user_agent,omitempty'', Optional],
    declare_field DString ''os_name'' [Tag ''os_name,omitempty'', Optional],
    declare_field DString ''os_version'' [Tag ''os_version,omitempty'', Optional],
    declare_field DString ''browser_name'' [Tag ''browser_name,omitempty'', Optional],
    declare_field DString ''browser_version'' [Tag ''browser_version,omitempty'', Optional],
    declare_field DTime ''last_seen_at'' [Tag ''last_seen_at'', Default DefaultNow, UpdateDefault DefaultNow],
    declare_field DTime ''created_at'' [Immutable, Tag ''created_at''],
    declare_field DTime ''updated_at'' [Tag ''updated_at'']]"

definition UserDevice_Edges :: "edge_decl list" where
  "UserDevice_Edges = [
    edge_From ''owner'' ''User'' ''user_devices'' True True,
    edge_From ''user_settings_2fa'' ''UserSettings'' ''second_factor_target'' True False,
    edge_From ''second_factor_codes'' ''SecondFactorCode'' ''target_user_device'' True False,
    edge_To ''user_actions'' ''UserAction'' False False]"

definition UserRole_Fields :: "field_decl list" where
  "UserRole_Fields = [
    declare_field DInt ''id'' [Tag ''id'', Unique, Immutable],
    declare_field DString ''name'' [Unique, NotEmpty, Tag ''name''],
    declare_field DText ''description'' [Tag ''description''],
    declare_field DTime ''created_at'' [Immutable, Tag ''created_at''],
    declare_field DTime ''updated_at'' [Tag ''updated_at'']]"

definition UserRole_Edges :: "edge_decl list" where
  "UserRole_Edges = [
    edge_From ''owner'' ''User'' ''user_roles'' False False,
    edge_From ''permissions'' ''RolePermission'' ''user_role'' False False]"

definition UserSettings_Fields :: "field_decl list" where
  "UserSettings_Fields = [
    declare_field DInt ''id'' [Tag ''id'', Unique, Immutable], declare_field DText ''UUID'' [NotEmpty, Tag ''uuid''],
    declare_field DBool ''two_factor'' [Default DefaultFalse, Tag ''two_factor''],
    declare_field DBool ''night_mode'' [Default DefaultFalse, Tag ''night_mode''],
    declare_field DTime ''created_at'' [Immutable, Tag ''created_at''],
    declare_field DTime ''updated_at'' [Tag ''updated_at'']]"

definition UserSettings_Edges :: "edge_decl list" where
  "UserSettings_Edges = [
    edge_From ''owner'' ''User'' ''user_settings'' True True,
    edge_To ''second_factor_target'' ''UserDevice'' True False,
    edge_To ''notification_target_devices'' ''UserDevice'' False False]"

definition VerificationCode_Fields :: "field_decl list" where
  "VerificationCode_Fields = [
    declare_field DInt ''id'' [Tag ''id'', Unique, Immutable],
    declare_field DString ''code'' [Unique, NotEmpty, Tag ''code''],
    declare_field DTime ''created_at'' [Tag ''created_at''], declare_field DTime ''updated_at'' [Tag ''updated_at''],
    declare_field DTime ''expires_at'' [Tag ''expires_at'', Default (DefaultAfter (1 * 3600000000000))]]"

definition VerificationCode_Edges :: "edge_decl list" where
  "VerificationCode_Edges = [
    edge_From ''owner'' ''User'' ''verification_code'' True True]"

definition service_decls :: "entity_decl list" where
  "service_decls = [
    declare_entity ''ActivationCode'' ActivationCode_Fields ActivationCode_Edges,
    declare_entity ''BlacklistedToken'' BlacklistedToken_Fields BlacklistedToken_Edges,
    declare_entity ''EntrepreneurDetails'' EntrepreneurDetails_Fields EntrepreneurDetails_Edges,
    declare_entity ''Location'' Location_Fields Location_Edges,
    declare_entity ''ResetCode'' ResetCode_Fields ResetCode_Edges,
    declare_entity ''RolePermission'' RolePermission_Fields RolePermission_Edges,
    declare_entity ''SecondFactorCode'' SecondFactorCode_Fields SecondFactorCode_Edges,
    declare_entity ''User'' User_Fields User_Edges, declare_entity ''UserAction'' UserAction_Fields UserAction_Edges,
    declare_entity ''UserDetails'' UserDetails_Fields UserDetails_Edges,
    declare_entity ''UserDevice'' UserDevice_Fields UserDevice_Edges,
    declare_entity ''UserRole'' UserRole_Fields UserRole_Edges,
    declare_entity ''UserSettings'' UserSettings_Fields UserSettings_Edges,
    declare_entity ''VerificationCode'' VerificationCode_Fields VerificationCode_Edges]"

section \<open>The layout a schema stands for\<close>

datatype column_type = TypeInt | TypeString | TypeBool | TypeTime | TypeFloat64 | TypeJSON

record table_column =
  co_name :: string
  co_type :: column_type
  co_unique :: bool
  co_nullable :: bool
  co_increment :: bool
  co_default_false :: bool
  co_size :: "int option"

datatype delete_action = NoAction | SetNull | Cascade

record foreign_key =
  fk_symbol :: string
  fk_column :: string
  fk_ref_table :: string
  fk_ref_column :: string
  fk_on_delete :: delete_action

record sql_table =
  tb_name :: string
  tb_columns :: "table_column list"
  tb_primary_key :: "string list"
  tb_foreign_keys :: "foreign_key list"

fun column_type_of :: "decl_type \<Rightarrow> column_type" where
  "column_type_of DInt = TypeInt"
| "column_type_of DString = TypeString"
| "column_type_of DText = TypeString"
| "column_type_of DBool = TypeBool"
| "column_type_of DTime = TypeTime"
| "column_type_of DFloat = TypeFloat64"
| "column_type_of DInts = TypeJSON"
| "column_type_of DStrings = TypeJSON"

definition has_option :: "field_option \<Rightarrow> field_decl \<Rightarrow> bool" where
  "has_option opt f = List.member (fd_options f) opt"

text \<open>A column is named after its field in lower case (\<open>UUID\<close> is the one name with capitals).\<close>

fun lower_char :: "char \<Rightarrow> char" where
  "lower_char (Char b0 b1 b2 b3 b4 b5 b6 b7) =
     (let letter = (b0 \<or> b1 \<or> b2 \<or> b3 \<or> b4) \<and> \<not> (b4 \<and> b3 \<and> (b2 \<or> b1 \<and> b0))
      in if b6 \<and> \<not> b5 \<and> \<not> b7 \<and> letter then Char b0 b1 b2 b3 b4 True b6 b7 else Char b0 b1 b2 b3 b4 b5 b6 b7)"

definition storage_name :: "field_decl \<Rightarrow> string" where
  "storage_name f = map lower_char (fd_name f)"

definition column_of :: "field_decl \<Rightarrow> table_column" where
  "column_of f = \<lparr>co_name = storage_name f, co_type = column_type_of (fd_type f),
     co_unique = (has_option Unique f \<and> fd_name f \<noteq> ''id''), co_nullable = has_option Optional f,
     co_increment = (fd_name f = ''id''), co_default_false = has_option (Default DefaultFalse) f,
     co_size = (if fd_type f = DText then Some 2147483647 else None)\<rparr>"

datatype relation = O2O | O2M | M2O | M2M

text \<open>The back reference to an edge of the entity A, if the other entity declares one.\<close>

definition inverse_of :: "entity_decl list \<Rightarrow> string \<Rightarrow> edge_decl \<Rightarrow> edge_decl option" where
  "inverse_of decls A e = (case find (\<lambda>d. ey_name d = ed_type e) decls of
      None \<Rightarrow> None
    | Some d \<Rightarrow> find (\<lambda>i. ed_ref i = Some (ed_name e) \<and> ed_type i = A) (ey_edges d))"

definition relation_of :: "entity_decl list \<Rightarrow> string \<Rightarrow> edge_decl \<Rightarrow> relation" where
  "relation_of decls A e = (let inv = inverse_of decls A e in
     if ed_unique e then (case inv of None \<Rightarrow> M2O | Some i \<Rightarrow> if ed_unique i then O2O else M2O)
     else (case inv of None \<Rightarrow> O2M | Some i \<Rightarrow> if ed_unique i then O2M else M2M))"

text \<open>
  How the entities are named: the label and the table of a type. The foreign key of an edge is
  called after the entity that owns the edge; it is nullable unless the end of the edge that
  stands on its table is required.
\<close>

record naming =
  nm_label :: "string \<Rightarrow> string"
  nm_table :: "string \<Rightarrow> string"

definition fk_nullable :: "entity_decl list \<Rightarrow> string \<Rightarrow> edge_decl \<Rightarrow> bool" where
  "fk_nullable decls A e = (if relation_of decls A e = M2O then \<not> ed_required e
     else (case inverse_of decls A e of None \<Rightarrow> True | Some i \<Rightarrow> \<not> ed_required i))"

text \<open>The relations of the schemas: the owner, the edge, its cardinality, whether the foreign key is nullable.\<close>

record relation_decl =
  re_owner :: string
  re_edge :: edge_decl
  re_kind :: relation
  re_nullable :: bool

definition relations :: "entity_decl list \<Rightarrow> relation_decl list" where
  "relations decls = concat (map (\<lambda>d. map (\<lambda>e. \<lparr>re_owner = ey_name d, re_edge = e,
     re_kind = relation_of decls (ey_name d) e, re_nullable = fk_nullable decls (ey_name d) e\<rparr>)
     (filter (\<lambda>e. ed_ref e = None) (ey_edges d))) decls)"

text \<open>The type whose table holds the foreign key of a relation.\<close>

definition holder :: "relation_decl \<Rightarrow> string option" where
  "holder r = (case re_kind r of M2M \<Rightarrow> None | M2O \<Rightarrow> Some (re_owner r) | _ \<Rightarrow> Some (ed_type (re_edge r)))"

definition relation_name :: "naming \<Rightarrow> relation_decl \<Rightarrow> string" where
  "relation_name nm r = nm_label nm (re_owner r) @ ''_'' @ ed_name (re_edge r)"

definition fk_column_of :: "naming \<Rightarrow> relation_decl \<Rightarrow> table_column" where
  "fk_column_of nm r = \<lparr>co_name = relation_name nm r, co_type = TypeInt, co_unique = (re_kind r = O2O),
     co_nullable = re_nullable r, co_increment = False, co_default_false = False, co_size = None\<rparr>"

definition fk_of :: "naming \<Rightarrow> string \<Rightarrow> relation_decl \<Rightarrow> foreign_key" where
  "fk_of nm B r = (let target = nm_table nm (if re_kind r = M2O then ed_type (re_edge r) else re_owner r) in
     \<lparr>fk_symbol = nm_table nm B @ ''_'' @ target @ ''_'' @ ed_name (re_edge r), fk_column = relation_name nm r,
      fk_ref_table = target, fk_ref_column = ''id'', fk_on_delete = (if re_nullable r then SetNull else NoAction)\<rparr>)"

definition entity_table :: "naming \<Rightarrow> relation_decl list \<Rightarrow> entity_decl \<Rightarrow> sql_table" where
  "entity_table nm rels d = (let held = filter (\<lambda>r. holder r = Some (ey_name d)) rels in
     \<lparr>tb_name = nm_table nm (ey_name d),
      tb_columns = map column_of (ey_fields d) @ map (fk_column_of nm) held,
      tb_primary_key = [''id''], tb_foreign_keys = map (fk_of nm (ey_name d)) held\<rparr>)"

definition int_column :: "string \<Rightarrow> table_column" where
  "int_column name = \<lparr>co_name = name, co_type = TypeInt, co_unique = False, co_nullable = False,
     co_increment = False, co_default_false = False, co_size = None\<rparr>"

definition join_columns :: "naming \<Rightarrow> relation_decl \<Rightarrow> string list" where
  "join_columns nm r = [nm_label nm (re_owner r) @ ''_id'', nm_label nm (ed_type (re_edge r)) @ ''_id'']"

definition join_table :: "naming \<Rightarrow> relation_decl \<Rightarrow> sql_table" where
  "join_table nm r = (let name = relation_name nm r; cols = join_columns nm r in
     \<lparr>tb_name = name, tb_columns = map int_column cols, tb_primary_key = cols,
      tb_foreign_keys = map (\<lambda>(c, B). \<lparr>fk_symbol = name @ ''_'' @ c, fk_column = c, fk_ref_table = nm_table nm B,
        fk_ref_column = ''id'', fk_on_delete = Cascade\<rparr>) (zip cols [re_owner r, ed_type (re_edge r)])\<rparr>)"

definition layout :: "naming \<Rightarrow> entity_decl list \<Rightarrow> sql_table list" where
  "layout nm decls = (let rels = relations decls in
     map (entity_table nm rels) decls @ map (join_table nm) (filter (\<lambda>r. re_kind r = M2M) rels))"

section \<open>The names of a schema in the generated packages\<close>

record package =
  pk_label :: string
  pk_table :: string
  pk_columns :: "string list"
  pk_foreign_keys :: "string list"
  pk_edges :: "string list"

text \<open>A step of a query along an edge: from a column to a column, over the table that holds the edge.\<close>

record step =
  sp_from :: "string \<times> string"
  sp_to :: "string \<times> string"
  sp_relation :: relation
  sp_inverse :: bool
  sp_table :: string
  sp_columns :: "string list"

definition package_of :: "naming \<Rightarrow> relation_decl list \<Rightarrow> entity_decl \<Rightarrow> package" where
  "package_of nm rels d = \<lparr>pk_label = nm_label nm (ey_name d), pk_table = nm_table nm (ey_name d),
     pk_columns = map storage_name (ey_fields d),
     pk_foreign_keys = map (relation_name nm) (filter (\<lambda>r. holder r = Some (ey_name d)) rels),
     pk_edges = map ed_name (ey_edges d)\<rparr>"

fun reverse_kind :: "relation \<Rightarrow> relation" where
  "reverse_kind O2O = O2O"
| "reverse_kind O2M = M2O"
| "reverse_kind M2O = O2M"
| "reverse_kind M2M = M2M"

text \<open>The relation an edge belongs to: the one it owns, or the one it refers back to.\<close>

definition relation_at :: "relation_decl list \<Rightarrow> string \<Rightarrow> edge_decl \<Rightarrow> relation_decl option" where
  "relation_at rels A e = (case ed_ref e of
      None \<Rightarrow> find (\<lambda>r. re_owner r = A \<and> ed_name (re_edge r) = ed_name e) rels
    | Some ref \<Rightarrow> find (\<lambda>r. re_owner r = ed_type e \<and> ed_name (re_edge r) = ref) rels)"

definition relation_columns :: "naming \<Rightarrow> relation_decl \<Rightarrow> string \<times> string list" where
  "relation_columns nm r = (case holder r of
      None \<Rightarrow> (relation_name nm r, join_columns nm r)
    | Some B \<Rightarrow> (nm_table nm B, [relation_name nm r]))"

definition step_of :: "naming \<Rightarrow> relation_decl list \<Rightarrow> string \<Rightarrow> edge_decl \<Rightarrow> step option" where
  "step_of nm rels A e = map_option (\<lambda>r. let back = (ed_ref e \<noteq> None) in
     \<lparr>sp_from = (nm_table nm A, ''id''), sp_to = (nm_table nm (ed_type e), ''id''),
      sp_relation = (if back then reverse_kind (re_kind r) else re_kind r), sp_inverse = back,
      sp_table = fst (relation_columns nm r), sp_columns = snd (relation_columns nm r)\<rparr>) (relation_at rels A e)"

definition steps_of :: "naming \<Rightarrow> relation_decl list \<Rightarrow> entity_decl \<Rightarrow> step option list" where
  "steps_of nm rels d = map (step_of nm rels (ey_name d)) (ey_edges d)"

end
