(* ===== verification/Ent_Tables.thy ===== *)
theory Ent_Tables imports Ent_Schema begin

text \<open>
  The generated description of the database: the tables of models/ent/migrate/schema.go, and the
  names, columns, join steps and orders in the package of each entity (models/ent/<entity>). The
  theorems show that they are the ones the schemas of the program stand for, so that the
  statements built from them address existing tables and columns.
\<close>

section \<open>The migration\<close>

datatype column_option = CUnique | CNullable | CIncrement | CDefaultFalse | CSize int

definition column :: "string \<Rightarrow> column_type \<Rightarrow> column_option list \<Rightarrow> table_column" where
  "column name t opts = \<lparr>co_name = name, co_type = t, co_unique = List.member opts CUnique,
     co_nullable = List.member opts CNullable, co_increment = List.member opts CIncrement,
     co_default_false = List.member opts CDefaultFalse,
     co_size = (if List.member opts (CSize 2147483647) then Some 2147483647 else None)\<rparr>"

definition references :: "string \<Rightarrow> string \<Rightarrow> string \<Rightarrow> string \<Rightarrow> delete_action \<Rightarrow> foreign_key" where
  "references symbol col ref_table ref_col on_delete = \<lparr>fk_symbol = symbol, fk_column = col,
     fk_ref_table = ref_table, fk_ref_column = ref_col, fk_on_delete = on_delete\<rparr>"

definition ActivationCodesTable :: sql_table where
  "ActivationCodesTable = \<lparr>tb_name = ''activation_codes'',
    tb_columns = [
      column ''id'' TypeInt [CIncrement], column ''code'' TypeString [CUnique],
      column ''used'' TypeBool [CDefaultFalse], column ''created_at'' TypeTime [], column ''updated_at'' TypeTime [],
      column ''expires_at'' TypeTime [], column ''user_activation_code'' TypeInt [CUnique]],
    tb_primary_key = [''id''],
    tb_foreign_keys = [
      references ''activation_codes_users_activation_code'' ''user_activation_code'' ''users'' ''id'' NoAction]\<rparr>"

definition BlacklistedTokensTable :: sql_table where
  "BlacklistedTokensTable = \<lparr>tb_name = ''blacklisted_tokens'',
    tb_columns = [
      column ''id'' TypeInt [CIncrement], column ''token'' TypeString [], column ''created_at'' TypeTime [],
      column ''updated_at'' TypeTime [], column ''expires_at'' TypeTime [],
      column ''blacklisted_token_owner'' TypeInt [CNullable]],
    tb_primary_key = [''id''],
    tb_foreign_keys = [
      references ''blacklisted_tokens_users_owner'' ''blacklisted_token_owner'' ''users'' ''id'' SetNull]\<rparr>"

definition EntrepreneurDetailsTable :: sql_table where
  "EntrepreneurDetailsTable = \<lparr>tb_name = ''entrepreneur_details'',
    tb_columns = [
      column ''id'' TypeInt [CIncrement], column ''business_name'' TypeString [CNullable],
      column ''nip'' TypeString [CUnique, CNullable], column ''krs'' TypeString [CUnique, CNullable],
      column ''description'' TypeString [CNullable, CSize 2147483647],
      column ''offer'' TypeString [CNullable, CSize 2147483647], column ''income'' TypeFloat64 [CNullable],
      column ''costs'' TypeFloat64 [CNullable], column ''funding_capital'' TypeFloat64 [CNullable],
      column ''industry'' TypeString [CNullable], column ''management_council_members'' TypeJSON [CNullable],
      column ''decision_makers'' TypeJSON [CNullable], column ''business_phone_number'' TypeString [CNullable],
      column ''business_mail'' TypeString [CNullable], column ''website_address'' TypeString [CNullable],
      column ''created_at'' TypeTime [], column ''updated_at'' TypeTime [],
      column ''user_details_entrepreneur_details'' TypeInt [CUnique, CNullable]],
    tb_primary_key = [''id''],
    tb_foreign_keys = [
      references ''entrepreneur_details_user_details_entrepreneur_details'' ''user_details_entrepreneur_details'' ''user_details'' ''id'' SetNull]\<rparr>"

definition LocationsTable :: sql_table where
  "LocationsTable = \<lparr>tb_name = ''locations'',
    tb_columns = [
      column ''id'' TypeInt [CIncrement], column ''country'' TypeString [], column ''province'' TypeString [],
      column ''city'' TypeString [], column ''postal_code'' TypeString [], column ''street'' TypeString [CNullable],
      column ''building_number'' TypeInt [], column ''apartment_number'' TypeInt [],
      column ''created_at'' TypeTime [], column ''updated_at'' TypeTime [],
      column ''user_details_locations'' TypeInt []],
    tb_primary_key = [''id''],
    tb_foreign_keys = [
      references ''locations_user_details_locations'' ''user_details_locations'' ''user_details'' ''id'' NoAction]\<rparr>"

definition ResetCodesTable :: sql_table where
  "ResetCodesTable = \<lparr>tb_name = ''reset_codes'',
    tb_columns = [
      column ''id'' TypeInt [CIncrement], column ''code'' TypeString [CUnique], column ''created_at'' TypeTime [],
      column ''updated_at'' TypeTime [], column ''expires_at'' TypeTime [],
      column ''user_reset_code'' TypeInt [CUnique]],
    tb_primary_key = [''id''],
    tb_foreign_keys = [
      references ''reset_codes_users_reset_code'' ''user_reset_code'' ''users'' ''id'' NoAction]\<rparr>"

definition RolePermissionsTable :: sql_table where
  "RolePermissionsTable = \<lparr>tb_name = ''role_permissions'',
    tb_columns = [
      column ''id'' TypeInt [CIncrement], column ''name'' TypeString [CUnique], column ''view'' TypeBool [],
      column ''add'' TypeBool [], column ''edit'' TypeBool [], column ''delete'' TypeBool [],
      column ''created_at'' TypeTime [], column ''updated_at'' TypeTime []],
    tb_primary_key = [''id''],
    tb_foreign_keys = []\<rparr>"

definition SecondFactorCodesTable :: sql_table where
  "SecondFactorCodesTable = \<lparr>tb_name = ''second_factor_codes'',
    tb_columns = [
      column ''id'' TypeInt [CIncrement], column ''used'' TypeBool [CDefaultFalse],
      column ''code'' TypeString [CUnique], column ''created_at'' TypeTime [], column ''updated_at'' TypeTime [],
      column ''expires_at'' TypeTime [], column ''user_second_factor_code'' TypeInt [CUnique]],
    tb_primary_key = [''id''],
    tb_foreign_keys = [
      references ''second_factor_codes_users_second_factor_code'' ''user_second_factor_code'' ''users'' ''id'' NoAction]\<rparr>"

definition UsersTable :: sql_table where
  "UsersTable = \<lparr>tb_name = ''users'',
    tb_columns = [
      column ''id'' TypeInt [CIncrement], column ''mail'' TypeString [CUnique],
      column ''phone'' TypeString [CUnique, CNullable], column ''password'' TypeString [CUnique],
      column ''active'' TypeBool [CDefaultFalse], column ''verified'' TypeBool [CDefaultFalse],
      column ''blacklisted'' TypeBool [CDefaultFalse], column ''removed'' TypeBool [CDefaultFalse],
      column ''created_at'' TypeTime [], column ''updated_at'' TypeTime [], column ''subscription_ids'' TypeJSON [],
      column ''team_ids'' TypeJSON [], column ''organization_ids'' TypeJSON []],
    tb_primary_key = [''id''],
    tb_foreign_keys = []\<rparr>"

definition UserActionsTable :: sql_table where
  "UserActionsTable = \<lparr>tb_name = ''user_actions'',
    tb_columns = [
      column ''id'' TypeInt [CIncrement], column ''type'' TypeString [], column ''action'' TypeString [],
      column ''details'' TypeString [], column ''created_at'' TypeTime [], column ''updated_at'' TypeTime []],
    tb_primary_key = [''id''],
    tb_foreign_keys = []\<rparr>"

definition UserDetailsTable :: sql_table where
  "UserDetailsTable = \<lparr>tb_name = ''user_details'',
    tb_columns = [
      column ''id'' TypeInt [CIncrement], column ''name'' TypeString [],
      column ''first_name'' TypeString [CNullable], column ''last_name'' TypeString [CNullable],
      column ''created_at'' TypeTime [], column ''updated_at'' TypeTime [],
      column ''user_user_details'' TypeInt [CUnique]],
    tb_primary_key = [''id''],
    tb_foreign_keys = [
      references ''user_details_users_user_details'' ''user_user_details'' ''users'' ''id'' NoAction]\<rparr>"

definition UserDevicesTable :: sql_table where
  "UserDevicesTable = \<lparr>tb_name = ''user_devices'',
    tb_columns = [
      column ''id'' TypeInt [CIncrement], column ''name'' TypeString [CNullable],
      column ''type'' TypeString [CNullable], column ''token'' TypeString [],
      column ''ip_address'' TypeString [CNullable], column ''user_agent'' TypeString [CNullable],
      column ''os_name'' TypeString [CNullable], column ''os_version'' TypeString [CNullable],
      column ''browser_name'' TypeString [CNullable], column ''browser_version'' TypeString [CNullable],
      column ''last_seen_at'' TypeTime [], column ''created_at'' TypeTime [], column ''updated_at'' TypeTime [],
      column ''second_factor_code_target_user_device'' TypeInt [CUnique, CNullable],
      column ''user_user_devices'' TypeInt [],
      column ''user_settings_second_factor_target'' TypeInt [CUnique, CNullable],
      column ''user_settings_notification_target_devices'' TypeInt [CNullable]],
    tb_primary_key = [''id''],
    tb_foreign_keys = [
      references ''user_devices_second_factor_codes_target_user_device'' ''second_factor_code_target_user_device'' ''second_factor_codes'' ''id'' SetNull,
      references ''user_devices_users_user_devices'' ''user_user_devices'' ''users'' ''id'' NoAction,
      references ''user_devices_user_settings_second_factor_target'' ''user_settings_second_factor_target'' ''user_settings'' ''id'' SetNull,
      references ''user_devices_user_settings_notification_target_devices'' ''user_settings_notification_target_devices'' ''user_settings'' ''id'' SetNull]\<rparr>"

definition UserRolesTable :: sql_table where
  "UserRolesTable = \<lparr>tb_name = ''user_roles'',
    tb_columns = [
      column ''id'' TypeInt [CIncrement], column ''name'' TypeString [CUnique],
      column ''description'' TypeString [CSize 2147483647], column ''created_at'' TypeTime [],
      column ''updated_at'' TypeTime []],
    tb_primary_key = [''id''],
    tb_foreign_keys = []\<rparr>"

definition UserSettingsTable :: sql_table where
  "UserSettingsTable = \<lparr>tb_name = ''user_settings'',
    tb_columns = [
      column ''id'' TypeInt [CIncrement], column ''uuid'' TypeString [CSize 2147483647],
      column ''two_factor'' TypeBool [CDefaultFalse], column ''night_mode'' TypeBool [CDefaultFalse],
      column ''created_at'' TypeTime [], column ''updated_at'' TypeTime [],
      column ''user_user_settings'' TypeInt [CUnique]],
    tb_primary_key = [''id''],
    tb_foreign_keys = [
      references ''user_settings_users_user_settings'' ''user_user_settings'' ''users'' ''id'' NoAction]\<rparr>"

definition VerificationCodesTable :: sql_table where
  "VerificationCodesTable = \<lparr>tb_name = ''verification_codes'',
    tb_columns = [
      column ''id'' TypeInt [CIncrement], column ''code'' TypeString [CUnique], column ''created_at'' TypeTime [],
      column ''updated_at'' TypeTime [], column ''expires_at'' TypeTime [],
      column ''user_verification_code'' TypeInt [CUnique]],
    tb_primary_key = [''id''],
    tb_foreign_keys = [
      references ''verification_codes_users_verification_code'' ''user_verification_code'' ''users'' ''id'' NoAction]\<rparr>"

definition RolePermissionUserRoleTable :: sql_table where
  "RolePermissionUserRoleTable = \<lparr>tb_name = ''role_permission_user_role'',
    tb_columns = [
      column ''role_permission_id'' TypeInt [], column ''user_role_id'' TypeInt []],
    tb_primary_key = [''role_permission_id'', ''user_role_id''],
    tb_foreign_keys = [
      references ''role_permission_user_role_role_permission_id'' ''role_permission_id'' ''role_permissions'' ''id'' Cascade,
      references ''role_permission_user_role_user_role_id'' ''user_role_id'' ''user_roles'' ''id'' Cascade]\<rparr>"

definition UserUserActionsTable :: sql_table where
  "UserUserActionsTable = \<lparr>tb_name = ''user_user_actions'',
    tb_columns = [
      column ''user_id'' TypeInt [], column ''user_action_id'' TypeInt []],
    tb_primary_key = [''user_id'', ''user_action_id''],
    tb_foreign_keys = [
      references ''user_user_actions_user_id'' ''user_id'' ''users'' ''id'' Cascade,
      references ''user_user_actions_user_action_id'' ''user_action_id'' ''user_actions'' ''id'' Cascade]\<rparr>"

definition UserUserRolesTable :: sql_table where
  "UserUserRolesTable = \<lparr>tb_name = ''user_user_roles'',
    tb_columns = [
      column ''user_id'' TypeInt [], column ''user_role_id'' TypeInt []],
    tb_primary_key = [''user_id'', ''user_role_id''],
    tb_foreign_keys = [
      references ''user_user_roles_user_id'' ''user_id'' ''users'' ''id'' Cascade,
      references ''user_user_roles_user_role_id'' ''user_role_id'' ''user_roles'' ''id'' Cascade]\<rparr>"

definition UserDeviceUserActionsTable :: sql_table where
  "UserDeviceUserActionsTable = \<lparr>tb_name = ''user_device_user_actions'',
    tb_columns = [
      column ''user_device_id'' TypeInt [], column ''user_action_id'' TypeInt []],
    tb_primary_key = [''user_device_id'', ''user_action_id''],
    tb_foreign_keys = [
      references ''user_device_user_actions_user_device_id'' ''user_device_id'' ''user_devices'' ''id'' Cascade,
      references ''user_device_user_actions_user_action_id'' ''user_action_id'' ''user_actions'' ''id'' Cascade]\<rparr>"

definition migration :: "sql_table list" where
  "migration = [
    ActivationCodesTable, BlacklistedTokensTable, EntrepreneurDetailsTable, LocationsTable, ResetCodesTable,
    RolePermissionsTable, SecondFactorCodesTable, UsersTable, UserActionsTable, UserDetailsTable, UserDevicesTable,
    UserRolesTable, UserSettingsTable, VerificationCodesTable, RolePermissionUserRoleTable, UserUserActionsTable,
    UserUserRolesTable, UserDeviceUserActionsTable]"

section \<open>The packages of the entities\<close>

definition NewStep ::
  "string \<Rightarrow> string \<Rightarrow> string \<Rightarrow> string \<Rightarrow> relation \<Rightarrow> bool \<Rightarrow> string \<Rightarrow> string list \<Rightarrow> step" where
  "NewStep ft fc tt tc rel back tbl cols = \<lparr>sp_from = (ft, fc), sp_to = (tt, tc), sp_relation = rel,
     sp_inverse = back, sp_table = tbl, sp_columns = cols\<rparr>"

text \<open>The order options: by a column, or by a field, by terms or by the number of neighbours.\<close>

datatype order_term = OrderByField string | OrderByNeighborField step | OrderByNeighborTerms step |
  OrderByNeighborsCount step

definition activationcode_package :: package where
  "activationcode_package = \<lparr>pk_label = ''activation_code'', pk_table = ''activation_codes'',
    pk_columns = [
      ''id'', ''code'', ''used'', ''created_at'', ''updated_at'', ''expires_at''],
    pk_foreign_keys = [''user_activation_code''],
    pk_edges = [
      ''owner'']\<rparr>"

definition activationcode_ValidColumn :: "string \<Rightarrow> bool" where
  "activationcode_ValidColumn c = (List.member (pk_columns activationcode_package) c \<or>
     List.member (pk_foreign_keys activationcode_package) c)"

definition activationcode_newOwnerStep :: step where
  "activationcode_newOwnerStep = NewStep ''activation_codes'' ''id'' ''users'' ''id'' O2O True
     ''activation_codes'' [''user_activation_code'']"

definition activationcode_orders :: "(string \<times> order_term) list" where
  "activationcode_orders = [
    (''ByID'', OrderByField ''id''), (''ByCode'', OrderByField ''code''), (''ByUsed'', OrderByField ''used''),
    (''ByCreatedAt'', OrderByField ''created_at''), (''ByUpdatedAt'', OrderByField ''updated_at''),
    (''ByExpiresAt'', OrderByField ''expires_at''),
    (''ByOwnerField'', OrderByNeighborField activationcode_newOwnerStep)]"

definition blacklistedtoken_package :: package where
  "blacklistedtoken_package = \<lparr>pk_label = ''blacklisted_token'', pk_table = ''blacklisted_tokens'',
    pk_columns = [
      ''id'', ''token'', ''created_at'', ''updated_at'', ''expires_at''],
    pk_foreign_keys = [''blacklisted_token_owner''],
    pk_edges = [
      ''owner'']\<rparr>"

definition blacklistedtoken_ValidColumn :: "string \<Rightarrow> bool" where
  "blacklistedtoken_ValidColumn c = (List.member (pk_columns blacklistedtoken_package) c \<or>
     List.member (pk_foreign_keys blacklistedtoken_package) c)"

definition blacklistedtoken_newOwnerStep :: step where
  "blacklistedtoken_newOwnerStep = NewStep ''blacklisted_tokens'' ''id'' ''users'' ''id'' M2O False
     ''blacklisted_tokens'' [''blacklisted_token_owner'']"

definition blacklistedtoken_orders :: "(string \<times> order_term) list" where
  "blacklistedtoken_orders = [
    (''ByID'', OrderByField ''id''), (''ByToken'', OrderByField ''token''),
    (''ByCreatedAt'', OrderByField ''created_at''), (''ByUpdatedAt'', OrderByField ''updated_at''),
    (''ByExpiresAt'', OrderByField ''expires_at''),
    (''ByOwnerField'', OrderByNeighborField blacklistedtoken_newOwnerStep)]"

definition entrepreneurdetails_package :: package where
  "entrepreneurdetails_package = \<lparr>pk_label = ''entrepreneur_details'', pk_table = ''entrepreneur_details'',
    pk_columns = [
      ''id'', ''business_name'', ''nip'', ''krs'', ''description'', ''offer'', ''income'', ''costs'',
      ''funding_capital'', ''industry'', ''management_council_members'', ''decision_makers'',
      ''business_phone_number'', ''business_mail'', ''website_address'', ''created_at'', ''updated_at''],
    pk_foreign_keys = [''user_details_entrepreneur_details''],
    pk_edges = [
      ''user_details'']\<rparr>"

definition entrepreneurdetails_ValidColumn :: "string \<Rightarrow> bool" where
  "entrepreneurdetails_ValidColumn c = (List.member (pk_columns entrepreneurdetails_package) c \<or>
     List.member (pk_foreign_keys entrepreneurdetails_package) c)"

definition entrepreneurdetails_newUserDetailsStep :: step where
  "entrepreneurdetails_newUserDetailsStep = NewStep ''entrepreneur_details'' ''id'' ''user_details'' ''id'' O2O True
     ''entrepreneur_details'' [''user_details_entrepreneur_details'']"

definition entrepreneurdetails_orders :: "(string \<times> order_term) list" where
  "entrepreneurdetails_orders = [
    (''ByID'', OrderByField ''id''), (''ByBusinessName'', OrderByField ''business_name''),
    (''ByNip'', OrderByField ''nip''), (''ByKrs'', OrderByField ''krs''),
    (''ByDescription'', OrderByField ''description''), (''ByOffer'', OrderByField ''offer''),
    (''ByIncome'', OrderByField ''income''), (''ByCosts'', OrderByField ''costs''),
    (''ByFundingCapital'', OrderByField ''funding_capital''), (''ByIndustry'', OrderByField ''industry''),
    (''ByBusinessPhoneNumber'', OrderByField ''business_phone_number''),
    (''ByBusinessMail'', OrderByField ''business_mail''), (''ByWebsiteAddress'', OrderByField ''website_address''),
    (''ByCreatedAt'', OrderByField ''created_at''), (''ByUpdatedAt'', OrderByField ''updated_at''),
    (''ByUserDetailsField'', OrderByNeighborField entrepreneurdetails_newUserDetailsStep)]"

definition location_package :: package where
  "location_package = \<lparr>pk_label = ''location'', pk_table = ''locations'',
    pk_columns = [
      ''id'', ''country'', ''province'', ''city'', ''postal_code'', ''street'', ''building_number'',
      ''apartment_number'', ''created_at'', ''updated_at''],
    pk_foreign_keys = [''user_details_locations''],
    pk_edges = [
      ''user_details'']\<rparr>"

definition location_ValidColumn :: "string \<Rightarrow> bool" where
  "location_ValidColumn c = (List.member (pk_columns location_package) c \<or>
     List.member (pk_foreign_keys location_package) c)"

definition location_newUserDetailsStep :: step where
  "location_newUserDetailsStep = NewStep ''locations'' ''id'' ''user_details'' ''id'' M2O True
     ''locations'' [''user_details_locations'']"

definition location_orders :: "(string \<times> order_term) list" where
  "location_orders = [
    (''ByID'', OrderByField ''id''), (''ByCountry'', OrderByField ''country''),
    (''ByProvince'', OrderByField ''province''), (''ByCity'', OrderByField ''city''),
    (''ByPostalCode'', OrderByField ''postal_code''), (''ByStreet'', OrderByField ''street''),
    (''ByBuildingNumber'', OrderByField ''building_number''),
    (''ByApartmentNumber'', OrderByField ''apartment_number''), (''ByCreatedAt'', OrderByField ''created_at''),
    (''ByUpdatedAt'', OrderByField ''updated_at''),
    (''ByUserDetailsField'', OrderByNeighborField location_newUserDetailsStep)]"

definition resetcode_package :: package where
  "resetcode_package = \<lparr>pk_label = ''reset_code'', pk_table = ''reset_codes'',
    pk_columns = [
      ''id'', ''code'', ''created_at'', ''updated_at'', ''expires_at''],
    pk_foreign_keys = [''user_reset_code''],
    pk_edges = [
      ''owner'']\<rparr>"

definition resetcode_ValidColumn :: "string \<Rightarrow> bool" where
  "resetcode_ValidColumn c = (List.member (pk_columns resetcode_package) c \<or>
     List.member (pk_foreign_keys resetcode_package) c)"

definition resetcode_newOwnerStep :: step where
  "resetcode_newOwnerStep = NewStep ''reset_codes'' ''id'' ''users'' ''id'' O2O True
     ''reset_codes'' [''user_reset_code'']"

definition resetcode_orders :: "(string \<times> order_term) list" where
  "resetcode_orders = [
    (''ByID'', OrderByField ''id''), (''ByCode'', OrderByField ''code''),
    (''ByCreatedAt'', OrderByField ''created_at''), (''ByUpdatedAt'', OrderByField ''updated_at''),
    (''ByExpiresAt'', OrderByField ''expires_at''), (''ByOwnerField'', OrderByNeighborField resetcode_newOwnerStep)]"

definition rolepermission_package :: package where
  "rolepermission_package = \<lparr>pk_label = ''role_permission'', pk_table = ''role_permissions'',
    pk_columns = [
      ''id'', ''name'', ''view'', ''add'', ''edit'', ''delete'', ''created_at'', ''updated_at''],
    pk_foreign_keys = [],
    pk_edges = [
      ''user_role'']\<rparr>"

definition rolepermission_ValidColumn :: "string \<Rightarrow> bool" where
  "rolepermission_ValidColumn c = (List.member (pk_columns rolepermission_package) c)"

definition rolepermission_newUserRoleStep :: step where
  "rolepermission_newUserRoleStep = NewStep ''role_permissions'' ''id'' ''user_roles'' ''id'' M2M False
     ''role_permission_user_role'' [''role_permission_id'', ''user_role_id'']"

definition rolepermission_orders :: "(string \<times> order_term) list" where
  "rolepermission_orders = [
    (''ByID'', OrderByField ''id''), (''ByName'', OrderByField ''name''), (''ByView'', OrderByField ''view''),
    (''ByAdd'', OrderByField ''add''), (''ByEdit'', OrderByField ''edit''), (''ByDelete'', OrderByField ''delete''),
    (''ByCreatedAt'', OrderByField ''created_at''), (''ByUpdatedAt'', OrderByField ''updated_at''),
    (''ByUserRoleCount'', OrderByNeighborsCount rolepermission_newUserRoleStep),
    (''ByUserRole'', OrderByNeighborTerms rolepermission_newUserRoleStep)]"

definition secondfactorcode_package :: package where
  "secondfactorcode_package = \<lparr>pk_label = ''second_factor_code'', pk_table = ''second_factor_codes'',
    pk_columns = [
      ''id'', ''used'', ''code'', ''created_at'', ''updated_at'', ''expires_at''],
    pk_foreign_keys = [''user_second_factor_code''],
    pk_edges = [
      ''owner'', ''target_user_device'']\<rparr>"

definition secondfactorcode_ValidColumn :: "string \<Rightarrow> bool" where
  "secondfactorcode_ValidColumn c = (List.member (pk_columns secondfactorcode_package) c \<or>
     List.member (pk_foreign_keys secondfactorcode_package) c)"

definition secondfactorcode_newOwnerStep :: step where
  "secondfactorcode_newOwnerStep = NewStep ''second_factor_codes'' ''id'' ''users'' ''id'' O2O True
     ''second_factor_codes'' [''user_second_factor_code'']"

definition secondfactorcode_newTargetUserDeviceStep :: step where
  "secondfactorcode_newTargetUserDeviceStep = NewStep ''second_factor_codes'' ''id'' ''user_devices'' ''id'' O2O False
     ''user_devices'' [''second_factor_code_target_user_device'']"

definition secondfactorcode_orders :: "(string \<times> order_term) list" where
  "secondfactorcode_orders = [
    (''ByID'', OrderByField ''id''), (''ByUsed'', OrderByField ''used''), (''ByCode'', OrderByField ''code''),
    (''ByCreatedAt'', OrderByField ''created_at''), (''ByUpdatedAt'', OrderByField ''updated_at''),
    (''ByExpiresAt'', OrderByField ''expires_at''),
    (''ByOwnerField'', OrderByNeighborField secondfactorcode_newOwnerStep),
    (''ByTargetUserDeviceField'', OrderByNeighborField secondfactorcode_newTargetUserDeviceStep)]"

definition user_package :: package where
  "user_package = \<lparr>pk_label = ''user'', pk_table = ''users'',
    pk_columns = [
      ''id'', ''mail'', ''phone'', ''password'', ''active'', ''verified'', ''blacklisted'', ''removed'',
      ''created_at'', ''updated_at'', ''subscription_ids'', ''team_ids'', ''organization_ids''],
    pk_foreign_keys = [],
    pk_edges = [
      ''user_details'', ''user_settings'', ''activation_code'', ''verification_code'', ''second_factor_code'',
      ''reset_code'', ''user_devices'', ''user_actions'', ''user_roles'', ''blacklisted_tokens'']\<rparr>"

definition user_ValidColumn :: "string \<Rightarrow> bool" where
  "user_ValidColumn c = (List.member (pk_columns user_package) c)"

definition user_newUserDetailsStep :: step where
  "user_newUserDetailsStep = NewStep ''users'' ''id'' ''user_details'' ''id'' O2O False
     ''user_details'' [''user_user_details'']"

definition user_newUserSettingsStep :: step where
  "user_newUserSettingsStep = NewStep ''users'' ''id'' ''user_settings'' ''id'' O2O False
     ''user_settings'' [''user_user_settings'']"

definition user_newActivationCodeStep :: step where
  "user_newActivationCodeStep = NewStep ''users'' ''id'' ''activation_codes'' ''id'' O2O False
     ''activation_codes'' [''user_activation_code'']"

definition user_newVerificationCodeStep :: step where
  "user_newVerificationCodeStep = NewStep ''users'' ''id'' ''verification_codes'' ''id'' O2O False
     ''verification_codes'' [''user_verification_code'']"

definition user_newSecondFactorCodeStep :: step where
  "user_newSecondFactorCodeStep = NewStep ''users'' ''id'' ''second_factor_codes'' ''id'' O2O False
     ''second_factor_codes'' [''user_second_factor_code'']"

definition user_newResetCodeStep :: step where
  "user_newResetCodeStep = NewStep ''users'' ''id'' ''reset_codes'' ''id'' O2O False
     ''reset_codes'' [''user_reset_code'']"

definition user_newUserDevicesStep :: step where
  "user_newUserDevicesStep = NewStep ''users'' ''id'' ''user_devices'' ''id'' O2M False
     ''user_devices'' [''user_user_devices'']"

definition user_newUserActionsStep :: step where
  "user_newUserActionsStep = NewStep ''users'' ''id'' ''user_actions'' ''id'' M2M False
     ''user_user_actions'' [''user_id'', ''user_action_id'']"

definition user_newUserRolesStep :: step where
  "user_newUserRolesStep = NewStep ''users'' ''id'' ''user_roles'' ''id'' M2M False
     ''user_user_roles'' [''user_id'', ''user_role_id'']"

definition user_newBlacklistedTokensStep :: step where
  "user_newBlacklistedTokensStep = NewStep ''users'' ''id'' ''blacklisted_tokens'' ''id'' O2M True
     ''blacklisted_tokens'' [''blacklisted_token_owner'']"

definition user_orders :: "(string \<times> order_term) list" where
  "user_orders = [
    (''ByID'', OrderByField ''id''), (''ByMail'', OrderByField ''mail''), (''ByPhone'', OrderByField ''phone''),
    (''ByPassword'', OrderByField ''password''), (''ByActive'', OrderByField ''active''),
    (''ByVerified'', OrderByField ''verified''), (''ByBlacklisted'', OrderByField ''blacklisted''),
    (''ByRemoved'', OrderByField ''removed''), (''ByCreatedAt'', OrderByField ''created_at''),
    (''ByUpdatedAt'', OrderByField ''updated_at''),
    (''ByUserDetailsField'', OrderByNeighborField user_newUserDetailsStep),
    (''ByUserSettingsField'', OrderByNeighborField user_newUserSettingsStep),
    (''ByActivationCodeField'', OrderByNeighborField user_newActivationCodeStep),
    (''ByVerificationCodeField'', OrderByNeighborField user_newVerificationCodeStep),
    (''BySecondFactorCodeField'', OrderByNeighborField user_newSecondFactorCodeStep),
    (''ByResetCodeField'', OrderByNeighborField user_newResetCodeStep),
    (''ByUserDevicesCount'', OrderByNeighborsCount user_newUserDevicesStep),
    (''ByUserDevices'', OrderByNeighborTerms user_newUserDevicesStep),
    (''ByUserActionsCount'', OrderByNeighborsCount user_newUserActionsStep),
    (''ByUserActions'', OrderByNeighborTerms user_newUserActionsStep),
    (''ByUserRolesCount'', OrderByNeighborsCount user_newUserRolesStep),
    (''ByUserRoles'', OrderByNeighborTerms user_newUserRolesStep),
    (''ByBlacklistedTokensCount'', OrderByNeighborsCount user_newBlacklistedTokensStep),
    (''ByBlacklistedTokens'', OrderByNeighborTerms user_newBlacklistedTokensStep)]"

definition useraction_package :: package where
  "useraction_package = \<lparr>pk_label = ''user_action'', pk_table = ''user_actions'',
    pk_columns = [
      ''id'', ''type'', ''action'', ''details'', ''created_at'', ''updated_at''],
    pk_foreign_keys = [],
    pk_edges = [
      ''author'', ''author_device'']\<rparr>"

definition useraction_ValidColumn :: "string \<Rightarrow> bool" where
  "useraction_ValidColumn c = (List.member (pk_columns useraction_package) c)"

definition useraction_newAuthorStep :: step where
  "useraction_newAuthorStep = NewStep ''user_actions'' ''id'' ''users'' ''id'' M2M True
     ''user_user_actions'' [''user_id'', ''user_action_id'']"

definition useraction_newAuthorDeviceStep :: step where
  "useraction_newAuthorDeviceStep = NewStep ''user_actions'' ''id'' ''user_devices'' ''id'' M2M True
     ''user_device_user_actions'' [''user_device_id'', ''user_action_id'']"

definition useraction_orders :: "(string \<times> order_term) list" where
  "useraction_orders = [
    (''ByID'', OrderByField ''id''), (''ByType'', OrderByField ''type''), (''ByAction'', OrderByField ''action''),
    (''ByDetails'', OrderByField ''details''), (''ByCreatedAt'', OrderByField ''created_at''),
    (''ByUpdatedAt'', OrderByField ''updated_at''),
    (''ByAuthorCount'', OrderByNeighborsCount useraction_newAuthorStep),
    (''ByAuthor'', OrderByNeighborTerms useraction_newAuthorStep),
    (''ByAuthorDeviceCount'', OrderByNeighborsCount useraction_newAuthorDeviceStep),
    (''ByAuthorDevice'', OrderByNeighborTerms useraction_newAuthorDeviceStep)]"

definition userdetails_package :: package where
  "userdetails_package = \<lparr>pk_label = ''user_details'', pk_table = ''user_details'',
    pk_columns = [
      ''id'', ''name'', ''first_name'', ''last_name'', ''created_at'', ''updated_at''],
    pk_foreign_keys = [''user_user_details''],
    pk_edges = [
      ''owner'', ''locations'', ''entrepreneur_details'']\<rparr>"

definition userdetails_ValidColumn :: "string \<Rightarrow> bool" where
  "userdetails_ValidColumn c = (List.member (pk_columns userdetails_package) c \<or>
     List.member (pk_foreign_keys userdetails_package) c)"

definition userdetails_newOwnerStep :: step where
  "userdetails_newOwnerStep = NewStep ''user_details'' ''id'' ''users'' ''id'' O2O True
     ''user_details'' [''user_user_details'']"

definition userdetails_newLocationsStep :: step where
  "userdetails_newLocationsStep = NewStep ''user_details'' ''id'' ''locations'' ''id'' O2M False
     ''locations'' [''user_details_locations'']"

definition userdetails_newEntrepreneurDetailsStep :: step where
  "userdetails_newEntrepreneurDetailsStep = NewStep ''user_details'' ''id'' ''entrepreneur_details'' ''id'' O2O False
     ''entrepreneur_details'' [''user_details_entrepreneur_details'']"

definition userdetails_orders :: "(string \<times> order_term) list" where
  "userdetails_orders = [
    (''ByID'', OrderByField ''id''), (''ByName'', OrderByField ''name''),
    (''ByFirstName'', OrderByField ''first_name''), (''ByLastName'', OrderByField ''last_name''),
    (''ByCreatedAt'', OrderByField ''created_at''), (''ByUpdatedAt'', OrderByField ''updated_at''),
    (''ByOwnerField'', OrderByNeighborField userdetails_newOwnerStep),
    (''ByLocationsCount'', OrderByNeighborsCount userdetails_newLocationsStep),
    (''ByLocations'', OrderByNeighborTerms userdetails_newLocationsStep),
    (''ByEntrepreneurDetailsField'', OrderByNeighborField userdetails_newEntrepreneurDetailsStep)]"

definition userdevice_package :: package where
  "userdevice_package = \<lparr>pk_label = ''user_device'', pk_table = ''user_devices'',
    pk_columns = [
      ''id'', ''name'', ''type'', ''token'', ''ip_address'', ''user_agent'', ''os_name'', ''os_version'',
      ''browser_name'', ''browser_version'', ''last_seen_at'', ''created_at'', ''updated_at''],
    pk_foreign_keys = [''second_factor_code_target_user_device'', ''user_user_devices'', ''user_settings_second_factor_target'', ''user_settings_notification_target_devices''],
    pk_edges = [
      ''owner'', ''user_settings_2fa'', ''second_factor_codes'', ''user_actions'']\<rparr>"

definition userdevice_ValidColumn :: "string \<Rightarrow> bool" where
  "userdevice_ValidColumn c = (List.member (pk_columns userdevice_package) c \<or>
     List.member (pk_foreign_keys userdevice_package) c)"

definition userdevice_newOwnerStep :: step where
  "userdevice_newOwnerStep = NewStep ''user_devices'' ''id'' ''users'' ''id'' M2O True
     ''user_devices'' [''user_user_devices'']"

definition userdevice_newUserSettings2faStep :: step where
  "userdevice_newUserSettings2faStep = NewStep ''user_devices'' ''id'' ''user_settings'' ''id'' O2O True
     ''user_devices'' [''user_settings_second_factor_target'']"

definition userdevice_newSecondFactorCodesStep :: step where
  "userdevice_newSecondFactorCodesStep = NewStep ''user_devices'' ''id'' ''second_factor_codes'' ''id'' O2O True
     ''user_devices'' [''second_factor_code_target_user_device'']"

definition userdevice_newUserActionsStep :: step where
  "userdevice_newUserActionsStep = NewStep ''user_devices'' ''id'' ''user_actions'' ''id'' M2M False
     ''user_device_user_actions'' [''user_device_id'', ''user_action_id'']"

definition userdevice_orders :: "(string \<times> order_term) list" where
  "userdevice_orders = [
    (''ByID'', OrderByField ''id''), (''ByName'', OrderByField ''name''), (''ByType'', OrderByField ''type''),
    (''ByToken'', OrderByField ''token''), (''ByIPAddress'', OrderByField ''ip_address''),
    (''ByUserAgent'', OrderByField ''user_agent''), (''ByOsName'', OrderByField ''os_name''),
    (''ByOsVersion'', OrderByField ''os_version''), (''ByBrowserName'', OrderByField ''browser_name''),
    (''ByBrowserVersion'', OrderByField ''browser_version''), (''ByLastSeenAt'', OrderByField ''last_seen_at''),
    (''ByCreatedAt'', OrderByField ''created_at''), (''ByUpdatedAt'', OrderByField ''updated_at''),
    (''ByOwnerField'', OrderByNeighborField userdevice_newOwnerStep),
    (''ByUserSettings2faField'', OrderByNeighborField userdevice_newUserSettings2faStep),
    (''BySecondFactorCodesField'', OrderByNeighborField userdevice_newSecondFactorCodesStep),
    (''ByUserActionsCount'', OrderByNeighborsCount userdevice_newUserActionsStep),
    (''ByUserActions'', OrderByNeighborTerms userdevice_newUserActionsStep)]"

definition userrole_package :: package where
  "userrole_package = \<lparr>pk_label = ''user_role'', pk_table = ''user_roles'',
    pk_columns = [
      ''id'', ''name'', ''description'', ''created_at'', ''updated_at''],
    pk_foreign_keys = [],
    pk_edges = [
      ''owner'', ''permissions'']\<rparr>"

definition userrole_ValidColumn :: "string \<Rightarrow> bool" where
  "userrole_ValidColumn c = (List.member (pk_columns userrole_package) c)"

definition userrole_newOwnerStep :: step where
  "userrole_newOwnerStep = NewStep ''user_roles'' ''id'' ''users'' ''id'' M2M True
     ''user_user_roles'' [''user_id'', ''user_role_id'']"

definition userrole_newPermissionsStep :: step where
  "userrole_newPermissionsStep = NewStep ''user_roles'' ''id'' ''role_permissions'' ''id'' M2M True
     ''role_permission_user_role'' [''role_permission_id'', ''user_role_id'']"

definition userrole_orders :: "(string \<times> order_term) list" where
  "userrole_orders = [
    (''ByID'', OrderByField ''id''), (''ByName'', OrderByField ''name''),
    (''ByDescription'', OrderByField ''description''), (''ByCreatedAt'', OrderByField ''created_at''),
    (''ByUpdatedAt'', OrderByField ''updated_at''), (''ByOwnerCount'', OrderByNeighborsCount userrole_newOwnerStep),
    (''ByOwner'', OrderByNeighborTerms userrole_newOwnerStep),
    (''ByPermissionsCount'', OrderByNeighborsCount userrole_newPermissionsStep),
    (''ByPermissions'', OrderByNeighborTerms userrole_newPermissionsStep)]"

definition usersettings_package :: package where
  "usersettings_package = \<lparr>pk_label = ''user_settings'', pk_table = ''user_settings'',
    pk_columns = [
      ''id'', ''uuid'', ''two_factor'', ''night_mode'', ''created_at'', ''updated_at''],
    pk_foreign_keys = [''user_user_settings''],
    pk_edges = [
      ''owner'', ''second_factor_target'', ''notification_target_devices'']\<rparr>"

definition usersettings_ValidColumn :: "string \<Rightarrow> bool" where
  "usersettings_ValidColumn c = (List.member (pk_columns usersettings_package) c \<or>
     List.member (pk_foreign_keys usersettings_package) c)"

definition usersettings_newOwnerStep :: step where
  "usersettings_newOwnerStep = NewStep ''user_settings'' ''id'' ''users'' ''id'' O2O True
     ''user_settings'' [''user_user_settings'']"

definition usersettings_newSecondFactorTargetStep :: step where
  "usersettings_newSecondFactorTargetStep = NewStep ''user_settings'' ''id'' ''user_devices'' ''id'' O2O False
     ''user_devices'' [''user_settings_second_factor_target'']"

definition usersettings_newNotificationTargetDevicesStep :: step where
  "usersettings_newNotificationTargetDevicesStep = NewStep ''user_settings'' ''id'' ''user_devices'' ''id'' O2M False
     ''user_devices'' [''user_settings_notification_target_devices'']"

definition usersettings_orders :: "(string \<times> order_term) list" where
  "usersettings_orders = [
    (''ByID'', OrderByField ''id''), (''ByUUID'', OrderByField ''uuid''),
    (''ByTwoFactor'', OrderByField ''two_factor''), (''ByNightMode'', OrderByField ''night_mode''),
    (''ByCreatedAt'', OrderByField ''created_at''), (''ByUpdatedAt'', OrderByField ''updated_at''),
    (''ByOwnerField'', OrderByNeighborField usersettings_newOwnerStep),
    (''BySecondFactorTargetField'', OrderByNeighborField usersettings_newSecondFactorTargetStep),
    (''ByNotificationTargetDevicesCount'', OrderByNeighborsCount usersettings_newNotificationTargetDevicesStep),
    (''ByNotificationTargetDevices'', OrderByNeighborTerms usersettings_newNotificationTargetDevicesStep)]"

definition verificationcode_package :: package where
  "verificationcode_package = \<lparr>pk_label = ''verification_code'', pk_table = ''verification_codes'',
    pk_columns = [
      ''id'', ''code'', ''created_at'', ''updated_at'', ''expires_at''],
    pk_foreign_keys = [''user_verification_code''],
    pk_edges = [
      ''owner'']\<rparr>"

definition verificationcode_ValidColumn :: "string \<Rightarrow> bool" where
  "verificationcode_ValidColumn c = (List.member (pk_columns verificationcode_package) c \<or>
     List.member (pk_foreign_keys verificationcode_package) c)"

definition verificationcode_newOwnerStep :: step where
  "verificationcode_newOwnerStep = NewStep ''verification_codes'' ''id'' ''users'' ''id'' O2O True
     ''verification_codes'' [''user_verification_code'']"

definition verificationcode_orders :: "(string \<times> order_term) list" where
  "verificationcode_orders = [
    (''ByID'', OrderByField ''id''), (''ByCode'', OrderByField ''code''),
    (''ByCreatedAt'', OrderByField ''created_at''), (''ByUpdatedAt'', OrderByField ''updated_at''),
    (''ByExpiresAt'', OrderByField ''expires_at''),
    (''ByOwnerField'', OrderByNeighborField verificationcode_newOwnerStep)]"

definition packages :: "package list" where
  "packages = [
    activationcode_package, blacklistedtoken_package, entrepreneurdetails_package, location_package,
    resetcode_package, rolepermission_package, secondfactorcode_package, user_package, useraction_package,
    userdetails_package, userdevice_package, userrole_package, usersettings_package, verificationcode_package]"

definition package_steps :: "(string \<times> step list) list" where
  "package_steps = [
    (''ActivationCode'', [activationcode_newOwnerStep]), (''BlacklistedToken'', [blacklistedtoken_newOwnerStep]),
    (''EntrepreneurDetails'', [entrepreneurdetails_newUserDetailsStep]),
    (''Location'', [location_newUserDetailsStep]), (''ResetCode'', [resetcode_newOwnerStep]),
    (''RolePermission'', [rolepermission_newUserRoleStep]),
    (''SecondFactorCode'', [secondfactorcode_newOwnerStep, secondfactorcode_newTargetUserDeviceStep]),
    (''User'', [user_newUserDetailsStep, user_newUserSettingsStep, user_newActivationCodeStep, user_newVerificationCodeStep, user_newSecondFactorCodeStep, user_newResetCodeStep, user_newUserDevicesStep, user_newUserActionsStep, user_newUserRolesStep, user_newBlacklistedTokensStep]),
    (''UserAction'', [useraction_newAuthorStep, useraction_newAuthorDeviceStep]),
    (''UserDetails'', [userdetails_newOwnerStep, userdetails_newLocationsStep, userdetails_newEntrepreneurDetailsStep]),
    (''UserDevice'', [userdevice_newOwnerStep, userdevice_newUserSettings2faStep, userdevice_newSecondFactorCodesStep, userdevice_newUserActionsStep]),
    (''UserRole'', [userrole_newOwnerStep, userrole_newPermissionsStep]),
    (''UserSettings'', [usersettings_newOwnerStep, usersettings_newSecondFactorTargetStep, usersettings_newNotificationTargetDevicesStep]),
    (''VerificationCode'', [verificationcode_newOwnerStep])]"

definition package_orders :: "(package \<times> (string \<times> order_term) list) list" where
  "package_orders = [
    (activationcode_package, activationcode_orders), (blacklistedtoken_package, blacklistedtoken_orders),
    (entrepreneurdetails_package, entrepreneurdetails_orders), (location_package, location_orders),
    (resetcode_package, resetcode_orders), (rolepermission_package, rolepermission_orders),
    (secondfactorcode_package, secondfactorcode_orders), (user_package, user_orders),
    (useraction_package, useraction_orders), (userdetails_package, userdetails_orders),
    (userdevice_package, userdevice_orders), (userrole_package, userrole_orders),
    (usersettings_package, usersettings_orders), (verificationcode_package, verificationcode_orders)]"

text \<open>The names of the entities: the label and the table constants of their packages.\<close>

fun lookup :: "(string \<times> 'a) list \<Rightarrow> string \<Rightarrow> 'a option" where
  "lookup [] k = None"
| "lookup ((k', v) # kvs) k = (if k' = k then Some v else lookup kvs k)"

definition named :: "(package \<Rightarrow> string) \<Rightarrow> string \<Rightarrow> string" where
  "named part A = (case lookup (zip (map ey_name service_decls) packages) A of None \<Rightarrow> [] | Some p \<Rightarrow> part p)"

definition service_naming :: naming where
  "service_naming = \<lparr>nm_label = named pk_label, nm_table = named pk_table\<rparr>"

text \<open>The relations of the service, evaluated once for the proofs below.\<close>

definition related :: "string \<Rightarrow> edge_decl \<Rightarrow> relation \<Rightarrow> bool \<Rightarrow> relation_decl" where
  "related A e kind nullable = \<lparr>re_owner = A, re_edge = e, re_kind = kind, re_nullable = nullable\<rparr>"

definition service_relations :: "relation_decl list" where
  "service_relations = [
    related ''BlacklistedToken'' (edge_To ''owner'' ''User'' True False) M2O True,
    related ''RolePermission'' (edge_To ''user_role'' ''UserRole'' False False) M2M True,
    related ''SecondFactorCode'' (edge_To ''target_user_device'' ''UserDevice'' True True) O2O True,
    related ''User'' (edge_To ''user_details'' ''UserDetails'' True False) O2O False,
    related ''User'' (edge_To ''user_settings'' ''UserSettings'' True False) O2O False,
    related ''User'' (edge_To ''activation_code'' ''ActivationCode'' True False) O2O False,
    related ''User'' (edge_To ''verification_code'' ''VerificationCode'' True False) O2O False,
    related ''User'' (edge_To ''second_factor_code'' ''SecondFactorCode'' True False) O2O False,
    related ''User'' (edge_To ''reset_code'' ''ResetCode'' True False) O2O False,
    related ''User'' (edge_To ''user_devices'' ''UserDevice'' False False) O2M False,
    related ''User'' (edge_To ''user_actions'' ''UserAction'' False False) M2M False,
    related ''User'' (edge_To ''user_roles'' ''UserRole'' False False) M2M True,
    related ''UserDetails'' (edge_To ''locations'' ''Location'' False False) O2M False,
    related ''UserDetails'' (edge_To ''entrepreneur_details'' ''EntrepreneurDetails'' True False) O2O True,
    related ''UserDevice'' (edge_To ''user_actions'' ''UserAction'' False False) M2M False,
    related ''UserSettings'' (edge_To ''second_factor_target'' ''UserDevice'' True False) O2O True,
    related ''UserSettings'' (edge_To ''notification_target_devices'' ''UserDevice'' False False) O2M True]"

lemma relations_service [simp]: "relations service_decls = service_relations"
  by code_simp

lemma entity_tables: "map (entity_table service_naming service_relations) service_decls @
    map (join_table service_naming) (filter (\<lambda>r. re_kind r = M2M) service_relations) = migration"
  by code_simp

lemma packages_service: "map (package_of service_naming service_relations) service_decls = packages"
  by code_simp

lemma steps_service: "map (steps_of service_naming service_relations) service_decls = map (\<lambda>(t, s). map Some s) package_steps"
  by code_simp

end
