(* ===== verification/Ent_Properties.thy ===== *)
theory Ent_Properties imports Ent_Records Ent_Tables begin

text \<open>
  The properties of the generated mutations and of the generated description of the database:
  whatever a caller does to a mutation keeps it well typed, the methods by name agree with the
  methods of the fields, a value set is the value read, the hooks of the schemas cannot fail, and
  the generated code is that of the schemas in models/ent/schema.
\<close>

section \<open>A type and its values\<close>

text \<open>A type of Go within the values of a mutation: how it is written, read and recognised.\<close>

locale value_type =
  fixes mk :: "'v \<Rightarrow> 'f :: plus ent_value" and un :: "'f ent_value \<Rightarrow> 'v" and t :: go_type
  assumes un_mk: "un (mk v) = v"
    and type_mk: "type_of_value (mk v) = Some t"
    and mk_un: "type_of_value w = Some t \<Longrightarrow> mk (un w) = w"
begin

lemma get_set: "fm_Get (field_methods mk un f) (fm_Set (field_methods mk un f) v m) = Some v"
  by (simp add: field_methods_def Let_def get_field_def set_field_def un_mk)

lemma set_by_name:
  assumes "field_named sch name = Some f" "fs_type f = t"
  shows "mutation_SetField sch name (mk v) m = Inr (fm_Set (field_methods mk un f) v m)"
  using assms by (simp add: mutation_SetField_def field_methods_def Let_def type_mk)

lemma get_by_name:
  assumes "field_named sch name = Some f" "fs_type f = t" "fields_typed sch m" "wf_schema sch"
  shows "mutation_Field sch name m = map_option mk (fm_Get (field_methods mk un f) m)"
proof (cases "mu_values m name")
  case None
  then show ?thesis using field_namedD[OF assms(1)] assms(1)
    by (simp add: mutation_Field_def field_methods_def Let_def get_field_def)
next
  case (Some w)
  have "has_field sch (\<lambda>f. type_of_value w = Some (fs_type f)) name"
    using assms(3) Some by (simp add: fields_typed_def)
  then have "type_of_value w = Some t"
    using has_own_field[OF assms(4)] field_namedD[OF assms(1)] assms(2) by metis
  then show ?thesis using Some field_namedD[OF assms(1)] assms(1)
    by (simp add: mutation_Field_def field_methods_def Let_def get_field_def mk_un)
qed

end

lemma type_of_value_Some:
  "type_of_value w = Some GoString \<longleftrightarrow> (\<exists>s. w = VString s)" "type_of_value w = Some GoBool \<longleftrightarrow> (\<exists>b. w = VBool b)"
  "type_of_value w = Some GoInt \<longleftrightarrow> (\<exists>i. w = VInt i)" "type_of_value w = Some GoFloat \<longleftrightarrow> (\<exists>x. w = VFloat x)"
  "type_of_value w = Some GoTime \<longleftrightarrow> (\<exists>i. w = VTime i)" "type_of_value w = Some GoInts \<longleftrightarrow> (\<exists>is. w = VInts is)"
  "type_of_value w = Some GoStrings \<longleftrightarrow> (\<exists>ss. w = VStrings ss)"
  by (cases w; simp)+

interpretation strings: value_type VString un_string GoString
  by unfold_locales (auto simp: type_of_value_Some)

interpretation bools: value_type VBool un_bool GoBool
  by unfold_locales (auto simp: type_of_value_Some)

interpretation ints: value_type VInt un_int GoInt
  by unfold_locales (auto simp: type_of_value_Some)

interpretation floats: value_type VFloat "un_float :: 'f :: {plus,zero} ent_value \<Rightarrow> 'f" GoFloat
  by unfold_locales (auto simp: type_of_value_Some)

interpretation times: value_type VTime un_time GoTime
  by unfold_locales (auto simp: type_of_value_Some)

interpretation int_lists: value_type VInts un_ints GoInts
  by unfold_locales (auto simp: type_of_value_Some)

interpretation string_lists: value_type VStrings un_strings GoStrings
  by unfold_locales (auto simp: type_of_value_Some)

section \<open>The mutations of the service\<close>

lemma wf_service_schemas: "list_all wf_schema service_schemas"
  by code_simp

lemma wf_service: "sch \<in> set service_schemas \<Longrightarrow> wf_schema sch"
  using wf_service_schemas by (simp add: list_all_iff)

text \<open>C29: whatever a caller does to a mutation of an entity of the service, by the methods of its
  fields and edges or by the methods that take names and untyped values, every value it holds has
  the type of its field, every increment belongs to a number or a list, only nullable fields are
  marked as cleared, and identifiers stand at edges of their multiplicity.\<close>

theorem mutations_well_typed:
  assumes "sch \<in> set service_schemas" "built sch m"
  shows "well_typed sch m"
  using built_well_typed[OF assms(2) wf_service[OF assms(1)]] .

theorem mutations_well_typed_witness:
  "\<exists>m. mutation_SetField User_schema ''mail'' (VString ''a@b.pl'') (newUserMutation OpUpdate) = Inr (m :: (int, nat) mutation) \<and>
     well_typed User_schema m"
proof -
  have sch: "User_schema \<in> set service_schemas" by (simp add: service_schemas_def)
  have name: "field_named User_schema ''mail'' = Some (plain ''mail'' ''Mail'' GoString)" by code_simp
  have "mutation_SetField User_schema ''mail'' (VString ''a@b.pl'') (newUserMutation OpUpdate) =
      Inr (set_field (plain ''mail'' ''Mail'' GoString) (VString ''a@b.pl'') (newUserMutation OpUpdate :: (int, nat) mutation))"
    by (simp add: mutation_SetField_def name plain_def field_schema_of_def)
  moreover from this have "built User_schema (set_field (plain ''mail'' ''Mail'' GoString) (VString ''a@b.pl'')
      (newUserMutation OpUpdate :: (int, nat) mutation))"
    using named_set created unfolding newUserMutation_def by blast
  ultimately show ?thesis using mutations_well_typed[OF sch] by blast
qed

section \<open>By name and by method\<close>

text \<open>The untyped methods of a mutation of the service agree with the typed ones: what
  \<open>SetField\<close> does with a value of the type of the field is what the setter of the field does, and
  \<open>Field\<close> returns what its getter returns, for every kind of field.\<close>

theorem named_methods_agree:
  assumes "sch \<in> set service_schemas" "built sch (m :: ('f :: {plus,zero}, 'p) mutation)" "field_named sch name = Some f"
  shows "(fs_type f = GoString \<longrightarrow> mutation_SetField sch name (VString s) m = Inr (fm_Set (string_field sch name) s m) \<and>
      mutation_Field sch name m = map_option VString (fm_Get (string_field sch name) m)) \<and>
    (fs_type f = GoBool \<longrightarrow> mutation_SetField sch name (VBool b) m = Inr (fm_Set (bool_field sch name) b m) \<and>
      mutation_Field sch name m = map_option VBool (fm_Get (bool_field sch name) m)) \<and>
    (fs_type f = GoInt \<longrightarrow> mutation_SetField sch name (VInt i) m = Inr (fm_Set (int_field sch name) i m) \<and>
      mutation_Field sch name m = map_option VInt (fm_Get (int_field sch name) m)) \<and>
    (fs_type f = GoFloat \<longrightarrow> mutation_SetField sch name (VFloat x) m = Inr (fm_Set (float_field sch name) x m) \<and>
      mutation_Field sch name m = map_option VFloat (fm_Get (float_field sch name) m)) \<and>
    (fs_type f = GoTime \<longrightarrow> mutation_SetField sch name (VTime t) m = Inr (fm_Set (time_field sch name) t m) \<and>
      mutation_Field sch name m = map_option VTime (fm_Get (time_field sch name) m)) \<and>
    (fs_type f = GoInts \<longrightarrow> mutation_SetField sch name (VInts is) m = Inr (fm_Set (ints_field sch name) is m) \<and>
      mutation_Field sch name m = map_option VInts (fm_Get (ints_field sch name) m)) \<and>
    (fs_type f = GoStrings \<longrightarrow> mutation_SetField sch name (VStrings ss) m = Inr (fm_Set (strings_field sch name) ss m) \<and>
      mutation_Field sch name m = map_option VStrings (fm_Get (strings_field sch name) m))"
proof -
  have wf: "wf_schema sch" by (rule wf_service[OF assms(1)])
  have typed: "fields_typed sch m" using built_well_typed[OF assms(2) wf] by (simp add: well_typed_def)
  note by_name = assms(3) _ typed wf
  show ?thesis
    by (auto simp: string_field_def bool_field_def int_field_def float_field_def time_field_def ints_field_def
        strings_field_def field_of_def assms(3) strings.set_by_name[OF assms(3)] bools.set_by_name[OF assms(3)]
        ints.set_by_name[OF assms(3)] floats.set_by_name[OF assms(3)] times.set_by_name[OF assms(3)]
        int_lists.set_by_name[OF assms(3)] string_lists.set_by_name[OF assms(3)]
        strings.get_by_name[OF by_name] bools.get_by_name[OF by_name] ints.get_by_name[OF by_name]
        floats.get_by_name[OF by_name] times.get_by_name[OF by_name] int_lists.get_by_name[OF by_name]
        string_lists.get_by_name[OF by_name])
qed

theorem named_methods_agree_witness:
  "mutation_SetField User_schema ''mail'' (VString ''a@b.pl'') (newUserMutation OpUpdate :: (int, nat) mutation) =
     Inr (fm_Set UserMutation_Mail ''a@b.pl'' (newUserMutation OpUpdate))"
proof -
  have sch: "User_schema \<in> set service_schemas" by (simp add: service_schemas_def)
  have name: "field_named User_schema ''mail'' = Some (plain ''mail'' ''Mail'' GoString)" by code_simp
  have "built User_schema (newUserMutation OpUpdate :: (int, nat) mutation)"
    unfolding newUserMutation_def by (rule created)
  from named_methods_agree[OF sch this name] show ?thesis
    by (simp add: UserMutation_Mail_def plain_def field_schema_of_def)
qed



section \<open>The hooks\<close>

lemma time_fields:
  "list_all (\<lambda>sch. field_named sch ''created_at'' = Some (plain ''created_at'' ''CreatedAt'' GoTime) \<and>
     field_named sch ''updated_at'' = Some (plain ''updated_at'' ''UpdatedAt'' GoTime)) service_schemas"
  by code_simp

text \<open>C33: the hook of a schema of the service never fails: on creation it sets both time fields, on
  an update only \<open>updated_at\<close>, on a deletion nothing; every other field of the mutation stays.\<close>

theorem hooks_set_times:
  assumes "sch \<in> set service_schemas"
  shows "\<exists>m'. time_hook sch now1 now2 m = Inr m' \<and>
    mu_values m' = (case mu_op m of
        OpCreate \<Rightarrow> (mu_values m)(''created_at'' \<mapsto> VTime now1, ''updated_at'' \<mapsto> VTime now2)
      | OpUpdate \<Rightarrow> (mu_values m)(''updated_at'' \<mapsto> VTime now1)
      | OpUpdateOne \<Rightarrow> (mu_values m)(''updated_at'' \<mapsto> VTime now1)
      | _ \<Rightarrow> mu_values m) \<and>
    m' = m\<lparr>mu_values := mu_values m'\<rparr>"
proof -
  have "field_named sch ''created_at'' = Some (plain ''created_at'' ''CreatedAt'' GoTime)"
    "field_named sch ''updated_at'' = Some (plain ''updated_at'' ''UpdatedAt'' GoTime)"
    using assms time_fields by (simp_all add: list_all_iff)
  then show ?thesis
    by (cases "mu_op m") (simp_all add: time_hook_def mutation_SetField_def plain_def field_schema_of_def set_field_def)
qed

theorem hooks_set_times_witness:
  "\<exists>m'. User_Hooks 5 6 (newUserMutation OpCreate :: (int, nat) mutation) = Inr m' \<and>
     mu_values m' = [''created_at'' \<mapsto> VTime 5, ''updated_at'' \<mapsto> VTime 6]"
proof -
  have sch: "User_schema \<in> set service_schemas" by (simp add: service_schemas_def)
  show ?thesis using hooks_set_times[OF sch, of 5 6 "newUserMutation OpCreate :: (int, nat) mutation"]
    by (auto simp: User_Hooks_def newUserMutation_def new_mutation_def)
qed

section \<open>The generated code and the schemas\<close>

fun go_type_of :: "decl_type \<Rightarrow> go_type" where
  "go_type_of DInt = GoInt"
| "go_type_of DString = GoString"
| "go_type_of DText = GoString"
| "go_type_of DBool = GoBool"
| "go_type_of DTime = GoTime"
| "go_type_of DFloat = GoFloat"
| "go_type_of DInts = GoInts"
| "go_type_of DStrings = GoStrings"

text \<open>What a declaration says of the mutation of its entity: every field but the identifier, every edge.\<close>

definition declared_mutation :: "entity_decl \<Rightarrow> string \<times> (string \<times> go_type \<times> bool) list \<times> (string \<times> bool) list" where
  "declared_mutation d = (ey_name d,
     map (\<lambda>f. (storage_name f, go_type_of (fd_type f), has_option Optional f)) (filter (\<lambda>f. fd_name f \<noteq> ''id'') (ey_fields d)),
     map (\<lambda>e. (ed_name e, ed_unique e)) (ey_edges d))"

definition generated_mutation :: "entity_schema \<Rightarrow> string \<times> (string \<times> go_type \<times> bool) list \<times> (string \<times> bool) list" where
  "generated_mutation sch = (en_type sch, map (\<lambda>f. (fs_name f, fs_type f, fs_nullable f)) (en_fields sch),
     map (\<lambda>e. (es_name e, es_unique e)) (en_edges sch))"

lemma mutations_declared: "map generated_mutation service_schemas = map declared_mutation service_decls"
  by code_simp


section \<open>Joins and orders address what exists\<close>

definition columns_of :: "string \<Rightarrow> string list" where
  "columns_of name = (case find (\<lambda>t. tb_name t = name) migration of None \<Rightarrow> [] | Some t \<Rightarrow> map co_name (tb_columns t))"

definition step_exists :: "step \<Rightarrow> bool" where
  "step_exists s = (List.member (columns_of (fst (sp_from s))) (snd (sp_from s)) \<and>
     List.member (columns_of (fst (sp_to s))) (snd (sp_to s)) \<and>
     list_all (List.member (columns_of (sp_table s))) (sp_columns s))"

fun order_exists :: "package \<Rightarrow> order_term \<Rightarrow> bool" where
  "order_exists p (OrderByField c) = List.member (columns_of (pk_table p)) c"
| "order_exists p (OrderByNeighborField s) = (fst (sp_from s) = pk_table p \<and> step_exists s)"
| "order_exists p (OrderByNeighborTerms s) = (fst (sp_from s) = pk_table p \<and> step_exists s)"
| "order_exists p (OrderByNeighborsCount s) = (fst (sp_from s) = pk_table p \<and> step_exists s)"

definition fk_exists :: "foreign_key \<Rightarrow> sql_table \<Rightarrow> bool" where
  "fk_exists k t = (List.member (map co_name (tb_columns t)) (fk_column k) \<and>
     List.member (columns_of (fk_ref_table k)) (fk_ref_column k))"

text \<open>The columns of all tables, evaluated once.\<close>

lemma find_map_of: "(case find (\<lambda>t. f t = n) ts of None \<Rightarrow> z | Some t \<Rightarrow> g t) =
    (case map_of (map (\<lambda>t. (f t, g t)) ts) n of None \<Rightarrow> z | Some x \<Rightarrow> x)"
  by (induction ts) auto

definition look_in :: "(string \<times> string list) list \<Rightarrow> string \<Rightarrow> string list" where
  "look_in cols name = (case map_of cols name of None \<Rightarrow> [] | Some cs \<Rightarrow> cs)"

definition all_columns :: "(string \<times> string list) list" where
  "all_columns = map (\<lambda>t. (tb_name t, map co_name (tb_columns t))) migration"

lemma columns_of_look: "columns_of = look_in all_columns"
  by (rule ext) (simp add: columns_of_def look_in_def all_columns_def find_map_of)

definition step_in :: "(string \<times> string list) list \<Rightarrow> step \<Rightarrow> bool" where
  "step_in cols s = (List.member (look_in cols (fst (sp_from s))) (snd (sp_from s)) \<and>
     List.member (look_in cols (fst (sp_to s))) (snd (sp_to s)) \<and>
     list_all (List.member (look_in cols (sp_table s))) (sp_columns s))"

lemma step_exists_in: "step_exists s = step_in all_columns s"
  by (simp add: step_exists_def step_in_def columns_of_look)

lemma package_columns: "list_all (\<lambda>p. columns_of (pk_table p) = pk_columns p @ pk_foreign_keys p) packages"
proof -
  have "(\<lambda>cols. list_all (\<lambda>p. look_in cols (pk_table p) = pk_columns p @ pk_foreign_keys p) packages) all_columns"
    by code_simp
  then show ?thesis by (simp add: columns_of_look)
qed

lemma steps_exist: "list_all (\<lambda>(t, steps). list_all step_exists steps) package_steps"
proof -
  have "(\<lambda>cols. list_all (\<lambda>(t, steps). list_all (step_in cols) steps) package_steps) all_columns"
    by code_simp
  then show ?thesis by (simp add: step_exists_in[abs_def])
qed

text \<open>The orders of a package use its own columns and its own steps.\<close>

fun order_local :: "package \<Rightarrow> step list \<Rightarrow> order_term \<Rightarrow> bool" where
  "order_local p steps (OrderByField c) = List.member (pk_columns p) c"
| "order_local p steps (OrderByNeighborField s) = (fst (sp_from s) = pk_table p \<and> List.member steps s)"
| "order_local p steps (OrderByNeighborTerms s) = (fst (sp_from s) = pk_table p \<and> List.member steps s)"
| "order_local p steps (OrderByNeighborsCount s) = (fst (sp_from s) = pk_table p \<and> List.member steps s)"

lemma orders_local: "list_all2 (\<lambda>(p, orders) (t, steps). list_all (\<lambda>(f, term). order_local p steps term) orders)
    package_orders package_steps"
  by code_simp

lemma order_exists_if_local:
  "order_local p steps term \<Longrightarrow> columns_of (pk_table p) = pk_columns p @ pk_foreign_keys p \<Longrightarrow>
     list_all step_exists steps \<Longrightarrow> order_exists p term"
  by (cases "(p, steps, term)" rule: order_local.cases) (auto simp: list_all_iff)

lemma orders_exist: "list_all (\<lambda>(p, orders). list_all (\<lambda>(f, term). order_exists p term) orders) package_orders"
proof -
  have fsts: "map fst package_orders = packages" by (simp add: package_orders_def packages_def)
  have "order_exists p term" if mem: "(p, orders) \<in> set package_orders" "(f, term) \<in> set orders" for p orders f "term"
  proof -
    have len: "length package_orders = length package_steps" using orders_local by (rule list_all2_lengthD)
    obtain ts where ts: "((p, orders), ts) \<in> set (zip package_orders package_steps)"
      using in_set_impl_in_set_zip1[OF len mem(1)] by blast
    obtain t steps where t: "ts = (t, steps)" by (cases ts)
    have "order_local p steps term" using orders_local ts mem(2) unfolding t list_all2_iff
      by (fastforce simp: list_all_iff)
    moreover have "list_all step_exists steps" using steps_exist set_zip_rightD[OF ts] unfolding t
      by (auto simp: list_all_iff)
    moreover have "p \<in> set packages" using mem(1) unfolding fsts[symmetric] by force
    then have "columns_of (pk_table p) = pk_columns p @ pk_foreign_keys p"
      using package_columns by (simp add: list_all_iff)
    ultimately show ?thesis using order_exists_if_local by blast
  qed
  then show ?thesis by (auto simp: list_all_iff)
qed

lemma fks_exist: "list_all (\<lambda>t. list_all (\<lambda>k. fk_exists k t) (tb_foreign_keys t)) migration"
  by code_simp

lemma names_distinct: "distinct (map tb_name migration) \<and> list_all (\<lambda>t. distinct (map co_name (tb_columns t))) migration"
  by code_simp

text \<open>C28: everything the generated queries address exists: table names and the names of the columns of a
  table are distinct, every foreign key refers to an existing column of an existing table, the
  columns a package accepts are the columns of its table, and every join step and every order of
  a package uses existing columns of existing tables.\<close>

theorem generated_statements_address_what_exists:
  "distinct (map tb_name migration) \<and>
   list_all (\<lambda>t. distinct (map co_name (tb_columns t)) \<and> list_all (\<lambda>k. fk_exists k t) (tb_foreign_keys t)) migration \<and>
   list_all (\<lambda>p. columns_of (pk_table p) = pk_columns p @ pk_foreign_keys p) packages \<and>
   list_all (\<lambda>(t, steps). list_all step_exists steps) package_steps \<and>
   list_all (\<lambda>(p, orders). list_all (\<lambda>(f, term). order_exists p term) orders) package_orders"
  using names_distinct fks_exist package_columns steps_exist orders_exist by (simp add: list_all_iff)

end
