(* ===== verification/Ent_Predicates.thy ===== *)
theory Ent_Predicates imports Ent_Mutation Ent_Tables begin

text \<open>
  The predicates of the generated packages (models/ent/<entity>/where.go). Each is a call of the
  library ent/dialect/sql; a predicate is kept as that call, a term of the datatype \<open>sql_predicate\<close>
  whose constructors are the functions of the library, and what a predicate means is a parameter
  (theory Query_Predicates). The comparisons of one field are a record, as the generator writes
  them: \<open>In\<close> and the orders for fields with an order, the functions on text for strings, the tests for
  NULL for nullable fields.
\<close>

section \<open>Predicates\<close>

datatype 'f sql_predicate =
    FieldEQ string "'f ent_value" | FieldNEQ string "'f ent_value"
  | FieldIn string "'f ent_value list" | FieldNotIn string "'f ent_value list"
  | FieldGT string "'f ent_value" | FieldGTE string "'f ent_value"
  | FieldLT string "'f ent_value" | FieldLTE string "'f ent_value"
  | FieldContains string string | FieldHasPrefix string string | FieldHasSuffix string string
  | FieldEqualFold string string | FieldContainsFold string string
  | FieldIsNull string | FieldNotNull string
  | HasNeighbors step | HasNeighborsWith step "'f sql_predicate list"
  | AndPredicates "'f sql_predicate list" | OrPredicates "'f sql_predicate list" | NotPredicates "'f sql_predicate"

record ('v, 'f) field_predicates =
  fp_EQ :: "'v \<Rightarrow> 'f sql_predicate"
  fp_NEQ :: "'v \<Rightarrow> 'f sql_predicate"
  fp_In :: "('v list \<Rightarrow> 'f sql_predicate) option"
  fp_NotIn :: "('v list \<Rightarrow> 'f sql_predicate) option"
  fp_GT :: "('v \<Rightarrow> 'f sql_predicate) option"
  fp_GTE :: "('v \<Rightarrow> 'f sql_predicate) option"
  fp_LT :: "('v \<Rightarrow> 'f sql_predicate) option"
  fp_LTE :: "('v \<Rightarrow> 'f sql_predicate) option"
  fp_Contains :: "(string \<Rightarrow> 'f sql_predicate) option"
  fp_HasPrefix :: "(string \<Rightarrow> 'f sql_predicate) option"
  fp_HasSuffix :: "(string \<Rightarrow> 'f sql_predicate) option"
  fp_IsNil :: "'f sql_predicate option"
  fp_NotNil :: "'f sql_predicate option"
  fp_EqualFold :: "(string \<Rightarrow> 'f sql_predicate) option"
  fp_ContainsFold :: "(string \<Rightarrow> 'f sql_predicate) option"

definition predicates_on ::
  "('v \<Rightarrow> 'f ent_value) \<Rightarrow> bool \<Rightarrow> bool \<Rightarrow> bool \<Rightarrow> string \<Rightarrow> ('v, 'f) field_predicates" where
  "predicates_on mk ordered is_text null c = \<lparr>
     fp_EQ = (\<lambda>v. FieldEQ c (mk v)), fp_NEQ = (\<lambda>v. FieldNEQ c (mk v)),
     fp_In = when_method ordered (\<lambda>vs. FieldIn c (map mk vs)),
     fp_NotIn = when_method ordered (\<lambda>vs. FieldNotIn c (map mk vs)),
     fp_GT = when_method ordered (\<lambda>v. FieldGT c (mk v)), fp_GTE = when_method ordered (\<lambda>v. FieldGTE c (mk v)),
     fp_LT = when_method ordered (\<lambda>v. FieldLT c (mk v)), fp_LTE = when_method ordered (\<lambda>v. FieldLTE c (mk v)),
     fp_Contains = when_method is_text (FieldContains c), fp_HasPrefix = when_method is_text (FieldHasPrefix c),
     fp_HasSuffix = when_method is_text (FieldHasSuffix c), fp_IsNil = when_method null (FieldIsNull c),
     fp_NotNil = when_method null (FieldNotNull c), fp_EqualFold = when_method is_text (FieldEqualFold c),
     fp_ContainsFold = when_method is_text (FieldContainsFold c)\<rparr>"

text \<open>The step of \<open>HasX\<close> names no table to go to.\<close>

definition NewEdgeStep :: "string \<Rightarrow> string \<Rightarrow> relation \<Rightarrow> bool \<Rightarrow> string \<Rightarrow> string list \<Rightarrow> step" where
  "NewEdgeStep ft fc rel back tbl cols = NewStep ft fc [] [] rel back tbl cols"

section \<open>Activation code\<close>

definition activationcode_IDPredicates :: "(int, 'f) field_predicates" where
  "activationcode_IDPredicates = predicates_on VInt True False False ''id''"

definition activationcode_Code :: "string \<Rightarrow> 'f sql_predicate" where
  "activationcode_Code v = FieldEQ ''code'' (VString v)"

definition activationcode_CodePredicates :: "(string, 'f) field_predicates" where
  "activationcode_CodePredicates = predicates_on VString True True False ''code''"

definition activationcode_Used :: "bool \<Rightarrow> 'f sql_predicate" where
  "activationcode_Used v = FieldEQ ''used'' (VBool v)"

definition activationcode_UsedPredicates :: "(bool, 'f) field_predicates" where
  "activationcode_UsedPredicates = predicates_on VBool False False False ''used''"

definition activationcode_CreatedAt :: "int \<Rightarrow> 'f sql_predicate" where
  "activationcode_CreatedAt v = FieldEQ ''created_at'' (VTime v)"

definition activationcode_CreatedAtPredicates :: "(int, 'f) field_predicates" where
  "activationcode_CreatedAtPredicates = predicates_on VTime True False False ''created_at''"

definition activationcode_UpdatedAt :: "int \<Rightarrow> 'f sql_predicate" where
  "activationcode_UpdatedAt v = FieldEQ ''updated_at'' (VTime v)"

definition activationcode_UpdatedAtPredicates :: "(int, 'f) field_predicates" where
  "activationcode_UpdatedAtPredicates = predicates_on VTime True False False ''updated_at''"

definition activationcode_ExpiresAt :: "int \<Rightarrow> 'f sql_predicate" where
  "activationcode_ExpiresAt v = FieldEQ ''expires_at'' (VTime v)"

definition activationcode_ExpiresAtPredicates :: "(int, 'f) field_predicates" where
  "activationcode_ExpiresAtPredicates = predicates_on VTime True False False ''expires_at''"

definition activationcode_HasOwner :: "'f sql_predicate" where
  "activationcode_HasOwner = HasNeighbors (NewEdgeStep ''activation_codes'' ''id'' O2O True ''activation_codes'' [''user_activation_code''])"

definition activationcode_HasOwnerWith :: "'f sql_predicate list \<Rightarrow> 'f sql_predicate" where
  "activationcode_HasOwnerWith preds = HasNeighborsWith activationcode_newOwnerStep preds"

definition activationcode_And :: "'f sql_predicate list \<Rightarrow> 'f sql_predicate" where
  "activationcode_And = AndPredicates"

definition activationcode_Or :: "'f sql_predicate list \<Rightarrow> 'f sql_predicate" where
  "activationcode_Or = OrPredicates"

definition activationcode_Not :: "'f sql_predicate \<Rightarrow> 'f sql_predicate" where
  "activationcode_Not = NotPredicates"

section \<open>Blacklisted token\<close>

definition blacklistedtoken_IDPredicates :: "(int, 'f) field_predicates" where
  "blacklistedtoken_IDPredicates = predicates_on VInt True False False ''id''"

definition blacklistedtoken_Token :: "string \<Rightarrow> 'f sql_predicate" where
  "blacklistedtoken_Token v = FieldEQ ''token'' (VString v)"

definition blacklistedtoken_TokenPredicates :: "(string, 'f) field_predicates" where
  "blacklistedtoken_TokenPredicates = predicates_on VString True True False ''token''"

definition blacklistedtoken_CreatedAt :: "int \<Rightarrow> 'f sql_predicate" where
  "blacklistedtoken_CreatedAt v = FieldEQ ''created_at'' (VTime v)"

definition blacklistedtoken_CreatedAtPredicates :: "(int, 'f) field_predicates" where
  "blacklistedtoken_CreatedAtPredicates = predicates_on VTime True False False ''created_at''"

definition blacklistedtoken_UpdatedAt :: "int \<Rightarrow> 'f sql_predicate" where
  "blacklistedtoken_UpdatedAt v = FieldEQ ''updated_at'' (VTime v)"

definition blacklistedtoken_UpdatedAtPredicates :: "(int, 'f) field_predicates" where
  "blacklistedtoken_UpdatedAtPredicates = predicates_on VTime True False False ''updated_at''"

definition blacklistedtoken_ExpiresAt :: "int \<Rightarrow> 'f sql_predicate" where
  "blacklistedtoken_ExpiresAt v = FieldEQ ''expires_at'' (VTime v)"

definition blacklistedtoken_ExpiresAtPredicates :: "(int, 'f) field_predicates" where
  "blacklistedtoken_ExpiresAtPredicates = predicates_on VTime True False False ''expires_at''"

definition blacklistedtoken_HasOwner :: "'f sql_predicate" where
  "blacklistedtoken_HasOwner = HasNeighbors (NewEdgeStep ''blacklisted_tokens'' ''id'' M2O False ''blacklisted_tokens'' [''blacklisted_token_owner''])"

definition blacklistedtoken_HasOwnerWith :: "'f sql_predicate list \<Rightarrow> 'f sql_predicate" where
  "blacklistedtoken_HasOwnerWith preds = HasNeighborsWith blacklistedtoken_newOwnerStep preds"

definition blacklistedtoken_And :: "'f sql_predicate list \<Rightarrow> 'f sql_predicate" where
  "blacklistedtoken_And = AndPredicates"

definition blacklistedtoken_Or :: "'f sql_predicate list \<Rightarrow> 'f sql_predicate" where
  "blacklistedtoken_Or = OrPredicates"

definition blacklistedtoken_Not :: "'f sql_predicate \<Rightarrow> 'f sql_predicate" where
  "blacklistedtoken_Not = NotPredicates"

section \<open>Entrepreneur details\<close>

definition entrepreneurdetails_IDPredicates :: "(int, 'f) field_predicates" where
  "entrepreneurdetails_IDPredicates = predicates_on VInt True False False ''id''"

definition entrepreneurdetails_BusinessName :: "string \<Rightarrow> 'f sql_predicate" where
  "entrepreneurdetails_BusinessName v = FieldEQ ''business_name'' (VString v)"

definition entrepreneurdetails_BusinessNamePredicates :: "(string, 'f) field_predicates" where
  "entrepreneurdetails_BusinessNamePredicates = predicates_on VString True True True ''business_name''"

definition entrepreneurdetails_Nip :: "string \<Rightarrow> 'f sql_predicate" where
  "entrepreneurdetails_Nip v = FieldEQ ''nip'' (VString v)"

definition entrepreneurdetails_NipPredicates :: "(string, 'f) field_predicates" where
  "entrepreneurdetails_NipPredicates = predicates_on VString True True True ''nip''"

definition entrepreneurdetails_Krs :: "string \<Rightarrow> 'f sql_predicate" where
  "entrepreneurdetails_Krs v = FieldEQ ''krs'' (VString v)"

definition entrepreneurdetails_KrsPredicates :: "(string, 'f) field_predicates" where
  "entrepreneurdetails_KrsPredicates = predicates_on VString True True True ''krs''"

definition entrepreneurdetails_Description :: "string \<Rightarrow> 'f sql_predicate" where
  "entrepreneurdetails_Description v = FieldEQ ''description'' (VString v)"

definition entrepreneurdetails_DescriptionPredicates :: "(string, 'f) field_predicates" where
  "entrepreneurdetails_DescriptionPredicates = predicates_on VString True True True ''description''"

definition entrepreneurdetails_Offer :: "string \<Rightarrow> 'f sql_predicate" where
  "entrepreneurdetails_Offer v = FieldEQ ''offer'' (VString v)"

definition entrepreneurdetails_OfferPredicates :: "(string, 'f) field_predicates" where
  "entrepreneurdetails_OfferPredicates = predicates_on VString True True True ''offer''"

definition entrepreneurdetails_Income :: "'f \<Rightarrow> 'f sql_predicate" where
  "entrepreneurdetails_Income v = FieldEQ ''income'' (VFloat v)"

definition entrepreneurdetails_IncomePredicates :: "('f, 'f) field_predicates" where
  "entrepreneurdetails_IncomePredicates = predicates_on VFloat True False True ''income''"

definition entrepreneurdetails_Costs :: "'f \<Rightarrow> 'f sql_predicate" where
  "entrepreneurdetails_Costs v = FieldEQ ''costs'' (VFloat v)"

definition entrepreneurdetails_CostsPredicates :: "('f, 'f) field_predicates" where
  "entrepreneurdetails_CostsPredicates = predicates_on VFloat True False True ''costs''"

definition entrepreneurdetails_FundingCapital :: "'f \<Rightarrow> 'f sql_predicate" where
  "entrepreneurdetails_FundingCapital v = FieldEQ ''funding_capital'' (VFloat v)"

definition entrepreneurdetails_FundingCapitalPredicates :: "('f, 'f) field_predicates" where
  "entrepreneurdetails_FundingCapitalPredicates = predicates_on VFloat True False True ''funding_capital''"

definition entrepreneurdetails_Industry :: "string \<Rightarrow> 'f sql_predicate" where
  "entrepreneurdetails_Industry v = FieldEQ ''industry'' (VString v)"

definition entrepreneurdetails_IndustryPredicates :: "(string, 'f) field_predicates" where
  "entrepreneurdetails_IndustryPredicates = predicates_on VString True True True ''industry''"

definition entrepreneurdetails_ManagementCouncilMembersPredicates :: "'f sql_predicate \<times> 'f sql_predicate" where
  "entrepreneurdetails_ManagementCouncilMembersPredicates = (FieldIsNull ''management_council_members'', FieldNotNull ''management_council_members'')"

definition entrepreneurdetails_DecisionMakersPredicates :: "'f sql_predicate \<times> 'f sql_predicate" where
  "entrepreneurdetails_DecisionMakersPredicates = (FieldIsNull ''decision_makers'', FieldNotNull ''decision_makers'')"

definition entrepreneurdetails_BusinessPhoneNumber :: "string \<Rightarrow> 'f sql_predicate" where
  "entrepreneurdetails_BusinessPhoneNumber v = FieldEQ ''business_phone_number'' (VString v)"

definition entrepreneurdetails_BusinessPhoneNumberPredicates :: "(string, 'f) field_predicates" where
  "entrepreneurdetails_BusinessPhoneNumberPredicates = predicates_on VString True True True ''business_phone_number''"

definition entrepreneurdetails_BusinessMail :: "string \<Rightarrow> 'f sql_predicate" where
  "entrepreneurdetails_BusinessMail v = FieldEQ ''business_mail'' (VString v)"

definition entrepreneurdetails_BusinessMailPredicates :: "(string, 'f) field_predicates" where
  "entrepreneurdetails_BusinessMailPredicates = predicates_on VString True True True ''business_mail''"

definition entrepreneurdetails_WebsiteAddress :: "string \<Rightarrow> 'f sql_predicate" where
  "entrepreneurdetails_WebsiteAddress v = FieldEQ ''website_address'' (VString v)"

definition entrepreneurdetails_WebsiteAddressPredicates :: "(string, 'f) field_predicates" where
  "entrepreneurdetails_WebsiteAddressPredicates = predicates_on VString True True True ''website_address''"

definition entrepreneurdetails_CreatedAt :: "int \<Rightarrow> 'f sql_predicate" where
  "entrepreneurdetails_CreatedAt v = FieldEQ ''created_at'' (VTime v)"

definition entrepreneurdetails_CreatedAtPredicates :: "(int, 'f) field_predicates" where
  "entrepreneurdetails_CreatedAtPredicates = predicates_on VTime True False False ''created_at''"

definition entrepreneurdetails_UpdatedAt :: "int \<Rightarrow> 'f sql_predicate" where
  "entrepreneurdetails_UpdatedAt v = FieldEQ ''updated_at'' (VTime v)"

definition entrepreneurdetails_UpdatedAtPredicates :: "(int, 'f) field_predicates" where
  "entrepreneurdetails_UpdatedAtPredicates = predicates_on VTime True False False ''updated_at''"

definition entrepreneurdetails_HasUserDetails :: "'f sql_predicate" where
  "entrepreneurdetails_HasUserDetails = HasNeighbors (NewEdgeStep ''entrepreneur_details'' ''id'' O2O True ''entrepreneur_details'' [''user_details_entrepreneur_details''])"

definition entrepreneurdetails_HasUserDetailsWith :: "'f sql_predicate list \<Rightarrow> 'f sql_predicate" where
  "entrepreneurdetails_HasUserDetailsWith preds = HasNeighborsWith entrepreneurdetails_newUserDetailsStep preds"

definition entrepreneurdetails_And :: "'f sql_predicate list \<Rightarrow> 'f sql_predicate" where
  "entrepreneurdetails_And = AndPredicates"

definition entrepreneurdetails_Or :: "'f sql_predicate list \<Rightarrow> 'f sql_predicate" where
  "entrepreneurdetails_Or = OrPredicates"

definition entrepreneurdetails_Not :: "'f sql_predicate \<Rightarrow> 'f sql_predicate" where
  "entrepreneurdetails_Not = NotPredicates"

section \<open>Location\<close>

definition location_IDPredicates :: "(int, 'f) field_predicates" where
  "location_IDPredicates = predicates_on VInt True False False ''id''"

definition location_Country :: "string \<Rightarrow> 'f sql_predicate" where
  "location_Country v = FieldEQ ''country'' (VString v)"

definition location_CountryPredicates :: "(string, 'f) field_predicates" where
  "location_CountryPredicates = predicates_on VString True True False ''country''"

definition location_Province :: "string \<Rightarrow> 'f sql_predicate" where
  "location_Province v = FieldEQ ''province'' (VString v)"

definition location_ProvincePredicates :: "(string, 'f) field_predicates" where
  "location_ProvincePredicates = predicates_on VString True True False ''province''"

definition location_City :: "string \<Rightarrow> 'f sql_predicate" where
  "location_City v = FieldEQ ''city'' (VString v)"

definition location_CityPredicates :: "(string, 'f) field_predicates" where
  "location_CityPredicates = predicates_on VString True True False ''city''"

definition location_PostalCode :: "string \<Rightarrow> 'f sql_predicate" where
  "location_PostalCode v = FieldEQ ''postal_code'' (VString v)"

definition location_PostalCodePredicates :: "(string, 'f) field_predicates" where
  "location_PostalCodePredicates = predicates_on VString True True False ''postal_code''"

definition location_Street :: "string \<Rightarrow> 'f sql_predicate" where
  "location_Street v = FieldEQ ''street'' (VString v)"

definition location_StreetPredicates :: "(string, 'f) field_predicates" where
  "location_StreetPredicates = predicates_on VString True True True ''street''"

definition location_BuildingNumber :: "int \<Rightarrow> 'f sql_predicate" where
  "location_BuildingNumber v = FieldEQ ''building_number'' (VInt v)"

definition location_BuildingNumberPredicates :: "(int, 'f) field_predicates" where
  "location_BuildingNumberPredicates = predicates_on VInt True False False ''building_number''"

definition location_ApartmentNumber :: "int \<Rightarrow> 'f sql_predicate" where
  "location_ApartmentNumber v = FieldEQ ''apartment_number'' (VInt v)"

definition location_ApartmentNumberPredicates :: "(int, 'f) field_predicates" where
  "location_ApartmentNumberPredicates = predicates_on VInt True False False ''apartment_number''"

definition location_CreatedAt :: "int \<Rightarrow> 'f sql_predicate" where
  "location_CreatedAt v = FieldEQ ''created_at'' (VTime v)"

definition location_CreatedAtPredicates :: "(int, 'f) field_predicates" where
  "location_CreatedAtPredicates = predicates_on VTime True False False ''created_at''"

definition location_UpdatedAt :: "int \<Rightarrow> 'f sql_predicate" where
  "location_UpdatedAt v = FieldEQ ''updated_at'' (VTime v)"

definition location_UpdatedAtPredicates :: "(int, 'f) field_predicates" where
  "location_UpdatedAtPredicates = predicates_on VTime True False False ''updated_at''"

definition location_HasUserDetails :: "'f sql_predicate" where
  "location_HasUserDetails = HasNeighbors (NewEdgeStep ''locations'' ''id'' M2O True ''locations'' [''user_details_locations''])"

definition location_HasUserDetailsWith :: "'f sql_predicate list \<Rightarrow> 'f sql_predicate" where
  "location_HasUserDetailsWith preds = HasNeighborsWith location_newUserDetailsStep preds"

definition location_And :: "'f sql_predicate list \<Rightarrow> 'f sql_predicate" where
  "location_And = AndPredicates"

definition location_Or :: "'f sql_predicate list \<Rightarrow> 'f sql_predicate" where
  "location_Or = OrPredicates"

definition location_Not :: "'f sql_predicate \<Rightarrow> 'f sql_predicate" where
  "location_Not = NotPredicates"

section \<open>Reset code\<close>

definition resetcode_IDPredicates :: "(int, 'f) field_predicates" where
  "resetcode_IDPredicates = predicates_on VInt True False False ''id''"

definition resetcode_Code :: "string \<Rightarrow> 'f sql_predicate" where
  "resetcode_Code v = FieldEQ ''code'' (VString v)"

definition resetcode_CodePredicates :: "(string, 'f) field_predicates" where
  "resetcode_CodePredicates = predicates_on VString True True False ''code''"

definition resetcode_CreatedAt :: "int \<Rightarrow> 'f sql_predicate" where
  "resetcode_CreatedAt v = FieldEQ ''created_at'' (VTime v)"

definition resetcode_CreatedAtPredicates :: "(int, 'f) field_predicates" where
  "resetcode_CreatedAtPredicates = predicates_on VTime True False False ''created_at''"

definition resetcode_UpdatedAt :: "int \<Rightarrow> 'f sql_predicate" where
  "resetcode_UpdatedAt v = FieldEQ ''updated_at'' (VTime v)"

definition resetcode_UpdatedAtPredicates :: "(int, 'f) field_predicates" where
  "resetcode_UpdatedAtPredicates = predicates_on VTime True False False ''updated_at''"

definition resetcode_ExpiresAt :: "int \<Rightarrow> 'f sql_predicate" where
  "resetcode_ExpiresAt v = FieldEQ ''expires_at'' (VTime v)"

definition resetcode_ExpiresAtPredicates :: "(int, 'f) field_predicates" where
  "resetcode_ExpiresAtPredicates = predicates_on VTime True False False ''expires_at''"

definition resetcode_HasOwner :: "'f sql_predicate" where
  "resetcode_HasOwner = HasNeighbors (NewEdgeStep ''reset_codes'' ''id'' O2O True ''reset_codes'' [''user_reset_code''])"

definition resetcode_HasOwnerWith :: "'f sql_predicate list \<Rightarrow> 'f sql_predicate" where
  "resetcode_HasOwnerWith preds = HasNeighborsWith resetcode_newOwnerStep preds"

definition resetcode_And :: "'f sql_predicate list \<Rightarrow> 'f sql_predicate" where
  "resetcode_And = AndPredicates"

definition resetcode_Or :: "'f sql_predicate list \<Rightarrow> 'f sql_predicate" where
  "resetcode_Or = OrPredicates"

definition resetcode_Not :: "'f sql_predicate \<Rightarrow> 'f sql_predicate" where
  "resetcode_Not = NotPredicates"

section \<open>Role permission\<close>

definition rolepermission_IDPredicates :: "(int, 'f) field_predicates" where
  "rolepermission_IDPredicates = predicates_on VInt True False False ''id''"

definition rolepermission_Name :: "string \<Rightarrow> 'f sql_predicate" where
  "rolepermission_Name v = FieldEQ ''name'' (VString v)"

definition rolepermission_NamePredicates :: "(string, 'f) field_predicates" where
  "rolepermission_NamePredicates = predicates_on VString True True False ''name''"

definition rolepermission_View :: "bool \<Rightarrow> 'f sql_predicate" where
  "rolepermission_View v = FieldEQ ''view'' (VBool v)"

definition rolepermission_ViewPredicates :: "(bool, 'f) field_predicates" where
  "rolepermission_ViewPredicates = predicates_on VBool False False False ''view''"

definition rolepermission_Add :: "bool \<Rightarrow> 'f sql_predicate" where
  "rolepermission_Add v = FieldEQ ''add'' (VBool v)"

definition rolepermission_AddPredicates :: "(bool, 'f) field_predicates" where
  "rolepermission_AddPredicates = predicates_on VBool False False False ''add''"

definition rolepermission_Edit :: "bool \<Rightarrow> 'f sql_predicate" where
  "rolepermission_Edit v = FieldEQ ''edit'' (VBool v)"

definition rolepermission_EditPredicates :: "(bool, 'f) field_predicates" where
  "rolepermission_EditPredicates = predicates_on VBool False False False ''edit''"

definition rolepermission_Delete :: "bool \<Rightarrow> 'f sql_predicate" where
  "rolepermission_Delete v = FieldEQ ''delete'' (VBool v)"

definition rolepermission_DeletePredicates :: "(bool, 'f) field_predicates" where
  "rolepermission_DeletePredicates = predicates_on VBool False False False ''delete''"

definition rolepermission_CreatedAt :: "int \<Rightarrow> 'f sql_predicate" where
  "rolepermission_CreatedAt v = FieldEQ ''created_at'' (VTime v)"

definition rolepermission_CreatedAtPredicates :: "(int, 'f) field_predicates" where
  "rolepermission_CreatedAtPredicates = predicates_on VTime True False False ''created_at''"

definition rolepermission_UpdatedAt :: "int \<Rightarrow> 'f sql_predicate" where
  "rolepermission_UpdatedAt v = FieldEQ ''updated_at'' (VTime v)"

definition rolepermission_UpdatedAtPredicates :: "(int, 'f) field_predicates" where
  "rolepermission_UpdatedAtPredicates = predicates_on VTime True False False ''updated_at''"

definition rolepermission_HasUserRole :: "'f sql_predicate" where
  "rolepermission_HasUserRole = HasNeighbors (NewEdgeStep ''role_permissions'' ''id'' M2M False ''role_permission_user_role'' [''role_permission_id'', ''user_role_id''])"

definition rolepermission_HasUserRoleWith :: "'f sql_predicate list \<Rightarrow> 'f sql_predicate" where
  "rolepermission_HasUserRoleWith preds = HasNeighborsWith rolepermission_newUserRoleStep preds"

definition rolepermission_And :: "'f sql_predicate list \<Rightarrow> 'f sql_predicate" where
  "rolepermission_And = AndPredicates"

definition rolepermission_Or :: "'f sql_predicate list \<Rightarrow> 'f sql_predicate" where
  "rolepermission_Or = OrPredicates"

definition rolepermission_Not :: "'f sql_predicate \<Rightarrow> 'f sql_predicate" where
  "rolepermission_Not = NotPredicates"

section \<open>Second factor code\<close>

definition secondfactorcode_IDPredicates :: "(int, 'f) field_predicates" where
  "secondfactorcode_IDPredicates = predicates_on VInt True False False ''id''"

definition secondfactorcode_Used :: "bool \<Rightarrow> 'f sql_predicate" where
  "secondfactorcode_Used v = FieldEQ ''used'' (VBool v)"

definition secondfactorcode_UsedPredicates :: "(bool, 'f) field_predicates" where
  "secondfactorcode_UsedPredicates = predicates_on VBool False False False ''used''"

definition secondfactorcode_Code :: "string \<Rightarrow> 'f sql_predicate" where
  "secondfactorcode_Code v = FieldEQ ''code'' (VString v)"

definition secondfactorcode_CodePredicates :: "(string, 'f) field_predicates" where
  "secondfactorcode_CodePredicates = predicates_on VString True True False ''code''"

definition secondfactorcode_CreatedAt :: "int \<Rightarrow> 'f sql_predicate" where
  "secondfactorcode_CreatedAt v = FieldEQ ''created_at'' (VTime v)"

definition secondfactorcode_CreatedAtPredicates :: "(int, 'f) field_predicates" where
  "secondfactorcode_CreatedAtPredicates = predicates_on VTime True False False ''created_at''"

definition secondfactorcode_UpdatedAt :: "int \<Rightarrow> 'f sql_predicate" where
  "secondfactorcode_UpdatedAt v = FieldEQ ''updated_at'' (VTime v)"

definition secondfactorcode_UpdatedAtPredicates :: "(int, 'f) field_predicates" where
  "secondfactorcode_UpdatedAtPredicates = predicates_on VTime True False False ''updated_at''"

definition secondfactorcode_ExpiresAt :: "int \<Rightarrow> 'f sql_predicate" where
  "secondfactorcode_ExpiresAt v = FieldEQ ''expires_at'' (VTime v)"

definition secondfactorcode_ExpiresAtPredicates :: "(int, 'f) field_predicates" where
  "secondfactorcode_ExpiresAtPredicates = predicates_on VTime True False False ''expires_at''"

definition secondfactorcode_HasOwner :: "'f sql_predicate" where
  "secondfactorcode_HasOwner = HasNeighbors (NewEdgeStep ''second_factor_codes'' ''id'' O2O True ''second_factor_codes'' [''user_second_factor_code''])"

definition secondfactorcode_HasOwnerWith :: "'f sql_predicate list \<Rightarrow> 'f sql_predicate" where
  "secondfactorcode_HasOwnerWith preds = HasNeighborsWith secondfactorcode_newOwnerStep preds"

definition secondfactorcode_HasTargetUserDevice :: "'f sql_predicate" where
  "secondfactorcode_HasTargetUserDevice = HasNeighbors (NewEdgeStep ''second_factor_codes'' ''id'' O2O False ''user_devices'' [''second_factor_code_target_user_device''])"

definition secondfactorcode_HasTargetUserDeviceWith :: "'f sql_predicate list \<Rightarrow> 'f sql_predicate" where
  "secondfactorcode_HasTargetUserDeviceWith preds = HasNeighborsWith secondfactorcode_newTargetUserDeviceStep preds"

definition secondfactorcode_And :: "'f sql_predicate list \<Rightarrow> 'f sql_predicate" where
  "secondfactorcode_And = AndPredicates"

definition secondfactorcode_Or :: "'f sql_predicate list \<Rightarrow> 'f sql_predicate" where
  "secondfactorcode_Or = OrPredicates"

definition secondfactorcode_Not :: "'f sql_predicate \<Rightarrow> 'f sql_predicate" where
  "secondfactorcode_Not = NotPredicates"

section \<open>User\<close>

definition user_IDPredicates :: "(int, 'f) field_predicates" where
  "user_IDPredicates = predicates_on VInt True False False ''id''"

definition user_Mail :: "string \<Rightarrow> 'f sql_predicate" where
  "user_Mail v = FieldEQ ''mail'' (VString v)"

definition user_MailPredicates :: "(string, 'f) field_predicates" where
  "user_MailPredicates = predicates_on VString True True False ''mail''"

definition user_Phone :: "string \<Rightarrow> 'f sql_predicate" where
  "user_Phone v = FieldEQ ''phone'' (VString v)"

definition user_PhonePredicates :: "(string, 'f) field_predicates" where
  "user_PhonePredicates = predicates_on VString True True True ''phone''"

definition user_Password :: "string \<Rightarrow> 'f sql_predicate" where
  "user_Password v = FieldEQ ''password'' (VString v)"

definition user_PasswordPredicates :: "(string, 'f) field_predicates" where
  "user_PasswordPredicates = predicates_on VString True True False ''password''"

definition user_Active :: "bool \<Rightarrow> 'f sql_predicate" where
  "user_Active v = FieldEQ ''active'' (VBool v)"

definition user_ActivePredicates :: "(bool, 'f) field_predicates" where
  "user_ActivePredicates = predicates_on VBool False False False ''active''"

definition user_Verified :: "bool \<Rightarrow> 'f sql_predicate" where
  "user_Verified v = FieldEQ ''verified'' (VBool v)"

definition user_VerifiedPredicates :: "(bool, 'f) field_predicates" where
  "user_VerifiedPredicates = predicates_on VBool False False False ''verified''"

definition user_Blacklisted :: "bool \<Rightarrow> 'f sql_predicate" where
  "user_Blacklisted v = FieldEQ ''blacklisted'' (VBool v)"

definition user_BlacklistedPredicates :: "(bool, 'f) field_predicates" where
  "user_BlacklistedPredicates = predicates_on VBool False False False ''blacklisted''"

definition user_Removed :: "bool \<Rightarrow> 'f sql_predicate" where
  "user_Removed v = FieldEQ ''removed'' (VBool v)"

definition user_RemovedPredicates :: "(bool, 'f) field_predicates" where
  "user_RemovedPredicates = predicates_on VBool False False False ''removed''"

definition user_CreatedAt :: "int \<Rightarrow> 'f sql_predicate" where
  "user_CreatedAt v = FieldEQ ''created_at'' (VTime v)"

definition user_CreatedAtPredicates :: "(int, 'f) field_predicates" where
  "user_CreatedAtPredicates = predicates_on VTime True False False ''created_at''"

definition user_UpdatedAt :: "int \<Rightarrow> 'f sql_predicate" where
  "user_UpdatedAt v = FieldEQ ''updated_at'' (VTime v)"

definition user_UpdatedAtPredicates :: "(int, 'f) field_predicates" where
  "user_UpdatedAtPredicates = predicates_on VTime True False False ''updated_at''"

definition user_HasUserDetails :: "'f sql_predicate" where
  "user_HasUserDetails = HasNeighbors (NewEdgeStep ''users'' ''id'' O2O False ''user_details'' [''user_user_details''])"

definition user_HasUserDetailsWith :: "'f sql_predicate list \<Rightarrow> 'f sql_predicate" where
  "user_HasUserDetailsWith preds = HasNeighborsWith user_newUserDetailsStep preds"

definition user_HasUserSettings :: "'f sql_predicate" where
  "user_HasUserSettings = HasNeighbors (NewEdgeStep ''users'' ''id'' O2O False ''user_settings'' [''user_user_settings''])"

definition user_HasUserSettingsWith :: "'f sql_predicate list \<Rightarrow> 'f sql_predicate" where
  "user_HasUserSettingsWith preds = HasNeighborsWith user_newUserSettingsStep preds"

definition user_HasActivationCode :: "'f sql_predicate" where
  "user_HasActivationCode = HasNeighbors (NewEdgeStep ''users'' ''id'' O2O False ''activation_codes'' [''user_activation_code''])"

definition user_HasActivationCodeWith :: "'f sql_predicate list \<Rightarrow> 'f sql_predicate" where
  "user_HasActivationCodeWith preds = HasNeighborsWith user_newActivationCodeStep preds"

definition user_HasVerificationCode :: "'f sql_predicate" where
  "user_HasVerificationCode = HasNeighbors (NewEdgeStep ''users'' ''id'' O2O False ''verification_codes'' [''user_verification_code''])"

definition user_HasVerificationCodeWith :: "'f sql_predicate list \<Rightarrow> 'f sql_predicate" where
  "user_HasVerificationCodeWith preds = HasNeighborsWith user_newVerificationCodeStep preds"

definition user_HasSecondFactorCode :: "'f sql_predicate" where
  "user_HasSecondFactorCode = HasNeighbors (NewEdgeStep ''users'' ''id'' O2O False ''second_factor_codes'' [''user_second_factor_code''])"

definition user_HasSecondFactorCodeWith :: "'f sql_predicate list \<Rightarrow> 'f sql_predicate" where
  "user_HasSecondFactorCodeWith preds = HasNeighborsWith user_newSecondFactorCodeStep preds"

definition user_HasResetCode :: "'f sql_predicate" where
  "user_HasResetCode = HasNeighbors (NewEdgeStep ''users'' ''id'' O2O False ''reset_codes'' [''user_reset_code''])"

definition user_HasResetCodeWith :: "'f sql_predicate list \<Rightarrow> 'f sql_predicate" where
  "user_HasResetCodeWith preds = HasNeighborsWith user_newResetCodeStep preds"

definition user_HasUserDevices :: "'f sql_predicate" where
  "user_HasUserDevices = HasNeighbors (NewEdgeStep ''users'' ''id'' O2M False ''user_devices'' [''user_user_devices''])"

definition user_HasUserDevicesWith :: "'f sql_predicate list \<Rightarrow> 'f sql_predicate" where
  "user_HasUserDevicesWith preds = HasNeighborsWith user_newUserDevicesStep preds"

definition user_HasUserActions :: "'f sql_predicate" where
  "user_HasUserActions = HasNeighbors (NewEdgeStep ''users'' ''id'' M2M False ''user_user_actions'' [''user_id'', ''user_action_id''])"

definition user_HasUserActionsWith :: "'f sql_predicate list \<Rightarrow> 'f sql_predicate" where
  "user_HasUserActionsWith preds = HasNeighborsWith user_newUserActionsStep preds"

definition user_HasUserRoles :: "'f sql_predicate" where
  "user_HasUserRoles = HasNeighbors (NewEdgeStep ''users'' ''id'' M2M False ''user_user_roles'' [''user_id'', ''user_role_id''])"

definition user_HasUserRolesWith :: "'f sql_predicate list \<Rightarrow> 'f sql_predicate" where
  "user_HasUserRolesWith preds = HasNeighborsWith user_newUserRolesStep preds"

definition user_HasBlacklistedTokens :: "'f sql_predicate" where
  "user_HasBlacklistedTokens = HasNeighbors (NewEdgeStep ''users'' ''id'' O2M True ''blacklisted_tokens'' [''blacklisted_token_owner''])"

definition user_HasBlacklistedTokensWith :: "'f sql_predicate list \<Rightarrow> 'f sql_predicate" where
  "user_HasBlacklistedTokensWith preds = HasNeighborsWith user_newBlacklistedTokensStep preds"

definition user_And :: "'f sql_predicate list \<Rightarrow> 'f sql_predicate" where
  "user_And = AndPredicates"

definition user_Or :: "'f sql_predicate list \<Rightarrow> 'f sql_predicate" where
  "user_Or = OrPredicates"

definition user_Not :: "'f sql_predicate \<Rightarrow> 'f sql_predicate" where
  "user_Not = NotPredicates"

section \<open>User action\<close>

definition useraction_IDPredicates :: "(int, 'f) field_predicates" where
  "useraction_IDPredicates = predicates_on VInt True False False ''id''"

definition useraction_Type :: "string \<Rightarrow> 'f sql_predicate" where
  "useraction_Type v = FieldEQ ''type'' (VString v)"

definition useraction_TypePredicates :: "(string, 'f) field_predicates" where
  "useraction_TypePredicates = predicates_on VString True True False ''type''"

definition useraction_Action :: "string \<Rightarrow> 'f sql_predicate" where
  "useraction_Action v = FieldEQ ''action'' (VString v)"

definition useraction_ActionPredicates :: "(string, 'f) field_predicates" where
  "useraction_ActionPredicates = predicates_on VString True True False ''action''"

definition useraction_Details :: "string \<Rightarrow> 'f sql_predicate" where
  "useraction_Details v = FieldEQ ''details'' (VString v)"

definition useraction_DetailsPredicates :: "(string, 'f) field_predicates" where
  "useraction_DetailsPredicates = predicates_on VString True True False ''details''"

definition useraction_CreatedAt :: "int \<Rightarrow> 'f sql_predicate" where
  "useraction_CreatedAt v = FieldEQ ''created_at'' (VTime v)"

definition useraction_CreatedAtPredicates :: "(int, 'f) field_predicates" where
  "useraction_CreatedAtPredicates = predicates_on VTime True False False ''created_at''"

definition useraction_UpdatedAt :: "int \<Rightarrow> 'f sql_predicate" where
  "useraction_UpdatedAt v = FieldEQ ''updated_at'' (VTime v)"

definition useraction_UpdatedAtPredicates :: "(int, 'f) field_predicates" where
  "useraction_UpdatedAtPredicates = predicates_on VTime True False False ''updated_at''"

definition useraction_HasAuthor :: "'f sql_predicate" where
  "useraction_HasAuthor = HasNeighbors (NewEdgeStep ''user_actions'' ''id'' M2M True ''user_user_actions'' [''user_id'', ''user_action_id''])"

definition useraction_HasAuthorWith :: "'f sql_predicate list \<Rightarrow> 'f sql_predicate" where
  "useraction_HasAuthorWith preds = HasNeighborsWith useraction_newAuthorStep preds"

definition useraction_HasAuthorDevice :: "'f sql_predicate" where
  "useraction_HasAuthorDevice = HasNeighbors (NewEdgeStep ''user_actions'' ''id'' M2M True ''user_device_user_actions'' [''user_device_id'', ''user_action_id''])"

definition useraction_HasAuthorDeviceWith :: "'f sql_predicate list \<Rightarrow> 'f sql_predicate" where
  "useraction_HasAuthorDeviceWith preds = HasNeighborsWith useraction_newAuthorDeviceStep preds"

definition useraction_And :: "'f sql_predicate list \<Rightarrow> 'f sql_predicate" where
  "useraction_And = AndPredicates"

definition useraction_Or :: "'f sql_predicate list \<Rightarrow> 'f sql_predicate" where
  "useraction_Or = OrPredicates"

definition useraction_Not :: "'f sql_predicate \<Rightarrow> 'f sql_predicate" where
  "useraction_Not = NotPredicates"

section \<open>User details\<close>

definition userdetails_IDPredicates :: "(int, 'f) field_predicates" where
  "userdetails_IDPredicates = predicates_on VInt True False False ''id''"

definition userdetails_Name :: "string \<Rightarrow> 'f sql_predicate" where
  "userdetails_Name v = FieldEQ ''name'' (VString v)"

definition userdetails_NamePredicates :: "(string, 'f) field_predicates" where
  "userdetails_NamePredicates = predicates_on VString True True False ''name''"

definition userdetails_FirstName :: "string \<Rightarrow> 'f sql_predicate" where
  "userdetails_FirstName v = FieldEQ ''first_name'' (VString v)"

definition userdetails_FirstNamePredicates :: "(string, 'f) field_predicates" where
  "userdetails_FirstNamePredicates = predicates_on VString True True True ''first_name''"

definition userdetails_LastName :: "string \<Rightarrow> 'f sql_predicate" where
  "userdetails_LastName v = FieldEQ ''last_name'' (VString v)"

definition userdetails_LastNamePredicates :: "(string, 'f) field_predicates" where
  "userdetails_LastNamePredicates = predicates_on VString True True True ''last_name''"

definition userdetails_CreatedAt :: "int \<Rightarrow> 'f sql_predicate" where
  "userdetails_CreatedAt v = FieldEQ ''created_at'' (VTime v)"

definition userdetails_CreatedAtPredicates :: "(int, 'f) field_predicates" where
  "userdetails_CreatedAtPredicates = predicates_on VTime True False False ''created_at''"

definition userdetails_UpdatedAt :: "int \<Rightarrow> 'f sql_predicate" where
  "userdetails_UpdatedAt v = FieldEQ ''updated_at'' (VTime v)"

definition userdetails_UpdatedAtPredicates :: "(int, 'f) field_predicates" where
  "userdetails_UpdatedAtPredicates = predicates_on VTime True False False ''updated_at''"

definition userdetails_HasOwner :: "'f sql_predicate" where
  "userdetails_HasOwner = HasNeighbors (NewEdgeStep ''user_details'' ''id'' O2O True ''user_details'' [''user_user_details''])"

definition userdetails_HasOwnerWith :: "'f sql_predicate list \<Rightarrow> 'f sql_predicate" where
  "userdetails_HasOwnerWith preds = HasNeighborsWith userdetails_newOwnerStep preds"

definition userdetails_HasLocations :: "'f sql_predicate" where
  "userdetails_HasLocations = HasNeighbors (NewEdgeStep ''user_details'' ''id'' O2M False ''locations'' [''user_details_locations''])"

definition userdetails_HasLocationsWith :: "'f sql_predicate list \<Rightarrow> 'f sql_predicate" where
  "userdetails_HasLocationsWith preds = HasNeighborsWith userdetails_newLocationsStep preds"

definition userdetails_HasEntrepreneurDetails :: "'f sql_predicate" where
  "userdetails_HasEntrepreneurDetails = HasNeighbors (NewEdgeStep ''user_details'' ''id'' O2O False ''entrepreneur_details'' [''user_details_entrepreneur_details''])"

definition userdetails_HasEntrepreneurDetailsWith :: "'f sql_predicate list \<Rightarrow> 'f sql_predicate" where
  "userdetails_HasEntrepreneurDetailsWith preds = HasNeighborsWith userdetails_newEntrepreneurDetailsStep preds"

definition userdetails_And :: "'f sql_predicate list \<Rightarrow> 'f sql_predicate" where
  "userdetails_And = AndPredicates"

definition userdetails_Or :: "'f sql_predicate list \<Rightarrow> 'f sql_predicate" where
  "userdetails_Or = OrPredicates"

definition userdetails_Not :: "'f sql_predicate \<Rightarrow> 'f sql_predicate" where
  "userdetails_Not = NotPredicates"

section \<open>User device\<close>

definition userdevice_IDPredicates :: "(int, 'f) field_predicates" where
  "userdevice_IDPredicates = predicates_on VInt True False False ''id''"

definition userdevice_Name :: "string \<Rightarrow> 'f sql_predicate" where
  "userdevice_Name v = FieldEQ ''name'' (VString v)"

definition userdevice_NamePredicates :: "(string, 'f) field_predicates" where
  "userdevice_NamePredicates = predicates_on VString True True True ''name''"

definition userdevice_Type :: "string \<Rightarrow> 'f sql_predicate" where
  "userdevice_Type v = FieldEQ ''type'' (VString v)"

definition userdevice_TypePredicates :: "(string, 'f) field_predicates" where
  "userdevice_TypePredicates = predicates_on VString True True True ''type''"

definition userdevice_Token :: "string \<Rightarrow> 'f sql_predicate" where
  "userdevice_Token v = FieldEQ ''token'' (VString v)"

definition userdevice_TokenPredicates :: "(string, 'f) field_predicates" where
  "userdevice_TokenPredicates = predicates_on VString True True False ''token''"

definition userdevice_IPAddress :: "string \<Rightarrow> 'f sql_predicate" where
  "userdevice_IPAddress v = FieldEQ ''ip_address'' (VString v)"

definition userdevice_IPAddressPredicates :: "(string, 'f) field_predicates" where
  "userdevice_IPAddressPredicates = predicates_on VString True True True ''ip_address''"

definition userdevice_UserAgent :: "string \<Rightarrow> 'f sql_predicate" where
  "userdevice_UserAgent v = FieldEQ ''user_agent'' (VString v)"

definition userdevice_UserAgentPredicates :: "(string, 'f) field_predicates" where
  "userdevice_UserAgentPredicates = predicates_on VString True True True ''user_agent''"

definition userdevice_OsName :: "string \<Rightarrow> 'f sql_predicate" where
  "userdevice_OsName v = FieldEQ ''os_name'' (VString v)"

definition userdevice_OsNamePredicates :: "(string, 'f) field_predicates" where
  "userdevice_OsNamePredicates = predicates_on VString True True True ''os_name''"

definition userdevice_OsVersion :: "string \<Rightarrow> 'f sql_predicate" where
  "userdevice_OsVersion v = FieldEQ ''os_version'' (VString v)"

definition userdevice_OsVersionPredicates :: "(string, 'f) field_predicates" where
  "userdevice_OsVersionPredicates = predicates_on VString True True True ''os_version''"

definition userdevice_BrowserName :: "string \<Rightarrow> 'f sql_predicate" where
  "userdevice_BrowserName v = FieldEQ ''browser_name'' (VString v)"

definition userdevice_BrowserNamePredicates :: "(string, 'f) field_predicates" where
  "userdevice_BrowserNamePredicates = predicates_on VString True True True ''browser_name''"

definition userdevice_BrowserVersion :: "string \<Rightarrow> 'f sql_predicate" where
  "userdevice_BrowserVersion v = FieldEQ ''browser_version'' (VString v)"

definition userdevice_BrowserVersionPredicates :: "(string, 'f) field_predicates" where
  "userdevice_BrowserVersionPredicates = predicates_on VString True True True ''browser_version''"

definition userdevice_LastSeenAt :: "int \<Rightarrow> 'f sql_predicate" where
  "userdevice_LastSeenAt v = FieldEQ ''last_seen_at'' (VTime v)"

definition userdevice_LastSeenAtPredicates :: "(int, 'f) field_predicates" where
  "userdevice_LastSeenAtPredicates = predicates_on VTime True False False ''last_seen_at''"

definition userdevice_CreatedAt :: "int \<Rightarrow> 'f sql_predicate" where
  "userdevice_CreatedAt v = FieldEQ ''created_at'' (VTime v)"

definition userdevice_CreatedAtPredicates :: "(int, 'f) field_predicates" where
  "userdevice_CreatedAtPredicates = predicates_on VTime True False False ''created_at''"

definition userdevice_UpdatedAt :: "int \<Rightarrow> 'f sql_predicate" where
  "userdevice_UpdatedAt v = FieldEQ ''updated_at'' (VTime v)"

definition userdevice_UpdatedAtPredicates :: "(int, 'f) field_predicates" where
  "userdevice_UpdatedAtPredicates = predicates_on VTime True False False ''updated_at''"

definition userdevice_HasOwner :: "'f sql_predicate" where
  "userdevice_HasOwner = HasNeighbors (NewEdgeStep ''user_devices'' ''id'' M2O True ''user_devices'' [''user_user_devices''])"

definition userdevice_HasOwnerWith :: "'f sql_predicate list \<Rightarrow> 'f sql_predicate" where
  "userdevice_HasOwnerWith preds = HasNeighborsWith userdevice_newOwnerStep preds"

definition userdevice_HasUserSettings2fa :: "'f sql_predicate" where
  "userdevice_HasUserSettings2fa = HasNeighbors (NewEdgeStep ''user_devices'' ''id'' O2O True ''user_devices'' [''user_settings_second_factor_target''])"

definition userdevice_HasUserSettings2faWith :: "'f sql_predicate list \<Rightarrow> 'f sql_predicate" where
  "userdevice_HasUserSettings2faWith preds = HasNeighborsWith userdevice_newUserSettings2faStep preds"

definition userdevice_HasSecondFactorCodes :: "'f sql_predicate" where
  "userdevice_HasSecondFactorCodes = HasNeighbors (NewEdgeStep ''user_devices'' ''id'' O2O True ''user_devices'' [''second_factor_code_target_user_device''])"

definition userdevice_HasSecondFactorCodesWith :: "'f sql_predicate list \<Rightarrow> 'f sql_predicate" where
  "userdevice_HasSecondFactorCodesWith preds = HasNeighborsWith userdevice_newSecondFactorCodesStep preds"

definition userdevice_HasUserActions :: "'f sql_predicate" where
  "userdevice_HasUserActions = HasNeighbors (NewEdgeStep ''user_devices'' ''id'' M2M False ''user_device_user_actions'' [''user_device_id'', ''user_action_id''])"

definition userdevice_HasUserActionsWith :: "'f sql_predicate list \<Rightarrow> 'f sql_predicate" where
  "userdevice_HasUserActionsWith preds = HasNeighborsWith userdevice_newUserActionsStep preds"

definition userdevice_And :: "'f sql_predicate list \<Rightarrow> 'f sql_predicate" where
  "userdevice_And = AndPredicates"

definition userdevice_Or :: "'f sql_predicate list \<Rightarrow> 'f sql_predicate" where
  "userdevice_Or = OrPredicates"

definition userdevice_Not :: "'f sql_predicate \<Rightarrow> 'f sql_predicate" where
  "userdevice_Not = NotPredicates"

section \<open>User role\<close>

definition userrole_IDPredicates :: "(int, 'f) field_predicates" where
  "userrole_IDPredicates = predicates_on VInt True False False ''id''"

definition userrole_Name :: "string \<Rightarrow> 'f sql_predicate" where
  "userrole_Name v = FieldEQ ''name'' (VString v)"

definition userrole_NamePredicates :: "(string, 'f) field_predicates" where
  "userrole_NamePredicates = predicates_on VString True True False ''name''"

definition userrole_Description :: "string \<Rightarrow> 'f sql_predicate" where
  "userrole_Description v = FieldEQ ''description'' (VString v)"

definition userrole_DescriptionPredicates :: "(string, 'f) field_predicates" where
  "userrole_DescriptionPredicates = predicates_on VString True True False ''description''"

definition userrole_CreatedAt :: "int \<Rightarrow> 'f sql_predicate" where
  "userrole_CreatedAt v = FieldEQ ''created_at'' (VTime v)"

definition userrole_CreatedAtPredicates :: "(int, 'f) field_predicates" where
  "userrole_CreatedAtPredicates = predicates_on VTime True False False ''created_at''"

definition userrole_UpdatedAt :: "int \<Rightarrow> 'f sql_predicate" where
  "userrole_UpdatedAt v = FieldEQ ''updated_at'' (VTime v)"

definition userrole_UpdatedAtPredicates :: "(int, 'f) field_predicates" where
  "userrole_UpdatedAtPredicates = predicates_on VTime True False False ''updated_at''"

definition userrole_HasOwner :: "'f sql_predicate" where
  "userrole_HasOwner = HasNeighbors (NewEdgeStep ''user_roles'' ''id'' M2M True ''user_user_roles'' [''user_id'', ''user_role_id''])"

definition userrole_HasOwnerWith :: "'f sql_predicate list \<Rightarrow> 'f sql_predicate" where
  "userrole_HasOwnerWith preds = HasNeighborsWith userrole_newOwnerStep preds"

definition userrole_HasPermissions :: "'f sql_predicate" where
  "userrole_HasPermissions = HasNeighbors (NewEdgeStep ''user_roles'' ''id'' M2M True ''role_permission_user_role'' [''role_permission_id'', ''user_role_id''])"

definition userrole_HasPermissionsWith :: "'f sql_predicate list \<Rightarrow> 'f sql_predicate" where
  "userrole_HasPermissionsWith preds = HasNeighborsWith userrole_newPermissionsStep preds"

definition userrole_And :: "'f sql_predicate list \<Rightarrow> 'f sql_predicate" where
  "userrole_And = AndPredicates"

definition userrole_Or :: "'f sql_predicate list \<Rightarrow> 'f sql_predicate" where
  "userrole_Or = OrPredicates"

definition userrole_Not :: "'f sql_predicate \<Rightarrow> 'f sql_predicate" where
  "userrole_Not = NotPredicates"

section \<open>User settings\<close>

definition usersettings_IDPredicates :: "(int, 'f) field_predicates" where
  "usersettings_IDPredicates = predicates_on VInt True False False ''id''"

definition usersettings_UUID :: "string \<Rightarrow> 'f sql_predicate" where
  "usersettings_UUID v = FieldEQ ''uuid'' (VString v)"

definition usersettings_UUIDPredicates :: "(string, 'f) field_predicates" where
  "usersettings_UUIDPredicates = predicates_on VString True True False ''uuid''"

definition usersettings_TwoFactor :: "bool \<Rightarrow> 'f sql_predicate" where
  "usersettings_TwoFactor v = FieldEQ ''two_factor'' (VBool v)"

definition usersettings_TwoFactorPredicates :: "(bool, 'f) field_predicates" where
  "usersettings_TwoFactorPredicates = predicates_on VBool False False False ''two_factor''"

definition usersettings_NightMode :: "bool \<Rightarrow> 'f sql_predicate" where
  "usersettings_NightMode v = FieldEQ ''night_mode'' (VBool v)"

definition usersettings_NightModePredicates :: "(bool, 'f) field_predicates" where
  "usersettings_NightModePredicates = predicates_on VBool False False False ''night_mode''"

definition usersettings_CreatedAt :: "int \<Rightarrow> 'f sql_predicate" where
  "usersettings_CreatedAt v = FieldEQ ''created_at'' (VTime v)"

definition usersettings_CreatedAtPredicates :: "(int, 'f) field_predicates" where
  "usersettings_CreatedAtPredicates = predicates_on VTime True False False ''created_at''"

definition usersettings_UpdatedAt :: "int \<Rightarrow> 'f sql_predicate" where
  "usersettings_UpdatedAt v = FieldEQ ''updated_at'' (VTime v)"

definition usersettings_UpdatedAtPredicates :: "(int, 'f) field_predicates" where
  "usersettings_UpdatedAtPredicates = predicates_on VTime True False False ''updated_at''"

definition usersettings_HasOwner :: "'f sql_predicate" where
  "usersettings_HasOwner = HasNeighbors (NewEdgeStep ''user_settings'' ''id'' O2O True ''user_settings'' [''user_user_settings''])"

definition usersettings_HasOwnerWith :: "'f sql_predicate list \<Rightarrow> 'f sql_predicate" where
  "usersettings_HasOwnerWith preds = HasNeighborsWith usersettings_newOwnerStep preds"

definition usersettings_HasSecondFactorTarget :: "'f sql_predicate" where
  "usersettings_HasSecondFactorTarget = HasNeighbors (NewEdgeStep ''user_settings'' ''id'' O2O False ''user_devices'' [''user_settings_second_factor_target''])"

definition usersettings_HasSecondFactorTargetWith :: "'f sql_predicate list \<Rightarrow> 'f sql_predicate" where
  "usersettings_HasSecondFactorTargetWith preds = HasNeighborsWith usersettings_newSecondFactorTargetStep preds"

definition usersettings_HasNotificationTargetDevices :: "'f sql_predicate" where
  "usersettings_HasNotificationTargetDevices = HasNeighbors (NewEdgeStep ''user_settings'' ''id'' O2M False ''user_devices'' [''user_settings_notification_target_devices''])"

definition usersettings_HasNotificationTargetDevicesWith :: "'f sql_predicate list \<Rightarrow> 'f sql_predicate" where
  "usersettings_HasNotificationTargetDevicesWith preds = HasNeighborsWith usersettings_newNotificationTargetDevicesStep preds"

definition usersettings_And :: "'f sql_predicate list \<Rightarrow> 'f sql_predicate" where
  "usersettings_And = AndPredicates"

definition usersettings_Or :: "'f sql_predicate list \<Rightarrow> 'f sql_predicate" where
  "usersettings_Or = OrPredicates"

definition usersettings_Not :: "'f sql_predicate \<Rightarrow> 'f sql_predicate" where
  "usersettings_Not = NotPredicates"

section \<open>Verification code\<close>

definition verificationcode_IDPredicates :: "(int, 'f) field_predicates" where
  "verificationcode_IDPredicates = predicates_on VInt True False False ''id''"

definition verificationcode_Code :: "string \<Rightarrow> 'f sql_predicate" where
  "verificationcode_Code v = FieldEQ ''code'' (VString v)"

definition verificationcode_CodePredicates :: "(string, 'f) field_predicates" where
  "verificationcode_CodePredicates = predicates_on VString True True False ''code''"

definition verificationcode_CreatedAt :: "int \<Rightarrow> 'f sql_predicate" where
  "verificationcode_CreatedAt v = FieldEQ ''created_at'' (VTime v)"

definition verificationcode_CreatedAtPredicates :: "(int, 'f) field_predicates" where
  "verificationcode_CreatedAtPredicates = predicates_on VTime True False False ''created_at''"

definition verificationcode_UpdatedAt :: "int \<Rightarrow> 'f sql_predicate" where
  "verificationcode_UpdatedAt v = FieldEQ ''updated_at'' (VTime v)"

definition verificationcode_UpdatedAtPredicates :: "(int, 'f) field_predicates" where
  "verificationcode_UpdatedAtPredicates = predicates_on VTime True False False ''updated_at''"

definition verificationcode_ExpiresAt :: "int \<Rightarrow> 'f sql_predicate" where
  "verificationcode_ExpiresAt v = FieldEQ ''expires_at'' (VTime v)"

definition verificationcode_ExpiresAtPredicates :: "(int, 'f) field_predicates" where
  "verificationcode_ExpiresAtPredicates = predicates_on VTime True False False ''expires_at''"

definition verificationcode_HasOwner :: "'f sql_predicate" where
  "verificationcode_HasOwner = HasNeighbors (NewEdgeStep ''verification_codes'' ''id'' O2O True ''verification_codes'' [''user_verification_code''])"

definition verificationcode_HasOwnerWith :: "'f sql_predicate list \<Rightarrow> 'f sql_predicate" where
  "verificationcode_HasOwnerWith preds = HasNeighborsWith verificationcode_newOwnerStep preds"

definition verificationcode_And :: "'f sql_predicate list \<Rightarrow> 'f sql_predicate" where
  "verificationcode_And = AndPredicates"

definition verificationcode_Or :: "'f sql_predicate list \<Rightarrow> 'f sql_predicate" where
  "verificationcode_Or = OrPredicates"

definition verificationcode_Not :: "'f sql_predicate \<Rightarrow> 'f sql_predicate" where
  "verificationcode_Not = NotPredicates"

end
