(* ===== verification/Query_Predicates.thy ===== *)
theory Query_Predicates imports Sample_Accounts Ent_Predicates begin

text \<open>
  The lookups of repositories/handlers.go in the predicates of the generated packages, and that
  they select the users the queries of theory Entities select. What a predicate selects is up to
  the database, a parameter with two documented laws: equality on a column, and a join along a
  one-to-one edge.
\<close>

section \<open>Rows as the database sees them\<close>

definition or_nil :: "('v \<Rightarrow> 'f ent_value) \<Rightarrow> 'v option \<Rightarrow> 'f ent_value" where
  "or_nil mk v = (case v of None \<Rightarrow> VNil | Some x \<Rightarrow> mk x)"

definition columns_row :: "(string \<times> 'f ent_value) list \<Rightarrow> 'f ent_row" where
  "columns_row cols = (\<lambda>c. case lookup cols c of None \<Rightarrow> VNil | Some v \<Rightarrow> v)"

definition user_columns :: "user_row \<Rightarrow> 'f ent_row" where
  "user_columns u = columns_row [(''id'', VInt (u_id u)), (''mail'', VString (u_mail u)),
     (''phone'', or_nil VString (u_phone u)), (''password'', VString (u_password u)), (''active'', VBool (u_active u)),
     (''verified'', VBool (u_verified u)), (''blacklisted'', VBool (u_blacklisted u)),
     (''removed'', VBool (u_removed u)), (''created_at'', VTime (u_created_at u)),
     (''updated_at'', VTime (u_updated_at u)), (''subscription_ids'', VInts (u_subscription_ids u)),
     (''team_ids'', VInts (u_team_ids u)), (''organization_ids'', VInts (u_organization_ids u))]"

definition code_columns :: "string \<Rightarrow> code_row \<Rightarrow> 'f ent_row" where
  "code_columns fk c = columns_row [(''id'', VInt (cd_id c)), (''code'', VString (cd_code c)),
     (''created_at'', VTime (cd_created_at c)), (''updated_at'', VTime (cd_updated_at c)),
     (''expires_at'', VTime (cd_expires_at c)), (fk, VInt (cd_user c))]"

definition code_table :: "string \<Rightarrow> (db \<Rightarrow> code_row tab) option" where
  "code_table name = lookup [(''activation_codes'', activation_codes), (''verification_codes'', verification_codes),
     (''second_factor_codes'', second_factor_codes), (''reset_codes'', reset_codes)] name"

section \<open>What a predicate selects\<close>

type_synonym 'f selection = "db \<Rightarrow> 'f sql_predicate \<Rightarrow> 'f ent_row \<Rightarrow> bool"

text \<open>\<open>sql.FieldEQ\<close> compares a column with a value, which NULL never equals.\<close>

definition eq_law :: "'f selection \<Rightarrow> bool" where
  "eq_law selects = (\<forall>d c v r. v \<noteq> VNil \<longrightarrow> selects d (FieldEQ c v) r = (r c = v))"

text \<open>\<open>sqlgraph.HasNeighborsWith\<close> over a one-to-one edge held by a table of codes: a row of that table
  refers to this row and satisfies the conditions.\<close>

definition join_law :: "'f selection \<Rightarrow> bool" where
  "join_law selects = (\<forall>d s preds r tbl fk. sp_relation s = O2O \<and> \<not> sp_inverse s \<and> code_table (sp_table s) = Some tbl \<and>
     sp_columns s = [fk] \<longrightarrow>
     selects d (HasNeighborsWith s preds) r =
       (\<exists>c\<in>set (rows (tbl d)). code_columns fk c fk = r (snd (sp_from s)) \<and>
          (\<forall>p\<in>set preds. selects d p (code_columns fk c))))"

definition selects_all :: "'f selection \<Rightarrow> 'f sql_predicate list \<Rightarrow> db \<Rightarrow> user_row \<Rightarrow> bool" where
  "selects_all selects preds d u = list_all (\<lambda>p. selects d p (user_columns u)) preds"

section \<open>The lookups\<close>

text \<open>The conditions the presets \<open>withFullUserData\<close> ... \<open>withRoles\<close> start with.\<close>

definition visible_preds :: "'f sql_predicate list" where
  "visible_preds = [fp_EQ user_BlacklistedPredicates False, fp_EQ user_RemovedPredicates False]"

definition preds_by_id :: "int \<Rightarrow> 'f sql_predicate list" where
  "preds_by_id i = visible_preds @ [fp_EQ user_IDPredicates i]"

definition preds_by_mail :: "string \<Rightarrow> 'f sql_predicate list" where
  "preds_by_mail m = visible_preds @ [fp_EQ user_MailPredicates m]"

definition preds_by_phone :: "string \<Rightarrow> 'f sql_predicate list" where
  "preds_by_phone p = visible_preds @ [fp_EQ user_PhonePredicates p]"

definition preds_by_second_factor :: "string \<Rightarrow> 'f sql_predicate list" where
  "preds_by_second_factor c = visible_preds @ [user_HasSecondFactorCodeWith [fp_EQ secondfactorcode_CodePredicates c]]"

definition preds_by_activation :: "string \<Rightarrow> 'f sql_predicate list" where
  "preds_by_activation c = visible_preds @ [user_HasActivationCodeWith [fp_EQ activationcode_CodePredicates c]]"

definition preds_by_verification :: "string \<Rightarrow> 'f sql_predicate list" where
  "preds_by_verification c = visible_preds @ [user_HasVerificationCodeWith [fp_EQ verificationcode_CodePredicates c]]"

definition preds_by_reset :: "string \<Rightarrow> 'f sql_predicate list" where
  "preds_by_reset c = visible_preds @ [user_HasResetCodeWith [fp_EQ resetcode_CodePredicates c]]"

text \<open>The lookup of one user whose conditions are given as predicates, with the edges of a query.\<close>

definition lookup_one :: "'f selection \<Rightarrow> 'f sql_predicate list \<Rightarrow> user_query \<Rightarrow> db \<Rightarrow> error + user" where
  "lookup_one selects preds q = Only (q\<lparr>uq_where := selects_all selects preds\<rparr>)"

lemma load_user_where [simp]: "load_user d (q\<lparr>uq_where := p\<rparr>) = load_user d q"
  by (rule ext) (simp add: load_user_def)

lemma lookup_one_eq:
  assumes "\<And>u. selects_all selects preds d u = uq_where (Where p q) d u"
  shows "lookup_one selects preds q d = Only (Where p q) d"
proof -
  have "load_user d (Where p q) = load_user d q" by (simp add: Where_def)
  moreover have "(\<lambda>u. selects_all selects preds d u) = (\<lambda>u. uq_where (Where p q) d u)" using assms by simp
  ultimately show ?thesis by (simp add: lookup_one_def Only_def split: list.split)
qed

lemma user_columns_simps [simp]:
  "user_columns u ''id'' = VInt (u_id u)" "user_columns u ''mail'' = VString (u_mail u)"
  "user_columns u ''phone'' = or_nil VString (u_phone u)" "user_columns u ''blacklisted'' = VBool (u_blacklisted u)"
  "user_columns u ''removed'' = VBool (u_removed u)"
  by (simp_all add: user_columns_def columns_row_def)

lemma code_columns_simps [simp]:
  "code_columns fk c ''code'' = VString (cd_code c)"
  "code_columns ''user_activation_code'' c ''user_activation_code'' = VInt (cd_user c)"
  "code_columns ''user_verification_code'' c ''user_verification_code'' = VInt (cd_user c)"
  "code_columns ''user_second_factor_code'' c ''user_second_factor_code'' = VInt (cd_user c)"
  "code_columns ''user_reset_code'' c ''user_reset_code'' = VInt (cd_user c)"
  by (simp_all add: code_columns_def columns_row_def)

lemma or_nil_eq [simp]: "or_nil VString v = VString s \<longleftrightarrow> v = Some s"
  by (cases v) (simp_all add: or_nil_def)

lemma eq_lawD: "eq_law selects \<Longrightarrow> v \<noteq> VNil \<Longrightarrow> selects d (FieldEQ c v) r = (r c = v)"
  by (simp add: eq_law_def)

lemma selects_visible:
  "eq_law selects \<Longrightarrow> selects_all selects (visible_preds @ ps) d u =
     (\<not> u_blacklisted u \<and> \<not> u_removed u \<and> selects_all selects ps d u)"
  by (simp add: selects_all_def visible_preds_def user_BlacklistedPredicates_def user_RemovedPredicates_def
      predicates_on_def eq_lawD)

lemma selects_one: "selects_all selects [p] d u = selects d p (user_columns u)"
  by (simp add: selects_all_def)

lemma join_lawD:
  assumes "join_law selects" "sp_relation s = O2O" "\<not> sp_inverse s" "code_table (sp_table s) = Some tbl" "sp_columns s = [fk]"
  shows "selects d (HasNeighborsWith s preds) r =
    (\<exists>c\<in>set (rows (tbl d)). code_columns fk c fk = r (snd (sp_from s)) \<and> (\<forall>p\<in>set preds. selects d p (code_columns fk c)))"
  using assms unfolding join_law_def by blast

lemma selects_code_step:
  fixes selects :: "'f selection"
  assumes "eq_law selects" "join_law selects" "code_table tname = Some tbl"
    "\<And>c. code_columns fk c fk = (VInt (cd_user c) :: 'f ent_value)"
  shows "selects d (HasNeighborsWith (NewStep ''users'' ''id'' tt ''id'' O2O False tname [fk]) [FieldEQ ''code'' (VString code)])
      (user_columns u) = has_code tbl code d u"
  by (subst join_lawD[OF assms(2), where tbl = tbl and fk = fk])
    (simp_all add: NewStep_def assms(3,4) eq_lawD[OF assms(1)] has_code_def list_ex_iff)

lemma selects_code:
  assumes "eq_law selects" "join_law selects"
  shows "selects d (user_HasSecondFactorCodeWith [FieldEQ ''code'' (VString code)]) (user_columns u) = has_code second_factor_codes code d u"
    "selects d (user_HasActivationCodeWith [FieldEQ ''code'' (VString code)]) (user_columns u) = has_code activation_codes code d u"
    "selects d (user_HasVerificationCodeWith [FieldEQ ''code'' (VString code)]) (user_columns u) = has_code verification_codes code d u"
    "selects d (user_HasResetCodeWith [FieldEQ ''code'' (VString code)]) (user_columns u) = has_code reset_codes code d u"
  by (simp_all add: user_HasSecondFactorCodeWith_def user_HasActivationCodeWith_def user_HasVerificationCodeWith_def
      user_HasResetCodeWith_def user_newSecondFactorCodeStep_def user_newActivationCodeStep_def
      user_newVerificationCodeStep_def user_newResetCodeStep_def selects_code_step[OF assms] code_table_def)

lemmas key_predicates = user_IDPredicates_def user_MailPredicates_def user_PhonePredicates_def
  secondfactorcode_CodePredicates_def activationcode_CodePredicates_def verificationcode_CodePredicates_def
  resetcode_CodePredicates_def predicates_on_def

lemma selects_lookups:
  assumes "eq_law selects" "join_law selects"
  shows "selects_all selects (preds_by_id i) d u = (\<not> u_blacklisted u \<and> \<not> u_removed u \<and> IDEQ i d u)"
    "selects_all selects (preds_by_mail s) d u = (\<not> u_blacklisted u \<and> \<not> u_removed u \<and> MailEQ s d u)"
    "selects_all selects (preds_by_phone s) d u = (\<not> u_blacklisted u \<and> \<not> u_removed u \<and> PhoneEQ s d u)"
    "selects_all selects (preds_by_second_factor s) d u = (\<not> u_blacklisted u \<and> \<not> u_removed u \<and> has_code second_factor_codes s d u)"
    "selects_all selects (preds_by_activation s) d u = (\<not> u_blacklisted u \<and> \<not> u_removed u \<and> has_code activation_codes s d u)"
    "selects_all selects (preds_by_verification s) d u = (\<not> u_blacklisted u \<and> \<not> u_removed u \<and> has_code verification_codes s d u)"
    "selects_all selects (preds_by_reset s) d u = (\<not> u_blacklisted u \<and> \<not> u_removed u \<and> has_code reset_codes s d u)"
  by (simp_all add: preds_by_id_def preds_by_mail_def preds_by_phone_def preds_by_second_factor_def
      preds_by_activation_def preds_by_verification_def preds_by_reset_def selects_visible[OF assms(1)] selects_one
      key_predicates selects_code[OF assms] eq_lawD[OF assms(1)] IDEQ_def MailEQ_def PhoneEQ_def)

lemma visible_where:
  "uq_where (Where p (withFullUserData Query)) d u = (\<not> u_blacklisted u \<and> \<not> u_removed u \<and> p d u)"
  "uq_where (Where p (withFunctionalData Query)) d u = (\<not> u_blacklisted u \<and> \<not> u_removed u \<and> p d u)"
  "uq_where (Where p (withFunctionalDetailsData Query)) d u = (\<not> u_blacklisted u \<and> \<not> u_removed u \<and> p d u)"
  "uq_where (Where p (withSettings Query)) d u = (\<not> u_blacklisted u \<and> \<not> u_removed u \<and> p d u)"
  "uq_where (Where p (withCodes Query)) d u = (\<not> u_blacklisted u \<and> \<not> u_removed u \<and> p d u)"
  "uq_where (Where p (withRoles Query)) d u = (\<not> u_blacklisted u \<and> \<not> u_removed u \<and> p d u)"
  by (auto simp: query_defs)

lemma lookups_by_predicates:
  assumes "eq_law selects" "join_law selects"
  shows "lookup_one selects (preds_by_id i) (withFullUserData Query) d = txGetUserByID i d \<and>
    lookup_one selects (preds_by_id i) (withFunctionalData Query) d = txGetUserFunctionalByID i d \<and>
    lookup_one selects (preds_by_mail s) (withCodes Query) d = txGetUserByMailWithCodes s d \<and>
    lookup_one selects (preds_by_mail s) (withFunctionalData Query) d = txGetUserByMail s d \<and>
    lookup_one selects (preds_by_phone s) (withFunctionalData Query) d = txGetUserByPhone s d \<and>
    lookup_one selects (preds_by_second_factor s) (withFunctionalData Query) d = txGetUserBySecondFactor s d \<and>
    lookup_one selects (preds_by_activation s) (withSettings Query) d = txGetUserByActivationCode s d \<and>
    lookup_one selects (preds_by_verification s) (withRoles Query) d = txGetUserByVerificationCode s d \<and>
    lookup_one selects (preds_by_reset s) (withSettings Query) d = txGetUserByResetCode s d"
  unfolding txGetUserByID_def txGetUserFunctionalByID_def txGetUserByMailWithCodes_def txGetUserByMail_def
    txGetUserByPhone_def txGetUserBySecondFactor_def txGetUserByActivationCode_def txGetUserByVerificationCode_def
    txGetUserByResetCode_def getUserPrivate_def getUserFunctional_def getUserWithCodes_def getUserWithSettings_def
    getUserWithRoles_def
  by (intro conjI lookup_one_eq) (simp_all add: selects_lookups[OF assms] visible_where)

text \<open>With a database that compares columns and joins along one-to-one edges as documented, every
  lookup of a user in handlers.go, written with the predicates of the generated packages, finds
  exactly the user the query of the model finds, with the same edges and the same errors.\<close>

theorem lookups_mean_their_predicates:
  assumes "eq_law selects" "join_law selects"
  shows "lookup_one selects (preds_by_id i) (withFullUserData Query) d = txGetUserByID i d \<and>
    lookup_one selects (preds_by_id i) (withFunctionalData Query) d = txGetUserFunctionalByID i d \<and>
    lookup_one selects (preds_by_mail s) (withCodes Query) d = txGetUserByMailWithCodes s d \<and>
    lookup_one selects (preds_by_mail s) (withFunctionalData Query) d = txGetUserByMail s d \<and>
    lookup_one selects (preds_by_phone s) (withFunctionalData Query) d = txGetUserByPhone s d \<and>
    lookup_one selects (preds_by_second_factor s) (withFunctionalData Query) d = txGetUserBySecondFactor s d \<and>
    lookup_one selects (preds_by_activation s) (withSettings Query) d = txGetUserByActivationCode s d \<and>
    lookup_one selects (preds_by_verification s) (withRoles Query) d = txGetUserByVerificationCode s d \<and>
    lookup_one selects (preds_by_reset s) (withSettings Query) d = txGetUserByResetCode s d"
  by (rule lookups_by_predicates [OF assms])

text \<open>A database with these laws: equality as it stands, joins over the tables of codes.\<close>

definition sample_step :: "db \<Rightarrow> step \<Rightarrow> ('f ent_row \<Rightarrow> bool) \<Rightarrow> 'f ent_row \<Rightarrow> bool" where
  "sample_step d s ok r = (case code_table (sp_table s) of
     None \<Rightarrow> False
   | Some tbl \<Rightarrow> (\<exists>c\<in>set (rows (tbl d)).
       code_columns (hd (sp_columns s)) c (hd (sp_columns s)) = r (snd (sp_from s)) \<and> ok (code_columns (hd (sp_columns s)) c)))"

lemma sample_step_cong [fundef_cong]:
  "d = d' \<Longrightarrow> s = s' \<Longrightarrow> r = r' \<Longrightarrow> (\<And>x. ok x = ok' x) \<Longrightarrow> sample_step d s ok r = sample_step d' s' ok' r'"
  by (simp add: sample_step_def split: option.split)

fun sample_selects :: "'f selection" where
  "sample_selects d (FieldEQ c v) r = (r c = v)"
| "sample_selects d (HasNeighborsWith s preds) r = sample_step d s (\<lambda>x. \<forall>p\<in>set preds. sample_selects d p x) r"
| "sample_selects d p r = False"

lemma sample_laws: "eq_law sample_selects" "join_law sample_selects"
  by (auto simp: eq_law_def join_law_def sample_step_def)

theorem lookups_mean_their_predicates_witness:
  "\<exists>u. lookup_one (sample_selects :: int selection) (preds_by_mail ''a@b.co'') (withFunctionalData Query) sample_db = Inr u \<and> usr u = alice"
proof -
  have "filter (uq_where (Where (MailEQ ''a@b.co'') (withFunctionalData Query)) sample_db) [alice] = [alice]"
    by (simp add: visible_where MailEQ_def)
  then have "\<exists>u. txGetUserByMail ''a@b.co'' sample_db = Inr u \<and> usr u = alice"
    by (simp add: txGetUserByMail_def getUserFunctional_def Only_def load_user_def)
  then show ?thesis using lookups_mean_their_predicates[OF sample_laws] by metis
qed

end
