(* ===== verification/Ent_Builders.thy ===== *)
theory Ent_Builders imports Ent_Records Ent_Predicates begin

text \<open>
  The builders of the generated client (models/ent/<entity>_create.go and <entity>_update.go),
  written once over the schema of an entity: the setters, which call the mutation; the defaults
  and the checks before a save; the specification a save hands to the library sqlgraph; and the
  save itself, with the hooks of the schema around it (\<open>withHooks\<close> in models/ent/ent.go). What
  sqlgraph does with a specification is a parameter. Theories Ent_Create, Ent_Update and
  Ent_Update_One instantiate this for every entity.
\<close>

section \<open>Setters\<close>

text \<open>
  A builder holds a mutation, and each of its methods is one of the mutation. The setter of a
  number in an update resets the field first; \<open>SetNillableX\<close> does nothing for a nil pointer.
\<close>

record ('v, 'f, 'p) field_setters =
  st_Set :: "'v \<Rightarrow> ('f, 'p) mutation \<Rightarrow> ('f, 'p) mutation"
  st_SetNillable :: "('v option \<Rightarrow> ('f, 'p) mutation \<Rightarrow> ('f, 'p) mutation) option"
  st_Add :: "('v \<Rightarrow> ('f, 'p) mutation \<Rightarrow> ('f, 'p) mutation) option"
  st_Clear :: "(('f, 'p) mutation \<Rightarrow> ('f, 'p) mutation) option"

definition unless_nil :: "('v \<Rightarrow> 'm \<Rightarrow> 'm) \<Rightarrow> 'v option \<Rightarrow> 'm \<Rightarrow> 'm" where
  "unless_nil set_it v = (case v of None \<Rightarrow> (\<lambda>m. m) | Some x \<Rightarrow> set_it x)"

definition setters_of ::
  "bool \<Rightarrow> bool \<Rightarrow> bool \<Rightarrow> bool \<Rightarrow> ('v, 'f, 'p) field_methods \<Rightarrow> ('v, 'f, 'p) field_setters" where
  "setters_of resets nillable adds clears fm =
     (let set_it = (\<lambda>v m. fm_Set fm v (if resets then fm_Reset fm m else m)) in
      \<lparr>st_Set = set_it, st_SetNillable = when_method nillable (unless_nil set_it),
       st_Add = (if adds then fm_Add fm else None), st_Clear = (if clears then fm_Clear fm else None)\<rparr>)"

text \<open>\<open>SetX\<close> of an edge takes an entity and sets its identifier, so it is \<open>SetXID\<close> here.\<close>

record ('f, 'p) unique_edge_setters =
  ux_SetID :: "int \<Rightarrow> ('f, 'p) mutation \<Rightarrow> ('f, 'p) mutation"
  ux_SetNillableID :: "(int option \<Rightarrow> ('f, 'p) mutation \<Rightarrow> ('f, 'p) mutation) option"

definition unique_setters_of :: "bool \<Rightarrow> ('f, 'p) unique_edge_methods \<Rightarrow> ('f, 'p) unique_edge_setters" where
  "unique_setters_of nillable ue =
     \<lparr>ux_SetID = ue_SetID ue, ux_SetNillableID = when_method nillable (unless_nil (ue_SetID ue))\<rparr>"

section \<open>Defaults and checks\<close>

text \<open>The value of a default: the clock now, or the start of the process and a lifetime.\<close>

fun value_of_default :: "int \<Rightarrow> int \<Rightarrow> default_value \<Rightarrow> 'f ent_value" where
  "value_of_default now start DefaultFalse = VBool False"
| "value_of_default now start DefaultNoInts = VInts []"
| "value_of_default now start DefaultNow = VTime now"
| "value_of_default now start (DefaultAfter t) = VTime (start + t)"

fun run_defaults :: "entity_schema \<Rightarrow> int \<Rightarrow> int \<Rightarrow> (string \<times> default_value) list \<Rightarrow> ('f, 'p) mutation \<Rightarrow> ('f, 'p) mutation" where
  "run_defaults sch now start [] m = m"
| "run_defaults sch now start ((c, dv) # ds) m = run_defaults sch now start ds
     (if mu_values m c = None then set_field (field_of sch c) (value_of_default now start dv) m else m)"

text \<open>The checks, in the order of the code. A field is known by its column and by its declared name.\<close>

datatype check_rule = MissingField string string | Validator string string | MissingEdge string | ClearingEdge string

text \<open>The validators of package field; the least positive float is a parameter.\<close>

fun option_ok :: "('f \<Rightarrow> bool) \<Rightarrow> 'f ent_value \<Rightarrow> field_option \<Rightarrow> bool" where
  "option_ok positive (VString s) NotEmpty = (s \<noteq> [])"
| "option_ok positive (VInt i) Positive = (0 < i)"
| "option_ok positive (VFloat x) Positive = positive x"
| "option_ok positive (VInt i) NonNegative = (0 \<le> i)"
| "option_ok positive v opt = True"

definition declared_field :: "entity_decl list \<Rightarrow> string \<Rightarrow> string \<Rightarrow> field_decl option" where
  "declared_field decls t c = (case find (\<lambda>d. ey_name d = t) decls of
      None \<Rightarrow> None | Some d \<Rightarrow> find (\<lambda>f. storage_name f = c) (ey_fields d))"

definition field_valid :: "('f \<Rightarrow> bool) \<Rightarrow> entity_decl list \<Rightarrow> string \<Rightarrow> string \<Rightarrow> 'f ent_value \<Rightarrow> bool" where
  "field_valid positive decls t c v = (case declared_field decls t c of
      None \<Rightarrow> True | Some f \<Rightarrow> list_all (option_ok positive v) (fd_options f))"

fun run_check :: "('f \<Rightarrow> bool) \<Rightarrow> entity_decl list \<Rightarrow> entity_schema \<Rightarrow> ('f, 'p) mutation \<Rightarrow> check_rule \<Rightarrow> error option" where
  "run_check positive decls sch m (MissingField c name) =
     (if mu_values m c = None then Some (EValidation name ''missing required field'') else None)"
| "run_check positive decls sch m (Validator c name) = (case mu_values m c of
      None \<Rightarrow> None
    | Some v \<Rightarrow> if field_valid positive decls (en_type sch) c v then None
        else Some (EValidation name ''validator failed''))"
| "run_check positive decls sch m (MissingEdge name) =
     (if edge_ids (edge_of sch name) m = {} then Some (EValidation name ''missing required edge'') else None)"
| "run_check positive decls sch m (ClearingEdge name) =
     (if edge_cleared (edge_of sch name) m \<and> edge_ids (edge_of sch name) m \<noteq> {}
      then Some (EMsg (''ent: clearing a required unique edge '' @ en_type sch @ ''.'' @ name)) else None)"

fun run_checks ::
  "('f \<Rightarrow> bool) \<Rightarrow> entity_decl list \<Rightarrow> entity_schema \<Rightarrow> check_rule list \<Rightarrow> ('f, 'p) mutation \<Rightarrow> error option" where
  "run_checks positive decls sch [] m = None"
| "run_checks positive decls sch (r # rs) m = (case run_check positive decls sch m r of
     Some err \<Rightarrow> Some err | None \<Rightarrow> run_checks positive decls sch rs m)"

section \<open>Specifications\<close>

record edge_spec =
  ep_relation :: relation
  ep_inverse :: bool
  ep_table :: string
  ep_columns :: "string list"
  ep_bidi :: bool
  ep_target_id :: string
  ep_nodes :: "int set"

definition EdgeSpec :: "relation \<Rightarrow> bool \<Rightarrow> string \<Rightarrow> string list \<Rightarrow> bool \<Rightarrow> string \<Rightarrow> edge_spec" where
  "EdgeSpec rel back tbl cols bidi target = \<lparr>ep_relation = rel, ep_inverse = back, ep_table = tbl,
     ep_columns = cols, ep_bidi = bidi, ep_target_id = target, ep_nodes = {}\<rparr>"

type_synonym 'f column_value = "string \<times> column_type \<times> 'f ent_value"

record 'f create_spec =
  cs_table :: string
  cs_id :: "int option"
  cs_fields :: "'f column_value list"
  cs_edges :: "edge_spec list"

record ('f, 'p) update_spec =
  us_table :: string
  us_columns :: "string list"
  us_id :: "int option"
  us_predicates :: "'p list"
  us_set :: "'f column_value list"
  us_cleared :: "(string \<times> column_type) list"
  us_added :: "'f column_value list"
  us_appended :: "(string \<times> 'f ent_value) list"
  us_edges_clear :: "edge_spec list"
  us_edges_add :: "edge_spec list"

text \<open>What a specification takes from the fields of the mutation: \<open>SetField\<close>, \<open>ClearField\<close>, \<open>AddField\<close>
  and the modifier that appends to a list.\<close>

datatype spec_rule = SetF string column_type | ClearF string column_type | AddF string column_type | AppendF string

fun set_rule :: "('f, 'p) mutation \<Rightarrow> spec_rule \<Rightarrow> 'f column_value list" where
  "set_rule m (SetF c t) = (case mu_values m c of None \<Rightarrow> [] | Some v \<Rightarrow> [(c, t, v)])"
| "set_rule m r = []"

fun clear_rule :: "('f, 'p) mutation \<Rightarrow> spec_rule \<Rightarrow> (string \<times> column_type) list" where
  "clear_rule m (ClearF c t) = (if c \<in> mu_cleared m then [(c, t)] else [])"
| "clear_rule m r = []"

fun add_rule :: "entity_schema \<Rightarrow> ('f, 'p) mutation \<Rightarrow> spec_rule \<Rightarrow> 'f column_value list" where
  "add_rule sch m (AddF c t) = (case added_field (field_of sch c) m of None \<Rightarrow> [] | Some v \<Rightarrow> [(c, t, v)])"
| "add_rule sch m r = []"

fun append_rule :: "entity_schema \<Rightarrow> ('f, 'p) mutation \<Rightarrow> spec_rule \<Rightarrow> (string \<times> 'f ent_value) list" where
  "append_rule sch m (AppendF c) = (case added_field (field_of sch c) m of None \<Rightarrow> [] | Some v \<Rightarrow> [(c, v)])"
| "append_rule sch m r = []"

definition create_edge :: "entity_schema \<Rightarrow> string \<Rightarrow> edge_spec \<Rightarrow> ('f, 'p) mutation \<Rightarrow> edge_spec list" where
  "create_edge sch name spec m = (let ids = edge_ids (edge_of sch name) m in
     if ids = {} then [] else [spec\<lparr>ep_nodes := ids\<rparr>])"

text \<open>The edges to clear and the edges to add; single neighbours are removed unless all are cleared.\<close>

definition update_edge ::
  "entity_schema \<Rightarrow> string \<Rightarrow> edge_spec \<Rightarrow> ('f, 'p) mutation \<Rightarrow> edge_spec list \<times> edge_spec list" where
  "update_edge sch name spec m =
     (let e = edge_of sch name; ids = edge_ids e m; removed = (if es_unique e then {} else removed_ids e m)
      in ((if edge_cleared e m then [spec] else []) @
          (if removed \<noteq> {} \<and> \<not> edge_cleared e m then [spec\<lparr>ep_nodes := removed\<rparr>] else []),
          (if ids = {} then [] else [spec\<lparr>ep_nodes := ids\<rparr>])))"

definition create_spec_of ::
  "string \<Rightarrow> spec_rule list \<Rightarrow> (('f, 'p) mutation \<Rightarrow> edge_spec list) list \<Rightarrow> ('f, 'p) mutation \<Rightarrow> 'f create_spec" where
  "create_spec_of tbl rules edges m = \<lparr>cs_table = tbl, cs_id = mu_id m, cs_fields = concat (map (set_rule m) rules),
     cs_edges = concat (map (\<lambda>edge. edge m) edges)\<rparr>"

definition update_spec_of ::
  "package \<Rightarrow> entity_schema \<Rightarrow> spec_rule list \<Rightarrow> (('f, 'p) mutation \<Rightarrow> edge_spec list \<times> edge_spec list) list \<Rightarrow>
   ('f, 'p) mutation \<Rightarrow> ('f, 'p) update_spec" where
  "update_spec_of p sch rules edges m = \<lparr>us_table = pk_table p, us_columns = pk_columns p, us_id = None,
     us_predicates = mu_predicates m, us_set = concat (map (set_rule m) rules),
     us_cleared = concat (map (clear_rule m) rules), us_added = concat (map (add_rule sch m) rules),
     us_appended = concat (map (append_rule sch m) rules),
     us_edges_clear = concat (map (\<lambda>edge. fst (edge m)) edges), us_edges_add = concat (map (\<lambda>edge. snd (edge m)) edges)\<rparr>"

section \<open>Saving\<close>

text \<open>\<open>sqlSave\<close>: the checks, the specification, the statement; afterwards the mutation is done.\<close>

definition create_save ::
  "entity_decl list \<Rightarrow> entity_schema \<Rightarrow> check_rule list \<Rightarrow> (('f, 'p) mutation \<Rightarrow> 'f create_spec) \<Rightarrow>
   ('f \<Rightarrow> bool) \<Rightarrow> ('f create_spec \<Rightarrow> error + int) \<Rightarrow> ('f, 'p) mutation \<Rightarrow> error + int \<times> ('f, 'p) mutation" where
  "create_save decls sch checks spec positive insert_node m = (case run_checks positive decls sch checks m of
      Some err \<Rightarrow> Inl err
    | None \<Rightarrow> (case insert_node (spec m) of
        Inl err \<Rightarrow> Inl err | Inr i \<Rightarrow> Inr (i, m\<lparr>mu_id := Some i, mu_done := True\<rparr>)))"

definition update_save ::
  "entity_decl list \<Rightarrow> entity_schema \<Rightarrow> check_rule list \<Rightarrow> (('f, 'p) mutation \<Rightarrow> ('f, 'p) update_spec) \<Rightarrow>
   ('f \<Rightarrow> bool) \<Rightarrow> (('f, 'p) update_spec \<Rightarrow> error + int) \<Rightarrow> ('f, 'p) mutation \<Rightarrow> error + int \<times> ('f, 'p) mutation" where
  "update_save decls sch checks spec positive update_nodes m = (case run_checks positive decls sch checks m of
      Some err \<Rightarrow> Inl err
    | None \<Rightarrow> (case update_nodes (spec m) of
        Inl err \<Rightarrow> Inl err | Inr n \<Rightarrow> Inr (n, m\<lparr>mu_done := True\<rparr>)))"

text \<open>The update of one entity needs its identifier, and the columns it selects must be valid.\<close>

definition selected_columns :: "(string \<Rightarrow> bool) \<Rightarrow> string list \<Rightarrow> string list \<Rightarrow> error + string list" where
  "selected_columns valid_column all_columns selected = (if selected = [] then Inr all_columns
     else (case find (\<lambda>f. \<not> valid_column f) selected of
       Some f \<Rightarrow> Inl (EValidation f ''invalid field for query'')
     | None \<Rightarrow> Inr (''id'' # filter (\<lambda>f. f \<noteq> ''id'') selected)))"

definition update_one_save ::
  "entity_decl list \<Rightarrow> entity_schema \<Rightarrow> check_rule list \<Rightarrow> (string \<Rightarrow> bool) \<Rightarrow> (('f, 'p) mutation \<Rightarrow> ('f, 'p) update_spec) \<Rightarrow>
   ('f \<Rightarrow> bool) \<Rightarrow> string list \<Rightarrow> (('f, 'p) update_spec \<Rightarrow> error + 'n) \<Rightarrow> ('f, 'p) mutation \<Rightarrow>
   error + 'n \<times> ('f, 'p) mutation" where
  "update_one_save decls sch checks valid_column spec positive selected update_node m =
     (case run_checks positive decls sch checks m of
        Some err \<Rightarrow> Inl err
      | None \<Rightarrow> (case mu_id m of
          None \<Rightarrow> Inl (EValidation ''id'' ''missing id for update'')
        | Some i \<Rightarrow> (case selected_columns valid_column (us_columns (spec m)) selected of
            Inl err \<Rightarrow> Inl err
          | Inr cols \<Rightarrow> (case update_node ((spec m)\<lparr>us_id := Some i, us_columns := cols\<rparr>) of
              Inl err \<Rightarrow> Inl err
            | Inr n \<Rightarrow> Inr (n, m\<lparr>mu_done := True\<rparr>)))))"

text \<open>\<open>withHooks\<close> with the one hook of the schema: the hook, then the save on the mutation it leaves.\<close>

definition with_hooks ::
  "entity_schema \<Rightarrow> int \<Rightarrow> int \<Rightarrow> (('f, 'p) mutation \<Rightarrow> error + 'a) \<Rightarrow> ('f, 'p) mutation \<Rightarrow> error + 'a" where
  "with_hooks sch now1 now2 exec m = (case time_hook sch now1 now2 m of
     Inl err \<Rightarrow> Inl err | Inr m' \<Rightarrow> exec m')"

end
