(* ===== verification/Ent_Create.thy ===== *)
theory Ent_Create imports Ent_Builders begin

text \<open>
  The create builders of the entities (models/ent/<entity>_create.go), instances of theory
  Ent_Builders: their setters, defaults, checks, and the specification of the node they insert.
\<close>

section \<open>\<open>ActivationCodeCreate\<close>\<close>

definition ActivationCodeCreate_Code :: "(string, 'f :: plus, 'p) field_setters" where
  "ActivationCodeCreate_Code = setters_of False False False False ActivationCodeMutation_Code"

definition ActivationCodeCreate_Used :: "(bool, 'f :: plus, 'p) field_setters" where
  "ActivationCodeCreate_Used = setters_of False True False False ActivationCodeMutation_Used"

definition ActivationCodeCreate_CreatedAt :: "(int, 'f :: plus, 'p) field_setters" where
  "ActivationCodeCreate_CreatedAt = setters_of False False False False ActivationCodeMutation_CreatedAt"

definition ActivationCodeCreate_UpdatedAt :: "(int, 'f :: plus, 'p) field_setters" where
  "ActivationCodeCreate_UpdatedAt = setters_of False False False False ActivationCodeMutation_UpdatedAt"

definition ActivationCodeCreate_ExpiresAt :: "(int, 'f :: plus, 'p) field_setters" where
  "ActivationCodeCreate_ExpiresAt = setters_of False True False False ActivationCodeMutation_ExpiresAt"

definition ActivationCodeCreate_SetID :: "int \<Rightarrow> ('f, 'p) mutation \<Rightarrow> ('f, 'p) mutation" where
  "ActivationCodeCreate_SetID = SetID"

definition ActivationCodeCreate_Owner :: "('f, 'p) unique_edge_setters" where
  "ActivationCodeCreate_Owner = unique_setters_of False ActivationCodeMutation_Owner"

definition ActivationCodeCreate_checks :: "check_rule list" where
  "ActivationCodeCreate_checks = [
    MissingField ''code'' ''code'', Validator ''code'' ''code'', MissingField ''used'' ''used'',
    MissingField ''created_at'' ''created_at'', MissingField ''updated_at'' ''updated_at'',
    MissingField ''expires_at'' ''expires_at'', MissingEdge ''owner'']"

definition ActivationCodeCreate_defaults :: "(string \<times> default_value) list" where
  "ActivationCodeCreate_defaults = [
    (''used'', DefaultFalse), (''expires_at'', (DefaultAfter (12 * 3600000000000)))]"

definition ActivationCodeCreate_fields :: "spec_rule list" where
  "ActivationCodeCreate_fields = [
    SetF ''code'' TypeString, SetF ''used'' TypeBool, SetF ''created_at'' TypeTime, SetF ''updated_at'' TypeTime,
    SetF ''expires_at'' TypeTime]"

definition ActivationCodeCreate_edge_Owner :: "('f, 'p) mutation \<Rightarrow> edge_spec list" where
  "ActivationCodeCreate_edge_Owner = create_edge ActivationCode_schema ''owner''
     (EdgeSpec O2O True ''activation_codes'' [''user_activation_code''] False ''id'')"

definition ActivationCodeCreate_createSpec :: "('f, 'p) mutation \<Rightarrow> 'f create_spec" where
  "ActivationCodeCreate_createSpec = create_spec_of ''activation_codes'' ActivationCodeCreate_fields [
    ActivationCodeCreate_edge_Owner]"

definition ActivationCodeCreate_sqlSave :: "('f \<Rightarrow> bool) \<Rightarrow> ('f create_spec \<Rightarrow> error + int) \<Rightarrow> ('f :: plus, 'p) mutation \<Rightarrow> error + int \<times> ('f, 'p) mutation" where
  "ActivationCodeCreate_sqlSave = create_save service_decls ActivationCode_schema ActivationCodeCreate_checks ActivationCodeCreate_createSpec"

section \<open>\<open>BlacklistedTokenCreate\<close>\<close>

definition BlacklistedTokenCreate_Token :: "(string, 'f :: plus, 'p) field_setters" where
  "BlacklistedTokenCreate_Token = setters_of False False False False BlacklistedTokenMutation_Token"

definition BlacklistedTokenCreate_CreatedAt :: "(int, 'f :: plus, 'p) field_setters" where
  "BlacklistedTokenCreate_CreatedAt = setters_of False False False False BlacklistedTokenMutation_CreatedAt"

definition BlacklistedTokenCreate_UpdatedAt :: "(int, 'f :: plus, 'p) field_setters" where
  "BlacklistedTokenCreate_UpdatedAt = setters_of False False False False BlacklistedTokenMutation_UpdatedAt"

definition BlacklistedTokenCreate_ExpiresAt :: "(int, 'f :: plus, 'p) field_setters" where
  "BlacklistedTokenCreate_ExpiresAt = setters_of False False False False BlacklistedTokenMutation_ExpiresAt"

definition BlacklistedTokenCreate_SetID :: "int \<Rightarrow> ('f, 'p) mutation \<Rightarrow> ('f, 'p) mutation" where
  "BlacklistedTokenCreate_SetID = SetID"

definition BlacklistedTokenCreate_Owner :: "('f, 'p) unique_edge_setters" where
  "BlacklistedTokenCreate_Owner = unique_setters_of True BlacklistedTokenMutation_Owner"

definition BlacklistedTokenCreate_checks :: "check_rule list" where
  "BlacklistedTokenCreate_checks = [
    MissingField ''token'' ''token'', Validator ''token'' ''token'', MissingField ''created_at'' ''created_at'',
    MissingField ''updated_at'' ''updated_at'', MissingField ''expires_at'' ''expires_at'']"

definition BlacklistedTokenCreate_fields :: "spec_rule list" where
  "BlacklistedTokenCreate_fields = [
    SetF ''token'' TypeString, SetF ''created_at'' TypeTime, SetF ''updated_at'' TypeTime,
    SetF ''expires_at'' TypeTime]"

definition BlacklistedTokenCreate_edge_Owner :: "('f, 'p) mutation \<Rightarrow> edge_spec list" where
  "BlacklistedTokenCreate_edge_Owner = create_edge BlacklistedToken_schema ''owner''
     (EdgeSpec M2O False ''blacklisted_tokens'' [''blacklisted_token_owner''] False ''id'')"

definition BlacklistedTokenCreate_createSpec :: "('f, 'p) mutation \<Rightarrow> 'f create_spec" where
  "BlacklistedTokenCreate_createSpec = create_spec_of ''blacklisted_tokens'' BlacklistedTokenCreate_fields [
    BlacklistedTokenCreate_edge_Owner]"

definition BlacklistedTokenCreate_sqlSave :: "('f \<Rightarrow> bool) \<Rightarrow> ('f create_spec \<Rightarrow> error + int) \<Rightarrow> ('f :: plus, 'p) mutation \<Rightarrow> error + int \<times> ('f, 'p) mutation" where
  "BlacklistedTokenCreate_sqlSave = create_save service_decls BlacklistedToken_schema BlacklistedTokenCreate_checks BlacklistedTokenCreate_createSpec"

section \<open>\<open>EntrepreneurDetailsCreate\<close>\<close>

definition EntrepreneurDetailsCreate_BusinessName :: "(string, 'f :: plus, 'p) field_setters" where
  "EntrepreneurDetailsCreate_BusinessName = setters_of False True False False EntrepreneurDetailsMutation_BusinessName"

definition EntrepreneurDetailsCreate_Nip :: "(string, 'f :: plus, 'p) field_setters" where
  "EntrepreneurDetailsCreate_Nip = setters_of False True False False EntrepreneurDetailsMutation_Nip"

definition EntrepreneurDetailsCreate_Krs :: "(string, 'f :: plus, 'p) field_setters" where
  "EntrepreneurDetailsCreate_Krs = setters_of False True False False EntrepreneurDetailsMutation_Krs"

definition EntrepreneurDetailsCreate_Description :: "(string, 'f :: plus, 'p) field_setters" where
  "EntrepreneurDetailsCreate_Description = setters_of False True False False EntrepreneurDetailsMutation_Description"

definition EntrepreneurDetailsCreate_Offer :: "(string, 'f :: plus, 'p) field_setters" where
  "EntrepreneurDetailsCreate_Offer = setters_of False True False False EntrepreneurDetailsMutation_Offer"

definition EntrepreneurDetailsCreate_Income :: "('f, 'f :: {plus,zero}, 'p) field_setters" where
  "EntrepreneurDetailsCreate_Income = setters_of False True False False EntrepreneurDetailsMutation_Income"

definition EntrepreneurDetailsCreate_Costs :: "('f, 'f :: {plus,zero}, 'p) field_setters" where
  "EntrepreneurDetailsCreate_Costs = setters_of False True False False EntrepreneurDetailsMutation_Costs"

definition EntrepreneurDetailsCreate_FundingCapital :: "('f, 'f :: {plus,zero}, 'p) field_setters" where
  "EntrepreneurDetailsCreate_FundingCapital = setters_of False True False False EntrepreneurDetailsMutation_FundingCapital"

definition EntrepreneurDetailsCreate_Industry :: "(string, 'f :: plus, 'p) field_setters" where
  "EntrepreneurDetailsCreate_Industry = setters_of False True False False EntrepreneurDetailsMutation_Industry"

definition EntrepreneurDetailsCreate_ManagementCouncilMembers :: "(string list, 'f :: plus, 'p) field_setters" where
  "EntrepreneurDetailsCreate_ManagementCouncilMembers = setters_of False False False False EntrepreneurDetailsMutation_ManagementCouncilMembers"

definition EntrepreneurDetailsCreate_DecisionMakers :: "(string list, 'f :: plus, 'p) field_setters" where
  "EntrepreneurDetailsCreate_DecisionMakers = setters_of False False False False EntrepreneurDetailsMutation_DecisionMakers"

definition EntrepreneurDetailsCreate_BusinessPhoneNumber :: "(string, 'f :: plus, 'p) field_setters" where
  "EntrepreneurDetailsCreate_BusinessPhoneNumber = setters_of False True False False EntrepreneurDetailsMutation_BusinessPhoneNumber"

definition EntrepreneurDetailsCreate_BusinessMail :: "(string, 'f :: plus, 'p) field_setters" where
  "EntrepreneurDetailsCreate_BusinessMail = setters_of False True False False EntrepreneurDetailsMutation_BusinessMail"

definition EntrepreneurDetailsCreate_WebsiteAddress :: "(string, 'f :: plus, 'p) field_setters" where
  "EntrepreneurDetailsCreate_WebsiteAddress = setters_of False True False False EntrepreneurDetailsMutation_WebsiteAddress"

definition EntrepreneurDetailsCreate_CreatedAt :: "(int, 'f :: plus, 'p) field_setters" where
  "EntrepreneurDetailsCreate_CreatedAt = setters_of False False False False EntrepreneurDetailsMutation_CreatedAt"

definition EntrepreneurDetailsCreate_UpdatedAt :: "(int, 'f :: plus, 'p) field_setters" where
  "EntrepreneurDetailsCreate_UpdatedAt = setters_of False False False False EntrepreneurDetailsMutation_UpdatedAt"

definition EntrepreneurDetailsCreate_SetID :: "int \<Rightarrow> ('f, 'p) mutation \<Rightarrow> ('f, 'p) mutation" where
  "EntrepreneurDetailsCreate_SetID = SetID"

definition EntrepreneurDetailsCreate_UserDetails :: "('f, 'p) unique_edge_setters" where
  "EntrepreneurDetailsCreate_UserDetails = unique_setters_of True EntrepreneurDetailsMutation_UserDetails"

definition EntrepreneurDetailsCreate_checks :: "check_rule list" where
  "EntrepreneurDetailsCreate_checks = [
    Validator ''income'' ''income'', Validator ''costs'' ''costs'', MissingField ''created_at'' ''created_at'',
    MissingField ''updated_at'' ''updated_at'']"

definition EntrepreneurDetailsCreate_fields :: "spec_rule list" where
  "EntrepreneurDetailsCreate_fields = [
    SetF ''business_name'' TypeString, SetF ''nip'' TypeString, SetF ''krs'' TypeString,
    SetF ''description'' TypeString, SetF ''offer'' TypeString, SetF ''income'' TypeFloat64,
    SetF ''costs'' TypeFloat64, SetF ''funding_capital'' TypeFloat64, SetF ''industry'' TypeString,
    SetF ''management_council_members'' TypeJSON, SetF ''decision_makers'' TypeJSON,
    SetF ''business_phone_number'' TypeString, SetF ''business_mail'' TypeString,
    SetF ''website_address'' TypeString, SetF ''created_at'' TypeTime, SetF ''updated_at'' TypeTime]"

definition EntrepreneurDetailsCreate_edge_UserDetails :: "('f, 'p) mutation \<Rightarrow> edge_spec list" where
  "EntrepreneurDetailsCreate_edge_UserDetails = create_edge EntrepreneurDetails_schema ''user_details''
     (EdgeSpec O2O True ''entrepreneur_details'' [''user_details_entrepreneur_details''] False ''id'')"

definition EntrepreneurDetailsCreate_createSpec :: "('f, 'p) mutation \<Rightarrow> 'f create_spec" where
  "EntrepreneurDetailsCreate_createSpec = create_spec_of ''entrepreneur_details'' EntrepreneurDetailsCreate_fields [
    EntrepreneurDetailsCreate_edge_UserDetails]"

definition EntrepreneurDetailsCreate_sqlSave :: "('f \<Rightarrow> bool) \<Rightarrow> ('f create_spec \<Rightarrow> error + int) \<Rightarrow> ('f :: plus, 'p) mutation \<Rightarrow> error + int \<times> ('f, 'p) mutation" where
  "EntrepreneurDetailsCreate_sqlSave = create_save service_decls EntrepreneurDetails_schema EntrepreneurDetailsCreate_checks EntrepreneurDetailsCreate_createSpec"

section \<open>\<open>LocationCreate\<close>\<close>

definition LocationCreate_Country :: "(string, 'f :: plus, 'p) field_setters" where
  "LocationCreate_Country = setters_of False False False False LocationMutation_Country"

definition LocationCreate_Province :: "(string, 'f :: plus, 'p) field_setters" where
  "LocationCreate_Province = setters_of False False False False LocationMutation_Province"

definition LocationCreate_City :: "(string, 'f :: plus, 'p) field_setters" where
  "LocationCreate_City = setters_of False False False False LocationMutation_City"

definition LocationCreate_PostalCode :: "(string, 'f :: plus, 'p) field_setters" where
  "LocationCreate_PostalCode = setters_of False False False False LocationMutation_PostalCode"

definition LocationCreate_Street :: "(string, 'f :: plus, 'p) field_setters" where
  "LocationCreate_Street = setters_of False True False False LocationMutation_Street"

definition LocationCreate_BuildingNumber :: "(int, 'f :: plus, 'p) field_setters" where
  "LocationCreate_BuildingNumber = setters_of False False False False LocationMutation_BuildingNumber"

definition LocationCreate_ApartmentNumber :: "(int, 'f :: plus, 'p) field_setters" where
  "LocationCreate_ApartmentNumber = setters_of False False False False LocationMutation_ApartmentNumber"

definition LocationCreate_CreatedAt :: "(int, 'f :: plus, 'p) field_setters" where
  "LocationCreate_CreatedAt = setters_of False False False False LocationMutation_CreatedAt"

definition LocationCreate_UpdatedAt :: "(int, 'f :: plus, 'p) field_setters" where
  "LocationCreate_UpdatedAt = setters_of False False False False LocationMutation_UpdatedAt"

definition LocationCreate_SetID :: "int \<Rightarrow> ('f, 'p) mutation \<Rightarrow> ('f, 'p) mutation" where
  "LocationCreate_SetID = SetID"

definition LocationCreate_UserDetails :: "('f, 'p) unique_edge_setters" where
  "LocationCreate_UserDetails = unique_setters_of False LocationMutation_UserDetails"

definition LocationCreate_checks :: "check_rule list" where
  "LocationCreate_checks = [
    MissingField ''country'' ''country'', Validator ''country'' ''country'', MissingField ''province'' ''province'',
    Validator ''province'' ''province'', MissingField ''city'' ''city'', Validator ''city'' ''city'',
    MissingField ''postal_code'' ''postal_code'', Validator ''postal_code'' ''postal_code'',
    MissingField ''building_number'' ''building_number'', Validator ''building_number'' ''building_number'',
    MissingField ''apartment_number'' ''apartment_number'', Validator ''apartment_number'' ''apartment_number'',
    MissingField ''created_at'' ''created_at'', MissingField ''updated_at'' ''updated_at'',
    MissingEdge ''user_details'']"

definition LocationCreate_fields :: "spec_rule list" where
  "LocationCreate_fields = [
    SetF ''country'' TypeString, SetF ''province'' TypeString, SetF ''city'' TypeString,
    SetF ''postal_code'' TypeString, SetF ''street'' TypeString, SetF ''building_number'' TypeInt,
    SetF ''apartment_number'' TypeInt, SetF ''created_at'' TypeTime, SetF ''updated_at'' TypeTime]"

definition LocationCreate_edge_UserDetails :: "('f, 'p) mutation \<Rightarrow> edge_spec list" where
  "LocationCreate_edge_UserDetails = create_edge Location_schema ''user_details''
     (EdgeSpec M2O True ''locations'' [''user_details_locations''] False ''id'')"

definition LocationCreate_createSpec :: "('f, 'p) mutation \<Rightarrow> 'f create_spec" where
  "LocationCreate_createSpec = create_spec_of ''locations'' LocationCreate_fields [
    LocationCreate_edge_UserDetails]"

definition LocationCreate_sqlSave :: "('f \<Rightarrow> bool) \<Rightarrow> ('f create_spec \<Rightarrow> error + int) \<Rightarrow> ('f :: plus, 'p) mutation \<Rightarrow> error + int \<times> ('f, 'p) mutation" where
  "LocationCreate_sqlSave = create_save service_decls Location_schema LocationCreate_checks LocationCreate_createSpec"

section \<open>\<open>ResetCodeCreate\<close>\<close>

definition ResetCodeCreate_Code :: "(string, 'f :: plus, 'p) field_setters" where
  "ResetCodeCreate_Code = setters_of False False False False ResetCodeMutation_Code"

definition ResetCodeCreate_CreatedAt :: "(int, 'f :: plus, 'p) field_setters" where
  "ResetCodeCreate_CreatedAt = setters_of False False False False ResetCodeMutation_CreatedAt"

definition ResetCodeCreate_UpdatedAt :: "(int, 'f :: plus, 'p) field_setters" where
  "ResetCodeCreate_UpdatedAt = setters_of False False False False ResetCodeMutation_UpdatedAt"

definition ResetCodeCreate_ExpiresAt :: "(int, 'f :: plus, 'p) field_setters" where
  "ResetCodeCreate_ExpiresAt = setters_of False True False False ResetCodeMutation_ExpiresAt"

definition ResetCodeCreate_SetID :: "int \<Rightarrow> ('f, 'p) mutation \<Rightarrow> ('f, 'p) mutation" where
  "ResetCodeCreate_SetID = SetID"

definition ResetCodeCreate_Owner :: "('f, 'p) unique_edge_setters" where
  "ResetCodeCreate_Owner = unique_setters_of False ResetCodeMutation_Owner"

definition ResetCodeCreate_checks :: "check_rule list" where
  "ResetCodeCreate_checks = [
    MissingField ''code'' ''code'', Validator ''code'' ''code'', MissingField ''created_at'' ''created_at'',
    MissingField ''updated_at'' ''updated_at'', MissingField ''expires_at'' ''expires_at'', MissingEdge ''owner'']"

definition ResetCodeCreate_defaults :: "(string \<times> default_value) list" where
  "ResetCodeCreate_defaults = [
    (''expires_at'', (DefaultAfter (1 * 3600000000000)))]"

definition ResetCodeCreate_fields :: "spec_rule list" where
  "ResetCodeCreate_fields = [
    SetF ''code'' TypeString, SetF ''created_at'' TypeTime, SetF ''updated_at'' TypeTime, SetF ''expires_at'' TypeTime]"

definition ResetCodeCreate_edge_Owner :: "('f, 'p) mutation \<Rightarrow> edge_spec list" where
  "ResetCodeCreate_edge_Owner = create_edge ResetCode_schema ''owner''
     (EdgeSpec O2O True ''reset_codes'' [''user_reset_code''] False ''id'')"

definition ResetCodeCreate_createSpec :: "('f, 'p) mutation \<Rightarrow> 'f create_spec" where
  "ResetCodeCreate_createSpec = create_spec_of ''reset_codes'' ResetCodeCreate_fields [
    ResetCodeCreate_edge_Owner]"

definition ResetCodeCreate_sqlSave :: "('f \<Rightarrow> bool) \<Rightarrow> ('f create_spec \<Rightarrow> error + int) \<Rightarrow> ('f :: plus, 'p) mutation \<Rightarrow> error + int \<times> ('f, 'p) mutation" where
  "ResetCodeCreate_sqlSave = create_save service_decls ResetCode_schema ResetCodeCreate_checks ResetCodeCreate_createSpec"

section \<open>\<open>RolePermissionCreate\<close>\<close>

definition RolePermissionCreate_Name :: "(string, 'f :: plus, 'p) field_setters" where
  "RolePermissionCreate_Name = setters_of False False False False RolePermissionMutation_Name"

definition RolePermissionCreate_View :: "(bool, 'f :: plus, 'p) field_setters" where
  "RolePermissionCreate_View = setters_of False False False False RolePermissionMutation_View"

definition RolePermissionCreate_Add :: "(bool, 'f :: plus, 'p) field_setters" where
  "RolePermissionCreate_Add = setters_of False False False False RolePermissionMutation_Add"

definition RolePermissionCreate_Edit :: "(bool, 'f :: plus, 'p) field_setters" where
  "RolePermissionCreate_Edit = setters_of False False False False RolePermissionMutation_Edit"

definition RolePermissionCreate_Delete :: "(bool, 'f :: plus, 'p) field_setters" where
  "RolePermissionCreate_Delete = setters_of False False False False RolePermissionMutation_Delete"

definition RolePermissionCreate_CreatedAt :: "(int, 'f :: plus, 'p) field_setters" where
  "RolePermissionCreate_CreatedAt = setters_of False False False False RolePermissionMutation_CreatedAt"

definition RolePermissionCreate_UpdatedAt :: "(int, 'f :: plus, 'p) field_setters" where
  "RolePermissionCreate_UpdatedAt = setters_of False False False False RolePermissionMutation_UpdatedAt"

definition RolePermissionCreate_SetID :: "int \<Rightarrow> ('f, 'p) mutation \<Rightarrow> ('f, 'p) mutation" where
  "RolePermissionCreate_SetID = SetID"

definition RolePermissionCreate_UserRole :: "int list \<Rightarrow> ('f, 'p) mutation \<Rightarrow> ('f, 'p) mutation" where
  "RolePermissionCreate_UserRole = me_AddIDs RolePermissionMutation_UserRole"

definition RolePermissionCreate_checks :: "check_rule list" where
  "RolePermissionCreate_checks = [
    MissingField ''name'' ''name'', MissingField ''view'' ''view'', MissingField ''add'' ''add'',
    MissingField ''edit'' ''edit'', MissingField ''delete'' ''delete'', MissingField ''created_at'' ''created_at'',
    MissingField ''updated_at'' ''updated_at'']"

definition RolePermissionCreate_fields :: "spec_rule list" where
  "RolePermissionCreate_fields = [
    SetF ''name'' TypeString, SetF ''view'' TypeBool, SetF ''add'' TypeBool, SetF ''edit'' TypeBool,
    SetF ''delete'' TypeBool, SetF ''created_at'' TypeTime, SetF ''updated_at'' TypeTime]"

definition RolePermissionCreate_edge_UserRole :: "('f, 'p) mutation \<Rightarrow> edge_spec list" where
  "RolePermissionCreate_edge_UserRole = create_edge RolePermission_schema ''user_role''
     (EdgeSpec M2M False ''role_permission_user_role'' [''role_permission_id'', ''user_role_id''] False ''id'')"

definition RolePermissionCreate_createSpec :: "('f, 'p) mutation \<Rightarrow> 'f create_spec" where
  "RolePermissionCreate_createSpec = create_spec_of ''role_permissions'' RolePermissionCreate_fields [
    RolePermissionCreate_edge_UserRole]"

definition RolePermissionCreate_sqlSave :: "('f \<Rightarrow> bool) \<Rightarrow> ('f create_spec \<Rightarrow> error + int) \<Rightarrow> ('f :: plus, 'p) mutation \<Rightarrow> error + int \<times> ('f, 'p) mutation" where
  "RolePermissionCreate_sqlSave = create_save service_decls RolePermission_schema RolePermissionCreate_checks RolePermissionCreate_createSpec"

section \<open>\<open>SecondFactorCodeCreate\<close>\<close>

definition SecondFactorCodeCreate_Used :: "(bool, 'f :: plus, 'p) field_setters" where
  "SecondFactorCodeCreate_Used = setters_of False True False False SecondFactorCodeMutation_Used"

definition SecondFactorCodeCreate_Code :: "(string, 'f :: plus, 'p) field_setters" where
  "SecondFactorCodeCreate_Code = setters_of False False False False SecondFactorCodeMutation_Code"

definition SecondFactorCodeCreate_CreatedAt :: "(int, 'f :: plus, 'p) field_setters" where
  "SecondFactorCodeCreate_CreatedAt = setters_of False False False False SecondFactorCodeMutation_CreatedAt"

definition SecondFactorCodeCreate_UpdatedAt :: "(int, 'f :: plus, 'p) field_setters" where
  "SecondFactorCodeCreate_UpdatedAt = setters_of False False False False SecondFactorCodeMutation_UpdatedAt"

definition SecondFactorCodeCreate_ExpiresAt :: "(int, 'f :: plus, 'p) field_setters" where
  "SecondFactorCodeCreate_ExpiresAt = setters_of False True False False SecondFactorCodeMutation_ExpiresAt"

definition SecondFactorCodeCreate_SetID :: "int \<Rightarrow> ('f, 'p) mutation \<Rightarrow> ('f, 'p) mutation" where
  "SecondFactorCodeCreate_SetID = SetID"

definition SecondFactorCodeCreate_Owner :: "('f, 'p) unique_edge_setters" where
  "SecondFactorCodeCreate_Owner = unique_setters_of False SecondFactorCodeMutation_Owner"

definition SecondFactorCodeCreate_TargetUserDevice :: "('f, 'p) unique_edge_setters" where
  "SecondFactorCodeCreate_TargetUserDevice = unique_setters_of False SecondFactorCodeMutation_TargetUserDevice"

definition SecondFactorCodeCreate_checks :: "check_rule list" where
  "SecondFactorCodeCreate_checks = [
    MissingField ''used'' ''used'', MissingField ''code'' ''code'', MissingField ''created_at'' ''created_at'',
    MissingField ''updated_at'' ''updated_at'', MissingField ''expires_at'' ''expires_at'', MissingEdge ''owner'',
    MissingEdge ''target_user_device'']"

definition SecondFactorCodeCreate_defaults :: "(string \<times> default_value) list" where
  "SecondFactorCodeCreate_defaults = [
    (''used'', DefaultFalse), (''expires_at'', (DefaultAfter (5 * 60000000000)))]"

definition SecondFactorCodeCreate_fields :: "spec_rule list" where
  "SecondFactorCodeCreate_fields = [
    SetF ''used'' TypeBool, SetF ''code'' TypeString, SetF ''created_at'' TypeTime, SetF ''updated_at'' TypeTime,
    SetF ''expires_at'' TypeTime]"

definition SecondFactorCodeCreate_edge_Owner :: "('f, 'p) mutation \<Rightarrow> edge_spec list" where
  "SecondFactorCodeCreate_edge_Owner = create_edge SecondFactorCode_schema ''owner''
     (EdgeSpec O2O True ''second_factor_codes'' [''user_second_factor_code''] False ''id'')"

definition SecondFactorCodeCreate_edge_TargetUserDevice :: "('f, 'p) mutation \<Rightarrow> edge_spec list" where
  "SecondFactorCodeCreate_edge_TargetUserDevice = create_edge SecondFactorCode_schema ''target_user_device''
     (EdgeSpec O2O False ''user_devices'' [''second_factor_code_target_user_device''] False ''id'')"

definition SecondFactorCodeCreate_createSpec :: "('f, 'p) mutation \<Rightarrow> 'f create_spec" where
  "SecondFactorCodeCreate_createSpec = create_spec_of ''second_factor_codes'' SecondFactorCodeCreate_fields [
    SecondFactorCodeCreate_edge_Owner, SecondFactorCodeCreate_edge_TargetUserDevice]"

definition SecondFactorCodeCreate_sqlSave :: "('f \<Rightarrow> bool) \<Rightarrow> ('f create_spec \<Rightarrow> error + int) \<Rightarrow> ('f :: plus, 'p) mutation \<Rightarrow> error + int \<times> ('f, 'p) mutation" where
  "SecondFactorCodeCreate_sqlSave = create_save service_decls SecondFactorCode_schema SecondFactorCodeCreate_checks SecondFactorCodeCreate_createSpec"

section \<open>\<open>UserCreate\<close>\<close>

definition UserCreate_Mail :: "(string, 'f :: plus, 'p) field_setters" where
  "UserCreate_Mail = setters_of False False False False UserMutation_Mail"

definition UserCreate_Phone :: "(string, 'f :: plus, 'p) field_setters" where
  "UserCreate_Phone = setters_of False True False False UserMutation_Phone"

definition UserCreate_Password :: "(string, 'f :: plus, 'p) field_setters" where
  "UserCreate_Password = setters_of False False False False UserMutation_Password"

definition UserCreate_Active :: "(bool, 'f :: plus, 'p) field_setters" where
  "UserCreate_Active = setters_of False True False False UserMutation_Active"

definition UserCreate_Verified :: "(bool, 'f :: plus, 'p) field_setters" where
  "UserCreate_Verified = setters_of False True False False UserMutation_Verified"

definition UserCreate_Blacklisted :: "(bool, 'f :: plus, 'p) field_setters" where
  "UserCreate_Blacklisted = setters_of False True False False UserMutation_Blacklisted"

definition UserCreate_Removed :: "(bool, 'f :: plus, 'p) field_setters" where
  "UserCreate_Removed = setters_of False True False False UserMutation_Removed"

definition UserCreate_CreatedAt :: "(int, 'f :: plus, 'p) field_setters" where
  "UserCreate_CreatedAt = setters_of False False False False UserMutation_CreatedAt"

definition UserCreate_UpdatedAt :: "(int, 'f :: plus, 'p) field_setters" where
  "UserCreate_UpdatedAt = setters_of False False False False UserMutation_UpdatedAt"

definition UserCreate_SubscriptionIds :: "(int list, 'f :: plus, 'p) field_setters" where
  "UserCreate_SubscriptionIds = setters_of False False False False UserMutation_SubscriptionIds"

definition UserCreate_TeamIds :: "(int list, 'f :: plus, 'p) field_setters" where
  "UserCreate_TeamIds = setters_of False False False False UserMutation_TeamIds"

definition UserCreate_OrganizationIds :: "(int list, 'f :: plus, 'p) field_setters" where
  "UserCreate_OrganizationIds = setters_of False False False False UserMutation_OrganizationIds"

definition UserCreate_SetID :: "int \<Rightarrow> ('f, 'p) mutation \<Rightarrow> ('f, 'p) mutation" where
  "UserCreate_SetID = SetID"

definition UserCreate_UserDetails :: "('f, 'p) unique_edge_setters" where
  "UserCreate_UserDetails = unique_setters_of True UserMutation_UserDetails"

definition UserCreate_UserSettings :: "('f, 'p) unique_edge_setters" where
  "UserCreate_UserSettings = unique_setters_of True UserMutation_UserSettings"

definition UserCreate_ActivationCode :: "('f, 'p) unique_edge_setters" where
  "UserCreate_ActivationCode = unique_setters_of True UserMutation_ActivationCode"

definition UserCreate_VerificationCode :: "('f, 'p) unique_edge_setters" where
  "UserCreate_VerificationCode = unique_setters_of True UserMutation_VerificationCode"

definition UserCreate_SecondFactorCode :: "('f, 'p) unique_edge_setters" where
  "UserCreate_SecondFactorCode = unique_setters_of True UserMutation_SecondFactorCode"

definition UserCreate_ResetCode :: "('f, 'p) unique_edge_setters" where
  "UserCreate_ResetCode = unique_setters_of True UserMutation_ResetCode"

definition UserCreate_UserDevices :: "int list \<Rightarrow> ('f, 'p) mutation \<Rightarrow> ('f, 'p) mutation" where
  "UserCreate_UserDevices = me_AddIDs UserMutation_UserDevices"

definition UserCreate_UserActions :: "int list \<Rightarrow> ('f, 'p) mutation \<Rightarrow> ('f, 'p) mutation" where
  "UserCreate_UserActions = me_AddIDs UserMutation_UserActions"

definition UserCreate_UserRoles :: "int list \<Rightarrow> ('f, 'p) mutation \<Rightarrow> ('f, 'p) mutation" where
  "UserCreate_UserRoles = me_AddIDs UserMutation_UserRoles"

definition UserCreate_BlacklistedTokens :: "int list \<Rightarrow> ('f, 'p) mutation \<Rightarrow> ('f, 'p) mutation" where
  "UserCreate_BlacklistedTokens = me_AddIDs UserMutation_BlacklistedTokens"

definition UserCreate_checks :: "check_rule list" where
  "UserCreate_checks = [
    MissingField ''mail'' ''mail'', Validator ''mail'' ''mail'', MissingField ''password'' ''password'',
    Validator ''password'' ''password'', MissingField ''active'' ''active'', MissingField ''verified'' ''verified'',
    MissingField ''blacklisted'' ''blacklisted'', MissingField ''removed'' ''removed'',
    MissingField ''created_at'' ''created_at'', MissingField ''updated_at'' ''updated_at'',
    MissingField ''subscription_ids'' ''subscription_ids'', MissingField ''team_ids'' ''team_ids'',
    MissingField ''organization_ids'' ''organization_ids'']"

definition UserCreate_defaults :: "(string \<times> default_value) list" where
  "UserCreate_defaults = [
    (''active'', DefaultFalse), (''verified'', DefaultFalse), (''blacklisted'', DefaultFalse),
    (''removed'', DefaultFalse), (''subscription_ids'', DefaultNoInts), (''team_ids'', DefaultNoInts),
    (''organization_ids'', DefaultNoInts)]"

definition UserCreate_fields :: "spec_rule list" where
  "UserCreate_fields = [
    SetF ''mail'' TypeString, SetF ''phone'' TypeString, SetF ''password'' TypeString, SetF ''active'' TypeBool,
    SetF ''verified'' TypeBool, SetF ''blacklisted'' TypeBool, SetF ''removed'' TypeBool,
    SetF ''created_at'' TypeTime, SetF ''updated_at'' TypeTime, SetF ''subscription_ids'' TypeJSON,
    SetF ''team_ids'' TypeJSON, SetF ''organization_ids'' TypeJSON]"

definition UserCreate_edge_UserDetails :: "('f, 'p) mutation \<Rightarrow> edge_spec list" where
  "UserCreate_edge_UserDetails = create_edge User_schema ''user_details''
     (EdgeSpec O2O False ''user_details'' [''user_user_details''] False ''id'')"

definition UserCreate_edge_UserSettings :: "('f, 'p) mutation \<Rightarrow> edge_spec list" where
  "UserCreate_edge_UserSettings = create_edge User_schema ''user_settings''
     (EdgeSpec O2O False ''user_settings'' [''user_user_settings''] False ''id'')"

definition UserCreate_edge_ActivationCode :: "('f, 'p) mutation \<Rightarrow> edge_spec list" where
  "UserCreate_edge_ActivationCode = create_edge User_schema ''activation_code''
     (EdgeSpec O2O False ''activation_codes'' [''user_activation_code''] False ''id'')"

definition UserCreate_edge_VerificationCode :: "('f, 'p) mutation \<Rightarrow> edge_spec list" where
  "UserCreate_edge_VerificationCode = create_edge User_schema ''verification_code''
     (EdgeSpec O2O False ''verification_codes'' [''user_verification_code''] False ''id'')"

definition UserCreate_edge_SecondFactorCode :: "('f, 'p) mutation \<Rightarrow> edge_spec list" where
  "UserCreate_edge_SecondFactorCode = create_edge User_schema ''second_factor_code''
     (EdgeSpec O2O False ''second_factor_codes'' [''user_second_factor_code''] False ''id'')"

definition UserCreate_edge_ResetCode :: "('f, 'p) mutation \<Rightarrow> edge_spec list" where
  "UserCreate_edge_ResetCode = create_edge User_schema ''reset_code''
     (EdgeSpec O2O False ''reset_codes'' [''user_reset_code''] False ''id'')"

definition UserCreate_edge_UserDevices :: "('f, 'p) mutation \<Rightarrow> edge_spec list" where
  "UserCreate_edge_UserDevices = create_edge User_schema ''user_devices''
     (EdgeSpec O2M False ''user_devices'' [''user_user_devices''] False ''id'')"

definition UserCreate_edge_UserActions :: "('f, 'p) mutation \<Rightarrow> edge_spec list" where
  "UserCreate_edge_UserActions = create_edge User_schema ''user_actions''
     (EdgeSpec M2M False ''user_user_actions'' [''user_id'', ''user_action_id''] False ''id'')"

definition UserCreate_edge_UserRoles :: "('f, 'p) mutation \<Rightarrow> edge_spec list" where
  "UserCreate_edge_UserRoles = create_edge User_schema ''user_roles''
     (EdgeSpec M2M False ''user_user_roles'' [''user_id'', ''user_role_id''] False ''id'')"

definition UserCreate_edge_BlacklistedTokens :: "('f, 'p) mutation \<Rightarrow> edge_spec list" where
  "UserCreate_edge_BlacklistedTokens = create_edge User_schema ''blacklisted_tokens''
     (EdgeSpec O2M True ''blacklisted_tokens'' [''blacklisted_token_owner''] False ''id'')"

definition UserCreate_createSpec :: "('f, 'p) mutation \<Rightarrow> 'f create_spec" where
  "UserCreate_createSpec = create_spec_of ''users'' UserCreate_fields [
    UserCreate_edge_UserDetails, UserCreate_edge_UserSettings, UserCreate_edge_ActivationCode,
    UserCreate_edge_VerificationCode, UserCreate_edge_SecondFactorCode, UserCreate_edge_ResetCode,
    UserCreate_edge_UserDevices, UserCreate_edge_UserActions, UserCreate_edge_UserRoles,
    UserCreate_edge_BlacklistedTokens]"

definition UserCreate_sqlSave :: "('f \<Rightarrow> bool) \<Rightarrow> ('f create_spec \<Rightarrow> error + int) \<Rightarrow> ('f :: plus, 'p) mutation \<Rightarrow> error + int \<times> ('f, 'p) mutation" where
  "UserCreate_sqlSave = create_save service_decls User_schema UserCreate_checks UserCreate_createSpec"

section \<open>\<open>UserActionCreate\<close>\<close>

definition UserActionCreate_Type :: "(string, 'f :: plus, 'p) field_setters" where
  "UserActionCreate_Type = setters_of False False False False UserActionMutation_Type"

definition UserActionCreate_Action :: "(string, 'f :: plus, 'p) field_setters" where
  "UserActionCreate_Action = setters_of False False False False UserActionMutation_Action"

definition UserActionCreate_Details :: "(string, 'f :: plus, 'p) field_setters" where
  "UserActionCreate_Details = setters_of False False False False UserActionMutation_Details"

definition UserActionCreate_CreatedAt :: "(int, 'f :: plus, 'p) field_setters" where
  "UserActionCreate_CreatedAt = setters_of False False False False UserActionMutation_CreatedAt"

definition UserActionCreate_UpdatedAt :: "(int, 'f :: plus, 'p) field_setters" where
  "UserActionCreate_UpdatedAt = setters_of False False False False UserActionMutation_UpdatedAt"

definition UserActionCreate_SetID :: "int \<Rightarrow> ('f, 'p) mutation \<Rightarrow> ('f, 'p) mutation" where
  "UserActionCreate_SetID = SetID"

definition UserActionCreate_Author :: "int list \<Rightarrow> ('f, 'p) mutation \<Rightarrow> ('f, 'p) mutation" where
  "UserActionCreate_Author = me_AddIDs UserActionMutation_Author"

definition UserActionCreate_AuthorDevice :: "int list \<Rightarrow> ('f, 'p) mutation \<Rightarrow> ('f, 'p) mutation" where
  "UserActionCreate_AuthorDevice = me_AddIDs UserActionMutation_AuthorDevice"

definition UserActionCreate_checks :: "check_rule list" where
  "UserActionCreate_checks = [
    MissingField ''type'' ''type'', MissingField ''action'' ''action'', MissingField ''details'' ''details'',
    MissingField ''created_at'' ''created_at'', MissingField ''updated_at'' ''updated_at'', MissingEdge ''author'',
    MissingEdge ''author_device'']"

definition UserActionCreate_fields :: "spec_rule list" where
  "UserActionCreate_fields = [
    SetF ''type'' TypeString, SetF ''action'' TypeString, SetF ''details'' TypeString, SetF ''created_at'' TypeTime,
    SetF ''updated_at'' TypeTime]"

definition UserActionCreate_edge_Author :: "('f, 'p) mutation \<Rightarrow> edge_spec list" where
  "UserActionCreate_edge_Author = create_edge UserAction_schema ''author''
     (EdgeSpec M2M True ''user_user_actions'' [''user_id'', ''user_action_id''] False ''id'')"

definition UserActionCreate_edge_AuthorDevice :: "('f, 'p) mutation \<Rightarrow> edge_spec list" where
  "UserActionCreate_edge_AuthorDevice = create_edge UserAction_schema ''author_device''
     (EdgeSpec M2M True ''user_device_user_actions'' [''user_device_id'', ''user_action_id''] False ''id'')"

definition UserActionCreate_createSpec :: "('f, 'p) mutation \<Rightarrow> 'f create_spec" where
  "UserActionCreate_createSpec = create_spec_of ''user_actions'' UserActionCreate_fields [
    UserActionCreate_edge_Author, UserActionCreate_edge_AuthorDevice]"

definition UserActionCreate_sqlSave :: "('f \<Rightarrow> bool) \<Rightarrow> ('f create_spec \<Rightarrow> error + int) \<Rightarrow> ('f :: plus, 'p) mutation \<Rightarrow> error + int \<times> ('f, 'p) mutation" where
  "UserActionCreate_sqlSave = create_save service_decls UserAction_schema UserActionCreate_checks UserActionCreate_createSpec"

section \<open>\<open>UserDetailsCreate\<close>\<close>

definition UserDetailsCreate_Name :: "(string, 'f :: plus, 'p) field_setters" where
  "UserDetailsCreate_Name = setters_of False False False False UserDetailsMutation_Name"

definition UserDetailsCreate_FirstName :: "(string, 'f :: plus, 'p) field_setters" where
  "UserDetailsCreate_FirstName = setters_of False True False False UserDetailsMutation_FirstName"

definition UserDetailsCreate_LastName :: "(string, 'f :: plus, 'p) field_setters" where
  "UserDetailsCreate_LastName = setters_of False True False False UserDetailsMutation_LastName"

definition UserDetailsCreate_CreatedAt :: "(int, 'f :: plus, 'p) field_setters" where
  "UserDetailsCreate_CreatedAt = setters_of False False False False UserDetailsMutation_CreatedAt"

definition UserDetailsCreate_UpdatedAt :: "(int, 'f :: plus, 'p) field_setters" where
  "UserDetailsCreate_UpdatedAt = setters_of False False False False UserDetailsMutation_UpdatedAt"

definition UserDetailsCreate_SetID :: "int \<Rightarrow> ('f, 'p) mutation \<Rightarrow> ('f, 'p) mutation" where
  "UserDetailsCreate_SetID = SetID"

definition UserDetailsCreate_Owner :: "('f, 'p) unique_edge_setters" where
  "UserDetailsCreate_Owner = unique_setters_of False UserDetailsMutation_Owner"

definition UserDetailsCreate_Locations :: "int list \<Rightarrow> ('f, 'p) mutation \<Rightarrow> ('f, 'p) mutation" where
  "UserDetailsCreate_Locations = me_AddIDs UserDetailsMutation_Locations"

definition UserDetailsCreate_EntrepreneurDetails :: "('f, 'p) unique_edge_setters" where
  "UserDetailsCreate_EntrepreneurDetails = unique_setters_of True UserDetailsMutation_EntrepreneurDetails"

definition UserDetailsCreate_checks :: "check_rule list" where
  "UserDetailsCreate_checks = [
    MissingField ''name'' ''name'', Validator ''name'' ''name'', MissingField ''created_at'' ''created_at'',
    MissingField ''updated_at'' ''updated_at'', MissingEdge ''owner'']"

definition UserDetailsCreate_fields :: "spec_rule list" where
  "UserDetailsCreate_fields = [
    SetF ''name'' TypeString, SetF ''first_name'' TypeString, SetF ''last_name'' TypeString,
    SetF ''created_at'' TypeTime, SetF ''updated_at'' TypeTime]"

definition UserDetailsCreate_edge_Owner :: "('f, 'p) mutation \<Rightarrow> edge_spec list" where
  "UserDetailsCreate_edge_Owner = create_edge UserDetails_schema ''owner''
     (EdgeSpec O2O True ''user_details'' [''user_user_details''] False ''id'')"

definition UserDetailsCreate_edge_Locations :: "('f, 'p) mutation \<Rightarrow> edge_spec list" where
  "UserDetailsCreate_edge_Locations = create_edge UserDetails_schema ''locations''
     (EdgeSpec O2M False ''locations'' [''user_details_locations''] False ''id'')"

definition UserDetailsCreate_edge_EntrepreneurDetails :: "('f, 'p) mutation \<Rightarrow> edge_spec list" where
  "UserDetailsCreate_edge_EntrepreneurDetails = create_edge UserDetails_schema ''entrepreneur_details''
     (EdgeSpec O2O False ''entrepreneur_details'' [''user_details_entrepreneur_details''] False ''id'')"

definition UserDetailsCreate_createSpec :: "('f, 'p) mutation \<Rightarrow> 'f create_spec" where
  "UserDetailsCreate_createSpec = create_spec_of ''user_details'' UserDetailsCreate_fields [
    UserDetailsCreate_edge_Owner, UserDetailsCreate_edge_Locations, UserDetailsCreate_edge_EntrepreneurDetails]"

definition UserDetailsCreate_sqlSave :: "('f \<Rightarrow> bool) \<Rightarrow> ('f create_spec \<Rightarrow> error + int) \<Rightarrow> ('f :: plus, 'p) mutation \<Rightarrow> error + int \<times> ('f, 'p) mutation" where
  "UserDetailsCreate_sqlSave = create_save service_decls UserDetails_schema UserDetailsCreate_checks UserDetailsCreate_createSpec"

section \<open>\<open>UserDeviceCreate\<close>\<close>

definition UserDeviceCreate_Name :: "(string, 'f :: plus, 'p) field_setters" where
  "UserDeviceCreate_Name = setters_of False True False False UserDeviceMutation_Name"

definition UserDeviceCreate_Type :: "(string, 'f :: plus, 'p) field_setters" where
  "UserDeviceCreate_Type = setters_of False True False False UserDeviceMutation_Type"

definition UserDeviceCreate_Token :: "(string, 'f :: plus, 'p) field_setters" where
  "UserDeviceCreate_Token = setters_of False False False False UserDeviceMutation_Token"

definition UserDeviceCreate_IPAddress :: "(string, 'f :: plus, 'p) field_setters" where
  "UserDeviceCreate_IPAddress = setters_of False True False False UserDeviceMutation_IPAddress"

definition UserDeviceCreate_UserAgent :: "(string, 'f :: plus, 'p) field_setters" where
  "UserDeviceCreate_UserAgent = setters_of False True False False UserDeviceMutation_UserAgent"

definition UserDeviceCreate_OsName :: "(string, 'f :: plus, 'p) field_setters" where
  "UserDeviceCreate_OsName = setters_of False True False False UserDeviceMutation_OsName"

definition UserDeviceCreate_OsVersion :: "(string, 'f :: plus, 'p) field_setters" where
  "UserDeviceCreate_OsVersion = setters_of False True False False UserDeviceMutation_OsVersion"

definition UserDeviceCreate_BrowserName :: "(string, 'f :: plus, 'p) field_setters" where
  "UserDeviceCreate_BrowserName = setters_of False True False False UserDeviceMutation_BrowserName"

definition UserDeviceCreate_BrowserVersion :: "(string, 'f :: plus, 'p) field_setters" where
  "UserDeviceCreate_BrowserVersion = setters_of False True False False UserDeviceMutation_BrowserVersion"

definition UserDeviceCreate_LastSeenAt :: "(int, 'f :: plus, 'p) field_setters" where
  "UserDeviceCreate_LastSeenAt = setters_of False True False False UserDeviceMutation_LastSeenAt"

definition UserDeviceCreate_CreatedAt :: "(int, 'f :: plus, 'p) field_setters" where
  "UserDeviceCreate_CreatedAt = setters_of False False False False UserDeviceMutation_CreatedAt"

definition UserDeviceCreate_UpdatedAt :: "(int, 'f :: plus, 'p) field_setters" where
  "UserDeviceCreate_UpdatedAt = setters_of False False False False UserDeviceMutation_UpdatedAt"

definition UserDeviceCreate_SetID :: "int \<Rightarrow> ('f, 'p) mutation \<Rightarrow> ('f, 'p) mutation" where
  "UserDeviceCreate_SetID = SetID"

definition UserDeviceCreate_Owner :: "('f, 'p) unique_edge_setters" where
  "UserDeviceCreate_Owner = unique_setters_of False UserDeviceMutation_Owner"

definition UserDeviceCreate_UserSettings2fa :: "('f, 'p) unique_edge_setters" where
  "UserDeviceCreate_UserSettings2fa = unique_setters_of True UserDeviceMutation_UserSettings2fa"

definition UserDeviceCreate_SecondFactorCodes :: "('f, 'p) unique_edge_setters" where
  "UserDeviceCreate_SecondFactorCodes = unique_setters_of True UserDeviceMutation_SecondFactorCodes"

definition UserDeviceCreate_UserActions :: "int list \<Rightarrow> ('f, 'p) mutation \<Rightarrow> ('f, 'p) mutation" where
  "UserDeviceCreate_UserActions = me_AddIDs UserDeviceMutation_UserActions"

definition UserDeviceCreate_checks :: "check_rule list" where
  "UserDeviceCreate_checks = [
    MissingField ''token'' ''token'', Validator ''token'' ''token'', MissingField ''last_seen_at'' ''last_seen_at'',
    MissingField ''created_at'' ''created_at'', MissingField ''updated_at'' ''updated_at'', MissingEdge ''owner'']"

definition UserDeviceCreate_defaults :: "(string \<times> default_value) list" where
  "UserDeviceCreate_defaults = [
    (''last_seen_at'', DefaultNow)]"

definition UserDeviceCreate_fields :: "spec_rule list" where
  "UserDeviceCreate_fields = [
    SetF ''name'' TypeString, SetF ''type'' TypeString, SetF ''token'' TypeString, SetF ''ip_address'' TypeString,
    SetF ''user_agent'' TypeString, SetF ''os_name'' TypeString, SetF ''os_version'' TypeString,
    SetF ''browser_name'' TypeString, SetF ''browser_version'' TypeString, SetF ''last_seen_at'' TypeTime,
    SetF ''created_at'' TypeTime, SetF ''updated_at'' TypeTime]"

definition UserDeviceCreate_edge_Owner :: "('f, 'p) mutation \<Rightarrow> edge_spec list" where
  "UserDeviceCreate_edge_Owner = create_edge UserDevice_schema ''owner''
     (EdgeSpec M2O True ''user_devices'' [''user_user_devices''] False ''id'')"

definition UserDeviceCreate_edge_UserSettings2fa :: "('f, 'p) mutation \<Rightarrow> edge_spec list" where
  "UserDeviceCreate_edge_UserSettings2fa = create_edge UserDevice_schema ''user_settings_2fa''
     (EdgeSpec O2O True ''user_devices'' [''user_settings_second_factor_target''] False ''id'')"

definition UserDeviceCreate_edge_SecondFactorCodes :: "('f, 'p) mutation \<Rightarrow> edge_spec list" where
  "UserDeviceCreate_edge_SecondFactorCodes = create_edge UserDevice_schema ''second_factor_codes''
     (EdgeSpec O2O True ''user_devices'' [''second_factor_code_target_user_device''] False ''id'')"

definition UserDeviceCreate_edge_UserActions :: "('f, 'p) mutation \<Rightarrow> edge_spec list" where
  "UserDeviceCreate_edge_UserActions = create_edge UserDevice_schema ''user_actions''
     (EdgeSpec M2M False ''user_device_user_actions'' [''user_device_id'', ''user_action_id''] False ''id'')"

definition UserDeviceCreate_createSpec :: "('f, 'p) mutation \<Rightarrow> 'f create_spec" where
  "UserDeviceCreate_createSpec = create_spec_of ''user_devices'' UserDeviceCreate_fields [
    UserDeviceCreate_edge_Owner, UserDeviceCreate_edge_UserSettings2fa, UserDeviceCreate_edge_SecondFactorCodes,
    UserDeviceCreate_edge_UserActions]"

definition UserDeviceCreate_sqlSave :: "('f \<Rightarrow> bool) \<Rightarrow> ('f create_spec \<Rightarrow> error + int) \<Rightarrow> ('f :: plus, 'p) mutation \<Rightarrow> error + int \<times> ('f, 'p) mutation" where
  "UserDeviceCreate_sqlSave = create_save service_decls UserDevice_schema UserDeviceCreate_checks UserDeviceCreate_createSpec"

section \<open>\<open>UserRoleCreate\<close>\<close>

definition UserRoleCreate_Name :: "(string, 'f :: plus, 'p) field_setters" where
  "UserRoleCreate_Name = setters_of False False False False UserRoleMutation_Name"

definition UserRoleCreate_Description :: "(string, 'f :: plus, 'p) field_setters" where
  "UserRoleCreate_Description = setters_of False False False False UserRoleMutation_Description"

definition UserRoleCreate_CreatedAt :: "(int, 'f :: plus, 'p) field_setters" where
  "UserRoleCreate_CreatedAt = setters_of False False False False UserRoleMutation_CreatedAt"

definition UserRoleCreate_UpdatedAt :: "(int, 'f :: plus, 'p) field_setters" where
  "UserRoleCreate_UpdatedAt = setters_of False False False False UserRoleMutation_UpdatedAt"

definition UserRoleCreate_SetID :: "int \<Rightarrow> ('f, 'p) mutation \<Rightarrow> ('f, 'p) mutation" where
  "UserRoleCreate_SetID = SetID"

definition UserRoleCreate_Owner :: "int list \<Rightarrow> ('f, 'p) mutation \<Rightarrow> ('f, 'p) mutation" where
  "UserRoleCreate_Owner = me_AddIDs UserRoleMutation_Owner"

definition UserRoleCreate_Permissions :: "int list \<Rightarrow> ('f, 'p) mutation \<Rightarrow> ('f, 'p) mutation" where
  "UserRoleCreate_Permissions = me_AddIDs UserRoleMutation_Permissions"

definition UserRoleCreate_checks :: "check_rule list" where
  "UserRoleCreate_checks = [
    MissingField ''name'' ''name'', Validator ''name'' ''name'', MissingField ''description'' ''description'',
    MissingField ''created_at'' ''created_at'', MissingField ''updated_at'' ''updated_at'']"

definition UserRoleCreate_fields :: "spec_rule list" where
  "UserRoleCreate_fields = [
    SetF ''name'' TypeString, SetF ''description'' TypeString, SetF ''created_at'' TypeTime,
    SetF ''updated_at'' TypeTime]"

definition UserRoleCreate_edge_Owner :: "('f, 'p) mutation \<Rightarrow> edge_spec list" where
  "UserRoleCreate_edge_Owner = create_edge UserRole_schema ''owner''
     (EdgeSpec M2M True ''user_user_roles'' [''user_id'', ''user_role_id''] False ''id'')"

definition UserRoleCreate_edge_Permissions :: "('f, 'p) mutation \<Rightarrow> edge_spec list" where
  "UserRoleCreate_edge_Permissions = create_edge UserRole_schema ''permissions''
     (EdgeSpec M2M True ''role_permission_user_role'' [''role_permission_id'', ''user_role_id''] False ''id'')"

definition UserRoleCreate_createSpec :: "('f, 'p) mutation \<Rightarrow> 'f create_spec" where
  "UserRoleCreate_createSpec = create_spec_of ''user_roles'' UserRoleCreate_fields [
    UserRoleCreate_edge_Owner, UserRoleCreate_edge_Permissions]"

definition UserRoleCreate_sqlSave :: "('f \<Rightarrow> bool) \<Rightarrow> ('f create_spec \<Rightarrow> error + int) \<Rightarrow> ('f :: plus, 'p) mutation \<Rightarrow> error + int \<times> ('f, 'p) mutation" where
  "UserRoleCreate_sqlSave = create_save service_decls UserRole_schema UserRoleCreate_checks UserRoleCreate_createSpec"

section \<open>\<open>UserSettingsCreate\<close>\<close>

definition UserSettingsCreate_UUID :: "(string, 'f :: plus, 'p) field_setters" where
  "UserSettingsCreate_UUID = setters_of False False False False UserSettingsMutation_UUID"

definition UserSettingsCreate_TwoFactor :: "(bool, 'f :: plus, 'p) field_setters" where
  "UserSettingsCreate_TwoFactor = setters_of False True False False UserSettingsMutation_TwoFactor"

definition UserSettingsCreate_NightMode :: "(bool, 'f :: plus, 'p) field_setters" where
  "UserSettingsCreate_NightMode = setters_of False True False False UserSettingsMutation_NightMode"

definition UserSettingsCreate_CreatedAt :: "(int, 'f :: plus, 'p) field_setters" where
  "UserSettingsCreate_CreatedAt = setters_of False False False False UserSettingsMutation_CreatedAt"

definition UserSettingsCreate_UpdatedAt :: "(int, 'f :: plus, 'p) field_setters" where
  "UserSettingsCreate_UpdatedAt = setters_of False False False False UserSettingsMutation_UpdatedAt"

definition UserSettingsCreate_SetID :: "int \<Rightarrow> ('f, 'p) mutation \<Rightarrow> ('f, 'p) mutation" where
  "UserSettingsCreate_SetID = SetID"

definition UserSettingsCreate_Owner :: "('f, 'p) unique_edge_setters" where
  "UserSettingsCreate_Owner = unique_setters_of False UserSettingsMutation_Owner"

definition UserSettingsCreate_SecondFactorTarget :: "('f, 'p) unique_edge_setters" where
  "UserSettingsCreate_SecondFactorTarget = unique_setters_of True UserSettingsMutation_SecondFactorTarget"

definition UserSettingsCreate_NotificationTargetDevices :: "int list \<Rightarrow> ('f, 'p) mutation \<Rightarrow> ('f, 'p) mutation" where
  "UserSettingsCreate_NotificationTargetDevices = me_AddIDs UserSettingsMutation_NotificationTargetDevices"

definition UserSettingsCreate_checks :: "check_rule list" where
  "UserSettingsCreate_checks = [
    MissingField ''uuid'' ''UUID'', Validator ''uuid'' ''UUID'', MissingField ''two_factor'' ''two_factor'',
    MissingField ''night_mode'' ''night_mode'', MissingField ''created_at'' ''created_at'',
    MissingField ''updated_at'' ''updated_at'', MissingEdge ''owner'']"

definition UserSettingsCreate_defaults :: "(string \<times> default_value) list" where
  "UserSettingsCreate_defaults = [
    (''two_factor'', DefaultFalse), (''night_mode'', DefaultFalse)]"

definition UserSettingsCreate_fields :: "spec_rule list" where
  "UserSettingsCreate_fields = [
    SetF ''uuid'' TypeString, SetF ''two_factor'' TypeBool, SetF ''night_mode'' TypeBool,
    SetF ''created_at'' TypeTime, SetF ''updated_at'' TypeTime]"

definition UserSettingsCreate_edge_Owner :: "('f, 'p) mutation \<Rightarrow> edge_spec list" where
  "UserSettingsCreate_edge_Owner = create_edge UserSettings_schema ''owner''
     (EdgeSpec O2O True ''user_settings'' [''user_user_settings''] False ''id'')"

definition UserSettingsCreate_edge_SecondFactorTarget :: "('f, 'p) mutation \<Rightarrow> edge_spec list" where
  "UserSettingsCreate_edge_SecondFactorTarget = create_edge UserSettings_schema ''second_factor_target''
     (EdgeSpec O2O False ''user_devices'' [''user_settings_second_factor_target''] False ''id'')"

definition UserSettingsCreate_edge_NotificationTargetDevices :: "('f, 'p) mutation \<Rightarrow> edge_spec list" where
  "UserSettingsCreate_edge_NotificationTargetDevices = create_edge UserSettings_schema ''notification_target_devices''
     (EdgeSpec O2M False ''user_devices'' [''user_settings_notification_target_devices''] False ''id'')"

definition UserSettingsCreate_createSpec :: "('f, 'p) mutation \<Rightarrow> 'f create_spec" where
  "UserSettingsCreate_createSpec = create_spec_of ''user_settings'' UserSettingsCreate_fields [
    UserSettingsCreate_edge_Owner, UserSettingsCreate_edge_SecondFactorTarget,
    UserSettingsCreate_edge_NotificationTargetDevices]"

definition UserSettingsCreate_sqlSave :: "('f \<Rightarrow> bool) \<Rightarrow> ('f create_spec \<Rightarrow> error + int) \<Rightarrow> ('f :: plus, 'p) mutation \<Rightarrow> error + int \<times> ('f, 'p) mutation" where
  "UserSettingsCreate_sqlSave = create_save service_decls UserSettings_schema UserSettingsCreate_checks UserSettingsCreate_createSpec"

section \<open>\<open>VerificationCodeCreate\<close>\<close>

definition VerificationCodeCreate_Code :: "(string, 'f :: plus, 'p) field_setters" where
  "VerificationCodeCreate_Code = setters_of False False False False VerificationCodeMutation_Code"

definition VerificationCodeCreate_CreatedAt :: "(int, 'f :: plus, 'p) field_setters" where
  "VerificationCodeCreate_CreatedAt = setters_of False False False False VerificationCodeMutation_CreatedAt"

definition VerificationCodeCreate_UpdatedAt :: "(int, 'f :: plus, 'p) field_setters" where
  "VerificationCodeCreate_UpdatedAt = setters_of False False False False VerificationCodeMutation_UpdatedAt"

definition VerificationCodeCreate_ExpiresAt :: "(int, 'f :: plus, 'p) field_setters" where
  "VerificationCodeCreate_ExpiresAt = setters_of False True False False VerificationCodeMutation_ExpiresAt"

definition VerificationCodeCreate_SetID :: "int \<Rightarrow> ('f, 'p) mutation \<Rightarrow> ('f, 'p) mutation" where
  "VerificationCodeCreate_SetID = SetID"

definition VerificationCodeCreate_Owner :: "('f, 'p) unique_edge_setters" where
  "VerificationCodeCreate_Owner = unique_setters_of False VerificationCodeMutation_Owner"

definition VerificationCodeCreate_checks :: "check_rule list" where
  "VerificationCodeCreate_checks = [
    MissingField ''code'' ''code'', Validator ''code'' ''code'', MissingField ''created_at'' ''created_at'',
    MissingField ''updated_at'' ''updated_at'', MissingField ''expires_at'' ''expires_at'', MissingEdge ''owner'']"

definition VerificationCodeCreate_defaults :: "(string \<times> default_value) list" where
  "VerificationCodeCreate_defaults = [
    (''expires_at'', (DefaultAfter (1 * 3600000000000)))]"

definition VerificationCodeCreate_fields :: "spec_rule list" where
  "VerificationCodeCreate_fields = [
    SetF ''code'' TypeString, SetF ''created_at'' TypeTime, SetF ''updated_at'' TypeTime, SetF ''expires_at'' TypeTime]"

definition VerificationCodeCreate_edge_Owner :: "('f, 'p) mutation \<Rightarrow> edge_spec list" where
  "VerificationCodeCreate_edge_Owner = create_edge VerificationCode_schema ''owner''
     (EdgeSpec O2O True ''verification_codes'' [''user_verification_code''] False ''id'')"

definition VerificationCodeCreate_createSpec :: "('f, 'p) mutation \<Rightarrow> 'f create_spec" where
  "VerificationCodeCreate_createSpec = create_spec_of ''verification_codes'' VerificationCodeCreate_fields [
    VerificationCodeCreate_edge_Owner]"

definition VerificationCodeCreate_sqlSave :: "('f \<Rightarrow> bool) \<Rightarrow> ('f create_spec \<Rightarrow> error + int) \<Rightarrow> ('f :: plus, 'p) mutation \<Rightarrow> error + int \<times> ('f, 'p) mutation" where
  "VerificationCodeCreate_sqlSave = create_save service_decls VerificationCode_schema VerificationCodeCreate_checks VerificationCodeCreate_createSpec"

end
