(* ===== verification/Ent_Update.thy ===== *)
theory Ent_Update imports Ent_Builders begin

text \<open>
  The builders that update many entities (models/ent/<entity>_update.go), instances of theory
  Ent_Builders.
\<close>

section \<open>\<open>ActivationCodeUpdate\<close>\<close>

definition ActivationCodeUpdate_Code :: "(string, 'f :: plus, 'p) field_setters" where
  "ActivationCodeUpdate_Code = setters_of False True False False ActivationCodeMutation_Code"

definition ActivationCodeUpdate_Used :: "(bool, 'f :: plus, 'p) field_setters" where
  "ActivationCodeUpdate_Used = setters_of False True False False ActivationCodeMutation_Used"

definition ActivationCodeUpdate_UpdatedAt :: "(int, 'f :: plus, 'p) field_setters" where
  "ActivationCodeUpdate_UpdatedAt = setters_of False True False False ActivationCodeMutation_UpdatedAt"

definition ActivationCodeUpdate_ExpiresAt :: "(int, 'f :: plus, 'p) field_setters" where
  "ActivationCodeUpdate_ExpiresAt = setters_of False True False False ActivationCodeMutation_ExpiresAt"

definition ActivationCodeUpdate_Owner :: "('f, 'p) unique_edge_setters" where
  "ActivationCodeUpdate_Owner = unique_setters_of False ActivationCodeMutation_Owner"

definition ActivationCodeUpdate_ClearOwner :: "('f, 'p) mutation \<Rightarrow> ('f, 'p) mutation" where
  "ActivationCodeUpdate_ClearOwner = ue_Clear ActivationCodeMutation_Owner"

definition ActivationCodeUpdate_checks :: "check_rule list" where
  "ActivationCodeUpdate_checks = [
    Validator ''code'' ''code'', ClearingEdge ''owner'']"

definition ActivationCodeUpdate_fields :: "spec_rule list" where
  "ActivationCodeUpdate_fields = [
    SetF ''code'' TypeString, SetF ''used'' TypeBool, SetF ''updated_at'' TypeTime, SetF ''expires_at'' TypeTime]"

definition ActivationCodeUpdate_edge_Owner :: "('f, 'p) mutation \<Rightarrow> edge_spec list \<times> edge_spec list" where
  "ActivationCodeUpdate_edge_Owner = update_edge ActivationCode_schema ''owner''
     (EdgeSpec O2O True ''activation_codes'' [''user_activation_code''] False ''id'')"

definition ActivationCodeUpdate_updateSpec :: "('f, 'p) mutation \<Rightarrow> ('f, 'p) update_spec" where
  "ActivationCodeUpdate_updateSpec = update_spec_of activationcode_package ActivationCode_schema ActivationCodeUpdate_fields [
    ActivationCodeUpdate_edge_Owner]"

definition ActivationCodeUpdate_sqlSave ::
  "('f \<Rightarrow> bool) \<Rightarrow> (('f, 'p) update_spec \<Rightarrow> error + int) \<Rightarrow> ('f :: plus, 'p) mutation \<Rightarrow> error + int \<times> ('f, 'p) mutation" where
  "ActivationCodeUpdate_sqlSave = update_save service_decls ActivationCode_schema ActivationCodeUpdate_checks ActivationCodeUpdate_updateSpec"

section \<open>\<open>BlacklistedTokenUpdate\<close>\<close>

definition BlacklistedTokenUpdate_Token :: "(string, 'f :: plus, 'p) field_setters" where
  "BlacklistedTokenUpdate_Token = setters_of False True False False BlacklistedTokenMutation_Token"

definition BlacklistedTokenUpdate_UpdatedAt :: "(int, 'f :: plus, 'p) field_setters" where
  "BlacklistedTokenUpdate_UpdatedAt = setters_of False True False False BlacklistedTokenMutation_UpdatedAt"

definition BlacklistedTokenUpdate_ExpiresAt :: "(int, 'f :: plus, 'p) field_setters" where
  "BlacklistedTokenUpdate_ExpiresAt = setters_of False True False False BlacklistedTokenMutation_ExpiresAt"

definition BlacklistedTokenUpdate_Owner :: "('f, 'p) unique_edge_setters" where
  "BlacklistedTokenUpdate_Owner = unique_setters_of True BlacklistedTokenMutation_Owner"

definition BlacklistedTokenUpdate_ClearOwner :: "('f, 'p) mutation \<Rightarrow> ('f, 'p) mutation" where
  "BlacklistedTokenUpdate_ClearOwner = ue_Clear BlacklistedTokenMutation_Owner"

definition BlacklistedTokenUpdate_checks :: "check_rule list" where
  "BlacklistedTokenUpdate_checks = [
    Validator ''token'' ''token'']"

definition BlacklistedTokenUpdate_fields :: "spec_rule list" where
  "BlacklistedTokenUpdate_fields = [
    SetF ''token'' TypeString, SetF ''updated_at'' TypeTime, SetF ''expires_at'' TypeTime]"

definition BlacklistedTokenUpdate_edge_Owner :: "('f, 'p) mutation \<Rightarrow> edge_spec list \<times> edge_spec list" where
  "BlacklistedTokenUpdate_edge_Owner = update_edge BlacklistedToken_schema ''owner''
     (EdgeSpec M2O False ''blacklisted_tokens'' [''blacklisted_token_owner''] False ''id'')"

definition BlacklistedTokenUpdate_updateSpec :: "('f, 'p) mutation \<Rightarrow> ('f, 'p) update_spec" where
  "BlacklistedTokenUpdate_updateSpec = update_spec_of blacklistedtoken_package BlacklistedToken_schema BlacklistedTokenUpdate_fields [
    BlacklistedTokenUpdate_edge_Owner]"

definition BlacklistedTokenUpdate_sqlSave ::
  "('f \<Rightarrow> bool) \<Rightarrow> (('f, 'p) update_spec \<Rightarrow> error + int) \<Rightarrow> ('f :: plus, 'p) mutation \<Rightarrow> error + int \<times> ('f, 'p) mutation" where
  "BlacklistedTokenUpdate_sqlSave = update_save service_decls BlacklistedToken_schema BlacklistedTokenUpdate_checks BlacklistedTokenUpdate_updateSpec"

section \<open>\<open>EntrepreneurDetailsUpdate\<close>\<close>

definition EntrepreneurDetailsUpdate_BusinessName :: "(string, 'f :: plus, 'p) field_setters" where
  "EntrepreneurDetailsUpdate_BusinessName = setters_of False True False True EntrepreneurDetailsMutation_BusinessName"

definition EntrepreneurDetailsUpdate_Nip :: "(string, 'f :: plus, 'p) field_setters" where
  "EntrepreneurDetailsUpdate_Nip = setters_of False True False True EntrepreneurDetailsMutation_Nip"

definition EntrepreneurDetailsUpdate_Krs :: "(string, 'f :: plus, 'p) field_setters" where
  "EntrepreneurDetailsUpdate_Krs = setters_of False True False True EntrepreneurDetailsMutation_Krs"

definition EntrepreneurDetailsUpdate_Description :: "(string, 'f :: plus, 'p) field_setters" where
  "EntrepreneurDetailsUpdate_Description = setters_of False True False True EntrepreneurDetailsMutation_Description"

definition EntrepreneurDetailsUpdate_Offer :: "(string, 'f :: plus, 'p) field_setters" where
  "EntrepreneurDetailsUpdate_Offer = setters_of False True False True EntrepreneurDetailsMutation_Offer"

definition EntrepreneurDetailsUpdate_Income :: "('f, 'f :: {plus,zero}, 'p) field_setters" where
  "EntrepreneurDetailsUpdate_Income = setters_of True True True True EntrepreneurDetailsMutation_Income"

definition EntrepreneurDetailsUpdate_Costs :: "('f, 'f :: {plus,zero}, 'p) field_setters" where
  "EntrepreneurDetailsUpdate_Costs = setters_of True True True True EntrepreneurDetailsMutation_Costs"

definition EntrepreneurDetailsUpdate_FundingCapital :: "('f, 'f :: {plus,zero}, 'p) field_setters" where
  "EntrepreneurDetailsUpdate_FundingCapital = setters_of True True True True EntrepreneurDetailsMutation_FundingCapital"

definition EntrepreneurDetailsUpdate_Industry :: "(string, 'f :: plus, 'p) field_setters" where
  "EntrepreneurDetailsUpdate_Industry = setters_of False True False True EntrepreneurDetailsMutation_Industry"

definition EntrepreneurDetailsUpdate_ManagementCouncilMembers :: "(string list, 'f :: plus, 'p) field_setters" where
  "EntrepreneurDetailsUpdate_ManagementCouncilMembers = setters_of False False True True EntrepreneurDetailsMutation_ManagementCouncilMembers"

definition EntrepreneurDetailsUpdate_DecisionMakers :: "(string list, 'f :: plus, 'p) field_setters" where
  "EntrepreneurDetailsUpdate_DecisionMakers = setters_of False False True True EntrepreneurDetailsMutation_DecisionMakers"

definition EntrepreneurDetailsUpdate_BusinessPhoneNumber :: "(string, 'f :: plus, 'p) field_setters" where
  "EntrepreneurDetailsUpdate_BusinessPhoneNumber = setters_of False True False True EntrepreneurDetailsMutation_BusinessPhoneNumber"

definition EntrepreneurDetailsUpdate_BusinessMail :: "(string, 'f :: plus, 'p) field_setters" where
  "EntrepreneurDetailsUpdate_BusinessMail = setters_of False True False True EntrepreneurDetailsMutation_BusinessMail"

definition EntrepreneurDetailsUpdate_WebsiteAddress :: "(string, 'f :: plus, 'p) field_setters" where
  "EntrepreneurDetailsUpdate_WebsiteAddress = setters_of False True False True EntrepreneurDetailsMutation_WebsiteAddress"

definition EntrepreneurDetailsUpdate_UpdatedAt :: "(int, 'f :: plus, 'p) field_setters" where
  "EntrepreneurDetailsUpdate_UpdatedAt = setters_of False True False False EntrepreneurDetailsMutation_UpdatedAt"

definition EntrepreneurDetailsUpdate_UserDetails :: "('f, 'p) unique_edge_setters" where
  "EntrepreneurDetailsUpdate_UserDetails = unique_setters_of True EntrepreneurDetailsMutation_UserDetails"

definition EntrepreneurDetailsUpdate_ClearUserDetails :: "('f, 'p) mutation \<Rightarrow> ('f, 'p) mutation" where
  "EntrepreneurDetailsUpdate_ClearUserDetails = ue_Clear EntrepreneurDetailsMutation_UserDetails"

definition EntrepreneurDetailsUpdate_checks :: "check_rule list" where
  "EntrepreneurDetailsUpdate_checks = [
    Validator ''income'' ''income'', Validator ''costs'' ''costs'']"

definition EntrepreneurDetailsUpdate_fields :: "spec_rule list" where
  "EntrepreneurDetailsUpdate_fields = [
    SetF ''business_name'' TypeString, ClearF ''business_name'' TypeString, SetF ''nip'' TypeString,
    ClearF ''nip'' TypeString, SetF ''krs'' TypeString, ClearF ''krs'' TypeString, SetF ''description'' TypeString,
    ClearF ''description'' TypeString, SetF ''offer'' TypeString, ClearF ''offer'' TypeString,
    SetF ''income'' TypeFloat64, AddF ''income'' TypeFloat64, ClearF ''income'' TypeFloat64,
    SetF ''costs'' TypeFloat64, AddF ''costs'' TypeFloat64, ClearF ''costs'' TypeFloat64,
    SetF ''funding_capital'' TypeFloat64, AddF ''funding_capital'' TypeFloat64,
    ClearF ''funding_capital'' TypeFloat64, SetF ''industry'' TypeString, ClearF ''industry'' TypeString,
    SetF ''management_council_members'' TypeJSON, AppendF ''management_council_members'',
    ClearF ''management_council_members'' TypeJSON, SetF ''decision_makers'' TypeJSON, AppendF ''decision_makers'',
    ClearF ''decision_makers'' TypeJSON, SetF ''business_phone_number'' TypeString,
    ClearF ''business_phone_number'' TypeString, SetF ''business_mail'' TypeString,
    ClearF ''business_mail'' TypeString, SetF ''website_address'' TypeString, ClearF ''website_address'' TypeString,
    SetF ''updated_at'' TypeTime]"

definition EntrepreneurDetailsUpdate_edge_UserDetails :: "('f, 'p) mutation \<Rightarrow> edge_spec list \<times> edge_spec list" where
  "EntrepreneurDetailsUpdate_edge_UserDetails = update_edge EntrepreneurDetails_schema ''user_details''
     (EdgeSpec O2O True ''entrepreneur_details'' [''user_details_entrepreneur_details''] False ''id'')"

definition EntrepreneurDetailsUpdate_updateSpec :: "('f, 'p) mutation \<Rightarrow> ('f, 'p) update_spec" where
  "EntrepreneurDetailsUpdate_updateSpec = update_spec_of entrepreneurdetails_package EntrepreneurDetails_schema EntrepreneurDetailsUpdate_fields [
    EntrepreneurDetailsUpdate_edge_UserDetails]"

definition EntrepreneurDetailsUpdate_sqlSave ::
  "('f \<Rightarrow> bool) \<Rightarrow> (('f, 'p) update_spec \<Rightarrow> error + int) \<Rightarrow> ('f :: plus, 'p) mutation \<Rightarrow> error + int \<times> ('f, 'p) mutation" where
  "EntrepreneurDetailsUpdate_sqlSave = update_save service_decls EntrepreneurDetails_schema EntrepreneurDetailsUpdate_checks EntrepreneurDetailsUpdate_updateSpec"

section \<open>\<open>LocationUpdate\<close>\<close>

definition LocationUpdate_Country :: "(string, 'f :: plus, 'p) field_setters" where
  "LocationUpdate_Country = setters_of False True False False LocationMutation_Country"

definition LocationUpdate_Province :: "(string, 'f :: plus, 'p) field_setters" where
  "LocationUpdate_Province = setters_of False True False False LocationMutation_Province"

definition LocationUpdate_City :: "(string, 'f :: plus, 'p) field_setters" where
  "LocationUpdate_City = setters_of False True False False LocationMutation_City"

definition LocationUpdate_PostalCode :: "(string, 'f :: plus, 'p) field_setters" where
  "LocationUpdate_PostalCode = setters_of False True False False LocationMutation_PostalCode"

definition LocationUpdate_Street :: "(string, 'f :: plus, 'p) field_setters" where
  "LocationUpdate_Street = setters_of False True False True LocationMutation_Street"

definition LocationUpdate_BuildingNumber :: "(int, 'f :: plus, 'p) field_setters" where
  "LocationUpdate_BuildingNumber = setters_of True True True False LocationMutation_BuildingNumber"

definition LocationUpdate_ApartmentNumber :: "(int, 'f :: plus, 'p) field_setters" where
  "LocationUpdate_ApartmentNumber = setters_of True True True False LocationMutation_ApartmentNumber"

definition LocationUpdate_UpdatedAt :: "(int, 'f :: plus, 'p) field_setters" where
  "LocationUpdate_UpdatedAt = setters_of False True False False LocationMutation_UpdatedAt"

definition LocationUpdate_UserDetails :: "('f, 'p) unique_edge_setters" where
  "LocationUpdate_UserDetails = unique_setters_of False LocationMutation_UserDetails"

definition LocationUpdate_ClearUserDetails :: "('f, 'p) mutation \<Rightarrow> ('f, 'p) mutation" where
  "LocationUpdate_ClearUserDetails = ue_Clear LocationMutation_UserDetails"

definition LocationUpdate_checks :: "check_rule list" where
  "LocationUpdate_checks = [
    Validator ''country'' ''country'', Validator ''province'' ''province'', Validator ''city'' ''city'',
    Validator ''postal_code'' ''postal_code'', Validator ''building_number'' ''building_number'',
    Validator ''apartment_number'' ''apartment_number'', ClearingEdge ''user_details'']"

definition LocationUpdate_fields :: "spec_rule list" where
  "LocationUpdate_fields = [
    SetF ''country'' TypeString, SetF ''province'' TypeString, SetF ''city'' TypeString,
    SetF ''postal_code'' TypeString, SetF ''street'' TypeString, ClearF ''street'' TypeString,
    SetF ''building_number'' TypeInt, AddF ''building_number'' TypeInt, SetF ''apartment_number'' TypeInt,
    AddF ''apartment_number'' TypeInt, SetF ''updated_at'' TypeTime]"

definition LocationUpdate_edge_UserDetails :: "('f, 'p) mutation \<Rightarrow> edge_spec list \<times> edge_spec list" where
  "LocationUpdate_edge_UserDetails = update_edge Location_schema ''user_details''
     (EdgeSpec M2O True ''locations'' [''user_details_locations''] False ''id'')"

definition LocationUpdate_updateSpec :: "('f, 'p) mutation \<Rightarrow> ('f, 'p) update_spec" where
  "LocationUpdate_updateSpec = update_spec_of location_package Location_schema LocationUpdate_fields [
    LocationUpdate_edge_UserDetails]"

definition LocationUpdate_sqlSave ::
  "('f \<Rightarrow> bool) \<Rightarrow> (('f, 'p) update_spec \<Rightarrow> error + int) \<Rightarrow> ('f :: plus, 'p) mutation \<Rightarrow> error + int \<times> ('f, 'p) mutation" where
  "LocationUpdate_sqlSave = update_save service_decls Location_schema LocationUpdate_checks LocationUpdate_updateSpec"

section \<open>\<open>ResetCodeUpdate\<close>\<close>

definition ResetCodeUpdate_Code :: "(string, 'f :: plus, 'p) field_setters" where
  "ResetCodeUpdate_Code = setters_of False True False False ResetCodeMutation_Code"

definition ResetCodeUpdate_UpdatedAt :: "(int, 'f :: plus, 'p) field_setters" where
  "ResetCodeUpdate_UpdatedAt = setters_of False True False False ResetCodeMutation_UpdatedAt"

definition ResetCodeUpdate_ExpiresAt :: "(int, 'f :: plus, 'p) field_setters" where
  "ResetCodeUpdate_ExpiresAt = setters_of False True False False ResetCodeMutation_ExpiresAt"

definition ResetCodeUpdate_Owner :: "('f, 'p) unique_edge_setters" where
  "ResetCodeUpdate_Owner = unique_setters_of False ResetCodeMutation_Owner"

definition ResetCodeUpdate_ClearOwner :: "('f, 'p) mutation \<Rightarrow> ('f, 'p) mutation" where
  "ResetCodeUpdate_ClearOwner = ue_Clear ResetCodeMutation_Owner"

definition ResetCodeUpdate_checks :: "check_rule list" where
  "ResetCodeUpdate_checks = [
    Validator ''code'' ''code'', ClearingEdge ''owner'']"

definition ResetCodeUpdate_fields :: "spec_rule list" where
  "ResetCodeUpdate_fields = [
    SetF ''code'' TypeString, SetF ''updated_at'' TypeTime, SetF ''expires_at'' TypeTime]"

definition ResetCodeUpdate_edge_Owner :: "('f, 'p) mutation \<Rightarrow> edge_spec list \<times> edge_spec list" where
  "ResetCodeUpdate_edge_Owner = update_edge ResetCode_schema ''owner''
     (EdgeSpec O2O True ''reset_codes'' [''user_reset_code''] False ''id'')"

definition ResetCodeUpdate_updateSpec :: "('f, 'p) mutation \<Rightarrow> ('f, 'p) update_spec" where
  "ResetCodeUpdate_updateSpec = update_spec_of resetcode_package ResetCode_schema ResetCodeUpdate_fields [
    ResetCodeUpdate_edge_Owner]"

definition ResetCodeUpdate_sqlSave ::
  "('f \<Rightarrow> bool) \<Rightarrow> (('f, 'p) update_spec \<Rightarrow> error + int) \<Rightarrow> ('f :: plus, 'p) mutation \<Rightarrow> error + int \<times> ('f, 'p) mutation" where
  "ResetCodeUpdate_sqlSave = update_save service_decls ResetCode_schema ResetCodeUpdate_checks ResetCodeUpdate_updateSpec"

section \<open>\<open>RolePermissionUpdate\<close>\<close>

definition RolePermissionUpdate_Name :: "(string, 'f :: plus, 'p) field_setters" where
  "RolePermissionUpdate_Name = setters_of False True False False RolePermissionMutation_Name"

definition RolePermissionUpdate_View :: "(bool, 'f :: plus, 'p) field_setters" where
  "RolePermissionUpdate_View = setters_of False True False False RolePermissionMutation_View"

definition RolePermissionUpdate_Add :: "(bool, 'f :: plus, 'p) field_setters" where
  "RolePermissionUpdate_Add = setters_of False True False False RolePermissionMutation_Add"

definition RolePermissionUpdate_Edit :: "(bool, 'f :: plus, 'p) field_setters" where
  "RolePermissionUpdate_Edit = setters_of False True False False RolePermissionMutation_Edit"

definition RolePermissionUpdate_Delete :: "(bool, 'f :: plus, 'p) field_setters" where
  "RolePermissionUpdate_Delete = setters_of False True False False RolePermissionMutation_Delete"

definition RolePermissionUpdate_UpdatedAt :: "(int, 'f :: plus, 'p) field_setters" where
  "RolePermissionUpdate_UpdatedAt = setters_of False True False False RolePermissionMutation_UpdatedAt"

definition RolePermissionUpdate_UserRole :: "int list \<Rightarrow> ('f, 'p) mutation \<Rightarrow> ('f, 'p) mutation" where
  "RolePermissionUpdate_UserRole = me_AddIDs RolePermissionMutation_UserRole"

definition RolePermissionUpdate_ClearUserRole :: "(('f, 'p) mutation \<Rightarrow> ('f, 'p) mutation) \<times> (int list \<Rightarrow> ('f, 'p) mutation \<Rightarrow> ('f, 'p) mutation)" where
  "RolePermissionUpdate_ClearUserRole = (me_Clear RolePermissionMutation_UserRole, me_RemoveIDs RolePermissionMutation_UserRole)"

definition RolePermissionUpdate_fields :: "spec_rule list" where
  "RolePermissionUpdate_fields = [
    SetF ''name'' TypeString, SetF ''view'' TypeBool, SetF ''add'' TypeBool, SetF ''edit'' TypeBool,
    SetF ''delete'' TypeBool, SetF ''updated_at'' TypeTime]"

definition RolePermissionUpdate_edge_UserRole :: "('f, 'p) mutation \<Rightarrow> edge_spec list \<times> edge_spec list" where
  "RolePermissionUpdate_edge_UserRole = update_edge RolePermission_schema ''user_role''
     (EdgeSpec M2M False ''role_permission_user_role'' [''role_permission_id'', ''user_role_id''] False ''id'')"

definition RolePermissionUpdate_updateSpec :: "('f, 'p) mutation \<Rightarrow> ('f, 'p) update_spec" where
  "RolePermissionUpdate_updateSpec = update_spec_of rolepermission_package RolePermission_schema RolePermissionUpdate_fields [
    RolePermissionUpdate_edge_UserRole]"

definition RolePermissionUpdate_sqlSave ::
  "('f \<Rightarrow> bool) \<Rightarrow> (('f, 'p) update_spec \<Rightarrow> error + int) \<Rightarrow> ('f :: plus, 'p) mutation \<Rightarrow> error + int \<times> ('f, 'p) mutation" where
  "RolePermissionUpdate_sqlSave = update_save service_decls RolePermission_schema [] RolePermissionUpdate_updateSpec"

section \<open>\<open>SecondFactorCodeUpdate\<close>\<close>

definition SecondFactorCodeUpdate_Used :: "(bool, 'f :: plus, 'p) field_setters" where
  "SecondFactorCodeUpdate_Used = setters_of False True False False SecondFactorCodeMutation_Used"

definition SecondFactorCodeUpdate_Code :: "(string, 'f :: plus, 'p) field_setters" where
  "SecondFactorCodeUpdate_Code = setters_of False True False False SecondFactorCodeMutation_Code"

definition SecondFactorCodeUpdate_UpdatedAt :: "(int, 'f :: plus, 'p) field_setters" where
  "SecondFactorCodeUpdate_UpdatedAt = setters_of False True False False SecondFactorCodeMutation_UpdatedAt"

definition SecondFactorCodeUpdate_ExpiresAt :: "(int, 'f :: plus, 'p) field_setters" where
  "SecondFactorCodeUpdate_ExpiresAt = setters_of False True False False SecondFactorCodeMutation_ExpiresAt"

definition SecondFactorCodeUpdate_Owner :: "('f, 'p) unique_edge_setters" where
  "SecondFactorCodeUpdate_Owner = unique_setters_of False SecondFactorCodeMutation_Owner"

definition SecondFactorCodeUpdate_ClearOwner :: "('f, 'p) mutation \<Rightarrow> ('f, 'p) mutation" where
  "SecondFactorCodeUpdate_ClearOwner = ue_Clear SecondFactorCodeMutation_Owner"

definition SecondFactorCodeUpdate_TargetUserDevice :: "('f, 'p) unique_edge_setters" where
  "SecondFactorCodeUpdate_TargetUserDevice = unique_setters_of False SecondFactorCodeMutation_TargetUserDevice"

definition SecondFactorCodeUpdate_ClearTargetUserDevice :: "('f, 'p) mutation \<Rightarrow> ('f, 'p) mutation" where
  "SecondFactorCodeUpdate_ClearTargetUserDevice = ue_Clear SecondFactorCodeMutation_TargetUserDevice"

definition SecondFactorCodeUpdate_checks :: "check_rule list" where
  "SecondFactorCodeUpdate_checks = [
    ClearingEdge ''owner'', ClearingEdge ''target_user_device'']"

definition SecondFactorCodeUpdate_fields :: "spec_rule list" where
  "SecondFactorCodeUpdate_fields = [
    SetF ''used'' TypeBool, SetF ''code'' TypeString, SetF ''updated_at'' TypeTime, SetF ''expires_at'' TypeTime]"

definition SecondFactorCodeUpdate_edge_Owner :: "('f, 'p) mutation \<Rightarrow> edge_spec list \<times> edge_spec list" where
  "SecondFactorCodeUpdate_edge_Owner = update_edge SecondFactorCode_schema ''owner''
     (EdgeSpec O2O True ''second_factor_codes'' [''user_second_factor_code''] False ''id'')"

definition SecondFactorCodeUpdate_edge_TargetUserDevice :: "('f, 'p) mutation \<Rightarrow> edge_spec list \<times> edge_spec list" where
  "SecondFactorCodeUpdate_edge_TargetUserDevice = update_edge SecondFactorCode_schema ''target_user_device''
     (EdgeSpec O2O False ''user_devices'' [''second_factor_code_target_user_device''] False ''id'')"

definition SecondFactorCodeUpdate_updateSpec :: "('f, 'p) mutation \<Rightarrow> ('f, 'p) update_spec" where
  "SecondFactorCodeUpdate_updateSpec = update_spec_of secondfactorcode_package SecondFactorCode_schema SecondFactorCodeUpdate_fields [
    SecondFactorCodeUpdate_edge_Owner, SecondFactorCodeUpdate_edge_TargetUserDevice]"

definition SecondFactorCodeUpdate_sqlSave ::
  "('f \<Rightarrow> bool) \<Rightarrow> (('f, 'p) update_spec \<Rightarrow> error + int) \<Rightarrow> ('f :: plus, 'p) mutation \<Rightarrow> error + int \<times> ('f, 'p) mutation" where
  "SecondFactorCodeUpdate_sqlSave = update_save service_decls SecondFactorCode_schema SecondFactorCodeUpdate_checks SecondFactorCodeUpdate_updateSpec"

section \<open>\<open>UserUpdate\<close>\<close>

definition UserUpdate_Mail :: "(string, 'f :: plus, 'p) field_setters" where
  "UserUpdate_Mail = setters_of False True False False UserMutation_Mail"

definition UserUpdate_Phone :: "(string, 'f :: plus, 'p) field_setters" where
  "UserUpdate_Phone = setters_of False True False True UserMutation_Phone"

definition UserUpdate_Password :: "(string, 'f :: plus, 'p) field_setters" where
  "UserUpdate_Password = setters_of False True False False UserMutation_Password"

definition UserUpdate_Active :: "(bool, 'f :: plus, 'p) field_setters" where
  "UserUpdate_Active = setters_of False True False False UserMutation_Active"

definition UserUpdate_Verified :: "(bool, 'f :: plus, 'p) field_setters" where
  "UserUpdate_Verified = setters_of False True False False UserMutation_Verified"

definition UserUpdate_Blacklisted :: "(bool, 'f :: plus, 'p) field_setters" where
  "UserUpdate_Blacklisted = setters_of False True False False UserMutation_Blacklisted"

definition UserUpdate_Removed :: "(bool, 'f :: plus, 'p) field_setters" where
  "UserUpdate_Removed = setters_of False True False False UserMutation_Removed"

definition UserUpdate_UpdatedAt :: "(int, 'f :: plus, 'p) field_setters" where
  "UserUpdate_UpdatedAt = setters_of False True False False UserMutation_UpdatedAt"

definition UserUpdate_SubscriptionIds :: "(int list, 'f :: plus, 'p) field_setters" where
  "UserUpdate_SubscriptionIds = setters_of False False True False UserMutation_SubscriptionIds"

definition UserUpdate_TeamIds :: "(int list, 'f :: plus, 'p) field_setters" where
  "UserUpdate_TeamIds = setters_of False False True False UserMutation_TeamIds"

definition UserUpdate_OrganizationIds :: "(int list, 'f :: plus, 'p) field_setters" where
  "UserUpdate_OrganizationIds = setters_of False False True False UserMutation_OrganizationIds"

definition UserUpdate_UserDetails :: "('f, 'p) unique_edge_setters" where
  "UserUpdate_UserDetails = unique_setters_of True UserMutation_UserDetails"

definition UserUpdate_ClearUserDetails :: "('f, 'p) mutation \<Rightarrow> ('f, 'p) mutation" where
  "UserUpdate_ClearUserDetails = ue_Clear UserMutation_UserDetails"

definition UserUpdate_UserSettings :: "('f, 'p) unique_edge_setters" where
  "UserUpdate_UserSettings = unique_setters_of True UserMutation_UserSettings"

definition UserUpdate_ClearUserSettings :: "('f, 'p) mutation \<Rightarrow> ('f, 'p) mutation" where
  "UserUpdate_ClearUserSettings = ue_Clear UserMutation_UserSettings"

definition UserUpdate_ActivationCode :: "('f, 'p) unique_edge_setters" where
  "UserUpdate_ActivationCode = unique_setters_of True UserMutation_ActivationCode"

definition UserUpdate_ClearActivationCode :: "('f, 'p) mutation \<Rightarrow> ('f, 'p) mutation" where
  "UserUpdate_ClearActivationCode = ue_Clear UserMutation_ActivationCode"

definition UserUpdate_VerificationCode :: "('f, 'p) unique_edge_setters" where
  "UserUpdate_VerificationCode = unique_setters_of True UserMutation_VerificationCode"

definition UserUpdate_ClearVerificationCode :: "('f, 'p) mutation \<Rightarrow> ('f, 'p) mutation" where
  "UserUpdate_ClearVerificationCode = ue_Clear UserMutation_VerificationCode"

definition UserUpdate_SecondFactorCode :: "('f, 'p) unique_edge_setters" where
  "UserUpdate_SecondFactorCode = unique_setters_of True UserMutation_SecondFactorCode"

definition UserUpdate_ClearSecondFactorCode :: "('f, 'p) mutation \<Rightarrow> ('f, 'p) mutation" where
  "UserUpdate_ClearSecondFactorCode = ue_Clear UserMutation_SecondFactorCode"

definition UserUpdate_ResetCode :: "('f, 'p) unique_edge_setters" where
  "UserUpdate_ResetCode = unique_setters_of True UserMutation_ResetCode"

definition UserUpdate_ClearResetCode :: "('f, 'p) mutation \<Rightarrow> ('f, 'p) mutation" where
  "UserUpdate_ClearResetCode = ue_Clear UserMutation_ResetCode"

definition UserUpdate_UserDevices :: "int list \<Rightarrow> ('f, 'p) mutation \<Rightarrow> ('f, 'p) mutation" where
  "UserUpdate_UserDevices = me_AddIDs UserMutation_UserDevices"

definition UserUpdate_ClearUserDevices :: "(('f, 'p) mutation \<Rightarrow> ('f, 'p) mutation) \<times> (int list \<Rightarrow> ('f, 'p) mutation \<Rightarrow> ('f, 'p) mutation)" where
  "UserUpdate_ClearUserDevices = (me_Clear UserMutation_UserDevices, me_RemoveIDs UserMutation_UserDevices)"

definition UserUpdate_UserActions :: "int list \<Rightarrow> ('f, 'p) mutation \<Rightarrow> ('f, 'p) mutation" where
  "UserUpdate_UserActions = me_AddIDs UserMutation_UserActions"

definition UserUpdate_ClearUserActions :: "(('f, 'p) mutation \<Rightarrow> ('f, 'p) mutation) \<times> (int list \<Rightarrow> ('f, 'p) mutation \<Rightarrow> ('f, 'p) mutation)" where
  "UserUpdate_ClearUserActions = (me_Clear UserMutation_UserActions, me_RemoveIDs UserMutation_UserActions)"

definition UserUpdate_UserRoles :: "int list \<Rightarrow> ('f, 'p) mutation \<Rightarrow> ('f, 'p) mutation" where
  "UserUpdate_UserRoles = me_AddIDs UserMutation_UserRoles"

definition UserUpdate_ClearUserRoles :: "(('f, 'p) mutation \<Rightarrow> ('f, 'p) mutation) \<times> (int list \<Rightarrow> ('f, 'p) mutation \<Rightarrow> ('f, 'p) mutation)" where
  "UserUpdate_ClearUserRoles = (me_Clear UserMutation_UserRoles, me_RemoveIDs UserMutation_UserRoles)"

definition UserUpdate_BlacklistedTokens :: "int list \<Rightarrow> ('f, 'p) mutation \<Rightarrow> ('f, 'p) mutation" where
  "UserUpdate_BlacklistedTokens = me_AddIDs UserMutation_BlacklistedTokens"

definition UserUpdate_ClearBlacklistedTokens :: "(('f, 'p) mutation \<Rightarrow> ('f, 'p) mutation) \<times> (int list \<Rightarrow> ('f, 'p) mutation \<Rightarrow> ('f, 'p) mutation)" where
  "UserUpdate_ClearBlacklistedTokens = (me_Clear UserMutation_BlacklistedTokens, me_RemoveIDs UserMutation_BlacklistedTokens)"

definition UserUpdate_checks :: "check_rule list" where
  "UserUpdate_checks = [
    Validator ''mail'' ''mail'', Validator ''password'' ''password'']"

definition UserUpdate_fields :: "spec_rule list" where
  "UserUpdate_fields = [
    SetF ''mail'' TypeString, SetF ''phone'' TypeString, ClearF ''phone'' TypeString, SetF ''password'' TypeString,
    SetF ''active'' TypeBool, SetF ''verified'' TypeBool, SetF ''blacklisted'' TypeBool, SetF ''removed'' TypeBool,
    SetF ''updated_at'' TypeTime, SetF ''subscription_ids'' TypeJSON, AppendF ''subscription_ids'',
    SetF ''team_ids'' TypeJSON, AppendF ''team_ids'', SetF ''organization_ids'' TypeJSON, AppendF ''organization_ids'']"

definition UserUpdate_edge_UserDetails :: "('f, 'p) mutation \<Rightarrow> edge_spec list \<times> edge_spec list" where
  "UserUpdate_edge_UserDetails = update_edge User_schema ''user_details''
     (EdgeSpec O2O False ''user_details'' [''user_user_details''] False ''id'')"

definition UserUpdate_edge_UserSettings :: "('f, 'p) mutation \<Rightarrow> edge_spec list \<times> edge_spec list" where
  "UserUpdate_edge_UserSettings = update_edge User_schema ''user_settings''
     (EdgeSpec O2O False ''user_settings'' [''user_user_settings''] False ''id'')"

definition UserUpdate_edge_ActivationCode :: "('f, 'p) mutation \<Rightarrow> edge_spec list \<times> edge_spec list" where
  "UserUpdate_edge_ActivationCode = update_edge User_schema ''activation_code''
     (EdgeSpec O2O False ''activation_codes'' [''user_activation_code''] False ''id'')"

definition UserUpdate_edge_VerificationCode :: "('f, 'p) mutation \<Rightarrow> edge_spec list \<times> edge_spec list" where
  "UserUpdate_edge_VerificationCode = update_edge User_schema ''verification_code''
     (EdgeSpec O2O False ''verification_codes'' [''user_verification_code''] False ''id'')"

definition UserUpdate_edge_SecondFactorCode :: "('f, 'p) mutation \<Rightarrow> edge_spec list \<times> edge_spec list" where
  "UserUpdate_edge_SecondFactorCode = update_edge User_schema ''second_factor_code''
     (EdgeSpec O2O False ''second_factor_codes'' [''user_second_factor_code''] False ''id'')"

definition UserUpdate_edge_ResetCode :: "('f, 'p) mutation \<Rightarrow> edge_spec list \<times> edge_spec list" where
  "UserUpdate_edge_ResetCode = update_edge User_schema ''reset_code''
     (EdgeSpec O2O False ''reset_codes'' [''user_reset_code''] False ''id'')"

definition UserUpdate_edge_UserDevices :: "('f, 'p) mutation \<Rightarrow> edge_spec list \<times> edge_spec list" where
  "UserUpdate_edge_UserDevices = update_edge User_schema ''user_devices''
     (EdgeSpec O2M False ''user_devices'' [''user_user_devices''] False ''id'')"

definition UserUpdate_edge_UserActions :: "('f, 'p) mutation \<Rightarrow> edge_spec list \<times> edge_spec list" where
  "UserUpdate_edge_UserActions = update_edge User_schema ''user_actions''
     (EdgeSpec M2M False ''user_user_actions'' [''user_id'', ''user_action_id''] False ''id'')"

definition UserUpdate_edge_UserRoles :: "('f, 'p) mutation \<Rightarrow> edge_spec list \<times> edge_spec list" where
  "UserUpdate_edge_UserRoles = update_edge User_schema ''user_roles''
     (EdgeSpec M2M False ''user_user_roles'' [''user_id'', ''user_role_id''] False ''id'')"

definition UserUpdate_edge_BlacklistedTokens :: "('f, 'p) mutation \<Rightarrow> edge_spec list \<times> edge_spec list" where
  "UserUpdate_edge_BlacklistedTokens = update_edge User_schema ''blacklisted_tokens''
     (EdgeSpec O2M True ''blacklisted_tokens'' [''blacklisted_token_owner''] False ''id'')"

definition UserUpdate_updateSpec :: "('f, 'p) mutation \<Rightarrow> ('f, 'p) update_spec" where
  "UserUpdate_updateSpec = update_spec_of user_package User_schema UserUpdate_fields [
    UserUpdate_edge_UserDetails, UserUpdate_edge_UserSettings, UserUpdate_edge_ActivationCode,
    UserUpdate_edge_VerificationCode, UserUpdate_edge_SecondFactorCode, UserUpdate_edge_ResetCode,
    UserUpdate_edge_UserDevices, UserUpdate_edge_UserActions, UserUpdate_edge_UserRoles,
    UserUpdate_edge_BlacklistedTokens]"

definition UserUpdate_sqlSave ::
  "('f \<Rightarrow> bool) \<Rightarrow> (('f, 'p) update_spec \<Rightarrow> error + int) \<Rightarrow> ('f :: plus, 'p) mutation \<Rightarrow> error + int \<times> ('f, 'p) mutation" where
  "UserUpdate_sqlSave = update_save service_decls User_schema UserUpdate_checks UserUpdate_updateSpec"

section \<open>\<open>UserActionUpdate\<close>\<close>

definition UserActionUpdate_Type :: "(string, 'f :: plus, 'p) field_setters" where
  "UserActionUpdate_Type = setters_of False True False False UserActionMutation_Type"

definition UserActionUpdate_Action :: "(string, 'f :: plus, 'p) field_setters" where
  "UserActionUpdate_Action = setters_of False True False False UserActionMutation_Action"

definition UserActionUpdate_Details :: "(string, 'f :: plus, 'p) field_setters" where
  "UserActionUpdate_Details = setters_of False True False False UserActionMutation_Details"

definition UserActionUpdate_UpdatedAt :: "(int, 'f :: plus, 'p) field_setters" where
  "UserActionUpdate_UpdatedAt = setters_of False True False False UserActionMutation_UpdatedAt"

definition UserActionUpdate_Author :: "int list \<Rightarrow> ('f, 'p) mutation \<Rightarrow> ('f, 'p) mutation" where
  "UserActionUpdate_Author = me_AddIDs UserActionMutation_Author"

definition UserActionUpdate_ClearAuthor :: "(('f, 'p) mutation \<Rightarrow> ('f, 'p) mutation) \<times> (int list \<Rightarrow> ('f, 'p) mutation \<Rightarrow> ('f, 'p) mutation)" where
  "UserActionUpdate_ClearAuthor = (me_Clear UserActionMutation_Author, me_RemoveIDs UserActionMutation_Author)"

definition UserActionUpdate_AuthorDevice :: "int list \<Rightarrow> ('f, 'p) mutation \<Rightarrow> ('f, 'p) mutation" where
  "UserActionUpdate_AuthorDevice = me_AddIDs UserActionMutation_AuthorDevice"

definition UserActionUpdate_ClearAuthorDevice :: "(('f, 'p) mutation \<Rightarrow> ('f, 'p) mutation) \<times> (int list \<Rightarrow> ('f, 'p) mutation \<Rightarrow> ('f, 'p) mutation)" where
  "UserActionUpdate_ClearAuthorDevice = (me_Clear UserActionMutation_AuthorDevice, me_RemoveIDs UserActionMutation_AuthorDevice)"

definition UserActionUpdate_fields :: "spec_rule list" where
  "UserActionUpdate_fields = [
    SetF ''type'' TypeString, SetF ''action'' TypeString, SetF ''details'' TypeString, SetF ''updated_at'' TypeTime]"

definition UserActionUpdate_edge_Author :: "('f, 'p) mutation \<Rightarrow> edge_spec list \<times> edge_spec list" where
  "UserActionUpdate_edge_Author = update_edge UserAction_schema ''author''
     (EdgeSpec M2M True ''user_user_actions'' [''user_id'', ''user_action_id''] False ''id'')"

definition UserActionUpdate_edge_AuthorDevice :: "('f, 'p) mutation \<Rightarrow> edge_spec list \<times> edge_spec list" where
  "UserActionUpdate_edge_AuthorDevice = update_edge UserAction_schema ''author_device''
     (EdgeSpec M2M True ''user_device_user_actions'' [''user_device_id'', ''user_action_id''] False ''id'')"

definition UserActionUpdate_updateSpec :: "('f, 'p) mutation \<Rightarrow> ('f, 'p) update_spec" where
  "UserActionUpdate_updateSpec = update_spec_of useraction_package UserAction_schema UserActionUpdate_fields [
    UserActionUpdate_edge_Author, UserActionUpdate_edge_AuthorDevice]"

definition UserActionUpdate_sqlSave ::
  "('f \<Rightarrow> bool) \<Rightarrow> (('f, 'p) update_spec \<Rightarrow> error + int) \<Rightarrow> ('f :: plus, 'p) mutation \<Rightarrow> error + int \<times> ('f, 'p) mutation" where
  "UserActionUpdate_sqlSave = update_save service_decls UserAction_schema [] UserActionUpdate_updateSpec"

section \<open>\<open>UserDetailsUpdate\<close>\<close>

definition UserDetailsUpdate_Name :: "(string, 'f :: plus, 'p) field_setters" where
  "UserDetailsUpdate_Name = setters_of False True False False UserDetailsMutation_Name"

definition UserDetailsUpdate_FirstName :: "(string, 'f :: plus, 'p) field_setters" where
  "UserDetailsUpdate_FirstName = setters_of False True False True UserDetailsMutation_FirstName"

definition UserDetailsUpdate_LastName :: "(string, 'f :: plus, 'p) field_setters" where
  "UserDetailsUpdate_LastName = setters_of False True False True UserDetailsMutation_LastName"

definition UserDetailsUpdate_UpdatedAt :: "(int, 'f :: plus, 'p) field_setters" where
  "UserDetailsUpdate_UpdatedAt = setters_of False True False False UserDetailsMutation_UpdatedAt"

definition UserDetailsUpdate_Owner :: "('f, 'p) unique_edge_setters" where
  "UserDetailsUpdate_Owner = unique_setters_of False UserDetailsMutation_Owner"

definition UserDetailsUpdate_ClearOwner :: "('f, 'p) mutation \<Rightarrow> ('f, 'p) mutation" where
  "UserDetailsUpdate_ClearOwner = ue_Clear UserDetailsMutation_Owner"

definition UserDetailsUpdate_Locations :: "int list \<Rightarrow> ('f, 'p) mutation \<Rightarrow> ('f, 'p) mutation" where
  "UserDetailsUpdate_Locations = me_AddIDs UserDetailsMutation_Locations"

definition UserDetailsUpdate_ClearLocations :: "(('f, 'p) mutation \<Rightarrow> ('f, 'p) mutation) \<times> (int list \<Rightarrow> ('f, 'p) mutation \<Rightarrow> ('f, 'p) mutation)" where
  "UserDetailsUpdate_ClearLocations = (me_Clear UserDetailsMutation_Locations, me_RemoveIDs UserDetailsMutation_Locations)"

definition UserDetailsUpdate_EntrepreneurDetails :: "('f, 'p) unique_edge_setters" where
  "UserDetailsUpdate_EntrepreneurDetails = unique_setters_of True UserDetailsMutation_EntrepreneurDetails"

definition UserDetailsUpdate_ClearEntrepreneurDetails :: "('f, 'p) mutation \<Rightarrow> ('f, 'p) mutation" where
  "UserDetailsUpdate_ClearEntrepreneurDetails = ue_Clear UserDetailsMutation_EntrepreneurDetails"

definition UserDetailsUpdate_checks :: "check_rule list" where
  "UserDetailsUpdate_checks = [
    Validator ''name'' ''name'', ClearingEdge ''owner'']"

definition UserDetailsUpdate_fields :: "spec_rule list" where
  "UserDetailsUpdate_fields = [
    SetF ''name'' TypeString, SetF ''first_name'' TypeString, ClearF ''first_name'' TypeString,
    SetF ''last_name'' TypeString, ClearF ''last_name'' TypeString, SetF ''updated_at'' TypeTime]"

definition UserDetailsUpdate_edge_Owner :: "('f, 'p) mutation \<Rightarrow> edge_spec list \<times> edge_spec list" where
  "UserDetailsUpdate_edge_Owner = update_edge UserDetails_schema ''owner''
     (EdgeSpec O2O True ''user_details'' [''user_user_details''] False ''id'')"

definition UserDetailsUpdate_edge_Locations :: "('f, 'p) mutation \<Rightarrow> edge_spec list \<times> edge_spec list" where
  "UserDetailsUpdate_edge_Locations = update_edge UserDetails_schema ''locations''
     (EdgeSpec O2M False ''locations'' [''user_details_locations''] False ''id'')"

definition UserDetailsUpdate_edge_EntrepreneurDetails :: "('f, 'p) mutation \<Rightarrow> edge_spec list \<times> edge_spec list" where
  "UserDetailsUpdate_edge_EntrepreneurDetails = update_edge UserDetails_schema ''entrepreneur_details''
     (EdgeSpec O2O False ''entrepreneur_details'' [''user_details_entrepreneur_details''] False ''id'')"

definition UserDetailsUpdate_updateSpec :: "('f, 'p) mutation \<Rightarrow> ('f, 'p) update_spec" where
  "UserDetailsUpdate_updateSpec = update_spec_of userdetails_package UserDetails_schema UserDetailsUpdate_fields [
    UserDetailsUpdate_edge_Owner, UserDetailsUpdate_edge_Locations, UserDetailsUpdate_edge_EntrepreneurDetails]"

definition UserDetailsUpdate_sqlSave ::
  "('f \<Rightarrow> bool) \<Rightarrow> (('f, 'p) update_spec \<Rightarrow> error + int) \<Rightarrow> ('f :: plus, 'p) mutation \<Rightarrow> error + int \<times> ('f, 'p) mutation" where
  "UserDetailsUpdate_sqlSave = update_save service_decls UserDetails_schema UserDetailsUpdate_checks UserDetailsUpdate_updateSpec"

section \<open>\<open>UserDeviceUpdate\<close>\<close>

definition UserDeviceUpdate_Name :: "(string, 'f :: plus, 'p) field_setters" where
  "UserDeviceUpdate_Name = setters_of False True False True UserDeviceMutation_Name"

definition UserDeviceUpdate_Type :: "(string, 'f :: plus, 'p) field_setters" where
  "UserDeviceUpdate_Type = setters_of False True False True UserDeviceMutation_Type"

definition UserDeviceUpdate_Token :: "(string, 'f :: plus, 'p) field_setters" where
  "UserDeviceUpdate_Token = setters_of False True False False UserDeviceMutation_Token"

definition UserDeviceUpdate_IPAddress :: "(string, 'f :: plus, 'p) field_setters" where
  "UserDeviceUpdate_IPAddress = setters_of False True False True UserDeviceMutation_IPAddress"

definition UserDeviceUpdate_UserAgent :: "(string, 'f :: plus, 'p) field_setters" where
  "UserDeviceUpdate_UserAgent = setters_of False True False True UserDeviceMutation_UserAgent"

definition UserDeviceUpdate_OsName :: "(string, 'f :: plus, 'p) field_setters" where
  "UserDeviceUpdate_OsName = setters_of False True False True UserDeviceMutation_OsName"

definition UserDeviceUpdate_OsVersion :: "(string, 'f :: plus, 'p) field_setters" where
  "UserDeviceUpdate_OsVersion = setters_of False True False True UserDeviceMutation_OsVersion"

definition UserDeviceUpdate_BrowserName :: "(string, 'f :: plus, 'p) field_setters" where
  "UserDeviceUpdate_BrowserName = setters_of False True False True UserDeviceMutation_BrowserName"

definition UserDeviceUpdate_BrowserVersion :: "(string, 'f :: plus, 'p) field_setters" where
  "UserDeviceUpdate_BrowserVersion = setters_of False True False True UserDeviceMutation_BrowserVersion"

definition UserDeviceUpdate_LastSeenAt :: "(int, 'f :: plus, 'p) field_setters" where
  "UserDeviceUpdate_LastSeenAt = setters_of False False False False UserDeviceMutation_LastSeenAt"

definition UserDeviceUpdate_UpdatedAt :: "(int, 'f :: plus, 'p) field_setters" where
  "UserDeviceUpdate_UpdatedAt = setters_of False True False False UserDeviceMutation_UpdatedAt"

definition UserDeviceUpdate_Owner :: "('f, 'p) unique_edge_setters" where
  "UserDeviceUpdate_Owner = unique_setters_of False UserDeviceMutation_Owner"

definition UserDeviceUpdate_ClearOwner :: "('f, 'p) mutation \<Rightarrow> ('f, 'p) mutation" where
  "UserDeviceUpdate_ClearOwner = ue_Clear UserDeviceMutation_Owner"

definition UserDeviceUpdate_UserSettings2fa :: "('f, 'p) unique_edge_setters" where
  "UserDeviceUpdate_UserSettings2fa = unique_setters_of True UserDeviceMutation_UserSettings2fa"

definition UserDeviceUpdate_ClearUserSettings2fa :: "('f, 'p) mutation \<Rightarrow> ('f, 'p) mutation" where
  "UserDeviceUpdate_ClearUserSettings2fa = ue_Clear UserDeviceMutation_UserSettings2fa"

definition UserDeviceUpdate_SecondFactorCodes :: "('f, 'p) unique_edge_setters" where
  "UserDeviceUpdate_SecondFactorCodes = unique_setters_of True UserDeviceMutation_SecondFactorCodes"

definition UserDeviceUpdate_ClearSecondFactorCodes :: "('f, 'p) mutation \<Rightarrow> ('f, 'p) mutation" where
  "UserDeviceUpdate_ClearSecondFactorCodes = ue_Clear UserDeviceMutation_SecondFactorCodes"

definition UserDeviceUpdate_UserActions :: "int list \<Rightarrow> ('f, 'p) mutation \<Rightarrow> ('f, 'p) mutation" where
  "UserDeviceUpdate_UserActions = me_AddIDs UserDeviceMutation_UserActions"

definition UserDeviceUpdate_ClearUserActions :: "(('f, 'p) mutation \<Rightarrow> ('f, 'p) mutation) \<times> (int list \<Rightarrow> ('f, 'p) mutation \<Rightarrow> ('f, 'p) mutation)" where
  "UserDeviceUpdate_ClearUserActions = (me_Clear UserDeviceMutation_UserActions, me_RemoveIDs UserDeviceMutation_UserActions)"

definition UserDeviceUpdate_checks :: "check_rule list" where
  "UserDeviceUpdate_checks = [
    Validator ''token'' ''token'', ClearingEdge ''owner'']"

definition UserDeviceUpdate_defaults :: "(string \<times> default_value) list" where
  "UserDeviceUpdate_defaults = [
    (''last_seen_at'', DefaultNow)]"

definition UserDeviceUpdate_fields :: "spec_rule list" where
  "UserDeviceUpdate_fields = [
    SetF ''name'' TypeString, ClearF ''name'' TypeString, SetF ''type'' TypeString, ClearF ''type'' TypeString,
    SetF ''token'' TypeString, SetF ''ip_address'' TypeString, ClearF ''ip_address'' TypeString,
    SetF ''user_agent'' TypeString, ClearF ''user_agent'' TypeString, SetF ''os_name'' TypeString,
    ClearF ''os_name'' TypeString, SetF ''os_version'' TypeString, ClearF ''os_version'' TypeString,
    SetF ''browser_name'' TypeString, ClearF ''browser_name'' TypeString, SetF ''browser_version'' TypeString,
    ClearF ''browser_version'' TypeString, SetF ''last_seen_at'' TypeTime, SetF ''updated_at'' TypeTime]"

definition UserDeviceUpdate_edge_Owner :: "('f, 'p) mutation \<Rightarrow> edge_spec list \<times> edge_spec list" where
  "UserDeviceUpdate_edge_Owner = update_edge UserDevice_schema ''owner''
     (EdgeSpec M2O True ''user_devices'' [''user_user_devices''] False ''id'')"

definition UserDeviceUpdate_edge_UserSettings2fa :: "('f, 'p) mutation \<Rightarrow> edge_spec list \<times> edge_spec list" where
  "UserDeviceUpdate_edge_UserSettings2fa = update_edge UserDevice_schema ''user_settings_2fa''
     (EdgeSpec O2O True ''user_devices'' [''user_settings_second_factor_target''] False ''id'')"

definition UserDeviceUpdate_edge_SecondFactorCodes :: "('f, 'p) mutation \<Rightarrow> edge_spec list \<times> edge_spec list" where
  "UserDeviceUpdate_edge_SecondFactorCodes = update_edge UserDevice_schema ''second_factor_codes''
     (EdgeSpec O2O True ''user_devices'' [''second_factor_code_target_user_device''] False ''id'')"

definition UserDeviceUpdate_edge_UserActions :: "('f, 'p) mutation \<Rightarrow> edge_spec list \<times> edge_spec list" where
  "UserDeviceUpdate_edge_UserActions = update_edge UserDevice_schema ''user_actions''
     (EdgeSpec M2M False ''user_device_user_actions'' [''user_device_id'', ''user_action_id''] False ''id'')"

definition UserDeviceUpdate_updateSpec :: "('f, 'p) mutation \<Rightarrow> ('f, 'p) update_spec" where
  "UserDeviceUpdate_updateSpec = update_spec_of userdevice_package UserDevice_schema UserDeviceUpdate_fields [
    UserDeviceUpdate_edge_Owner, UserDeviceUpdate_edge_UserSettings2fa, UserDeviceUpdate_edge_SecondFactorCodes,
    UserDeviceUpdate_edge_UserActions]"

definition UserDeviceUpdate_sqlSave ::
  "('f \<Rightarrow> bool) \<Rightarrow> (('f, 'p) update_spec \<Rightarrow> error + int) \<Rightarrow> ('f :: plus, 'p) mutation \<Rightarrow> error + int \<times> ('f, 'p) mutation" where
  "UserDeviceUpdate_sqlSave = update_save service_decls UserDevice_schema UserDeviceUpdate_checks UserDeviceUpdate_updateSpec"

section \<open>\<open>UserRoleUpdate\<close>\<close>

definition UserRoleUpdate_Name :: "(string, 'f :: plus, 'p) field_setters" where
  "UserRoleUpdate_Name = setters_of False True False False UserRoleMutation_Name"

definition UserRoleUpdate_Description :: "(string, 'f :: plus, 'p) field_setters" where
  "UserRoleUpdate_Description = setters_of False True False False UserRoleMutation_Description"

definition UserRoleUpdate_UpdatedAt :: "(int, 'f :: plus, 'p) field_setters" where
  "UserRoleUpdate_UpdatedAt = setters_of False True False False UserRoleMutation_UpdatedAt"

definition UserRoleUpdate_Owner :: "int list \<Rightarrow> ('f, 'p) mutation \<Rightarrow> ('f, 'p) mutation" where
  "UserRoleUpdate_Owner = me_AddIDs UserRoleMutation_Owner"

definition UserRoleUpdate_ClearOwner :: "(('f, 'p) mutation \<Rightarrow> ('f, 'p) mutation) \<times> (int list \<Rightarrow> ('f, 'p) mutation \<Rightarrow> ('f, 'p) mutation)" where
  "UserRoleUpdate_ClearOwner = (me_Clear UserRoleMutation_Owner, me_RemoveIDs UserRoleMutation_Owner)"

definition UserRoleUpdate_Permissions :: "int list \<Rightarrow> ('f, 'p) mutation \<Rightarrow> ('f, 'p) mutation" where
  "UserRoleUpdate_Permissions = me_AddIDs UserRoleMutation_Permissions"

definition UserRoleUpdate_ClearPermissions :: "(('f, 'p) mutation \<Rightarrow> ('f, 'p) mutation) \<times> (int list \<Rightarrow> ('f, 'p) mutation \<Rightarrow> ('f, 'p) mutation)" where
  "UserRoleUpdate_ClearPermissions = (me_Clear UserRoleMutation_Permissions, me_RemoveIDs UserRoleMutation_Permissions)"

definition UserRoleUpdate_checks :: "check_rule list" where
  "UserRoleUpdate_checks = [
    Validator ''name'' ''name'']"

definition UserRoleUpdate_fields :: "spec_rule list" where
  "UserRoleUpdate_fields = [
    SetF ''name'' TypeString, SetF ''description'' TypeString, SetF ''updated_at'' TypeTime]"

definition UserRoleUpdate_edge_Owner :: "('f, 'p) mutation \<Rightarrow> edge_spec list \<times> edge_spec list" where
  "UserRoleUpdate_edge_Owner = update_edge UserRole_schema ''owner''
     (EdgeSpec M2M True ''user_user_roles'' [''user_id'', ''user_role_id''] False ''id'')"

definition UserRoleUpdate_edge_Permissions :: "('f, 'p) mutation \<Rightarrow> edge_spec list \<times> edge_spec list" where
  "UserRoleUpdate_edge_Permissions = update_edge UserRole_schema ''permissions''
     (EdgeSpec M2M True ''role_permission_user_role'' [''role_permission_id'', ''user_role_id''] False ''id'')"

definition UserRoleUpdate_updateSpec :: "('f, 'p) mutation \<Rightarrow> ('f, 'p) update_spec" where
  "UserRoleUpdate_updateSpec = update_spec_of userrole_package UserRole_schema UserRoleUpdate_fields [
    UserRoleUpdate_edge_Owner, UserRoleUpdate_edge_Permissions]"

definition UserRoleUpdate_sqlSave ::
  "('f \<Rightarrow> bool) \<Rightarrow> (('f, 'p) update_spec \<Rightarrow> error + int) \<Rightarrow> ('f :: plus, 'p) mutation \<Rightarrow> error + int \<times> ('f, 'p) mutation" where
  "UserRoleUpdate_sqlSave = update_save service_decls UserRole_schema UserRoleUpdate_checks UserRoleUpdate_updateSpec"

section \<open>\<open>UserSettingsUpdate\<close>\<close>

definition UserSettingsUpdate_UUID :: "(string, 'f :: plus, 'p) field_setters" where
  "UserSettingsUpdate_UUID = setters_of False True False False UserSettingsMutation_UUID"

definition UserSettingsUpdate_TwoFactor :: "(bool, 'f :: plus, 'p) field_setters" where
  "UserSettingsUpdate_TwoFactor = setters_of False True False False UserSettingsMutation_TwoFactor"

definition UserSettingsUpdate_NightMode :: "(bool, 'f :: plus, 'p) field_setters" where
  "UserSettingsUpdate_NightMode = setters_of False True False False UserSettingsMutation_NightMode"

definition UserSettingsUpdate_UpdatedAt :: "(int, 'f :: plus, 'p) field_setters" where
  "UserSettingsUpdate_UpdatedAt = setters_of False True False False UserSettingsMutation_UpdatedAt"

definition UserSettingsUpdate_Owner :: "('f, 'p) unique_edge_setters" where
  "UserSettingsUpdate_Owner = unique_setters_of False UserSettingsMutation_Owner"

definition UserSettingsUpdate_ClearOwner :: "('f, 'p) mutation \<Rightarrow> ('f, 'p) mutation" where
  "UserSettingsUpdate_ClearOwner = ue_Clear UserSettingsMutation_Owner"

definition UserSettingsUpdate_SecondFactorTarget :: "('f, 'p) unique_edge_setters" where
  "UserSettingsUpdate_SecondFactorTarget = unique_setters_of True UserSettingsMutation_SecondFactorTarget"

definition UserSettingsUpdate_ClearSecondFactorTarget :: "('f, 'p) mutation \<Rightarrow> ('f, 'p) mutation" where
  "UserSettingsUpdate_ClearSecondFactorTarget = ue_Clear UserSettingsMutation_SecondFactorTarget"

definition UserSettingsUpdate_NotificationTargetDevices :: "int list \<Rightarrow> ('f, 'p) mutation \<Rightarrow> ('f, 'p) mutation" where
  "UserSettingsUpdate_NotificationTargetDevices = me_AddIDs UserSettingsMutation_NotificationTargetDevices"

definition UserSettingsUpdate_ClearNotificationTargetDevices :: "(('f, 'p) mutation \<Rightarrow> ('f, 'p) mutation) \<times> (int list \<Rightarrow> ('f, 'p) mutation \<Rightarrow> ('f, 'p) mutation)" where
  "UserSettingsUpdate_ClearNotificationTargetDevices = (me_Clear UserSettingsMutation_NotificationTargetDevices, me_RemoveIDs UserSettingsMutation_NotificationTargetDevices)"

definition UserSettingsUpdate_checks :: "check_rule list" where
  "UserSettingsUpdate_checks = [
    Validator ''uuid'' ''UUID'', ClearingEdge ''owner'']"

definition UserSettingsUpdate_fields :: "spec_rule list" where
  "UserSettingsUpdate_fields = [
    SetF ''uuid'' TypeString, SetF ''two_factor'' TypeBool, SetF ''night_mode'' TypeBool, SetF ''updated_at'' TypeTime]"

definition UserSettingsUpdate_edge_Owner :: "('f, 'p) mutation \<Rightarrow> edge_spec list \<times> edge_spec list" where
  "UserSettingsUpdate_edge_Owner = update_edge UserSettings_schema ''owner''
     (EdgeSpec O2O True ''user_settings'' [''user_user_settings''] False ''id'')"

definition UserSettingsUpdate_edge_SecondFactorTarget :: "('f, 'p) mutation \<Rightarrow> edge_spec list \<times> edge_spec list" where
  "UserSettingsUpdate_edge_SecondFactorTarget = update_edge UserSettings_schema ''second_factor_target''
     (EdgeSpec O2O False ''user_devices'' [''user_settings_second_factor_target''] False ''id'')"

definition UserSettingsUpdate_edge_NotificationTargetDevices :: "('f, 'p) mutation \<Rightarrow> edge_spec list \<times> edge_spec list" where
  "UserSettingsUpdate_edge_NotificationTargetDevices = update_edge UserSettings_schema ''notification_target_devices''
     (EdgeSpec O2M False ''user_devices'' [''user_settings_notification_target_devices''] False ''id'')"

definition UserSettingsUpdate_updateSpec :: "('f, 'p) mutation \<Rightarrow> ('f, 'p) update_spec" where
  "UserSettingsUpdate_updateSpec = update_spec_of usersettings_package UserSettings_schema UserSettingsUpdate_fields [
    UserSettingsUpdate_edge_Owner, UserSettingsUpdate_edge_SecondFactorTarget,
    UserSettingsUpdate_edge_NotificationTargetDevices]"

definition UserSettingsUpdate_sqlSave ::
  "('f \<Rightarrow> bool) \<Rightarrow> (('f, 'p) update_spec \<Rightarrow> error + int) \<Rightarrow> ('f :: plus, 'p) mutation \<Rightarrow> error + int \<times> ('f, 'p) mutation" where
  "UserSettingsUpdate_sqlSave = update_save service_decls UserSettings_schema UserSettingsUpdate_checks UserSettingsUpdate_updateSpec"

section \<open>\<open>VerificationCodeUpdate\<close>\<close>

definition VerificationCodeUpdate_Code :: "(string, 'f :: plus, 'p) field_setters" where
  "VerificationCodeUpdate_Code = setters_of False True False False VerificationCodeMutation_Code"

definition VerificationCodeUpdate_CreatedAt :: "(int, 'f :: plus, 'p) field_setters" where
  "VerificationCodeUpdate_CreatedAt = setters_of False True False False VerificationCodeMutation_CreatedAt"

definition VerificationCodeUpdate_UpdatedAt :: "(int, 'f :: plus, 'p) field_setters" where
  "VerificationCodeUpdate_UpdatedAt = setters_of False True False False VerificationCodeMutation_UpdatedAt"

definition VerificationCodeUpdate_ExpiresAt :: "(int, 'f :: plus, 'p) field_setters" where
  "VerificationCodeUpdate_ExpiresAt = setters_of False True False False VerificationCodeMutation_ExpiresAt"

definition VerificationCodeUpdate_Owner :: "('f, 'p) unique_edge_setters" where
  "VerificationCodeUpdate_Owner = unique_setters_of False VerificationCodeMutation_Owner"

definition VerificationCodeUpdate_ClearOwner :: "('f, 'p) mutation \<Rightarrow> ('f, 'p) mutation" where
  "VerificationCodeUpdate_ClearOwner = ue_Clear VerificationCodeMutation_Owner"

definition VerificationCodeUpdate_checks :: "check_rule list" where
  "VerificationCodeUpdate_checks = [
    Validator ''code'' ''code'', ClearingEdge ''owner'']"

definition VerificationCodeUpdate_fields :: "spec_rule list" where
  "VerificationCodeUpdate_fields = [
    SetF ''code'' TypeString, SetF ''created_at'' TypeTime, SetF ''updated_at'' TypeTime, SetF ''expires_at'' TypeTime]"

definition VerificationCodeUpdate_edge_Owner :: "('f, 'p) mutation \<Rightarrow> edge_spec list \<times> edge_spec list" where
  "VerificationCodeUpdate_edge_Owner = update_edge VerificationCode_schema ''owner''
     (EdgeSpec O2O True ''verification_codes'' [''user_verification_code''] False ''id'')"

definition VerificationCodeUpdate_updateSpec :: "('f, 'p) mutation \<Rightarrow> ('f, 'p) update_spec" where
  "VerificationCodeUpdate_updateSpec = update_spec_of verificationcode_package VerificationCode_schema VerificationCodeUpdate_fields [
    VerificationCodeUpdate_edge_Owner]"

definition VerificationCodeUpdate_sqlSave ::
  "('f \<Rightarrow> bool) \<Rightarrow> (('f, 'p) update_spec \<Rightarrow> error + int) \<Rightarrow> ('f :: plus, 'p) mutation \<Rightarrow> error + int \<times> ('f, 'p) mutation" where
  "VerificationCodeUpdate_sqlSave = update_save service_decls VerificationCode_schema VerificationCodeUpdate_checks VerificationCodeUpdate_updateSpec"

end
