(* ===== verification/Ent_Update_One.thy ===== *)
theory Ent_Update_One imports Ent_Update begin

text \<open>
  The builders that update one entity (models/ent/<entity>_update.go), instances of theory
  Ent_Builders.
\<close>

section \<open>\<open>ActivationCodeUpdateOne\<close>\<close>

definition ActivationCodeUpdateOne_Code :: "(string, 'f :: plus, 'p) field_setters" where
  "ActivationCodeUpdateOne_Code = setters_of False True False False ActivationCodeMutation_Code"

definition ActivationCodeUpdateOne_Used :: "(bool, 'f :: plus, 'p) field_setters" where
  "ActivationCodeUpdateOne_Used = setters_of False True False False ActivationCodeMutation_Used"

definition ActivationCodeUpdateOne_UpdatedAt :: "(int, 'f :: plus, 'p) field_setters" where
  "ActivationCodeUpdateOne_UpdatedAt = setters_of False True False False ActivationCodeMutation_UpdatedAt"

definition ActivationCodeUpdateOne_ExpiresAt :: "(int, 'f :: plus, 'p) field_setters" where
  "ActivationCodeUpdateOne_ExpiresAt = setters_of False True False False ActivationCodeMutation_ExpiresAt"

definition ActivationCodeUpdateOne_Owner :: "('f, 'p) unique_edge_setters" where
  "ActivationCodeUpdateOne_Owner = unique_setters_of False ActivationCodeMutation_Owner"

definition ActivationCodeUpdateOne_ClearOwner :: "('f, 'p) mutation \<Rightarrow> ('f, 'p) mutation" where
  "ActivationCodeUpdateOne_ClearOwner = ue_Clear ActivationCodeMutation_Owner"

definition ActivationCodeUpdateOne_checks :: "check_rule list" where
  "ActivationCodeUpdateOne_checks = [
    Validator ''code'' ''code'', ClearingEdge ''owner'']"

definition ActivationCodeUpdateOne_fields :: "spec_rule list" where
  "ActivationCodeUpdateOne_fields = [
    SetF ''code'' TypeString, SetF ''used'' TypeBool, SetF ''updated_at'' TypeTime, SetF ''expires_at'' TypeTime]"

definition ActivationCodeUpdateOne_edge_Owner :: "('f, 'p) mutation \<Rightarrow> edge_spec list \<times> edge_spec list" where
  "ActivationCodeUpdateOne_edge_Owner = update_edge ActivationCode_schema ''owner''
     (EdgeSpec O2O True ''activation_codes'' [''user_activation_code''] False ''id'')"

definition ActivationCodeUpdateOne_updateSpec :: "('f, 'p) mutation \<Rightarrow> ('f, 'p) update_spec" where
  "ActivationCodeUpdateOne_updateSpec = update_spec_of activationcode_package ActivationCode_schema ActivationCodeUpdateOne_fields [
    ActivationCodeUpdateOne_edge_Owner]"

definition ActivationCodeUpdateOne_sqlSave ::
  "('f \<Rightarrow> bool) \<Rightarrow> string list \<Rightarrow> (('f, 'p) update_spec \<Rightarrow> error + 'n) \<Rightarrow> ('f :: plus, 'p) mutation \<Rightarrow>
     error + 'n \<times> ('f, 'p) mutation" where
  "ActivationCodeUpdateOne_sqlSave =
     update_one_save service_decls ActivationCode_schema ActivationCodeUpdateOne_checks activationcode_ValidColumn ActivationCodeUpdateOne_updateSpec"

section \<open>\<open>BlacklistedTokenUpdateOne\<close>\<close>

definition BlacklistedTokenUpdateOne_Token :: "(string, 'f :: plus, 'p) field_setters" where
  "BlacklistedTokenUpdateOne_Token = setters_of False True False False BlacklistedTokenMutation_Token"

definition BlacklistedTokenUpdateOne_UpdatedAt :: "(int, 'f :: plus, 'p) field_setters" where
  "BlacklistedTokenUpdateOne_UpdatedAt = setters_of False True False False BlacklistedTokenMutation_UpdatedAt"

definition BlacklistedTokenUpdateOne_ExpiresAt :: "(int, 'f :: plus, 'p) field_setters" where
  "BlacklistedTokenUpdateOne_ExpiresAt = setters_of False True False False BlacklistedTokenMutation_ExpiresAt"

definition BlacklistedTokenUpdateOne_Owner :: "('f, 'p) unique_edge_setters" where
  "BlacklistedTokenUpdateOne_Owner = unique_setters_of True BlacklistedTokenMutation_Owner"

definition BlacklistedTokenUpdateOne_ClearOwner :: "('f, 'p) mutation \<Rightarrow> ('f, 'p) mutation" where
  "BlacklistedTokenUpdateOne_ClearOwner = ue_Clear BlacklistedTokenMutation_Owner"

definition BlacklistedTokenUpdateOne_checks :: "check_rule list" where
  "BlacklistedTokenUpdateOne_checks = [
    Validator ''token'' ''token'']"

definition BlacklistedTokenUpdateOne_fields :: "spec_rule list" where
  "BlacklistedTokenUpdateOne_fields = [
    SetF ''token'' TypeString, SetF ''updated_at'' TypeTime, SetF ''expires_at'' TypeTime]"

definition BlacklistedTokenUpdateOne_edge_Owner :: "('f, 'p) mutation \<Rightarrow> edge_spec list \<times> edge_spec list" where
  "BlacklistedTokenUpdateOne_edge_Owner = update_edge BlacklistedToken_schema ''owner''
     (EdgeSpec M2O False ''blacklisted_tokens'' [''blacklisted_token_owner''] False ''id'')"

definition BlacklistedTokenUpdateOne_updateSpec :: "('f, 'p) mutation \<Rightarrow> ('f, 'p) update_spec" where
  "BlacklistedTokenUpdateOne_updateSpec = update_spec_of blacklistedtoken_package BlacklistedToken_schema BlacklistedTokenUpdateOne_fields [
    BlacklistedTokenUpdateOne_edge_Owner]"

definition BlacklistedTokenUpdateOne_sqlSave ::
  "('f \<Rightarrow> bool) \<Rightarrow> string list \<Rightarrow> (('f, 'p) update_spec \<Rightarrow> error + 'n) \<Rightarrow> ('f :: plus, 'p) mutation \<Rightarrow>
     error + 'n \<times> ('f, 'p) mutation" where
  "BlacklistedTokenUpdateOne_sqlSave =
     update_one_save service_decls BlacklistedToken_schema BlacklistedTokenUpdateOne_checks blacklistedtoken_ValidColumn BlacklistedTokenUpdateOne_updateSpec"

section \<open>\<open>EntrepreneurDetailsUpdateOne\<close>\<close>

definition EntrepreneurDetailsUpdateOne_BusinessName :: "(string, 'f :: plus, 'p) field_setters" where
  "EntrepreneurDetailsUpdateOne_BusinessName = setters_of False True False True EntrepreneurDetailsMutation_BusinessName"

definition EntrepreneurDetailsUpdateOne_Nip :: "(string, 'f :: plus, 'p) field_setters" where
  "EntrepreneurDetailsUpdateOne_Nip = setters_of False True False True EntrepreneurDetailsMutation_Nip"

definition EntrepreneurDetailsUpdateOne_Krs :: "(string, 'f :: plus, 'p) field_setters" where
  "EntrepreneurDetailsUpdateOne_Krs = setters_of False True False True EntrepreneurDetailsMutation_Krs"

definition EntrepreneurDetailsUpdateOne_Description :: "(string, 'f :: plus, 'p) field_setters" where
  "EntrepreneurDetailsUpdateOne_Description = setters_of False True False True EntrepreneurDetailsMutation_Description"

definition EntrepreneurDetailsUpdateOne_Offer :: "(string, 'f :: plus, 'p) field_setters" where
  "EntrepreneurDetailsUpdateOne_Offer = setters_of False True False True EntrepreneurDetailsMutation_Offer"

definition EntrepreneurDetailsUpdateOne_Income :: "('f, 'f :: {plus,zero}, 'p) field_setters" where
  "EntrepreneurDetailsUpdateOne_Income = setters_of True True True True EntrepreneurDetailsMutation_Income"

definition EntrepreneurDetailsUpdateOne_Costs :: "('f, 'f :: {plus,zero}, 'p) field_setters" where
  "EntrepreneurDetailsUpdateOne_Costs = setters_of True True True True EntrepreneurDetailsMutation_Costs"

definition EntrepreneurDetailsUpdateOne_FundingCapital :: "('f, 'f :: {plus,zero}, 'p) field_setters" where
  "EntrepreneurDetailsUpdateOne_FundingCapital = setters_of True True True True EntrepreneurDetailsMutation_FundingCapital"

definition EntrepreneurDetailsUpdateOne_Industry :: "(string, 'f :: plus, 'p) field_setters" where
  "EntrepreneurDetailsUpdateOne_Industry = setters_of False True False True EntrepreneurDetailsMutation_Industry"

definition EntrepreneurDetailsUpdateOne_ManagementCouncilMembers :: "(string list, 'f :: plus, 'p) field_setters" where
  "EntrepreneurDetailsUpdateOne_ManagementCouncilMembers = setters_of False False True True EntrepreneurDetailsMutation_ManagementCouncilMembers"

definition EntrepreneurDetailsUpdateOne_DecisionMakers :: "(string list, 'f :: plus, 'p) field_setters" where
  "EntrepreneurDetailsUpdateOne_DecisionMakers = setters_of False False True True EntrepreneurDetailsMutation_DecisionMakers"

definition EntrepreneurDetailsUpdateOne_BusinessPhoneNumber :: "(string, 'f :: plus, 'p) field_setters" where
  "EntrepreneurDetailsUpdateOne_BusinessPhoneNumber = setters_of False True False True EntrepreneurDetailsMutation_BusinessPhoneNumber"

definition EntrepreneurDetailsUpdateOne_BusinessMail :: "(string, 'f :: plus, 'p) field_setters" where
  "EntrepreneurDetailsUpdateOne_BusinessMail = setters_of False True False True EntrepreneurDetailsMutation_BusinessMail"

definition EntrepreneurDetailsUpdateOne_WebsiteAddress :: "(string, 'f :: plus, 'p) field_setters" where
  "EntrepreneurDetailsUpdateOne_WebsiteAddress = setters_of False True False True EntrepreneurDetailsMutation_WebsiteAddress"

definition EntrepreneurDetailsUpdateOne_UpdatedAt :: "(int, 'f :: plus, 'p) field_setters" where
  "EntrepreneurDetailsUpdateOne_UpdatedAt = setters_of False True False False EntrepreneurDetailsMutation_UpdatedAt"

definition EntrepreneurDetailsUpdateOne_UserDetails :: "('f, 'p) unique_edge_setters" where
  "EntrepreneurDetailsUpdateOne_UserDetails = unique_setters_of True EntrepreneurDetailsMutation_UserDetails"

definition EntrepreneurDetailsUpdateOne_ClearUserDetails :: "('f, 'p) mutation \<Rightarrow> ('f, 'p) mutation" where
  "EntrepreneurDetailsUpdateOne_ClearUserDetails = ue_Clear EntrepreneurDetailsMutation_UserDetails"

definition EntrepreneurDetailsUpdateOne_checks :: "check_rule list" where
  "EntrepreneurDetailsUpdateOne_checks = [
    Validator ''income'' ''income'', Validator ''costs'' ''costs'']"

definition EntrepreneurDetailsUpdateOne_fields :: "spec_rule list" where
  "EntrepreneurDetailsUpdateOne_fields = [
    SetF ''business_name'' TypeString, ClearF ''business_name'' TypeString, SetF ''nip'' TypeString,
    ClearF ''nip'' TypeString, SetF ''krs'' TypeString, ClearF ''krs'' TypeString, SetF ''description'' TypeString,
    ClearF ''description'' TypeString, SetF ''offer'' TypeString, ClearF ''offer'' TypeString,
    SetF ''income'' TypeFloat64, AddF ''income'' TypeFloat64, ClearF ''income'' TypeFloat64,
    SetF ''costs'' TypeFloat64, AddF ''costs'' TypeFloat64, ClearF ''costs'' TypeFloat64,
    SetF ''funding_capital'' TypeFloat64, AddF ''funding_capital'' TypeFloat64,
    ClearF ''funding_capital'' TypeFloat64, SetF ''industry'' TypeString, ClearF ''industry'' TypeString,
    SetF ''management_council_members'' TypeJSON, AppendF ''management_council_members'',
    ClearF ''management_council_members'' TypeJSON, SetF ''decision_makers'' TypeJSON, AppendF ''decision_makers'',
    ClearF ''decision_makers'' TypeJSON, SetF ''business_phone_number'' TypeString,
    ClearF ''business_phone_number'' TypeString, SetF ''business_mail'' TypeString,
    ClearF ''business_mail'' TypeString, SetF ''website_address'' TypeString, ClearF ''website_address'' TypeString,
    SetF ''updated_at'' TypeTime]"

definition EntrepreneurDetailsUpdateOne_edge_UserDetails :: "('f, 'p) mutation \<Rightarrow> edge_spec list \<times> edge_spec list" where
  "EntrepreneurDetailsUpdateOne_edge_UserDetails = update_edge EntrepreneurDetails_schema ''user_details''
     (EdgeSpec O2O True ''entrepreneur_details'' [''user_details_entrepreneur_details''] False ''id'')"

definition EntrepreneurDetailsUpdateOne_updateSpec :: "('f, 'p) mutation \<Rightarrow> ('f, 'p) update_spec" where
  "EntrepreneurDetailsUpdateOne_updateSpec = update_spec_of entrepreneurdetails_package EntrepreneurDetails_schema EntrepreneurDetailsUpdateOne_fields [
    EntrepreneurDetailsUpdateOne_edge_UserDetails]"

definition EntrepreneurDetailsUpdateOne_sqlSave ::
  "('f \<Rightarrow> bool) \<Rightarrow> string list \<Rightarrow> (('f, 'p) update_spec \<Rightarrow> error + 'n) \<Rightarrow> ('f :: plus, 'p) mutation \<Rightarrow>
     error + 'n \<times> ('f, 'p) mutation" where
  "EntrepreneurDetailsUpdateOne_sqlSave =
     update_one_save service_decls EntrepreneurDetails_schema EntrepreneurDetailsUpdateOne_checks entrepreneurdetails_ValidColumn EntrepreneurDetailsUpdateOne_updateSpec"

section \<open>\<open>LocationUpdateOne\<close>\<close>

definition LocationUpdateOne_Country :: "(string, 'f :: plus, 'p) field_setters" where
  "LocationUpdateOne_Country = setters_of False True False False LocationMutation_Country"

definition LocationUpdateOne_Province :: "(string, 'f :: plus, 'p) field_setters" where
  "LocationUpdateOne_Province = setters_of False True False False LocationMutation_Province"

definition LocationUpdateOne_City :: "(string, 'f :: plus, 'p) field_setters" where
  "LocationUpdateOne_City = setters_of False True False False LocationMutation_City"

definition LocationUpdateOne_PostalCode :: "(string, 'f :: plus, 'p) field_setters" where
  "LocationUpdateOne_PostalCode = setters_of False True False False LocationMutation_PostalCode"

definition LocationUpdateOne_Street :: "(string, 'f :: plus, 'p) field_setters" where
  "LocationUpdateOne_Street = setters_of False True False True LocationMutation_Street"

definition LocationUpdateOne_BuildingNumber :: "(int, 'f :: plus, 'p) field_setters" where
  "LocationUpdateOne_BuildingNumber = setters_of True True True False LocationMutation_BuildingNumber"

definition LocationUpdateOne_ApartmentNumber :: "(int, 'f :: plus, 'p) field_setters" where
  "LocationUpdateOne_ApartmentNumber = setters_of True True True False LocationMutation_ApartmentNumber"

definition LocationUpdateOne_UpdatedAt :: "(int, 'f :: plus, 'p) field_setters" where
  "LocationUpdateOne_UpdatedAt = setters_of False True False False LocationMutation_UpdatedAt"

definition LocationUpdateOne_UserDetails :: "('f, 'p) unique_edge_setters" where
  "LocationUpdateOne_UserDetails = unique_setters_of False LocationMutation_UserDetails"

definition LocationUpdateOne_ClearUserDetails :: "('f, 'p) mutation \<Rightarrow> ('f, 'p) mutation" where
  "LocationUpdateOne_ClearUserDetails = ue_Clear LocationMutation_UserDetails"

definition LocationUpdateOne_checks :: "check_rule list" where
  "LocationUpdateOne_checks = [
    Validator ''country'' ''country'', Validator ''province'' ''province'', Validator ''city'' ''city'',
    Validator ''postal_code'' ''postal_code'', Validator ''building_number'' ''building_number'',
    Validator ''apartment_number'' ''apartment_number'', ClearingEdge ''user_details'']"

definition LocationUpdateOne_fields :: "spec_rule list" where
  "LocationUpdateOne_fields = [
    SetF ''country'' TypeString, SetF ''province'' TypeString, SetF ''city'' TypeString,
    SetF ''postal_code'' TypeString, SetF ''street'' TypeString, ClearF ''street'' TypeString,
    SetF ''building_number'' TypeInt, AddF ''building_number'' TypeInt, SetF ''apartment_number'' TypeInt,
    AddF ''apartment_number'' TypeInt, SetF ''updated_at'' TypeTime]"

definition LocationUpdateOne_edge_UserDetails :: "('f, 'p) mutation \<Rightarrow> edge_spec list \<times> edge_spec list" where
  "LocationUpdateOne_edge_UserDetails = update_edge Location_schema ''user_details''
     (EdgeSpec M2O True ''locations'' [''user_details_locations''] False ''id'')"

definition LocationUpdateOne_updateSpec :: "('f, 'p) mutation \<Rightarrow> ('f, 'p) update_spec" where
  "LocationUpdateOne_updateSpec = update_spec_of location_package Location_schema LocationUpdateOne_fields [
    LocationUpdateOne_edge_UserDetails]"

definition LocationUpdateOne_sqlSave ::
  "('f \<Rightarrow> bool) \<Rightarrow> string list \<Rightarrow> (('f, 'p) update_spec \<Rightarrow> error + 'n) \<Rightarrow> ('f :: plus, 'p) mutation \<Rightarrow>
     error + 'n \<times> ('f, 'p) mutation" where
  "LocationUpdateOne_sqlSave =
     update_one_save service_decls Location_schema LocationUpdateOne_checks location_ValidColumn LocationUpdateOne_updateSpec"

section \<open>\<open>ResetCodeUpdateOne\<close>\<close>

definition ResetCodeUpdateOne_Code :: "(string, 'f :: plus, 'p) field_setters" where
  "ResetCodeUpdateOne_Code = setters_of False True False False ResetCodeMutation_Code"

definition ResetCodeUpdateOne_UpdatedAt :: "(int, 'f :: plus, 'p) field_setters" where
  "ResetCodeUpdateOne_UpdatedAt = setters_of False True False False ResetCodeMutation_UpdatedAt"

definition ResetCodeUpdateOne_ExpiresAt :: "(int, 'f :: plus, 'p) field_setters" where
  "ResetCodeUpdateOne_ExpiresAt = setters_of False True False False ResetCodeMutation_ExpiresAt"

definition ResetCodeUpdateOne_Owner :: "('f, 'p) unique_edge_setters" where
  "ResetCodeUpdateOne_Owner = unique_setters_of False ResetCodeMutation_Owner"

definition ResetCodeUpdateOne_ClearOwner :: "('f, 'p) mutation \<Rightarrow> ('f, 'p) mutation" where
  "ResetCodeUpdateOne_ClearOwner = ue_Clear ResetCodeMutation_Owner"

definition ResetCodeUpdateOne_checks :: "check_rule list" where
  "ResetCodeUpdateOne_checks = [
    Validator ''code'' ''code'', ClearingEdge ''owner'']"

definition ResetCodeUpdateOne_fields :: "spec_rule list" where
  "ResetCodeUpdateOne_fields = [
    SetF ''code'' TypeString, SetF ''updated_at'' TypeTime, SetF ''expires_at'' TypeTime]"

definition ResetCodeUpdateOne_edge_Owner :: "('f, 'p) mutation \<Rightarrow> edge_spec list \<times> edge_spec list" where
  "ResetCodeUpdateOne_edge_Owner = update_edge ResetCode_schema ''owner''
     (EdgeSpec O2O True ''reset_codes'' [''user_reset_code''] False ''id'')"

definition ResetCodeUpdateOne_updateSpec :: "('f, 'p) mutation \<Rightarrow> ('f, 'p) update_spec" where
  "ResetCodeUpdateOne_updateSpec = update_spec_of resetcode_package ResetCode_schema ResetCodeUpdateOne_fields [
    ResetCodeUpdateOne_edge_Owner]"

definition ResetCodeUpdateOne_sqlSave ::
  "('f \<Rightarrow> bool) \<Rightarrow> string list \<Rightarrow> (('f, 'p) update_spec \<Rightarrow> error + 'n) \<Rightarrow> ('f :: plus, 'p) mutation \<Rightarrow>
     error + 'n \<times> ('f, 'p) mutation" where
  "ResetCodeUpdateOne_sqlSave =
     update_one_save service_decls ResetCode_schema ResetCodeUpdateOne_checks resetcode_ValidColumn ResetCodeUpdateOne_updateSpec"

section \<open>\<open>RolePermissionUpdateOne\<close>\<close>

definition RolePermissionUpdateOne_Name :: "(string, 'f :: plus, 'p) field_setters" where
  "RolePermissionUpdateOne_Name = setters_of False True False False RolePermissionMutation_Name"

definition RolePermissionUpdateOne_View :: "(bool, 'f :: plus, 'p) field_setters" where
  "RolePermissionUpdateOne_View = setters_of False True False False RolePermissionMutation_View"

definition RolePermissionUpdateOne_Add :: "(bool, 'f :: plus, 'p) field_setters" where
  "RolePermissionUpdateOne_Add = setters_of False True False False RolePermissionMutation_Add"

definition RolePermissionUpdateOne_Edit :: "(bool, 'f :: plus, 'p) field_setters" where
  "RolePermissionUpdateOne_Edit = setters_of False True False False RolePermissionMutation_Edit"

definition RolePermissionUpdateOne_Delete :: "(bool, 'f :: plus, 'p) field_setters" where
  "RolePermissionUpdateOne_Delete = setters_of False True False False RolePermissionMutation_Delete"

definition RolePermissionUpdateOne_UpdatedAt :: "(int, 'f :: plus, 'p) field_setters" where
  "RolePermissionUpdateOne_UpdatedAt = setters_of False True False False RolePermissionMutation_UpdatedAt"

definition RolePermissionUpdateOne_UserRole :: "int list \<Rightarrow> ('f, 'p) mutation \<Rightarrow> ('f, 'p) mutation" where
  "RolePermissionUpdateOne_UserRole = me_AddIDs RolePermissionMutation_UserRole"

definition RolePermissionUpdateOne_ClearUserRole :: "(('f, 'p) mutation \<Rightarrow> ('f, 'p) mutation) \<times> (int list \<Rightarrow> ('f, 'p) mutation \<Rightarrow> ('f, 'p) mutation)" where
  "RolePermissionUpdateOne_ClearUserRole = (me_Clear RolePermissionMutation_UserRole, me_RemoveIDs RolePermissionMutation_UserRole)"

definition RolePermissionUpdateOne_fields :: "spec_rule list" where
  "RolePermissionUpdateOne_fields = [
    SetF ''name'' TypeString, SetF ''view'' TypeBool, SetF ''add'' TypeBool, SetF ''edit'' TypeBool,
    SetF ''delete'' TypeBool, SetF ''updated_at'' TypeTime]"

definition RolePermissionUpdateOne_edge_UserRole :: "('f, 'p) mutation \<Rightarrow> edge_spec list \<times> edge_spec list" where
  "RolePermissionUpdateOne_edge_UserRole = update_edge RolePermission_schema ''user_role''
     (EdgeSpec M2M False ''role_permission_user_role'' [''role_permission_id'', ''user_role_id''] False ''id'')"

definition RolePermissionUpdateOne_updateSpec :: "('f, 'p) mutation \<Rightarrow> ('f, 'p) update_spec" where
  "RolePermissionUpdateOne_updateSpec = update_spec_of rolepermission_package RolePermission_schema RolePermissionUpdateOne_fields [
    RolePermissionUpdateOne_edge_UserRole]"

definition RolePermissionUpdateOne_sqlSave ::
  "('f \<Rightarrow> bool) \<Rightarrow> string list \<Rightarrow> (('f, 'p) update_spec \<Rightarrow> error + 'n) \<Rightarrow> ('f :: plus, 'p) mutation \<Rightarrow>
     error + 'n \<times> ('f, 'p) mutation" where
  "RolePermissionUpdateOne_sqlSave =
     update_one_save service_decls RolePermission_schema [] rolepermission_ValidColumn RolePermissionUpdateOne_updateSpec"

section \<open>\<open>SecondFactorCodeUpdateOne\<close>\<close>

definition SecondFactorCodeUpdateOne_Used :: "(bool, 'f :: plus, 'p) field_setters" where
  "SecondFactorCodeUpdateOne_Used = setters_of False True False False SecondFactorCodeMutation_Used"

definition SecondFactorCodeUpdateOne_Code :: "(string, 'f :: plus, 'p) field_setters" where
  "SecondFactorCodeUpdateOne_Code = setters_of False True False False SecondFactorCodeMutation_Code"

definition SecondFactorCodeUpdateOne_UpdatedAt :: "(int, 'f :: plus, 'p) field_setters" where
  "SecondFactorCodeUpdateOne_UpdatedAt = setters_of False True False False SecondFactorCodeMutation_UpdatedAt"

definition SecondFactorCodeUpdateOne_ExpiresAt :: "(int, 'f :: plus, 'p) field_setters" where
  "SecondFactorCodeUpdateOne_ExpiresAt = setters_of False True False False SecondFactorCodeMutation_ExpiresAt"

definition SecondFactorCodeUpdateOne_Owner :: "('f, 'p) unique_edge_setters" where
  "SecondFactorCodeUpdateOne_Owner = unique_setters_of False SecondFactorCodeMutation_Owner"

definition SecondFactorCodeUpdateOne_ClearOwner :: "('f, 'p) mutation \<Rightarrow> ('f, 'p) mutation" where
  "SecondFactorCodeUpdateOne_ClearOwner = ue_Clear SecondFactorCodeMutation_Owner"

definition SecondFactorCodeUpdateOne_TargetUserDevice :: "('f, 'p) unique_edge_setters" where
  "SecondFactorCodeUpdateOne_TargetUserDevice = unique_setters_of False SecondFactorCodeMutation_TargetUserDevice"

definition SecondFactorCodeUpdateOne_ClearTargetUserDevice :: "('f, 'p) mutation \<Rightarrow> ('f, 'p) mutation" where
  "SecondFactorCodeUpdateOne_ClearTargetUserDevice = ue_Clear SecondFactorCodeMutation_TargetUserDevice"

definition SecondFactorCodeUpdateOne_checks :: "check_rule list" where
  "SecondFactorCodeUpdateOne_checks = [
    ClearingEdge ''owner'', ClearingEdge ''target_user_device'']"

definition SecondFactorCodeUpdateOne_fields :: "spec_rule list" where
  "SecondFactorCodeUpdateOne_fields = [
    SetF ''used'' TypeBool, SetF ''code'' TypeString, SetF ''updated_at'' TypeTime, SetF ''expires_at'' TypeTime]"

definition SecondFactorCodeUpdateOne_edge_Owner :: "('f, 'p) mutation \<Rightarrow> edge_spec list \<times> edge_spec list" where
  "SecondFactorCodeUpdateOne_edge_Owner = update_edge SecondFactorCode_schema ''owner''
     (EdgeSpec O2O True ''second_factor_codes'' [''user_second_factor_code''] False ''id'')"

definition SecondFactorCodeUpdateOne_edge_TargetUserDevice :: "('f, 'p) mutation \<Rightarrow> edge_spec list \<times> edge_spec list" where
  "SecondFactorCodeUpdateOne_edge_TargetUserDevice = update_edge SecondFactorCode_schema ''target_user_device''
     (EdgeSpec O2O False ''user_devices'' [''second_factor_code_target_user_device''] False ''id'')"

definition SecondFactorCodeUpdateOne_updateSpec :: "('f, 'p) mutation \<Rightarrow> ('f, 'p) update_spec" where
  "SecondFactorCodeUpdateOne_updateSpec = update_spec_of secondfactorcode_package SecondFactorCode_schema SecondFactorCodeUpdateOne_fields [
    SecondFactorCodeUpdateOne_edge_Owner, SecondFactorCodeUpdateOne_edge_TargetUserDevice]"

definition SecondFactorCodeUpdateOne_sqlSave ::
  "('f \<Rightarrow> bool) \<Rightarrow> string list \<Rightarrow> (('f, 'p) update_spec \<Rightarrow> error + 'n) \<Rightarrow> ('f :: plus, 'p) mutation \<Rightarrow>
     error + 'n \<times> ('f, 'p) mutation" where
  "SecondFactorCodeUpdateOne_sqlSave =
     update_one_save service_decls SecondFactorCode_schema SecondFactorCodeUpdateOne_checks secondfactorcode_ValidColumn SecondFactorCodeUpdateOne_updateSpec"

section \<open>\<open>UserUpdateOne\<close>\<close>

definition UserUpdateOne_Mail :: "(string, 'f :: plus, 'p) field_setters" where
  "UserUpdateOne_Mail = setters_of False True False False UserMutation_Mail"

definition UserUpdateOne_Phone :: "(string, 'f :: plus, 'p) field_setters" where
  "UserUpdateOne_Phone = setters_of False True False True UserMutation_Phone"

definition UserUpdateOne_Password :: "(string, 'f :: plus, 'p) field_setters" where
  "UserUpdateOne_Password = setters_of False True False False UserMutation_Password"

definition UserUpdateOne_Active :: "(bool, 'f :: plus, 'p) field_setters" where
  "UserUpdateOne_Active = setters_of False True False False UserMutation_Active"

definition UserUpdateOne_Verified :: "(bool, 'f :: plus, 'p) field_setters" where
  "UserUpdateOne_Verified = setters_of False True False False UserMutation_Verified"

definition UserUpdateOne_Blacklisted :: "(bool, 'f :: plus, 'p) field_setters" where
  "UserUpdateOne_Blacklisted = setters_of False True False False UserMutation_Blacklisted"

definition UserUpdateOne_Removed :: "(bool, 'f :: plus, 'p) field_setters" where
  "UserUpdateOne_Removed = setters_of False True False False UserMutation_Removed"

definition UserUpdateOne_UpdatedAt :: "(int, 'f :: plus, 'p) field_setters" where
  "UserUpdateOne_UpdatedAt = setters_of False True False False UserMutation_UpdatedAt"

definition UserUpdateOne_SubscriptionIds :: "(int list, 'f :: plus, 'p) field_setters" where
  "UserUpdateOne_SubscriptionIds = setters_of False False True False UserMutation_SubscriptionIds"

definition UserUpdateOne_TeamIds :: "(int list, 'f :: plus, 'p) field_setters" where
  "UserUpdateOne_TeamIds = setters_of False False True False UserMutation_TeamIds"

definition UserUpdateOne_OrganizationIds :: "(int list, 'f :: plus, 'p) field_setters" where
  "UserUpdateOne_OrganizationIds = setters_of False False True False UserMutation_OrganizationIds"

definition UserUpdateOne_UserDetails :: "('f, 'p) unique_edge_setters" where
  "UserUpdateOne_UserDetails = unique_setters_of True UserMutation_UserDetails"

definition UserUpdateOne_ClearUserDetails :: "('f, 'p) mutation \<Rightarrow> ('f, 'p) mutation" where
  "UserUpdateOne_ClearUserDetails = ue_Clear UserMutation_UserDetails"

definition UserUpdateOne_UserSettings :: "('f, 'p) unique_edge_setters" where
  "UserUpdateOne_UserSettings = unique_setters_of True UserMutation_UserSettings"

definition UserUpdateOne_ClearUserSettings :: "('f, 'p) mutation \<Rightarrow> ('f, 'p) mutation" where
  "UserUpdateOne_ClearUserSettings = ue_Clear UserMutation_UserSettings"

definition UserUpdateOne_ActivationCode :: "('f, 'p) unique_edge_setters" where
  "UserUpdateOne_ActivationCode = unique_setters_of True UserMutation_ActivationCode"

definition UserUpdateOne_ClearActivationCode :: "('f, 'p) mutation \<Rightarrow> ('f, 'p) mutation" where
  "UserUpdateOne_ClearActivationCode = ue_Clear UserMutation_ActivationCode"

definition UserUpdateOne_VerificationCode :: "('f, 'p) unique_edge_setters" where
  "UserUpdateOne_VerificationCode = unique_setters_of True UserMutation_VerificationCode"

definition UserUpdateOne_ClearVerificationCode :: "('f, 'p) mutation \<Rightarrow> ('f, 'p) mutation" where
  "UserUpdateOne_ClearVerificationCode = ue_Clear UserMutation_VerificationCode"

definition UserUpdateOne_SecondFactorCode :: "('f, 'p) unique_edge_setters" where
  "UserUpdateOne_SecondFactorCode = unique_setters_of True UserMutation_SecondFactorCode"

definition UserUpdateOne_ClearSecondFactorCode :: "('f, 'p) mutation \<Rightarrow> ('f, 'p) mutation" where
  "UserUpdateOne_ClearSecondFactorCode = ue_Clear UserMutation_SecondFactorCode"

definition UserUpdateOne_ResetCode :: "('f, 'p) unique_edge_setters" where
  "UserUpdateOne_ResetCode = unique_setters_of True UserMutation_ResetCode"

definition UserUpdateOne_ClearResetCode :: "('f, 'p) mutation \<Rightarrow> ('f, 'p) mutation" where
  "UserUpdateOne_ClearResetCode = ue_Clear UserMutation_ResetCode"

definition UserUpdateOne_UserDevices :: "int list \<Rightarrow> ('f, 'p) mutation \<Rightarrow> ('f, 'p) mutation" where
  "UserUpdateOne_UserDevices = me_AddIDs UserMutation_UserDevices"

definition UserUpdateOne_ClearUserDevices :: "(('f, 'p) mutation \<Rightarrow> ('f, 'p) mutation) \<times> (int list \<Rightarrow> ('f, 'p) mutation \<Rightarrow> ('f, 'p) mutation)" where
  "UserUpdateOne_ClearUserDevices = (me_Clear UserMutation_UserDevices, me_RemoveIDs UserMutation_UserDevices)"

definition UserUpdateOne_UserActions :: "int list \<Rightarrow> ('f, 'p) mutation \<Rightarrow> ('f, 'p) mutation" where
  "UserUpdateOne_UserActions = me_AddIDs UserMutation_UserActions"

definition UserUpdateOne_ClearUserActions :: "(('f, 'p) mutation \<Rightarrow> ('f, 'p) mutation) \<times> (int list \<Rightarrow> ('f, 'p) mutation \<Rightarrow> ('f, 'p) mutation)" where
  "UserUpdateOne_ClearUserActions = (me_Clear UserMutation_UserActions, me_RemoveIDs UserMutation_UserActions)"

definition UserUpdateOne_UserRoles :: "int list \<Rightarrow> ('f, 'p) mutation \<Rightarrow> ('f, 'p) mutation" where
  "UserUpdateOne_UserRoles = me_AddIDs UserMutation_UserRoles"

definition UserUpdateOne_ClearUserRoles :: "(('f, 'p) mutation \<Rightarrow> ('f, 'p) mutation) \<times> (int list \<Rightarrow> ('f, 'p) mutation \<Rightarrow> ('f, 'p) mutation)" where
  "UserUpdateOne_ClearUserRoles = (me_Clear UserMutation_UserRoles, me_RemoveIDs UserMutation_UserRoles)"

definition UserUpdateOne_BlacklistedTokens :: "int list \<Rightarrow> ('f, 'p) mutation \<Rightarrow> ('f, 'p) mutation" where
  "UserUpdateOne_BlacklistedTokens = me_AddIDs UserMutation_BlacklistedTokens"

definition UserUpdateOne_ClearBlacklistedTokens :: "(('f, 'p) mutation \<Rightarrow> ('f, 'p) mutation) \<times> (int list \<Rightarrow> ('f, 'p) mutation \<Rightarrow> ('f, 'p) mutation)" where
  "UserUpdateOne_ClearBlacklistedTokens = (me_Clear UserMutation_BlacklistedTokens, me_RemoveIDs UserMutation_BlacklistedTokens)"

definition UserUpdateOne_checks :: "check_rule list" where
  "UserUpdateOne_checks = [
    Validator ''mail'' ''mail'', Validator ''password'' ''password'']"

definition UserUpdateOne_fields :: "spec_rule list" where
  "UserUpdateOne_fields = [
    SetF ''mail'' TypeString, SetF ''phone'' TypeString, ClearF ''phone'' TypeString, SetF ''password'' TypeString,
    SetF ''active'' TypeBool, SetF ''verified'' TypeBool, SetF ''blacklisted'' TypeBool, SetF ''removed'' TypeBool,
    SetF ''updated_at'' TypeTime, SetF ''subscription_ids'' TypeJSON, AppendF ''subscription_ids'',
    SetF ''team_ids'' TypeJSON, AppendF ''team_ids'', SetF ''organization_ids'' TypeJSON, AppendF ''organization_ids'']"

definition UserUpdateOne_edge_UserDetails :: "('f, 'p) mutation \<Rightarrow> edge_spec list \<times> edge_spec list" where
  "UserUpdateOne_edge_UserDetails = update_edge User_schema ''user_details''
     (EdgeSpec O2O False ''user_details'' [''user_user_details''] False ''id'')"

definition UserUpdateOne_edge_UserSettings :: "('f, 'p) mutation \<Rightarrow> edge_spec list \<times> edge_spec list" where
  "UserUpdateOne_edge_UserSettings = update_edge User_schema ''user_settings''
     (EdgeSpec O2O False ''user_settings'' [''user_user_settings''] False ''id'')"

definition UserUpdateOne_edge_ActivationCode :: "('f, 'p) mutation \<Rightarrow> edge_spec list \<times> edge_spec list" where
  "UserUpdateOne_edge_ActivationCode = update_edge User_schema ''activation_code''
     (EdgeSpec O2O False ''activation_codes'' [''user_activation_code''] False ''id'')"

definition UserUpdateOne_edge_VerificationCode :: "('f, 'p) mutation \<Rightarrow> edge_spec list \<times> edge_spec list" where
  "UserUpdateOne_edge_VerificationCode = update_edge User_schema ''verification_code''
     (EdgeSpec O2O False ''verification_codes'' [''user_verification_code''] False ''id'')"

definition UserUpdateOne_edge_SecondFactorCode :: "('f, 'p) mutation \<Rightarrow> edge_spec list \<times> edge_spec list" where
  "UserUpdateOne_edge_SecondFactorCode = update_edge User_schema ''second_factor_code''
     (EdgeSpec O2O False ''second_factor_codes'' [''user_second_factor_code''] False ''id'')"

definition UserUpdateOne_edge_ResetCode :: "('f, 'p) mutation \<Rightarrow> edge_spec list \<times> edge_spec list" where
  "UserUpdateOne_edge_ResetCode = update_edge User_schema ''reset_code''
     (EdgeSpec O2O False ''reset_codes'' [''user_reset_code''] False ''id'')"

definition UserUpdateOne_edge_UserDevices :: "('f, 'p) mutation \<Rightarrow> edge_spec list \<times> edge_spec list" where
  "UserUpdateOne_edge_UserDevices = update_edge User_schema ''user_devices''
     (EdgeSpec O2M False ''user_devices'' [''user_user_devices''] False ''id'')"

definition UserUpdateOne_edge_UserActions :: "('f, 'p) mutation \<Rightarrow> edge_spec list \<times> edge_spec list" where
  "UserUpdateOne_edge_UserActions = update_edge User_schema ''user_actions''
     (EdgeSpec M2M False ''user_user_actions'' [''user_id'', ''user_action_id''] False ''id'')"

definition UserUpdateOne_edge_UserRoles :: "('f, 'p) mutation \<Rightarrow> edge_spec list \<times> edge_spec list" where
  "UserUpdateOne_edge_UserRoles = update_edge User_schema ''user_roles''
     (EdgeSpec M2M False ''user_user_roles'' [''user_id'', ''user_role_id''] False ''id'')"

definition UserUpdateOne_edge_BlacklistedTokens :: "('f, 'p) mutation \<Rightarrow> edge_spec list \<times> edge_spec list" where
  "UserUpdateOne_edge_BlacklistedTokens = update_edge User_schema ''blacklisted_tokens''
     (EdgeSpec O2M True ''blacklisted_tokens'' [''blacklisted_token_owner''] False ''id'')"

definition UserUpdateOne_updateSpec :: "('f, 'p) mutation \<Rightarrow> ('f, 'p) update_spec" where
  "UserUpdateOne_updateSpec = update_spec_of user_package User_schema UserUpdateOne_fields [
    UserUpdateOne_edge_UserDetails, UserUpdateOne_edge_UserSettings, UserUpdateOne_edge_ActivationCode,
    UserUpdateOne_edge_VerificationCode, UserUpdateOne_edge_SecondFactorCode, UserUpdateOne_edge_ResetCode,
    UserUpdateOne_edge_UserDevices, UserUpdateOne_edge_UserActions, UserUpdateOne_edge_UserRoles,
    UserUpdateOne_edge_BlacklistedTokens]"

definition UserUpdateOne_sqlSave ::
  "('f \<Rightarrow> bool) \<Rightarrow> string list \<Rightarrow> (('f, 'p) update_spec \<Rightarrow> error + 'n) \<Rightarrow> ('f :: plus, 'p) mutation \<Rightarrow>
     error + 'n \<times> ('f, 'p) mutation" where
  "UserUpdateOne_sqlSave =
     update_one_save service_decls User_schema UserUpdateOne_checks user_ValidColumn UserUpdateOne_updateSpec"

section \<open>\<open>UserActionUpdateOne\<close>\<close>

definition UserActionUpdateOne_Type :: "(string, 'f :: plus, 'p) field_setters" where
  "UserActionUpdateOne_Type = setters_of False True False False UserActionMutation_Type"

definition UserActionUpdateOne_Action :: "(string, 'f :: plus, 'p) field_setters" where
  "UserActionUpdateOne_Action = setters_of False True False False UserActionMutation_Action"

definition UserActionUpdateOne_Details :: "(string, 'f :: plus, 'p) field_setters" where
  "UserActionUpdateOne_Details = setters_of False True False False UserActionMutation_Details"

definition UserActionUpdateOne_UpdatedAt :: "(int, 'f :: plus, 'p) field_setters" where
  "UserActionUpdateOne_UpdatedAt = setters_of False True False False UserActionMutation_UpdatedAt"

definition UserActionUpdateOne_Author :: "int list \<Rightarrow> ('f, 'p) mutation \<Rightarrow> ('f, 'p) mutation" where
  "UserActionUpdateOne_Author = me_AddIDs UserActionMutation_Author"

definition UserActionUpdateOne_ClearAuthor :: "(('f, 'p) mutation \<Rightarrow> ('f, 'p) mutation) \<times> (int list \<Rightarrow> ('f, 'p) mutation \<Rightarrow> ('f, 'p) mutation)" where
  "UserActionUpdateOne_ClearAuthor = (me_Clear UserActionMutation_Author, me_RemoveIDs UserActionMutation_Author)"

definition UserActionUpdateOne_AuthorDevice :: "int list \<Rightarrow> ('f, 'p) mutation \<Rightarrow> ('f, 'p) mutation" where
  "UserActionUpdateOne_AuthorDevice = me_AddIDs UserActionMutation_AuthorDevice"

definition UserActionUpdateOne_ClearAuthorDevice :: "(('f, 'p) mutation \<Rightarrow> ('f, 'p) mutation) \<times> (int list \<Rightarrow> ('f, 'p) mutation \<Rightarrow> ('f, 'p) mutation)" where
  "UserActionUpdateOne_ClearAuthorDevice = (me_Clear UserActionMutation_AuthorDevice, me_RemoveIDs UserActionMutation_AuthorDevice)"

definition UserActionUpdateOne_fields :: "spec_rule list" where
  "UserActionUpdateOne_fields = [
    SetF ''type'' TypeString, SetF ''action'' TypeString, SetF ''details'' TypeString, SetF ''updated_at'' TypeTime]"

definition UserActionUpdateOne_edge_Author :: "('f, 'p) mutation \<Rightarrow> edge_spec list \<times> edge_spec list" where
  "UserActionUpdateOne_edge_Author = update_edge UserAction_schema ''author''
     (EdgeSpec M2M True ''user_user_actions'' [''user_id'', ''user_action_id''] False ''id'')"

definition UserActionUpdateOne_edge_AuthorDevice :: "('f, 'p) mutation \<Rightarrow> edge_spec list \<times> edge_spec list" where
  "UserActionUpdateOne_edge_AuthorDevice = update_edge UserAction_schema ''author_device''
     (EdgeSpec M2M True ''user_device_user_actions'' [''user_device_id'', ''user_action_id''] False ''id'')"

definition UserActionUpdateOne_updateSpec :: "('f, 'p) mutation \<Rightarrow> ('f, 'p) update_spec" where
  "UserActionUpdateOne_updateSpec = update_spec_of useraction_package UserAction_schema UserActionUpdateOne_fields [
    UserActionUpdateOne_edge_Author, UserActionUpdateOne_edge_AuthorDevice]"

definition UserActionUpdateOne_sqlSave ::
  "('f \<Rightarrow> bool) \<Rightarrow> string list \<Rightarrow> (('f, 'p) update_spec \<Rightarrow> error + 'n) \<Rightarrow> ('f :: plus, 'p) mutation \<Rightarrow>
     error + 'n \<times> ('f, 'p) mutation" where
  "UserActionUpdateOne_sqlSave =
     update_one_save service_decls UserAction_schema [] useraction_ValidColumn UserActionUpdateOne_updateSpec"

section \<open>\<open>UserDetailsUpdateOne\<close>\<close>

definition UserDetailsUpdateOne_Name :: "(string, 'f :: plus, 'p) field_setters" where
  "UserDetailsUpdateOne_Name = setters_of False True False False UserDetailsMutation_Name"

definition UserDetailsUpdateOne_FirstName :: "(string, 'f :: plus, 'p) field_setters" where
  "UserDetailsUpdateOne_FirstName = setters_of False True False True UserDetailsMutation_FirstName"

definition UserDetailsUpdateOne_LastName :: "(string, 'f :: plus, 'p) field_setters" where
  "UserDetailsUpdateOne_LastName = setters_of False True False True UserDetailsMutation_LastName"

definition UserDetailsUpdateOne_UpdatedAt :: "(int, 'f :: plus, 'p) field_setters" where
  "UserDetailsUpdateOne_UpdatedAt = setters_of False True False False UserDetailsMutation_UpdatedAt"

definition UserDetailsUpdateOne_Owner :: "('f, 'p) unique_edge_setters" where
  "UserDetailsUpdateOne_Owner = unique_setters_of False UserDetailsMutation_Owner"

definition UserDetailsUpdateOne_ClearOwner :: "('f, 'p) mutation \<Rightarrow> ('f, 'p) mutation" where
  "UserDetailsUpdateOne_ClearOwner = ue_Clear UserDetailsMutation_Owner"

definition UserDetailsUpdateOne_Locations :: "int list \<Rightarrow> ('f, 'p) mutation \<Rightarrow> ('f, 'p) mutation" where
  "UserDetailsUpdateOne_Locations = me_AddIDs UserDetailsMutation_Locations"

definition UserDetailsUpdateOne_ClearLocations :: "(('f, 'p) mutation \<Rightarrow> ('f, 'p) mutation) \<times> (int list \<Rightarrow> ('f, 'p) mutation \<Rightarrow> ('f, 'p) mutation)" where
  "UserDetailsUpdateOne_ClearLocations = (me_Clear UserDetailsMutation_Locations, me_RemoveIDs UserDetailsMutation_Locations)"

definition UserDetailsUpdateOne_EntrepreneurDetails :: "('f, 'p) unique_edge_setters" where
  "UserDetailsUpdateOne_EntrepreneurDetails = unique_setters_of True UserDetailsMutation_EntrepreneurDetails"

definition UserDetailsUpdateOne_ClearEntrepreneurDetails :: "('f, 'p) mutation \<Rightarrow> ('f, 'p) mutation" where
  "UserDetailsUpdateOne_ClearEntrepreneurDetails = ue_Clear UserDetailsMutation_EntrepreneurDetails"

definition UserDetailsUpdateOne_checks :: "check_rule list" where
  "UserDetailsUpdateOne_checks = [
    Validator ''name'' ''name'', ClearingEdge ''owner'']"

definition UserDetailsUpdateOne_fields :: "spec_rule list" where
  "UserDetailsUpdateOne_fields = [
    SetF ''name'' TypeString, SetF ''first_name'' TypeString, ClearF ''first_name'' TypeString,
    SetF ''last_name'' TypeString, ClearF ''last_name'' TypeString, SetF ''updated_at'' TypeTime]"

definition UserDetailsUpdateOne_edge_Owner :: "('f, 'p) mutation \<Rightarrow> edge_spec list \<times> edge_spec list" where
  "UserDetailsUpdateOne_edge_Owner = update_edge UserDetails_schema ''owner''
     (EdgeSpec O2O True ''user_details'' [''user_user_details''] False ''id'')"

definition UserDetailsUpdateOne_edge_Locations :: "('f, 'p) mutation \<Rightarrow> edge_spec list \<times> edge_spec list" where
  "UserDetailsUpdateOne_edge_Locations = update_edge UserDetails_schema ''locations''
     (EdgeSpec O2M False ''locations'' [''user_details_locations''] False ''id'')"

definition UserDetailsUpdateOne_edge_EntrepreneurDetails :: "('f, 'p) mutation \<Rightarrow> edge_spec list \<times> edge_spec list" where
  "UserDetailsUpdateOne_edge_EntrepreneurDetails = update_edge UserDetails_schema ''entrepreneur_details''
     (EdgeSpec O2O False ''entrepreneur_details'' [''user_details_entrepreneur_details''] False ''id'')"

definition UserDetailsUpdateOne_updateSpec :: "('f, 'p) mutation \<Rightarrow> ('f, 'p) update_spec" where
  "UserDetailsUpdateOne_updateSpec = update_spec_of userdetails_package UserDetails_schema UserDetailsUpdateOne_fields [
    UserDetailsUpdateOne_edge_Owner, UserDetailsUpdateOne_edge_Locations,
    UserDetailsUpdateOne_edge_EntrepreneurDetails]"

definition UserDetailsUpdateOne_sqlSave ::
  "('f \<Rightarrow> bool) \<Rightarrow> string list \<Rightarrow> (('f, 'p) update_spec \<Rightarrow> error + 'n) \<Rightarrow> ('f :: plus, 'p) mutation \<Rightarrow>
     error + 'n \<times> ('f, 'p) mutation" where
  "UserDetailsUpdateOne_sqlSave =
     update_one_save service_decls UserDetails_schema UserDetailsUpdateOne_checks userdetails_ValidColumn UserDetailsUpdateOne_updateSpec"

section \<open>\<open>UserDeviceUpdateOne\<close>\<close>

definition UserDeviceUpdateOne_Name :: "(string, 'f :: plus, 'p) field_setters" where
  "UserDeviceUpdateOne_Name = setters_of False True False True UserDeviceMutation_Name"

definition UserDeviceUpdateOne_Type :: "(string, 'f :: plus, 'p) field_setters" where
  "UserDeviceUpdateOne_Type = setters_of False True False True UserDeviceMutation_Type"

definition UserDeviceUpdateOne_Token :: "(string, 'f :: plus, 'p) field_setters" where
  "UserDeviceUpdateOne_Token = setters_of False True False False UserDeviceMutation_Token"

definition UserDeviceUpdateOne_IPAddress :: "(string, 'f :: plus, 'p) field_setters" where
  "UserDeviceUpdateOne_IPAddress = setters_of False True False True UserDeviceMutation_IPAddress"

definition UserDeviceUpdateOne_UserAgent :: "(string, 'f :: plus, 'p) field_setters" where
  "UserDeviceUpdateOne_UserAgent = setters_of False True False True UserDeviceMutation_UserAgent"

definition UserDeviceUpdateOne_OsName :: "(string, 'f :: plus, 'p) field_setters" where
  "UserDeviceUpdateOne_OsName = setters_of False True False True UserDeviceMutation_OsName"

definition UserDeviceUpdateOne_OsVersion :: "(string, 'f :: plus, 'p) field_setters" where
  "UserDeviceUpdateOne_OsVersion = setters_of False True False True UserDeviceMutation_OsVersion"

definition UserDeviceUpdateOne_BrowserName :: "(string, 'f :: plus, 'p) field_setters" where
  "UserDeviceUpdateOne_BrowserName = setters_of False True False True UserDeviceMutation_BrowserName"

definition UserDeviceUpdateOne_BrowserVersion :: "(string, 'f :: plus, 'p) field_setters" where
  "UserDeviceUpdateOne_BrowserVersion = setters_of False True False True UserDeviceMutation_BrowserVersion"

definition UserDeviceUpdateOne_LastSeenAt :: "(int, 'f :: plus, 'p) field_setters" where
  "UserDeviceUpdateOne_LastSeenAt = setters_of False False False False UserDeviceMutation_LastSeenAt"

definition UserDeviceUpdateOne_UpdatedAt :: "(int, 'f :: plus, 'p) field_setters" where
  "UserDeviceUpdateOne_UpdatedAt = setters_of False True False False UserDeviceMutation_UpdatedAt"

definition UserDeviceUpdateOne_Owner :: "('f, 'p) unique_edge_setters" where
  "UserDeviceUpdateOne_Owner = unique_setters_of False UserDeviceMutation_Owner"

definition UserDeviceUpdateOne_ClearOwner :: "('f, 'p) mutation \<Rightarrow> ('f, 'p) mutation" where
  "UserDeviceUpdateOne_ClearOwner = ue_Clear UserDeviceMutation_Owner"

definition UserDeviceUpdateOne_UserSettings2fa :: "('f, 'p) unique_edge_setters" where
  "UserDeviceUpdateOne_UserSettings2fa = unique_setters_of True UserDeviceMutation_UserSettings2fa"

definition UserDeviceUpdateOne_ClearUserSettings2fa :: "('f, 'p) mutation \<Rightarrow> ('f, 'p) mutation" where
  "UserDeviceUpdateOne_ClearUserSettings2fa = ue_Clear UserDeviceMutation_UserSettings2fa"

definition UserDeviceUpdateOne_SecondFactorCodes :: "('f, 'p) unique_edge_setters" where
  "UserDeviceUpdateOne_SecondFactorCodes = unique_setters_of True UserDeviceMutation_SecondFactorCodes"

definition UserDeviceUpdateOne_ClearSecondFactorCodes :: "('f, 'p) mutation \<Rightarrow> ('f, 'p) mutation" where
  "UserDeviceUpdateOne_ClearSecondFactorCodes = ue_Clear UserDeviceMutation_SecondFactorCodes"

definition UserDeviceUpdateOne_UserActions :: "int list \<Rightarrow> ('f, 'p) mutation \<Rightarrow> ('f, 'p) mutation" where
  "UserDeviceUpdateOne_UserActions = me_AddIDs UserDeviceMutation_UserActions"

definition UserDeviceUpdateOne_ClearUserActions :: "(('f, 'p) mutation \<Rightarrow> ('f, 'p) mutation) \<times> (int list \<Rightarrow> ('f, 'p) mutation \<Rightarrow> ('f, 'p) mutation)" where
  "UserDeviceUpdateOne_ClearUserActions = (me_Clear UserDeviceMutation_UserActions, me_RemoveIDs UserDeviceMutation_UserActions)"

definition UserDeviceUpdateOne_checks :: "check_rule list" where
  "UserDeviceUpdateOne_checks = [
    Validator ''token'' ''token'', ClearingEdge ''owner'']"

definition UserDeviceUpdateOne_defaults :: "(string \<times> default_value) list" where
  "UserDeviceUpdateOne_defaults = [
    (''last_seen_at'', DefaultNow)]"

definition UserDeviceUpdateOne_fields :: "spec_rule list" where
  "UserDeviceUpdateOne_fields = [
    SetF ''name'' TypeString, ClearF ''name'' TypeString, SetF ''type'' TypeString, ClearF ''type'' TypeString,
    SetF ''token'' TypeString, SetF ''ip_address'' TypeString, ClearF ''ip_address'' TypeString,
    SetF ''user_agent'' TypeString, ClearF ''user_agent'' TypeString, SetF ''os_name'' TypeString,
    ClearF ''os_name'' TypeString, SetF ''os_version'' TypeString, ClearF ''os_version'' TypeString,
    SetF ''browser_name'' TypeString, ClearF ''browser_name'' TypeString, SetF ''browser_version'' TypeString,
    ClearF ''browser_version'' TypeString, SetF ''last_seen_at'' TypeTime, SetF ''updated_at'' TypeTime]"

definition UserDeviceUpdateOne_edge_Owner :: "('f, 'p) mutation \<Rightarrow> edge_spec list \<times> edge_spec list" where
  "UserDeviceUpdateOne_edge_Owner = update_edge UserDevice_schema ''owner''
     (EdgeSpec M2O True ''user_devices'' [''user_user_devices''] False ''id'')"

definition UserDeviceUpdateOne_edge_UserSettings2fa :: "('f, 'p) mutation \<Rightarrow> edge_spec list \<times> edge_spec list" where
  "UserDeviceUpdateOne_edge_UserSettings2fa = update_edge UserDevice_schema ''user_settings_2fa''
     (EdgeSpec O2O True ''user_devices'' [''user_settings_second_factor_target''] False ''id'')"

definition UserDeviceUpdateOne_edge_SecondFactorCodes :: "('f, 'p) mutation \<Rightarrow> edge_spec list \<times> edge_spec list" where
  "UserDeviceUpdateOne_edge_SecondFactorCodes = update_edge UserDevice_schema ''second_factor_codes''
     (EdgeSpec O2O True ''user_devices'' [''second_factor_code_target_user_device''] False ''id'')"

definition UserDeviceUpdateOne_edge_UserActions :: "('f, 'p) mutation \<Rightarrow> edge_spec list \<times> edge_spec list" where
  "UserDeviceUpdateOne_edge_UserActions = update_edge UserDevice_schema ''user_actions''
     (EdgeSpec M2M False ''user_device_user_actions'' [''user_device_id'', ''user_action_id''] False ''id'')"

definition UserDeviceUpdateOne_updateSpec :: "('f, 'p) mutation \<Rightarrow> ('f, 'p) update_spec" where
  "UserDeviceUpdateOne_updateSpec = update_spec_of userdevice_package UserDevice_schema UserDeviceUpdateOne_fields [
    UserDeviceUpdateOne_edge_Owner, UserDeviceUpdateOne_edge_UserSettings2fa,
    UserDeviceUpdateOne_edge_SecondFactorCodes, UserDeviceUpdateOne_edge_UserActions]"

definition UserDeviceUpdateOne_sqlSave ::
  "('f \<Rightarrow> bool) \<Rightarrow> string list \<Rightarrow> (('f, 'p) update_spec \<Rightarrow> error + 'n) \<Rightarrow> ('f :: plus, 'p) mutation \<Rightarrow>
     error + 'n \<times> ('f, 'p) mutation" where
  "UserDeviceUpdateOne_sqlSave =
     update_one_save service_decls UserDevice_schema UserDeviceUpdateOne_checks userdevice_ValidColumn UserDeviceUpdateOne_updateSpec"

section \<open>\<open>UserRoleUpdateOne\<close>\<close>

definition UserRoleUpdateOne_Name :: "(string, 'f :: plus, 'p) field_setters" where
  "UserRoleUpdateOne_Name = setters_of False True False False UserRoleMutation_Name"

definition UserRoleUpdateOne_Description :: "(string, 'f :: plus, 'p) field_setters" where
  "UserRoleUpdateOne_Description = setters_of False True False False UserRoleMutation_Description"

definition UserRoleUpdateOne_UpdatedAt :: "(int, 'f :: plus, 'p) field_setters" where
  "UserRoleUpdateOne_UpdatedAt = setters_of False True False False UserRoleMutation_UpdatedAt"

definition UserRoleUpdateOne_Owner :: "int list \<Rightarrow> ('f, 'p) mutation \<Rightarrow> ('f, 'p) mutation" where
  "UserRoleUpdateOne_Owner = me_AddIDs UserRoleMutation_Owner"

definition UserRoleUpdateOne_ClearOwner :: "(('f, 'p) mutation \<Rightarrow> ('f, 'p) mutation) \<times> (int list \<Rightarrow> ('f, 'p) mutation \<Rightarrow> ('f, 'p) mutation)" where
  "UserRoleUpdateOne_ClearOwner = (me_Clear UserRoleMutation_Owner, me_RemoveIDs UserRoleMutation_Owner)"

definition UserRoleUpdateOne_Permissions :: "int list \<Rightarrow> ('f, 'p) mutation \<Rightarrow> ('f, 'p) mutation" where
  "UserRoleUpdateOne_Permissions = me_AddIDs UserRoleMutation_Permissions"

definition UserRoleUpdateOne_ClearPermissions :: "(('f, 'p) mutation \<Rightarrow> ('f, 'p) mutation) \<times> (int list \<Rightarrow> ('f, 'p) mutation \<Rightarrow> ('f, 'p) mutation)" where
  "UserRoleUpdateOne_ClearPermissions = (me_Clear UserRoleMutation_Permissions, me_RemoveIDs UserRoleMutation_Permissions)"

definition UserRoleUpdateOne_checks :: "check_rule list" where
  "UserRoleUpdateOne_checks = [
    Validator ''name'' ''name'']"

definition UserRoleUpdateOne_fields :: "spec_rule list" where
  "UserRoleUpdateOne_fields = [
    SetF ''name'' TypeString, SetF ''description'' TypeString, SetF ''updated_at'' TypeTime]"

definition UserRoleUpdateOne_edge_Owner :: "('f, 'p) mutation \<Rightarrow> edge_spec list \<times> edge_spec list" where
  "UserRoleUpdateOne_edge_Owner = update_edge UserRole_schema ''owner''
     (EdgeSpec M2M True ''user_user_roles'' [''user_id'', ''user_role_id''] False ''id'')"

definition UserRoleUpdateOne_edge_Permissions :: "('f, 'p) mutation \<Rightarrow> edge_spec list \<times> edge_spec list" where
  "UserRoleUpdateOne_edge_Permissions = update_edge UserRole_schema ''permissions''
     (EdgeSpec M2M True ''role_permission_user_role'' [''role_permission_id'', ''user_role_id''] False ''id'')"

definition UserRoleUpdateOne_updateSpec :: "('f, 'p) mutation \<Rightarrow> ('f, 'p) update_spec" where
  "UserRoleUpdateOne_updateSpec = update_spec_of userrole_package UserRole_schema UserRoleUpdateOne_fields [
    UserRoleUpdateOne_edge_Owner, UserRoleUpdateOne_edge_Permissions]"

definition UserRoleUpdateOne_sqlSave ::
  "('f \<Rightarrow> bool) \<Rightarrow> string list \<Rightarrow> (('f, 'p) update_spec \<Rightarrow> error + 'n) \<Rightarrow> ('f :: plus, 'p) mutation \<Rightarrow>
     error + 'n \<times> ('f, 'p) mutation" where
  "UserRoleUpdateOne_sqlSave =
     update_one_save service_decls UserRole_schema UserRoleUpdateOne_checks userrole_ValidColumn UserRoleUpdateOne_updateSpec"

section \<open>\<open>UserSettingsUpdateOne\<close>\<close>

definition UserSettingsUpdateOne_UUID :: "(string, 'f :: plus, 'p) field_setters" where
  "UserSettingsUpdateOne_UUID = setters_of False True False False UserSettingsMutation_UUID"

definition UserSettingsUpdateOne_TwoFactor :: "(bool, 'f :: plus, 'p) field_setters" where
  "UserSettingsUpdateOne_TwoFactor = setters_of False True False False UserSettingsMutation_TwoFactor"

definition UserSettingsUpdateOne_NightMode :: "(bool, 'f :: plus, 'p) field_setters" where
  "UserSettingsUpdateOne_NightMode = setters_of False True False False UserSettingsMutation_NightMode"

definition UserSettingsUpdateOne_UpdatedAt :: "(int, 'f :: plus, 'p) field_setters" where
  "UserSettingsUpdateOne_UpdatedAt = setters_of False True False False UserSettingsMutation_UpdatedAt"

definition UserSettingsUpdateOne_Owner :: "('f, 'p) unique_edge_setters" where
  "UserSettingsUpdateOne_Owner = unique_setters_of False UserSettingsMutation_Owner"

definition UserSettingsUpdateOne_ClearOwner :: "('f, 'p) mutation \<Rightarrow> ('f, 'p) mutation" where
  "UserSettingsUpdateOne_ClearOwner = ue_Clear UserSettingsMutation_Owner"

definition UserSettingsUpdateOne_SecondFactorTarget :: "('f, 'p) unique_edge_setters" where
  "UserSettingsUpdateOne_SecondFactorTarget = unique_setters_of True UserSettingsMutation_SecondFactorTarget"

definition UserSettingsUpdateOne_ClearSecondFactorTarget :: "('f, 'p) mutation \<Rightarrow> ('f, 'p) mutation" where
  "UserSettingsUpdateOne_ClearSecondFactorTarget = ue_Clear UserSettingsMutation_SecondFactorTarget"

definition UserSettingsUpdateOne_NotificationTargetDevices :: "int list \<Rightarrow> ('f, 'p) mutation \<Rightarrow> ('f, 'p) mutation" where
  "UserSettingsUpdateOne_NotificationTargetDevices = me_AddIDs UserSettingsMutation_NotificationTargetDevices"

definition UserSettingsUpdateOne_ClearNotificationTargetDevices :: "(('f, 'p) mutation \<Rightarrow> ('f, 'p) mutation) \<times> (int list \<Rightarrow> ('f, 'p) mutation \<Rightarrow> ('f, 'p) mutation)" where
  "UserSettingsUpdateOne_ClearNotificationTargetDevices = (me_Clear UserSettingsMutation_NotificationTargetDevices, me_RemoveIDs UserSettingsMutation_NotificationTargetDevices)"

definition UserSettingsUpdateOne_checks :: "check_rule list" where
  "UserSettingsUpdateOne_checks = [
    Validator ''uuid'' ''UUID'', ClearingEdge ''owner'']"

definition UserSettingsUpdateOne_fields :: "spec_rule list" where
  "UserSettingsUpdateOne_fields = [
    SetF ''uuid'' TypeString, SetF ''two_factor'' TypeBool, SetF ''night_mode'' TypeBool, SetF ''updated_at'' TypeTime]"

definition UserSettingsUpdateOne_edge_Owner :: "('f, 'p) mutation \<Rightarrow> edge_spec list \<times> edge_spec list" where
  "UserSettingsUpdateOne_edge_Owner = update_edge UserSettings_schema ''owner''
     (EdgeSpec O2O True ''user_settings'' [''user_user_settings''] False ''id'')"

definition UserSettingsUpdateOne_edge_SecondFactorTarget :: "('f, 'p) mutation \<Rightarrow> edge_spec list \<times> edge_spec list" where
  "UserSettingsUpdateOne_edge_SecondFactorTarget = update_edge UserSettings_schema ''second_factor_target''
     (EdgeSpec O2O False ''user_devices'' [''user_settings_second_factor_target''] False ''id'')"

definition UserSettingsUpdateOne_edge_NotificationTargetDevices :: "('f, 'p) mutation \<Rightarrow> edge_spec list \<times> edge_spec list" where
  "UserSettingsUpdateOne_edge_NotificationTargetDevices = update_edge UserSettings_schema ''notification_target_devices''
     (EdgeSpec O2M False ''user_devices'' [''user_settings_notification_target_devices''] False ''id'')"

definition UserSettingsUpdateOne_updateSpec :: "('f, 'p) mutation \<Rightarrow> ('f, 'p) update_spec" where
  "UserSettingsUpdateOne_updateSpec = update_spec_of usersettings_package UserSettings_schema UserSettingsUpdateOne_fields [
    UserSettingsUpdateOne_edge_Owner, UserSettingsUpdateOne_edge_SecondFactorTarget,
    UserSettingsUpdateOne_edge_NotificationTargetDevices]"

definition UserSettingsUpdateOne_sqlSave ::
  "('f \<Rightarrow> bool) \<Rightarrow> string list \<Rightarrow> (('f, 'p) update_spec \<Rightarrow> error + 'n) \<Rightarrow> ('f :: plus, 'p) mutation \<Rightarrow>
     error + 'n \<times> ('f, 'p) mutation" where
  "UserSettingsUpdateOne_sqlSave =
     update_one_save service_decls UserSettings_schema UserSettingsUpdateOne_checks usersettings_ValidColumn UserSettingsUpdateOne_updateSpec"

section \<open>\<open>VerificationCodeUpdateOne\<close>\<close>

definition VerificationCodeUpdateOne_Code :: "(string, 'f :: plus, 'p) field_setters" where
  "VerificationCodeUpdateOne_Code = setters_of False True False False VerificationCodeMutation_Code"

definition VerificationCodeUpdateOne_CreatedAt :: "(int, 'f :: plus, 'p) field_setters" where
  "VerificationCodeUpdateOne_CreatedAt = setters_of False True False False VerificationCodeMutation_CreatedAt"

definition VerificationCodeUpdateOne_UpdatedAt :: "(int, 'f :: plus, 'p) field_setters" where
  "VerificationCodeUpdateOne_UpdatedAt = setters_of False True False False VerificationCodeMutation_UpdatedAt"

definition VerificationCodeUpdateOne_ExpiresAt :: "(int, 'f :: plus, 'p) field_setters" where
  "VerificationCodeUpdateOne_ExpiresAt = setters_of False True False False VerificationCodeMutation_ExpiresAt"

definition VerificationCodeUpdateOne_Owner :: "('f, 'p) unique_edge_setters" where
  "VerificationCodeUpdateOne_Owner = unique_setters_of False VerificationCodeMutation_Owner"

definition VerificationCodeUpdateOne_ClearOwner :: "('f, 'p) mutation \<Rightarrow> ('f, 'p) mutation" where
  "VerificationCodeUpdateOne_ClearOwner = ue_Clear VerificationCodeMutation_Owner"

definition VerificationCodeUpdateOne_checks :: "check_rule list" where
  "VerificationCodeUpdateOne_checks = [
    Validator ''code'' ''code'', ClearingEdge ''owner'']"

definition VerificationCodeUpdateOne_fields :: "spec_rule list" where
  "VerificationCodeUpdateOne_fields = [
    SetF ''code'' TypeString, SetF ''created_at'' TypeTime, SetF ''updated_at'' TypeTime, SetF ''expires_at'' TypeTime]"

definition VerificationCodeUpdateOne_edge_Owner :: "('f, 'p) mutation \<Rightarrow> edge_spec list \<times> edge_spec list" where
  "VerificationCodeUpdateOne_edge_Owner = update_edge VerificationCode_schema ''owner''
     (EdgeSpec O2O True ''verification_codes'' [''user_verification_code''] False ''id'')"

definition VerificationCodeUpdateOne_updateSpec :: "('f, 'p) mutation \<Rightarrow> ('f, 'p) update_spec" where
  "VerificationCodeUpdateOne_updateSpec = update_spec_of verificationcode_package VerificationCode_schema VerificationCodeUpdateOne_fields [
    VerificationCodeUpdateOne_edge_Owner]"

definition VerificationCodeUpdateOne_sqlSave ::
  "('f \<Rightarrow> bool) \<Rightarrow> string list \<Rightarrow> (('f, 'p) update_spec \<Rightarrow> error + 'n) \<Rightarrow> ('f :: plus, 'p) mutation \<Rightarrow>
     error + 'n \<times> ('f, 'p) mutation" where
  "VerificationCodeUpdateOne_sqlSave =
     update_one_save service_decls VerificationCode_schema VerificationCodeUpdateOne_checks verificationcode_ValidColumn VerificationCodeUpdateOne_updateSpec"

end
