(* ===== verification/Ent_Refinement.thy ===== *)
theory Ent_Refinement imports Query_Predicates Ent_Create Ent_Update Ent_Update_One begin

text \<open>
  The generated builders and the statements of theory Ent_Client: creating and updating a user
  through the generated setters, hook, checks and specification does to the row of the user what
  the model of the repository does. What the database does with a specification is written down
  here: the columns of a new row, and the columns a SET clause replaces.
\<close>

section \<open>Rows from specifications\<close>

fun apply_sets :: "'f column_value list \<Rightarrow> 'f ent_row \<Rightarrow> 'f ent_row" where
  "apply_sets [] row = row"
| "apply_sets ((c, t, v) # sets) row = apply_sets sets (row(c := v))"

lemma apply_sets_append [simp]: "apply_sets (xs @ ys) row = apply_sets ys (apply_sets xs row)"
  by (induction xs arbitrary: row) auto

definition node_row :: "int \<Rightarrow> 'f create_spec \<Rightarrow> 'f ent_row" where
  "node_row i spec = (apply_sets (cs_fields spec) (\<lambda>c. VNil))(''id'' := VInt i)"

lemma apply_set_rule [simp]:
  "apply_sets (set_rule m (SetF c t)) row = row(c := or_keep (mu_values m c) (row c))"
  by (auto simp: or_keep_def split: option.split)

lemma user_columns_update [simp]:
  "user_columns (u\<lparr>u_mail := s\<rparr>) = (user_columns u)(''mail'' := VString s)"
  "user_columns (u\<lparr>u_phone := p\<rparr>) = (user_columns u)(''phone'' := or_nil VString p)"
  "user_columns (u\<lparr>u_password := s\<rparr>) = (user_columns u)(''password'' := VString s)"
  "user_columns (u\<lparr>u_active := b\<rparr>) = (user_columns u)(''active'' := VBool b)"
  "user_columns (u\<lparr>u_verified := b\<rparr>) = (user_columns u)(''verified'' := VBool b)"
  "user_columns (u\<lparr>u_removed := b\<rparr>) = (user_columns u)(''removed'' := VBool b)"
  "user_columns (u\<lparr>u_subscription_ids := is\<rparr>) = (user_columns u)(''subscription_ids'' := VInts is)"
  "user_columns (u\<lparr>u_updated_at := t\<rparr>) = (user_columns u)(''updated_at'' := VTime t)"
  by (auto simp: user_columns_def columns_row_def fun_eq_iff)

section \<open>Updating a user\<close>

text \<open>The calls of the builder a \<open>user_update\<close> of the model stands for.\<close>

definition update_mutation :: "error + 'f ent_row \<Rightarrow> user_update \<Rightarrow> int \<Rightarrow> ('f :: plus, 'p) mutation" where
  "update_mutation query b i =
     (let m0 = withUserID query i (newUserMutation OpUpdateOne);
          m1 = unless_nil (st_Set UserUpdateOne_Mail) (uu_mail b) m0;
          m2 = unless_nil (st_Set UserUpdateOne_Phone) (uu_phone b) m1;
          m3 = unless_nil (st_Set UserUpdateOne_Password) (uu_password b) m2;
          m4 = unless_nil (st_Set UserUpdateOne_Active) (uu_active b) m3;
          m5 = unless_nil (st_Set UserUpdateOne_Verified) (uu_verified b) m4;
          m6 = unless_nil (st_Set UserUpdateOne_Removed) (uu_removed b) m5;
          m7 = unless_nil (st_Set UserUpdateOne_SubscriptionIds) (uu_subscription_ids b) m6;
          m8 = (if uu_remove_roles b = [] then m7 else snd UserUpdateOne_ClearUserRoles (uu_remove_roles b) m7);
          m9 = (if uu_add_roles b = [] then m8 else UserUpdateOne_UserRoles (uu_add_roles b) m8)
      in if uu_clear_second_factor b then UserUpdateOne_ClearSecondFactorCode m9 else m9)"

lemma user_fields [simp]:
  "field_of User_schema ''mail'' = plain ''mail'' ''Mail'' GoString"
  "field_of User_schema ''phone'' = nullable ''phone'' ''Phone'' GoString"
  "field_of User_schema ''password'' = plain ''password'' ''Password'' GoString"
  "field_of User_schema ''active'' = plain ''active'' ''Active'' GoBool"
  "field_of User_schema ''verified'' = plain ''verified'' ''Verified'' GoBool"
  "field_of User_schema ''blacklisted'' = plain ''blacklisted'' ''Blacklisted'' GoBool"
  "field_of User_schema ''removed'' = plain ''removed'' ''Removed'' GoBool"
  "field_of User_schema ''subscription_ids'' = plain ''subscription_ids'' ''SubscriptionIds'' GoInts"
  "field_of User_schema ''team_ids'' = plain ''team_ids'' ''TeamIds'' GoInts"
  "field_of User_schema ''organization_ids'' = plain ''organization_ids'' ''OrganizationIds'' GoInts"
  by code_simp+

lemma user_edges [simp]:
  "edge_of User_schema ''user_details'' = one ''user_details''" "edge_of User_schema ''user_settings'' = one ''user_settings''"
  "edge_of User_schema ''activation_code'' = one ''activation_code''"
  "edge_of User_schema ''verification_code'' = one ''verification_code''"
  "edge_of User_schema ''second_factor_code'' = one ''second_factor_code''"
  "edge_of User_schema ''reset_code'' = one ''reset_code''" "edge_of User_schema ''user_devices'' = many ''user_devices''"
  "edge_of User_schema ''user_actions'' = many ''user_actions''" "edge_of User_schema ''user_roles'' = many ''user_roles''"
  "edge_of User_schema ''blacklisted_tokens'' = many ''blacklisted_tokens''"
  by code_simp+

definition opt_upd :: "string \<Rightarrow> 'v option \<Rightarrow> (string \<rightharpoonup> 'v) \<Rightarrow> (string \<rightharpoonup> 'v)" where
  "opt_upd c v vs = (case v of None \<Rightarrow> vs | Some x \<Rightarrow> vs(c \<mapsto> x))"

lemma opt_upd_apply [simp]: "opt_upd c v vs k = (if k = c \<and> v \<noteq> None then v else vs k)"
  by (auto simp: opt_upd_def split: option.split)

named_theorems setter_defs "the setters of a user in terms of the mutation"

lemma set_in_update:
  "\<not> fs_numeric f \<Longrightarrow> \<not> fs_appends f \<Longrightarrow>
     unless_nil (st_Set (setters_of False nil add clr (field_methods mk un f))) v m =
     mu_values_update (opt_upd (fs_name f) (map_option mk v)) m"
  by (cases v) (simp_all add: unless_nil_def setters_of_def field_methods_def Let_def set_field_def opt_upd_def)

lemma user_setters [setter_defs]:
  "unless_nil (st_Set UserUpdateOne_Mail) s m = mu_values_update (opt_upd ''mail'' (map_option VString s)) m"
  "unless_nil (st_Set UserUpdateOne_Phone) s m = mu_values_update (opt_upd ''phone'' (map_option VString s)) m"
  "unless_nil (st_Set UserUpdateOne_Password) s m = mu_values_update (opt_upd ''password'' (map_option VString s)) m"
  "unless_nil (st_Set UserUpdateOne_Active) c m = mu_values_update (opt_upd ''active'' (map_option VBool c)) m"
  "unless_nil (st_Set UserUpdateOne_Verified) c m = mu_values_update (opt_upd ''verified'' (map_option VBool c)) m"
  "unless_nil (st_Set UserUpdateOne_Removed) c m = mu_values_update (opt_upd ''removed'' (map_option VBool c)) m"
  by (simp_all add: UserUpdateOne_Mail_def UserMutation_Mail_def UserUpdateOne_Phone_def UserMutation_Phone_def
      UserUpdateOne_Password_def UserMutation_Password_def UserUpdateOne_Active_def UserMutation_Active_def
      UserUpdateOne_Verified_def UserMutation_Verified_def UserUpdateOne_Removed_def UserMutation_Removed_def
      string_field_def bool_field_def set_in_update plain_def nullable_def field_schema_of_def)

lemma subscription_setter [setter_defs]:
  "mu_added m = Map.empty \<Longrightarrow> unless_nil (st_Set UserUpdateOne_SubscriptionIds) is m =
     mu_values_update (opt_upd ''subscription_ids'' (map_option VInts is)) m"
  by (cases "is") (simp_all add: UserUpdateOne_SubscriptionIds_def UserMutation_SubscriptionIds_def ints_field_def unless_nil_def
      setters_of_def field_methods_def Let_def set_field_def opt_upd_def plain_def field_schema_of_def)

lemma role_setters [setter_defs]:
  "UserUpdateOne_UserRoles ids m = add_edges (many ''user_roles'') ids m"
  "snd UserUpdateOne_ClearUserRoles ids m = remove_edges (many ''user_roles'') ids m"
  "UserUpdateOne_ClearSecondFactorCode m = clear_edge (one ''second_factor_code'') m"
  by (simp_all add: UserUpdateOne_UserRoles_def UserUpdateOne_ClearUserRoles_def UserUpdateOne_ClearSecondFactorCode_def
      UserMutation_UserRoles_def UserMutation_SecondFactorCode_def many_edge_def unique_edge_def Let_def)

definition update_values :: "user_update \<Rightarrow> string \<rightharpoonup> 'f ent_value" where
  "update_values b = opt_upd ''subscription_ids'' (map_option VInts (uu_subscription_ids b))
     (opt_upd ''removed'' (map_option VBool (uu_removed b)) (opt_upd ''verified'' (map_option VBool (uu_verified b))
     (opt_upd ''active'' (map_option VBool (uu_active b)) (opt_upd ''password'' (map_option VString (uu_password b))
     (opt_upd ''phone'' (map_option VString (uu_phone b)) (opt_upd ''mail'' (map_option VString (uu_mail b)) Map.empty))))))"

lemma update_mutation_form:
  "update_mutation query b i = \<lparr>mu_op = OpUpdateOne, mu_typ = ''User'', mu_id = Some i, mu_values = update_values b,
     mu_added = Map.empty, mu_cleared = {}, mu_edge = Map.empty,
     mu_edges = (if uu_add_roles b = [] then Map.empty else [''user_roles'' \<mapsto> set (uu_add_roles b)]),
     mu_removed = (if uu_remove_roles b = [] then Map.empty else [''user_roles'' \<mapsto> set (uu_remove_roles b)]),
     mu_cleared_edges = (if uu_clear_second_factor b then {''second_factor_code''} else {}),
     mu_done = False, mu_old = OldQuery query None, mu_predicates = []\<rparr>"
  by (simp add: update_mutation_def Let_def setter_defs withUserID_def with_id_def newUserMutation_def new_mutation_def
      User_schema_def update_values_def add_edges_def remove_edges_def clear_edge_def many_def one_def set_or_empty_def)

text \<open>The hook of the users on an update.\<close>

lemma user_hook_update:
  "mu_op m = OpUpdateOne \<Longrightarrow> time_hook User_schema now1 now2 m = Inr (m\<lparr>mu_values := (mu_values m)(''updated_at'' \<mapsto> VTime now1)\<rparr>)"
proof -
  have "field_named User_schema ''updated_at'' = Some (plain ''updated_at'' ''UpdatedAt'' GoTime)" by code_simp
  then show "mu_op m = OpUpdateOne \<Longrightarrow> ?thesis"
    by (simp add: time_hook_def mutation_SetField_def set_field_def plain_def field_schema_of_def)
qed

lemma user_validators:
  "field_valid positive service_decls ''User'' ''mail'' (VString s) = (s \<noteq> [])"
  "field_valid positive service_decls ''User'' ''password'' (VString s) = (s \<noteq> [])"
proof -
  have "declared_field service_decls ''User'' ''mail'' = Some (declare_field DString ''mail'' [NotEmpty, Unique, Tag ''mail''])"
    "declared_field service_decls ''User'' ''password'' = Some (declare_field DString ''password'' [Tag ''-'', NotEmpty, Unique])"
    by code_simp+
  then show "field_valid positive service_decls ''User'' ''mail'' (VString s) = (s \<noteq> [])"
    "field_valid positive service_decls ''User'' ''password'' (VString s) = (s \<noteq> [])"
    by (simp_all add: field_valid_def declare_field_def)
qed

definition saved_update :: "error + 'f ent_row \<Rightarrow> user_update \<Rightarrow> int \<Rightarrow> int \<Rightarrow> ('f :: plus, 'p) mutation" where
  "saved_update query b i now = (update_mutation query b i)\<lparr>mu_values := (update_values b)(''updated_at'' \<mapsto> VTime now)\<rparr>"

lemma saved_update_fields [simp]:
  "mu_values (saved_update query b i now) = (update_values b)(''updated_at'' \<mapsto> VTime now)"
  "mu_id (saved_update query b i now) = Some i" "mu_cleared (saved_update query b i now) = {}"
  "mu_added (saved_update query b i now) = Map.empty" "mu_predicates (saved_update query b i now) = []"
  "mu_edge (saved_update query b i now) = Map.empty"
  "mu_edges (saved_update query b i now) = (if uu_add_roles b = [] then Map.empty else [''user_roles'' \<mapsto> set (uu_add_roles b)])"
  "mu_removed (saved_update query b i now) =
     (if uu_remove_roles b = [] then Map.empty else [''user_roles'' \<mapsto> set (uu_remove_roles b)])"
  "mu_cleared_edges (saved_update query b i now) = (if uu_clear_second_factor b then {''second_factor_code''} else {})"
  by (simp_all add: saved_update_def update_mutation_form)

lemma saved_update_checks:
  "run_checks positive service_decls User_schema UserUpdateOne_checks (saved_update query b i now) = UserUpdateOne_check b"
  by (cases "uu_mail b"; cases "uu_password b")
    (simp_all add: UserUpdateOne_checks_def UserUpdateOne_check_def update_values_def user_validators User_schema_def
      valid_def NotEmpty_def)

lemma apply_sets_rules [simp]:
  "apply_sets (concat (map (set_rule m) (r # rules))) row = apply_sets (concat (map (set_rule m) rules)) (apply_sets (set_rule m r) row)"
  by simp

lemma update_values_at [simp]:
  "update_values b ''mail'' = map_option VString (uu_mail b)" "update_values b ''phone'' = map_option VString (uu_phone b)"
  "update_values b ''password'' = map_option VString (uu_password b)" "update_values b ''active'' = map_option VBool (uu_active b)"
  "update_values b ''verified'' = map_option VBool (uu_verified b)" "update_values b ''blacklisted'' = None"
  "update_values b ''removed'' = map_option VBool (uu_removed b)" "update_values b ''updated_at'' = None"
  "update_values b ''subscription_ids'' = map_option VInts (uu_subscription_ids b)"
  "update_values b ''team_ids'' = None" "update_values b ''organization_ids'' = None" "update_values b ''created_at'' = None"
  by (simp_all add: update_values_def)

lemma or_keep_simps [simp]: "or_keep None old = old" "or_keep (Some x) old = x"
  by (simp_all add: or_keep_def)

lemma or_keep_map [simp]: "or_keep (map_option mk v) (mk x) = mk (or_keep v x)"
  by (cases v) simp_all

lemma or_keep_phone [simp]:
  "or_keep (map_option VString v) (or_nil VString old) = or_nil VString (case v of None \<Rightarrow> old | Some p \<Rightarrow> Some p)"
  by (cases v) (simp_all add: or_nil_def)

lemma more_user_columns [simp]:
  "user_columns u ''password'' = VString (u_password u)" "user_columns u ''active'' = VBool (u_active u)"
  "user_columns u ''verified'' = VBool (u_verified u)" "user_columns u ''subscription_ids'' = VInts (u_subscription_ids u)"
  "user_columns u ''team_ids'' = VInts (u_team_ids u)" "user_columns u ''organization_ids'' = VInts (u_organization_ids u)"
  by (simp_all add: user_columns_def columns_row_def)

lemma map_nil_rules [simp]: "concat (map f []) = []"
  by simp

lemma apply_unset: "mu_values m c = None \<Longrightarrow> apply_sets (set_rule m (SetF c t)) row = row"
  by simp

lemma no_sets [simp]: "set_rule m (AppendF c) = []" "set_rule m (ClearF c t) = []" "set_rule m (AddF c t) = []"
  by simp_all

lemma saved_update_row:
  "apply_sets (us_set (UserUpdateOne_updateSpec (saved_update query b i now :: ('f :: plus, 'p) mutation))) (user_columns u) =
     user_columns (apply_user_update b now u)"
proof -
  let ?m = "saved_update query b i now :: ('f, 'p) mutation"
  have "us_set (UserUpdateOne_updateSpec ?m) = concat (map (set_rule ?m) UserUpdateOne_fields)"
    by (simp add: UserUpdateOne_updateSpec_def update_spec_of_def)
  moreover have "apply_sets (concat (map (set_rule ?m) UserUpdateOne_fields)) (user_columns u) =
      (user_columns u)(''mail'' := VString (or_keep (uu_mail b) (u_mail u)),
        ''phone'' := or_nil VString (case uu_phone b of None \<Rightarrow> u_phone u | Some p \<Rightarrow> Some p),
        ''password'' := VString (or_keep (uu_password b) (u_password u)), ''active'' := VBool (or_keep (uu_active b) (u_active u)),
        ''verified'' := VBool (or_keep (uu_verified b) (u_verified u)), ''removed'' := VBool (or_keep (uu_removed b) (u_removed u)),
        ''updated_at'' := VTime now, ''subscription_ids'' := VInts (or_keep (uu_subscription_ids b) (u_subscription_ids u)))"
    unfolding UserUpdateOne_fields_def
    by (rule ext) (simp del: set_rule.simps(1) list.map concat.simps)
  moreover have "(user_columns (apply_user_update b now u) :: 'f ent_row) =
      (user_columns u)(''mail'' := VString (or_keep (uu_mail b) (u_mail u)),
        ''phone'' := or_nil VString (case uu_phone b of None \<Rightarrow> u_phone u | Some p \<Rightarrow> Some p),
        ''password'' := VString (or_keep (uu_password b) (u_password u)), ''active'' := VBool (or_keep (uu_active b) (u_active u)),
        ''verified'' := VBool (or_keep (uu_verified b) (u_verified u)), ''removed'' := VBool (or_keep (uu_removed b) (u_removed u)),
        ''updated_at'' := VTime now, ''subscription_ids'' := VInts (or_keep (uu_subscription_ids b) (u_subscription_ids u)))"
    by (rule ext) (simp add: apply_user_update_def user_columns_def columns_row_def)
  ultimately show ?thesis by simp
qed

text \<open>The edges of the specification: the roles added and removed, the second-factor code cleared.\<close>

definition roles_edge :: "edge_spec" where
  "roles_edge = EdgeSpec M2M False ''user_user_roles'' [''user_id'', ''user_role_id''] False ''id''"

definition second_factor_edge :: "edge_spec" where
  "second_factor_edge = EdgeSpec O2O False ''second_factor_codes'' [''user_second_factor_code''] False ''id''"

lemmas user_update_edge_defs = UserUpdateOne_edge_UserDetails_def UserUpdateOne_edge_UserSettings_def
  UserUpdateOne_edge_ActivationCode_def UserUpdateOne_edge_VerificationCode_def UserUpdateOne_edge_SecondFactorCode_def
  UserUpdateOne_edge_ResetCode_def UserUpdateOne_edge_UserDevices_def UserUpdateOne_edge_UserActions_def
  UserUpdateOne_edge_UserRoles_def UserUpdateOne_edge_BlacklistedTokens_def

lemma saved_update_edges:
  "us_edges_add (UserUpdateOne_updateSpec (saved_update query b i now)) =
     (if uu_add_roles b = [] then [] else [roles_edge\<lparr>ep_nodes := set (uu_add_roles b)\<rparr>])"
  "us_edges_clear (UserUpdateOne_updateSpec (saved_update query b i now)) =
     (if uu_clear_second_factor b then [second_factor_edge] else []) @
     (if uu_remove_roles b = [] then [] else [roles_edge\<lparr>ep_nodes := set (uu_remove_roles b)\<rparr>])"
  by (simp_all add: UserUpdateOne_updateSpec_def update_spec_of_def user_update_edge_defs update_edge_def Let_def one_def
      many_def edge_ids_def removed_ids_def edge_cleared_def set_or_empty_def roles_edge_def second_factor_edge_def)

lemma saved_update_rest:
  "us_cleared (UserUpdateOne_updateSpec (saved_update query b i now)) = []"
  "us_added (UserUpdateOne_updateSpec (saved_update query b i now)) = []"
  "us_appended (UserUpdateOne_updateSpec (saved_update query b i now)) = []"
  "us_predicates (UserUpdateOne_updateSpec (saved_update query b i now)) = []"
  "us_table (UserUpdateOne_updateSpec (saved_update query b i now)) = ''users''"
  by (simp_all add: UserUpdateOne_updateSpec_def update_spec_of_def UserUpdateOne_fields_def added_field_def user_package_def
      plain_def field_schema_of_def)

text \<open>C20: updating a user through the generated builder is the update of the model: with the calls of
  the builder an update stands for, the save refuses exactly what the check of the model refuses,
  with its error; otherwise the statement it hands over addresses the row of that user, its SET
  clause turns the row into the updated row of the model, and its edges are the roles to add and to
  remove and the second-factor code to clear.\<close>

theorem user_update_builder_refines:
  "\<exists>(spec :: ('f, 'p) update_spec) m'.
     with_hooks User_schema now later (UserUpdateOne_sqlSave positive [] Inr) (update_mutation query b i :: ('f :: plus, 'p) mutation) =
       (case UserUpdateOne_check b of Some err \<Rightarrow> Inl err | None \<Rightarrow> Inr (spec, m')) \<and>
     us_table spec = ''users'' \<and> us_id spec = Some i \<and> us_predicates spec = [] \<and>
     us_cleared spec = [] \<and> us_added spec = [] \<and> us_appended spec = [] \<and>
     (\<forall>u. apply_sets (us_set spec) (user_columns u) = user_columns (apply_user_update b now u)) \<and>
     us_edges_add spec = (if uu_add_roles b = [] then [] else [roles_edge\<lparr>ep_nodes := set (uu_add_roles b)\<rparr>]) \<and>
     us_edges_clear spec = (if uu_clear_second_factor b then [second_factor_edge] else []) @
       (if uu_remove_roles b = [] then [] else [roles_edge\<lparr>ep_nodes := set (uu_remove_roles b)\<rparr>])"
proof -
  let ?m = "saved_update query b i now :: ('f, 'p) mutation"
  let ?spec = "UserUpdateOne_updateSpec ?m"
  have "mu_op (update_mutation query b i :: ('f, 'p) mutation) = OpUpdateOne"
    "mu_values (update_mutation query b i :: ('f, 'p) mutation) = update_values b"
    by (simp_all add: update_mutation_form)
  then have "time_hook User_schema now later (update_mutation query b i) = Inr ?m"
    by (simp add: user_hook_update saved_update_def)
  then have "with_hooks User_schema now later (UserUpdateOne_sqlSave positive [] Inr) (update_mutation query b i) =
      (case UserUpdateOne_check b of Some err \<Rightarrow> Inl err
       | None \<Rightarrow> Inr (?spec\<lparr>us_id := Some i\<rparr>, ?m\<lparr>mu_done := True\<rparr>))"
    by (simp add: with_hooks_def UserUpdateOne_sqlSave_def update_one_save_def saved_update_checks selected_columns_def
        split: option.split)
  then show ?thesis
    by (intro exI[of _ "?spec\<lparr>us_id := Some i\<rparr>"] exI[of _ "?m\<lparr>mu_done := True\<rparr>"])
      (simp add: saved_update_row saved_update_edges saved_update_rest)
qed

section \<open>Creating a user\<close>

lemmas user_create_edge_defs = UserCreate_edge_UserDetails_def UserCreate_edge_UserSettings_def
  UserCreate_edge_ActivationCode_def UserCreate_edge_VerificationCode_def UserCreate_edge_SecondFactorCode_def
  UserCreate_edge_ResetCode_def UserCreate_edge_UserDevices_def UserCreate_edge_UserActions_def
  UserCreate_edge_UserRoles_def UserCreate_edge_BlacklistedTokens_def

definition create_mutation :: "user_create \<Rightarrow> ('f :: plus, 'p) mutation" where
  "create_mutation b = unless_nil (st_Set UserCreate_Password) (uc_password b)
     (unless_nil (st_Set UserCreate_Mail) (uc_mail b) (newUserMutation OpCreate))"

lemma create_setters [setter_defs]:
  "unless_nil (st_Set UserCreate_Mail) s m = mu_values_update (opt_upd ''mail'' (map_option VString s)) m"
  "unless_nil (st_Set UserCreate_Password) s m = mu_values_update (opt_upd ''password'' (map_option VString s)) m"
  by (simp_all add: UserCreate_Mail_def UserMutation_Mail_def UserCreate_Password_def UserMutation_Password_def
      string_field_def set_in_update plain_def field_schema_of_def)

definition created_values :: "user_create \<Rightarrow> int \<Rightarrow> int \<Rightarrow> string \<rightharpoonup> 'f ent_value" where
  "created_values b now1 now2 = (opt_upd ''password'' (map_option VString (uc_password b))
     (opt_upd ''mail'' (map_option VString (uc_mail b)) Map.empty))
     (''active'' \<mapsto> VBool False, ''verified'' \<mapsto> VBool False, ''blacklisted'' \<mapsto> VBool False, ''removed'' \<mapsto> VBool False,
      ''subscription_ids'' \<mapsto> VInts [], ''team_ids'' \<mapsto> VInts [], ''organization_ids'' \<mapsto> VInts [],
      ''created_at'' \<mapsto> VTime now1, ''updated_at'' \<mapsto> VTime now2)"

lemma user_hook_create:
  "mu_op m = OpCreate \<Longrightarrow> time_hook User_schema now1 now2 m =
     Inr (m\<lparr>mu_values := (mu_values m)(''created_at'' \<mapsto> VTime now1, ''updated_at'' \<mapsto> VTime now2)\<rparr>)"
proof -
  have "field_named User_schema ''updated_at'' = Some (plain ''updated_at'' ''UpdatedAt'' GoTime)"
    "field_named User_schema ''created_at'' = Some (plain ''created_at'' ''CreatedAt'' GoTime)" by code_simp+
  then show "mu_op m = OpCreate \<Longrightarrow> ?thesis"
    by (simp add: time_hook_def mutation_SetField_def set_field_def plain_def field_schema_of_def)
qed

lemma created_mutation:
  "time_hook User_schema now1 now2 (run_defaults User_schema clock start UserCreate_defaults (create_mutation b :: ('f :: plus, 'p) mutation)) =
     Inr ((newUserMutation OpCreate)\<lparr>mu_values := created_values b now1 now2\<rparr>)"
proof -
  have "run_defaults User_schema clock start UserCreate_defaults (create_mutation b :: ('f :: plus, 'p) mutation) =
      (newUserMutation OpCreate)\<lparr>mu_values := (opt_upd ''password'' (map_option VString (uc_password b))
        (opt_upd ''mail'' (map_option VString (uc_mail b)) Map.empty))
        (''active'' \<mapsto> VBool False, ''verified'' \<mapsto> VBool False, ''blacklisted'' \<mapsto> VBool False, ''removed'' \<mapsto> VBool False,
         ''subscription_ids'' \<mapsto> VInts [], ''team_ids'' \<mapsto> VInts [], ''organization_ids'' \<mapsto> VInts [])\<rparr>"
    by (simp add: UserCreate_defaults_def create_mutation_def setter_defs newUserMutation_def new_mutation_def set_field_def
        plain_def field_schema_of_def)
  then show ?thesis
    by (simp add: user_hook_create newUserMutation_def new_mutation_def created_values_def)
qed

lemma created_checks:
  "run_checks positive service_decls User_schema UserCreate_checks ((newUserMutation OpCreate)\<lparr>mu_values := created_values b now1 now2\<rparr>) =
     UserCreate_check b"
  by (cases "uc_mail b"; cases "uc_password b")
    (simp_all add: UserCreate_checks_def UserCreate_check_def created_values_def user_validators User_schema_def
      valid_def required_def NotEmpty_def)

lemma created_spec:
  "cs_table (UserCreate_createSpec ((newUserMutation OpCreate)\<lparr>mu_values := vs\<rparr>)) = ''users''"
  "cs_edges (UserCreate_createSpec ((newUserMutation OpCreate)\<lparr>mu_values := vs\<rparr>)) = []"
  by (simp_all add: UserCreate_createSpec_def create_spec_of_def user_create_edge_defs create_edge_def edge_ids_def Let_def
      newUserMutation_def new_mutation_def one_def many_def set_or_empty_def)

lemma created_row:
  assumes "UserCreate_check b = None"
  shows "node_row i (UserCreate_createSpec ((newUserMutation OpCreate)\<lparr>mu_values := created_values b now1 now2\<rparr>)) =
    user_columns (new_user_row b now1 now2 i)"
proof -
  obtain mail password where "uc_mail b = Some mail" "uc_password b = Some password"
    using assms by (cases "uc_mail b"; cases "uc_password b") (auto simp: UserCreate_check_def required_def valid_def split: if_splits)
  then show ?thesis
    by (intro ext) (simp add: node_row_def UserCreate_createSpec_def create_spec_of_def UserCreate_fields_def created_values_def
        new_user_row_def user_columns_def columns_row_def or_nil_def)
qed

text \<open>C21: creating a user through the generated builder is the insertion of the model: once the
  defaults are set and the hook has run, the save refuses exactly what the check of the model
  refuses, with its error; otherwise it hands over one node of the table of the users, without
  edges, whose columns under any new id are the columns of the new row of the model, and it answers
  what the insertion answers.\<close>

theorem user_create_builder_refines:
  "case UserCreate_check b of
     Some err \<Rightarrow> with_hooks User_schema now1 now2 (UserCreate_sqlSave positive insert_node)
       (run_defaults User_schema clock start UserCreate_defaults (create_mutation b :: ('f :: plus, 'p) mutation)) = Inl err
   | None \<Rightarrow> (\<exists>spec. cs_table spec = ''users'' \<and> cs_edges spec = [] \<and>
       (\<forall>i. node_row i spec = user_columns (new_user_row b now1 now2 i)) \<and>
       map_sum id fst (with_hooks User_schema now1 now2 (UserCreate_sqlSave positive insert_node)
         (run_defaults User_schema clock start UserCreate_defaults (create_mutation b :: ('f, 'p) mutation))) =
       insert_node spec)"
proof -
  let ?m = "(newUserMutation OpCreate)\<lparr>mu_values := created_values b now1 now2\<rparr> :: ('f, 'p) mutation"
  have saved: "with_hooks User_schema now1 now2 (UserCreate_sqlSave positive insert_node)
      (run_defaults User_schema clock start UserCreate_defaults (create_mutation b)) =
      (case UserCreate_check b of Some err \<Rightarrow> Inl err
       | None \<Rightarrow> (case insert_node (UserCreate_createSpec ?m) of
           Inl err \<Rightarrow> Inl err | Inr i \<Rightarrow> Inr (i, ?m\<lparr>mu_id := Some i, mu_done := True\<rparr>)))"
    by (simp add: with_hooks_def created_mutation UserCreate_sqlSave_def create_save_def created_checks)
  show ?thesis
  proof (cases "UserCreate_check b")
    case None
    have "map_sum id fst (with_hooks User_schema now1 now2 (UserCreate_sqlSave positive insert_node)
        (run_defaults User_schema clock start UserCreate_defaults (create_mutation b :: ('f, 'p) mutation))) =
        insert_node (UserCreate_createSpec ?m)"
      unfolding saved using None by (simp split: sum.split)
    moreover have "cs_table (UserCreate_createSpec ?m) = ''users''" "cs_edges (UserCreate_createSpec ?m) = []"
      by (simp_all add: created_spec)
    ultimately show ?thesis
      using None created_row [OF None] by (auto intro!: exI [of _ "UserCreate_createSpec ?m"])
  next
    case (Some err)
    then show ?thesis using saved by simp
  qed
qed

section \<open>Clearing a required edge\<close>

text \<open>The check of an update refuses to clear a required edge only when a new one is set as well: a
  location whose owner is cleared and not replaced passes it, and the statement clears the column.\<close>

lemma clearing_required_edge:
  "let m = LocationUpdate_ClearUserDetails (newLocationMutation OpUpdate) :: ('f :: {plus,zero}, 'p) mutation in
   run_checks positive service_decls Location_schema LocationUpdate_checks m = None \<and>
   us_edges_clear (LocationUpdate_updateSpec m) =
     [EdgeSpec M2O True ''locations'' [''user_details_locations''] False ''id'']"
proof -
  have "edge_of Location_schema ''user_details'' = one ''user_details''" by code_simp
  then show ?thesis
    by (simp add: Let_def LocationUpdate_ClearUserDetails_def LocationMutation_UserDetails_def unique_edge_def clear_edge_def
        newLocationMutation_def new_mutation_def LocationUpdate_checks_def LocationUpdate_updateSpec_def update_spec_of_def
        LocationUpdate_edge_UserDetails_def update_edge_def edge_cleared_def edge_ids_def one_def set_or_empty_def EdgeSpec_def)
qed

end
