(* ===== verification/Ent_Decode.thy ===== *)
theory Ent_Decode imports Ent_Builders begin

text \<open>
  The entities of the generated client (models/ent/<entity>.go) as they come out of the database:
  \<open>scanValues\<close> names the type each column is scanned into, \<open>assignValues\<close> takes the scanned values
  into the fields of the entity, and the \<open>XOrErr\<close> methods read an edge that may not have been
  loaded. The two switches of an entity are lists of rules, written down from the two functions;
  what the database driver puts into a scan target is a parameter, and so is encoding/json.
\<close>

section \<open>Scanning a row\<close>

text \<open>The targets of \<open>rows.Scan\<close>, the values of a driver, and a target after the scan.\<close>

datatype scan_target = NullInt64 | NullFloat64 | NullString | NullBool | NullTime | Bytes | UnknownType

datatype 'f sql_value = SqlNull | SqlInt int | SqlFloat 'f | SqlString string | SqlBool bool | SqlTime int | SqlBytes string

datatype 'f scanned = ScInt "int option" | ScFloat "'f option" | ScString "string option" | ScBool "bool option" |
  ScTime "int option" | ScBytes string | ScUnknown "'f sql_value"

fun target_of :: "'f scanned \<Rightarrow> scan_target" where
  "target_of (ScInt v) = NullInt64" | "target_of (ScFloat v) = NullFloat64" | "target_of (ScString v) = NullString"
| "target_of (ScBool v) = NullBool" | "target_of (ScTime v) = NullTime" | "target_of (ScBytes v) = Bytes"
| "target_of (ScUnknown v) = UnknownType"

type_synonym 'f scan = "scan_target \<Rightarrow> 'f sql_value \<Rightarrow> error + 'f scanned"

text \<open>\<open>scanValues\<close>: the columns of each case of the switch and the target they are given.\<close>

type_synonym scan_rules = "(string list \<times> scan_target) list"

definition scan_column :: "scan_rules \<Rightarrow> string \<Rightarrow> scan_target" where
  "scan_column rules c = (case find (\<lambda>(cs, t). List.member cs c) rules of None \<Rightarrow> UnknownType | Some (cs, t) \<Rightarrow> t)"

definition scanValues :: "scan_rules \<Rightarrow> string list \<Rightarrow> scan_target list" where
  "scanValues rules columns = map (scan_column rules) columns"

fun scan_row :: "'f scan \<Rightarrow> scan_target list \<Rightarrow> 'f sql_value list \<Rightarrow> error + 'f scanned list" where
  "scan_row scan (t # ts) (v # vs) = (case scan t v of Inl err \<Rightarrow> Inl err
     | Inr s \<Rightarrow> (case scan_row scan ts vs of Inl err \<Rightarrow> Inl err | Inr ss \<Rightarrow> Inr (s # ss)))"
| "scan_row scan ts vs = Inr []"

section \<open>Assigning the values\<close>

text \<open>
  A case of \<open>assignValues\<close>: the identifier, which is taken even when NULL; a field of some type, held
  by value or by a pointer; a field stored as JSON; a foreign key, always a pointer. The entity is
  the row of its fields and what was selected beyond them.
\<close>

datatype assign_case = AssignID | AssignField scan_target bool | AssignJSON go_type | AssignFK

type_synonym assign_rules = "(string \<times> assign_case) list"

record 'f entity =
  en_row :: "'f ent_row"
  en_selected :: "string \<rightharpoonup> 'f scanned"

text \<open>The zero time, the first of January of year one, in nanoseconds since the epoch.\<close>

definition zero_time :: int where "zero_time = - 62135596800000000000"

fun zero_of :: "scan_target \<Rightarrow> ('f :: zero) ent_value" where
  "zero_of NullInt64 = VInt 0" | "zero_of NullFloat64 = VFloat 0" | "zero_of NullString = VString []"
| "zero_of NullBool = VBool False" | "zero_of NullTime = VTime zero_time" | "zero_of Bytes = VNil" | "zero_of UnknownType = VNil"

fun empty_list_of :: "go_type \<Rightarrow> 'f ent_value" where
  "empty_list_of GoInts = VInts []" | "empty_list_of GoStrings = VStrings []" | "empty_list_of t = VNil"

fun zero_case :: "assign_case \<Rightarrow> ('f :: zero) ent_value" where
  "zero_case AssignID = VInt 0"
| "zero_case (AssignField t pointer) = (if pointer then VNil else zero_of t)"
| "zero_case (AssignJSON t) = empty_list_of t"
| "zero_case AssignFK = VNil"

definition new_entity :: "assign_rules \<Rightarrow> ('f :: zero) entity" where
  "new_entity rules = \<lparr>en_row = (\<lambda>c. case map_of rules c of None \<Rightarrow> VNil | Some r \<Rightarrow> zero_case r), en_selected = Map.empty\<rparr>"

fun scanned_value :: "'f scanned \<Rightarrow> 'f ent_value option" where
  "scanned_value (ScInt v) = map_option VInt v" | "scanned_value (ScFloat v) = map_option VFloat v"
| "scanned_value (ScString v) = map_option VString v" | "scanned_value (ScBool v) = map_option VBool v"
| "scanned_value (ScTime v) = map_option VTime v" | "scanned_value (ScBytes b) = None" | "scanned_value (ScUnknown v) = None"

fun case_target :: "assign_case \<Rightarrow> scan_target" where
  "case_target AssignID = NullInt64" | "case_target (AssignField t pointer) = t" | "case_target (AssignJSON t) = Bytes"
| "case_target AssignFK = NullInt64"

text \<open>The refusal names the column; the code names the field, which differs for \<open>uuid\<close> only.\<close>

definition bad_type :: "string \<Rightarrow> error" where
  "bad_type c = EMsg (''unexpected type for field '' @ c)"

definition assign_value ::
  "(go_type \<Rightarrow> string \<Rightarrow> error + 'f ent_value) \<Rightarrow> assign_rules \<Rightarrow> string \<Rightarrow> 'f scanned \<Rightarrow> 'f entity \<Rightarrow> error + 'f entity" where
  "assign_value unmarshal rules c s e = (case map_of rules c of
      None \<Rightarrow> Inr (e\<lparr>en_selected := (en_selected e)(c \<mapsto> s)\<rparr>)
    | Some r \<Rightarrow> if target_of s \<noteq> case_target r then Inl (bad_type c)
        else (case (r, s) of
            (AssignID, ScInt v) \<Rightarrow> Inr (e\<lparr>en_row := (en_row e)(c := VInt (case v of None \<Rightarrow> 0 | Some i \<Rightarrow> i))\<rparr>)
          | (AssignJSON t, ScBytes b) \<Rightarrow> if b = [] then Inr e else (case unmarshal t b of
                Inl err \<Rightarrow> Inl (EWrap (''unmarshal field '' @ c) err)
              | Inr v \<Rightarrow> Inr (e\<lparr>en_row := (en_row e)(c := v)\<rparr>))
          | _ \<Rightarrow> (case scanned_value s of None \<Rightarrow> Inr e | Some v \<Rightarrow> Inr (e\<lparr>en_row := (en_row e)(c := v)\<rparr>))))"

fun assign_columns ::
  "(go_type \<Rightarrow> string \<Rightarrow> error + 'f ent_value) \<Rightarrow> assign_rules \<Rightarrow> string list \<Rightarrow> 'f scanned list \<Rightarrow> 'f entity \<Rightarrow> error + 'f entity" where
  "assign_columns unmarshal rules (c # cs) (s # ss) e = (case assign_value unmarshal rules c s e of
     Inl err \<Rightarrow> Inl err | Inr e' \<Rightarrow> assign_columns unmarshal rules cs ss e')"
| "assign_columns unmarshal rules cs ss e = Inr e"

definition assignValues ::
  "(go_type \<Rightarrow> string \<Rightarrow> error + 'f ent_value) \<Rightarrow> assign_rules \<Rightarrow> string list \<Rightarrow> 'f scanned list \<Rightarrow> 'f entity \<Rightarrow> error + 'f entity" where
  "assignValues unmarshal rules columns vs e =
     (if length vs < length columns then Inl (EMsg ''mismatch number of scan values'')
      else assign_columns unmarshal rules columns vs e)"

text \<open>\<open>Value\<close>: what was selected beyond the fields.\<close>

definition entity_Value :: "string \<Rightarrow> 'f entity \<Rightarrow> 'f scanned option" where
  "entity_Value c e = en_selected e c"

text \<open>A row of the database decoded: the columns scanned and assigned to a new entity.\<close>

definition decode_row ::
  "'f scan \<Rightarrow> (go_type \<Rightarrow> string \<Rightarrow> error + 'f ent_value) \<Rightarrow> scan_rules \<Rightarrow> assign_rules \<Rightarrow> (string \<times> 'f sql_value) list \<Rightarrow>
   error + ('f :: zero) entity" where
  "decode_row scan unmarshal srules arules raw =
     (case scan_row scan (scanValues srules (map fst raw)) (map snd raw) of
        Inl err \<Rightarrow> Inl err
      | Inr vs \<Rightarrow> assignValues unmarshal arules (map fst raw) vs (new_entity arules))"

section \<open>Reading an edge\<close>

text \<open>\<open>XOrErr\<close>: the edge, or why it is not there.\<close>

datatype edge_error = EdgeNotFound string | EdgeNotLoaded string

definition edge_or_err :: "string \<Rightarrow> string \<Rightarrow> bool \<Rightarrow> 'n option \<Rightarrow> edge_error + 'n" where
  "edge_or_err edge label loaded e = (case e of
      Some n \<Rightarrow> Inr n
    | None \<Rightarrow> if loaded then Inl (EdgeNotFound label) else Inl (EdgeNotLoaded edge))"

definition edges_or_err :: "string \<Rightarrow> bool \<Rightarrow> 'n list option \<Rightarrow> edge_error + 'n list option" where
  "edges_or_err edge loaded es = (if loaded then Inr es else Inl (EdgeNotLoaded edge))"

section \<open>Activation code\<close>

definition ActivationCode_scanValues :: scan_rules where
  "ActivationCode_scanValues = [
    ([''used''], NullBool), ([''id''], NullInt64), ([''code''], NullString),
    ([''created_at'', ''updated_at'', ''expires_at''], NullTime), ([''user_activation_code''], NullInt64)]"

definition ActivationCode_assignValues :: assign_rules where
  "ActivationCode_assignValues = [
    (''id'', AssignID), (''code'', AssignField NullString False), (''used'', AssignField NullBool False),
    (''created_at'', AssignField NullTime False), (''updated_at'', AssignField NullTime False),
    (''expires_at'', AssignField NullTime False), (''user_activation_code'', AssignFK)]"

definition ActivationCode_OwnerOrErr :: "bool list \<Rightarrow> 'n option \<Rightarrow> edge_error + 'n" where
  "ActivationCode_OwnerOrErr loaded = edge_or_err ''owner'' ''user'' (loaded ! 0)"

section \<open>Blacklisted token\<close>

definition BlacklistedToken_scanValues :: scan_rules where
  "BlacklistedToken_scanValues = [
    ([''id''], NullInt64), ([''token''], NullString), ([''created_at'', ''updated_at'', ''expires_at''], NullTime),
    ([''blacklisted_token_owner''], NullInt64)]"

definition BlacklistedToken_assignValues :: assign_rules where
  "BlacklistedToken_assignValues = [
    (''id'', AssignID), (''token'', AssignField NullString False), (''created_at'', AssignField NullTime False),
    (''updated_at'', AssignField NullTime False), (''expires_at'', AssignField NullTime False),
    (''blacklisted_token_owner'', AssignFK)]"

definition BlacklistedToken_OwnerOrErr :: "bool list \<Rightarrow> 'n option \<Rightarrow> edge_error + 'n" where
  "BlacklistedToken_OwnerOrErr loaded = edge_or_err ''owner'' ''user'' (loaded ! 0)"

section \<open>Entrepreneur details\<close>

definition EntrepreneurDetails_scanValues :: scan_rules where
  "EntrepreneurDetails_scanValues = [
    ([''management_council_members'', ''decision_makers''], Bytes),
    ([''income'', ''costs'', ''funding_capital''], NullFloat64), ([''id''], NullInt64),
    ([''business_name'', ''nip'', ''krs'', ''description'', ''offer'', ''industry'', ''business_phone_number'', ''business_mail'', ''website_address''], NullString),
    ([''created_at'', ''updated_at''], NullTime), ([''user_details_entrepreneur_details''], NullInt64)]"

definition EntrepreneurDetails_assignValues :: assign_rules where
  "EntrepreneurDetails_assignValues = [
    (''id'', AssignID), (''business_name'', AssignField NullString False), (''nip'', AssignField NullString False),
    (''krs'', AssignField NullString False), (''description'', AssignField NullString True),
    (''offer'', AssignField NullString True), (''income'', AssignField NullFloat64 False),
    (''costs'', AssignField NullFloat64 False), (''funding_capital'', AssignField NullFloat64 True),
    (''industry'', AssignField NullString False), (''management_council_members'', AssignJSON GoStrings),
    (''decision_makers'', AssignJSON GoStrings), (''business_phone_number'', AssignField NullString False),
    (''business_mail'', AssignField NullString True), (''website_address'', AssignField NullString True),
    (''created_at'', AssignField NullTime False), (''updated_at'', AssignField NullTime False),
    (''user_details_entrepreneur_details'', AssignFK)]"

definition EntrepreneurDetails_UserDetailsOrErr :: "bool list \<Rightarrow> 'n option \<Rightarrow> edge_error + 'n" where
  "EntrepreneurDetails_UserDetailsOrErr loaded = edge_or_err ''user_details'' ''user_details'' (loaded ! 0)"

section \<open>Location\<close>

definition Location_scanValues :: scan_rules where
  "Location_scanValues = [
    ([''id'', ''building_number'', ''apartment_number''], NullInt64),
    ([''country'', ''province'', ''city'', ''postal_code'', ''street''], NullString),
    ([''created_at'', ''updated_at''], NullTime), ([''user_details_locations''], NullInt64)]"

definition Location_assignValues :: assign_rules where
  "Location_assignValues = [
    (''id'', AssignID), (''country'', AssignField NullString False), (''province'', AssignField NullString False),
    (''city'', AssignField NullString False), (''postal_code'', AssignField NullString False),
    (''street'', AssignField NullString False), (''building_number'', AssignField NullInt64 False),
    (''apartment_number'', AssignField NullInt64 False), (''created_at'', AssignField NullTime False),
    (''updated_at'', AssignField NullTime False), (''user_details_locations'', AssignFK)]"

definition Location_UserDetailsOrErr :: "bool list \<Rightarrow> 'n option \<Rightarrow> edge_error + 'n" where
  "Location_UserDetailsOrErr loaded = edge_or_err ''user_details'' ''user_details'' (loaded ! 0)"

section \<open>Reset code\<close>

definition ResetCode_scanValues :: scan_rules where
  "ResetCode_scanValues = [
    ([''id''], NullInt64), ([''code''], NullString), ([''created_at'', ''updated_at'', ''expires_at''], NullTime),
    ([''user_reset_code''], NullInt64)]"

definition ResetCode_assignValues :: assign_rules where
  "ResetCode_assignValues = [
    (''id'', AssignID), (''code'', AssignField NullString False), (''created_at'', AssignField NullTime False),
    (''updated_at'', AssignField NullTime False), (''expires_at'', AssignField NullTime False),
    (''user_reset_code'', AssignFK)]"

definition ResetCode_OwnerOrErr :: "bool list \<Rightarrow> 'n option \<Rightarrow> edge_error + 'n" where
  "ResetCode_OwnerOrErr loaded = edge_or_err ''owner'' ''user'' (loaded ! 0)"

section \<open>Role permission\<close>

definition RolePermission_scanValues :: scan_rules where
  "RolePermission_scanValues = [
    ([''view'', ''add'', ''edit'', ''delete''], NullBool), ([''id''], NullInt64), ([''name''], NullString),
    ([''created_at'', ''updated_at''], NullTime)]"

definition RolePermission_assignValues :: assign_rules where
  "RolePermission_assignValues = [
    (''id'', AssignID), (''name'', AssignField NullString False), (''view'', AssignField NullBool False),
    (''add'', AssignField NullBool False), (''edit'', AssignField NullBool False),
    (''delete'', AssignField NullBool False), (''created_at'', AssignField NullTime False),
    (''updated_at'', AssignField NullTime False)]"

definition RolePermission_UserRoleOrErr :: "bool list \<Rightarrow> 'n list option \<Rightarrow> edge_error + 'n list option" where
  "RolePermission_UserRoleOrErr loaded = edges_or_err ''user_role'' (loaded ! 0)"

section \<open>Second factor code\<close>

definition SecondFactorCode_scanValues :: scan_rules where
  "SecondFactorCode_scanValues = [
    ([''used''], NullBool), ([''id''], NullInt64), ([''code''], NullString),
    ([''created_at'', ''updated_at'', ''expires_at''], NullTime), ([''user_second_factor_code''], NullInt64)]"

definition SecondFactorCode_assignValues :: assign_rules where
  "SecondFactorCode_assignValues = [
    (''id'', AssignID), (''used'', AssignField NullBool False), (''code'', AssignField NullString False),
    (''created_at'', AssignField NullTime False), (''updated_at'', AssignField NullTime False),
    (''expires_at'', AssignField NullTime False), (''user_second_factor_code'', AssignFK)]"

definition SecondFactorCode_OwnerOrErr :: "bool list \<Rightarrow> 'n option \<Rightarrow> edge_error + 'n" where
  "SecondFactorCode_OwnerOrErr loaded = edge_or_err ''owner'' ''user'' (loaded ! 0)"

definition SecondFactorCode_TargetUserDeviceOrErr :: "bool list \<Rightarrow> 'n option \<Rightarrow> edge_error + 'n" where
  "SecondFactorCode_TargetUserDeviceOrErr loaded = edge_or_err ''target_user_device'' ''user_device'' (loaded ! 1)"

section \<open>User\<close>

definition User_scanValues :: scan_rules where
  "User_scanValues = [
    ([''subscription_ids'', ''team_ids'', ''organization_ids''], Bytes),
    ([''active'', ''verified'', ''blacklisted'', ''removed''], NullBool), ([''id''], NullInt64),
    ([''mail'', ''phone'', ''password''], NullString), ([''created_at'', ''updated_at''], NullTime)]"

definition User_assignValues :: assign_rules where
  "User_assignValues = [
    (''id'', AssignID), (''mail'', AssignField NullString False), (''phone'', AssignField NullString False),
    (''password'', AssignField NullString False), (''active'', AssignField NullBool False),
    (''verified'', AssignField NullBool False), (''blacklisted'', AssignField NullBool False),
    (''removed'', AssignField NullBool False), (''created_at'', AssignField NullTime False),
    (''updated_at'', AssignField NullTime False), (''subscription_ids'', AssignJSON GoInts),
    (''team_ids'', AssignJSON GoInts), (''organization_ids'', AssignJSON GoInts)]"

definition User_UserDetailsOrErr :: "bool list \<Rightarrow> 'n option \<Rightarrow> edge_error + 'n" where
  "User_UserDetailsOrErr loaded = edge_or_err ''user_details'' ''user_details'' (loaded ! 0)"

definition User_UserSettingsOrErr :: "bool list \<Rightarrow> 'n option \<Rightarrow> edge_error + 'n" where
  "User_UserSettingsOrErr loaded = edge_or_err ''user_settings'' ''user_settings'' (loaded ! 1)"

definition User_ActivationCodeOrErr :: "bool list \<Rightarrow> 'n option \<Rightarrow> edge_error + 'n" where
  "User_ActivationCodeOrErr loaded = edge_or_err ''activation_code'' ''activation_code'' (loaded ! 2)"

definition User_VerificationCodeOrErr :: "bool list \<Rightarrow> 'n option \<Rightarrow> edge_error + 'n" where
  "User_VerificationCodeOrErr loaded = edge_or_err ''verification_code'' ''verification_code'' (loaded ! 3)"

definition User_SecondFactorCodeOrErr :: "bool list \<Rightarrow> 'n option \<Rightarrow> edge_error + 'n" where
  "User_SecondFactorCodeOrErr loaded = edge_or_err ''second_factor_code'' ''second_factor_code'' (loaded ! 4)"

definition User_ResetCodeOrErr :: "bool list \<Rightarrow> 'n option \<Rightarrow> edge_error + 'n" where
  "User_ResetCodeOrErr loaded = edge_or_err ''reset_code'' ''reset_code'' (loaded ! 5)"

definition User_UserDevicesOrErr :: "bool list \<Rightarrow> 'n list option \<Rightarrow> edge_error + 'n list option" where
  "User_UserDevicesOrErr loaded = edges_or_err ''user_devices'' (loaded ! 6)"

definition User_UserActionsOrErr :: "bool list \<Rightarrow> 'n list option \<Rightarrow> edge_error + 'n list option" where
  "User_UserActionsOrErr loaded = edges_or_err ''user_actions'' (loaded ! 7)"

definition User_UserRolesOrErr :: "bool list \<Rightarrow> 'n list option \<Rightarrow> edge_error + 'n list option" where
  "User_UserRolesOrErr loaded = edges_or_err ''user_roles'' (loaded ! 8)"

definition User_BlacklistedTokensOrErr :: "bool list \<Rightarrow> 'n list option \<Rightarrow> edge_error + 'n list option" where
  "User_BlacklistedTokensOrErr loaded = edges_or_err ''blacklisted_tokens'' (loaded ! 9)"

section \<open>User action\<close>

definition UserAction_scanValues :: scan_rules where
  "UserAction_scanValues = [
    ([''id''], NullInt64), ([''type'', ''action'', ''details''], NullString),
    ([''created_at'', ''updated_at''], NullTime)]"

definition UserAction_assignValues :: assign_rules where
  "UserAction_assignValues = [
    (''id'', AssignID), (''type'', AssignField NullString False), (''action'', AssignField NullString False),
    (''details'', AssignField NullString False), (''created_at'', AssignField NullTime False),
    (''updated_at'', AssignField NullTime False)]"

definition UserAction_AuthorOrErr :: "bool list \<Rightarrow> 'n list option \<Rightarrow> edge_error + 'n list option" where
  "UserAction_AuthorOrErr loaded = edges_or_err ''author'' (loaded ! 0)"

definition UserAction_AuthorDeviceOrErr :: "bool list \<Rightarrow> 'n list option \<Rightarrow> edge_error + 'n list option" where
  "UserAction_AuthorDeviceOrErr loaded = edges_or_err ''author_device'' (loaded ! 1)"

section \<open>User details\<close>

definition UserDetails_scanValues :: scan_rules where
  "UserDetails_scanValues = [
    ([''id''], NullInt64), ([''name'', ''first_name'', ''last_name''], NullString),
    ([''created_at'', ''updated_at''], NullTime), ([''user_user_details''], NullInt64)]"

definition UserDetails_assignValues :: assign_rules where
  "UserDetails_assignValues = [
    (''id'', AssignID), (''name'', AssignField NullString False), (''first_name'', AssignField NullString False),
    (''last_name'', AssignField NullString False), (''created_at'', AssignField NullTime False),
    (''updated_at'', AssignField NullTime False), (''user_user_details'', AssignFK)]"

definition UserDetails_OwnerOrErr :: "bool list \<Rightarrow> 'n option \<Rightarrow> edge_error + 'n" where
  "UserDetails_OwnerOrErr loaded = edge_or_err ''owner'' ''user'' (loaded ! 0)"

definition UserDetails_LocationsOrErr :: "bool list \<Rightarrow> 'n list option \<Rightarrow> edge_error + 'n list option" where
  "UserDetails_LocationsOrErr loaded = edges_or_err ''locations'' (loaded ! 1)"

definition UserDetails_EntrepreneurDetailsOrErr :: "bool list \<Rightarrow> 'n option \<Rightarrow> edge_error + 'n" where
  "UserDetails_EntrepreneurDetailsOrErr loaded = edge_or_err ''entrepreneur_details'' ''entrepreneur_details'' (loaded ! 2)"

section \<open>User device\<close>

definition UserDevice_scanValues :: scan_rules where
  "UserDevice_scanValues = [
    ([''id''], NullInt64),
    ([''name'', ''type'', ''token'', ''ip_address'', ''user_agent'', ''os_name'', ''os_version'', ''browser_name'', ''browser_version''], NullString),
    ([''last_seen_at'', ''created_at'', ''updated_at''], NullTime),
    ([''second_factor_code_target_user_device''], NullInt64), ([''user_user_devices''], NullInt64),
    ([''user_settings_second_factor_target''], NullInt64),
    ([''user_settings_notification_target_devices''], NullInt64)]"

definition UserDevice_assignValues :: assign_rules where
  "UserDevice_assignValues = [
    (''id'', AssignID), (''name'', AssignField NullString False), (''type'', AssignField NullString False),
    (''token'', AssignField NullString False), (''ip_address'', AssignField NullString False),
    (''user_agent'', AssignField NullString False), (''os_name'', AssignField NullString False),
    (''os_version'', AssignField NullString False), (''browser_name'', AssignField NullString False),
    (''browser_version'', AssignField NullString False), (''last_seen_at'', AssignField NullTime False),
    (''created_at'', AssignField NullTime False), (''updated_at'', AssignField NullTime False),
    (''second_factor_code_target_user_device'', AssignFK), (''user_user_devices'', AssignFK),
    (''user_settings_second_factor_target'', AssignFK), (''user_settings_notification_target_devices'', AssignFK)]"

definition UserDevice_OwnerOrErr :: "bool list \<Rightarrow> 'n option \<Rightarrow> edge_error + 'n" where
  "UserDevice_OwnerOrErr loaded = edge_or_err ''owner'' ''user'' (loaded ! 0)"

definition UserDevice_UserSettings2faOrErr :: "bool list \<Rightarrow> 'n option \<Rightarrow> edge_error + 'n" where
  "UserDevice_UserSettings2faOrErr loaded = edge_or_err ''user_settings_2fa'' ''user_settings'' (loaded ! 1)"

definition UserDevice_SecondFactorCodesOrErr :: "bool list \<Rightarrow> 'n option \<Rightarrow> edge_error + 'n" where
  "UserDevice_SecondFactorCodesOrErr loaded = edge_or_err ''second_factor_codes'' ''second_factor_code'' (loaded ! 2)"

definition UserDevice_UserActionsOrErr :: "bool list \<Rightarrow> 'n list option \<Rightarrow> edge_error + 'n list option" where
  "UserDevice_UserActionsOrErr loaded = edges_or_err ''user_actions'' (loaded ! 3)"

section \<open>User role\<close>

definition UserRole_scanValues :: scan_rules where
  "UserRole_scanValues = [
    ([''id''], NullInt64), ([''name'', ''description''], NullString), ([''created_at'', ''updated_at''], NullTime)]"

definition UserRole_assignValues :: assign_rules where
  "UserRole_assignValues = [
    (''id'', AssignID), (''name'', AssignField NullString False), (''description'', AssignField NullString False),
    (''created_at'', AssignField NullTime False), (''updated_at'', AssignField NullTime False)]"

definition UserRole_OwnerOrErr :: "bool list \<Rightarrow> 'n list option \<Rightarrow> edge_error + 'n list option" where
  "UserRole_OwnerOrErr loaded = edges_or_err ''owner'' (loaded ! 0)"

definition UserRole_PermissionsOrErr :: "bool list \<Rightarrow> 'n list option \<Rightarrow> edge_error + 'n list option" where
  "UserRole_PermissionsOrErr loaded = edges_or_err ''permissions'' (loaded ! 1)"

section \<open>User settings\<close>

definition UserSettings_scanValues :: scan_rules where
  "UserSettings_scanValues = [
    ([''two_factor'', ''night_mode''], NullBool), ([''id''], NullInt64), ([''uuid''], NullString),
    ([''created_at'', ''updated_at''], NullTime), ([''user_user_settings''], NullInt64)]"

definition UserSettings_assignValues :: assign_rules where
  "UserSettings_assignValues = [
    (''id'', AssignID), (''uuid'', AssignField NullString False), (''two_factor'', AssignField NullBool False),
    (''night_mode'', AssignField NullBool False), (''created_at'', AssignField NullTime False),
    (''updated_at'', AssignField NullTime False), (''user_user_settings'', AssignFK)]"

definition UserSettings_OwnerOrErr :: "bool list \<Rightarrow> 'n option \<Rightarrow> edge_error + 'n" where
  "UserSettings_OwnerOrErr loaded = edge_or_err ''owner'' ''user'' (loaded ! 0)"

definition UserSettings_SecondFactorTargetOrErr :: "bool list \<Rightarrow> 'n option \<Rightarrow> edge_error + 'n" where
  "UserSettings_SecondFactorTargetOrErr loaded = edge_or_err ''second_factor_target'' ''user_device'' (loaded ! 1)"

definition UserSettings_NotificationTargetDevicesOrErr :: "bool list \<Rightarrow> 'n list option \<Rightarrow> edge_error + 'n list option" where
  "UserSettings_NotificationTargetDevicesOrErr loaded = edges_or_err ''notification_target_devices'' (loaded ! 2)"

section \<open>Verification code\<close>

definition VerificationCode_scanValues :: scan_rules where
  "VerificationCode_scanValues = [
    ([''id''], NullInt64), ([''code''], NullString), ([''created_at'', ''updated_at'', ''expires_at''], NullTime),
    ([''user_verification_code''], NullInt64)]"

definition VerificationCode_assignValues :: assign_rules where
  "VerificationCode_assignValues = [
    (''id'', AssignID), (''code'', AssignField NullString False), (''created_at'', AssignField NullTime False),
    (''updated_at'', AssignField NullTime False), (''expires_at'', AssignField NullTime False),
    (''user_verification_code'', AssignFK)]"

definition VerificationCode_OwnerOrErr :: "bool list \<Rightarrow> 'n option \<Rightarrow> edge_error + 'n" where
  "VerificationCode_OwnerOrErr loaded = edge_or_err ''owner'' ''user'' (loaded ! 0)"

section \<open>All entities\<close>

definition decoders :: "(string \<times> scan_rules \<times> assign_rules) list" where
  "decoders = [
    (''ActivationCode'', ActivationCode_scanValues, ActivationCode_assignValues),
    (''BlacklistedToken'', BlacklistedToken_scanValues, BlacklistedToken_assignValues),
    (''EntrepreneurDetails'', EntrepreneurDetails_scanValues, EntrepreneurDetails_assignValues),
    (''Location'', Location_scanValues, Location_assignValues),
    (''ResetCode'', ResetCode_scanValues, ResetCode_assignValues),
    (''RolePermission'', RolePermission_scanValues, RolePermission_assignValues),
    (''SecondFactorCode'', SecondFactorCode_scanValues, SecondFactorCode_assignValues),
    (''User'', User_scanValues, User_assignValues), (''UserAction'', UserAction_scanValues, UserAction_assignValues),
    (''UserDetails'', UserDetails_scanValues, UserDetails_assignValues),
    (''UserDevice'', UserDevice_scanValues, UserDevice_assignValues),
    (''UserRole'', UserRole_scanValues, UserRole_assignValues),
    (''UserSettings'', UserSettings_scanValues, UserSettings_assignValues),
    (''VerificationCode'', VerificationCode_scanValues, VerificationCode_assignValues)]"

end
