(* ===== verification/Decode_Properties.thy ===== *)
theory Decode_Properties imports Complex_Main Ent_Decode begin

text \<open>
  The decoding of rows: the rules of each entity are those its schema gives, scanning and assigning
  agree on the types and give well-typed entities, and a stored row is read back. The scan of the
  driver and encoding/json are parameters with documented laws: a scan leaves a value of its
  target, NULL leaves it invalid, a value of its kind is taken; a list is never printed as nothing
  and is parsed back.
\<close>

section \<open>The rules are those of the schema\<close>

fun declared_target :: "decl_type \<Rightarrow> scan_target" where
  "declared_target DInt = NullInt64" | "declared_target DString = NullString" | "declared_target DText = NullString"
| "declared_target DBool = NullBool" | "declared_target DTime = NullTime" | "declared_target DFloat = NullFloat64"
| "declared_target DInts = Bytes" | "declared_target DStrings = Bytes"

definition declared_case :: "field_decl \<Rightarrow> assign_case" where
  "declared_case f = (if fd_name f = ''id'' then AssignID else (case fd_type f of
      DInts \<Rightarrow> AssignJSON GoInts | DStrings \<Rightarrow> AssignJSON GoStrings
    | t \<Rightarrow> AssignField (declared_target t) (has_option Nillable f)))"

definition declared_rules :: "entity_decl \<times> package \<Rightarrow> string \<times> assign_rules" where
  "declared_rules = (\<lambda>(d, p). (ey_name d, map (\<lambda>f. (storage_name f, declared_case f)) (ey_fields d) @
     map (\<lambda>c. (c, AssignFK)) (pk_foreign_keys p)))"

definition rules_agree :: "scan_rules \<Rightarrow> assign_rules \<Rightarrow> bool" where
  "rules_agree srules arules = list_all (\<lambda>(c, r). scan_column srules c = case_target r) arules"

lemma decoders_declared: "map (\<lambda>(t, s, a). (t, a)) decoders = map declared_rules (zip service_decls packages)"
  by code_simp

lemma decoders_agree: "list_all (\<lambda>(t, s, a). rules_agree s a \<and> distinct (map fst a)) decoders"
  by code_simp

text \<open>Each entity is decoded as its schema says: \<open>assignValues\<close> has one case for every declared
  field and every foreign key of its table, with the declared type and a pointer exactly for the
  nillable fields, and \<open>scanValues\<close> scans the column of each case into the type the case asserts.\<close>

theorem decoding_follows_schema:
  "map (\<lambda>(t, s, a). (t, a)) decoders = map declared_rules (zip service_decls packages) \<and>
   list_all (\<lambda>(t, s, a). rules_agree s a \<and> distinct (map fst a)) decoders"
  using decoders_declared decoders_agree by simp

section \<open>Scanning and assigning agree\<close>

definition scan_law :: "'f scan \<Rightarrow> bool" where
  "scan_law scan = (\<forall>t v s. scan t v = Inr s \<longrightarrow> target_of s = t)"

definition unmarshal_law :: "(go_type \<Rightarrow> string \<Rightarrow> error + 'f ent_value) \<Rightarrow> bool" where
  "unmarshal_law unmarshal = (\<forall>t b v. unmarshal t b = Inr v \<longrightarrow> type_of_value v = Some t)"

fun target_type :: "scan_target \<Rightarrow> go_type option" where
  "target_type NullInt64 = Some GoInt" | "target_type NullFloat64 = Some GoFloat" | "target_type NullString = Some GoString"
| "target_type NullBool = Some GoBool" | "target_type NullTime = Some GoTime" | "target_type t = None"

text \<open>The type a decoded field has: that of its case, or nil for a pointer.\<close>

fun fits :: "assign_case \<Rightarrow> 'f ent_value \<Rightarrow> bool" where
  "fits AssignID v = (type_of_value v = Some GoInt)"
| "fits (AssignField t pointer) v = (type_of_value v = target_type t \<and> v \<noteq> VOther \<and> v \<noteq> VNil \<or> pointer \<and> v = VNil)"
| "fits (AssignJSON t) v = (type_of_value v = Some t)"
| "fits AssignFK v = (type_of_value v = Some GoInt \<or> v = VNil)"

fun plain_case :: "assign_case \<Rightarrow> bool" where
  "plain_case (AssignField t pointer) = (t \<noteq> Bytes \<and> t \<noteq> UnknownType)"
| "plain_case (AssignJSON t) = (t = GoInts \<or> t = GoStrings)"
| "plain_case r = True"

lemma decoders_plain: "list_all (\<lambda>(t, s, a). list_all (\<lambda>(c, r). plain_case r) a) decoders"
  by code_simp

definition entity_typed :: "assign_rules \<Rightarrow> 'f entity \<Rightarrow> bool" where
  "entity_typed rules e = list_all (\<lambda>(c, r). fits r (en_row e c)) rules"

lemma zero_fits: "plain_case r \<Longrightarrow> fits r (zero_case r)"
proof (cases r)
  case (AssignField t pointer)
  then show "plain_case r \<Longrightarrow> ?thesis" by (cases t) auto
next
  case (AssignJSON t)
  then show "plain_case r \<Longrightarrow> ?thesis" by (cases t) auto
qed auto

lemma new_entity_typed:
  "list_all (\<lambda>(c, r). plain_case r) rules \<Longrightarrow> distinct (map fst rules) \<Longrightarrow> entity_typed rules (new_entity rules)"
  by (auto simp: entity_typed_def new_entity_def list_all_iff zero_fits)

text \<open>One assignment: it fails only when the JSON does not parse, and keeps the types.\<close>

lemma typed_upd:
  assumes "distinct (map fst rules)" "map_of rules c = Some r" "entity_typed rules e" "fits r v"
  shows "entity_typed rules (e\<lparr>en_row := (en_row e)(c := v)\<rparr>)"
proof -
  have "r' = r" if "(c, r') \<in> set rules" for r'
    using that assms(1,2) by (metis map_of_eq_Some_iff option.inject)
  then show ?thesis using assms(3,4) by (auto simp: entity_typed_def list_all_iff)
qed

definition json_failure :: "(go_type \<Rightarrow> string \<Rightarrow> error + 'f ent_value) \<Rightarrow> error \<Rightarrow> bool" where
  "json_failure unmarshal err = (\<exists>c t b e. unmarshal t b = Inl e \<and> err = EWrap (''unmarshal field '' @ c) e)"

lemma assign_value_typed:
  assumes "unmarshal_law unmarshal" "distinct (map fst rules)" "list_all (\<lambda>(c, r). plain_case r) rules"
    and "entity_typed rules e" "target_of s = scan_column srules c" "rules_agree srules rules"
  shows "case assign_value unmarshal rules c s e of Inl err \<Rightarrow> json_failure unmarshal err | Inr e' \<Rightarrow> entity_typed rules e'"
proof (cases "map_of rules c")
  case None
  then show ?thesis using assms(4) by (simp add: assign_value_def entity_typed_def)
next
  case (Some r)
  then have mem: "(c, r) \<in> set rules" by (rule map_of_SomeD)
  then have same: "target_of s = case_target r" using assms(5,6) by (auto simp: rules_agree_def list_all_iff)
  have plain: "plain_case r" using mem assms(3) by (auto simp: list_all_iff)
  note upd = typed_upd [OF assms(2) Some assms(4)]
  show ?thesis
  proof (cases r)
    case AssignID
    then obtain v where "s = ScInt v" using same by (cases s) auto
    then show ?thesis using AssignID Some upd by (cases v) (simp_all add: assign_value_def)
  next
    case (AssignField t pointer)
    then show ?thesis using same plain Some upd assms(4)
      by (cases s) (auto simp: assign_value_def split: option.splits)
  next
    case (AssignJSON t)
    then obtain b where "s = ScBytes b" using same by (cases s) auto
    then show ?thesis using AssignJSON Some upd assms(1,4)
      by (fastforce simp: assign_value_def json_failure_def unmarshal_law_def split: sum.splits)
  next
    case AssignFK
    then obtain v where "s = ScInt v" using same by (cases s) auto
    then show ?thesis using AssignFK Some upd assms(4) by (cases v) (simp_all add: assign_value_def)
  qed
qed

lemma assign_columns_typed:
  assumes "unmarshal_law unmarshal" "distinct (map fst rules)" "list_all (\<lambda>(c, r). plain_case r) rules" "rules_agree srules rules"
    and "entity_typed rules e" "map target_of ss = map (scan_column srules) cs"
  shows "case assign_columns unmarshal rules cs ss e of Inl err \<Rightarrow> json_failure unmarshal err | Inr e' \<Rightarrow> entity_typed rules e'"
  using assms(5,6)
proof (induction cs arbitrary: ss e)
  case (Cons c cs)
  then obtain x xs where ss: "ss = x # xs" by (cases ss) auto
  note typed = assign_value_typed [OF assms(1-3) Cons.prems(1) _ assms(4), of x c]
  show ?case
  proof (cases "assign_value unmarshal rules c x e")
    case (Inl err)
    then show ?thesis using typed Cons.prems(2) by (simp add: ss)
  next
    case (Inr e')
    then show ?thesis using typed Cons.prems(2) Cons.IH [of e' xs] by (simp add: ss)
  qed
qed simp

lemma scan_row_targets:
  "scan_law scan \<Longrightarrow> scan_row scan ts vs = Inr ss \<Longrightarrow> length vs = length ts \<Longrightarrow> map target_of ss = ts"
  by (induction scan ts vs arbitrary: ss rule: scan_row.induct) (auto simp: scan_law_def split: sum.splits)

lemma scan_row_fails: "scan_row scan ts vs = Inl err \<Longrightarrow> \<exists>t v. scan t v = Inl err"
  by (induction scan ts vs rule: scan_row.induct) (auto split: sum.splits)

text \<open>C31: Decoding is type safe. Whatever columns the database answers with, and whatever their values,
  none of the type assertions of \<open>assignValues\<close> fails after \<open>scanValues\<close>: a row is refused only when
  the driver refuses a value or a JSON column does not parse, and every field of the entity it
  gives, selected or not, has the type declared for it, a nil pointer being left to the nillable
  fields and the foreign keys.\<close>

theorem decoded_entities_well_typed:
  assumes "scan_law scan" "unmarshal_law unmarshal" "(t, srules, arules) \<in> set decoders"
  shows "case decode_row scan unmarshal srules arules raw of
      Inl err \<Rightarrow> (\<exists>target v. scan target v = Inl err) \<or> json_failure unmarshal err
    | Inr e \<Rightarrow> entity_typed arules e"
proof -
  have rules: "rules_agree srules arules" "distinct (map fst arules)" "list_all (\<lambda>(c, r). plain_case r) arules"
    using decoders_agree decoders_plain assms(3) by (fastforce simp: list_all_iff)+
  note typed = assign_columns_typed [OF assms(2) rules(2,3,1) new_entity_typed [OF rules(3,2)], of _ "map fst raw"]
  show ?thesis
  proof (cases "scan_row scan (scanValues srules (map fst raw)) (map snd raw)")
    case (Inl err)
    then show ?thesis using scan_row_fails by (fastforce simp: decode_row_def)
  next
    case (Inr ss)
    then have targets: "map target_of ss = map (scan_column srules) (map fst raw)"
      using scan_row_targets [OF assms(1) Inr] by (simp add: scanValues_def)
    then have "length ss = length raw" by (metis length_map)
    then show ?thesis using Inr typed [OF targets] by (simp add: decode_row_def assignValues_def split: sum.splits)
  qed
qed

section \<open>A stored row is read back\<close>

fun sql_of :: "('f ent_value \<Rightarrow> string) \<Rightarrow> 'f ent_value \<Rightarrow> 'f sql_value" where
  "sql_of marshal (VString s) = SqlString s" | "sql_of marshal (VBool b) = SqlBool b" | "sql_of marshal (VInt i) = SqlInt i"
| "sql_of marshal (VFloat x) = SqlFloat x" | "sql_of marshal (VTime t) = SqlTime t"
| "sql_of marshal (VInts is) = SqlBytes (marshal (VInts is))" | "sql_of marshal (VStrings ss) = SqlBytes (marshal (VStrings ss))"
| "sql_of marshal v = SqlNull"

fun taken :: "scan_target \<Rightarrow> 'f sql_value \<Rightarrow> 'f scanned option" where
  "taken NullInt64 SqlNull = Some (ScInt None)" | "taken NullInt64 (SqlInt i) = Some (ScInt (Some i))"
| "taken NullFloat64 SqlNull = Some (ScFloat None)" | "taken NullFloat64 (SqlFloat x) = Some (ScFloat (Some x))"
| "taken NullString SqlNull = Some (ScString None)" | "taken NullString (SqlString s) = Some (ScString (Some s))"
| "taken NullBool SqlNull = Some (ScBool None)" | "taken NullBool (SqlBool b) = Some (ScBool (Some b))"
| "taken NullTime SqlNull = Some (ScTime None)" | "taken NullTime (SqlTime t) = Some (ScTime (Some t))"
| "taken Bytes SqlNull = Some (ScBytes [])" | "taken Bytes (SqlBytes b) = Some (ScBytes b)"
| "taken UnknownType v = Some (ScUnknown v)"
| "taken t v = None"

definition scan_takes :: "'f scan \<Rightarrow> bool" where
  "scan_takes scan = (\<forall>t v s. taken t v = Some s \<longrightarrow> scan t v = Inr s)"

definition json_law :: "('f ent_value \<Rightarrow> string) \<Rightarrow> (go_type \<Rightarrow> string \<Rightarrow> error + 'f ent_value) \<Rightarrow> bool" where
  "json_law marshal unmarshal = (\<forall>t v. (t = GoInts \<or> t = GoStrings) \<and> type_of_value v = Some t \<longrightarrow>
     marshal v \<noteq> [] \<and> unmarshal t (marshal v) = Inr v)"

lemma json_lawD:
  assumes "json_law marshal unmarshal"
  shows "marshal (VInts is) \<noteq> [] \<and> unmarshal GoInts (marshal (VInts is)) = Inr (VInts is)"
    and "marshal (VStrings ss) \<noteq> [] \<and> unmarshal GoStrings (marshal (VStrings ss)) = Inr (VStrings ss)"
proof -
  have law: "t = GoInts \<or> t = GoStrings \<Longrightarrow> type_of_value v = Some t \<Longrightarrow> marshal v \<noteq> [] \<and> unmarshal t (marshal v) = Inr v" for t v
    using assms unfolding json_law_def by blast
  show "marshal (VInts is) \<noteq> [] \<and> unmarshal GoInts (marshal (VInts is)) = Inr (VInts is)"
    "marshal (VStrings ss) \<noteq> [] \<and> unmarshal GoStrings (marshal (VStrings ss)) = Inr (VStrings ss)"
    by (rule law; simp)+
qed

text \<open>What a column may hold: a value of the type of its case, or NULL.\<close>

fun holds_value :: "assign_case \<Rightarrow> 'f ent_value \<Rightarrow> bool" where
  "holds_value AssignID v = (type_of_value v = Some GoInt)"
| "holds_value (AssignField t pointer) v = (type_of_value v = target_type t \<and> v \<noteq> VOther)"
| "holds_value (AssignJSON t) v = (type_of_value v = Some t)"
| "holds_value AssignFK v = (type_of_value v = Some GoInt)"

definition storable :: "assign_rules \<Rightarrow> 'f ent_row \<Rightarrow> string \<Rightarrow> bool" where
  "storable rules row c = (case map_of rules c of None \<Rightarrow> False
     | Some r \<Rightarrow> plain_case r \<and> (holds_value r (row c) \<or> r \<noteq> AssignID \<and> row c = VNil))"

definition read_back :: "assign_rules \<Rightarrow> string list \<Rightarrow> ('f :: zero) ent_row \<Rightarrow> 'f ent_row" where
  "read_back rules cols row = (\<lambda>c. if c \<in> set cols \<and> row c \<noteq> VNil then row c else en_row (new_entity rules) c)"

lemma scan_stored:
  assumes "storable rules row c" "rules_agree srules rules" "scan_takes scan" "json_law marshal unmarshal"
  shows "\<exists>s. scan (scan_column srules c) (sql_of marshal (row c)) = Inr s \<and>
    (\<forall>e. assign_value unmarshal rules c s e = Inr (e\<lparr>en_row := if row c = VNil then en_row e else (en_row e)(c := row c)\<rparr>))"
proof -
  obtain r where r: "map_of rules c = Some r" and plain: "plain_case r"
    and ok: "holds_value r (row c) \<or> r \<noteq> AssignID \<and> row c = VNil"
    using assms(1) by (auto simp: storable_def split: option.splits)
  have target: "scan_column srules c = case_target r"
    using assms(2) map_of_SomeD [OF r] by (auto simp: rules_agree_def list_all_iff)
  obtain s where s: "taken (case_target r) (sql_of marshal (row c)) = Some s"
    and assign: "assign_value unmarshal rules c s e =
      Inr (e\<lparr>en_row := if row c = VNil then en_row e else (en_row e)(c := row c)\<rparr>)" for e
  proof (cases r)
    case (AssignField t pointer)
    then show thesis using ok plain r that
      by (cases t; cases "row c") (auto simp: assign_value_def)
  next
    case (AssignJSON t)
    then have "type_of_value (row c) = Some t \<or> row c = VNil" "t = GoInts \<or> t = GoStrings" using ok plain by auto
    then show thesis using AssignJSON r that json_lawD [OF assms(4)]
      by (cases "row c") (auto simp: assign_value_def)
  qed (use ok r that in \<open>cases "row c"; auto simp: assign_value_def\<close>)+
  then show ?thesis using assms(3) target by (auto simp: scan_takes_def)
qed

lemma decode_stored:
  assumes "rules_agree srules rules" "scan_takes scan" "json_law marshal unmarshal"
    and "list_all (storable rules row) cols"
  shows "\<exists>ss. scan_row scan (scanValues srules cols) (map (\<lambda>c. sql_of marshal (row c)) cols) = Inr ss \<and> length ss = length cols \<and>
    (\<forall>e. assign_columns unmarshal rules cols ss e =
       Inr (e\<lparr>en_row := (\<lambda>c. if c \<in> set cols \<and> row c \<noteq> VNil then row c else en_row e c)\<rparr>))"
  using assms(4)
proof (induction cols)
  case (Cons c cols)
  then obtain ss where ss: "scan_row scan (scanValues srules cols) (map (\<lambda>c. sql_of marshal (row c)) cols) = Inr ss"
    "length ss = length cols"
    "\<And>e. assign_columns unmarshal rules cols ss e =
       Inr (e\<lparr>en_row := (\<lambda>c. if c \<in> set cols \<and> row c \<noteq> VNil then row c else en_row e c)\<rparr>)" by auto
  obtain s where s: "scan (scan_column srules c) (sql_of marshal (row c)) = Inr s"
    "\<And>e. assign_value unmarshal rules c s e = Inr (e\<lparr>en_row := if row c = VNil then en_row e else (en_row e)(c := row c)\<rparr>)"
    using scan_stored [OF _ assms(1-3), of row c] Cons.prems by auto
  show ?case
    by (rule exI [of _ "s # ss"]) (use ss s in \<open>auto simp: scanValues_def fun_eq_iff\<close>)
qed (simp add: scanValues_def)

lemma read_stored:
  assumes "scan_takes scan" "json_law marshal unmarshal" "(t, srules, arules) \<in> set decoders"
    and "list_all (storable arules row) cols"
  shows "decode_row scan unmarshal srules arules (map (\<lambda>c. (c, sql_of marshal (row c))) cols) =
    Inr \<lparr>en_row = read_back arules cols row, en_selected = Map.empty\<rparr>"
proof -
  have "rules_agree srules arules" using decoders_agree assms(3) by (auto simp: list_all_iff)
  from decode_stored [OF this assms(1,2,4)] obtain ss
    where ss: "scan_row scan (scanValues srules cols) (map (\<lambda>c. sql_of marshal (row c)) cols) = Inr ss" "length ss = length cols"
      and assign: "assign_columns unmarshal arules cols ss (new_entity arules) =
        Inr ((new_entity arules)\<lparr>en_row := read_back arules cols row\<rparr>)"
    unfolding read_back_def by blast
  have "(new_entity arules)\<lparr>en_row := r\<rparr> = \<lparr>en_row = r, en_selected = Map.empty\<rparr>" for r :: "'a ent_row"
    by (simp add: new_entity_def)
  then show ?thesis using ss assign by (simp add: decode_row_def assignValues_def o_def)
qed

text \<open>C32: A stored row is read back: the columns of a row, stored as SQL values and decoded, give an
  entity with the same fields, where NULL gives the nil pointer or the zero value of the field and
  so does a column that was not selected; nothing is left over.\<close>

theorem stored_row_read_back:
  assumes "scan_takes scan" "json_law marshal unmarshal" "(t, srules, arules) \<in> set decoders"
    and "list_all (storable arules row) cols"
  shows "decode_row scan unmarshal srules arules (map (\<lambda>c. (c, sql_of marshal (row c))) cols) =
    Inr \<lparr>en_row = read_back arules cols row, en_selected = Map.empty\<rparr>"
  by (rule read_stored [OF assms])

section \<open>Samples\<close>

definition sample_scan :: "'f scan" where
  "sample_scan t v = (case taken t v of None \<Rightarrow> Inl (EMsg ''unsupported Scan'') | Some s \<Rightarrow> Inr s)"

text \<open>A printer for lists of texts: a dot before each character, a semicolon after each text. A number
  is its sign and as many ones as its size.\<close>

fun print_texts :: "string list \<Rightarrow> string" where
  "print_texts [] = []"
| "print_texts (s # ss) = concat (map (\<lambda>c. [CHR ''.'', c]) s) @ CHR '';'' # print_texts ss"

fun parse_texts :: "string \<Rightarrow> string \<Rightarrow> string list" where
  "parse_texts acc (c # rest) = (if c = CHR '';'' then acc # parse_texts [] rest
     else (case rest of [] \<Rightarrow> [] | d # others \<Rightarrow> parse_texts (acc @ [d]) others))"
| "parse_texts acc [] = []"

lemma parse_one: "parse_texts acc (concat (map (\<lambda>c. [CHR ''.'', c]) s) @ CHR '';'' # rest) = (acc @ s) # parse_texts [] rest"
  by (induction s arbitrary: acc) auto

lemma parse_print_texts: "parse_texts [] (print_texts ss) = ss"
  by (induction ss) (auto simp: parse_one)

definition int_text :: "int \<Rightarrow> string" where
  "int_text i = (if i < 0 then CHR ''-'' else CHR ''+'') # replicate (nat \<bar>i\<bar>) CHR ''1''"

fun text_int :: "string \<Rightarrow> int" where
  "text_int (c # s) = (if c = CHR ''-'' then - int (length s) else int (length s))"
| "text_int [] = 0"

lemma text_int_text [simp]: "text_int (int_text i) = i"
  by (simp add: int_text_def)

fun sample_marshal :: "'f ent_value \<Rightarrow> string" where
  "sample_marshal (VInts is) = CHR ''['' # print_texts (map int_text is)"
| "sample_marshal (VStrings ss) = CHR ''['' # print_texts ss"
| "sample_marshal v = ''null''"

fun sample_unmarshal :: "go_type \<Rightarrow> string \<Rightarrow> error + 'f ent_value" where
  "sample_unmarshal GoInts (c # b) = Inr (VInts (map text_int (parse_texts [] b)))"
| "sample_unmarshal GoStrings (c # b) = Inr (VStrings (parse_texts [] b))"
| "sample_unmarshal t b = Inl (EMsg ''unexpected end of JSON input'')"

lemma sample_scan_laws: "scan_takes sample_scan" "scan_law sample_scan"
proof -
  have "taken t v = Some s \<Longrightarrow> target_of s = t" for t and v :: "'f sql_value" and s
    by (cases "(t, v)" rule: taken.cases) auto
  then show "scan_takes (sample_scan :: 'f scan)" "scan_law (sample_scan :: 'f scan)"
    by (auto simp: scan_takes_def scan_law_def sample_scan_def split: option.splits)
qed

lemma list_values:
  "type_of_value v = Some GoInts \<Longrightarrow> \<exists>is. v = VInts is" "type_of_value v = Some GoStrings \<Longrightarrow> \<exists>ss. v = VStrings ss"
  by (cases v; simp)+

lemma sample_json_laws: "json_law sample_marshal sample_unmarshal" "unmarshal_law sample_unmarshal"
proof -
  show "json_law (sample_marshal :: 'f ent_value \<Rightarrow> string) sample_unmarshal"
    unfolding json_law_def by (auto simp: parse_print_texts o_def dest!: list_values)
  show "unmarshal_law (sample_unmarshal :: go_type \<Rightarrow> string \<Rightarrow> error + 'f ent_value)"
    unfolding unmarshal_law_def
  proof (intro allI impI)
    fix t b and v :: "'f ent_value"
    assume "sample_unmarshal t b = Inr v"
    then show "type_of_value v = Some t" by (cases "(t, b)" rule: sample_unmarshal.cases) auto
  qed
qed

definition sample_code :: "rat ent_row" where
  "sample_code = (\<lambda>c. if c = ''id'' then VInt 3 else if c = ''code'' then VString ''042137''
     else if c = ''user_reset_code'' then VInt 7 else VNil)"

theorem decoded_entities_well_typed_witness:
  "case decode_row sample_scan sample_unmarshal ResetCode_scanValues ResetCode_assignValues
      [(''id'', SqlInt 3), (''code'', SqlNull :: rat sql_value), (''count'', SqlInt 2)] of
    Inl err \<Rightarrow> (\<exists>target v. sample_scan target (v :: rat sql_value) = Inl err) \<or>
      json_failure (sample_unmarshal :: go_type \<Rightarrow> string \<Rightarrow> error + rat ent_value) err
  | Inr e \<Rightarrow> entity_typed ResetCode_assignValues e"
  by (rule decoded_entities_well_typed [OF sample_scan_laws(2) sample_json_laws(2), of "''ResetCode''"])
    (simp add: decoders_def)

theorem stored_row_read_back_witness:
  "decode_row sample_scan sample_unmarshal ResetCode_scanValues ResetCode_assignValues
     (map (\<lambda>c. (c, sql_of sample_marshal (sample_code c))) [''id'', ''code'', ''user_reset_code'']) =
   Inr \<lparr>en_row = read_back ResetCode_assignValues [''id'', ''code'', ''user_reset_code''] sample_code, en_selected = Map.empty\<rparr>"
  by (rule stored_row_read_back [OF sample_scan_laws(1) sample_json_laws(1), of "''ResetCode''"])
    (simp_all add: decoders_def storable_def ResetCode_assignValues_def sample_code_def)

end
