(* ===== verification/Ent_Query.thy ===== *)
theory Ent_Query imports Ent_Decode begin

text \<open>
  The query builders of the generated client (models/ent/<entity>_query.go), written once over what
  differs between the entities: the package, the rules of decoding and the edges that can be
  loaded. A builder is a tree: its own conditions and, for each edge to load, the builder of the
  neighbours. Running it selects the rows, decodes them into nodes and attaches the neighbours of
  every node, edge by edge. What the database answers to a selection is a parameter. No
  interceptors are registered in this program, and there are none here. Theory Ent_Queries
  instantiates this for every entity.
\<close>

section \<open>Builders\<close>

text \<open>
  The conditions of a query: those of the where.go packages, a column among identifiers
  (\<open>sql.InValues\<close>), and the join the loader of a many-to-many edge adds, over a table, the column
  that joins the selected entity, the column of the other side and its identifiers.
\<close>

datatype 'f query_predicate = Pred "'f sql_predicate" | InValues string "int list" | JoinIn string string string "int list"

text \<open>An order option of a package, or \<open>ent.Asc\<close> and \<open>ent.Desc\<close> over columns.\<close>

datatype query_order = ByOption order_term bool | AscBy "string list" | DescBy "string list"

record 'f query_flat =
  qf_predicates :: "'f query_predicate list"
  qf_order :: "query_order list"
  qf_limit :: "int option"
  qf_offset :: "int option"
  qf_unique :: "bool option"
  qf_fields :: "string list"
  qf_withFKs :: bool

text \<open>\<open>path\<close>: the query or the entity this query was reached from, and the step.\<close>

datatype 'f entity_query =
    EntityQuery (eq_type: string) (eq_flat: "'f query_flat") (eq_path: "'f query_path option")
      (eq_withs: "(string \<times> 'f entity_query) list")
  and 'f query_path = FromQuery step "'f entity_query" | FromEntity step int

definition new_query :: "string \<Rightarrow> 'f entity_query" where
  "new_query t = EntityQuery t \<lparr>qf_predicates = [], qf_order = [], qf_limit = None, qf_offset = None, qf_unique = None,
     qf_fields = [], qf_withFKs = False\<rparr> None []"

fun map_flat :: "('f query_flat \<Rightarrow> 'f query_flat) \<Rightarrow> 'f entity_query \<Rightarrow> 'f entity_query" where
  "map_flat g (EntityQuery t fl path ws) = EntityQuery t (g fl) path ws"

definition query_Where :: "'f query_predicate list \<Rightarrow> 'f entity_query \<Rightarrow> 'f entity_query" where
  "query_Where ps = map_flat (\<lambda>fl. fl\<lparr>qf_predicates := qf_predicates fl @ ps\<rparr>)"

definition query_Limit :: "int \<Rightarrow> 'f entity_query \<Rightarrow> 'f entity_query" where
  "query_Limit n = map_flat (\<lambda>fl. fl\<lparr>qf_limit := Some n\<rparr>)"

definition query_Offset :: "int \<Rightarrow> 'f entity_query \<Rightarrow> 'f entity_query" where
  "query_Offset n = map_flat (\<lambda>fl. fl\<lparr>qf_offset := Some n\<rparr>)"

definition query_Unique :: "bool \<Rightarrow> 'f entity_query \<Rightarrow> 'f entity_query" where
  "query_Unique b = map_flat (\<lambda>fl. fl\<lparr>qf_unique := Some b\<rparr>)"

definition query_Order :: "query_order list \<Rightarrow> 'f entity_query \<Rightarrow> 'f entity_query" where
  "query_Order os = map_flat (\<lambda>fl. fl\<lparr>qf_order := qf_order fl @ os\<rparr>)"

definition query_Select :: "string list \<Rightarrow> 'f entity_query \<Rightarrow> 'f entity_query" where
  "query_Select cs = map_flat (\<lambda>fl. fl\<lparr>qf_fields := qf_fields fl @ cs\<rparr>)"

definition with_fks :: "'f entity_query \<Rightarrow> 'f entity_query" where
  "with_fks = map_flat (\<lambda>fl. fl\<lparr>qf_withFKs := True\<rparr>)"

definition put :: "string \<Rightarrow> 'v \<Rightarrow> (string \<times> 'v) list \<Rightarrow> (string \<times> 'v) list" where
  "put k v xs = (k, v) # filter (\<lambda>x. fst x \<noteq> k) xs"

lemma put_get [simp]: "map_of (put k v xs) k' = (if k' = k then Some v else map_of xs k')"
  by (induction xs) (auto simp: put_def)

fun put_with :: "string \<Rightarrow> 'f entity_query \<Rightarrow> 'f entity_query \<Rightarrow> 'f entity_query" where
  "put_with k q' (EntityQuery t fl path ws) = EntityQuery t fl path (put k q' ws)"

definition put_withs :: "(string \<times> 'f entity_query) list \<Rightarrow> 'f entity_query \<Rightarrow> 'f entity_query" where
  "put_withs chs q = fold (\<lambda>(k, q'). put_with k q') chs q"

text \<open>\<open>WithX\<close>: a new query of the neighbours, configured by the options; \<open>QueryX\<close>: the query of the
  neighbours of what this query finds.\<close>

definition with_edge :: "string \<Rightarrow> string \<Rightarrow> ('f entity_query \<Rightarrow> 'f entity_query) list \<Rightarrow> 'f entity_query \<Rightarrow> 'f entity_query" where
  "with_edge edge target opts q = put_with edge (fold (\<lambda>opt. opt) opts (new_query target)) q"

fun set_path :: "'f query_path \<Rightarrow> 'f entity_query \<Rightarrow> 'f entity_query" where
  "set_path p (EntityQuery t fl path ws) = EntityQuery t fl (Some p) ws"

definition query_edge :: "string \<Rightarrow> step \<Rightarrow> 'f entity_query \<Rightarrow> 'f entity_query" where
  "query_edge target s q = set_path (FromQuery s q) (new_query target)"

definition entity_edge :: "string \<Rightarrow> step \<Rightarrow> int \<Rightarrow> 'f entity_query" where
  "entity_edge target s i = set_path (FromEntity s i) (new_query target)"

text \<open>\<open>Clone\<close> copies everything but \<open>withFKs\<close>.\<close>

fun query_Clone :: "'f entity_query \<Rightarrow> 'f entity_query" where
  "query_Clone (EntityQuery t fl path ws) =
     EntityQuery t (fl\<lparr>qf_withFKs := False\<rparr>) path (map (\<lambda>(k, q). (k, query_Clone q)) ws)"

section \<open>What an entity knows of its queries\<close>

text \<open>
  How an edge is loaded: the neighbour this entity refers to by a foreign key; the one, or the many
  entities that refer to this one; the entities joined by a table, with its column of this side and
  that of the neighbour.
\<close>

datatype load_rule =
    LoadOwner (lr_edge: string) (lr_target: string) string
  | LoadOne (lr_edge: string) (lr_target: string) string
  | LoadMany (lr_edge: string) (lr_target: string) string
  | LoadJoined (lr_edge: string) (lr_target: string) string string string

record entity_info =
  ei_package :: package
  ei_scan :: scan_rules
  ei_assign :: assign_rules
  ei_loads :: "load_rule list"
  ei_fk_edges :: "string list"

type_synonym catalog = "string \<Rightarrow> entity_info option"

definition valid_column :: "package \<Rightarrow> string \<Rightarrow> bool" where
  "valid_column p c = (List.member (pk_columns p) c \<or> List.member (pk_foreign_keys p) c)"

text \<open>\<open>checkColumn\<close> of models/ent/ent.go, and the errors \<open>Asc\<close> and \<open>Desc\<close> leave in the selector.\<close>

definition checkColumn :: "string \<Rightarrow> string \<Rightarrow> bool" where
  "checkColumn tbl c = (case find (\<lambda>p. pk_table p = tbl) packages of None \<Rightarrow> False | Some p \<Rightarrow> valid_column p c)"

fun order_columns :: "query_order \<Rightarrow> string list" where
  "order_columns (ByOption t desc) = []" | "order_columns (AscBy cs) = cs" | "order_columns (DescBy cs) = cs"

definition order_errors :: "string \<Rightarrow> query_order list \<Rightarrow> error list" where
  "order_errors tbl os = map (\<lambda>c. EValidation c ''unknown column'')
     (filter (\<lambda>c. \<not> checkColumn tbl c) (concat (map order_columns os)))"

section \<open>Specifications\<close>

record 'f query_spec =
  qs_table :: string
  qs_columns :: "string list"
  qs_from :: "'f query_path option"
  qs_unique :: "bool option"
  qs_predicates :: "'f query_predicate list"
  qs_limit :: int
  qs_offset :: int
  qs_order :: "query_order list"

text \<open>The selector \<open>sqlQuery\<close> builds. A limit is mandatory with an offset: the largest 32-bit number.\<close>

record 'f selector =
  sl_table :: string
  sl_columns :: "string list"
  sl_from :: "'f query_path option"
  sl_distinct :: bool
  sl_predicates :: "'f query_predicate list"
  sl_order :: "query_order list"
  sl_offset :: "int option"
  sl_limit :: "int option"

definition or_zero :: "int option \<Rightarrow> int" where
  "or_zero v = (case v of None \<Rightarrow> 0 | Some n \<Rightarrow> n)"

definition query_querySpec :: "entity_info \<Rightarrow> 'f entity_query \<Rightarrow> 'f query_spec" where
  "query_querySpec ei q = (let fl = eq_flat q; p = ei_package ei in \<lparr>
     qs_table = pk_table p,
     qs_columns = (if qf_fields fl = [] then pk_columns p else ''id'' # filter (\<lambda>c. c \<noteq> ''id'') (qf_fields fl)),
     qs_from = eq_path q,
     qs_unique = (case qf_unique fl of Some b \<Rightarrow> Some b | None \<Rightarrow> if eq_path q \<noteq> None then Some True else None),
     qs_predicates = qf_predicates fl, qs_limit = or_zero (qf_limit fl), qs_offset = or_zero (qf_offset fl),
     qs_order = qf_order fl\<rparr>)"

definition query_sqlQuery :: "entity_info \<Rightarrow> 'f entity_query \<Rightarrow> 'f selector" where
  "query_sqlQuery ei q = (let fl = eq_flat q; p = ei_package ei in \<lparr>
     sl_table = pk_table p, sl_columns = (if qf_fields fl = [] then pk_columns p else qf_fields fl), sl_from = eq_path q,
     sl_distinct = (qf_unique fl = Some True), sl_predicates = qf_predicates fl, sl_order = qf_order fl,
     sl_offset = qf_offset fl,
     sl_limit = (case qf_limit fl of Some n \<Rightarrow> Some n
       | None \<Rightarrow> if qf_offset fl \<noteq> None then Some (2 ^ 31 - 1) else None)\<rparr>)"

text \<open>\<open>prepareQuery\<close>: the selected columns must be valid, then the query this one was reached from is
  prepared, and its selector must be without errors.\<close>

fun query_prepareQuery :: "catalog \<Rightarrow> 'f entity_query \<Rightarrow> error option" where
  "query_prepareQuery cat (EntityQuery t fl path ws) =
     (case find (\<lambda>c. case cat t of None \<Rightarrow> True | Some ei \<Rightarrow> \<not> valid_column (ei_package ei) c) (qf_fields fl) of
        Some c \<Rightarrow> Some (EValidation c ''invalid field for query'')
      | None \<Rightarrow> (case path of
          Some (FromQuery s q) \<Rightarrow> (case query_prepareQuery cat q of
              Some err \<Rightarrow> Some err
            | None \<Rightarrow> (case order_errors (fst (sp_from s)) (qf_order (eq_flat q)) of [] \<Rightarrow> None | err # errs \<Rightarrow> Some err))
        | _ \<Rightarrow> None))"

end
