(* ===== verification/Ent_Load.thy ===== *)
theory Ent_Load imports Ent_Query begin

text \<open>
  Running a query of the generated client (\<open>sqlAll\<close> and the loaders of
  models/ent/<entity>_query.go): the rows are selected and decoded into nodes, then for each edge
  to load the neighbours are queried and attached. A loader changes the builder of the neighbours,
  which gets their conditions added; the run gives it back.
\<close>

section \<open>Nodes\<close>

text \<open>A node: the entity, which edges were asked for (\<open>loadedTypes\<close>), and its edges by name; an edge to
  many is the nil slice until it is loaded.\<close>

datatype 'f node = Node (nd_entity: "'f entity") (nd_loaded: "bool list")
  (nd_one: "string \<Rightarrow> 'f node option") (nd_many: "string \<Rightarrow> 'f node list option")

definition nd_row :: "'f node \<Rightarrow> 'f ent_row" where "nd_row n = en_row (nd_entity n)"

definition nd_id :: "'f node \<Rightarrow> int" where "nd_id n = un_int (nd_row n ''id'')"

definition nd_fk :: "string \<Rightarrow> 'f node \<Rightarrow> int option" where
  "nd_fk fk n = (case nd_row n fk of VInt i \<Rightarrow> Some i | _ \<Rightarrow> None)"

fun set_one :: "string \<Rightarrow> 'f node \<Rightarrow> 'f node \<Rightarrow> 'f node" where
  "set_one edge x (Node e l ones manys) = Node e l (ones(edge := Some x)) manys"

fun init_many :: "string \<Rightarrow> 'f node \<Rightarrow> 'f node" where
  "init_many edge (Node e l ones manys) = Node e l ones (manys(edge := Some []))"

fun append_many :: "string \<Rightarrow> 'f node \<Rightarrow> 'f node \<Rightarrow> 'f node" where
  "append_many edge x (Node e l ones manys) =
     Node e l ones (manys(edge := Some ((case manys edge of None \<Rightarrow> [] | Some xs \<Rightarrow> xs) @ [x])))"

section \<open>Attaching the neighbours\<close>

text \<open>The position a map from identifiers to nodes gives: the last node with the identifier.\<close>

definition position :: "int \<Rightarrow> 'f node list \<Rightarrow> nat option" where
  "position i nodes = find (\<lambda>k. nd_id (nodes ! k) = i) (rev [0..<length nodes])"

text \<open>An edge held by the neighbours.\<close>

fun attach_children ::
  "('f node \<Rightarrow> 'f node \<Rightarrow> 'f node) \<Rightarrow> string \<Rightarrow> 'f node list \<Rightarrow> 'f node list \<Rightarrow> 'f node list outcome" where
  "attach_children assign fk nodes [] = Ok nodes"
| "attach_children assign fk nodes (n # ns) = (case nd_fk fk n of
      None \<Rightarrow> Err (EMsg (''foreign-key '' @ fk @ '' is nil for node''))
    | Some i \<Rightarrow> (case position i nodes of
        None \<Rightarrow> Err (EMsg (''unexpected referenced foreign-key '' @ fk))
      | Some k \<Rightarrow> attach_children assign fk (nodes[k := assign n (nodes ! k)]) ns))"

text \<open>An edge held by the nodes themselves: the distinct keys, and the neighbour for all that refer to it.\<close>

definition owner_ids :: "string \<Rightarrow> 'f node list \<Rightarrow> int list" where
  "owner_ids fk nodes = remdups (List.map_filter (nd_fk fk) nodes)"

fun attach_owners :: "string \<Rightarrow> string \<Rightarrow> 'f node list \<Rightarrow> 'f node list \<Rightarrow> 'f node list outcome" where
  "attach_owners edge fk nodes [] = Ok nodes"
| "attach_owners edge fk nodes (n # ns) = (if list_ex (\<lambda>m. nd_fk fk m = Some (nd_id n)) nodes
     then attach_owners edge fk (map (\<lambda>m. if nd_fk fk m = Some (nd_id n) then set_one edge n m else m) nodes) ns
     else Err (EMsg (''unexpected foreign-key '' @ fk @ '' returned'')))"

text \<open>An edge held by a join table: the links are the pairs of a node and a neighbour in the order the
  rows came. A link to no node is the nil pointer.\<close>

fun append_at :: "string \<Rightarrow> 'f node \<Rightarrow> int list \<Rightarrow> 'f node list \<Rightarrow> 'f node list outcome" where
  "append_at edge n [] nodes = Ok nodes"
| "append_at edge n (i # is) nodes = (case position i nodes of None \<Rightarrow> Panic
     | Some k \<Rightarrow> append_at edge n is (nodes[k := append_many edge n (nodes ! k)]))"

definition linked :: "(int \<times> int) list \<Rightarrow> int \<Rightarrow> int list" where
  "linked links i = remdups (map fst (filter (\<lambda>l. snd l = i) links))"

fun attach_joined :: "string \<Rightarrow> (int \<times> int) list \<Rightarrow> 'f node list \<Rightarrow> 'f node list \<Rightarrow> 'f node list outcome" where
  "attach_joined edge links nodes [] = Ok nodes"
| "attach_joined edge links nodes (n # ns) = (case linked links (nd_id n) of
      [] \<Rightarrow> Err (EMsg (''unexpected '' @ edge @ '' node returned''))
    | is \<Rightarrow> (case append_at edge n is nodes of
        Ok nodes' \<Rightarrow> attach_joined edge links nodes' ns | Err err \<Rightarrow> Err err | Panic \<Rightarrow> Panic | Hang \<Rightarrow> Hang))"

section \<open>The database\<close>

text \<open>
  What the client asks of the database and its driver: \<open>sqlgraph.QueryNodes\<close> (the rows of a
  specification), \<open>CountNodes\<close>, the identifiers a selector gives, and the scan of a value.
\<close>

record 'f database =
  db_select :: "'f query_spec \<Rightarrow> error + (string \<times> 'f sql_value) list list"
  db_count :: "'f query_spec \<Rightarrow> error + int"
  db_ids :: "'f selector \<Rightarrow> error + int list"
  db_scan :: "'f scan"
  db_unmarshal :: "go_type \<Rightarrow> string \<Rightarrow> error + 'f ent_value"

section \<open>Selecting the nodes\<close>

definition asked :: "'f entity_query \<Rightarrow> string \<Rightarrow> bool" where
  "asked q edge = (map_of (eq_withs q) edge \<noteq> None)"

definition needs_fks :: "entity_info \<Rightarrow> 'f entity_query \<Rightarrow> bool" where
  "needs_fks ei q = (qf_withFKs (eq_flat q) \<or> list_ex (asked q) (ei_fk_edges ei))"

definition node_spec :: "entity_info \<Rightarrow> 'f entity_query \<Rightarrow> 'f query_spec" where
  "node_spec ei q = (let sp = query_querySpec ei q in if needs_fks ei q
     then sp\<lparr>qs_columns := qs_columns sp @ pk_foreign_keys (ei_package ei)\<rparr> else sp)"

definition new_node :: "entity_info \<Rightarrow> 'f entity_query \<Rightarrow> 'f entity \<Rightarrow> 'f node" where
  "new_node ei q e = Node e (map (\<lambda>r. asked q (lr_edge r)) (ei_loads ei)) (\<lambda>_. None) (\<lambda>_. None)"

fun decode_all :: "(string \<times> 'f sql_value) list list \<Rightarrow> ((string \<times> 'f sql_value) list \<Rightarrow> error + 'n) \<Rightarrow> error + 'n list" where
  "decode_all [] decode = Inr []"
| "decode_all (r # rs) decode = (case decode r of Inl err \<Rightarrow> Inl err | Inr n \<Rightarrow>
     (case decode_all rs decode of Inl err \<Rightarrow> Inl err | Inr ns \<Rightarrow> Inr (n # ns)))"

definition decode_node :: "'f database \<Rightarrow> entity_info \<Rightarrow> 'f entity_query \<Rightarrow> (string \<times> 'f sql_value) list \<Rightarrow> error + ('f :: zero) node" where
  "decode_node db ei q raw = map_sum id (new_node ei q) (decode_row (db_scan db) (db_unmarshal db) (ei_scan ei) (ei_assign ei) raw)"

text \<open>
  The hooks of a many-to-many loader: the first column is the identifier on the other side; a row
  of a neighbour already seen only adds a link.
\<close>

fun scanned_int :: "'f scanned \<Rightarrow> int option" where
  "scanned_int (ScInt None) = Some 0" | "scanned_int (ScInt (Some i)) = Some i" | "scanned_int s = None"

fun joined_nodes ::
  "'f database \<Rightarrow> entity_info \<Rightarrow> 'f entity_query \<Rightarrow> (int \<times> int) list \<Rightarrow> ('f :: zero) node list \<Rightarrow> (string \<times> 'f sql_value) list list \<Rightarrow>
   ((int \<times> int) list \<times> 'f node list) outcome" where
  "joined_nodes db ei q links nodes [] = Ok (links, nodes)"
| "joined_nodes db ei q links nodes (raw # raws) =
     (if length raw < 2 then Panic else
      (case scan_row (db_scan db) (NullInt64 # scanValues (ei_scan ei) (map fst (tl raw))) (map snd raw) of
         Inl err \<Rightarrow> Err err
       | Inr vs \<Rightarrow> (case (scanned_int (vs ! 0), scanned_int (vs ! 1)) of
           (Some out, Some i) \<Rightarrow>
             if list_ex (\<lambda>l. snd l = i) links then joined_nodes db ei q (links @ [(out, i)]) nodes raws
             else (case assignValues (db_unmarshal db) (ei_assign ei) (map fst (tl raw)) (tl vs) (new_entity (ei_assign ei)) of
                 Inl err \<Rightarrow> Err err
               | Inr e \<Rightarrow> joined_nodes db ei q (links @ [(out, i)]) (nodes @ [new_node ei q e]) raws)
         | _ \<Rightarrow> Panic)))"

definition fetch ::
  "catalog \<Rightarrow> 'f database \<Rightarrow> entity_info \<Rightarrow> bool \<Rightarrow> 'f entity_query \<Rightarrow> ((int \<times> int) list \<times> ('f :: zero) node list) outcome" where
  "fetch cat db ei joined q = (case query_prepareQuery cat q of
      Some err \<Rightarrow> Err err
    | None \<Rightarrow> (case db_select db (node_spec ei q) of
        Inl err \<Rightarrow> Err err
      | Inr raws \<Rightarrow> if joined then joined_nodes db ei q [] [] raws
          else (case decode_all raws (decode_node db ei q) of Inl err \<Rightarrow> Err err | Inr nodes \<Rightarrow> Ok ([], nodes))))"

section \<open>Loading the edges\<close>

text \<open>What a loader does to the query of the neighbours; without keys an owner is not queried.\<close>

fun start_load :: "load_rule \<Rightarrow> 'f node list \<Rightarrow> 'f entity_query \<Rightarrow> 'f entity_query option" where
  "start_load (LoadOwner edge t fk) nodes q = (if owner_ids fk nodes = [] then None
     else Some (query_Where [Pred (FieldIn ''id'' (map VInt (owner_ids fk nodes)))] q))"
| "start_load (LoadOne edge t fk) nodes q = Some (query_Where [InValues fk (map nd_id nodes)] (with_fks q))"
| "start_load (LoadMany edge t fk) nodes q = Some (query_Where [InValues fk (map nd_id nodes)] (with_fks q))"
| "start_load (LoadJoined edge t tbl out inn) nodes q = Some (query_Where [JoinIn tbl out inn (map nd_id nodes)] q)"

fun init_load :: "load_rule \<Rightarrow> 'f node list \<Rightarrow> 'f node list" where
  "init_load (LoadMany edge t fk) nodes = map (init_many edge) nodes"
| "init_load (LoadJoined edge t tbl out inn) nodes = map (init_many edge) nodes"
| "init_load r nodes = nodes"

fun finish_load :: "load_rule \<Rightarrow> 'f node list \<Rightarrow> (int \<times> int) list \<Rightarrow> 'f node list \<Rightarrow> 'f node list outcome" where
  "finish_load (LoadOwner edge t fk) nodes links ns = attach_owners edge fk nodes ns"
| "finish_load (LoadOne edge t fk) nodes links ns = attach_children (set_one edge) fk nodes ns"
| "finish_load (LoadMany edge t fk) nodes links ns = attach_children (append_many edge) fk nodes ns"
| "finish_load (LoadJoined edge t tbl out inn) nodes links ns = attach_joined edge links nodes ns"

definition is_joined :: "load_rule \<Rightarrow> bool" where
  "is_joined r = (case r of LoadJoined edge t tbl out inn \<Rightarrow> True | _ \<Rightarrow> False)"

text \<open>The recursion goes down the tree of builders, whose height the loaders leave alone.\<close>

fun height :: "'f entity_query \<Rightarrow> nat" where
  "height (EntityQuery t fl path ws) = Suc (fold max (map (\<lambda>w. height (snd w)) ws) 0)"

lemma fold_max_ge: "(n :: nat) \<le> fold max ns n"
  by (induction ns arbitrary: n) (auto intro: le_trans [OF max.cobounded2])

lemma fold_max_mem: "(m :: nat) \<in> set ns \<Longrightarrow> m \<le> fold max ns n"
  by (induction ns arbitrary: n) (auto intro: le_trans [OF _ fold_max_ge])

lemma height_with: "map_of (eq_withs q) edge = Some q1 \<Longrightarrow> height q1 < height q"
  by (cases q) (force dest!: map_of_SomeD intro!: le_imp_less_Suc fold_max_mem)

lemma height_flat [simp]: "height (map_flat g q) = height q"
  by (cases q) simp

lemma height_start: "start_load r nodes q1 = Some q2 \<Longrightarrow> height q2 = height q1"
  by (cases r) (auto simp: query_Where_def with_fks_def split: if_splits)

function (sequential) run_query ::
  "catalog \<Rightarrow> 'f database \<Rightarrow> bool \<Rightarrow> 'f entity_query \<Rightarrow>
     ((int \<times> int) list \<times> ('f :: zero) node list) outcome \<times> 'f entity_query"
  and load_edges ::
  "catalog \<Rightarrow> 'f database \<Rightarrow> load_rule list \<Rightarrow> 'f entity_query \<Rightarrow> 'f node list \<Rightarrow>
     ('f :: zero) node list outcome \<times> (string \<times> 'f entity_query) list" where
  "run_query cat db joined q = (case cat (eq_type q) of
      None \<Rightarrow> (Panic, q)
    | Some ei \<Rightarrow> (case fetch cat db ei joined q of
        Ok (links, nodes) \<Rightarrow> if nodes = [] then (Ok (links, []), q)
          else (case load_edges cat db (ei_loads ei) q nodes of
              (Ok nodes', chs) \<Rightarrow> (Ok (links, nodes'), put_withs chs q)
            | (Err err, chs) \<Rightarrow> (Err err, put_withs chs q)
            | (Panic, chs) \<Rightarrow> (Panic, put_withs chs q)
            | (Hang, chs) \<Rightarrow> (Hang, put_withs chs q))
      | Err err \<Rightarrow> (Err err, q) | Panic \<Rightarrow> (Panic, q) | Hang \<Rightarrow> (Hang, q)))"
| "load_edges cat db [] q nodes = (Ok nodes, [])"
| "load_edges cat db (r # rs) q nodes = (case map_of (eq_withs q) (lr_edge r) of
      None \<Rightarrow> load_edges cat db rs q nodes
    | Some q1 \<Rightarrow> (case start_load r nodes q1 of
        None \<Rightarrow> load_edges cat db rs q nodes
      | Some q2 \<Rightarrow> (case run_query cat db (is_joined r) q2 of
          (Ok (links, ns), q3) \<Rightarrow> (case finish_load r (init_load r nodes) links ns of
              Ok nodes' \<Rightarrow> (case load_edges cat db rs q nodes' of (res, chs) \<Rightarrow> (res, (lr_edge r, q3) # chs))
            | Err err \<Rightarrow> (Err err, [(lr_edge r, q3)])
            | Panic \<Rightarrow> (Panic, [(lr_edge r, q3)])
            | Hang \<Rightarrow> (Hang, [(lr_edge r, q3)]))
        | (Err err, q3) \<Rightarrow> (Err err, [(lr_edge r, q3)])
        | (Panic, q3) \<Rightarrow> (Panic, [(lr_edge r, q3)])
        | (Hang, q3) \<Rightarrow> (Hang, [(lr_edge r, q3)]))))"
  by pat_completeness auto
termination
proof (relation "inv_image (less_than <*lex*> less_than) (\<lambda>x. case x of
    Inl (cat, db, joined, q) \<Rightarrow> (height q, Suc (length (case cat (eq_type q) of None \<Rightarrow> [] | Some ei \<Rightarrow> ei_loads ei)))
  | Inr (cat, db, rs, q, nodes) \<Rightarrow> (height q, length rs))", goal_cases)
  case 1
  then show ?case by auto
qed (auto simp: height_start dest!: height_with)

text \<open>\<open>All\<close> and the queries that expect some number of results; each changes the builder.\<close>

definition query_All :: "catalog \<Rightarrow> 'f database \<Rightarrow> 'f entity_query \<Rightarrow> ('f :: zero) node list outcome \<times> 'f entity_query" where
  "query_All cat db q = (case run_query cat db False q of
      (Ok (links, nodes), q') \<Rightarrow> (Ok nodes, q') | (Err err, q') \<Rightarrow> (Err err, q')
    | (Panic, q') \<Rightarrow> (Panic, q') | (Hang, q') \<Rightarrow> (Hang, q'))"

definition query_First :: "catalog \<Rightarrow> entity_info \<Rightarrow> 'f database \<Rightarrow> 'f entity_query \<Rightarrow> ('f :: zero) node outcome \<times> 'f entity_query" where
  "query_First cat ei db q = (case query_All cat db (query_Limit 1 q) of
      (Ok [], q') \<Rightarrow> (Err (ENotFound (pk_label (ei_package ei))), q')
    | (Ok (n # ns), q') \<Rightarrow> (Ok n, q') | (Err err, q') \<Rightarrow> (Err err, q')
    | (Panic, q') \<Rightarrow> (Panic, q') | (Hang, q') \<Rightarrow> (Hang, q'))"

definition query_Only :: "catalog \<Rightarrow> entity_info \<Rightarrow> 'f database \<Rightarrow> 'f entity_query \<Rightarrow> ('f :: zero) node outcome \<times> 'f entity_query" where
  "query_Only cat ei db q = (case query_All cat db (query_Limit 2 q) of
      (Ok [n], q') \<Rightarrow> (Ok n, q') | (Ok [], q') \<Rightarrow> (Err (ENotFound (pk_label (ei_package ei))), q')
    | (Ok (n # m # ns), q') \<Rightarrow> (Err (ENotSingular (pk_label (ei_package ei))), q')
    | (Err err, q') \<Rightarrow> (Err err, q') | (Panic, q') \<Rightarrow> (Panic, q') | (Hang, q') \<Rightarrow> (Hang, q'))"

text \<open>\<open>IDs\<close> selects one column and scans it; a query reached by a path is made unique first.\<close>

definition query_IDs :: "catalog \<Rightarrow> entity_info \<Rightarrow> 'f database \<Rightarrow> 'f entity_query \<Rightarrow> (error + int list) \<times> 'f entity_query" where
  "query_IDs cat ei db q =
     (let q1 = (if qf_unique (eq_flat q) = None \<and> eq_path q \<noteq> None then query_Unique True q else q);
          q2 = query_Select [''id''] q1
      in ((case query_prepareQuery cat q2 of Some err \<Rightarrow> Inl err | None \<Rightarrow> db_ids db (query_sqlQuery ei q2)), q2))"

definition query_FirstID :: "catalog \<Rightarrow> entity_info \<Rightarrow> 'f database \<Rightarrow> 'f entity_query \<Rightarrow> (error + int) \<times> 'f entity_query" where
  "query_FirstID cat ei db q = (case query_IDs cat ei db (query_Limit 1 q) of
      (Inl err, q') \<Rightarrow> (Inl err, q') | (Inr [], q') \<Rightarrow> (Inl (ENotFound (pk_label (ei_package ei))), q')
    | (Inr (i # is), q') \<Rightarrow> (Inr i, q'))"

definition query_OnlyID :: "catalog \<Rightarrow> entity_info \<Rightarrow> 'f database \<Rightarrow> 'f entity_query \<Rightarrow> (error + int) \<times> 'f entity_query" where
  "query_OnlyID cat ei db q = (case query_IDs cat ei db (query_Limit 2 q) of
      (Inl err, q') \<Rightarrow> (Inl err, q') | (Inr [i], q') \<Rightarrow> (Inr i, q')
    | (Inr [], q') \<Rightarrow> (Inl (ENotFound (pk_label (ei_package ei))), q')
    | (Inr (i # j # is), q') \<Rightarrow> (Inl (ENotSingular (pk_label (ei_package ei))), q'))"

definition query_sqlCount :: "entity_info \<Rightarrow> 'f database \<Rightarrow> 'f entity_query \<Rightarrow> error + int" where
  "query_sqlCount ei db q = (let fl = eq_flat q; sp = query_querySpec ei q in
     db_count db (sp\<lparr>qs_columns := qf_fields fl,
       qs_unique := (if qf_fields fl = [] then qs_unique sp else Some (qf_unique fl = Some True))\<rparr>))"

definition query_Count :: "catalog \<Rightarrow> entity_info \<Rightarrow> 'f database \<Rightarrow> 'f entity_query \<Rightarrow> error + int" where
  "query_Count cat ei db q = (case query_prepareQuery cat q of Some err \<Rightarrow> Inl err | None \<Rightarrow> query_sqlCount ei db q)"

definition query_Exist :: "catalog \<Rightarrow> entity_info \<Rightarrow> 'f database \<Rightarrow> 'f entity_query \<Rightarrow> (error + bool) \<times> 'f entity_query" where
  "query_Exist cat ei db q = (case query_FirstID cat ei db q of
      (Inr i, q') \<Rightarrow> (Inr True, q') | (Inl (ENotFound l), q') \<Rightarrow> (Inr False, q')
    | (Inl err, q') \<Rightarrow> (Inl (EWrap ''ent: check existence'' err), q'))"

end
