(* ===== verification/Ent_Queries.thy ===== *)
theory Ent_Queries imports Ent_Load begin

text \<open>
  The query builders of every entity (models/ent/<entity>_query.go) and the queries of its client
  (models/ent/client.go), instances of theories Ent_Query and Ent_Load: the step of every edge, the
  loader of every edge, and what \<open>sqlAll\<close> loads. The methods that are the same for every entity
  but for its package follow at the end.
\<close>

section \<open>Activation code\<close>

definition ActivationCodeClient_Query :: "'f entity_query" where
  "ActivationCodeClient_Query = new_query ''ActivationCode''"

definition ActivationCodeQuery_QueryOwner :: "'f entity_query \<Rightarrow> 'f entity_query" where
  "ActivationCodeQuery_QueryOwner = query_edge ''User'' (NewStep ''activation_codes'' ''id'' ''users'' ''id'' O2O True
     ''activation_codes'' [''user_activation_code''])"

definition ActivationCodeClient_QueryOwner :: "int \<Rightarrow> 'f entity_query" where
  "ActivationCodeClient_QueryOwner = entity_edge ''User'' (NewStep ''activation_codes'' ''id'' ''users'' ''id'' O2O True
     ''activation_codes'' [''user_activation_code''])"

definition ActivationCodeQuery_WithOwner :: "('f entity_query \<Rightarrow> 'f entity_query) list \<Rightarrow> 'f entity_query \<Rightarrow> 'f entity_query" where
  "ActivationCodeQuery_WithOwner = with_edge ''owner'' ''User''"

definition ActivationCodeQuery_loadOwner :: load_rule where
  "ActivationCodeQuery_loadOwner = LoadOwner ''owner'' ''User'' ''user_activation_code''"

definition ActivationCodeQuery_info :: entity_info where
  "ActivationCodeQuery_info = \<lparr>ei_package = activationcode_package, ei_scan = ActivationCode_scanValues, ei_assign = ActivationCode_assignValues,
    ei_loads = [
      ActivationCodeQuery_loadOwner],
    ei_fk_edges = [''owner'']\<rparr>"

section \<open>Blacklisted token\<close>

definition BlacklistedTokenClient_Query :: "'f entity_query" where
  "BlacklistedTokenClient_Query = new_query ''BlacklistedToken''"

definition BlacklistedTokenQuery_QueryOwner :: "'f entity_query \<Rightarrow> 'f entity_query" where
  "BlacklistedTokenQuery_QueryOwner = query_edge ''User'' (NewStep ''blacklisted_tokens'' ''id'' ''users'' ''id'' M2O False
     ''blacklisted_tokens'' [''blacklisted_token_owner''])"

definition BlacklistedTokenClient_QueryOwner :: "int \<Rightarrow> 'f entity_query" where
  "BlacklistedTokenClient_QueryOwner = entity_edge ''User'' (NewStep ''blacklisted_tokens'' ''id'' ''users'' ''id'' M2O False
     ''blacklisted_tokens'' [''blacklisted_token_owner''])"

definition BlacklistedTokenQuery_WithOwner :: "('f entity_query \<Rightarrow> 'f entity_query) list \<Rightarrow> 'f entity_query \<Rightarrow> 'f entity_query" where
  "BlacklistedTokenQuery_WithOwner = with_edge ''owner'' ''User''"

definition BlacklistedTokenQuery_loadOwner :: load_rule where
  "BlacklistedTokenQuery_loadOwner = LoadOwner ''owner'' ''User'' ''blacklisted_token_owner''"

definition BlacklistedTokenQuery_info :: entity_info where
  "BlacklistedTokenQuery_info = \<lparr>ei_package = blacklistedtoken_package, ei_scan = BlacklistedToken_scanValues, ei_assign = BlacklistedToken_assignValues,
    ei_loads = [
      BlacklistedTokenQuery_loadOwner],
    ei_fk_edges = [''owner'']\<rparr>"

section \<open>Entrepreneur details\<close>

definition EntrepreneurDetailsClient_Query :: "'f entity_query" where
  "EntrepreneurDetailsClient_Query = new_query ''EntrepreneurDetails''"

definition EntrepreneurDetailsQuery_QueryUserDetails :: "'f entity_query \<Rightarrow> 'f entity_query" where
  "EntrepreneurDetailsQuery_QueryUserDetails = query_edge ''UserDetails'' (NewStep ''entrepreneur_details'' ''id'' ''user_details'' ''id'' O2O True
     ''entrepreneur_details'' [''user_details_entrepreneur_details''])"

definition EntrepreneurDetailsClient_QueryUserDetails :: "int \<Rightarrow> 'f entity_query" where
  "EntrepreneurDetailsClient_QueryUserDetails = entity_edge ''UserDetails'' (NewStep ''entrepreneur_details'' ''id'' ''user_details'' ''id'' O2O True
     ''entrepreneur_details'' [''user_details_entrepreneur_details''])"

definition EntrepreneurDetailsQuery_WithUserDetails :: "('f entity_query \<Rightarrow> 'f entity_query) list \<Rightarrow> 'f entity_query \<Rightarrow> 'f entity_query" where
  "EntrepreneurDetailsQuery_WithUserDetails = with_edge ''user_details'' ''UserDetails''"

definition EntrepreneurDetailsQuery_loadUserDetails :: load_rule where
  "EntrepreneurDetailsQuery_loadUserDetails = LoadOwner ''user_details'' ''UserDetails'' ''user_details_entrepreneur_details''"

definition EntrepreneurDetailsQuery_info :: entity_info where
  "EntrepreneurDetailsQuery_info = \<lparr>ei_package = entrepreneurdetails_package, ei_scan = EntrepreneurDetails_scanValues, ei_assign = EntrepreneurDetails_assignValues,
    ei_loads = [
      EntrepreneurDetailsQuery_loadUserDetails],
    ei_fk_edges = [''user_details'']\<rparr>"

section \<open>Location\<close>

definition LocationClient_Query :: "'f entity_query" where
  "LocationClient_Query = new_query ''Location''"

definition LocationQuery_QueryUserDetails :: "'f entity_query \<Rightarrow> 'f entity_query" where
  "LocationQuery_QueryUserDetails = query_edge ''UserDetails'' (NewStep ''locations'' ''id'' ''user_details'' ''id'' M2O True
     ''locations'' [''user_details_locations''])"

definition LocationClient_QueryUserDetails :: "int \<Rightarrow> 'f entity_query" where
  "LocationClient_QueryUserDetails = entity_edge ''UserDetails'' (NewStep ''locations'' ''id'' ''user_details'' ''id'' M2O True
     ''locations'' [''user_details_locations''])"

definition LocationQuery_WithUserDetails :: "('f entity_query \<Rightarrow> 'f entity_query) list \<Rightarrow> 'f entity_query \<Rightarrow> 'f entity_query" where
  "LocationQuery_WithUserDetails = with_edge ''user_details'' ''UserDetails''"

definition LocationQuery_loadUserDetails :: load_rule where
  "LocationQuery_loadUserDetails = LoadOwner ''user_details'' ''UserDetails'' ''user_details_locations''"

definition LocationQuery_info :: entity_info where
  "LocationQuery_info = \<lparr>ei_package = location_package, ei_scan = Location_scanValues, ei_assign = Location_assignValues,
    ei_loads = [
      LocationQuery_loadUserDetails],
    ei_fk_edges = [''user_details'']\<rparr>"

section \<open>Reset code\<close>

definition ResetCodeClient_Query :: "'f entity_query" where
  "ResetCodeClient_Query = new_query ''ResetCode''"

definition ResetCodeQuery_QueryOwner :: "'f entity_query \<Rightarrow> 'f entity_query" where
  "ResetCodeQuery_QueryOwner = query_edge ''User'' (NewStep ''reset_codes'' ''id'' ''users'' ''id'' O2O True
     ''reset_codes'' [''user_reset_code''])"

definition ResetCodeClient_QueryOwner :: "int \<Rightarrow> 'f entity_query" where
  "ResetCodeClient_QueryOwner = entity_edge ''User'' (NewStep ''reset_codes'' ''id'' ''users'' ''id'' O2O True
     ''reset_codes'' [''user_reset_code''])"

definition ResetCodeQuery_WithOwner :: "('f entity_query \<Rightarrow> 'f entity_query) list \<Rightarrow> 'f entity_query \<Rightarrow> 'f entity_query" where
  "ResetCodeQuery_WithOwner = with_edge ''owner'' ''User''"

definition ResetCodeQuery_loadOwner :: load_rule where
  "ResetCodeQuery_loadOwner = LoadOwner ''owner'' ''User'' ''user_reset_code''"

definition ResetCodeQuery_info :: entity_info where
  "ResetCodeQuery_info = \<lparr>ei_package = resetcode_package, ei_scan = ResetCode_scanValues, ei_assign = ResetCode_assignValues,
    ei_loads = [
      ResetCodeQuery_loadOwner],
    ei_fk_edges = [''owner'']\<rparr>"

section \<open>Role permission\<close>

definition RolePermissionClient_Query :: "'f entity_query" where
  "RolePermissionClient_Query = new_query ''RolePermission''"

definition RolePermissionQuery_QueryUserRole :: "'f entity_query \<Rightarrow> 'f entity_query" where
  "RolePermissionQuery_QueryUserRole = query_edge ''UserRole'' (NewStep ''role_permissions'' ''id'' ''user_roles'' ''id'' M2M False
     ''role_permission_user_role'' [''role_permission_id'', ''user_role_id''])"

definition RolePermissionClient_QueryUserRole :: "int \<Rightarrow> 'f entity_query" where
  "RolePermissionClient_QueryUserRole = entity_edge ''UserRole'' (NewStep ''role_permissions'' ''id'' ''user_roles'' ''id'' M2M False
     ''role_permission_user_role'' [''role_permission_id'', ''user_role_id''])"

definition RolePermissionQuery_WithUserRole :: "('f entity_query \<Rightarrow> 'f entity_query) list \<Rightarrow> 'f entity_query \<Rightarrow> 'f entity_query" where
  "RolePermissionQuery_WithUserRole = with_edge ''user_role'' ''UserRole''"

definition RolePermissionQuery_loadUserRole :: load_rule where
  "RolePermissionQuery_loadUserRole = LoadJoined ''user_role'' ''UserRole'' ''role_permission_user_role'' ''role_permission_id'' ''user_role_id''"

definition RolePermissionQuery_info :: entity_info where
  "RolePermissionQuery_info = \<lparr>ei_package = rolepermission_package, ei_scan = RolePermission_scanValues, ei_assign = RolePermission_assignValues,
    ei_loads = [
      RolePermissionQuery_loadUserRole],
    ei_fk_edges = []\<rparr>"

section \<open>Second factor code\<close>

definition SecondFactorCodeClient_Query :: "'f entity_query" where
  "SecondFactorCodeClient_Query = new_query ''SecondFactorCode''"

definition SecondFactorCodeQuery_QueryOwner :: "'f entity_query \<Rightarrow> 'f entity_query" where
  "SecondFactorCodeQuery_QueryOwner = query_edge ''User'' (NewStep ''second_factor_codes'' ''id'' ''users'' ''id'' O2O True
     ''second_factor_codes'' [''user_second_factor_code''])"

definition SecondFactorCodeClient_QueryOwner :: "int \<Rightarrow> 'f entity_query" where
  "SecondFactorCodeClient_QueryOwner = entity_edge ''User'' (NewStep ''second_factor_codes'' ''id'' ''users'' ''id'' O2O True
     ''second_factor_codes'' [''user_second_factor_code''])"

definition SecondFactorCodeQuery_WithOwner :: "('f entity_query \<Rightarrow> 'f entity_query) list \<Rightarrow> 'f entity_query \<Rightarrow> 'f entity_query" where
  "SecondFactorCodeQuery_WithOwner = with_edge ''owner'' ''User''"

definition SecondFactorCodeQuery_loadOwner :: load_rule where
  "SecondFactorCodeQuery_loadOwner = LoadOwner ''owner'' ''User'' ''user_second_factor_code''"

definition SecondFactorCodeQuery_QueryTargetUserDevice :: "'f entity_query \<Rightarrow> 'f entity_query" where
  "SecondFactorCodeQuery_QueryTargetUserDevice = query_edge ''UserDevice'' (NewStep ''second_factor_codes'' ''id'' ''user_devices'' ''id'' O2O False
     ''user_devices'' [''second_factor_code_target_user_device''])"

definition SecondFactorCodeClient_QueryTargetUserDevice :: "int \<Rightarrow> 'f entity_query" where
  "SecondFactorCodeClient_QueryTargetUserDevice = entity_edge ''UserDevice'' (NewStep ''second_factor_codes'' ''id'' ''user_devices'' ''id'' O2O False
     ''user_devices'' [''second_factor_code_target_user_device''])"

definition SecondFactorCodeQuery_WithTargetUserDevice :: "('f entity_query \<Rightarrow> 'f entity_query) list \<Rightarrow> 'f entity_query \<Rightarrow> 'f entity_query" where
  "SecondFactorCodeQuery_WithTargetUserDevice = with_edge ''target_user_device'' ''UserDevice''"

definition SecondFactorCodeQuery_loadTargetUserDevice :: load_rule where
  "SecondFactorCodeQuery_loadTargetUserDevice = LoadOne ''target_user_device'' ''UserDevice'' ''second_factor_code_target_user_device''"

definition SecondFactorCodeQuery_info :: entity_info where
  "SecondFactorCodeQuery_info = \<lparr>ei_package = secondfactorcode_package, ei_scan = SecondFactorCode_scanValues, ei_assign = SecondFactorCode_assignValues,
    ei_loads = [
      SecondFactorCodeQuery_loadOwner, SecondFactorCodeQuery_loadTargetUserDevice],
    ei_fk_edges = [''owner'']\<rparr>"

section \<open>User\<close>

definition UserClient_Query :: "'f entity_query" where
  "UserClient_Query = new_query ''User''"

definition UserQuery_QueryUserDetails :: "'f entity_query \<Rightarrow> 'f entity_query" where
  "UserQuery_QueryUserDetails = query_edge ''UserDetails'' (NewStep ''users'' ''id'' ''user_details'' ''id'' O2O False
     ''user_details'' [''user_user_details''])"

definition UserClient_QueryUserDetails :: "int \<Rightarrow> 'f entity_query" where
  "UserClient_QueryUserDetails = entity_edge ''UserDetails'' (NewStep ''users'' ''id'' ''user_details'' ''id'' O2O False
     ''user_details'' [''user_user_details''])"

definition UserQuery_WithUserDetails :: "('f entity_query \<Rightarrow> 'f entity_query) list \<Rightarrow> 'f entity_query \<Rightarrow> 'f entity_query" where
  "UserQuery_WithUserDetails = with_edge ''user_details'' ''UserDetails''"

definition UserQuery_loadUserDetails :: load_rule where
  "UserQuery_loadUserDetails = LoadOne ''user_details'' ''UserDetails'' ''user_user_details''"

definition UserQuery_QueryUserSettings :: "'f entity_query \<Rightarrow> 'f entity_query" where
  "UserQuery_QueryUserSettings = query_edge ''UserSettings'' (NewStep ''users'' ''id'' ''user_settings'' ''id'' O2O False
     ''user_settings'' [''user_user_settings''])"

definition UserClient_QueryUserSettings :: "int \<Rightarrow> 'f entity_query" where
  "UserClient_QueryUserSettings = entity_edge ''UserSettings'' (NewStep ''users'' ''id'' ''user_settings'' ''id'' O2O False
     ''user_settings'' [''user_user_settings''])"

definition UserQuery_WithUserSettings :: "('f entity_query \<Rightarrow> 'f entity_query) list \<Rightarrow> 'f entity_query \<Rightarrow> 'f entity_query" where
  "UserQuery_WithUserSettings = with_edge ''user_settings'' ''UserSettings''"

definition UserQuery_loadUserSettings :: load_rule where
  "UserQuery_loadUserSettings = LoadOne ''user_settings'' ''UserSettings'' ''user_user_settings''"

definition UserQuery_QueryActivationCode :: "'f entity_query \<Rightarrow> 'f entity_query" where
  "UserQuery_QueryActivationCode = query_edge ''ActivationCode'' (NewStep ''users'' ''id'' ''activation_codes'' ''id'' O2O False
     ''activation_codes'' [''user_activation_code''])"

definition UserClient_QueryActivationCode :: "int \<Rightarrow> 'f entity_query" where
  "UserClient_QueryActivationCode = entity_edge ''ActivationCode'' (NewStep ''users'' ''id'' ''activation_codes'' ''id'' O2O False
     ''activation_codes'' [''user_activation_code''])"

definition UserQuery_WithActivationCode :: "('f entity_query \<Rightarrow> 'f entity_query) list \<Rightarrow> 'f entity_query \<Rightarrow> 'f entity_query" where
  "UserQuery_WithActivationCode = with_edge ''activation_code'' ''ActivationCode''"

definition UserQuery_loadActivationCode :: load_rule where
  "UserQuery_loadActivationCode = LoadOne ''activation_code'' ''ActivationCode'' ''user_activation_code''"

definition UserQuery_QueryVerificationCode :: "'f entity_query \<Rightarrow> 'f entity_query" where
  "UserQuery_QueryVerificationCode = query_edge ''VerificationCode'' (NewStep ''users'' ''id'' ''verification_codes'' ''id'' O2O False
     ''verification_codes'' [''user_verification_code''])"

definition UserClient_QueryVerificationCode :: "int \<Rightarrow> 'f entity_query" where
  "UserClient_QueryVerificationCode = entity_edge ''VerificationCode'' (NewStep ''users'' ''id'' ''verification_codes'' ''id'' O2O False
     ''verification_codes'' [''user_verification_code''])"

definition UserQuery_WithVerificationCode :: "('f entity_query \<Rightarrow> 'f entity_query) list \<Rightarrow> 'f entity_query \<Rightarrow> 'f entity_query" where
  "UserQuery_WithVerificationCode = with_edge ''verification_code'' ''VerificationCode''"

definition UserQuery_loadVerificationCode :: load_rule where
  "UserQuery_loadVerificationCode = LoadOne ''verification_code'' ''VerificationCode'' ''user_verification_code''"

definition UserQuery_QuerySecondFactorCode :: "'f entity_query \<Rightarrow> 'f entity_query" where
  "UserQuery_QuerySecondFactorCode = query_edge ''SecondFactorCode'' (NewStep ''users'' ''id'' ''second_factor_codes'' ''id'' O2O False
     ''second_factor_codes'' [''user_second_factor_code''])"

definition UserClient_QuerySecondFactorCode :: "int \<Rightarrow> 'f entity_query" where
  "UserClient_QuerySecondFactorCode = entity_edge ''SecondFactorCode'' (NewStep ''users'' ''id'' ''second_factor_codes'' ''id'' O2O False
     ''second_factor_codes'' [''user_second_factor_code''])"

definition UserQuery_WithSecondFactorCode :: "('f entity_query \<Rightarrow> 'f entity_query) list \<Rightarrow> 'f entity_query \<Rightarrow> 'f entity_query" where
  "UserQuery_WithSecondFactorCode = with_edge ''second_factor_code'' ''SecondFactorCode''"

definition UserQuery_loadSecondFactorCode :: load_rule where
  "UserQuery_loadSecondFactorCode = LoadOne ''second_factor_code'' ''SecondFactorCode'' ''user_second_factor_code''"

definition UserQuery_QueryResetCode :: "'f entity_query \<Rightarrow> 'f entity_query" where
  "UserQuery_QueryResetCode = query_edge ''ResetCode'' (NewStep ''users'' ''id'' ''reset_codes'' ''id'' O2O False
     ''reset_codes'' [''user_reset_code''])"

definition UserClient_QueryResetCode :: "int \<Rightarrow> 'f entity_query" where
  "UserClient_QueryResetCode = entity_edge ''ResetCode'' (NewStep ''users'' ''id'' ''reset_codes'' ''id'' O2O False
     ''reset_codes'' [''user_reset_code''])"

definition UserQuery_WithResetCode :: "('f entity_query \<Rightarrow> 'f entity_query) list \<Rightarrow> 'f entity_query \<Rightarrow> 'f entity_query" where
  "UserQuery_WithResetCode = with_edge ''reset_code'' ''ResetCode''"

definition UserQuery_loadResetCode :: load_rule where
  "UserQuery_loadResetCode = LoadOne ''reset_code'' ''ResetCode'' ''user_reset_code''"

definition UserQuery_QueryUserDevices :: "'f entity_query \<Rightarrow> 'f entity_query" where
  "UserQuery_QueryUserDevices = query_edge ''UserDevice'' (NewStep ''users'' ''id'' ''user_devices'' ''id'' O2M False
     ''user_devices'' [''user_user_devices''])"

definition UserClient_QueryUserDevices :: "int \<Rightarrow> 'f entity_query" where
  "UserClient_QueryUserDevices = entity_edge ''UserDevice'' (NewStep ''users'' ''id'' ''user_devices'' ''id'' O2M False
     ''user_devices'' [''user_user_devices''])"

definition UserQuery_WithUserDevices :: "('f entity_query \<Rightarrow> 'f entity_query) list \<Rightarrow> 'f entity_query \<Rightarrow> 'f entity_query" where
  "UserQuery_WithUserDevices = with_edge ''user_devices'' ''UserDevice''"

definition UserQuery_loadUserDevices :: load_rule where
  "UserQuery_loadUserDevices = LoadMany ''user_devices'' ''UserDevice'' ''user_user_devices''"

definition UserQuery_QueryUserActions :: "'f entity_query \<Rightarrow> 'f entity_query" where
  "UserQuery_QueryUserActions = query_edge ''UserAction'' (NewStep ''users'' ''id'' ''user_actions'' ''id'' M2M False
     ''user_user_actions'' [''user_id'', ''user_action_id''])"

definition UserClient_QueryUserActions :: "int \<Rightarrow> 'f entity_query" where
  "UserClient_QueryUserActions = entity_edge ''UserAction'' (NewStep ''users'' ''id'' ''user_actions'' ''id'' M2M False
     ''user_user_actions'' [''user_id'', ''user_action_id''])"

definition UserQuery_WithUserActions :: "('f entity_query \<Rightarrow> 'f entity_query) list \<Rightarrow> 'f entity_query \<Rightarrow> 'f entity_query" where
  "UserQuery_WithUserActions = with_edge ''user_actions'' ''UserAction''"

definition UserQuery_loadUserActions :: load_rule where
  "UserQuery_loadUserActions = LoadJoined ''user_actions'' ''UserAction'' ''user_user_actions'' ''user_id'' ''user_action_id''"

definition UserQuery_QueryUserRoles :: "'f entity_query \<Rightarrow> 'f entity_query" where
  "UserQuery_QueryUserRoles = query_edge ''UserRole'' (NewStep ''users'' ''id'' ''user_roles'' ''id'' M2M False
     ''user_user_roles'' [''user_id'', ''user_role_id''])"

definition UserClient_QueryUserRoles :: "int \<Rightarrow> 'f entity_query" where
  "UserClient_QueryUserRoles = entity_edge ''UserRole'' (NewStep ''users'' ''id'' ''user_roles'' ''id'' M2M False
     ''user_user_roles'' [''user_id'', ''user_role_id''])"

definition UserQuery_WithUserRoles :: "('f entity_query \<Rightarrow> 'f entity_query) list \<Rightarrow> 'f entity_query \<Rightarrow> 'f entity_query" where
  "UserQuery_WithUserRoles = with_edge ''user_roles'' ''UserRole''"

definition UserQuery_loadUserRoles :: load_rule where
  "UserQuery_loadUserRoles = LoadJoined ''user_roles'' ''UserRole'' ''user_user_roles'' ''user_id'' ''user_role_id''"

definition UserQuery_QueryBlacklistedTokens :: "'f entity_query \<Rightarrow> 'f entity_query" where
  "UserQuery_QueryBlacklistedTokens = query_edge ''BlacklistedToken'' (NewStep ''users'' ''id'' ''blacklisted_tokens'' ''id'' O2M True
     ''blacklisted_tokens'' [''blacklisted_token_owner''])"

definition UserClient_QueryBlacklistedTokens :: "int \<Rightarrow> 'f entity_query" where
  "UserClient_QueryBlacklistedTokens = entity_edge ''BlacklistedToken'' (NewStep ''users'' ''id'' ''blacklisted_tokens'' ''id'' O2M True
     ''blacklisted_tokens'' [''blacklisted_token_owner''])"

definition UserQuery_WithBlacklistedTokens :: "('f entity_query \<Rightarrow> 'f entity_query) list \<Rightarrow> 'f entity_query \<Rightarrow> 'f entity_query" where
  "UserQuery_WithBlacklistedTokens = with_edge ''blacklisted_tokens'' ''BlacklistedToken''"

definition UserQuery_loadBlacklistedTokens :: load_rule where
  "UserQuery_loadBlacklistedTokens = LoadMany ''blacklisted_tokens'' ''BlacklistedToken'' ''blacklisted_token_owner''"

definition UserQuery_info :: entity_info where
  "UserQuery_info = \<lparr>ei_package = user_package, ei_scan = User_scanValues, ei_assign = User_assignValues,
    ei_loads = [
      UserQuery_loadUserDetails, UserQuery_loadUserSettings, UserQuery_loadActivationCode,
      UserQuery_loadVerificationCode, UserQuery_loadSecondFactorCode, UserQuery_loadResetCode,
      UserQuery_loadUserDevices, UserQuery_loadUserActions, UserQuery_loadUserRoles, UserQuery_loadBlacklistedTokens],
    ei_fk_edges = []\<rparr>"

section \<open>User action\<close>

definition UserActionClient_Query :: "'f entity_query" where
  "UserActionClient_Query = new_query ''UserAction''"

definition UserActionQuery_QueryAuthor :: "'f entity_query \<Rightarrow> 'f entity_query" where
  "UserActionQuery_QueryAuthor = query_edge ''User'' (NewStep ''user_actions'' ''id'' ''users'' ''id'' M2M True
     ''user_user_actions'' [''user_id'', ''user_action_id''])"

definition UserActionClient_QueryAuthor :: "int \<Rightarrow> 'f entity_query" where
  "UserActionClient_QueryAuthor = entity_edge ''User'' (NewStep ''user_actions'' ''id'' ''users'' ''id'' M2M True
     ''user_user_actions'' [''user_id'', ''user_action_id''])"

definition UserActionQuery_WithAuthor :: "('f entity_query \<Rightarrow> 'f entity_query) list \<Rightarrow> 'f entity_query \<Rightarrow> 'f entity_query" where
  "UserActionQuery_WithAuthor = with_edge ''author'' ''User''"

definition UserActionQuery_loadAuthor :: load_rule where
  "UserActionQuery_loadAuthor = LoadJoined ''author'' ''User'' ''user_user_actions'' ''user_action_id'' ''user_id''"

definition UserActionQuery_QueryAuthorDevice :: "'f entity_query \<Rightarrow> 'f entity_query" where
  "UserActionQuery_QueryAuthorDevice = query_edge ''UserDevice'' (NewStep ''user_actions'' ''id'' ''user_devices'' ''id'' M2M True
     ''user_device_user_actions'' [''user_device_id'', ''user_action_id''])"

definition UserActionClient_QueryAuthorDevice :: "int \<Rightarrow> 'f entity_query" where
  "UserActionClient_QueryAuthorDevice = entity_edge ''UserDevice'' (NewStep ''user_actions'' ''id'' ''user_devices'' ''id'' M2M True
     ''user_device_user_actions'' [''user_device_id'', ''user_action_id''])"

definition UserActionQuery_WithAuthorDevice :: "('f entity_query \<Rightarrow> 'f entity_query) list \<Rightarrow> 'f entity_query \<Rightarrow> 'f entity_query" where
  "UserActionQuery_WithAuthorDevice = with_edge ''author_device'' ''UserDevice''"

definition UserActionQuery_loadAuthorDevice :: load_rule where
  "UserActionQuery_loadAuthorDevice = LoadJoined ''author_device'' ''UserDevice'' ''user_device_user_actions'' ''user_action_id'' ''user_device_id''"

definition UserActionQuery_info :: entity_info where
  "UserActionQuery_info = \<lparr>ei_package = useraction_package, ei_scan = UserAction_scanValues, ei_assign = UserAction_assignValues,
    ei_loads = [
      UserActionQuery_loadAuthor, UserActionQuery_loadAuthorDevice],
    ei_fk_edges = []\<rparr>"

section \<open>User details\<close>

definition UserDetailsClient_Query :: "'f entity_query" where
  "UserDetailsClient_Query = new_query ''UserDetails''"

definition UserDetailsQuery_QueryOwner :: "'f entity_query \<Rightarrow> 'f entity_query" where
  "UserDetailsQuery_QueryOwner = query_edge ''User'' (NewStep ''user_details'' ''id'' ''users'' ''id'' O2O True
     ''user_details'' [''user_user_details''])"

definition UserDetailsClient_QueryOwner :: "int \<Rightarrow> 'f entity_query" where
  "UserDetailsClient_QueryOwner = entity_edge ''User'' (NewStep ''user_details'' ''id'' ''users'' ''id'' O2O True
     ''user_details'' [''user_user_details''])"

definition UserDetailsQuery_WithOwner :: "('f entity_query \<Rightarrow> 'f entity_query) list \<Rightarrow> 'f entity_query \<Rightarrow> 'f entity_query" where
  "UserDetailsQuery_WithOwner = with_edge ''owner'' ''User''"

definition UserDetailsQuery_loadOwner :: load_rule where
  "UserDetailsQuery_loadOwner = LoadOwner ''owner'' ''User'' ''user_user_details''"

definition UserDetailsQuery_QueryLocations :: "'f entity_query \<Rightarrow> 'f entity_query" where
  "UserDetailsQuery_QueryLocations = query_edge ''Location'' (NewStep ''user_details'' ''id'' ''locations'' ''id'' O2M False
     ''locations'' [''user_details_locations''])"

definition UserDetailsClient_QueryLocations :: "int \<Rightarrow> 'f entity_query" where
  "UserDetailsClient_QueryLocations = entity_edge ''Location'' (NewStep ''user_details'' ''id'' ''locations'' ''id'' O2M False
     ''locations'' [''user_details_locations''])"

definition UserDetailsQuery_WithLocations :: "('f entity_query \<Rightarrow> 'f entity_query) list \<Rightarrow> 'f entity_query \<Rightarrow> 'f entity_query" where
  "UserDetailsQuery_WithLocations = with_edge ''locations'' ''Location''"

definition UserDetailsQuery_loadLocations :: load_rule where
  "UserDetailsQuery_loadLocations = LoadMany ''locations'' ''Location'' ''user_details_locations''"

definition UserDetailsQuery_QueryEntrepreneurDetails :: "'f entity_query \<Rightarrow> 'f entity_query" where
  "UserDetailsQuery_QueryEntrepreneurDetails = query_edge ''EntrepreneurDetails'' (NewStep ''user_details'' ''id'' ''entrepreneur_details'' ''id'' O2O False
     ''entrepreneur_details'' [''user_details_entrepreneur_details''])"

definition UserDetailsClient_QueryEntrepreneurDetails :: "int \<Rightarrow> 'f entity_query" where
  "UserDetailsClient_QueryEntrepreneurDetails = entity_edge ''EntrepreneurDetails'' (NewStep ''user_details'' ''id'' ''entrepreneur_details'' ''id'' O2O False
     ''entrepreneur_details'' [''user_details_entrepreneur_details''])"

definition UserDetailsQuery_WithEntrepreneurDetails :: "('f entity_query \<Rightarrow> 'f entity_query) list \<Rightarrow> 'f entity_query \<Rightarrow> 'f entity_query" where
  "UserDetailsQuery_WithEntrepreneurDetails = with_edge ''entrepreneur_details'' ''EntrepreneurDetails''"

definition UserDetailsQuery_loadEntrepreneurDetails :: load_rule where
  "UserDetailsQuery_loadEntrepreneurDetails = LoadOne ''entrepreneur_details'' ''EntrepreneurDetails'' ''user_details_entrepreneur_details''"

definition UserDetailsQuery_info :: entity_info where
  "UserDetailsQuery_info = \<lparr>ei_package = userdetails_package, ei_scan = UserDetails_scanValues, ei_assign = UserDetails_assignValues,
    ei_loads = [
      UserDetailsQuery_loadOwner, UserDetailsQuery_loadLocations, UserDetailsQuery_loadEntrepreneurDetails],
    ei_fk_edges = [''owner'']\<rparr>"

section \<open>User device\<close>

definition UserDeviceClient_Query :: "'f entity_query" where
  "UserDeviceClient_Query = new_query ''UserDevice''"

definition UserDeviceQuery_QueryOwner :: "'f entity_query \<Rightarrow> 'f entity_query" where
  "UserDeviceQuery_QueryOwner = query_edge ''User'' (NewStep ''user_devices'' ''id'' ''users'' ''id'' M2O True
     ''user_devices'' [''user_user_devices''])"

definition UserDeviceClient_QueryOwner :: "int \<Rightarrow> 'f entity_query" where
  "UserDeviceClient_QueryOwner = entity_edge ''User'' (NewStep ''user_devices'' ''id'' ''users'' ''id'' M2O True
     ''user_devices'' [''user_user_devices''])"

definition UserDeviceQuery_WithOwner :: "('f entity_query \<Rightarrow> 'f entity_query) list \<Rightarrow> 'f entity_query \<Rightarrow> 'f entity_query" where
  "UserDeviceQuery_WithOwner = with_edge ''owner'' ''User''"

definition UserDeviceQuery_loadOwner :: load_rule where
  "UserDeviceQuery_loadOwner = LoadOwner ''owner'' ''User'' ''user_user_devices''"

definition UserDeviceQuery_QueryUserSettings2fa :: "'f entity_query \<Rightarrow> 'f entity_query" where
  "UserDeviceQuery_QueryUserSettings2fa = query_edge ''UserSettings'' (NewStep ''user_devices'' ''id'' ''user_settings'' ''id'' O2O True
     ''user_devices'' [''user_settings_second_factor_target''])"

definition UserDeviceClient_QueryUserSettings2fa :: "int \<Rightarrow> 'f entity_query" where
  "UserDeviceClient_QueryUserSettings2fa = entity_edge ''UserSettings'' (NewStep ''user_devices'' ''id'' ''user_settings'' ''id'' O2O True
     ''user_devices'' [''user_settings_second_factor_target''])"

definition UserDeviceQuery_WithUserSettings2fa :: "('f entity_query \<Rightarrow> 'f entity_query) list \<Rightarrow> 'f entity_query \<Rightarrow> 'f entity_query" where
  "UserDeviceQuery_WithUserSettings2fa = with_edge ''user_settings_2fa'' ''UserSettings''"

definition UserDeviceQuery_loadUserSettings2fa :: load_rule where
  "UserDeviceQuery_loadUserSettings2fa = LoadOwner ''user_settings_2fa'' ''UserSettings'' ''user_settings_second_factor_target''"

definition UserDeviceQuery_QuerySecondFactorCodes :: "'f entity_query \<Rightarrow> 'f entity_query" where
  "UserDeviceQuery_QuerySecondFactorCodes = query_edge ''SecondFactorCode'' (NewStep ''user_devices'' ''id'' ''second_factor_codes'' ''id'' O2O True
     ''user_devices'' [''second_factor_code_target_user_device''])"

definition UserDeviceClient_QuerySecondFactorCodes :: "int \<Rightarrow> 'f entity_query" where
  "UserDeviceClient_QuerySecondFactorCodes = entity_edge ''SecondFactorCode'' (NewStep ''user_devices'' ''id'' ''second_factor_codes'' ''id'' O2O True
     ''user_devices'' [''second_factor_code_target_user_device''])"

definition UserDeviceQuery_WithSecondFactorCodes :: "('f entity_query \<Rightarrow> 'f entity_query) list \<Rightarrow> 'f entity_query \<Rightarrow> 'f entity_query" where
  "UserDeviceQuery_WithSecondFactorCodes = with_edge ''second_factor_codes'' ''SecondFactorCode''"

definition UserDeviceQuery_loadSecondFactorCodes :: load_rule where
  "UserDeviceQuery_loadSecondFactorCodes = LoadOwner ''second_factor_codes'' ''SecondFactorCode'' ''second_factor_code_target_user_device''"

definition UserDeviceQuery_QueryUserActions :: "'f entity_query \<Rightarrow> 'f entity_query" where
  "UserDeviceQuery_QueryUserActions = query_edge ''UserAction'' (NewStep ''user_devices'' ''id'' ''user_actions'' ''id'' M2M False
     ''user_device_user_actions'' [''user_device_id'', ''user_action_id''])"

definition UserDeviceClient_QueryUserActions :: "int \<Rightarrow> 'f entity_query" where
  "UserDeviceClient_QueryUserActions = entity_edge ''UserAction'' (NewStep ''user_devices'' ''id'' ''user_actions'' ''id'' M2M False
     ''user_device_user_actions'' [''user_device_id'', ''user_action_id''])"

definition UserDeviceQuery_WithUserActions :: "('f entity_query \<Rightarrow> 'f entity_query) list \<Rightarrow> 'f entity_query \<Rightarrow> 'f entity_query" where
  "UserDeviceQuery_WithUserActions = with_edge ''user_actions'' ''UserAction''"

definition UserDeviceQuery_loadUserActions :: load_rule where
  "UserDeviceQuery_loadUserActions = LoadJoined ''user_actions'' ''UserAction'' ''user_device_user_actions'' ''user_device_id'' ''user_action_id''"

definition UserDeviceQuery_info :: entity_info where
  "UserDeviceQuery_info = \<lparr>ei_package = userdevice_package, ei_scan = UserDevice_scanValues, ei_assign = UserDevice_assignValues,
    ei_loads = [
      UserDeviceQuery_loadOwner, UserDeviceQuery_loadUserSettings2fa, UserDeviceQuery_loadSecondFactorCodes,
      UserDeviceQuery_loadUserActions],
    ei_fk_edges = [''owner'', ''user_settings_2fa'', ''second_factor_codes'']\<rparr>"

section \<open>User role\<close>

definition UserRoleClient_Query :: "'f entity_query" where
  "UserRoleClient_Query = new_query ''UserRole''"

definition UserRoleQuery_QueryOwner :: "'f entity_query \<Rightarrow> 'f entity_query" where
  "UserRoleQuery_QueryOwner = query_edge ''User'' (NewStep ''user_roles'' ''id'' ''users'' ''id'' M2M True
     ''user_user_roles'' [''user_id'', ''user_role_id''])"

definition UserRoleClient_QueryOwner :: "int \<Rightarrow> 'f entity_query" where
  "UserRoleClient_QueryOwner = entity_edge ''User'' (NewStep ''user_roles'' ''id'' ''users'' ''id'' M2M True
     ''user_user_roles'' [''user_id'', ''user_role_id''])"

definition UserRoleQuery_WithOwner :: "('f entity_query \<Rightarrow> 'f entity_query) list \<Rightarrow> 'f entity_query \<Rightarrow> 'f entity_query" where
  "UserRoleQuery_WithOwner = with_edge ''owner'' ''User''"

definition UserRoleQuery_loadOwner :: load_rule where
  "UserRoleQuery_loadOwner = LoadJoined ''owner'' ''User'' ''user_user_roles'' ''user_role_id'' ''user_id''"

definition UserRoleQuery_QueryPermissions :: "'f entity_query \<Rightarrow> 'f entity_query" where
  "UserRoleQuery_QueryPermissions = query_edge ''RolePermission'' (NewStep ''user_roles'' ''id'' ''role_permissions'' ''id'' M2M True
     ''role_permission_user_role'' [''role_permission_id'', ''user_role_id''])"

definition UserRoleClient_QueryPermissions :: "int \<Rightarrow> 'f entity_query" where
  "UserRoleClient_QueryPermissions = entity_edge ''RolePermission'' (NewStep ''user_roles'' ''id'' ''role_permissions'' ''id'' M2M True
     ''role_permission_user_role'' [''role_permission_id'', ''user_role_id''])"

definition UserRoleQuery_WithPermissions :: "('f entity_query \<Rightarrow> 'f entity_query) list \<Rightarrow> 'f entity_query \<Rightarrow> 'f entity_query" where
  "UserRoleQuery_WithPermissions = with_edge ''permissions'' ''RolePermission''"

definition UserRoleQuery_loadPermissions :: load_rule where
  "UserRoleQuery_loadPermissions = LoadJoined ''permissions'' ''RolePermission'' ''role_permission_user_role'' ''user_role_id'' ''role_permission_id''"

definition UserRoleQuery_info :: entity_info where
  "UserRoleQuery_info = \<lparr>ei_package = userrole_package, ei_scan = UserRole_scanValues, ei_assign = UserRole_assignValues,
    ei_loads = [
      UserRoleQuery_loadOwner, UserRoleQuery_loadPermissions],
    ei_fk_edges = []\<rparr>"

section \<open>User settings\<close>

definition UserSettingsClient_Query :: "'f entity_query" where
  "UserSettingsClient_Query = new_query ''UserSettings''"

definition UserSettingsQuery_QueryOwner :: "'f entity_query \<Rightarrow> 'f entity_query" where
  "UserSettingsQuery_QueryOwner = query_edge ''User'' (NewStep ''user_settings'' ''id'' ''users'' ''id'' O2O True
     ''user_settings'' [''user_user_settings''])"

definition UserSettingsClient_QueryOwner :: "int \<Rightarrow> 'f entity_query" where
  "UserSettingsClient_QueryOwner = entity_edge ''User'' (NewStep ''user_settings'' ''id'' ''users'' ''id'' O2O True
     ''user_settings'' [''user_user_settings''])"

definition UserSettingsQuery_WithOwner :: "('f entity_query \<Rightarrow> 'f entity_query) list \<Rightarrow> 'f entity_query \<Rightarrow> 'f entity_query" where
  "UserSettingsQuery_WithOwner = with_edge ''owner'' ''User''"

definition UserSettingsQuery_loadOwner :: load_rule where
  "UserSettingsQuery_loadOwner = LoadOwner ''owner'' ''User'' ''user_user_settings''"

definition UserSettingsQuery_QuerySecondFactorTarget :: "'f entity_query \<Rightarrow> 'f entity_query" where
  "UserSettingsQuery_QuerySecondFactorTarget = query_edge ''UserDevice'' (NewStep ''user_settings'' ''id'' ''user_devices'' ''id'' O2O False
     ''user_devices'' [''user_settings_second_factor_target''])"

definition UserSettingsClient_QuerySecondFactorTarget :: "int \<Rightarrow> 'f entity_query" where
  "UserSettingsClient_QuerySecondFactorTarget = entity_edge ''UserDevice'' (NewStep ''user_settings'' ''id'' ''user_devices'' ''id'' O2O False
     ''user_devices'' [''user_settings_second_factor_target''])"

definition UserSettingsQuery_WithSecondFactorTarget :: "('f entity_query \<Rightarrow> 'f entity_query) list \<Rightarrow> 'f entity_query \<Rightarrow> 'f entity_query" where
  "UserSettingsQuery_WithSecondFactorTarget = with_edge ''second_factor_target'' ''UserDevice''"

definition UserSettingsQuery_loadSecondFactorTarget :: load_rule where
  "UserSettingsQuery_loadSecondFactorTarget = LoadOne ''second_factor_target'' ''UserDevice'' ''user_settings_second_factor_target''"

definition UserSettingsQuery_QueryNotificationTargetDevices :: "'f entity_query \<Rightarrow> 'f entity_query" where
  "UserSettingsQuery_QueryNotificationTargetDevices = query_edge ''UserDevice'' (NewStep ''user_settings'' ''id'' ''user_devices'' ''id'' O2M False
     ''user_devices'' [''user_settings_notification_target_devices''])"

definition UserSettingsClient_QueryNotificationTargetDevices :: "int \<Rightarrow> 'f entity_query" where
  "UserSettingsClient_QueryNotificationTargetDevices = entity_edge ''UserDevice'' (NewStep ''user_settings'' ''id'' ''user_devices'' ''id'' O2M False
     ''user_devices'' [''user_settings_notification_target_devices''])"

definition UserSettingsQuery_WithNotificationTargetDevices :: "('f entity_query \<Rightarrow> 'f entity_query) list \<Rightarrow> 'f entity_query \<Rightarrow> 'f entity_query" where
  "UserSettingsQuery_WithNotificationTargetDevices = with_edge ''notification_target_devices'' ''UserDevice''"

definition UserSettingsQuery_loadNotificationTargetDevices :: load_rule where
  "UserSettingsQuery_loadNotificationTargetDevices = LoadMany ''notification_target_devices'' ''UserDevice'' ''user_settings_notification_target_devices''"

definition UserSettingsQuery_info :: entity_info where
  "UserSettingsQuery_info = \<lparr>ei_package = usersettings_package, ei_scan = UserSettings_scanValues, ei_assign = UserSettings_assignValues,
    ei_loads = [
      UserSettingsQuery_loadOwner, UserSettingsQuery_loadSecondFactorTarget,
      UserSettingsQuery_loadNotificationTargetDevices],
    ei_fk_edges = [''owner'']\<rparr>"

section \<open>Verification code\<close>

definition VerificationCodeClient_Query :: "'f entity_query" where
  "VerificationCodeClient_Query = new_query ''VerificationCode''"

definition VerificationCodeQuery_QueryOwner :: "'f entity_query \<Rightarrow> 'f entity_query" where
  "VerificationCodeQuery_QueryOwner = query_edge ''User'' (NewStep ''verification_codes'' ''id'' ''users'' ''id'' O2O True
     ''verification_codes'' [''user_verification_code''])"

definition VerificationCodeClient_QueryOwner :: "int \<Rightarrow> 'f entity_query" where
  "VerificationCodeClient_QueryOwner = entity_edge ''User'' (NewStep ''verification_codes'' ''id'' ''users'' ''id'' O2O True
     ''verification_codes'' [''user_verification_code''])"

definition VerificationCodeQuery_WithOwner :: "('f entity_query \<Rightarrow> 'f entity_query) list \<Rightarrow> 'f entity_query \<Rightarrow> 'f entity_query" where
  "VerificationCodeQuery_WithOwner = with_edge ''owner'' ''User''"

definition VerificationCodeQuery_loadOwner :: load_rule where
  "VerificationCodeQuery_loadOwner = LoadOwner ''owner'' ''User'' ''user_verification_code''"

definition VerificationCodeQuery_info :: entity_info where
  "VerificationCodeQuery_info = \<lparr>ei_package = verificationcode_package, ei_scan = VerificationCode_scanValues, ei_assign = VerificationCode_assignValues,
    ei_loads = [
      VerificationCodeQuery_loadOwner],
    ei_fk_edges = [''owner'']\<rparr>"

section \<open>All entities\<close>

definition entity_infos :: "(string \<times> entity_info) list" where
  "entity_infos = [
    (''ActivationCode'', ActivationCodeQuery_info), (''BlacklistedToken'', BlacklistedTokenQuery_info),
    (''EntrepreneurDetails'', EntrepreneurDetailsQuery_info), (''Location'', LocationQuery_info),
    (''ResetCode'', ResetCodeQuery_info), (''RolePermission'', RolePermissionQuery_info),
    (''SecondFactorCode'', SecondFactorCodeQuery_info), (''User'', UserQuery_info),
    (''UserAction'', UserActionQuery_info), (''UserDetails'', UserDetailsQuery_info),
    (''UserDevice'', UserDeviceQuery_info), (''UserRole'', UserRoleQuery_info),
    (''UserSettings'', UserSettingsQuery_info), (''VerificationCode'', VerificationCodeQuery_info)]"

definition service_queries :: catalog where
  "service_queries = map_of entity_infos"

section \<open>Preparing, running and counting\<close>

definition ActivationCodeQuery_prepareQuery :: "'f entity_query \<Rightarrow> error option" where
  "ActivationCodeQuery_prepareQuery = query_prepareQuery service_queries"

definition ActivationCodeQuery_querySpec :: "'f entity_query \<Rightarrow> 'f query_spec" where
  "ActivationCodeQuery_querySpec = query_querySpec ActivationCodeQuery_info"

definition ActivationCodeQuery_sqlQuery :: "'f entity_query \<Rightarrow> 'f selector" where
  "ActivationCodeQuery_sqlQuery = query_sqlQuery ActivationCodeQuery_info"

definition ActivationCodeQuery_sqlCount :: "'f database \<Rightarrow> 'f entity_query \<Rightarrow> error + int" where
  "ActivationCodeQuery_sqlCount = query_sqlCount ActivationCodeQuery_info"

definition ActivationCodeQuery_All :: "'f database \<Rightarrow> 'f entity_query \<Rightarrow> ('f :: zero) node list outcome \<times> 'f entity_query" where
  "ActivationCodeQuery_All = query_All service_queries"

definition ActivationCodeQuery_First :: "'f database \<Rightarrow> 'f entity_query \<Rightarrow> ('f :: zero) node outcome \<times> 'f entity_query" where
  "ActivationCodeQuery_First = query_First service_queries ActivationCodeQuery_info"

definition ActivationCodeQuery_Only :: "'f database \<Rightarrow> 'f entity_query \<Rightarrow> ('f :: zero) node outcome \<times> 'f entity_query" where
  "ActivationCodeQuery_Only = query_Only service_queries ActivationCodeQuery_info"

definition ActivationCodeQuery_IDs :: "'f database \<Rightarrow> 'f entity_query \<Rightarrow> (error + int list) \<times> 'f entity_query" where
  "ActivationCodeQuery_IDs = query_IDs service_queries ActivationCodeQuery_info"

definition ActivationCodeQuery_FirstID :: "'f database \<Rightarrow> 'f entity_query \<Rightarrow> (error + int) \<times> 'f entity_query" where
  "ActivationCodeQuery_FirstID = query_FirstID service_queries ActivationCodeQuery_info"

definition ActivationCodeQuery_OnlyID :: "'f database \<Rightarrow> 'f entity_query \<Rightarrow> (error + int) \<times> 'f entity_query" where
  "ActivationCodeQuery_OnlyID = query_OnlyID service_queries ActivationCodeQuery_info"

definition ActivationCodeQuery_Count :: "'f database \<Rightarrow> 'f entity_query \<Rightarrow> error + int" where
  "ActivationCodeQuery_Count = query_Count service_queries ActivationCodeQuery_info"

definition ActivationCodeQuery_Exist :: "'f database \<Rightarrow> 'f entity_query \<Rightarrow> (error + bool) \<times> 'f entity_query" where
  "ActivationCodeQuery_Exist = query_Exist service_queries ActivationCodeQuery_info"

definition BlacklistedTokenQuery_prepareQuery :: "'f entity_query \<Rightarrow> error option" where
  "BlacklistedTokenQuery_prepareQuery = query_prepareQuery service_queries"

definition BlacklistedTokenQuery_querySpec :: "'f entity_query \<Rightarrow> 'f query_spec" where
  "BlacklistedTokenQuery_querySpec = query_querySpec BlacklistedTokenQuery_info"

definition BlacklistedTokenQuery_sqlQuery :: "'f entity_query \<Rightarrow> 'f selector" where
  "BlacklistedTokenQuery_sqlQuery = query_sqlQuery BlacklistedTokenQuery_info"

definition BlacklistedTokenQuery_sqlCount :: "'f database \<Rightarrow> 'f entity_query \<Rightarrow> error + int" where
  "BlacklistedTokenQuery_sqlCount = query_sqlCount BlacklistedTokenQuery_info"

definition BlacklistedTokenQuery_All :: "'f database \<Rightarrow> 'f entity_query \<Rightarrow> ('f :: zero) node list outcome \<times> 'f entity_query" where
  "BlacklistedTokenQuery_All = query_All service_queries"

definition BlacklistedTokenQuery_First :: "'f database \<Rightarrow> 'f entity_query \<Rightarrow> ('f :: zero) node outcome \<times> 'f entity_query" where
  "BlacklistedTokenQuery_First = query_First service_queries BlacklistedTokenQuery_info"

definition BlacklistedTokenQuery_Only :: "'f database \<Rightarrow> 'f entity_query \<Rightarrow> ('f :: zero) node outcome \<times> 'f entity_query" where
  "BlacklistedTokenQuery_Only = query_Only service_queries BlacklistedTokenQuery_info"

definition BlacklistedTokenQuery_IDs :: "'f database \<Rightarrow> 'f entity_query \<Rightarrow> (error + int list) \<times> 'f entity_query" where
  "BlacklistedTokenQuery_IDs = query_IDs service_queries BlacklistedTokenQuery_info"

definition BlacklistedTokenQuery_FirstID :: "'f database \<Rightarrow> 'f entity_query \<Rightarrow> (error + int) \<times> 'f entity_query" where
  "BlacklistedTokenQuery_FirstID = query_FirstID service_queries BlacklistedTokenQuery_info"

definition BlacklistedTokenQuery_OnlyID :: "'f database \<Rightarrow> 'f entity_query \<Rightarrow> (error + int) \<times> 'f entity_query" where
  "BlacklistedTokenQuery_OnlyID = query_OnlyID service_queries BlacklistedTokenQuery_info"

definition BlacklistedTokenQuery_Count :: "'f database \<Rightarrow> 'f entity_query \<Rightarrow> error + int" where
  "BlacklistedTokenQuery_Count = query_Count service_queries BlacklistedTokenQuery_info"

definition BlacklistedTokenQuery_Exist :: "'f database \<Rightarrow> 'f entity_query \<Rightarrow> (error + bool) \<times> 'f entity_query" where
  "BlacklistedTokenQuery_Exist = query_Exist service_queries BlacklistedTokenQuery_info"

definition EntrepreneurDetailsQuery_prepareQuery :: "'f entity_query \<Rightarrow> error option" where
  "EntrepreneurDetailsQuery_prepareQuery = query_prepareQuery service_queries"

definition EntrepreneurDetailsQuery_querySpec :: "'f entity_query \<Rightarrow> 'f query_spec" where
  "EntrepreneurDetailsQuery_querySpec = query_querySpec EntrepreneurDetailsQuery_info"

definition EntrepreneurDetailsQuery_sqlQuery :: "'f entity_query \<Rightarrow> 'f selector" where
  "EntrepreneurDetailsQuery_sqlQuery = query_sqlQuery EntrepreneurDetailsQuery_info"

definition EntrepreneurDetailsQuery_sqlCount :: "'f database \<Rightarrow> 'f entity_query \<Rightarrow> error + int" where
  "EntrepreneurDetailsQuery_sqlCount = query_sqlCount EntrepreneurDetailsQuery_info"

definition EntrepreneurDetailsQuery_All :: "'f database \<Rightarrow> 'f entity_query \<Rightarrow> ('f :: zero) node list outcome \<times> 'f entity_query" where
  "EntrepreneurDetailsQuery_All = query_All service_queries"

definition EntrepreneurDetailsQuery_First :: "'f database \<Rightarrow> 'f entity_query \<Rightarrow> ('f :: zero) node outcome \<times> 'f entity_query" where
  "EntrepreneurDetailsQuery_First = query_First service_queries EntrepreneurDetailsQuery_info"

definition EntrepreneurDetailsQuery_Only :: "'f database \<Rightarrow> 'f entity_query \<Rightarrow> ('f :: zero) node outcome \<times> 'f entity_query" where
  "EntrepreneurDetailsQuery_Only = query_Only service_queries EntrepreneurDetailsQuery_info"

definition EntrepreneurDetailsQuery_IDs :: "'f database \<Rightarrow> 'f entity_query \<Rightarrow> (error + int list) \<times> 'f entity_query" where
  "EntrepreneurDetailsQuery_IDs = query_IDs service_queries EntrepreneurDetailsQuery_info"

definition EntrepreneurDetailsQuery_FirstID :: "'f database \<Rightarrow> 'f entity_query \<Rightarrow> (error + int) \<times> 'f entity_query" where
  "EntrepreneurDetailsQuery_FirstID = query_FirstID service_queries EntrepreneurDetailsQuery_info"

definition EntrepreneurDetailsQuery_OnlyID :: "'f database \<Rightarrow> 'f entity_query \<Rightarrow> (error + int) \<times> 'f entity_query" where
  "EntrepreneurDetailsQuery_OnlyID = query_OnlyID service_queries EntrepreneurDetailsQuery_info"

definition EntrepreneurDetailsQuery_Count :: "'f database \<Rightarrow> 'f entity_query \<Rightarrow> error + int" where
  "EntrepreneurDetailsQuery_Count = query_Count service_queries EntrepreneurDetailsQuery_info"

definition EntrepreneurDetailsQuery_Exist :: "'f database \<Rightarrow> 'f entity_query \<Rightarrow> (error + bool) \<times> 'f entity_query" where
  "EntrepreneurDetailsQuery_Exist = query_Exist service_queries EntrepreneurDetailsQuery_info"

definition LocationQuery_prepareQuery :: "'f entity_query \<Rightarrow> error option" where
  "LocationQuery_prepareQuery = query_prepareQuery service_queries"

definition LocationQuery_querySpec :: "'f entity_query \<Rightarrow> 'f query_spec" where
  "LocationQuery_querySpec = query_querySpec LocationQuery_info"

definition LocationQuery_sqlQuery :: "'f entity_query \<Rightarrow> 'f selector" where
  "LocationQuery_sqlQuery = query_sqlQuery LocationQuery_info"

definition LocationQuery_sqlCount :: "'f database \<Rightarrow> 'f entity_query \<Rightarrow> error + int" where
  "LocationQuery_sqlCount = query_sqlCount LocationQuery_info"

definition LocationQuery_All :: "'f database \<Rightarrow> 'f entity_query \<Rightarrow> ('f :: zero) node list outcome \<times> 'f entity_query" where
  "LocationQuery_All = query_All service_queries"

definition LocationQuery_First :: "'f database \<Rightarrow> 'f entity_query \<Rightarrow> ('f :: zero) node outcome \<times> 'f entity_query" where
  "LocationQuery_First = query_First service_queries LocationQuery_info"

definition LocationQuery_Only :: "'f database \<Rightarrow> 'f entity_query \<Rightarrow> ('f :: zero) node outcome \<times> 'f entity_query" where
  "LocationQuery_Only = query_Only service_queries LocationQuery_info"

definition LocationQuery_IDs :: "'f database \<Rightarrow> 'f entity_query \<Rightarrow> (error + int list) \<times> 'f entity_query" where
  "LocationQuery_IDs = query_IDs service_queries LocationQuery_info"

definition LocationQuery_FirstID :: "'f database \<Rightarrow> 'f entity_query \<Rightarrow> (error + int) \<times> 'f entity_query" where
  "LocationQuery_FirstID = query_FirstID service_queries LocationQuery_info"

definition LocationQuery_OnlyID :: "'f database \<Rightarrow> 'f entity_query \<Rightarrow> (error + int) \<times> 'f entity_query" where
  "LocationQuery_OnlyID = query_OnlyID service_queries LocationQuery_info"

definition LocationQuery_Count :: "'f database \<Rightarrow> 'f entity_query \<Rightarrow> error + int" where
  "LocationQuery_Count = query_Count service_queries LocationQuery_info"

definition LocationQuery_Exist :: "'f database \<Rightarrow> 'f entity_query \<Rightarrow> (error + bool) \<times> 'f entity_query" where
  "LocationQuery_Exist = query_Exist service_queries LocationQuery_info"

definition ResetCodeQuery_prepareQuery :: "'f entity_query \<Rightarrow> error option" where
  "ResetCodeQuery_prepareQuery = query_prepareQuery service_queries"

definition ResetCodeQuery_querySpec :: "'f entity_query \<Rightarrow> 'f query_spec" where
  "ResetCodeQuery_querySpec = query_querySpec ResetCodeQuery_info"

definition ResetCodeQuery_sqlQuery :: "'f entity_query \<Rightarrow> 'f selector" where
  "ResetCodeQuery_sqlQuery = query_sqlQuery ResetCodeQuery_info"

definition ResetCodeQuery_sqlCount :: "'f database \<Rightarrow> 'f entity_query \<Rightarrow> error + int" where
  "ResetCodeQuery_sqlCount = query_sqlCount ResetCodeQuery_info"

definition ResetCodeQuery_All :: "'f database \<Rightarrow> 'f entity_query \<Rightarrow> ('f :: zero) node list outcome \<times> 'f entity_query" where
  "ResetCodeQuery_All = query_All service_queries"

definition ResetCodeQuery_First :: "'f database \<Rightarrow> 'f entity_query \<Rightarrow> ('f :: zero) node outcome \<times> 'f entity_query" where
  "ResetCodeQuery_First = query_First service_queries ResetCodeQuery_info"

definition ResetCodeQuery_Only :: "'f database \<Rightarrow> 'f entity_query \<Rightarrow> ('f :: zero) node outcome \<times> 'f entity_query" where
  "ResetCodeQuery_Only = query_Only service_queries ResetCodeQuery_info"

definition ResetCodeQuery_IDs :: "'f database \<Rightarrow> 'f entity_query \<Rightarrow> (error + int list) \<times> 'f entity_query" where
  "ResetCodeQuery_IDs = query_IDs service_queries ResetCodeQuery_info"

definition ResetCodeQuery_FirstID :: "'f database \<Rightarrow> 'f entity_query \<Rightarrow> (error + int) \<times> 'f entity_query" where
  "ResetCodeQuery_FirstID = query_FirstID service_queries ResetCodeQuery_info"

definition ResetCodeQuery_OnlyID :: "'f database \<Rightarrow> 'f entity_query \<Rightarrow> (error + int) \<times> 'f entity_query" where
  "ResetCodeQuery_OnlyID = query_OnlyID service_queries ResetCodeQuery_info"

definition ResetCodeQuery_Count :: "'f database \<Rightarrow> 'f entity_query \<Rightarrow> error + int" where
  "ResetCodeQuery_Count = query_Count service_queries ResetCodeQuery_info"

definition ResetCodeQuery_Exist :: "'f database \<Rightarrow> 'f entity_query \<Rightarrow> (error + bool) \<times> 'f entity_query" where
  "ResetCodeQuery_Exist = query_Exist service_queries ResetCodeQuery_info"

definition RolePermissionQuery_prepareQuery :: "'f entity_query \<Rightarrow> error option" where
  "RolePermissionQuery_prepareQuery = query_prepareQuery service_queries"

definition RolePermissionQuery_querySpec :: "'f entity_query \<Rightarrow> 'f query_spec" where
  "RolePermissionQuery_querySpec = query_querySpec RolePermissionQuery_info"

definition RolePermissionQuery_sqlQuery :: "'f entity_query \<Rightarrow> 'f selector" where
  "RolePermissionQuery_sqlQuery = query_sqlQuery RolePermissionQuery_info"

definition RolePermissionQuery_sqlCount :: "'f database \<Rightarrow> 'f entity_query \<Rightarrow> error + int" where
  "RolePermissionQuery_sqlCount = query_sqlCount RolePermissionQuery_info"

definition RolePermissionQuery_All :: "'f database \<Rightarrow> 'f entity_query \<Rightarrow> ('f :: zero) node list outcome \<times> 'f entity_query" where
  "RolePermissionQuery_All = query_All service_queries"

definition RolePermissionQuery_First :: "'f database \<Rightarrow> 'f entity_query \<Rightarrow> ('f :: zero) node outcome \<times> 'f entity_query" where
  "RolePermissionQuery_First = query_First service_queries RolePermissionQuery_info"

definition RolePermissionQuery_Only :: "'f database \<Rightarrow> 'f entity_query \<Rightarrow> ('f :: zero) node outcome \<times> 'f entity_query" where
  "RolePermissionQuery_Only = query_Only service_queries RolePermissionQuery_info"

definition RolePermissionQuery_IDs :: "'f database \<Rightarrow> 'f entity_query \<Rightarrow> (error + int list) \<times> 'f entity_query" where
  "RolePermissionQuery_IDs = query_IDs service_queries RolePermissionQuery_info"

definition RolePermissionQuery_FirstID :: "'f database \<Rightarrow> 'f entity_query \<Rightarrow> (error + int) \<times> 'f entity_query" where
  "RolePermissionQuery_FirstID = query_FirstID service_queries RolePermissionQuery_info"

definition RolePermissionQuery_OnlyID :: "'f database \<Rightarrow> 'f entity_query \<Rightarrow> (error + int) \<times> 'f entity_query" where
  "RolePermissionQuery_OnlyID = query_OnlyID service_queries RolePermissionQuery_info"

definition RolePermissionQuery_Count :: "'f database \<Rightarrow> 'f entity_query \<Rightarrow> error + int" where
  "RolePermissionQuery_Count = query_Count service_queries RolePermissionQuery_info"

definition RolePermissionQuery_Exist :: "'f database \<Rightarrow> 'f entity_query \<Rightarrow> (error + bool) \<times> 'f entity_query" where
  "RolePermissionQuery_Exist = query_Exist service_queries RolePermissionQuery_info"

definition SecondFactorCodeQuery_prepareQuery :: "'f entity_query \<Rightarrow> error option" where
  "SecondFactorCodeQuery_prepareQuery = query_prepareQuery service_queries"

definition SecondFactorCodeQuery_querySpec :: "'f entity_query \<Rightarrow> 'f query_spec" where
  "SecondFactorCodeQuery_querySpec = query_querySpec SecondFactorCodeQuery_info"

definition SecondFactorCodeQuery_sqlQuery :: "'f entity_query \<Rightarrow> 'f selector" where
  "SecondFactorCodeQuery_sqlQuery = query_sqlQuery SecondFactorCodeQuery_info"

definition SecondFactorCodeQuery_sqlCount :: "'f database \<Rightarrow> 'f entity_query \<Rightarrow> error + int" where
  "SecondFactorCodeQuery_sqlCount = query_sqlCount SecondFactorCodeQuery_info"

definition SecondFactorCodeQuery_All :: "'f database \<Rightarrow> 'f entity_query \<Rightarrow> ('f :: zero) node list outcome \<times> 'f entity_query" where
  "SecondFactorCodeQuery_All = query_All service_queries"

definition SecondFactorCodeQuery_First :: "'f database \<Rightarrow> 'f entity_query \<Rightarrow> ('f :: zero) node outcome \<times> 'f entity_query" where
  "SecondFactorCodeQuery_First = query_First service_queries SecondFactorCodeQuery_info"

definition SecondFactorCodeQuery_Only :: "'f database \<Rightarrow> 'f entity_query \<Rightarrow> ('f :: zero) node outcome \<times> 'f entity_query" where
  "SecondFactorCodeQuery_Only = query_Only service_queries SecondFactorCodeQuery_info"

definition SecondFactorCodeQuery_IDs :: "'f database \<Rightarrow> 'f entity_query \<Rightarrow> (error + int list) \<times> 'f entity_query" where
  "SecondFactorCodeQuery_IDs = query_IDs service_queries SecondFactorCodeQuery_info"

definition SecondFactorCodeQuery_FirstID :: "'f database \<Rightarrow> 'f entity_query \<Rightarrow> (error + int) \<times> 'f entity_query" where
  "SecondFactorCodeQuery_FirstID = query_FirstID service_queries SecondFactorCodeQuery_info"

definition SecondFactorCodeQuery_OnlyID :: "'f database \<Rightarrow> 'f entity_query \<Rightarrow> (error + int) \<times> 'f entity_query" where
  "SecondFactorCodeQuery_OnlyID = query_OnlyID service_queries SecondFactorCodeQuery_info"

definition SecondFactorCodeQuery_Count :: "'f database \<Rightarrow> 'f entity_query \<Rightarrow> error + int" where
  "SecondFactorCodeQuery_Count = query_Count service_queries SecondFactorCodeQuery_info"

definition SecondFactorCodeQuery_Exist :: "'f database \<Rightarrow> 'f entity_query \<Rightarrow> (error + bool) \<times> 'f entity_query" where
  "SecondFactorCodeQuery_Exist = query_Exist service_queries SecondFactorCodeQuery_info"

definition UserQuery_prepareQuery :: "'f entity_query \<Rightarrow> error option" where
  "UserQuery_prepareQuery = query_prepareQuery service_queries"

definition UserQuery_querySpec :: "'f entity_query \<Rightarrow> 'f query_spec" where
  "UserQuery_querySpec = query_querySpec UserQuery_info"

definition UserQuery_sqlQuery :: "'f entity_query \<Rightarrow> 'f selector" where
  "UserQuery_sqlQuery = query_sqlQuery UserQuery_info"

definition UserQuery_sqlCount :: "'f database \<Rightarrow> 'f entity_query \<Rightarrow> error + int" where
  "UserQuery_sqlCount = query_sqlCount UserQuery_info"

definition UserQuery_All :: "'f database \<Rightarrow> 'f entity_query \<Rightarrow> ('f :: zero) node list outcome \<times> 'f entity_query" where
  "UserQuery_All = query_All service_queries"

definition UserQuery_First :: "'f database \<Rightarrow> 'f entity_query \<Rightarrow> ('f :: zero) node outcome \<times> 'f entity_query" where
  "UserQuery_First = query_First service_queries UserQuery_info"

definition UserQuery_Only :: "'f database \<Rightarrow> 'f entity_query \<Rightarrow> ('f :: zero) node outcome \<times> 'f entity_query" where
  "UserQuery_Only = query_Only service_queries UserQuery_info"

definition UserQuery_IDs :: "'f database \<Rightarrow> 'f entity_query \<Rightarrow> (error + int list) \<times> 'f entity_query" where
  "UserQuery_IDs = query_IDs service_queries UserQuery_info"

definition UserQuery_FirstID :: "'f database \<Rightarrow> 'f entity_query \<Rightarrow> (error + int) \<times> 'f entity_query" where
  "UserQuery_FirstID = query_FirstID service_queries UserQuery_info"

definition UserQuery_OnlyID :: "'f database \<Rightarrow> 'f entity_query \<Rightarrow> (error + int) \<times> 'f entity_query" where
  "UserQuery_OnlyID = query_OnlyID service_queries UserQuery_info"

definition UserQuery_Count :: "'f database \<Rightarrow> 'f entity_query \<Rightarrow> error + int" where
  "UserQuery_Count = query_Count service_queries UserQuery_info"

definition UserQuery_Exist :: "'f database \<Rightarrow> 'f entity_query \<Rightarrow> (error + bool) \<times> 'f entity_query" where
  "UserQuery_Exist = query_Exist service_queries UserQuery_info"

definition UserActionQuery_prepareQuery :: "'f entity_query \<Rightarrow> error option" where
  "UserActionQuery_prepareQuery = query_prepareQuery service_queries"

definition UserActionQuery_querySpec :: "'f entity_query \<Rightarrow> 'f query_spec" where
  "UserActionQuery_querySpec = query_querySpec UserActionQuery_info"

definition UserActionQuery_sqlQuery :: "'f entity_query \<Rightarrow> 'f selector" where
  "UserActionQuery_sqlQuery = query_sqlQuery UserActionQuery_info"

definition UserActionQuery_sqlCount :: "'f database \<Rightarrow> 'f entity_query \<Rightarrow> error + int" where
  "UserActionQuery_sqlCount = query_sqlCount UserActionQuery_info"

definition UserActionQuery_All :: "'f database \<Rightarrow> 'f entity_query \<Rightarrow> ('f :: zero) node list outcome \<times> 'f entity_query" where
  "UserActionQuery_All = query_All service_queries"

definition UserActionQuery_First :: "'f database \<Rightarrow> 'f entity_query \<Rightarrow> ('f :: zero) node outcome \<times> 'f entity_query" where
  "UserActionQuery_First = query_First service_queries UserActionQuery_info"

definition UserActionQuery_Only :: "'f database \<Rightarrow> 'f entity_query \<Rightarrow> ('f :: zero) node outcome \<times> 'f entity_query" where
  "UserActionQuery_Only = query_Only service_queries UserActionQuery_info"

definition UserActionQuery_IDs :: "'f database \<Rightarrow> 'f entity_query \<Rightarrow> (error + int list) \<times> 'f entity_query" where
  "UserActionQuery_IDs = query_IDs service_queries UserActionQuery_info"

definition UserActionQuery_FirstID :: "'f database \<Rightarrow> 'f entity_query \<Rightarrow> (error + int) \<times> 'f entity_query" where
  "UserActionQuery_FirstID = query_FirstID service_queries UserActionQuery_info"

definition UserActionQuery_OnlyID :: "'f database \<Rightarrow> 'f entity_query \<Rightarrow> (error + int) \<times> 'f entity_query" where
  "UserActionQuery_OnlyID = query_OnlyID service_queries UserActionQuery_info"

definition UserActionQuery_Count :: "'f database \<Rightarrow> 'f entity_query \<Rightarrow> error + int" where
  "UserActionQuery_Count = query_Count service_queries UserActionQuery_info"

definition UserActionQuery_Exist :: "'f database \<Rightarrow> 'f entity_query \<Rightarrow> (error + bool) \<times> 'f entity_query" where
  "UserActionQuery_Exist = query_Exist service_queries UserActionQuery_info"

definition UserDetailsQuery_prepareQuery :: "'f entity_query \<Rightarrow> error option" where
  "UserDetailsQuery_prepareQuery = query_prepareQuery service_queries"

definition UserDetailsQuery_querySpec :: "'f entity_query \<Rightarrow> 'f query_spec" where
  "UserDetailsQuery_querySpec = query_querySpec UserDetailsQuery_info"

definition UserDetailsQuery_sqlQuery :: "'f entity_query \<Rightarrow> 'f selector" where
  "UserDetailsQuery_sqlQuery = query_sqlQuery UserDetailsQuery_info"

definition UserDetailsQuery_sqlCount :: "'f database \<Rightarrow> 'f entity_query \<Rightarrow> error + int" where
  "UserDetailsQuery_sqlCount = query_sqlCount UserDetailsQuery_info"

definition UserDetailsQuery_All :: "'f database \<Rightarrow> 'f entity_query \<Rightarrow> ('f :: zero) node list outcome \<times> 'f entity_query" where
  "UserDetailsQuery_All = query_All service_queries"

definition UserDetailsQuery_First :: "'f database \<Rightarrow> 'f entity_query \<Rightarrow> ('f :: zero) node outcome \<times> 'f entity_query" where
  "UserDetailsQuery_First = query_First service_queries UserDetailsQuery_info"

definition UserDetailsQuery_Only :: "'f database \<Rightarrow> 'f entity_query \<Rightarrow> ('f :: zero) node outcome \<times> 'f entity_query" where
  "UserDetailsQuery_Only = query_Only service_queries UserDetailsQuery_info"

definition UserDetailsQuery_IDs :: "'f database \<Rightarrow> 'f entity_query \<Rightarrow> (error + int list) \<times> 'f entity_query" where
  "UserDetailsQuery_IDs = query_IDs service_queries UserDetailsQuery_info"

definition UserDetailsQuery_FirstID :: "'f database \<Rightarrow> 'f entity_query \<Rightarrow> (error + int) \<times> 'f entity_query" where
  "UserDetailsQuery_FirstID = query_FirstID service_queries UserDetailsQuery_info"

definition UserDetailsQuery_OnlyID :: "'f database \<Rightarrow> 'f entity_query \<Rightarrow> (error + int) \<times> 'f entity_query" where
  "UserDetailsQuery_OnlyID = query_OnlyID service_queries UserDetailsQuery_info"

definition UserDetailsQuery_Count :: "'f database \<Rightarrow> 'f entity_query \<Rightarrow> error + int" where
  "UserDetailsQuery_Count = query_Count service_queries UserDetailsQuery_info"

definition UserDetailsQuery_Exist :: "'f database \<Rightarrow> 'f entity_query \<Rightarrow> (error + bool) \<times> 'f entity_query" where
  "UserDetailsQuery_Exist = query_Exist service_queries UserDetailsQuery_info"

definition UserDeviceQuery_prepareQuery :: "'f entity_query \<Rightarrow> error option" where
  "UserDeviceQuery_prepareQuery = query_prepareQuery service_queries"

definition UserDeviceQuery_querySpec :: "'f entity_query \<Rightarrow> 'f query_spec" where
  "UserDeviceQuery_querySpec = query_querySpec UserDeviceQuery_info"

definition UserDeviceQuery_sqlQuery :: "'f entity_query \<Rightarrow> 'f selector" where
  "UserDeviceQuery_sqlQuery = query_sqlQuery UserDeviceQuery_info"

definition UserDeviceQuery_sqlCount :: "'f database \<Rightarrow> 'f entity_query \<Rightarrow> error + int" where
  "UserDeviceQuery_sqlCount = query_sqlCount UserDeviceQuery_info"

definition UserDeviceQuery_All :: "'f database \<Rightarrow> 'f entity_query \<Rightarrow> ('f :: zero) node list outcome \<times> 'f entity_query" where
  "UserDeviceQuery_All = query_All service_queries"

definition UserDeviceQuery_First :: "'f database \<Rightarrow> 'f entity_query \<Rightarrow> ('f :: zero) node outcome \<times> 'f entity_query" where
  "UserDeviceQuery_First = query_First service_queries UserDeviceQuery_info"

definition UserDeviceQuery_Only :: "'f database \<Rightarrow> 'f entity_query \<Rightarrow> ('f :: zero) node outcome \<times> 'f entity_query" where
  "UserDeviceQuery_Only = query_Only service_queries UserDeviceQuery_info"

definition UserDeviceQuery_IDs :: "'f database \<Rightarrow> 'f entity_query \<Rightarrow> (error + int list) \<times> 'f entity_query" where
  "UserDeviceQuery_IDs = query_IDs service_queries UserDeviceQuery_info"

definition UserDeviceQuery_FirstID :: "'f database \<Rightarrow> 'f entity_query \<Rightarrow> (error + int) \<times> 'f entity_query" where
  "UserDeviceQuery_FirstID = query_FirstID service_queries UserDeviceQuery_info"

definition UserDeviceQuery_OnlyID :: "'f database \<Rightarrow> 'f entity_query \<Rightarrow> (error + int) \<times> 'f entity_query" where
  "UserDeviceQuery_OnlyID = query_OnlyID service_queries UserDeviceQuery_info"

definition UserDeviceQuery_Count :: "'f database \<Rightarrow> 'f entity_query \<Rightarrow> error + int" where
  "UserDeviceQuery_Count = query_Count service_queries UserDeviceQuery_info"

definition UserDeviceQuery_Exist :: "'f database \<Rightarrow> 'f entity_query \<Rightarrow> (error + bool) \<times> 'f entity_query" where
  "UserDeviceQuery_Exist = query_Exist service_queries UserDeviceQuery_info"

definition UserRoleQuery_prepareQuery :: "'f entity_query \<Rightarrow> error option" where
  "UserRoleQuery_prepareQuery = query_prepareQuery service_queries"

definition UserRoleQuery_querySpec :: "'f entity_query \<Rightarrow> 'f query_spec" where
  "UserRoleQuery_querySpec = query_querySpec UserRoleQuery_info"

definition UserRoleQuery_sqlQuery :: "'f entity_query \<Rightarrow> 'f selector" where
  "UserRoleQuery_sqlQuery = query_sqlQuery UserRoleQuery_info"

definition UserRoleQuery_sqlCount :: "'f database \<Rightarrow> 'f entity_query \<Rightarrow> error + int" where
  "UserRoleQuery_sqlCount = query_sqlCount UserRoleQuery_info"

definition UserRoleQuery_All :: "'f database \<Rightarrow> 'f entity_query \<Rightarrow> ('f :: zero) node list outcome \<times> 'f entity_query" where
  "UserRoleQuery_All = query_All service_queries"

definition UserRoleQuery_First :: "'f database \<Rightarrow> 'f entity_query \<Rightarrow> ('f :: zero) node outcome \<times> 'f entity_query" where
  "UserRoleQuery_First = query_First service_queries UserRoleQuery_info"

definition UserRoleQuery_Only :: "'f database \<Rightarrow> 'f entity_query \<Rightarrow> ('f :: zero) node outcome \<times> 'f entity_query" where
  "UserRoleQuery_Only = query_Only service_queries UserRoleQuery_info"

definition UserRoleQuery_IDs :: "'f database \<Rightarrow> 'f entity_query \<Rightarrow> (error + int list) \<times> 'f entity_query" where
  "UserRoleQuery_IDs = query_IDs service_queries UserRoleQuery_info"

definition UserRoleQuery_FirstID :: "'f database \<Rightarrow> 'f entity_query \<Rightarrow> (error + int) \<times> 'f entity_query" where
  "UserRoleQuery_FirstID = query_FirstID service_queries UserRoleQuery_info"

definition UserRoleQuery_OnlyID :: "'f database \<Rightarrow> 'f entity_query \<Rightarrow> (error + int) \<times> 'f entity_query" where
  "UserRoleQuery_OnlyID = query_OnlyID service_queries UserRoleQuery_info"

definition UserRoleQuery_Count :: "'f database \<Rightarrow> 'f entity_query \<Rightarrow> error + int" where
  "UserRoleQuery_Count = query_Count service_queries UserRoleQuery_info"

definition UserRoleQuery_Exist :: "'f database \<Rightarrow> 'f entity_query \<Rightarrow> (error + bool) \<times> 'f entity_query" where
  "UserRoleQuery_Exist = query_Exist service_queries UserRoleQuery_info"

definition UserSettingsQuery_prepareQuery :: "'f entity_query \<Rightarrow> error option" where
  "UserSettingsQuery_prepareQuery = query_prepareQuery service_queries"

definition UserSettingsQuery_querySpec :: "'f entity_query \<Rightarrow> 'f query_spec" where
  "UserSettingsQuery_querySpec = query_querySpec UserSettingsQuery_info"

definition UserSettingsQuery_sqlQuery :: "'f entity_query \<Rightarrow> 'f selector" where
  "UserSettingsQuery_sqlQuery = query_sqlQuery UserSettingsQuery_info"

definition UserSettingsQuery_sqlCount :: "'f database \<Rightarrow> 'f entity_query \<Rightarrow> error + int" where
  "UserSettingsQuery_sqlCount = query_sqlCount UserSettingsQuery_info"

definition UserSettingsQuery_All :: "'f database \<Rightarrow> 'f entity_query \<Rightarrow> ('f :: zero) node list outcome \<times> 'f entity_query" where
  "UserSettingsQuery_All = query_All service_queries"

definition UserSettingsQuery_First :: "'f database \<Rightarrow> 'f entity_query \<Rightarrow> ('f :: zero) node outcome \<times> 'f entity_query" where
  "UserSettingsQuery_First = query_First service_queries UserSettingsQuery_info"

definition UserSettingsQuery_Only :: "'f database \<Rightarrow> 'f entity_query \<Rightarrow> ('f :: zero) node outcome \<times> 'f entity_query" where
  "UserSettingsQuery_Only = query_Only service_queries UserSettingsQuery_info"

definition UserSettingsQuery_IDs :: "'f database \<Rightarrow> 'f entity_query \<Rightarrow> (error + int list) \<times> 'f entity_query" where
  "UserSettingsQuery_IDs = query_IDs service_queries UserSettingsQuery_info"

definition UserSettingsQuery_FirstID :: "'f database \<Rightarrow> 'f entity_query \<Rightarrow> (error + int) \<times> 'f entity_query" where
  "UserSettingsQuery_FirstID = query_FirstID service_queries UserSettingsQuery_info"

definition UserSettingsQuery_OnlyID :: "'f database \<Rightarrow> 'f entity_query \<Rightarrow> (error + int) \<times> 'f entity_query" where
  "UserSettingsQuery_OnlyID = query_OnlyID service_queries UserSettingsQuery_info"

definition UserSettingsQuery_Count :: "'f database \<Rightarrow> 'f entity_query \<Rightarrow> error + int" where
  "UserSettingsQuery_Count = query_Count service_queries UserSettingsQuery_info"

definition UserSettingsQuery_Exist :: "'f database \<Rightarrow> 'f entity_query \<Rightarrow> (error + bool) \<times> 'f entity_query" where
  "UserSettingsQuery_Exist = query_Exist service_queries UserSettingsQuery_info"

definition VerificationCodeQuery_prepareQuery :: "'f entity_query \<Rightarrow> error option" where
  "VerificationCodeQuery_prepareQuery = query_prepareQuery service_queries"

definition VerificationCodeQuery_querySpec :: "'f entity_query \<Rightarrow> 'f query_spec" where
  "VerificationCodeQuery_querySpec = query_querySpec VerificationCodeQuery_info"

definition VerificationCodeQuery_sqlQuery :: "'f entity_query \<Rightarrow> 'f selector" where
  "VerificationCodeQuery_sqlQuery = query_sqlQuery VerificationCodeQuery_info"

definition VerificationCodeQuery_sqlCount :: "'f database \<Rightarrow> 'f entity_query \<Rightarrow> error + int" where
  "VerificationCodeQuery_sqlCount = query_sqlCount VerificationCodeQuery_info"

definition VerificationCodeQuery_All :: "'f database \<Rightarrow> 'f entity_query \<Rightarrow> ('f :: zero) node list outcome \<times> 'f entity_query" where
  "VerificationCodeQuery_All = query_All service_queries"

definition VerificationCodeQuery_First :: "'f database \<Rightarrow> 'f entity_query \<Rightarrow> ('f :: zero) node outcome \<times> 'f entity_query" where
  "VerificationCodeQuery_First = query_First service_queries VerificationCodeQuery_info"

definition VerificationCodeQuery_Only :: "'f database \<Rightarrow> 'f entity_query \<Rightarrow> ('f :: zero) node outcome \<times> 'f entity_query" where
  "VerificationCodeQuery_Only = query_Only service_queries VerificationCodeQuery_info"

definition VerificationCodeQuery_IDs :: "'f database \<Rightarrow> 'f entity_query \<Rightarrow> (error + int list) \<times> 'f entity_query" where
  "VerificationCodeQuery_IDs = query_IDs service_queries VerificationCodeQuery_info"

definition VerificationCodeQuery_FirstID :: "'f database \<Rightarrow> 'f entity_query \<Rightarrow> (error + int) \<times> 'f entity_query" where
  "VerificationCodeQuery_FirstID = query_FirstID service_queries VerificationCodeQuery_info"

definition VerificationCodeQuery_OnlyID :: "'f database \<Rightarrow> 'f entity_query \<Rightarrow> (error + int) \<times> 'f entity_query" where
  "VerificationCodeQuery_OnlyID = query_OnlyID service_queries VerificationCodeQuery_info"

definition VerificationCodeQuery_Count :: "'f database \<Rightarrow> 'f entity_query \<Rightarrow> error + int" where
  "VerificationCodeQuery_Count = query_Count service_queries VerificationCodeQuery_info"

definition VerificationCodeQuery_Exist :: "'f database \<Rightarrow> 'f entity_query \<Rightarrow> (error + bool) \<times> 'f entity_query" where
  "VerificationCodeQuery_Exist = query_Exist service_queries VerificationCodeQuery_info"

end
