(* ===== verification/Load_Spec.thy ===== *)
theory Load_Spec imports Decode_Properties Ent_Queries begin

text \<open>
  Eager loading, specified: what the nodes of a query and their edges are, given the rows of the
  tables and of the join tables, and the lemmas on how the loaders attach neighbours to nodes.
  Theory Eager_Loading shows that a run of the generated client gives exactly these nodes.
\<close>

section \<open>The catalog\<close>

definition columns_of_info :: "entity_info \<Rightarrow> string list" where
  "columns_of_info ei = pk_columns (ei_package ei) @ pk_foreign_keys (ei_package ei)"

fun rule_ok :: "entity_info \<Rightarrow> load_rule \<Rightarrow> bool" where
  "rule_ok ei (LoadOwner edge t fk) = (List.member (ei_fk_edges ei) edge \<and> List.member (pk_foreign_keys (ei_package ei)) fk \<and>
     service_queries t \<noteq> None)"
| "rule_ok ei (LoadOne edge t fk) = (case service_queries t of None \<Rightarrow> False
     | Some ei' \<Rightarrow> List.member (pk_foreign_keys (ei_package ei')) fk)"
| "rule_ok ei (LoadMany edge t fk) = (case service_queries t of None \<Rightarrow> False
     | Some ei' \<Rightarrow> List.member (pk_foreign_keys (ei_package ei')) fk)"
| "rule_ok ei (LoadJoined edge t tbl out inn) = (service_queries t \<noteq> None)"

definition info_ok :: "entity_info \<Rightarrow> bool" where
  "info_ok ei = (list_all (rule_ok ei) (ei_loads ei) \<and> distinct (map lr_edge (ei_loads ei)) \<and>
     List.member (pk_columns (ei_package ei)) ''id'' \<and> hd (pk_columns (ei_package ei)) = ''id'' \<and> map_of (ei_assign ei) ''id'' = Some AssignID \<and>
     list_all (\<lambda>c. map_of (ei_assign ei) c = Some AssignFK) (pk_foreign_keys (ei_package ei)))"

lemma infos_ok: "list_all (\<lambda>(t, ei). info_ok ei) entity_infos"
  by code_simp

lemma infos_decode: "map (\<lambda>(t, ei). (t, ei_scan ei, ei_assign ei)) entity_infos = decoders"
  by code_simp

lemma infos_distinct: "distinct (map fst entity_infos)"
  by code_simp

lemma info_found: "service_queries t = Some ei \<Longrightarrow> (t, ei) \<in> set entity_infos"
  by (simp add: service_queries_def map_of_SomeD)

lemma info_okD: "service_queries t = Some ei \<Longrightarrow> info_ok ei"
  using infos_ok info_found by (fastforce simp: list_all_iff)

lemma info_decoder:
  assumes "service_queries t = Some ei"
  shows "(t, ei_scan ei, ei_assign ei) \<in> set decoders"
  using info_found [OF assms] unfolding infos_decode [symmetric] by force

section \<open>The nodes a query stands for\<close>

type_synonym 'f tables = "string \<Rightarrow> 'f ent_row list"

type_synonym joins = "string \<Rightarrow> string \<Rightarrow> string \<Rightarrow> (int \<times> int) list"

definition row_id :: "'f ent_row \<Rightarrow> int" where "row_id r = un_int (r ''id'')"

definition table_of :: "'f entity_query \<Rightarrow> string" where
  "table_of q = (case service_queries (eq_type q) of None \<Rightarrow> [] | Some ei \<Rightarrow> pk_table (ei_package ei))"

text \<open>The rows a query matches, and the neighbours of a row along an edge among them.\<close>

definition satisfies :: "('f query_predicate \<Rightarrow> 'f ent_row \<Rightarrow> bool) \<Rightarrow> 'f query_predicate list \<Rightarrow> 'f ent_row \<Rightarrow> bool" where
  "satisfies sel ps r = list_all (\<lambda>p. sel p r) ps"

definition matching :: "'f tables \<Rightarrow> ('f query_predicate \<Rightarrow> 'f ent_row \<Rightarrow> bool) \<Rightarrow> 'f entity_query \<Rightarrow> 'f ent_row list" where
  "matching tabs sel q = filter (satisfies sel (qf_predicates (eq_flat q))) (tabs (table_of q))"

fun neighbour :: "joins \<Rightarrow> load_rule \<Rightarrow> 'f ent_row \<Rightarrow> 'f ent_row \<Rightarrow> bool" where
  "neighbour js (LoadOwner edge t fk) row r = (row fk \<noteq> VNil \<and> r ''id'' = row fk)"
| "neighbour js (LoadOne edge t fk) row r = (r fk = row ''id'')"
| "neighbour js (LoadMany edge t fk) row r = (r fk = row ''id'')"
| "neighbour js (LoadJoined edge t tbl out inn) row r = ((row_id row, row_id r) \<in> set (js tbl out inn))"

text \<open>A unique edge is the first neighbour, if any; an edge to many is the list of all.\<close>

fun attach_all :: "load_rule \<Rightarrow> 'f node list \<Rightarrow> 'f node \<Rightarrow> 'f node" where
  "attach_all (LoadOwner edge t fk) ns n = (case ns of [] \<Rightarrow> n | x # xs \<Rightarrow> set_one edge x n)"
| "attach_all (LoadOne edge t fk) ns n = (case ns of [] \<Rightarrow> n | x # xs \<Rightarrow> set_one edge x n)"
| "attach_all (LoadMany edge t fk) ns n = fold (append_many edge) ns (init_many edge n)"
| "attach_all (LoadJoined edge t tbl out inn) ns n = fold (append_many edge) ns (init_many edge n)"

fun child_query :: "load_rule \<Rightarrow> 'f entity_query \<Rightarrow> 'f entity_query" where
  "child_query (LoadOne edge t fk) q = with_fks q"
| "child_query (LoadMany edge t fk) q = with_fks q"
| "child_query r q = q"

definition bare_node :: "entity_info \<Rightarrow> 'f entity_query \<Rightarrow> 'f ent_row \<Rightarrow> ('f :: zero) node" where
  "bare_node ei q row = new_node ei q \<lparr>en_row = read_back (ei_assign ei) (qs_columns (node_spec ei q)) row, en_selected = Map.empty\<rparr>"

lemma height_child [simp]: "height (child_query r q) = height q"
  by (cases r) (auto simp: with_fks_def)

function loaded_node ::
  "'f tables \<Rightarrow> joins \<Rightarrow> ('f query_predicate \<Rightarrow> 'f ent_row \<Rightarrow> bool) \<Rightarrow> 'f entity_query \<Rightarrow> 'f ent_row \<Rightarrow> ('f :: zero) node" where
  "loaded_node tabs js sel q row = (case service_queries (eq_type q) of
      None \<Rightarrow> Node \<lparr>en_row = row, en_selected = Map.empty\<rparr> [] (\<lambda>_. None) (\<lambda>_. None)
    | Some ei \<Rightarrow> fold (\<lambda>r n. case map_of (eq_withs q) (lr_edge r) of
          None \<Rightarrow> n
        | Some q' \<Rightarrow> attach_all r (map (loaded_node tabs js sel (child_query r q')) (filter (neighbour js r row) (matching tabs sel q'))) n)
        (ei_loads ei) (bare_node ei q row))"
  by pat_completeness auto
termination
  by (relation "measure (\<lambda>(tabs, js, sel, q, row). height q)") (auto dest!: height_with)

declare loaded_node.simps [simp del] run_query.simps [simp del]

text \<open>Queries without order, offset, distinctness or path, whose edges exist; only the outermost may be limited.\<close>

definition no_join :: "'f query_predicate \<Rightarrow> bool" where
  "no_join p = (case p of JoinIn tbl out inn ids \<Rightarrow> False | _ \<Rightarrow> True)"

definition plain_flat :: "entity_info \<Rightarrow> 'f query_flat \<Rightarrow> bool" where
  "plain_flat ei fl = (qf_order fl = [] \<and> qf_offset fl = None \<and> qf_unique fl = None \<and>
     list_all no_join (qf_predicates fl) \<and> list_all (valid_column (ei_package ei)) (qf_fields fl))"

inductive wf_tree :: "'f entity_query \<Rightarrow> bool" where
  "service_queries t = Some ei \<Longrightarrow> plain_flat ei fl \<Longrightarrow>
     (\<And>edge q'. map_of ws edge = Some q' \<Longrightarrow> wf_tree q' \<and> qf_limit (eq_flat q') = None \<and>
        (\<exists>r\<in>set (ei_loads ei). lr_edge r = edge \<and> lr_target r = eq_type q')) \<Longrightarrow>
     wf_tree (EntityQuery t fl None ws)"

inductive_cases wf_treeE: "wf_tree q"

definition limited :: "int \<Rightarrow> 'a list \<Rightarrow> 'a list" where
  "limited n xs = (if n = 0 then xs else take (nat n) xs)"

section \<open>Lemmas on nodes\<close>

lemma set_one_keeps [simp]:
  "nd_row (set_one edge x n) = nd_row n" "nd_id (set_one edge x n) = nd_id n" "nd_fk fk (set_one edge x n) = nd_fk fk n"
  by (cases n; simp add: nd_row_def nd_id_def nd_fk_def)+

lemma append_many_keeps [simp]:
  "nd_row (append_many edge x n) = nd_row n" "nd_id (append_many edge x n) = nd_id n" "nd_fk fk (append_many edge x n) = nd_fk fk n"
  by (cases n; simp add: nd_row_def nd_id_def nd_fk_def)+

lemma init_many_keeps [simp]:
  "nd_row (init_many edge n) = nd_row n" "nd_id (init_many edge n) = nd_id n" "nd_fk fk (init_many edge n) = nd_fk fk n"
  by (cases n; simp add: nd_row_def nd_id_def nd_fk_def)+

lemma fold_keeps_row:
  "(\<And>x n. nd_row (f x n) = nd_row n) \<Longrightarrow> nd_row (fold f xs n) = nd_row n"
  by (induction xs arbitrary: n) auto

lemma attach_all_row [simp]: "nd_row (attach_all r ns n) = nd_row n"
  by (cases r) (auto simp: fold_keeps_row split: list.split)

lemma node_row_bare: "service_queries (eq_type q) = Some ei \<Longrightarrow> nd_row (loaded_node tabs js sel q row) = nd_row (bare_node ei q row)"
  by (subst loaded_node.simps) (simp, rule fold_keeps_row, simp split: option.split)

text \<open>With distinct identifiers the position of a node is its own.\<close>

lemma position_found:
  assumes "distinct (map nd_id nodes)" "k < length nodes" "nd_id (nodes ! k) = i"
  shows "position i nodes = Some k"
proof -
  let ?P = "\<lambda>k. nd_id (nodes ! k) = i"
  have uniq: "j = k" if "j < length nodes" "?P j" for j
    using assms that by (auto simp: distinct_conv_nth)
  have "\<exists>j. find ?P (rev [0..<length nodes]) = Some j"
    using assms(2,3) by (cases "find ?P (rev [0..<length nodes])") (auto simp: find_None_iff)
  then obtain j where j: "find ?P (rev [0..<length nodes]) = Some j" by blast
  then obtain m where "m < length (rev [0..<length nodes])" "?P (rev [0..<length nodes] ! m)" "j = rev [0..<length nodes] ! m"
    by (auto simp: find_Some_iff)
  then have "j < length nodes" "?P j" by (auto simp: rev_nth)
  then show ?thesis using uniq j by (simp add: position_def)
qed

lemma map_update_at:
  assumes "distinct (map key rows)" "k < length rows"
  shows "(map N rows)[k := x] = map (\<lambda>r. if key r = key (rows ! k) then x else N r) rows"
  using assms by (auto intro!: nth_equalityI simp: nth_list_update distinct_conv_nth)

lemma attach_children_map:
  assumes "\<And>x n. nd_id (assign x n) = nd_id n" "\<And>r. r \<in> set rows \<Longrightarrow> nd_id (N r) = key r" "distinct (map key rows)"
    and "\<And>c. c \<in> set cs \<Longrightarrow> nd_fk fk (M c) = Some (ref c) \<and> ref c \<in> key ` set rows"
  shows "attach_children assign fk (map N rows) (map M cs) =
    Ok (map (\<lambda>r. fold (\<lambda>c. assign (M c)) (filter (\<lambda>c. ref c = key r) cs) (N r)) rows)"
  using assms(2,4)
proof (induction cs arbitrary: N)
  case (Cons c cs)
  obtain k where k: "k < length rows" "key (rows ! k) = ref c"
    using Cons.prems(2) [of c] by (auto simp: in_set_conv_nth)
  have pos: "position (ref c) (map N rows) = Some k"
    by (rule position_found) (use assms(3) k Cons.prems(1) in \<open>simp_all add: o_def cong: map_cong\<close>)
  let ?N = "\<lambda>r. if key r = key (rows ! k) then assign (M c) (N (rows ! k)) else N r"
  have step: "(map N rows)[k := assign (M c) (map N rows ! k)] = map ?N rows"
    using k(1) map_update_at [OF assms(3) k(1), of N] by simp
  have same: "key r = key (rows ! k) \<Longrightarrow> r \<in> set rows \<Longrightarrow> r = rows ! k" for r
    using assms(3) k(1) by (metis distinct_map inj_onD nth_mem)
  have "attach_children assign fk (map ?N rows) (map M cs) =
      Ok (map (\<lambda>r. fold (\<lambda>c. assign (M c)) (filter (\<lambda>c. ref c = key r) cs) (?N r)) rows)"
    by (rule Cons.IH) (use Cons.prems assms(1) nth_mem [OF k(1)] in auto)
  then show ?case using Cons.prems(2) [of c] pos step k(2) same by (auto intro!: map_cong)
qed simp

lemma attach_owners_map:
  assumes "\<And>r. r \<in> set rows \<Longrightarrow> nd_fk fk (N r) = F r"
    and "\<And>c. c \<in> set cs \<Longrightarrow> nd_id (M c) = key c \<and> (\<exists>r\<in>set rows. F r = Some (key c))"
  shows "attach_owners edge fk (map N rows) (map M cs) =
    Ok (map (\<lambda>r. fold (\<lambda>c. set_one edge (M c)) (filter (\<lambda>c. F r = Some (key c)) cs) (N r)) rows)"
  using assms
proof (induction cs arbitrary: N)
  case (Cons c cs)
  let ?N = "\<lambda>r. if F r = Some (key c) then set_one edge (M c) (N r) else N r"
  have "attach_owners edge fk (map ?N rows) (map M cs) =
      Ok (map (\<lambda>r. fold (\<lambda>c. set_one edge (M c)) (filter (\<lambda>c. F r = Some (key c)) cs) (?N r)) rows)"
    by (rule Cons.IH) (use Cons.prems in auto)
  moreover have "list_ex (\<lambda>m. nd_fk fk m = Some (nd_id (M c))) (map N rows)"
    using Cons.prems by (auto simp: list_ex_iff)
  moreover have "map (\<lambda>m. if nd_fk fk m = Some (nd_id (M c)) then set_one edge (M c) m else m) (map N rows) = map ?N rows"
    using Cons.prems by auto
  ultimately show ?case using Cons.prems(2) [of c] by (simp del: map_map)
qed simp

lemma append_at_map:
  assumes "\<And>r. r \<in> set rows \<Longrightarrow> nd_id (N r) = key r" "distinct (map key rows)" "distinct ids" "set ids \<subseteq> key ` set rows"
  shows "append_at edge n ids (map N rows) = Ok (map (\<lambda>r. if key r \<in> set ids then append_many edge n (N r) else N r) rows)"
  using assms
proof (induction ids arbitrary: N)
  case (Cons i ids)
  obtain k where k: "k < length rows" "key (rows ! k) = i"
    using Cons.prems(4) by (auto simp: in_set_conv_nth)
  have pos: "position i (map N rows) = Some k"
    by (rule position_found) (use Cons.prems(2) k Cons.prems(1) in \<open>simp_all add: o_def cong: map_cong\<close>)
  let ?N = "\<lambda>r. if key r = key (rows ! k) then append_many edge n (N (rows ! k)) else N r"
  have step: "(map N rows)[k := append_many edge n (map N rows ! k)] = map ?N rows"
    using k(1) map_update_at [OF Cons.prems(2) k(1), of N] by simp
  have same: "key r = key (rows ! k) \<Longrightarrow> r \<in> set rows \<Longrightarrow> r = rows ! k" for r
    using Cons.prems(2) k(1) by (metis distinct_map inj_onD nth_mem)
  have "append_at edge n ids (map ?N rows) = Ok (map (\<lambda>r. if key r \<in> set ids then append_many edge n (?N r) else ?N r) rows)"
    by (rule Cons.IH) (use Cons.prems nth_mem [OF k(1)] in auto)
  then show ?case using pos step k(2) same Cons.prems(3) by (auto intro!: map_cong)
qed simp

lemma attach_joined_map:
  assumes "\<And>r. r \<in> set rows \<Longrightarrow> nd_id (N r) = key r" "distinct (map key rows)"
    and "\<And>c. c \<in> set cs \<Longrightarrow> linked links (nd_id (M c)) \<noteq> [] \<and> set (linked links (nd_id (M c))) \<subseteq> key ` set rows"
  shows "attach_joined edge links (map N rows) (map M cs) =
    Ok (map (\<lambda>r. fold (\<lambda>c. append_many edge (M c)) (filter (\<lambda>c. key r \<in> set (linked links (nd_id (M c)))) cs) (N r)) rows)"
  using assms(1,3)
proof (induction cs arbitrary: N)
  case (Cons c cs)
  let ?is = "linked links (nd_id (M c))"
  let ?N = "\<lambda>r. if key r \<in> set ?is then append_many edge (M c) (N r) else N r"
  have ids: "?is \<noteq> []" "set ?is \<subseteq> key ` set rows" "distinct ?is" using Cons.prems(2) [of c] by (simp_all add: linked_def)
  have "append_at edge (M c) ?is (map N rows) = Ok (map ?N rows)"
    by (rule append_at_map) (use Cons.prems(1) assms(2) ids in auto)
  moreover have "attach_joined edge links (map ?N rows) (map M cs) =
      Ok (map (\<lambda>r. fold (\<lambda>c. append_many edge (M c)) (filter (\<lambda>c. key r \<in> set (linked links (nd_id (M c)))) cs) (?N r)) rows)"
    by (rule Cons.IH) (use Cons.prems in auto)
  ultimately show ?case using ids(1) by (auto simp: neq_Nil_conv intro!: map_cong)
qed simp

text \<open>A unique edge over at most one neighbour.\<close>

lemma set_one_all:
  assumes "length ns \<le> 1"
  shows "fold (set_one edge) ns n = (case ns of [] \<Rightarrow> n | x # xs \<Rightarrow> set_one edge x n)"
  using assms by (cases ns) auto

end
