(* ===== verification/Eager_Loading.thy ===== *)
theory Eager_Loading imports Load_Spec begin

text \<open>
  Eager loading, proved. The database is an interface, the locale \<open>stored\<close>: it answers the
  specification of a plain query with the rows of the table that satisfy the conditions, and the
  specification of a many-to-many loader with the rows of the join. Its clients are the loaders: one
  lemma for each kind of rule, then all edges of a node, then the tree of queries by induction on
  its height. The interface is interpreted by a database of tables in memory.
\<close>

section \<open>The interface of the database\<close>

definition plain_spec :: "'f query_spec \<Rightarrow> bool" where
  "plain_spec sp = (qs_from sp = None \<and> qs_unique sp = None \<and> qs_offset sp = 0 \<and> qs_order sp = [])"

definition stored_row :: "('f ent_value \<Rightarrow> string) \<Rightarrow> string list \<Rightarrow> 'f ent_row \<Rightarrow> (string \<times> 'f sql_value) list" where
  "stored_row marshal cols r = map (\<lambda>c. (c, sql_of marshal (r c))) cols"

text \<open>The rows of a join: each neighbour with each of the identifiers it is linked to.\<close>

definition outs_of :: "(int \<times> int) list \<Rightarrow> int list \<Rightarrow> 'f ent_row \<Rightarrow> int list" where
  "outs_of links ids r = filter (\<lambda>i. (i, row_id r) \<in> set links) ids"

definition joined_rows :: "('f ent_value \<Rightarrow> string) \<Rightarrow> string list \<Rightarrow> string \<Rightarrow> (int \<times> int) list \<Rightarrow> int list \<Rightarrow> 'f ent_row list \<Rightarrow>
    (string \<times> 'f sql_value) list list" where
  "joined_rows marshal cols out links ids rs = concat (map (\<lambda>r. map (\<lambda>i. (out, SqlInt i) # stored_row marshal cols r)
     (outs_of links ids r)) rs)"

text \<open>The tables are fit for the entities: identifiers, types and unique keys.\<close>

definition tables_ok :: "'f tables \<Rightarrow> bool" where
  "tables_ok tabs = (\<forall>(t, ei)\<in>set entity_infos.
     distinct (map row_id (tabs (pk_table (ei_package ei)))) \<and>
     (\<forall>r\<in>set (tabs (pk_table (ei_package ei))). list_all (storable (ei_assign ei) r) (columns_of_info ei)) \<and>
     (\<forall>edge t' fk ei'. LoadOne edge t' fk \<in> set (ei_loads ei) \<and> service_queries t' = Some ei' \<longrightarrow>
        (\<forall>r\<in>set (tabs (pk_table (ei_package ei'))). \<forall>r'\<in>set (tabs (pk_table (ei_package ei'))).
           r fk = r' fk \<and> r fk \<noteq> VNil \<longrightarrow> row_id r = row_id r')))"

lemma table_rows:
  assumes "tables_ok tabs" "service_queries t = Some ei" "r \<in> set (tabs (pk_table (ei_package ei)))"
  shows "list_all (storable (ei_assign ei) r) (columns_of_info ei)"
  using assms(1,3) info_found [OF assms(2)] by (auto simp: tables_ok_def)

lemma table_distinct:
  assumes "tables_ok tabs" "service_queries t = Some ei"
  shows "distinct (map row_id (tabs (pk_table (ei_package ei))))"
  using assms(1) info_found [OF assms(2)] by (auto simp: tables_ok_def)

lemma tables_unique:
  assumes "tables_ok tabs" "service_queries t = Some ei" "LoadOne edge t' fk \<in> set (ei_loads ei)" "service_queries t' = Some ei'"
    and "r \<in> set (tabs (pk_table (ei_package ei')))" "r' \<in> set (tabs (pk_table (ei_package ei')))" "r fk = r' fk \<and> r fk \<noteq> VNil"
  shows "row_id r = row_id r'"
  using assms(1,3-) info_found [OF assms(2)] unfolding tables_ok_def by blast

lemma row_id_value:
  assumes "tables_ok tabs" "service_queries t = Some ei" "r \<in> set (tabs (pk_table (ei_package ei)))"
  shows "r ''id'' = VInt (row_id r)"
proof -
  have ok: "info_ok ei" using info_okD [OF assms(2)] .
  then have "''id'' \<in> set (columns_of_info ei)" by (simp add: info_ok_def columns_of_info_def)
  then have "storable (ei_assign ei) r ''id''" using table_rows [OF assms] by (simp add: list_all_iff)
  then have "type_of_value (r ''id'') = Some GoInt" using ok by (simp add: info_ok_def storable_def)
  then show ?thesis by (cases "r ''id''") (simp_all add: row_id_def)
qed

lemma fk_value:
  assumes "tables_ok tabs" "service_queries t = Some ei" "r \<in> set (tabs (pk_table (ei_package ei)))"
    and "fk \<in> set (pk_foreign_keys (ei_package ei))"
  shows "r fk = VNil \<or> (\<exists>i. r fk = VInt i)"
proof -
  have "storable (ei_assign ei) r fk" using table_rows [OF assms(1-3)] assms(4) by (simp add: list_all_iff columns_of_info_def)
  moreover have "map_of (ei_assign ei) fk = Some AssignFK"
    using info_okD [OF assms(2)] assms(4) by (simp add: info_ok_def list_all_iff)
  ultimately show ?thesis by (cases "r fk") (simp_all add: storable_def)
qed

text \<open>The columns of a specification are columns of the entity, and the identifier comes first.\<close>

lemma spec_columns:
  assumes "service_queries (eq_type q) = Some ei" "plain_flat ei (eq_flat q)"
  shows "set (qs_columns (node_spec ei q)) \<subseteq> set (columns_of_info ei)" "\<exists>cs. qs_columns (node_spec ei q) = ''id'' # cs"
proof -
  have id: "''id'' \<in> set (pk_columns (ei_package ei))" "hd (pk_columns (ei_package ei)) = ''id''"
    using info_okD [OF assms(1)] by (simp_all add: info_ok_def)
  then show "set (qs_columns (node_spec ei q)) \<subseteq> set (columns_of_info ei)"
    using assms(2) by (auto simp: node_spec_def query_querySpec_def Let_def plain_flat_def columns_of_info_def valid_column_def
        list_all_iff)
  show "\<exists>cs. qs_columns (node_spec ei q) = ''id'' # cs"
    using id by (cases "pk_columns (ei_package ei)") (auto simp: node_spec_def query_querySpec_def Let_def)
qed

definition ref_of :: "string \<Rightarrow> 'f ent_row \<Rightarrow> int option" where
  "ref_of fk r = (case r fk of VInt i \<Rightarrow> Some i | _ \<Rightarrow> None)"

lemma bare_row:
  assumes "tables_ok tabs" "service_queries (eq_type q) = Some ei" "plain_flat ei (eq_flat q)"
    and "r \<in> set (tabs (pk_table (ei_package ei)))"
  shows "nd_id (bare_node ei q r) = row_id r"
    and "fk \<in> set (pk_foreign_keys (ei_package ei)) \<Longrightarrow> needs_fks ei q \<Longrightarrow> nd_fk fk (bare_node ei q r) = ref_of fk r"
proof -
  show "nd_id (bare_node ei q r) = row_id r"
    using spec_columns(2) [OF assms(2,3)] row_id_value [OF assms(1,2,4)]
    by (auto simp: nd_id_def nd_row_def bare_node_def new_node_def read_back_def)
next
  assume fk: "fk \<in> set (pk_foreign_keys (ei_package ei))" and needs: "needs_fks ei q"
  have "map_of (ei_assign ei) fk = Some AssignFK"
    using info_okD [OF assms(2)] fk by (simp add: info_ok_def list_all_iff)
  then show "nd_fk fk (bare_node ei q r) = ref_of fk r" using fk needs fk_value [OF assms(1,2,4) fk]
    by (auto simp: nd_fk_def nd_row_def bare_node_def new_node_def read_back_def node_spec_def Let_def new_entity_def ref_of_def)
qed

section \<open>Changing a query\<close>

lemma flat_simps [simp]:
  "eq_type (map_flat g q) = eq_type q" "eq_withs (map_flat g q) = eq_withs q" "eq_path (map_flat g q) = eq_path q"
  "eq_flat (map_flat g q) = g (eq_flat q)"
  by (cases q; simp)+

lemma wf_tree_iff: "wf_tree q \<longleftrightarrow> (\<exists>ei. service_queries (eq_type q) = Some ei \<and> plain_flat ei (eq_flat q) \<and> eq_path q = None \<and>
    (\<forall>edge q'. map_of (eq_withs q) edge = Some q' \<longrightarrow> wf_tree q' \<and> qf_limit (eq_flat q') = None \<and>
      (\<exists>r\<in>set (ei_loads ei). lr_edge r = edge \<and> lr_target r = eq_type q')))"
  by (cases q, subst wf_tree.simps) auto

lemma wf_plain:
  assumes "wf_tree q" "service_queries (eq_type q) = Some ei"
  shows "plain_flat ei (eq_flat q)" "eq_path q = None"
  using assms by (auto elim!: wf_treeE)

definition unlimited :: "'f entity_query \<Rightarrow> bool" where
  "unlimited q = (wf_tree q \<and> qf_limit (eq_flat q) = None)"

lemma wf_child:
  assumes "wf_tree q" "service_queries (eq_type q) = Some ei" "r \<in> set (ei_loads ei)" "map_of (eq_withs q) (lr_edge r) = Some q'"
  shows "unlimited q'" "lr_target r = eq_type q'"
proof -
  have child: "unlimited q' \<and> (\<exists>r'\<in>set (ei_loads ei). lr_edge r' = lr_edge r \<and> lr_target r' = eq_type q')"
    using assms(1,2,4) unfolding wf_tree_iff [of q] unlimited_def by fastforce
  then show "unlimited q'" by blast
  have "distinct (map lr_edge (ei_loads ei))" using info_okD [OF assms(2)] by (simp add: info_ok_def)
  then show "lr_target r = eq_type q'" using child assms(3) by (metis distinct_map inj_onD)
qed

lemma wf_where: "wf_tree q \<Longrightarrow> list_all no_join ps \<Longrightarrow> wf_tree (query_Where ps q)"
  by (subst (asm) wf_tree_iff, subst wf_tree_iff) (auto simp: query_Where_def plain_flat_def)

lemma wf_limit: "wf_tree q \<Longrightarrow> wf_tree (query_Limit n q)"
  by (subst (asm) wf_tree_iff, subst wf_tree_iff) (auto simp: query_Limit_def plain_flat_def)

lemma wf_with_fks: "wf_tree q \<Longrightarrow> wf_tree (with_fks q)"
  by (subst (asm) wf_tree_iff, subst wf_tree_iff) (auto simp: with_fks_def plain_flat_def)

lemma asked_flat [simp]: "asked (map_flat g q) = asked q"
  by (simp add: asked_def fun_eq_iff)

lemma bare_where [simp]: "bare_node ei (query_Where ps q) = bare_node ei q"
  by (simp add: fun_eq_iff bare_node_def new_node_def node_spec_def needs_fks_def query_Where_def query_querySpec_def Let_def)

lemma node_where [simp]: "loaded_node tabs js sel (query_Where ps q) = loaded_node tabs js sel q"
proof (rule ext)
  fix row
  have "bare_node ei (map_flat (\<lambda>fl. fl\<lparr>qf_predicates := qf_predicates fl @ ps\<rparr>) q) = bare_node ei q" for ei
    using bare_where [of ei ps q] by (simp add: query_Where_def)
  then show "loaded_node tabs js sel (query_Where ps q) row = loaded_node tabs js sel q row"
    unfolding loaded_node.simps [of tabs js sel "query_Where ps q" row] loaded_node.simps [of tabs js sel q row]
    by (cases "service_queries (eq_type q)") (simp_all add: query_Where_def)
qed

lemma limit_flat:
  "qf_limit (eq_flat (query_Limit n q)) = Some n"
  "matching tabs sel (query_Limit n q) = matching tabs sel q"
  "loaded_node tabs js sel (query_Limit n q) = loaded_node tabs js sel q"
proof -
  have "bare_node ei (map_flat (\<lambda>fl. fl\<lparr>qf_limit := Some n\<rparr>) q) = bare_node ei q" for ei
    by (simp add: fun_eq_iff bare_node_def new_node_def node_spec_def needs_fks_def query_querySpec_def Let_def)
  then show "loaded_node tabs js sel (query_Limit n q) = loaded_node tabs js sel q"
    unfolding fun_eq_iff loaded_node.simps [of tabs js sel "query_Limit n q"] loaded_node.simps [of tabs js sel q]
    by (cases "service_queries (eq_type q)") (simp_all add: query_Limit_def)
qed (simp_all add: query_Limit_def matching_def table_of_def)

lemma matching_where: "matching tabs sel (query_Where ps q) = filter (satisfies sel ps) (matching tabs sel q)"
  by (auto simp: matching_def query_Where_def table_of_def satisfies_def intro!: filter_cong)

lemma matching_with_fks [simp]: "matching tabs sel (with_fks q) = matching tabs sel q"
  by (simp add: matching_def with_fks_def table_of_def)

lemma matching_child [simp]: "matching tabs sel (child_query r q) = matching tabs sel q"
  by (cases r) simp_all

lemma matching_rows:
  assumes "service_queries (eq_type q) = Some ei"
  shows "set (matching tabs sel q) \<subseteq> set (tabs (pk_table (ei_package ei)))"
  using assms by (auto simp: matching_def table_of_def)

lemma matching_distinct:
  assumes "tables_ok tabs" "service_queries (eq_type q) = Some ei"
  shows "distinct (map row_id (matching tabs sel q))"
  using table_distinct [OF assms] assms(2) by (simp add: matching_def table_of_def distinct_map_filter)

lemma limited_sub: "set (limited n xs) \<subseteq> set xs" "distinct (map f xs) \<Longrightarrow> distinct (map f (limited n xs))"
  by (auto simp: limited_def dest: in_set_takeD simp flip: take_map)

text \<open>The conditions play no part in making the nodes.\<close>

lemma joined_nodes_query:
  assumes "asked q = asked q'"
  shows "joined_nodes db ei q = joined_nodes db ei q'"
proof -
  have "new_node ei q = new_node ei q'" using assms by (simp add: fun_eq_iff new_node_def)
  then have "joined_nodes db ei q links nodes raws = joined_nodes db ei q' links nodes raws" for links nodes raws
    by (induction raws arbitrary: links nodes) (simp_all split: sum.split option.split)
  then show ?thesis by (simp add: fun_eq_iff)
qed

lemma prepared: "list_all (valid_column (ei_package ei)) (qf_fields (eq_flat q)) \<Longrightarrow> service_queries (eq_type q) = Some ei \<Longrightarrow> eq_path q = None \<Longrightarrow>
  query_prepareQuery service_queries q = None"
  by (cases q) (auto simp: list_all_iff find_None_iff split: option.split)

lemma node_row [simp]:
  assumes "service_queries (eq_type q) = Some ei"
  shows "nd_id (loaded_node tabs js sel q row) = nd_id (bare_node ei q row)"
    and "nd_fk fk (loaded_node tabs js sel q row) = nd_fk fk (bare_node ei q row)"
  using node_row_bare [OF assms] by (simp_all add: nd_id_def nd_fk_def)


section \<open>Loading one edge\<close>

text \<open>What loading an edge does to a node.\<close>

definition edge_step ::
  "'f tables \<Rightarrow> joins \<Rightarrow> ('f query_predicate \<Rightarrow> 'f ent_row \<Rightarrow> bool) \<Rightarrow> 'f entity_query \<Rightarrow> 'f ent_row \<Rightarrow> load_rule \<Rightarrow>
   ('f :: zero) node \<Rightarrow> 'f node" where
  "edge_step tabs js sel q row r n = (case map_of (eq_withs q) (lr_edge r) of
      None \<Rightarrow> n
    | Some q' \<Rightarrow> attach_all r (map (loaded_node tabs js sel (child_query r q')) (filter (neighbour js r row) (matching tabs sel q'))) n)"

lemma loaded_node_steps:
  "service_queries (eq_type q) = Some ei \<Longrightarrow>
     loaded_node tabs js sel q row = fold (edge_step tabs js sel q row) (ei_loads ei) (bare_node ei q row)"
  by (subst loaded_node.simps) (simp add: edge_step_def [abs_def])

lemma edge_step_row [simp]: "nd_row (edge_step tabs js sel q row r n) = nd_row n"
  by (simp add: edge_step_def split: option.split)

lemma init_load_map: "init_load r (map N rows) = map (\<lambda>row. (case r of
    LoadMany edge t fk \<Rightarrow> init_many edge (N row) | LoadJoined edge t tbl out inn \<Rightarrow> init_many edge (N row) | _ \<Rightarrow> N row)) rows"
  by (cases r) simp_all

lemma one_neighbour:
  "distinct (map f xs) \<Longrightarrow> (\<And>x. x \<in> set xs \<Longrightarrow> P x \<Longrightarrow> f x = v) \<Longrightarrow> length (filter P xs) \<le> 1"
  by (induction xs) (auto simp: filter_empty_conv)

lemma one_neighbour_key:
  assumes "distinct (map f xs)" "\<And>x y. x \<in> set xs \<Longrightarrow> y \<in> set xs \<Longrightarrow> P x \<Longrightarrow> P y \<Longrightarrow> f x = f y"
  shows "length (filter P xs) \<le> 1"
proof (cases "\<exists>x\<in>set xs. P x")
  case True
  then obtain x where "x \<in> set xs" "P x" by blast
  then show ?thesis using one_neighbour [OF assms(1), of P "f x"] assms(2) by blast
qed (simp add: filter_empty_conv)

text \<open>The neighbours the loader of each rule asks for, and where it attaches them.\<close>

lemma finish_owner:
  assumes "\<And>row. row \<in> set rows \<Longrightarrow> nd_fk fk (N row) = ref_of fk row"
    and rows: "\<And>row. row \<in> set rows \<Longrightarrow> row fk = VNil \<or> (\<exists>i. row fk = VInt i)"
    and cs: "\<And>c. c \<in> set cs \<Longrightarrow> nd_id (M c) = row_id c \<and> c ''id'' = VInt (row_id c)" "distinct (map row_id cs)"
  shows "finish_load (LoadOwner edge t fk) (map N rows) links
      (map M (filter (\<lambda>c. \<exists>i\<in>set (owner_ids fk (map N rows)). c ''id'' = VInt i) cs)) =
    Ok (map (\<lambda>row. attach_all (LoadOwner edge t fk) (map M (filter (neighbour js (LoadOwner edge t fk) row) cs)) (N row)) rows)"
    (is "finish_load _ _ _ (map M ?cs) = _")
proof -
  have ids: "set (owner_ids fk (map N rows)) = {i. \<exists>row\<in>set rows. ref_of fk row = Some i}"
    using assms(1) by (force simp: owner_ids_def List.map_filter_def)
  have "attach_owners edge fk (map N rows) (map M ?cs) =
      Ok (map (\<lambda>r. fold (\<lambda>c. set_one edge (M c)) (filter (\<lambda>c. ref_of fk r = Some (row_id c)) ?cs) (N r)) rows)"
    by (rule attach_owners_map) (use assms(1) cs(1) ids in \<open>fastforce+\<close>)
  moreover have "fold (\<lambda>c. set_one edge (M c)) (filter (\<lambda>c. ref_of fk r = Some (row_id c)) ?cs) (N r) =
      attach_all (LoadOwner edge t fk) (map M (filter (neighbour js (LoadOwner edge t fk) r) cs)) (N r)" if r: "r \<in> set rows" for r
  proof -
    have "filter (\<lambda>c. ref_of fk r = Some (row_id c)) ?cs = filter (neighbour js (LoadOwner edge t fk) r) cs"
      unfolding filter_filter
    proof (rule filter_cong)
      fix c
      assume c: "c \<in> set cs"
      show "((\<exists>i\<in>set (owner_ids fk (map N rows)). c ''id'' = VInt i) \<and> ref_of fk r = Some (row_id c)) =
          neighbour js (LoadOwner edge t fk) r c"
        using rows [OF r] cs(1) [OF c] ids r by (auto simp: ref_of_def intro!: bexI [of _ r])
    qed simp
    moreover have "length (filter (neighbour js (LoadOwner edge t fk) r) cs) \<le> 1"
      by (rule one_neighbour [OF cs(2), of _ "un_int (r fk)"]) (use cs(1) in \<open>metis neighbour.simps(1) un_int.simps(1)\<close>)
    ultimately show ?thesis using r
      by (cases "filter (neighbour js (LoadOwner edge t fk) r) cs") auto
  qed
  ultimately show ?thesis by (simp cong: map_cong)
qed

lemma neighbour_by:
  "neighbour js (LoadOne edge t fk) row = (\<lambda>r. r fk = row ''id'')"
  "neighbour js (LoadMany edge t fk) row = (\<lambda>r. r fk = row ''id'')"
  "neighbour js (LoadJoined edge t tbl out inn) row = (\<lambda>r. (row_id row, row_id r) \<in> set (js tbl out inn))"
  by (simp_all add: fun_eq_iff)

lemma finish_children:
  assumes "distinct (map row_id rows)" "\<And>row. row \<in> set rows \<Longrightarrow> nd_id (N row) = row_id row \<and> row ''id'' = VInt (row_id row)"
    and "\<And>x n. nd_id (assign x n) = nd_id n"
    and cs: "\<And>c. c \<in> set cs \<Longrightarrow> nd_fk fk (M c) = ref_of fk c"
  shows "attach_children assign fk (map N rows) (map M (filter (\<lambda>c. \<exists>i\<in>set (map nd_id (map N rows)). c fk = VInt i) cs)) =
    Ok (map (\<lambda>row. fold assign (map M (filter (\<lambda>c. c fk = row ''id'') cs)) (N row)) rows)"
    (is "attach_children _ _ _ (map M ?cs) = _")
proof -
  have mem: "nd_fk fk (M c) = Some (un_int (c fk)) \<and> un_int (c fk) \<in> row_id ` set rows" if c: "c \<in> set ?cs" for c
  proof -
    obtain row where "row \<in> set rows" "c fk = VInt (row_id row)" using c assms(2) by auto
    then show ?thesis using cs [of c] c by (simp add: ref_of_def)
  qed
  have "attach_children assign fk (map N rows) (map M ?cs) =
      Ok (map (\<lambda>r. fold (\<lambda>c. assign (M c)) (filter (\<lambda>c. un_int (c fk) = row_id r) ?cs) (N r)) rows)"
    by (rule attach_children_map) (use assms mem in blast)+
  moreover have "fold (\<lambda>c. assign (M c)) (filter (\<lambda>c. un_int (c fk) = row_id r) ?cs) (N r) =
      fold assign (map M (filter (\<lambda>c. c fk = r ''id'') cs)) (N r)" if r: "r \<in> set rows" for r
  proof -
    have "filter (\<lambda>c. un_int (c fk) = row_id r) ?cs = filter (\<lambda>c. c fk = r ''id'') cs"
      unfolding filter_filter
    proof (rule filter_cong)
      fix c
      show "((\<exists>i\<in>set (map nd_id (map N rows)). c fk = VInt i) \<and> un_int (c fk) = row_id r) = (c fk = r ''id'')"
      proof
        assume "(\<exists>i\<in>set (map nd_id (map N rows)). c fk = VInt i) \<and> un_int (c fk) = row_id r"
        then obtain i where "c fk = VInt i" "i = row_id r" by auto
        then show "c fk = r ''id''" using assms(2) [OF r] by simp
      next
        assume "c fk = r ''id''"
        then have "c fk = VInt (row_id r)" using assms(2) [OF r] by simp
        then show "(\<exists>i\<in>set (map nd_id (map N rows)). c fk = VInt i) \<and> un_int (c fk) = row_id r"
          using assms(2) [OF r] r by (auto intro: rev_image_eqI [of r])
      qed
    qed simp
    then show ?thesis using r by (simp add: fold_map o_def)
  qed
  ultimately show ?thesis by (simp cong: map_cong)
qed

text \<open>The links the loader collects from a join.\<close>

definition links_of :: "(int \<times> int) list \<Rightarrow> int list \<Rightarrow> 'f ent_row list \<Rightarrow> (int \<times> int) list" where
  "links_of links ids rs = concat (map (\<lambda>r. map (\<lambda>i. (i, row_id r)) (outs_of links ids r)) rs)"

lemma linked_links:
  assumes "distinct (map row_id rs)" "r \<in> set rs"
  shows "set (linked (links_of links ids rs) (row_id r)) = set (outs_of links ids r)"
proof -
  have "r' = r" if "r' \<in> set rs" "row_id r' = row_id r" for r'
    using assms that by (auto simp: distinct_map inj_on_def)
  then show ?thesis using assms(2) by (force simp: linked_def links_of_def)
qed

lemma finish_joined:
  assumes "distinct (map row_id rows)" "\<And>row. row \<in> set rows \<Longrightarrow> nd_id (N row) = row_id row"
    and cs: "distinct (map row_id cs)" "\<And>c. c \<in> set cs \<Longrightarrow> nd_id (M c) = row_id c"
  shows "attach_joined edge (links_of links (map row_id rows) cs) (map N rows)
      (map M (filter (\<lambda>c. outs_of links (map row_id rows) c \<noteq> []) cs)) =
    Ok (map (\<lambda>row. fold (append_many edge) (map M (filter (\<lambda>c. (row_id row, row_id c) \<in> set links) cs)) (N row)) rows)"
    (is "attach_joined _ ?links _ (map M ?cs) = _")
proof -
  have linked: "set (linked ?links (nd_id (M c))) = set (outs_of links (map row_id rows) c)" if "c \<in> set cs" for c
    using linked_links [OF cs(1) that] cs(2) [OF that] by simp
  have "attach_joined edge ?links (map N rows) (map M ?cs) =
      Ok (map (\<lambda>r. fold (\<lambda>c. append_many edge (M c)) (filter (\<lambda>c. row_id r \<in> set (linked ?links (nd_id (M c)))) ?cs) (N r)) rows)"
  proof (rule attach_joined_map)
    fix c
    assume "c \<in> set ?cs"
    then have "c \<in> set cs" "outs_of links (map row_id rows) c \<noteq> []" by simp_all
    then show "linked ?links (nd_id (M c)) \<noteq> [] \<and> set (linked ?links (nd_id (M c))) \<subseteq> row_id ` set rows"
      using linked [of c] by (auto simp: outs_of_def)
  qed (use assms in auto)
  moreover have "filter (\<lambda>c. row_id r \<in> set (linked ?links (nd_id (M c)))) ?cs = filter (\<lambda>c. (row_id r, row_id c) \<in> set links) cs"
    if "r \<in> set rows" for r
    unfolding filter_filter by (rule filter_cong) (use that linked in \<open>auto simp: outs_of_def filter_empty_conv\<close>)
  ultimately show ?thesis by (simp add: fold_map o_def cong: map_cong)
qed

section \<open>Running a query against the interface\<close>

locale stored =
  fixes db :: "('f :: zero) database" and tabs :: "'f tables" and js :: joins
    and sel :: "'f query_predicate \<Rightarrow> 'f ent_row \<Rightarrow> bool" and marshal :: "'f ent_value \<Rightarrow> string"
  assumes scan: "scan_takes (db_scan db)"
    and json: "json_law marshal (db_unmarshal db)"
    and sel_in: "sel (InValues c ids) r = (\<exists>i\<in>set ids. r c = VInt i)"
    and sel_ids: "sel (Pred (FieldIn ''id'' (map VInt ids))) r = (\<exists>i\<in>set ids. r ''id'' = VInt i)"
    and select: "plain_spec sp \<Longrightarrow> list_all no_join (qs_predicates sp) \<Longrightarrow>
      db_select db sp = Inr (map (stored_row marshal (qs_columns sp))
        (limited (qs_limit sp) (filter (satisfies sel (qs_predicates sp)) (tabs (qs_table sp)))))"
    and select_joined: "plain_spec sp \<Longrightarrow> qs_limit sp = 0 \<Longrightarrow> qs_predicates sp = ps @ [JoinIn tbl out inn ids] \<Longrightarrow>
      list_all no_join ps \<Longrightarrow>
      db_select db sp = Inr (joined_rows marshal (qs_columns sp) out (js tbl out inn) ids (filter (satisfies sel ps) (tabs (qs_table sp))))"
begin

lemma scanned_row:
  assumes "tables_ok tabs" "service_queries (eq_type q) = Some ei" "plain_flat ei (eq_flat q)"
    and "r \<in> set (tabs (pk_table (ei_package ei)))"
  defines "cols \<equiv> qs_columns (node_spec ei q)"
  obtains ss where "scan_row (db_scan db) (scanValues (ei_scan ei) cols) (map (\<lambda>c. sql_of marshal (r c)) cols) = Inr ss"
    "length ss = length cols" "ss ! 0 = ScInt (Some (row_id r))"
    "assignValues (db_unmarshal db) (ei_assign ei) cols ss (new_entity (ei_assign ei)) =
      Inr \<lparr>en_row = read_back (ei_assign ei) cols r, en_selected = Map.empty\<rparr>"
proof -
  have agree: "rules_agree (ei_scan ei) (ei_assign ei)"
    using decoders_agree info_decoder [OF assms(2)] by (auto simp: list_all_iff)
  have "list_all (storable (ei_assign ei) r) cols"
    using table_rows [OF assms(1,2,4)] spec_columns(1) [OF assms(2,3)] by (auto simp: list_all_iff cols_def)
  from decode_stored [OF agree scan json this] obtain ss
    where ss: "scan_row (db_scan db) (scanValues (ei_scan ei) cols) (map (\<lambda>c. sql_of marshal (r c)) cols) = Inr ss"
      "length ss = length cols"
      and assign: "assign_columns (db_unmarshal db) (ei_assign ei) cols ss (new_entity (ei_assign ei)) =
        Inr ((new_entity (ei_assign ei))\<lparr>en_row := read_back (ei_assign ei) cols r\<rparr>)"
    unfolding read_back_def by blast
  obtain cs where cs: "cols = ''id'' # cs" using spec_columns(2) [OF assms(2,3)] by (auto simp: cols_def)
  have "map_of (ei_assign ei) ''id'' = Some AssignID" using info_okD [OF assms(2)] by (simp add: info_ok_def)
  then have "(''id'', AssignID) \<in> set (ei_assign ei)" by (rule map_of_SomeD)
  then have "scan_column (ei_scan ei) ''id'' = NullInt64" using agree by (auto simp: rules_agree_def list_all_iff)
  moreover have "db_scan db NullInt64 (SqlInt (row_id r)) = Inr (ScInt (Some (row_id r)))"
    using scan by (simp add: scan_takes_def)
  ultimately have "ss ! 0 = ScInt (Some (row_id r))"
    using ss(1) row_id_value [OF assms(1,2,4)] by (auto simp: cs scanValues_def split: sum.splits)
  then show thesis using that [OF ss] ss(2) assign by (simp add: assignValues_def new_entity_def)
qed

lemma decode_all_stored:
  assumes "tables_ok tabs" "service_queries (eq_type q) = Some ei" "plain_flat ei (eq_flat q)"
    and "set rs \<subseteq> set (tabs (pk_table (ei_package ei)))"
  shows "decode_all (map (stored_row marshal (qs_columns (node_spec ei q))) rs) (decode_node db ei q) = Inr (map (bare_node ei q) rs)"
  using assms(4)
proof (induction rs)
  case (Cons r rs)
  then have r: "r \<in> set (tabs (pk_table (ei_package ei)))" by simp
  obtain ss where "scan_row (db_scan db) (scanValues (ei_scan ei) (qs_columns (node_spec ei q)))
      (map (\<lambda>c. sql_of marshal (r c)) (qs_columns (node_spec ei q))) = Inr ss"
    "assignValues (db_unmarshal db) (ei_assign ei) (qs_columns (node_spec ei q)) ss (new_entity (ei_assign ei)) =
      Inr \<lparr>en_row = read_back (ei_assign ei) (qs_columns (node_spec ei q)) r, en_selected = Map.empty\<rparr>"
    by (rule scanned_row [OF assms(1-3) r])
  then show ?case using Cons by (simp add: decode_node_def decode_row_def stored_row_def bare_node_def o_def)
qed simp

lemma joined_seen:
  assumes "tables_ok tabs" "service_queries (eq_type q) = Some ei" "plain_flat ei (eq_flat q)"
    and "r \<in> set (tabs (pk_table (ei_package ei)))" "list_ex (\<lambda>l. snd l = row_id r) links"
  shows "joined_nodes db ei q links nodes (map (\<lambda>i. (out, SqlInt i) # stored_row marshal (qs_columns (node_spec ei q)) r) is @ rest) =
    joined_nodes db ei q (links @ map (\<lambda>i. (i, row_id r)) is) nodes rest"
  using assms(5)
proof (induction "is" arbitrary: links)
  case (Cons i "is")
  obtain cs where cs: "qs_columns (node_spec ei q) = ''id'' # cs" using spec_columns(2) [OF assms(2,3)] by auto
  obtain ss where ss: "scan_row (db_scan db) (scanValues (ei_scan ei) (qs_columns (node_spec ei q)))
      (map (\<lambda>c. sql_of marshal (r c)) (qs_columns (node_spec ei q))) = Inr ss" "ss ! 0 = ScInt (Some (row_id r))"
    by (rule scanned_row [OF assms(1-4)])
  have "db_scan db NullInt64 (SqlInt i) = Inr (ScInt (Some i))" using scan by (simp add: scan_takes_def)
  then show ?case using Cons ss cs by (simp add: stored_row_def o_def)
qed simp

lemma joined_new:
  assumes "tables_ok tabs" "service_queries (eq_type q) = Some ei" "plain_flat ei (eq_flat q)"
    and "r \<in> set (tabs (pk_table (ei_package ei)))" "\<not> list_ex (\<lambda>l. snd l = row_id r) links"
  shows "joined_nodes db ei q links nodes (map (\<lambda>i. (out, SqlInt i) # stored_row marshal (qs_columns (node_spec ei q)) r) is @ rest) =
    joined_nodes db ei q (links @ map (\<lambda>i. (i, row_id r)) is) (nodes @ (if is = [] then [] else [bare_node ei q r])) rest"
proof (cases "is")
  case (Cons i ids)
  obtain cs where cs: "qs_columns (node_spec ei q) = ''id'' # cs" using spec_columns(2) [OF assms(2,3)] by auto
  obtain ss where ss: "scan_row (db_scan db) (scanValues (ei_scan ei) (qs_columns (node_spec ei q)))
      (map (\<lambda>c. sql_of marshal (r c)) (qs_columns (node_spec ei q))) = Inr ss" "ss ! 0 = ScInt (Some (row_id r))"
    "assignValues (db_unmarshal db) (ei_assign ei) (qs_columns (node_spec ei q)) ss (new_entity (ei_assign ei)) =
      Inr \<lparr>en_row = read_back (ei_assign ei) (qs_columns (node_spec ei q)) r, en_selected = Map.empty\<rparr>"
    by (rule scanned_row [OF assms(1-4)])
  have "db_scan db NullInt64 (SqlInt i) = Inr (ScInt (Some i))" using scan by (simp add: scan_takes_def)
  then show ?thesis
    using assms(5) ss cs joined_seen [OF assms(1-4), of "links @ [(i, row_id r)]" "nodes @ [bare_node ei q r]" out ids rest] Cons
    by (simp add: stored_row_def o_def bare_node_def)
qed simp

lemma joined_nodes_rows:
  assumes "tables_ok tabs" "service_queries (eq_type q) = Some ei" "plain_flat ei (eq_flat q)"
    and "set rs \<subseteq> set (tabs (pk_table (ei_package ei)))" "distinct (map row_id rs)"
    and "\<And>r l. r \<in> set rs \<Longrightarrow> l \<in> set links \<Longrightarrow> snd l \<noteq> row_id r"
  shows "joined_nodes db ei q links nodes (joined_rows marshal (qs_columns (node_spec ei q)) out lks ids rs) =
    Ok (links @ links_of lks ids rs, nodes @ map (bare_node ei q) (filter (\<lambda>r. outs_of lks ids r \<noteq> []) rs))"
  using assms(4-6)
proof (induction rs arbitrary: links nodes)
  case (Cons r rs)
  then have r: "r \<in> set (tabs (pk_table (ei_package ei)))" "\<not> list_ex (\<lambda>l. snd l = row_id r) links"
    by (auto simp: list_ex_iff)
  have "joined_nodes db ei q (links @ map (\<lambda>i. (i, row_id r)) (outs_of lks ids r))
      (nodes @ (if outs_of lks ids r = [] then [] else [bare_node ei q r]))
      (joined_rows marshal (qs_columns (node_spec ei q)) out lks ids rs) =
    Ok ((links @ map (\<lambda>i. (i, row_id r)) (outs_of lks ids r)) @ links_of lks ids rs,
      (nodes @ (if outs_of lks ids r = [] then [] else [bare_node ei q r])) @
        map (bare_node ei q) (filter (\<lambda>r. outs_of lks ids r \<noteq> []) rs))"
    by (rule Cons.IH) (use Cons.prems in \<open>auto dest: sym\<close>)
  then show ?case
    using joined_new [OF assms(1-3) r, where out = out and rest = "joined_rows marshal (qs_columns (node_spec ei q)) out lks ids rs"]
    by (simp add: joined_rows_def links_of_def)
qed (simp add: joined_rows_def links_of_def)

text \<open>The rows of a query and the rows of a joined query.\<close>

lemma node_spec_parts:
  "qs_table (node_spec ei q) = pk_table (ei_package ei)" "qs_predicates (node_spec ei q) = qf_predicates (eq_flat q)"
  "qs_limit (node_spec ei q) = or_zero (qf_limit (eq_flat q))"
  by (simp_all add: node_spec_def query_querySpec_def Let_def)

lemma node_spec_plain:
  "eq_path q = None \<Longrightarrow> qf_order (eq_flat q) = [] \<Longrightarrow> qf_offset (eq_flat q) = None \<Longrightarrow> qf_unique (eq_flat q) = None \<Longrightarrow>
     plain_spec (node_spec ei q)"
  by (simp add: plain_spec_def node_spec_def query_querySpec_def Let_def or_zero_def)

lemma fetch_rows:
  assumes "tables_ok tabs" "wf_tree q" "service_queries (eq_type q) = Some ei"
  shows "fetch service_queries db ei False q =
    Ok ([], map (bare_node ei q) (limited (or_zero (qf_limit (eq_flat q))) (matching tabs sel q)))"
proof -
  note plain = wf_plain(1) [OF assms(2,3)] and path = wf_plain(2) [OF assms(2,3)]
  have rows: "set (limited (or_zero (qf_limit (eq_flat q))) (matching tabs sel q)) \<subseteq> set (tabs (pk_table (ei_package ei)))"
    by (rule subset_trans [OF limited_sub(1) matching_rows [OF assms(3)]])
  have "db_select db (node_spec ei q) = Inr (map (stored_row marshal (qs_columns (node_spec ei q)))
      (limited (or_zero (qf_limit (eq_flat q))) (matching tabs sel q)))"
    using select [of "node_spec ei q"] plain path assms(3)
    by (simp add: node_spec_parts node_spec_plain plain_flat_def matching_def table_of_def)
  then show ?thesis
    using decode_all_stored [OF assms(1,3) plain rows] prepared [of ei q] plain path assms(3) by (simp add: fetch_def plain_flat_def)
qed

lemma fetch_joined:
  assumes "tables_ok tabs" "unlimited q" "service_queries (eq_type q) = Some ei"
  shows "fetch service_queries db ei True (query_Where [JoinIn tbl out inn ids] q) =
    Ok (links_of (js tbl out inn) ids (matching tabs sel q),
      map (bare_node ei q) (filter (\<lambda>r. outs_of (js tbl out inn) ids r \<noteq> []) (matching tabs sel q)))"
    (is "fetch _ _ _ _ ?q = _")
proof -
  have wf: "wf_tree q" and limit: "qf_limit (eq_flat q) = None" using assms(2) by (simp_all add: unlimited_def)
  note plain = wf_plain(1) [OF wf assms(3)] and path = wf_plain(2) [OF wf assms(3)]
  have spec: "node_spec ei ?q = (node_spec ei q)\<lparr>qs_predicates := qf_predicates (eq_flat q) @ [JoinIn tbl out inn ids]\<rparr>"
    by (simp add: node_spec_def needs_fks_def query_Where_def query_querySpec_def Let_def path)
  have "db_select db (node_spec ei ?q) = Inr (joined_rows marshal (qs_columns (node_spec ei q)) out (js tbl out inn) ids (matching tabs sel q))"
    using select_joined [of "node_spec ei ?q" "qf_predicates (eq_flat q)" tbl out inn ids] plain path limit assms(3)
      node_spec_plain [OF path, of ei]
    by (simp add: spec plain_spec_def node_spec_parts plain_flat_def matching_def table_of_def or_zero_def)
  moreover have "query_prepareQuery service_queries ?q = None"
    by (rule prepared [of ei]) (use plain path assms(3) in \<open>simp_all add: query_Where_def plain_flat_def\<close>)
  moreover have "joined_nodes db ei ?q = joined_nodes db ei q" by (rule joined_nodes_query) (simp add: query_Where_def)
  ultimately show ?thesis
    using joined_nodes_rows [OF assms(1,3) plain matching_rows [OF assms(3)] matching_distinct [OF assms(1,3)],
        where links = "[]" and nodes = "[]"]
    by (simp add: fetch_def)
qed

text \<open>Loading one edge, given that the queries of the neighbours are right.\<close>

definition runs_right :: "nat \<Rightarrow> bool" where
  "runs_right n = ((\<forall>q. height q < n \<and> unlimited q \<longrightarrow>
      fst (run_query service_queries db False q) = Ok ([], map (loaded_node tabs js sel q) (matching tabs sel q))) \<and>
    (\<forall>q tbl out inn ids. height q < n \<and> unlimited q \<longrightarrow>
      fst (run_query service_queries db True (query_Where [JoinIn tbl out inn ids] q)) =
        Ok (links_of (js tbl out inn) ids (matching tabs sel q),
          map (loaded_node tabs js sel q) (filter (\<lambda>r. outs_of (js tbl out inn) ids r \<noteq> []) (matching tabs sel q)))))"

lemma child_facts:
  assumes "tables_ok tabs" "unlimited q" "c \<in> set (matching tabs sel q)" "service_queries (eq_type q) = Some ei"
  shows "nd_id (loaded_node tabs js sel q c) = row_id c" "c ''id'' = VInt (row_id c)"
    and "fk \<in> set (pk_foreign_keys (ei_package ei)) \<Longrightarrow> nd_fk fk (loaded_node tabs js sel (with_fks q) c) = ref_of fk c"
proof -
  have c: "c \<in> set (tabs (pk_table (ei_package ei)))" using matching_rows [OF assms(4)] assms(3) by blast
  have plain: "plain_flat ei (eq_flat q)" "plain_flat ei (eq_flat (with_fks q))"
    using wf_plain(1) [of q ei] assms(2,4) by (simp_all add: unlimited_def with_fks_def plain_flat_def)
  show "nd_id (loaded_node tabs js sel q c) = row_id c" using bare_row(1) [OF assms(1,4) plain(1) c] assms(4) by simp
  show "c ''id'' = VInt (row_id c)" using row_id_value [OF assms(1,4) c] .
  have "service_queries (eq_type (with_fks q)) = Some ei" using assms(4) by (simp add: with_fks_def)
  then show "nd_fk fk (loaded_node tabs js sel (with_fks q) c) = ref_of fk c" if "fk \<in> set (pk_foreign_keys (ei_package ei))"
    using bare_row(2) [OF assms(1) _ plain(2) c that] by (simp add: needs_fks_def with_fks_def)
qed

lemma sel_by:
  "sel (InValues c ids) = (\<lambda>r. \<exists>i\<in>set ids. r c = VInt i)"
  "sel (Pred (FieldIn ''id'' (map VInt ids))) = (\<lambda>r. \<exists>i\<in>set ids. r ''id'' = VInt i)"
  by (simp_all add: fun_eq_iff sel_in sel_ids)

lemma satisfies_one [simp]: "satisfies sel [p] = sel p"
  by (simp add: satisfies_def fun_eq_iff)

text \<open>The nodes while their edges are loaded: nodes over rows of the table.\<close>

definition loading :: "'f entity_query \<Rightarrow> entity_info \<Rightarrow> 'f ent_row list \<Rightarrow> ('f ent_row \<Rightarrow> 'f node) \<Rightarrow> bool" where
  "loading q ei rows N = (tables_ok tabs \<and> wf_tree q \<and> service_queries (eq_type q) = Some ei \<and> runs_right (height q) \<and>
     set rows \<subseteq> set (tabs (pk_table (ei_package ei))) \<and> distinct (map row_id rows) \<and>
     (\<forall>row\<in>set rows. nd_row (N row) = nd_row (bare_node ei q row)))"

definition loads_edge :: "'f entity_query \<Rightarrow> load_rule \<Rightarrow> 'f entity_query \<Rightarrow> 'f ent_row list \<Rightarrow> ('f ent_row \<Rightarrow> 'f node) \<Rightarrow> bool" where
  "loads_edge q r q1 rows N = (case start_load r (map N rows) q1 of
      None \<Rightarrow> map (\<lambda>row. edge_step tabs js sel q row r (N row)) rows = map N rows
    | Some q2 \<Rightarrow> (\<exists>links ns. fst (run_query service_queries db (is_joined r) q2) = Ok (links, ns) \<and>
        finish_load r (init_load r (map N rows)) links ns = Ok (map (\<lambda>row. edge_step tabs js sel q row r (N row)) rows)))"

lemma loading_rows:
  assumes "loading q ei rows N" "row \<in> set rows"
  shows "row ''id'' = VInt (row_id row)" "nd_id (N row) = row_id row"
    and "fk \<in> set (pk_foreign_keys (ei_package ei)) \<Longrightarrow> needs_fks ei q \<Longrightarrow> nd_fk fk (N row) = ref_of fk row"
    and "fk \<in> set (pk_foreign_keys (ei_package ei)) \<Longrightarrow> row fk = VNil \<or> (\<exists>i. row fk = VInt i)"
proof -
  have facts: "tables_ok tabs" "service_queries (eq_type q) = Some ei" "wf_tree q" "nd_row (N row) = nd_row (bare_node ei q row)"
    "row \<in> set (tabs (pk_table (ei_package ei)))" using assms by (auto simp: loading_def)
  note plain = wf_plain(1) [OF facts(3,2)]
  show "row ''id'' = VInt (row_id row)" by (rule row_id_value [OF facts(1,2,5)])
  show "nd_id (N row) = row_id row" using bare_row(1) [OF facts(1,2) plain facts(5)] facts(4) by (simp add: nd_id_def)
  show "nd_fk fk (N row) = ref_of fk row" if "fk \<in> set (pk_foreign_keys (ei_package ei))" "needs_fks ei q"
    using bare_row(2) [OF facts(1,2) plain facts(5) that] facts(4) by (simp add: nd_fk_def)
  show "row fk = VNil \<or> (\<exists>i. row fk = VInt i)" if "fk \<in> set (pk_foreign_keys (ei_package ei))"
    by (rule fk_value [OF facts(1,2,5) that])
qed

text \<open>The query of the neighbours, with one more condition.\<close>

lemma loading_child:
  assumes "loading q ei rows N" "r \<in> set (ei_loads ei)" "map_of (eq_withs q) (lr_edge r) = Some q1"
  shows "unlimited q1" "\<exists>ei1. service_queries (eq_type q1) = Some ei1" "lr_target r = eq_type q1" "rule_ok ei r"
proof -
  have facts: "wf_tree q" "service_queries (eq_type q) = Some ei" using assms(1) by (auto simp: loading_def)
  show child: "unlimited q1" "lr_target r = eq_type q1" by (fact wf_child [OF facts assms(2,3)])+
  then show "\<exists>ei1. service_queries (eq_type q1) = Some ei1" by (auto simp: unlimited_def wf_tree_iff [of q1])
  show "rule_ok ei r" using info_okD [OF facts(2)] assms(2) by (simp add: info_ok_def list_all_iff)
qed

lemma loading_runs:
  assumes "loading q ei rows N" "r \<in> set (ei_loads ei)" "map_of (eq_withs q) (lr_edge r) = Some q1"
  shows "no_join p \<Longrightarrow> fst (run_query service_queries db False (query_Where [p] q1)) =
      Ok ([], map (loaded_node tabs js sel q1) (filter (sel p) (matching tabs sel q1)))"
    and "no_join p \<Longrightarrow> fst (run_query service_queries db False (query_Where [p] (with_fks q1))) =
      Ok ([], map (loaded_node tabs js sel (with_fks q1)) (filter (sel p) (matching tabs sel q1)))"
    and "fst (run_query service_queries db True (query_Where [JoinIn tbl out inn ids] q1)) =
      Ok (links_of (js tbl out inn) ids (matching tabs sel q1),
        map (loaded_node tabs js sel q1) (filter (\<lambda>r. outs_of (js tbl out inn) ids r \<noteq> []) (matching tabs sel q1)))"
proof -
  have lower: "height q1 < height q" "runs_right (height q)" using height_with [OF assms(3)] assms(1) by (simp_all add: loading_def)
  have child: "unlimited q1" by (rule loading_child(1) [OF assms])
  have run: "fst (run_query service_queries db False q2) = Ok ([], map (loaded_node tabs js sel q2) (matching tabs sel q2))"
    if "height q2 = height q1" "unlimited q2" for q2
    using lower that by (simp add: runs_right_def)
  have right: "unlimited (query_Where [p] q1)" "unlimited (query_Where [p] (with_fks q1))" if "no_join p"
    using child that wf_where [of q1 "[p]"] wf_where [OF wf_with_fks, of q1 "[p]"]
    by (simp_all add: unlimited_def query_Where_def with_fks_def)
  show "fst (run_query service_queries db False (query_Where [p] q1)) =
      Ok ([], map (loaded_node tabs js sel q1) (filter (sel p) (matching tabs sel q1)))" if "no_join p"
    using run [OF _ right(1) [OF that]] by (simp add: matching_where) (simp add: query_Where_def)
  show "fst (run_query service_queries db False (query_Where [p] (with_fks q1))) =
      Ok ([], map (loaded_node tabs js sel (with_fks q1)) (filter (sel p) (matching tabs sel q1)))" if "no_join p"
    using run [OF _ right(2) [OF that]] by (simp add: matching_where) (simp add: query_Where_def with_fks_def)
  show "fst (run_query service_queries db True (query_Where [JoinIn tbl out inn ids] q1)) =
      Ok (links_of (js tbl out inn) ids (matching tabs sel q1),
        map (loaded_node tabs js sel q1) (filter (\<lambda>r. outs_of (js tbl out inn) ids r \<noteq> []) (matching tabs sel q1)))"
    using lower child by (simp add: runs_right_def)
qed

lemma load_owner:
  assumes "loading q ei rows N" "LoadOwner edge t fk \<in> set (ei_loads ei)" "map_of (eq_withs q) edge = Some q1"
  shows "loads_edge q (LoadOwner edge t fk) q1 rows N"
proof -
  have tables: "tables_ok tabs" using assms(1) by (simp add: loading_def)
  have edge: "map_of (eq_withs q) (lr_edge (LoadOwner edge t fk)) = Some q1" using assms(3) by simp
  note run = loading_runs(1) [OF assms(1,2) edge] and child = loading_child(1) [OF assms(1,2) edge]
  obtain ei1 where ei1: "service_queries (eq_type q1) = Some ei1" using loading_child(2) [OF assms(1,2) edge] by blast
  have fk: "fk \<in> set (pk_foreign_keys (ei_package ei))" and needs: "needs_fks ei q"
    using loading_child(4) [OF assms(1,2) edge] assms(3) by (auto simp: needs_fks_def asked_def list_ex_iff)
  note rows = loading_rows [OF assms(1)]
  have fin: "finish_load (LoadOwner edge t fk) (map N rows) links (map (loaded_node tabs js sel q1)
      (filter (\<lambda>c. \<exists>i\<in>set (owner_ids fk (map N rows)). c ''id'' = VInt i) (matching tabs sel q1))) =
    Ok (map (\<lambda>row. attach_all (LoadOwner edge t fk) (map (loaded_node tabs js sel q1)
      (filter (neighbour js (LoadOwner edge t fk) row) (matching tabs sel q1))) (N row)) rows)" for links
  proof (rule finish_owner)
    show "distinct (map row_id (matching tabs sel q1))" by (rule matching_distinct [OF tables ei1])
    show "nd_id (loaded_node tabs js sel q1 c) = row_id c \<and> c ''id'' = VInt (row_id c)" if "c \<in> set (matching tabs sel q1)" for c
      using child_facts(1,2) [OF tables child that ei1] by simp
  qed (use rows(3) [OF _ fk needs] rows(4) [OF _ fk] in auto)
  have none: "neighbour js (LoadOwner edge t fk) row c = False" if "row \<in> set rows" "owner_ids fk (map N rows) = []" for row c
  proof -
    have "ref_of fk row = None" using rows(3) [OF that(1) fk needs] that by (auto simp: owner_ids_def List.map_filter_def filter_empty_conv)
    then show ?thesis using rows(4) [OF that(1) fk] by (auto simp: ref_of_def)
  qed
  show ?thesis
    using fin run [of "Pred (FieldIn ''id'' (map VInt (owner_ids fk (map N rows))))"] none assms(3)
    by (auto simp: loads_edge_def is_joined_def no_join_def sel_by edge_step_def)
qed

lemma load_children:
  assumes "loading q ei rows N" "r \<in> set (ei_loads ei)" "map_of (eq_withs q) (lr_edge r) = Some q1"
    and r: "r = LoadOne edge t fk \<or> r = LoadMany edge t fk"
  shows "loads_edge q r q1 rows N"
proof -
  have tables: "tables_ok tabs" "distinct (map row_id rows)" using assms(1) by (simp_all add: loading_def)
  note run = loading_runs(2) [OF assms(1-3)] and child = loading_child(1) [OF assms(1-3)]
  obtain ei1 where ei1: "service_queries (eq_type q1) = Some ei1" using loading_child(2) [OF assms(1-3)] by blast
  have fk: "fk \<in> set (pk_foreign_keys (ei_package ei1))" using loading_child(3,4) [OF assms(1-3)] ei1 r by auto
  note rows = loading_rows [OF assms(1)]
  let ?assign = "if r = LoadMany edge t fk then append_many edge else set_one edge"
  let ?N = "\<lambda>row. if r = LoadMany edge t fk then init_many edge (N row) else N row"
  let ?M = "loaded_node tabs js sel (with_fks q1)"
  have start: "start_load r (map N rows) q1 = Some (query_Where [InValues fk (map nd_id (map N rows))] (with_fks q1))"
    and init: "init_load r (map N rows) = map ?N rows"
    and finish: "finish_load r nodes links ns = attach_children ?assign fk nodes ns" for nodes links and ns :: "'f node list"
    using r by auto
  have ids: "map nd_id (map ?N rows) = map nd_id (map N rows)" by simp
  have "attach_children ?assign fk (map ?N rows)
      (map ?M (filter (\<lambda>c. \<exists>i\<in>set (map nd_id (map ?N rows)). c fk = VInt i) (matching tabs sel q1))) =
    Ok (map (\<lambda>row. fold ?assign (map ?M (filter (\<lambda>c. c fk = row ''id'') (matching tabs sel q1))) (?N row)) rows)"
    by (rule finish_children [OF tables(2)])
      (use rows(1,2) child_facts(3) [OF tables(1) child _ ei1 fk] in auto)
  moreover have "fold ?assign (map ?M (filter (\<lambda>c. c fk = row ''id'') (matching tabs sel q1))) (?N row) =
      edge_step tabs js sel q row r (N row)" if row: "row \<in> set rows" for row
  proof (cases "r = LoadMany edge t fk")
    case True
    then show ?thesis using assms(3) by (simp add: edge_step_def neighbour_by)
  next
    case False
    then have one: "r = LoadOne edge t fk" using r by simp
    have "length (filter (\<lambda>c. c fk = row ''id'') (matching tabs sel q1)) \<le> 1"
    proof (rule one_neighbour_key [OF matching_distinct [OF tables(1) ei1]])
      fix c c'
      assume c: "c \<in> set (matching tabs sel q1)" "c' \<in> set (matching tabs sel q1)" "c fk = row ''id''" "c' fk = row ''id''"
      have "service_queries (eq_type q) = Some ei" using assms(1) by (simp add: loading_def)
      then show "row_id c = row_id c'"
        using tables_unique [OF tables(1) _ _ _ _ _ _, of "eq_type q" ei edge t fk ei1 c c'] assms(2) one
          loading_child(3) [OF assms(1-3)] ei1 matching_rows [OF ei1] c rows(1) [OF row] by auto
    qed
    then show ?thesis using one assms(3) by (simp add: edge_step_def neighbour_by set_one_all)
  qed
  ultimately have "finish_load r (init_load r (map N rows)) links
      (map ?M (filter (sel (InValues fk (map nd_id (map N rows)))) (matching tabs sel q1))) =
    Ok (map (\<lambda>row. edge_step tabs js sel q row r (N row)) rows)" for links
    unfolding finish init sel_by ids by (simp del: map_map cong: map_cong)
  moreover have "is_joined r = False" using r by (auto simp: is_joined_def)
  ultimately show ?thesis
    using run [of "InValues fk (map nd_id (map N rows))"] by (simp add: loads_edge_def start no_join_def del: map_map)
qed

lemma load_joined:
  assumes "loading q ei rows N" "LoadJoined edge t tbl out inn \<in> set (ei_loads ei)" "map_of (eq_withs q) edge = Some q1"
  shows "loads_edge q (LoadJoined edge t tbl out inn) q1 rows N"
proof -
  let ?r = "LoadJoined edge t tbl out inn"
  have tables: "tables_ok tabs" "distinct (map row_id rows)" using assms(1) by (simp_all add: loading_def)
  have edge: "map_of (eq_withs q) (lr_edge ?r) = Some q1" using assms(3) by simp
  note run = loading_runs(3) [OF assms(1,2) edge] and child = loading_child(1) [OF assms(1,2) edge]
  obtain ei1 where ei1: "service_queries (eq_type q1) = Some ei1" using loading_child(2) [OF assms(1,2) edge] by blast
  note rows = loading_rows(2) [OF assms(1)]
  have ids: "map nd_id (map N rows) = map row_id rows" using rows by simp
  have "attach_joined edge (links_of (js tbl out inn) (map row_id rows) (matching tabs sel q1)) (map (\<lambda>row. init_many edge (N row)) rows)
      (map (loaded_node tabs js sel q1) (filter (\<lambda>c. outs_of (js tbl out inn) (map row_id rows) c \<noteq> []) (matching tabs sel q1))) =
    Ok (map (\<lambda>row. fold (append_many edge) (map (loaded_node tabs js sel q1)
      (filter (\<lambda>c. (row_id row, row_id c) \<in> set (js tbl out inn)) (matching tabs sel q1))) (init_many edge (N row))) rows)"
    by (rule finish_joined [OF tables(2) _ matching_distinct [OF tables(1) ei1]])
      (use rows child_facts(1) [OF tables(1) child _ ei1] in simp_all)
  then show ?thesis using run assms(3)
    by (simp add: loads_edge_def is_joined_def edge_step_def neighbour_by ids del: map_map) (simp add: o_def)
qed

lemma load_rule_right:
  assumes "loading q ei rows N" "r \<in> set (ei_loads ei)" "map_of (eq_withs q) (lr_edge r) = Some q1"
  shows "loads_edge q r q1 rows N"
  using assms by (cases r) (auto intro: load_owner load_children load_joined)

text \<open>All edges of a node.\<close>

lemma load_edges_right:
  assumes "loading q ei rows N" "set rs \<subseteq> set (ei_loads ei)" "eq_withs q0 = eq_withs q"
  shows "fst (load_edges service_queries db rs q0 (map N rows)) =
    Ok (map (\<lambda>row. fold (edge_step tabs js sel q row) rs (N row)) rows)"
  using assms(1,2)
proof (induction rs arbitrary: N)
  case (Cons r rs)
  show ?case
  proof (cases "map_of (eq_withs q) (lr_edge r)")
    case None
    then have "edge_step tabs js sel q row r n = n" for row n by (simp add: edge_step_def)
    then show ?thesis using None Cons assms(3) by simp
  next
    case (Some q1)
    have right: "loads_edge q r q1 rows N" using load_rule_right Some Cons.prems by auto
    have next_nodes: "fst (load_edges service_queries db rs q0 (map (\<lambda>row. edge_step tabs js sel q row r (N row)) rows)) =
        Ok (map (\<lambda>row. fold (edge_step tabs js sel q row) rs (edge_step tabs js sel q row r (N row))) rows)"
      by (rule Cons.IH) (use Cons.prems in \<open>auto simp: loading_def\<close>)
    show ?thesis
      using right next_nodes Some assms(3)
      by (auto simp: loads_edge_def split: option.splits prod.split)
  qed
qed simp

lemma run_right:
  assumes "loading q ei rows (bare_node ei q)" "eq_withs q0 = eq_withs q" "eq_type q0 = eq_type q"
    and "fetch service_queries db ei joined q0 = Ok (links, map (bare_node ei q) rows)"
  shows "fst (run_query service_queries db joined q0) = Ok (links, map (loaded_node tabs js sel q) rows)"
proof -
  have info: "service_queries (eq_type q) = Some ei" using assms(1) by (simp add: loading_def)
  have "fst (load_edges service_queries db (ei_loads ei) q0 (map (bare_node ei q) rows)) = Ok (map (loaded_node tabs js sel q) rows)"
    using load_edges_right [OF assms(1) order_refl assms(2)] by (simp add: loaded_node_steps [OF info])
  then show ?thesis
    using assms(3,4) info by (subst run_query.simps) (auto split: prod.split)
qed

lemma runs_right_all:
  assumes "tables_ok tabs"
  shows "runs_right n"
proof (induction n)
  case (Suc n)
  have start: "loading q ei rows (bare_node ei q)"
    if "height q < Suc n" "wf_tree q" "service_queries (eq_type q) = Some ei" "set rows \<subseteq> set (matching tabs sel q)" "distinct (map row_id rows)"
    for q ei rows
  proof -
    have "runs_right (height q)" using Suc that(1) by (auto simp: runs_right_def)
    then show ?thesis using assms that matching_rows [OF that(3)] by (auto simp: loading_def)
  qed
  show ?case unfolding runs_right_def
  proof (intro conjI allI impI)
    fix q :: "'f entity_query" assume q: "height q < Suc n \<and> unlimited q"
    then obtain ei where ei: "service_queries (eq_type q) = Some ei" by (auto simp: unlimited_def wf_tree_iff [of q])
    have "fetch service_queries db ei False q = Ok ([], map (bare_node ei q) (matching tabs sel q))"
      using fetch_rows [OF assms _ ei] q by (simp add: unlimited_def or_zero_def limited_def)
    then show "fst (run_query service_queries db False q) = Ok ([], map (loaded_node tabs js sel q) (matching tabs sel q))"
      by (intro run_right [OF start]) (use q ei matching_distinct [OF assms ei] in \<open>auto simp: unlimited_def\<close>)
  next
    fix q :: "'f entity_query" and tbl out inn ids assume q: "height q < Suc n \<and> unlimited q"
    then obtain ei where ei: "service_queries (eq_type q) = Some ei" by (auto simp: unlimited_def wf_tree_iff [of q])
    show "fst (run_query service_queries db True (query_Where [JoinIn tbl out inn ids] q)) =
        Ok (links_of (js tbl out inn) ids (matching tabs sel q),
          map (loaded_node tabs js sel q) (filter (\<lambda>r. outs_of (js tbl out inn) ids r \<noteq> []) (matching tabs sel q)))"
      by (rule run_right [OF start _ _ fetch_joined [OF assms _ ei]])
        (use q ei matching_distinct [OF assms ei] in \<open>auto simp: unlimited_def query_Where_def distinct_map_filter\<close>)
  qed
qed (simp add: runs_right_def)

text \<open>The query of the caller, which may be limited.\<close>

lemma run_query_right:
  assumes "tables_ok tabs" "wf_tree q"
  shows "fst (run_query service_queries db False q) =
    Ok ([], map (loaded_node tabs js sel q) (limited (or_zero (qf_limit (eq_flat q))) (matching tabs sel q)))"
proof -
  obtain ei where ei: "service_queries (eq_type q) = Some ei" using assms(2) by (auto simp: wf_tree_iff [of q])
  have "loading q ei (limited (or_zero (qf_limit (eq_flat q))) (matching tabs sel q)) (bare_node ei q)"
    using assms ei runs_right_all [OF assms(1)] subset_trans [OF limited_sub(1) matching_rows [OF ei]]
      limited_sub(2) [OF matching_distinct [OF assms(1) ei]] by (simp add: loading_def)
  then show ?thesis by (rule run_right) (simp_all add: fetch_rows [OF assms ei])
qed

lemma query_All_right:
  assumes "tables_ok tabs" "wf_tree q"
  shows "fst (query_All service_queries db q) =
    Ok (map (loaded_node tabs js sel q) (limited (or_zero (qf_limit (eq_flat q))) (matching tabs sel q)))"
  using run_query_right [OF assms] by (auto simp: query_All_def split: prod.splits)

lemma query_Only_right:
  assumes "tables_ok tabs" "unlimited q"
  shows "fst (query_Only service_queries ei db q) = (case matching tabs sel q of
      [] \<Rightarrow> Err (ENotFound (pk_label (ei_package ei)))
    | [r] \<Rightarrow> Ok (loaded_node tabs js sel q r)
    | _ \<Rightarrow> Err (ENotSingular (pk_label (ei_package ei))))"
proof -
  have wf: "wf_tree (query_Limit 2 q)" by (rule wf_limit) (use assms(2) in \<open>simp add: unlimited_def\<close>)
  have "fst (query_All service_queries db (query_Limit 2 q)) = Ok (map (loaded_node tabs js sel q) (take 2 (matching tabs sel q)))"
    using query_All_right [OF assms(1) wf] by (simp add: or_zero_def limited_def limit_flat)
  then show ?thesis
    by (cases "matching tabs sel q" rule: remdups_adj.cases)
      (auto simp: query_Only_def split: prod.splits outcome.splits)
qed

end

section \<open>A database of tables\<close>

text \<open>
  A database that holds the tables in memory and answers what the loaders ask; a predicate of the
  where.go packages means what \<open>holds\<close> says. Other selections are refused.
\<close>

definition table_sel :: "('f sql_predicate \<Rightarrow> 'f ent_row \<Rightarrow> bool) \<Rightarrow> 'f query_predicate \<Rightarrow> 'f ent_row \<Rightarrow> bool" where
  "table_sel holds p r = (case p of
      InValues c ids \<Rightarrow> \<exists>i\<in>set ids. r c = VInt i
    | JoinIn tbl out inn ids \<Rightarrow> False
    | Pred (FieldIn c vs) \<Rightarrow> r c \<in> set vs
    | Pred p' \<Rightarrow> holds p' r)"

definition refused :: error where "refused = EMsg ''selection not supported''"

definition table_select ::
  "'f tables \<Rightarrow> joins \<Rightarrow> ('f query_predicate \<Rightarrow> 'f ent_row \<Rightarrow> bool) \<Rightarrow> 'f query_spec \<Rightarrow> error + (string \<times> 'f sql_value) list list" where
  "table_select tabs js sel sp = (let ps = qs_predicates sp; tab = tabs (qs_table sp) in
     if \<not> plain_spec sp then Inl refused
     else if list_all no_join ps then Inr (map (stored_row sample_marshal (qs_columns sp)) (limited (qs_limit sp) (filter (satisfies sel ps) tab)))
     else (case last ps of
         JoinIn tbl out inn ids \<Rightarrow> if list_all no_join (butlast ps) \<and> qs_limit sp = 0
           then Inr (joined_rows sample_marshal (qs_columns sp) out (js tbl out inn) ids (filter (satisfies sel (butlast ps)) tab))
           else Inl refused
       | _ \<Rightarrow> Inl refused))"

definition table_database :: "'f tables \<Rightarrow> joins \<Rightarrow> ('f sql_predicate \<Rightarrow> 'f ent_row \<Rightarrow> bool) \<Rightarrow> ('f :: zero) database" where
  "table_database tabs js holds = \<lparr>db_select = table_select tabs js (table_sel holds),
     db_count = (\<lambda>sp. if plain_spec sp then Inr (int (length (filter (satisfies (table_sel holds) (qs_predicates sp)) (tabs (qs_table sp)))))
       else Inl refused),
     db_ids = (\<lambda>sl. if sl_from sl = None \<and> sl_columns sl = [''id''] \<and> sl_order sl = [] \<and> sl_offset sl = None
       then Inr (map row_id (limited (or_zero (sl_limit sl)) (filter (satisfies (table_sel holds) (sl_predicates sl)) (tabs (sl_table sl)))))
       else Inl refused),
     db_scan = sample_scan, db_unmarshal = sample_unmarshal\<rparr>"

interpretation table_store: stored "table_database tabs js holds" tabs js "table_sel holds" sample_marshal
  for tabs js holds
  by unfold_locales
    (simp_all add: table_database_def table_select_def sample_scan_laws sample_json_laws table_sel_def image_iff no_join_def Let_def)

end
