(* ===== verification/Account_Tables.thy ===== *)
theory Account_Tables imports Eager_Loading Query_Predicates begin

text \<open>
  The tables of the accounts (theory Store) as the generated client reads them: every row as the
  cells of its columns, the join tables as pairs, and that these tables are fit for the loaders
  when the database keeps the unique keys of models/ent/migrate/schema.go. Columns the store does
  not keep are NULL.
\<close>

section \<open>Rows as cells\<close>

definition settings_columns :: "settings_row \<Rightarrow> 'f ent_row" where
  "settings_columns s = columns_row [(''id'', VInt (st_id s)), (''uuid'', VString (st_uuid s)),
     (''two_factor'', VBool (st_two_factor s)), (''night_mode'', VBool (st_night_mode s)),
     (''created_at'', VTime (st_created_at s)), (''updated_at'', VTime (st_updated_at s)),
     (''user_user_settings'', VInt (st_user s))]"

definition details_columns :: "details_row \<Rightarrow> 'f ent_row" where
  "details_columns r = columns_row [(''id'', VInt (dt_id r)), (''name'', VString (dt_name r)),
     (''first_name'', or_nil VString (dt_first_name r)), (''last_name'', or_nil VString (dt_last_name r)),
     (''created_at'', VTime (dt_created_at r)), (''updated_at'', VTime (dt_updated_at r)),
     (''user_user_details'', VInt (dt_user r))]"

definition device_columns :: "device_row \<Rightarrow> 'f ent_row" where
  "device_columns v = columns_row [(''id'', VInt (dv_id v)), (''name'', or_nil VString (dv_name v)),
     (''type'', or_nil VString (dv_type v)), (''token'', VString (dv_token v)),
     (''ip_address'', or_nil VString (dv_ip_address v)), (''user_agent'', or_nil VString (dv_user_agent v)),
     (''os_name'', or_nil VString (dv_os_name v)), (''os_version'', or_nil VString (dv_os_version v)),
     (''browser_name'', or_nil VString (dv_browser_name v)), (''browser_version'', or_nil VString (dv_browser_version v)),
     (''last_seen_at'', VTime (dv_last_seen_at v)), (''created_at'', VTime (dv_created_at v)),
     (''updated_at'', VTime (dv_updated_at v)),
     (''second_factor_code_target_user_device'', or_nil VInt (dv_second_factor_code v)),
     (''user_user_devices'', VInt (dv_user v)),
     (''user_settings_second_factor_target'', or_nil VInt (dv_settings_target v)),
     (''user_settings_notification_target_devices'', or_nil VInt (dv_settings_notify v))]"

text \<open>The codes that can be used up have the column of it.\<close>

definition used_code_columns :: "string \<Rightarrow> code_row \<Rightarrow> 'f ent_row" where
  "used_code_columns fk c = (code_columns fk c)(''used'' := VBool (cd_used c))"

definition role_columns :: "role_row \<Rightarrow> 'f ent_row" where
  "role_columns r = columns_row [(''id'', VInt (rl_id r)), (''name'', VString (rl_name r)),
     (''description'', VString (rl_description r))]"

definition permission_columns :: "permission_row \<Rightarrow> 'f ent_row" where
  "permission_columns p = columns_row [(''id'', VInt (pm_id p)), (''name'', VString (pm_name p)),
     (''view'', VBool (pm_view p)), (''add'', VBool (pm_add p)), (''edit'', VBool (pm_edit p)),
     (''delete'', VBool (pm_delete p))]"

definition entrepreneur_columns :: "entrepreneur_row \<Rightarrow> rat ent_row" where
  "entrepreneur_columns e = columns_row [(''id'', VInt (en_id e)), (''business_name'', or_nil VString (en_business_name e)),
     (''nip'', or_nil VString (en_nip e)), (''krs'', or_nil VString (en_krs e)),
     (''description'', or_nil VString (en_description e)), (''offer'', or_nil VString (en_offer e)),
     (''income'', or_nil VFloat (en_income e)), (''costs'', or_nil VFloat (en_costs e)),
     (''funding_capital'', or_nil VFloat (en_funding_capital e)), (''industry'', or_nil VString (en_industry e)),
     (''management_council_members'', VStrings (en_council e)), (''decision_makers'', VStrings (en_decision_makers e)),
     (''business_phone_number'', or_nil VString (en_phone e)), (''business_mail'', or_nil VString (en_mail e)),
     (''website_address'', or_nil VString (en_website e)), (''created_at'', VTime (en_created_at e)),
     (''updated_at'', VTime (en_updated_at e)), (''user_details_entrepreneur_details'', or_nil VInt (en_user_details e))]"

definition location_columns :: "location_row \<Rightarrow> 'f ent_row" where
  "location_columns l = columns_row [(''id'', VInt (lc_id l)), (''country'', VString (lc_country l)),
     (''province'', VString (lc_province l)), (''city'', VString (lc_city l)), (''postal_code'', VString (lc_postal_code l)),
     (''street'', or_nil VString (lc_street l)), (''building_number'', VInt (lc_building_number l)),
     (''apartment_number'', VInt (lc_apartment_number l)), (''created_at'', VTime (lc_created_at l)),
     (''updated_at'', VTime (lc_updated_at l)), (''user_details_locations'', VInt (lc_user_details l))]"

definition action_columns :: "action_row \<Rightarrow> 'f ent_row" where
  "action_columns a = columns_row [(''id'', VInt (ac_id a)), (''type'', VString (ac_type a)), (''action'', VString (ac_action a)),
     (''details'', VString (ac_details a)), (''created_at'', VTime (ac_created_at a)), (''updated_at'', VTime (ac_updated_at a))]"

section \<open>The tables\<close>

definition account_tables :: "db \<Rightarrow> (string \<times> rat ent_row list) list" where
  "account_tables d = [(''users'', map user_columns (rows (users d))),
     (''user_settings'', map settings_columns (rows (settings d))),
     (''user_details'', map details_columns (rows (details d))),
     (''user_devices'', map device_columns (rows (devices d))),
     (''activation_codes'', map (used_code_columns ''user_activation_code'') (rows (activation_codes d))),
     (''reset_codes'', map (code_columns ''user_reset_code'') (rows (reset_codes d))),
     (''second_factor_codes'', map (used_code_columns ''user_second_factor_code'') (rows (second_factor_codes d))),
     (''verification_codes'', map (code_columns ''user_verification_code'') (rows (verification_codes d))),
     (''user_roles'', map role_columns (roles d)),
     (''role_permissions'', map permission_columns (permissions d)),
     (''entrepreneur_details'', map entrepreneur_columns (rows (entrepreneurs d))),
     (''locations'', map location_columns (rows (locations d))),
     (''user_actions'', map action_columns (rows (actions d)))]"

definition store_tables :: "db \<Rightarrow> rat tables" where
  "store_tables d t = (case lookup (account_tables d) t of None \<Rightarrow> [] | Some rs \<Rightarrow> rs)"

text \<open>A join table is read from either side.\<close>

definition store_joins :: "db \<Rightarrow> joins" where
  "store_joins d tbl out inn =
     (if tbl = ''user_user_roles'' then (if out = ''user_id'' then user_roles d else map prod.swap (user_roles d))
      else if tbl = ''role_permission_user_role''
        then (if out = ''role_permission_id'' then role_permissions d else map prod.swap (role_permissions d))
      else [])"

text \<open>Beyond the integrity of the accounts: keys of the other tables, and the unique references.\<close>

definition loadable :: "db \<Rightarrow> bool" where
  "loadable d \<longleftrightarrow> wf_db d \<and> unique_opt dv_settings_target (devices d) \<and> unique_opt dv_second_factor_code (devices d) \<and>
     wf_tab en_id (entrepreneurs d) \<and> unique_opt en_user_details (entrepreneurs d) \<and> wf_tab lc_id (locations d) \<and>
     wf_tab ac_id (actions d) \<and> distinct (map rl_id (roles d)) \<and> distinct (map pm_id (permissions d))"

section \<open>The tables are fit for the loaders\<close>

lemma unique_optD:
  assumes "unique_opt col t" "r \<in> set (rows t)" "r' \<in> set (rows t)" "col r = col r'" "col r \<noteq> None"
  shows "r = r'"
proof -
  have "distinct (filter (\<lambda>c. c \<noteq> None) (map col xs)) \<Longrightarrow> r \<in> set xs \<Longrightarrow> r' \<in> set xs \<Longrightarrow> r = r'" for xs
  proof (induction xs)
    case (Cons x xs)
    have fresh: "col x \<noteq> None \<Longrightarrow> col x \<notin> col ` set xs" and rest: "distinct (filter (\<lambda>c. c \<noteq> None) (map col xs))"
      using Cons.prems(1) by (auto split: if_splits)
    show ?case
    proof (cases "r \<in> set xs \<and> r' \<in> set xs")
      case False
      then show ?thesis using Cons.prems(2,3) fresh assms(4,5) by (metis image_eqI set_ConsD)
    qed (use Cons.IH rest in blast)
  qed simp
  then show ?thesis using assms(1-3) by (simp add: unique_opt_def)
qed

text \<open>One entity: its rows, and the entities that refer to it by a unique key.\<close>

definition rows_fit :: "entity_info \<Rightarrow> 'f ent_row list \<Rightarrow> bool" where
  "rows_fit ei rs = (distinct (map row_id rs) \<and> (\<forall>r\<in>set rs. list_all (storable (ei_assign ei) r) (columns_of_info ei)))"

definition key_unique :: "string \<Rightarrow> 'f ent_row list \<Rightarrow> bool" where
  "key_unique fk rs = (\<forall>r\<in>set rs. \<forall>r'\<in>set rs. r fk = r' fk \<and> r fk \<noteq> VNil \<longrightarrow> row_id r = row_id r')"

definition unique_keys :: "'f tables \<Rightarrow> entity_info \<Rightarrow> bool" where
  "unique_keys tabs ei = list_all (\<lambda>r. case r of
      LoadOne edge t fk \<Rightarrow> (case service_queries t of None \<Rightarrow> True | Some ei' \<Rightarrow> key_unique fk (tabs (pk_table (ei_package ei'))))
    | _ \<Rightarrow> True) (ei_loads ei)"

lemma tables_ok_iff: "tables_ok tabs \<longleftrightarrow>
  list_all (\<lambda>(t, ei). rows_fit ei (tabs (pk_table (ei_package ei))) \<and> unique_keys tabs ei) entity_infos"
  unfolding tables_ok_def list_all_iff
proof (rule ball_cong [OF refl], clarify)
  fix t ei
  have "unique_keys tabs ei \<longleftrightarrow> (\<forall>edge t' fk ei'. LoadOne edge t' fk \<in> set (ei_loads ei) \<and> service_queries t' = Some ei' \<longrightarrow>
      key_unique fk (tabs (pk_table (ei_package ei'))))"
    unfolding unique_keys_def list_all_iff by (auto split: load_rule.splits option.splits)
  then show "(distinct (map row_id (tabs (pk_table (ei_package ei)))) \<and>
      (\<forall>r\<in>set (tabs (pk_table (ei_package ei))). \<forall>x\<in>set (columns_of_info ei). storable (ei_assign ei) r x) \<and>
      (\<forall>edge t' fk ei'. LoadOne edge t' fk \<in> set (ei_loads ei) \<and> service_queries t' = Some ei' \<longrightarrow>
        (\<forall>r\<in>set (tabs (pk_table (ei_package ei'))). \<forall>r'\<in>set (tabs (pk_table (ei_package ei'))).
           r fk = r' fk \<and> r fk \<noteq> VNil \<longrightarrow> row_id r = row_id r'))) =
    (rows_fit ei (tabs (pk_table (ei_package ei))) \<and> unique_keys tabs ei)"
    by (simp add: rows_fit_def key_unique_def list_all_iff)
qed

text \<open>The tables by their names.\<close>

lemma info_tables:
  "pk_table (ei_package ActivationCodeQuery_info) = ''activation_codes''"
  "pk_table (ei_package BlacklistedTokenQuery_info) = ''blacklisted_tokens''"
  "pk_table (ei_package EntrepreneurDetailsQuery_info) = ''entrepreneur_details''"
  "pk_table (ei_package LocationQuery_info) = ''locations''"
  "pk_table (ei_package ResetCodeQuery_info) = ''reset_codes''"
  "pk_table (ei_package RolePermissionQuery_info) = ''role_permissions''"
  "pk_table (ei_package SecondFactorCodeQuery_info) = ''second_factor_codes''"
  "pk_table (ei_package UserQuery_info) = ''users''"
  "pk_table (ei_package UserActionQuery_info) = ''user_actions''"
  "pk_table (ei_package UserDetailsQuery_info) = ''user_details''"
  "pk_table (ei_package UserDeviceQuery_info) = ''user_devices''"
  "pk_table (ei_package UserRoleQuery_info) = ''user_roles''"
  "pk_table (ei_package UserSettingsQuery_info) = ''user_settings''"
  "pk_table (ei_package VerificationCodeQuery_info) = ''verification_codes''"
  by (simp_all add: ActivationCodeQuery_info_def activationcode_package_def BlacklistedTokenQuery_info_def
      blacklistedtoken_package_def EntrepreneurDetailsQuery_info_def entrepreneurdetails_package_def
      LocationQuery_info_def location_package_def ResetCodeQuery_info_def resetcode_package_def
      RolePermissionQuery_info_def rolepermission_package_def SecondFactorCodeQuery_info_def
      secondfactorcode_package_def UserQuery_info_def user_package_def UserActionQuery_info_def
      useraction_package_def UserDetailsQuery_info_def userdetails_package_def UserDeviceQuery_info_def
      userdevice_package_def UserRoleQuery_info_def userrole_package_def UserSettingsQuery_info_def
      usersettings_package_def VerificationCodeQuery_info_def verificationcode_package_def)

lemma store_table [simp]:
  "store_tables d ''users'' = map user_columns (rows (users d))"
  "store_tables d ''user_settings'' = map settings_columns (rows (settings d))"
  "store_tables d ''user_details'' = map details_columns (rows (details d))"
  "store_tables d ''user_devices'' = map device_columns (rows (devices d))"
  "store_tables d ''activation_codes'' = map (used_code_columns ''user_activation_code'') (rows (activation_codes d))"
  "store_tables d ''reset_codes'' = map (code_columns ''user_reset_code'') (rows (reset_codes d))"
  "store_tables d ''second_factor_codes'' = map (used_code_columns ''user_second_factor_code'') (rows (second_factor_codes d))"
  "store_tables d ''verification_codes'' = map (code_columns ''user_verification_code'') (rows (verification_codes d))"
  "store_tables d ''user_roles'' = map role_columns (roles d)"
  "store_tables d ''role_permissions'' = map permission_columns (permissions d)"
  "store_tables d ''entrepreneur_details'' = map entrepreneur_columns (rows (entrepreneurs d))"
  "store_tables d ''locations'' = map location_columns (rows (locations d))"
  "store_tables d ''user_actions'' = map action_columns (rows (actions d))"
  "store_tables d ''blacklisted_tokens'' = []"
  by (simp_all add: store_tables_def account_tables_def)

lemmas column_defs = user_columns_def settings_columns_def details_columns_def device_columns_def code_columns_def
  used_code_columns_def role_columns_def permission_columns_def entrepreneur_columns_def location_columns_def action_columns_def

lemma cell [simp]:
  "columns_row ((c, v) # cells) c' = (if c = c' then v else columns_row cells c')"
  "columns_row [] c' = VNil"
  by (simp_all add: columns_row_def)

lemma row_ids [simp]:
  "row_id (user_columns u) = u_id u" "row_id (settings_columns s) = st_id s" "row_id (details_columns r) = dt_id r"
  "row_id (device_columns v) = dv_id v" "row_id (code_columns fk c) = cd_id c" "row_id (used_code_columns fk c) = cd_id c"
  "row_id (role_columns rl) = rl_id rl" "row_id (permission_columns p) = pm_id p"
  "row_id (entrepreneur_columns e) = en_id e" "row_id (location_columns l) = lc_id l" "row_id (action_columns a) = ac_id a"
  by (simp_all add: row_id_def column_defs)

text \<open>The cells have the types of their columns.\<close>

definition cells_fit :: "entity_info \<Rightarrow> 'f ent_row \<Rightarrow> bool" where
  "cells_fit ei r = list_all (storable (ei_assign ei) r) (columns_of_info ei)"

lemma or_nil_cell [simp]:
  "type_of_value (or_nil VString v) = Some GoString \<longleftrightarrow> v \<noteq> None" "or_nil VString v \<noteq> VOther"
  "or_nil VString v = VNil \<longleftrightarrow> v = None"
  "type_of_value (or_nil VFloat x) = Some GoFloat \<longleftrightarrow> x \<noteq> None" "or_nil VFloat x \<noteq> VOther"
  "or_nil VFloat x = VNil \<longleftrightarrow> x = None"
  "type_of_value (or_nil VInt i) = Some GoInt \<longleftrightarrow> i \<noteq> None" "or_nil VInt i \<noteq> VOther"
  "or_nil VInt i = VNil \<longleftrightarrow> i = None"
  by (cases v; cases x; cases i; simp add: or_nil_def)+

lemma cells_fit_rows:
  "cells_fit ActivationCodeQuery_info (used_code_columns ''user_activation_code'' c)"
  "cells_fit EntrepreneurDetailsQuery_info (entrepreneur_columns e)"
  "cells_fit LocationQuery_info (location_columns l)"
  "cells_fit ResetCodeQuery_info (code_columns ''user_reset_code'' c)"
  "cells_fit RolePermissionQuery_info (permission_columns p)"
  "cells_fit SecondFactorCodeQuery_info (used_code_columns ''user_second_factor_code'' c)"
  "cells_fit UserQuery_info (user_columns u)"
  "cells_fit UserActionQuery_info (action_columns a)"
  "cells_fit UserDetailsQuery_info (details_columns r)"
  "cells_fit UserDeviceQuery_info (device_columns v)"
  "cells_fit UserRoleQuery_info (role_columns rl)"
  "cells_fit UserSettingsQuery_info (settings_columns s)"
  "cells_fit VerificationCodeQuery_info (code_columns ''user_verification_code'' c)"
  by (simp_all add: cells_fit_def columns_of_info_def storable_def column_defs
      ActivationCodeQuery_info_def activationcode_package_def ActivationCode_assignValues_def
      EntrepreneurDetailsQuery_info_def entrepreneurdetails_package_def EntrepreneurDetails_assignValues_def
      LocationQuery_info_def location_package_def Location_assignValues_def ResetCodeQuery_info_def
      resetcode_package_def ResetCode_assignValues_def RolePermissionQuery_info_def rolepermission_package_def
      RolePermission_assignValues_def SecondFactorCodeQuery_info_def secondfactorcode_package_def
      SecondFactorCode_assignValues_def UserQuery_info_def user_package_def User_assignValues_def
      UserActionQuery_info_def useraction_package_def UserAction_assignValues_def UserDetailsQuery_info_def
      userdetails_package_def UserDetails_assignValues_def UserDeviceQuery_info_def userdevice_package_def
      UserDevice_assignValues_def UserRoleQuery_info_def userrole_package_def UserRole_assignValues_def
      UserSettingsQuery_info_def usersettings_package_def UserSettings_assignValues_def
      VerificationCodeQuery_info_def verificationcode_package_def VerificationCode_assignValues_def del: not_None_eq)

lemma rows_fit_map:
  assumes "distinct (map key xs)" "\<And>x. row_id (f x) = key x" "\<And>x. cells_fit ei (f x)"
  shows "rows_fit ei (map f xs)"
  using assms by (auto simp: rows_fit_def cells_fit_def o_def)

lemma key_unique_map:
  assumes "\<And>x y. x \<in> set xs \<Longrightarrow> y \<in> set xs \<Longrightarrow> f x fk = f y fk \<Longrightarrow> f x fk \<noteq> VNil \<Longrightarrow> x = y"
  shows "key_unique fk (map f xs)"
  unfolding key_unique_def
proof (intro ballI impI)
  fix r r'
  assume "r \<in> set (map f xs)" "r' \<in> set (map f xs)" and key: "r fk = r' fk \<and> r fk \<noteq> VNil"
  then obtain x y where "x \<in> set xs" "r = f x" "y \<in> set xs" "r' = f y" by auto
  then have "x = y" using assms [of x y] key by blast
  then show "row_id r = row_id r'" using \<open>r = f x\<close> \<open>r' = f y\<close> by simp
qed

lemma or_nil_int [simp]: "or_nil VInt v = VInt i \<longleftrightarrow> v = Some i" "or_nil VInt v = or_nil VInt w \<longleftrightarrow> v = w"
  by (cases v; cases w; simp add: or_nil_def)+

lemma fk_cells [simp]:
  "details_columns r ''user_user_details'' = VInt (dt_user r)"
  "settings_columns s ''user_user_settings'' = VInt (st_user s)"
  "used_code_columns ''user_activation_code'' c ''user_activation_code'' = VInt (cd_user c)"
  "used_code_columns ''user_second_factor_code'' c ''user_second_factor_code'' = VInt (cd_user c)"
  "device_columns v ''user_user_devices'' = VInt (dv_user v)"
  "device_columns v ''user_settings_second_factor_target'' = or_nil VInt (dv_settings_target v)"
  "device_columns v ''second_factor_code_target_user_device'' = or_nil VInt (dv_second_factor_code v)"
  "entrepreneur_columns e ''user_details_entrepreneur_details'' = or_nil VInt (en_user_details e)"
  "location_columns l ''user_details_locations'' = VInt (lc_user_details l)"
  by (simp_all add: settings_columns_def details_columns_def device_columns_def used_code_columns_def
      entrepreneur_columns_def location_columns_def)

text \<open>The unique references of the accounts.\<close>

lemma keys_unique:
  assumes "loadable d"
  shows "key_unique ''user_user_details'' (store_tables d ''user_details'')"
    "key_unique ''user_user_settings'' (store_tables d ''user_settings'')"
    "key_unique ''user_activation_code'' (store_tables d ''activation_codes'')"
    "key_unique ''user_verification_code'' (store_tables d ''verification_codes'')"
    "key_unique ''user_second_factor_code'' (store_tables d ''second_factor_codes'')"
    "key_unique ''user_reset_code'' (store_tables d ''reset_codes'')"
    "key_unique ''second_factor_code_target_user_device'' (store_tables d ''user_devices'')"
    "key_unique ''user_settings_second_factor_target'' (store_tables d ''user_devices'')"
    "key_unique ''user_details_entrepreneur_details'' (store_tables d ''entrepreneur_details'')"
proof -
  have owned: "unique_col dt_user (details d)" "unique_col st_user (settings d)" "unique_col cd_user (activation_codes d)"
    "unique_col cd_user (verification_codes d)" "unique_col cd_user (second_factor_codes d)" "unique_col cd_user (reset_codes d)"
    and opt: "unique_opt dv_second_factor_code (devices d)" "unique_opt dv_settings_target (devices d)"
    "unique_opt en_user_details (entrepreneurs d)"
    using assms by (simp_all add: loadable_def wf_db_def owned_ok_def codes_ok_def)
  show "key_unique ''user_user_details'' (store_tables d ''user_details'')"
    "key_unique ''user_user_settings'' (store_tables d ''user_settings'')"
    "key_unique ''user_activation_code'' (store_tables d ''activation_codes'')"
    "key_unique ''user_verification_code'' (store_tables d ''verification_codes'')"
    "key_unique ''user_second_factor_code'' (store_tables d ''second_factor_codes'')"
    "key_unique ''user_reset_code'' (store_tables d ''reset_codes'')"
    using unique_colD [OF owned(1)] unique_colD [OF owned(2)] unique_colD [OF owned(3)] unique_colD [OF owned(4)]
      unique_colD [OF owned(5)] unique_colD [OF owned(6)]
    by (simp_all only: store_table) (rule key_unique_map; simp)+
  show "key_unique ''second_factor_code_target_user_device'' (store_tables d ''user_devices'')"
    "key_unique ''user_settings_second_factor_target'' (store_tables d ''user_devices'')"
    "key_unique ''user_details_entrepreneur_details'' (store_tables d ''entrepreneur_details'')"
    using unique_optD [OF opt(1)] unique_optD [OF opt(2)] unique_optD [OF opt(3)]
    by (simp_all only: store_table) (rule key_unique_map; simp; metis option.distinct(1))+
qed

text \<open>The references that must be unique, as the entities list them.\<close>

definition one_to_one :: "entity_info \<Rightarrow> (string \<times> string) list" where
  "one_to_one ei = List.map_filter (\<lambda>r. case r of
      LoadOne edge t fk \<Rightarrow> map_option (\<lambda>ei'. (fk, pk_table (ei_package ei'))) (service_queries t)
    | _ \<Rightarrow> None) (ei_loads ei)"

lemma unique_keys_list: "unique_keys tabs ei = list_all (\<lambda>(fk, t). key_unique fk (tabs t)) (one_to_one ei)"
proof -
  have "list_all (\<lambda>r. case r of
      LoadOne edge t fk \<Rightarrow> (case service_queries t of None \<Rightarrow> True | Some ei' \<Rightarrow> key_unique fk (tabs (pk_table (ei_package ei'))))
    | _ \<Rightarrow> True) rs =
    list_all (\<lambda>(fk, t). key_unique fk (tabs t)) (List.map_filter (\<lambda>r. case r of
      LoadOne edge t fk \<Rightarrow> map_option (\<lambda>ei'. (fk, pk_table (ei_package ei'))) (service_queries t)
    | _ \<Rightarrow> None) rs)" for rs
    by (induction rs) (simp_all add: List.map_filter_simps split: load_rule.split option.split)
  then show ?thesis by (simp add: unique_keys_def one_to_one_def)
qed

lemma one_to_one_all: "concat (map (\<lambda>(t, ei). one_to_one ei) entity_infos) =
  [(''second_factor_code_target_user_device'', ''user_devices''), (''user_user_details'', ''user_details''),
   (''user_user_settings'', ''user_settings''), (''user_activation_code'', ''activation_codes''),
   (''user_verification_code'', ''verification_codes''), (''user_second_factor_code'', ''second_factor_codes''),
   (''user_reset_code'', ''reset_codes''), (''user_details_entrepreneur_details'', ''entrepreneur_details''),
   (''user_settings_second_factor_target'', ''user_devices'')]"
  by code_simp

lemma unique_keys_store:
  assumes "loadable d" "(t, ei) \<in> set entity_infos"
  shows "unique_keys (store_tables d) ei"
proof -
  have "list_all (\<lambda>(fk, t). key_unique fk (store_tables d t)) (concat (map (\<lambda>(t, ei). one_to_one ei) entity_infos))"
    unfolding one_to_one_all by (simp add: keys_unique [OF assms(1)] del: store_table)
  then show ?thesis using assms(2) unfolding unique_keys_list by (force simp: list_all_iff)
qed

lemma rows_fit_store:
  assumes "loadable d"
  shows "list_all (\<lambda>(t, ei). rows_fit ei (store_tables d (pk_table (ei_package ei)))) entity_infos"
proof -
  have keys: "distinct (map cd_id (rows (activation_codes d)))"
    "distinct (map en_id (rows (entrepreneurs d)))"
    "distinct (map lc_id (rows (locations d)))"
    "distinct (map cd_id (rows (reset_codes d)))"
    "distinct (map pm_id (permissions d))"
    "distinct (map cd_id (rows (second_factor_codes d)))"
    "distinct (map u_id (rows (users d)))"
    "distinct (map ac_id (rows (actions d)))"
    "distinct (map dt_id (rows (details d)))"
    "distinct (map dv_id (rows (devices d)))"
    "distinct (map rl_id (roles d))"
    "distinct (map st_id (rows (settings d)))"
    "distinct (map cd_id (rows (verification_codes d)))"
    using assms by (simp_all add: loadable_def wf_db_def users_ok_def owned_ok_def codes_ok_def devices_ok_def wf_tab_def)
  have fits: "rows_fit ActivationCodeQuery_info (map (used_code_columns ''user_activation_code'') (rows (activation_codes d)))"
    "rows_fit EntrepreneurDetailsQuery_info (map entrepreneur_columns (rows (entrepreneurs d)))"
    "rows_fit LocationQuery_info (map location_columns (rows (locations d)))"
    "rows_fit ResetCodeQuery_info (map (code_columns ''user_reset_code'') (rows (reset_codes d)))"
    "rows_fit RolePermissionQuery_info (map permission_columns (permissions d))"
    "rows_fit SecondFactorCodeQuery_info (map (used_code_columns ''user_second_factor_code'') (rows (second_factor_codes d)))"
    "rows_fit UserQuery_info (map user_columns (rows (users d)))"
    "rows_fit UserActionQuery_info (map action_columns (rows (actions d)))"
    "rows_fit UserDetailsQuery_info (map details_columns (rows (details d)))"
    "rows_fit UserDeviceQuery_info (map device_columns (rows (devices d)))"
    "rows_fit UserRoleQuery_info (map role_columns (roles d))"
    "rows_fit UserSettingsQuery_info (map settings_columns (rows (settings d)))"
    "rows_fit VerificationCodeQuery_info (map (code_columns ''user_verification_code'') (rows (verification_codes d)))"
    by (rule rows_fit_map, rule keys, simp, rule cells_fit_rows)+
  have "rows_fit BlacklistedTokenQuery_info []" by (simp add: rows_fit_def)
  then show ?thesis using fits by (simp add: entity_infos_def info_tables)
qed

theorem store_tables_ok:
  assumes "loadable d"
  shows "tables_ok (store_tables d)"
  using rows_fit_store [OF assms] unique_keys_store [OF assms] unfolding tables_ok_iff by (auto simp: list_all_iff)

end
