(* ===== verification/Account_Queries.thy ===== *)
theory Account_Queries imports Account_Tables begin

text \<open>
  The lookups of repositories/handlers.go on the generated client. The presets are built with the
  \<open>WithX\<close> functions of models/ent/<entity>_query.go and run by the loaders of theory Ent_Load against
  the tables of the accounts; the nodes they give show exactly the users the repository model
  works with (\<open>load_user\<close> and \<open>Only\<close> of theory Entities).
\<close>

section \<open>The edges of a node\<close>

lemma find_filter: "find P xs = (case filter P xs of [] \<Rightarrow> None | x # ys \<Rightarrow> Some x)"
  by (induction xs) auto

lemma find_map: "find P (map f xs) = map_option f (find (\<lambda>x. P (f x)) xs)"
  by (induction xs) auto

lemma filter_map_rows: "filter P (map f xs) = map f (filter (\<lambda>x. P (f x)) xs)"
  by (induction xs) auto

lemma nd_one_set [simp]: "nd_one (set_one e x n) = (nd_one n)(e := Some x)" "nd_many (set_one e x n) = nd_many n"
  by (cases n; simp)+

lemma nd_append [simp]: "nd_one (append_many e x n) = nd_one n" "nd_one (init_many e n) = nd_one n"
  "nd_many (init_many e n) = (nd_many n)(e := Some [])"
  "nd_many (append_many e x n) = (nd_many n)(e := Some ((case nd_many n e of None \<Rightarrow> [] | Some xs \<Rightarrow> xs) @ [x]))"
  by (cases n; simp)+

lemma nd_appends:
  "nd_one (fold (append_many e) xs n) = nd_one n"
  "nd_many n e = Some ys \<Longrightarrow> nd_many (fold (append_many e) xs n) = (nd_many n)(e := Some (ys @ xs))"
  by (induction xs arbitrary: n ys) auto

definition to_one :: "load_rule \<Rightarrow> bool" where
  "to_one r = (case r of LoadOwner edge t fk \<Rightarrow> True | LoadOne edge t fk \<Rightarrow> True | _ \<Rightarrow> False)"

lemma attach_edges:
  "nd_one (attach_all r ns n) = (if to_one r \<and> ns \<noteq> [] then (nd_one n)(lr_edge r := Some (hd ns)) else nd_one n)"
  "nd_many (attach_all r ns n) = (if to_one r then nd_many n else (nd_many n)(lr_edge r := Some ns))"
  by (cases r; cases ns; simp add: to_one_def nd_appends; simp add: nd_appends(2) [where ys = "[]"] nd_appends(2) [where ys = "[hd ns]"])+

text \<open>A step of another edge leaves an edge alone.\<close>

lemma edge_step_other:
  assumes "lr_edge r \<noteq> edge"
  shows "nd_one (edge_step tabs js sel q row r n) edge = nd_one n edge" "nd_many (edge_step tabs js sel q row r n) edge = nd_many n edge"
  using assms by (simp_all add: edge_step_def attach_edges split: option.split)

lemma edge_steps_other:
  assumes "edge \<notin> lr_edge ` set rs"
  shows "nd_one (fold (edge_step tabs js sel q row) rs n) edge = nd_one n edge"
    "nd_many (fold (edge_step tabs js sel q row) rs n) edge = nd_many n edge"
  using assms by (induction rs arbitrary: n) (auto simp: edge_step_other)

lemma edge_steps_one:
  assumes "r \<in> set rs" "distinct (map lr_edge rs)" "nd_one n (lr_edge r) = None" "nd_many n (lr_edge r) = None"
  shows "nd_one (fold (edge_step tabs js sel q row) rs n) (lr_edge r) = (case map_of (eq_withs q) (lr_edge r) of
      None \<Rightarrow> None
    | Some q' \<Rightarrow> if to_one r then map_option (loaded_node tabs js sel (child_query r q')) (find (neighbour js r row) (matching tabs sel q'))
        else None)"
    "nd_many (fold (edge_step tabs js sel q row) rs n) (lr_edge r) = (case map_of (eq_withs q) (lr_edge r) of
      None \<Rightarrow> None
    | Some q' \<Rightarrow> if to_one r then None
        else Some (map (loaded_node tabs js sel (child_query r q')) (filter (neighbour js r row) (matching tabs sel q'))))"
proof -
  obtain xs ys where rs: "rs = xs @ r # ys" using assms(1) by (auto simp: in_set_conv_decomp)
  then have other: "lr_edge r \<notin> lr_edge ` set xs" "lr_edge r \<notin> lr_edge ` set ys" using assms(2) by auto
  define n1 where "n1 = fold (edge_step tabs js sel q row) xs n"
  have n1: "nd_one n1 (lr_edge r) = None" "nd_many n1 (lr_edge r) = None"
    using assms(3,4) by (simp_all add: n1_def edge_steps_other [OF other(1)])
  have step: "nd_one (fold (edge_step tabs js sel q row) rs n) (lr_edge r) = nd_one (edge_step tabs js sel q row r n1) (lr_edge r)"
    "nd_many (fold (edge_step tabs js sel q row) rs n) (lr_edge r) = nd_many (edge_step tabs js sel q row r n1) (lr_edge r)"
    by (simp_all add: rs n1_def edge_steps_other [OF other(2)])
  show "nd_one (fold (edge_step tabs js sel q row) rs n) (lr_edge r) = (case map_of (eq_withs q) (lr_edge r) of
      None \<Rightarrow> None
    | Some q' \<Rightarrow> if to_one r then map_option (loaded_node tabs js sel (child_query r q')) (find (neighbour js r row) (matching tabs sel q'))
        else None)"
    unfolding step using n1 by (auto simp: edge_step_def attach_edges find_filter split: option.split list.split)
  show "nd_many (fold (edge_step tabs js sel q row) rs n) (lr_edge r) = (case map_of (eq_withs q) (lr_edge r) of
      None \<Rightarrow> None
    | Some q' \<Rightarrow> if to_one r then None
        else Some (map (loaded_node tabs js sel (child_query r q')) (filter (neighbour js r row) (matching tabs sel q'))))"
    unfolding step using n1 by (auto simp: edge_step_def attach_edges split: option.split)
qed

text \<open>The edges of the node of a row: what the tables hold for each edge asked for.\<close>

lemma node_edges:
  assumes "service_queries (eq_type q) = Some ei" "r \<in> set (ei_loads ei)"
  shows "nd_one (loaded_node tabs js sel q row) (lr_edge r) = (case map_of (eq_withs q) (lr_edge r) of
      None \<Rightarrow> None
    | Some q' \<Rightarrow> if to_one r then map_option (loaded_node tabs js sel (child_query r q')) (find (neighbour js r row) (matching tabs sel q'))
        else None)"
    "nd_many (loaded_node tabs js sel q row) (lr_edge r) = (case map_of (eq_withs q) (lr_edge r) of
      None \<Rightarrow> None
    | Some q' \<Rightarrow> if to_one r then None
        else Some (map (loaded_node tabs js sel (child_query r q')) (filter (neighbour js r row) (matching tabs sel q'))))"
proof -
  have "distinct (map lr_edge (ei_loads ei))" using info_okD [OF assms(1)] by (simp add: info_ok_def)
  note steps = edge_steps_one [OF assms(2) this, of "bare_node ei q row" tabs js sel q row]
  have "nd_one (bare_node ei q row) = (\<lambda>_. None)" "nd_many (bare_node ei q row) = (\<lambda>_. None)"
    by (simp_all add: bare_node_def new_node_def)
  then show "nd_one (loaded_node tabs js sel q row) (lr_edge r) = (case map_of (eq_withs q) (lr_edge r) of
      None \<Rightarrow> None
    | Some q' \<Rightarrow> if to_one r then map_option (loaded_node tabs js sel (child_query r q')) (find (neighbour js r row) (matching tabs sel q'))
        else None)"
    "nd_many (loaded_node tabs js sel q row) (lr_edge r) = (case map_of (eq_withs q) (lr_edge r) of
      None \<Rightarrow> None
    | Some q' \<Rightarrow> if to_one r then None
        else Some (map (loaded_node tabs js sel (child_query r q')) (filter (neighbour js r row) (matching tabs sel q'))))"
    unfolding loaded_node_steps [OF assms(1)] using steps by simp_all
qed

text \<open>The fields of the node of a row, when no columns were selected.\<close>

definition shows_row :: "entity_info \<Rightarrow> 'f ent_row \<Rightarrow> ('f :: zero) node \<Rightarrow> bool" where
  "shows_row ei row n = (\<forall>c\<in>set (pk_columns (ei_package ei)).
     nd_row n c = (if row c = VNil then en_row (new_entity (ei_assign ei)) c else row c))"

lemma node_shows_row:
  assumes "service_queries (eq_type q) = Some ei" "qf_fields (eq_flat q) = []"
  shows "shows_row ei row (loaded_node tabs js sel q row)"
  using assms(2) unfolding shows_row_def node_row_bare [OF assms(1)]
  by (auto simp: bare_node_def new_node_def nd_row_def read_back_def node_spec_def query_querySpec_def Let_def)

section \<open>The presets\<close>

text \<open>Each preset of handlers.go, as the chain of builder calls it is.\<close>

definition where_visible_users :: "'f entity_query \<Rightarrow> 'f entity_query" where
  "where_visible_users = query_Where (map Pred visible_preds)"

definition WithSettingsOwner :: "'f entity_query \<Rightarrow> 'f entity_query" where
  "WithSettingsOwner = UserQuery_WithUserSettings [UserSettingsQuery_WithOwner []]"

definition WithDetailsLoaded :: "'f entity_query \<Rightarrow> 'f entity_query" where
  "WithDetailsLoaded = UserQuery_WithUserDetails [\<lambda>udq. UserDetailsQuery_WithLocations [] (UserDetailsQuery_WithEntrepreneurDetails [] udq)]"

definition WithRolesLoaded :: "'f entity_query \<Rightarrow> 'f entity_query" where
  "WithRolesLoaded = UserQuery_WithUserRoles [UserRoleQuery_WithPermissions []]"

definition WithSecondFactorLoaded :: "'f entity_query \<Rightarrow> 'f entity_query" where
  "WithSecondFactorLoaded = UserQuery_WithSecondFactorCode [SecondFactorCodeQuery_WithTargetUserDevice []]"

definition ent_withFullUserData :: "'f entity_query \<Rightarrow> 'f entity_query" where
  "ent_withFullUserData q = WithSecondFactorLoaded (UserQuery_WithVerificationCode [] (UserQuery_WithActivationCode []
     (UserQuery_WithResetCode [] (WithRolesLoaded (WithDetailsLoaded (UserQuery_WithUserDevices []
       (WithSettingsOwner (where_visible_users q))))))))"

definition ent_withFunctionalData :: "'f entity_query \<Rightarrow> 'f entity_query" where
  "ent_withFunctionalData q = WithSecondFactorLoaded (WithRolesLoaded (UserQuery_WithUserDevices []
     (WithSettingsOwner (where_visible_users q))))"

definition ent_withFunctionalDetailsData :: "'f entity_query \<Rightarrow> 'f entity_query" where
  "ent_withFunctionalDetailsData q = WithSecondFactorLoaded (WithDetailsLoaded (UserQuery_WithUserDevices []
     (WithSettingsOwner (where_visible_users q))))"

definition ent_withSettings :: "'f entity_query \<Rightarrow> 'f entity_query" where
  "ent_withSettings q = WithSettingsOwner (where_visible_users q)"

definition ent_withCodes :: "'f entity_query \<Rightarrow> 'f entity_query" where
  "ent_withCodes q = WithSecondFactorLoaded (UserQuery_WithVerificationCode [] (UserQuery_WithActivationCode []
     (UserQuery_WithResetCode [] (WithSettingsOwner (where_visible_users q)))))"

definition ent_withRoles :: "'f entity_query \<Rightarrow> 'f entity_query" where
  "ent_withRoles q = WithRolesLoaded (where_visible_users q)"

text \<open>A lookup: the preset over a new query, the conditions of the caller, exactly one result.\<close>

definition ent_lookup ::
  "('f entity_query \<Rightarrow> 'f entity_query) \<Rightarrow> 'f sql_predicate list \<Rightarrow> 'f database \<Rightarrow> ('f :: zero) node outcome" where
  "ent_lookup preset preds db = fst (UserQuery_Only db (query_Where (map Pred preds) (preset UserClient_Query)))"

section \<open>What a node shows\<close>

text \<open>A node shows an entity of the model when its fields are those of the row and its edges show the
  edges of the entity; an edge to many that was not loaded is the empty slice.\<close>

definition many_of :: "'f node \<Rightarrow> string \<Rightarrow> 'f node list" where
  "many_of n edge = (case nd_many n edge of None \<Rightarrow> [] | Some ns \<Rightarrow> ns)"

definition shows_device :: "rat node \<Rightarrow> device_row \<Rightarrow> bool" where
  "shows_device n v = shows_row UserDeviceQuery_info (device_columns v) n"

definition shows_settings :: "rat node \<Rightarrow> settings_ent \<Rightarrow> bool" where
  "shows_settings n s = (shows_row UserSettingsQuery_info (settings_columns (se_row s)) n \<and>
     rel_option (\<lambda>n u. shows_row UserQuery_info (user_columns u) n) (nd_one n ''owner'') (se_owner s) \<and>
     rel_option shows_device (nd_one n ''second_factor_target'') (se_target s))"

definition shows_details :: "rat node \<Rightarrow> details_ent \<Rightarrow> bool" where
  "shows_details n e = (shows_row UserDetailsQuery_info (details_columns (de_row e)) n \<and>
     rel_option (\<lambda>n e. shows_row EntrepreneurDetailsQuery_info (entrepreneur_columns e) n)
       (nd_one n ''entrepreneur_details'') (de_entrepreneur e) \<and>
     list_all2 (\<lambda>n l. shows_row LocationQuery_info (location_columns l) n) (many_of n ''locations'') (de_locations e))"

definition shows_second_factor :: "rat node \<Rightarrow> second_factor_ent \<Rightarrow> bool" where
  "shows_second_factor n s =
     (shows_row SecondFactorCodeQuery_info (used_code_columns ''user_second_factor_code'' (sf_row s)) n \<and>
      rel_option shows_device (nd_one n ''target_user_device'') (sf_target s))"

definition shows_role :: "rat node \<Rightarrow> role_ent \<Rightarrow> bool" where
  "shows_role n r = (shows_row UserRoleQuery_info (role_columns (re_row r)) n \<and>
     list_all2 (\<lambda>n p. shows_row RolePermissionQuery_info (permission_columns p) n) (many_of n ''permissions'') (re_permissions r))"

definition shows_user :: "rat node \<Rightarrow> user \<Rightarrow> bool" where
  "shows_user n u = (shows_row UserQuery_info (user_columns (usr u)) n \<and>
     rel_option shows_details (nd_one n ''user_details'') (e_details u) \<and>
     rel_option shows_settings (nd_one n ''user_settings'') (e_settings u) \<and>
     rel_option (\<lambda>n c. shows_row ActivationCodeQuery_info (used_code_columns ''user_activation_code'' c) n)
       (nd_one n ''activation_code'') (e_activation u) \<and>
     rel_option (\<lambda>n c. shows_row VerificationCodeQuery_info (code_columns ''user_verification_code'' c) n)
       (nd_one n ''verification_code'') (e_verification u) \<and>
     rel_option shows_second_factor (nd_one n ''second_factor_code'') (e_second_factor u) \<and>
     rel_option (\<lambda>n c. shows_row ResetCodeQuery_info (code_columns ''user_reset_code'' c) n) (nd_one n ''reset_code'') (e_reset u) \<and>
     list_all2 shows_device (many_of n ''user_devices'') (e_devices u) \<and>
     list_all2 shows_role (many_of n ''user_roles'') (e_roles u))"

section \<open>The nodes of the accounts\<close>

definition flat_where :: "'f query_predicate list \<Rightarrow> 'f query_flat" where
  "flat_where ps = \<lparr>qf_predicates = ps, qf_order = [], qf_limit = None, qf_offset = None, qf_unique = None,
     qf_fields = [], qf_withFKs = False\<rparr>"

definition settings_query :: "'f entity_query" where
  "settings_query = EntityQuery ''UserSettings'' (flat_where []) None [(''owner'', new_query ''User'')]"

definition details_query :: "'f entity_query" where
  "details_query = EntityQuery ''UserDetails'' (flat_where []) None
     [(''locations'', new_query ''Location''), (''entrepreneur_details'', new_query ''EntrepreneurDetails'')]"

definition role_query :: "'f entity_query" where
  "role_query = EntityQuery ''UserRole'' (flat_where []) None [(''permissions'', new_query ''RolePermission'')]"

definition second_factor_query :: "'f entity_query" where
  "second_factor_query = EntityQuery ''SecondFactorCode'' (flat_where []) None [(''target_user_device'', new_query ''UserDevice'')]"

text \<open>The edges a query of the model asks for.\<close>

definition edges_of :: "user_query \<Rightarrow> (string \<times> 'f entity_query) list" where
  "edges_of q = concat [
     if uq_second_factor q then [(''second_factor_code'', second_factor_query)] else [],
     if uq_verification q then [(''verification_code'', new_query ''VerificationCode'')] else [],
     if uq_activation q then [(''activation_code'', new_query ''ActivationCode'')] else [],
     if uq_reset q then [(''reset_code'', new_query ''ResetCode'')] else [],
     if uq_roles q then [(''user_roles'', role_query)] else [],
     if uq_details q then [(''user_details'', details_query)] else [],
     if uq_devices q then [(''user_devices'', new_query ''UserDevice'')] else [],
     if uq_settings q = Some with_owner then [(''user_settings'', settings_query)] else []]"

lemmas edge_defs = UserQuery_WithUserSettings_def UserQuery_WithUserDevices_def UserQuery_WithUserDetails_def
  UserQuery_WithUserRoles_def UserQuery_WithResetCode_def UserQuery_WithActivationCode_def
  UserQuery_WithVerificationCode_def UserQuery_WithSecondFactorCode_def UserSettingsQuery_WithOwner_def
  UserDetailsQuery_WithLocations_def UserDetailsQuery_WithEntrepreneurDetails_def UserRoleQuery_WithPermissions_def
  SecondFactorCodeQuery_WithTargetUserDevice_def with_edge_def

lemmas preset_defs = ent_withFullUserData_def ent_withFunctionalData_def ent_withFunctionalDetailsData_def
  ent_withSettings_def ent_withCodes_def ent_withRoles_def WithSettingsOwner_def WithDetailsLoaded_def
  WithRolesLoaded_def WithSecondFactorLoaded_def where_visible_users_def

text \<open>The builder calls leave exactly these edges.\<close>

lemma presets_built:
  "query_Where ps (ent_withFullUserData UserClient_Query) =
     EntityQuery ''User'' (flat_where (map Pred visible_preds @ ps)) None (edges_of (Where p (withFullUserData Query)))"
  "query_Where ps (ent_withFunctionalData UserClient_Query) =
     EntityQuery ''User'' (flat_where (map Pred visible_preds @ ps)) None (edges_of (Where p (withFunctionalData Query)))"
  "query_Where ps (ent_withFunctionalDetailsData UserClient_Query) =
     EntityQuery ''User'' (flat_where (map Pred visible_preds @ ps)) None (edges_of (Where p (withFunctionalDetailsData Query)))"
  "query_Where ps (ent_withSettings UserClient_Query) =
     EntityQuery ''User'' (flat_where (map Pred visible_preds @ ps)) None (edges_of (Where p (withSettings Query)))"
  "query_Where ps (ent_withCodes UserClient_Query) =
     EntityQuery ''User'' (flat_where (map Pred visible_preds @ ps)) None (edges_of (Where p (withCodes Query)))"
  "query_Where ps (ent_withRoles UserClient_Query) =
     EntityQuery ''User'' (flat_where (map Pred visible_preds @ ps)) None (edges_of (Where p (withRoles Query)))"
  by (simp_all add: preset_defs edge_defs UserClient_Query_def new_query_def query_Where_def put_def edges_of_def flat_where_def
      settings_query_def details_query_def role_query_def second_factor_query_def query_defs)

text \<open>The entities by name, and their rules.\<close>

lemma queries_of [simp]:
  "service_queries ''ActivationCode'' = Some ActivationCodeQuery_info"
  "service_queries ''EntrepreneurDetails'' = Some EntrepreneurDetailsQuery_info"
  "service_queries ''Location'' = Some LocationQuery_info"
  "service_queries ''ResetCode'' = Some ResetCodeQuery_info"
  "service_queries ''RolePermission'' = Some RolePermissionQuery_info"
  "service_queries ''SecondFactorCode'' = Some SecondFactorCodeQuery_info"
  "service_queries ''User'' = Some UserQuery_info"
  "service_queries ''UserDetails'' = Some UserDetailsQuery_info"
  "service_queries ''UserDevice'' = Some UserDeviceQuery_info"
  "service_queries ''UserRole'' = Some UserRoleQuery_info"
  "service_queries ''UserSettings'' = Some UserSettingsQuery_info"
  "service_queries ''VerificationCode'' = Some VerificationCodeQuery_info"
  by (simp_all add: service_queries_def entity_infos_def)

lemma rules_of:
  "UserQuery_loadUserDetails \<in> set (ei_loads UserQuery_info)" "UserQuery_loadUserSettings \<in> set (ei_loads UserQuery_info)"
  "UserQuery_loadActivationCode \<in> set (ei_loads UserQuery_info)" "UserQuery_loadVerificationCode \<in> set (ei_loads UserQuery_info)"
  "UserQuery_loadSecondFactorCode \<in> set (ei_loads UserQuery_info)" "UserQuery_loadResetCode \<in> set (ei_loads UserQuery_info)"
  "UserQuery_loadUserDevices \<in> set (ei_loads UserQuery_info)" "UserQuery_loadUserRoles \<in> set (ei_loads UserQuery_info)"
  "UserSettingsQuery_loadOwner \<in> set (ei_loads UserSettingsQuery_info)"
  "UserSettingsQuery_loadSecondFactorTarget \<in> set (ei_loads UserSettingsQuery_info)"
  "UserDetailsQuery_loadLocations \<in> set (ei_loads UserDetailsQuery_info)"
  "UserDetailsQuery_loadEntrepreneurDetails \<in> set (ei_loads UserDetailsQuery_info)"
  "UserRoleQuery_loadPermissions \<in> set (ei_loads UserRoleQuery_info)"
  "SecondFactorCodeQuery_loadTargetUserDevice \<in> set (ei_loads SecondFactorCodeQuery_info)"
  by (simp_all add: UserQuery_info_def UserSettingsQuery_info_def UserDetailsQuery_info_def UserRoleQuery_info_def SecondFactorCodeQuery_info_def)

lemmas load_defs = UserQuery_loadUserDetails_def UserQuery_loadUserSettings_def UserQuery_loadActivationCode_def
  UserQuery_loadVerificationCode_def UserQuery_loadSecondFactorCode_def UserQuery_loadResetCode_def
  UserQuery_loadUserDevices_def UserQuery_loadUserRoles_def UserSettingsQuery_loadOwner_def
  UserSettingsQuery_loadSecondFactorTarget_def UserDetailsQuery_loadLocations_def
  UserDetailsQuery_loadEntrepreneurDetails_def UserRoleQuery_loadPermissions_def
  SecondFactorCodeQuery_loadTargetUserDevice_def

lemma matching_all [simp]:
  "matching tabs sel (EntityQuery t (flat_where []) path ws) = tabs (table_of (EntityQuery t (flat_where []) path ws))"
  by (simp add: matching_def flat_where_def satisfies_def)

lemma new_query_flat: "new_query t = EntityQuery t (flat_where []) None []"
  by (simp add: new_query_def flat_where_def)

lemma table_of_query [simp]:
  "service_queries t = Some ei \<Longrightarrow> table_of (EntityQuery t fl path ws) = pk_table (ei_package ei)"
  by (simp add: table_of_def)

text \<open>A row of a query without columns selected; the flags of the loaders do not matter.\<close>

lemma shown:
  assumes "service_queries t = Some ei"
  shows "shows_row ei row (loaded_node tabs js sel (EntityQuery t (flat_where ps) path ws) row)"
    "shows_row ei row (loaded_node tabs js sel (with_fks (EntityQuery t (flat_where ps) path ws)) row)"
  by (rule node_shows_row; simp add: assms flat_where_def with_fks_def)+

lemma rel_map_option: "(\<And>x. R (f x) (g x)) \<Longrightarrow> rel_option R (map_option f x) (map_option g x)"
  by (cases x) simp_all

lemma rel_map_list: "(\<And>x. R (f x) (g x)) \<Longrightarrow> list_all2 R (map f xs) (map g xs)"
  by (simp add: list.rel_map list_all2_same)

lemma settings_shown:
  "shows_settings (loaded_node (store_tables d) (store_joins d) sel (with_fks settings_query) (settings_columns s))
     (load_settings d with_owner s)"
proof -
  let ?q = "with_fks settings_query :: rat entity_query"
  have info: "service_queries (eq_type ?q) = Some UserSettingsQuery_info" by (simp add: settings_query_def with_fks_def)
  note edges = node_edges [OF info, where tabs = "store_tables d" and js = "store_joins d" and sel = sel and row = "settings_columns s"]
  have "nd_one (loaded_node (store_tables d) (store_joins d) sel ?q (settings_columns s)) ''owner'' =
      map_option (\<lambda>u. loaded_node (store_tables d) (store_joins d) sel (new_query ''User'') (user_columns u))
        (find (\<lambda>u. u_id u = st_user s) (rows (users d)))"
    using edges(1) [OF rules_of(9)]
    by (simp add: load_defs to_one_def settings_query_def with_fks_def new_query_flat info_tables find_map option.map_comp o_def)
  moreover have "nd_one (loaded_node (store_tables d) (store_joins d) sel ?q (settings_columns s)) ''second_factor_target'' = None"
    using edges(1) [OF rules_of(10)] by (simp add: load_defs settings_query_def with_fks_def)
  moreover have "shows_row UserSettingsQuery_info (settings_columns s) (loaded_node (store_tables d) (store_joins d) sel ?q (settings_columns s))"
    by (simp add: settings_query_def shown)
  moreover have "shows_row UserQuery_info (user_columns u) (loaded_node (store_tables d) (store_joins d) sel (new_query ''User'') (user_columns u))" for u
    by (simp add: new_query_flat shown)
  ultimately show ?thesis
    by (simp add: shows_settings_def load_settings_def with_owner_def option.rel_map option.rel_refl_strong)
qed

lemma details_shown:
  "shows_details (loaded_node (store_tables d) (store_joins d) sel (with_fks details_query) (details_columns r)) (load_details d r)"
proof -
  let ?q = "with_fks details_query :: rat entity_query"
  let ?n = "loaded_node (store_tables d) (store_joins d) sel ?q (details_columns r)"
  have info: "service_queries (eq_type ?q) = Some UserDetailsQuery_info" by (simp add: details_query_def with_fks_def)
  note edges = node_edges [OF info, where tabs = "store_tables d" and js = "store_joins d" and sel = sel and row = "details_columns r"]
  have one: "nd_one ?n ''entrepreneur_details'' =
      map_option (\<lambda>e. loaded_node (store_tables d) (store_joins d) sel (with_fks (new_query ''EntrepreneurDetails'')) (entrepreneur_columns e))
        (find (\<lambda>e. en_user_details e = Some (dt_id r)) (rows (entrepreneurs d)))"
    using edges(1) [OF rules_of(12)]
    by (simp add: load_defs to_one_def details_query_def with_fks_def new_query_flat info_tables find_map option.map_comp o_def details_columns_def)
  have "nd_many ?n ''locations'' =
      Some (map (\<lambda>l. loaded_node (store_tables d) (store_joins d) sel (with_fks (new_query ''Location'')) (location_columns l))
        (filter (\<lambda>l. lc_user_details l = dt_id r) (rows (locations d))))"
    using edges(2) [OF rules_of(11)]
    by (simp add: load_defs to_one_def details_query_def with_fks_def new_query_flat info_tables filter_map_rows o_def details_columns_def)
  moreover have "shows_row UserDetailsQuery_info (details_columns r) ?n" by (simp add: details_query_def shown)
  moreover have "shows_row EntrepreneurDetailsQuery_info (entrepreneur_columns e)
      (loaded_node (store_tables d) (store_joins d) sel (with_fks (new_query ''EntrepreneurDetails'')) (entrepreneur_columns e))" for e
    by (simp add: new_query_flat shown)
  moreover have "shows_row LocationQuery_info (location_columns l)
      (loaded_node (store_tables d) (store_joins d) sel (with_fks (new_query ''Location'')) (location_columns l))" for l
    by (simp add: new_query_flat shown)
  ultimately show ?thesis using one
    by (simp add: shows_details_def load_details_def many_of_def option.rel_map option.rel_refl_strong list.rel_map list_all2_same)
qed

lemma second_factor_shown:
  "shows_second_factor (loaded_node (store_tables d) (store_joins d) sel (with_fks second_factor_query)
     (used_code_columns ''user_second_factor_code'' c)) (load_second_factor d c)"
proof -
  let ?q = "with_fks second_factor_query :: rat entity_query"
  let ?n = "loaded_node (store_tables d) (store_joins d) sel ?q (used_code_columns ''user_second_factor_code'' c)"
  have info: "service_queries (eq_type ?q) = Some SecondFactorCodeQuery_info" by (simp add: second_factor_query_def with_fks_def)
  note edges = node_edges [OF info, where tabs = "store_tables d" and js = "store_joins d" and sel = sel]
  have "nd_one ?n ''target_user_device'' =
      map_option (\<lambda>v. loaded_node (store_tables d) (store_joins d) sel (with_fks (new_query ''UserDevice'')) (device_columns v))
        (find (\<lambda>v. dv_second_factor_code v = Some (cd_id c)) (rows (devices d)))"
    using edges(1) [OF rules_of(14), of "used_code_columns ''user_second_factor_code'' c"]
    by (simp add: load_defs to_one_def second_factor_query_def with_fks_def new_query_flat info_tables find_map option.map_comp o_def
        used_code_columns_def code_columns_def)
  moreover have "shows_row SecondFactorCodeQuery_info (used_code_columns ''user_second_factor_code'' c) ?n"
    by (simp add: second_factor_query_def shown)
  moreover have "shows_device (loaded_node (store_tables d) (store_joins d) sel (with_fks (new_query ''UserDevice'')) (device_columns v)) v" for v
    by (simp add: shows_device_def new_query_flat shown)
  ultimately show ?thesis
    by (simp add: shows_second_factor_def load_second_factor_def option.rel_map option.rel_refl_strong)
qed

lemma role_shown:
  "shows_role (loaded_node (store_tables d) (store_joins d) sel role_query (role_columns rl)) (load_role d rl)"
proof -
  let ?n = "loaded_node (store_tables d) (store_joins d) sel role_query (role_columns rl)"
  have info: "service_queries (eq_type (role_query :: rat entity_query)) = Some UserRoleQuery_info" by (simp add: role_query_def)
  note edges = node_edges [OF info, where tabs = "store_tables d" and js = "store_joins d" and sel = sel and row = "role_columns rl"]
  have "nd_many ?n ''permissions'' =
      Some (map (\<lambda>p. loaded_node (store_tables d) (store_joins d) sel (new_query ''RolePermission'') (permission_columns p))
        (filter (\<lambda>p. (pm_id p, rl_id rl) \<in> set (role_permissions d)) (permissions d)))"
    using edges(2) [OF rules_of(13)]
    by (simp add: load_defs to_one_def role_query_def new_query_flat info_tables filter_map_rows o_def store_joins_def pair_in_swap_image)
  moreover have "shows_row UserRoleQuery_info (role_columns rl) ?n" by (simp add: role_query_def shown)
  moreover have "shows_row RolePermissionQuery_info (permission_columns p)
      (loaded_node (store_tables d) (store_joins d) sel (new_query ''RolePermission'') (permission_columns p))" for p
    by (simp add: new_query_flat shown)
  ultimately show ?thesis
    by (simp add: shows_role_def load_role_def many_of_def list.rel_map list_all2_same)
qed

lemma edges_found:
  "map_of (edges_of q) ''user_details'' = (if uq_details q then Some details_query else None)"
  "map_of (edges_of q) ''user_settings'' = (if uq_settings q = Some with_owner then Some settings_query else None)"
  "map_of (edges_of q) ''activation_code'' = (if uq_activation q then Some (new_query ''ActivationCode'') else None)"
  "map_of (edges_of q) ''verification_code'' = (if uq_verification q then Some (new_query ''VerificationCode'') else None)"
  "map_of (edges_of q) ''second_factor_code'' = (if uq_second_factor q then Some second_factor_query else None)"
  "map_of (edges_of q) ''reset_code'' = (if uq_reset q then Some (new_query ''ResetCode'') else None)"
  "map_of (edges_of q) ''user_devices'' = (if uq_devices q then Some (new_query ''UserDevice'') else None)"
  "map_of (edges_of q) ''user_roles'' = (if uq_roles q then Some role_query else None)"
  by (simp_all add: edges_of_def)

definition user_tree :: "'f query_predicate list \<Rightarrow> user_query \<Rightarrow> 'f entity_query" where
  "user_tree ps q = EntityQuery ''User'' (flat_where ps) None (edges_of q)"

lemma matching_trees:
  "matching (store_tables d) sel details_query = map details_columns (rows (details d))"
  "matching (store_tables d) sel settings_query = map settings_columns (rows (settings d))"
  "matching (store_tables d) sel second_factor_query = map (used_code_columns ''user_second_factor_code'') (rows (second_factor_codes d))"
  "matching (store_tables d) sel role_query = map role_columns (roles d)"
  by (simp_all add: details_query_def settings_query_def second_factor_query_def role_query_def info_tables)

text \<open>The edges of a user, one by one.\<close>

lemma user_edges_one:
  fixes d sel ps q u
  defines "n \<equiv> loaded_node (store_tables d) (store_joins d) sel (user_tree ps q) (user_columns u)"
  shows "rel_option shows_details (nd_one n ''user_details'') (e_details (load_user d q u))"
    and "uq_settings q = None \<or> uq_settings q = Some with_owner \<Longrightarrow>
      rel_option shows_settings (nd_one n ''user_settings'') (e_settings (load_user d q u))"
    and "rel_option (\<lambda>n c. shows_row ActivationCodeQuery_info (used_code_columns ''user_activation_code'' c) n)
      (nd_one n ''activation_code'') (e_activation (load_user d q u))"
    and "rel_option (\<lambda>n c. shows_row VerificationCodeQuery_info (code_columns ''user_verification_code'' c) n)
      (nd_one n ''verification_code'') (e_verification (load_user d q u))"
    and "rel_option shows_second_factor (nd_one n ''second_factor_code'') (e_second_factor (load_user d q u))"
    and "rel_option (\<lambda>n c. shows_row ResetCodeQuery_info (code_columns ''user_reset_code'' c) n)
      (nd_one n ''reset_code'') (e_reset (load_user d q u))"
proof -
  have info: "service_queries (eq_type (user_tree ps q)) = Some UserQuery_info" by (simp add: user_tree_def)
  note edges = node_edges(1) [OF info, where tabs = "store_tables d" and js = "store_joins d" and sel = sel and row = "user_columns u", folded n_def]
  note defs = load_defs to_one_def user_tree_def edges_found new_query_flat info_tables find_map option.map_comp o_def owned_def
  show "rel_option shows_details (nd_one n ''user_details'') (e_details (load_user d q u))"
    using edges [OF rules_of(1)] by (simp add: defs matching_trees option.rel_map option.rel_refl_strong details_shown)
  show "rel_option shows_settings (nd_one n ''user_settings'') (e_settings (load_user d q u))"
    if "uq_settings q = None \<or> uq_settings q = Some with_owner"
    using edges [OF rules_of(2)] that by (auto simp: defs matching_trees option.rel_map option.rel_refl_strong settings_shown)
  show "rel_option (\<lambda>n c. shows_row ActivationCodeQuery_info (used_code_columns ''user_activation_code'' c) n)
      (nd_one n ''activation_code'') (e_activation (load_user d q u))"
    using edges [OF rules_of(3)] by (simp add: defs option.rel_map option.rel_refl_strong shown)
  show "rel_option (\<lambda>n c. shows_row VerificationCodeQuery_info (code_columns ''user_verification_code'' c) n)
      (nd_one n ''verification_code'') (e_verification (load_user d q u))"
    using edges [OF rules_of(4)] by (simp add: defs option.rel_map option.rel_refl_strong shown)
  show "rel_option shows_second_factor (nd_one n ''second_factor_code'') (e_second_factor (load_user d q u))"
    using edges [OF rules_of(5)] by (simp add: defs matching_trees option.rel_map option.rel_refl_strong second_factor_shown)
  show "rel_option (\<lambda>n c. shows_row ResetCodeQuery_info (code_columns ''user_reset_code'' c) n)
      (nd_one n ''reset_code'') (e_reset (load_user d q u))"
    using edges [OF rules_of(6)] by (simp add: defs option.rel_map option.rel_refl_strong shown)
qed

lemma user_edges_many:
  fixes d sel ps q u
  defines "n \<equiv> loaded_node (store_tables d) (store_joins d) sel (user_tree ps q) (user_columns u)"
  shows "list_all2 shows_device (many_of n ''user_devices'') (e_devices (load_user d q u))"
    and "list_all2 shows_role (many_of n ''user_roles'') (e_roles (load_user d q u))"
proof -
  have info: "service_queries (eq_type (user_tree ps q)) = Some UserQuery_info" by (simp add: user_tree_def)
  note edges = node_edges(2) [OF info, where tabs = "store_tables d" and js = "store_joins d" and sel = sel and row = "user_columns u", folded n_def]
  note defs = load_defs to_one_def user_tree_def edges_found new_query_flat info_tables filter_map_rows o_def many_of_def store_joins_def
  show "list_all2 shows_device (many_of n ''user_devices'') (e_devices (load_user d q u))"
    using edges [OF rules_of(7)] by (simp add: defs list.rel_map list_all2_same shows_device_def shown)
  show "list_all2 shows_role (many_of n ''user_roles'') (e_roles (load_user d q u))"
    using edges [OF rules_of(8)] by (simp add: defs matching_trees list.rel_map list_all2_same role_shown)
qed

lemma user_shown:
  assumes "uq_settings q = None \<or> uq_settings q = Some with_owner"
  shows "shows_user (loaded_node (store_tables d) (store_joins d) sel (user_tree ps q) (user_columns u)) (load_user d q u)"
  unfolding shows_user_def
  by (intro conjI user_edges_one user_edges_many assms) (simp add: user_tree_def shown)

section \<open>The lookups\<close>

lemma unlimited_tree:
  assumes "service_queries t = Some ei" "list_all no_join ps"
    and "list_all (\<lambda>(edge, q'). unlimited q' \<and> list_ex (\<lambda>r. lr_edge r = edge \<and> lr_target r = eq_type q') (ei_loads ei)) ws"
  shows "unlimited (EntityQuery t (flat_where ps) None ws)"
  unfolding unlimited_def
  by (subst wf_tree_iff)
    (use assms in \<open>auto simp: flat_where_def plain_flat_def list_all_iff list_ex_iff unlimited_def dest!: map_of_SomeD\<close>)

lemma unlimited_new: "service_queries t = Some ei \<Longrightarrow> unlimited (new_query t)"
  unfolding new_query_flat by (rule unlimited_tree) simp_all

lemma unlimited_subtrees:
  "unlimited settings_query" "unlimited details_query" "unlimited role_query" "unlimited second_factor_query"
proof -
  show "unlimited settings_query" unfolding settings_query_def
    by (rule unlimited_tree [OF queries_of(11)]) (simp_all add: unlimited_new UserSettingsQuery_info_def load_defs, simp add: new_query_def)
  show "unlimited details_query" unfolding details_query_def
    by (rule unlimited_tree [OF queries_of(8)]) (simp_all add: unlimited_new UserDetailsQuery_info_def load_defs, simp add: new_query_def)
  show "unlimited role_query" unfolding role_query_def
    by (rule unlimited_tree [OF queries_of(10)]) (simp_all add: unlimited_new UserRoleQuery_info_def load_defs, simp add: new_query_def)
  show "unlimited second_factor_query" unfolding second_factor_query_def
    by (rule unlimited_tree [OF queries_of(6)]) (simp_all add: unlimited_new SecondFactorCodeQuery_info_def load_defs, simp add: new_query_def)
qed

lemma types_of [simp]:
  "eq_type (new_query t) = t" "eq_type settings_query = ''UserSettings''" "eq_type details_query = ''UserDetails''"
  "eq_type role_query = ''UserRole''" "eq_type second_factor_query = ''SecondFactorCode''"
  by (simp_all add: new_query_def settings_query_def details_query_def role_query_def second_factor_query_def)

lemma unlimited_user: "list_all no_join ps \<Longrightarrow> unlimited (user_tree ps q)"
  unfolding user_tree_def
  by (rule unlimited_tree [OF queries_of(7)])
    (simp_all add: edges_of_def unlimited_new unlimited_subtrees UserQuery_info_def load_defs)

text \<open>The database of the accounts: their tables, and what a predicate selects among them.\<close>

definition account_database :: "rat selection \<Rightarrow> db \<Rightarrow> rat database" where
  "account_database selects d = table_database (store_tables d) (store_joins d) (selects d)"

text \<open>The conditions of the lookups are no lists of values.\<close>

fun no_list :: "'f sql_predicate \<Rightarrow> bool" where
  "no_list (FieldIn c vs) = False" | "no_list p = True"

lemma satisfies_preds:
  "list_all no_list preds \<Longrightarrow> satisfies (table_sel means) (map Pred preds) r = list_all (\<lambda>p. means p r) preds"
proof (induction preds)
  case (Cons p preds)
  then show ?case by (cases p) (simp_all add: satisfies_def table_sel_def)
qed (simp add: satisfies_def)

lemma visible_no_list: "list_all no_list visible_preds"
  by (simp add: visible_preds_def user_BlacklistedPredicates_def user_RemovedPredicates_def predicates_on_def)

text \<open>An outcome of the client is that of the model: the same user, or the same error.\<close>

definition same_user :: "rat node outcome \<Rightarrow> error + user \<Rightarrow> bool" where
  "same_user res res' = (case (res, res') of (Ok n, Inr u) \<Rightarrow> shows_user n u | (Err err, Inl err') \<Rightarrow> err = err' | _ \<Rightarrow> False)"

lemma label_user: "pk_label (ei_package UserQuery_info) = ''user''"
  by (simp add: UserQuery_info_def user_package_def)

lemma lookup_same:
  assumes "loadable d" "list_all no_list ps" "uq_settings q = None \<or> uq_settings q = Some with_owner"
  shows "same_user (fst (UserQuery_Only (account_database selects d) (user_tree (map Pred ps) q))) (lookup_one selects ps q d)"
proof -
  have ok: "tables_ok (store_tables d)" by (rule store_tables_ok [OF assms(1)])
  have plain: "list_all no_join (map Pred ps :: rat query_predicate list)" by (auto simp: list_all_iff no_join_def)
  have "matching (store_tables d) (table_sel (selects d)) (user_tree (map Pred ps) q) =
      map user_columns (filter (selects_all selects ps d) (rows (users d)))"
    using satisfies_preds [OF assms(2)]
    by (simp add: matching_def user_tree_def flat_where_def info_tables filter_map_rows selects_all_def [abs_def])
  then have "fst (UserQuery_Only (account_database selects d) (user_tree (map Pred ps) q)) =
    (case map user_columns (filter (selects_all selects ps d) (rows (users d))) of
        [] \<Rightarrow> Err (ENotFound ''user'')
      | [r] \<Rightarrow> Ok (loaded_node (store_tables d) (store_joins d) (table_sel (selects d)) (user_tree (map Pred ps) q) r)
      | _ \<Rightarrow> Err (ENotSingular ''user''))"
    using table_store.query_Only_right [where js = "store_joins d" and holds = "selects d" and ei = UserQuery_info, OF ok unlimited_user [OF plain, of q]]
    unfolding UserQuery_Only_def account_database_def label_user by simp
  then show ?thesis
    using user_shown [OF assms(3)]
    by (auto simp: same_user_def lookup_one_def Only_def split: list.split)
qed

lemma preset_same:
  assumes "loadable d" "list_all no_list preds" "uq_settings q = None \<or> uq_settings q = Some with_owner"
    and "query_Where (map Pred preds) (preset UserClient_Query) =
      EntityQuery ''User'' (flat_where (map Pred visible_preds @ map Pred preds)) None (edges_of q)"
  shows "same_user (ent_lookup preset preds (account_database selects d)) (lookup_one selects (visible_preds @ preds) q d)"
  using lookup_same [OF assms(1) _ assms(3), of "visible_preds @ preds" selects] visible_no_list assms(2,4)
  by (simp add: ent_lookup_def user_tree_def)

text \<open>The lookups of handlers.go.\<close>

definition ent_GetUserByID :: "int \<Rightarrow> rat database \<Rightarrow> rat node outcome" where
  "ent_GetUserByID i = ent_lookup ent_withFullUserData [fp_EQ user_IDPredicates i]"

definition ent_GetUserPublicByID :: "int \<Rightarrow> rat database \<Rightarrow> rat node outcome" where
  "ent_GetUserPublicByID i db = fst (UserQuery_Only db (query_Where (map Pred [fp_EQ user_IDPredicates i,
     fp_EQ user_BlacklistedPredicates False, fp_EQ user_RemovedPredicates False]) UserClient_Query))"

definition ent_GetUserPrivateByID :: "int \<Rightarrow> rat database \<Rightarrow> rat node outcome" where
  "ent_GetUserPrivateByID i = ent_lookup ent_withFunctionalDetailsData [fp_EQ user_IDPredicates i]"

definition ent_GetUserFunctionalByID :: "int \<Rightarrow> rat database \<Rightarrow> rat node outcome" where
  "ent_GetUserFunctionalByID i = ent_lookup ent_withFunctionalData [fp_EQ user_IDPredicates i]"

definition ent_GetUserByMailWithCodes :: "string \<Rightarrow> rat database \<Rightarrow> rat node outcome" where
  "ent_GetUserByMailWithCodes m = ent_lookup ent_withCodes [fp_EQ user_MailPredicates m]"

definition ent_GetUserByMail :: "string \<Rightarrow> rat database \<Rightarrow> rat node outcome" where
  "ent_GetUserByMail m = ent_lookup ent_withFunctionalData [fp_EQ user_MailPredicates m]"

definition ent_GetUserByPhone :: "string \<Rightarrow> rat database \<Rightarrow> rat node outcome" where
  "ent_GetUserByPhone p = ent_lookup ent_withFunctionalData [fp_EQ user_PhonePredicates p]"

definition ent_GetUserBySecondFactor :: "string \<Rightarrow> rat database \<Rightarrow> rat node outcome" where
  "ent_GetUserBySecondFactor c = ent_lookup ent_withFunctionalData [user_HasSecondFactorCodeWith [fp_EQ secondfactorcode_CodePredicates c]]"

definition ent_GetUserByActivationCode :: "string \<Rightarrow> rat database \<Rightarrow> rat node outcome" where
  "ent_GetUserByActivationCode c = ent_lookup ent_withSettings [user_HasActivationCodeWith [fp_EQ activationcode_CodePredicates c]]"

definition ent_GetUserByVerificationCode :: "string \<Rightarrow> rat database \<Rightarrow> rat node outcome" where
  "ent_GetUserByVerificationCode c = ent_lookup ent_withRoles [user_HasVerificationCodeWith [fp_EQ verificationcode_CodePredicates c]]"

definition ent_GetUserByResetCode :: "string \<Rightarrow> rat database \<Rightarrow> rat node outcome" where
  "ent_GetUserByResetCode c = ent_lookup ent_withSettings [user_HasResetCodeWith [fp_EQ resetcode_CodePredicates c]]"

lemmas ent_lookup_defs = ent_GetUserByID_def ent_GetUserPrivateByID_def ent_GetUserFunctionalByID_def
  ent_GetUserByMailWithCodes_def ent_GetUserByMail_def ent_GetUserByPhone_def ent_GetUserBySecondFactor_def
  ent_GetUserByActivationCode_def ent_GetUserByVerificationCode_def ent_GetUserByResetCode_def

lemma no_list_lookups:
  "list_all no_list [fp_EQ user_IDPredicates i]" "list_all no_list [fp_EQ user_MailPredicates m]"
  "list_all no_list [fp_EQ user_PhonePredicates m]"
  "list_all no_list [user_HasSecondFactorCodeWith qs]" "list_all no_list [user_HasActivationCodeWith qs]"
  "list_all no_list [user_HasVerificationCodeWith qs]" "list_all no_list [user_HasResetCodeWith qs]"
  by (simp_all add: user_IDPredicates_def user_MailPredicates_def user_PhonePredicates_def predicates_on_def
      user_HasSecondFactorCodeWith_def user_HasActivationCodeWith_def user_HasVerificationCodeWith_def user_HasResetCodeWith_def)

lemma settings_or_none:
  "uq_settings (Where p (withFullUserData Query)) = None \<or> uq_settings (Where p (withFullUserData Query)) = Some with_owner"
  "uq_settings (Where p (withFunctionalData Query)) = None \<or> uq_settings (Where p (withFunctionalData Query)) = Some with_owner"
  "uq_settings (Where p (withFunctionalDetailsData Query)) = None \<or> uq_settings (Where p (withFunctionalDetailsData Query)) = Some with_owner"
  "uq_settings (Where p (withSettings Query)) = None \<or> uq_settings (Where p (withSettings Query)) = Some with_owner"
  "uq_settings (Where p (withCodes Query)) = None \<or> uq_settings (Where p (withCodes Query)) = Some with_owner"
  "uq_settings (Where p (withRoles Query)) = None \<or> uq_settings (Where p (withRoles Query)) = Some with_owner"
  by simp_all

lemma lookup_one_where [simp]: "lookup_one selects ps (Where p q) = lookup_one selects ps q"
  by (simp add: lookup_one_def Where_def)

lemma presets_same:
  assumes "loadable d" "list_all no_list preds"
  shows "same_user (ent_lookup ent_withFullUserData preds (account_database selects d))
      (lookup_one selects (visible_preds @ preds) (withFullUserData Query) d)"
    "same_user (ent_lookup ent_withFunctionalData preds (account_database selects d))
      (lookup_one selects (visible_preds @ preds) (withFunctionalData Query) d)"
    "same_user (ent_lookup ent_withFunctionalDetailsData preds (account_database selects d))
      (lookup_one selects (visible_preds @ preds) (withFunctionalDetailsData Query) d)"
    "same_user (ent_lookup ent_withSettings preds (account_database selects d))
      (lookup_one selects (visible_preds @ preds) (withSettings Query) d)"
    "same_user (ent_lookup ent_withCodes preds (account_database selects d))
      (lookup_one selects (visible_preds @ preds) (withCodes Query) d)"
    "same_user (ent_lookup ent_withRoles preds (account_database selects d))
      (lookup_one selects (visible_preds @ preds) (withRoles Query) d)"
  using preset_same [where preset = ent_withFullUserData, OF assms settings_or_none(1) [of "\<lambda>d u. True"] presets_built(1) [of _ "\<lambda>d u. True"], of selects]
    preset_same [where preset = ent_withFunctionalData, OF assms settings_or_none(2) [of "\<lambda>d u. True"] presets_built(2) [of _ "\<lambda>d u. True"], of selects]
    preset_same [where preset = ent_withFunctionalDetailsData, OF assms settings_or_none(3) [of "\<lambda>d u. True"] presets_built(3) [of _ "\<lambda>d u. True"], of selects]
    preset_same [where preset = ent_withSettings, OF assms settings_or_none(4) [of "\<lambda>d u. True"] presets_built(4) [of _ "\<lambda>d u. True"], of selects]
    preset_same [where preset = ent_withCodes, OF assms settings_or_none(5) [of "\<lambda>d u. True"] presets_built(5) [of _ "\<lambda>d u. True"], of selects]
    preset_same [where preset = ent_withRoles, OF assms settings_or_none(6) [of "\<lambda>d u. True"] presets_built(6) [of _ "\<lambda>d u. True"], of selects]
  by simp_all

text \<open>The lookups the repository model has beyond those of theory Query_Predicates.\<close>

lemma details_lookup:
  assumes "eq_law selects" "join_law selects"
  shows "lookup_one selects (preds_by_id i) (withFunctionalDetailsData Query) d = getUserFunctionalWithDetails (IDEQ i) d"
  unfolding getUserFunctionalWithDetails_def
  by (rule lookup_one_eq) (simp add: selects_lookups [OF assms] visible_where)

definition public_preds :: "int \<Rightarrow> 'f sql_predicate list" where
  "public_preds i = [fp_EQ user_IDPredicates i, fp_EQ user_BlacklistedPredicates False, fp_EQ user_RemovedPredicates False]"

lemma public_lookup:
  assumes "eq_law selects"
  shows "lookup_one selects (public_preds i) Query d = txGetUserPublicByID i d"
proof -
  have "lookup_one selects (public_preds i) (Where (BlacklistedEQ False) (Where (IDEQ i) Query)) d =
      Only (Where (RemovedEQ False) (Where (BlacklistedEQ False) (Where (IDEQ i) Query))) d"
    by (rule lookup_one_eq)
      (auto simp: selects_all_def public_preds_def user_IDPredicates_def user_BlacklistedPredicates_def user_RemovedPredicates_def
        predicates_on_def eq_lawD [OF assms] Where_def RemovedEQ_def BlacklistedEQ_def IDEQ_def Query_def)
  then show ?thesis by (simp add: txGetUserPublicByID_def)
qed

lemma public_same:
  assumes "loadable d"
  shows "same_user (ent_GetUserPublicByID i (account_database selects d)) (lookup_one selects (public_preds i) Query d)"
proof -
  have "list_all no_list (public_preds i :: rat sql_predicate list)"
    by (simp add: public_preds_def user_IDPredicates_def user_BlacklistedPredicates_def user_RemovedPredicates_def predicates_on_def)
  moreover have "query_Where ps UserClient_Query = user_tree ps Query" for ps :: "rat query_predicate list"
    by (simp add: user_tree_def UserClient_Query_def new_query_def query_Where_def flat_where_def edges_of_def Query_def)
  ultimately show ?thesis
    using lookup_same [OF assms, of "public_preds i" Query selects]
    by (simp add: ent_GetUserPublicByID_def public_preds_def Query_def)
qed

text \<open>C24: The lookups of users run as the repository model has them. Every lookup of handlers.go, built with
  the presets of edges and the predicates of the generated packages and run by the generated client
  with its loaders against the tables of the accounts, gives the user the model finds, every field
  and every edge loaded as the model loads it, or the same error when there is none or more than
  one; provided the database compares columns and joins along one-to-one edges as documented and
  keeps the unique keys of the schema.\<close>

theorem lookups_run_as_modelled:
  assumes "loadable d" "eq_law selects" "join_law selects"
  shows "same_user (ent_GetUserByID i (account_database selects d)) (txGetUserByID i d) \<and>
    same_user (ent_GetUserPublicByID i (account_database selects d)) (txGetUserPublicByID i d) \<and>
    same_user (ent_GetUserPrivateByID i (account_database selects d)) (getUserFunctionalWithDetails (IDEQ i) d) \<and>
    same_user (ent_GetUserFunctionalByID i (account_database selects d)) (txGetUserFunctionalByID i d) \<and>
    same_user (ent_GetUserByMailWithCodes s (account_database selects d)) (txGetUserByMailWithCodes s d) \<and>
    same_user (ent_GetUserByMail s (account_database selects d)) (txGetUserByMail s d) \<and>
    same_user (ent_GetUserByPhone s (account_database selects d)) (txGetUserByPhone s d) \<and>
    same_user (ent_GetUserBySecondFactor s (account_database selects d)) (txGetUserBySecondFactor s d) \<and>
    same_user (ent_GetUserByActivationCode s (account_database selects d)) (txGetUserByActivationCode s d) \<and>
    same_user (ent_GetUserByVerificationCode s (account_database selects d)) (txGetUserByVerificationCode s d) \<and>
    same_user (ent_GetUserByResetCode s (account_database selects d)) (txGetUserByResetCode s d)"
proof -
  note same = presets_same [OF assms(1), of _ selects]
  note found = lookups_by_predicates [OF assms(2,3), of i d s, unfolded preds_by_id_def preds_by_mail_def preds_by_phone_def
      preds_by_second_factor_def preds_by_activation_def preds_by_verification_def preds_by_reset_def]
  note details = details_lookup [OF assms(2,3), of i d, unfolded preds_by_id_def]
  have id: "same_user (ent_GetUserByID i (account_database selects d)) (txGetUserByID i d)"
    "same_user (ent_GetUserPrivateByID i (account_database selects d)) (getUserFunctionalWithDetails (IDEQ i) d)"
    "same_user (ent_GetUserFunctionalByID i (account_database selects d)) (txGetUserFunctionalByID i d)"
    using same(1,2,3) [OF no_list_lookups(1), of i] found details by (simp_all add: ent_lookup_defs)
  have mail: "same_user (ent_GetUserByMailWithCodes s (account_database selects d)) (txGetUserByMailWithCodes s d)"
    "same_user (ent_GetUserByMail s (account_database selects d)) (txGetUserByMail s d)"
    "same_user (ent_GetUserByPhone s (account_database selects d)) (txGetUserByPhone s d)"
    using same(5) [OF no_list_lookups(2), of s] same(2) [OF no_list_lookups(2), of s] same(2) [OF no_list_lookups(3), of s] found
    by (simp_all add: ent_lookup_defs)
  have code: "same_user (ent_GetUserBySecondFactor s (account_database selects d)) (txGetUserBySecondFactor s d)"
    "same_user (ent_GetUserByActivationCode s (account_database selects d)) (txGetUserByActivationCode s d)"
    "same_user (ent_GetUserByVerificationCode s (account_database selects d)) (txGetUserByVerificationCode s d)"
    "same_user (ent_GetUserByResetCode s (account_database selects d)) (txGetUserByResetCode s d)"
    using same(2) [OF no_list_lookups(4), of "[fp_EQ secondfactorcode_CodePredicates s]"]
      same(4) [OF no_list_lookups(5), of "[fp_EQ activationcode_CodePredicates s]"]
      same(6) [OF no_list_lookups(6), of "[fp_EQ verificationcode_CodePredicates s]"]
      same(4) [OF no_list_lookups(7), of "[fp_EQ resetcode_CodePredicates s]"] found
    by (simp_all add: ent_lookup_defs)
  have "same_user (ent_GetUserPublicByID i (account_database selects d)) (txGetUserPublicByID i d)"
    using public_same [OF assms(1), of i selects] by (simp add: public_lookup [OF assms(2)])
  then show ?thesis using id mail code by (intro conjI)
qed

text \<open>The accounts of theory Sample_Accounts.\<close>

lemma loadable_sample: "loadable sample_db"
  using wf_sample_db
  by (simp add: loadable_def unique_opt_def wf_tab_def) (simp add: sample_db_def empty_db_def empty_tab_def)

theorem lookups_run_as_modelled_witness:
  "same_user (ent_GetUserByMail ''a@b.co'' (account_database sample_selects sample_db)) (Inr alice_user)"
  unfolding find_alice [symmetric]
  using lookups_run_as_modelled [OF loadable_sample sample_laws, of 1 "''a@b.co''"] by blast

text \<open>C25: Eager loading is right. Whatever tree of edges a query asks to load, to one and to many, along
  keys of either side and through join tables, the run of the generated client neither fails nor
  mixes up neighbours: it gives the rows that match, in their order and within the limit, each with
  exactly the neighbours the tables hold for it, loaded in the same way, provided the database
  answers plain selections and joins from tables whose keys are distinct.\<close>

theorem eager_loading_correct:
  assumes "stored db tabs js sel marshal" "tables_ok tabs" "wf_tree q"
  shows "fst (query_All service_queries db q) =
    Ok (map (loaded_node tabs js sel q) (limited (or_zero (qf_limit (eq_flat q))) (matching tabs sel q)))"
  by (rule stored.query_All_right [OF assms])

theorem eager_loading_correct_witness:
  "fst (query_All service_queries (account_database sample_selects sample_db) (query_Where [] (ent_withCodes UserClient_Query))) =
    Ok (map (loaded_node (store_tables sample_db) (store_joins sample_db) (table_sel (sample_selects sample_db))
        (query_Where [] (ent_withCodes UserClient_Query))) [user_columns alice])"
proof -
  let ?q = "query_Where [] (ent_withCodes UserClient_Query) :: rat entity_query"
  let ?sel = "table_sel (sample_selects sample_db) :: rat query_predicate \<Rightarrow> rat ent_row \<Rightarrow> bool"
  let ?p = "\<lambda>d u. True"
  have q: "?q = user_tree (map Pred visible_preds) (Where ?p (withCodes Query))"
    using presets_built(5) [of "[]" ?p] by (simp add: user_tree_def)
  have "list_all no_join (map Pred visible_preds :: rat query_predicate list)" by (auto simp: list_all_iff no_join_def)
  then have "wf_tree ?q" using unlimited_user [of "map Pred visible_preds :: rat query_predicate list" "Where ?p (withCodes Query)"] q by (simp add: unlimited_def)
  note run = eager_loading_correct [OF table_store.stored_axioms [where tabs = "store_tables sample_db" and js = "store_joins sample_db"
      and holds = "sample_selects sample_db"] store_tables_ok [OF loadable_sample] this]
  have "matching (store_tables sample_db) ?sel ?q = [user_columns alice]"
    using satisfies_preds [OF visible_no_list, of "sample_selects sample_db" "user_columns alice"]
    by (simp add: q matching_def user_tree_def flat_where_def info_tables visible_preds_def user_BlacklistedPredicates_def
        user_RemovedPredicates_def predicates_on_def)
  moreover have "qf_limit (eq_flat ?q) = None" by (simp add: q user_tree_def flat_where_def)
  ultimately show ?thesis
    using run by (simp add: account_database_def limited_def or_zero_def)
qed

end
