(* ===== verification/Ent_Delete.thy ===== *)
theory Ent_Delete imports Ent_Create Ent_Update Ent_Update_One Ent_Queries begin

text \<open>
  The rest of the generated builders, written once: deletions (models/ent/<entity>_delete.go), bulk
  creations (\<open>CreateBulk\<close> in models/ent/<entity>_create.go), the saves with defaults and hooks
  (\<open>Save\<close>), and the client of an entity (models/ent/client.go), which makes the builders. A deletion
  gives the database back with the number of deleted rows. Theory Ent_Clients instantiates this
  for every entity.
\<close>

section \<open>Saves\<close>

text \<open>\<open>Save\<close> of a builder: the defaults, if the builder has any, then \<open>sqlSave\<close> under the hooks.\<close>

definition builder_Save ::
  "entity_schema \<Rightarrow> (string \<times> default_value) list \<Rightarrow> int \<Rightarrow> int \<Rightarrow> int \<Rightarrow> int \<Rightarrow> (('f, 'p) mutation \<Rightarrow> error + 'a) \<Rightarrow>
   ('f, 'p) mutation \<Rightarrow> error + 'a" where
  "builder_Save sch ds now start now1 now2 sqlSave m = with_hooks sch now1 now2 sqlSave (run_defaults sch now start ds m)"

section \<open>Deletions\<close>

record 'p delete_spec =
  ds_table :: string
  ds_predicates :: "'p list"

text \<open>\<open>sqlExec\<close>: the mutation is done even when the deletion failed.\<close>

definition delete_sqlExec ::
  "package \<Rightarrow> ('p delete_spec \<Rightarrow> error + int \<times> 's) \<Rightarrow> ('f, 'p) mutation \<Rightarrow> (error + int \<times> 's) \<times> ('f, 'p) mutation" where
  "delete_sqlExec p delete_nodes m =
     (delete_nodes \<lparr>ds_table = pk_table p, ds_predicates = mu_predicates m\<rparr>, m\<lparr>mu_done := True\<rparr>)"

definition delete_Exec ::
  "package \<Rightarrow> entity_schema \<Rightarrow> int \<Rightarrow> int \<Rightarrow> ('p delete_spec \<Rightarrow> error + int \<times> 's) \<Rightarrow> ('f, 'p) mutation \<Rightarrow>
   (error + int \<times> 's) \<times> ('f, 'p) mutation" where
  "delete_Exec p sch now1 now2 delete_nodes m = (case time_hook sch now1 now2 m of
     Inl err \<Rightarrow> (Inl err, m) | Inr m' \<Rightarrow> delete_sqlExec p delete_nodes m')"

text \<open>The deletion of one entity: none deleted is an error.\<close>

definition delete_one_Exec ::
  "package \<Rightarrow> entity_schema \<Rightarrow> int \<Rightarrow> int \<Rightarrow> ('p delete_spec \<Rightarrow> error + int \<times> 's) \<Rightarrow> ('f, 'p) mutation \<Rightarrow>
   (error + 's) \<times> ('f, 'p) mutation" where
  "delete_one_Exec p sch now1 now2 delete_nodes m = (case delete_Exec p sch now1 now2 delete_nodes m of
      (Inl err, m') \<Rightarrow> (Inl err, m')
    | (Inr (n, s), m') \<Rightarrow> (if n = 0 then Inl (ENotFound (pk_label p)) else Inr s, m'))"

section \<open>Bulk creation\<close>

text \<open>
  \<open>CreateBulk\<close>: an error of its making, or the builders. A save sets the defaults of all, then passes
  from one to the next, each through its hook (its own readings of the clock) and its checks to its
  specification; after the last one insertion of all, which gives their identifiers.
\<close>

datatype ('f, 'p) create_bulk = CreateBulk (bulk_err: "error option") (bulk_builders: "('f, 'p) mutation list")

fun bulk_specs ::
  "(nat \<Rightarrow> ('f, 'p) mutation \<Rightarrow> error + ('f, 'p) mutation) \<Rightarrow> (('f, 'p) mutation \<Rightarrow> error option) \<Rightarrow>
   (('f, 'p) mutation \<Rightarrow> 'f create_spec) \<Rightarrow> nat \<Rightarrow> ('f, 'p) mutation list \<Rightarrow>
   error + 'f create_spec list \<times> ('f, 'p) mutation list" where
  "bulk_specs hook checks spec i [] = Inr ([], [])"
| "bulk_specs hook checks spec i (m # ms) = (case hook i m of
      Inl err \<Rightarrow> Inl err
    | Inr m' \<Rightarrow> (case checks m' of
        Some err \<Rightarrow> Inl err
      | None \<Rightarrow> (case bulk_specs hook checks spec (Suc i) ms of
          Inl err \<Rightarrow> Inl err
        | Inr (specs, ms') \<Rightarrow> Inr (spec m' # specs, m' # ms'))))"

definition bulk_save ::
  "(('f, 'p) mutation \<Rightarrow> ('f, 'p) mutation) \<Rightarrow> (nat \<Rightarrow> ('f, 'p) mutation \<Rightarrow> error + ('f, 'p) mutation) \<Rightarrow>
   (('f, 'p) mutation \<Rightarrow> error option) \<Rightarrow> (('f, 'p) mutation \<Rightarrow> 'f create_spec) \<Rightarrow> ('f create_spec list \<Rightarrow> error + int list) \<Rightarrow>
   ('f, 'p) create_bulk \<Rightarrow> error + (int \<times> ('f, 'p) mutation) list" where
  "bulk_save defaults hook checks spec batch_create b = (case bulk_err b of
      Some err \<Rightarrow> Inl err
    | None \<Rightarrow> if bulk_builders b = [] then Inr []
        else (case bulk_specs hook checks spec 0 (map defaults (bulk_builders b)) of
            Inl err \<Rightarrow> Inl err
          | Inr (specs, ms) \<Rightarrow> (case batch_create specs of
              Inl err \<Rightarrow> Inl err
            | Inr ids \<Rightarrow> Inr (map (\<lambda>(i, m). (i, m\<lparr>mu_id := Some i, mu_done := True\<rparr>)) (zip ids ms)))))"

definition create_bulk_Save ::
  "entity_decl list \<Rightarrow> entity_schema \<Rightarrow> (string \<times> default_value) list \<Rightarrow> check_rule list \<Rightarrow> (('f, 'p) mutation \<Rightarrow> 'f create_spec) \<Rightarrow>
   ('f \<Rightarrow> bool) \<Rightarrow> int \<Rightarrow> int \<Rightarrow> (nat \<Rightarrow> int \<times> int) \<Rightarrow> ('f create_spec list \<Rightarrow> error + int list) \<Rightarrow>
   ('f, 'p) create_bulk \<Rightarrow> error + (int \<times> ('f, 'p) mutation) list" where
  "create_bulk_Save decls sch ds checks spec positive now start nows =
     bulk_save (run_defaults sch now start ds) (\<lambda>i. time_hook sch (fst (nows i)) (snd (nows i)))
       (run_checks positive decls sch checks) spec"

section \<open>The client of an entity\<close>

definition client_CreateBulk :: "('f, 'p) mutation list \<Rightarrow> ('f, 'p) create_bulk" where
  "client_CreateBulk = CreateBulk None"

text \<open>\<open>MapCreateBulk\<close> over a slice, or over a value of another type, of which only the name is used.\<close>

definition client_MapCreateBulk ::
  "string \<Rightarrow> ('f, 'p) mutation \<Rightarrow> string + 'x list \<Rightarrow> (('f, 'p) mutation \<Rightarrow> nat \<Rightarrow> ('f, 'p) mutation) \<Rightarrow> ('f, 'p) create_bulk" where
  "client_MapCreateBulk name new arg set_it = (case arg of
      Inl type \<Rightarrow> CreateBulk (Some (EMsg (''calling to '' @ name @ ''Client.MapCreateBulk with wrong type '' @ type @ '', need slice''))) []
    | Inr xs \<Rightarrow> CreateBulk None (map (set_it new) [0..<length xs]))"

definition client_DeleteOneID :: "(int \<Rightarrow> 'p) \<Rightarrow> (mutation_op \<Rightarrow> ('f, 'p) mutation) \<Rightarrow> int \<Rightarrow> ('f, 'p) mutation" where
  "client_DeleteOneID id_eq new i = (mutation_Where [id_eq i] (new OpDelete))\<lparr>mu_id := Some i, mu_op := OpDeleteOne\<rparr>"

definition client_Get ::
  "(int \<Rightarrow> 'f sql_predicate) \<Rightarrow> ('f database \<Rightarrow> 'f entity_query \<Rightarrow> ('f :: zero) node outcome \<times> 'f entity_query) \<Rightarrow>
   'f entity_query \<Rightarrow> 'f database \<Rightarrow> int \<Rightarrow> 'f node outcome" where
  "client_Get id_eq only query db i = fst (only db (query_Where [Pred (id_eq i)] query))"

text \<open>\<open>mutate\<close>: the builder of the operation runs the mutation.\<close>

datatype ('n, 's) mutated = Created int | UpdatedMany int | UpdatedOne 'n | Deleted int 's

definition client_mutate ::
  "(('f, 'p) mutation \<Rightarrow> error + int \<times> ('f, 'p) mutation) \<Rightarrow> (('f, 'p) mutation \<Rightarrow> error + int \<times> ('f, 'p) mutation) \<Rightarrow>
   (('f, 'p) mutation \<Rightarrow> error + 'n \<times> ('f, 'p) mutation) \<Rightarrow> (('f, 'p) mutation \<Rightarrow> (error + int \<times> 's) \<times> ('f, 'p) mutation) \<Rightarrow>
   ('f, 'p) mutation \<Rightarrow> error + ('n, 's) mutated" where
  "client_mutate create update update_one delete m = (case mu_op m of
      OpCreate \<Rightarrow> map_sum id (\<lambda>r. Created (fst r)) (create m)
    | OpUpdate \<Rightarrow> map_sum id (\<lambda>r. UpdatedMany (fst r)) (update m)
    | OpUpdateOne \<Rightarrow> map_sum id (\<lambda>r. UpdatedOne (fst r)) (update_one m)
    | _ \<Rightarrow> map_sum id (\<lambda>r. Deleted (fst r) (snd r)) (fst (delete m)))"

section \<open>Bulk creation against single creations\<close>

text \<open>What a bulk inserts: of every builder the specification it has after its defaults, its hook and
  its checks, in order; the first builder that fails stops it before anything is inserted.\<close>

lemma bulk_specs_ok:
  "bulk_specs hook checks spec i ms = Inr (specs, ms') \<Longrightarrow>
     list_all2 (\<lambda>(k, m) m'. hook k m = Inr m' \<and> checks m' = None) (enumerate i ms) ms' \<and> specs = map spec ms'"
proof (induction ms arbitrary: i specs ms')
  case (Cons m ms)
  then obtain m' rest ms2 where "hook i m = Inr m'" "checks m' = None" "bulk_specs hook checks spec (Suc i) ms = Inr (rest, ms2)"
    "specs = spec m' # rest" "ms' = m' # ms2"
    by (auto split: sum.splits option.splits)
  then show ?case using Cons.IH by simp
qed simp

lemma bulk_specs_fails:
  "bulk_specs hook checks spec i ms = Inl err \<Longrightarrow>
     \<exists>k<length ms. (hook (i + k) (ms ! k) = Inl err \<or> (\<exists>m'. hook (i + k) (ms ! k) = Inr m' \<and> checks m' = Some err)) \<and>
       (\<forall>j<k. \<exists>m'. hook (i + j) (ms ! j) = Inr m' \<and> checks m' = None)"
proof (induction ms arbitrary: i)
  case (Cons m ms)
  show ?case
  proof (cases "\<exists>m'. hook i m = Inr m' \<and> checks m' = None")
    case True
    then have "bulk_specs hook checks spec (Suc i) ms = Inl err" using Cons.prems by (auto split: sum.splits prod.splits)
    from Cons.IH [OF this] obtain k where k: "k < length ms"
      "hook (Suc i + k) (ms ! k) = Inl err \<or> (\<exists>m'. hook (Suc i + k) (ms ! k) = Inr m' \<and> checks m' = Some err)"
      "\<forall>j<k. \<exists>m'. hook (Suc i + j) (ms ! j) = Inr m' \<and> checks m' = None" by blast
    show ?thesis
      by (rule exI [of _ "Suc k"]) (use k True in \<open>auto simp: less_Suc_eq_0_disj\<close>)
  next
    case False
    then show ?thesis using Cons.prems by (intro exI [of _ 0]) (auto split: sum.splits option.splits)
  qed
qed simp

text \<open>A bulk of one builder is a single creation.\<close>

lemma bulk_of_one:
  assumes "\<And>sp. batch [sp] = map_sum id (\<lambda>i. [i]) (insert_node sp)"
  shows "create_bulk_Save decls sch ds checks spec positive now start nows batch (client_CreateBulk [m]) =
    map_sum id (\<lambda>r. [r]) (builder_Save sch ds now start (fst (nows 0)) (snd (nows 0))
      (create_save decls sch checks spec positive insert_node) m)"
  using assms
  by (auto simp: create_bulk_Save_def bulk_save_def client_CreateBulk_def builder_Save_def with_hooks_def create_save_def
      split: sum.split option.split)

end
