(* ===== verification/Ent_Clients.thy ===== *)
theory Ent_Clients imports Ent_Delete begin

text \<open>
  The saves, bulk creations and deletions of every entity (models/ent/<entity>_create.go, _update.go
  and _delete.go) and its client (models/ent/client.go), instances of theory Ent_Delete.
\<close>

section \<open>Activation code\<close>

definition ActivationCodeCreate_Save :: "int \<Rightarrow> int \<Rightarrow> int \<Rightarrow> int \<Rightarrow> ('f \<Rightarrow> bool) \<Rightarrow> ('f create_spec \<Rightarrow> error + int) \<Rightarrow> ('f :: plus, 'p) mutation \<Rightarrow> error + int \<times> ('f, 'p) mutation" where
  "ActivationCodeCreate_Save = (\<lambda>now start now1 now2 positive insert_node.
     builder_Save ActivationCode_schema ActivationCodeCreate_defaults now start now1 now2 (ActivationCodeCreate_sqlSave positive insert_node))"

definition ActivationCodeCreateBulk_Save :: "('f \<Rightarrow> bool) \<Rightarrow> int \<Rightarrow> int \<Rightarrow> (nat \<Rightarrow> int \<times> int) \<Rightarrow> ('f create_spec list \<Rightarrow> error + int list) \<Rightarrow>
   ('f :: plus, 'p) create_bulk \<Rightarrow> error + (int \<times> ('f, 'p) mutation) list" where
  "ActivationCodeCreateBulk_Save = create_bulk_Save service_decls ActivationCode_schema ActivationCodeCreate_defaults ActivationCodeCreate_checks ActivationCodeCreate_createSpec"

definition ActivationCodeUpdate_Save :: "int \<Rightarrow> int \<Rightarrow> int \<Rightarrow> int \<Rightarrow> ('f \<Rightarrow> bool) \<Rightarrow> (('f, 'p) update_spec \<Rightarrow> error + int) \<Rightarrow> ('f :: plus, 'p) mutation \<Rightarrow> error + int \<times> ('f, 'p) mutation" where
  "ActivationCodeUpdate_Save = (\<lambda>now start now1 now2 positive update_nodes.
     builder_Save ActivationCode_schema [] now start now1 now2 (ActivationCodeUpdate_sqlSave positive update_nodes))"

definition ActivationCodeUpdateOne_Save :: "int \<Rightarrow> int \<Rightarrow> int \<Rightarrow> int \<Rightarrow> ('f \<Rightarrow> bool) \<Rightarrow> string list \<Rightarrow> (('f, 'p) update_spec \<Rightarrow> error + 'n) \<Rightarrow> ('f :: plus, 'p) mutation \<Rightarrow>
   error + 'n \<times> ('f, 'p) mutation" where
  "ActivationCodeUpdateOne_Save = (\<lambda>now start now1 now2 positive selected update_node.
     builder_Save ActivationCode_schema [] now start now1 now2 (ActivationCodeUpdateOne_sqlSave positive selected update_node))"

definition ActivationCodeDelete_Where :: "'p list \<Rightarrow> ('f, 'p) mutation \<Rightarrow> ('f, 'p) mutation" where
  "ActivationCodeDelete_Where = mutation_Where"

definition ActivationCodeDelete_sqlExec :: "('p delete_spec \<Rightarrow> error + int \<times> 's) \<Rightarrow> ('f, 'p) mutation \<Rightarrow> (error + int \<times> 's) \<times> ('f, 'p) mutation" where
  "ActivationCodeDelete_sqlExec = delete_sqlExec activationcode_package"

definition ActivationCodeDelete_Exec :: "int \<Rightarrow> int \<Rightarrow> ('p delete_spec \<Rightarrow> error + int \<times> 's) \<Rightarrow> ('f, 'p) mutation \<Rightarrow> (error + int \<times> 's) \<times> ('f, 'p) mutation" where
  "ActivationCodeDelete_Exec = delete_Exec activationcode_package ActivationCode_schema"

definition ActivationCodeDeleteOne_Where :: "'p list \<Rightarrow> ('f, 'p) mutation \<Rightarrow> ('f, 'p) mutation" where
  "ActivationCodeDeleteOne_Where = mutation_Where"

definition ActivationCodeDeleteOne_Exec :: "int \<Rightarrow> int \<Rightarrow> ('p delete_spec \<Rightarrow> error + int \<times> 's) \<Rightarrow> ('f, 'p) mutation \<Rightarrow> (error + 's) \<times> ('f, 'p) mutation" where
  "ActivationCodeDeleteOne_Exec = delete_one_Exec activationcode_package ActivationCode_schema"

definition ActivationCodeClient_Create :: "('f, 'p) mutation" where
  "ActivationCodeClient_Create = newActivationCodeMutation OpCreate"

definition ActivationCodeClient_CreateBulk :: "('f, 'p) mutation list \<Rightarrow> ('f, 'p) create_bulk" where
  "ActivationCodeClient_CreateBulk = client_CreateBulk"

definition ActivationCodeClient_MapCreateBulk :: "string + 'x list \<Rightarrow> (('f, 'p) mutation \<Rightarrow> nat \<Rightarrow> ('f, 'p) mutation) \<Rightarrow> ('f, 'p) create_bulk" where
  "ActivationCodeClient_MapCreateBulk = client_MapCreateBulk ''ActivationCode'' ActivationCodeClient_Create"

definition ActivationCodeClient_Update :: "('f, 'p) mutation" where
  "ActivationCodeClient_Update = newActivationCodeMutation OpUpdate"

definition ActivationCodeClient_UpdateOne :: "'f ent_row \<Rightarrow> int \<Rightarrow> ('f, 'p) mutation" where
  "ActivationCodeClient_UpdateOne = (\<lambda>node i. withActivationCode node i (newActivationCodeMutation OpUpdateOne))"

definition ActivationCodeClient_UpdateOneID :: "error + 'f ent_row \<Rightarrow> int \<Rightarrow> ('f, 'p) mutation" where
  "ActivationCodeClient_UpdateOneID = (\<lambda>query i. withActivationCodeID query i (newActivationCodeMutation OpUpdateOne))"

definition ActivationCodeClient_Delete :: "('f, 'p) mutation" where
  "ActivationCodeClient_Delete = newActivationCodeMutation OpDelete"

definition ActivationCodeClient_DeleteOneID :: "int \<Rightarrow> ('f, 'f sql_predicate) mutation" where
  "ActivationCodeClient_DeleteOneID = client_DeleteOneID (fp_EQ activationcode_IDPredicates) newActivationCodeMutation"

definition ActivationCodeClient_DeleteOne :: "'f entity \<Rightarrow> ('f, 'f sql_predicate) mutation" where
  "ActivationCodeClient_DeleteOne = (\<lambda>e. ActivationCodeClient_DeleteOneID (un_int (en_row e ''id'')))"

definition ActivationCodeClient_Get :: "('f :: zero) database \<Rightarrow> int \<Rightarrow> 'f node outcome" where
  "ActivationCodeClient_Get = client_Get (fp_EQ activationcode_IDPredicates) ActivationCodeQuery_Only ActivationCodeClient_Query"

definition ActivationCodeClient_mutate :: "int \<Rightarrow> int \<Rightarrow> int \<Rightarrow> int \<Rightarrow> ('f \<Rightarrow> bool) \<Rightarrow> ('f create_spec \<Rightarrow> error + int) \<Rightarrow> (('f, 'p) update_spec \<Rightarrow> error + int) \<Rightarrow>
   (('f, 'p) update_spec \<Rightarrow> error + 'n) \<Rightarrow> ('p delete_spec \<Rightarrow> error + int \<times> 's) \<Rightarrow> ('f :: plus, 'p) mutation \<Rightarrow> error + ('n, 's) mutated" where
  "ActivationCodeClient_mutate = (\<lambda>now start now1 now2 positive insert_node update_nodes update_node delete_nodes.
     client_mutate (ActivationCodeCreate_Save now start now1 now2 positive insert_node) (ActivationCodeUpdate_Save now start now1 now2 positive update_nodes)
       (ActivationCodeUpdateOne_Save now start now1 now2 positive [] update_node) (ActivationCodeDelete_Exec now1 now2 delete_nodes))"

section \<open>Blacklisted token\<close>

definition BlacklistedTokenCreate_Save :: "int \<Rightarrow> int \<Rightarrow> int \<Rightarrow> int \<Rightarrow> ('f \<Rightarrow> bool) \<Rightarrow> ('f create_spec \<Rightarrow> error + int) \<Rightarrow> ('f :: plus, 'p) mutation \<Rightarrow> error + int \<times> ('f, 'p) mutation" where
  "BlacklistedTokenCreate_Save = (\<lambda>now start now1 now2 positive insert_node.
     builder_Save BlacklistedToken_schema [] now start now1 now2 (BlacklistedTokenCreate_sqlSave positive insert_node))"

definition BlacklistedTokenCreateBulk_Save :: "('f \<Rightarrow> bool) \<Rightarrow> int \<Rightarrow> int \<Rightarrow> (nat \<Rightarrow> int \<times> int) \<Rightarrow> ('f create_spec list \<Rightarrow> error + int list) \<Rightarrow>
   ('f :: plus, 'p) create_bulk \<Rightarrow> error + (int \<times> ('f, 'p) mutation) list" where
  "BlacklistedTokenCreateBulk_Save = create_bulk_Save service_decls BlacklistedToken_schema [] BlacklistedTokenCreate_checks BlacklistedTokenCreate_createSpec"

definition BlacklistedTokenUpdate_Save :: "int \<Rightarrow> int \<Rightarrow> int \<Rightarrow> int \<Rightarrow> ('f \<Rightarrow> bool) \<Rightarrow> (('f, 'p) update_spec \<Rightarrow> error + int) \<Rightarrow> ('f :: plus, 'p) mutation \<Rightarrow> error + int \<times> ('f, 'p) mutation" where
  "BlacklistedTokenUpdate_Save = (\<lambda>now start now1 now2 positive update_nodes.
     builder_Save BlacklistedToken_schema [] now start now1 now2 (BlacklistedTokenUpdate_sqlSave positive update_nodes))"

definition BlacklistedTokenUpdateOne_Save :: "int \<Rightarrow> int \<Rightarrow> int \<Rightarrow> int \<Rightarrow> ('f \<Rightarrow> bool) \<Rightarrow> string list \<Rightarrow> (('f, 'p) update_spec \<Rightarrow> error + 'n) \<Rightarrow> ('f :: plus, 'p) mutation \<Rightarrow>
   error + 'n \<times> ('f, 'p) mutation" where
  "BlacklistedTokenUpdateOne_Save = (\<lambda>now start now1 now2 positive selected update_node.
     builder_Save BlacklistedToken_schema [] now start now1 now2 (BlacklistedTokenUpdateOne_sqlSave positive selected update_node))"

definition BlacklistedTokenDelete_Where :: "'p list \<Rightarrow> ('f, 'p) mutation \<Rightarrow> ('f, 'p) mutation" where
  "BlacklistedTokenDelete_Where = mutation_Where"

definition BlacklistedTokenDelete_sqlExec :: "('p delete_spec \<Rightarrow> error + int \<times> 's) \<Rightarrow> ('f, 'p) mutation \<Rightarrow> (error + int \<times> 's) \<times> ('f, 'p) mutation" where
  "BlacklistedTokenDelete_sqlExec = delete_sqlExec blacklistedtoken_package"

definition BlacklistedTokenDelete_Exec :: "int \<Rightarrow> int \<Rightarrow> ('p delete_spec \<Rightarrow> error + int \<times> 's) \<Rightarrow> ('f, 'p) mutation \<Rightarrow> (error + int \<times> 's) \<times> ('f, 'p) mutation" where
  "BlacklistedTokenDelete_Exec = delete_Exec blacklistedtoken_package BlacklistedToken_schema"

definition BlacklistedTokenDeleteOne_Where :: "'p list \<Rightarrow> ('f, 'p) mutation \<Rightarrow> ('f, 'p) mutation" where
  "BlacklistedTokenDeleteOne_Where = mutation_Where"

definition BlacklistedTokenDeleteOne_Exec :: "int \<Rightarrow> int \<Rightarrow> ('p delete_spec \<Rightarrow> error + int \<times> 's) \<Rightarrow> ('f, 'p) mutation \<Rightarrow> (error + 's) \<times> ('f, 'p) mutation" where
  "BlacklistedTokenDeleteOne_Exec = delete_one_Exec blacklistedtoken_package BlacklistedToken_schema"

definition BlacklistedTokenClient_Create :: "('f, 'p) mutation" where
  "BlacklistedTokenClient_Create = newBlacklistedTokenMutation OpCreate"

definition BlacklistedTokenClient_CreateBulk :: "('f, 'p) mutation list \<Rightarrow> ('f, 'p) create_bulk" where
  "BlacklistedTokenClient_CreateBulk = client_CreateBulk"

definition BlacklistedTokenClient_MapCreateBulk :: "string + 'x list \<Rightarrow> (('f, 'p) mutation \<Rightarrow> nat \<Rightarrow> ('f, 'p) mutation) \<Rightarrow> ('f, 'p) create_bulk" where
  "BlacklistedTokenClient_MapCreateBulk = client_MapCreateBulk ''BlacklistedToken'' BlacklistedTokenClient_Create"

definition BlacklistedTokenClient_Update :: "('f, 'p) mutation" where
  "BlacklistedTokenClient_Update = newBlacklistedTokenMutation OpUpdate"

definition BlacklistedTokenClient_UpdateOne :: "'f ent_row \<Rightarrow> int \<Rightarrow> ('f, 'p) mutation" where
  "BlacklistedTokenClient_UpdateOne = (\<lambda>node i. withBlacklistedToken node i (newBlacklistedTokenMutation OpUpdateOne))"

definition BlacklistedTokenClient_UpdateOneID :: "error + 'f ent_row \<Rightarrow> int \<Rightarrow> ('f, 'p) mutation" where
  "BlacklistedTokenClient_UpdateOneID = (\<lambda>query i. withBlacklistedTokenID query i (newBlacklistedTokenMutation OpUpdateOne))"

definition BlacklistedTokenClient_Delete :: "('f, 'p) mutation" where
  "BlacklistedTokenClient_Delete = newBlacklistedTokenMutation OpDelete"

definition BlacklistedTokenClient_DeleteOneID :: "int \<Rightarrow> ('f, 'f sql_predicate) mutation" where
  "BlacklistedTokenClient_DeleteOneID = client_DeleteOneID (fp_EQ blacklistedtoken_IDPredicates) newBlacklistedTokenMutation"

definition BlacklistedTokenClient_DeleteOne :: "'f entity \<Rightarrow> ('f, 'f sql_predicate) mutation" where
  "BlacklistedTokenClient_DeleteOne = (\<lambda>e. BlacklistedTokenClient_DeleteOneID (un_int (en_row e ''id'')))"

definition BlacklistedTokenClient_Get :: "('f :: zero) database \<Rightarrow> int \<Rightarrow> 'f node outcome" where
  "BlacklistedTokenClient_Get = client_Get (fp_EQ blacklistedtoken_IDPredicates) BlacklistedTokenQuery_Only BlacklistedTokenClient_Query"

definition BlacklistedTokenClient_mutate :: "int \<Rightarrow> int \<Rightarrow> int \<Rightarrow> int \<Rightarrow> ('f \<Rightarrow> bool) \<Rightarrow> ('f create_spec \<Rightarrow> error + int) \<Rightarrow> (('f, 'p) update_spec \<Rightarrow> error + int) \<Rightarrow>
   (('f, 'p) update_spec \<Rightarrow> error + 'n) \<Rightarrow> ('p delete_spec \<Rightarrow> error + int \<times> 's) \<Rightarrow> ('f :: plus, 'p) mutation \<Rightarrow> error + ('n, 's) mutated" where
  "BlacklistedTokenClient_mutate = (\<lambda>now start now1 now2 positive insert_node update_nodes update_node delete_nodes.
     client_mutate (BlacklistedTokenCreate_Save now start now1 now2 positive insert_node) (BlacklistedTokenUpdate_Save now start now1 now2 positive update_nodes)
       (BlacklistedTokenUpdateOne_Save now start now1 now2 positive [] update_node) (BlacklistedTokenDelete_Exec now1 now2 delete_nodes))"

section \<open>Entrepreneur details\<close>

definition EntrepreneurDetailsCreate_Save :: "int \<Rightarrow> int \<Rightarrow> int \<Rightarrow> int \<Rightarrow> ('f \<Rightarrow> bool) \<Rightarrow> ('f create_spec \<Rightarrow> error + int) \<Rightarrow> ('f :: plus, 'p) mutation \<Rightarrow> error + int \<times> ('f, 'p) mutation" where
  "EntrepreneurDetailsCreate_Save = (\<lambda>now start now1 now2 positive insert_node.
     builder_Save EntrepreneurDetails_schema [] now start now1 now2 (EntrepreneurDetailsCreate_sqlSave positive insert_node))"

definition EntrepreneurDetailsCreateBulk_Save :: "('f \<Rightarrow> bool) \<Rightarrow> int \<Rightarrow> int \<Rightarrow> (nat \<Rightarrow> int \<times> int) \<Rightarrow> ('f create_spec list \<Rightarrow> error + int list) \<Rightarrow>
   ('f :: plus, 'p) create_bulk \<Rightarrow> error + (int \<times> ('f, 'p) mutation) list" where
  "EntrepreneurDetailsCreateBulk_Save = create_bulk_Save service_decls EntrepreneurDetails_schema [] EntrepreneurDetailsCreate_checks EntrepreneurDetailsCreate_createSpec"

definition EntrepreneurDetailsUpdate_Save :: "int \<Rightarrow> int \<Rightarrow> int \<Rightarrow> int \<Rightarrow> ('f \<Rightarrow> bool) \<Rightarrow> (('f, 'p) update_spec \<Rightarrow> error + int) \<Rightarrow> ('f :: plus, 'p) mutation \<Rightarrow> error + int \<times> ('f, 'p) mutation" where
  "EntrepreneurDetailsUpdate_Save = (\<lambda>now start now1 now2 positive update_nodes.
     builder_Save EntrepreneurDetails_schema [] now start now1 now2 (EntrepreneurDetailsUpdate_sqlSave positive update_nodes))"

definition EntrepreneurDetailsUpdateOne_Save :: "int \<Rightarrow> int \<Rightarrow> int \<Rightarrow> int \<Rightarrow> ('f \<Rightarrow> bool) \<Rightarrow> string list \<Rightarrow> (('f, 'p) update_spec \<Rightarrow> error + 'n) \<Rightarrow> ('f :: plus, 'p) mutation \<Rightarrow>
   error + 'n \<times> ('f, 'p) mutation" where
  "EntrepreneurDetailsUpdateOne_Save = (\<lambda>now start now1 now2 positive selected update_node.
     builder_Save EntrepreneurDetails_schema [] now start now1 now2 (EntrepreneurDetailsUpdateOne_sqlSave positive selected update_node))"

definition EntrepreneurDetailsDelete_Where :: "'p list \<Rightarrow> ('f, 'p) mutation \<Rightarrow> ('f, 'p) mutation" where
  "EntrepreneurDetailsDelete_Where = mutation_Where"

definition EntrepreneurDetailsDelete_sqlExec :: "('p delete_spec \<Rightarrow> error + int \<times> 's) \<Rightarrow> ('f, 'p) mutation \<Rightarrow> (error + int \<times> 's) \<times> ('f, 'p) mutation" where
  "EntrepreneurDetailsDelete_sqlExec = delete_sqlExec entrepreneurdetails_package"

definition EntrepreneurDetailsDelete_Exec :: "int \<Rightarrow> int \<Rightarrow> ('p delete_spec \<Rightarrow> error + int \<times> 's) \<Rightarrow> ('f, 'p) mutation \<Rightarrow> (error + int \<times> 's) \<times> ('f, 'p) mutation" where
  "EntrepreneurDetailsDelete_Exec = delete_Exec entrepreneurdetails_package EntrepreneurDetails_schema"

definition EntrepreneurDetailsDeleteOne_Where :: "'p list \<Rightarrow> ('f, 'p) mutation \<Rightarrow> ('f, 'p) mutation" where
  "EntrepreneurDetailsDeleteOne_Where = mutation_Where"

definition EntrepreneurDetailsDeleteOne_Exec :: "int \<Rightarrow> int \<Rightarrow> ('p delete_spec \<Rightarrow> error + int \<times> 's) \<Rightarrow> ('f, 'p) mutation \<Rightarrow> (error + 's) \<times> ('f, 'p) mutation" where
  "EntrepreneurDetailsDeleteOne_Exec = delete_one_Exec entrepreneurdetails_package EntrepreneurDetails_schema"

definition EntrepreneurDetailsClient_Create :: "('f, 'p) mutation" where
  "EntrepreneurDetailsClient_Create = newEntrepreneurDetailsMutation OpCreate"

definition EntrepreneurDetailsClient_CreateBulk :: "('f, 'p) mutation list \<Rightarrow> ('f, 'p) create_bulk" where
  "EntrepreneurDetailsClient_CreateBulk = client_CreateBulk"

definition EntrepreneurDetailsClient_MapCreateBulk :: "string + 'x list \<Rightarrow> (('f, 'p) mutation \<Rightarrow> nat \<Rightarrow> ('f, 'p) mutation) \<Rightarrow> ('f, 'p) create_bulk" where
  "EntrepreneurDetailsClient_MapCreateBulk = client_MapCreateBulk ''EntrepreneurDetails'' EntrepreneurDetailsClient_Create"

definition EntrepreneurDetailsClient_Update :: "('f, 'p) mutation" where
  "EntrepreneurDetailsClient_Update = newEntrepreneurDetailsMutation OpUpdate"

definition EntrepreneurDetailsClient_UpdateOne :: "'f ent_row \<Rightarrow> int \<Rightarrow> ('f, 'p) mutation" where
  "EntrepreneurDetailsClient_UpdateOne = (\<lambda>node i. withEntrepreneurDetails node i (newEntrepreneurDetailsMutation OpUpdateOne))"

definition EntrepreneurDetailsClient_UpdateOneID :: "error + 'f ent_row \<Rightarrow> int \<Rightarrow> ('f, 'p) mutation" where
  "EntrepreneurDetailsClient_UpdateOneID = (\<lambda>query i. withEntrepreneurDetailsID query i (newEntrepreneurDetailsMutation OpUpdateOne))"

definition EntrepreneurDetailsClient_Delete :: "('f, 'p) mutation" where
  "EntrepreneurDetailsClient_Delete = newEntrepreneurDetailsMutation OpDelete"

definition EntrepreneurDetailsClient_DeleteOneID :: "int \<Rightarrow> ('f, 'f sql_predicate) mutation" where
  "EntrepreneurDetailsClient_DeleteOneID = client_DeleteOneID (fp_EQ entrepreneurdetails_IDPredicates) newEntrepreneurDetailsMutation"

definition EntrepreneurDetailsClient_DeleteOne :: "'f entity \<Rightarrow> ('f, 'f sql_predicate) mutation" where
  "EntrepreneurDetailsClient_DeleteOne = (\<lambda>e. EntrepreneurDetailsClient_DeleteOneID (un_int (en_row e ''id'')))"

definition EntrepreneurDetailsClient_Get :: "('f :: zero) database \<Rightarrow> int \<Rightarrow> 'f node outcome" where
  "EntrepreneurDetailsClient_Get = client_Get (fp_EQ entrepreneurdetails_IDPredicates) EntrepreneurDetailsQuery_Only EntrepreneurDetailsClient_Query"

definition EntrepreneurDetailsClient_mutate :: "int \<Rightarrow> int \<Rightarrow> int \<Rightarrow> int \<Rightarrow> ('f \<Rightarrow> bool) \<Rightarrow> ('f create_spec \<Rightarrow> error + int) \<Rightarrow> (('f, 'p) update_spec \<Rightarrow> error + int) \<Rightarrow>
   (('f, 'p) update_spec \<Rightarrow> error + 'n) \<Rightarrow> ('p delete_spec \<Rightarrow> error + int \<times> 's) \<Rightarrow> ('f :: plus, 'p) mutation \<Rightarrow> error + ('n, 's) mutated" where
  "EntrepreneurDetailsClient_mutate = (\<lambda>now start now1 now2 positive insert_node update_nodes update_node delete_nodes.
     client_mutate (EntrepreneurDetailsCreate_Save now start now1 now2 positive insert_node) (EntrepreneurDetailsUpdate_Save now start now1 now2 positive update_nodes)
       (EntrepreneurDetailsUpdateOne_Save now start now1 now2 positive [] update_node) (EntrepreneurDetailsDelete_Exec now1 now2 delete_nodes))"

section \<open>Location\<close>

definition LocationCreate_Save :: "int \<Rightarrow> int \<Rightarrow> int \<Rightarrow> int \<Rightarrow> ('f \<Rightarrow> bool) \<Rightarrow> ('f create_spec \<Rightarrow> error + int) \<Rightarrow> ('f :: plus, 'p) mutation \<Rightarrow> error + int \<times> ('f, 'p) mutation" where
  "LocationCreate_Save = (\<lambda>now start now1 now2 positive insert_node.
     builder_Save Location_schema [] now start now1 now2 (LocationCreate_sqlSave positive insert_node))"

definition LocationCreateBulk_Save :: "('f \<Rightarrow> bool) \<Rightarrow> int \<Rightarrow> int \<Rightarrow> (nat \<Rightarrow> int \<times> int) \<Rightarrow> ('f create_spec list \<Rightarrow> error + int list) \<Rightarrow>
   ('f :: plus, 'p) create_bulk \<Rightarrow> error + (int \<times> ('f, 'p) mutation) list" where
  "LocationCreateBulk_Save = create_bulk_Save service_decls Location_schema [] LocationCreate_checks LocationCreate_createSpec"

definition LocationUpdate_Save :: "int \<Rightarrow> int \<Rightarrow> int \<Rightarrow> int \<Rightarrow> ('f \<Rightarrow> bool) \<Rightarrow> (('f, 'p) update_spec \<Rightarrow> error + int) \<Rightarrow> ('f :: plus, 'p) mutation \<Rightarrow> error + int \<times> ('f, 'p) mutation" where
  "LocationUpdate_Save = (\<lambda>now start now1 now2 positive update_nodes.
     builder_Save Location_schema [] now start now1 now2 (LocationUpdate_sqlSave positive update_nodes))"

definition LocationUpdateOne_Save :: "int \<Rightarrow> int \<Rightarrow> int \<Rightarrow> int \<Rightarrow> ('f \<Rightarrow> bool) \<Rightarrow> string list \<Rightarrow> (('f, 'p) update_spec \<Rightarrow> error + 'n) \<Rightarrow> ('f :: plus, 'p) mutation \<Rightarrow>
   error + 'n \<times> ('f, 'p) mutation" where
  "LocationUpdateOne_Save = (\<lambda>now start now1 now2 positive selected update_node.
     builder_Save Location_schema [] now start now1 now2 (LocationUpdateOne_sqlSave positive selected update_node))"

definition LocationDelete_Where :: "'p list \<Rightarrow> ('f, 'p) mutation \<Rightarrow> ('f, 'p) mutation" where
  "LocationDelete_Where = mutation_Where"

definition LocationDelete_sqlExec :: "('p delete_spec \<Rightarrow> error + int \<times> 's) \<Rightarrow> ('f, 'p) mutation \<Rightarrow> (error + int \<times> 's) \<times> ('f, 'p) mutation" where
  "LocationDelete_sqlExec = delete_sqlExec location_package"

definition LocationDelete_Exec :: "int \<Rightarrow> int \<Rightarrow> ('p delete_spec \<Rightarrow> error + int \<times> 's) \<Rightarrow> ('f, 'p) mutation \<Rightarrow> (error + int \<times> 's) \<times> ('f, 'p) mutation" where
  "LocationDelete_Exec = delete_Exec location_package Location_schema"

definition LocationDeleteOne_Where :: "'p list \<Rightarrow> ('f, 'p) mutation \<Rightarrow> ('f, 'p) mutation" where
  "LocationDeleteOne_Where = mutation_Where"

definition LocationDeleteOne_Exec :: "int \<Rightarrow> int \<Rightarrow> ('p delete_spec \<Rightarrow> error + int \<times> 's) \<Rightarrow> ('f, 'p) mutation \<Rightarrow> (error + 's) \<times> ('f, 'p) mutation" where
  "LocationDeleteOne_Exec = delete_one_Exec location_package Location_schema"

definition LocationClient_Create :: "('f, 'p) mutation" where
  "LocationClient_Create = newLocationMutation OpCreate"

definition LocationClient_CreateBulk :: "('f, 'p) mutation list \<Rightarrow> ('f, 'p) create_bulk" where
  "LocationClient_CreateBulk = client_CreateBulk"

definition LocationClient_MapCreateBulk :: "string + 'x list \<Rightarrow> (('f, 'p) mutation \<Rightarrow> nat \<Rightarrow> ('f, 'p) mutation) \<Rightarrow> ('f, 'p) create_bulk" where
  "LocationClient_MapCreateBulk = client_MapCreateBulk ''Location'' LocationClient_Create"

definition LocationClient_Update :: "('f, 'p) mutation" where
  "LocationClient_Update = newLocationMutation OpUpdate"

definition LocationClient_UpdateOne :: "'f ent_row \<Rightarrow> int \<Rightarrow> ('f, 'p) mutation" where
  "LocationClient_UpdateOne = (\<lambda>node i. withLocation node i (newLocationMutation OpUpdateOne))"

definition LocationClient_UpdateOneID :: "error + 'f ent_row \<Rightarrow> int \<Rightarrow> ('f, 'p) mutation" where
  "LocationClient_UpdateOneID = (\<lambda>query i. withLocationID query i (newLocationMutation OpUpdateOne))"

definition LocationClient_Delete :: "('f, 'p) mutation" where
  "LocationClient_Delete = newLocationMutation OpDelete"

definition LocationClient_DeleteOneID :: "int \<Rightarrow> ('f, 'f sql_predicate) mutation" where
  "LocationClient_DeleteOneID = client_DeleteOneID (fp_EQ location_IDPredicates) newLocationMutation"

definition LocationClient_DeleteOne :: "'f entity \<Rightarrow> ('f, 'f sql_predicate) mutation" where
  "LocationClient_DeleteOne = (\<lambda>e. LocationClient_DeleteOneID (un_int (en_row e ''id'')))"

definition LocationClient_Get :: "('f :: zero) database \<Rightarrow> int \<Rightarrow> 'f node outcome" where
  "LocationClient_Get = client_Get (fp_EQ location_IDPredicates) LocationQuery_Only LocationClient_Query"

definition LocationClient_mutate :: "int \<Rightarrow> int \<Rightarrow> int \<Rightarrow> int \<Rightarrow> ('f \<Rightarrow> bool) \<Rightarrow> ('f create_spec \<Rightarrow> error + int) \<Rightarrow> (('f, 'p) update_spec \<Rightarrow> error + int) \<Rightarrow>
   (('f, 'p) update_spec \<Rightarrow> error + 'n) \<Rightarrow> ('p delete_spec \<Rightarrow> error + int \<times> 's) \<Rightarrow> ('f :: plus, 'p) mutation \<Rightarrow> error + ('n, 's) mutated" where
  "LocationClient_mutate = (\<lambda>now start now1 now2 positive insert_node update_nodes update_node delete_nodes.
     client_mutate (LocationCreate_Save now start now1 now2 positive insert_node) (LocationUpdate_Save now start now1 now2 positive update_nodes)
       (LocationUpdateOne_Save now start now1 now2 positive [] update_node) (LocationDelete_Exec now1 now2 delete_nodes))"

section \<open>Reset code\<close>

definition ResetCodeCreate_Save :: "int \<Rightarrow> int \<Rightarrow> int \<Rightarrow> int \<Rightarrow> ('f \<Rightarrow> bool) \<Rightarrow> ('f create_spec \<Rightarrow> error + int) \<Rightarrow> ('f :: plus, 'p) mutation \<Rightarrow> error + int \<times> ('f, 'p) mutation" where
  "ResetCodeCreate_Save = (\<lambda>now start now1 now2 positive insert_node.
     builder_Save ResetCode_schema ResetCodeCreate_defaults now start now1 now2 (ResetCodeCreate_sqlSave positive insert_node))"

definition ResetCodeCreateBulk_Save :: "('f \<Rightarrow> bool) \<Rightarrow> int \<Rightarrow> int \<Rightarrow> (nat \<Rightarrow> int \<times> int) \<Rightarrow> ('f create_spec list \<Rightarrow> error + int list) \<Rightarrow>
   ('f :: plus, 'p) create_bulk \<Rightarrow> error + (int \<times> ('f, 'p) mutation) list" where
  "ResetCodeCreateBulk_Save = create_bulk_Save service_decls ResetCode_schema ResetCodeCreate_defaults ResetCodeCreate_checks ResetCodeCreate_createSpec"

definition ResetCodeUpdate_Save :: "int \<Rightarrow> int \<Rightarrow> int \<Rightarrow> int \<Rightarrow> ('f \<Rightarrow> bool) \<Rightarrow> (('f, 'p) update_spec \<Rightarrow> error + int) \<Rightarrow> ('f :: plus, 'p) mutation \<Rightarrow> error + int \<times> ('f, 'p) mutation" where
  "ResetCodeUpdate_Save = (\<lambda>now start now1 now2 positive update_nodes.
     builder_Save ResetCode_schema [] now start now1 now2 (ResetCodeUpdate_sqlSave positive update_nodes))"

definition ResetCodeUpdateOne_Save :: "int \<Rightarrow> int \<Rightarrow> int \<Rightarrow> int \<Rightarrow> ('f \<Rightarrow> bool) \<Rightarrow> string list \<Rightarrow> (('f, 'p) update_spec \<Rightarrow> error + 'n) \<Rightarrow> ('f :: plus, 'p) mutation \<Rightarrow>
   error + 'n \<times> ('f, 'p) mutation" where
  "ResetCodeUpdateOne_Save = (\<lambda>now start now1 now2 positive selected update_node.
     builder_Save ResetCode_schema [] now start now1 now2 (ResetCodeUpdateOne_sqlSave positive selected update_node))"

definition ResetCodeDelete_Where :: "'p list \<Rightarrow> ('f, 'p) mutation \<Rightarrow> ('f, 'p) mutation" where
  "ResetCodeDelete_Where = mutation_Where"

definition ResetCodeDelete_sqlExec :: "('p delete_spec \<Rightarrow> error + int \<times> 's) \<Rightarrow> ('f, 'p) mutation \<Rightarrow> (error + int \<times> 's) \<times> ('f, 'p) mutation" where
  "ResetCodeDelete_sqlExec = delete_sqlExec resetcode_package"

definition ResetCodeDelete_Exec :: "int \<Rightarrow> int \<Rightarrow> ('p delete_spec \<Rightarrow> error + int \<times> 's) \<Rightarrow> ('f, 'p) mutation \<Rightarrow> (error + int \<times> 's) \<times> ('f, 'p) mutation" where
  "ResetCodeDelete_Exec = delete_Exec resetcode_package ResetCode_schema"

definition ResetCodeDeleteOne_Where :: "'p list \<Rightarrow> ('f, 'p) mutation \<Rightarrow> ('f, 'p) mutation" where
  "ResetCodeDeleteOne_Where = mutation_Where"

definition ResetCodeDeleteOne_Exec :: "int \<Rightarrow> int \<Rightarrow> ('p delete_spec \<Rightarrow> error + int \<times> 's) \<Rightarrow> ('f, 'p) mutation \<Rightarrow> (error + 's) \<times> ('f, 'p) mutation" where
  "ResetCodeDeleteOne_Exec = delete_one_Exec resetcode_package ResetCode_schema"

definition ResetCodeClient_Create :: "('f, 'p) mutation" where
  "ResetCodeClient_Create = newResetCodeMutation OpCreate"

definition ResetCodeClient_CreateBulk :: "('f, 'p) mutation list \<Rightarrow> ('f, 'p) create_bulk" where
  "ResetCodeClient_CreateBulk = client_CreateBulk"

definition ResetCodeClient_MapCreateBulk :: "string + 'x list \<Rightarrow> (('f, 'p) mutation \<Rightarrow> nat \<Rightarrow> ('f, 'p) mutation) \<Rightarrow> ('f, 'p) create_bulk" where
  "ResetCodeClient_MapCreateBulk = client_MapCreateBulk ''ResetCode'' ResetCodeClient_Create"

definition ResetCodeClient_Update :: "('f, 'p) mutation" where
  "ResetCodeClient_Update = newResetCodeMutation OpUpdate"

definition ResetCodeClient_UpdateOne :: "'f ent_row \<Rightarrow> int \<Rightarrow> ('f, 'p) mutation" where
  "ResetCodeClient_UpdateOne = (\<lambda>node i. withResetCode node i (newResetCodeMutation OpUpdateOne))"

definition ResetCodeClient_UpdateOneID :: "error + 'f ent_row \<Rightarrow> int \<Rightarrow> ('f, 'p) mutation" where
  "ResetCodeClient_UpdateOneID = (\<lambda>query i. withResetCodeID query i (newResetCodeMutation OpUpdateOne))"

definition ResetCodeClient_Delete :: "('f, 'p) mutation" where
  "ResetCodeClient_Delete = newResetCodeMutation OpDelete"

definition ResetCodeClient_DeleteOneID :: "int \<Rightarrow> ('f, 'f sql_predicate) mutation" where
  "ResetCodeClient_DeleteOneID = client_DeleteOneID (fp_EQ resetcode_IDPredicates) newResetCodeMutation"

definition ResetCodeClient_DeleteOne :: "'f entity \<Rightarrow> ('f, 'f sql_predicate) mutation" where
  "ResetCodeClient_DeleteOne = (\<lambda>e. ResetCodeClient_DeleteOneID (un_int (en_row e ''id'')))"

definition ResetCodeClient_Get :: "('f :: zero) database \<Rightarrow> int \<Rightarrow> 'f node outcome" where
  "ResetCodeClient_Get = client_Get (fp_EQ resetcode_IDPredicates) ResetCodeQuery_Only ResetCodeClient_Query"

definition ResetCodeClient_mutate :: "int \<Rightarrow> int \<Rightarrow> int \<Rightarrow> int \<Rightarrow> ('f \<Rightarrow> bool) \<Rightarrow> ('f create_spec \<Rightarrow> error + int) \<Rightarrow> (('f, 'p) update_spec \<Rightarrow> error + int) \<Rightarrow>
   (('f, 'p) update_spec \<Rightarrow> error + 'n) \<Rightarrow> ('p delete_spec \<Rightarrow> error + int \<times> 's) \<Rightarrow> ('f :: plus, 'p) mutation \<Rightarrow> error + ('n, 's) mutated" where
  "ResetCodeClient_mutate = (\<lambda>now start now1 now2 positive insert_node update_nodes update_node delete_nodes.
     client_mutate (ResetCodeCreate_Save now start now1 now2 positive insert_node) (ResetCodeUpdate_Save now start now1 now2 positive update_nodes)
       (ResetCodeUpdateOne_Save now start now1 now2 positive [] update_node) (ResetCodeDelete_Exec now1 now2 delete_nodes))"

section \<open>Role permission\<close>

definition RolePermissionCreate_Save :: "int \<Rightarrow> int \<Rightarrow> int \<Rightarrow> int \<Rightarrow> ('f \<Rightarrow> bool) \<Rightarrow> ('f create_spec \<Rightarrow> error + int) \<Rightarrow> ('f :: plus, 'p) mutation \<Rightarrow> error + int \<times> ('f, 'p) mutation" where
  "RolePermissionCreate_Save = (\<lambda>now start now1 now2 positive insert_node.
     builder_Save RolePermission_schema [] now start now1 now2 (RolePermissionCreate_sqlSave positive insert_node))"

definition RolePermissionCreateBulk_Save :: "('f \<Rightarrow> bool) \<Rightarrow> int \<Rightarrow> int \<Rightarrow> (nat \<Rightarrow> int \<times> int) \<Rightarrow> ('f create_spec list \<Rightarrow> error + int list) \<Rightarrow>
   ('f :: plus, 'p) create_bulk \<Rightarrow> error + (int \<times> ('f, 'p) mutation) list" where
  "RolePermissionCreateBulk_Save = create_bulk_Save service_decls RolePermission_schema [] RolePermissionCreate_checks RolePermissionCreate_createSpec"

definition RolePermissionUpdate_Save :: "int \<Rightarrow> int \<Rightarrow> int \<Rightarrow> int \<Rightarrow> ('f \<Rightarrow> bool) \<Rightarrow> (('f, 'p) update_spec \<Rightarrow> error + int) \<Rightarrow> ('f :: plus, 'p) mutation \<Rightarrow> error + int \<times> ('f, 'p) mutation" where
  "RolePermissionUpdate_Save = (\<lambda>now start now1 now2 positive update_nodes.
     builder_Save RolePermission_schema [] now start now1 now2 (RolePermissionUpdate_sqlSave positive update_nodes))"

definition RolePermissionUpdateOne_Save :: "int \<Rightarrow> int \<Rightarrow> int \<Rightarrow> int \<Rightarrow> ('f \<Rightarrow> bool) \<Rightarrow> string list \<Rightarrow> (('f, 'p) update_spec \<Rightarrow> error + 'n) \<Rightarrow> ('f :: plus, 'p) mutation \<Rightarrow>
   error + 'n \<times> ('f, 'p) mutation" where
  "RolePermissionUpdateOne_Save = (\<lambda>now start now1 now2 positive selected update_node.
     builder_Save RolePermission_schema [] now start now1 now2 (RolePermissionUpdateOne_sqlSave positive selected update_node))"

definition RolePermissionDelete_Where :: "'p list \<Rightarrow> ('f, 'p) mutation \<Rightarrow> ('f, 'p) mutation" where
  "RolePermissionDelete_Where = mutation_Where"

definition RolePermissionDelete_sqlExec :: "('p delete_spec \<Rightarrow> error + int \<times> 's) \<Rightarrow> ('f, 'p) mutation \<Rightarrow> (error + int \<times> 's) \<times> ('f, 'p) mutation" where
  "RolePermissionDelete_sqlExec = delete_sqlExec rolepermission_package"

definition RolePermissionDelete_Exec :: "int \<Rightarrow> int \<Rightarrow> ('p delete_spec \<Rightarrow> error + int \<times> 's) \<Rightarrow> ('f, 'p) mutation \<Rightarrow> (error + int \<times> 's) \<times> ('f, 'p) mutation" where
  "RolePermissionDelete_Exec = delete_Exec rolepermission_package RolePermission_schema"

definition RolePermissionDeleteOne_Where :: "'p list \<Rightarrow> ('f, 'p) mutation \<Rightarrow> ('f, 'p) mutation" where
  "RolePermissionDeleteOne_Where = mutation_Where"

definition RolePermissionDeleteOne_Exec :: "int \<Rightarrow> int \<Rightarrow> ('p delete_spec \<Rightarrow> error + int \<times> 's) \<Rightarrow> ('f, 'p) mutation \<Rightarrow> (error + 's) \<times> ('f, 'p) mutation" where
  "RolePermissionDeleteOne_Exec = delete_one_Exec rolepermission_package RolePermission_schema"

definition RolePermissionClient_Create :: "('f, 'p) mutation" where
  "RolePermissionClient_Create = newRolePermissionMutation OpCreate"

definition RolePermissionClient_CreateBulk :: "('f, 'p) mutation list \<Rightarrow> ('f, 'p) create_bulk" where
  "RolePermissionClient_CreateBulk = client_CreateBulk"

definition RolePermissionClient_MapCreateBulk :: "string + 'x list \<Rightarrow> (('f, 'p) mutation \<Rightarrow> nat \<Rightarrow> ('f, 'p) mutation) \<Rightarrow> ('f, 'p) create_bulk" where
  "RolePermissionClient_MapCreateBulk = client_MapCreateBulk ''RolePermission'' RolePermissionClient_Create"

definition RolePermissionClient_Update :: "('f, 'p) mutation" where
  "RolePermissionClient_Update = newRolePermissionMutation OpUpdate"

definition RolePermissionClient_UpdateOne :: "'f ent_row \<Rightarrow> int \<Rightarrow> ('f, 'p) mutation" where
  "RolePermissionClient_UpdateOne = (\<lambda>node i. withRolePermission node i (newRolePermissionMutation OpUpdateOne))"

definition RolePermissionClient_UpdateOneID :: "error + 'f ent_row \<Rightarrow> int \<Rightarrow> ('f, 'p) mutation" where
  "RolePermissionClient_UpdateOneID = (\<lambda>query i. withRolePermissionID query i (newRolePermissionMutation OpUpdateOne))"

definition RolePermissionClient_Delete :: "('f, 'p) mutation" where
  "RolePermissionClient_Delete = newRolePermissionMutation OpDelete"

definition RolePermissionClient_DeleteOneID :: "int \<Rightarrow> ('f, 'f sql_predicate) mutation" where
  "RolePermissionClient_DeleteOneID = client_DeleteOneID (fp_EQ rolepermission_IDPredicates) newRolePermissionMutation"

definition RolePermissionClient_DeleteOne :: "'f entity \<Rightarrow> ('f, 'f sql_predicate) mutation" where
  "RolePermissionClient_DeleteOne = (\<lambda>e. RolePermissionClient_DeleteOneID (un_int (en_row e ''id'')))"

definition RolePermissionClient_Get :: "('f :: zero) database \<Rightarrow> int \<Rightarrow> 'f node outcome" where
  "RolePermissionClient_Get = client_Get (fp_EQ rolepermission_IDPredicates) RolePermissionQuery_Only RolePermissionClient_Query"

definition RolePermissionClient_mutate :: "int \<Rightarrow> int \<Rightarrow> int \<Rightarrow> int \<Rightarrow> ('f \<Rightarrow> bool) \<Rightarrow> ('f create_spec \<Rightarrow> error + int) \<Rightarrow> (('f, 'p) update_spec \<Rightarrow> error + int) \<Rightarrow>
   (('f, 'p) update_spec \<Rightarrow> error + 'n) \<Rightarrow> ('p delete_spec \<Rightarrow> error + int \<times> 's) \<Rightarrow> ('f :: plus, 'p) mutation \<Rightarrow> error + ('n, 's) mutated" where
  "RolePermissionClient_mutate = (\<lambda>now start now1 now2 positive insert_node update_nodes update_node delete_nodes.
     client_mutate (RolePermissionCreate_Save now start now1 now2 positive insert_node) (RolePermissionUpdate_Save now start now1 now2 positive update_nodes)
       (RolePermissionUpdateOne_Save now start now1 now2 positive [] update_node) (RolePermissionDelete_Exec now1 now2 delete_nodes))"

section \<open>Second factor code\<close>

definition SecondFactorCodeCreate_Save :: "int \<Rightarrow> int \<Rightarrow> int \<Rightarrow> int \<Rightarrow> ('f \<Rightarrow> bool) \<Rightarrow> ('f create_spec \<Rightarrow> error + int) \<Rightarrow> ('f :: plus, 'p) mutation \<Rightarrow> error + int \<times> ('f, 'p) mutation" where
  "SecondFactorCodeCreate_Save = (\<lambda>now start now1 now2 positive insert_node.
     builder_Save SecondFactorCode_schema SecondFactorCodeCreate_defaults now start now1 now2 (SecondFactorCodeCreate_sqlSave positive insert_node))"

definition SecondFactorCodeCreateBulk_Save :: "('f \<Rightarrow> bool) \<Rightarrow> int \<Rightarrow> int \<Rightarrow> (nat \<Rightarrow> int \<times> int) \<Rightarrow> ('f create_spec list \<Rightarrow> error + int list) \<Rightarrow>
   ('f :: plus, 'p) create_bulk \<Rightarrow> error + (int \<times> ('f, 'p) mutation) list" where
  "SecondFactorCodeCreateBulk_Save = create_bulk_Save service_decls SecondFactorCode_schema SecondFactorCodeCreate_defaults SecondFactorCodeCreate_checks SecondFactorCodeCreate_createSpec"

definition SecondFactorCodeUpdate_Save :: "int \<Rightarrow> int \<Rightarrow> int \<Rightarrow> int \<Rightarrow> ('f \<Rightarrow> bool) \<Rightarrow> (('f, 'p) update_spec \<Rightarrow> error + int) \<Rightarrow> ('f :: plus, 'p) mutation \<Rightarrow> error + int \<times> ('f, 'p) mutation" where
  "SecondFactorCodeUpdate_Save = (\<lambda>now start now1 now2 positive update_nodes.
     builder_Save SecondFactorCode_schema [] now start now1 now2 (SecondFactorCodeUpdate_sqlSave positive update_nodes))"

definition SecondFactorCodeUpdateOne_Save :: "int \<Rightarrow> int \<Rightarrow> int \<Rightarrow> int \<Rightarrow> ('f \<Rightarrow> bool) \<Rightarrow> string list \<Rightarrow> (('f, 'p) update_spec \<Rightarrow> error + 'n) \<Rightarrow> ('f :: plus, 'p) mutation \<Rightarrow>
   error + 'n \<times> ('f, 'p) mutation" where
  "SecondFactorCodeUpdateOne_Save = (\<lambda>now start now1 now2 positive selected update_node.
     builder_Save SecondFactorCode_schema [] now start now1 now2 (SecondFactorCodeUpdateOne_sqlSave positive selected update_node))"

definition SecondFactorCodeDelete_Where :: "'p list \<Rightarrow> ('f, 'p) mutation \<Rightarrow> ('f, 'p) mutation" where
  "SecondFactorCodeDelete_Where = mutation_Where"

definition SecondFactorCodeDelete_sqlExec :: "('p delete_spec \<Rightarrow> error + int \<times> 's) \<Rightarrow> ('f, 'p) mutation \<Rightarrow> (error + int \<times> 's) \<times> ('f, 'p) mutation" where
  "SecondFactorCodeDelete_sqlExec = delete_sqlExec secondfactorcode_package"

definition SecondFactorCodeDelete_Exec :: "int \<Rightarrow> int \<Rightarrow> ('p delete_spec \<Rightarrow> error + int \<times> 's) \<Rightarrow> ('f, 'p) mutation \<Rightarrow> (error + int \<times> 's) \<times> ('f, 'p) mutation" where
  "SecondFactorCodeDelete_Exec = delete_Exec secondfactorcode_package SecondFactorCode_schema"

definition SecondFactorCodeDeleteOne_Where :: "'p list \<Rightarrow> ('f, 'p) mutation \<Rightarrow> ('f, 'p) mutation" where
  "SecondFactorCodeDeleteOne_Where = mutation_Where"

definition SecondFactorCodeDeleteOne_Exec :: "int \<Rightarrow> int \<Rightarrow> ('p delete_spec \<Rightarrow> error + int \<times> 's) \<Rightarrow> ('f, 'p) mutation \<Rightarrow> (error + 's) \<times> ('f, 'p) mutation" where
  "SecondFactorCodeDeleteOne_Exec = delete_one_Exec secondfactorcode_package SecondFactorCode_schema"

definition SecondFactorCodeClient_Create :: "('f, 'p) mutation" where
  "SecondFactorCodeClient_Create = newSecondFactorCodeMutation OpCreate"

definition SecondFactorCodeClient_CreateBulk :: "('f, 'p) mutation list \<Rightarrow> ('f, 'p) create_bulk" where
  "SecondFactorCodeClient_CreateBulk = client_CreateBulk"

definition SecondFactorCodeClient_MapCreateBulk :: "string + 'x list \<Rightarrow> (('f, 'p) mutation \<Rightarrow> nat \<Rightarrow> ('f, 'p) mutation) \<Rightarrow> ('f, 'p) create_bulk" where
  "SecondFactorCodeClient_MapCreateBulk = client_MapCreateBulk ''SecondFactorCode'' SecondFactorCodeClient_Create"

definition SecondFactorCodeClient_Update :: "('f, 'p) mutation" where
  "SecondFactorCodeClient_Update = newSecondFactorCodeMutation OpUpdate"

definition SecondFactorCodeClient_UpdateOne :: "'f ent_row \<Rightarrow> int \<Rightarrow> ('f, 'p) mutation" where
  "SecondFactorCodeClient_UpdateOne = (\<lambda>node i. withSecondFactorCode node i (newSecondFactorCodeMutation OpUpdateOne))"

definition SecondFactorCodeClient_UpdateOneID :: "error + 'f ent_row \<Rightarrow> int \<Rightarrow> ('f, 'p) mutation" where
  "SecondFactorCodeClient_UpdateOneID = (\<lambda>query i. withSecondFactorCodeID query i (newSecondFactorCodeMutation OpUpdateOne))"

definition SecondFactorCodeClient_Delete :: "('f, 'p) mutation" where
  "SecondFactorCodeClient_Delete = newSecondFactorCodeMutation OpDelete"

definition SecondFactorCodeClient_DeleteOneID :: "int \<Rightarrow> ('f, 'f sql_predicate) mutation" where
  "SecondFactorCodeClient_DeleteOneID = client_DeleteOneID (fp_EQ secondfactorcode_IDPredicates) newSecondFactorCodeMutation"

definition SecondFactorCodeClient_DeleteOne :: "'f entity \<Rightarrow> ('f, 'f sql_predicate) mutation" where
  "SecondFactorCodeClient_DeleteOne = (\<lambda>e. SecondFactorCodeClient_DeleteOneID (un_int (en_row e ''id'')))"

definition SecondFactorCodeClient_Get :: "('f :: zero) database \<Rightarrow> int \<Rightarrow> 'f node outcome" where
  "SecondFactorCodeClient_Get = client_Get (fp_EQ secondfactorcode_IDPredicates) SecondFactorCodeQuery_Only SecondFactorCodeClient_Query"

definition SecondFactorCodeClient_mutate :: "int \<Rightarrow> int \<Rightarrow> int \<Rightarrow> int \<Rightarrow> ('f \<Rightarrow> bool) \<Rightarrow> ('f create_spec \<Rightarrow> error + int) \<Rightarrow> (('f, 'p) update_spec \<Rightarrow> error + int) \<Rightarrow>
   (('f, 'p) update_spec \<Rightarrow> error + 'n) \<Rightarrow> ('p delete_spec \<Rightarrow> error + int \<times> 's) \<Rightarrow> ('f :: plus, 'p) mutation \<Rightarrow> error + ('n, 's) mutated" where
  "SecondFactorCodeClient_mutate = (\<lambda>now start now1 now2 positive insert_node update_nodes update_node delete_nodes.
     client_mutate (SecondFactorCodeCreate_Save now start now1 now2 positive insert_node) (SecondFactorCodeUpdate_Save now start now1 now2 positive update_nodes)
       (SecondFactorCodeUpdateOne_Save now start now1 now2 positive [] update_node) (SecondFactorCodeDelete_Exec now1 now2 delete_nodes))"

section \<open>User\<close>

definition UserCreate_Save :: "int \<Rightarrow> int \<Rightarrow> int \<Rightarrow> int \<Rightarrow> ('f \<Rightarrow> bool) \<Rightarrow> ('f create_spec \<Rightarrow> error + int) \<Rightarrow> ('f :: plus, 'p) mutation \<Rightarrow> error + int \<times> ('f, 'p) mutation" where
  "UserCreate_Save = (\<lambda>now start now1 now2 positive insert_node.
     builder_Save User_schema UserCreate_defaults now start now1 now2 (UserCreate_sqlSave positive insert_node))"

definition UserCreateBulk_Save :: "('f \<Rightarrow> bool) \<Rightarrow> int \<Rightarrow> int \<Rightarrow> (nat \<Rightarrow> int \<times> int) \<Rightarrow> ('f create_spec list \<Rightarrow> error + int list) \<Rightarrow>
   ('f :: plus, 'p) create_bulk \<Rightarrow> error + (int \<times> ('f, 'p) mutation) list" where
  "UserCreateBulk_Save = create_bulk_Save service_decls User_schema UserCreate_defaults UserCreate_checks UserCreate_createSpec"

definition UserUpdate_Save :: "int \<Rightarrow> int \<Rightarrow> int \<Rightarrow> int \<Rightarrow> ('f \<Rightarrow> bool) \<Rightarrow> (('f, 'p) update_spec \<Rightarrow> error + int) \<Rightarrow> ('f :: plus, 'p) mutation \<Rightarrow> error + int \<times> ('f, 'p) mutation" where
  "UserUpdate_Save = (\<lambda>now start now1 now2 positive update_nodes.
     builder_Save User_schema [] now start now1 now2 (UserUpdate_sqlSave positive update_nodes))"

definition UserUpdateOne_Save :: "int \<Rightarrow> int \<Rightarrow> int \<Rightarrow> int \<Rightarrow> ('f \<Rightarrow> bool) \<Rightarrow> string list \<Rightarrow> (('f, 'p) update_spec \<Rightarrow> error + 'n) \<Rightarrow> ('f :: plus, 'p) mutation \<Rightarrow>
   error + 'n \<times> ('f, 'p) mutation" where
  "UserUpdateOne_Save = (\<lambda>now start now1 now2 positive selected update_node.
     builder_Save User_schema [] now start now1 now2 (UserUpdateOne_sqlSave positive selected update_node))"

definition UserDelete_Where :: "'p list \<Rightarrow> ('f, 'p) mutation \<Rightarrow> ('f, 'p) mutation" where
  "UserDelete_Where = mutation_Where"

definition UserDelete_sqlExec :: "('p delete_spec \<Rightarrow> error + int \<times> 's) \<Rightarrow> ('f, 'p) mutation \<Rightarrow> (error + int \<times> 's) \<times> ('f, 'p) mutation" where
  "UserDelete_sqlExec = delete_sqlExec user_package"

definition UserDelete_Exec :: "int \<Rightarrow> int \<Rightarrow> ('p delete_spec \<Rightarrow> error + int \<times> 's) \<Rightarrow> ('f, 'p) mutation \<Rightarrow> (error + int \<times> 's) \<times> ('f, 'p) mutation" where
  "UserDelete_Exec = delete_Exec user_package User_schema"

definition UserDeleteOne_Where :: "'p list \<Rightarrow> ('f, 'p) mutation \<Rightarrow> ('f, 'p) mutation" where
  "UserDeleteOne_Where = mutation_Where"

definition UserDeleteOne_Exec :: "int \<Rightarrow> int \<Rightarrow> ('p delete_spec \<Rightarrow> error + int \<times> 's) \<Rightarrow> ('f, 'p) mutation \<Rightarrow> (error + 's) \<times> ('f, 'p) mutation" where
  "UserDeleteOne_Exec = delete_one_Exec user_package User_schema"

definition UserClient_Create :: "('f, 'p) mutation" where
  "UserClient_Create = newUserMutation OpCreate"

definition UserClient_CreateBulk :: "('f, 'p) mutation list \<Rightarrow> ('f, 'p) create_bulk" where
  "UserClient_CreateBulk = client_CreateBulk"

definition UserClient_MapCreateBulk :: "string + 'x list \<Rightarrow> (('f, 'p) mutation \<Rightarrow> nat \<Rightarrow> ('f, 'p) mutation) \<Rightarrow> ('f, 'p) create_bulk" where
  "UserClient_MapCreateBulk = client_MapCreateBulk ''User'' UserClient_Create"

definition UserClient_Update :: "('f, 'p) mutation" where
  "UserClient_Update = newUserMutation OpUpdate"

definition UserClient_UpdateOne :: "'f ent_row \<Rightarrow> int \<Rightarrow> ('f, 'p) mutation" where
  "UserClient_UpdateOne = (\<lambda>node i. withUser node i (newUserMutation OpUpdateOne))"

definition UserClient_UpdateOneID :: "error + 'f ent_row \<Rightarrow> int \<Rightarrow> ('f, 'p) mutation" where
  "UserClient_UpdateOneID = (\<lambda>query i. withUserID query i (newUserMutation OpUpdateOne))"

definition UserClient_Delete :: "('f, 'p) mutation" where
  "UserClient_Delete = newUserMutation OpDelete"

definition UserClient_DeleteOneID :: "int \<Rightarrow> ('f, 'f sql_predicate) mutation" where
  "UserClient_DeleteOneID = client_DeleteOneID (fp_EQ user_IDPredicates) newUserMutation"

definition UserClient_DeleteOne :: "'f entity \<Rightarrow> ('f, 'f sql_predicate) mutation" where
  "UserClient_DeleteOne = (\<lambda>e. UserClient_DeleteOneID (un_int (en_row e ''id'')))"

definition UserClient_Get :: "('f :: zero) database \<Rightarrow> int \<Rightarrow> 'f node outcome" where
  "UserClient_Get = client_Get (fp_EQ user_IDPredicates) UserQuery_Only UserClient_Query"

definition UserClient_mutate :: "int \<Rightarrow> int \<Rightarrow> int \<Rightarrow> int \<Rightarrow> ('f \<Rightarrow> bool) \<Rightarrow> ('f create_spec \<Rightarrow> error + int) \<Rightarrow> (('f, 'p) update_spec \<Rightarrow> error + int) \<Rightarrow>
   (('f, 'p) update_spec \<Rightarrow> error + 'n) \<Rightarrow> ('p delete_spec \<Rightarrow> error + int \<times> 's) \<Rightarrow> ('f :: plus, 'p) mutation \<Rightarrow> error + ('n, 's) mutated" where
  "UserClient_mutate = (\<lambda>now start now1 now2 positive insert_node update_nodes update_node delete_nodes.
     client_mutate (UserCreate_Save now start now1 now2 positive insert_node) (UserUpdate_Save now start now1 now2 positive update_nodes)
       (UserUpdateOne_Save now start now1 now2 positive [] update_node) (UserDelete_Exec now1 now2 delete_nodes))"

section \<open>User action\<close>

definition UserActionCreate_Save :: "int \<Rightarrow> int \<Rightarrow> int \<Rightarrow> int \<Rightarrow> ('f \<Rightarrow> bool) \<Rightarrow> ('f create_spec \<Rightarrow> error + int) \<Rightarrow> ('f :: plus, 'p) mutation \<Rightarrow> error + int \<times> ('f, 'p) mutation" where
  "UserActionCreate_Save = (\<lambda>now start now1 now2 positive insert_node.
     builder_Save UserAction_schema [] now start now1 now2 (UserActionCreate_sqlSave positive insert_node))"

definition UserActionCreateBulk_Save :: "('f \<Rightarrow> bool) \<Rightarrow> int \<Rightarrow> int \<Rightarrow> (nat \<Rightarrow> int \<times> int) \<Rightarrow> ('f create_spec list \<Rightarrow> error + int list) \<Rightarrow>
   ('f :: plus, 'p) create_bulk \<Rightarrow> error + (int \<times> ('f, 'p) mutation) list" where
  "UserActionCreateBulk_Save = create_bulk_Save service_decls UserAction_schema [] UserActionCreate_checks UserActionCreate_createSpec"

definition UserActionUpdate_Save :: "int \<Rightarrow> int \<Rightarrow> int \<Rightarrow> int \<Rightarrow> ('f \<Rightarrow> bool) \<Rightarrow> (('f, 'p) update_spec \<Rightarrow> error + int) \<Rightarrow> ('f :: plus, 'p) mutation \<Rightarrow> error + int \<times> ('f, 'p) mutation" where
  "UserActionUpdate_Save = (\<lambda>now start now1 now2 positive update_nodes.
     builder_Save UserAction_schema [] now start now1 now2 (UserActionUpdate_sqlSave positive update_nodes))"

definition UserActionUpdateOne_Save :: "int \<Rightarrow> int \<Rightarrow> int \<Rightarrow> int \<Rightarrow> ('f \<Rightarrow> bool) \<Rightarrow> string list \<Rightarrow> (('f, 'p) update_spec \<Rightarrow> error + 'n) \<Rightarrow> ('f :: plus, 'p) mutation \<Rightarrow>
   error + 'n \<times> ('f, 'p) mutation" where
  "UserActionUpdateOne_Save = (\<lambda>now start now1 now2 positive selected update_node.
     builder_Save UserAction_schema [] now start now1 now2 (UserActionUpdateOne_sqlSave positive selected update_node))"

definition UserActionDelete_Where :: "'p list \<Rightarrow> ('f, 'p) mutation \<Rightarrow> ('f, 'p) mutation" where
  "UserActionDelete_Where = mutation_Where"

definition UserActionDelete_sqlExec :: "('p delete_spec \<Rightarrow> error + int \<times> 's) \<Rightarrow> ('f, 'p) mutation \<Rightarrow> (error + int \<times> 's) \<times> ('f, 'p) mutation" where
  "UserActionDelete_sqlExec = delete_sqlExec useraction_package"

definition UserActionDelete_Exec :: "int \<Rightarrow> int \<Rightarrow> ('p delete_spec \<Rightarrow> error + int \<times> 's) \<Rightarrow> ('f, 'p) mutation \<Rightarrow> (error + int \<times> 's) \<times> ('f, 'p) mutation" where
  "UserActionDelete_Exec = delete_Exec useraction_package UserAction_schema"

definition UserActionDeleteOne_Where :: "'p list \<Rightarrow> ('f, 'p) mutation \<Rightarrow> ('f, 'p) mutation" where
  "UserActionDeleteOne_Where = mutation_Where"

definition UserActionDeleteOne_Exec :: "int \<Rightarrow> int \<Rightarrow> ('p delete_spec \<Rightarrow> error + int \<times> 's) \<Rightarrow> ('f, 'p) mutation \<Rightarrow> (error + 's) \<times> ('f, 'p) mutation" where
  "UserActionDeleteOne_Exec = delete_one_Exec useraction_package UserAction_schema"

definition UserActionClient_Create :: "('f, 'p) mutation" where
  "UserActionClient_Create = newUserActionMutation OpCreate"

definition UserActionClient_CreateBulk :: "('f, 'p) mutation list \<Rightarrow> ('f, 'p) create_bulk" where
  "UserActionClient_CreateBulk = client_CreateBulk"

definition UserActionClient_MapCreateBulk :: "string + 'x list \<Rightarrow> (('f, 'p) mutation \<Rightarrow> nat \<Rightarrow> ('f, 'p) mutation) \<Rightarrow> ('f, 'p) create_bulk" where
  "UserActionClient_MapCreateBulk = client_MapCreateBulk ''UserAction'' UserActionClient_Create"

definition UserActionClient_Update :: "('f, 'p) mutation" where
  "UserActionClient_Update = newUserActionMutation OpUpdate"

definition UserActionClient_UpdateOne :: "'f ent_row \<Rightarrow> int \<Rightarrow> ('f, 'p) mutation" where
  "UserActionClient_UpdateOne = (\<lambda>node i. withUserAction node i (newUserActionMutation OpUpdateOne))"

definition UserActionClient_UpdateOneID :: "error + 'f ent_row \<Rightarrow> int \<Rightarrow> ('f, 'p) mutation" where
  "UserActionClient_UpdateOneID = (\<lambda>query i. withUserActionID query i (newUserActionMutation OpUpdateOne))"

definition UserActionClient_Delete :: "('f, 'p) mutation" where
  "UserActionClient_Delete = newUserActionMutation OpDelete"

definition UserActionClient_DeleteOneID :: "int \<Rightarrow> ('f, 'f sql_predicate) mutation" where
  "UserActionClient_DeleteOneID = client_DeleteOneID (fp_EQ useraction_IDPredicates) newUserActionMutation"

definition UserActionClient_DeleteOne :: "'f entity \<Rightarrow> ('f, 'f sql_predicate) mutation" where
  "UserActionClient_DeleteOne = (\<lambda>e. UserActionClient_DeleteOneID (un_int (en_row e ''id'')))"

definition UserActionClient_Get :: "('f :: zero) database \<Rightarrow> int \<Rightarrow> 'f node outcome" where
  "UserActionClient_Get = client_Get (fp_EQ useraction_IDPredicates) UserActionQuery_Only UserActionClient_Query"

definition UserActionClient_mutate :: "int \<Rightarrow> int \<Rightarrow> int \<Rightarrow> int \<Rightarrow> ('f \<Rightarrow> bool) \<Rightarrow> ('f create_spec \<Rightarrow> error + int) \<Rightarrow> (('f, 'p) update_spec \<Rightarrow> error + int) \<Rightarrow>
   (('f, 'p) update_spec \<Rightarrow> error + 'n) \<Rightarrow> ('p delete_spec \<Rightarrow> error + int \<times> 's) \<Rightarrow> ('f :: plus, 'p) mutation \<Rightarrow> error + ('n, 's) mutated" where
  "UserActionClient_mutate = (\<lambda>now start now1 now2 positive insert_node update_nodes update_node delete_nodes.
     client_mutate (UserActionCreate_Save now start now1 now2 positive insert_node) (UserActionUpdate_Save now start now1 now2 positive update_nodes)
       (UserActionUpdateOne_Save now start now1 now2 positive [] update_node) (UserActionDelete_Exec now1 now2 delete_nodes))"

section \<open>User details\<close>

definition UserDetailsCreate_Save :: "int \<Rightarrow> int \<Rightarrow> int \<Rightarrow> int \<Rightarrow> ('f \<Rightarrow> bool) \<Rightarrow> ('f create_spec \<Rightarrow> error + int) \<Rightarrow> ('f :: plus, 'p) mutation \<Rightarrow> error + int \<times> ('f, 'p) mutation" where
  "UserDetailsCreate_Save = (\<lambda>now start now1 now2 positive insert_node.
     builder_Save UserDetails_schema [] now start now1 now2 (UserDetailsCreate_sqlSave positive insert_node))"

definition UserDetailsCreateBulk_Save :: "('f \<Rightarrow> bool) \<Rightarrow> int \<Rightarrow> int \<Rightarrow> (nat \<Rightarrow> int \<times> int) \<Rightarrow> ('f create_spec list \<Rightarrow> error + int list) \<Rightarrow>
   ('f :: plus, 'p) create_bulk \<Rightarrow> error + (int \<times> ('f, 'p) mutation) list" where
  "UserDetailsCreateBulk_Save = create_bulk_Save service_decls UserDetails_schema [] UserDetailsCreate_checks UserDetailsCreate_createSpec"

definition UserDetailsUpdate_Save :: "int \<Rightarrow> int \<Rightarrow> int \<Rightarrow> int \<Rightarrow> ('f \<Rightarrow> bool) \<Rightarrow> (('f, 'p) update_spec \<Rightarrow> error + int) \<Rightarrow> ('f :: plus, 'p) mutation \<Rightarrow> error + int \<times> ('f, 'p) mutation" where
  "UserDetailsUpdate_Save = (\<lambda>now start now1 now2 positive update_nodes.
     builder_Save UserDetails_schema [] now start now1 now2 (UserDetailsUpdate_sqlSave positive update_nodes))"

definition UserDetailsUpdateOne_Save :: "int \<Rightarrow> int \<Rightarrow> int \<Rightarrow> int \<Rightarrow> ('f \<Rightarrow> bool) \<Rightarrow> string list \<Rightarrow> (('f, 'p) update_spec \<Rightarrow> error + 'n) \<Rightarrow> ('f :: plus, 'p) mutation \<Rightarrow>
   error + 'n \<times> ('f, 'p) mutation" where
  "UserDetailsUpdateOne_Save = (\<lambda>now start now1 now2 positive selected update_node.
     builder_Save UserDetails_schema [] now start now1 now2 (UserDetailsUpdateOne_sqlSave positive selected update_node))"

definition UserDetailsDelete_Where :: "'p list \<Rightarrow> ('f, 'p) mutation \<Rightarrow> ('f, 'p) mutation" where
  "UserDetailsDelete_Where = mutation_Where"

definition UserDetailsDelete_sqlExec :: "('p delete_spec \<Rightarrow> error + int \<times> 's) \<Rightarrow> ('f, 'p) mutation \<Rightarrow> (error + int \<times> 's) \<times> ('f, 'p) mutation" where
  "UserDetailsDelete_sqlExec = delete_sqlExec userdetails_package"

definition UserDetailsDelete_Exec :: "int \<Rightarrow> int \<Rightarrow> ('p delete_spec \<Rightarrow> error + int \<times> 's) \<Rightarrow> ('f, 'p) mutation \<Rightarrow> (error + int \<times> 's) \<times> ('f, 'p) mutation" where
  "UserDetailsDelete_Exec = delete_Exec userdetails_package UserDetails_schema"

definition UserDetailsDeleteOne_Where :: "'p list \<Rightarrow> ('f, 'p) mutation \<Rightarrow> ('f, 'p) mutation" where
  "UserDetailsDeleteOne_Where = mutation_Where"

definition UserDetailsDeleteOne_Exec :: "int \<Rightarrow> int \<Rightarrow> ('p delete_spec \<Rightarrow> error + int \<times> 's) \<Rightarrow> ('f, 'p) mutation \<Rightarrow> (error + 's) \<times> ('f, 'p) mutation" where
  "UserDetailsDeleteOne_Exec = delete_one_Exec userdetails_package UserDetails_schema"

definition UserDetailsClient_Create :: "('f, 'p) mutation" where
  "UserDetailsClient_Create = newUserDetailsMutation OpCreate"

definition UserDetailsClient_CreateBulk :: "('f, 'p) mutation list \<Rightarrow> ('f, 'p) create_bulk" where
  "UserDetailsClient_CreateBulk = client_CreateBulk"

definition UserDetailsClient_MapCreateBulk :: "string + 'x list \<Rightarrow> (('f, 'p) mutation \<Rightarrow> nat \<Rightarrow> ('f, 'p) mutation) \<Rightarrow> ('f, 'p) create_bulk" where
  "UserDetailsClient_MapCreateBulk = client_MapCreateBulk ''UserDetails'' UserDetailsClient_Create"

definition UserDetailsClient_Update :: "('f, 'p) mutation" where
  "UserDetailsClient_Update = newUserDetailsMutation OpUpdate"

definition UserDetailsClient_UpdateOne :: "'f ent_row \<Rightarrow> int \<Rightarrow> ('f, 'p) mutation" where
  "UserDetailsClient_UpdateOne = (\<lambda>node i. withUserDetails node i (newUserDetailsMutation OpUpdateOne))"

definition UserDetailsClient_UpdateOneID :: "error + 'f ent_row \<Rightarrow> int \<Rightarrow> ('f, 'p) mutation" where
  "UserDetailsClient_UpdateOneID = (\<lambda>query i. withUserDetailsID query i (newUserDetailsMutation OpUpdateOne))"

definition UserDetailsClient_Delete :: "('f, 'p) mutation" where
  "UserDetailsClient_Delete = newUserDetailsMutation OpDelete"

definition UserDetailsClient_DeleteOneID :: "int \<Rightarrow> ('f, 'f sql_predicate) mutation" where
  "UserDetailsClient_DeleteOneID = client_DeleteOneID (fp_EQ userdetails_IDPredicates) newUserDetailsMutation"

definition UserDetailsClient_DeleteOne :: "'f entity \<Rightarrow> ('f, 'f sql_predicate) mutation" where
  "UserDetailsClient_DeleteOne = (\<lambda>e. UserDetailsClient_DeleteOneID (un_int (en_row e ''id'')))"

definition UserDetailsClient_Get :: "('f :: zero) database \<Rightarrow> int \<Rightarrow> 'f node outcome" where
  "UserDetailsClient_Get = client_Get (fp_EQ userdetails_IDPredicates) UserDetailsQuery_Only UserDetailsClient_Query"

definition UserDetailsClient_mutate :: "int \<Rightarrow> int \<Rightarrow> int \<Rightarrow> int \<Rightarrow> ('f \<Rightarrow> bool) \<Rightarrow> ('f create_spec \<Rightarrow> error + int) \<Rightarrow> (('f, 'p) update_spec \<Rightarrow> error + int) \<Rightarrow>
   (('f, 'p) update_spec \<Rightarrow> error + 'n) \<Rightarrow> ('p delete_spec \<Rightarrow> error + int \<times> 's) \<Rightarrow> ('f :: plus, 'p) mutation \<Rightarrow> error + ('n, 's) mutated" where
  "UserDetailsClient_mutate = (\<lambda>now start now1 now2 positive insert_node update_nodes update_node delete_nodes.
     client_mutate (UserDetailsCreate_Save now start now1 now2 positive insert_node) (UserDetailsUpdate_Save now start now1 now2 positive update_nodes)
       (UserDetailsUpdateOne_Save now start now1 now2 positive [] update_node) (UserDetailsDelete_Exec now1 now2 delete_nodes))"

section \<open>User device\<close>

definition UserDeviceCreate_Save :: "int \<Rightarrow> int \<Rightarrow> int \<Rightarrow> int \<Rightarrow> ('f \<Rightarrow> bool) \<Rightarrow> ('f create_spec \<Rightarrow> error + int) \<Rightarrow> ('f :: plus, 'p) mutation \<Rightarrow> error + int \<times> ('f, 'p) mutation" where
  "UserDeviceCreate_Save = (\<lambda>now start now1 now2 positive insert_node.
     builder_Save UserDevice_schema UserDeviceCreate_defaults now start now1 now2 (UserDeviceCreate_sqlSave positive insert_node))"

definition UserDeviceCreateBulk_Save :: "('f \<Rightarrow> bool) \<Rightarrow> int \<Rightarrow> int \<Rightarrow> (nat \<Rightarrow> int \<times> int) \<Rightarrow> ('f create_spec list \<Rightarrow> error + int list) \<Rightarrow>
   ('f :: plus, 'p) create_bulk \<Rightarrow> error + (int \<times> ('f, 'p) mutation) list" where
  "UserDeviceCreateBulk_Save = create_bulk_Save service_decls UserDevice_schema UserDeviceCreate_defaults UserDeviceCreate_checks UserDeviceCreate_createSpec"

definition UserDeviceUpdate_Save :: "int \<Rightarrow> int \<Rightarrow> int \<Rightarrow> int \<Rightarrow> ('f \<Rightarrow> bool) \<Rightarrow> (('f, 'p) update_spec \<Rightarrow> error + int) \<Rightarrow> ('f :: plus, 'p) mutation \<Rightarrow> error + int \<times> ('f, 'p) mutation" where
  "UserDeviceUpdate_Save = (\<lambda>now start now1 now2 positive update_nodes.
     builder_Save UserDevice_schema UserDeviceUpdate_defaults now start now1 now2 (UserDeviceUpdate_sqlSave positive update_nodes))"

definition UserDeviceUpdateOne_Save :: "int \<Rightarrow> int \<Rightarrow> int \<Rightarrow> int \<Rightarrow> ('f \<Rightarrow> bool) \<Rightarrow> string list \<Rightarrow> (('f, 'p) update_spec \<Rightarrow> error + 'n) \<Rightarrow> ('f :: plus, 'p) mutation \<Rightarrow>
   error + 'n \<times> ('f, 'p) mutation" where
  "UserDeviceUpdateOne_Save = (\<lambda>now start now1 now2 positive selected update_node.
     builder_Save UserDevice_schema UserDeviceUpdateOne_defaults now start now1 now2 (UserDeviceUpdateOne_sqlSave positive selected update_node))"

definition UserDeviceDelete_Where :: "'p list \<Rightarrow> ('f, 'p) mutation \<Rightarrow> ('f, 'p) mutation" where
  "UserDeviceDelete_Where = mutation_Where"

definition UserDeviceDelete_sqlExec :: "('p delete_spec \<Rightarrow> error + int \<times> 's) \<Rightarrow> ('f, 'p) mutation \<Rightarrow> (error + int \<times> 's) \<times> ('f, 'p) mutation" where
  "UserDeviceDelete_sqlExec = delete_sqlExec userdevice_package"

definition UserDeviceDelete_Exec :: "int \<Rightarrow> int \<Rightarrow> ('p delete_spec \<Rightarrow> error + int \<times> 's) \<Rightarrow> ('f, 'p) mutation \<Rightarrow> (error + int \<times> 's) \<times> ('f, 'p) mutation" where
  "UserDeviceDelete_Exec = delete_Exec userdevice_package UserDevice_schema"

definition UserDeviceDeleteOne_Where :: "'p list \<Rightarrow> ('f, 'p) mutation \<Rightarrow> ('f, 'p) mutation" where
  "UserDeviceDeleteOne_Where = mutation_Where"

definition UserDeviceDeleteOne_Exec :: "int \<Rightarrow> int \<Rightarrow> ('p delete_spec \<Rightarrow> error + int \<times> 's) \<Rightarrow> ('f, 'p) mutation \<Rightarrow> (error + 's) \<times> ('f, 'p) mutation" where
  "UserDeviceDeleteOne_Exec = delete_one_Exec userdevice_package UserDevice_schema"

definition UserDeviceClient_Create :: "('f, 'p) mutation" where
  "UserDeviceClient_Create = newUserDeviceMutation OpCreate"

definition UserDeviceClient_CreateBulk :: "('f, 'p) mutation list \<Rightarrow> ('f, 'p) create_bulk" where
  "UserDeviceClient_CreateBulk = client_CreateBulk"

definition UserDeviceClient_MapCreateBulk :: "string + 'x list \<Rightarrow> (('f, 'p) mutation \<Rightarrow> nat \<Rightarrow> ('f, 'p) mutation) \<Rightarrow> ('f, 'p) create_bulk" where
  "UserDeviceClient_MapCreateBulk = client_MapCreateBulk ''UserDevice'' UserDeviceClient_Create"

definition UserDeviceClient_Update :: "('f, 'p) mutation" where
  "UserDeviceClient_Update = newUserDeviceMutation OpUpdate"

definition UserDeviceClient_UpdateOne :: "'f ent_row \<Rightarrow> int \<Rightarrow> ('f, 'p) mutation" where
  "UserDeviceClient_UpdateOne = (\<lambda>node i. withUserDevice node i (newUserDeviceMutation OpUpdateOne))"

definition UserDeviceClient_UpdateOneID :: "error + 'f ent_row \<Rightarrow> int \<Rightarrow> ('f, 'p) mutation" where
  "UserDeviceClient_UpdateOneID = (\<lambda>query i. withUserDeviceID query i (newUserDeviceMutation OpUpdateOne))"

definition UserDeviceClient_Delete :: "('f, 'p) mutation" where
  "UserDeviceClient_Delete = newUserDeviceMutation OpDelete"

definition UserDeviceClient_DeleteOneID :: "int \<Rightarrow> ('f, 'f sql_predicate) mutation" where
  "UserDeviceClient_DeleteOneID = client_DeleteOneID (fp_EQ userdevice_IDPredicates) newUserDeviceMutation"

definition UserDeviceClient_DeleteOne :: "'f entity \<Rightarrow> ('f, 'f sql_predicate) mutation" where
  "UserDeviceClient_DeleteOne = (\<lambda>e. UserDeviceClient_DeleteOneID (un_int (en_row e ''id'')))"

definition UserDeviceClient_Get :: "('f :: zero) database \<Rightarrow> int \<Rightarrow> 'f node outcome" where
  "UserDeviceClient_Get = client_Get (fp_EQ userdevice_IDPredicates) UserDeviceQuery_Only UserDeviceClient_Query"

definition UserDeviceClient_mutate :: "int \<Rightarrow> int \<Rightarrow> int \<Rightarrow> int \<Rightarrow> ('f \<Rightarrow> bool) \<Rightarrow> ('f create_spec \<Rightarrow> error + int) \<Rightarrow> (('f, 'p) update_spec \<Rightarrow> error + int) \<Rightarrow>
   (('f, 'p) update_spec \<Rightarrow> error + 'n) \<Rightarrow> ('p delete_spec \<Rightarrow> error + int \<times> 's) \<Rightarrow> ('f :: plus, 'p) mutation \<Rightarrow> error + ('n, 's) mutated" where
  "UserDeviceClient_mutate = (\<lambda>now start now1 now2 positive insert_node update_nodes update_node delete_nodes.
     client_mutate (UserDeviceCreate_Save now start now1 now2 positive insert_node) (UserDeviceUpdate_Save now start now1 now2 positive update_nodes)
       (UserDeviceUpdateOne_Save now start now1 now2 positive [] update_node) (UserDeviceDelete_Exec now1 now2 delete_nodes))"

section \<open>User role\<close>

definition UserRoleCreate_Save :: "int \<Rightarrow> int \<Rightarrow> int \<Rightarrow> int \<Rightarrow> ('f \<Rightarrow> bool) \<Rightarrow> ('f create_spec \<Rightarrow> error + int) \<Rightarrow> ('f :: plus, 'p) mutation \<Rightarrow> error + int \<times> ('f, 'p) mutation" where
  "UserRoleCreate_Save = (\<lambda>now start now1 now2 positive insert_node.
     builder_Save UserRole_schema [] now start now1 now2 (UserRoleCreate_sqlSave positive insert_node))"

definition UserRoleCreateBulk_Save :: "('f \<Rightarrow> bool) \<Rightarrow> int \<Rightarrow> int \<Rightarrow> (nat \<Rightarrow> int \<times> int) \<Rightarrow> ('f create_spec list \<Rightarrow> error + int list) \<Rightarrow>
   ('f :: plus, 'p) create_bulk \<Rightarrow> error + (int \<times> ('f, 'p) mutation) list" where
  "UserRoleCreateBulk_Save = create_bulk_Save service_decls UserRole_schema [] UserRoleCreate_checks UserRoleCreate_createSpec"

definition UserRoleUpdate_Save :: "int \<Rightarrow> int \<Rightarrow> int \<Rightarrow> int \<Rightarrow> ('f \<Rightarrow> bool) \<Rightarrow> (('f, 'p) update_spec \<Rightarrow> error + int) \<Rightarrow> ('f :: plus, 'p) mutation \<Rightarrow> error + int \<times> ('f, 'p) mutation" where
  "UserRoleUpdate_Save = (\<lambda>now start now1 now2 positive update_nodes.
     builder_Save UserRole_schema [] now start now1 now2 (UserRoleUpdate_sqlSave positive update_nodes))"

definition UserRoleUpdateOne_Save :: "int \<Rightarrow> int \<Rightarrow> int \<Rightarrow> int \<Rightarrow> ('f \<Rightarrow> bool) \<Rightarrow> string list \<Rightarrow> (('f, 'p) update_spec \<Rightarrow> error + 'n) \<Rightarrow> ('f :: plus, 'p) mutation \<Rightarrow>
   error + 'n \<times> ('f, 'p) mutation" where
  "UserRoleUpdateOne_Save = (\<lambda>now start now1 now2 positive selected update_node.
     builder_Save UserRole_schema [] now start now1 now2 (UserRoleUpdateOne_sqlSave positive selected update_node))"

definition UserRoleDelete_Where :: "'p list \<Rightarrow> ('f, 'p) mutation \<Rightarrow> ('f, 'p) mutation" where
  "UserRoleDelete_Where = mutation_Where"

definition UserRoleDelete_sqlExec :: "('p delete_spec \<Rightarrow> error + int \<times> 's) \<Rightarrow> ('f, 'p) mutation \<Rightarrow> (error + int \<times> 's) \<times> ('f, 'p) mutation" where
  "UserRoleDelete_sqlExec = delete_sqlExec userrole_package"

definition UserRoleDelete_Exec :: "int \<Rightarrow> int \<Rightarrow> ('p delete_spec \<Rightarrow> error + int \<times> 's) \<Rightarrow> ('f, 'p) mutation \<Rightarrow> (error + int \<times> 's) \<times> ('f, 'p) mutation" where
  "UserRoleDelete_Exec = delete_Exec userrole_package UserRole_schema"

definition UserRoleDeleteOne_Where :: "'p list \<Rightarrow> ('f, 'p) mutation \<Rightarrow> ('f, 'p) mutation" where
  "UserRoleDeleteOne_Where = mutation_Where"

definition UserRoleDeleteOne_Exec :: "int \<Rightarrow> int \<Rightarrow> ('p delete_spec \<Rightarrow> error + int \<times> 's) \<Rightarrow> ('f, 'p) mutation \<Rightarrow> (error + 's) \<times> ('f, 'p) mutation" where
  "UserRoleDeleteOne_Exec = delete_one_Exec userrole_package UserRole_schema"

definition UserRoleClient_Create :: "('f, 'p) mutation" where
  "UserRoleClient_Create = newUserRoleMutation OpCreate"

definition UserRoleClient_CreateBulk :: "('f, 'p) mutation list \<Rightarrow> ('f, 'p) create_bulk" where
  "UserRoleClient_CreateBulk = client_CreateBulk"

definition UserRoleClient_MapCreateBulk :: "string + 'x list \<Rightarrow> (('f, 'p) mutation \<Rightarrow> nat \<Rightarrow> ('f, 'p) mutation) \<Rightarrow> ('f, 'p) create_bulk" where
  "UserRoleClient_MapCreateBulk = client_MapCreateBulk ''UserRole'' UserRoleClient_Create"

definition UserRoleClient_Update :: "('f, 'p) mutation" where
  "UserRoleClient_Update = newUserRoleMutation OpUpdate"

definition UserRoleClient_UpdateOne :: "'f ent_row \<Rightarrow> int \<Rightarrow> ('f, 'p) mutation" where
  "UserRoleClient_UpdateOne = (\<lambda>node i. withUserRole node i (newUserRoleMutation OpUpdateOne))"

definition UserRoleClient_UpdateOneID :: "error + 'f ent_row \<Rightarrow> int \<Rightarrow> ('f, 'p) mutation" where
  "UserRoleClient_UpdateOneID = (\<lambda>query i. withUserRoleID query i (newUserRoleMutation OpUpdateOne))"

definition UserRoleClient_Delete :: "('f, 'p) mutation" where
  "UserRoleClient_Delete = newUserRoleMutation OpDelete"

definition UserRoleClient_DeleteOneID :: "int \<Rightarrow> ('f, 'f sql_predicate) mutation" where
  "UserRoleClient_DeleteOneID = client_DeleteOneID (fp_EQ userrole_IDPredicates) newUserRoleMutation"

definition UserRoleClient_DeleteOne :: "'f entity \<Rightarrow> ('f, 'f sql_predicate) mutation" where
  "UserRoleClient_DeleteOne = (\<lambda>e. UserRoleClient_DeleteOneID (un_int (en_row e ''id'')))"

definition UserRoleClient_Get :: "('f :: zero) database \<Rightarrow> int \<Rightarrow> 'f node outcome" where
  "UserRoleClient_Get = client_Get (fp_EQ userrole_IDPredicates) UserRoleQuery_Only UserRoleClient_Query"

definition UserRoleClient_mutate :: "int \<Rightarrow> int \<Rightarrow> int \<Rightarrow> int \<Rightarrow> ('f \<Rightarrow> bool) \<Rightarrow> ('f create_spec \<Rightarrow> error + int) \<Rightarrow> (('f, 'p) update_spec \<Rightarrow> error + int) \<Rightarrow>
   (('f, 'p) update_spec \<Rightarrow> error + 'n) \<Rightarrow> ('p delete_spec \<Rightarrow> error + int \<times> 's) \<Rightarrow> ('f :: plus, 'p) mutation \<Rightarrow> error + ('n, 's) mutated" where
  "UserRoleClient_mutate = (\<lambda>now start now1 now2 positive insert_node update_nodes update_node delete_nodes.
     client_mutate (UserRoleCreate_Save now start now1 now2 positive insert_node) (UserRoleUpdate_Save now start now1 now2 positive update_nodes)
       (UserRoleUpdateOne_Save now start now1 now2 positive [] update_node) (UserRoleDelete_Exec now1 now2 delete_nodes))"

section \<open>User settings\<close>

definition UserSettingsCreate_Save :: "int \<Rightarrow> int \<Rightarrow> int \<Rightarrow> int \<Rightarrow> ('f \<Rightarrow> bool) \<Rightarrow> ('f create_spec \<Rightarrow> error + int) \<Rightarrow> ('f :: plus, 'p) mutation \<Rightarrow> error + int \<times> ('f, 'p) mutation" where
  "UserSettingsCreate_Save = (\<lambda>now start now1 now2 positive insert_node.
     builder_Save UserSettings_schema UserSettingsCreate_defaults now start now1 now2 (UserSettingsCreate_sqlSave positive insert_node))"

definition UserSettingsCreateBulk_Save :: "('f \<Rightarrow> bool) \<Rightarrow> int \<Rightarrow> int \<Rightarrow> (nat \<Rightarrow> int \<times> int) \<Rightarrow> ('f create_spec list \<Rightarrow> error + int list) \<Rightarrow>
   ('f :: plus, 'p) create_bulk \<Rightarrow> error + (int \<times> ('f, 'p) mutation) list" where
  "UserSettingsCreateBulk_Save = create_bulk_Save service_decls UserSettings_schema UserSettingsCreate_defaults UserSettingsCreate_checks UserSettingsCreate_createSpec"

definition UserSettingsUpdate_Save :: "int \<Rightarrow> int \<Rightarrow> int \<Rightarrow> int \<Rightarrow> ('f \<Rightarrow> bool) \<Rightarrow> (('f, 'p) update_spec \<Rightarrow> error + int) \<Rightarrow> ('f :: plus, 'p) mutation \<Rightarrow> error + int \<times> ('f, 'p) mutation" where
  "UserSettingsUpdate_Save = (\<lambda>now start now1 now2 positive update_nodes.
     builder_Save UserSettings_schema [] now start now1 now2 (UserSettingsUpdate_sqlSave positive update_nodes))"

definition UserSettingsUpdateOne_Save :: "int \<Rightarrow> int \<Rightarrow> int \<Rightarrow> int \<Rightarrow> ('f \<Rightarrow> bool) \<Rightarrow> string list \<Rightarrow> (('f, 'p) update_spec \<Rightarrow> error + 'n) \<Rightarrow> ('f :: plus, 'p) mutation \<Rightarrow>
   error + 'n \<times> ('f, 'p) mutation" where
  "UserSettingsUpdateOne_Save = (\<lambda>now start now1 now2 positive selected update_node.
     builder_Save UserSettings_schema [] now start now1 now2 (UserSettingsUpdateOne_sqlSave positive selected update_node))"

definition UserSettingsDelete_Where :: "'p list \<Rightarrow> ('f, 'p) mutation \<Rightarrow> ('f, 'p) mutation" where
  "UserSettingsDelete_Where = mutation_Where"

definition UserSettingsDelete_sqlExec :: "('p delete_spec \<Rightarrow> error + int \<times> 's) \<Rightarrow> ('f, 'p) mutation \<Rightarrow> (error + int \<times> 's) \<times> ('f, 'p) mutation" where
  "UserSettingsDelete_sqlExec = delete_sqlExec usersettings_package"

definition UserSettingsDelete_Exec :: "int \<Rightarrow> int \<Rightarrow> ('p delete_spec \<Rightarrow> error + int \<times> 's) \<Rightarrow> ('f, 'p) mutation \<Rightarrow> (error + int \<times> 's) \<times> ('f, 'p) mutation" where
  "UserSettingsDelete_Exec = delete_Exec usersettings_package UserSettings_schema"

definition UserSettingsDeleteOne_Where :: "'p list \<Rightarrow> ('f, 'p) mutation \<Rightarrow> ('f, 'p) mutation" where
  "UserSettingsDeleteOne_Where = mutation_Where"

definition UserSettingsDeleteOne_Exec :: "int \<Rightarrow> int \<Rightarrow> ('p delete_spec \<Rightarrow> error + int \<times> 's) \<Rightarrow> ('f, 'p) mutation \<Rightarrow> (error + 's) \<times> ('f, 'p) mutation" where
  "UserSettingsDeleteOne_Exec = delete_one_Exec usersettings_package UserSettings_schema"

definition UserSettingsClient_Create :: "('f, 'p) mutation" where
  "UserSettingsClient_Create = newUserSettingsMutation OpCreate"

definition UserSettingsClient_CreateBulk :: "('f, 'p) mutation list \<Rightarrow> ('f, 'p) create_bulk" where
  "UserSettingsClient_CreateBulk = client_CreateBulk"

definition UserSettingsClient_MapCreateBulk :: "string + 'x list \<Rightarrow> (('f, 'p) mutation \<Rightarrow> nat \<Rightarrow> ('f, 'p) mutation) \<Rightarrow> ('f, 'p) create_bulk" where
  "UserSettingsClient_MapCreateBulk = client_MapCreateBulk ''UserSettings'' UserSettingsClient_Create"

definition UserSettingsClient_Update :: "('f, 'p) mutation" where
  "UserSettingsClient_Update = newUserSettingsMutation OpUpdate"

definition UserSettingsClient_UpdateOne :: "'f ent_row \<Rightarrow> int \<Rightarrow> ('f, 'p) mutation" where
  "UserSettingsClient_UpdateOne = (\<lambda>node i. withUserSettings node i (newUserSettingsMutation OpUpdateOne))"

definition UserSettingsClient_UpdateOneID :: "error + 'f ent_row \<Rightarrow> int \<Rightarrow> ('f, 'p) mutation" where
  "UserSettingsClient_UpdateOneID = (\<lambda>query i. withUserSettingsID query i (newUserSettingsMutation OpUpdateOne))"

definition UserSettingsClient_Delete :: "('f, 'p) mutation" where
  "UserSettingsClient_Delete = newUserSettingsMutation OpDelete"

definition UserSettingsClient_DeleteOneID :: "int \<Rightarrow> ('f, 'f sql_predicate) mutation" where
  "UserSettingsClient_DeleteOneID = client_DeleteOneID (fp_EQ usersettings_IDPredicates) newUserSettingsMutation"

definition UserSettingsClient_DeleteOne :: "'f entity \<Rightarrow> ('f, 'f sql_predicate) mutation" where
  "UserSettingsClient_DeleteOne = (\<lambda>e. UserSettingsClient_DeleteOneID (un_int (en_row e ''id'')))"

definition UserSettingsClient_Get :: "('f :: zero) database \<Rightarrow> int \<Rightarrow> 'f node outcome" where
  "UserSettingsClient_Get = client_Get (fp_EQ usersettings_IDPredicates) UserSettingsQuery_Only UserSettingsClient_Query"

definition UserSettingsClient_mutate :: "int \<Rightarrow> int \<Rightarrow> int \<Rightarrow> int \<Rightarrow> ('f \<Rightarrow> bool) \<Rightarrow> ('f create_spec \<Rightarrow> error + int) \<Rightarrow> (('f, 'p) update_spec \<Rightarrow> error + int) \<Rightarrow>
   (('f, 'p) update_spec \<Rightarrow> error + 'n) \<Rightarrow> ('p delete_spec \<Rightarrow> error + int \<times> 's) \<Rightarrow> ('f :: plus, 'p) mutation \<Rightarrow> error + ('n, 's) mutated" where
  "UserSettingsClient_mutate = (\<lambda>now start now1 now2 positive insert_node update_nodes update_node delete_nodes.
     client_mutate (UserSettingsCreate_Save now start now1 now2 positive insert_node) (UserSettingsUpdate_Save now start now1 now2 positive update_nodes)
       (UserSettingsUpdateOne_Save now start now1 now2 positive [] update_node) (UserSettingsDelete_Exec now1 now2 delete_nodes))"

section \<open>Verification code\<close>

definition VerificationCodeCreate_Save :: "int \<Rightarrow> int \<Rightarrow> int \<Rightarrow> int \<Rightarrow> ('f \<Rightarrow> bool) \<Rightarrow> ('f create_spec \<Rightarrow> error + int) \<Rightarrow> ('f :: plus, 'p) mutation \<Rightarrow> error + int \<times> ('f, 'p) mutation" where
  "VerificationCodeCreate_Save = (\<lambda>now start now1 now2 positive insert_node.
     builder_Save VerificationCode_schema VerificationCodeCreate_defaults now start now1 now2 (VerificationCodeCreate_sqlSave positive insert_node))"

definition VerificationCodeCreateBulk_Save :: "('f \<Rightarrow> bool) \<Rightarrow> int \<Rightarrow> int \<Rightarrow> (nat \<Rightarrow> int \<times> int) \<Rightarrow> ('f create_spec list \<Rightarrow> error + int list) \<Rightarrow>
   ('f :: plus, 'p) create_bulk \<Rightarrow> error + (int \<times> ('f, 'p) mutation) list" where
  "VerificationCodeCreateBulk_Save = create_bulk_Save service_decls VerificationCode_schema VerificationCodeCreate_defaults VerificationCodeCreate_checks VerificationCodeCreate_createSpec"

definition VerificationCodeUpdate_Save :: "int \<Rightarrow> int \<Rightarrow> int \<Rightarrow> int \<Rightarrow> ('f \<Rightarrow> bool) \<Rightarrow> (('f, 'p) update_spec \<Rightarrow> error + int) \<Rightarrow> ('f :: plus, 'p) mutation \<Rightarrow> error + int \<times> ('f, 'p) mutation" where
  "VerificationCodeUpdate_Save = (\<lambda>now start now1 now2 positive update_nodes.
     builder_Save VerificationCode_schema [] now start now1 now2 (VerificationCodeUpdate_sqlSave positive update_nodes))"

definition VerificationCodeUpdateOne_Save :: "int \<Rightarrow> int \<Rightarrow> int \<Rightarrow> int \<Rightarrow> ('f \<Rightarrow> bool) \<Rightarrow> string list \<Rightarrow> (('f, 'p) update_spec \<Rightarrow> error + 'n) \<Rightarrow> ('f :: plus, 'p) mutation \<Rightarrow>
   error + 'n \<times> ('f, 'p) mutation" where
  "VerificationCodeUpdateOne_Save = (\<lambda>now start now1 now2 positive selected update_node.
     builder_Save VerificationCode_schema [] now start now1 now2 (VerificationCodeUpdateOne_sqlSave positive selected update_node))"

definition VerificationCodeDelete_Where :: "'p list \<Rightarrow> ('f, 'p) mutation \<Rightarrow> ('f, 'p) mutation" where
  "VerificationCodeDelete_Where = mutation_Where"

definition VerificationCodeDelete_sqlExec :: "('p delete_spec \<Rightarrow> error + int \<times> 's) \<Rightarrow> ('f, 'p) mutation \<Rightarrow> (error + int \<times> 's) \<times> ('f, 'p) mutation" where
  "VerificationCodeDelete_sqlExec = delete_sqlExec verificationcode_package"

definition VerificationCodeDelete_Exec :: "int \<Rightarrow> int \<Rightarrow> ('p delete_spec \<Rightarrow> error + int \<times> 's) \<Rightarrow> ('f, 'p) mutation \<Rightarrow> (error + int \<times> 's) \<times> ('f, 'p) mutation" where
  "VerificationCodeDelete_Exec = delete_Exec verificationcode_package VerificationCode_schema"

definition VerificationCodeDeleteOne_Where :: "'p list \<Rightarrow> ('f, 'p) mutation \<Rightarrow> ('f, 'p) mutation" where
  "VerificationCodeDeleteOne_Where = mutation_Where"

definition VerificationCodeDeleteOne_Exec :: "int \<Rightarrow> int \<Rightarrow> ('p delete_spec \<Rightarrow> error + int \<times> 's) \<Rightarrow> ('f, 'p) mutation \<Rightarrow> (error + 's) \<times> ('f, 'p) mutation" where
  "VerificationCodeDeleteOne_Exec = delete_one_Exec verificationcode_package VerificationCode_schema"

definition VerificationCodeClient_Create :: "('f, 'p) mutation" where
  "VerificationCodeClient_Create = newVerificationCodeMutation OpCreate"

definition VerificationCodeClient_CreateBulk :: "('f, 'p) mutation list \<Rightarrow> ('f, 'p) create_bulk" where
  "VerificationCodeClient_CreateBulk = client_CreateBulk"

definition VerificationCodeClient_MapCreateBulk :: "string + 'x list \<Rightarrow> (('f, 'p) mutation \<Rightarrow> nat \<Rightarrow> ('f, 'p) mutation) \<Rightarrow> ('f, 'p) create_bulk" where
  "VerificationCodeClient_MapCreateBulk = client_MapCreateBulk ''VerificationCode'' VerificationCodeClient_Create"

definition VerificationCodeClient_Update :: "('f, 'p) mutation" where
  "VerificationCodeClient_Update = newVerificationCodeMutation OpUpdate"

definition VerificationCodeClient_UpdateOne :: "'f ent_row \<Rightarrow> int \<Rightarrow> ('f, 'p) mutation" where
  "VerificationCodeClient_UpdateOne = (\<lambda>node i. withVerificationCode node i (newVerificationCodeMutation OpUpdateOne))"

definition VerificationCodeClient_UpdateOneID :: "error + 'f ent_row \<Rightarrow> int \<Rightarrow> ('f, 'p) mutation" where
  "VerificationCodeClient_UpdateOneID = (\<lambda>query i. withVerificationCodeID query i (newVerificationCodeMutation OpUpdateOne))"

definition VerificationCodeClient_Delete :: "('f, 'p) mutation" where
  "VerificationCodeClient_Delete = newVerificationCodeMutation OpDelete"

definition VerificationCodeClient_DeleteOneID :: "int \<Rightarrow> ('f, 'f sql_predicate) mutation" where
  "VerificationCodeClient_DeleteOneID = client_DeleteOneID (fp_EQ verificationcode_IDPredicates) newVerificationCodeMutation"

definition VerificationCodeClient_DeleteOne :: "'f entity \<Rightarrow> ('f, 'f sql_predicate) mutation" where
  "VerificationCodeClient_DeleteOne = (\<lambda>e. VerificationCodeClient_DeleteOneID (un_int (en_row e ''id'')))"

definition VerificationCodeClient_Get :: "('f :: zero) database \<Rightarrow> int \<Rightarrow> 'f node outcome" where
  "VerificationCodeClient_Get = client_Get (fp_EQ verificationcode_IDPredicates) VerificationCodeQuery_Only VerificationCodeClient_Query"

definition VerificationCodeClient_mutate :: "int \<Rightarrow> int \<Rightarrow> int \<Rightarrow> int \<Rightarrow> ('f \<Rightarrow> bool) \<Rightarrow> ('f create_spec \<Rightarrow> error + int) \<Rightarrow> (('f, 'p) update_spec \<Rightarrow> error + int) \<Rightarrow>
   (('f, 'p) update_spec \<Rightarrow> error + 'n) \<Rightarrow> ('p delete_spec \<Rightarrow> error + int \<times> 's) \<Rightarrow> ('f :: plus, 'p) mutation \<Rightarrow> error + ('n, 's) mutated" where
  "VerificationCodeClient_mutate = (\<lambda>now start now1 now2 positive insert_node update_nodes update_node delete_nodes.
     client_mutate (VerificationCodeCreate_Save now start now1 now2 positive insert_node) (VerificationCodeUpdate_Save now start now1 now2 positive update_nodes)
       (VerificationCodeUpdateOne_Save now start now1 now2 positive [] update_node) (VerificationCodeDelete_Exec now1 now2 delete_nodes))"

end
