(* ===== verification/Account_Deletions.thy ===== *)
theory Account_Deletions imports Ent_Clients Account_Tables begin

text \<open>
  The deletions of repositories/users_repository.go on the generated client: the builder chains, what
  the database does with a deletion of codes (no table refers to the rows of these tables, so
  nothing else changes), and that the chains do what the statements of theory Ent_Client do.
\<close>

section \<open>The builder chains\<close>

definition ent_delete_activation_code ::
  "int \<Rightarrow> int \<Rightarrow> (rat sql_predicate delete_spec \<Rightarrow> error + int \<times> 's) \<Rightarrow> string \<Rightarrow> error + int \<times> 's" where
  "ent_delete_activation_code now1 now2 del code =
     fst (ActivationCodeDelete_Exec now1 now2 del
       (ActivationCodeDelete_Where [fp_EQ activationcode_CodePredicates code] ActivationCodeClient_Delete :: (rat, _) mutation))"

definition ent_delete_verification_code ::
  "int \<Rightarrow> int \<Rightarrow> (rat sql_predicate delete_spec \<Rightarrow> error + int \<times> 's) \<Rightarrow> string \<Rightarrow> error + int \<times> 's" where
  "ent_delete_verification_code now1 now2 del code =
     fst (VerificationCodeDelete_Exec now1 now2 del
       (VerificationCodeDelete_Where [fp_EQ verificationcode_CodePredicates code] VerificationCodeClient_Delete :: (rat, _) mutation))"

definition ent_delete_reset_code ::
  "int \<Rightarrow> int \<Rightarrow> (rat sql_predicate delete_spec \<Rightarrow> error + int \<times> 's) \<Rightarrow> int \<Rightarrow> error + 's" where
  "ent_delete_reset_code now1 now2 del i =
     fst (ResetCodeDeleteOne_Exec now1 now2 del (ResetCodeClient_DeleteOneID i :: (rat, _) mutation))"

section \<open>Deleting codes from the store\<close>

text \<open>The rows that satisfy every predicate go, and their number is given back.\<close>

definition code_deletion ::
  "('p \<Rightarrow> 'r \<Rightarrow> bool) \<Rightarrow> (code_row \<Rightarrow> 'r) \<Rightarrow> (db \<Rightarrow> code_row tab) \<Rightarrow> ((code_row tab \<Rightarrow> code_row tab) \<Rightarrow> db \<Rightarrow> db) \<Rightarrow>
   'p list \<Rightarrow> db \<Rightarrow> int \<times> db" where
  "code_deletion sel cols get upd ps d = (let hit = (\<lambda>c. list_all (\<lambda>p. sel p (cols c)) ps) in
     (int (length (filter hit (rows (get d)))), upd (delete_where hit) d))"

definition deletes_codes ::
  "(db \<Rightarrow> rat sql_predicate \<Rightarrow> rat ent_row \<Rightarrow> bool) \<Rightarrow> db \<Rightarrow> (rat sql_predicate delete_spec \<Rightarrow> error + int \<times> db) \<Rightarrow> bool" where
  "deletes_codes selects d del \<longleftrightarrow> (\<forall>ps.
     del \<lparr>ds_table = ''activation_codes'', ds_predicates = ps\<rparr> =
       Inr (code_deletion (selects d) (used_code_columns ''user_activation_code'') activation_codes activation_codes_update ps d) \<and>
     del \<lparr>ds_table = ''verification_codes'', ds_predicates = ps\<rparr> =
       Inr (code_deletion (selects d) (code_columns ''user_verification_code'') verification_codes verification_codes_update ps d) \<and>
     del \<lparr>ds_table = ''reset_codes'', ds_predicates = ps\<rparr> =
       Inr (code_deletion (selects d) (code_columns ''user_reset_code'') reset_codes reset_codes_update ps d))"

lemma code_cells [simp]:
  "code_columns fk c ''code'' = VString (cd_code c)" "used_code_columns fk c ''code'' = VString (cd_code c)"
  "code_columns fk c ''id'' = VInt (cd_id c)"
  by (simp_all add: code_columns_def used_code_columns_def)

text \<open>The chains hand over these deletions; a hook leaves a deletion alone.\<close>

lemma chain_specs:
  "ent_delete_activation_code now1 now2 del code =
     del \<lparr>ds_table = ''activation_codes'', ds_predicates = [FieldEQ ''code'' (VString code)]\<rparr>"
  "ent_delete_verification_code now1 now2 del code =
     del \<lparr>ds_table = ''verification_codes'', ds_predicates = [FieldEQ ''code'' (VString code)]\<rparr>"
  "ent_delete_reset_code now1 now2 del i =
     (case del \<lparr>ds_table = ''reset_codes'', ds_predicates = [FieldEQ ''id'' (VInt i)]\<rparr> of
        Inl err \<Rightarrow> Inl err | Inr (n, s) \<Rightarrow> if n = 0 then Inl (ENotFound ''reset_code'') else Inr s)"
  by (simp_all add: ent_delete_activation_code_def ent_delete_verification_code_def ent_delete_reset_code_def
      ActivationCodeDelete_Exec_def VerificationCodeDelete_Exec_def ResetCodeDeleteOne_Exec_def delete_one_Exec_def
      delete_Exec_def delete_sqlExec_def time_hook_def ActivationCodeDelete_Where_def VerificationCodeDelete_Where_def
      ActivationCodeClient_Delete_def VerificationCodeClient_Delete_def ResetCodeClient_DeleteOneID_def client_DeleteOneID_def
      mutation_Where_def newActivationCodeMutation_def newVerificationCodeMutation_def newResetCodeMutation_def
      new_mutation_def activationcode_package_def verificationcode_package_def resetcode_package_def
      activationcode_CodePredicates_def verificationcode_CodePredicates_def resetcode_IDPredicates_def predicates_on_def
      split: sum.split prod.split)

text \<open>C26: Deletions run as modelled. The chains of the repository that delete an activation code or a
  verification code by its text, and a reset code by its identifier, built and run by the generated
  client under its hooks, delete the rows the model of the repository deletes, with their number for
  the first two; a reset code that is not there is the same error, and nothing changes.\<close>

theorem deletions_run_as_modelled:
  assumes "eq_law selects" "deletes_codes selects d del"
  shows "map_sum id snd (ent_delete_activation_code now1 now2 del code) =
      map_sum id snd (delete_code activation_codes_update code d) \<and>
    map_sum id fst (ent_delete_activation_code now1 now2 del code) =
      Inr (int (length (filter (\<lambda>c. cd_code c = code) (rows (activation_codes d))))) \<and>
    map_sum id snd (ent_delete_verification_code now1 now2 del code) =
      map_sum id snd (delete_code verification_codes_update code d) \<and>
    map_sum id fst (ent_delete_verification_code now1 now2 del code) =
      Inr (int (length (filter (\<lambda>c. cd_code c = code) (rows (verification_codes d))))) \<and>
    ent_delete_reset_code now1 now2 del i = map_sum id snd (ResetCode_DeleteOneID i d)"
  using assms
  by (simp add: chain_specs deletes_codes_def code_deletion_def Let_def eq_lawD delete_code_def ResetCode_DeleteOneID_def exists_where_def)

definition sample_codes :: db where
  "sample_codes = sample_db\<lparr>reset_codes := \<lparr>rows = [\<lparr>cd_id = 1, cd_code = ''123456'', cd_used = False, cd_created_at = 0,
     cd_updated_at = 0, cd_expires_at = 10, cd_user = 1\<rparr>], next_id = 2\<rparr>\<rparr>"

definition sample_delete :: "db \<Rightarrow> rat sql_predicate delete_spec \<Rightarrow> error + int \<times> db" where
  "sample_delete d sp =
     (if ds_table sp = ''activation_codes''
      then Inr (code_deletion (sample_selects d) (used_code_columns ''user_activation_code'') activation_codes activation_codes_update (ds_predicates sp) d)
      else if ds_table sp = ''verification_codes''
      then Inr (code_deletion (sample_selects d) (code_columns ''user_verification_code'') verification_codes verification_codes_update (ds_predicates sp) d)
      else if ds_table sp = ''reset_codes''
      then Inr (code_deletion (sample_selects d) (code_columns ''user_reset_code'') reset_codes reset_codes_update (ds_predicates sp) d)
      else Inl (EIO ''database''))"

lemma sample_deletes: "deletes_codes sample_selects d (sample_delete d)"
  by (simp add: deletes_codes_def sample_delete_def)

theorem deletions_run_as_modelled_witness:
  "ent_delete_reset_code 5 6 (sample_delete sample_codes) 1 = Inr (sample_codes\<lparr>reset_codes := \<lparr>rows = [], next_id = 2\<rparr>\<rparr>) \<and>
   ent_delete_reset_code 5 6 (sample_delete sample_codes) 2 = Inl (ENotFound ''reset_code'')"
  using deletions_run_as_modelled [OF sample_laws(1) sample_deletes, of 5 6 sample_codes "''1''" 1]
    deletions_run_as_modelled [OF sample_laws(1) sample_deletes, of 5 6 sample_codes "''1''" 2]
  by (simp add: ResetCode_DeleteOneID_def sample_codes_def exists_where_def delete_where_def)

end
