(* ===== verification/Spec2Isabelle.thy ===== *)
theory Spec2Isabelle
imports Rate_Limiter Kafka_Middleware Requests Bodies Responses Auth_Recovery Auth_Codes
  Users_Properties Auth_Middleware Route_Properties Clients Web_Socket Concurrent_Consumers
  Ent_Properties Ent_Refinement Decode_Properties Account_Queries Account_Deletions
begin

text \<open>
  A verification development for the users service: a Go service over PostgreSQL (through the
  ent client), Redis and Kafka that registers accounts, logs users in and keeps their data.
  Paths below are relative to src/app.

  \<^bold>\<open>How the program is modelled.\<close> A call is a function from a world to an outcome and a world
  (theory Prelude): it returns, returns an error, panics, or does not return. The world (theory
  World) holds the database, the Redis contents, the messages sent to Kafka and a counter of the
  calls to the outside. What lies outside the source is a field of the environment record, indexed
  by that counter: faults of the database, of Redis and of Kafka, the clock, randomness, UUIDs,
  the AEAD cipher, HMAC, Argon2id, the JWT library, times as text, the edge statements of
  sqlgraph. Their documented behaviour is stated as named laws (for instance \<open>aead_laws\<close>,
  \<open>jwt_law\<close>, \<open>sg_laws\<close>); theory Sample_Env gives concrete functions with all of them. A pointer is
  an option, a nil dereference a panic, an \<open>int\<close> of the code an \<open>int\<close> (at 64 bits where a page
  offset can overflow), a byte string a string. Goroutines run where they are started and what
  they drop is dropped, but for the web socket and the Kafka messages (below); the log is not
  modelled except in the HTTP middleware.

  \<^bold>\<open>Theories.\<close>
  \<^item> Prelude: outcomes, combinators, inversion rules (\<open>ok_elims\<close>), the calculus \<open>keeps\<close> of
    relations preserved by a call, and the locale \<open>lens\<close> for a part of a larger state.
  \<^item> Go_Strings, Go_Unicode, Regexes, Base64, Json: the parts of the standard library the source
    uses: string functions, UTF-8 decoding, the regular expressions of the checks by derivatives
    against their languages, base64, and a JSON printer and parser with their round trip.
  \<^item> Formats: utils/controller_utils.go and user_utils.go.
  \<^item> Store, Ent_Client, Store_Invariant: the tables of models/ent/migrate/schema.go, the create and
    update builders of models/ent the repository uses (checks, defaults, hooks, constraints), the
    integrity \<open>wf_db\<close> of the tables and the locale \<open>db_invariant\<close> of the properties that every
    statement keeps.
  \<^item> Entities: entities with their loaded edges, the query presets of repositories/handlers.go,
    cache keys, role summaries and claims.
  \<^item> World: the world, transactions (\<open>WithTransaction\<close>) and the locale \<open>frame\<close>.
  \<^item> Cache_Store, Event_Notifier: infrastructure/cache_store.go and event_notifier.go.
  \<^item> Users_Repository, Repository_Facts: repositories/users_repository.go; what its operations keep.
  \<^item> Auth_Service, Auth_Tokens, Auth_Login, Auth_Codes, Auth_Recovery: services/auth_service.go, and
    the theorems on passwords and tokens, login, registration and activation, password reset and
    second factor. Sample_Accounts holds the account of the witnesses.
  \<^item> Users_Service, Users_Properties: services/users_service.go, handlers.go, the two Kafka handlers,
    diagnostics_service.go and infrastructure/consumer_manager.go.
  \<^item> Rate_Limiter: middlewares/limit_requests_middleware.go, against a count over the history.
  \<^item> Kafka_Middleware: middlewares/kafka_message_handler_middleware.go and the loop of
    config/kafka.go.
  \<^item> Requests, Bodies, Responses: models/requests and models/responses: validation, binding of a
    body, and the JSON of every answer.
  \<^item> Http, Auth_Middleware: the middlewares, the request context and the generic handlers of
    controllers/handlers.go; the authentication of a request, for any token service with the
    contract of the locale \<open>token_service\<close> and for the service's own.
  \<^item> Controllers, Routes: controllers/*.go, routes/*.go and the engine of config/config.go.
  \<^item> Configuration, Clients: config/settings.go, database.go, redis.go, kafka.go, logger.go and the
    part of \<open>NewApp\<close> that builds the clients: settings, signing keys, addresses, Kafka
    configurations, topics, the consumers started and stopped, the level of the logger.
  \<^item> Web_Socket: models/requests/web_socket_helper.go, models/responses/reporter.go and messages.go
    and \<open>handleWebSocketRequest\<close>: the handler, the goroutine it starts and the forwarder that one
    starts as a step relation over a channel of ten places.
  \<^item> Concurrent_Consumers: subscription messages handled at the same time, as a step relation whose
    steps are the load of a user and the transaction that stores the new list.
  \<^item> Ent_Schema, Ent_Tables: the declarations of models/ent/schema, and the generated tables
    (migrate/schema.go) and packages (models/ent/<entity>/<entity>.go).
  \<^item> Ent_Mutation, Ent_Accounts, Ent_Records: models/ent/mutation.go, the methods written once over
    the schema of an entity and instantiated for each field and edge of each entity.
  \<^item> Ent_Properties: the theorems on the four theories before it; the locale \<open>value_type\<close> of a Go
    type of a field, interpreted for the seven types in use.
  \<^item> Ent_Predicates, Query_Predicates: the predicates of models/ent/<entity>/where.go, and the lookups
    of repositories/handlers.go in them.
  \<^item> Ent_Builders, Ent_Create, Ent_Update, Ent_Update_One: the builders of
    models/ent/<entity>_create.go and _update.go, again written once and instantiated.
  \<^item> Ent_Refinement: the generated builders of a user against the statements of Ent_Client.
  \<^item> Ent_Decode, Decode_Properties: \<open>scanValues\<close> and \<open>assignValues\<close> of models/ent/<entity>.go as the
    cases of their switches, and the accessors of the edges.
  \<^item> Ent_Query, Ent_Load, Ent_Queries: the query builders of models/ent/<entity>_query.go (conditions,
    limits, edges to load, specifications), running them with the loaders of the edges, and their
    instances for every entity with the steps of the edges.
  \<^item> Load_Spec, Eager_Loading: what a query with edges stands for, and that the loaders give it; the
    locale \<open>stored\<close> is the database, interpreted by one that holds tables in memory.
  \<^item> Account_Tables, Account_Queries: the tables of Store as the generated client reads them, and the
    lookups of repositories/handlers.go as chains of builder calls, against theory Entities.
  \<^item> Ent_Delete, Ent_Clients: saves with their defaults and hooks, deletions
    (models/ent/<entity>_delete.go), bulk creations (<entity>_create.go) and the client of an entity
    (models/ent/client.go), written once and instantiated; a bulk against single creations.
  \<^item> Account_Deletions: the deletions of repositories/users_repository.go as chains of builder calls,
    against theory Ent_Client.
  \<^item> Serving, Route_Properties: the locale \<open>server_frame\<close> of the relations that survive serving a
    request, the histories of a server (\<open>reachable\<close>), and what single routes do.

  \<^bold>\<open>What the theorems show.\<close> Each property is stated in the text above it. C1 to C8: login is
  sound and complete, a removed account is locked out, the effects of registration and
  activation, hashing and token validation, atomic transactions. C9 to C18: the service as a
  whole: requests to /users change at most the bearer's account, the integrity of the database
  over any history, every request answered, authentication, and what the routes can never do.
  C19 to C26: the web socket always ends; the generated builders refine the statements of the
  repository model, and its lookups and deletions run as modelled on the generated client with its
  loaders; concurrent messages. C27 to C33: the generated code against the schema it is generated from,
  mutations and decoded entities: types and round trips, hooks. The rest: the limiter against its
  reference, termination of the drawing loops, recovery and second factor, listing and
  subscriptions.
  Further theorems, not numbered, are on the cache, retries, events, settings and formats.

  \<^bold>\<open>Loops and fuel.\<close> The loops that draw an unused code are \<open>partial_function (option)\<close>: not
  returning is the outcome \<open>Hang\<close>, and their return is proved for every generator that hits a free
  code. Every other loop is structural. The JSON parser takes the length of its input as fuel,
  which the round trip shows to be enough.

  \<^bold>\<open>Not modelled.\<close> cmd/main.go, \<open>Shutdown\<close> and the delivery reports of the producer (calls of the
  libraries and log lines); \<open>DatabaseURI\<close> (no caller); the gauges of the machine and of query
  times; of the generated ent code grouping, aggregates and scans of selected columns,
  interceptors, printing of entities, hooks of transactions and hook adapters (the program uses
  none of them); docs/docs.go (a text); the decoding of the body of the
  entrepreneur details (floats, not routed). Requests are served one after the other: the
  interleaving of two requests inside a handler is modelled for subscription messages and web
  sockets only.
\<close>

end
